(* ===== verification/Prelude.thy ===== *)
theory Prelude
  imports Main "HOL-Library.Sublist"
begin

text \<open>
  Shared material of the development: the named fact collections the component proofs are
  driven by, and generic lemmas on lists, prefixes and association lists that several
  components use.
\<close>

named_theorems js_str \<open>evaluation and structure of the JavaScript string operations\<close>
named_theorems dom_simps \<open>navigation and update of document trees\<close>
named_theorems qheap \<open>linked lists of queue nodes in the kernel's node pool\<close>
named_theorems kern_simps \<open>running the steps of a kernel routine\<close>

subsection \<open>Prefixes\<close>

lemma prefix_append_cancel_iff:
  assumes "length us = length vs"
  shows "prefix (us @ a) (vs @ b) \<longleftrightarrow> us = vs \<and> prefix a b"
  using assms by (auto simp: prefix_def)

lemma take_length_eq_iff_prefix:
  "length p \<le> length s \<and> take (length p) s = p \<longleftrightarrow> prefix p s"
  by (metis append_eq_conv_conj append_take_drop_id length_append le_add1 prefix_def)

subsection \<open>Lists\<close>

lemma foldl_append_concat: "foldl (\<lambda>acc x. acc @ f x) ys xs = ys @ concat (map f xs)"
  by (induction xs arbitrary: ys) auto

lemma dropWhile_idem_hd: "xs = [] \<or> \<not> P (hd xs) \<Longrightarrow> dropWhile P xs = xs"
  by (cases xs) auto

lemma distinct_set_singleton:
  assumes "distinct xs" "set xs = {x}"
  shows "xs = [x]"
proof (cases xs)
  case (Cons y ys)
  with assms have "y = x" "set ys \<subseteq> {x}" "x \<notin> set ys" by auto
  then have "ys = []" by (cases ys) auto
  with Cons \<open>y = x\<close> show ?thesis by simp
qed (use assms in simp)

end
