(* ===== verification/JS_Strings.thy ===== *)
theory JS_Strings
  imports Prelude "HOL-Library.Char_ord"
begin

text \<open>
  The strings of the documentation's search script (\<^verbatim>\<open>src/doc/doxy/search/search.js\<close>) and the
  operations it applies to them. A JavaScript string is a list of code units; here a code
  unit is a \<^typ>\<open>char\<close>, so the model covers exactly the Latin-1 texts (code units below 256).
  On those, lower-casing, the regular expressions and \<^verbatim>\<open>escape\<close> and \<^verbatim>\<open>unescape\<close> are written
  out in full. The main results: \<open>convertToId\<close> is a prefix code, so comparing converted
  identifiers by prefix is the same as comparing the texts by prefix, and \<^verbatim>\<open>unescape\<close> undoes
  \<^verbatim>\<open>escape\<close>, so the query a results page reads from its URL is the query that was typed.
\<close>

subsection \<open>Code units, case and numbers\<close>

abbreviation charCodeAt0 :: "char \<Rightarrow> nat" where
  "charCodeAt0 c \<equiv> of_char c"

definition lower_char :: "char \<Rightarrow> char" where
  "lower_char c =
     (let n = charCodeAt0 c in
      if 65 \<le> n \<and> n \<le> 90 \<or> 192 \<le> n \<and> n \<le> 222 \<and> n \<noteq> 215 then char_of (n + 32) else c)"

definition toLowerCase :: "string \<Rightarrow> string" where
  "toLowerCase s = map lower_char s"

definition hexdigit :: "nat \<Rightarrow> char" where
  "hexdigit n = (if n < 10 then char_of (48 + n) else char_of (87 + n))"

fun toString16 :: "nat \<Rightarrow> string" where
  "toString16 n = (if n < 16 then [hexdigit n] else toString16 (n div 16) @ [hexdigit (n mod 16)])"

declare toString16.simps [simp del]

lemma toString16_small: "n < 16 \<Longrightarrow> toString16 n = [hexdigit n]"
  by (simp add: toString16.simps)

lemma toString16_two: "16 \<le> n \<Longrightarrow> n < 256 \<Longrightarrow> toString16 n = [hexdigit (n div 16), hexdigit (n mod 16)]"
  by (subst toString16.simps) (simp add: toString16_small)

definition hexval :: "char \<Rightarrow> nat option" where
  "hexval c =
     (let n = charCodeAt0 c in
      if 48 \<le> n \<and> n \<le> 57 then Some (n - 48)
      else if 97 \<le> n \<and> n \<le> 102 then Some (n - 87)
      else if 65 \<le> n \<and> n \<le> 70 then Some (n - 55) else None)"

lemma hexval_hexdigit [simp]: "n < 16 \<Longrightarrow> hexval (hexdigit n) = Some n"
  by (auto simp: hexval_def hexdigit_def Let_def)

lemma hexdigit_0: "hexdigit 0 = CHR ''0''"
  by code_simp

lemma hexdigit_inject: "m < 16 \<Longrightarrow> n < 16 \<Longrightarrow> hexdigit m = hexdigit n \<longleftrightarrow> m = n"
  by (metis hexval_hexdigit option.inject)

lemma char_code_less: "charCodeAt0 c < 256"
  using nat_of_char_less_256 [of c] by simp

lemma hex_pair_inject:
  assumes "hexdigit (m div 16) = hexdigit (n div 16)" "hexdigit (m mod 16) = hexdigit (n mod 16)"
    and "m < 256" "n < 256"
  shows "m = n"
proof -
  have "m div 16 = n div 16" "m mod 16 = n mod 16"
    using assms by (simp_all add: hexdigit_inject less_mult_imp_div_less)
  then show ?thesis by (metis div_mult_mod_eq)
qed

subsection \<open>convertToId\<close>

definition id_char :: "char \<Rightarrow> bool" where
  "id_char c =
     (let n = charCodeAt0 c in 97 \<le> n \<and> n \<le> 122 \<or> 48 \<le> n \<and> n \<le> 57 \<or> 128 \<le> n)"

definition id_code :: "char \<Rightarrow> string" where
  "id_code c =
     (let cn = charCodeAt0 c in
      if id_char c then [c]
      else if cn < 16 then ''_0'' @ toString16 cn
      else ''_'' @ toString16 cn)"

definition convertToId :: "string \<Rightarrow> string" where
  "convertToId search = foldl (\<lambda>result c. result @ id_code c) [] search"

lemma convertToId_concat: "convertToId s = concat (map id_code s)"
  by (simp add: convertToId_def foldl_append_concat)

lemma convertToId_Nil [simp]: "convertToId [] = []"
  by (simp add: convertToId_concat)

lemma convertToId_Cons [simp]: "convertToId (c # s) = id_code c @ convertToId s"
  by (simp add: convertToId_concat)

lemma convertToId_append: "convertToId (s @ t) = convertToId s @ convertToId t"
  by (simp add: convertToId_concat)

lemma id_code_escaped:
  assumes "\<not> id_char c"
  shows "id_code c = [CHR ''_'', hexdigit (charCodeAt0 c div 16), hexdigit (charCodeAt0 c mod 16)]"
proof (cases "charCodeAt0 c < (16::nat)")
  case True
  with assms show ?thesis
    by (simp add: id_code_def Let_def toString16_small hexdigit_0)
next
  case False
  with assms show ?thesis
    by (simp add: id_code_def Let_def toString16_two char_code_less)
qed

lemma id_code_plain: "id_char c \<Longrightarrow> id_code c = [c]"
  by (simp add: id_code_def)

lemma id_code_neq_Nil [simp]: "id_code c \<noteq> []"
  by (cases "id_char c") (simp_all add: id_code_plain id_code_escaped)

lemma not_id_char_underscore: "\<not> id_char (CHR ''_'')"
  by (simp add: id_char_def)

lemma id_char_neq_underscore: "id_char c \<Longrightarrow> c \<noteq> CHR ''_''"
  using not_id_char_underscore by blast

lemma id_code_prefix_free:
  "prefix (id_code c @ a) (id_code d @ b) \<longleftrightarrow> c = d \<and> prefix a b"
proof (cases "id_char c")
  case True
  then show ?thesis
    by (cases "id_char d") (auto simp: id_code_plain id_code_escaped id_char_neq_underscore)
next
  case False
  then show ?thesis
    by (cases "id_char d")
      (auto simp: id_code_plain id_code_escaped char_code_less id_char_neq_underscore
        dest: id_char_neq_underscore hex_pair_inject [OF _ _ char_code_less char_code_less])
qed

lemma convertToId_prefix_iff: "prefix (convertToId q) (convertToId s) \<longleftrightarrow> prefix q s"
proof (induction q arbitrary: s)
  case Nil
  then show ?case by simp
next
  case (Cons c q)
  show ?case
  proof (cases s)
    case Nil
    then show ?thesis by simp
  next
    case (Cons d t)
    then show ?thesis
      by (simp add: id_code_prefix_free Cons.IH)
  qed
qed

lemma convertToId_inject: "convertToId q = convertToId s \<longleftrightarrow> q = s"
  by (metis convertToId_prefix_iff prefix_order.antisym prefix_order.refl)

subsection \<open>The regular expressions of the search script\<close>

text \<open>\<^verbatim>\<open>replace(/^ +/, "")\<close>, \<^verbatim>\<open>replace(/ +$/, "")\<close> and \<^verbatim>\<open>replace(/ +/g, "")\<close>.\<close>

definition strip_leading :: "string \<Rightarrow> string" where
  "strip_leading s = dropWhile (\<lambda>c. c = CHR '' '') s"

definition strip_trailing :: "string \<Rightarrow> string" where
  "strip_trailing s = rev (dropWhile (\<lambda>c. c = CHR '' '') (rev s))"

definition strip_all :: "string \<Rightarrow> string" where
  "strip_all s = filter (\<lambda>c. c \<noteq> CHR '' '') s"

definition is_digit :: "char \<Rightarrow> bool" where
  "is_digit c = (let n = charCodeAt0 c in 48 \<le> n \<and> n \<le> 57)"

text \<open>\<^verbatim>\<open>replace(/^sr\d*_/, '')\<close>.\<close>

definition strip_sr :: "string \<Rightarrow> string" where
  "strip_sr s =
     (if take 2 s = ''sr'' then
        (case dropWhile is_digit (drop 2 s) of
           [] \<Rightarrow> s
         | c # rest \<Rightarrow> (if c = CHR ''_'' then rest else s))
      else s)"

lemma strip_sr_SR [simp]: "strip_sr (CHR ''s'' # CHR ''r'' # CHR ''_'' # t) = t"
  by (simp add: strip_sr_def is_digit_def)

lemma toLowerCase_append [simp]: "toLowerCase (s @ t) = toLowerCase s @ toLowerCase t"
  by (simp add: toLowerCase_def)

subsection \<open>indexOf and decimal numbers\<close>

primrec indexOf_from :: "string \<Rightarrow> string \<Rightarrow> nat \<Rightarrow> int" where
  "indexOf_from pat [] k = (if pat = [] then int k else - 1)"
| "indexOf_from pat (c # s) k =
     (if prefix pat (c # s) then int k else indexOf_from pat s (Suc k))"

definition indexOf :: "string \<Rightarrow> string \<Rightarrow> int" where
  "indexOf s pat = indexOf_from pat s 0"

lemma indexOf_from_single:
  "indexOf_from [c] s k =
     (if c \<in> set s then int (k + length (takeWhile (\<lambda>d. d \<noteq> c) s)) else - 1)"
  by (induction s arbitrary: k) auto

lemma indexOf_single:
  "indexOf s [c] = (if c \<in> set s then int (length (takeWhile (\<lambda>d. d \<noteq> c) s)) else - 1)"
  by (simp add: indexOf_def indexOf_from_single)

lemma indexOf_single_nth:
  assumes "indexOf s [c] \<noteq> - 1"
  shows "nat (indexOf s [c]) < length s" "s ! nat (indexOf s [c]) = c"
proof -
  from assms have c: "c \<in> set s"
    by (auto simp: indexOf_single split: if_splits)
  have less: "length (takeWhile (\<lambda>d. d \<noteq> c) s) < length s"
    using c by (induction s) auto
  then show "nat (indexOf s [c]) < length s"
    using c by (simp add: indexOf_single)
  show "s ! nat (indexOf s [c]) = c"
    using c nth_length_takeWhile [OF less] by (simp add: indexOf_single)
qed

fun toString10 :: "nat \<Rightarrow> string" where
  "toString10 n =
     (if n < 10 then [char_of (48 + n)] else toString10 (n div 10) @ [char_of (48 + n mod 10)])"

declare toString10.simps [simp del]

definition intToString :: "int \<Rightarrow> string" where
  "intToString i = (if i < 0 then CHR ''-'' # toString10 (nat (- i)) else toString10 (nat i))"

fun fromDigits :: "nat \<Rightarrow> string \<Rightarrow> nat" where
  "fromDigits acc [] = acc"
| "fromDigits acc (c # s) = fromDigits (10 * acc + (charCodeAt0 c - 48)) s"

lemma fromDigits_append: "fromDigits acc (s @ t) = fromDigits (fromDigits acc s) t"
  by (induction s arbitrary: acc) auto

lemma fromDigits_toString10: "fromDigits 0 (toString10 n) = n"
proof (induction n rule: toString10.induct)
  case (1 n)
  then show ?case
    by (subst toString10.simps) (auto simp: fromDigits_append)
qed

lemma toString10_inject: "toString10 m = toString10 n \<longleftrightarrow> m = n"
  by (metis fromDigits_toString10)

lemma digit_toString10: "c \<in> set (toString10 n) \<Longrightarrow> is_digit c"
proof (induction n rule: toString10.induct)
  case (1 n)
  show ?case
  proof (cases "n < 10")
    case True
    with "1.prems" show ?thesis
      by (auto simp: is_digit_def toString10.simps [of n])
  next
    case False
    with "1" show ?thesis
      by (auto simp: is_digit_def toString10.simps [of n])
  qed
qed

lemma toString10_neq_Nil [simp]: "toString10 n \<noteq> []"
  by (subst toString10.simps) simp

lemma toString10_neq_minus [simp]: "toString10 n \<noteq> CHR ''-'' # s"
proof
  assume "toString10 n = CHR ''-'' # s"
  then have "is_digit (CHR ''-'')"
    using digit_toString10 by (metis list.set_intros(1))
  then show False by (simp add: is_digit_def)
qed

lemma intToString_inject: "intToString i = intToString j \<longleftrightarrow> i = j"
  by (auto simp: intToString_def toString10_inject dest: sym)

subsection \<open>escape and unescape\<close>

text \<open>
  The query travels from the search field to the results page in the URL: \<^verbatim>\<open>escape\<close> on the one
  side, \<^verbatim>\<open>unescape\<close> of \<^verbatim>\<open>window.location.search\<close> on the other. \<open>unescape\<close> may decode a
  \<^verbatim>\<open>%uXXXX\<close> sequence to a code unit outside Latin-1; that is \<open>None\<close> here.
\<close>

definition hexdigit_upper :: "nat \<Rightarrow> char" where
  "hexdigit_upper n = (if n < 10 then char_of (48 + n) else char_of (55 + n))"

definition unescaped_char :: "char \<Rightarrow> bool" where
  "unescaped_char c =
     (let n = charCodeAt0 c in
      65 \<le> n \<and> n \<le> 90 \<or> 97 \<le> n \<and> n \<le> 122 \<or> 48 \<le> n \<and> n \<le> 57 \<or> c \<in> set ''@*_+-./'')"

definition escape_char :: "char \<Rightarrow> string" where
  "escape_char c =
     (if unescaped_char c then [c]
      else [CHR ''%'', hexdigit_upper (charCodeAt0 c div 16), hexdigit_upper (charCodeAt0 c mod 16)])"

definition escape :: "string \<Rightarrow> string" where
  "escape s = concat (map escape_char s)"

definition hexseq :: "string \<Rightarrow> nat option" where
  "hexseq ds = foldl (\<lambda>acc d. case (acc, hexval d) of (Some a, Some v) \<Rightarrow> Some (16 * a + v) | _ \<Rightarrow> None)
                 (Some 0) ds"

text \<open>What a \<^verbatim>\<open>%\<close> at the start of \<open>s\<close> stands for: the code unit and the number of characters used.\<close>

definition percent_code :: "string \<Rightarrow> nat \<times> nat" where
  "percent_code s =
     (case (if 6 \<le> length s \<and> s ! 1 = CHR ''u'' then hexseq (take 4 (drop 2 s)) else None) of
        Some v \<Rightarrow> (v, 6)
      | None \<Rightarrow>
          (case (if 3 \<le> length s then hexseq (take 2 (drop 1 s)) else None) of
             Some v \<Rightarrow> (v, 3)
           | None \<Rightarrow> (37, 1)))"

lemma percent_code_pos: "0 < snd (percent_code s)"
  by (auto simp: percent_code_def split: option.splits if_splits)

function unescape :: "string \<Rightarrow> string option" where
  "unescape [] = Some []"
| "unescape (c # s) =
     (if c = CHR ''%'' then
        (case percent_code (c # s) of
           (v, k) \<Rightarrow> if v < 256 then map_option (Cons (char_of v)) (unescape (drop k (c # s))) else None)
      else map_option (Cons c) (unescape s))"
  by pat_completeness auto
termination
proof (relation "measure length")
  fix c :: char and s :: string and v k
  assume "(v, k) = percent_code (c # s)"
  then have "0 < k" using percent_code_pos [of "c # s"] by (metis snd_conv)
  then show "(drop k (c # s), c # s) \<in> measure length" by simp
qed simp_all

lemma hexval_hexdigit_upper [simp]: "n < 16 \<Longrightarrow> hexval (hexdigit_upper n) = Some n"
  by (auto simp: hexval_def hexdigit_upper_def Let_def)

lemma hexdigit_upper_neq_u: "n < 16 \<Longrightarrow> hexdigit_upper n \<noteq> CHR ''u''"
  using hexval_hexdigit_upper [of n] by (auto simp: hexval_def)

lemma percent_code_escape:
  assumes "n < 256"
  shows "percent_code (CHR ''%'' # hexdigit_upper (n div 16) # hexdigit_upper (n mod 16) # t) = (n, 3)"
proof -
  have "n div 16 < 16" "n mod 16 < 16"
    using assms by (simp_all add: less_mult_imp_div_less)
  then show ?thesis
    by (simp add: percent_code_def hexseq_def hexdigit_upper_neq_u)
qed

lemma unescape_escape_char: "unescape (escape_char c @ s) = map_option (Cons c) (unescape s)"
proof (cases "unescaped_char c")
  case True
  moreover from this have "c \<noteq> CHR ''%''"
    by (auto simp: unescaped_char_def)
  ultimately show ?thesis by (simp add: escape_char_def)
next
  case False
  then show ?thesis
    by (simp add: escape_char_def percent_code_escape)
qed

lemma unescape_escape: "unescape (escape s) = Some s"
  by (induction s) (simp_all add: escape_def unescape_escape_char)

lemma escape_Nil_iff: "escape s = [] \<longleftrightarrow> s = []"
  by (cases s) (simp_all add: escape_def escape_char_def)

subsection \<open>Properties\<close>

text \<open>
  (C32) The row identifiers are faithful to the names: \<^verbatim>\<open>convertToId\<close>, which both the index
  generator and the page's \<^verbatim>\<open>Search\<close> method apply, is injective and turns the prefix test on
  names into the prefix test on identifiers. No search string matches an identifier by accident,
  and none misses one.
\<close>

theorem convertToId_exact:
  "(prefix (convertToId q) (convertToId s) \<longleftrightarrow> prefix q s) \<and> inj convertToId"
  by (auto simp: convertToId_prefix_iff convertToId_inject inj_def)

end
