(* ===== verification/Search_Box.thy ===== *)
theory Search_Box
  imports JS_Strings
begin

text \<open>
  The search panel of the documentation pages: \<^verbatim>\<open>indexSectionsWithContent\<close>,
  \<^verbatim>\<open>indexSectionNames\<close>, \<^verbatim>\<open>getXPos\<close>, \<^verbatim>\<open>getYPos\<close> and the class \<^verbatim>\<open>SearchBox\<close> of
  \<^verbatim>\<open>src/doc/doxy/search/search.js\<close>. A panel is one record: the object's instance variables,
  the properties of the page elements the methods read and write, and the browser's timers.
  An exception leaves the effects made before it in place, so a method that can throw returns
  the error, if any, beside the panel.
\<close>

subsection \<open>The tables of sections\<close>

definition section_table :: "(string \<times> string) list" where
  "section_table =
     [(''0_abcdefghiklmnopqrstuvwxy'', ''all''),
      (''_acegimnprsv'', ''classes''),
      (''0abcdefgiklmnpqrstuvwx'', ''files''),
      (''_abcdefghikmnprstuvw'', ''functions''),
      (''_abcdefghilmnopqrstuvwxy'', ''variables''),
      (''_abcefgimpqrstuv'', ''typedefs''),
      (''_aceisv'', ''enums''),
      (''acefioprv'', ''enumvalues''),
      (''_abcdefghikmnopqrstuv'', ''defines'')]"

definition indexSectionsWithContent :: "nat \<Rightarrow> string option" where
  "indexSectionsWithContent i =
     (if i < length section_table then Some (fst (section_table ! i)) else None)"

definition indexSectionNames :: "nat \<Rightarrow> string option" where
  "indexSectionNames i =
     (if i < length section_table then Some (snd (section_table ! i)) else None)"

subsection \<open>Positions\<close>

text \<open>An element with its \<^verbatim>\<open>offsetWidth\<close>, \<^verbatim>\<open>offsetLeft\<close>, \<^verbatim>\<open>offsetTop\<close> and \<^verbatim>\<open>offsetParent\<close>.\<close>

datatype item = Body int | Item int int int "item option"

fun offsetWidth :: "item \<Rightarrow> int" where
  "offsetWidth (Body w) = w"
| "offsetWidth (Item w l t p) = w"

fun left_walk :: "int \<Rightarrow> item option \<Rightarrow> int" where
  "left_walk x None = x"
| "left_walk x (Some (Body w)) = x"
| "left_walk x (Some (Item w l t p)) = left_walk (x + l) p"

fun top_walk :: "int \<Rightarrow> item option \<Rightarrow> int" where
  "top_walk y None = y"
| "top_walk y (Some (Body w)) = y"
| "top_walk y (Some (Item w l t p)) = top_walk (y + t) p"

definition getXPos :: "item \<Rightarrow> int" where
  "getXPos it = (if offsetWidth it \<noteq> 0 then left_walk 0 (Some it) else 0)"

definition getYPos :: "item \<Rightarrow> int" where
  "getYPos it = (if offsetWidth it \<noteq> 0 then top_walk 0 (Some it) else 0)"

subsection \<open>The panel\<close>

datatype js_error = TypeError

datatype timer_action = RunSearch | RunCloseSelectionWindow

datatype focus_target = NoFocus | SearchFieldFocus | SelectItemFocus nat | ResultFocus string

record panel =
  \<comment> \<open>instance variables of the \<^verbatim>\<open>SearchBox\<close> object\<close>
  name :: string
  resultsPath :: string
  keyTimeout :: nat
  keyTimeoutLength :: nat
  closeSelectionTimeout :: nat
  lastSearchValue :: string
  lastResultsPage :: string
  hideTimeout :: nat
  searchIndex :: nat
  searchActive :: bool
  insideFrame :: bool
  searchLabel :: string
  \<comment> \<open>the elements of the page\<close>
  fieldValue :: string
  boxClassName :: string
  boxItem :: item
  selectItem :: item
  selectHeight :: int
  selectDisplay :: string
  selectPos :: "int \<times> int"
  selectWidth :: int
  selectChildren :: "(string \<times> string) list" \<comment> \<open>class name, and first child's HTML\<close>
  resultsDisplay :: string
  resultsPosition :: string
  resultsPos :: "int \<times> int"
  resultsWidth :: int
  popupOffsetWidth :: int
  popupWidth :: int
  closeDisplay :: string
  bodyClientWidth :: int
  frameLocation :: string
  frameNavNext0 :: "string option option" \<comment> \<open>the frame's \<^verbatim>\<open>searchResults.NavNext(0)\<close>, if it has one\<close>
  focus :: focus_target
  alerts :: "string list"
  \<comment> \<open>the browser's pending timers\<close>
  timers :: "(nat \<times> timer_action) list"
  nextTimer :: nat

definition setTimeout :: "timer_action \<Rightarrow> panel \<Rightarrow> nat \<times> panel" where
  "setTimeout a p = (nextTimer p, p\<lparr>timers := timers p @ [(nextTimer p, a)], nextTimer := Suc (nextTimer p)\<rparr>)"

definition clearTimeout :: "nat \<Rightarrow> panel \<Rightarrow> panel" where
  "clearTimeout i p = p\<lparr>timers := filter (\<lambda>t. fst t \<noteq> i) (timers p)\<rparr>"

text \<open>The constructor sets the instance variables of a page's panel and keeps the page.\<close>

definition SearchBox :: "string \<Rightarrow> string \<Rightarrow> bool \<Rightarrow> string \<Rightarrow> panel \<Rightarrow> panel" where
  "SearchBox nm path inFrame label p =
     (let p = (if nm = [] \<or> path = []
               then p\<lparr>alerts := alerts p @ [''Missing parameters to SearchBox.'']\<rparr> else p)
      in p\<lparr>name := nm, resultsPath := path, keyTimeout := 0, keyTimeoutLength := 500,
           closeSelectionTimeout := 300, lastSearchValue := [], lastResultsPage := [],
           hideTimeout := 0, searchIndex := 0, searchActive := False,
           insideFrame := inFrame, searchLabel := label\<rparr>)"

subsection \<open>Activation\<close>

definition Activate :: "bool \<Rightarrow> panel \<Rightarrow> panel" where
  "Activate isActive p =
     (if isActive \<or> resultsDisplay p = ''block'' then
        (let p = p\<lparr>boxClassName := ''MSearchBoxActive''\<rparr>
         in if fieldValue p = searchLabel p
            then p\<lparr>fieldValue := [], searchActive := True\<rparr> else p)
      else if \<not> isActive then
        p\<lparr>boxClassName := ''MSearchBoxInactive'', fieldValue := searchLabel p,
          searchActive := False, lastSearchValue := [], lastResultsPage := []\<rparr>
      else p)"

definition OnSearchFieldFocus :: "bool \<Rightarrow> panel \<Rightarrow> panel" where
  "OnSearchFieldFocus isActive p = Activate isActive p"

definition CloseResultsWindow :: "panel \<Rightarrow> panel" where
  "CloseResultsWindow p = Activate False (p\<lparr>resultsDisplay := ''none'', closeDisplay := ''none''\<rparr>)"

definition CloseSelectionWindow :: "panel \<Rightarrow> panel" where
  "CloseSelectionWindow p = p\<lparr>selectDisplay := ''none''\<rparr>"

subsection \<open>Searching\<close>

text \<open>
  The surrogate test of the source has a second conjunct, \<^verbatim>\<open>searchValue > 1\<close>; the first one is
  already false for every Latin-1 text, whose code units are below \<^verbatim>\<open>0xD800\<close>.
\<close>

definition idx_char :: "string \<Rightarrow> string" where
  "idx_char searchValue =
     (let surrogate = (case toLowerCase searchValue of
                         [] \<Rightarrow> False
                       | c # _ \<Rightarrow> 55296 \<le> charCodeAt0 c \<and> charCodeAt0 c \<le> 56319)
      in if surrogate then take 2 searchValue else toLowerCase (take 1 searchValue))"

definition results_page :: "string \<Rightarrow> string \<Rightarrow> nat \<Rightarrow> string" where
  "results_page path sec idx = path @ ''/'' @ sec @ ''_'' @ toString16 idx @ ''.html''"

definition show_results :: "panel \<Rightarrow> panel" where
  "show_results p =
     (if resultsDisplay p \<noteq> ''block'' then
        (let p = p\<lparr>closeDisplay := ''inline''\<rparr> in
         if insideFrame p then
           (let width = bodyClientWidth p - 8
            in p\<lparr>resultsPosition := ''relative'', resultsDisplay := ''block'',
                 resultsWidth := width, popupWidth := width\<rparr>)
         else
           (let left = getXPos (boxItem p) + 150; top = getYPos (boxItem p) + 20;
                left = left - popupOffsetWidth p
            in p\<lparr>resultsDisplay := ''block'', resultsPos := (left, top)\<rparr>))
      else p)"

definition Search :: "panel \<Rightarrow> js_error option \<times> panel" where
  "Search p =
     (let p = p\<lparr>keyTimeout := 0\<rparr>;
          searchValue = strip_leading (fieldValue p);
          idxChar = idx_char searchValue
      in case (indexSectionsWithContent (searchIndex p), indexSectionNames (searchIndex p)) of
           (Some letters, Some sec) \<Rightarrow>
             (let idx = indexOf letters idxChar;
                  resultsPage = (if idx \<noteq> - 1 then results_page (resultsPath p) sec (nat idx)
                                 else resultsPath p @ ''/nomatches.html'');
                  resultsPageWithSearch = (if idx \<noteq> - 1 then resultsPage @ ''?'' @ escape searchValue
                                           else resultsPage);
                  p = show_results (p\<lparr>frameLocation := resultsPageWithSearch\<rparr>)
              in (None, p\<lparr>lastSearchValue := searchValue, lastResultsPage := resultsPage\<rparr>))
         | _ \<Rightarrow> (Some TypeError, p))"

subsection \<open>The section menu\<close>

definition SelectItemCount :: "panel \<Rightarrow> nat" where
  "SelectItemCount p = foldl (\<lambda>count child. if fst child = ''SelectItem'' then Suc count else count)
                         0 (selectChildren p)"

fun select_item_set :: "nat \<Rightarrow> nat \<Rightarrow> (string \<times> string) list \<Rightarrow> (string \<times> string) list" where
  "select_item_set ident j [] = []"
| "select_item_set ident j ((cn, html) # cs) =
     (if cn = ''SelectItem''
      then (cn, if j = ident then ''&#8226;'' else ''&#160;'') # select_item_set ident (Suc j) cs
      else (cn, html) # select_item_set ident j cs)"

definition SelectItemSet :: "nat \<Rightarrow> panel \<Rightarrow> panel" where
  "SelectItemSet ident p = p\<lparr>selectChildren := select_item_set ident 0 (selectChildren p)\<rparr>"

definition OnSelectItem :: "nat \<Rightarrow> panel \<Rightarrow> js_error option \<times> panel" where
  "OnSelectItem ident p =
     (let p = SelectItemSet ident (p\<lparr>searchIndex := ident\<rparr>);
          searchValue = strip_all (fieldValue p)
      in if searchValue \<noteq> [] \<and> searchActive p then Search p else (None, p))"

definition OnSearchSelectKey :: "nat \<Rightarrow> panel \<Rightarrow> js_error option \<times> panel" where
  "OnSearchSelectKey keyCode p =
     (if keyCode = 40 \<and> searchIndex p < SelectItemCount p then
        OnSelectItem (Suc (searchIndex p)) (p\<lparr>searchIndex := Suc (searchIndex p)\<rparr>)
      else if keyCode = 38 \<and> searchIndex p > 0 then
        OnSelectItem (searchIndex p - 1) (p\<lparr>searchIndex := searchIndex p - 1\<rparr>)
      else if keyCode = 13 \<or> keyCode = 27 then
        (case OnSelectItem (searchIndex p) p of
           (Some e, p) \<Rightarrow> (Some e, p)
         | (None, p) \<Rightarrow> (None, (CloseSelectionWindow p)\<lparr>focus := SearchFieldFocus\<rparr>))
      else (None, p))"

definition OnSearchSelectShow :: "panel \<Rightarrow> panel" where
  "OnSearchSelectShow p =
     (let p = (if insideFrame p then
                 (let left = getXPos (selectItem p); top = getYPos (selectItem p);
                      left = left + offsetWidth (selectItem p) + 6;
                      top = top + selectHeight p;
                      left = left - selectWidth p
                  in p\<lparr>selectDisplay := ''block'', selectPos := (left, top)\<rparr>)
               else
                 (let left = getXPos (selectItem p); top = getYPos (selectItem p);
                      top = top + selectHeight p
                  in p\<lparr>selectDisplay := ''block'', selectPos := (left, top)\<rparr>))
      in if hideTimeout p \<noteq> 0 then (clearTimeout (hideTimeout p) p)\<lparr>hideTimeout := 0\<rparr> else p)"

definition OnSearchSelectHide :: "panel \<Rightarrow> panel" where
  "OnSearchSelectHide p =
     (let (i, p) = setTimeout RunCloseSelectionWindow p in p\<lparr>hideTimeout := i\<rparr>)"

subsection \<open>Typing in the search field\<close>

fun first_select_item :: "nat \<Rightarrow> (string \<times> string) list \<Rightarrow> nat option" where
  "first_select_item i [] = None"
| "first_select_item i ((cn, html) # cs) =
     (if cn = ''SelectItem'' then Some i else first_select_item (Suc i) cs)"

text \<open>The last part of \<^verbatim>\<open>OnSearchFieldChange\<close>: restart the search timer if the text changed.\<close>

definition search_value_changed :: "panel \<Rightarrow> panel" where
  "search_value_changed p =
     (let searchValue = strip_all (fieldValue p)
      in if searchValue \<noteq> lastSearchValue p then
           (if searchValue \<noteq> [] then
              (let (i, p) = setTimeout RunSearch p in p\<lparr>keyTimeout := i\<rparr>)
            else p\<lparr>resultsDisplay := ''none'', closeDisplay := ''none'', lastSearchValue := []\<rparr>)
         else p)"

definition OnSearchFieldChange :: "nat \<Rightarrow> bool \<Rightarrow> panel \<Rightarrow> panel" where
  "OnSearchFieldChange keyCode shiftKey p =
     (let p = (if keyTimeout p \<noteq> 0 then (clearTimeout (keyTimeout p) p)\<lparr>keyTimeout := 0\<rparr> else p)
      in if keyCode = 40 \<or> keyCode = 13 then
           (if shiftKey then
              (let p = OnSearchSelectShow p
               in case first_select_item 0 (selectChildren p) of
                    Some i \<Rightarrow> p\<lparr>focus := SelectItemFocus i\<rparr>
                  | None \<Rightarrow> p)
            else
              search_value_changed
                (case frameNavNext0 p of
                   Some (Some elem) \<Rightarrow> p\<lparr>focus := ResultFocus elem\<rparr>
                 | _ \<Rightarrow> p))
         else if keyCode = 27 then
           Activate False
             (p\<lparr>focus := NoFocus, resultsDisplay := ''none'', closeDisplay := ''none'',
                lastSearchValue := []\<rparr>)
         else search_value_changed p)"

text \<open>A timer that fires is removed from the pending ones and runs its method.\<close>

definition fire :: "nat \<times> timer_action \<Rightarrow> panel \<Rightarrow> js_error option \<times> panel" where
  "fire t p =
     (let p = p\<lparr>timers := remove1 t (timers p)\<rparr>
      in case snd t of RunSearch \<Rightarrow> Search p | RunCloseSelectionWindow \<Rightarrow> (None, CloseSelectionWindow p))"

subsection \<open>What a search does\<close>

lemma section_table_letters_distinct: "i < length section_table \<Longrightarrow> distinct (fst (section_table ! i))"
proof -
  have "list_all (\<lambda>e. distinct (fst e)) section_table" by code_simp
  then show "i < length section_table \<Longrightarrow> distinct (fst (section_table ! i))"
    by (simp add: list_all_length)
qed

lemma idx_char_Cons [simp]: "idx_char (c # s) = [lower_char c]"
proof -
  have "charCodeAt0 (lower_char c) < (55296::nat)"
    by (rule less_trans [OF char_code_less]) simp
  then show ?thesis by (simp add: idx_char_def toLowerCase_def)
qed

lemma show_results_block [simp]: "resultsDisplay (show_results p) = ''block''"
  by (simp add: show_results_def Let_def)

lemma show_results_frame [simp]:
  "frameLocation (show_results p) = frameLocation p"
  "timers (show_results p) = timers p" "nextTimer (show_results p) = nextTimer p"
  "keyTimeout (show_results p) = keyTimeout p" "hideTimeout (show_results p) = hideTimeout p"
  "searchIndex (show_results p) = searchIndex p" "fieldValue (show_results p) = fieldValue p"
  "selectChildren (show_results p) = selectChildren p" "resultsPath (show_results p) = resultsPath p"
  by (simp_all add: show_results_def Let_def)

lemma Search_error_iff: "fst (Search p) = (if searchIndex p < length section_table then None else Some TypeError)"
  by (simp add: Search_def Let_def indexSectionsWithContent_def indexSectionNames_def)

lemma Search_frame [simp]:
  "timers (snd (Search p)) = timers p" "nextTimer (snd (Search p)) = nextTimer p"
  "keyTimeout (snd (Search p)) = 0" "hideTimeout (snd (Search p)) = hideTimeout p"
  "searchIndex (snd (Search p)) = searchIndex p" "fieldValue (snd (Search p)) = fieldValue p"
  "selectChildren (snd (Search p)) = selectChildren p"
  by (simp_all add: Search_def Let_def split: option.split)

lemma Search_ok:
  assumes "searchIndex p < length section_table"
  shows "resultsDisplay (snd (Search p)) = ''block''"
    and "lastSearchValue (snd (Search p)) = strip_leading (fieldValue p)"
    and "frameLocation (snd (Search p)) =
      (let letters = fst (section_table ! searchIndex p); sec = snd (section_table ! searchIndex p);
           searchValue = strip_leading (fieldValue p); idx = indexOf letters (idx_char searchValue)
       in if idx \<noteq> - 1 then results_page (resultsPath p) sec (nat idx) @ ''?'' @ escape searchValue
          else resultsPath p @ ''/nomatches.html'')"
  using assms
  by (simp_all add: Search_def Let_def indexSectionsWithContent_def indexSectionNames_def)

lemma indexOf_distinct_nth:
  "distinct s \<Longrightarrow> i < length s \<Longrightarrow> indexOf s [s ! i] = int i"
proof -
  assume d: "distinct s" and i: "i < length s"
  have "takeWhile (\<lambda>c. c \<noteq> s ! i) s = take i s"
  proof (rule takeWhile_eq_take_P_nth)
    show "j < i \<Longrightarrow> j < length s \<Longrightarrow> s ! j \<noteq> s ! i" for j
      using d i by (simp add: nth_eq_iff_index_eq)
  qed simp
  then show "indexOf s [s ! i] = int i"
    using i by (simp add: indexOf_single)
qed

subsection \<open>The section menu marks the chosen section\<close>

lemma SelectItemCount_filter:
  "SelectItemCount p = length (filter (\<lambda>c. fst c = ''SelectItem'') (selectChildren p))"
proof -
  have "foldl (\<lambda>count child. if fst child = ''SelectItem'' then Suc count else count) n cs
        = n + length (filter (\<lambda>c. fst c = ''SelectItem'') cs)" for n and cs :: "(string \<times> string) list"
    by (induction cs arbitrary: n) auto
  then show ?thesis by (simp add: SelectItemCount_def)
qed

lemma select_item_set_names [simp]: "map fst (select_item_set k j cs) = map fst cs"
  by (induction k j cs rule: select_item_set.induct) auto

lemma select_item_set_marks:
  "filter (\<lambda>c. fst c = ''SelectItem'') (select_item_set k j cs) =
   map (\<lambda>n. (''SelectItem'', if n = k then ''&#8226;'' else ''&#160;''))
     [j..<j + length (filter (\<lambda>c. fst c = ''SelectItem'') cs)]"
proof (induction k j cs rule: select_item_set.induct)
  case (2 k j cn html cs)
  show ?case
  proof (cases "cn = ''SelectItem''")
    case True
    with "2.IH"(1) show ?thesis
      by (simp add: upt_conv_Cons del: upt_Suc)
  next
    case False
    with "2.IH"(2) show ?thesis by simp
  qed
qed simp

lemma select_item_set_others:
  "filter (\<lambda>c. fst c \<noteq> ''SelectItem'') (select_item_set k j cs) = filter (\<lambda>c. fst c \<noteq> ''SelectItem'') cs"
  by (induction k j cs rule: select_item_set.induct) auto

lemma length_filter_fst: "length (filter (\<lambda>c. fst c = a) zs) = length (filter (\<lambda>c. c = a) (map fst zs))"
  by (induction zs) auto

lemma SelectItemCount_SelectItemSet [simp]: "SelectItemCount (SelectItemSet k p) = SelectItemCount p"
  by (simp add: SelectItemCount_filter SelectItemSet_def length_filter_fst)

lemma SelectItemCount_update [simp]: "SelectItemCount (p\<lparr>searchIndex := i\<rparr>) = SelectItemCount p"
  by (simp add: SelectItemCount_def)

lemma OnSelectItem_frame:
  "searchIndex (snd (OnSelectItem i p)) = i"
  "selectChildren (snd (OnSelectItem i p)) = select_item_set i 0 (selectChildren p)"
  by (simp_all add: OnSelectItem_def Let_def SelectItemSet_def)

subsection \<open>One pending search\<close>

text \<open>
  Typing restarts the half-second search timer. The invariant: every pending timer has an
  identifier the browser has given out, at most one of them is a search, and it is the one
  \<^verbatim>\<open>keyTimeout\<close> names.
\<close>

definition search_timers :: "panel \<Rightarrow> (nat \<times> timer_action) list" where
  "search_timers p = filter (\<lambda>t. snd t = RunSearch) (timers p)"

definition one_search :: "panel \<Rightarrow> bool" where
  "one_search p \<longleftrightarrow>
     0 < nextTimer p \<and> (\<forall>t \<in> set (timers p). 0 < fst t \<and> fst t < nextTimer p) \<and>
     distinct (map fst (timers p)) \<and> hideTimeout p < nextTimer p \<and> keyTimeout p < nextTimer p \<and>
     (hideTimeout p = 0 \<or> hideTimeout p \<noteq> keyTimeout p) \<and>
     (\<forall>i. (i, RunSearch) \<in> set (timers p) \<longleftrightarrow> i = keyTimeout p \<and> i \<noteq> 0)"

lemma one_search_timers:
  assumes "one_search p"
  shows "search_timers p = (if keyTimeout p = 0 then [] else [(keyTimeout p, RunSearch)])"
proof -
  have d: "distinct (search_timers p)"
    using assms by (auto simp: one_search_def search_timers_def distinct_map)
  have s: "set (search_timers p) = (if keyTimeout p = 0 then {} else {(keyTimeout p, RunSearch)})"
    using assms by (auto simp: one_search_def search_timers_def)
  then show ?thesis
    using d by (auto intro: distinct_set_singleton split: if_splits)
qed

text \<open>
  The events of the panel: typing, focus, opening and leaving the section menu, closing the results, a timer that
  fires, and the choice of a section by the mouse or by a key in the menu. A choice repeats the search at once
  when the field is active and holds a text, and \<^verbatim>\<open>Search\<close> then forgets a timer that is pending
  (\<^verbatim>\<open>searches_over\<close>); the steps below leave out this one case.
\<close>

definition searches_over :: "panel \<Rightarrow> bool" where
  "searches_over p \<longleftrightarrow> keyTimeout p \<noteq> 0 \<and> strip_all (fieldValue p) \<noteq> [] \<and> searchActive p"

inductive panel_step :: "panel \<Rightarrow> panel \<Rightarrow> bool" where
  field_change: "panel_step p (OnSearchFieldChange keyCode shiftKey (p\<lparr>fieldValue := v\<rparr>))"
| field_focus: "panel_step p (OnSearchFieldFocus isActive p)"
| select_show: "panel_step p (OnSearchSelectShow p)"
| select_hide: "panel_step p (OnSearchSelectHide p)"
| close_results: "panel_step p (CloseResultsWindow p)"
| timer_fires: "t \<in> set (timers p) \<Longrightarrow> panel_step p (snd (fire t p))"
| select_item: "\<not> searches_over p \<Longrightarrow> panel_step p (snd (OnSelectItem ident p))"
| select_key: "\<not> searches_over p \<Longrightarrow> panel_step p (snd (OnSearchSelectKey keyCode p))"

inductive_cases panel_stepE: "panel_step p q"

definition same_timers :: "panel \<Rightarrow> panel \<Rightarrow> bool" where
  "same_timers p q \<longleftrightarrow> timers q = timers p \<and> nextTimer q = nextTimer p \<and>
     keyTimeout q = keyTimeout p \<and> hideTimeout q = hideTimeout p"

lemma one_searchI: "same_timers p q \<Longrightarrow> one_search p \<Longrightarrow> one_search q"
  by (simp add: same_timers_def one_search_def)

lemma same_timers_Activate: "same_timers p (Activate b p)"
  by (simp add: same_timers_def Activate_def Let_def)

lemma one_search_clear_key:
  assumes "one_search p" "keyTimeout p \<noteq> 0"
  shows "one_search ((clearTimeout (keyTimeout p) p)\<lparr>keyTimeout := 0\<rparr>)"
  using assms by (auto simp: one_search_def clearTimeout_def distinct_map_filter)

lemma one_search_set_key:
  assumes "one_search p" "keyTimeout p = 0"
  shows "one_search (case setTimeout RunSearch p of (i, p) \<Rightarrow> p\<lparr>keyTimeout := i\<rparr>)"
  using assms by (auto simp: one_search_def setTimeout_def less_Suc_eq)

lemma one_search_value_changed:
  assumes "one_search p" "keyTimeout p = 0"
  shows "one_search (search_value_changed p)"
proof -
  have "same_timers p (p\<lparr>resultsDisplay := ''none'', closeDisplay := ''none'', lastSearchValue := []\<rparr>)"
    by (simp add: same_timers_def)
  then show ?thesis
    using assms one_searchI one_search_set_key [OF assms]
    by (auto simp: search_value_changed_def Let_def)
qed

lemma one_search_show: "one_search p \<Longrightarrow> one_search (OnSearchSelectShow p)"
proof -
  assume inv: "one_search p"
  define q where "q = p\<lparr>selectDisplay := selectDisplay (OnSearchSelectShow p),
                         selectPos := selectPos (OnSearchSelectShow p)\<rparr>"
  have q: "one_search q"
    using inv by (rule one_searchI [rotated]) (simp add: same_timers_def q_def)
  have "OnSearchSelectShow p =
          (if hideTimeout q \<noteq> 0 then (clearTimeout (hideTimeout q) q)\<lparr>hideTimeout := 0\<rparr> else q)"
    by (simp add: OnSearchSelectShow_def Let_def q_def clearTimeout_def)
  then show ?thesis
    using q by (auto simp: one_search_def clearTimeout_def distinct_map_filter)
qed

lemma one_search_hide: "one_search p \<Longrightarrow> one_search (OnSearchSelectHide p)"
  by (auto simp: one_search_def OnSearchSelectHide_def setTimeout_def less_Suc_eq)

lemma one_search_fire:
  assumes inv: "one_search p" and t: "t \<in> set (timers p)"
  shows "one_search (snd (fire t p))"
proof -
  have d: "distinct (timers p)" "distinct (map fst (remove1 t (timers p)))"
    using inv by (auto simp: one_search_def distinct_map inj_on_def distinct_remove1 dest: notin_set_remove1)
  show ?thesis
  proof (cases t)
    case (Pair i a)
    then show ?thesis
      using inv t d
      by (cases a) (auto simp: one_search_def fire_def Let_def CloseSelectionWindow_def set_remove1_eq)
  qed
qed

lemma one_search_field_change:
  assumes "one_search p"
  shows "one_search (OnSearchFieldChange k sh p)"
proof -
  define q where "q = (if keyTimeout p \<noteq> 0 then (clearTimeout (keyTimeout p) p)\<lparr>keyTimeout := 0\<rparr> else p)"
  have q: "one_search q" "keyTimeout q = 0"
    using assms one_search_clear_key [OF assms] by (auto simp: q_def)
  have focus: "one_search (q\<lparr>focus := f\<rparr>)" "keyTimeout (q\<lparr>focus := f\<rparr>) = 0" for f
    using q one_searchI [of q "q\<lparr>focus := f\<rparr>"] by (simp_all add: same_timers_def)
  have show': "one_search (OnSearchSelectShow q)" "one_search ((OnSearchSelectShow q)\<lparr>focus := f\<rparr>)" for f
    using one_search_show [OF q(1)] one_searchI [of "OnSearchSelectShow q" "(OnSearchSelectShow q)\<lparr>focus := f\<rparr>"]
    by (simp_all add: same_timers_def)
  have esc: "one_search (Activate False (q\<lparr>focus := NoFocus, resultsDisplay := ''none'',
                closeDisplay := ''none'', lastSearchValue := []\<rparr>))"
    using q(1) by (rule one_searchI [rotated]) (simp add: same_timers_def Activate_def Let_def)
  show ?thesis
    unfolding OnSearchFieldChange_def Let_def q_def [symmetric]
    by (simp add: q focus show' esc one_search_value_changed split: option.split)
qed

lemma OnSelectItem_timers:
  "timers (snd (OnSelectItem i p)) = timers p" "nextTimer (snd (OnSelectItem i p)) = nextTimer p"
  "hideTimeout (snd (OnSelectItem i p)) = hideTimeout p"
  "keyTimeout (snd (OnSelectItem i p)) = (if strip_all (fieldValue p) \<noteq> [] \<and> searchActive p then 0 else keyTimeout p)"
  by (simp_all add: OnSelectItem_def Let_def SelectItemSet_def)

lemma one_search_select_item:
  assumes "one_search p" "\<not> searches_over p"
  shows "one_search (snd (OnSelectItem i p))"
  using assms(1) by (rule one_searchI [rotated]) (use assms(2) in \<open>auto simp: same_timers_def OnSelectItem_timers searches_over_def\<close>)

lemma one_search_select_key:
  assumes "one_search p" "\<not> searches_over p"
  shows "one_search (snd (OnSearchSelectKey k p))"
proof -
  have at: "one_search (snd (OnSelectItem i (p\<lparr>searchIndex := j\<rparr>)))" for i j
  proof (rule one_search_select_item)
    show "one_search (p\<lparr>searchIndex := j\<rparr>)" using assms(1) by (rule one_searchI [rotated]) (simp add: same_timers_def)
    show "\<not> searches_over (p\<lparr>searchIndex := j\<rparr>)" using assms(2) by (simp add: searches_over_def)
  qed
  have enter: "one_search ((CloseSelectionWindow q)\<lparr>focus := SearchFieldFocus\<rparr>)" if "one_search q" for q
    using that by (rule one_searchI [rotated]) (simp add: same_timers_def CloseSelectionWindow_def)
  obtain e q where q: "OnSelectItem (searchIndex p) p = (e, q)" by (cases "OnSelectItem (searchIndex p) p")
  then have "one_search q" using one_search_select_item [OF assms, of "searchIndex p"] by simp
  then have "one_search (snd (case OnSelectItem (searchIndex p) p of (Some e, p) \<Rightarrow> (Some e, p)
      | (None, p) \<Rightarrow> (None, (CloseSelectionWindow p)\<lparr>focus := SearchFieldFocus\<rparr>)))"
    using enter by (simp add: q split: option.split)
  then show ?thesis using at assms(1) unfolding OnSearchSelectKey_def by simp
qed

lemma panel_step_one_search:
  assumes "panel_step p q" and "one_search p"
  shows "one_search q"
  using assms
proof (cases rule: panel_step.cases)
  case (field_change keyCode shiftKey v)
  have "one_search (p\<lparr>fieldValue := v\<rparr>)"
    using assms(2) by (rule one_searchI [rotated]) (simp add: same_timers_def)
  with field_change show ?thesis by (simp add: one_search_field_change)
next
  case (close_results)
  with assms(2) show ?thesis
    by (auto simp: CloseResultsWindow_def same_timers_def Activate_def Let_def
        intro: one_searchI)
qed (use assms(2) in \<open>auto simp: OnSearchFieldFocus_def one_search_show one_search_hide one_search_fire
       one_search_select_item one_search_select_key intro: one_searchI [OF same_timers_Activate]\<close>)

lemma panel_steps_one_search: "panel_step\<^sup>*\<^sup>* p q \<Longrightarrow> one_search p \<Longrightarrow> one_search q"
  by (induction rule: rtranclp_induct) (auto dest: panel_step_one_search)

lemma one_search_SearchBox:
  assumes "timers p = []" "0 < nextTimer p"
  shows "one_search (SearchBox nm path inFrame label p)"
  using assms by (auto simp: one_search_def SearchBox_def Let_def)

subsection \<open>Properties\<close>

text \<open>
  (C31) Whatever the user does on the search panel (typing, focusing, opening and leaving the
  section menu, choosing a section, closing the results) and whichever timers fire, in any order, at
  most one search is pending after the panel is created, and \<^verbatim>\<open>keyTimeout\<close> names it, as long as no section is
  chosen while a search is pending and a text is in the active field. Such a choice breaks this: it leaves the
  search pending and sets \<^verbatim>\<open>keyTimeout\<close> to 0, and a key press that changes the text then starts a second
  search beside it instead of replacing it.
\<close>

theorem one_pending_search:
  assumes "timers p = []" "0 < nextTimer p"
    and "panel_step\<^sup>*\<^sup>* (SearchBox nm path inFrame label p) q"
  shows "search_timers q = (if keyTimeout q = 0 then [] else [(keyTimeout q, RunSearch)]) \<and>
    (searches_over q \<longrightarrow> (\<forall>i. let r = snd (OnSelectItem i q) in
       keyTimeout r = 0 \<and> search_timers r = [(keyTimeout q, RunSearch)] \<and>
       (\<forall>v. strip_all v \<noteq> [] \<and> strip_all v \<noteq> lastSearchValue r \<longrightarrow>
         search_timers (OnSearchFieldChange 65 False (r\<lparr>fieldValue := v\<rparr>)) = [(keyTimeout q, RunSearch), (nextTimer q, RunSearch)])))"
proof -
  have inv: "search_timers q = (if keyTimeout q = 0 then [] else [(keyTimeout q, RunSearch)])"
    using one_search_timers panel_steps_one_search [OF assms(3)] one_search_SearchBox [OF assms(1,2)] by blast
  moreover have "keyTimeout (snd (OnSelectItem i q)) = 0" "search_timers (snd (OnSelectItem i q)) = [(keyTimeout q, RunSearch)]"
    if "searches_over q" for i
    using that inv by (auto simp: searches_over_def OnSelectItem_timers search_timers_def)
  moreover have "search_timers (OnSearchFieldChange 65 False (r\<lparr>fieldValue := v\<rparr>)) = search_timers r @ [(nextTimer r, RunSearch)]"
    if "keyTimeout r = 0" "strip_all v \<noteq> []" "strip_all v \<noteq> lastSearchValue r" for r v
    using that by (simp add: OnSearchFieldChange_def search_value_changed_def setTimeout_def search_timers_def)
  ultimately show ?thesis by (simp add: Let_def OnSelectItem_timers)
qed

theorem one_pending_search_witness:
  "let p = SearchBox ''searchBox'' ''search'' False ''Search'' (undefined\<lparr>timers := [], nextTimer := 1, fieldValue := ''Search''\<rparr>);
       q = OnSearchFieldChange 66 False ((OnSearchFieldFocus True p)\<lparr>fieldValue := ''b''\<rparr>);
       r = snd (OnSelectItem 1 q)
   in search_timers q = [(1, RunSearch)] \<and> keyTimeout q = 1 \<and> search_timers r = [(1, RunSearch)] \<and> keyTimeout r = 0"
proof -
  let ?p = "undefined\<lparr>timers := [], nextTimer := 1, fieldValue := ''Search''\<rparr> :: panel"
  let ?s = "SearchBox ''searchBox'' ''search'' False ''Search'' ?p"
  let ?q = "OnSearchFieldChange 66 False ((OnSearchFieldFocus True ?s)\<lparr>fieldValue := ''b''\<rparr>)"
  have "panel_step\<^sup>*\<^sup>* ?s ?q"
    by (rule converse_rtranclp_into_rtranclp [OF panel_step.field_focus [of ?s True] r_into_rtranclp [of panel_step]], rule panel_step.field_change)
  note at = one_pending_search [OF _ _ this]
  have "keyTimeout ?q = 1" "searches_over ?q"
    by (simp_all add: OnSearchFieldChange_def search_value_changed_def setTimeout_def OnSearchFieldFocus_def Activate_def SearchBox_def
      searches_over_def strip_all_def)
  then show ?thesis using at by (simp add: Let_def)
qed

text \<open>
  Choosing a section marks it: after \<^verbatim>\<open>SelectItemSet\<close> the n-th menu item carries the bullet
  exactly when n is the chosen section, and the other children of the menu are untouched.
\<close>

theorem select_item_marks:
  "filter (\<lambda>c. fst c = ''SelectItem'') (selectChildren (SelectItemSet k p)) =
     map (\<lambda>n. (''SelectItem'', if n = k then ''&#8226;'' else ''&#160;'')) [0..<SelectItemCount p] \<and>
   filter (\<lambda>c. fst c \<noteq> ''SelectItem'') (selectChildren (SelectItemSet k p)) =
     filter (\<lambda>c. fst c \<noteq> ''SelectItem'') (selectChildren p)"
  by (simp add: SelectItemSet_def select_item_set_marks select_item_set_others SelectItemCount_filter)

text \<open>
  (C34) The down key in the section menu runs past its end: with the last of the nine sections
  chosen the guard \<^verbatim>\<open>searchIndex < SelectItemCount\<close> still lets it advance, and with text in an
  active search field \<^verbatim>\<open>Search\<close> then indexes the section table out of bounds and raises a
  \<^verbatim>\<open>TypeError\<close>; on every earlier section it does not.
\<close>

theorem select_key_overrun:
  assumes "SelectItemCount p = length section_table" "searchIndex p < length section_table"
    and "strip_all (fieldValue p) \<noteq> []" "searchActive p"
  shows "fst (OnSearchSelectKey 40 p) = Some TypeError \<longleftrightarrow> Suc (searchIndex p) = length section_table"
  using assms by (auto simp: OnSearchSelectKey_def OnSelectItem_def Let_def Search_error_iff SelectItemSet_def)

theorem select_key_overrun_witness:
  "fst (OnSearchSelectKey 40 (undefined\<lparr>selectChildren := replicate 9 (''SelectItem'', []), searchIndex := 8,
     fieldValue := ''a'', searchActive := True\<rparr>)) = Some TypeError"
  by (rule select_key_overrun [THEN iffD2])
    (simp_all add: SelectItemCount_def section_table_def strip_all_def eval_nat_numeral)

end
