(* ===== verification/Dom.thy ===== *)
theory Dom
  imports JS_Strings
begin

text \<open>
  The document trees the search script builds and walks. A node carries its name, its
  attributes, its \<^verbatim>\<open>style.display\<close>, its inner HTML and its children; an element reference is
  the path from the root, so \<^verbatim>\<open>parentNode\<close>, \<^verbatim>\<open>firstChild\<close> and \<^verbatim>\<open>nextSibling\<close> are operations on
  paths and aliasing is equality of paths. The DOM operations are those the scripts call.
\<close>

subsection \<open>Nodes and paths\<close>

datatype node =
  Node (nodeName: string) (attrs: "(string \<times> string) list") (display: string)
    (innerHTML: string) (childNodes: "node list")

type_synonym path = "nat list"

fun set_display :: "string \<Rightarrow> node \<Rightarrow> node" where
  "set_display v (Node nn at ds ih cs) = Node nn at v ih cs"

fun set_innerHTML :: "string \<Rightarrow> node \<Rightarrow> node" where
  "set_innerHTML v (Node nn at ds ih cs) = Node nn at ds v cs"

fun set_children :: "node list \<Rightarrow> node \<Rightarrow> node" where
  "set_children v (Node nn at ds ih cs) = Node nn at ds ih v"

definition createElement :: "string \<Rightarrow> node" where
  "createElement nn = Node nn [] [] [] []"

fun attr_update :: "string \<Rightarrow> string \<Rightarrow> (string \<times> string) list \<Rightarrow> (string \<times> string) list" where
  "attr_update k v [] = [(k, v)]"
| "attr_update k v ((k', v') # as) = (if k = k' then (k, v) # as else (k', v') # attr_update k v as)"

fun setAttribute :: "string \<Rightarrow> string \<Rightarrow> node \<Rightarrow> node" where
  "setAttribute k v (Node nn at ds ih cs) = Node nn (attr_update k v at) ds ih cs"

definition attr :: "string \<Rightarrow> node \<Rightarrow> string" where
  "attr k n = (case map_of (attrs n) k of Some v \<Rightarrow> v | None \<Rightarrow> [])"

fun appendChild :: "node \<Rightarrow> node \<Rightarrow> node" where
  "appendChild c (Node nn at ds ih cs) = Node nn at ds ih (cs @ [c])"

fun paths :: "node \<Rightarrow> path list"
  and paths_from :: "nat \<Rightarrow> node list \<Rightarrow> path list" where
  "paths (Node nn at ds ih cs) = [] # paths_from 0 cs"
| "paths_from i [] = []"
| "paths_from i (c # cs) = map (Cons i) (paths c) @ paths_from (Suc i) cs"

fun node_at :: "node \<Rightarrow> path \<Rightarrow> node option" where
  "node_at n [] = Some n"
| "node_at n (i # p) = (if i < length (childNodes n) then node_at (childNodes n ! i) p else None)"

fun update_at :: "path \<Rightarrow> (node \<Rightarrow> node) \<Rightarrow> node \<Rightarrow> node" where
  "update_at [] f n = f n"
| "update_at (i # p) f n =
     (if i < length (childNodes n)
      then set_children ((childNodes n)[i := update_at p f (childNodes n ! i)]) n else n)"

subsection \<open>What a script reads of an element\<close>

definition attr_at :: "node \<Rightarrow> path \<Rightarrow> string \<Rightarrow> string" where
  "attr_at d p k = (case node_at d p of Some n \<Rightarrow> attr k n | None \<Rightarrow> [])"

definition display_at :: "node \<Rightarrow> path \<Rightarrow> string" where
  "display_at d p = (case node_at d p of Some n \<Rightarrow> display n | None \<Rightarrow> [])"

definition name_at :: "node \<Rightarrow> path \<Rightarrow> string" where
  "name_at d p = (case node_at d p of Some n \<Rightarrow> nodeName n | None \<Rightarrow> [])"

definition kids_at :: "node \<Rightarrow> path \<Rightarrow> nat" where
  "kids_at d p = (case node_at d p of Some n \<Rightarrow> length (childNodes n) | None \<Rightarrow> 0)"

definition getElementById :: "node \<Rightarrow> string \<Rightarrow> path option" where
  "getElementById d i = List.find (\<lambda>p. attr_at d p ''id'' = i) (paths d)"

definition getElementsByTagName :: "node \<Rightarrow> string \<Rightarrow> path list" where
  "getElementsByTagName d nn = filter (\<lambda>p. name_at d p = nn) (paths d)"

definition set_display_at :: "path \<Rightarrow> string \<Rightarrow> node \<Rightarrow> node" where
  "set_display_at p v d = update_at p (set_display v) d"

definition has_next :: "node \<Rightarrow> path \<Rightarrow> bool" where
  "has_next d p = (p \<noteq> [] \<and> Suc (last p) < kids_at d (butlast p))"

definition nextSibling :: "path \<Rightarrow> path" where
  "nextSibling p = butlast p @ [Suc (last p)]"

subsection \<open>Paths of a tree\<close>

lemma length_childNodes_set_children [simp]:
  "childNodes (set_children cs n) = cs" "nodeName (set_children cs n) = nodeName n"
  "attrs (set_children cs n) = attrs n" "display (set_children cs n) = display n"
  by (cases n; simp)+

lemma set_display_sel [simp]:
  "childNodes (set_display v n) = childNodes n" "nodeName (set_display v n) = nodeName n"
  "attrs (set_display v n) = attrs n" "display (set_display v n) = v"
  by (cases n; simp)+

lemma in_paths_from:
  assumes "\<And>c p. c \<in> set cs \<Longrightarrow> p \<in> set (paths c) \<longleftrightarrow> node_at c p \<noteq> None"
  shows "q \<in> set (paths_from k cs) \<longleftrightarrow>
         (\<exists>i p. q = (k + i) # p \<and> i < length cs \<and> node_at (cs ! i) p \<noteq> None)"
  using assms
proof (induction cs arbitrary: k)
  case Nil
  then show ?case by simp
next
  case (Cons c cs)
  have IH: "q \<in> set (paths_from (Suc k) cs) \<longleftrightarrow>
            (\<exists>i p. q = (Suc k + i) # p \<and> i < length cs \<and> node_at (cs ! i) p \<noteq> None)"
    using Cons.prems by (intro Cons.IH) auto
  have "(\<exists>i p. q = (k + i) # p \<and> i < length (c # cs) \<and> node_at ((c # cs) ! i) p \<noteq> None) \<longleftrightarrow>
        (\<exists>p. q = k # p \<and> node_at c p \<noteq> None) \<or>
        (\<exists>i p. q = (Suc k + i) # p \<and> i < length cs \<and> node_at (cs ! i) p \<noteq> None)"
    (is "?L \<longleftrightarrow> ?R")
  proof
    assume ?L
    then obtain i p where "q = (k + i) # p" "i < length (c # cs)" "node_at ((c # cs) ! i) p \<noteq> None"
      by blast
    then show ?R by (cases i) auto
  next
    assume ?R
    then show ?L
    proof
      assume "\<exists>p. q = k # p \<and> node_at c p \<noteq> None"
      then show ?L by (intro exI [of _ 0]) auto
    next
      assume "\<exists>i p. q = (Suc k + i) # p \<and> i < length cs \<and> node_at (cs ! i) p \<noteq> None"
      then obtain i p where "q = (Suc k + i) # p" "i < length cs" "node_at (cs ! i) p \<noteq> None"
        by blast
      then show ?L by (intro exI [of _ "Suc i"] exI [of _ p]) auto
    qed
  qed
  then show ?case
    using IH Cons.prems by (auto simp: image_iff)
qed

lemma in_paths: "p \<in> set (paths d) \<longleftrightarrow> node_at d p \<noteq> None"
proof (induction d arbitrary: p)
  case (Node nn at ds ih cs)
  have "q \<in> set (paths_from 0 cs) \<longleftrightarrow>
        (\<exists>i p. q = (0 + i) # p \<and> i < length cs \<and> node_at (cs ! i) p \<noteq> None)" for q
    by (rule in_paths_from) (rule Node)
  then show ?case
    by (cases p) auto
qed

lemma hd_paths_from: "q \<in> set (paths_from k cs) \<Longrightarrow> q \<noteq> [] \<and> k \<le> hd q"
  by (induction cs arbitrary: k) fastforce+

lemma distinct_paths_from:
  "(\<And>c. c \<in> set cs \<Longrightarrow> distinct (paths c)) \<Longrightarrow> distinct (paths_from k cs)"
proof (induction cs arbitrary: k)
  case (Cons c cs)
  have "set (map (Cons k) (paths c)) \<inter> set (paths_from (Suc k) cs) = {}"
    using hd_paths_from [of _ "Suc k" cs] by fastforce
  with Cons show ?case by (simp add: distinct_map)
qed simp

lemma distinct_paths: "distinct (paths d)"
proof (induction d)
  case (Node nn at ds ih cs)
  then have "distinct (paths_from 0 cs)" by (intro distinct_paths_from) auto
  then show ?case using hd_paths_from [of "[]" 0 cs] by auto
qed

subsection \<open>Changing the display of one element\<close>

lemma paths_from_update:
  "i < length cs \<Longrightarrow> paths c = paths (cs ! i) \<Longrightarrow> paths_from k (cs[i := c]) = paths_from k cs"
  by (induction cs arbitrary: i k) (auto split: nat.split)

lemma paths_conv: "paths n = [] # paths_from 0 (childNodes n)"
  by (cases n) simp

lemma paths_update_at:
  assumes "\<And>n. paths (f n) = paths n"
  shows "paths (update_at p f d) = paths d"
proof (induction p arbitrary: d)
  case Nil
  then show ?case by (simp add: assms)
next
  case (Cons i p)
  then show ?case
    by (simp add: paths_conv [of d] paths_conv [of "set_children _ d"] paths_from_update)
qed

lemma paths_set_display [simp]: "paths (set_display_at p v d) = paths d"
  unfolding set_display_at_def
  by (rule paths_update_at) (simp add: paths_conv [of "set_display v _"] paths_conv [symmetric])

lemma node_at_update_at:
  "node_at (update_at p (set_display v) d) q = None \<longleftrightarrow> node_at d q = None"
  using in_paths [of q d] in_paths [of q "set_display_at p v d"]
  by (auto simp: set_display_at_def [symmetric])

definition label :: "node \<Rightarrow> string \<times> (string \<times> string) list \<times> string \<times> nat" where
  "label n = (nodeName n, attrs n, display n, length (childNodes n))"

lemma label_update_at:
  assumes "node_at d p \<noteq> None"
  shows "map_option label (node_at (update_at p (set_display v) d) q) =
         (if q = p then map_option (\<lambda>n. label (set_display v n)) (node_at d q)
          else map_option label (node_at d q))"
  using assms
proof (induction p arbitrary: d q)
  case Nil
  then show ?case by (cases q) simp_all
next
  case (Cons i p)
  then have i: "i < length (childNodes d)" "node_at (childNodes d ! i) p \<noteq> None"
    by (auto split: if_splits)
  show ?case
  proof (cases q)
    case Nil
    with i show ?thesis by (simp add: label_def)
  next
    case (Cons j q')
    with i Cons.IH [OF i(2)] show ?thesis
      by (cases "j = i") auto
  qed
qed

lemma node_at_set_display:
  assumes "p \<in> set (paths d)"
  shows "attr_at (set_display_at p v d) q k = attr_at d q k"
    and "name_at (set_display_at p v d) q = name_at d q"
    and "kids_at (set_display_at p v d) q = kids_at d q"
    and "display_at (set_display_at p v d) q = (if q = p then v else display_at d q)"
proof -
  have p: "node_at d p \<noteq> None" using assms by (simp add: in_paths)
  note lab = label_update_at [OF p, of v q]
  show "attr_at (set_display_at p v d) q k = attr_at d q k"
    "name_at (set_display_at p v d) q = name_at d q"
    "kids_at (set_display_at p v d) q = kids_at d q"
    "display_at (set_display_at p v d) q = (if q = p then v else display_at d q)"
    using lab p
    by (auto simp: attr_at_def name_at_def kids_at_def display_at_def attr_def set_display_at_def label_def
        split: option.splits if_splits)
qed

lemmas set_display_at_simps [dom_simps] = paths_set_display node_at_set_display

lemma getElementById_set_display [dom_simps]:
  "p \<in> set (paths d) \<Longrightarrow> getElementById (set_display_at p v d) i = getElementById d i"
  by (simp add: getElementById_def node_at_set_display)

lemma getElementsByTagName_set_display [dom_simps]:
  "p \<in> set (paths d) \<Longrightarrow> getElementsByTagName (set_display_at p v d) i = getElementsByTagName d i"
  by (simp add: getElementsByTagName_def node_at_set_display)

lemma getElementById_SomeD:
  "getElementById d i = Some p \<Longrightarrow> p \<in> set (paths d) \<and> attr_at d p ''id'' = i"
  by (auto simp: getElementById_def find_Some_iff)

lemma getElementById_None_iff:
  "getElementById d i = None \<longleftrightarrow> (\<forall>p \<in> set (paths d). attr_at d p ''id'' \<noteq> i)"
  by (auto simp: getElementById_def find_None_iff)

lemma getElementById_unique:
  assumes "p \<in> set (paths d)" "attr_at d p ''id'' = i"
    and "\<And>q. q \<in> set (paths d) \<Longrightarrow> attr_at d q ''id'' = i \<Longrightarrow> q = p"
  shows "getElementById d i = Some p"
proof (cases "getElementById d i")
  case None
  with assms(1,2) show ?thesis by (auto simp: getElementById_None_iff)
next
  case (Some q)
  then show ?thesis using assms(3) by (auto dest: getElementById_SomeD)
qed

text \<open>Two documents that differ in displays only.\<close>

definition same_shape :: "node \<Rightarrow> node \<Rightarrow> bool" where
  "same_shape d d' \<longleftrightarrow>
     paths d' = paths d \<and> (\<forall>q k. attr_at d' q k = attr_at d q k) \<and>
     (\<forall>q. name_at d' q = name_at d q) \<and> (\<forall>q. kids_at d' q = kids_at d q)"

lemma same_shape_getElementById: "same_shape d d' \<Longrightarrow> getElementById d' i = getElementById d i"
  by (simp add: same_shape_def getElementById_def)

end
