(* ===== verification/Search_Results.thy ===== *)
theory Search_Results
  imports Dom
begin

text \<open>
  The results page of the documentation search: \<^verbatim>\<open>createResults\<close>, which builds one row per
  index entry, and the class \<^verbatim>\<open>SearchResults\<close> of \<^verbatim>\<open>src/doc/doxy/search/search.js\<close>, which shows
  the rows that match the query and moves the keyboard focus among them.
\<close>

subsection \<open>Building the rows\<close>

text \<open>An element of \<^verbatim>\<open>searchData\<close>: \<^verbatim>\<open>[id, [name, [href, flag, scope], ...]]\<close>.\<close>

type_synonym search_link = "string \<times> nat \<times> string"
type_synonym search_entry = "string \<times> string \<times> search_link list"

definition append_all :: "node list \<Rightarrow> node \<Rightarrow> node" where
  "append_all cs n = foldl (\<lambda>n c. appendChild c n) n cs"

definition setKeyActions :: "node \<Rightarrow> string \<Rightarrow> node" where
  "setKeyActions elem action =
     setAttribute ''onkeyup'' action
       (setAttribute ''onkeypress'' action (setAttribute ''onkeydown'' action elem))"

definition setClassAttr :: "node \<Rightarrow> string \<Rightarrow> node" where
  "setClassAttr elem a = setAttribute ''className'' a (setAttribute ''class'' a elem)"

definition set_target :: "nat \<Rightarrow> node \<Rightarrow> node" where
  "set_target flag n = (if flag \<noteq> 0 then setAttribute ''target'' ''_parent'' n else n)"

definition sr_child :: "nat \<Rightarrow> nat \<Rightarrow> search_link \<Rightarrow> node" where
  "sr_child e c link =
     (case link of (href, flag, scope) \<Rightarrow>
        let srChild = setAttribute ''id'' (''Item'' @ toString10 e @ ''_c'' @ toString10 c) (createElement ''A'');
            srChild = setKeyActions srChild (''return searchResults.NavChild(event,'' @ toString10 e @ '','' @ toString10 c @ '')'');
            srChild = setClassAttr srChild ''SRScope'';
            srChild = setAttribute ''href'' href srChild;
            srChild = set_target flag srChild
        in set_innerHTML scope srChild)"

text \<open>
  The parts of one iteration of the loop of \<^verbatim>\<open>createResults\<close>: the link, the entry with its single
  scope or its children, and the row. The source appends the link to its entry first and sets
  the link's remaining attributes through the same reference afterwards; the row is the same
  when they are set first.
\<close>

definition sr_link :: "nat \<Rightarrow> string \<Rightarrow> node" where
  "sr_link e nm =
     (let srLink = setAttribute ''id'' (''Item'' @ toString10 e) (createElement ''A'');
          srLink = setKeyActions srLink (''return searchResults.Nav(event,'' @ toString10 e @ '')'')
      in set_innerHTML nm (setClassAttr srLink ''SRSymbol''))"

definition sr_children :: "nat \<Rightarrow> search_link list \<Rightarrow> node" where
  "sr_children e links =
     append_all (map (\<lambda>(c, link). sr_child e c link) (enumerate 0 links))
       (setClassAttr (createElement ''DIV'') ''SRChildren'')"

definition sr_entry :: "nat \<Rightarrow> search_entry \<Rightarrow> node" where
  "sr_entry e entry =
     (case entry of (ident, nm, links) \<Rightarrow>
        let srEntry = setClassAttr (createElement ''DIV'') ''SREntry'';
            srLink = sr_link e nm
        in case links of
             [(href, flag, scope)] \<Rightarrow>
               (let srLink = set_target flag (setAttribute ''href'' href srLink);
                    srScope = set_innerHTML scope (setClassAttr (createElement ''SPAN'') ''SRScope'')
                in appendChild srScope (appendChild srLink srEntry))
           | _ \<Rightarrow>
               (let srLink = setAttribute ''href''
                      (''javascript:searchResults.Toggle(\"SR_'' @ ident @ ''\")'') srLink
                in appendChild (sr_children e links) (appendChild srLink srEntry)))"

definition sr_result :: "nat \<Rightarrow> search_entry \<Rightarrow> node" where
  "sr_result e entry =
     (case entry of (ident, nm, links) \<Rightarrow>
        appendChild (sr_entry e entry)
          (setClassAttr (setAttribute ''id'' (''SR_'' @ ident) (createElement ''DIV'')) ''SRResult''))"

definition createResults :: "search_entry list \<Rightarrow> node \<Rightarrow> node" where
  "createResults searchData results =
     append_all (map (\<lambda>(e, entry). sr_result e entry) (enumerate 0 searchData)) results"

subsection \<open>The page\<close>

text \<open>
  The element tree of a results page (\<^verbatim>\<open>all_0.html\<close> and its siblings) around the rows; text
  nodes are left out, no script reads them.
\<close>

definition status_div :: "string \<Rightarrow> string \<Rightarrow> node" where
  "status_div i txt = Node ''DIV'' [(''class'', ''SRStatus''), (''id'', i)] [] txt []"

definition results_document :: "search_entry list \<Rightarrow> node" where
  "results_document searchData =
     Node ''BODY'' [(''class'', ''SRPage'')] [] []
       [Node ''DIV'' [(''id'', ''SRIndex'')] [] []
          [status_div ''Loading'' ''Loading...'',
           createResults searchData (Node ''DIV'' [(''id'', ''SRResults'')] [] [] []),
           Node ''SCRIPT'' [(''type'', ''text/javascript'')] [] [] [],
           status_div ''Searching'' ''Searching...'',
           status_div ''NoMatches'' ''No Matches'',
           Node ''SCRIPT'' [(''type'', ''text/javascript'')] [] [] []]]"

datatype page_error = NullReference

record results =
  doc :: node
  lastMatchCount :: nat
  lastKey :: nat
  repeatOn :: bool
  focused :: "path option"
  parentFieldFocus :: bool
  parentClosed :: bool

definition SearchResults :: "node \<Rightarrow> results" where
  "SearchResults d =
     \<lparr>doc = d, lastMatchCount = 0, lastKey = 0, repeatOn = False, focused = None,
      parentFieldFocus = False, parentClosed = False\<rparr>"

definition set_display_by_id :: "string \<Rightarrow> string \<Rightarrow> node \<Rightarrow> page_error + node" where
  "set_display_by_id i v d =
     (case getElementById d i of None \<Rightarrow> Inl NullReference | Some p \<Rightarrow> Inr (set_display_at p v d))"

subsection \<open>Searching\<close>

text \<open>The search word: the argument, or the query part of the page's URL without its \<^verbatim>\<open>?\<close>.\<close>

definition search_word :: "string option \<Rightarrow> string \<Rightarrow> string option" where
  "search_word search location_search =
     (case search of
        Some (c # s) \<Rightarrow> Some (c # s)
      | _ \<Rightarrow> unescape (drop 1 location_search))"

definition search_id :: "string \<Rightarrow> string" where
  "search_id search = convertToId (toLowerCase (strip_trailing (strip_leading search)))"

definition row_name :: "string \<Rightarrow> string" where
  "row_name ident = strip_sr (toLowerCase ident)"

definition search_step :: "string \<Rightarrow> node \<times> nat \<Rightarrow> path \<Rightarrow> node \<times> nat" where
  "search_step search st row =
     (case st of (d, matches) \<Rightarrow>
        if attr_at d row ''class'' = ''SRResult'' then
          (let rowMatchName = row_name (attr_at d row ''id'')
           in if length search \<le> length rowMatchName \<and>
                 take (length search) rowMatchName = search
              then (set_display_at row ''block'' d, Suc matches)
              else (set_display_at row ''none'' d, matches))
        else (d, matches))"

definition results_Search :: "string \<Rightarrow> results \<Rightarrow> page_error + results" where
  "results_Search word r =
     (let search = search_id word;
          (d, matches) = foldl (search_step search) (doc r, 0) (getElementsByTagName (doc r) ''DIV'')
      in case set_display_by_id ''Searching'' ''none'' d of
           Inl e \<Rightarrow> Inl e
         | Inr d \<Rightarrow>
             (case set_display_by_id ''NoMatches'' (if matches = 0 then ''block'' else ''none'') d of
                Inl e \<Rightarrow> Inl e
              | Inr d \<Rightarrow> Inr (r\<lparr>doc := d, lastMatchCount := matches\<rparr>)))"

text \<open>Loading a results page: build the rows, hide the status lines, search for the URL's word.\<close>

definition load_results :: "search_entry list \<Rightarrow> string \<Rightarrow> page_error + results" where
  "load_results searchData word =
     (case set_display_by_id ''Loading'' ''none'' (results_document searchData) of
        Inl e \<Rightarrow> Inl e
      | Inr d \<Rightarrow>
          (case set_display_by_id ''NoMatches'' ''none'' d of
             Inl e \<Rightarrow> Inl e
           | Inr d \<Rightarrow> results_Search word (SearchResults d)))"

subsection \<open>Searching shows exactly the matching rows\<close>

definition is_row :: "node \<Rightarrow> path \<Rightarrow> bool" where
  "is_row d p \<longleftrightarrow> name_at d p = ''DIV'' \<and> attr_at d p ''class'' = ''SRResult''"

definition row_matches :: "string \<Rightarrow> node \<Rightarrow> path \<Rightarrow> bool" where
  "row_matches s d p \<longleftrightarrow> prefix s (row_name (attr_at d p ''id''))"

lemma search_step_alt:
  "search_step s (d, m) p =
     (if attr_at d p ''class'' = ''SRResult'' then
        (if row_matches s d p then (set_display_at p ''block'' d, Suc m)
         else (set_display_at p ''none'' d, m))
      else (d, m))"
  by (simp add: search_step_def row_matches_def take_length_eq_iff_prefix)

lemma search_fold:
  assumes "set ps \<subseteq> set (paths d)" "distinct ps"
    and "foldl (search_step s) (d, m) ps = (d', m')"
  shows "paths d' = paths d"
    and "attr_at d' q k = attr_at d q k" and "name_at d' q = name_at d q" and "kids_at d' q = kids_at d q"
    and "display_at d' q =
           (if q \<in> set ps \<and> attr_at d q ''class'' = ''SRResult''
            then (if row_matches s d q then ''block'' else ''none'') else display_at d q)"
    and "m' = m + length (filter (\<lambda>p. attr_at d p ''class'' = ''SRResult'' \<and> row_matches s d p) ps)"
proof -
  have "paths d' = paths d \<and> (\<forall>q k. attr_at d' q k = attr_at d q k) \<and> (\<forall>q. name_at d' q = name_at d q) \<and>
        (\<forall>q. kids_at d' q = kids_at d q) \<and>
        (\<forall>q. display_at d' q = (if q \<in> set ps \<and> attr_at d q ''class'' = ''SRResult''
               then (if row_matches s d q then ''block'' else ''none'') else display_at d q)) \<and>
        m' = m + length (filter (\<lambda>p. attr_at d p ''class'' = ''SRResult'' \<and> row_matches s d p) ps)"
    using assms
  proof (induction ps arbitrary: d m)
    case Nil
    then show ?case by simp
  next
    case (Cons p ps)
    define d1 m1 where "d1 = fst (search_step s (d, m) p)" and "m1 = snd (search_step s (d, m) p)"
    have p: "p \<in> set (paths d)" using Cons.prems(1) by simp
    have d1: "paths d1 = paths d" "attr_at d1 q k = attr_at d q k" "name_at d1 q = name_at d q"
      "kids_at d1 q = kids_at d q"
      "display_at d1 q = (if q = p \<and> attr_at d q ''class'' = ''SRResult''
         then (if row_matches s d q then ''block'' else ''none'') else display_at d q)" for q k
      using p by (auto simp: d1_def search_step_alt dom_simps)
    have rm: "row_matches s d1 q = row_matches s d q" for q
      by (simp add: row_matches_def d1(2))
    have "foldl (search_step s) (d1, m1) ps = (d', m')"
      using Cons.prems(3) by (simp add: d1_def m1_def)
    note IH = Cons.IH [OF _ _ this]
    have m1: "m1 = m + (if attr_at d p ''class'' = ''SRResult'' \<and> row_matches s d p then 1 else 0)"
      by (auto simp: m1_def search_step_alt)
    show ?case
      using IH Cons.prems(1,2) by (auto simp: d1 rm m1)
  qed
  then show "paths d' = paths d" "attr_at d' q k = attr_at d q k" "name_at d' q = name_at d q"
    "kids_at d' q = kids_at d q"
    "display_at d' q =
           (if q \<in> set ps \<and> attr_at d q ''class'' = ''SRResult''
            then (if row_matches s d q then ''block'' else ''none'') else display_at d q)"
    "m' = m + length (filter (\<lambda>p. attr_at d p ''class'' = ''SRResult'' \<and> row_matches s d p) ps)"
    by blast+
qed

lemma set_display_by_id_Inr:
  "getElementById d i = Some p \<Longrightarrow> set_display_by_id i v d = Inr (set_display_at p v d)"
  by (simp add: set_display_by_id_def)

text \<open>
  A page ready to be searched: both status lines are there and neither is a row.
\<close>

definition searchable :: "node \<Rightarrow> bool" where
  "searchable d \<longleftrightarrow>
     (\<exists>p. getElementById d ''Searching'' = Some p \<and> \<not> is_row d p) \<and>
     (\<exists>p. getElementById d ''NoMatches'' = Some p \<and> \<not> is_row d p)"

lemma results_Search_ok:
  assumes "searchable (doc r)"
  obtains r' where "results_Search word r = Inr r'"
    and "paths (doc r') = paths (doc r)"
    and "\<And>q k. attr_at (doc r') q k = attr_at (doc r) q k"
    and "\<And>q. name_at (doc r') q = name_at (doc r) q"
    and "\<And>q. kids_at (doc r') q = kids_at (doc r) q"
    and "\<And>q. q \<in> set (paths (doc r)) \<Longrightarrow> is_row (doc r) q \<Longrightarrow>
           display_at (doc r') q = (if row_matches (search_id word) (doc r) q then ''block'' else ''none'')"
    and "lastMatchCount r' =
           length (filter (\<lambda>p. is_row (doc r) p \<and> row_matches (search_id word) (doc r) p) (paths (doc r)))"
    and "\<And>p. getElementById (doc r) ''NoMatches'' = Some p \<Longrightarrow>
           display_at (doc r') p = (if lastMatchCount r' = 0 then ''block'' else ''none'')"
    and "r'\<lparr>doc := doc r, lastMatchCount := lastMatchCount r\<rparr> = r"
proof -
  let ?d = "doc r" and ?s = "search_id word"
  obtain ps pn where ps: "getElementById ?d ''Searching'' = Some ps" "\<not> is_row ?d ps"
    and pn: "getElementById ?d ''NoMatches'' = Some pn" "\<not> is_row ?d pn"
    using assms by (auto simp: searchable_def)
  let ?divs = "getElementsByTagName ?d ''DIV''"
  obtain d1 m where fold: "foldl (search_step ?s) (?d, 0) ?divs = (d1, m)"
    by (cases "foldl (search_step ?s) (?d, 0) ?divs")
  have divs: "set ?divs \<subseteq> set (paths ?d)" "distinct ?divs"
    by (auto simp: getElementsByTagName_def distinct_paths)
  note d1 = search_fold [OF divs fold]
  have id1: "getElementById d1 i = getElementById ?d i" for i
    by (simp add: getElementById_def d1)
  have in1: "ps \<in> set (paths d1)" "pn \<in> set (paths d1)"
    using ps pn by (auto simp: d1(1) dest: getElementById_SomeD)
  define d2 where "d2 = set_display_at ps ''none'' d1"
  have id2: "getElementById d2 i = getElementById ?d i" for i
    using in1 by (simp add: d2_def getElementById_set_display id1)
  define d3 where "d3 = set_display_at pn (if m = 0 then ''block'' else ''none'') d2"
  have in2: "pn \<in> set (paths d2)" using in1 by (simp add: d2_def)
  let ?r = "r\<lparr>doc := d3, lastMatchCount := m\<rparr>"
  have "results_Search word r = Inr ?r"
    using ps pn
    by (simp add: results_Search_def fold Let_def set_display_by_id_Inr id1 id2 d2_def [symmetric] d3_def)
  moreover have keep: "paths d3 = paths ?d" "attr_at d3 q k = attr_at ?d q k" "name_at d3 q = name_at ?d q"
    "kids_at d3 q = kids_at ?d q" for q k
    using in1 in2 by (simp_all add: d3_def d2_def node_at_set_display d1)
  moreover have "display_at d3 q = (if row_matches ?s ?d q then ''block'' else ''none'')"
    if "q \<in> set (paths ?d)" "is_row ?d q" for q
    using that ps pn in1 in2
    by (auto simp: d3_def d2_def node_at_set_display d1(5) is_row_def getElementsByTagName_def)
  moreover have "m = length (filter (\<lambda>p. is_row ?d p \<and> row_matches ?s ?d p) (paths ?d))"
    using d1(6) by (simp add: getElementsByTagName_def is_row_def conj_ac)
  moreover have "display_at d3 pn = (if m = 0 then ''block'' else ''none'')"
    using in2 by (simp add: d3_def node_at_set_display)
  ultimately show ?thesis
    using pn by (intro that [of ?r]) auto
qed

subsection \<open>The rows of a built page\<close>

lemma map_of_attr_update: "map_of (attr_update k v as) = (map_of as)(k \<mapsto> v)"
  by (induction k v as rule: attr_update.induct) auto

lemma attr_ops [dom_simps]:
  "attr k (setAttribute k' v n) = (if k = k' then v else attr k n)"
  "attr k (set_innerHTML v n) = attr k n" "attr k (appendChild c n) = attr k n"
  "attr k (createElement nn) = []"
  by (cases n; simp add: attr_def map_of_attr_update createElement_def)+

lemma node_ops [dom_simps]:
  "nodeName (setAttribute k' v n) = nodeName n" "nodeName (set_innerHTML v n) = nodeName n"
  "nodeName (appendChild c n) = nodeName n" "nodeName (createElement nn) = nn"
  "childNodes (setAttribute k' v n) = childNodes n" "childNodes (set_innerHTML v n) = childNodes n"
  "childNodes (appendChild c n) = childNodes n @ [c]" "childNodes (createElement nn) = []"
  "display (setAttribute k' v n) = display n" "display (set_innerHTML v n) = display n"
  "display (appendChild c n) = display n" "display (createElement nn) = []"
  by (cases n; simp add: createElement_def)+

lemmas sr_ops = setKeyActions_def setClassAttr_def set_target_def

lemma append_all_sel [dom_simps]:
  "childNodes (append_all cs n) = childNodes n @ cs" "nodeName (append_all cs n) = nodeName n"
  "attr k (append_all cs n) = attr k n" "display (append_all cs n) = display n"
  by (induction cs arbitrary: n) (simp_all add: append_all_def dom_simps)

lemma sr_child_sel:
  "nodeName (sr_child e c l) = ''A''" "childNodes (sr_child e c l) = []"
  "attr ''id'' (sr_child e c l) = ''Item'' @ toString10 e @ ''_c'' @ toString10 c"
  by (cases l rule: prod_cases3; simp add: sr_child_def sr_ops Let_def attr_ops node_ops)+

lemma sr_children_sel:
  "nodeName (sr_children e ls) = ''DIV''" "attr ''class'' (sr_children e ls) = ''SRChildren''"
  "attr ''id'' (sr_children e ls) = []" "display (sr_children e ls) = []"
  "childNodes (sr_children e ls) = map (\<lambda>(c, l). sr_child e c l) (enumerate 0 ls)"
  by (simp_all add: sr_children_def sr_ops dom_simps)

lemma sr_link_sel:
  "nodeName (sr_link e nm) = ''A''" "childNodes (sr_link e nm) = []"
  "attr ''id'' (sr_link e nm) = ''Item'' @ toString10 e"
  by (simp_all add: sr_link_def sr_ops dom_simps)

definition single_link :: "search_entry \<Rightarrow> bool" where
  "single_link entry \<longleftrightarrow> length (snd (snd entry)) = 1"

text \<open>The two children of an entry: its link, and a scope or the list of children.\<close>

lemma sr_entry_single:
  "sr_entry e (ident, nm, [(href, flag, scope)]) =
     appendChild (set_innerHTML scope (setClassAttr (createElement ''SPAN'') ''SRScope''))
       (appendChild (set_target flag (setAttribute ''href'' href (sr_link e nm)))
          (setClassAttr (createElement ''DIV'') ''SREntry''))"
  by (simp add: sr_entry_def)

definition toggle_href :: "string \<Rightarrow> string" where
  "toggle_href ident = ''javascript:searchResults.Toggle(\"SR_'' @ ident @ ''\")''"

lemma sr_entry_multi:
  assumes "length links \<noteq> 1"
  shows "sr_entry e (ident, nm, links) =
     appendChild (sr_children e links)
       (appendChild (setAttribute ''href'' (toggle_href ident) (sr_link e nm))
          (setClassAttr (createElement ''DIV'') ''SREntry''))"
proof (cases links)
  case (Cons l ls)
  with assms obtain l' ls' where "ls = l' # ls'" by (cases ls) auto
  with Cons show ?thesis by (cases l) (simp add: sr_entry_def toggle_href_def)
qed (simp add: sr_entry_def toggle_href_def)

lemma sr_entry_cases:
  obtains (single) ident nm href flag scope where
      "entry = (ident, nm, [(href, flag, scope)])" "single_link entry"
  | (multi) ident nm links where "entry = (ident, nm, links)" "length links \<noteq> 1" "\<not> single_link entry"
  by (cases entry) (auto simp: single_link_def length_Suc_conv)

lemma sr_entry_sel:
  "nodeName (sr_entry e entry) = ''DIV''" "attr ''class'' (sr_entry e entry) = ''SREntry''"
  "attr ''id'' (sr_entry e entry) = []"
  by (cases rule: sr_entry_cases [of entry];
      simp add: sr_entry_single sr_entry_multi setClassAttr_def dom_simps)+

lemma sr_entry_children:
  obtains l x where "childNodes (sr_entry e entry) = [l, x]"
    and "nodeName l = ''A''" "childNodes l = []" "attr ''id'' l = ''Item'' @ toString10 e"
    and "if single_link entry then nodeName x = ''SPAN'' \<and> childNodes x = [] \<and> attr ''id'' x = []
         else x = sr_children e (snd (snd entry))"
proof (cases rule: sr_entry_cases [of entry])
  case (single ident nm href flag scope)
  show ?thesis
    by (rule that [of "set_target flag (setAttribute ''href'' href (sr_link e nm))"
          "set_innerHTML scope (setClassAttr (createElement ''SPAN'') ''SRScope'')"])
      (use single(2) in \<open>simp_all add: single(1) sr_entry_single sr_ops dom_simps sr_link_sel\<close>)
next
  case (multi ident nm links)
  show ?thesis
    by (rule that [of "setAttribute ''href'' (toggle_href ident) (sr_link e nm)" "sr_children e links"])
      (use multi(3) in \<open>simp_all add: multi(1) sr_entry_multi [OF multi(2)] setClassAttr_def dom_simps sr_link_sel\<close>)
qed

lemma sr_result_sel:
  "nodeName (sr_result e entry) = ''DIV''" "attr ''class'' (sr_result e entry) = ''SRResult''"
  "attr ''id'' (sr_result e entry) = ''SR_'' @ fst entry"
  "childNodes (sr_result e entry) = [sr_entry e entry]"
  by (cases entry; simp add: sr_result_def sr_ops dom_simps)+

text \<open>Every node below a row, with its path.\<close>

lemma node_at_sr_result:
  assumes "node_at (sr_result e entry) q = Some n"
  shows "(q = [] \<and> n = sr_result e entry) \<or> (q = [0] \<and> n = sr_entry e entry) \<or>
         (q = [0, 0] \<and> nodeName n = ''A'' \<and> attr ''id'' n = ''Item'' @ toString10 e) \<or>
         (q = [0, 1] \<and> single_link entry \<and> nodeName n = ''SPAN'' \<and> attr ''id'' n = []) \<or>
         (q = [0, 1] \<and> \<not> single_link entry \<and> n = sr_children e (snd (snd entry))) \<or>
         (\<exists>c < length (snd (snd entry)). q = [0, 1, c] \<and> \<not> single_link entry \<and>
            n = sr_child e c (snd (snd entry) ! c))"
proof -
  obtain l x where ch: "childNodes (sr_entry e entry) = [l, x]"
    and l: "nodeName l = ''A''" "childNodes l = []" "attr ''id'' l = ''Item'' @ toString10 e"
    and x: "if single_link entry then nodeName x = ''SPAN'' \<and> childNodes x = [] \<and> attr ''id'' x = []
            else x = sr_children e (snd (snd entry))"
    by (rule sr_entry_children)
  consider "q = []" | "q = [0]" | r where "q = 0 # 0 # r" | r where "q = 0 # 1 # r"
    using assms ch
    by (cases q; cases "tl q") (auto simp: sr_result_sel less_Suc_eq split: if_splits)
  then show ?thesis
  proof cases
    case (3 r)
    with assms ch l show ?thesis by (cases r) (auto simp: sr_result_sel)
  next
    case (4 r)
    then have n: "node_at x r = Some n" using assms ch by (simp add: sr_result_sel)
    show ?thesis
    proof (cases r)
      case Nil
      with 4 n x show ?thesis by (auto split: if_splits)
    next
      case (Cons c r')
      with n x have ns: "\<not> single_link entry" "x = sr_children e (snd (snd entry))"
        by (auto split: if_splits)
      with n Cons have "c < length (snd (snd entry))" "node_at (sr_child e c (snd (snd entry) ! c)) r' = Some n"
        by (auto simp: sr_children_sel nth_enumerate_eq split: if_splits)
      moreover from this have "r' = []"
        by (cases r') (auto simp: sr_child_sel)
      ultimately show ?thesis using 4 Cons ns by simp
    qed
  qed (use assms in \<open>simp_all add: sr_result_sel\<close>)
qed

lemma node_at_row:
  "node_at (results_document searchData) (0 # Suc 0 # e # q) =
     (if e < length searchData then node_at (sr_result e (searchData ! e)) q else None)"
  by (simp add: results_document_def createResults_def dom_simps nth_enumerate_eq)

text \<open>A node of a results page is a node of one of the rows, or belongs to the page's frame.\<close>

lemma results_document_cases:
  assumes "node_at (results_document searchData) p = Some n"
  obtains (row) e q where "p = 0 # Suc 0 # e # q" "e < length searchData"
      "node_at (sr_result e (searchData ! e)) q = Some n"
  | (frame) "attr ''class'' n \<noteq> ''SRResult''"
      "attr ''id'' n \<in> {[], ''SRIndex'', ''Loading'', ''SRResults'', ''Searching'', ''NoMatches''}"
      "attr ''id'' n = ''Searching'' \<longleftrightarrow> p = [0, 3]" "attr ''id'' n = ''NoMatches'' \<longleftrightarrow> p = [0, 4]"
      "attr ''id'' n = ''Loading'' \<longleftrightarrow> p = [0, 0]"
proof -
  consider "p = []" | "p = [0]" | "p = [0, 0]" | "p = [0, 1]" | "p = [0, 2]" | "p = [0, 3]" | "p = [0, 4]"
    | "p = [0, 5]" | e q where "p = 0 # 1 # e # q"
  proof -
    from assms consider "p = []" | "p = [0]" | k r where "p = 0 # k # r" "k < 6"
      by (cases p; cases "tl p") (auto simp: results_document_def split: if_splits)
    then show ?thesis
    proof cases
      case (3 k r)
      then have "k = 0 \<or> k = 1 \<or> k = 2 \<or> k = 3 \<or> k = 4 \<or> k = 5" by arith
      with 3 assms show ?thesis
        by (cases r) (auto simp: results_document_def status_div_def intro: that)
    qed (auto intro: that)
  qed
  then show ?thesis
  proof cases
    case (9 e q)
    with assms show ?thesis
      by (intro row [of e q]) (auto simp: node_at_row simp del: node_at.simps(2) split: if_splits)
  qed (use assms in \<open>auto intro!: frame simp: results_document_def status_div_def createResults_def
         attr_def dom_simps append_all_sel(3) [unfolded attr_def]\<close>)
qed

abbreviation row_path :: "nat \<Rightarrow> path" where
  "row_path e \<equiv> [0, Suc 0, e]"

lemma is_row_results_document:
  assumes "p \<in> set (paths (results_document searchData))"
  shows "is_row (results_document searchData) p \<longleftrightarrow> (\<exists>e < length searchData. p = (row_path e))"
proof -
  obtain n where n: "node_at (results_document searchData) p = Some n"
    using assms by (auto simp: in_paths)
  then have row: "is_row (results_document searchData) p \<longleftrightarrow> nodeName n = ''DIV'' \<and> attr ''class'' n = ''SRResult''"
    by (simp add: is_row_def name_at_def attr_at_def)
  from n show ?thesis
  proof (cases rule: results_document_cases)
    case (row e q)
    from node_at_sr_result [OF row(3)] show ?thesis
      using row(1,2) \<open>is_row _ p \<longleftrightarrow> _\<close>
      by (auto simp: sr_result_sel sr_entry_sel sr_children_sel sr_child_sel)
  next
    case frame
    then show ?thesis
      using n row by (auto simp: node_at_row sr_result_sel simp del: node_at.simps(2))
  qed
qed

lemma row_in_paths: "e < length searchData \<Longrightarrow> (row_path e) \<in> set (paths (results_document searchData))"
  by (simp add: in_paths node_at_row del: node_at.simps(2))

lemma row_id:
  "e < length searchData \<Longrightarrow> attr_at (results_document searchData) (row_path e) ''id'' = ''SR_'' @ fst (searchData ! e)"
  by (simp add: attr_at_def node_at_row sr_result_sel del: node_at.simps(2))

lemma toLowerCase_SR: "toLowerCase (''SR_'' @ s) = ''sr_'' @ toLowerCase s"
proof -
  have "map lower_char ''SR_'' = ''sr_''" by code_simp
  then show ?thesis by (simp add: toLowerCase_def)
qed

lemma row_name_SR: "row_name (CHR ''S'' # CHR ''R'' # CHR ''_'' # s) = toLowerCase s"
  using toLowerCase_SR [of s] by (simp add: row_name_def)

subsection \<open>Loading a page is a prefix search on the names\<close>

text \<open>The identifier of an index entry is the converted lower-case name.\<close>

definition index_entry_ok :: "search_entry \<Rightarrow> bool" where
  "index_entry_ok entry \<longleftrightarrow> fst entry = convertToId (toLowerCase (fst (snd entry)))"

definition name_matches :: "string \<Rightarrow> search_entry \<Rightarrow> bool" where
  "name_matches word entry \<longleftrightarrow>
     prefix (toLowerCase (strip_trailing (strip_leading word))) (toLowerCase (fst (snd entry)))"

lemma lower_char_idem: "lower_char (lower_char c) = lower_char c"
  by (simp add: lower_char_def Let_def)

lemma lower_char_hexdigit: "n < 16 \<Longrightarrow> lower_char (hexdigit n) = hexdigit n"
  by (simp add: lower_char_def hexdigit_def Let_def)

lemma lower_id_code: "map lower_char (id_code (lower_char c)) = id_code (lower_char c)"
proof (cases "id_char (lower_char c)")
  case True
  then show ?thesis by (simp add: id_code_plain lower_char_idem)
next
  case False
  have "lower_char (CHR ''_'') = CHR ''_''" by code_simp
  moreover have "charCodeAt0 (lower_char c) div 16 < (16::nat)"
    using char_code_less [of "lower_char c"] by (simp add: less_mult_imp_div_less)
  ultimately show ?thesis
    using False by (simp add: id_code_escaped lower_char_hexdigit)
qed

lemma toLowerCase_convertToId: "toLowerCase (convertToId (toLowerCase s)) = convertToId (toLowerCase s)"
  by (induction s) (simp_all add: toLowerCase_def lower_id_code)

lemma row_matches_entry:
  assumes "e < length searchData" "index_entry_ok (searchData ! e)"
  shows "row_matches (search_id word) (results_document searchData) (row_path e) \<longleftrightarrow>
         name_matches word (searchData ! e)"
  using assms
  by (simp add: row_matches_def row_id row_name_SR index_entry_ok_def toLowerCase_convertToId
      search_id_def convertToId_prefix_iff name_matches_def)

lemma rows_count:
  "length (filter (\<lambda>p. is_row (results_document searchData) p \<and> P p) (paths (results_document searchData)))
   = length (filter (\<lambda>e. P (row_path e)) [0..<length searchData])"
proof -
  let ?d = "results_document searchData"
  have "length (filter (\<lambda>p. is_row ?d p \<and> P p) (paths ?d)) =
        card (set (filter (\<lambda>p. is_row ?d p \<and> P p) (paths ?d)))"
    by (rule distinct_card [symmetric]) (simp add: distinct_paths)
  also have "set (filter (\<lambda>p. is_row ?d p \<and> P p) (paths ?d)) =
        (\<lambda>e. (row_path e)) ` {e. e < length searchData \<and> P (row_path e)}"
    using row_in_paths is_row_results_document by fastforce
  also have "card \<dots> = card {e. e < length searchData \<and> P (row_path e)}"
    by (rule card_image) (simp add: inj_on_def)
  also have "\<dots> = length (filter (\<lambda>e. P (row_path e)) [0..<length searchData])"
    by (simp add: distinct_length_filter Int_def conj_commute atLeast0LessThan lessThan_def)
  finally show ?thesis .
qed

lemma status_elements:
  "getElementById (results_document searchData) ''Loading'' = Some [0, 0]"
  "getElementById (results_document searchData) ''Searching'' = Some [0, 3]"
  "getElementById (results_document searchData) ''NoMatches'' = Some [0, 4]"
proof -
  have other: "attr ''id'' n \<notin> {''Loading'', ''Searching'', ''NoMatches''}"
    if "node_at (sr_result e entry) q = Some n" for e entry q n
    using node_at_sr_result [OF that]
    by (auto simp: sr_result_sel sr_entry_sel sr_children_sel sr_child_sel)
  have at: "node_at (results_document searchData) [0, 0] = Some (status_div ''Loading'' ''Loading...'')"
    "node_at (results_document searchData) [0, 3] = Some (status_div ''Searching'' ''Searching...'')"
    "node_at (results_document searchData) [0, 4] = Some (status_div ''NoMatches'' ''No Matches'')"
    by (simp_all add: results_document_def)
  have uniq: "q = p" if q: "q \<in> set (paths (results_document searchData))"
      "attr_at (results_document searchData) q ''id'' = i" and ip: "(i, p) \<in> {(''Loading'', [0, 0]), (''Searching'', [0, 3]), (''NoMatches'', [0, 4])}"
    for i p q
  proof -
    obtain n where n: "node_at (results_document searchData) q = Some n"
      using q(1) by (auto simp: in_paths)
    then have idn: "attr ''id'' n = i" using q(2) by (simp add: attr_at_def)
    from n show ?thesis
    proof (cases rule: results_document_cases)
      case (row e r)
      from other [OF row(3)] idn ip show ?thesis by auto
    next
      case frame
      with idn ip show ?thesis by auto
    qed
  qed
  show "getElementById (results_document searchData) ''Loading'' = Some [0, 0]"
    "getElementById (results_document searchData) ''Searching'' = Some [0, 3]"
    "getElementById (results_document searchData) ''NoMatches'' = Some [0, 4]"
    by (rule getElementById_unique; use uniq at in \<open>auto simp: in_paths attr_at_def status_div_def attr_def simp del: node_at.simps(2)\<close>)+
qed

lemma load_results_page:
  assumes ok: "list_all index_entry_ok searchData"
  shows "\<exists>r. load_results searchData word = Inr r \<and> same_shape (results_document searchData) (doc r) \<and>
    (\<forall>e < length searchData. display_at (doc r) (row_path e) =
       (if name_matches word (searchData ! e) then ''block'' else ''none'')) \<and>
    lastMatchCount r = length (filter (name_matches word) searchData) \<and>
    display_at (doc r) [0, 4] = (if lastMatchCount r = 0 then ''block'' else ''none'')"
proof -
  let ?d = "results_document searchData"
  define d1 where "d1 = set_display_at [0, 4] ''none'' (set_display_at [0, 0] ''none'' ?d)"
  note ids = status_elements [of searchData]
  have p: "[0, 0] \<in> set (paths ?d)" "[0, 3] \<in> set (paths ?d)" "[0, 4] \<in> set (paths ?d)"
    using ids [THEN getElementById_SomeD] by auto
  have keep: "paths d1 = paths ?d" "attr_at d1 q k = attr_at ?d q k" "name_at d1 q = name_at ?d q"
    "kids_at d1 q = kids_at ?d q" for q k
    using p by (simp_all add: d1_def dom_simps)
  have id1: "getElementById d1 i = getElementById ?d i" for i
    by (simp add: getElementById_def keep)
  have rows: "is_row d1 q = is_row ?d q" and rm: "row_matches s d1 q = row_matches s ?d q" for q s
    by (simp_all add: is_row_def row_matches_def keep)
  have load: "load_results searchData word = results_Search word (SearchResults d1)"
    using p by (simp add: load_results_def set_display_by_id_Inr ids getElementById_set_display d1_def)
  have "searchable (doc (SearchResults d1))"
    using is_row_results_document [OF p(2)] is_row_results_document [OF p(3)]
    by (simp add: searchable_def SearchResults_def id1 ids rows)
  then obtain r where r: "results_Search word (SearchResults d1) = Inr r"
    and shape: "paths (doc r) = paths d1" "\<And>q k. attr_at (doc r) q k = attr_at d1 q k"
      "\<And>q. name_at (doc r) q = name_at d1 q" "\<And>q. kids_at (doc r) q = kids_at d1 q"
    and disp: "\<And>q. q \<in> set (paths d1) \<Longrightarrow> is_row d1 q \<Longrightarrow>
          display_at (doc r) q = (if row_matches (search_id word) d1 q then ''block'' else ''none'')"
    and cnt: "lastMatchCount r = length (filter (\<lambda>p. is_row d1 p \<and> row_matches (search_id word) d1 p) (paths d1))"
    and nom: "\<And>p. getElementById d1 ''NoMatches'' = Some p \<Longrightarrow>
          display_at (doc r) p = (if lastMatchCount r = 0 then ''block'' else ''none'')"
    by (rule results_Search_ok [of "SearchResults d1" word]) (simp add: SearchResults_def)
  have match: "row_matches (search_id word) ?d (row_path e) \<longleftrightarrow> name_matches word (searchData ! e)"
    if "e < length searchData" for e
    using that ok by (intro row_matches_entry) (simp_all add: list_all_length)
  have "lastMatchCount r = length (filter (\<lambda>e. row_matches (search_id word) ?d (row_path e)) [0..<length searchData])"
    using cnt by (simp add: rows rm keep rows_count)
  also have "\<dots> = length (filter (\<lambda>e. name_matches word (searchData ! e)) [0..<length searchData])"
    by (intro arg_cong [where f = length] filter_cong) (auto simp: match)
  also have "\<dots> = length (filter (name_matches word) (map ((!) searchData) [0..<length searchData]))"
    by (simp add: filter_map comp_def)
  finally have "lastMatchCount r = length (filter (name_matches word) searchData)"
    by (simp add: map_nth)
  moreover have "display_at (doc r) (row_path e) = (if name_matches word (searchData ! e) then ''block'' else ''none'')"
    if e: "e < length searchData" for e
    using disp [of "row_path e"] row_in_paths [OF e] is_row_results_document [OF row_in_paths [OF e]] e
    by (simp add: keep rows rm match)
  ultimately show ?thesis
    using load r nom [of "[0, 4]"] by (simp add: id1 ids same_shape_def shape keep)
qed

subsection \<open>Properties\<close>

text \<open>
  (C27) Loading a page of the index with a search word succeeds and shows exactly the rows of the
  entries whose name starts with the word (spaces at both ends dropped, case ignored), hides
  every other row, counts the matches, and shows the \<^verbatim>\<open>NoMatches\<close> line exactly when there is
  none.
\<close>

theorem load_results_exact:
  assumes "list_all index_entry_ok searchData"
  shows "\<exists>r. load_results searchData word = Inr r \<and>
    (\<forall>e < length searchData. display_at (doc r) (row_path e) =
       (if name_matches word (searchData ! e) then ''block'' else ''none'')) \<and>
    lastMatchCount r = length (filter (name_matches word) searchData) \<and>
    display_at (doc r) [0, 4] = (if lastMatchCount r = 0 then ''block'' else ''none'')"
  using load_results_page [OF assms, of word] by blast

theorem load_results_exact_witness:
  "\<exists>r. load_results [(''cb'', ''CB'', [(''x.html'', 1, [])])] '' C'' = Inr r \<and>
       display_at (doc r) (row_path 0) = ''block'' \<and> lastMatchCount r = Suc 0 \<and>
       display_at (doc r) [0, 4] = ''none''"
proof -
  have ok: "list_all index_entry_ok [(''cb'', ''CB'', [(''x.html'', 1, [])])]" by code_simp
  have m: "name_matches '' C'' (''cb'', ''CB'', [(''x.html'', 1, [])]) = True" by code_simp
  show ?thesis
    using load_results_exact [OF ok, of "'' C''"] m by (auto simp del: One_nat_def)
qed

end
