(* ===== verification/Search_Nav.thy ===== *)
theory Search_Nav
  imports Search_Results
begin

text \<open>
  Opening rows and moving the keyboard focus on a results page: \<^verbatim>\<open>FindChildElement\<close>, \<^verbatim>\<open>Toggle\<close>,
  \<^verbatim>\<open>NavNext\<close>, \<^verbatim>\<open>NavPrev\<close>, \<^verbatim>\<open>ProcessKeys\<close>, \<^verbatim>\<open>Nav\<close> and \<^verbatim>\<open>NavChild\<close> of the class
  \<^verbatim>\<open>SearchResults\<close> in \<^verbatim>\<open>src/doc/doxy/search/search.js\<close>. The loops walk the document and take
  fuel; \<open>doc_fuel\<close>, one more than the number of elements, is shown to be enough for each.
\<close>

definition doc_fuel :: "node \<Rightarrow> nat" where
  "doc_fuel d = Suc (length (paths d))"

subsection \<open>FindChildElement and Toggle\<close>

fun climb :: "node \<Rightarrow> path \<Rightarrow> path \<Rightarrow> path option" where
  "climb d par el =
     (if el = [] then None
      else if butlast el \<noteq> par \<and> \<not> has_next d (butlast el) then climb d par (butlast el)
      else Some (butlast el))"

declare climb.simps [simp del]

definition is_children_div :: "node \<Rightarrow> path \<Rightarrow> bool" where
  "is_children_div d el \<longleftrightarrow> name_at d el = ''DIV'' \<and> attr_at d el ''class'' = ''SRChildren''"

fun find_child_loop :: "nat \<Rightarrow> node \<Rightarrow> path \<Rightarrow> path option \<Rightarrow> path option option" where
  "find_child_loop 0 d par element = None"
| "find_child_loop (Suc k) d par None = Some None"
| "find_child_loop (Suc k) d par (Some el) =
     (if el = par then Some None
      else if is_children_div d el then Some (Some el)
      else if name_at d el = ''DIV'' \<and> 0 < kids_at d el then find_child_loop k d par (Some (el @ [0]))
      else if has_next d el then find_child_loop k d par (Some (nextSibling el))
      else (case climb d par el of
              None \<Rightarrow> find_child_loop k d par None
            | Some el' \<Rightarrow> find_child_loop k d par (Some (if el' \<noteq> par then nextSibling el' else el'))))"

definition FindChildElement :: "node \<Rightarrow> string \<Rightarrow> (page_error + path option) option" where
  "FindChildElement d i =
     (case getElementById d i of
        None \<Rightarrow> Some (Inl NullReference)
      | Some par \<Rightarrow>
          map_option Inr
            (find_child_loop (doc_fuel d) d par (if 0 < kids_at d par then Some (par @ [0]) else None)))"

definition Toggle :: "string \<Rightarrow> results \<Rightarrow> (page_error + results) option" where
  "Toggle i r =
     map_option
       (\<lambda>res. case res of
          Inl e \<Rightarrow> Inl e
        | Inr None \<Rightarrow> Inr r
        | Inr (Some el) \<Rightarrow>
            Inr (r\<lparr>doc := set_display_at el
                     (if display_at (doc r) el = ''block'' then ''none'' else ''block'') (doc r)\<rparr>))
       (FindChildElement (doc r) i)"

subsection \<open>Moving among the items\<close>

definition item_id :: "int \<Rightarrow> string" where
  "item_id index = ''Item'' @ intToString index"

definition child_id :: "int \<Rightarrow> nat \<Rightarrow> string" where
  "child_id index c = ''Item'' @ intToString index @ ''_c'' @ toString10 c"

definition item_visible :: "node \<Rightarrow> path \<Rightarrow> bool" where
  "item_visible d item \<longleftrightarrow> display_at d (butlast (butlast item)) = ''block''"

text \<open>The common loop of \<^verbatim>\<open>NavNext\<close> (step 1) and \<^verbatim>\<open>NavPrev\<close> (step -1).\<close>

fun nav_loop :: "nat \<Rightarrow> node \<Rightarrow> int \<Rightarrow> int \<Rightarrow> path option option" where
  "nav_loop 0 d step index = None"
| "nav_loop (Suc k) d step index =
     (case getElementById d (item_id index) of
        None \<Rightarrow> Some None
      | Some focusItem \<Rightarrow>
          if item_visible d focusItem then Some (Some focusItem)
          else nav_loop k d step (index + step))"

definition NavNext :: "node \<Rightarrow> int \<Rightarrow> path option option" where
  "NavNext d index = nav_loop (doc_fuel d) d 1 index"

definition NavPrev :: "node \<Rightarrow> int \<Rightarrow> path option option" where
  "NavPrev d index = nav_loop (doc_fuel d) d (- 1) index"

subsection \<open>Keys\<close>

datatype key_type = KeyDown | KeyPress | KeyUp | OtherKeyEvent

fun ProcessKeys :: "key_type \<Rightarrow> nat \<Rightarrow> results \<Rightarrow> bool \<times> results" where
  "ProcessKeys KeyDown keyCode r =
     (let r = r\<lparr>repeatOn := False, lastKey := keyCode\<rparr> in (lastKey r \<noteq> 0, r))"
| "ProcessKeys KeyPress keyCode r =
     (if \<not> repeatOn r
      then (False, if lastKey r \<noteq> 0 then r\<lparr>repeatOn := True\<rparr> else r)
      else (lastKey r \<noteq> 0, r))"
| "ProcessKeys KeyUp keyCode r =
     (let r = r\<lparr>lastKey := 0, repeatOn := False\<rparr> in (lastKey r \<noteq> 0, r))"
| "ProcessKeys OtherKeyEvent keyCode r = (lastKey r \<noteq> 0, r)"

text \<open>The inner loop of the Up key: the last of the children named \<^verbatim>\<open>Item<n>_c0, _c1, ...\<close>.\<close>

fun last_child_loop :: "nat \<Rightarrow> node \<Rightarrow> int \<Rightarrow> nat \<Rightarrow> path \<Rightarrow> path option" where
  "last_child_loop 0 d newIndex n focusItem = None"
| "last_child_loop (Suc k) d newIndex n focusItem =
     (case getElementById d (child_id newIndex n) of
        Some tmpElem \<Rightarrow> last_child_loop k d newIndex (Suc n) tmpElem
      | None \<Rightarrow> Some focusItem)"

definition grandparent_id :: "node \<Rightarrow> path \<Rightarrow> string" where
  "grandparent_id d item = attr_at d (butlast (butlast item)) ''id''"

definition block_children :: "node \<Rightarrow> path option \<Rightarrow> bool" where
  "block_children d child = (case child of None \<Rightarrow> False | Some c \<Rightarrow> display_at d c = ''block'')"

definition focus_opt :: "path option \<Rightarrow> results \<Rightarrow> results" where
  "focus_opt f r = (case f of None \<Rightarrow> r | Some p \<Rightarrow> r\<lparr>focused := Some p\<rparr>)"

definition nav_up :: "int \<Rightarrow> results \<Rightarrow> (page_error + results) option" where
  "nav_up itemIndex r =
     (let newIndex = itemIndex - 1; d = doc r in
      case NavPrev d newIndex of
        None \<Rightarrow> None
      | Some None \<Rightarrow> Some (Inr (r\<lparr>parentFieldFocus := True\<rparr>))
      | Some (Some focusItem) \<Rightarrow>
          (case FindChildElement d (grandparent_id d focusItem) of
             None \<Rightarrow> None
           | Some (Inl e) \<Rightarrow> Some (Inl e)
           | Some (Inr child) \<Rightarrow>
               (if block_children d child
                then map_option (\<lambda>f. Inr (r\<lparr>focused := Some f\<rparr>))
                       (last_child_loop (doc_fuel d) d newIndex 0 focusItem)
                else Some (Inr (r\<lparr>focused := Some focusItem\<rparr>)))))"

text \<open>The element the Down, Right and Left keys look up: the children of the current item's row.\<close>

definition item_children :: "node \<Rightarrow> int \<Rightarrow> (page_error + path option) option" where
  "item_children d itemIndex =
     (case getElementById d (item_id itemIndex) of
        None \<Rightarrow> Some (Inl NullReference)
      | Some item \<Rightarrow> FindChildElement d (grandparent_id d item))"

definition nav_down :: "int \<Rightarrow> results \<Rightarrow> (page_error + results) option" where
  "nav_down itemIndex r =
     (let newIndex = itemIndex + 1; d = doc r in
      case item_children d itemIndex of
        None \<Rightarrow> None
      | Some (Inl e) \<Rightarrow> Some (Inl e)
      | Some (Inr elem) \<Rightarrow>
          (case (if block_children d elem then getElementById d (child_id itemIndex 0) else None) of
             Some f \<Rightarrow> Some (Inr (focus_opt (Some f) r))
           | None \<Rightarrow> map_option (\<lambda>f. Inr (focus_opt f r)) (NavNext d newIndex)))"

definition nav_set :: "string \<Rightarrow> int \<Rightarrow> results \<Rightarrow> (page_error + results) option" where
  "nav_set v itemIndex r =
     map_option
       (\<lambda>res. case res of
          Inl e \<Rightarrow> Inl e
        | Inr None \<Rightarrow> Inr r
        | Inr (Some elem) \<Rightarrow> Inr (r\<lparr>doc := set_display_at elem v (doc r)\<rparr>))
       (item_children (doc r) itemIndex)"

definition nav_escape :: "results \<Rightarrow> results" where
  "nav_escape r = r\<lparr>parentClosed := True, parentFieldFocus := True\<rparr>"

definition returning :: "bool \<Rightarrow> (page_error + results) option \<Rightarrow> (page_error + bool \<times> results) option" where
  "returning b res = map_option (map_sum id (Pair b)) res"

definition Nav :: "key_type \<Rightarrow> nat \<Rightarrow> int \<Rightarrow> results \<Rightarrow> (page_error + bool \<times> results) option" where
  "Nav ty keyCode itemIndex r =
     (if keyCode = 13 then Some (Inr (True, r))
      else case ProcessKeys ty keyCode r of
        (False, r) \<Rightarrow> Some (Inr (False, r))
      | (True, r) \<Rightarrow>
          if lastKey r = 38 then returning False (nav_up itemIndex r)
          else if lastKey r = 40 then returning False (nav_down itemIndex r)
          else if lastKey r = 39 then returning False (nav_set ''block'' itemIndex r)
          else if lastKey r = 37 then returning False (nav_set ''none'' itemIndex r)
          else if lastKey r = 27 then Some (Inr (False, nav_escape r))
          else if lastKey r = 13 then Some (Inr (True, r))
          else Some (Inr (False, r)))"

definition focus_by_id :: "string \<Rightarrow> results \<Rightarrow> page_error + results" where
  "focus_by_id i r =
     (case getElementById (doc r) i of None \<Rightarrow> Inl NullReference | Some p \<Rightarrow> Inr (r\<lparr>focused := Some p\<rparr>))"

definition NavChild :: "key_type \<Rightarrow> nat \<Rightarrow> int \<Rightarrow> nat \<Rightarrow> results \<Rightarrow> (page_error + bool \<times> results) option" where
  "NavChild ty keyCode itemIndex childIndex r =
     (if keyCode = 13 then Some (Inr (True, r))
      else case ProcessKeys ty keyCode r of
        (False, r) \<Rightarrow> Some (Inr (False, r))
      | (True, r) \<Rightarrow>
          if lastKey r = 38 then
            returning False (Some (if childIndex > 0 then focus_by_id (child_id itemIndex (childIndex - 1)) r
                                   else focus_by_id (item_id itemIndex) r))
          else if lastKey r = 40 then
            (case getElementById (doc r) (child_id itemIndex (Suc childIndex)) of
               Some elem \<Rightarrow> Some (Inr (False, focus_opt (Some elem) r))
             | None \<Rightarrow> returning False (map_option (\<lambda>f. Inr (focus_opt f r)) (NavNext (doc r) (itemIndex + 1))))
          else if lastKey r = 27 then Some (Inr (False, nav_escape r))
          else if lastKey r = 13 then Some (Inr (True, r))
          else Some (Inr (False, r)))"

subsection \<open>FindChildElement is a search in document order\<close>

text \<open>
  The reference: the first \<^verbatim>\<open>DIV\<close> of class \<^verbatim>\<open>SRChildren\<close> in document order, where only \<^verbatim>\<open>DIV\<close>
  elements are entered; \<open>visits\<close> counts the iterations a search without success takes.
\<close>

definition children_div :: "node \<Rightarrow> bool" where
  "children_div n \<longleftrightarrow> nodeName n = ''DIV'' \<and> attr ''class'' n = ''SRChildren''"

fun div_search :: "node \<Rightarrow> path option"
  and div_search_list :: "nat \<Rightarrow> node list \<Rightarrow> path option" where
  "div_search (Node nn at ds ih cs) =
     (if children_div (Node nn at ds ih cs) then Some []
      else if nn = ''DIV'' then div_search_list 0 cs else None)"
| "div_search_list i [] = None"
| "div_search_list i (c # cs) =
     (case div_search c of Some p \<Rightarrow> Some (i # p) | None \<Rightarrow> div_search_list (Suc i) cs)"

fun visits :: "node \<Rightarrow> nat"
  and visits_list :: "node list \<Rightarrow> nat" where
  "visits (Node nn at ds ih cs) = Suc (if nn = ''DIV'' then visits_list cs else 0)"
| "visits_list [] = 0"
| "visits_list (c # cs) = visits c + visits_list cs"

lemma visits_paths: "visits n \<le> length (paths n)" "visits_list cs \<le> length (paths_from k cs)"
  by (induction n and k cs rule: paths_paths_from.induct) auto

lemma node_at_append: "node_at d (p @ q) = (case node_at d p of None \<Rightarrow> None | Some n \<Rightarrow> node_at n q)"
  by (induction p arbitrary: d) (simp_all add: node_at.simps)

lemma find_child_loop_mono:
  "find_child_loop k d par el = Some r \<Longrightarrow> find_child_loop (k + j) d par el = Some r"
proof (induction k d par el rule: find_child_loop.induct)
  case (3 k d par el)
  then show ?case by (auto split: if_splits option.splits)
qed simp_all

text \<open>Where the loop goes once the subtree at \<open>q\<close> is done.\<close>

definition leave :: "node \<Rightarrow> path \<Rightarrow> path \<Rightarrow> path option" where
  "leave d par q =
     (if q = par then Some par
      else if has_next d q then Some (nextSibling q)
      else map_option (\<lambda>el. if el \<noteq> par then nextSibling el else el) (climb d par q))"

lemma leave_last:
  assumes "\<not> has_next d (q @ [i])" "q @ [i] \<noteq> par"
  shows "leave d par (q @ [i]) = leave d par q"
  using assms by (simp add: leave_def climb.simps [of d par "q @ [i]"])

lemma loop_leave:
  assumes "el \<noteq> par" "\<not> is_children_div d el" "name_at d el \<noteq> ''DIV'' \<or> kids_at d el = 0"
  shows "find_child_loop (Suc k) d par (Some el) = find_child_loop k d par (leave d par el)"
  using assms by (auto simp: leave_def split: option.split)

lemma is_children_div_at: "node_at d el = Some n \<Longrightarrow> is_children_div d el \<longleftrightarrow> children_div n"
  by (simp add: is_children_div_def children_div_def name_at_def attr_at_def)

lemma find_child_loop_visit:
  "node_at d el = Some n \<Longrightarrow> strict_prefix par el \<Longrightarrow>
     find_child_loop (k + visits n) d par (Some el) =
       (case div_search n of
          Some p \<Rightarrow> Some (Some (el @ p))
        | None \<Rightarrow> find_child_loop k d par (leave d par el))"
  "cs \<noteq> [] \<Longrightarrow> prefix par q \<Longrightarrow> kids_at d q = i + length cs \<Longrightarrow>
   (\<And>j. j < length cs \<Longrightarrow> node_at d (q @ [i + j]) = Some (cs ! j)) \<Longrightarrow>
     find_child_loop (k + visits_list cs) d par (Some (q @ [i])) =
       (case div_search_list i cs of
          Some p \<Rightarrow> Some (Some (q @ p))
        | None \<Rightarrow> find_child_loop k d par (leave d par q))"
proof (induction n and i cs arbitrary: el k and q k rule: div_search_div_search_list.induct)
  case (1 nn at ds ih cs)
  let ?n = "Node nn at ds ih cs"
  have el: "el \<noteq> par" using "1.prems"(2) by auto
  have nn: "name_at d el = nn" "kids_at d el = length cs"
    using "1.prems"(1) by (simp_all add: name_at_def kids_at_def)
  have cd: "is_children_div d el \<longleftrightarrow> children_div ?n"
    using "1.prems"(1) by (rule is_children_div_at)
  show ?case
  proof (cases "children_div ?n")
    case True
    with el cd show ?thesis by simp
  next
    case False
    show ?thesis
    proof (cases "nn = ''DIV'' \<and> cs \<noteq> []")
      case True
      have "find_child_loop (k + visits ?n) d par (Some el) = find_child_loop (k + visits_list cs) d par (Some (el @ [0]))"
        using True False el cd nn by simp
      also have "\<dots> = (case div_search_list 0 cs of Some p \<Rightarrow> Some (Some (el @ p))
                        | None \<Rightarrow> find_child_loop k d par (leave d par el))"
        using True False "1.prems" nn
        by (intro "1.IH") (auto simp: node_at_append node_at.simps strict_prefix_def)
      finally show ?thesis using True False by simp
    next
      case no: False
      then have v: "k + visits ?n = Suc k" by auto
      have "find_child_loop (Suc k) d par (Some el) = find_child_loop k d par (leave d par el)"
        using no False el cd nn by (intro loop_leave) auto
      with v have "find_child_loop (k + visits ?n) d par (Some el) = find_child_loop k d par (leave d par el)"
        by (simp only:)
      moreover have "div_search ?n = None"
        using no False by auto
      ultimately show ?thesis by simp
    qed
  qed
next
  case (2 i)
  then show ?case by simp
next
  case (3 i c cs)
  have c: "node_at d (q @ [i]) = Some c" using "3.prems"(4) [of 0] by simp
  have sp: "strict_prefix par (q @ [i])"
    using "3.prems"(2) by (auto simp: strict_prefix_def prefix_def)
  have "find_child_loop (k + visits_list (c # cs)) d par (Some (q @ [i])) =
        find_child_loop ((k + visits_list cs) + visits c) d par (Some (q @ [i]))"
    by (simp add: add.commute add.left_commute)
  also have "\<dots> = (case div_search c of Some p \<Rightarrow> Some (Some ((q @ [i]) @ p))
        | None \<Rightarrow> find_child_loop (k + visits_list cs) d par (leave d par (q @ [i])))"
    by (rule "3.IH"(1) [OF c sp])
  finally have step: "find_child_loop (k + visits_list (c # cs)) d par (Some (q @ [i])) = \<dots>" .
  show ?case
  proof (cases "div_search c")
    case (Some p)
    with step show ?thesis by simp
  next
    case None
    show ?thesis
    proof (cases "cs = []")
      case True
      then have "\<not> has_next d (q @ [i])" using "3.prems"(3) by (simp add: has_next_def)
      then have "leave d par (q @ [i]) = leave d par q" using sp by (intro leave_last) auto
      with step None True show ?thesis by simp
    next
      case False
      then have "has_next d (q @ [i])" using "3.prems"(3) by (simp add: has_next_def)
      then have "leave d par (q @ [i]) = Some (q @ [Suc i])"
        using sp by (auto simp: leave_def nextSibling_def)
      moreover have "find_child_loop (k + visits_list cs) d par (Some (q @ [Suc i])) =
          (case div_search_list (Suc i) cs of Some p \<Rightarrow> Some (Some (q @ p))
           | None \<Rightarrow> find_child_loop k d par (leave d par q))"
      proof (rule "3.IH"(2) [OF None False "3.prems"(2)])
        show "kids_at d q = Suc i + length cs" using "3.prems"(3) by simp
        show "node_at d (q @ [Suc i + j]) = Some (cs ! j)" if "j < length cs" for j
          using "3.prems"(4) [of "Suc j"] that by simp
      qed
      ultimately show ?thesis using step None by simp
    qed
  qed
qed

lemma length_paths_node_at: "node_at d p = Some n \<Longrightarrow> length (paths n) \<le> length (paths d)"
proof (induction p arbitrary: d)
  case Nil
  then show ?case by simp
next
  case (Cons i p)
  have *: "i < length cs \<Longrightarrow> length (paths (cs ! i)) \<le> length (paths_from k cs)" for i k cs
    by (induction cs arbitrary: i k) (auto split: nat.split simp: nth_Cons intro: trans_le_add2)
  from Cons.prems have i: "i < length (childNodes d)" "node_at (childNodes d ! i) p = Some n"
    by (auto simp: node_at.simps split: if_splits)
  have "length (paths n) \<le> length (paths (childNodes d ! i))" using i(2) by (rule Cons.IH)
  also have "\<dots> \<le> length (paths d)" using * [OF i(1)] by (simp add: paths_conv [of d] le_SucI)
  finally show ?case .
qed

lemma FindChildElement_search:
  assumes "getElementById d i = Some par" "node_at d par = Some n"
  shows "FindChildElement d i = Some (Inr (map_option ((@) par) (div_search_list 0 (childNodes n))))"
proof (cases "childNodes n = []")
  case True
  then show ?thesis
    using assms by (simp add: FindChildElement_def kids_at_def doc_fuel_def)
next
  case False
  let ?v = "visits_list (childNodes n)"
  have "?v < length (paths n)"
    using visits_paths(2) [of "childNodes n" 0] by (simp add: paths_conv [of n])
  then have "?v < length (paths d)"
    using length_paths_node_at [OF assms(2)] by simp
  then obtain k where k: "doc_fuel d = Suc k + ?v"
    by (metis doc_fuel_def add.commute add_Suc_right less_imp_add_positive not_less_eq less_Suc_eq_le le_Suc_ex)
  have "find_child_loop (Suc k + ?v) d par (Some (par @ [0])) =
     (case div_search_list 0 (childNodes n) of
        Some p \<Rightarrow> Some (Some (par @ p))
      | None \<Rightarrow> find_child_loop (Suc k) d par (leave d par par))"
    using False assms(2)
    by (intro find_child_loop_visit(2)) (auto simp: kids_at_def node_at_append node_at.simps)
  also have "\<dots> = Some (map_option ((@) par) (div_search_list 0 (childNodes n)))"
    by (simp add: leave_def split: option.split)
  finally show ?thesis
    using assms False by (simp add: FindChildElement_def k kids_at_def del: find_child_loop.simps)
qed

lemma FindChildElement_total: "\<exists>r. FindChildElement d i = Some r"
proof (cases "getElementById d i")
  case None
  then show ?thesis by (simp add: FindChildElement_def)
next
  case (Some par)
  then obtain n where "node_at d par = Some n"
    by (auto dest!: getElementById_SomeD simp: in_paths)
  with Some show ?thesis by (auto dest: FindChildElement_search)
qed

subsection \<open>NavNext and NavPrev find the nearest visible item\<close>

definition hidden_item :: "node \<Rightarrow> int \<Rightarrow> bool" where
  "hidden_item d j \<longleftrightarrow>
     (\<exists>p. getElementById d (item_id j) = Some p \<and> \<not> item_visible d p)"

lemma nav_loop_Some:
  "nav_loop k d step index = Some res \<Longrightarrow>
     \<exists>m. (\<forall>l < m. hidden_item d (index + int l * step)) \<and>
         (case res of
            None \<Rightarrow> getElementById d (item_id (index + int m * step)) = None
          | Some p \<Rightarrow> getElementById d (item_id (index + int m * step)) = Some p \<and> item_visible d p)"
proof (induction k d step index rule: nav_loop.induct)
  case (2 k d step index)
  show ?case
  proof (cases "hidden_item d index")
    case False
    with "2.prems" show ?thesis
      by (intro exI [of _ 0]) (auto simp: hidden_item_def split: option.splits if_splits)
  next
    case True
    then obtain p where p: "getElementById d (item_id index) = Some p" "\<not> item_visible d p"
      by (auto simp: hidden_item_def)
    with "2.prems" have "nav_loop k d step (index + step) = Some res" by simp
    from "2.IH" [OF p this] obtain m where
      m: "\<forall>l < m. hidden_item d (index + step + int l * step)"
      "case res of None \<Rightarrow> getElementById d (item_id (index + step + int m * step)) = None
        | Some p \<Rightarrow> getElementById d (item_id (index + step + int m * step)) = Some p \<and> item_visible d p"
      by blast
    have *: "index + step + int l * step = index + int (Suc l) * step" for l
      by (simp add: algebra_simps)
    have "\<forall>l < Suc m. hidden_item d (index + int l * step)"
      using m(1) True unfolding * by (auto simp: less_Suc_eq_0_disj)
    with m(2) show ?thesis unfolding * by blast
  qed
qed simp

lemma nav_loop_None:
  "nav_loop k d step index = None \<Longrightarrow> l < k \<Longrightarrow> hidden_item d (index + int l * step)"
proof (induction k d step index arbitrary: l rule: nav_loop.induct)
  case (2 k d step index)
  then have *: "\<exists>p. getElementById d (item_id index) = Some p \<and> \<not> item_visible d p \<and> nav_loop k d step (index + step) = None"
    by (auto split: option.splits if_splits)
  show ?case
  proof (cases l)
    case 0
    with * show ?thesis by (auto simp: hidden_item_def)
  next
    case (Suc j)
    with * "2.IH" "2.prems" have "hidden_item d (index + step + int j * step)" by auto
    then show ?thesis using Suc by (simp add: algebra_simps)
  qed
qed simp

lemma item_id_inject: "item_id i = item_id j \<longleftrightarrow> i = j"
  by (simp add: item_id_def intToString_inject)

text \<open>The items on the way are different elements, so the fuel covers them all.\<close>

lemma nav_loop_total:
  assumes "step \<noteq> 0"
  shows "\<exists>res. nav_loop (doc_fuel d) d step index = Some res"
proof (rule ccontr)
  assume "\<not> ?thesis"
  then have None: "nav_loop (doc_fuel d) d step index = None" by auto
  define f where "f l = the (getElementById d (item_id (index + int l * step)))" for l
  have f: "f l \<in> set (paths d)" "attr_at d (f l) ''id'' = item_id (index + int l * step)"
    if "l < doc_fuel d" for l
    using nav_loop_None [OF None that] by (auto simp: hidden_item_def f_def dest: getElementById_SomeD)
  have "inj_on f {..<doc_fuel d}"
  proof (rule inj_onI)
    fix a b assume ab: "a \<in> {..<doc_fuel d}" "b \<in> {..<doc_fuel d}" "f a = f b"
    then have "item_id (index + int a * step) = item_id (index + int b * step)"
      using f(2) [of a] f(2) [of b] by simp
    then show "a = b" using assms by (simp add: item_id_inject)
  qed
  then have "card {..<doc_fuel d} \<le> card (set (paths d))"
    using f(1) by (intro card_inj_on_le) auto
  also have "\<dots> \<le> length (paths d)" by (rule card_length)
  finally show False by (simp add: doc_fuel_def)
qed

subsection \<open>Navigation on a loaded page\<close>

lemma same_shape_climb: "same_shape d d' \<Longrightarrow> climb d' par el = climb d par el"
proof (induction d par el rule: climb.induct)
  case (1 d par el)
  then have "has_next d' p = has_next d p" for p
    by (simp add: has_next_def same_shape_def)
  with 1 show ?case by (simp add: climb.simps [of d' par el] climb.simps [of d par el])
qed

lemma same_shape_loop:
  "same_shape d d' \<Longrightarrow> find_child_loop k d' par el = find_child_loop k d par el"
proof (induction k d par el rule: find_child_loop.induct)
  case (3 k d par el)
  have *: "has_next d' el = has_next d el" "is_children_div d' el = is_children_div d el"
    "name_at d' el = name_at d el" "kids_at d' el = kids_at d el" "climb d' par el = climb d par el"
    using "3.prems" same_shape_climb by (simp_all add: has_next_def same_shape_def is_children_div_def)
  show ?case
    by (simp add: * "3.IH" "3.prems" split: option.split)
qed simp_all

lemma same_shape_FindChildElement:
  assumes "same_shape d d'"
  shows "FindChildElement d' i = FindChildElement d i"
proof -
  have "doc_fuel d' = doc_fuel d" "\<And>p. kids_at d' p = kids_at d p"
    using assms by (simp_all add: doc_fuel_def same_shape_def)
  then show ?thesis
    by (cases "getElementById d i")
      (simp_all add: FindChildElement_def same_shape_getElementById [OF assms] same_shape_loop [OF assms])
qed

lemma toString10_no_underscore: "toString10 m \<noteq> toString10 n @ CHR ''_'' # s"
proof
  assume "toString10 m = toString10 n @ CHR ''_'' # s"
  then have "CHR ''_'' \<in> set (toString10 m)" by simp
  then have "is_digit (CHR ''_'')" by (rule digit_toString10)
  then show False by (simp add: is_digit_def)
qed

lemma intToString_no_underscore: "intToString m \<noteq> toString10 n @ CHR ''_'' # s"
proof (cases "m < 0")
  case True
  then have "intToString m = CHR ''-'' # toString10 (nat (- m))" by (simp add: intToString_def)
  then show ?thesis
    by (metis append_is_Nil_conv hd_append2 list.sel(1) toString10_neq_Nil toString10_neq_minus list.collapse)
next
  case False
  then show ?thesis by (simp add: intToString_def toString10_no_underscore)
qed

lemma intToString_nat_iff: "intToString m = toString10 n \<longleftrightarrow> m = int n"
  using intToString_inject [of m "int n"] by (simp add: intToString_def)

text \<open>The element with the identifier \<^verbatim>\<open>Item<i>\<close> is the link of row \<open>i\<close>.\<close>

lemma item_element:
  "getElementById (results_document searchData) (item_id i) =
     (if 0 \<le> i \<and> i < int (length searchData) then Some (row_path (nat i) @ [0, 0]) else None)"
proof -
  let ?d = "results_document searchData"
  have only: "\<exists>e < length searchData. i = int e \<and> p = row_path e @ [0, 0]"
    if p: "p \<in> set (paths ?d)" "attr_at ?d p ''id'' = item_id i" for p
  proof -
    obtain n where n: "node_at ?d p = Some n" using p(1) by (auto simp: in_paths)
    then have idn: "attr ''id'' n = item_id i" using p(2) by (simp add: attr_at_def)
    from n show ?thesis
    proof (cases rule: results_document_cases)
      case (row e q)
      from node_at_sr_result [OF row(3)] have "q = [0, 0] \<and> i = int e"
        using idn intToString_no_underscore intToString_no_underscore [symmetric]
        by (auto simp: item_id_def sr_result_sel sr_entry_sel sr_children_sel sr_child_sel intToString_nat_iff)
      with row show ?thesis by auto
    next
      case frame
      with idn show ?thesis by (auto simp: item_id_def)
    qed
  qed
  show ?thesis
  proof (cases "0 \<le> i \<and> i < int (length searchData)")
    case True
    define e where "e = nat i"
    have e: "e < length searchData" "i = int e" using True by (auto simp: e_def nat_less_iff)
    obtain l x where ch: "childNodes (sr_entry e (searchData ! e)) = [l, x]"
      and l: "attr ''id'' l = ''Item'' @ toString10 e"
      using sr_entry_children [of e "searchData ! e"] by metis
    have at: "node_at ?d (row_path e @ [0, 0]) = Some l"
      using e ch by (simp add: node_at_row sr_result_sel node_at.simps del: node_at.simps)
        (simp add: node_at.simps sr_result_sel)
    have "getElementById ?d (item_id i) = Some (row_path e @ [0, 0])"
    proof (rule getElementById_unique)
      show "row_path e @ [0, 0] \<in> set (paths ?d)" using at by (simp add: in_paths)
      show "attr_at ?d (row_path e @ [0, 0]) ''id'' = item_id i"
        using at l e by (simp add: attr_at_def item_id_def intToString_def)
      show "q = row_path e @ [0, 0]" if "q \<in> set (paths ?d)" "attr_at ?d q ''id'' = item_id i" for q
        using only [OF that] e by simp
    qed
    with True e show ?thesis by simp
  next
    case False
    then have "attr_at ?d p ''id'' \<noteq> item_id i" if "p \<in> set (paths ?d)" for p
      using only [OF that] by auto
    then have "getElementById ?d (item_id i) = None"
      unfolding getElementById_None_iff by blast
    with False show ?thesis by simp
  qed
qed

text \<open>\<^verbatim>\<open>FindChildElement\<close> on a row returns its list of children, if it has one.\<close>

lemma div_search_leaf: "nodeName n \<noteq> ''DIV'' \<Longrightarrow> div_search n = None"
  by (cases n) (simp add: children_div_def)

lemma div_search_hit: "children_div n \<Longrightarrow> div_search n = Some []"
  by (cases n) simp

lemma div_search_list_entry:
  "div_search_list 0 [sr_entry e entry] = (if single_link entry then None else Some [0, 1])"
proof -
  obtain l x where ch: "childNodes (sr_entry e entry) = [l, x]"
    and l: "nodeName l = ''A''"
    and x: "if single_link entry then nodeName x = ''SPAN'' \<and> childNodes x = [] \<and> attr ''id'' x = []
            else x = sr_children e (snd (snd entry))"
    by (rule sr_entry_children)
  have "div_search x = (if single_link entry then None else Some [])"
    using x by (simp add: div_search_leaf div_search_hit children_div_def sr_children_sel split: if_splits)
  moreover have "div_search l = None" using l by (simp add: div_search_leaf)
  ultimately have "div_search (sr_entry e entry) = (if single_link entry then None else Some [1])"
    using ch sr_entry_sel [of e entry] by (cases "sr_entry e entry") (simp add: children_div_def)
  then show ?thesis by simp
qed

lemma row_element:
  assumes "distinct (map fst searchData)" "e < length searchData"
  shows "getElementById (results_document searchData) (''SR_'' @ fst (searchData ! e)) = Some (row_path e)"
proof (rule getElementById_unique)
  let ?d = "results_document searchData"
  show "row_path e \<in> set (paths ?d)" using assms(2) by (rule row_in_paths)
  show "attr_at ?d (row_path e) ''id'' = ''SR_'' @ fst (searchData ! e)" using assms(2) by (rule row_id)
  fix p assume p: "p \<in> set (paths ?d)" "attr_at ?d p ''id'' = ''SR_'' @ fst (searchData ! e)"
  obtain n where n: "node_at ?d p = Some n" using p(1) by (auto simp: in_paths)
  then have idn: "attr ''id'' n = ''SR_'' @ fst (searchData ! e)" using p(2) by (simp add: attr_at_def)
  from n show "p = row_path e"
  proof (cases rule: results_document_cases)
    case (row e' q)
    from node_at_sr_result [OF row(3)] have "q = [] \<and> fst (searchData ! e') = fst (searchData ! e)"
      using idn by (auto simp: sr_result_sel sr_entry_sel sr_children_sel sr_child_sel)
    moreover from this have "e' = e"
      using assms row(2) nth_eq_iff_index_eq [OF assms(1), of e' e] by simp
    ultimately show ?thesis using row(1) by simp
  next
    case frame
    with idn show ?thesis by auto
  qed
qed

lemma row_children:
  assumes "distinct (map fst searchData)" "e < length searchData" "same_shape (results_document searchData) d"
  shows "FindChildElement d (''SR_'' @ fst (searchData ! e)) =
           Some (Inr (if single_link (searchData ! e) then None else Some (row_path e @ [0, 1])))"
proof -
  let ?d = "results_document searchData"
  have at: "node_at ?d (row_path e) = Some (sr_result e (searchData ! e))"
    using assms(2) by (simp add: node_at_row del: node_at.simps(2))
  show ?thesis
    unfolding same_shape_FindChildElement [OF assms(3)]
    using FindChildElement_search [OF row_element [OF assms(1,2)] at]
    by (simp add: sr_result_sel div_search_list_entry del: div_search_list.simps)
qed

subsection \<open>The arrow keys on a loaded page\<close>

lemma loaded_item_visible:
  "display_at d (row_path e) = (if P then ''block'' else ''none'') \<Longrightarrow>
   item_visible d (row_path e @ [0, 0]) \<longleftrightarrow> P"
  by (simp add: item_visible_def butlast_append)

lemma nav_loop_first:
  assumes items: "\<And>i. getElementById d (item_id i) =
      (if 0 \<le> i \<and> i < int n then Some (row_path (nat i) @ [0, 0]) else None)"
    and vis: "\<And>e. e < n \<Longrightarrow> item_visible d (row_path e @ [0, 0]) \<longleftrightarrow> P e"
    and k: "n - i < k"
  shows "nav_loop k d 1 (int i) = Some (map_option (\<lambda>e. row_path e @ [0, 0]) (List.find P [i..<n]))"
  using k
proof (induction k arbitrary: i)
  case 0
  then show ?case by simp
next
  case (Suc k)
  show ?case
  proof (cases "i < n")
    case True
    then have upt: "[i..<n] = i # [Suc i..<n]" by (rule upt_conv_Cons)
    have "nav_loop k d 1 (int (Suc i)) = Some (map_option (\<lambda>e. row_path e @ [0, 0]) (List.find P [Suc i..<n]))"
      using Suc.prems True by (intro Suc.IH) simp
    then show ?thesis
      using True vis [OF True] by (simp add: items upt add.commute)
  next
    case False
    then show ?thesis by (simp add: items)
  qed
qed

lemma NavNext_loaded:
  assumes ok: "list_all index_entry_ok searchData" and r: "load_results searchData word = Inr r"
  shows "NavNext (doc r) (int i) =
    Some (map_option (\<lambda>e. row_path e @ [0, 0])
      (List.find (\<lambda>e. name_matches word (searchData ! e)) [i..<length searchData]))"
proof -
  have shape: "same_shape (results_document searchData) (doc r)"
    and disp: "\<And>e. e < length searchData \<Longrightarrow> display_at (doc r) (row_path e) =
       (if name_matches word (searchData ! e) then ''block'' else ''none'')"
    using load_results_page [OF ok, of word] r by auto
  have items: "getElementById (doc r) (item_id j) =
      (if 0 \<le> j \<and> j < int (length searchData) then Some (row_path (nat j) @ [0, 0]) else None)" for j
    by (simp add: same_shape_getElementById [OF shape] item_element)
  have "(\<lambda>e. row_path e) ` {..<length searchData} \<subseteq> set (paths (doc r))"
    using shape row_in_paths by (auto simp: same_shape_def)
  then have "card ((\<lambda>e. row_path e) ` {..<length searchData}) \<le> card (set (paths (doc r)))"
    by (intro card_mono) auto
  moreover have "card ((\<lambda>e. row_path e) ` {..<length searchData}) = length searchData"
    by (subst card_image) (auto simp: inj_on_def)
  ultimately have "length searchData - i < doc_fuel (doc r)"
    using card_length [of "paths (doc r)"] by (simp add: doc_fuel_def)
  with items loaded_item_visible [OF disp] show ?thesis
    unfolding NavNext_def
    by (rule nav_loop_first [where P = "\<lambda>e. name_matches word (searchData ! e)"])
qed

text \<open>
  Auto-repeat of a held key: the first keypress after a keydown is swallowed, every further
  one is handled, until the key is released.
\<close>

fun process_all :: "(key_type \<times> nat) list \<Rightarrow> results \<Rightarrow> bool list \<times> results" where
  "process_all [] r = ([], r)"
| "process_all ((ty, k) # es) r =
     (let (b, r) = ProcessKeys ty k r; (bs, r) = process_all es r in (b # bs, r))"

lemma process_presses:
  "repeatOn r \<Longrightarrow> lastKey r \<noteq> 0 \<Longrightarrow>
   process_all (replicate n (KeyPress, j)) r = (replicate n True, r)"
  by (induction n) simp_all

lemma held_key:
  assumes "k \<noteq> 0"
  shows "fst (process_all ((KeyDown, k) # replicate (Suc n) (KeyPress, j) @ [(KeyUp, k), (KeyPress, j)]) r) =
         True # False # replicate n True @ [False, False]"
proof -
  have app: "process_all (es @ fs) r =
      (let (bs, r) = process_all es r; (cs, r) = process_all fs r in (bs @ cs, r))" for es fs r
    by (induction es arbitrary: r) (auto simp: Let_def split: prod.splits)
  show ?thesis
    using assms by (simp add: app process_presses Let_def)
qed

subsection \<open>Properties\<close>

text \<open>
  (C28) \<^verbatim>\<open>FindChildElement\<close> walks the children of an element with an explicit climb through the
  parents instead of recursion; it always ends, and what it returns is the first element, in
  document order below the given one and reached through \<^verbatim>\<open>DIV\<close> elements only, that is a \<^verbatim>\<open>DIV\<close> with class
  \<^verbatim>\<open>SRChildren\<close>, as the recursive search over the tree finds it.
\<close>

theorem find_child_document_order:
  assumes "getElementById d i = Some par" "node_at d par = Some n"
  shows "FindChildElement d i = Some (Inr (map_option ((@) par) (div_search_list 0 (childNodes n))))"
  using assms by (rule FindChildElement_search)

theorem find_child_document_order_witness:
  "FindChildElement (results_document [(''cb'', ''CB'', [(''x.html'', 1, ''a''), (''y.html'', 1, ''b'')])]) ''SR_cb'' =
     Some (Inr (Some (row_path 0 @ [0, 1])))"
proof -
  let ?d = "results_document [(''cb'', ''CB'', [(''x.html'', 1, ''a''), (''y.html'', 1, ''b'')])]"
  have "getElementById ?d ''SR_cb'' = Some (row_path 0)"
    "node_at ?d (row_path 0) = Some (the (node_at ?d (row_path 0)))"
    "map_option ((@) (row_path 0)) (div_search_list 0 (childNodes (the (node_at ?d (row_path 0))))) =
       Some (row_path 0 @ [0, 1])"
    by code_simp+
  then show ?thesis
    using find_child_document_order [of ?d "''SR_cb''" "row_path 0"] by simp
qed

text \<open>
  (C29) Keyboard navigation down the results: \<^verbatim>\<open>NavNext\<close> from row \<^verbatim>\<open>i\<close> of a loaded page returns,
  without looping for ever, the link of the first row at or after \<^verbatim>\<open>i\<close> that matches the search,
  and \<^verbatim>\<open>null\<close> exactly when no row from \<^verbatim>\<open>i\<close> on does.
\<close>

theorem nav_next_first_match:
  assumes "list_all index_entry_ok searchData" "load_results searchData word = Inr r"
  shows "NavNext (doc r) (int i) =
    Some (map_option (\<lambda>e. row_path e @ [0, 0])
      (List.find (\<lambda>e. name_matches word (searchData ! e)) [i..<length searchData]))"
  using assms by (rule NavNext_loaded)

theorem nav_next_first_match_witness:
  "\<exists>r. load_results [(''ab'', ''ab'', [(''x.html'', 1, [])]), (''cb'', ''CB'', [(''x.html'', 1, [])])] ''c'' = Inr r \<and>
       NavNext (doc r) (int 0) = Some (Some (row_path 1 @ [0, 0]))"
proof -
  let ?s = "[(''ab'', ''ab'', [(''x.html'', 1, [])]), (''cb'', ''CB'', [(''x.html'', 1, [])])] :: search_entry list"
  have ok: "list_all index_entry_ok ?s" by code_simp
  obtain r where r: "load_results ?s ''c'' = Inr r" using load_results_page [OF ok] by blast
  moreover have "map_option (\<lambda>e. row_path e @ [0, 0])
      (List.find (\<lambda>e. name_matches ''c'' (?s ! e)) [0..<length ?s]) = Some (row_path 1 @ [0, 0])"
    by code_simp
  ultimately show ?thesis
    using nav_next_first_match [OF ok r, of 0] by auto
qed

text \<open>
  (C30) On every document, from every index and in both directions, the navigation loop ends, and
  the element it stops at, if any, is a visible item with every item between it and the start
  present and hidden.
\<close>

theorem nav_loop_stops:
  assumes "step \<noteq> 0"
  shows "\<exists>m res. nav_loop (doc_fuel d) d step index = Some res \<and>
         (\<forall>l < m. hidden_item d (index + int l * step)) \<and>
         res = getElementById d (item_id (index + int m * step)) \<and>
         list_all (item_visible d) (case res of None \<Rightarrow> [] | Some p \<Rightarrow> [p])"
proof -
  obtain res where "nav_loop (doc_fuel d) d step index = Some res"
    using nav_loop_total [OF assms] by blast
  from this and nav_loop_Some [OF this] show ?thesis
    by (cases res) auto
qed

theorem nav_loop_stops_witness:
  "\<exists>m res. nav_loop (doc_fuel (results_document [])) (results_document []) (- 1) 5 = Some res \<and>
         (\<forall>l < m. hidden_item (results_document []) (5 + int l * - 1)) \<and>
         res = getElementById (results_document []) (item_id (5 + int m * - 1)) \<and>
         list_all (item_visible (results_document [])) (case res of None \<Rightarrow> [] | Some p \<Rightarrow> [p])"
  using nav_loop_stops [of "- 1" "results_document []" 5] by simp

text \<open>
  Auto-repeat: of a key held down, the keydown acts, the first keypress is swallowed and
  every further one acts, until the key is released, after which a stray keypress does nothing.
\<close>

theorem held_key_repeats:
  assumes "k \<noteq> 0"
  shows "fst (process_all ((KeyDown, k) # replicate (Suc n) (KeyPress, j) @ [(KeyUp, k), (KeyPress, j)]) r) =
         True # False # replicate n True @ [False, False]"
  using assms by (rule held_key)

theorem held_key_repeats_witness:
  "fst (process_all [(KeyDown, 40), (KeyPress, 0), (KeyPress, 0), (KeyUp, 40), (KeyPress, 0)] (SearchResults (results_document []))) =
     [True, False, True, False, False]"
  using held_key_repeats [of 40 1 0 "SearchResults (results_document [])"] by (simp add: numeral_2_eq_2)

end
