(* ===== verification/Search_Index.thy ===== *)
theory Search_Index
  imports Search_Results
begin

text \<open>
  The search index: the \<^verbatim>\<open>searchData\<close> arrays of the pages of the sections \<^verbatim>\<open>classes\<close>, \<^verbatim>\<open>files\<close>,
  \<^verbatim>\<open>typedefs\<close>, \<^verbatim>\<open>enums\<close> and \<^verbatim>\<open>enumvalues\<close>, one definition per file of
  \<^verbatim>\<open>src/doc/doxy/search\<close>, and the check that a page is what the search needs: each entry's
  identifier is its converted lower-case name and starts with the page's letter.
\<close>

subsection \<open>Checking a page\<close>

definition id_of :: "string \<Rightarrow> string" where
  "id_of nm = convertToId (toLowerCase nm)"

definition page_ok :: "char \<Rightarrow> search_entry list \<Rightarrow> bool" where
  "page_ok c searchData \<longleftrightarrow>
     list_all (\<lambda>entry. index_entry_ok entry \<and> prefix [c] (toLowerCase (fst (snd entry)))) searchData"

lemma id_of_Nil: "id_of [] = []"
  by (simp add: id_of_def toLowerCase_def)

lemma id_of_Cons: "id_code (lower_char c) = t \<Longrightarrow> id_of (c # s) = t @ id_of s"
  by (simp add: id_of_def toLowerCase_def)

lemma page_ok_id_of:
  "page_ok c searchData \<longleftrightarrow>
     list_all (\<lambda>entry. id_of (fst (snd entry)) = fst entry \<and> prefix (id_of [c]) (fst entry)) searchData"
  if "lower_char c = c"
proof -
  have "prefix [c] (toLowerCase nm) \<longleftrightarrow> prefix (id_of [c]) (id_of nm)" for nm
    using that convertToId_prefix_iff [of "[c]" "toLowerCase nm"] by (simp add: id_of_def toLowerCase_def)
  then show ?thesis
    unfolding page_ok_def list_all_iff by (metis id_of_def index_entry_ok_def)
qed

text \<open>The conversion of every character that occurs in the index, for fast evaluation.\<close>

lemma id_of_table:
  "id_of (CHR ''.'' # s) = CHR ''_'' # CHR ''2'' # CHR ''e'' # id_of s"
  "id_of (CHR ''0'' # s) = CHR ''0'' # id_of s"
  "id_of (CHR ''1'' # s) = CHR ''1'' # id_of s"
  "id_of (CHR ''2'' # s) = CHR ''2'' # id_of s"
  "id_of (CHR ''3'' # s) = CHR ''3'' # id_of s"
  "id_of (CHR ''4'' # s) = CHR ''4'' # id_of s"
  "id_of (CHR ''5'' # s) = CHR ''5'' # id_of s"
  "id_of (CHR ''6'' # s) = CHR ''6'' # id_of s"
  "id_of (CHR ''7'' # s) = CHR ''7'' # id_of s"
  "id_of (CHR ''8'' # s) = CHR ''8'' # id_of s"
  "id_of (CHR ''9'' # s) = CHR ''9'' # id_of s"
  "id_of (CHR ''A'' # s) = CHR ''a'' # id_of s"
  "id_of (CHR ''B'' # s) = CHR ''b'' # id_of s"
  "id_of (CHR ''C'' # s) = CHR ''c'' # id_of s"
  "id_of (CHR ''D'' # s) = CHR ''d'' # id_of s"
  "id_of (CHR ''E'' # s) = CHR ''e'' # id_of s"
  "id_of (CHR ''F'' # s) = CHR ''f'' # id_of s"
  "id_of (CHR ''G'' # s) = CHR ''g'' # id_of s"
  "id_of (CHR ''H'' # s) = CHR ''h'' # id_of s"
  "id_of (CHR ''I'' # s) = CHR ''i'' # id_of s"
  "id_of (CHR ''J'' # s) = CHR ''j'' # id_of s"
  "id_of (CHR ''K'' # s) = CHR ''k'' # id_of s"
  "id_of (CHR ''L'' # s) = CHR ''l'' # id_of s"
  "id_of (CHR ''M'' # s) = CHR ''m'' # id_of s"
  "id_of (CHR ''N'' # s) = CHR ''n'' # id_of s"
  "id_of (CHR ''O'' # s) = CHR ''o'' # id_of s"
  "id_of (CHR ''P'' # s) = CHR ''p'' # id_of s"
  "id_of (CHR ''Q'' # s) = CHR ''q'' # id_of s"
  "id_of (CHR ''R'' # s) = CHR ''r'' # id_of s"
  "id_of (CHR ''S'' # s) = CHR ''s'' # id_of s"
  "id_of (CHR ''T'' # s) = CHR ''t'' # id_of s"
  "id_of (CHR ''U'' # s) = CHR ''u'' # id_of s"
  "id_of (CHR ''V'' # s) = CHR ''v'' # id_of s"
  "id_of (CHR ''W'' # s) = CHR ''w'' # id_of s"
  "id_of (CHR ''X'' # s) = CHR ''x'' # id_of s"
  "id_of (CHR ''Y'' # s) = CHR ''y'' # id_of s"
  "id_of (CHR ''Z'' # s) = CHR ''z'' # id_of s"
  "id_of (CHR ''_'' # s) = CHR ''_'' # CHR ''5'' # CHR ''f'' # id_of s"
  "id_of (CHR ''a'' # s) = CHR ''a'' # id_of s"
  "id_of (CHR ''b'' # s) = CHR ''b'' # id_of s"
  "id_of (CHR ''c'' # s) = CHR ''c'' # id_of s"
  "id_of (CHR ''d'' # s) = CHR ''d'' # id_of s"
  "id_of (CHR ''e'' # s) = CHR ''e'' # id_of s"
  "id_of (CHR ''f'' # s) = CHR ''f'' # id_of s"
  "id_of (CHR ''g'' # s) = CHR ''g'' # id_of s"
  "id_of (CHR ''h'' # s) = CHR ''h'' # id_of s"
  "id_of (CHR ''i'' # s) = CHR ''i'' # id_of s"
  "id_of (CHR ''j'' # s) = CHR ''j'' # id_of s"
  "id_of (CHR ''k'' # s) = CHR ''k'' # id_of s"
  "id_of (CHR ''l'' # s) = CHR ''l'' # id_of s"
  "id_of (CHR ''m'' # s) = CHR ''m'' # id_of s"
  "id_of (CHR ''n'' # s) = CHR ''n'' # id_of s"
  "id_of (CHR ''o'' # s) = CHR ''o'' # id_of s"
  "id_of (CHR ''p'' # s) = CHR ''p'' # id_of s"
  "id_of (CHR ''q'' # s) = CHR ''q'' # id_of s"
  "id_of (CHR ''r'' # s) = CHR ''r'' # id_of s"
  "id_of (CHR ''s'' # s) = CHR ''s'' # id_of s"
  "id_of (CHR ''t'' # s) = CHR ''t'' # id_of s"
  "id_of (CHR ''u'' # s) = CHR ''u'' # id_of s"
  "id_of (CHR ''v'' # s) = CHR ''v'' # id_of s"
  "id_of (CHR ''w'' # s) = CHR ''w'' # id_of s"
  "id_of (CHR ''x'' # s) = CHR ''x'' # id_of s"
  "id_of (CHR ''y'' # s) = CHR ''y'' # id_of s"
  "id_of (CHR ''z'' # s) = CHR ''z'' # id_of s"
  by (rule id_of_Cons [THEN trans], code_simp, simp only: append.simps)+

lemma lower_letters:
  "lower_char (CHR ''0'') = CHR ''0''"
  "lower_char (CHR ''_'') = CHR ''_''"
  "lower_char (CHR ''a'') = CHR ''a''"
  "lower_char (CHR ''b'') = CHR ''b''"
  "lower_char (CHR ''c'') = CHR ''c''"
  "lower_char (CHR ''d'') = CHR ''d''"
  "lower_char (CHR ''e'') = CHR ''e''"
  "lower_char (CHR ''f'') = CHR ''f''"
  "lower_char (CHR ''g'') = CHR ''g''"
  "lower_char (CHR ''h'') = CHR ''h''"
  "lower_char (CHR ''i'') = CHR ''i''"
  "lower_char (CHR ''k'') = CHR ''k''"
  "lower_char (CHR ''l'') = CHR ''l''"
  "lower_char (CHR ''m'') = CHR ''m''"
  "lower_char (CHR ''n'') = CHR ''n''"
  "lower_char (CHR ''o'') = CHR ''o''"
  "lower_char (CHR ''p'') = CHR ''p''"
  "lower_char (CHR ''q'') = CHR ''q''"
  "lower_char (CHR ''r'') = CHR ''r''"
  "lower_char (CHR ''s'') = CHR ''s''"
  "lower_char (CHR ''t'') = CHR ''t''"
  "lower_char (CHR ''u'') = CHR ''u''"
  "lower_char (CHR ''v'') = CHR ''v''"
  "lower_char (CHR ''w'') = CHR ''w''"
  "lower_char (CHR ''x'') = CHR ''x''"
  "lower_char (CHR ''y'') = CHR ''y''"
  by code_simp+

lemmas page_eval = page_ok_id_of lower_letters id_of_table id_of_Nil list.pred_inject
  list.rel_inject fst_conv snd_conv Cons_prefix_Cons Nil_prefix simp_thms

subsection \<open>Section classes\<close>

definition searchData_classes_0 :: "search_entry list" where
  "searchData_classes_0 =
    [(''_5f_5fattribute_5f_5f'', ''__attribute__'', [(''../struct____attribute____.html'', 1, '''')]),
     (''_5ff32_5ftime'', ''_f32_time'', [(''../struct__f32__time.html'', 1, '''')]),
     (''_5fft_5fbpb'', ''_ft_bpb'', [(''../struct__ft__bpb.html'', 1, '''')]),
     (''_5fft_5fctxt_5fblock'', ''_ft_ctxt_block'', [(''../struct__ft__ctxt__block.html'', 1, '''')]),
     (''_5fft_5fdate_5fpacked'', ''_ft_date_packed'', [(''../struct__ft__date__packed.html'', 1, '''')]),
     (''_5fft_5fde_5finmem'', ''_ft_de_inmem'', [(''../struct__ft__de__inmem.html'', 1, '''')]),
     (''_5fft_5fde_5flongname'', ''_ft_de_longname'', [(''../struct__ft__de__longname.html'', 1, '''')]),
     (''_5fft_5fde_5fsd'', ''_ft_de_sd'', [(''../struct__ft__de__sd.html'', 1, '''')]),
     (''_5fft_5ffsinfo'', ''_ft_fsinfo'', [(''../struct__ft__fsinfo.html'', 1, '''')]),
     (''_5fft_5ftime_5fpacked'', ''_ft_time_packed'', [(''../struct__ft__time__packed.html'', 1, '''')]),
     (''_5fio_5fdevice'', ''_io_device'', [(''../struct__io__device.html'', 1, '''')]),
     (''_5fio_5ffile_5finstance'', ''_io_file_instance'', [(''../struct__io__file__instance.html'', 1, '''')]),
     (''_5fio_5ffilesystem'', ''_io_filesystem'', [(''../struct__io__filesystem.html'', 1, '''')]),
     (''_5fio_5fmessage'', ''_io_message'', [(''../struct__io__message.html'', 1, '''')]),
     (''_5fio_5fmiddleware'', ''_io_middleware'', [(''../struct__io__middleware.html'', 1, '''')]),
     (''_5fio_5fmount'', ''_io_mount'', [(''../struct__io__mount.html'', 1, '''')]),
     (''_5fioentry'', ''_ioentry'', [(''../struct__ioentry.html'', 1, '''')])]"

definition searchData_classes_1 :: "search_entry list" where
  "searchData_classes_1 =
    [(''arp_5fentry_5ft'', ''arp_entry_t'', [(''../structarp__entry__t.html'', 1, '''')])]"

definition searchData_classes_2 :: "search_entry list" where
  "searchData_classes_2 =
    [(''cb'', ''cb'', [(''../structcb.html'', 1, '''')]),
     (''context'', ''context'', [(''../structcontext.html'', 1, '''')]),
     (''csr'', ''csr'', [(''../structcsr.html'', 1, '''')])]"

definition searchData_classes_3 :: "search_entry list" where
  "searchData_classes_3 =
    [(''edidrecord_5fs'', ''EDIDRecord_s'', [(''../structEDIDRecord__s.html'', 1, '''')]),
     (''eth_5fpacket_5ft'', ''eth_packet_t'', [(''../structeth__packet__t.html'', 1, '''')]),
     (''eth_5fpayload_5ft'', ''eth_payload_t'', [(''../unioneth__payload__t.html'', 1, '''')])]"

definition searchData_classes_4 :: "search_entry list" where
  "searchData_classes_4 =
    [(''gdtdescriptor_5fs'', ''GDTDescriptor_s'', [(''../structGDTDescriptor__s.html'', 1, '''')]),
     (''gdtentry_5fs'', ''GDTEntry_s'', [(''../structGDTEntry__s.html'', 1, '''')])]"

definition searchData_classes_5 :: "search_entry list" where
  "searchData_classes_5 =
    [(''icmp_5ft'', ''icmp_t'', [(''../structicmp__t.html'', 1, '''')]),
     (''idt_5fgate'', ''IDT_Gate'', [(''../structIDT__Gate.html'', 1, '''')]),
     (''ipv4_5ft'', ''ipv4_t'', [(''../structipv4__t.html'', 1, '''')])]"

definition searchData_classes_6 :: "search_entry list" where
  "searchData_classes_6 =
    [(''memory_5fmap_5f_5f32_5fs'', ''memory_map__32_s'', [(''../structmemory__map____32__s.html'', 1, '''')]),
     (''memory_5fmap_5f_5f64_5fs'', ''memory_map__64_s'', [(''../structmemory__map____64__s.html'', 1, '''')]),
     (''mm_5fentry_5fs'', ''mm_entry_s'', [(''../structmm__entry__s.html'', 1, '''')])]"

definition searchData_classes_7 :: "search_entry list" where
  "searchData_classes_7 =
    [(''nic_5finfo'', ''nic_info'', [(''../structnic__info.html'', 1, '''')])]"

definition searchData_classes_8 :: "search_entry list" where
  "searchData_classes_8 =
    [(''paintcontext_5fs'', ''PaintContext_s'', [(''../structPaintContext__s.html'', 1, '''')]),
     (''pcb'', ''pcb'', [(''../structpcb.html'', 1, '''')]),
     (''point_5fs'', ''Point_s'', [(''../structPoint__s.html'', 1, '''')]),
     (''position'', ''POSITION'', [(''../union__io__message_1_1POSITION.html'', 1, ''_io_message'')]),
     (''psfont_5fs'', ''PSFont_s'', [(''../structPSFont__s.html'', 1, '''')])]"

definition searchData_classes_9 :: "search_entry list" where
  "searchData_classes_9 =
    [(''rect_5fs'', ''Rect_s'', [(''../structRect__s.html'', 1, '''')]),
     (''regs16_5fs'', ''regs16_s'', [(''../structregs16__s.html'', 1, '''')]),
     (''rfd_5ft'', ''rfd_t'', [(''../structrfd__t.html'', 1, '''')])]"

definition searchData_classes_a :: "search_entry list" where
  "searchData_classes_a =
    [(''size_5fs'', ''Size_s'', [(''../structSize__s.html'', 1, '''')]),
     (''st_5fqnode'', ''st_qnode'', [(''../structst__qnode.html'', 1, '''')]),
     (''st_5fqueue'', ''st_queue'', [(''../structst__queue.html'', 1, '''')])]"

definition searchData_classes_b :: "search_entry list" where
  "searchData_classes_b =
    [(''vbe2modeinfo_5fs'', ''VBE2ModeInfo_s'', [(''../structVBE2ModeInfo__s.html'', 1, '''')]),
     (''vbe3modeinfo_5fs'', ''VBE3ModeInfo_s'', [(''../structVBE3ModeInfo__s.html'', 1, '''')]),
     (''vbeinfo_5fs'', ''VBEInfo_s'', [(''../structVBEInfo__s.html'', 1, '''')]),
     (''vbemodeinfo_5fu'', ''VBEModeInfo_u'', [(''../unionVBEModeInfo__u.html'', 1, '''')]),
     (''vcon_5fs'', ''VCon_s'', [(''../structVCon__s.html'', 1, '''')]),
     (''vconbuf_5fs'', ''VConBuf_s'', [(''../structVConBuf__s.html'', 1, '''')]),
     (''vconchar_5fs'', ''VConChar_s'', [(''../structVConChar__s.html'', 1, '''')]),
     (''vconctrl_5fs'', ''VConCtrl_s'', [(''../structVConCtrl__s.html'', 1, '''')]),
     (''vconline_5fs'', ''VConLine_s'', [(''../structVConLine__s.html'', 1, '''')]),
     (''videocolorconfig_5fs'', ''VideoColorConfig_s'', [(''../structVideoColorConfig__s.html'', 1, '''')]),
     (''videofb_5fs'', ''VideoFb_s'', [(''../structVideoFb__s.html'', 1, '''')]),
     (''videoinfo_5fs'', ''VideoInfo_s'', [(''../structVideoInfo__s.html'', 1, '''')]),
     (''videoinfo_5fu'', ''VideoInfo_u'', [(''../unionVideoInfo__u.html'', 1, '''')]),
     (''videomode_5fs'', ''VideoMode_s'', [(''../structVideoMode__s.html'', 1, '''')]),
     (''videotiming_5fs'', ''VideoTiming_s'', [(''../structVideoTiming__s.html'', 1, '''')])]"

definition classes_pages :: "search_entry list list" where
  "classes_pages =
     [searchData_classes_0, searchData_classes_1, searchData_classes_2, searchData_classes_3,
      searchData_classes_4, searchData_classes_5, searchData_classes_6,
      searchData_classes_7, searchData_classes_8, searchData_classes_9,
      searchData_classes_a, searchData_classes_b]"

lemma classes_pages_ok: "list_all2 page_ok ''_acegimnprsv'' classes_pages"
  by (simp only: classes_pages_def page_eval
    searchData_classes_0_def searchData_classes_1_def searchData_classes_2_def
    searchData_classes_3_def searchData_classes_4_def searchData_classes_5_def
    searchData_classes_6_def searchData_classes_7_def searchData_classes_8_def
    searchData_classes_9_def searchData_classes_a_def searchData_classes_b_def)

subsection \<open>Section files\<close>

definition searchData_files_0 :: "search_entry list" where
  "searchData_files_0 =
    [(''0_2ec'', ''0.c'', [(''../0_8c.html'', 1, '''')]),
     (''0_2eh'', ''0.h'', [(''../0_8h.html'', 1, '''')])]"

definition searchData_files_1 :: "search_entry list" where
  "searchData_files_1 =
    [(''atoi_2ec'', ''atoi.c'', [(''../atoi_8c.html'', 1, '''')])]"

definition searchData_files_2 :: "search_entry list" where
  "searchData_files_2 =
    [(''bootstrap_2eh'', ''bootstrap.h'', [(''../bootstrap_8h.html'', 1, '''')]),
     (''buffer_2ec'', ''buffer.c'', [(''../buffer_8c.html'', 1, '''')]),
     (''buffer_2eh'', ''buffer.h'', [(''../buffer_8h.html'', 1, '''')]),
     (''buildinfo_2eh'', ''buildinfo.h'', [(''../buildinfo_8h.html'', 1, '''')])]"

definition searchData_files_3 :: "search_entry list" where
  "searchData_files_3 =
    [(''c_5fio_2ec'', ''c_io.c'', [(''../c__io_8c.html'', 1, '''')]),
     (''c_5fio_2eh'', ''c_io.h'', [(''../c__io_8h.html'', 1, '''')]),
     (''cache_2eh'', ''cache.h'', [(''../cache_8h.html'', 1, '''')]),
     (''clock_2ec'', ''clock.c'', [(''../clock_8c.html'', 1, '''')]),
     (''clock_2eh'', ''clock.h'', [(''../clock_8h.html'', 1, '''')]),
     (''clusters_2eh'', ''clusters.h'', [(''../clusters_8h.html'', 1, '''')]),
     (''color_2ec'', ''color.c'', [(''../color_8c.html'', 1, '''')]),
     (''color_2eh'', ''color.h'', [(''../color_8h.html'', 1, '''')]),
     (''common_2eh'', ''common.h'', [(''../common_8h.html'', 1, '''')]),
     (''console_2ec'', ''console.c'', [(''../console_8c.html'', 1, '''')]),
     (''console_2eh'', ''console.h'', [(''../console_8h.html'', 1, '''')]),
     (''control_2ec'', ''control.c'', [(''../control_8c.html'', 1, '''')]),
     (''control_2eh'', ''control.h'', [(''../control_8h.html'', 1, '''')]),
     (''create_2eh'', ''create.h'', [(''../create_8h.html'', 1, '''')]),
     (''ctype_2eh'', ''ctype.h'', [(''../ctype_8h.html'', 1, '''')])]"

definition searchData_files_4 :: "search_entry list" where
  "searchData_files_4 =
    [(''delete_2eh'', ''delete.h'', [(''../delete_8h.html'', 1, '''')]),
     (''device_2ec'', ''device.c'', [(''../device_8c.html'', 1, '''')]),
     (''device_2eh'', ''device.h'', [(''../device_8h.html'', 1, '''')]),
     (''draw_2ec'', ''draw.c'', [(''../draw_8c.html'', 1, '''')]),
     (''draw_2eh'', ''draw.h'', [(''../draw_8h.html'', 1, '''')])]"

definition searchData_files_5 :: "search_entry list" where
  "searchData_files_5 =
    [(''edid_2ec'', ''edid.c'', [(''../edid_8c.html'', 1, '''')]),
     (''edid_2eh'', ''edid.h'', [(''../edid_8h.html'', 1, '''')]),
     (''edidrecord_2eh'', ''EDIDRecord.h'', [(''../EDIDRecord_8h.html'', 1, '''')]),
     (''err_2eh'', ''err.h'', [(''../vesa_2err_8h.html'', 1, '''')]),
     (''err_2eh'', ''err.h'', [(''../video_2err_8h.html'', 1, '''')]),
     (''err_2eh'', ''err.h'', [(''../vga13_2err_8h.html'', 1, '''')]),
     (''err_2eh'', ''err.h'', [(''../vconsole_2err_8h.html'', 1, '''')])]"

definition searchData_files_6 :: "search_entry list" where
  "searchData_files_6 =
    [(''fat_2ec'', ''fat.c'', [(''../fat_8c.html'', 1, '''')]),
     (''fat_2eh'', ''fat.h'', [(''../fat_8h.html'', 1, '''')]),
     (''fat_5ftypes_2eh'', ''fat_types.h'', [(''../fat__types_8h.html'', 1, '''')]),
     (''fb_2ec'', ''fb.c'', [(''../fb_8c.html'', 1, '''')]),
     (''fb_2eh'', ''fb.h'', [(''../fb_8h.html'', 1, '''')]),
     (''file_2ec'', ''file.c'', [(''../file_8c.html'', 1, '''')]),
     (''file_2eh'', ''file.h'', [(''../file_8h.html'', 1, '''')]),
     (''filesystem_2ec'', ''filesystem.c'', [(''../filesystem_8c.html'', 1, '''')]),
     (''filesystem_2eh'', ''filesystem.h'', [(''../filesystem_8h.html'', 1, '''')])]"

definition searchData_files_7 :: "search_entry list" where
  "searchData_files_7 =
    [(''gdt_5finit_2ec'', ''gdt_init.c'', [(''../gdt__init_8c.html'', 1, '''')]),
     (''gdtdescriptor_2eh'', ''GDTDescriptor.h'', [(''../GDTDescriptor_8h.html'', 1, '''')]),
     (''gdtentry_2eh'', ''GDTEntry.h'', [(''../GDTEntry_8h.html'', 1, '''')]),
     (''globals_2ec'', ''globals.c'', [(''../globals_8c.html'', 1, '''')]),
     (''globals_2eh'', ''globals.h'', [(''../globals_8h.html'', 1, '''')])]"

definition searchData_files_8 :: "search_entry list" where
  "searchData_files_8 =
    [(''intel_2ec'', ''intel.c'', [(''../intel_8c.html'', 1, '''')]),
     (''intel_2eh'', ''intel.h'', [(''../intel_8h.html'', 1, '''')]),
     (''io_5ftypes_2eh'', ''io_types.h'', [(''../io__types_8h.html'', 1, '''')])]"

definition searchData_files_9 :: "search_entry list" where
  "searchData_files_9 =
    [(''klib_2eh'', ''klib.h'', [(''../klib_8h.html'', 1, '''')]),
     (''klibc_2ec'', ''klibc.c'', [(''../klibc_8c.html'', 1, '''')])]"

definition searchData_files_a :: "search_entry list" where
  "searchData_files_a =
    [(''libpath_2ec'', ''libpath.c'', [(''../libpath_8c.html'', 1, '''')]),
     (''libpath_2eh'', ''libpath.h'', [(''../libpath_8h.html'', 1, '''')])]"

definition searchData_files_b :: "search_entry list" where
  "searchData_files_b =
    [(''main_2ec'', ''main.c'', [(''../early_2main_8c.html'', 1, '''')]),
     (''main_2ec'', ''main.c'', [(''../main_8c.html'', 1, '''')]),
     (''marquee_2ec'', ''marquee.c'', [(''../marquee_8c.html'', 1, '''')]),
     (''marquee_2eh'', ''marquee.h'', [(''../marquee_8h.html'', 1, '''')]),
     (''memcmp_2ec'', ''memcmp.c'', [(''../memcmp_8c.html'', 1, '''')]),
     (''memcpy_2ec'', ''memcpy.c'', [(''../memcpy_8c.html'', 1, '''')]),
     (''memmove_2ec'', ''memmove.c'', [(''../memmove_8c.html'', 1, '''')]),
     (''memory_5fconstants_2eh'', ''memory_constants.h'', [(''../memory__constants_8h.html'', 1, '''')]),
     (''memory_5fmap_2ec'', ''memory_map.c'', [(''../memory__map_8c.html'', 1, '''')]),
     (''memory_5fmap_2eh'', ''memory_map.h'', [(''../memory__map_8h.html'', 1, '''')]),
     (''memory_5fmap_5fsetup_2ec'', ''memory_map_setup.c'', [(''../memory__map__setup_8c.html'', 1, '''')]),
     (''memory_5fmap_5fsetup_2eh'', ''memory_map_setup.h'', [(''../memory__map__setup_8h.html'', 1, '''')]),
     (''memset_2ec'', ''memset.c'', [(''../memset_8c.html'', 1, '''')]),
     (''memshim_2ec'', ''memshim.c'', [(''../memshim_8c.html'', 1, '''')]),
     (''memshim_2eh'', ''memshim.h'', [(''../memshim_8h.html'', 1, '''')]),
     (''message_2ec'', ''message.c'', [(''../message_8c.html'', 1, '''')]),
     (''message_2eh'', ''message.h'', [(''../message_8h.html'', 1, '''')]),
     (''meta_2eh'', ''meta.h'', [(''../meta_8h.html'', 1, '''')]),
     (''middleware_2ec'', ''middleware.c'', [(''../middleware_8c.html'', 1, '''')]),
     (''middleware_2eh'', ''middleware.h'', [(''../middleware_8h.html'', 1, '''')]),
     (''mount_2ec'', ''mount.c'', [(''../mount_8c.html'', 1, '''')]),
     (''mount_2eh'', ''mount.h'', [(''../mount_8h.html'', 1, '''')])]"

definition searchData_files_c :: "search_entry list" where
  "searchData_files_c =
    [(''net_5ftest_2ec'', ''net_test.c'', [(''../net__test_8c.html'', 1, '''')]),
     (''net_5ftest_2eh'', ''net_test.h'', [(''../net__test_8h.html'', 1, '''')])]"

definition searchData_files_d :: "search_entry list" where
  "searchData_files_d =
    [(''paintcontext_2eh'', ''PaintContext.h'', [(''../PaintContext_8h.html'', 1, '''')]),
     (''pci_2ec'', ''pci.c'', [(''../pci_8c.html'', 1, '''')]),
     (''pci_2eh'', ''pci.h'', [(''../pci_8h.html'', 1, '''')]),
     (''point_2eh'', ''Point.h'', [(''../Point_8h.html'', 1, '''')]),
     (''prettyprinter_2ec'', ''prettyprinter.c'', [(''../prettyprinter_8c.html'', 1, '''')]),
     (''prettyprinter_2eh'', ''prettyprinter.h'', [(''../prettyprinter_8h.html'', 1, '''')]),
     (''process_2ec'', ''process.c'', [(''../process_8c.html'', 1, '''')]),
     (''process_2eh'', ''process.h'', [(''../process_8h.html'', 1, '''')]),
     (''psfont_2eh'', ''PSFont.h'', [(''../PSFont_8h.html'', 1, '''')]),
     (''pubfat_2ec'', ''pubfat.c'', [(''../pubfat_8c.html'', 1, '''')]),
     (''pubfat_2eh'', ''pubfat.h'', [(''../pubfat_8h.html'', 1, '''')])]"

definition searchData_files_e :: "search_entry list" where
  "searchData_files_e =
    [(''query_2eh'', ''query.h'', [(''../query_8h.html'', 1, '''')]),
     (''queue_2ec'', ''queue.c'', [(''../queue_8c.html'', 1, '''')]),
     (''queue_2eh'', ''queue.h'', [(''../queue_8h.html'', 1, '''')])]"

definition searchData_files_f :: "search_entry list" where
  "searchData_files_f =
    [(''ramdisk_2ec'', ''ramdisk.c'', [(''../ramdisk_8c.html'', 1, '''')]),
     (''ramdisk_2eh'', ''ramdisk.h'', [(''../ramdisk_8h.html'', 1, '''')]),
     (''raw_2ec'', ''raw.c'', [(''../raw_8c.html'', 1, '''')]),
     (''raw_2eh'', ''raw.h'', [(''../raw_8h.html'', 1, '''')]),
     (''read_2eh'', ''read.h'', [(''../read_8h.html'', 1, '''')]),
     (''realmode_2eh'', ''realmode.h'', [(''../early_2realmode_8h.html'', 1, '''')]),
     (''realmode_2eh'', ''realmode.h'', [(''../realmode_8h.html'', 1, '''')]),
     (''rect_2ec'', ''rect.c'', [(''../rect_8c.html'', 1, '''')]),
     (''rect_2eh'', ''Rect.h'', [(''../Rect_8h.html'', 1, ''(Global Namespace)''), (''../rect_8h.html'', 1, ''(Global Namespace)'')]),
     (''router_2ec'', ''router.c'', [(''../router_8c.html'', 1, '''')]),
     (''router_2eh'', ''router.h'', [(''../router_8h.html'', 1, '''')])]"

definition searchData_files_10 :: "search_entry list" where
  "searchData_files_10 =
    [(''scheduler_2ec'', ''scheduler.c'', [(''../scheduler_8c.html'', 1, '''')]),
     (''scheduler_2eh'', ''scheduler.h'', [(''../scheduler_8h.html'', 1, '''')]),
     (''scroll_2ec'', ''scroll.c'', [(''../scroll_8c.html'', 1, '''')]),
     (''scroll_2eh'', ''scroll.h'', [(''../scroll_8h.html'', 1, '''')]),
     (''set_2eh'', ''set.h'', [(''../set_8h.html'', 1, '''')]),
     (''simple_5fmount_2ec'', ''simple_mount.c'', [(''../simple__mount_8c.html'', 1, '''')]),
     (''simple_5fmount_2eh'', ''simple_mount.h'', [(''../simple__mount_8h.html'', 1, '''')]),
     (''sio_2ec'', ''sio.c'', [(''../sio_8c.html'', 1, '''')]),
     (''sio_2eh'', ''sio.h'', [(''../sio_8h.html'', 1, '''')]),
     (''size_2eh'', ''Size.h'', [(''../Size_8h.html'', 1, '''')]),
     (''stack_2ec'', ''stack.c'', [(''../stack_8c.html'', 1, '''')]),
     (''stack_2eh'', ''stack.h'', [(''../stack_8h.html'', 1, '''')]),
     (''startup_2eh'', ''startup.h'', [(''../startup_8h.html'', 1, '''')]),
     (''stddef_2eh'', ''stddef.h'', [(''../stddef_8h.html'', 1, '''')]),
     (''stdint_2eh'', ''stdint.h'', [(''../stdint_8h.html'', 1, '''')]),
     (''strcpy_2ec'', ''strcpy.c'', [(''../strcpy_8c.html'', 1, '''')]),
     (''string_2eh'', ''string.h'', [(''../string_8h.html'', 1, '''')]),
     (''strlen_2ec'', ''strlen.c'', [(''../strlen_8c.html'', 1, '''')]),
     (''strpos_2ec'', ''strpos.c'', [(''../strpos_8c.html'', 1, '''')]),
     (''strupper_2ec'', ''strupper.c'', [(''../strupper_8c.html'', 1, '''')]),
     (''support_2ec'', ''support.c'', [(''../support_8c.html'', 1, '''')]),
     (''support_2eh'', ''support.h'', [(''../support_8h.html'', 1, '''')]),
     (''syscall_2ec'', ''syscall.c'', [(''../syscall_8c.html'', 1, '''')]),
     (''syscall_2eh'', ''syscall.h'', [(''../syscall_8h.html'', 1, '''')]),
     (''system_2ec'', ''system.c'', [(''../system_8c.html'', 1, '''')]),
     (''system_2eh'', ''system.h'', [(''../system_8h.html'', 1, '''')])]"

definition searchData_files_11 :: "search_entry list" where
  "searchData_files_11 =
    [(''text_2ec'', ''text.c'', [(''../text_8c.html'', 1, '''')]),
     (''text_2eh'', ''text.h'', [(''../text_8h.html'', 1, '''')]),
     (''time_2ec'', ''time.c'', [(''../time_8c.html'', 1, '''')]),
     (''time_2eh'', ''time.h'', [(''../time_8h.html'', 1, '''')]),
     (''types_2eh'', ''types.h'', [(''../types_8h.html'', 1, '''')])]"

definition searchData_files_12 :: "search_entry list" where
  "searchData_files_12 =
    [(''uart_2eh'', ''uart.h'', [(''../uart_8h.html'', 1, '''')]),
     (''ulib_2eh'', ''ulib.h'', [(''../ulib_8h.html'', 1, '''')]),
     (''ulibc_2ec'', ''ulibc.c'', [(''../ulibc_8c.html'', 1, '''')]),
     (''user_2ec'', ''user.c'', [(''../user_8c.html'', 1, '''')]),
     (''user_2eh'', ''user.h'', [(''../user_8h.html'', 1, '''')])]"

definition searchData_files_13 :: "search_entry list" where
  "searchData_files_13 =
    [(''vbe_2ec'', ''vbe.c'', [(''../vbe_8c.html'', 1, '''')]),
     (''vbe_2eh'', ''vbe.h'', [(''../vbe_8h.html'', 1, '''')]),
     (''vbe2modeinfo_2eh'', ''VBE2ModeInfo.h'', [(''../VBE2ModeInfo_8h.html'', 1, '''')]),
     (''vbe3modeinfo_2eh'', ''VBE3ModeInfo.h'', [(''../VBE3ModeInfo_8h.html'', 1, '''')]),
     (''vbeinfo_2eh'', ''VBEInfo.h'', [(''../VBEInfo_8h.html'', 1, '''')]),
     (''vbemodeinfo_2eh'', ''VBEModeInfo.h'', [(''../VBEModeInfo_8h.html'', 1, '''')]),
     (''vcon_2eh'', ''VCon.h'', [(''../VCon_8h.html'', 1, '''')]),
     (''vconbuf_2eh'', ''VConBuf.h'', [(''../VConBuf_8h.html'', 1, '''')]),
     (''vconchar_2eh'', ''VConChar.h'', [(''../VConChar_8h.html'', 1, '''')]),
     (''vconctrl_2eh'', ''VConCtrl.h'', [(''../VConCtrl_8h.html'', 1, '''')]),
     (''vcondrawfunc_2eh'', ''VConDrawFunc.h'', [(''../VConDrawFunc_8h.html'', 1, '''')]),
     (''vconline_2eh'', ''VConLine.h'', [(''../VConLine_8h.html'', 1, '''')]),
     (''vconmode_2eh'', ''VConMode.h'', [(''../VConMode_8h.html'', 1, '''')]),
     (''vconscrollfunc_2eh'', ''VConScrollFunc.h'', [(''../VConScrollFunc_8h.html'', 1, '''')]),
     (''vesa_2eh'', ''vesa.h'', [(''../vesa_8h.html'', 1, '''')]),
     (''vga_2eh'', ''vga.h'', [(''../vga_8h.html'', 1, '''')]),
     (''vga13_2ec'', ''vga13.c'', [(''../vga13_8c.html'', 1, '''')]),
     (''vga13_2eh'', ''vga13.h'', [(''../vga13_8h.html'', 1, '''')]),
     (''vgacolor_2eh'', ''vgacolor.h'', [(''../vgacolor_8h.html'', 1, '''')]),
     (''video_2ec'', ''video.c'', [(''../early_2video_8c.html'', 1, '''')]),
     (''video_2ec'', ''video.c'', [(''../video_2video_8c.html'', 1, '''')]),
     (''video_2eh'', ''video.h'', [(''../video_2video_8h.html'', 1, '''')]),
     (''video_2eh'', ''video.h'', [(''../early_2video_8h.html'', 1, '''')]),
     (''videocol_2eh'', ''VideoCol.h'', [(''../VideoCol_8h.html'', 1, '''')]),
     (''videocolorspace_2eh'', ''VideoColorSpace.h'', [(''../VideoColorSpace_8h.html'', 1, '''')]),
     (''videocomp_2eh'', ''VideoComp.h'', [(''../VideoComp_8h.html'', 1, '''')]),
     (''videofb_2eh'', ''VideoFb.h'', [(''../VideoFb_8h.html'', 1, '''')]),
     (''videoinfo_2eh'', ''VideoInfo.h'', [(''../VideoInfo_8h.html'', 1, '''')]),
     (''videomode_2eh'', ''VideoMode.h'', [(''../VideoMode_8h.html'', 1, '''')]),
     (''videostatus_2eh'', ''VideoStatus.h'', [(''../VideoStatus_8h.html'', 1, '''')]),
     (''videotiming_2eh'', ''VideoTiming.h'', [(''../VideoTiming_8h.html'', 1, '''')])]"

definition searchData_files_14 :: "search_entry list" where
  "searchData_files_14 =
    [(''write_2eh'', ''write.h'', [(''../write_8h.html'', 1, '''')])]"

definition searchData_files_15 :: "search_entry list" where
  "searchData_files_15 =
    [(''x86arch_2eh'', ''x86arch.h'', [(''../x86arch_8h.html'', 1, '''')])]"

definition files_pages :: "search_entry list list" where
  "files_pages =
     [searchData_files_0, searchData_files_1, searchData_files_2, searchData_files_3,
      searchData_files_4, searchData_files_5, searchData_files_6, searchData_files_7,
      searchData_files_8, searchData_files_9, searchData_files_a, searchData_files_b,
      searchData_files_c, searchData_files_d, searchData_files_e, searchData_files_f,
      searchData_files_10, searchData_files_11, searchData_files_12, searchData_files_13,
      searchData_files_14, searchData_files_15]"

lemma files_pages_ok: "list_all2 page_ok ''0abcdefgiklmnpqrstuvwx'' files_pages"
  by (simp only: files_pages_def page_eval
    searchData_files_0_def searchData_files_1_def searchData_files_2_def
    searchData_files_3_def searchData_files_4_def searchData_files_5_def
    searchData_files_6_def searchData_files_7_def searchData_files_8_def
    searchData_files_9_def searchData_files_a_def searchData_files_b_def
    searchData_files_c_def searchData_files_d_def searchData_files_e_def
    searchData_files_f_def searchData_files_10_def searchData_files_11_def
    searchData_files_12_def searchData_files_13_def searchData_files_14_def
    searchData_files_15_def)

subsection \<open>Section typedefs\<close>

definition searchData_typedefs_0 :: "search_entry list" where
  "searchData_typedefs_0 =
    [(''_5fio_5fobject_5fentry'', ''_io_object_entry'', [(''../router_8c.html#a4394dc6c15d66282182f98b184d5e779'', 1, ''router.c'')])]"

definition searchData_typedefs_1 :: "search_entry list" where
  "searchData_typedefs_1 =
    [(''address_5fspace_5ft'', ''address_space_t'', [(''../memory__map_8h.html#a3d6ecbb5a6114862b1fd1194f995b72a'', 1, ''memory_map.h'')])]"

definition searchData_typedefs_2 :: "search_entry list" where
  "searchData_typedefs_2 =
    [(''bios_5fparam_5fblock'', ''BIOS_PARAM_BLOCK'', [(''../fat__types_8h.html#af8ecd7db6e1aefc3bc7f23910129a920'', 1, ''fat_types.h'')]),
     (''boffset'', ''BOFFSET'', [(''../io__types_8h.html#add88df105b3141ba5fe665f322e97e2d'', 1, ''io_types.h'')]),
     (''bsize'', ''BSIZE'', [(''../io__types_8h.html#a26932db3827dcb81ea73a157eced07a8'', 1, ''io_types.h'')])]"

definition searchData_typedefs_3 :: "search_entry list" where
  "searchData_typedefs_3 =
    [(''cmpf_5ft'', ''cmpf_t'', [(''../queue_8h.html#acff460ed9d3624a71e9b67cda2fc3b6c'', 1, ''queue.h'')]),
     (''context_5ft'', ''context_t'', [(''../process_8h.html#a1ac848b34df6ede8d0973835cda81bc4'', 1, ''process.h'')])]"

definition searchData_typedefs_4 :: "search_entry list" where
  "searchData_typedefs_4 =
    [(''edidrecord'', ''EDIDRecord'', [(''../EDIDRecord_8h.html#a22945ceefb004e4e7192f87b092612e8'', 1, ''EDIDRecord.h'')])]"

definition searchData_typedefs_5 :: "search_entry list" where
  "searchData_typedefs_5 =
    [(''fat32time'', ''FAT32TIME'', [(''../fat__types_8h.html#accfb57ee6c4bb1cac76888f34fb2af26'', 1, ''fat_types.h'')]),
     (''fat_5fcache'', ''FAT_CACHE'', [(''../fat__types_8h.html#a085cccf416d51ee75c8c3fbaa72c75fe'', 1, ''fat_types.h'')]),
     (''fat_5fcontext'', ''FAT_CONTEXT'', [(''../fat__types_8h.html#a9a75c52b152c6356bf79d37f790ad6e3'', 1, ''fat_types.h'')]),
     (''fat_5fdate_5fpacked'', ''FAT_DATE_PACKED'', [(''../fat__types_8h.html#aadb7a7832dc7a395ee93fc26d109f28c'', 1, ''fat_types.h'')]),
     (''fat_5fde_5fattribute'', ''FAT_DE_ATTRIBUTE'', [(''../fat__types_8h.html#acf9d3848d0fe097ee9b14d3eefdee667'', 1, ''fat_types.h'')]),
     (''fat_5fde_5fentry'', ''FAT_DE_ENTRY'', [(''../fat__types_8h.html#ad15a483abd389f756708754490327794'', 1, ''fat_types.h'')]),
     (''fat_5fde_5flongname_5fentry'', ''FAT_DE_LONGNAME_ENTRY'', [(''../fat__types_8h.html#a814cf1c83d960505169fa01cf1208f43'', 1, ''fat_types.h'')]),
     (''fat_5fdentry'', ''FAT_DENTRY'', [(''../fat__types_8h.html#a831946d572404edfb05c421993b0b684'', 1, ''fat_types.h'')]),
     (''fat_5fentry'', ''FAT_ENTRY'', [(''../fat__types_8h.html#a413e9856ffdbf39ff93ffc40212bc9ee'', 1, ''fat_types.h'')]),
     (''fat_5ftime_5fpacked'', ''FAT_TIME_PACKED'', [(''../fat__types_8h.html#a87db3eb569f62eeaab8a6d5a3e0c6793'', 1, ''fat_types.h'')]),
     (''filehandle'', ''FILEHANDLE'', [(''../io__types_8h.html#a99524e188970c51a518533a666279707'', 1, ''io_types.h'')]),
     (''fs_5finfo_5fsector'', ''FS_INFO_SECTOR'', [(''../fat__types_8h.html#a6b8caf0fcb5535ef8589e9de957a60a8'', 1, ''fat_types.h'')])]"

definition searchData_typedefs_6 :: "search_entry list" where
  "searchData_typedefs_6 =
    [(''gdtdescriptor'', ''GDTDescriptor'', [(''../GDTDescriptor_8h.html#a0ea35069c49fc8f10ea7dfdb6fb5bb24'', 1, ''GDTDescriptor.h'')]),
     (''gdtentry'', ''GDTEntry'', [(''../GDTEntry_8h.html#adf80afc290aa6e9b91abb275cce9bfee'', 1, ''GDTEntry.h'')])]"

definition searchData_typedefs_7 :: "search_entry list" where
  "searchData_typedefs_7 =
    [(''int16_5ft'', ''int16_t'', [(''../stdint_8h.html#aa343fa3b3d06292b959ffdd4c4703b06'', 1, ''stdint.h'')]),
     (''int32_5ft'', ''int32_t'', [(''../stdint_8h.html#a32f2e37ee053cf2ce8ca28d1f74630e5'', 1, ''stdint.h'')]),
     (''int64_5ft'', ''int64_t'', [(''../stdint_8h.html#a312c7e8848187d110315ab83a7b3d4d0'', 1, ''stdint.h'')]),
     (''int8_5ft'', ''int8_t'', [(''../stdint_8h.html#ad566f6541e98b74246db1a3a3a85ad49'', 1, ''stdint.h'')]),
     (''io_5fdevice'', ''IO_DEVICE'', [(''../device_8h.html#a9bb67a671a8dce092f8a85dad05e6a6a'', 1, ''device.h'')]),
     (''io_5ffile_5fentry'', ''io_file_entry'', [(''../file_8c.html#a62979077c51450279ce5c88a7ab845a4'', 1, ''file.c'')]),
     (''io_5ffilesystem'', ''IO_FILESYSTEM'', [(''../filesystem_8h.html#a341299738d6780e0f12072ae40e7b645'', 1, ''filesystem.h'')]),
     (''io_5fmessage'', ''IO_MESSAGE'', [(''../message_8h.html#a3ecf2efdb825a0071e9b00ca33d69062'', 1, ''message.h'')]),
     (''io_5fmiddleware'', ''IO_MIDDLEWARE'', [(''../middleware_8h.html#ac4bfcf5b0e5347cb1942798eb3ecdce4'', 1, ''middleware.h'')]),
     (''io_5fmount'', ''IO_MOUNT'', [(''../mount_8h.html#adc3ab762f079aecf7cebaf65a5bd77b7'', 1, ''mount.h'')]),
     (''io_5fobj_5ftype'', ''IO_OBJ_TYPE'', [(''../io__types_8h.html#a86d8f7f68475d9e81f6e1074cb63c7bd'', 1, ''io_types.h'')]),
     (''io_5funix_5fts'', ''IO_UNIX_TS'', [(''../io__types_8h.html#a9ebc4a3217ddceee81ff81faa1ce596b'', 1, ''io_types.h'')]),
     (''iocreatepolicy'', ''IOCREATEPOLICY'', [(''../io__types_8h.html#a2962e16676394132b43a0bcf2962c25d'', 1, ''io_types.h'')]),
     (''ioctl'', ''IOCTL'', [(''../io__types_8h.html#aaea0a9f691f7b745662294cf4b0009fb'', 1, ''io_types.h'')]),
     (''iohandle'', ''IOHANDLE'', [(''../io__types_8h.html#aeba79de16b861e01b767b2098904ca57'', 1, ''io_types.h'')]),
     (''ioprop'', ''IOPROP'', [(''../io__types_8h.html#adbb3db16bdef7a70ea04f4fac924ae89'', 1, ''io_types.h'')]),
     (''iosort'', ''IOSORT'', [(''../io__types_8h.html#ab812c540fc9c78a2d4ecdb3a41253512'', 1, ''io_types.h'')])]"

definition searchData_typedefs_8 :: "search_entry list" where
  "searchData_typedefs_8 =
    [(''memory_5fmap_5fentry'', ''memory_map_entry'', [(''../memory__map_8h.html#a5e0d356adf9d351be51aacf18bfb0d07'', 1, ''memory_map.h'')])]"

definition searchData_typedefs_9 :: "search_entry list" where
  "searchData_typedefs_9 =
    [(''p_5fio_5fobj_5ftype'', ''P_IO_OBJ_TYPE'', [(''../io__types_8h.html#a929897b14435c6ee347370c0b474ef9a'', 1, ''io_types.h'')]),
     (''paintcontext'', ''PaintContext'', [(''../PaintContext_8h.html#a419e35a1bc53bc11b1c4ad6ffe4e6f0e'', 1, ''PaintContext.h'')]),
     (''pboffset'', ''PBOFFSET'', [(''../io__types_8h.html#a1b9928258b81fb9ad2cddf18778954de'', 1, ''io_types.h'')]),
     (''pbsize'', ''PBSIZE'', [(''../io__types_8h.html#a36306cd03c4bf7e07b722b8cb060e968'', 1, ''io_types.h'')]),
     (''pcb_5ft'', ''pcb_t'', [(''../process_8h.html#aef9b21c1e6fbe9129fb96866b68bedb4'', 1, ''process.h'')]),
     (''pfat32time'', ''PFAT32TIME'', [(''../fat__types_8h.html#ab481bd365131439849955c4b62ebc1bc'', 1, ''fat_types.h'')]),
     (''pfat_5fcontext'', ''PFAT_CONTEXT'', [(''../fat__types_8h.html#acff5b6d36969040b40e007d326dc2124'', 1, ''fat_types.h'')]),
     (''pfilehandle'', ''PFILEHANDLE'', [(''../io__types_8h.html#ab9f5d31cec8541a73f50cfb0da582771'', 1, ''io_types.h'')]),
     (''pid_5ft'', ''pid_t'', [(''../types_8h.html#a48ba585f825ac4d19c3bbc0d2db283b7'', 1, ''types.h'')]),
     (''pio_5fdevice'', ''PIO_DEVICE'', [(''../device_8h.html#a1544b32be9dcd759bce63cb0ef0b1ff6'', 1, ''device.h'')]),
     (''pio_5ffile_5fentry'', ''pio_file_entry'', [(''../file_8c.html#a1d06c18c8e03ae900df398cdd5ec8c21'', 1, ''file.c'')]),
     (''pio_5ffilesystem'', ''PIO_FILESYSTEM'', [(''../filesystem_8h.html#a362da60e98d0a2c1f0353679bdee54ea'', 1, ''filesystem.h'')]),
     (''pio_5fmessage'', ''PIO_MESSAGE'', [(''../message_8h.html#a1a849629078f2948cb60ed5155281d1d'', 1, ''message.h'')]),
     (''pio_5fmiddleware'', ''PIO_MIDDLEWARE'', [(''../middleware_8h.html#af284dfcfe628c546e1a88ed0dbb68a2d'', 1, ''middleware.h'')]),
     (''pio_5fmount'', ''PIO_MOUNT'', [(''../mount_8h.html#a1e50f8ddec95c44dbd5f6e05aa62bc3a'', 1, ''mount.h'')]),
     (''pio_5funix_5fts'', ''PIO_UNIX_TS'', [(''../io__types_8h.html#a2b5dec8ce3d4a75f04bb51109823a7af'', 1, ''io_types.h'')]),
     (''piocreatepolicy'', ''PIOCREATEPOLICY'', [(''../io__types_8h.html#a96b6b1e113ad4ee699a7e5f56e5ace30'', 1, ''io_types.h'')]),
     (''pioctl'', ''PIOCTL'', [(''../io__types_8h.html#a07ab433f36625a5d240792944c58ea60'', 1, ''io_types.h'')]),
     (''piohandle'', ''PIOHANDLE'', [(''../io__types_8h.html#ab5f7a3ec607e39314688b301b47027c5'', 1, ''io_types.h'')]),
     (''pioprop'', ''PIOPROP'', [(''../io__types_8h.html#ae2855ddce943c8cb02fab62acfedfb62'', 1, ''io_types.h'')]),
     (''piosort'', ''PIOSORT'', [(''../io__types_8h.html#a822a3acdc64e4f95d4cc225805c13670'', 1, ''io_types.h'')]),
     (''point'', ''Point'', [(''../Point_8h.html#a8d6840733e641298252778181fe4d44f'', 1, ''Point.h'')]),
     (''prio_5ft'', ''prio_t'', [(''../types_8h.html#ae000a5a9b07710fba62226a8ec1ce69f'', 1, ''types.h'')]),
     (''psfont'', ''PSFont'', [(''../PSFont_8h.html#a5a083aac205d194df13f9abe5e66d5dd'', 1, ''PSFont.h'')]),
     (''ptrdiff_5ft'', ''ptrdiff_t'', [(''../stddef_8h.html#afbe679a40a36da5983ebc5b39754c065'', 1, ''stddef.h'')])]"

definition searchData_typedefs_a :: "search_entry list" where
  "searchData_typedefs_a =
    [(''qnode_5ft'', ''qnode_t'', [(''../queue_8h.html#a52cfcd93d8edc0bc25978af276fc0ee0'', 1, ''queue.h'')]),
     (''queue_5ft'', ''queue_t'', [(''../queue_8h.html#a3c299ace3daf4e4b3ac805ac7d1a3ea5'', 1, ''queue.h'')])]"

definition searchData_typedefs_b :: "search_entry list" where
  "searchData_typedefs_b =
    [(''rect'', ''Rect'', [(''../Rect_8h.html#a0202f501d7daf77b80a6bab0c7089ac5'', 1, ''Rect.h'')]),
     (''regs16_5ft'', ''regs16_t'', [(''../early_2realmode_8h.html#ad4a2d143e4967488e525608926ab7b43'', 1, ''regs16_t():&#160;realmode.h''), (''../realmode_8h.html#ad4a2d143e4967488e525608926ab7b43'', 1, ''regs16_t():&#160;realmode.h'')])]"

definition searchData_typedefs_c :: "search_entry list" where
  "searchData_typedefs_c =
    [(''size'', ''Size'', [(''../Size_8h.html#a8d4e87fb6746c75ab07f628d8c5e04db'', 1, ''Size.h'')]),
     (''size_5ft'', ''size_t'', [(''../stddef_8h.html#a7c94ea6f8948649f8d181ae55911eeaf'', 1, ''stddef.h'')]),
     (''stack_5ft'', ''stack_t'', [(''../stack_8h.html#a3d77fb955d01047afcf1d523ff4b6df2'', 1, ''stack.h'')]),
     (''state_5ft'', ''state_t'', [(''../types_8h.html#a5f506e226cef0157847cb6fee8f8519e'', 1, ''types.h'')]),
     (''status_5ft'', ''status_t'', [(''../types_8h.html#a2d34a5cd650731bb8bc91260ca2c0915'', 1, ''types.h'')])]"

definition searchData_typedefs_d :: "search_entry list" where
  "searchData_typedefs_d =
    [(''time_5ft'', ''time_t'', [(''../types_8h.html#a3346b04b0420b32ccf6b706551b70762'', 1, ''types.h'')])]"

definition searchData_typedefs_e :: "search_entry list" where
  "searchData_typedefs_e =
    [(''uint16_5ft'', ''uint16_t'', [(''../stdint_8h.html#a273cf69d639a59973b6019625df33e30'', 1, ''stdint.h'')]),
     (''uint32_5ft'', ''uint32_t'', [(''../stdint_8h.html#a435d1572bf3f880d55459d9805097f62'', 1, ''stdint.h'')]),
     (''uint64_5ft'', ''uint64_t'', [(''../stdint_8h.html#aa232ecf786a74ce5363c36c10798d2b1'', 1, ''stdint.h'')]),
     (''uint8_5ft'', ''uint8_t'', [(''../stdint_8h.html#aba7bc1797add20fe3efdf37ced1182c5'', 1, ''stdint.h'')]),
     (''uintptr_5ft'', ''uintptr_t'', [(''../stdint_8h.html#a728e973c799f206f0151c8a3bd1e5699'', 1, ''stdint.h'')])]"

definition searchData_typedefs_f :: "search_entry list" where
  "searchData_typedefs_f =
    [(''vbe2modeinfo'', ''VBE2ModeInfo'', [(''../VBE2ModeInfo_8h.html#a74fbcf4c340247a99a70cfcef3d80031'', 1, ''VBE2ModeInfo.h'')]),
     (''vbe3modeinfo'', ''VBE3ModeInfo'', [(''../VBE3ModeInfo_8h.html#a42ac42f36c7f4c2c46c0838b67111833'', 1, ''VBE3ModeInfo.h'')]),
     (''vbeinfo'', ''VBEInfo'', [(''../VBEInfo_8h.html#aebcff435df9f5d26b37086533bc83512'', 1, ''VBEInfo.h'')]),
     (''vbemodeinfo'', ''VBEModeInfo'', [(''../VBEModeInfo_8h.html#a4aef9145c7433c86bb3890c1b8aed8bf'', 1, ''VBEModeInfo.h'')]),
     (''vcon'', ''VCon'', [(''../VCon_8h.html#a716aa8d297fdb9b159b842cf4da4548c'', 1, ''VCon.h'')]),
     (''vconbuf'', ''VConBuf'', [(''../VConBuf_8h.html#a6c804f5c290b91b396caace910027e58'', 1, ''VConBuf.h'')]),
     (''vconchar'', ''VConChar'', [(''../VConChar_8h.html#a957a25f24913905bbf6bf29bb0471557'', 1, ''VConChar.h'')]),
     (''vconctrl'', ''VConCtrl'', [(''../VConCtrl_8h.html#a7e897d046f9156e772108e9c014e1116'', 1, ''VConCtrl.h'')]),
     (''vcondrawfunc'', ''VConDrawFunc'', [(''../VConDrawFunc_8h.html#ae4cac7bfb7946bd2082c373d950b574e'', 1, ''VConDrawFunc.h'')]),
     (''vconline'', ''VConLine'', [(''../VConLine_8h.html#a7fb75b2e651786cb19de05fc1daada7d'', 1, ''VConLine.h'')]),
     (''vconmode'', ''VConMode'', [(''../VConMode_8h.html#a2f09d6f97157b31691585601d949aab8'', 1, ''VConMode.h'')]),
     (''vconscrollfunc'', ''VConScrollFunc'', [(''../VConScrollFunc_8h.html#a9a3a9008c5863a3d4dd4492125acbe1c'', 1, ''VConScrollFunc.h'')]),
     (''vga_5fcolor'', ''VGA_COLOR'', [(''../vgacolor_8h.html#a59886c1c8aebcbda3ccd07e1296f9702'', 1, ''vgacolor.h'')]),
     (''videocol'', ''VideoCol'', [(''../VideoCol_8h.html#ac2a5ba00f4183b98f18e1c0179565f6d'', 1, ''VideoCol.h'')]),
     (''videocolorspace'', ''VideoColorSpace'', [(''../VideoColorSpace_8h.html#a24bb1a508a0928d4b099a25efd2819de'', 1, ''VideoColorSpace.h'')]),
     (''videocomp'', ''VideoComp'', [(''../VideoComp_8h.html#a8d25985881e4d148c0246379922e5e2f'', 1, ''VideoComp.h'')]),
     (''videofb'', ''VideoFb'', [(''../VideoFb_8h.html#a9fa668cbedd6e2ece03cf8a197018022'', 1, ''VideoFb.h'')]),
     (''videoinfo'', ''VideoInfo'', [(''../VideoInfo_8h.html#aff934afdace848277e4b4c3fcc551af0'', 1, ''VideoInfo.h'')]),
     (''videomode'', ''VideoMode'', [(''../VideoMode_8h.html#ac733c71b9055fba105dda0462be7059d'', 1, ''VideoMode.h'')]),
     (''videostatus'', ''VideoStatus'', [(''../VideoStatus_8h.html#a4c85e1c4dbe7b8aeae767cab09b8a7f8'', 1, ''VideoStatus.h'')]),
     (''videotiming'', ''VideoTiming'', [(''../VideoTiming_8h.html#a558b573151ad597765956f8cea9d3e59'', 1, ''VideoTiming.h'')])]"

definition typedefs_pages :: "search_entry list list" where
  "typedefs_pages =
     [searchData_typedefs_0, searchData_typedefs_1, searchData_typedefs_2,
      searchData_typedefs_3, searchData_typedefs_4, searchData_typedefs_5,
      searchData_typedefs_6, searchData_typedefs_7, searchData_typedefs_8,
      searchData_typedefs_9, searchData_typedefs_a, searchData_typedefs_b,
      searchData_typedefs_c, searchData_typedefs_d, searchData_typedefs_e,
      searchData_typedefs_f]"

lemma typedefs_pages_ok: "list_all2 page_ok ''_abcefgimpqrstuv'' typedefs_pages"
  by (simp only: typedefs_pages_def page_eval
    searchData_typedefs_0_def searchData_typedefs_1_def searchData_typedefs_2_def
    searchData_typedefs_3_def searchData_typedefs_4_def searchData_typedefs_5_def
    searchData_typedefs_6_def searchData_typedefs_7_def searchData_typedefs_8_def
    searchData_typedefs_9_def searchData_typedefs_a_def searchData_typedefs_b_def
    searchData_typedefs_c_def searchData_typedefs_d_def searchData_typedefs_e_def
    searchData_typedefs_f_def)

subsection \<open>Section enums\<close>

definition searchData_enums_0 :: "search_entry list" where
  "searchData_enums_0 =
    [(''_5ffat_5fclust_5fstat'', ''_fat_clust_stat'', [(''../fat__types_8h.html#ac1b5aae823140c03e06e1e73b2d3b45b'', 1, ''fat_types.h'')]),
     (''_5ffile_5fprop'', ''_file_prop'', [(''../io__types_8h.html#a54f1d532e9a65814c0c5bedc5dff021e'', 1, ''io_types.h'')]),
     (''_5fft_5fde_5fattr'', ''_ft_de_attr'', [(''../fat__types_8h.html#aec7d52b5c49b1dcedbd3ca8781825fec'', 1, ''fat_types.h'')]),
     (''_5fio_5fcreate_5fpolicy'', ''_io_create_policy'', [(''../io__types_8h.html#a968d012ffce7db9cbcd8774c17549aa0'', 1, ''io_types.h'')]),
     (''_5fio_5fsort'', ''_io_sort'', [(''../io__types_8h.html#ab45ede47fd7cc8669d4b29a93989396d'', 1, ''io_types.h'')]),
     (''_5fioctl'', ''_ioctl'', [(''../io__types_8h.html#aea417366ca90723a8c0117532b7f9aac'', 1, ''io_types.h'')])]"

definition searchData_enums_1 :: "search_entry list" where
  "searchData_enums_1 =
    [(''arp_5fopcode'', ''arp_opcode'', [(''../intel_8h.html#a028e5aebbcaa355878506760da63d122'', 1, ''intel.h'')])]"

definition searchData_enums_2 :: "search_entry list" where
  "searchData_enums_2 =
    [(''cb_5fcommands'', ''cb_commands'', [(''../intel_8h.html#a316ca5206b4a0e295dbdd8c6ba40048c'', 1, ''intel.h'')]),
     (''cb_5fstatus'', ''cb_status'', [(''../intel_8h.html#ac84810b0a4e2a7c27dfb92f1ae6947c2'', 1, ''intel.h'')])]"

definition searchData_enums_3 :: "search_entry list" where
  "searchData_enums_3 =
    [(''e_5fprio'', ''e_prio'', [(''../types_8h.html#a606fdefd3f56e753c5965e7b5a57652a'', 1, ''types.h'')]),
     (''e_5fstat'', ''e_stat'', [(''../types_8h.html#acf9b3a9c9b9a651d1be5ba2887e1970b'', 1, ''types.h'')]),
     (''e_5fstate'', ''e_state'', [(''../types_8h.html#a74a75e4700f1f71bb89d80765319e57b'', 1, ''types.h'')]),
     (''eeprom_5flo_5fcontrol'', ''eeprom_lo_control'', [(''../intel_8h.html#afac9aee74e5a2067edce49c39d35a73d'', 1, ''intel.h'')]),
     (''eeprom_5fopcodes'', ''eeprom_opcodes'', [(''../intel_8h.html#acdc5126bb2130fa97b625a8171ad82f1'', 1, ''intel.h'')]),
     (''ethertype_5ft'', ''ethertype_t'', [(''../intel_8h.html#a710f0db4a2c42c4c6fdb4e000b81e227'', 1, ''intel.h'')])]"

definition searchData_enums_4 :: "search_entry list" where
  "searchData_enums_4 =
    [(''io_5fobj_5ftype'', ''io_obj_type'', [(''../io__types_8h.html#a2fe30808f4513bbdb694f392a6e1d15a'', 1, ''io_types.h'')]),
     (''ip_5fprotocol_5ft'', ''ip_protocol_t'', [(''../intel_8h.html#a4cadafd910a357a4e71c12d51a6ef606'', 1, ''intel.h'')])]"

definition searchData_enums_5 :: "search_entry list" where
  "searchData_enums_5 =
    [(''scb_5fcontrol'', ''scb_control'', [(''../intel_8h.html#ac85ebe3efb133fedbf66ca90cb1e98a0'', 1, ''intel.h'')]),
     (''scb_5fstat_5fack'', ''scb_stat_ack'', [(''../intel_8h.html#a23a94247bf73611fba38307f53e60e0f'', 1, ''intel.h'')]),
     (''scb_5fstatus'', ''scb_status'', [(''../intel_8h.html#a56fc70fac0e85180f470f88ce8580b8a'', 1, ''intel.h'')])]"

definition searchData_enums_6 :: "search_entry list" where
  "searchData_enums_6 =
    [(''vconmode_5fe'', ''VConMode_e'', [(''../VConMode_8h.html#a97269b1554dbfe4abdc7f5d8f6d20a54'', 1, ''VConMode.h'')]),
     (''vga_5fcolor_5fe'', ''VGA_COLOR_e'', [(''../vgacolor_8h.html#a796a970feeb015aa37610cf7b0693945'', 1, ''vgacolor.h'')]),
     (''videocomp_5fe'', ''VideoComp_e'', [(''../VideoComp_8h.html#a3b5e0c709d8913b7653bf6452cffce09'', 1, ''VideoComp.h'')]),
     (''videostatus_5fe'', ''VideoStatus_e'', [(''../VideoStatus_8h.html#a42da70fef22c460c626406adeab90adb'', 1, ''VideoStatus.h'')])]"

definition enums_pages :: "search_entry list list" where
  "enums_pages =
     [searchData_enums_0, searchData_enums_1, searchData_enums_2, searchData_enums_3,
      searchData_enums_4, searchData_enums_5, searchData_enums_6]"

lemma enums_pages_ok: "list_all2 page_ok ''_aceisv'' enums_pages"
  by (simp only: enums_pages_def page_eval
    searchData_enums_0_def searchData_enums_1_def searchData_enums_2_def
    searchData_enums_3_def searchData_enums_4_def searchData_enums_5_def
    searchData_enums_6_def)

subsection \<open>Section enumvalues\<close>

definition searchData_enumvalues_0 :: "search_entry list" where
  "searchData_enumvalues_0 =
    [(''ack_5fcna'', ''ack_cna'', [(''../intel_8h.html#a23a94247bf73611fba38307f53e60e0fa494b5734a81cfe3ad75b7b55d04a352a'', 1, ''intel.h'')]),
     (''ack_5fcs_5ftno'', ''ack_cs_tno'', [(''../intel_8h.html#a23a94247bf73611fba38307f53e60e0fab9e2173b01951ed6e89cfc9951cab7d8'', 1, ''intel.h'')]),
     (''ack_5ffr'', ''ack_fr'', [(''../intel_8h.html#a23a94247bf73611fba38307f53e60e0fa2da78951266abd748ba98ceec3d5e074'', 1, ''intel.h'')]),
     (''ack_5fmdi'', ''ack_mdi'', [(''../intel_8h.html#a23a94247bf73611fba38307f53e60e0fa9f05d33a7cae154290eba731359fa1e5'', 1, ''intel.h'')]),
     (''ack_5frnr'', ''ack_rnr'', [(''../intel_8h.html#a23a94247bf73611fba38307f53e60e0faf3ea68420fdedb20b3c53ed3d3a9014e'', 1, ''intel.h'')]),
     (''ack_5fswi'', ''ack_swi'', [(''../intel_8h.html#a23a94247bf73611fba38307f53e60e0fabf0a3d55ff42c120c4575d4f7fd9862e'', 1, ''intel.h'')]),
     (''arp_5freply'', ''arp_reply'', [(''../intel_8h.html#a028e5aebbcaa355878506760da63d122ace04ad7130a76258bf67d9470a2a671f'', 1, ''intel.h'')]),
     (''arp_5frequest'', ''arp_request'', [(''../intel_8h.html#a028e5aebbcaa355878506760da63d122a2d8f91639222954ed419772594d36517'', 1, ''intel.h'')])]"

definition searchData_enumvalues_1 :: "search_entry list" where
  "searchData_enumvalues_1 =
    [(''cb_5fc'', ''cb_c'', [(''../intel_8h.html#ac84810b0a4e2a7c27dfb92f1ae6947c2adae065caa377eedc84dc796c9bf5108c'', 1, ''intel.h'')]),
     (''cb_5fcfg_5fcmd'', ''cb_cfg_cmd'', [(''../intel_8h.html#a316ca5206b4a0e295dbdd8c6ba40048cab0f602e3b7876f56cf09fff7fc5cd7e5'', 1, ''intel.h'')]),
     (''cb_5fel'', ''cb_el'', [(''../intel_8h.html#a316ca5206b4a0e295dbdd8c6ba40048ca028a493fdd2aef5d928991d2b09a1514'', 1, ''intel.h'')]),
     (''cb_5fi'', ''cb_i'', [(''../intel_8h.html#a316ca5206b4a0e295dbdd8c6ba40048ca412fbb5bcc4a388d35401d28139e75ae'', 1, ''intel.h'')]),
     (''cb_5fia_5fcmd'', ''cb_ia_cmd'', [(''../intel_8h.html#a316ca5206b4a0e295dbdd8c6ba40048ca145284b6bfba7245b34879fb9aa65b1d'', 1, ''intel.h'')]),
     (''cb_5fok'', ''cb_ok'', [(''../intel_8h.html#ac84810b0a4e2a7c27dfb92f1ae6947c2a3b434a90eebfd21ddf5701e17e3b0ff6'', 1, ''intel.h'')]),
     (''cb_5fs'', ''cb_s'', [(''../intel_8h.html#a316ca5206b4a0e295dbdd8c6ba40048ca4cef77a9bb70ce4aa90af68a5cbdc311'', 1, ''intel.h'')]),
     (''cb_5fsf'', ''cb_sf'', [(''../intel_8h.html#a316ca5206b4a0e295dbdd8c6ba40048ca8073e3f52152a2734aa95d16b9575c28'', 1, ''intel.h'')]),
     (''cb_5ftx_5fcmd'', ''cb_tx_cmd'', [(''../intel_8h.html#a316ca5206b4a0e295dbdd8c6ba40048caca887ca2d4f082335fea9a34433274cf'', 1, ''intel.h'')]),
     (''cb_5fu'', ''cb_u'', [(''../intel_8h.html#ac84810b0a4e2a7c27dfb92f1ae6947c2a2e99014fad541a24261cf45b7f6b55b3'', 1, ''intel.h'')]),
     (''cu_5fhqp_5factive'', ''cu_hqp_active'', [(''../intel_8h.html#a56fc70fac0e85180f470f88ce8580b8aa2673c2bb95bb8c9235bb2d0aa4e320eb'', 1, ''intel.h'')]),
     (''cu_5fidle'', ''cu_idle'', [(''../intel_8h.html#a56fc70fac0e85180f470f88ce8580b8aadea7673357c500e92136afc856e61e0e'', 1, ''intel.h'')]),
     (''cu_5flpq_5factive'', ''cu_lpq_active'', [(''../intel_8h.html#a56fc70fac0e85180f470f88ce8580b8aa8e8654fa3bc9b6ddbae3b74b948f5def'', 1, ''intel.h'')]),
     (''cu_5fmask'', ''cu_mask'', [(''../intel_8h.html#a56fc70fac0e85180f470f88ce8580b8aa7fec2b59c893a56c64aff633c0843218'', 1, ''intel.h'')]),
     (''cu_5fsuspended'', ''cu_suspended'', [(''../intel_8h.html#a56fc70fac0e85180f470f88ce8580b8aafa3a0f140bd7647bbb2449830748f600'', 1, ''intel.h'')]),
     (''cuc_5fcu_5fstatic_5fresume'', ''cuc_cu_static_resume'', [(''../intel_8h.html#ac85ebe3efb133fedbf66ca90cb1e98a0afbe1f617f4325600ea8c1793c3dbbf11'', 1, ''intel.h'')]),
     (''cuc_5fdump_5freset_5fstat_5fcnt'', ''cuc_dump_reset_stat_cnt'', [(''../intel_8h.html#ac85ebe3efb133fedbf66ca90cb1e98a0a1b6228156b8a88759c17419231f76d64'', 1, ''intel.h'')]),
     (''cuc_5fdump_5fstat_5fcnt'', ''cuc_dump_stat_cnt'', [(''../intel_8h.html#ac85ebe3efb133fedbf66ca90cb1e98a0a3378f7925fe17911995450975db1092f'', 1, ''intel.h'')]),
     (''cuc_5fload_5fcu_5fbase'', ''cuc_load_cu_base'', [(''../intel_8h.html#ac85ebe3efb133fedbf66ca90cb1e98a0ad58fe1e8d851378730cd9aa8c70bcd80'', 1, ''intel.h'')]),
     (''cuc_5fload_5fdump_5fcnt_5faddr'', ''cuc_load_dump_cnt_addr'', [(''../intel_8h.html#ac85ebe3efb133fedbf66ca90cb1e98a0af552fa94be8dbb77ebfe0c467eaf3cd4'', 1, ''intel.h'')]),
     (''cuc_5fnop'', ''cuc_nop'', [(''../intel_8h.html#ac85ebe3efb133fedbf66ca90cb1e98a0aa1c8e0b20ce13501ffb5ff1551e9bd10'', 1, ''intel.h'')]),
     (''cuc_5fresume'', ''cuc_resume'', [(''../intel_8h.html#ac85ebe3efb133fedbf66ca90cb1e98a0ab47898c4d5255bf3ddb4e7197130743e'', 1, ''intel.h'')]),
     (''cuc_5fstart'', ''cuc_start'', [(''../intel_8h.html#ac85ebe3efb133fedbf66ca90cb1e98a0a91adb35c85dfa19aa7d95784fe19dbda'', 1, ''intel.h'')])]"

definition searchData_enumvalues_2 :: "search_entry list" where
  "searchData_enumvalues_2 =
    [(''e_5fbad_5farg'', ''E_BAD_ARG'', [(''../types_8h.html#acf9b3a9c9b9a651d1be5ba2887e1970ba7b5c4fd9aed51a0942d8b3f1cae4e600'', 1, ''types.h'')]),
     (''e_5fbad_5fchan'', ''E_BAD_CHAN'', [(''../types_8h.html#acf9b3a9c9b9a651d1be5ba2887e1970ba0d8ccbb1987cf9c0a90490ffa37b24dc'', 1, ''types.h'')]),
     (''e_5fbad_5fhandle'', ''E_BAD_HANDLE'', [(''../types_8h.html#acf9b3a9c9b9a651d1be5ba2887e1970baa65fef614cc1d1db3683a14df6414973'', 1, ''types.h'')]),
     (''e_5fbad_5fptr'', ''E_BAD_PTR'', [(''../types_8h.html#acf9b3a9c9b9a651d1be5ba2887e1970ba6942c790c12a5a49db6b29d6481c0588'', 1, ''types.h'')]),
     (''e_5fbad_5ftype'', ''E_BAD_TYPE'', [(''../types_8h.html#acf9b3a9c9b9a651d1be5ba2887e1970ba9386637bd375d6618f87179ee70b5e61'', 1, ''types.h'')]),
     (''e_5fcanceled'', ''E_CANCELED'', [(''../types_8h.html#acf9b3a9c9b9a651d1be5ba2887e1970ba2037ae2f61968260b2ad8126940eb762'', 1, ''types.h'')]),
     (''e_5fempty_5fqueue'', ''E_EMPTY_QUEUE'', [(''../types_8h.html#acf9b3a9c9b9a651d1be5ba2887e1970ba6909bd75ba0bbeb01190a8b724d958ef'', 1, ''types.h'')]),
     (''e_5ffailure'', ''E_FAILURE'', [(''../types_8h.html#acf9b3a9c9b9a651d1be5ba2887e1970babef5ce6a60230d91bd19964e3a68a9ec'', 1, ''types.h'')]),
     (''e_5flocked'', ''E_LOCKED'', [(''../types_8h.html#acf9b3a9c9b9a651d1be5ba2887e1970ba599243b45d78f3d659cc641b443a1512'', 1, ''types.h'')]),
     (''e_5fmore_5fdata'', ''E_MORE_DATA'', [(''../types_8h.html#acf9b3a9c9b9a651d1be5ba2887e1970ba31b552ddf7a68c8581d54fdadbada540'', 1, ''types.h'')]),
     (''e_5fno_5fchar'', ''E_NO_CHAR'', [(''../types_8h.html#acf9b3a9c9b9a651d1be5ba2887e1970bada6e62b0ad79edd3c3fbe7f52462a1c6'', 1, ''types.h'')]),
     (''e_5fno_5fchild'', ''E_NO_CHILD'', [(''../types_8h.html#acf9b3a9c9b9a651d1be5ba2887e1970ba66875bc1d6a7469a57c6e2f609bacee7'', 1, ''types.h'')]),
     (''e_5fno_5fdata'', ''E_NO_DATA'', [(''../types_8h.html#acf9b3a9c9b9a651d1be5ba2887e1970bad04b4aded201c5f9d9aaccadb5f8da57'', 1, ''types.h'')]),
     (''e_5fno_5fmatch'', ''E_NO_MATCH'', [(''../types_8h.html#acf9b3a9c9b9a651d1be5ba2887e1970ba2a0db192dd0d59736b9c4caf11ba37c6'', 1, ''types.h'')]),
     (''e_5fno_5fmore_5fhandles'', ''E_NO_MORE_HANDLES'', [(''../types_8h.html#acf9b3a9c9b9a651d1be5ba2887e1970baf13de8212e7d9e16a1566e1fe8bb210b'', 1, ''types.h'')]),
     (''e_5fno_5fmore_5fprocs'', ''E_NO_MORE_PROCS'', [(''../types_8h.html#acf9b3a9c9b9a651d1be5ba2887e1970bae74fde614041de7ae14459a9b7355087'', 1, ''types.h'')]),
     (''e_5fno_5fpcbs'', ''E_NO_PCBS'', [(''../types_8h.html#acf9b3a9c9b9a651d1be5ba2887e1970ba0db1f7dbc6b6901cabaa49fcb5f9a2cb'', 1, ''types.h'')]),
     (''e_5fno_5fperm'', ''E_NO_PERM'', [(''../types_8h.html#acf9b3a9c9b9a651d1be5ba2887e1970ba34282665e1d4f91fc2826e51ce279107'', 1, ''types.h'')]),
     (''e_5fno_5fprocess'', ''E_NO_PROCESS'', [(''../types_8h.html#acf9b3a9c9b9a651d1be5ba2887e1970babc7ff2b2e284ec7d72ccfd207d1873a4'', 1, ''types.h'')]),
     (''e_5fno_5fqnodes'', ''E_NO_QNODES'', [(''../types_8h.html#acf9b3a9c9b9a651d1be5ba2887e1970baae9b11809448a6a6eb0e7893346fe178'', 1, ''types.h'')]),
     (''e_5fno_5fstacks'', ''E_NO_STACKS'', [(''../types_8h.html#acf9b3a9c9b9a651d1be5ba2887e1970ba2ec58711041d17e4a494ef9589948997'', 1, ''types.h'')]),
     (''e_5fnot_5fimplemented'', ''E_NOT_IMPLEMENTED'', [(''../types_8h.html#acf9b3a9c9b9a651d1be5ba2887e1970baa6d13fc3a2ccdbc35c2194fd782e5497'', 1, ''types.h'')]),
     (''e_5fout_5fof_5fbounds'', ''E_OUT_OF_BOUNDS'', [(''../types_8h.html#acf9b3a9c9b9a651d1be5ba2887e1970ba9e8111def9e1e94231c903825d9ae7f0'', 1, ''types.h'')]),
     (''e_5fout_5fof_5fobjects'', ''E_OUT_OF_OBJECTS'', [(''../types_8h.html#acf9b3a9c9b9a651d1be5ba2887e1970ba53143fc7e18127d64579f6841cee306a'', 1, ''types.h'')]),
     (''e_5fsuccess'', ''E_SUCCESS'', [(''../types_8h.html#acf9b3a9c9b9a651d1be5ba2887e1970bac3121e429a129b2ccb51a92b7c78c4b4'', 1, ''types.h'')]),
     (''eecs'', ''EECS'', [(''../intel_8h.html#afac9aee74e5a2067edce49c39d35a73da1712ca4957d69762329cb450cc9c0a6e'', 1, ''intel.h'')]),
     (''eedi'', ''EEDI'', [(''../intel_8h.html#afac9aee74e5a2067edce49c39d35a73da2f7bfd4d58c3ec5f1fa4a9ae2d7fe8a6'', 1, ''intel.h'')]),
     (''eedo'', ''EEDO'', [(''../intel_8h.html#afac9aee74e5a2067edce49c39d35a73daa69880de7e0799bb0cf63364f8f70258'', 1, ''intel.h'')]),
     (''eesk'', ''EESK'', [(''../intel_8h.html#afac9aee74e5a2067edce49c39d35a73da37fe1e59d553c2c2c6a2d25c428b5877'', 1, ''intel.h'')]),
     (''ethertype_5farp'', ''ethertype_arp'', [(''../intel_8h.html#a710f0db4a2c42c4c6fdb4e000b81e227a0204b5039f3aea48ad31a5a4a8643180'', 1, ''intel.h'')]),
     (''ethertype_5fipv4'', ''ethertype_ipv4'', [(''../intel_8h.html#a710f0db4a2c42c4c6fdb4e000b81e227a7b8a28bcce16e6d86c9ddd2198ba3106'', 1, ''intel.h'')]),
     (''ethertype_5fipv6'', ''ethertype_ipv6'', [(''../intel_8h.html#a710f0db4a2c42c4c6fdb4e000b81e227ab7617cc30e30f1dc640ff3525010fde3'', 1, ''intel.h'')]),
     (''ethertype_5fipx'', ''ethertype_ipx'', [(''../intel_8h.html#a710f0db4a2c42c4c6fdb4e000b81e227a196c5218919bd9da8875cc659ac9c2a1'', 1, ''intel.h'')])]"

definition searchData_enumvalues_3 :: "search_entry list" where
  "searchData_enumvalues_3 =
    [(''fat_5fclust_5fbad'', ''FAT_CLUST_BAD'', [(''../fat__types_8h.html#ac1b5aae823140c03e06e1e73b2d3b45baf6aac0cc3edee8312b37c40ced2ac16b'', 1, ''fat_types.h'')]),
     (''fat_5fclust_5ffree'', ''FAT_CLUST_FREE'', [(''../fat__types_8h.html#ac1b5aae823140c03e06e1e73b2d3b45ba121fdf3d6a89fcc09263c91eab059bab'', 1, ''fat_types.h'')]),
     (''fat_5fclust_5flast'', ''FAT_CLUST_LAST'', [(''../fat__types_8h.html#ac1b5aae823140c03e06e1e73b2d3b45baa9196a44980a9ad14d4c60f09043d012'', 1, ''fat_types.h'')]),
     (''fat_5fclust_5fpointer'', ''FAT_CLUST_POINTER'', [(''../fat__types_8h.html#ac1b5aae823140c03e06e1e73b2d3b45ba18a4bce72942d6b7d5c5a1403f3e93f7'', 1, ''fat_types.h'')]),
     (''fat_5fclust_5freserved'', ''FAT_CLUST_RESERVED'', [(''../fat__types_8h.html#ac1b5aae823140c03e06e1e73b2d3b45ba9d2b93cc8c8ae303a81c9f72d2ddeb70'', 1, ''fat_types.h'')]),
     (''fat_5fde_5farchive'', ''FAT_DE_ARCHIVE'', [(''../fat__types_8h.html#aec7d52b5c49b1dcedbd3ca8781825feca086bbae3cc713d403c44b9ae4d3062a3'', 1, ''fat_types.h'')]),
     (''fat_5fde_5fdirectory'', ''FAT_DE_DIRECTORY'', [(''../fat__types_8h.html#aec7d52b5c49b1dcedbd3ca8781825feca449fe812524dd531394a3f63db44d27c'', 1, ''fat_types.h'')]),
     (''fat_5fde_5fhidden'', ''FAT_DE_HIDDEN'', [(''../fat__types_8h.html#aec7d52b5c49b1dcedbd3ca8781825feca85b811c07525e604fb5872a340648b35'', 1, ''fat_types.h'')]),
     (''fat_5fde_5freadonly'', ''FAT_DE_READONLY'', [(''../fat__types_8h.html#aec7d52b5c49b1dcedbd3ca8781825fecad96bbf8a7c8177a73871dc6f544981b3'', 1, ''fat_types.h'')]),
     (''fat_5fde_5fsystem'', ''FAT_DE_SYSTEM'', [(''../fat__types_8h.html#aec7d52b5c49b1dcedbd3ca8781825feca7aba3d5b659c79a6fa31c26044ee9c4e'', 1, ''fat_types.h'')]),
     (''fat_5fde_5fvolumeid'', ''FAT_DE_VOLUMEID'', [(''../fat__types_8h.html#aec7d52b5c49b1dcedbd3ca8781825feca781b956db9235fa4c5737f17729f9d72'', 1, ''fat_types.h'')])]"

definition searchData_enumvalues_4 :: "search_entry list" where
  "searchData_enumvalues_4 =
    [(''io_5fcp_5fcreate'', ''IO_CP_CREATE'', [(''../io__types_8h.html#a968d012ffce7db9cbcd8774c17549aa0a15334ac2bdf4ce1e90bf21055e4f9651'', 1, ''io_types.h'')]),
     (''io_5fcp_5fcreaterecursive'', ''IO_CP_CREATERECURSIVE'', [(''../io__types_8h.html#a968d012ffce7db9cbcd8774c17549aa0af2a94638b78fe7ab848d4552e436645d'', 1, ''io_types.h'')]),
     (''io_5fcp_5ffail'', ''IO_CP_FAIL'', [(''../io__types_8h.html#a968d012ffce7db9cbcd8774c17549aa0a746e3df229d8b6ad226331907d24fc25'', 1, ''io_types.h'')]),
     (''io_5fobj_5fdevice'', ''IO_OBJ_DEVICE'', [(''../io__types_8h.html#a2fe30808f4513bbdb694f392a6e1d15aab957c66a655fcc81ad41c988765a7d0c'', 1, ''io_types.h'')]),
     (''io_5fobj_5ffile'', ''IO_OBJ_FILE'', [(''../io__types_8h.html#a2fe30808f4513bbdb694f392a6e1d15aabc17fd42c119b22d8997615e8ce34718'', 1, ''io_types.h'')]),
     (''io_5fobj_5ffilesystem'', ''IO_OBJ_FILESYSTEM'', [(''../io__types_8h.html#a2fe30808f4513bbdb694f392a6e1d15aaec7322a68c9c7850d7f1519c9b154632'', 1, ''io_types.h'')]),
     (''io_5fobj_5ffilter'', ''IO_OBJ_FILTER'', [(''../io__types_8h.html#a2fe30808f4513bbdb694f392a6e1d15aa87fdf5296202d6bfab93e4c836a811be'', 1, ''io_types.h'')]),
     (''io_5fobj_5fmessage'', ''IO_OBJ_MESSAGE'', [(''../io__types_8h.html#a2fe30808f4513bbdb694f392a6e1d15aa90a764272807d3f8999461d5b8ffdac1'', 1, ''io_types.h'')]),
     (''io_5fobj_5fmiddleware'', ''IO_OBJ_MIDDLEWARE'', [(''../io__types_8h.html#a2fe30808f4513bbdb694f392a6e1d15aa38daa7c6f5f804ece51b1f62b4100a8d'', 1, ''io_types.h'')]),
     (''io_5fobj_5fmount'', ''IO_OBJ_MOUNT'', [(''../io__types_8h.html#a2fe30808f4513bbdb694f392a6e1d15aa78af89bd2d25706d6a5b109e9cfc54fd'', 1, ''io_types.h'')]),
     (''io_5fobj_5funknown'', ''IO_OBJ_UNKNOWN'', [(''../io__types_8h.html#a2fe30808f4513bbdb694f392a6e1d15aac9d67c28b08d49a4678cf12add5d4099'', 1, ''io_types.h'')]),
     (''io_5fsort_5fasc'', ''IO_SORT_ASC'', [(''../io__types_8h.html#ab45ede47fd7cc8669d4b29a93989396da07ebf67b7757c271462ec6a5c99b7926'', 1, ''io_types.h'')]),
     (''io_5fsort_5fdsc'', ''IO_SORT_DSC'', [(''../io__types_8h.html#ab45ede47fd7cc8669d4b29a93989396dafeaf1d9401fbbda94e19d9c67e98abba'', 1, ''io_types.h'')]),
     (''io_5fsort_5frnd'', ''IO_SORT_RND'', [(''../io__types_8h.html#ab45ede47fd7cc8669d4b29a93989396da8825f17271888c6a1597f3822f8f8fbd'', 1, ''io_types.h'')]),
     (''ioctl_5fappend'', ''IOCTL_APPEND'', [(''../io__types_8h.html#aea417366ca90723a8c0117532b7f9aaca1de744eea6eeec25946dc8fb6b998edc'', 1, ''io_types.h'')]),
     (''ioctl_5fcreate'', ''IOCTL_CREATE'', [(''../io__types_8h.html#aea417366ca90723a8c0117532b7f9aacaff13be532936845056f3a9ca11dc5caf'', 1, ''io_types.h'')]),
     (''ioctl_5fdelete'', ''IOCTL_DELETE'', [(''../io__types_8h.html#aea417366ca90723a8c0117532b7f9aaca9bf5741deb346687e2352a8b100bf136'', 1, ''io_types.h'')]),
     (''ioctl_5fenumerate'', ''IOCTL_ENUMERATE'', [(''../io__types_8h.html#aea417366ca90723a8c0117532b7f9aaca180b3475c00b46d11c025ef3735247c6'', 1, ''io_types.h'')]),
     (''ioctl_5fexpand'', ''IOCTL_EXPAND'', [(''../io__types_8h.html#aea417366ca90723a8c0117532b7f9aaca61f77ed02f5395a7a523c9d7d418215d'', 1, ''io_types.h'')]),
     (''ioctl_5fgrow'', ''IOCTL_GROW'', [(''../io__types_8h.html#aea417366ca90723a8c0117532b7f9aaca656d9de79cd31e477621dd9a5dfdfbc1'', 1, ''io_types.h'')]),
     (''ioctl_5fidentify'', ''IOCTL_IDENTIFY'', [(''../io__types_8h.html#aea417366ca90723a8c0117532b7f9aacac6a5a9c9b71d700923eac10c96cbd3d0'', 1, ''io_types.h'')]),
     (''ioctl_5fquery'', ''IOCTL_QUERY'', [(''../io__types_8h.html#aea417366ca90723a8c0117532b7f9aacaf816a00b6a58e6dfd52bf364709cf149'', 1, ''io_types.h'')]),
     (''ioctl_5fread'', ''IOCTL_READ'', [(''../io__types_8h.html#aea417366ca90723a8c0117532b7f9aacaf076df1181298b569bd208a8f700fe11'', 1, ''io_types.h'')]),
     (''ioctl_5fshrink'', ''IOCTL_SHRINK'', [(''../io__types_8h.html#aea417366ca90723a8c0117532b7f9aaca4911252b283983465bbcc9419fc1c62e'', 1, ''io_types.h'')]),
     (''ioctl_5fwrite'', ''IOCTL_WRITE'', [(''../io__types_8h.html#aea417366ca90723a8c0117532b7f9aacaea5e26bfbf7120cf6addb0bcb0a02ba7'', 1, ''io_types.h'')]),
     (''ioprop_5farchive'', ''IOPROP_ARCHIVE'', [(''../io__types_8h.html#a54f1d532e9a65814c0c5bedc5dff021ea3585c3d09f335567999e2e281986b777'', 1, ''io_types.h'')]),
     (''ioprop_5fbuffer'', ''IOPROP_BUFFER'', [(''../io__types_8h.html#a54f1d532e9a65814c0c5bedc5dff021eaf5bacad6d3301298fd569f128771567a'', 1, ''io_types.h'')]),
     (''ioprop_5fcount_5fchildren'', ''IOPROP_COUNT_CHILDREN'', [(''../io__types_8h.html#a54f1d532e9a65814c0c5bedc5dff021ea5da7899aa43608ba8371ee16acd6b433'', 1, ''io_types.h'')]),
     (''ioprop_5fcreated'', ''IOPROP_CREATED'', [(''../io__types_8h.html#a54f1d532e9a65814c0c5bedc5dff021ea243288ecaaaf0398c45e12a882589e85'', 1, ''io_types.h'')]),
     (''ioprop_5fcursor_5fposition'', ''IOPROP_CURSOR_POSITION'', [(''../io__types_8h.html#a54f1d532e9a65814c0c5bedc5dff021eabd765a40a02c2249d5ce45c4d6316695'', 1, ''io_types.h'')]),
     (''ioprop_5fdevice'', ''IOPROP_DEVICE'', [(''../io__types_8h.html#a54f1d532e9a65814c0c5bedc5dff021ea058ad32be980b919a6d24f44a16caae7'', 1, ''io_types.h'')]),
     (''ioprop_5fexecute'', ''IOPROP_EXECUTE'', [(''../io__types_8h.html#a54f1d532e9a65814c0c5bedc5dff021ea6e59f8b6c097cb37d51a0944716497e8'', 1, ''io_types.h'')]),
     (''ioprop_5ffilesystem'', ''IOPROP_FILESYSTEM'', [(''../io__types_8h.html#a54f1d532e9a65814c0c5bedc5dff021ea5c77563b111471076840b080715250f4'', 1, ''io_types.h'')]),
     (''ioprop_5ffinalize'', ''IOPROP_FINALIZE'', [(''../io__types_8h.html#a54f1d532e9a65814c0c5bedc5dff021ea9509993749aef04b9e31cf75ee40a04e'', 1, ''io_types.h'')]),
     (''ioprop_5ffs_5fgrab'', ''IOPROP_FS_GRAB'', [(''../io__types_8h.html#a54f1d532e9a65814c0c5bedc5dff021ea32b4c913f36a0f39905a88de4be05c57'', 1, ''io_types.h'')]),
     (''ioprop_5fhidden'', ''IOPROP_HIDDEN'', [(''../io__types_8h.html#a54f1d532e9a65814c0c5bedc5dff021ea9771efec30d3c2d63ccb9a31e2daebb5'', 1, ''io_types.h'')]),
     (''ioprop_5finit'', ''IOPROP_INIT'', [(''../io__types_8h.html#a54f1d532e9a65814c0c5bedc5dff021ea37e851091731723219c284efd4213241'', 1, ''io_types.h'')]),
     (''ioprop_5fioctl'', ''IOPROP_IOCTL'', [(''../io__types_8h.html#a54f1d532e9a65814c0c5bedc5dff021eace0604f0cc8c2eef28635664b049aac5'', 1, ''io_types.h'')]),
     (''ioprop_5fis_5fdir'', ''IOPROP_IS_DIR'', [(''../io__types_8h.html#a54f1d532e9a65814c0c5bedc5dff021eae479851a7e33a815003fda16eb9fd34c'', 1, ''io_types.h'')]),
     (''ioprop_5flast_5fmodified'', ''IOPROP_LAST_MODIFIED'', [(''../io__types_8h.html#a54f1d532e9a65814c0c5bedc5dff021eae66af26f3b4450e01e6c1f6cb16f1085'', 1, ''io_types.h'')]),
     (''ioprop_5flast_5fread'', ''IOPROP_LAST_READ'', [(''../io__types_8h.html#a54f1d532e9a65814c0c5bedc5dff021ead6e638fd4503192d5e7a92f4c144918d'', 1, ''io_types.h'')]),
     (''ioprop_5flength_5fcontent'', ''IOPROP_LENGTH_CONTENT'', [(''../io__types_8h.html#a54f1d532e9a65814c0c5bedc5dff021ea4c211fee0b0eea26563f036e27401fd7'', 1, ''io_types.h'')]),
     (''ioprop_5flocked'', ''IOPROP_LOCKED'', [(''../io__types_8h.html#a54f1d532e9a65814c0c5bedc5dff021eaae37208b9d6d15d0bc960f9b47755647'', 1, ''io_types.h'')]),
     (''ioprop_5fname'', ''IOPROP_NAME'', [(''../io__types_8h.html#a54f1d532e9a65814c0c5bedc5dff021ea147f9f31b49717d8f43d33345fa24922'', 1, ''io_types.h'')]),
     (''ioprop_5fparent_5fpath'', ''IOPROP_PARENT_PATH'', [(''../io__types_8h.html#a54f1d532e9a65814c0c5bedc5dff021ea1ef8a9955008359e4b4a534f4184daad'', 1, ''io_types.h'')]),
     (''ioprop_5fpath'', ''IOPROP_PATH'', [(''../io__types_8h.html#a54f1d532e9a65814c0c5bedc5dff021ea70b50ad530eb66658b9f4f5c71c5d9f3'', 1, ''io_types.h'')]),
     (''ioprop_5fprop'', ''IOPROP_PROP'', [(''../io__types_8h.html#a54f1d532e9a65814c0c5bedc5dff021ea75674784b7541de93c193bf121f10c67'', 1, ''io_types.h'')]),
     (''ioprop_5fread'', ''IOPROP_READ'', [(''../io__types_8h.html#a54f1d532e9a65814c0c5bedc5dff021ea557a431d8b04f79eef439ce7fc60b2e4'', 1, ''io_types.h'')]),
     (''ioprop_5fsystem'', ''IOPROP_SYSTEM'', [(''../io__types_8h.html#a54f1d532e9a65814c0c5bedc5dff021ea418c8a16cc5f2fb0914db1ea91621f45'', 1, ''io_types.h'')]),
     (''ioprop_5fwrite'', ''IOPROP_WRITE'', [(''../io__types_8h.html#a54f1d532e9a65814c0c5bedc5dff021ead6f0d8b6a76bb6547f5f2d0e8e6168c9'', 1, ''io_types.h'')]),
     (''ip_5ficmp'', ''ip_icmp'', [(''../intel_8h.html#a4cadafd910a357a4e71c12d51a6ef606a1b1f50932ddad445765312f6d8685cd4'', 1, ''intel.h'')]),
     (''ip_5figmp'', ''ip_igmp'', [(''../intel_8h.html#a4cadafd910a357a4e71c12d51a6ef606a05a68bad155e85827d895b706249af1d'', 1, ''intel.h'')]),
     (''ip_5ftcp'', ''ip_tcp'', [(''../intel_8h.html#a4cadafd910a357a4e71c12d51a6ef606ad58e8942f69dcaa5047e28b373d7e1d4'', 1, ''intel.h'')]),
     (''ip_5fudp'', ''ip_udp'', [(''../intel_8h.html#a4cadafd910a357a4e71c12d51a6ef606a5b910e34fbbcfdc69ed2011bdc93adfe'', 1, ''intel.h'')])]"

definition searchData_enumvalues_5 :: "search_entry list" where
  "searchData_enumvalues_5 =
    [(''op_5fewds'', ''op_ewds'', [(''../intel_8h.html#acdc5126bb2130fa97b625a8171ad82f1ab1e657f1bcbd815a505ff0af3b2ec6ab'', 1, ''intel.h'')]),
     (''op_5fewen'', ''op_ewen'', [(''../intel_8h.html#acdc5126bb2130fa97b625a8171ad82f1a2537f7420a7ab2589ed6f57bb73e8ee0'', 1, ''intel.h'')]),
     (''op_5fread'', ''op_read'', [(''../intel_8h.html#acdc5126bb2130fa97b625a8171ad82f1a6d83f3d021c2e5b4d8b0463894f85116'', 1, ''intel.h'')]),
     (''op_5fwrite'', ''op_write'', [(''../intel_8h.html#acdc5126bb2130fa97b625a8171ad82f1a9007b248c86cfc2497db9b028754c963'', 1, ''intel.h'')])]"

definition searchData_enumvalues_6 :: "search_entry list" where
  "searchData_enumvalues_6 =
    [(''p_5fhigh'', ''P_HIGH'', [(''../types_8h.html#a606fdefd3f56e753c5965e7b5a57652aa0622ca9bf03ca26a4dec57f72c276314'', 1, ''types.h'')]),
     (''p_5flow'', ''P_LOW'', [(''../types_8h.html#a606fdefd3f56e753c5965e7b5a57652aa842f15c25f3ab2243461dffbd65069b1'', 1, ''types.h'')]),
     (''p_5fmin'', ''P_MIN'', [(''../types_8h.html#a606fdefd3f56e753c5965e7b5a57652aa0c44a3462987eafd699406a80b668dc3'', 1, ''types.h'')]),
     (''p_5fsystem'', ''P_SYSTEM'', [(''../types_8h.html#a606fdefd3f56e753c5965e7b5a57652aaf922fcca522100eee8763a3e11602459'', 1, ''types.h'')]),
     (''ps_5fblocked'', ''PS_BLOCKED'', [(''../types_8h.html#a74a75e4700f1f71bb89d80765319e57ba04c361142369a00a37063d0e983d1648'', 1, ''types.h'')]),
     (''ps_5ffree'', ''PS_FREE'', [(''../types_8h.html#a74a75e4700f1f71bb89d80765319e57baa82b383198cb64eaa245f6412c55abc7'', 1, ''types.h'')]),
     (''ps_5finvalid'', ''PS_INVALID'', [(''../types_8h.html#a74a75e4700f1f71bb89d80765319e57baedef692a8b6d4b94a52febf7fa704a35'', 1, ''types.h'')]),
     (''ps_5fkilled'', ''PS_KILLED'', [(''../types_8h.html#a74a75e4700f1f71bb89d80765319e57ba9ed452fc6c3f1b500b256b05f1019d9e'', 1, ''types.h'')]),
     (''ps_5fnew'', ''PS_NEW'', [(''../types_8h.html#a74a75e4700f1f71bb89d80765319e57bac47f7b586fa1283d87671f34b655fa7d'', 1, ''types.h'')]),
     (''ps_5fready'', ''PS_READY'', [(''../types_8h.html#a74a75e4700f1f71bb89d80765319e57bad704bca1f4a52c376b2fc453fe8ecc9a'', 1, ''types.h'')]),
     (''ps_5frunning'', ''PS_RUNNING'', [(''../types_8h.html#a74a75e4700f1f71bb89d80765319e57ba0abc21448f7a1b6511a02a8f74baab74'', 1, ''types.h'')]),
     (''ps_5fsleeping'', ''PS_SLEEPING'', [(''../types_8h.html#a74a75e4700f1f71bb89d80765319e57bad1da05efd04b4eb66955b784a6f0f6c1'', 1, ''types.h'')]),
     (''ps_5fwaiting'', ''PS_WAITING'', [(''../types_8h.html#a74a75e4700f1f71bb89d80765319e57bad89ef86aa8f1c6e7ddf0860603095100'', 1, ''types.h'')]),
     (''ps_5fzombie'', ''PS_ZOMBIE'', [(''../types_8h.html#a74a75e4700f1f71bb89d80765319e57bad3623e1a6b38fdc6b2654a121d7953a6'', 1, ''types.h'')])]"

definition searchData_enumvalues_7 :: "search_entry list" where
  "searchData_enumvalues_7 =
    [(''ru_5fidle'', ''ru_idle'', [(''../intel_8h.html#a56fc70fac0e85180f470f88ce8580b8aa667920a4930bcedf66b564cd7f0c3db6'', 1, ''intel.h'')]),
     (''ru_5fmask'', ''ru_mask'', [(''../intel_8h.html#a56fc70fac0e85180f470f88ce8580b8aa6a550ac42c2dda5c2db790a665195af0'', 1, ''intel.h'')]),
     (''ru_5fno_5fresources'', ''ru_no_resources'', [(''../intel_8h.html#a56fc70fac0e85180f470f88ce8580b8aa76a101b44f8b8c5cbe6e532015655887'', 1, ''intel.h'')]),
     (''ru_5fready'', ''ru_ready'', [(''../intel_8h.html#a56fc70fac0e85180f470f88ce8580b8aa752694d17d6bcbe66c44246d6cb37e58'', 1, ''intel.h'')]),
     (''ru_5fsuspended'', ''ru_suspended'', [(''../intel_8h.html#a56fc70fac0e85180f470f88ce8580b8aabe992f669d461a5826c081f5a08609dc'', 1, ''intel.h'')]),
     (''ruc_5fabort'', ''ruc_abort'', [(''../intel_8h.html#ac85ebe3efb133fedbf66ca90cb1e98a0aa524287fec33a0d94874b11c9caf9bbc'', 1, ''intel.h'')]),
     (''ruc_5fload_5fheader_5fdata_5fsize'', ''ruc_load_header_data_size'', [(''../intel_8h.html#ac85ebe3efb133fedbf66ca90cb1e98a0a1d8c4aeb8f1caafa0947f9423398018c'', 1, ''intel.h'')]),
     (''ruc_5fload_5fru_5fbase'', ''ruc_load_ru_base'', [(''../intel_8h.html#ac85ebe3efb133fedbf66ca90cb1e98a0a9be7598e5bbc32618b27b59e0bbc9c42'', 1, ''intel.h'')]),
     (''ruc_5fnop'', ''ruc_nop'', [(''../intel_8h.html#ac85ebe3efb133fedbf66ca90cb1e98a0ae7493e3d6e79c8af7e58793bbd3486a1'', 1, ''intel.h'')]),
     (''ruc_5frecv_5fdma_5fredir'', ''ruc_recv_dma_redir'', [(''../intel_8h.html#ac85ebe3efb133fedbf66ca90cb1e98a0a1c58ed224be728fc055e4b103957d096'', 1, ''intel.h'')]),
     (''ruc_5fresume'', ''ruc_resume'', [(''../intel_8h.html#ac85ebe3efb133fedbf66ca90cb1e98a0aab248c6d377bca877e2d4241ad7f32f4'', 1, ''intel.h'')]),
     (''ruc_5fstart'', ''ruc_start'', [(''../intel_8h.html#ac85ebe3efb133fedbf66ca90cb1e98a0a01f8f53dd5f7ca150255f408945d5a49'', 1, ''intel.h'')])]"

definition searchData_enumvalues_8 :: "search_entry list" where
  "searchData_enumvalues_8 =
    [(''vcon_5fmode_5fgraphics'', ''VCON_MODE_GRAPHICS'', [(''../VConMode_8h.html#a97269b1554dbfe4abdc7f5d8f6d20a54a7dd4cf380c3e01d60c3b4c0c1daa8337'', 1, ''VConMode.h'')]),
     (''vcon_5fmode_5fvgatext'', ''VCON_MODE_VGATEXT'', [(''../VConMode_8h.html#a97269b1554dbfe4abdc7f5d8f6d20a54a55392ead706e36bf23aa2ee25cc6c64a'', 1, ''VConMode.h'')]),
     (''vga_5fcolor_5fblack'', ''VGA_COLOR_BLACK'', [(''../vgacolor_8h.html#a796a970feeb015aa37610cf7b0693945a0c4db2001081cecf298a1d4b486b4774'', 1, ''vgacolor.h'')]),
     (''vga_5fcolor_5fblue'', ''VGA_COLOR_BLUE'', [(''../vgacolor_8h.html#a796a970feeb015aa37610cf7b0693945a663b039a56cc4b0ae428764bd2912805'', 1, ''vgacolor.h'')]),
     (''vga_5fcolor_5fbrown'', ''VGA_COLOR_BROWN'', [(''../vgacolor_8h.html#a796a970feeb015aa37610cf7b0693945aa869dc9cc937e8d352256ee9690df7fe'', 1, ''vgacolor.h'')]),
     (''vga_5fcolor_5fcyan'', ''VGA_COLOR_CYAN'', [(''../vgacolor_8h.html#a796a970feeb015aa37610cf7b0693945af811c6bc13218b06e6201ad2ecbe18ab'', 1, ''vgacolor.h'')]),
     (''vga_5fcolor_5fdark_5fgray'', ''VGA_COLOR_DARK_GRAY'', [(''../vgacolor_8h.html#a796a970feeb015aa37610cf7b0693945a23c891f0309c5e66f94db4dd41de4c1e'', 1, ''vgacolor.h'')]),
     (''vga_5fcolor_5fgreen'', ''VGA_COLOR_GREEN'', [(''../vgacolor_8h.html#a796a970feeb015aa37610cf7b0693945a12f823154fcee6a5c8c007d4bb5ab487'', 1, ''vgacolor.h'')]),
     (''vga_5fcolor_5flight_5fblue'', ''VGA_COLOR_LIGHT_BLUE'', [(''../vgacolor_8h.html#a796a970feeb015aa37610cf7b0693945ad606acb105ca29c2a9f06e442ea0b282'', 1, ''vgacolor.h'')]),
     (''vga_5fcolor_5flight_5fcyan'', ''VGA_COLOR_LIGHT_CYAN'', [(''../vgacolor_8h.html#a796a970feeb015aa37610cf7b0693945ad32d8cd20a9c1ea28b62f4b7e24fa21d'', 1, ''vgacolor.h'')]),
     (''vga_5fcolor_5flight_5fgray'', ''VGA_COLOR_LIGHT_GRAY'', [(''../vgacolor_8h.html#a796a970feeb015aa37610cf7b0693945ad3c487125a2814edeb9adb7f153974aa'', 1, ''vgacolor.h'')]),
     (''vga_5fcolor_5flight_5fgreen'', ''VGA_COLOR_LIGHT_GREEN'', [(''../vgacolor_8h.html#a796a970feeb015aa37610cf7b0693945a61eadb3e52ca16b9afcc038c7879625f'', 1, ''vgacolor.h'')]),
     (''vga_5fcolor_5flight_5fmagenta'', ''VGA_COLOR_LIGHT_MAGENTA'', [(''../vgacolor_8h.html#a796a970feeb015aa37610cf7b0693945a38ca76ebc37b2560aac48ad71537ef97'', 1, ''vgacolor.h'')]),
     (''vga_5fcolor_5flight_5fred'', ''VGA_COLOR_LIGHT_RED'', [(''../vgacolor_8h.html#a796a970feeb015aa37610cf7b0693945aecca7b3f9042b169a6242b3de521a97d'', 1, ''vgacolor.h'')]),
     (''vga_5fcolor_5fmagenta'', ''VGA_COLOR_MAGENTA'', [(''../vgacolor_8h.html#a796a970feeb015aa37610cf7b0693945a6a50a13f4692c36dc03904c057f214ee'', 1, ''vgacolor.h'')]),
     (''vga_5fcolor_5fred'', ''VGA_COLOR_RED'', [(''../vgacolor_8h.html#a796a970feeb015aa37610cf7b0693945a7215ff578d3469daf8bb697a60ad1836'', 1, ''vgacolor.h'')]),
     (''vga_5fcolor_5fwhite'', ''VGA_COLOR_WHITE'', [(''../vgacolor_8h.html#a796a970feeb015aa37610cf7b0693945aae9cfca3c12a1185029c7feabd331f7a'', 1, ''vgacolor.h'')]),
     (''vga_5fcolor_5fyellow'', ''VGA_COLOR_YELLOW'', [(''../vgacolor_8h.html#a796a970feeb015aa37610cf7b0693945a8202856617749ab21cd5a349964021b5'', 1, ''vgacolor.h'')]),
     (''video_5fcomponent_5fblue'', ''VIDEO_COMPONENT_BLUE'', [(''../VideoComp_8h.html#a3b5e0c709d8913b7653bf6452cffce09a68c881bcafda0ec5b492d61bc8d378ac'', 1, ''VideoComp.h'')]),
     (''video_5fcomponent_5fgreen'', ''VIDEO_COMPONENT_GREEN'', [(''../VideoComp_8h.html#a3b5e0c709d8913b7653bf6452cffce09acb1832e6cd601cb0f30ee9be09b3257a'', 1, ''VideoComp.h'')]),
     (''video_5fcomponent_5fred'', ''VIDEO_COMPONENT_RED'', [(''../VideoComp_8h.html#a3b5e0c709d8913b7653bf6452cffce09a6a9dcbeae06d4b3aaf2d17f4bbfea747'', 1, ''VideoComp.h'')]),
     (''video_5fcomponent_5fu'', ''VIDEO_COMPONENT_U'', [(''../VideoComp_8h.html#a3b5e0c709d8913b7653bf6452cffce09a07b0d9a48e8c53c0ce9366031e7023db'', 1, ''VideoComp.h'')]),
     (''video_5fcomponent_5fv'', ''VIDEO_COMPONENT_V'', [(''../VideoComp_8h.html#a3b5e0c709d8913b7653bf6452cffce09a888d54138704aa3f2f20ad1697c09004'', 1, ''VideoComp.h'')]),
     (''video_5fcomponent_5fy'', ''VIDEO_COMPONENT_Y'', [(''../VideoComp_8h.html#a3b5e0c709d8913b7653bf6452cffce09a094b39713fc9f1b6d378abbf17346761'', 1, ''VideoComp.h'')]),
     (''video_5fedid_5fsupport'', ''VIDEO_EDID_SUPPORT'', [(''../VideoStatus_8h.html#a42da70fef22c460c626406adeab90adba1f471fdfab1da9051f89f09c1996d582'', 1, ''VideoStatus.h'')]),
     (''video_5fmode_5fready'', ''VIDEO_MODE_READY'', [(''../VideoStatus_8h.html#a42da70fef22c460c626406adeab90adbab58b900d1a2431ca04dc9d8aaad94201'', 1, ''VideoStatus.h'')]),
     (''video_5ftruncated'', ''VIDEO_TRUNCATED'', [(''../VideoStatus_8h.html#a42da70fef22c460c626406adeab90adbaf6c12d87b3d37c6ab5dee6b52e673d80'', 1, ''VideoStatus.h'')]),
     (''video_5fvbe_5fsupport'', ''VIDEO_VBE_SUPPORT'', [(''../VideoStatus_8h.html#a42da70fef22c460c626406adeab90adba8fcc3e6a766dc64ed3466b0b2c9a8afc'', 1, ''VideoStatus.h'')])]"

definition enumvalues_pages :: "search_entry list list" where
  "enumvalues_pages =
     [searchData_enumvalues_0, searchData_enumvalues_1, searchData_enumvalues_2,
      searchData_enumvalues_3, searchData_enumvalues_4, searchData_enumvalues_5,
      searchData_enumvalues_6, searchData_enumvalues_7, searchData_enumvalues_8]"

lemma enumvalues_pages_ok: "list_all2 page_ok ''acefioprv'' enumvalues_pages"
  by (simp only: enumvalues_pages_def page_eval
    searchData_enumvalues_0_def searchData_enumvalues_1_def searchData_enumvalues_2_def
    searchData_enumvalues_3_def searchData_enumvalues_4_def searchData_enumvalues_5_def
    searchData_enumvalues_6_def searchData_enumvalues_7_def searchData_enumvalues_8_def)

end
