(* ===== verification/Search_Index_Defines.thy ===== *)
theory Search_Index_Defines
  imports Search_Index
begin

text \<open>The search index, continued: the \<^verbatim>\<open>searchData\<close> arrays of the section \<^verbatim>\<open>defines\<close>.\<close>

definition searchData_defines_0 :: "search_entry list" where
  "searchData_defines_0 =
    [(''_5f'', ''_'', [(''../0_8h.html#ae4dfd7b0d66121016d6466d2ff10e8ba'', 1, ''0.h'')]),
     (''_5f_5fsp_5fkernel_5f_5f'', ''__SP_KERNEL__'', [(''../0_8c.html#a136fc9b458dfe9f70b208e2c22da7ecb'', 1, ''__SP_KERNEL__():&#160;0.c''), (''../clock_8c.html#a136fc9b458dfe9f70b208e2c22da7ecb'', 1, ''__SP_KERNEL__():&#160;clock.c''), (''../klibc_8c.html#a136fc9b458dfe9f70b208e2c22da7ecb'', 1, ''__SP_KERNEL__():&#160;klibc.c''), (''../process_8c.html#a136fc9b458dfe9f70b208e2c22da7ecb'', 1, ''__SP_KERNEL__():&#160;process.c''), (''../queue_8c.html#a136fc9b458dfe9f70b208e2c22da7ecb'', 1, ''__SP_KERNEL__():&#160;queue.c''), (''../scheduler_8c.html#a136fc9b458dfe9f70b208e2c22da7ecb'', 1, ''__SP_KERNEL__():&#160;scheduler.c''), (''../sio_8c.html#a136fc9b458dfe9f70b208e2c22da7ecb'', 1, ''__SP_KERNEL__():&#160;sio.c''), (''../stack_8c.html#a136fc9b458dfe9f70b208e2c22da7ecb'', 1, ''__SP_KERNEL__():&#160;stack.c''), (''../syscall_8c.html#a136fc9b458dfe9f70b208e2c22da7ecb'', 1, ''__SP_KERNEL__():&#160;syscall.c''), (''../system_8c.html#a136fc9b458dfe9f70b208e2c22da7ecb'', 1, ''__SP_KERNEL__():&#160;system.c'')]),
     (''_5fmc_5fio_5fdv_5fcnt'', ''_MC_IO_DV_CNT'', [(''../device_8c.html#a2d5f3edc1b8f42f129c7c027d4722e3a'', 1, ''device.c'')]),
     (''_5fmc_5fio_5ffs_5fcnt'', ''_MC_IO_FS_CNT'', [(''../filesystem_8c.html#a0494a71b743c5a95625edfa5c87cde69'', 1, ''filesystem.c'')]),
     (''_5fmc_5fio_5fmd_5fcnt'', ''_MC_IO_MD_CNT'', [(''../middleware_8c.html#abfbb4005c57287567b9ec8a59a6f7ace'', 1, ''middleware.c'')]),
     (''_5fmc_5fio_5fmp_5fcnt'', ''_MC_IO_MP_CNT'', [(''../mount_8c.html#a94fa3491c1cb01800fc70cb18748ff74'', 1, ''mount.c'')]),
     (''_5fmc_5fio_5fms_5fcnt'', ''_MC_IO_MS_CNT'', [(''../message_8c.html#a97866cbef2b95443769f5c8f57cbb346'', 1, ''message.c'')]),
     (''_5fq_5fsize'', ''_q_size'', [(''../queue_8h.html#a50ef81a5d69910eea5be98e1a358dc61'', 1, ''queue.h'')])]"

definition searchData_defines_1 :: "search_entry list" where
  "searchData_defines_1 =
    [(''align_5fmask'', ''ALIGN_MASK'', [(''../memory__constants_8h.html#a9acfa53ba535d32d76682f5d3e893c05'', 1, ''memory_constants.h'')]),
     (''arg'', ''ARG'', [(''../process_8h.html#a976a0b598ab9c155db789bd34f301cc4'', 1, ''process.h'')]),
     (''arp_5fcache_5fsize'', ''ARP_CACHE_SIZE'', [(''../intel_8h.html#adfc3bb356b0ae1244f95c2f191ee096e'', 1, ''intel.h'')])]"

definition searchData_defines_2 :: "search_entry list" where
  "searchData_defines_2 =
    [(''baud_5f110'', ''BAUD_110'', [(''../uart_8h.html#a8809626d954f07acf958e1def6a2e57b'', 1, ''uart.h'')]),
     (''baud_5f115200'', ''BAUD_115200'', [(''../uart_8h.html#a662c9e747763825a090529fe88ed9fd5'', 1, ''uart.h'')]),
     (''baud_5f1200'', ''BAUD_1200'', [(''../uart_8h.html#a929a4115ccf8d2e9f2d4901fa86ee80b'', 1, ''uart.h'')]),
     (''baud_5f14400'', ''BAUD_14400'', [(''../uart_8h.html#aa06814cfab1c917d2017f32130ff18d4'', 1, ''uart.h'')]),
     (''baud_5f150'', ''BAUD_150'', [(''../uart_8h.html#a053273b7d6c1d24446a3c14bc5587aa2'', 1, ''uart.h'')]),
     (''baud_5f1800'', ''BAUD_1800'', [(''../uart_8h.html#ad0d84707d03d804a395a603b786a9d0a'', 1, ''uart.h'')]),
     (''baud_5f19200'', ''BAUD_19200'', [(''../uart_8h.html#acd7a4f8800e9a964e3d402ea3a3beb57'', 1, ''uart.h'')]),
     (''baud_5f2000'', ''BAUD_2000'', [(''../uart_8h.html#a1859be93d14af82d022e5019c7aeebf7'', 1, ''uart.h'')]),
     (''baud_5f2400'', ''BAUD_2400'', [(''../uart_8h.html#a977f122c39ea9934c5e422903b8b2476'', 1, ''uart.h'')]),
     (''baud_5f28800'', ''BAUD_28800'', [(''../uart_8h.html#ab559a2622d6707152af62e3e1a421fdd'', 1, ''uart.h'')]),
     (''baud_5f300'', ''BAUD_300'', [(''../uart_8h.html#a548615e95fbf726cf4275234bb3d3114'', 1, ''uart.h'')]),
     (''baud_5f3600'', ''BAUD_3600'', [(''../uart_8h.html#acbd427a24d11cd1cbb3b939d23f0a84a'', 1, ''uart.h'')]),
     (''baud_5f38400'', ''BAUD_38400'', [(''../uart_8h.html#ac7d6d80617f1843f68b61777bf66241a'', 1, ''uart.h'')]),
     (''baud_5f4800'', ''BAUD_4800'', [(''../uart_8h.html#a577f4af981cd936191af54111f7f028d'', 1, ''uart.h'')]),
     (''baud_5f50'', ''BAUD_50'', [(''../uart_8h.html#a424b9314f0e8983ff5abf7d4902f4f47'', 1, ''uart.h'')]),
     (''baud_5f57600'', ''BAUD_57600'', [(''../uart_8h.html#ad8f02b756d5b421fdf04c35c0de31231'', 1, ''uart.h'')]),
     (''baud_5f600'', ''BAUD_600'', [(''../uart_8h.html#af149acab3288721c30a38cab0336596b'', 1, ''uart.h'')]),
     (''baud_5f7200'', ''BAUD_7200'', [(''../uart_8h.html#a20f722474a32dcd63f3e7896295e534b'', 1, ''uart.h'')]),
     (''baud_5f75'', ''BAUD_75'', [(''../uart_8h.html#a1c95238c3dfac7ecf4bd62e5ca901214'', 1, ''uart.h'')]),
     (''baud_5f9600'', ''BAUD_9600'', [(''../uart_8h.html#ac6f1b052894ecd23fc1b9cdf21325001'', 1, ''uart.h'')]),
     (''baud_5fhigh_5fbyte'', ''BAUD_HIGH_BYTE'', [(''../uart_8h.html#ae7d876f2acdb9ae3a0e7028a3dbe86b1'', 1, ''uart.h'')]),
     (''baud_5flow_5fbyte'', ''BAUD_LOW_BYTE'', [(''../uart_8h.html#ae02d69b283411a2b52770c9be7e7012c'', 1, ''uart.h'')]),
     (''bounds_5fcheck'', ''BOUNDS_CHECK'', [(''../vga13_8c.html#ad6bfc5b4760cf7b758d49d3ee35e2988'', 1, ''vga13.c'')]),
     (''buf_5fsize'', ''BUF_SIZE'', [(''../sio_8c.html#a6821bafc3c88dfb2e433a095df9940c6'', 1, ''sio.c'')]),
     (''buildinfo_5fbranch'', ''BUILDINFO_BRANCH'', [(''../buildinfo_8h.html#aab6ad476a2a0c77326ebeabb1dee31cb'', 1, ''buildinfo.h'')]),
     (''buildinfo_5fbuildnum'', ''BUILDINFO_BUILDNUM'', [(''../buildinfo_8h.html#a5177b08ea26c51580c7ad53e037b8369'', 1, ''buildinfo.h'')]),
     (''buildinfo_5fcommit'', ''BUILDINFO_COMMIT'', [(''../buildinfo_8h.html#afbb01a2072b81d9f5eb1e22c0db52c41'', 1, ''buildinfo.h'')]),
     (''buildinfo_5fstring'', ''BUILDINFO_STRING'', [(''../buildinfo_8h.html#affd40ae63aa71006e2410ca0054f5c7d'', 1, ''buildinfo.h'')])]"

definition searchData_defines_3 :: "search_entry list" where
  "searchData_defines_3 =
    [(''c_5fbufsize'', ''C_BUFSIZE'', [(''../c__io_8c.html#a1957d774dea4cfe1ed58813e007841db'', 1, ''c_io.c'')]),
     (''chan_5fconsole'', ''CHAN_CONSOLE'', [(''../common_8h.html#a0c5b088a1408f0f646a9e29852064cb4'', 1, ''common.h'')]),
     (''chan_5fsio'', ''CHAN_SIO'', [(''../common_8h.html#aa95cc0df2a6b6f65af0737334bab4e1e'', 1, ''common.h'')]),
     (''clock_5ffrequency'', ''CLOCK_FREQUENCY'', [(''../common_8h.html#ab58409b35e69dc927e744dddc75e8810'', 1, ''common.h'')]),
     (''code_5faccess'', ''CODE_ACCESS'', [(''../gdt__init_8c.html#a64045200050c2877220847bc5ea4fa21'', 1, ''gdt_init.c'')]),
     (''console_5fbuf_5faddress'', ''CONSOLE_BUF_ADDRESS'', [(''../VCon_8h.html#aadd3d88429e2a033fde82f416e634721'', 1, ''VCon.h'')]),
     (''cr0_5fam'', ''CR0_AM'', [(''../x86arch_8h.html#a88b8c1f08a286fdaf7b58e10e4223771'', 1, ''x86arch.h'')]),
     (''cr0_5fcd'', ''CR0_CD'', [(''../x86arch_8h.html#ae2abb4033838584afd1413b3fcfe3e20'', 1, ''x86arch.h'')]),
     (''cr0_5fem'', ''CR0_EM'', [(''../x86arch_8h.html#a39a8caf6348b3eae36171b43146025f6'', 1, ''x86arch.h'')]),
     (''cr0_5fet'', ''CR0_ET'', [(''../x86arch_8h.html#ad13fdf98c38ada8515b3d490feba86e7'', 1, ''x86arch.h'')]),
     (''cr0_5fmp'', ''CR0_MP'', [(''../x86arch_8h.html#a301019ca375756ccb75c7f207473e02d'', 1, ''x86arch.h'')]),
     (''cr0_5fne'', ''CR0_NE'', [(''../x86arch_8h.html#a219c459acf834242afdd99cda9c6a42c'', 1, ''x86arch.h'')]),
     (''cr0_5fnw'', ''CR0_NW'', [(''../x86arch_8h.html#a0e3e94dacd9aafa4721822a934c10d9e'', 1, ''x86arch.h'')]),
     (''cr0_5fpe'', ''CR0_PE'', [(''../x86arch_8h.html#aa899fa0a2a7dd414343fb2fada767622'', 1, ''x86arch.h'')]),
     (''cr0_5fpg'', ''CR0_PG'', [(''../x86arch_8h.html#a4f3b70ba40d96e55cae6026acc12cfed'', 1, ''x86arch.h'')]),
     (''cr0_5frsvd'', ''CR0_RSVD'', [(''../x86arch_8h.html#a013dfb18bfb6ca47ce4c479d6d3e16b0'', 1, ''x86arch.h'')]),
     (''cr0_5fts'', ''CR0_TS'', [(''../x86arch_8h.html#af9f6d1ac01fd24519da378e16b91b023'', 1, ''x86arch.h'')]),
     (''cr0_5fwp'', ''CR0_WP'', [(''../x86arch_8h.html#a2897f244bf55b3cf87c13869db57f6c8'', 1, ''x86arch.h'')]),
     (''cr1_5frsvd'', ''CR1_RSVD'', [(''../x86arch_8h.html#a78665e2e990287d37c024101d8556316'', 1, ''x86arch.h'')]),
     (''cr2_5fpf_5flin_5faddr'', ''CR2_PF_LIN_ADDR'', [(''../x86arch_8h.html#a71526f943a41436bd30f7cf23e725792'', 1, ''x86arch.h'')]),
     (''cr2_5frsvd'', ''CR2_RSVD'', [(''../x86arch_8h.html#ada671396a8ea30d9b8af1e6de842cf88'', 1, ''x86arch.h'')]),
     (''cr3_5fpcd'', ''CR3_PCD'', [(''../x86arch_8h.html#a06357ecca86b84ff5f2fc2dec4cfd9ab'', 1, ''x86arch.h'')]),
     (''cr3_5fpd_5fbase'', ''CR3_PD_BASE'', [(''../x86arch_8h.html#a858f536ca04e446c89f4ba324d70ea0d'', 1, ''x86arch.h'')]),
     (''cr3_5fpwt'', ''CR3_PWT'', [(''../x86arch_8h.html#a45314e4724863812d9c9cb180d13bd70'', 1, ''x86arch.h'')]),
     (''cr3_5frsvd'', ''CR3_RSVD'', [(''../x86arch_8h.html#a5c7dd7e7436b14e3deb5b93ab9ffc477'', 1, ''x86arch.h'')]),
     (''cr4_5fde'', ''CR4_DE'', [(''../x86arch_8h.html#aa91ada39839d383d1e01bb9859e54cd5'', 1, ''x86arch.h'')]),
     (''cr4_5fmce'', ''CR4_MCE'', [(''../x86arch_8h.html#a8cdcc96465b880dc37f3210e39e26317'', 1, ''x86arch.h'')]),
     (''cr4_5fosfxsr'', ''CR4_OSFXSR'', [(''../x86arch_8h.html#ae2049f6005e25a8c0f907d2dda713115'', 1, ''x86arch.h'')]),
     (''cr4_5fosxmmexcpt'', ''CR4_OSXMMEXCPT'', [(''../x86arch_8h.html#a4088c95f25bf56b187b5725a96e1b766'', 1, ''x86arch.h'')]),
     (''cr4_5fpae'', ''CR4_PAE'', [(''../x86arch_8h.html#a1ca5cfd0c966d604caca75537046dd84'', 1, ''x86arch.h'')]),
     (''cr4_5fpce'', ''CR4_PCE'', [(''../x86arch_8h.html#a92add74eb1a9c5057034487a15b7f941'', 1, ''x86arch.h'')]),
     (''cr4_5fpge'', ''CR4_PGE'', [(''../x86arch_8h.html#a23d4fb2887ed4baa4f202060f6aec230'', 1, ''x86arch.h'')]),
     (''cr4_5fpse'', ''CR4_PSE'', [(''../x86arch_8h.html#acdc818c9179c6112b2d065bd9d91a420'', 1, ''x86arch.h'')]),
     (''cr4_5fpvi'', ''CR4_PVI'', [(''../x86arch_8h.html#ab8a1ef093092453d29b2a8248820d9bd'', 1, ''x86arch.h'')]),
     (''cr4_5frsvd'', ''CR4_RSVD'', [(''../x86arch_8h.html#add1380310ac8b4699551e9c14280c407'', 1, ''x86arch.h'')]),
     (''cr4_5ftsd'', ''CR4_TSD'', [(''../x86arch_8h.html#acc96e6133fb4103b631c2cc1e6cb1115'', 1, ''x86arch.h'')]),
     (''cr4_5fvme'', ''CR4_VME'', [(''../x86arch_8h.html#a3aec83d9449f58f6f1a09855bf7d3297'', 1, ''x86arch.h'')])]"

definition searchData_defines_4 :: "search_entry list" where
  "searchData_defines_4 =
    [(''data_5faccess'', ''DATA_ACCESS'', [(''../gdt__init_8c.html#a058483ab2d96c69b11a235d6d9ba537f'', 1, ''gdt_init.c'')]),
     (''default_5feflags'', ''DEFAULT_EFLAGS'', [(''../system_8h.html#a3e6a40c47fc8368fbb6edacb313eb503'', 1, ''system.h'')]),
     (''delay_5falt'', ''DELAY_ALT'', [(''../user_8h.html#add0a96733f07b787e2abecd96525f229'', 1, ''user.h'')]),
     (''delay_5flong'', ''DELAY_LONG'', [(''../user_8h.html#a74a1511454b99f7b9c356777484104ce'', 1, ''user.h'')]),
     (''delay_5fstd'', ''DELAY_STD'', [(''../user_8h.html#a679bd59022085a561a4194c2306cee47'', 1, ''user.h'')]),
     (''desc_5figate'', ''DESC_IGATE'', [(''../x86arch_8h.html#a86fe8ba8ffa959cda70c0817db1f42b5'', 1, ''x86arch.h'')]),
     (''desired_5fattributes'', ''DESIRED_ATTRIBUTES'', [(''../early_2video_8c.html#ab794ff22062c09626887b2ff7d3a0309'', 1, ''video.c'')])]"

definition searchData_defines_5 :: "search_entry list" where
  "searchData_defines_5 =
    [(''e_5fsuccess'', ''E_SUCCESS'', [(''../vga13_2err_8h.html#ad1a31c5316d5f51ca5c1c4fb2b9b1958'', 1, ''err.h'')]),
     (''e_5fvcon_5fargnull'', ''E_VCON_ARGNULL'', [(''../vconsole_2err_8h.html#ab1c5c30ca65609491a2ce593d8ad7a23'', 1, ''err.h'')]),
     (''e_5fvcon_5fbadscroll'', ''E_VCON_BADSCROLL'', [(''../vconsole_2err_8h.html#a1a318a97870dceb4d9e40d07739cfe1d'', 1, ''err.h'')]),
     (''e_5fvcon_5fbounds'', ''E_VCON_BOUNDS'', [(''../vconsole_2err_8h.html#aaf1537eba9c730609706471280030394'', 1, ''err.h'')]),
     (''e_5fvcon_5ferror'', ''E_VCON_ERROR'', [(''../vconsole_2err_8h.html#a66d253e63a28fc2ea04cb239ffd20e85'', 1, ''err.h'')]),
     (''e_5fvcon_5fsuccess'', ''E_VCON_SUCCESS'', [(''../vconsole_2err_8h.html#a1812611ca404bc82519fc69045c988d1'', 1, ''err.h'')]),
     (''e_5fvesa_5fargnull'', ''E_VESA_ARGNULL'', [(''../vesa_2err_8h.html#a9983783580d8dcb77af4721f1b1909ad'', 1, ''err.h'')]),
     (''e_5fvesa_5ferror'', ''E_VESA_ERROR'', [(''../vesa_2err_8h.html#a2c14b6c8ccf6bc5a3078ff9d7b435515'', 1, ''err.h'')]),
     (''e_5fvesa_5fnotiming'', ''E_VESA_NOTIMING'', [(''../vesa_2err_8h.html#ae351c5be515d2c233256c4b43781bb58'', 1, ''err.h'')]),
     (''e_5fvesa_5fsuccess'', ''E_VESA_SUCCESS'', [(''../vesa_2err_8h.html#afffad530f3782453a241860a660e9471'', 1, ''err.h'')]),
     (''e_5fvga13_5fargnull'', ''E_VGA13_ARGNULL'', [(''../vga13_2err_8h.html#a44999f4a890501c865f8280e4f3409bd'', 1, ''err.h'')]),
     (''e_5fvga13_5fbounds'', ''E_VGA13_BOUNDS'', [(''../vga13_2err_8h.html#a1dc4173fbda9fe854e3a136846c36ce2'', 1, ''err.h'')]),
     (''e_5fvideo_5fargnull'', ''E_VIDEO_ARGNULL'', [(''../video_2err_8h.html#a07eb3cca039e03960641b5953c41159b'', 1, ''err.h'')]),
     (''e_5fvideo_5ferror'', ''E_VIDEO_ERROR'', [(''../video_2err_8h.html#a5d5f52a6fadbfa321974913feb105330'', 1, ''err.h'')]),
     (''e_5fvideo_5finfo_5ftruncated'', ''E_VIDEO_INFO_TRUNCATED'', [(''../video_2err_8h.html#a37d20a1f30a8af00e2c59cad19c00c15'', 1, ''err.h'')]),
     (''e_5fvideo_5fsuccess'', ''E_VIDEO_SUCCESS'', [(''../video_2err_8h.html#af56605a13b271c48e0d79554a174d293'', 1, ''err.h'')]),
     (''e_5fvideo_5funsupported'', ''E_VIDEO_UNSUPPORTED'', [(''../video_2err_8h.html#af888d8fc8137663fba5e64d3f8e661f0'', 1, ''err.h'')]),
     (''early_5fgdt_5faddress'', ''EARLY_GDT_ADDRESS'', [(''../bootstrap_8h.html#ac10943e9df2f682786c84e45a458f4f4'', 1, ''bootstrap.h'')]),
     (''early_5fgdt_5fcode16'', ''EARLY_GDT_CODE16'', [(''../bootstrap_8h.html#aaf0a59770e7797d1dd59dfee241d1394'', 1, ''bootstrap.h'')]),
     (''early_5fgdt_5fcode32'', ''EARLY_GDT_CODE32'', [(''../bootstrap_8h.html#a719a1b21fe4beb3680dbca19055b14d4'', 1, ''bootstrap.h'')]),
     (''early_5fgdt_5fdata16'', ''EARLY_GDT_DATA16'', [(''../bootstrap_8h.html#aabba534a3314aec2d829dae0121260a9'', 1, ''bootstrap.h'')]),
     (''early_5fgdt_5fdata32'', ''EARLY_GDT_DATA32'', [(''../bootstrap_8h.html#a1b640125cb056824a438cce1c910a63c'', 1, ''bootstrap.h'')]),
     (''early_5fgdt_5fsegment'', ''EARLY_GDT_SEGMENT'', [(''../bootstrap_8h.html#ae23f25b7dcf507f7fa225f885a7b5f7d'', 1, ''bootstrap.h'')]),
     (''edid_5fdetailed_5ftiming_5fcount'', ''EDID_DETAILED_TIMING_COUNT'', [(''../EDIDRecord_8h.html#a9b4392e4eec4c075710ceb28fa9b8bc9'', 1, ''EDIDRecord.h'')]),
     (''edid_5fratio_5f16_5f10'', ''EDID_RATIO_16_10'', [(''../EDIDRecord_8h.html#a060dd7f31404df12634dc54b3ecf97a6'', 1, ''EDIDRecord.h'')]),
     (''edid_5fratio_5f16_5f9'', ''EDID_RATIO_16_9'', [(''../EDIDRecord_8h.html#a2f092f8e233343610c544f3fc8d22be1'', 1, ''EDIDRecord.h'')]),
     (''edid_5fratio_5f4_5f3'', ''EDID_RATIO_4_3'', [(''../EDIDRecord_8h.html#af8b5442afa2dc1258efb8fdb7b11d6f1'', 1, ''EDIDRecord.h'')]),
     (''edid_5fratio_5f5_5f4'', ''EDID_RATIO_5_4'', [(''../EDIDRecord_8h.html#a8df0d17d309b82637ef3be97a7d61a21'', 1, ''EDIDRecord.h'')]),
     (''edid_5fstandard_5ftiming_5fcount'', ''EDID_STANDARD_TIMING_COUNT'', [(''../EDIDRecord_8h.html#a65223af5ebbb1968b5920140775980e1'', 1, ''EDIDRecord.h'')]),
     (''eflags_5fac'', ''EFLAGS_AC'', [(''../x86arch_8h.html#a88094d684aafe455c0ddb35564844af3'', 1, ''x86arch.h'')]),
     (''eflags_5faf'', ''EFLAGS_AF'', [(''../x86arch_8h.html#a2a08a98d5220105f31a232fe26125905'', 1, ''x86arch.h'')]),
     (''eflags_5fcf'', ''EFLAGS_CF'', [(''../x86arch_8h.html#aa4e1798f642af76e336425c8910c6e75'', 1, ''x86arch.h'')]),
     (''eflags_5fdf'', ''EFLAGS_DF'', [(''../x86arch_8h.html#a08920ce17cc3ecc72bb3f6c31ad60b1f'', 1, ''x86arch.h'')]),
     (''eflags_5fid'', ''EFLAGS_ID'', [(''../x86arch_8h.html#a9a2b7564ffa5797e17d1cfb2312e0af7'', 1, ''x86arch.h'')]),
     (''eflags_5fif'', ''EFLAGS_IF'', [(''../x86arch_8h.html#a96eb07610b30fe08d7fedbe1c6eabea7'', 1, ''x86arch.h'')]),
     (''eflags_5fiopl'', ''EFLAGS_IOPL'', [(''../x86arch_8h.html#aeb9a0f2ef4a734e95a896044479a1cb8'', 1, ''x86arch.h'')]),
     (''eflags_5fmb0'', ''EFLAGS_MB0'', [(''../x86arch_8h.html#a99c09f6c5ffbb035cae9261635337bd8'', 1, ''x86arch.h'')]),
     (''eflags_5fmb1'', ''EFLAGS_MB1'', [(''../x86arch_8h.html#a25b9d33f4b7025e122f87dee4a1a96a8'', 1, ''x86arch.h'')]),
     (''eflags_5fnt'', ''EFLAGS_NT'', [(''../x86arch_8h.html#a70a63b8222b597cc0d80daf4b39021df'', 1, ''x86arch.h'')]),
     (''eflags_5fof'', ''EFLAGS_OF'', [(''../x86arch_8h.html#a1a3f241b0ce80e08c35a4ae5785ba73b'', 1, ''x86arch.h'')]),
     (''eflags_5fpf'', ''EFLAGS_PF'', [(''../x86arch_8h.html#a2f7449e081bce5785b1cc6658483b709'', 1, ''x86arch.h'')]),
     (''eflags_5frf'', ''EFLAGS_RF'', [(''../x86arch_8h.html#ad63a0e9b09df2e60087d2e0fa106f37c'', 1, ''x86arch.h'')]),
     (''eflags_5frsvd'', ''EFLAGS_RSVD'', [(''../x86arch_8h.html#a24f20bbda5bb1b0d62b0a949fc4dbfdc'', 1, ''x86arch.h'')]),
     (''eflags_5fsf'', ''EFLAGS_SF'', [(''../x86arch_8h.html#a95daa31f2e6ca724653d88c6a86c1695'', 1, ''x86arch.h'')]),
     (''eflags_5ftf'', ''EFLAGS_TF'', [(''../x86arch_8h.html#a6f30c16cd70edbf2ce7ffe77416864ce'', 1, ''x86arch.h'')]),
     (''eflags_5fvif'', ''EFLAGS_VIF'', [(''../x86arch_8h.html#ab6957d6c6b95dd610465dddf55cd2739'', 1, ''x86arch.h'')]),
     (''eflags_5fvip'', ''EFLAGS_VIP'', [(''../x86arch_8h.html#a7bd8e60ef7a56395cf71b8f52deac748'', 1, ''x86arch.h'')]),
     (''eflags_5fvm'', ''EFLAGS_VM'', [(''../x86arch_8h.html#af4ed722f2f1a51d8f073408b7c2068c9'', 1, ''x86arch.h'')]),
     (''eflags_5fzf'', ''EFLAGS_ZF'', [(''../x86arch_8h.html#a6c2131143547ee388a190a9218a6dd9f'', 1, ''x86arch.h'')]),
     (''enablehandlers'', ''ENABLEHANDLERS'', [(''../io__types_8h.html#a70721d95b579c4e0dc857c7f4590c497'', 1, ''io_types.h'')]),
     (''eot'', ''EOT'', [(''../c__io_8c.html#aa3210a5256085e136fed7897ae93a756'', 1, ''c_io.c'')]),
     (''exit_5fbad_5fcode'', ''EXIT_BAD_CODE'', [(''../common_8h.html#a0d4cb479bb827f1757ff42d3a740a2b5'', 1, ''common.h'')]),
     (''exit_5ffailure'', ''EXIT_FAILURE'', [(''../common_8h.html#a73efe787c131b385070f25d18b7c9aa4'', 1, ''common.h'')]),
     (''exit_5fkilled'', ''EXIT_KILLED'', [(''../common_8h.html#af2cb2fc78fd699116f26c778fcad25c5'', 1, ''common.h'')]),
     (''exit_5fsuccess'', ''EXIT_SUCCESS'', [(''../early_2main_8c.html#a687984f47d8cce148d1b914d2b79612a'', 1, ''EXIT_SUCCESS():&#160;main.c''), (''../common_8h.html#a687984f47d8cce148d1b914d2b79612a'', 1, ''EXIT_SUCCESS():&#160;common.h'')]),
     (''exit_5fvideo_5ferror'', ''EXIT_VIDEO_ERROR'', [(''../early_2main_8c.html#a5d7f9445c495287f4ce70d161ef881ea'', 1, ''main.c'')])]"

definition searchData_defines_6 :: "search_entry list" where
  "searchData_defines_6 =
    [(''files_5fmax'', ''FILES_MAX'', [(''../file_8c.html#a0b7efa75ad50195c23b9469ab690953a'', 1, ''file.c'')]),
     (''free'', ''free'', [(''../memshim_8h.html#a2c6efa7679f8cd9f61af96e105017560'', 1, ''memshim.h'')]),
     (''free_5ftype'', ''FREE_TYPE'', [(''../memory__constants_8h.html#a2616db6ee7d56a8ef6d0aaa0a0b07609'', 1, ''memory_constants.h'')])]"

definition searchData_defines_7 :: "search_entry list" where
  "searchData_defines_7 =
    [(''gdt_5faccess'', ''GDT_ACCESS'', [(''../GDTEntry_8h.html#ae27b8d365cde7c651da5eeab8ca912a4'', 1, ''GDTEntry.h'')]),
     (''gdt_5faccess_5fac'', ''GDT_ACCESS_AC'', [(''../GDTEntry_8h.html#ae00bf9221605b800aa033723e67c452c'', 1, ''GDTEntry.h'')]),
     (''gdt_5faccess_5fdc'', ''GDT_ACCESS_DC'', [(''../GDTEntry_8h.html#a3be2bfa655f98648cbc6b994c9d04ef8'', 1, ''GDTEntry.h'')]),
     (''gdt_5faccess_5fex'', ''GDT_ACCESS_EX'', [(''../GDTEntry_8h.html#aff7adaf82a906f51218a6dfb7604affc'', 1, ''GDTEntry.h'')]),
     (''gdt_5faccess_5fpr'', ''GDT_ACCESS_PR'', [(''../GDTEntry_8h.html#a6912f4af7b3276db3ef43176e59b667b'', 1, ''GDTEntry.h'')]),
     (''gdt_5faccess_5fprivl_5f0'', ''GDT_ACCESS_PRIVL_0'', [(''../GDTEntry_8h.html#afed32a113d37720eed2f92f39e3e8425'', 1, ''GDTEntry.h'')]),
     (''gdt_5faccess_5fprivl_5f1'', ''GDT_ACCESS_PRIVL_1'', [(''../GDTEntry_8h.html#a9b677b44a91a11c06ece3911de5b9fd5'', 1, ''GDTEntry.h'')]),
     (''gdt_5faccess_5fprivl_5f2'', ''GDT_ACCESS_PRIVL_2'', [(''../GDTEntry_8h.html#a967ea4c8cd189b21ceb467a2ba00a2f8'', 1, ''GDTEntry.h'')]),
     (''gdt_5faccess_5fprivl_5f3'', ''GDT_ACCESS_PRIVL_3'', [(''../GDTEntry_8h.html#a8218bbbe4b7af7246d66073da7dd3e84'', 1, ''GDTEntry.h'')]),
     (''gdt_5faccess_5fprivl_5fmask'', ''GDT_ACCESS_PRIVL_MASK'', [(''../GDTEntry_8h.html#a2e980bee36382e1746a21999cb935a7a'', 1, ''GDTEntry.h'')]),
     (''gdt_5faccess_5frw'', ''GDT_ACCESS_RW'', [(''../GDTEntry_8h.html#af499987c9af651b9ddae7c36c7036f4e'', 1, ''GDTEntry.h'')]),
     (''gdt_5faddress'', ''GDT_ADDRESS'', [(''../bootstrap_8h.html#ad71eb9016b3323dc9972d4c9ff0d5830'', 1, ''bootstrap.h'')]),
     (''gdt_5fcode'', ''GDT_CODE'', [(''../bootstrap_8h.html#a01bdeb35c26cb0290860ea9ad3749fac'', 1, ''bootstrap.h'')]),
     (''gdt_5fcode16'', ''GDT_CODE16'', [(''../bootstrap_8h.html#acdde095f66c5ae87207c42a4b584b08e'', 1, ''bootstrap.h'')]),
     (''gdt_5fdata'', ''GDT_DATA'', [(''../bootstrap_8h.html#a36b8cabb5b840635adf7e3b62cd9da61'', 1, ''bootstrap.h'')]),
     (''gdt_5fdata16'', ''GDT_DATA16'', [(''../bootstrap_8h.html#aceed3580b1f08e76a2e2ab456839f5a1'', 1, ''bootstrap.h'')]),
     (''gdt_5fflags_5fgr'', ''GDT_FLAGS_GR'', [(''../GDTEntry_8h.html#a0ed8fe045f3d2cb7d53ba672ae0818b3'', 1, ''GDTEntry.h'')]),
     (''gdt_5fflags_5fmask'', ''GDT_FLAGS_MASK'', [(''../GDTEntry_8h.html#a906f31066370503fbd7f3a7304e92fef'', 1, ''GDTEntry.h'')]),
     (''gdt_5fflags_5fsz'', ''GDT_FLAGS_SZ'', [(''../GDTEntry_8h.html#a2d28b2478ea16e0f6be8cab1b33e8289'', 1, ''GDTEntry.h'')]),
     (''gdt_5flimit_5fmask'', ''GDT_LIMIT_MASK'', [(''../GDTEntry_8h.html#a5c1bb9d530be2ddf0b16b8965d3350e4'', 1, ''GDTEntry.h'')]),
     (''gdt_5flinear'', ''GDT_LINEAR'', [(''../bootstrap_8h.html#a05b6a4075807c88225537164f7dad36b'', 1, ''bootstrap.h'')]),
     (''gdt_5fnull'', ''GDT_NULL'', [(''../GDTEntry_8h.html#a6c82380062eea492f704e4f0017dcb45'', 1, ''GDTEntry.h'')]),
     (''gdt_5fsegment'', ''GDT_SEGMENT'', [(''../bootstrap_8h.html#abec4f69fe51280ec89f51edc3e0f0078'', 1, ''bootstrap.h'')]),
     (''gdt_5fstack'', ''GDT_STACK'', [(''../bootstrap_8h.html#ae556d72e4b54f5ecfa242cfce8d77f62'', 1, ''bootstrap.h'')])]"

definition searchData_defines_8 :: "search_entry list" where
  "searchData_defines_8 =
    [(''handled'', ''HANDLED'', [(''../io__types_8h.html#acc69f000b9cb10f936e3be9725b848e7'', 1, ''io_types.h'')])]"

definition searchData_defines_9 :: "search_entry list" where
  "searchData_defines_9 =
    [(''idt_5faddress'', ''IDT_ADDRESS'', [(''../bootstrap_8h.html#a6f5f1424173a309a5b4b0ea841d5fca8'', 1, ''bootstrap.h'')]),
     (''idt_5fdpl_5f0'', ''IDT_DPL_0'', [(''../x86arch_8h.html#abdd3654d5ee30a58d6d9c32b3665bb96'', 1, ''x86arch.h'')]),
     (''idt_5fdpl_5f1'', ''IDT_DPL_1'', [(''../x86arch_8h.html#ae857fb0bfbd0b6adf2ce480295fe9856'', 1, ''x86arch.h'')]),
     (''idt_5fdpl_5f2'', ''IDT_DPL_2'', [(''../x86arch_8h.html#ab489ee1f9807d6501b7cf8c4d5a6c8e0'', 1, ''x86arch.h'')]),
     (''idt_5fdpl_5f3'', ''IDT_DPL_3'', [(''../x86arch_8h.html#aeb26f6d866070649c01074d4002f95d2'', 1, ''x86arch.h'')]),
     (''idt_5fdpl_5fmask'', ''IDT_DPL_MASK'', [(''../x86arch_8h.html#ab4c3b02f6b79aca82c40b6992ad0cf60'', 1, ''x86arch.h'')]),
     (''idt_5fgate_5ftype'', ''IDT_GATE_TYPE'', [(''../x86arch_8h.html#a430cd2aea97b837d55ad65c9f6bb27ee'', 1, ''x86arch.h'')]),
     (''idt_5fint16_5fgate'', ''IDT_INT16_GATE'', [(''../x86arch_8h.html#af92f1e8b7ea167da34b2071e28447303'', 1, ''x86arch.h'')]),
     (''idt_5fint32_5fgate'', ''IDT_INT32_GATE'', [(''../x86arch_8h.html#acc7263549f371195648d7e84c1d2922b'', 1, ''x86arch.h'')]),
     (''idt_5fpaddr'', ''IDT_PADDR'', [(''../support_8h.html#ae6dabce7f666e7603eb85f9cdf87f0af'', 1, ''support.h'')]),
     (''idt_5fpresent'', ''IDT_PRESENT'', [(''../x86arch_8h.html#a78a4249275a11328cdd49960638724ab'', 1, ''x86arch.h'')]),
     (''idt_5fsegment'', ''IDT_SEGMENT'', [(''../bootstrap_8h.html#abdd1d5e118bd148af7401602450e3c2a'', 1, ''bootstrap.h'')]),
     (''idt_5ftask_5fgate'', ''IDT_TASK_GATE'', [(''../x86arch_8h.html#a55e0352c6a83bb831704b2c71c91fd18'', 1, ''x86arch.h'')]),
     (''idt_5ftrap16_5fgate'', ''IDT_TRAP16_GATE'', [(''../x86arch_8h.html#aaaa21f9de229c21223811a73eac84d75'', 1, ''x86arch.h'')]),
     (''idt_5ftrap32_5fgate'', ''IDT_TRAP32_GATE'', [(''../x86arch_8h.html#af5cc9c5625d6d635452150807d1c1c8a'', 1, ''x86arch.h'')]),
     (''ignored'', ''IGNORED'', [(''../io__types_8h.html#a069ca334a6c1e484bf101146ade29235'', 1, ''io_types.h'')]),
     (''int_5fvec_5falignment_5fcheck'', ''INT_VEC_ALIGNMENT_CHECK'', [(''../x86arch_8h.html#aa5948ad971985d581da66ea85872c101'', 1, ''x86arch.h'')]),
     (''int_5fvec_5fbound_5frange_5fexceeded'', ''INT_VEC_BOUND_RANGE_EXCEEDED'', [(''../x86arch_8h.html#a07103ece94e97f8cdd6ce6e83470a167'', 1, ''x86arch.h'')]),
     (''int_5fvec_5fbreakpoint'', ''INT_VEC_BREAKPOINT'', [(''../x86arch_8h.html#ad883e5e73813be7e4c42004ecf1ee746'', 1, ''x86arch.h'')]),
     (''int_5fvec_5fcoprocessor_5ferror'', ''INT_VEC_COPROCESSOR_ERROR'', [(''../x86arch_8h.html#adba89b8dad42ea9b8c1ed12715a7d3bd'', 1, ''x86arch.h'')]),
     (''int_5fvec_5fcoprocessor_5foverrun'', ''INT_VEC_COPROCESSOR_OVERRUN'', [(''../x86arch_8h.html#a8ce3b439c7f703f62cb67a55bc2cf14b'', 1, ''x86arch.h'')]),
     (''int_5fvec_5fdebug_5fexception'', ''INT_VEC_DEBUG_EXCEPTION'', [(''../x86arch_8h.html#a74e7d1771fea94814a50c07730d01f02'', 1, ''x86arch.h'')]),
     (''int_5fvec_5fdevice_5fnot_5favailable'', ''INT_VEC_DEVICE_NOT_AVAILABLE'', [(''../x86arch_8h.html#a841eeb34a0ac91381303a791bb2fd0b7'', 1, ''x86arch.h'')]),
     (''int_5fvec_5fdivide_5ferror'', ''INT_VEC_DIVIDE_ERROR'', [(''../x86arch_8h.html#ae3f449058160761dcd86aae759b8c9be'', 1, ''x86arch.h'')]),
     (''int_5fvec_5fdouble_5fexception'', ''INT_VEC_DOUBLE_EXCEPTION'', [(''../x86arch_8h.html#a24e9cc0b235bb2e8606605de1b173913'', 1, ''x86arch.h'')]),
     (''int_5fvec_5ffloppy_5fdisk'', ''INT_VEC_FLOPPY_DISK'', [(''../x86arch_8h.html#ae3aa35495e349a0a951f3683e542b552'', 1, ''x86arch.h'')]),
     (''int_5fvec_5fgeneral_5fprotection'', ''INT_VEC_GENERAL_PROTECTION'', [(''../x86arch_8h.html#afd2866d58c10588fa21542e2d6130e30'', 1, ''x86arch.h'')]),
     (''int_5fvec_5finto_5fdetected_5foverflow'', ''INT_VEC_INTO_DETECTED_OVERFLOW'', [(''../x86arch_8h.html#a3d3a2d7754d8720ae7646134b07c44bb'', 1, ''x86arch.h'')]),
     (''int_5fvec_5finvalid_5fopcode'', ''INT_VEC_INVALID_OPCODE'', [(''../x86arch_8h.html#a5d818a3e86a6632f75535bbc3f736e01'', 1, ''x86arch.h'')]),
     (''int_5fvec_5finvalid_5ftss'', ''INT_VEC_INVALID_TSS'', [(''../x86arch_8h.html#aae3ef2d00d749260ea1c0710e153470d'', 1, ''x86arch.h'')]),
     (''int_5fvec_5fkeyboard'', ''INT_VEC_KEYBOARD'', [(''../x86arch_8h.html#a459e0373f22a0c9b24c1ef011ab9c86e'', 1, ''x86arch.h'')]),
     (''int_5fvec_5fmachine_5fcheck'', ''INT_VEC_MACHINE_CHECK'', [(''../x86arch_8h.html#a2faf969380de8b6948b3372787f94937'', 1, ''x86arch.h'')]),
     (''int_5fvec_5fmouse'', ''INT_VEC_MOUSE'', [(''../x86arch_8h.html#aa392bfcc14c671d0f963a4ca155444e5'', 1, ''x86arch.h'')]),
     (''int_5fvec_5fmystery'', ''INT_VEC_MYSTERY'', [(''../x86arch_8h.html#ae40d43950efc6cee612c50e3e46f21d3'', 1, ''x86arch.h'')]),
     (''int_5fvec_5fnmi_5finterrupt'', ''INT_VEC_NMI_INTERRUPT'', [(''../x86arch_8h.html#a627593545b3455160bfd9187fe7dfad9'', 1, ''x86arch.h'')]),
     (''int_5fvec_5fpage_5ffault'', ''INT_VEC_PAGE_FAULT'', [(''../x86arch_8h.html#a7f93281edc187917632f74f1d47300ab'', 1, ''x86arch.h'')]),
     (''int_5fvec_5fparallel_5fport'', ''INT_VEC_PARALLEL_PORT'', [(''../x86arch_8h.html#af887f93c625d3d3747da282df7915198'', 1, ''x86arch.h'')]),
     (''int_5fvec_5fsegment_5fnot_5fpresent'', ''INT_VEC_SEGMENT_NOT_PRESENT'', [(''../x86arch_8h.html#a8882689364498f042d6009b163471ea6'', 1, ''x86arch.h'')]),
     (''int_5fvec_5fserial_5fport_5f1'', ''INT_VEC_SERIAL_PORT_1'', [(''../x86arch_8h.html#acc5077e36d0ff4dbfe4622ca73d7258c'', 1, ''x86arch.h'')]),
     (''int_5fvec_5fserial_5fport_5f2'', ''INT_VEC_SERIAL_PORT_2'', [(''../x86arch_8h.html#a19f4e23cd3a802b79aa60bcd8fe7aea1'', 1, ''x86arch.h'')]),
     (''int_5fvec_5fsimd_5ffp_5fexception'', ''INT_VEC_SIMD_FP_EXCEPTION'', [(''../x86arch_8h.html#a00985d61e1ad5895c5700b212bb61a3d'', 1, ''x86arch.h'')]),
     (''int_5fvec_5fstack_5ffault'', ''INT_VEC_STACK_FAULT'', [(''../x86arch_8h.html#adfd45a501e7d50c1d7c37b00db2e30e6'', 1, ''x86arch.h'')]),
     (''int_5fvec_5fsyscall'', ''INT_VEC_SYSCALL'', [(''../syscall_8h.html#a150c16f8904bbcb2f8d7462fb70ac9ab'', 1, ''syscall.h'')]),
     (''int_5fvec_5ftimer'', ''INT_VEC_TIMER'', [(''../x86arch_8h.html#a0206155e6558dc4f8c0e027067739e71'', 1, ''x86arch.h'')]),
     (''io_5fchan_5fdelimiter'', ''IO_CHAN_DELIMITER'', [(''../libpath_8h.html#a6ef0e9ab2f8607e3156fe82ddcfb30ed'', 1, ''libpath.h'')]),
     (''io_5fobj_5fcount'', ''IO_OBJ_COUNT'', [(''../router_8c.html#a569ee398214717dc192cfbb456c70290'', 1, ''router.c'')]),
     (''io_5fpath_5fdelimiter'', ''IO_PATH_DELIMITER'', [(''../libpath_8h.html#a22a4810c23def05dab2de0ac0578c4d7'', 1, ''libpath.h'')]),
     (''iohandle_5fnull'', ''IOHANDLE_NULL'', [(''../io__types_8h.html#a43437f43a7f4db476ed30d092f3c3e87'', 1, ''io_types.h'')]),
     (''ipv4_5fhead_5flen'', ''IPV4_HEAD_LEN'', [(''../intel_8h.html#a0691dd13fc864f95f3cb0269b70a090a'', 1, ''intel.h'')]),
     (''isalnum'', ''isalnum'', [(''../ctype_8h.html#adcfe24cbc2b8ab2c7fb869c6a3fe3188'', 1, ''ctype.h'')]),
     (''isalpha'', ''isalpha'', [(''../ctype_8h.html#acb8d39699f52d284555e3ea9eb5dfea0'', 1, ''ctype.h'')]),
     (''isblank'', ''isblank'', [(''../ctype_8h.html#a741416fc9f0b36df622e9d21fa79d28a'', 1, ''ctype.h'')]),
     (''iscntrl'', ''iscntrl'', [(''../ctype_8h.html#a494a3e27b0d63324c9e27fdb03fb56b8'', 1, ''ctype.h'')]),
     (''isdigit'', ''isdigit'', [(''../ctype_8h.html#a0b9e17eae14af7b17947e4e05f6ea47d'', 1, ''ctype.h'')]),
     (''isgraph'', ''isgraph'', [(''../ctype_8h.html#af10484157d2724e9e689f227eca2eaea'', 1, ''ctype.h'')]),
     (''islower'', ''islower'', [(''../ctype_8h.html#aa629483526e85204b2e3ebb97cb53d8a'', 1, ''ctype.h'')]),
     (''isprint'', ''isprint'', [(''../ctype_8h.html#a8d4a52aff02d11182b64e660b3fb5390'', 1, ''ctype.h'')]),
     (''ispunct'', ''ispunct'', [(''../ctype_8h.html#ac03e15d15335b1527b0a1ce2d0f9f0d2'', 1, ''ctype.h'')]),
     (''isspace'', ''isspace'', [(''../ctype_8h.html#a473998c364ad8db23cf9e44f502706da'', 1, ''ctype.h'')]),
     (''isupper'', ''isupper'', [(''../ctype_8h.html#a9021475a702ce8b86ea365366ac4c50c'', 1, ''ctype.h'')]),
     (''isxdigit'', ''isxdigit'', [(''../ctype_8h.html#a200faf469b4680c465e3340c7b50c7e0'', 1, ''ctype.h'')])]"

definition searchData_defines_a :: "search_entry list" where
  "searchData_defines_a =
    [(''kb'', ''KB'', [(''../memory__constants_8h.html#a1841fd1a462d245d8c73dce55e2f45da'', 1, ''memory_constants.h'')]),
     (''kb_5fmask'', ''KB_MASK'', [(''../memory__constants_8h.html#a9ae0eae3eaa54f3b2c418d8bcbd46103'', 1, ''memory_constants.h'')]),
     (''keyboard_5fdata'', ''KEYBOARD_DATA'', [(''../c__io_8c.html#ab1de66d2a4f43ba4f5779b5eea847799'', 1, ''c_io.c'')]),
     (''keyboard_5fstatus'', ''KEYBOARD_STATUS'', [(''../c__io_8c.html#ac1e9f937dabf96b906bcfdb151cc8f1f'', 1, ''c_io.c'')])]"

definition searchData_defines_b :: "search_entry list" where
  "searchData_defines_b =
    [(''mac_5flength_5fbytes'', ''MAC_LENGTH_BYTES'', [(''../intel_8h.html#aa657ff7115d4ecbdf9e8245c0bf7a272'', 1, ''intel.h'')]),
     (''malloc'', ''malloc'', [(''../memshim_8h.html#acf143577800376dd931c059ecc61ba06'', 1, ''memshim.h'')]),
     (''marquee_5fstring_5fmax'', ''MARQUEE_STRING_MAX'', [(''../marquee_8h.html#ad6a74d8b34b9e4837ab58a91ee04e508'', 1, ''marquee.h'')]),
     (''mask'', ''MASK'', [(''../video_2video_8c.html#ada2d8d629b41909480a285cb33bdba7f'', 1, ''video.c'')]),
     (''max_5feeprom_5flength'', ''MAX_EEPROM_LENGTH'', [(''../intel_8h.html#a51222c7b5d05c91f13a9147c2b8993d6'', 1, ''intel.h'')]),
     (''max_5fmem'', ''MAX_MEM'', [(''../memory__constants_8h.html#affdefef0fc3a1673cac10cf4d16aa326'', 1, ''memory_constants.h'')]),
     (''mb'', ''MB'', [(''../memory__constants_8h.html#aa6b38d492364d98453284934ed7caee9'', 1, ''memory_constants.h'')]),
     (''mmap_5faddress'', ''MMAP_ADDRESS'', [(''../bootstrap_8h.html#a856fda168f0dc82bd41eee0dacbe672c'', 1, ''bootstrap.h'')]),
     (''mmap_5fcfg_5fhi'', ''MMAP_CFG_HI'', [(''../bootstrap_8h.html#a372eaa04a2aa8bb04e5bff5216842b5c'', 1, ''bootstrap.h'')]),
     (''mmap_5fcfg_5flo'', ''MMAP_CFG_LO'', [(''../bootstrap_8h.html#a03b27298d1a3d8adf73760679f33480f'', 1, ''bootstrap.h'')]),
     (''mmap_5fext_5fhi'', ''MMAP_EXT_HI'', [(''../bootstrap_8h.html#a911609b1322db12bf5635c13d03fb1e9'', 1, ''bootstrap.h'')]),
     (''mmap_5fext_5flo'', ''MMAP_EXT_LO'', [(''../bootstrap_8h.html#a3e4dc153e6436b3febc421d495d85b30'', 1, ''bootstrap.h'')]),
     (''mmap_5fprograms'', ''MMAP_PROGRAMS'', [(''../bootstrap_8h.html#a8f4f438eb04e5790d31102adb7466c51'', 1, ''bootstrap.h'')]),
     (''mmap_5fsectors'', ''MMAP_SECTORS'', [(''../bootstrap_8h.html#a6939dda0e1c0db3cf9ed5910b0495869'', 1, ''bootstrap.h'')]),
     (''mmap_5fsegment'', ''MMAP_SEGMENT'', [(''../bootstrap_8h.html#afb6c6ebfbc3d5d22f010bd63e8915afb'', 1, ''bootstrap.h'')]),
     (''modes_5fmax'', ''MODES_MAX'', [(''../video_2video_8c.html#aa2112ffee4571360f8e13efbeb6055d3'', 1, ''video.c'')]),
     (''ms_5fto_5fticks'', ''MS_TO_TICKS'', [(''../common_8h.html#aead9d56f12455cc3be9554b40f962e13'', 1, ''common.h'')]),
     (''my_5fmm_5faddress'', ''MY_MM_ADDRESS'', [(''../memory__map_8h.html#a8496a22e9d7209556c398c1f40617ecf'', 1, ''memory_map.h'')])]"

definition searchData_defines_c :: "search_entry list" where
  "searchData_defines_c =
    [(''n_5fexceptions'', ''N_EXCEPTIONS'', [(''../x86arch_8h.html#af754715aee66d80438cd03b66271a137'', 1, ''x86arch.h'')]),
     (''n_5fpcbs'', ''N_PCBS'', [(''../process_8h.html#af3ae237e600fef6d2824b98fa1c55b5f'', 1, ''process.h'')]),
     (''n_5fprios'', ''N_PRIOS'', [(''../types_8h.html#a99d18ef5708cb20d4ba6241dc0fc1343'', 1, ''types.h'')]),
     (''n_5fprocs'', ''N_PROCS'', [(''../common_8h.html#a9f83ec3723ab59308ccf727dacc7cb75'', 1, ''common.h'')]),
     (''n_5fqnodes'', ''N_QNODES'', [(''../queue_8c.html#a318683c48e15c04cacadab7e36463ba8'', 1, ''queue.c'')]),
     (''n_5fsafe_5ftimings'', ''N_SAFE_TIMINGS'', [(''../early_2video_8c.html#ab78e10224f960a70b7a6d1276ac77093'', 1, ''video.c'')]),
     (''n_5fstacks'', ''N_STACKS'', [(''../stack_8h.html#a7b3355963c6542cc4e3fd26de83a481c'', 1, ''stack.h'')]),
     (''n_5fsyscalls'', ''N_SYSCALLS'', [(''../syscall_8h.html#a6b806830aa3d5a8148ce70145c9097e3'', 1, ''syscall.h'')]),
     (''net_5fintel_5farp_5fhead_5flen'', ''NET_INTEL_ARP_HEAD_LEN'', [(''../intel_8h.html#a3950f92c74a68906025566e7abe96e41'', 1, ''intel.h'')]),
     (''net_5fintel_5fcfg_5flength'', ''NET_INTEL_CFG_LENGTH'', [(''../intel_8h.html#a23bd683f430292051d90d91a878c5484'', 1, ''intel.h'')]),
     (''net_5fintel_5fdsl_5fnic'', ''NET_INTEL_DSL_NIC'', [(''../intel_8h.html#a572ddc9ccf8389e6f8ec869cb0249e91'', 1, ''intel.h'')]),
     (''net_5fintel_5feth_5fhead_5flen'', ''NET_INTEL_ETH_HEAD_LEN'', [(''../intel_8h.html#ad18eb53b2ea2350fed7024fdacf40683'', 1, ''intel.h'')]),
     (''net_5fintel_5fint_5fvector'', ''NET_INTEL_INT_VECTOR'', [(''../intel_8h.html#ae5c381a3f87ebccffd2fed2f29e8495c'', 1, ''intel.h'')]),
     (''net_5fintel_5fmax_5feth_5flength'', ''NET_INTEL_MAX_ETH_LENGTH'', [(''../intel_8h.html#ae78eeee2373e7bad1c3e18b0bb79a33b'', 1, ''intel.h'')]),
     (''net_5fintel_5fmin_5feth_5flength'', ''NET_INTEL_MIN_ETH_LENGTH'', [(''../intel_8h.html#a5b30241b80146819d2247dc6e5d157ae'', 1, ''intel.h'')]),
     (''net_5fintel_5fqemu_5fnic'', ''NET_INTEL_QEMU_NIC'', [(''../intel_8h.html#a8bcc5fdd8f185d90486d7643a50b2c07'', 1, ''intel.h'')]),
     (''net_5fintel_5frfd_5fsize'', ''NET_INTEL_RFD_SIZE'', [(''../intel_8h.html#a9e74ac17c425fe410d90f108b5a31f2b'', 1, ''intel.h'')]),
     (''net_5fintel_5frx_5fbuf_5fmax_5flen'', ''NET_INTEL_RX_BUF_MAX_LEN'', [(''../intel_8h.html#aff5cb0abde47d27ab7ca6687da7de02c'', 1, ''intel.h'')]),
     (''net_5fintel_5ftcb_5fmax_5fdata_5flen'', ''NET_INTEL_TCB_MAX_DATA_LEN'', [(''../intel_8h.html#acc72cfdf488e5ae13b1f87195b1d3a75'', 1, ''intel.h'')]),
     (''net_5fintel_5fvendor'', ''NET_INTEL_VENDOR'', [(''../intel_8h.html#a66ed0c80550230a1cbcbc7f0c0aa3c40'', 1, ''intel.h'')]),
     (''npic'', ''NPIC'', [(''../x86arch_8h.html#a6535cfbd4fdab19e81f2efc48fa81953'', 1, ''x86arch.h'')]),
     (''null'', ''NULL'', [(''../vga13_8c.html#a070d2ce7b6bb7e5c05602aa8c308d0c4'', 1, ''NULL():&#160;vga13.c''), (''../common_8h.html#a070d2ce7b6bb7e5c05602aa8c308d0c4'', 1, ''NULL():&#160;common.h''), (''../stddef_8h.html#a070d2ce7b6bb7e5c05602aa8c308d0c4'', 1, ''NULL():&#160;stddef.h'')])]"

definition searchData_defines_d :: "search_entry list" where
  "searchData_defines_d =
    [(''offsetof'', ''offsetof'', [(''../stddef_8h.html#a19a04836d558f3c018b597e8dea1e0e0'', 1, ''stddef.h'')])]"

definition searchData_defines_e :: "search_entry list" where
  "searchData_defines_e =
    [(''page_5fflags'', ''PAGE_FLAGS'', [(''../memory__constants_8h.html#a29dca63f6bf52f1522ea36f59f94d264'', 1, ''memory_constants.h'')]),
     (''page_5fsize'', ''PAGE_SIZE'', [(''../memory__constants_8h.html#a7d467c1d283fdfa1f2081ba1e0d01b6e'', 1, ''memory_constants.h'')]),
     (''pagecount'', ''PAGECOUNT'', [(''../ramdisk_8c.html#aea665847410445744fa6499ea1f14a86'', 1, ''ramdisk.c'')]),
     (''pci_5fbist'', ''PCI_BIST'', [(''../pci_8h.html#a7e90cb70f5d4911a8126fe93cdac2147'', 1, ''pci.h'')]),
     (''pci_5fcache_5fline_5fsize'', ''PCI_CACHE_LINE_SIZE'', [(''../pci_8h.html#ab0714901b1972ad6700d98d11d683f04'', 1, ''pci.h'')]),
     (''pci_5fcap_5fptr'', ''PCI_CAP_PTR'', [(''../pci_8h.html#aa23a4e7fc9339aee14e7e79f2011db4d'', 1, ''pci.h'')]),
     (''pci_5fcapability_5fid'', ''PCI_CAPABILITY_ID'', [(''../pci_8h.html#a72cd60675061af9d24d36f8c8880b44b'', 1, ''pci.h'')]),
     (''pci_5fclass_5fcode'', ''PCI_CLASS_CODE'', [(''../pci_8h.html#aeceb83f22ca5473d93fb37286277a025'', 1, ''pci.h'')]),
     (''pci_5fcommand'', ''PCI_COMMAND'', [(''../pci_8h.html#ace199ecb77d8e32d759ac065c22304b3'', 1, ''pci.h'')]),
     (''pci_5fcsr_5fio_5fmapped_5fbase_5faddr_5freg'', ''PCI_CSR_IO_MAPPED_BASE_ADDR_REG'', [(''../pci_8h.html#a38e8352cfbfe58668d52adb71a85fe47'', 1, ''pci.h'')]),
     (''pci_5fcsr_5fmem_5fmapped_5fbase_5faddr_5freg'', ''PCI_CSR_MEM_MAPPED_BASE_ADDR_REG'', [(''../pci_8h.html#a14a09b6bae05796ca9098c1ef5bbaee9'', 1, ''pci.h'')]),
     (''pci_5fdata'', ''PCI_DATA'', [(''../pci_8h.html#a2b43d6f9f41c3cf575386ce3080566c3'', 1, ''pci.h'')]),
     (''pci_5fdevice'', ''PCI_DEVICE'', [(''../pci_8h.html#afa30da0972bd1bb4c828ebbdcf9510c7'', 1, ''pci.h'')]),
     (''pci_5fexpansion_5from_5fbase_5faddr_5freg'', ''PCI_EXPANSION_ROM_BASE_ADDR_REG'', [(''../pci_8h.html#aef5226aa850df0963b3c74d092cc3438'', 1, ''pci.h'')]),
     (''pci_5fflash_5fmem_5fmapped_5fbase_5faddr_5freg'', ''PCI_FLASH_MEM_MAPPED_BASE_ADDR_REG'', [(''../pci_8h.html#a7aa7328228a6606a932da98f0371b70e'', 1, ''pci.h'')]),
     (''pci_5fheader_5ftype'', ''PCI_HEADER_TYPE'', [(''../pci_8h.html#a19e39e2931bb71460a3b5e1e30206d7b'', 1, ''pci.h'')]),
     (''pci_5finterrupt_5fline'', ''PCI_INTERRUPT_LINE'', [(''../pci_8h.html#a8116525040b6cde4a11b3aaaf5e40ec7'', 1, ''pci.h'')]),
     (''pci_5finterrupt_5fpin'', ''PCI_INTERRUPT_PIN'', [(''../pci_8h.html#a5fd66cd39d51eb4c24f40749a45c103c'', 1, ''pci.h'')]),
     (''pci_5flatency_5ftimer'', ''PCI_LATENCY_TIMER'', [(''../pci_8h.html#ae2cade69be1011c19d4918689e988e2d'', 1, ''pci.h'')]),
     (''pci_5fmax_5flatency'', ''PCI_MAX_LATENCY'', [(''../pci_8h.html#ad5adab4edfee70aaad976084734e6505'', 1, ''pci.h'')]),
     (''pci_5fmin_5fgrant'', ''PCI_MIN_GRANT'', [(''../pci_8h.html#adc188a9c54214a9332d68b093dac96cf'', 1, ''pci.h'')]),
     (''pci_5fnext_5fitem_5fptr'', ''PCI_NEXT_ITEM_PTR'', [(''../pci_8h.html#afd8189344970a80eaa56fcdd5036cd9d'', 1, ''pci.h'')]),
     (''pci_5fpower_5fmanagement_5fcapabilities'', ''PCI_POWER_MANAGEMENT_CAPABILITIES'', [(''../pci_8h.html#aca65072f4c21b1f5f031cae44a4cd895'', 1, ''pci.h'')]),
     (''pci_5fpower_5fmanagement_5fcsr'', ''PCI_POWER_MANAGEMENT_CSR'', [(''../pci_8h.html#acd42272749de64b204809f7451614125'', 1, ''pci.h'')]),
     (''pci_5frev_5fid'', ''PCI_REV_ID'', [(''../pci_8h.html#ac5dc0ef0c78027bbc44f47c202f08e41'', 1, ''pci.h'')]),
     (''pci_5fstatus'', ''PCI_STATUS'', [(''../pci_8h.html#a250f9aa7637e1c67edc266e2d36adf49'', 1, ''pci.h'')]),
     (''pci_5fsubsystem_5fid'', ''PCI_SUBSYSTEM_ID'', [(''../pci_8h.html#a80c2d20b9cd88bf3fb122f129db522a6'', 1, ''pci.h'')]),
     (''pci_5fsubsystem_5fvendor_5fid'', ''PCI_SUBSYSTEM_VENDOR_ID'', [(''../pci_8h.html#affa3e5966da1d03450a2ede181387051'', 1, ''pci.h'')]),
     (''pci_5fvendor'', ''PCI_VENDOR'', [(''../pci_8h.html#aee612bebadd7a86ba577689b4ae98c83'', 1, ''pci.h'')]),
     (''physaddr'', ''physAddr'', [(''../main_8c.html#ada7e1a40887a6a040cbddd6682e2a0a9'', 1, ''main.c'')]),
     (''pic_5f86mode'', ''PIC_86MODE'', [(''../x86arch_8h.html#a033c7c68b5c7d6322182ce7549f3d184'', 1, ''x86arch.h'')]),
     (''pic_5fautoeoi'', ''PIC_AUTOEOI'', [(''../x86arch_8h.html#aeca2c9284c8ed8bca1c88a6b0f4910dc'', 1, ''x86arch.h'')]),
     (''pic_5fbuffered'', ''PIC_BUFFERED'', [(''../x86arch_8h.html#a7577a07909c5ad9a0d334ece526f2910'', 1, ''x86arch.h'')]),
     (''pic_5feoi'', ''PIC_EOI'', [(''../x86arch_8h.html#a170d8eebdb48c16cfcd60cbd46760cb2'', 1, ''x86arch.h'')]),
     (''pic_5ficw1base'', ''PIC_ICW1BASE'', [(''../x86arch_8h.html#a32b59dd3719d3b1f716102a7939cb529'', 1, ''x86arch.h'')]),
     (''pic_5fltim'', ''PIC_LTIM'', [(''../x86arch_8h.html#afcd8124fef677f4775da3364f6bddb16'', 1, ''x86arch.h'')]),
     (''pic_5fmaster_5fcmd_5fport'', ''PIC_MASTER_CMD_PORT'', [(''../x86arch_8h.html#aaaba0af9046d54b4146880f1d128f396'', 1, ''x86arch.h'')]),
     (''pic_5fmaster_5fimr_5fport'', ''PIC_MASTER_IMR_PORT'', [(''../x86arch_8h.html#a5f448f4d4585caf086b1be3d4b1e801b'', 1, ''x86arch.h'')]),
     (''pic_5fmaster_5fslave_5fline'', ''PIC_MASTER_SLAVE_LINE'', [(''../x86arch_8h.html#aeec192dbe0dda8bd6ba03ee7e9e9b54b'', 1, ''x86arch.h'')]),
     (''pic_5fmasterbuf'', ''PIC_MASTERBUF'', [(''../x86arch_8h.html#a8392d092a82ade5c9bcbe306c27a553f'', 1, ''x86arch.h'')]),
     (''pic_5fneedicw4'', ''PIC_NEEDICW4'', [(''../x86arch_8h.html#ab7fbff74cf5ae86d8d667785d445bd86'', 1, ''x86arch.h'')]),
     (''pic_5freadirr'', ''PIC_READIRR'', [(''../x86arch_8h.html#a6db1cd14be7677789b519974d23f5dce'', 1, ''x86arch.h'')]),
     (''pic_5freadisr'', ''PIC_READISR'', [(''../x86arch_8h.html#a61dc350888c6ca6ee1828f4eec13ff65'', 1, ''x86arch.h'')]),
     (''pic_5fseoi'', ''PIC_SEOI'', [(''../x86arch_8h.html#a80464b4567b37491a53aa6bb12a3fa6d'', 1, ''x86arch.h'')]),
     (''pic_5fseoi_5flvl7'', ''PIC_SEOI_LVL7'', [(''../x86arch_8h.html#a485d8405a0c8045290f2f31acc5e3a22'', 1, ''x86arch.h'')]),
     (''pic_5fslave_5fcmd_5fport'', ''PIC_SLAVE_CMD_PORT'', [(''../x86arch_8h.html#ab9af7807a1aaeea75602dd06cd15d5c6'', 1, ''x86arch.h'')]),
     (''pic_5fslave_5fid'', ''PIC_SLAVE_ID'', [(''../x86arch_8h.html#a88554750c8e4f3ac98a984636fda9625'', 1, ''x86arch.h'')]),
     (''pic_5fslave_5fimr_5fport'', ''PIC_SLAVE_IMR_PORT'', [(''../x86arch_8h.html#ad9e56d130901b9ed40c559f2a1536ba2'', 1, ''x86arch.h'')]),
     (''pic_5fslavebuf'', ''PIC_SLAVEBUF'', [(''../x86arch_8h.html#a0bd4f9e739d3c71d5f073def3cd19e55'', 1, ''x86arch.h'')]),
     (''pic_5fspfmode'', ''PIC_SPFMODE'', [(''../x86arch_8h.html#a5992dce8cd9414403964efa5c5adf964'', 1, ''x86arch.h'')]),
     (''pid_5ffirst_5fuser'', ''PID_FIRST_USER'', [(''../process_8h.html#a9b3a6e25da5f9cc3cfffbc1f01950f4c'', 1, ''process.h'')]),
     (''pid_5finit'', ''PID_INIT'', [(''../process_8h.html#ae98307b2f35c43039706d4494368ae14'', 1, ''process.h'')]),
     (''point_5fzero'', ''POINT_ZERO'', [(''../Point_8h.html#a83d4b2e5f9c57c243f019cb24e1fc913'', 1, ''Point.h'')]),
     (''ps_5ffirst_5flive'', ''PS_FIRST_LIVE'', [(''../types_8h.html#a94e1f45d78ebfc615cb5a3ae7b0202ba'', 1, ''types.h'')]),
     (''ps_5flast_5flive'', ''PS_LAST_LIVE'', [(''../types_8h.html#acedb56c13f62fc96ca9171b37e572ba9'', 1, ''types.h'')]),
     (''psfont_5fmagic'', ''PSFONT_MAGIC'', [(''../PSFont_8h.html#ab5ca4aba6875f5f3606d69fe51a030d4'', 1, ''PSFont.h'')])]"

definition searchData_defines_f :: "search_entry list" where
  "searchData_defines_f =
    [(''quant_5fstd'', ''QUANT_STD'', [(''../clock_8h.html#ade0cf988d80aa565457d4ff716be7097'', 1, ''clock.h'')])]"

definition searchData_defines_10 :: "search_entry list" where
  "searchData_defines_10 =
    [(''ready'', ''READY'', [(''../c__io_8c.html#ad1235d5ce36f7267285e82dccd428aa6'', 1, ''c_io.c'')]),
     (''realprog_5faddress'', ''REALPROG_ADDRESS'', [(''../bootstrap_8h.html#a62626a7a6a052ee8d05fe095eaf3a514'', 1, ''bootstrap.h'')]),
     (''realprog_5fsegment'', ''REALPROG_SEGMENT'', [(''../bootstrap_8h.html#a3af4a9865b8ab2af06e1f0af787dd039'', 1, ''bootstrap.h'')]),
     (''reg'', ''REG'', [(''../process_8h.html#a9c5e488ae1edfbb7d331a3df7facd821'', 1, ''process.h'')]),
     (''reserved_5ftype'', ''RESERVED_TYPE'', [(''../memory__constants_8h.html#aa6f505a08f5e1df13b5dc2cd116ead09'', 1, ''memory_constants.h'')]),
     (''ret'', ''RET'', [(''../process_8h.html#a7da9962fe8da371e7cb567c0c9c7c9ce'', 1, ''process.h'')]),
     (''returned'', ''RETURNED'', [(''../io__types_8h.html#a9fe4ad9296c316e0bd0320dd9aedadc8'', 1, ''io_types.h'')]),
     (''rgl_5frect_5fbottom'', ''RGL_RECT_BOTTOM'', [(''../Rect_8h.html#af0c498312f4d491776dc486ed1d9907e'', 1, ''Rect.h'')]),
     (''rgl_5frect_5fleft'', ''RGL_RECT_LEFT'', [(''../Rect_8h.html#a76a9d803be4c1a03b57dd8bb5f483613'', 1, ''Rect.h'')]),
     (''rgl_5frect_5fright'', ''RGL_RECT_RIGHT'', [(''../Rect_8h.html#aec95481f19bf01d49b71cfa7a6a40348'', 1, ''Rect.h'')]),
     (''rgl_5frect_5ftop'', ''RGL_RECT_TOP'', [(''../Rect_8h.html#ac640d7c820cab1d764ef8859b4ea6b96'', 1, ''Rect.h'')]),
     (''rgl_5frect_5fzero'', ''RGL_RECT_ZERO'', [(''../Rect_8h.html#a6e56e0f4f7ffced35cfbc1aeb581b1a1'', 1, ''Rect.h'')]),
     (''rmtext_5faddress'', ''RMTEXT_ADDRESS'', [(''../bootstrap_8h.html#ab167e8e7199b8e5dfb0ab8acfbf06800'', 1, ''bootstrap.h'')]),
     (''rmtext_5fsegment'', ''RMTEXT_SEGMENT'', [(''../bootstrap_8h.html#a5f9dada0fcfea64507aacf0e22b69a6c'', 1, ''bootstrap.h'')])]"

definition searchData_defines_11 :: "search_entry list" where
  "searchData_defines_11 =
    [(''screen_5fmax_5fx'', ''SCREEN_MAX_X'', [(''../c__io_8c.html#acd9b38ea0d252fd7240dee4d9770ecd0'', 1, ''c_io.c'')]),
     (''screen_5fmax_5fy'', ''SCREEN_MAX_Y'', [(''../c__io_8c.html#aa7df5b7dc3a7756dbe7971ed6318b53c'', 1, ''c_io.c'')]),
     (''screen_5fmin_5fx'', ''SCREEN_MIN_X'', [(''../c__io_8c.html#af5549309e7ee18203953ba06293eea02'', 1, ''c_io.c'')]),
     (''screen_5fmin_5fy'', ''SCREEN_MIN_Y'', [(''../c__io_8c.html#afa9fd098a7e9efd869b26d49861b6d10'', 1, ''c_io.c'')]),
     (''screen_5fx_5fsize'', ''SCREEN_X_SIZE'', [(''../c__io_8c.html#a112b2d25e3417451ca94ea820c150112'', 1, ''c_io.c'')]),
     (''screen_5fy_5fsize'', ''SCREEN_Y_SIZE'', [(''../c__io_8c.html#ae94db8ab05854b67ce4c05045aba3004'', 1, ''c_io.c'')]),
     (''second_5fpde'', ''SECOND_PDE'', [(''../memory__constants_8h.html#a3da15beeba38782744a538ff1929cf75'', 1, ''memory_constants.h'')]),
     (''seconds_5fto_5fms'', ''SECONDS_TO_MS'', [(''../common_8h.html#a0e0e9ca368bc32dea7c55a4efe7637e4'', 1, ''common.h'')]),
     (''seconds_5fto_5fticks'', ''SECONDS_TO_TICKS'', [(''../common_8h.html#ac88ccbc1aa0f9e9590e067759f120ab1'', 1, ''common.h'')]),
     (''seg_5f32bit'', ''SEG_32BIT'', [(''../x86arch_8h.html#a65c0cc713e986c91aa0e2da7731aabf1'', 1, ''x86arch.h'')]),
     (''seg_5faccess_5fdpl_5fmask'', ''SEG_ACCESS_DPL_MASK'', [(''../x86arch_8h.html#a1568ec7782fed201db6ec8e70869f48e'', 1, ''x86arch.h'')]),
     (''seg_5faccess_5fp_5fbit'', ''SEG_ACCESS_P_BIT'', [(''../x86arch_8h.html#a91859985eff50bbb64fe0c08849505cb'', 1, ''x86arch.h'')]),
     (''seg_5faccess_5fs_5fbit'', ''SEG_ACCESS_S_BIT'', [(''../x86arch_8h.html#a25d33839c3190b838c571bf2de616125'', 1, ''x86arch.h'')]),
     (''seg_5faccess_5ftype_5fmask'', ''SEG_ACCESS_TYPE_MASK'', [(''../x86arch_8h.html#acee7f5c48aa811a9edebe9967475853d'', 1, ''x86arch.h'')]),
     (''seg_5fcode_5fa_5fbit'', ''SEG_CODE_A_BIT'', [(''../x86arch_8h.html#a4ec6d9eaac0db5b663a99498cb71143a'', 1, ''x86arch.h'')]),
     (''seg_5fcode_5fc_5fbit'', ''SEG_CODE_C_BIT'', [(''../x86arch_8h.html#a6a2f3f80c1a95db12db79f68a325715c'', 1, ''x86arch.h'')]),
     (''seg_5fcode_5fr_5fbit'', ''SEG_CODE_R_BIT'', [(''../x86arch_8h.html#a4295d5f24ec74b2e5efce777e3d91ea9'', 1, ''x86arch.h'')]),
     (''seg_5fcode_5fxo'', ''SEG_CODE_XO'', [(''../x86arch_8h.html#a092f7e08825a31716f3308ba18b618c7'', 1, ''x86arch.h'')]),
     (''seg_5fcode_5fxo_5fc'', ''SEG_CODE_XO_C'', [(''../x86arch_8h.html#ad8fa2c40d3dba2acef7d1fe6a7c5b8bc'', 1, ''x86arch.h'')]),
     (''seg_5fcode_5fxo_5fca'', ''SEG_CODE_XO_CA'', [(''../x86arch_8h.html#a30b5e06ffdf831558807f1a9eb2520df'', 1, ''x86arch.h'')]),
     (''seg_5fcode_5fxoa'', ''SEG_CODE_XOA'', [(''../x86arch_8h.html#a846a96592e283e728d05f77bd5c50933'', 1, ''x86arch.h'')]),
     (''seg_5fcode_5fxr'', ''SEG_CODE_XR'', [(''../x86arch_8h.html#a4860f57999c6fd7a2c0547259d044726'', 1, ''x86arch.h'')]),
     (''seg_5fcode_5fxr_5fc'', ''SEG_CODE_XR_C'', [(''../x86arch_8h.html#ac6cc7d4aef22847bf6fecb8468a0d356'', 1, ''x86arch.h'')]),
     (''seg_5fcode_5fxr_5fca'', ''SEG_CODE_XR_CA'', [(''../x86arch_8h.html#a75fa298dc496bc2371f198a81590d8e7'', 1, ''x86arch.h'')]),
     (''seg_5fcode_5fxra'', ''SEG_CODE_XRA'', [(''../x86arch_8h.html#a1784fe91e6671f40e28344b867d7c15e'', 1, ''x86arch.h'')]),
     (''seg_5fdata_5fa_5fbit'', ''SEG_DATA_A_BIT'', [(''../x86arch_8h.html#a61a49a1f5c48c8002832f3a4919891eb'', 1, ''x86arch.h'')]),
     (''seg_5fdata_5fe_5fbit'', ''SEG_DATA_E_BIT'', [(''../x86arch_8h.html#a7de32ece9477fafcbbab253c8c22008f'', 1, ''x86arch.h'')]),
     (''seg_5fdata_5fro'', ''SEG_DATA_RO'', [(''../x86arch_8h.html#ad6836305e6ebe1644c5b37ae17bc5e7d'', 1, ''x86arch.h'')]),
     (''seg_5fdata_5fro_5fxd'', ''SEG_DATA_RO_XD'', [(''../x86arch_8h.html#a0fda18e3745c7b28a1a89d4728594a3d'', 1, ''x86arch.h'')]),
     (''seg_5fdata_5fro_5fxda'', ''SEG_DATA_RO_XDA'', [(''../x86arch_8h.html#a0f8b4b10f266e89fcc65f5e942b0fd68'', 1, ''x86arch.h'')]),
     (''seg_5fdata_5froa'', ''SEG_DATA_ROA'', [(''../x86arch_8h.html#aaf861532196243f2ba4d898a304b1586'', 1, ''x86arch.h'')]),
     (''seg_5fdata_5frw'', ''SEG_DATA_RW'', [(''../x86arch_8h.html#a9461c1e420c3c8b4186af8448257e0fb'', 1, ''x86arch.h'')]),
     (''seg_5fdata_5frw_5fxw'', ''SEG_DATA_RW_XW'', [(''../x86arch_8h.html#a84bee9b5e109c3f5e8fef9c1994db92f'', 1, ''x86arch.h'')]),
     (''seg_5fdata_5frw_5fxwa'', ''SEG_DATA_RW_XWA'', [(''../x86arch_8h.html#aebfbda1d7f17d02477b207f2f769229f'', 1, ''x86arch.h'')]),
     (''seg_5fdata_5frwa'', ''SEG_DATA_RWA'', [(''../x86arch_8h.html#ada13da6be8af9462599fa07488b747b1'', 1, ''x86arch.h'')]),
     (''seg_5fdata_5fw_5fbit'', ''SEG_DATA_W_BIT'', [(''../x86arch_8h.html#a045cb2a0f67c310fd3e73f25c53f6992'', 1, ''x86arch.h'')]),
     (''seg_5fdb_5f16bit'', ''SEG_DB_16BIT'', [(''../x86arch_8h.html#a1d3e122ddd8a970dbba17c22c1096f05'', 1, ''x86arch.h'')]),
     (''seg_5fdb_5f32bit'', ''SEG_DB_32BIT'', [(''../x86arch_8h.html#a5bb0e240e045db4da222e966dadb4c0a'', 1, ''x86arch.h'')]),
     (''seg_5fdpl_5f0'', ''SEG_DPL_0'', [(''../x86arch_8h.html#ace2de2fefdccd3b65f8f5385abdc509d'', 1, ''x86arch.h'')]),
     (''seg_5fdpl_5f1'', ''SEG_DPL_1'', [(''../x86arch_8h.html#ab3dede5118520d62436bc60e30e50344'', 1, ''x86arch.h'')]),
     (''seg_5fdpl_5f2'', ''SEG_DPL_2'', [(''../x86arch_8h.html#a62b644b77d584d6e5342f40f2b1477cf'', 1, ''x86arch.h'')]),
     (''seg_5fdpl_5f3'', ''SEG_DPL_3'', [(''../x86arch_8h.html#ad453b792e956d5792f4de8948ead5243'', 1, ''x86arch.h'')]),
     (''seg_5fgran_5f4kbyte'', ''SEG_GRAN_4KBYTE'', [(''../x86arch_8h.html#aa31c0c1fd47cbc7537751ec65963c308'', 1, ''x86arch.h'')]),
     (''seg_5fgran_5fbyte'', ''SEG_GRAN_BYTE'', [(''../x86arch_8h.html#a7a6ab7c22cd2ed3263aedaaaa371a268'', 1, ''x86arch.h'')]),
     (''seg_5fnon_5fsystem'', ''SEG_NON_SYSTEM'', [(''../x86arch_8h.html#ac52722059ae44c3b854be089d272726d'', 1, ''x86arch.h'')]),
     (''seg_5fpl_5f0'', ''SEG_PL_0'', [(''../x86arch_8h.html#a86480a6a85561fc525f657bcf66f8be6'', 1, ''x86arch.h'')]),
     (''seg_5fpl_5f1'', ''SEG_PL_1'', [(''../x86arch_8h.html#afceb472dcf704ec625a3260afdaa29e3'', 1, ''x86arch.h'')]),
     (''seg_5fpl_5f2'', ''SEG_PL_2'', [(''../x86arch_8h.html#a1239988ee7fc1bc19f6f84179100b806'', 1, ''x86arch.h'')]),
     (''seg_5fpl_5f3'', ''SEG_PL_3'', [(''../x86arch_8h.html#a6fb11f0c7914d169c5d8445e60beb12e'', 1, ''x86arch.h'')]),
     (''seg_5fpresent'', ''SEG_PRESENT'', [(''../x86arch_8h.html#a628b680999d7cca5fb714e233498b398'', 1, ''x86arch.h'')]),
     (''seg_5fs_5fnon_5fsystem'', ''SEG_S_NON_SYSTEM'', [(''../x86arch_8h.html#a45efa3286c92e710a683a4c0bf60f6aa'', 1, ''x86arch.h'')]),
     (''seg_5fs_5fsystem'', ''SEG_S_SYSTEM'', [(''../x86arch_8h.html#a97c6c16ddaf4cb6ad9cb04835399e087'', 1, ''x86arch.h'')]),
     (''seg_5fsel_5fix'', ''SEG_SEL_IX'', [(''../x86arch_8h.html#a88b280fab0ad3a9f8b62ef6b1f22ff39'', 1, ''x86arch.h'')]),
     (''seg_5fsel_5frpl'', ''SEG_SEL_RPL'', [(''../x86arch_8h.html#a6fbc76341a38ce891f1f5464462a9344'', 1, ''x86arch.h'')]),
     (''seg_5fsel_5fti'', ''SEG_SEL_TI'', [(''../x86arch_8h.html#a2693a2726d921fff1b8d82f5667ba676'', 1, ''x86arch.h'')]),
     (''seg_5fsize_5favl_5fbit'', ''SEG_SIZE_AVL_BIT'', [(''../x86arch_8h.html#a210fc8300e5ab36e6581e57b9bdd2020'', 1, ''x86arch.h'')]),
     (''seg_5fsize_5fd_5fb_5fbit'', ''SEG_SIZE_D_B_BIT'', [(''../x86arch_8h.html#ae170db8fd94805a9b8cfa77906ba2b3d'', 1, ''x86arch.h'')]),
     (''seg_5fsize_5fg_5fbit'', ''SEG_SIZE_G_BIT'', [(''../x86arch_8h.html#a5934d73b6433f15898315129dd006667'', 1, ''x86arch.h'')]),
     (''seg_5fsize_5flim_5f19_5f16'', ''SEG_SIZE_LIM_19_16'', [(''../x86arch_8h.html#a6d43e54859bd0818cc6eca0fd1efef5b'', 1, ''x86arch.h'')]),
     (''seg_5fsys_5f16bit_5fcall_5fgate'', ''SEG_SYS_16BIT_CALL_GATE'', [(''../x86arch_8h.html#ab3917f8e1ab8a93e41123c44a328d035'', 1, ''x86arch.h'')]),
     (''seg_5fsys_5f16bit_5fint_5fgate'', ''SEG_SYS_16BIT_INT_GATE'', [(''../x86arch_8h.html#ad59894e22496eb8f43e643aa76c67106'', 1, ''x86arch.h'')]),
     (''seg_5fsys_5f16bit_5ftrap_5fgate'', ''SEG_SYS_16BIT_TRAP_GATE'', [(''../x86arch_8h.html#a2ba4523267ba9f58771ec6bbc7bc7627'', 1, ''x86arch.h'')]),
     (''seg_5fsys_5f16bit_5ftss_5favail'', ''SEG_SYS_16BIT_TSS_AVAIL'', [(''../x86arch_8h.html#add9c477cb1d7cf59236ce50058c5c79c'', 1, ''x86arch.h'')]),
     (''seg_5fsys_5f16bit_5ftss_5fbusy'', ''SEG_SYS_16BIT_TSS_BUSY'', [(''../x86arch_8h.html#a1bad9b6ec4021349ced93ca86fdf2af3'', 1, ''x86arch.h'')]),
     (''seg_5fsys_5f32bit_5fcall_5fgate'', ''SEG_SYS_32BIT_CALL_GATE'', [(''../x86arch_8h.html#a98e1b0e8107b5a2777c7fc068e7eb374'', 1, ''x86arch.h'')]),
     (''seg_5fsys_5f32bit_5fint_5fgate'', ''SEG_SYS_32BIT_INT_GATE'', [(''../x86arch_8h.html#aae6d27c3d595bc7943a7bb488d02f0f6'', 1, ''x86arch.h'')]),
     (''seg_5fsys_5f32bit_5ftrap_5fgate'', ''SEG_SYS_32BIT_TRAP_GATE'', [(''../x86arch_8h.html#a5ee475af1eb41a10705552ca482fa356'', 1, ''x86arch.h'')]),
     (''seg_5fsys_5f32bit_5ftss_5favail'', ''SEG_SYS_32BIT_TSS_AVAIL'', [(''../x86arch_8h.html#aed9a5ec062700f87cfd17e3f9a0702b9'', 1, ''x86arch.h'')]),
     (''seg_5fsys_5f32bit_5ftss_5fbusy'', ''SEG_SYS_32BIT_TSS_BUSY'', [(''../x86arch_8h.html#a3e5fe37fa90884a615c843da7150adcd'', 1, ''x86arch.h'')]),
     (''seg_5fsys_5fldt'', ''SEG_SYS_LDT'', [(''../x86arch_8h.html#a491a1ded914c512895d7ce95f7dc378c'', 1, ''x86arch.h'')]),
     (''seg_5fsys_5ftask_5fgate'', ''SEG_SYS_TASK_GATE'', [(''../x86arch_8h.html#ac453a02be0728732fa3cbaa35c18702c'', 1, ''x86arch.h'')]),
     (''seg_5fsystem'', ''SEG_SYSTEM'', [(''../x86arch_8h.html#acd4485f4c48b42d1020cfec2761fd85d'', 1, ''x86arch.h'')]),
     (''sio_5fboth'', ''SIO_BOTH'', [(''../sio_8h.html#a6b3d8a9d97f742ece024a0658c9cbe28'', 1, ''sio.h'')]),
     (''sio_5frx'', ''SIO_RX'', [(''../sio_8h.html#a979d87a5d68f0f026861e8ffddc8c779'', 1, ''sio.h'')]),
     (''sio_5ftx'', ''SIO_TX'', [(''../sio_8h.html#a9a5c087d426b4bc4dd241fc38e473e5b'', 1, ''sio.h'')]),
     (''size_5fzero'', ''SIZE_ZERO'', [(''../Size_8h.html#ae20d73d692272011589119bbfad3b44b'', 1, ''Size.h'')]),
     (''stack_5fwords'', ''STACK_WORDS'', [(''../stack_8h.html#aac53e32d48a0bd20111c0905d2bbf65f'', 1, ''stack.h'')]),
     (''stringcount'', ''STRINGCOUNT'', [(''../video_2video_8c.html#aac22a224e9320bd4322de52fa90218aa'', 1, ''video.c'')]),
     (''success'', ''SUCCESS'', [(''../types_8h.html#aa90cac659d18e8ef6294c7ae337f6b58'', 1, ''types.h'')]),
     (''sys_5fbogus'', ''SYS_bogus'', [(''../syscall_8h.html#af4f87183a7e9e319b5467c1b6ffa3317'', 1, ''syscall.h'')]),
     (''sys_5fexec'', ''SYS_exec'', [(''../syscall_8h.html#a3672b4a5863177cfdf4989e1f3a634b5'', 1, ''syscall.h'')]),
     (''sys_5fexit'', ''SYS_exit'', [(''../syscall_8h.html#a9ffbbdd04d43fb4c0d05d4363d351772'', 1, ''syscall.h'')]),
     (''sys_5ffork'', ''SYS_fork'', [(''../syscall_8h.html#a5eba4bd9e19de29f726910510e067d58'', 1, ''syscall.h'')]),
     (''sys_5fgetpid'', ''SYS_getpid'', [(''../syscall_8h.html#a7e0844c7709356d697013151cf51c69e'', 1, ''syscall.h'')]),
     (''sys_5fgetppid'', ''SYS_getppid'', [(''../syscall_8h.html#a784a01e249e903ffe5ec3cb90c6e6251'', 1, ''syscall.h'')]),
     (''sys_5fgetstatus'', ''SYS_getstatus'', [(''../syscall_8h.html#a9f071bc05eab7ca29009a96515df317b'', 1, ''syscall.h'')]),
     (''sys_5fgettime'', ''SYS_gettime'', [(''../syscall_8h.html#a0187e0573a0021ead4c767263623a7e4'', 1, ''syscall.h'')]),
     (''sys_5fkill'', ''SYS_kill'', [(''../syscall_8h.html#ae72be7145975bab983df852500f507f4'', 1, ''syscall.h'')]),
     (''sys_5fmmap'', ''SYS_mmap'', [(''../syscall_8h.html#ae3d2e90b3cdfe8df1e6fcb09ae2cee24'', 1, ''syscall.h'')]),
     (''sys_5fread'', ''SYS_read'', [(''../syscall_8h.html#a4481bc3f0d65944cd6a9ecd6c5b93a55'', 1, ''syscall.h'')]),
     (''sys_5fsleep'', ''SYS_sleep'', [(''../syscall_8h.html#a77eac7fe66c659f7731cda964a7ce3dc'', 1, ''syscall.h'')]),
     (''sys_5fwait'', ''SYS_wait'', [(''../syscall_8h.html#ad8fac614fe5ff393700eba18c0a1e75a'', 1, ''syscall.h'')]),
     (''sys_5fwrite'', ''SYS_write'', [(''../syscall_8h.html#aa7425a6f80dc9c0ec789079cb6547542'', 1, ''syscall.h'')])]"

definition searchData_defines_12 :: "search_entry list" where
  "searchData_defines_12 =
    [(''target_5faddress'', ''TARGET_ADDRESS'', [(''../bootstrap_8h.html#a95c50d3846497846a911b85d45e3d04e'', 1, ''bootstrap.h'')]),
     (''target_5fsegment'', ''TARGET_SEGMENT'', [(''../bootstrap_8h.html#a7a7e19adc7ff820d63930aa5e9f03d8e'', 1, ''bootstrap.h'')]),
     (''target_5fstack'', ''TARGET_STACK'', [(''../bootstrap_8h.html#a05776be186f60f5d256393fa000f535c'', 1, ''bootstrap.h'')]),
     (''ti'', ''TI'', [(''../memory__map_8c.html#ab8364e5ecefb0f6e384a494b8c5522b2'', 1, ''memory_map.c'')]),
     (''ticks_5fto_5frounded_5fseconds'', ''TICKS_TO_ROUNDED_SECONDS'', [(''../common_8h.html#aa5dd0c271a888afc29d8f964ae921a2d'', 1, ''common.h'')]),
     (''ticks_5fto_5fseconds'', ''TICKS_TO_SECONDS'', [(''../common_8h.html#ac8a53745cd00a7cd233042f942e8d459'', 1, ''common.h'')]),
     (''timer_5f0_5fendsignal'', ''TIMER_0_ENDSIGNAL'', [(''../x86arch_8h.html#a730de3ecd74a5d93b5d7f2de8e640645'', 1, ''x86arch.h'')]),
     (''timer_5f0_5fload'', ''TIMER_0_LOAD'', [(''../x86arch_8h.html#a95054376919beabb4b35aca3dc660ff0'', 1, ''x86arch.h'')]),
     (''timer_5f0_5fndiv'', ''TIMER_0_NDIV'', [(''../x86arch_8h.html#afcdc68e1a555db9246b14cb3747314cb'', 1, ''x86arch.h'')]),
     (''timer_5f0_5fport'', ''TIMER_0_PORT'', [(''../x86arch_8h.html#a87beb9f6568352284f13a19dc9b97564'', 1, ''x86arch.h'')]),
     (''timer_5f0_5fselect'', ''TIMER_0_SELECT'', [(''../x86arch_8h.html#a3b1e82824fd50105d2bdb16e62de1169'', 1, ''x86arch.h'')]),
     (''timer_5f0_5fsquare'', ''TIMER_0_SQUARE'', [(''../x86arch_8h.html#afe0de518594c0c5cddbc7a9fff2d04ed'', 1, ''x86arch.h'')]),
     (''timer_5f1_5fport'', ''TIMER_1_PORT'', [(''../x86arch_8h.html#a1e79003cb4074a6d2c39e075e6a44445'', 1, ''x86arch.h'')]),
     (''timer_5f1_5frate'', ''TIMER_1_RATE'', [(''../x86arch_8h.html#abcdc81395e77a4234f5f77d1caafd4fd'', 1, ''x86arch.h'')]),
     (''timer_5f1_5fread'', ''TIMER_1_READ'', [(''../x86arch_8h.html#af252070b7d419ba6423891da0a4b2132'', 1, ''x86arch.h'')]),
     (''timer_5f1_5fselect'', ''TIMER_1_SELECT'', [(''../x86arch_8h.html#a61ca649c63cc2d63a2cdade5ecddb705'', 1, ''x86arch.h'')]),
     (''timer_5f2_5fport'', ''TIMER_2_PORT'', [(''../x86arch_8h.html#ace267999571e7ea8b375d316505efaee'', 1, ''x86arch.h'')]),
     (''timer_5f2_5frate'', ''TIMER_2_RATE'', [(''../x86arch_8h.html#a1ba7ae6751f4284eb5cc8a86c9635815'', 1, ''x86arch.h'')]),
     (''timer_5f2_5fread'', ''TIMER_2_READ'', [(''../x86arch_8h.html#af6560d34690e1e6f7547b3f706d66e4e'', 1, ''x86arch.h'')]),
     (''timer_5f2_5fselect'', ''TIMER_2_SELECT'', [(''../x86arch_8h.html#a687c0c4b258258f145eb4dca14a23b6f'', 1, ''x86arch.h'')]),
     (''timer_5fbase_5fport'', ''TIMER_BASE_PORT'', [(''../x86arch_8h.html#a885be9634ec7643c6b1505f1159b0888'', 1, ''x86arch.h'')]),
     (''timer_5fcontrol_5fport'', ''TIMER_CONTROL_PORT'', [(''../x86arch_8h.html#a61fe1bf49db8840cc842c178a9137978'', 1, ''x86arch.h'')]),
     (''timer_5fdefault_5fms_5fper_5ftick'', ''TIMER_DEFAULT_MS_PER_TICK'', [(''../x86arch_8h.html#a67d0625c384a2f55a5be98fec9097965'', 1, ''x86arch.h'')]),
     (''timer_5fdefault_5fticks_5fper_5fsecond'', ''TIMER_DEFAULT_TICKS_PER_SECOND'', [(''../x86arch_8h.html#a45585ffc6a0355498e8c163d730d3eb7'', 1, ''x86arch.h'')]),
     (''timer_5ffrequency'', ''TIMER_FREQUENCY'', [(''../x86arch_8h.html#a150e4f9c8426a49d5153393b6612ef9e'', 1, ''x86arch.h'')]),
     (''timer_5fmode_5f0'', ''TIMER_MODE_0'', [(''../x86arch_8h.html#a7f69b9f464ae8404f576f1421056321e'', 1, ''x86arch.h'')]),
     (''timer_5fmode_5f1'', ''TIMER_MODE_1'', [(''../x86arch_8h.html#a061fb4877d0609e51008ea92534b7fdd'', 1, ''x86arch.h'')]),
     (''timer_5fmode_5f2'', ''TIMER_MODE_2'', [(''../x86arch_8h.html#a67333a3dbe9cb18cecfc335c2cc9638d'', 1, ''x86arch.h'')]),
     (''timer_5fmode_5f3'', ''TIMER_MODE_3'', [(''../x86arch_8h.html#a20be234e5a69eeb351e3676dab6657bc'', 1, ''x86arch.h'')]),
     (''timer_5fmode_5f4'', ''TIMER_MODE_4'', [(''../x86arch_8h.html#afa9e4589f212b36784f120fb963703cd'', 1, ''x86arch.h'')]),
     (''timer_5fmode_5f5'', ''TIMER_MODE_5'', [(''../x86arch_8h.html#aedf41b3d3044f7635c59d19da5ded68f'', 1, ''x86arch.h'')]),
     (''timer_5frb_5faccess_5fmask'', ''TIMER_RB_ACCESS_MASK'', [(''../x86arch_8h.html#abc7b65b6b1fb68fb2a5874741a1e297d'', 1, ''x86arch.h'')]),
     (''timer_5frb_5fbcd_5fmask'', ''TIMER_RB_BCD_MASK'', [(''../x86arch_8h.html#a4df25dde93ba621fdb57d1cb74756279'', 1, ''x86arch.h'')]),
     (''timer_5frb_5fchan_5f0'', ''TIMER_RB_CHAN_0'', [(''../x86arch_8h.html#a5bbe6d74fbf598ebe382a6fd1c4a65fe'', 1, ''x86arch.h'')]),
     (''timer_5frb_5fchan_5f1'', ''TIMER_RB_CHAN_1'', [(''../x86arch_8h.html#aac5b33ced16baf8de82a233e1d523550'', 1, ''x86arch.h'')]),
     (''timer_5frb_5fchan_5f2'', ''TIMER_RB_CHAN_2'', [(''../x86arch_8h.html#a7622b98e9243e25edf079229072841c0'', 1, ''x86arch.h'')]),
     (''timer_5frb_5fnot_5fcount'', ''TIMER_RB_NOT_COUNT'', [(''../x86arch_8h.html#a283a9fc8e3a2a6ec0ce244c96fd5054e'', 1, ''x86arch.h'')]),
     (''timer_5frb_5fnot_5fstatus'', ''TIMER_RB_NOT_STATUS'', [(''../x86arch_8h.html#ae38d2c541607f7bb9f4a6143aba08bf2'', 1, ''x86arch.h'')]),
     (''timer_5frb_5fop_5fmask'', ''TIMER_RB_OP_MASK'', [(''../x86arch_8h.html#a1297f0010da4bfaf9342b4e228282fd3'', 1, ''x86arch.h'')]),
     (''timer_5freadback'', ''TIMER_READBACK'', [(''../x86arch_8h.html#ad71867aae8f2ff456cfb3aebb7301ec1'', 1, ''x86arch.h'')]),
     (''timer_5fuse_5fbcd'', ''TIMER_USE_BCD'', [(''../x86arch_8h.html#ab9cae8184e8b667a4912c52d785bca83'', 1, ''x86arch.h'')]),
     (''timer_5fuse_5fdecimal'', ''TIMER_USE_DECIMAL'', [(''../x86arch_8h.html#a91a82c5fc77abd7fe187611c6fa9d74a'', 1, ''x86arch.h'')]),
     (''tmpbufsz'', ''TMPBUFSZ'', [(''../stack_8c.html#a8aa0d90907c5275404baa276f1f4cb38'', 1, ''stack.c'')]),
     (''tolower'', ''tolower'', [(''../ctype_8h.html#a27d77b9d9f819c146c5b1c24c55246cb'', 1, ''ctype.h'')]),
     (''total_5fcb'', ''TOTAL_CB'', [(''../intel_8h.html#af62095263e0abbca43c9d45a30239384'', 1, ''intel.h'')]),
     (''total_5frfd'', ''TOTAL_RFD'', [(''../intel_8h.html#a8b0457cf58ea00a075821732e4b5ff89'', 1, ''intel.h'')]),
     (''toupper'', ''toupper'', [(''../ctype_8h.html#aef7ce6640bebf6d596b908190612c87d'', 1, ''ctype.h'')]),
     (''tp'', ''TP'', [(''../memory__map_8c.html#af972ebfdd064fdb489daf84443a12f35'', 1, ''memory_map.c'')])]"

definition searchData_defines_13 :: "search_entry list" where
  "searchData_defines_13 =
    [(''ua4_5fbank_5fselect'', ''UA4_BANK_SELECT'', [(''../uart_8h.html#a61189147aee0bd010ba4994c1c027d64'', 1, ''uart.h'')]),
     (''ua4_5fbsr'', ''UA4_BSR'', [(''../uart_8h.html#a8dcfe2b2f319291035d95e46689107bc'', 1, ''uart.h'')]),
     (''ua4_5fbsr_5fbank2'', ''UA4_BSR_BANK2'', [(''../uart_8h.html#a126aab9ee89832641601d3534233f43d'', 1, ''uart.h'')]),
     (''ua4_5fbsr_5fbank3'', ''UA4_BSR_BANK3'', [(''../uart_8h.html#a631da331d2f31d8ce229c3a36d184325'', 1, ''uart.h'')]),
     (''ua4_5fcom1_5fioaddr'', ''UA4_COM1_IOADDR'', [(''../uart_8h.html#a48b6b95a7e3f2a9dbb89153a88200b7a'', 1, ''uart.h'')]),
     (''ua4_5fcom2_5fioaddr'', ''UA4_COM2_IOADDR'', [(''../uart_8h.html#ac49fa0e29a6b51d1fb38a0679c09a8d3'', 1, ''uart.h'')]),
     (''ua4_5fcom3_5fioaddr'', ''UA4_COM3_IOADDR'', [(''../uart_8h.html#a850520772ae00c77331ba1e33562041b'', 1, ''uart.h'')]),
     (''ua4_5fcom4_5fioaddr'', ''UA4_COM4_IOADDR'', [(''../uart_8h.html#aef3afea5d8c2992adf698fe76925f674'', 1, ''uart.h'')]),
     (''ua4_5feir'', ''UA4_EIR'', [(''../uart_8h.html#ad30a94b2bfd638031464108d77295630'', 1, ''uart.h'')]),
     (''ua4_5feir_5fint_5fpending'', ''UA4_EIR_INT_PENDING'', [(''../uart_8h.html#a6de704256fb931cfa64b9c312228896e'', 1, ''uart.h'')]),
     (''ua4_5feir_5fint_5fpri_5fmask'', ''UA4_EIR_INT_PRI_MASK'', [(''../uart_8h.html#ac326ca3d2798b4ba0e90894755c12c25'', 1, ''uart.h'')]),
     (''ua4_5feir_5fipf'', ''UA4_EIR_IPF'', [(''../uart_8h.html#aed5c7e8c2a11852fee81e6a339e00abf'', 1, ''uart.h'')]),
     (''ua4_5feir_5fipr0'', ''UA4_EIR_IPR0'', [(''../uart_8h.html#a2e1744a0ae9f2eded53ea128fdebe93f'', 1, ''uart.h'')]),
     (''ua4_5feir_5fipr1'', ''UA4_EIR_IPR1'', [(''../uart_8h.html#a8e5d51b196befc41aa3d0a9a4f0fde50'', 1, ''uart.h'')]),
     (''ua4_5feir_5fline_5fstatus'', ''UA4_EIR_LINE_STATUS'', [(''../uart_8h.html#ac15938cfa769f2ba71e098f5069983ee'', 1, ''uart.h'')]),
     (''ua4_5feir_5fline_5fstatus_5fint_5fpending'', ''UA4_EIR_LINE_STATUS_INT_PENDING'', [(''../uart_8h.html#a6f6c750a52f38a160dd67675739c280c'', 1, ''uart.h'')]),
     (''ua4_5feir_5fmodem_5fstatus'', ''UA4_EIR_MODEM_STATUS'', [(''../uart_8h.html#a01f9e6a163a01241163bd9e7bc39f9ae'', 1, ''uart.h'')]),
     (''ua4_5feir_5fmodem_5fstatus_5fint_5fpending'', ''UA4_EIR_MODEM_STATUS_INT_PENDING'', [(''../uart_8h.html#a987d3143730b1f105d5b8a22a0438303'', 1, ''uart.h'')]),
     (''ua4_5feir_5fno_5fint'', ''UA4_EIR_NO_INT'', [(''../uart_8h.html#a73cfe6fdcb646f97901cb2ca717a9626'', 1, ''uart.h'')]),
     (''ua4_5feir_5fno_5fint_5fpending'', ''UA4_EIR_NO_INT_PENDING'', [(''../uart_8h.html#af50e50dce1615acdd5869316c889d317'', 1, ''uart.h'')]),
     (''ua4_5feir_5fpri'', ''UA4_EIR_PRI'', [(''../uart_8h.html#a4cd07d149912e8872465ec9077e170d3'', 1, ''uart.h'')]),
     (''ua4_5feir_5frx_5fhigh'', ''UA4_EIR_RX_HIGH'', [(''../uart_8h.html#a49fb3f1a36995cd7f2c041580dd87600'', 1, ''uart.h'')]),
     (''ua4_5feir_5frx_5fint_5fpending'', ''UA4_EIR_RX_INT_PENDING'', [(''../uart_8h.html#adcd214cb97dcc97e4f43fef2cbca4867'', 1, ''uart.h'')]),
     (''ua4_5feir_5ftx_5fint_5fpending'', ''UA4_EIR_TX_INT_PENDING'', [(''../uart_8h.html#adf61f29713b09e0d3e291828ef4eae7d'', 1, ''uart.h'')]),
     (''ua4_5feir_5ftx_5flow'', ''UA4_EIR_TX_LOW'', [(''../uart_8h.html#a606b11b1ef84cbc86f80d9b17e435179'', 1, ''uart.h'')]),
     (''ua4_5fevent_5fid'', ''UA4_EVENT_ID'', [(''../uart_8h.html#a88b3ee9a85339ae09d52415727dc9d87'', 1, ''uart.h'')]),
     (''ua4_5ffcr'', ''UA4_FCR'', [(''../uart_8h.html#adbd3e8165fef7d1698e0cb67d3106725'', 1, ''uart.h'')]),
     (''ua4_5ffifo_5fctl'', ''UA4_FIFO_CTL'', [(''../uart_8h.html#a8623ae07e67acfb5c837ec8b92a80bd1'', 1, ''uart.h'')]),
     (''ua4_5fier'', ''UA4_IER'', [(''../uart_8h.html#ae2f331fa2aed31672343c6d035841158'', 1, ''uart.h'')]),
     (''ua4_5fier_5fline_5fstatus_5fint_5fenable'', ''UA4_IER_LINE_STATUS_INT_ENABLE'', [(''../uart_8h.html#a2360f67683992bec54a099fed2b3f405'', 1, ''uart.h'')]),
     (''ua4_5fier_5fls_5fie'', ''UA4_IER_LS_IE'', [(''../uart_8h.html#a2eb0686d272658f81cd0de7dc1c9deda'', 1, ''uart.h'')]),
     (''ua4_5fier_5fmodem_5fstatus_5fint_5fenable'', ''UA4_IER_MODEM_STATUS_INT_ENABLE'', [(''../uart_8h.html#acccabce1fa4a74822f2887cb9dd9ba3c'', 1, ''uart.h'')]),
     (''ua4_5fier_5fms_5fie'', ''UA4_IER_MS_IE'', [(''../uart_8h.html#a0442715f85d6336f46cd33a89b620d9e'', 1, ''uart.h'')]),
     (''ua4_5fier_5frx_5fint_5fenable'', ''UA4_IER_RX_INT_ENABLE'', [(''../uart_8h.html#a75cfd1cf640f9e79270d9871fbc6835a'', 1, ''uart.h'')]),
     (''ua4_5fier_5frxhdl_5fie'', ''UA4_IER_RXHDL_IE'', [(''../uart_8h.html#afbb1a1e147a02edcac9c8abf90d74fe0'', 1, ''uart.h'')]),
     (''ua4_5fier_5ftx_5fint_5fenable'', ''UA4_IER_TX_INT_ENABLE'', [(''../uart_8h.html#ae6805a675c37c31480fd7907e8042102'', 1, ''uart.h'')]),
     (''ua4_5fier_5ftxldl_5fie'', ''UA4_IER_TXLDL_IE'', [(''../uart_8h.html#ac24f048b4d5f3a32881166ddd434db00'', 1, ''uart.h'')]),
     (''ua4_5fint_5fenable_5freg'', ''UA4_INT_ENABLE_REG'', [(''../uart_8h.html#a69fc2c635401c5b3e3e7d4cf97b7cda7'', 1, ''uart.h'')]),
     (''ua4_5flbgd_5fh'', ''UA4_LBGD_H'', [(''../uart_8h.html#a80c14709935bc4b21dc8b1b86c17b9e4'', 1, ''uart.h'')]),
     (''ua4_5flbgd_5fl'', ''UA4_LBGD_L'', [(''../uart_8h.html#a3079513e058a0c0585f5dd4b909f1562'', 1, ''uart.h'')]),
     (''ua4_5flcr'', ''UA4_LCR'', [(''../uart_8h.html#ae43d8118ca0473161089092c554537b8'', 1, ''uart.h'')]),
     (''ua4_5flcr_5f1_5fstop_5fbit'', ''UA4_LCR_1_STOP_BIT'', [(''../uart_8h.html#a1a6ffd127f1d15ef33f83579920c23fe'', 1, ''uart.h'')]),
     (''ua4_5flcr_5f2_5fstop_5fbit'', ''UA4_LCR_2_STOP_BIT'', [(''../uart_8h.html#aa73539f57c79191169cf67c7f14198d8'', 1, ''uart.h'')]),
     (''ua4_5flcr_5fbank0'', ''UA4_LCR_BANK0'', [(''../uart_8h.html#aab8b1d066c6bc35df22bd5c95942664b'', 1, ''uart.h'')]),
     (''ua4_5flcr_5fbank1'', ''UA4_LCR_BANK1'', [(''../uart_8h.html#a0ba8d9b85cd181565bb74fbc04ef05f9'', 1, ''uart.h'')]),
     (''ua4_5flcr_5fbank_5fselect_5fenable'', ''UA4_LCR_BANK_SELECT_ENABLE'', [(''../uart_8h.html#a47ae90b9ae549dba872d836a5c58090b'', 1, ''uart.h'')]),
     (''ua4_5flcr_5fbits_5f5'', ''UA4_LCR_BITS_5'', [(''../uart_8h.html#ae5f288e5c4cf7c98ea727ad3865a08ed'', 1, ''uart.h'')]),
     (''ua4_5flcr_5fbits_5f6'', ''UA4_LCR_BITS_6'', [(''../uart_8h.html#a0e20b76cfafcb430f26de33d0f76ab05'', 1, ''uart.h'')]),
     (''ua4_5flcr_5fbits_5f7'', ''UA4_LCR_BITS_7'', [(''../uart_8h.html#a0ba51974c3bbd61af0656aef79c1094f'', 1, ''uart.h'')]),
     (''ua4_5flcr_5fbits_5f8'', ''UA4_LCR_BITS_8'', [(''../uart_8h.html#aade7fbf4d2f45bbaf6b890918ffb732f'', 1, ''uart.h'')]),
     (''ua4_5flcr_5fbkse'', ''UA4_LCR_BKSE'', [(''../uart_8h.html#a2577770b384d22f998eb56de9c9a582a'', 1, ''uart.h'')]),
     (''ua4_5flcr_5feps'', ''UA4_LCR_EPS'', [(''../uart_8h.html#af1715e22b67281350d593030995b557f'', 1, ''uart.h'')]),
     (''ua4_5flcr_5feven_5fparity'', ''UA4_LCR_EVEN_PARITY'', [(''../uart_8h.html#ad3c6730f96db06a524f23a532132a1dc'', 1, ''uart.h'')]),
     (''ua4_5flcr_5fno_5fparity'', ''UA4_LCR_NO_PARITY'', [(''../uart_8h.html#a6c544e7aaab133cbc0de90648431aa67'', 1, ''uart.h'')]),
     (''ua4_5flcr_5fodd_5fparity'', ''UA4_LCR_ODD_PARITY'', [(''../uart_8h.html#ac0391e3d39ccf025c317c419bc17e39b'', 1, ''uart.h'')]),
     (''ua4_5flcr_5fparity_5fenable'', ''UA4_LCR_PARITY_ENABLE'', [(''../uart_8h.html#a48ca5f7bfa4abb08ddd16a655a8ee8be'', 1, ''uart.h'')]),
     (''ua4_5flcr_5fparity_5flogic_5f0'', ''UA4_LCR_PARITY_LOGIC_0'', [(''../uart_8h.html#a546c58039135f22a98b9375cbdc7f7f7'', 1, ''uart.h'')]),
     (''ua4_5flcr_5fparity_5flogic_5f1'', ''UA4_LCR_PARITY_LOGIC_1'', [(''../uart_8h.html#a79f4600c1c83e03a90585ac658866814'', 1, ''uart.h'')]),
     (''ua4_5flcr_5fpen'', ''UA4_LCR_PEN'', [(''../uart_8h.html#a129689be76a081bbe46c0567e1b644dc'', 1, ''uart.h'')]),
     (''ua4_5flcr_5fsbrk'', ''UA4_LCR_SBRK'', [(''../uart_8h.html#a9b1ffc0287feb6a1cf23df0873b575d2'', 1, ''uart.h'')]),
     (''ua4_5flcr_5fset_5fbreak'', ''UA4_LCR_SET_BREAK'', [(''../uart_8h.html#a73051770b4197e7a95566d896fe14e29'', 1, ''uart.h'')]),
     (''ua4_5flcr_5fstb'', ''UA4_LCR_STB'', [(''../uart_8h.html#a398ae0016adaaf8da4aa51f37fbc53b0'', 1, ''uart.h'')]),
     (''ua4_5flcr_5fstkp'', ''UA4_LCR_STKP'', [(''../uart_8h.html#a67f1ed718effb8bed6bd42bb1dde3d40'', 1, ''uart.h'')]),
     (''ua4_5flcr_5fstop_5fbits'', ''UA4_LCR_STOP_BITS'', [(''../uart_8h.html#a5324ce324bd3197a7336becbc9cd779e'', 1, ''uart.h'')]),
     (''ua4_5flcr_5fwls'', ''UA4_LCR_WLS'', [(''../uart_8h.html#ac5500525ca7f7056966b1d4918a2f325'', 1, ''uart.h'')]),
     (''ua4_5flcr_5fwls0'', ''UA4_LCR_WLS0'', [(''../uart_8h.html#a332af2e62635a73409aa49b6b8696d37'', 1, ''uart.h'')]),
     (''ua4_5flcr_5fwls1'', ''UA4_LCR_WLS1'', [(''../uart_8h.html#a5293aecc6cb3cceb0b6a49c11f53dc4e'', 1, ''uart.h'')]),
     (''ua4_5fline_5fctl'', ''UA4_LINE_CTL'', [(''../uart_8h.html#a6a2df7d37ef0a4e0434bbb97dbb70fc4'', 1, ''uart.h'')]),
     (''ua4_5fline_5fstatus'', ''UA4_LINE_STATUS'', [(''../uart_8h.html#ab7efffce38867b3f2cbd95aac4ce8f4b'', 1, ''uart.h'')]),
     (''ua4_5flsr'', ''UA4_LSR'', [(''../uart_8h.html#ae9b54f625aabf74ab1af610c05f01d06'', 1, ''uart.h'')]),
     (''ua4_5flsr_5fbreak_5fdetected'', ''UA4_LSR_BREAK_DETECTED'', [(''../uart_8h.html#a05b5539d3c14e53b2b58ff8b25b0e9fc'', 1, ''uart.h'')]),
     (''ua4_5flsr_5fbrk'', ''UA4_LSR_BRK'', [(''../uart_8h.html#a35da928552c9b453c9ee859373890e8e'', 1, ''uart.h'')]),
     (''ua4_5flsr_5fer_5finf'', ''UA4_LSR_ER_INF'', [(''../uart_8h.html#a3b964889727b7df51cb1b10f8163b07e'', 1, ''uart.h'')]),
     (''ua4_5flsr_5ffe'', ''UA4_LSR_FE'', [(''../uart_8h.html#abb4fbef22f8980611cbe9949896e9bab'', 1, ''uart.h'')]),
     (''ua4_5flsr_5fframing_5ferror'', ''UA4_LSR_FRAMING_ERROR'', [(''../uart_8h.html#aabbfe3709915d1d5577d6d6818f4c7ff'', 1, ''uart.h'')]),
     (''ua4_5flsr_5foe'', ''UA4_LSR_OE'', [(''../uart_8h.html#ab29a76983062153b3b8b83ed52ed36f4'', 1, ''uart.h'')]),
     (''ua4_5flsr_5foverrun_5ferror'', ''UA4_LSR_OVERRUN_ERROR'', [(''../uart_8h.html#ac6933223a9c4eccafb927a324898488e'', 1, ''uart.h'')]),
     (''ua4_5flsr_5fparity_5ferror'', ''UA4_LSR_PARITY_ERROR'', [(''../uart_8h.html#ae6466464e6efd7e72fd1d01d69c64a33'', 1, ''uart.h'')]),
     (''ua4_5flsr_5fpe'', ''UA4_LSR_PE'', [(''../uart_8h.html#aea1cc77056d62a0d7d8dba2b8477508b'', 1, ''uart.h'')]),
     (''ua4_5flsr_5frx_5fdata_5favailable'', ''UA4_LSR_RX_DATA_AVAILABLE'', [(''../uart_8h.html#a55e0d98184efbe99785462716a88397e'', 1, ''uart.h'')]),
     (''ua4_5flsr_5frx_5ffifo_5ferror'', ''UA4_LSR_RX_FIFO_ERROR'', [(''../uart_8h.html#a336725be150a069c6aa5053a316db413'', 1, ''uart.h'')]),
     (''ua4_5flsr_5frxda'', ''UA4_LSR_RXDA'', [(''../uart_8h.html#a8a28b1f268b427f89e705680478e234d'', 1, ''uart.h'')]),
     (''ua4_5flsr_5ftx_5fempty'', ''UA4_LSR_TX_EMPTY'', [(''../uart_8h.html#a95ecdcf8af1acdd6f89cf3c75a2255d1'', 1, ''uart.h'')]),
     (''ua4_5flsr_5ftx_5fready'', ''UA4_LSR_TX_READY'', [(''../uart_8h.html#a2551f4f215da03f987ee622efdf7bb71'', 1, ''uart.h'')]),
     (''ua4_5flsr_5ftxemp'', ''UA4_LSR_TXEMP'', [(''../uart_8h.html#a9cf278a47cc38d09b0a729bbb8a1d120'', 1, ''uart.h'')]),
     (''ua4_5flsr_5ftxrdy'', ''UA4_LSR_TXRDY'', [(''../uart_8h.html#aed594f9e87915428028cf62b459e57a7'', 1, ''uart.h'')]),
     (''ua4_5fmcr'', ''UA4_MCR'', [(''../uart_8h.html#a19cfd0cb2f5bef6371ed58bd42782ca1'', 1, ''uart.h'')]),
     (''ua4_5fmcr_5fdata_5fterminal_5fready'', ''UA4_MCR_DATA_TERMINAL_READY'', [(''../uart_8h.html#a23177ad80b1eb1a33901b0c8b89b2f2e'', 1, ''uart.h'')]),
     (''ua4_5fmcr_5fdcdlp'', ''UA4_MCR_DCDLP'', [(''../uart_8h.html#ab2e3b12ec2a40b2ef3afe5ec58fdbe3f'', 1, ''uart.h'')]),
     (''ua4_5fmcr_5fdtr'', ''UA4_MCR_DTR'', [(''../uart_8h.html#afddcc84c23babf380dfcb1aeb2bc907f'', 1, ''uart.h'')]),
     (''ua4_5fmcr_5fint_5fsignal_5fenable'', ''UA4_MCR_INT_SIGNAL_ENABLE'', [(''../uart_8h.html#a3326ef673ad18b9e280b9c14589366af'', 1, ''uart.h'')]),
     (''ua4_5fmcr_5fisen'', ''UA4_MCR_ISEN'', [(''../uart_8h.html#aef4e52c1a17e19f75fd7cb331041e688'', 1, ''uart.h'')]),
     (''ua4_5fmcr_5floop'', ''UA4_MCR_LOOP'', [(''../uart_8h.html#a0bc2ee0c86cbb747fc689766321c0b7c'', 1, ''uart.h'')]),
     (''ua4_5fmcr_5floopback_5fdcd'', ''UA4_MCR_LOOPBACK_DCD'', [(''../uart_8h.html#aef3c9a38524e0e9e117ac8fb0f80f755'', 1, ''uart.h'')]),
     (''ua4_5fmcr_5floopback_5fenable'', ''UA4_MCR_LOOPBACK_ENABLE'', [(''../uart_8h.html#a33661b9dcd06da04ff3a88123dae0f34'', 1, ''uart.h'')]),
     (''ua4_5fmcr_5floopback_5fint_5freq'', ''UA4_MCR_LOOPBACK_INT_REQ'', [(''../uart_8h.html#a6e5cf5556dd0d67d40ddcb295a03162d'', 1, ''uart.h'')]),
     (''ua4_5fmcr_5fready_5fto_5fsend'', ''UA4_MCR_READY_TO_SEND'', [(''../uart_8h.html#a597cc46ad65fea8c6921cb31b9d06747'', 1, ''uart.h'')]),
     (''ua4_5fmcr_5frilp'', ''UA4_MCR_RILP'', [(''../uart_8h.html#a83ed10c4e1a75c164a0fb7f919654e8c'', 1, ''uart.h'')]),
     (''ua4_5fmcr_5frts'', ''UA4_MCR_RTS'', [(''../uart_8h.html#ad10db2a7fc4322706b82991f1e704c45'', 1, ''uart.h'')]),
     (''ua4_5fmodem_5fctl'', ''UA4_MODEM_CTL'', [(''../uart_8h.html#a9da55166935404505e5b800c583ee1a4'', 1, ''uart.h'')]),
     (''ua4_5fmodem_5fstatus'', ''UA4_MODEM_STATUS'', [(''../uart_8h.html#a08755382c29a91e9ee4f6d9cf44c46fe'', 1, ''uart.h'')]),
     (''ua4_5fmsr'', ''UA4_MSR'', [(''../uart_8h.html#a243d1ea91a3e11fe6ee45cb72eab7d89'', 1, ''uart.h'')]),
     (''ua4_5fmsr_5fclear_5fto_5fsend'', ''UA4_MSR_CLEAR_TO_SEND'', [(''../uart_8h.html#a2a47c92d83ea30074dd9071d216dc786'', 1, ''uart.h'')]),
     (''ua4_5fmsr_5fcts'', ''UA4_MSR_CTS'', [(''../uart_8h.html#acfe4bf61e965a2a1a80d87f4ed4536cb'', 1, ''uart.h'')]),
     (''ua4_5fmsr_5fdata_5fcarrier_5fdetect'', ''UA4_MSR_DATA_CARRIER_DETECT'', [(''../uart_8h.html#a9dbc4c631eda515eff337a3d79dc0fcc'', 1, ''uart.h'')]),
     (''ua4_5fmsr_5fdata_5fset_5fready'', ''UA4_MSR_DATA_SET_READY'', [(''../uart_8h.html#a8da7c6c7d0e57e95540daf8582ebb6c6'', 1, ''uart.h'')]),
     (''ua4_5fmsr_5fdcd'', ''UA4_MSR_DCD'', [(''../uart_8h.html#a668f1c08287a1fd6eadde622b1c729a1'', 1, ''uart.h'')]),
     (''ua4_5fmsr_5fdcts'', ''UA4_MSR_DCTS'', [(''../uart_8h.html#a29f038cb59c71c216812064eb72f2334'', 1, ''uart.h'')]),
     (''ua4_5fmsr_5fddcd'', ''UA4_MSR_DDCD'', [(''../uart_8h.html#adc80cd1170a10b67b62cd6eeb9464e8c'', 1, ''uart.h'')]),
     (''ua4_5fmsr_5fddsr'', ''UA4_MSR_DDSR'', [(''../uart_8h.html#aae48a324a5a21461279fe6032024be8d'', 1, ''uart.h'')]),
     (''ua4_5fmsr_5fdelta_5fclear_5fto_5fsend'', ''UA4_MSR_DELTA_CLEAR_TO_SEND'', [(''../uart_8h.html#a0f426264cbf36d7a27c569d9b65cee1b'', 1, ''uart.h'')]),
     (''ua4_5fmsr_5fdelta_5fdata_5fcarrier_5fdetect'', ''UA4_MSR_DELTA_DATA_CARRIER_DETECT'', [(''../uart_8h.html#ac76c44d98aaa30f0e68b2250390c8fe7'', 1, ''uart.h'')]),
     (''ua4_5fmsr_5fdelta_5fdata_5fset_5fready'', ''UA4_MSR_DELTA_DATA_SET_READY'', [(''../uart_8h.html#a39229a8eb7676a77ff4a182e8f654bac'', 1, ''uart.h'')]),
     (''ua4_5fmsr_5fdsr'', ''UA4_MSR_DSR'', [(''../uart_8h.html#ad8916d92aaa43ff97d9e0661aa4af5e9'', 1, ''uart.h'')]),
     (''ua4_5fmsr_5fri'', ''UA4_MSR_RI'', [(''../uart_8h.html#aedfd74a0d1930bd20219412eee071f3e'', 1, ''uart.h'')]),
     (''ua4_5fmsr_5fring_5findicate'', ''UA4_MSR_RING_INDICATE'', [(''../uart_8h.html#a6e67aa5815421045b255e156f3ae1296'', 1, ''uart.h'')]),
     (''ua4_5fmsr_5fteri'', ''UA4_MSR_TERI'', [(''../uart_8h.html#a14e0e92cdd121dc8bb201f0d47dd1dce'', 1, ''uart.h'')]),
     (''ua4_5fmsr_5ftrailing_5fedge_5fring'', ''UA4_MSR_TRAILING_EDGE_RING'', [(''../uart_8h.html#a37235f7fdbf16bb4b1de805321ff3cfd'', 1, ''uart.h'')]),
     (''ua4_5fport'', ''UA4_PORT'', [(''../uart_8h.html#a5be9af38e1e444c277091c0d271654ed'', 1, ''uart.h'')]),
     (''ua4_5frx_5fdata'', ''UA4_RX_DATA'', [(''../uart_8h.html#aca54c539d13ccbdfa85a1c73c38c60ee'', 1, ''uart.h'')]),
     (''ua4_5frxd'', ''UA4_RXD'', [(''../uart_8h.html#ada420cb939f21c62b907b45ea85b4877'', 1, ''uart.h'')]),
     (''ua4_5ftx_5fdata'', ''UA4_TX_DATA'', [(''../uart_8h.html#a0d46dfcf395684c394605c824d097a91'', 1, ''uart.h'')]),
     (''ua4_5ftxd'', ''UA4_TXD'', [(''../uart_8h.html#abd1c6465e0f613479f5b8e9151cdaf58'', 1, ''uart.h'')]),
     (''ua4_5fua5_5fscr'', ''UA4_UA5_SCR'', [(''../uart_8h.html#abeeab92cc88c2b1545bf012930b91a70'', 1, ''uart.h'')]),
     (''ua4_5fua5_5fscratch'', ''UA4_UA5_SCRATCH'', [(''../uart_8h.html#a3ce1f6e9695b31d38baf2ee4a5502cb7'', 1, ''uart.h'')]),
     (''ua5_5feir_5ffen0'', ''UA5_EIR_FEN0'', [(''../uart_8h.html#a44266600b68246bf01b9763e05de2bb8'', 1, ''uart.h'')]),
     (''ua5_5feir_5ffen1'', ''UA5_EIR_FEN1'', [(''../uart_8h.html#a4271832525badcce048c11f0968b61e5'', 1, ''uart.h'')]),
     (''ua5_5feir_5ffifo_5fenabled_5f0'', ''UA5_EIR_FIFO_ENABLED_0'', [(''../uart_8h.html#a8f89b6da766207fa155608a28338acb3'', 1, ''uart.h'')]),
     (''ua5_5feir_5ffifo_5fenabled_5f1'', ''UA5_EIR_FIFO_ENABLED_1'', [(''../uart_8h.html#a86e4ea957809ffb58c068b56e227766b'', 1, ''uart.h'')]),
     (''ua5_5feir_5frx_5ffifo_5ftimeout'', ''UA5_EIR_RX_FIFO_TIMEOUT'', [(''../uart_8h.html#ae0f725a57a8c7e3f0efc765fa9d4b973'', 1, ''uart.h'')]),
     (''ua5_5feir_5frx_5ffifo_5ftimeout_5fint_5fpending'', ''UA5_EIR_RX_FIFO_TIMEOUT_INT_PENDING'', [(''../uart_8h.html#ad8d1dd2de54391749fa0aeb037822af6'', 1, ''uart.h'')]),
     (''ua5_5feir_5frx_5ffifo_5fto'', ''UA5_EIR_RX_FIFO_TO'', [(''../uart_8h.html#a23011e8999073a59789f8b725860cc87'', 1, ''uart.h'')]),
     (''ua5_5feir_5frxft'', ''UA5_EIR_RXFT'', [(''../uart_8h.html#a57fcbfc2a76eea17f46e71b53697cffd'', 1, ''uart.h'')]),
     (''ua5_5ffcr_5ffifo_5fen'', ''UA5_FCR_FIFO_EN'', [(''../uart_8h.html#a6e743de18728d02ec931882ef85e3836'', 1, ''uart.h'')]),
     (''ua5_5ffcr_5ffifo_5fenabled'', ''UA5_FCR_FIFO_ENABLED'', [(''../uart_8h.html#a159f981397fb354c768f08efdae26cc4'', 1, ''uart.h'')]),
     (''ua5_5ffcr_5ffifo_5freset'', ''UA5_FCR_FIFO_RESET'', [(''../uart_8h.html#a87c99f1bd29a56383497d6849db13697'', 1, ''uart.h'')]),
     (''ua5_5ffcr_5frx_5ffifo_5f1'', ''UA5_FCR_RX_FIFO_1'', [(''../uart_8h.html#a1174ecb55e59e7bb224d416283a31454'', 1, ''uart.h'')]),
     (''ua5_5ffcr_5frx_5ffifo_5f14'', ''UA5_FCR_RX_FIFO_14'', [(''../uart_8h.html#a0b16271a6eb0d795f6d2d006b2d59f3e'', 1, ''uart.h'')]),
     (''ua5_5ffcr_5frx_5ffifo_5f14_5fchar'', ''UA5_FCR_RX_FIFO_14_CHAR'', [(''../uart_8h.html#a01907e4b97193e7a08f5b8a1f196c1b6'', 1, ''uart.h'')]),
     (''ua5_5ffcr_5frx_5ffifo_5f1_5fchar'', ''UA5_FCR_RX_FIFO_1_CHAR'', [(''../uart_8h.html#a0e6eb1fa685501b1c0cfd75a093714ec'', 1, ''uart.h'')]),
     (''ua5_5ffcr_5frx_5ffifo_5f4'', ''UA5_FCR_RX_FIFO_4'', [(''../uart_8h.html#a19ca94c913f615dda0323fcfc1b78720'', 1, ''uart.h'')]),
     (''ua5_5ffcr_5frx_5ffifo_5f4_5fchar'', ''UA5_FCR_RX_FIFO_4_CHAR'', [(''../uart_8h.html#a58cac679edd853aa84a86acb09b758b1'', 1, ''uart.h'')]),
     (''ua5_5ffcr_5frx_5ffifo_5f8'', ''UA5_FCR_RX_FIFO_8'', [(''../uart_8h.html#a4ec49fcbb6ae4ff4c86bf1adc3e2eef9'', 1, ''uart.h'')]),
     (''ua5_5ffcr_5frx_5ffifo_5f8_5fchar'', ''UA5_FCR_RX_FIFO_8_CHAR'', [(''../uart_8h.html#a7903c855d2aa0588ad84c58b5edfd3c4'', 1, ''uart.h'')]),
     (''ua5_5ffcr_5frx_5fsoft_5freset'', ''UA5_FCR_RX_SOFT_RESET'', [(''../uart_8h.html#a658f823bf3f1c7ef079976d684a84039'', 1, ''uart.h'')]),
     (''ua5_5ffcr_5frxfth'', ''UA5_FCR_RXFTH'', [(''../uart_8h.html#a46bf65a482879f9df95ae91173b75648'', 1, ''uart.h'')]),
     (''ua5_5ffcr_5frxfth0'', ''UA5_FCR_RXFTH0'', [(''../uart_8h.html#a8f9f25e25014325ff376b0cfbde0a0c4'', 1, ''uart.h'')]),
     (''ua5_5ffcr_5frxfth1'', ''UA5_FCR_RXFTH1'', [(''../uart_8h.html#a35934153a29f838ca6a4041d20d08e08'', 1, ''uart.h'')]),
     (''ua5_5ffcr_5frxsr'', ''UA5_FCR_RXSR'', [(''../uart_8h.html#a897447d0ee097cd87fe3bc2f50f9c9d3'', 1, ''uart.h'')]),
     (''ua5_5ffcr_5ftx_5ffifo_5f1'', ''UA5_FCR_TX_FIFO_1'', [(''../uart_8h.html#a222a80f5a2e54865c0692823c0779ba1'', 1, ''uart.h'')]),
     (''ua5_5ffcr_5ftx_5ffifo_5f13'', ''UA5_FCR_TX_FIFO_13'', [(''../uart_8h.html#a55202f3898a504ad8343e5fdec6ced62'', 1, ''uart.h'')]),
     (''ua5_5ffcr_5ftx_5ffifo_5f13_5fchar'', ''UA5_FCR_TX_FIFO_13_CHAR'', [(''../uart_8h.html#a9fe8885b5ba79dc57055fcff7a3b9255'', 1, ''uart.h'')]),
     (''ua5_5ffcr_5ftx_5ffifo_5f1_5fchar'', ''UA5_FCR_TX_FIFO_1_CHAR'', [(''../uart_8h.html#af3ff064d89c9da4a567e1cfc7b6500ba'', 1, ''uart.h'')]),
     (''ua5_5ffcr_5ftx_5ffifo_5f3'', ''UA5_FCR_TX_FIFO_3'', [(''../uart_8h.html#a6ba6b8b5c1c4754a5d76573744ed67f2'', 1, ''uart.h'')]),
     (''ua5_5ffcr_5ftx_5ffifo_5f3_5fchar'', ''UA5_FCR_TX_FIFO_3_CHAR'', [(''../uart_8h.html#ad0801996d2e531d6aea7b229247c3701'', 1, ''uart.h'')]),
     (''ua5_5ffcr_5ftx_5ffifo_5f9'', ''UA5_FCR_TX_FIFO_9'', [(''../uart_8h.html#af5988b7de55c78c409e63e1739c92880'', 1, ''uart.h'')]),
     (''ua5_5ffcr_5ftx_5ffifo_5f9_5fchar'', ''UA5_FCR_TX_FIFO_9_CHAR'', [(''../uart_8h.html#afd49230ae476625b883c7824e4311027'', 1, ''uart.h'')]),
     (''ua5_5ffcr_5ftx_5fsoft_5freset'', ''UA5_FCR_TX_SOFT_RESET'', [(''../uart_8h.html#ac05a290401610197cae8425343d8e721'', 1, ''uart.h'')]),
     (''ua5_5ffcr_5ftxfth'', ''UA5_FCR_TXFTH'', [(''../uart_8h.html#a1ee50bcaf1030b5a7ebe6bfabf251c87'', 1, ''uart.h'')]),
     (''ua5_5ffcr_5ftxfth0'', ''UA5_FCR_TXFTH0'', [(''../uart_8h.html#a47684fa591eb083c2b4aa637b4e24587'', 1, ''uart.h'')]),
     (''ua5_5ffcr_5ftxfth1'', ''UA5_FCR_TXFTH1'', [(''../uart_8h.html#a19a7c0651d654e62805258802f5a0e86'', 1, ''uart.h'')]),
     (''ua5_5ffcr_5ftxsr'', ''UA5_FCR_TXSR'', [(''../uart_8h.html#a3349f86791648667e08fe321d349a47e'', 1, ''uart.h'')])]"

definition searchData_defines_14 :: "search_entry list" where
  "searchData_defines_14 =
    [(''vbe_5fax'', ''VBE_AX'', [(''../vbe_8h.html#a566710d88e5032e5fab1572304c15e24'', 1, ''vbe.h'')]),
     (''vbe_5fblock_5faddress'', ''VBE_BLOCK_ADDRESS'', [(''../vbe_8h.html#a81c169417fd81849d6810d8bd7a1fa2e'', 1, ''vbe.h'')]),
     (''vbe_5ffunction_5fcurrentmode'', ''VBE_FUNCTION_CURRENTMODE'', [(''../vbe_8h.html#a1209ced85c7b732776d231f97cc693dd'', 1, ''vbe.h'')]),
     (''vbe_5ffunction_5fdacpalette'', ''VBE_FUNCTION_DACPALETTE'', [(''../vbe_8h.html#a46ee62db34f5efc460599b3cace86bbc'', 1, ''vbe.h'')]),
     (''vbe_5ffunction_5fdisplaystart'', ''VBE_FUNCTION_DISPLAYSTART'', [(''../vbe_8h.html#a7ebe7f4bd2e1571e7a0794073d5dd7b8'', 1, ''vbe.h'')]),
     (''vbe_5ffunction_5fdisplaywindowcontrol'', ''VBE_FUNCTION_DISPLAYWINDOWCONTROL'', [(''../vbe_8h.html#ace8b3108addeaf8c22ec7a7f9c8eb315'', 1, ''vbe.h'')]),
     (''vbe_5ffunction_5fgetinfo'', ''VBE_FUNCTION_GETINFO'', [(''../vbe_8h.html#a04b2bf4a31443bd51cf133abace0738a'', 1, ''vbe.h'')]),
     (''vbe_5ffunction_5fgetmodeinfo'', ''VBE_FUNCTION_GETMODEINFO'', [(''../vbe_8h.html#ac9046a3c1e9d59b81c4468e9a8f7718f'', 1, ''vbe.h'')]),
     (''vbe_5ffunction_5fpalette'', ''VBE_FUNCTION_PALETTE'', [(''../vbe_8h.html#a3a190650ddc142a7202ebf3738b98eed'', 1, ''vbe.h'')]),
     (''vbe_5ffunction_5fprotectedmode'', ''VBE_FUNCTION_PROTECTEDMODE'', [(''../vbe_8h.html#a46274c63c4c8f7d6203e3ec6b2f76154'', 1, ''vbe.h'')]),
     (''vbe_5ffunction_5fscanline'', ''VBE_FUNCTION_SCANLINE'', [(''../vbe_8h.html#aa809cc43218179adec80a7a80a0397c0'', 1, ''vbe.h'')]),
     (''vbe_5ffunction_5fsetmode'', ''VBE_FUNCTION_SETMODE'', [(''../vbe_8h.html#a561ec6d00ce8debb086ad60b19811d7c'', 1, ''vbe.h'')]),
     (''vbe_5ffunction_5fstate'', ''VBE_FUNCTION_STATE'', [(''../vbe_8h.html#a8b7831bf83a3c507465ae08299364e03'', 1, ''vbe.h'')]),
     (''vbe_5fmode_5fflag_5fclear'', ''VBE_MODE_FLAG_CLEAR'', [(''../vbe_8h.html#ae0c6e9fdfeb77713a85043318cc80c75'', 1, ''vbe.h'')]),
     (''vbe_5fmode_5fflag_5flfb'', ''VBE_MODE_FLAG_LFB'', [(''../vbe_8h.html#a8f31b9fac08243aafb138844f6fe2367'', 1, ''vbe.h'')]),
     (''vbe_5fmode_5fnumber'', ''VBE_MODE_NUMBER'', [(''../vbe_8h.html#a5b07700d5699b549298034b3a9164ea0'', 1, ''vbe.h'')]),
     (''vbe_5fmode_5freserved'', ''VBE_MODE_RESERVED'', [(''../vbe_8h.html#a28de526ec7b92a4450f5442ec45cfc8d'', 1, ''vbe.h'')]),
     (''vbe_5fmodeattr_5fcolor'', ''VBE_MODEATTR_COLOR'', [(''../VBEModeInfo_8h.html#a1da46a41379762785804f30f9e43aef8'', 1, ''VBEModeInfo.h'')]),
     (''vbe_5fmodeattr_5fdoublescan'', ''VBE_MODEATTR_DOUBLESCAN'', [(''../VBEModeInfo_8h.html#a9a6b328ba8bf0f9ec868699ca1fbac11'', 1, ''VBEModeInfo.h'')]),
     (''vbe_5fmodeattr_5fdualdisplay'', ''VBE_MODEATTR_DUALDISPLAY'', [(''../VBEModeInfo_8h.html#a7ed7651145b7c7c78cf470260bce9009'', 1, ''VBEModeInfo.h'')]),
     (''vbe_5fmodeattr_5fframebuffer'', ''VBE_MODEATTR_FRAMEBUFFER'', [(''../VBEModeInfo_8h.html#a99a9b9b1c144264011b23cf0b21354f1'', 1, ''VBEModeInfo.h'')]),
     (''vbe_5fmodeattr_5fgraphics'', ''VBE_MODEATTR_GRAPHICS'', [(''../VBEModeInfo_8h.html#a630b3f541e29d2279c02a50dcfa8f219'', 1, ''VBEModeInfo.h'')]),
     (''vbe_5fmodeattr_5finterlaced'', ''VBE_MODEATTR_INTERLACED'', [(''../VBEModeInfo_8h.html#a8bf884b6a090521caf7da2a8a2628dba'', 1, ''VBEModeInfo.h'')]),
     (''vbe_5fmodeattr_5freserved1'', ''VBE_MODEATTR_RESERVED1'', [(''../VBEModeInfo_8h.html#afaa702bae6dcacf5329777f5c48555d9'', 1, ''VBEModeInfo.h'')]),
     (''vbe_5fmodeattr_5freserved2'', ''VBE_MODEATTR_RESERVED2'', [(''../VBEModeInfo_8h.html#a7d647e657a0162752c714395126425d9'', 1, ''VBEModeInfo.h'')]),
     (''vbe_5fmodeattr_5freserved3'', ''VBE_MODEATTR_RESERVED3'', [(''../VBEModeInfo_8h.html#a79d7500895969a622885f73a08febb41'', 1, ''VBEModeInfo.h'')]),
     (''vbe_5fmodeattr_5freserved4'', ''VBE_MODEATTR_RESERVED4'', [(''../VBEModeInfo_8h.html#a05b39f129e980082e02addd3265e79b3'', 1, ''VBEModeInfo.h'')]),
     (''vbe_5fmodeattr_5fstereoscopic'', ''VBE_MODEATTR_STEREOSCOPIC'', [(''../VBEModeInfo_8h.html#aba4aab0b841ad2d1aa6c1fe5bd055070'', 1, ''VBEModeInfo.h'')]),
     (''vbe_5fmodeattr_5fsupported'', ''VBE_MODEATTR_SUPPORTED'', [(''../VBEModeInfo_8h.html#a858227be1a16c84dd35b33f0610d8c79'', 1, ''VBEModeInfo.h'')]),
     (''vbe_5fmodeattr_5ftriplebuffer'', ''VBE_MODEATTR_TRIPLEBUFFER'', [(''../VBEModeInfo_8h.html#addf453fa7d26128e91cc17c0c1ccf4ee'', 1, ''VBEModeInfo.h'')]),
     (''vbe_5fmodeattr_5ftty_5fsupport'', ''VBE_MODEATTR_TTY_SUPPORT'', [(''../VBEModeInfo_8h.html#ad91bdddff9d46a31a30f07d07710b65e'', 1, ''VBEModeInfo.h'')]),
     (''vbe_5fmodeattr_5fvga'', ''VBE_MODEATTR_VGA'', [(''../VBEModeInfo_8h.html#ac8f50ad2ecfee129c30a321a638090d7'', 1, ''VBEModeInfo.h'')]),
     (''vbe_5fmodeattr_5fwindowed'', ''VBE_MODEATTR_WINDOWED'', [(''../VBEModeInfo_8h.html#a0db917f3c692e1e84a0ff7d106e3dec7'', 1, ''VBEModeInfo.h'')]),
     (''vbe_5fmodel_5fcga'', ''VBE_MODEL_CGA'', [(''../VBEModeInfo_8h.html#a4d62a6e6679ae83a96a543f0ec8c2cce'', 1, ''VBEModeInfo.h'')]),
     (''vbe_5fmodel_5fdirect'', ''VBE_MODEL_DIRECT'', [(''../VBEModeInfo_8h.html#a53ed6c1aefcb367a9619c3c7d76e61a5'', 1, ''VBEModeInfo.h'')]),
     (''vbe_5fmodel_5fhercules'', ''VBE_MODEL_HERCULES'', [(''../VBEModeInfo_8h.html#a1024d65dd3662c491d1c18101d0d9338'', 1, ''VBEModeInfo.h'')]),
     (''vbe_5fmodel_5fnonchain'', ''VBE_MODEL_NONCHAIN'', [(''../VBEModeInfo_8h.html#ac9e24e66e02ba29e70de618b5744ee49'', 1, ''VBEModeInfo.h'')]),
     (''vbe_5fmodel_5fpacked'', ''VBE_MODEL_PACKED'', [(''../VBEModeInfo_8h.html#a926d86ff5e0812ebb0f68cfb9c2a96e9'', 1, ''VBEModeInfo.h'')]),
     (''vbe_5fmodel_5fplanar'', ''VBE_MODEL_PLANAR'', [(''../VBEModeInfo_8h.html#a216ce2bbe21ed44d73964d8398a655ed'', 1, ''VBEModeInfo.h'')]),
     (''vbe_5fmodel_5ftext'', ''VBE_MODEL_TEXT'', [(''../VBEModeInfo_8h.html#a7d77305f6192011d317ed6c6fb4f948c'', 1, ''VBEModeInfo.h'')]),
     (''vbe_5fmodel_5fyuv'', ''VBE_MODEL_YUV'', [(''../VBEModeInfo_8h.html#a558e92cd2ee3bac8d38e142d4056b141'', 1, ''VBEModeInfo.h'')]),
     (''vbe_5fmodelist_5fterminator'', ''VBE_MODELIST_TERMINATOR'', [(''../vbe_8h.html#a02a0561088ad6d1200c730f9ed183fb8'', 1, ''vbe.h'')]),
     (''vbe_5fptr'', ''vbe_ptr'', [(''../vbe_8h.html#ac51c6023e04d009c47e2f920d58c0179'', 1, ''vbe.h'')]),
     (''vbe_5freturn_5ffunction_5fbad_5fconfig'', ''VBE_RETURN_FUNCTION_BAD_CONFIG'', [(''../vbe_8h.html#a85be5f99270c3677dd8c4a8979ca579e'', 1, ''vbe.h'')]),
     (''vbe_5freturn_5ffunction_5ffailed'', ''VBE_RETURN_FUNCTION_FAILED'', [(''../vbe_8h.html#a1e7b6d0365f4a6c5be479d798d89c199'', 1, ''vbe.h'')]),
     (''vbe_5freturn_5ffunction_5finvalid'', ''VBE_RETURN_FUNCTION_INVALID'', [(''../vbe_8h.html#a61b4ebdd1aa7710c81ccced7ad5380d6'', 1, ''vbe.h'')]),
     (''vbe_5freturn_5ffunction_5fsuccess'', ''VBE_RETURN_FUNCTION_SUCCESS'', [(''../vbe_8h.html#aaf8c840f0f3aae49595c05adf1d9759c'', 1, ''vbe.h'')]),
     (''vbe_5freturn_5ffunction_5fsupported'', ''VBE_RETURN_FUNCTION_SUPPORTED'', [(''../vbe_8h.html#a8a9e81b16300d6b3d1dc887388a3d9cc'', 1, ''vbe.h'')]),
     (''vcon_5fcolumns_5fmax'', ''VCON_COLUMNS_MAX'', [(''../VCon_8h.html#afa9888a1fcf740e5358eb2df6bd06450'', 1, ''VCon.h'')]),
     (''vcon_5fcursor'', ''vcon_cursor'', [(''../VCon_8h.html#a846620d6b983f33912069b841fa72e1f'', 1, ''VCon.h'')]),
     (''vcon_5fdefault_5fcolor'', ''VCON_DEFAULT_COLOR'', [(''../VConChar_8h.html#a3001c83b663839f4fa66ef58333a8ce1'', 1, ''VConChar.h'')]),
     (''vcon_5fdefault_5ftabsize'', ''VCON_DEFAULT_TABSIZE'', [(''../VCon_8h.html#a8068caf51b7f5f6da8affc8acd60a990'', 1, ''VCon.h'')]),
     (''vcon_5fline_5fflag_5fdirty'', ''VCON_LINE_FLAG_DIRTY'', [(''../VConLine_8h.html#ae30b40bb4752e8f034c71c13052e2f29'', 1, ''VConLine.h'')]),
     (''vcon_5fline_5fflag_5fmask'', ''VCON_LINE_FLAG_MASK'', [(''../VConLine_8h.html#ab27038cd5fa2296ec3ae2ff939a4e27c'', 1, ''VConLine.h'')]),
     (''vcon_5fline_5fflag_5fscroll'', ''VCON_LINE_FLAG_SCROLL'', [(''../VConLine_8h.html#a42bf2cf207788b3c4ca374ff4f6aa016'', 1, ''VConLine.h'')]),
     (''vcon_5fline_5flength_5floc'', ''VCON_LINE_LENGTH_LOC'', [(''../VConLine_8h.html#ab75592ae090cadb4cf59bd9ad803d274'', 1, ''VConLine.h'')]),
     (''vcon_5fline_5flength_5fmask'', ''VCON_LINE_LENGTH_MASK'', [(''../VConLine_8h.html#a99ce0d68c566c1e98732434c3c196492'', 1, ''VConLine.h'')]),
     (''vcon_5fnullcell'', ''VCON_NULLCELL'', [(''../VConChar_8h.html#a59b674bbb4af0bda6d894292c17e2318'', 1, ''VConChar.h'')]),
     (''vcon_5frows_5fmax'', ''VCON_ROWS_MAX'', [(''../VCon_8h.html#a5f81822f303064f108ed6d865217b300'', 1, ''VCon.h'')]),
     (''vga13_5fframebuffer'', ''VGA13_FRAMEBUFFER'', [(''../vga13_8h.html#ac7e87ab365e3b292cd92b545d770b0c5'', 1, ''vga13.h'')]),
     (''vga13_5fheight'', ''VGA13_HEIGHT'', [(''../vga13_8h.html#ad3a8241d58c071267dfc43ca009897ad'', 1, ''vga13.h'')]),
     (''vga13_5foffset'', ''VGA13_offset'', [(''../vga13_8h.html#ae9f09b6fce2c732f1b91175639c36398'', 1, ''vga13.h'')]),
     (''vga13_5fwidth'', ''VGA13_WIDTH'', [(''../vga13_8h.html#a4020dea14769166ab1aa5f0cf114d661'', 1, ''vga13.h'')]),
     (''vga_5fgreg_5fbm'', ''VGA_GREG_BM'', [(''../vga_8h.html#a47719cc2c15e6ba0197b0dd3660a337b'', 1, ''vga.h'')]),
     (''vga_5fgreg_5fcc'', ''VGA_GREG_CC'', [(''../vga_8h.html#aeb73a403ab90ac53f2bfda8a8415d1f4'', 1, ''vga.h'')]),
     (''vga_5fgreg_5fcdc'', ''VGA_GREG_CDC'', [(''../vga_8h.html#a3c15e52dc5ccae4770587a2c89eafcab'', 1, ''vga.h'')]),
     (''vga_5fgreg_5fdr'', ''VGA_GREG_DR'', [(''../vga_8h.html#a837f6dca959b42370195399eec67cff1'', 1, ''vga.h'')]),
     (''vga_5fgreg_5fesr'', ''VGA_GREG_ESR'', [(''../vga_8h.html#aa6123a0cf0a11cb4249c0462c10d3983'', 1, ''vga.h'')]),
     (''vga_5fgreg_5fgm'', ''VGA_GREG_GM'', [(''../vga_8h.html#a2f08168f827f81f4e2f9f2af95ccf4ba'', 1, ''vga.h'')]),
     (''vga_5fgreg_5fm'', ''VGA_GREG_M'', [(''../vga_8h.html#a6051a61656a48259f298a2c9050af35d'', 1, ''vga.h'')]),
     (''vga_5fgreg_5frms'', ''VGA_GREG_RMS'', [(''../vga_8h.html#a595cb1b057020aebc1d88b992613e088'', 1, ''vga.h'')]),
     (''vga_5fgreg_5fsr'', ''VGA_GREG_SR'', [(''../vga_8h.html#ac780db97fe6f23dd386347f52b0c22ca'', 1, ''vga.h'')]),
     (''vga_5fport_5fattr'', ''VGA_PORT_ATTR'', [(''../vga_8h.html#aa4ab0ad5be4177ecbfeb5a6362e75d7f'', 1, ''vga.h'')]),
     (''vga_5fport_5fattr_5fdata'', ''VGA_PORT_ATTR_DATA'', [(''../vga_8h.html#ab784a413a0c7ec7006fbd6f1cf9f3f09'', 1, ''vga.h'')]),
     (''vga_5fport_5fcrtc_5faddr'', ''VGA_PORT_CRTC_ADDR'', [(''../vga_8h.html#a40e1b28bb4e2081673317c4f0bf48947'', 1, ''vga.h'')]),
     (''vga_5fport_5fcrtc_5fdata'', ''VGA_PORT_CRTC_DATA'', [(''../vga_8h.html#a12b3747b070d884d2f1777d7d45fa797'', 1, ''vga.h'')]),
     (''vga_5fport_5ffcr'', ''VGA_PORT_FCR'', [(''../vga_8h.html#ab7d4c951c7831bcac4b7cce63efe3a57'', 1, ''vga.h'')]),
     (''vga_5fport_5fis0'', ''VGA_PORT_IS0'', [(''../vga_8h.html#afef9fc319c715f5a494b39ab1fab92c0'', 1, ''vga.h'')]),
     (''vga_5fport_5fis1'', ''VGA_PORT_IS1'', [(''../vga_8h.html#a0df613bd12a8405d81e15dd9f5f86197'', 1, ''vga.h'')]),
     (''vga_5fport_5fmisc_5fin'', ''VGA_PORT_MISC_IN'', [(''../vga_8h.html#a46d77d6f021a3dac5cd33e536bc6aca9'', 1, ''vga.h'')]),
     (''vga_5fport_5fseq_5faddr'', ''VGA_PORT_SEQ_ADDR'', [(''../vga_8h.html#a3615b7b2cf1686d1b3302376fd8d3a30'', 1, ''vga.h'')]),
     (''vga_5fport_5fseq_5fdata'', ''VGA_PORT_SEQ_DATA'', [(''../vga_8h.html#a22f7ccbc9eb168e5a0e250c575d21b4c'', 1, ''vga.h'')]),
     (''vga_5freg_5fbit_5fmask'', ''VGA_REG_BIT_MASK'', [(''../vga_8h.html#afb71fdf8b4e44a680a8defe4076b357d'', 1, ''vga.h'')]),
     (''vga_5freg_5fcolor_5fcompare'', ''VGA_REG_COLOR_COMPARE'', [(''../vga_8h.html#a821912379ce0f94eb356758c7969b893'', 1, ''vga.h'')]),
     (''vga_5freg_5fcolor_5fdont_5fcare'', ''VGA_REG_COLOR_DONT_CARE'', [(''../vga_8h.html#a104f8c27ce3664d396d8c9fbc21dd91c'', 1, ''vga.h'')]),
     (''vga_5freg_5fdata_5frotate'', ''VGA_REG_DATA_ROTATE'', [(''../vga_8h.html#a491fa9dc35e3c3a646f8b63072e6761b'', 1, ''vga.h'')]),
     (''vga_5freg_5fenable_5fset_5freset'', ''VGA_REG_ENABLE_SET_RESET'', [(''../vga_8h.html#aa2938f872f75f97e797e095160e80e0a'', 1, ''vga.h'')]),
     (''vga_5freg_5fgraphics_5fmode'', ''VGA_REG_GRAPHICS_MODE'', [(''../vga_8h.html#ab9bee8fd3d136e11e8c32ce67f57daa4'', 1, ''vga.h'')]),
     (''vga_5freg_5fmisc_5fgraphics'', ''VGA_REG_MISC_GRAPHICS'', [(''../vga_8h.html#a79f39e5ce84f74a047442f24023110c6'', 1, ''vga.h'')]),
     (''vga_5freg_5fread_5fmap_5fselect'', ''VGA_REG_READ_MAP_SELECT'', [(''../vga_8h.html#aca5d87420d9c864ec1c0bbc2a88764a4'', 1, ''vga.h'')]),
     (''vga_5freg_5fset_5freset'', ''VGA_REG_SET_RESET'', [(''../vga_8h.html#af7f5883d24923d9536b5f0886562bb16'', 1, ''vga.h'')]),
     (''video_5faddr'', ''VIDEO_ADDR'', [(''../c__io_8c.html#afeaf3c4c921748c0ccc568fe89e31f26'', 1, ''c_io.c'')]),
     (''video_5fbase_5faddr'', ''VIDEO_BASE_ADDR'', [(''../x86arch_8h.html#a683f93439acc2d1fbf5ecbd213c18cf5'', 1, ''x86arch.h'')]),
     (''video_5fedid_5faddress'', ''VIDEO_EDID_ADDRESS'', [(''../globals_8h.html#a93660a63094a4a057ed801ffd3df993b'', 1, ''globals.h'')]),
     (''video_5ffontset_5faddress'', ''VIDEO_FONTSET_ADDRESS'', [(''../globals_8h.html#a00c6870ff10808632c4ee6bc9fa999cf'', 1, ''globals.h'')]),
     (''video_5ffontset_5fbytes_5fper_5fglyph'', ''VIDEO_FONTSET_BYTES_PER_GLYPH'', [(''../video_2video_8h.html#ac700005a8d0294f458b121c25a0f4fa0'', 1, ''video.h'')]),
     (''video_5ffontset_5fglyphs'', ''VIDEO_FONTSET_GLYPHS'', [(''../video_2video_8h.html#aa8f78175360db34752b88a4c38298e4b'', 1, ''video.h'')]),
     (''video_5ffontset_5fheight'', ''VIDEO_FONTSET_HEIGHT'', [(''../video_2video_8h.html#a9ea0359e47e049602f259a79609f51f5'', 1, ''video.h'')]),
     (''video_5ffontset_5fsize'', ''VIDEO_FONTSET_SIZE'', [(''../globals_8h.html#a32201efb3e2d7e2375d6ce96a46490d3'', 1, ''globals.h'')]),
     (''video_5ffontset_5fwidth'', ''VIDEO_FONTSET_WIDTH'', [(''../video_2video_8h.html#adf0747f05c701bdf181a9992e14d27c0'', 1, ''video.h'')]),
     (''video_5finfo_5faddress'', ''VIDEO_INFO_ADDRESS'', [(''../globals_8h.html#a05ecdf84d1f6bc4f29f16cc7baca55e2'', 1, ''globals.h'')]),
     (''video_5finfo_5fsize'', ''VIDEO_INFO_SIZE'', [(''../VideoInfo_8h.html#a8da0e763989d81331d4cae86e740bb0e'', 1, ''VideoInfo.h'')]),
     (''video_5fmax_5fcomponents'', ''VIDEO_MAX_COMPONENTS'', [(''../VideoComp_8h.html#aad800dd49b91170d4eb8ee2d962f20ad'', 1, ''VideoComp.h'')]),
     (''video_5fmode_5faddress'', ''VIDEO_MODE_ADDRESS'', [(''../globals_8h.html#a6d24d5d9103fd4b499c2da4ea9bfbca9'', 1, ''globals.h'')])]"

definition defines_pages :: "search_entry list list" where
  "defines_pages =
     [searchData_defines_0, searchData_defines_1, searchData_defines_2, searchData_defines_3,
      searchData_defines_4, searchData_defines_5, searchData_defines_6,
      searchData_defines_7, searchData_defines_8, searchData_defines_9,
      searchData_defines_a, searchData_defines_b, searchData_defines_c,
      searchData_defines_d, searchData_defines_e, searchData_defines_f,
      searchData_defines_10, searchData_defines_11, searchData_defines_12,
      searchData_defines_13, searchData_defines_14]"

lemma defines_pages_ok: "list_all2 page_ok ''_abcdefghikmnopqrstuv'' defines_pages"
  by (simp only: defines_pages_def page_eval
    searchData_defines_0_def searchData_defines_1_def searchData_defines_2_def
    searchData_defines_3_def searchData_defines_4_def searchData_defines_5_def
    searchData_defines_6_def searchData_defines_7_def searchData_defines_8_def
    searchData_defines_9_def searchData_defines_a_def searchData_defines_b_def
    searchData_defines_c_def searchData_defines_d_def searchData_defines_e_def
    searchData_defines_f_def searchData_defines_10_def searchData_defines_11_def
    searchData_defines_12_def searchData_defines_13_def searchData_defines_14_def)

end
