(* ===== verification/Search_Index_Members.thy ===== *)
theory Search_Index_Members
  imports Search_Index
begin

text \<open>The search index, continued: the \<^verbatim>\<open>searchData\<close> arrays of the sections \<^verbatim>\<open>functions\<close> and \<^verbatim>\<open>variables\<close>.\<close>

subsection \<open>Section functions\<close>

definition searchData_functions_0 :: "search_entry list" where
  "searchData_functions_0 =
    [(''_5f_5fattribute_5f_5f'', ''__attribute__'', [(''../early_2realmode_8h.html#aac25c71cb15cf5557e05f1a111bfcc03'', 1, ''__attribute__((packed)):&#160;realmode.h''), (''../GDTDescriptor_8h.html#a7f3650e50bf6cfbb04b3cb2e22102109'', 1, ''__attribute__((__packed__)):&#160;GDTDescriptor.h''), (''../GDTEntry_8h.html#aa58893f369bab514c060c36806e1c518'', 1, ''__attribute__((__packed__)):&#160;GDTEntry.h''), (''../memory__map_8h.html#a74a750c4a281a7c39e5204f1e70aeb63'', 1, ''__attribute__((packed)):&#160;memory_map.h''), (''../realmode_8h.html#aac25c71cb15cf5557e05f1a111bfcc03'', 1, ''__attribute__((packed)):&#160;realmode.h''), (''../VConLine_8h.html#a4f89187fff98746c88884b80f1d11ad0'', 1, ''__attribute__((packed)):&#160;VConLine.h''), (''../EDIDRecord_8h.html#a60549e7fea66fde0aea927bd5a86c9df'', 1, ''__attribute__((__packed__)):&#160;EDIDRecord.h''), (''../VBE2ModeInfo_8h.html#ae842439fc141a66dde9bfb741a563926'', 1, ''__attribute__((packed)):&#160;VBE2ModeInfo.h''), (''../VBE3ModeInfo_8h.html#a8c615adfe1f81b1fa30a7fb67d202eb6'', 1, ''__attribute__((packed)):&#160;VBE3ModeInfo.h''), (''../VBEInfo_8h.html#a1e7dd9f168ca04b4dab1186f20f4e6e4'', 1, ''__attribute__((packed)):&#160;VBEInfo.h'')]),
     (''_5f_5fdelay'', ''__delay'', [(''../support_8c.html#a7e052659327ea27293839744ef681520'', 1, ''__delay(int tenths):&#160;support.c''), (''../support_8h.html#a7e052659327ea27293839744ef681520'', 1, ''__delay(int tenths):&#160;support.c'')]),
     (''_5f_5fget_5fflags'', ''__get_flags'', [(''../startup_8h.html#a35d1cdca4097a4d04bc467464df2413e'', 1, ''startup.h'')]),
     (''_5f_5finb'', ''__inb'', [(''../startup_8h.html#a3df1d15de61891e447b233789024063e'', 1, ''startup.h'')]),
     (''_5f_5finit_5fint32'', ''__init_int32'', [(''../realmode_8h.html#ac1ad67734b2dd1c1eb935b36cdb0f14b'', 1, ''realmode.h'')]),
     (''_5f_5finit_5finterrupts'', ''__init_interrupts'', [(''../support_8c.html#a693732f4344b06cf022da4d7f62d180c'', 1, ''__init_interrupts(void):&#160;support.c''), (''../support_8h.html#a693732f4344b06cf022da4d7f62d180c'', 1, ''__init_interrupts(void):&#160;support.c'')]),
     (''_5f_5finl'', ''__inl'', [(''../startup_8h.html#a273f2e187112c2227d04db7421663297'', 1, ''startup.h'')]),
     (''_5f_5fint'', ''__int'', [(''../early_2realmode_8h.html#a96582dad4f3dd7d9329c3c14b2e4ca59'', 1, ''realmode.h'')]),
     (''_5f_5fint32'', ''__int32'', [(''../realmode_8h.html#acc4101360f2176a14f63709c73b82aa6'', 1, ''realmode.h'')]),
     (''_5f_5finw'', ''__inw'', [(''../startup_8h.html#a4442fa44b7f3065d1572be47c3eda252'', 1, ''startup.h'')]),
     (''_5f_5foutb'', ''__outb'', [(''../startup_8h.html#a2c03316e5e864b9045e46af48d731972'', 1, ''startup.h'')]),
     (''_5f_5foutl'', ''__outl'', [(''../startup_8h.html#aa79c5738ec80aa5b3ebc313b779887f6'', 1, ''startup.h'')]),
     (''_5f_5foutw'', ''__outw'', [(''../startup_8h.html#a39f8440d4e488b5857d40f668672adab'', 1, ''startup.h'')]),
     (''_5f_5fpanic'', ''__panic'', [(''../support_8c.html#a09061e385f3dc21b93ed9ba3f0713703'', 1, ''__panic(char *reason):&#160;support.c''), (''../support_8h.html#a09061e385f3dc21b93ed9ba3f0713703'', 1, ''__panic(char *reason):&#160;support.c'')]),
     (''_5f_5fpause'', ''__pause'', [(''../startup_8h.html#a455f22e2e43882afb2b6f880857860b7'', 1, ''startup.h'')]),
     (''_5fclk_5finit'', ''_clk_init'', [(''../clock_8c.html#ab10323b7344dd66bc8b6dd492fc02768'', 1, ''_clk_init(void):&#160;clock.c''), (''../clock_8h.html#ab10323b7344dd66bc8b6dd492fc02768'', 1, ''_clk_init(void):&#160;clock.c'')]),
     (''_5fcmp_5fwakeup'', ''_cmp_wakeup'', [(''../queue_8c.html#ac7705229a44a1a2ce1e2cedbe5891ed7'', 1, ''_cmp_wakeup(const void *v1, const void *v2):&#160;queue.c''), (''../queue_8h.html#ac7705229a44a1a2ce1e2cedbe5891ed7'', 1, ''_cmp_wakeup(const void *v1, const void *v2):&#160;queue.c'')]),
     (''_5fcontext_5fdump'', ''_context_dump'', [(''../process_8c.html#a54e7f01c48bd523d2029f5119c734150'', 1, ''_context_dump(const char *which, context_t *context):&#160;process.c''), (''../process_8h.html#a54e7f01c48bd523d2029f5119c734150'', 1, ''_context_dump(const char *which, context_t *context):&#160;process.c'')]),
     (''_5fdispatch'', ''_dispatch'', [(''../scheduler_8c.html#a18d3353e4b28b00cfe67ad697b53d0bb'', 1, ''_dispatch(void):&#160;scheduler.c''), (''../scheduler_8h.html#a18d3353e4b28b00cfe67ad697b53d0bb'', 1, ''_dispatch(void):&#160;scheduler.c'')]),
     (''_5fget_5febp'', ''_get_ebp'', [(''../klib_8h.html#a813f4486464d864b26cc32ef481cc552'', 1, ''klib.h'')]),
     (''_5finit'', ''_init'', [(''../system_8c.html#ad1cbc4315ef293463e6057dfb24c8115'', 1, ''_init(void):&#160;system.c''), (''../system_8h.html#ad1cbc4315ef293463e6057dfb24c8115'', 1, ''_init(void):&#160;system.c'')]),
     (''_5fio_5fdv_5fgetprop'', ''_io_dv_getprop'', [(''../device_8c.html#ae411e8694a117c32786e767e8c47c5c4'', 1, ''_io_dv_getprop(PIO_DEVICE dv, IOPROP prop, void *value, PBSIZE plength):&#160;device.c''), (''../device_8h.html#ae411e8694a117c32786e767e8c47c5c4'', 1, ''_io_dv_getprop(PIO_DEVICE dv, IOPROP prop, void *value, PBSIZE plength):&#160;device.c'')]),
     (''_5fio_5fdv_5finit_5fhandle'', ''_io_dv_init_handle'', [(''../device_8c.html#a7557204ea1f095bce025df0a1cc931bf'', 1, ''_io_dv_init_handle(IOHANDLE handle):&#160;device.c''), (''../device_8h.html#a7557204ea1f095bce025df0a1cc931bf'', 1, ''_io_dv_init_handle(IOHANDLE handle):&#160;device.c'')]),
     (''_5fio_5fdv_5finit_5fnull'', ''_io_dv_init_null'', [(''../device_8c.html#a650552c06301fe4c598c5c8a2b8953e2'', 1, ''_io_dv_init_null():&#160;device.c''), (''../device_8h.html#a2730a502318591a07b9a5f02c87f323f'', 1, ''_io_dv_init_null(void):&#160;device.c'')]),
     (''_5fio_5fdv_5fiterate'', ''_io_dv_iterate'', [(''../device_8c.html#a5c004c478da98d596aa95959fb27d0ef'', 1, ''_io_dv_iterate(PIOHANDLE out, int index):&#160;device.c''), (''../device_8h.html#a5c004c478da98d596aa95959fb27d0ef'', 1, ''_io_dv_iterate(PIOHANDLE out, int index):&#160;device.c'')]),
     (''_5fio_5fdv_5fsetprop'', ''_io_dv_setprop'', [(''../device_8c.html#a16a32cadfa2b598d6dde62bbcaa29fb4'', 1, ''_io_dv_setprop(PIO_DEVICE dv, IOPROP prop, void *value, int32_t length):&#160;device.c''), (''../device_8h.html#a7b4f3c56db126bfff9b8987ba4e5a6c5'', 1, ''_io_dv_setprop(PIO_DEVICE dv, IOPROP prop, void *value, BSIZE length):&#160;device.c'')]),
     (''_5fio_5ffs_5fgetprop'', ''_io_fs_getprop'', [(''../filesystem_8c.html#a053a777678c745c8c41224528e7bda3c'', 1, ''_io_fs_getprop(PIO_FILESYSTEM fs, IOPROP prop, void *value, PBSIZE plength):&#160;filesystem.c''), (''../filesystem_8h.html#a053a777678c745c8c41224528e7bda3c'', 1, ''_io_fs_getprop(PIO_FILESYSTEM fs, IOPROP prop, void *value, PBSIZE plength):&#160;filesystem.c'')]),
     (''_5fio_5ffs_5finit_5fhandle'', ''_io_fs_init_handle'', [(''../filesystem_8c.html#a9ec6a3e90851d42678003c2be02e24d9'', 1, ''_io_fs_init_handle(IOHANDLE handle):&#160;filesystem.c''), (''../filesystem_8h.html#a9ec6a3e90851d42678003c2be02e24d9'', 1, ''_io_fs_init_handle(IOHANDLE handle):&#160;filesystem.c'')]),
     (''_5fio_5ffs_5finit_5fnull'', ''_io_fs_init_null'', [(''../filesystem_8c.html#a53edc93ac6bddc2b3256f5afbb4d877f'', 1, ''_io_fs_init_null():&#160;filesystem.c''), (''../filesystem_8h.html#a56dbccd455e301b45aeb4bd824aec389'', 1, ''_io_fs_init_null(void):&#160;filesystem.c'')]),
     (''_5fio_5ffs_5fiterate'', ''_io_fs_iterate'', [(''../filesystem_8c.html#a7c2bece45f2d4b4e6a636e707db93822'', 1, ''_io_fs_iterate(PIOHANDLE out, int index):&#160;filesystem.c''), (''../filesystem_8h.html#a7c2bece45f2d4b4e6a636e707db93822'', 1, ''_io_fs_iterate(PIOHANDLE out, int index):&#160;filesystem.c'')]),
     (''_5fio_5ffs_5fsetprop'', ''_io_fs_setprop'', [(''../filesystem_8c.html#ade98201a24d3ef4911687096f132fa03'', 1, ''_io_fs_setprop(PIO_FILESYSTEM fs, IOPROP prop, void *value, int32_t length):&#160;filesystem.c''), (''../filesystem_8h.html#ae68eab4ac75fc7228d493ff1ece7a3ea'', 1, ''_io_fs_setprop(PIO_FILESYSTEM fs, IOPROP prop, void *value, BSIZE length):&#160;filesystem.c'')]),
     (''_5fio_5fgrab_5fnext_5fdevice'', ''_io_grab_next_device'', [(''../device_8c.html#a09694e77ba6102dc13f59c2aea6bdd31'', 1, ''_io_grab_next_device(PIO_DEVICE *out_p_device):&#160;device.c''), (''../device_8h.html#a09694e77ba6102dc13f59c2aea6bdd31'', 1, ''_io_grab_next_device(PIO_DEVICE *out_p_device):&#160;device.c'')]),
     (''_5fio_5fgrab_5fnext_5ffilesystem'', ''_io_grab_next_filesystem'', [(''../filesystem_8c.html#ab28bf68e56b0dd5e1a0bfb21b01d24d0'', 1, ''_io_grab_next_filesystem(PIO_FILESYSTEM *out_p_filesystem):&#160;filesystem.c''), (''../filesystem_8h.html#a2e4c6c64b9ebdaeee87a9fbb680073c6'', 1, ''_io_grab_next_filesystem(PIO_FILESYSTEM *out_p_fs):&#160;filesystem.c'')]),
     (''_5fio_5fgrab_5fnext_5fmessage'', ''_io_grab_next_message'', [(''../message_8c.html#aca0663eb35dfef7a27d5e079031c504e'', 1, ''_io_grab_next_message(PIO_MESSAGE *out_p_msg):&#160;message.c''), (''../message_8h.html#a232f8bf520f71c520041bc33bd8151b0'', 1, ''_io_grab_next_message(PIO_MESSAGE *out_p_message):&#160;message.c'')]),
     (''_5fio_5fgrab_5fnext_5fmiddleware'', ''_io_grab_next_middleware'', [(''../middleware_8c.html#ae79dabf6801455e843f1f191cbdb9232'', 1, ''_io_grab_next_middleware(PIO_MIDDLEWARE *out_p_middleware):&#160;middleware.c''), (''../middleware_8h.html#ae79dabf6801455e843f1f191cbdb9232'', 1, ''_io_grab_next_middleware(PIO_MIDDLEWARE *out_p_middleware):&#160;middleware.c'')]),
     (''_5fio_5fgrab_5fnext_5fmount'', ''_io_grab_next_mount'', [(''../mount_8c.html#aef17ec133f64494f4a966da04384108d'', 1, ''_io_grab_next_mount(PIO_MOUNT *out_p_mount):&#160;mount.c''), (''../mount_8h.html#aef17ec133f64494f4a966da04384108d'', 1, ''_io_grab_next_mount(PIO_MOUNT *out_p_mount):&#160;mount.c'')]),
     (''_5fio_5fhandle_5fis_5fvalid'', ''_io_handle_is_valid'', [(''../router_8c.html#a8690e6e683f2d0db59c1a80e6049a69a'', 1, ''router.c'')]),
     (''_5fio_5finit_5fdevices'', ''_io_init_devices'', [(''../device_8c.html#a528db3b074808ea10141334892441d20'', 1, ''_io_init_devices():&#160;device.c''), (''../device_8h.html#aded6c918e37a3aab078f4541f47a4f6a'', 1, ''_io_init_devices(void):&#160;device.c'')]),
     (''_5fio_5finit_5ffilesystems'', ''_io_init_filesystems'', [(''../filesystem_8c.html#a77dec0001673f94c72b0bc8b91e97314'', 1, ''_io_init_filesystems():&#160;filesystem.c''), (''../filesystem_8h.html#a499cbc5c61e4b09d458624b0ca4eb100'', 1, ''_io_init_filesystems(void):&#160;filesystem.c'')]),
     (''_5fio_5finit_5fmessages'', ''_io_init_messages'', [(''../message_8c.html#af904d8c9fbf2f3cd2e87128e091b8df5'', 1, ''_io_init_messages():&#160;message.c''), (''../message_8h.html#a0a114f29f06349676dc57cb384445a90'', 1, ''_io_init_messages(void):&#160;message.c'')]),
     (''_5fio_5finit_5fmiddlewares'', ''_io_init_middlewares'', [(''../middleware_8c.html#ad027435a7fae62e1a3612c185b2ee25d'', 1, ''_io_init_middlewares():&#160;middleware.c''), (''../middleware_8h.html#af77abcb578279776ce1ad5b8134005b8'', 1, ''_io_init_middlewares(void):&#160;middleware.c'')]),
     (''_5fio_5finit_5fmounts'', ''_io_init_mounts'', [(''../mount_8c.html#a0de5ae54d5cbfcca9ce3061e90340814'', 1, ''_io_init_mounts():&#160;mount.c''), (''../mount_8h.html#a3d961ad24e5db77df17ddbdd829915c8'', 1, ''_io_init_mounts(void):&#160;mount.c'')]),
     (''_5fio_5fmd_5fgetprop'', ''_io_md_getprop'', [(''../middleware_8c.html#a3fe521c73cc187cda4d4e92e82dc1958'', 1, ''_io_md_getprop(PIO_MIDDLEWARE md, IOPROP prop, void *value, PBSIZE plength):&#160;middleware.c''), (''../middleware_8h.html#a3fe521c73cc187cda4d4e92e82dc1958'', 1, ''_io_md_getprop(PIO_MIDDLEWARE md, IOPROP prop, void *value, PBSIZE plength):&#160;middleware.c'')]),
     (''_5fio_5fmd_5finit_5fhandle'', ''_io_md_init_handle'', [(''../middleware_8c.html#a36ce5eaf53efc938e02c809a6965d53c'', 1, ''_io_md_init_handle(IOHANDLE handle):&#160;middleware.c''), (''../middleware_8h.html#a36ce5eaf53efc938e02c809a6965d53c'', 1, ''_io_md_init_handle(IOHANDLE handle):&#160;middleware.c'')]),
     (''_5fio_5fmd_5finit_5fnull'', ''_io_md_init_null'', [(''../middleware_8c.html#a8ed5ce660e6bb8b17b23355dc7002e9b'', 1, ''_io_md_init_null():&#160;middleware.c''), (''../middleware_8h.html#a328e20af96c2a2f8e57c24a7d53e1387'', 1, ''_io_md_init_null(void):&#160;middleware.c'')]),
     (''_5fio_5fmd_5fiterate'', ''_io_md_iterate'', [(''../middleware_8c.html#a894a6875dc1e4bef4e796bc721d7a649'', 1, ''_io_md_iterate(PIOHANDLE out, int index):&#160;middleware.c''), (''../middleware_8h.html#a894a6875dc1e4bef4e796bc721d7a649'', 1, ''_io_md_iterate(PIOHANDLE out, int index):&#160;middleware.c'')]),
     (''_5fio_5fmd_5fsetprop'', ''_io_md_setprop'', [(''../middleware_8c.html#a158e799f3258c67327e529d96ebe9318'', 1, ''_io_md_setprop(PIO_MIDDLEWARE md, IOPROP prop, void *value, int32_t length):&#160;middleware.c''), (''../middleware_8h.html#ae8fe72b44f35223d222940c0adbefc72'', 1, ''_io_md_setprop(PIO_MIDDLEWARE md, IOPROP prop, void *value, BSIZE length):&#160;middleware.c'')]),
     (''_5fio_5fmp_5fgetprop'', ''_io_mp_getprop'', [(''../mount_8c.html#a3379a6113225696abe9c9796cd705fb1'', 1, ''_io_mp_getprop(PIO_MOUNT mp, IOPROP prop, void *value, PBSIZE plength):&#160;mount.c''), (''../mount_8h.html#a3379a6113225696abe9c9796cd705fb1'', 1, ''_io_mp_getprop(PIO_MOUNT mp, IOPROP prop, void *value, PBSIZE plength):&#160;mount.c'')]),
     (''_5fio_5fmp_5finit_5fhandle'', ''_io_mp_init_handle'', [(''../mount_8c.html#af0875e05c25c55c38f47d7b607240e2a'', 1, ''_io_mp_init_handle(IOHANDLE handle):&#160;mount.c''), (''../mount_8h.html#af0875e05c25c55c38f47d7b607240e2a'', 1, ''_io_mp_init_handle(IOHANDLE handle):&#160;mount.c'')]),
     (''_5fio_5fmp_5finit_5fnull'', ''_io_mp_init_null'', [(''../mount_8c.html#a4ff83b99f21866748ee0ac0e342037c6'', 1, ''_io_mp_init_null():&#160;mount.c''), (''../mount_8h.html#aa652c8f89bd6bf7eaa1b041b7c2dd71b'', 1, ''_io_mp_init_null(void):&#160;mount.c'')]),
     (''_5fio_5fmp_5fiterate'', ''_io_mp_iterate'', [(''../mount_8c.html#a3578bde52b2654645e55bf1f8ba1127d'', 1, ''_io_mp_iterate(PIOHANDLE out, int index):&#160;mount.c''), (''../mount_8h.html#a3578bde52b2654645e55bf1f8ba1127d'', 1, ''_io_mp_iterate(PIOHANDLE out, int index):&#160;mount.c'')]),
     (''_5fio_5fmp_5fsetprop'', ''_io_mp_setprop'', [(''../mount_8c.html#abed454d0b4ea8dab67212e1f06929807'', 1, ''_io_mp_setprop(PIO_MOUNT mp, IOPROP prop, void *value, int32_t length):&#160;mount.c''), (''../mount_8h.html#abc10108ecf9b4a7110c3be6203af1ab7'', 1, ''_io_mp_setprop(PIO_MOUNT mp, IOPROP prop, void *value, BSIZE length):&#160;mount.c'')]),
     (''_5fio_5fmsg_5fgetprop'', ''_io_msg_getprop'', [(''../message_8c.html#a30fd625b756bcfc7e33e9ab2a1e13fa5'', 1, ''_io_msg_getprop(PIO_MESSAGE msg, IOPROP prop, void *value, PBSIZE plength):&#160;message.c''), (''../message_8h.html#a30fd625b756bcfc7e33e9ab2a1e13fa5'', 1, ''_io_msg_getprop(PIO_MESSAGE msg, IOPROP prop, void *value, PBSIZE plength):&#160;message.c'')]),
     (''_5fio_5fmsg_5finit_5fhandle'', ''_io_msg_init_handle'', [(''../message_8c.html#a7e5576491fd848fbb97a60f103abee98'', 1, ''_io_msg_init_handle(IOHANDLE handle):&#160;message.c''), (''../message_8h.html#a7e5576491fd848fbb97a60f103abee98'', 1, ''_io_msg_init_handle(IOHANDLE handle):&#160;message.c'')]),
     (''_5fio_5fmsg_5finit_5fnull'', ''_io_msg_init_null'', [(''../message_8c.html#a85afde32dc91dc9495d9f656def34e2a'', 1, ''_io_msg_init_null():&#160;message.c''), (''../message_8h.html#ab3964cbefd0cf90903bc5b68bfa8e292'', 1, ''_io_msg_init_null(void):&#160;message.c'')]),
     (''_5fio_5fmsg_5fiterate'', ''_io_msg_iterate'', [(''../message_8c.html#ad13fbbef711f9f0d68eb985cb0c759ec'', 1, ''_io_msg_iterate(PIOHANDLE out, int index):&#160;message.c''), (''../message_8h.html#ad13fbbef711f9f0d68eb985cb0c759ec'', 1, ''_io_msg_iterate(PIOHANDLE out, int index):&#160;message.c'')]),
     (''_5fio_5fmsg_5fsetprop'', ''_io_msg_setprop'', [(''../message_8c.html#afb26fa52d262ae17342834858fd39d3f'', 1, ''_io_msg_setprop(PIO_MESSAGE msg, IOPROP prop, void *value, int32_t length):&#160;message.c''), (''../message_8h.html#ac0a7de541a2f2c9a662ecd353da60cd4'', 1, ''_io_msg_setprop(PIO_MESSAGE msg, IOPROP prop, void *value, BSIZE blength):&#160;message.c'')]),
     (''_5fiofs_5fhandle_5fis_5fvalid'', ''_iofs_handle_is_valid'', [(''../file_8c.html#a2b79999d5f2a6ee27721ae057c831720'', 1, ''file.c'')]),
     (''_5fiofs_5finit'', ''_iofs_init'', [(''../file_8c.html#af672d3ad4b4906abfd0cdc4409e083d2'', 1, ''file.c'')]),
     (''_5fk_5fmmap'', ''_k_mmap'', [(''../memory__map_8c.html#ae7dd20fcbc18f91d25711789cf9afb18'', 1, ''_k_mmap(uint32_t *vspace, void *vmem_start, void *pmem_start, size_t length, int *status):&#160;memory_map.c''), (''../memory__map_8h.html#ae7dd20fcbc18f91d25711789cf9afb18'', 1, ''_k_mmap(uint32_t *vspace, void *vmem_start, void *pmem_start, size_t length, int *status):&#160;memory_map.c'')]),
     (''_5fkmemclr'', ''_kmemclr'', [(''../klibc_8c.html#a17b9073e426958f00ba53ecdb30e5552'', 1, ''_kmemclr(register uint8_t *buf, register uint32_t len):&#160;klibc.c''), (''../klib_8h.html#a17b9073e426958f00ba53ecdb30e5552'', 1, ''_kmemclr(register uint8_t *buf, register uint32_t len):&#160;klibc.c'')]),
     (''_5fkmemcpy'', ''_kmemcpy'', [(''../klibc_8c.html#a043b9edf1d51d67356a38adecdb54cf1'', 1, ''_kmemcpy(register uint8_t *dst, register uint8_t *src, register uint32_t len):&#160;klibc.c''), (''../klib_8h.html#a043b9edf1d51d67356a38adecdb54cf1'', 1, ''_kmemcpy(register uint8_t *dst, register uint8_t *src, register uint32_t len):&#160;klibc.c'')]),
     (''_5fkmemset'', ''_kmemset'', [(''../klibc_8c.html#afc246280975b2786e6c862a480d463f7'', 1, ''_kmemset(register uint8_t *buf, register uint32_t len, register uint8_t value):&#160;klibc.c''), (''../klib_8h.html#afc246280975b2786e6c862a480d463f7'', 1, ''_kmemset(register uint8_t *buf, register uint32_t len, register uint8_t value):&#160;klibc.c'')]),
     (''_5fkpanic'', ''_kpanic'', [(''../klibc_8c.html#a3b50784cb9558d4b428223230bd22470'', 1, ''_kpanic(char *mod, char *msg):&#160;klibc.c''), (''../klib_8h.html#a3b50784cb9558d4b428223230bd22470'', 1, ''_kpanic(char *mod, char *msg):&#160;klibc.c'')]),
     (''_5fkstrcmp'', ''_kstrcmp'', [(''../klibc_8c.html#a3dd916028a25fd649377d9095f0e848c'', 1, ''_kstrcmp(register const char *s1, register const char *s2):&#160;klibc.c''), (''../klib_8h.html#a3dd916028a25fd649377d9095f0e848c'', 1, ''_kstrcmp(register const char *s1, register const char *s2):&#160;klibc.c'')]),
     (''_5fpcb_5falloc'', ''_pcb_alloc'', [(''../process_8c.html#af56ca6fc981f5c819890ea9ff1a59463'', 1, ''_pcb_alloc(void):&#160;process.c''), (''../process_8h.html#af56ca6fc981f5c819890ea9ff1a59463'', 1, ''_pcb_alloc(void):&#160;process.c'')]),
     (''_5fpcb_5fcleanup'', ''_pcb_cleanup'', [(''../process_8c.html#a049bff7f3fa3076133381606c9b061d2'', 1, ''_pcb_cleanup(pcb_t *pcb):&#160;process.c''), (''../process_8h.html#a049bff7f3fa3076133381606c9b061d2'', 1, ''_pcb_cleanup(pcb_t *pcb):&#160;process.c'')]),
     (''_5fpcb_5fdealloc'', ''_pcb_dealloc'', [(''../process_8c.html#ab83656b02037463f006d6c24bd11558f'', 1, ''_pcb_dealloc(pcb_t *pcb):&#160;process.c''), (''../process_8h.html#ab83656b02037463f006d6c24bd11558f'', 1, ''_pcb_dealloc(pcb_t *pcb):&#160;process.c'')]),
     (''_5fpcb_5fdump'', ''_pcb_dump'', [(''../process_8c.html#ab9ea77e8edb507ed88175fee23183069'', 1, ''_pcb_dump(const char *which, pcb_t *pcb):&#160;process.c''), (''../process_8h.html#ab9ea77e8edb507ed88175fee23183069'', 1, ''_pcb_dump(const char *which, pcb_t *pcb):&#160;process.c'')]),
     (''_5fpcb_5ffind'', ''_pcb_find'', [(''../process_8c.html#a6bb0c6c1ab83de8208bbfa71a1787a0e'', 1, ''_pcb_find(pid_t pid):&#160;process.c''), (''../process_8h.html#a6bb0c6c1ab83de8208bbfa71a1787a0e'', 1, ''_pcb_find(pid_t pid):&#160;process.c'')]),
     (''_5fpcb_5ffind_5fchild_5fof'', ''_pcb_find_child_of'', [(''../process_8c.html#ae57de0cffa232f7853d0d9a4b14e5c3e'', 1, ''_pcb_find_child_of(int32_t ppid):&#160;process.c''), (''../process_8h.html#ae57de0cffa232f7853d0d9a4b14e5c3e'', 1, ''_pcb_find_child_of(int32_t ppid):&#160;process.c'')]),
     (''_5fpcb_5finit'', ''_pcb_init'', [(''../process_8c.html#a419b7f8d5e97cde27d1292f5bc81108a'', 1, ''_pcb_init(void):&#160;process.c''), (''../process_8h.html#a419b7f8d5e97cde27d1292f5bc81108a'', 1, ''_pcb_init(void):&#160;process.c'')]),
     (''_5fput_5fchar_5for_5fcode'', ''_put_char_or_code'', [(''../klibc_8c.html#a38f2a8f325587f92e8c2b44f00e7f66e'', 1, ''_put_char_or_code(int ch):&#160;klibc.c''), (''../klib_8h.html#a38f2a8f325587f92e8c2b44f00e7f66e'', 1, ''_put_char_or_code(int ch):&#160;klibc.c'')]),
     (''_5fq_5fdeque'', ''_q_deque'', [(''../queue_8c.html#a2392dae14045fc1423e5395dca9fb401'', 1, ''_q_deque(queue_t *que, void **data):&#160;queue.c''), (''../queue_8h.html#a2392dae14045fc1423e5395dca9fb401'', 1, ''_q_deque(queue_t *que, void **data):&#160;queue.c'')]),
     (''_5fq_5fdump'', ''_q_dump'', [(''../queue_8c.html#ac172895328b210a84834be0d93a11158'', 1, ''_q_dump(char *which, queue_t *q):&#160;queue.c''), (''../queue_8h.html#a6ee1ceb57862ba0ef024c2da5d96d368'', 1, ''_q_dump(char *which, queue_t *que):&#160;queue.c'')]),
     (''_5fq_5fenque'', ''_q_enque'', [(''../queue_8c.html#a4a8ba5202d4d5d4ea02a9615d8c8c554'', 1, ''_q_enque(queue_t *que, void *data):&#160;queue.c''), (''../queue_8h.html#a4a8ba5202d4d5d4ea02a9615d8c8c554'', 1, ''_q_enque(queue_t *que, void *data):&#160;queue.c'')]),
     (''_5fq_5finit'', ''_q_init'', [(''../queue_8c.html#a6a72a71d8b7f97730bba8c3988e8d52a'', 1, ''_q_init(void):&#160;queue.c''), (''../queue_8h.html#a6a72a71d8b7f97730bba8c3988e8d52a'', 1, ''_q_init(void):&#160;queue.c'')]),
     (''_5fq_5fpeek'', ''_q_peek'', [(''../queue_8c.html#a15e26ca1ce08d829e562d54051a646ad'', 1, ''_q_peek(queue_t *que, void **data):&#160;queue.c''), (''../queue_8h.html#a15e26ca1ce08d829e562d54051a646ad'', 1, ''_q_peek(queue_t *que, void **data):&#160;queue.c'')]),
     (''_5fq_5fremove'', ''_q_remove'', [(''../queue_8c.html#abb8180e3a15fc54c50075997bfdd5c52'', 1, ''_q_remove(queue_t *que, void *data):&#160;queue.c''), (''../queue_8h.html#abb8180e3a15fc54c50075997bfdd5c52'', 1, ''_q_remove(queue_t *que, void *data):&#160;queue.c'')]),
     (''_5fq_5freset'', ''_q_reset'', [(''../queue_8c.html#a6e73dab41b80724bd19058cf8706494b'', 1, ''_q_reset(queue_t *que, cmpf_t cmp):&#160;queue.c''), (''../queue_8h.html#a6e73dab41b80724bd19058cf8706494b'', 1, ''_q_reset(queue_t *que, cmpf_t cmp):&#160;queue.c'')]),
     (''_5fsched_5finit'', ''_sched_init'', [(''../scheduler_8c.html#a11fa4b5e031b9600f2acb363090c4023'', 1, ''_sched_init(void):&#160;scheduler.c''), (''../scheduler_8h.html#a11fa4b5e031b9600f2acb363090c4023'', 1, ''_sched_init(void):&#160;scheduler.c'')]),
     (''_5fschedule'', ''_schedule'', [(''../scheduler_8c.html#a8d1fa8c65b2922b29b582a0d61c5f2db'', 1, ''_schedule(pcb_t *pcb):&#160;scheduler.c''), (''../scheduler_8h.html#a8d1fa8c65b2922b29b582a0d61c5f2db'', 1, ''_schedule(pcb_t *pcb):&#160;scheduler.c'')]),
     (''_5fsio_5fdisable'', ''_sio_disable'', [(''../sio_8c.html#a1f5e98c56e1cfc34905826df27f9a41a'', 1, ''_sio_disable(uint8_t which):&#160;sio.c''), (''../sio_8h.html#a1f5e98c56e1cfc34905826df27f9a41a'', 1, ''_sio_disable(uint8_t which):&#160;sio.c'')]),
     (''_5fsio_5fdump'', ''_sio_dump'', [(''../sio_8c.html#ae911b874f4660e62160c037e30717d64'', 1, ''_sio_dump(void):&#160;sio.c''), (''../sio_8h.html#ae911b874f4660e62160c037e30717d64'', 1, ''_sio_dump(void):&#160;sio.c'')]),
     (''_5fsio_5fenable'', ''_sio_enable'', [(''../sio_8c.html#aa84bc7b0d59f4731c0c208f157ebd2c1'', 1, ''_sio_enable(uint8_t which):&#160;sio.c''), (''../sio_8h.html#aa84bc7b0d59f4731c0c208f157ebd2c1'', 1, ''_sio_enable(uint8_t which):&#160;sio.c'')]),
     (''_5fsio_5finit'', ''_sio_init'', [(''../sio_8c.html#a9614749b82c377a2208eda682949b27e'', 1, ''_sio_init(void):&#160;sio.c''), (''../sio_8h.html#a9614749b82c377a2208eda682949b27e'', 1, ''_sio_init(void):&#160;sio.c'')]),
     (''_5fsio_5finput_5fqueue'', ''_sio_input_queue'', [(''../sio_8c.html#a4df67858ee65f3a963cdce21d69b8683'', 1, ''_sio_input_queue(void):&#160;sio.c''), (''../sio_8h.html#a4df67858ee65f3a963cdce21d69b8683'', 1, ''_sio_input_queue(void):&#160;sio.c'')]),
     (''_5fsio_5fputs'', ''_sio_puts'', [(''../sio_8c.html#a91f93fc32945c279099a4069fde39786'', 1, ''_sio_puts(char *buffer):&#160;sio.c''), (''../sio_8h.html#a91f93fc32945c279099a4069fde39786'', 1, ''_sio_puts(char *buffer):&#160;sio.c'')]),
     (''_5fsio_5freadc'', ''_sio_readc'', [(''../sio_8c.html#a3e6499a65925fa4eab1b555adb2eb5bb'', 1, ''_sio_readc(void):&#160;sio.c''), (''../sio_8h.html#a3e6499a65925fa4eab1b555adb2eb5bb'', 1, ''_sio_readc(void):&#160;sio.c'')]),
     (''_5fsio_5freads'', ''_sio_reads'', [(''../sio_8c.html#a1293e1464713c1c563976049396a7442'', 1, ''_sio_reads(char *buf, int length):&#160;sio.c''), (''../sio_8h.html#a576b8e1e664991ddf963035103a57306'', 1, ''_sio_reads(char *buffer, int length):&#160;sio.c'')]),
     (''_5fsio_5fwritec'', ''_sio_writec'', [(''../sio_8c.html#a7f6b2487bc7a70ff88818a5b601560cc'', 1, ''_sio_writec(int ch):&#160;sio.c''), (''../sio_8h.html#a7f6b2487bc7a70ff88818a5b601560cc'', 1, ''_sio_writec(int ch):&#160;sio.c'')]),
     (''_5fsio_5fwrites'', ''_sio_writes'', [(''../sio_8c.html#a67b48dc3aa594b767860b78a0a59fe04'', 1, ''_sio_writes(char *buffer, int length):&#160;sio.c''), (''../sio_8h.html#a67b48dc3aa594b767860b78a0a59fe04'', 1, ''_sio_writes(char *buffer, int length):&#160;sio.c'')]),
     (''_5fstk_5falloc'', ''_stk_alloc'', [(''../stack_8c.html#a3ea892f419e3d0cb538ca1708cde32b3'', 1, ''_stk_alloc(void):&#160;stack.c''), (''../stack_8h.html#a3ea892f419e3d0cb538ca1708cde32b3'', 1, ''_stk_alloc(void):&#160;stack.c'')]),
     (''_5fstk_5fdealloc'', ''_stk_dealloc'', [(''../stack_8c.html#a72bbbbaf18915ad64712407b5f0b2343'', 1, ''_stk_dealloc(stack_t *stack):&#160;stack.c''), (''../stack_8h.html#a5ee883a24ccec355505546aa49f8b4b3'', 1, ''_stk_dealloc(stack_t *stk):&#160;stack.c'')]),
     (''_5fstk_5fdump'', ''_stk_dump'', [(''../stack_8c.html#a51f9f368039e306430312f7bc40ecff3'', 1, ''_stk_dump(char *msg, stack_t *stack):&#160;stack.c''), (''../stack_8h.html#a51f9f368039e306430312f7bc40ecff3'', 1, ''_stk_dump(char *msg, stack_t *stack):&#160;stack.c'')]),
     (''_5fstk_5finit'', ''_stk_init'', [(''../stack_8c.html#af5edd5cec2781b9391300a6fcb1fc228'', 1, ''_stk_init(void):&#160;stack.c''), (''../stack_8h.html#af5edd5cec2781b9391300a6fcb1fc228'', 1, ''_stk_init(void):&#160;stack.c'')]),
     (''_5fstk_5fsetup'', ''_stk_setup'', [(''../stack_8c.html#acddea68aee2cab8e43519d52c8b4347d'', 1, ''_stk_setup(stack_t *stack, uint32_t entry, void *arg):&#160;stack.c''), (''../stack_8h.html#acddea68aee2cab8e43519d52c8b4347d'', 1, ''_stk_setup(stack_t *stack, uint32_t entry, void *arg):&#160;stack.c'')]),
     (''_5fsys_5fexit'', ''_sys_exit'', [(''../syscall_8c.html#a811d22a0a19ae02746400777e200930e'', 1, ''syscall.c'')]),
     (''_5fsys_5finit'', ''_sys_init'', [(''../syscall_8c.html#a016246845da41b1d1dc7e1593ebf2938'', 1, ''_sys_init(void):&#160;syscall.c''), (''../syscall_8h.html#a016246845da41b1d1dc7e1593ebf2938'', 1, ''_sys_init(void):&#160;syscall.c'')]),
     (''_5fsys_5fisr'', ''_sys_isr'', [(''../syscall_8c.html#aa1d5f53e018a0778d2729f3117a5c96b'', 1, ''syscall.c'')]),
     (''_5fsys_5fkill'', ''_sys_kill'', [(''../syscall_8c.html#a921b2ff84449c336ca67049cfed45fd8'', 1, ''syscall.c'')]),
     (''_5fsys_5fsleep'', ''_sys_sleep'', [(''../syscall_8c.html#aa9209b211218b80e215ee1af719e8613'', 1, ''syscall.c'')]),
     (''_5fsys_5fwait'', ''_sys_wait'', [(''../syscall_8c.html#ad8cb7ddcaefe821fe6d64b537ff56ccd'', 1, ''syscall.c'')]),
     (''_5fzombify'', ''_zombify'', [(''../system_8c.html#ae272331cf62fd4b160ee28c492d870a1'', 1, ''_zombify(pcb_t *pcb):&#160;system.c''), (''../system_8h.html#ae272331cf62fd4b160ee28c492d870a1'', 1, ''_zombify(pcb_t *pcb):&#160;system.c'')])]"

definition searchData_functions_1 :: "search_entry list" where
  "searchData_functions_1 =
    [(''atoi'', ''atoi'', [(''../string_8h.html#a90c7930371e954e280d4a53d62eeb96d'', 1, ''atoi(const char *str, int *value):&#160;atoi.c''), (''../atoi_8c.html#a90c7930371e954e280d4a53d62eeb96d'', 1, ''atoi(const char *str, int *value):&#160;atoi.c'')])]"

definition searchData_functions_2 :: "search_entry list" where
  "searchData_functions_2 =
    [(''bogus'', ''bogus'', [(''../ulib_8h.html#a2f209195c6296ee6d46d5956a1eff7f2'', 1, ''ulib.h'')]),
     (''byte_5foffset_5ffat'', ''byte_offset_fat'', [(''../fat_8c.html#a3ea0d9087e339b2d2349f63e14c8c516'', 1, ''byte_offset_fat(PFAT_CONTEXT ctx, int32_t fat_select, int32_t *out):&#160;fat.c''), (''../fat_8h.html#a3ea0d9087e339b2d2349f63e14c8c516'', 1, ''byte_offset_fat(PFAT_CONTEXT ctx, int32_t fat_select, int32_t *out):&#160;fat.c'')]),
     (''byte_5foffset_5ffor_5fcluster'', ''byte_offset_for_cluster'', [(''../fat_8c.html#a2bb655e00b20f860ee267a50ef5678b4'', 1, ''byte_offset_for_cluster(PFAT_CONTEXT ctx, int32_t cluster, int32_t *out):&#160;fat.c''), (''../fat_8h.html#a2bb655e00b20f860ee267a50ef5678b4'', 1, ''byte_offset_for_cluster(PFAT_CONTEXT ctx, int32_t cluster, int32_t *out):&#160;fat.c'')])]"

definition searchData_functions_3 :: "search_entry list" where
  "searchData_functions_3 =
    [(''c_5fclearscreen'', ''c_clearscreen'', [(''../c__io_8c.html#a95e2d1dc0849ec8b01876b2213ad2c9f'', 1, ''c_clearscreen(void):&#160;c_io.c''), (''../c__io_8h.html#a95e2d1dc0849ec8b01876b2213ad2c9f'', 1, ''c_clearscreen(void):&#160;c_io.c'')]),
     (''c_5fclearscroll'', ''c_clearscroll'', [(''../c__io_8c.html#a7c0a9385cffc8ce520b2022c4a9906e9'', 1, ''c_clearscroll(void):&#160;c_io.c''), (''../c__io_8h.html#a7c0a9385cffc8ce520b2022c4a9906e9'', 1, ''c_clearscroll(void):&#160;c_io.c'')]),
     (''c_5fflush'', ''c_flush'', [(''../c__io_8c.html#a5e363987172e738ba2e6a98205076ca0'', 1, ''c_flush(void):&#160;c_io.c''), (''../c__io_8h.html#a5e363987172e738ba2e6a98205076ca0'', 1, ''c_flush(void):&#160;c_io.c'')]),
     (''c_5fgetchar'', ''c_getchar'', [(''../c__io_8c.html#ade93d4282d4309a9d1badb1acc289705'', 1, ''c_getchar(void):&#160;c_io.c''), (''../c__io_8h.html#ade93d4282d4309a9d1badb1acc289705'', 1, ''c_getchar(void):&#160;c_io.c'')]),
     (''c_5fgets'', ''c_gets'', [(''../c__io_8c.html#a77bed901790f08a0513140e569016833'', 1, ''c_gets(char *buffer, unsigned int size):&#160;c_io.c''), (''../c__io_8h.html#a77bed901790f08a0513140e569016833'', 1, ''c_gets(char *buffer, unsigned int size):&#160;c_io.c'')]),
     (''c_5finput_5fqueue'', ''c_input_queue'', [(''../c__io_8c.html#aca9e8a13f627b94b78edbd528d30e6a0'', 1, ''c_input_queue(void):&#160;c_io.c''), (''../c__io_8h.html#aca9e8a13f627b94b78edbd528d30e6a0'', 1, ''c_input_queue(void):&#160;c_io.c'')]),
     (''c_5fio_5finit'', ''c_io_init'', [(''../c__io_8c.html#a077d1110a538c2bc7260f790b15f06f1'', 1, ''c_io_init(void):&#160;c_io.c''), (''../c__io_8h.html#a077d1110a538c2bc7260f790b15f06f1'', 1, ''c_io_init(void):&#160;c_io.c'')]),
     (''c_5fio_5finit_5fisr'', ''c_io_init_isr'', [(''../c__io_8c.html#a4410460225ea370690575a78e53979df'', 1, ''c_io_init_isr(void):&#160;c_io.c''), (''../c__io_8h.html#a4410460225ea370690575a78e53979df'', 1, ''c_io_init_isr(void):&#160;c_io.c'')]),
     (''c_5fmoveto'', ''c_moveto'', [(''../c__io_8c.html#a10ce4631cfc1f3cda99caf835e6aceb6'', 1, ''c_moveto(unsigned int x, unsigned int y):&#160;c_io.c''), (''../c__io_8h.html#a10ce4631cfc1f3cda99caf835e6aceb6'', 1, ''c_moveto(unsigned int x, unsigned int y):&#160;c_io.c'')]),
     (''c_5fprintf'', ''c_printf'', [(''../c__io_8c.html#afae786d97e64f57bee357a586fafe20c'', 1, ''c_printf(char *fmt,...):&#160;c_io.c''), (''../c__io_8h.html#afae786d97e64f57bee357a586fafe20c'', 1, ''c_printf(char *fmt,...):&#160;c_io.c'')]),
     (''c_5fprintf_5fat'', ''c_printf_at'', [(''../c__io_8c.html#a818e74a57022f3022a75027b384c18a2'', 1, ''c_printf_at(unsigned int x, unsigned int y, char *fmt,...):&#160;c_io.c''), (''../c__io_8h.html#a818e74a57022f3022a75027b384c18a2'', 1, ''c_printf_at(unsigned int x, unsigned int y, char *fmt,...):&#160;c_io.c'')]),
     (''c_5fputchar'', ''c_putchar'', [(''../c__io_8c.html#aaaf41918e3794148585c640f3923a952'', 1, ''c_putchar(unsigned int c):&#160;c_io.c''), (''../c__io_8h.html#aaaf41918e3794148585c640f3923a952'', 1, ''c_putchar(unsigned int c):&#160;c_io.c'')]),
     (''c_5fputchar_5fat'', ''c_putchar_at'', [(''../c__io_8c.html#ad9a189f38696121ccb0046efa2567e46'', 1, ''c_putchar_at(unsigned int x, unsigned int y, unsigned int c):&#160;c_io.c''), (''../c__io_8h.html#ad9a189f38696121ccb0046efa2567e46'', 1, ''c_putchar_at(unsigned int x, unsigned int y, unsigned int c):&#160;c_io.c'')]),
     (''c_5fputs'', ''c_puts'', [(''../c__io_8c.html#a7ec182a442f1f0479aeb55a4f1eb9da8'', 1, ''c_puts(char *str):&#160;c_io.c''), (''../c__io_8h.html#a7ec182a442f1f0479aeb55a4f1eb9da8'', 1, ''c_puts(char *str):&#160;c_io.c'')]),
     (''c_5fputs_5fat'', ''c_puts_at'', [(''../c__io_8c.html#af0785fcf4d4bfa3be371db2ea748e2a6'', 1, ''c_puts_at(unsigned int x, unsigned int y, char *str):&#160;c_io.c''), (''../c__io_8h.html#af0785fcf4d4bfa3be371db2ea748e2a6'', 1, ''c_puts_at(unsigned int x, unsigned int y, char *str):&#160;c_io.c'')]),
     (''c_5fscroll'', ''c_scroll'', [(''../c__io_8c.html#acc1e15a51a9fea2078016516d0b9d17c'', 1, ''c_scroll(unsigned int lines):&#160;c_io.c''), (''../c__io_8h.html#acc1e15a51a9fea2078016516d0b9d17c'', 1, ''c_scroll(unsigned int lines):&#160;c_io.c'')]),
     (''c_5fsetscroll'', ''c_setscroll'', [(''../c__io_8c.html#a79ec923f1299bd6158472d7c99cd8d95'', 1, ''c_setscroll(unsigned int s_min_x, unsigned int s_min_y, unsigned int s_max_x, unsigned int s_max_y):&#160;c_io.c''), (''../c__io_8h.html#a67c7f393500bd8f5bc024bb789f1bb12'', 1, ''c_setscroll(unsigned int min_x, unsigned int min_y, unsigned int max_x, unsigned int max_y):&#160;c_io.c'')]),
     (''call_5ffilter'', ''call_filter'', [(''../router_8c.html#a38255adf5b7c7397ba08183ccbd0b2be'', 1, ''router.c'')]),
     (''classify_5ffat_5fentry'', ''classify_fat_entry'', [(''../fat_8c.html#a8851afa569bc941282f20d95f0af5566'', 1, ''classify_fat_entry(PFAT_CONTEXT ctx, int32_t cluster, int32_t *next):&#160;fat.c''), (''../fat__types_8h.html#ac747872ccec2970473d9c33a24dcf0b6'', 1, ''classify_fat_entry(PFAT_CONTEXT ctx, int32_t fat_entry_value, int32_t *next_fat_entry):&#160;fat.c'')]),
     (''cluster_5fnum_5ffor_5fbyte_5foffset'', ''cluster_num_for_byte_offset'', [(''../fat_8c.html#a010c03d94d68924e64401f1b8733b51c'', 1, ''fat.c'')]),
     (''color_5fgetcolor'', ''color_getColor'', [(''../color_8c.html#a38e9b3297a473d5d9f46f0fffd232956'', 1, ''color_getColor(VideoColorSpace colorspace, int red, int green, int blue):&#160;color.c''), (''../color_8h.html#a38e9b3297a473d5d9f46f0fffd232956'', 1, ''color_getColor(VideoColorSpace colorspace, int red, int green, int blue):&#160;color.c'')]),
     (''color_5fgetcomponent'', ''color_getComponent'', [(''../color_8c.html#afa6a2ebeb410f2dcbb84ac83fc200e95'', 1, ''color_getComponent(VideoColorSpace colorspace, VideoComp comp, int value):&#160;color.c''), (''../color_8h.html#afa6a2ebeb410f2dcbb84ac83fc200e95'', 1, ''color_getComponent(VideoColorSpace colorspace, VideoComp comp, int value):&#160;color.c'')]),
     (''color_5fvalueof'', ''color_valueOf'', [(''../color_8c.html#a8b9800f2ae573545fbab7d2eb5864f86'', 1, ''color_valueOf(VideoColorSpace colorspace, VideoComp comp, VideoCol color):&#160;color.c''), (''../color_8h.html#a8b9800f2ae573545fbab7d2eb5864f86'', 1, ''color_valueOf(VideoColorSpace colorspace, VideoComp comp, VideoCol color):&#160;color.c'')]),
     (''cread'', ''cread'', [(''../ulibc_8c.html#a08f0970a05a4b170ede53fa4e12cfb3d'', 1, ''cread(char *buf, uint32_t size):&#160;ulibc.c''), (''../ulib_8h.html#a08f0970a05a4b170ede53fa4e12cfb3d'', 1, ''cread(char *buf, uint32_t size):&#160;ulibc.c'')]),
     (''creadch'', ''creadch'', [(''../ulibc_8c.html#a7e2ca8c8716f99f6bd30dc4b7ad1b160'', 1, ''creadch(void):&#160;ulibc.c''), (''../ulib_8h.html#a7e2ca8c8716f99f6bd30dc4b7ad1b160'', 1, ''creadch(void):&#160;ulibc.c'')]),
     (''cvt_5fdec'', ''cvt_dec'', [(''../ulibc_8c.html#afb0132b846447b23aee00f27f45b15ee'', 1, ''cvt_dec(char *buf, int32_t value):&#160;ulibc.c''), (''../ulib_8h.html#afb0132b846447b23aee00f27f45b15ee'', 1, ''cvt_dec(char *buf, int32_t value):&#160;ulibc.c'')]),
     (''cvt_5fdec0'', ''cvt_dec0'', [(''../ulibc_8c.html#a366748e8e19e041a1a707ad0c80c932d'', 1, ''ulibc.c'')]),
     (''cvt_5fhex'', ''cvt_hex'', [(''../ulibc_8c.html#ae32c3a2896ea5913dfb752565a363a45'', 1, ''cvt_hex(char *buf, uint32_t value):&#160;ulibc.c''), (''../ulib_8h.html#ae32c3a2896ea5913dfb752565a363a45'', 1, ''cvt_hex(char *buf, uint32_t value):&#160;ulibc.c'')]),
     (''cvtdec'', ''cvtdec'', [(''../c__io_8c.html#a2cfcb0e43fa9c4ed89e68d1d44d1a1f8'', 1, ''c_io.c'')]),
     (''cvtdec0'', ''cvtdec0'', [(''../c__io_8c.html#a39a4eff04c588c4e35b83ce0adc2544a'', 1, ''c_io.c'')]),
     (''cvthex'', ''cvthex'', [(''../c__io_8c.html#a1e1d3236afaf304814de9f689439e724'', 1, ''c_io.c'')]),
     (''cvtoct'', ''cvtoct'', [(''../c__io_8c.html#ac92f660d1b3aebd4e2189c381cb2c778'', 1, ''c_io.c'')]),
     (''cwrite'', ''cwrite'', [(''../ulibc_8c.html#a9df86908a95a34cd386a91844cb663f8'', 1, ''cwrite(const char *buf, uint32_t size):&#160;ulibc.c''), (''../ulib_8h.html#a9df86908a95a34cd386a91844cb663f8'', 1, ''cwrite(const char *buf, uint32_t size):&#160;ulibc.c'')]),
     (''cwritech'', ''cwritech'', [(''../ulibc_8c.html#aaed8c986dd3dc3c0df78759cb8898b3a'', 1, ''cwritech(char ch):&#160;ulibc.c''), (''../ulib_8h.html#aaed8c986dd3dc3c0df78759cb8898b3a'', 1, ''cwritech(char ch):&#160;ulibc.c'')]),
     (''cwrites'', ''cwrites'', [(''../ulibc_8c.html#a3592d51eaa0478e59299bab5099e7e54'', 1, ''cwrites(const char *str):&#160;ulibc.c''), (''../ulib_8h.html#a3592d51eaa0478e59299bab5099e7e54'', 1, ''cwrites(const char *str):&#160;ulibc.c'')])]"

definition searchData_functions_4 :: "search_entry list" where
  "searchData_functions_4 =
    [(''date_5ffrom_5fbytes'', ''date_from_bytes'', [(''../fat_8c.html#a81fc4e5675fff8f0e0bc09ddd68b8885'', 1, ''fat.c'')]),
     (''disable_5fpaging'', ''disable_paging'', [(''../memory__map_8c.html#aed93ac538b84505cb2ee37226e4fcda1'', 1, ''memory_map.c'')]),
     (''disp_5fmemory_5fmap'', ''disp_memory_map'', [(''../memory__map_8c.html#a27bbee382c32c31752253adaee991f52'', 1, ''disp_memory_map(void):&#160;memory_map.c''), (''../memory__map_8h.html#a27bbee382c32c31752253adaee991f52'', 1, ''disp_memory_map(void):&#160;memory_map.c'')]),
     (''do_5fexit'', ''do_exit'', [(''../system_8h.html#abbd868a137bb06e2ad2c5501da5602ed'', 1, ''do_exit(void):&#160;system.h''), (''../ulib_8h.html#abbd868a137bb06e2ad2c5501da5602ed'', 1, ''do_exit(void):&#160;ulib.h'')])]"

definition searchData_functions_5 :: "search_entry list" where
  "searchData_functions_5 =
    [(''edid_5fgetnativetiming'', ''edid_getNativeTiming'', [(''../edid_8c.html#ab4923b01e3ca8a842bf93c0655877809'', 1, ''edid_getNativeTiming(EDIDRecord *record, VideoTiming *timing):&#160;edid.c''), (''../edid_8h.html#ab4923b01e3ca8a842bf93c0655877809'', 1, ''edid_getNativeTiming(EDIDRecord *record, VideoTiming *timing):&#160;edid.c'')]),
     (''edid_5fgetrecord'', ''edid_getRecord'', [(''../edid_8c.html#a5dae955f34d49f230c1903c93b9e16b5'', 1, ''edid_getRecord(EDIDRecord *record):&#160;edid.c''), (''../edid_8h.html#a5dae955f34d49f230c1903c93b9e16b5'', 1, ''edid_getRecord(EDIDRecord *record):&#160;edid.c'')]),
     (''edid_5fparsedetailed'', ''edid_parseDetailed'', [(''../edid_8c.html#aecce043de12d093e21e7e14ce73afdbb'', 1, ''edid_parseDetailed(EDIDRecord *record, VideoTiming *timing, unsigned num):&#160;edid.c''), (''../edid_8h.html#aecce043de12d093e21e7e14ce73afdbb'', 1, ''edid_parseDetailed(EDIDRecord *record, VideoTiming *timing, unsigned num):&#160;edid.c'')]),
     (''edid_5fparsestandard'', ''edid_parseStandard'', [(''../edid_8c.html#a6a409eeb92356c5ec2b6c5041c98f7a5'', 1, ''edid_parseStandard(EDIDRecord *record, VideoTiming *timing, unsigned num):&#160;edid.c''), (''../edid_8h.html#a6a409eeb92356c5ec2b6c5041c98f7a5'', 1, ''edid_parseStandard(EDIDRecord *record, VideoTiming *timing, unsigned num):&#160;edid.c'')]),
     (''exec'', ''exec'', [(''../ulib_8h.html#a86c42f741af9c3b60dc00be76334c3c4'', 1, ''ulib.h'')]),
     (''exit'', ''exit'', [(''../ulib_8h.html#a3b0fa9c5b9d7ae60d48db7394b8b3b22'', 1, ''ulib.h'')]),
     (''expand_5fcluster_5fin_5ffat'', ''expand_cluster_in_fat'', [(''../fat_8c.html#ac76ee91fe93e7cf327508391d9d9a432'', 1, ''expand_cluster_in_fat(PFAT_CONTEXT ctx, int32_t start_cluster, int32_t newsize):&#160;fat.c''), (''../fat_8h.html#ac76ee91fe93e7cf327508391d9d9a432'', 1, ''expand_cluster_in_fat(PFAT_CONTEXT ctx, int32_t start_cluster, int32_t newsize):&#160;fat.c'')])]"

definition searchData_functions_6 :: "search_entry list" where
  "searchData_functions_6 =
    [(''fat32_5fexecute'', ''fat32_execute'', [(''../pubfat_8c.html#a9c85ee3ab17cc8485565e86411234c00'', 1, ''fat32_execute(PIO_MESSAGE msg):&#160;pubfat.c''), (''../pubfat_8h.html#a9c85ee3ab17cc8485565e86411234c00'', 1, ''fat32_execute(PIO_MESSAGE msg):&#160;pubfat.c'')]),
     (''fat32_5ffinalize'', ''fat32_finalize'', [(''../pubfat_8c.html#aaf867dc72f23fdf16957c27d46f25d9c'', 1, ''fat32_finalize():&#160;pubfat.c''), (''../pubfat_8h.html#aaf867dc72f23fdf16957c27d46f25d9c'', 1, ''fat32_finalize():&#160;pubfat.c'')]),
     (''fat32_5finit'', ''fat32_init'', [(''../pubfat_8c.html#ad4c3d3a738bf1722e4ecd6da51f896c2'', 1, ''fat32_init():&#160;pubfat.c''), (''../pubfat_8h.html#ad4c3d3a738bf1722e4ecd6da51f896c2'', 1, ''fat32_init():&#160;pubfat.c'')]),
     (''fattime_5ffrom_5fdate'', ''fattime_from_date'', [(''../time_8c.html#ab4143b5c8bfb8ad2041fdbe1fcb00f8a'', 1, ''fattime_from_date(FAT_DATE_PACKED date):&#160;time.c''), (''../time_8h.html#ab4143b5c8bfb8ad2041fdbe1fcb00f8a'', 1, ''fattime_from_date(FAT_DATE_PACKED date):&#160;time.c'')]),
     (''fattime_5ffrom_5fparts'', ''fattime_from_parts'', [(''../time_8c.html#aaf052b54c22a4ef358f5ff95a7525e33'', 1, ''fattime_from_parts(FAT_DATE_PACKED date, FAT_TIME_PACKED time):&#160;time.c''), (''../time_8h.html#aaf052b54c22a4ef358f5ff95a7525e33'', 1, ''fattime_from_parts(FAT_DATE_PACKED date, FAT_TIME_PACKED time):&#160;time.c'')]),
     (''fattime_5fto_5funix'', ''fattime_to_unix'', [(''../time_8c.html#ac0fcaf7cc0458edfc991eb961f07b45a'', 1, ''fattime_to_unix(FAT32TIME timestamp):&#160;time.c''), (''../time_8h.html#ac0fcaf7cc0458edfc991eb961f07b45a'', 1, ''fattime_to_unix(FAT32TIME timestamp):&#160;time.c'')]),
     (''fb_5fclear'', ''fb_clear'', [(''../fb_8c.html#a12c5f4de91cbc59178d28000f6571db3'', 1, ''fb_clear(VideoFb *fb, VideoCol color):&#160;fb.c''), (''../fb_8h.html#a12c5f4de91cbc59178d28000f6571db3'', 1, ''fb_clear(VideoFb *fb, VideoCol color):&#160;fb.c'')]),
     (''fb_5fclearcolsf'', ''fb_clearcolsf'', [(''../fb_8c.html#aef80c8a79918dba309876df4fb7cf62d'', 1, ''fb_clearcolsf(VideoFb *fb, uint32_t offset, uint16_t cols, VideoCol col):&#160;fb.c''), (''../fb_8h.html#a94c2f0c9085959e2bfbc72a76a711dfa'', 1, ''fb_clearcolsf(VideoFb *fb, uint32_t offset, uint16_t cols, VideoCol color):&#160;fb.c'')]),
     (''fb_5finit'', ''fb_init'', [(''../fb_8c.html#a3b20a878d6552210cf132b26e0fbe0e8'', 1, ''fb_init(VideoFb *fb):&#160;fb.c''), (''../fb_8h.html#a3b20a878d6552210cf132b26e0fbe0e8'', 1, ''fb_init(VideoFb *fb):&#160;fb.c'')]),
     (''fb_5foffset'', ''fb_offset'', [(''../fb_8c.html#a66243b9cd769f8c546f6197f5e20c989'', 1, ''fb_offset(VideoFb *fb, uint32_t *offset, uint16_t x, uint16_t y):&#160;fb.c''), (''../fb_8h.html#a66243b9cd769f8c546f6197f5e20c989'', 1, ''fb_offset(VideoFb *fb, uint32_t *offset, uint16_t x, uint16_t y):&#160;fb.c'')]),
     (''fb_5fputcols'', ''fb_putcols'', [(''../fb_8c.html#ae4c1dc8b2476c74058549627f1c8eeb7'', 1, ''fb_putcols(VideoFb *fb, uint16_t x, uint16_t y, uint16_t bufsize, VideoCol buf[]):&#160;fb.c''), (''../fb_8h.html#ae4c1dc8b2476c74058549627f1c8eeb7'', 1, ''fb_putcols(VideoFb *fb, uint16_t x, uint16_t y, uint16_t bufsize, VideoCol buf[]):&#160;fb.c'')]),
     (''fb_5fputcolsf'', ''fb_putcolsf'', [(''../fb_8c.html#a1b2637daca20ba83a255dac389f1fcd1'', 1, ''fb_putcolsf(VideoFb *fb, uint32_t offset, uint16_t bufsize, VideoCol buf[]):&#160;fb.c''), (''../fb_8h.html#a1b2637daca20ba83a255dac389f1fcd1'', 1, ''fb_putcolsf(VideoFb *fb, uint32_t offset, uint16_t bufsize, VideoCol buf[]):&#160;fb.c'')]),
     (''fb_5fputpixel'', ''fb_putpixel'', [(''../fb_8c.html#a3a819d8ce0e4c05909cde2c3981f283a'', 1, ''fb_putpixel(VideoFb *fb, uint16_t x, uint16_t y, VideoCol color):&#160;fb.c''), (''../fb_8h.html#a3a819d8ce0e4c05909cde2c3981f283a'', 1, ''fb_putpixel(VideoFb *fb, uint16_t x, uint16_t y, VideoCol color):&#160;fb.c'')]),
     (''fb_5fputpixelf'', ''fb_putpixelf'', [(''../fb_8c.html#a210caba69ba6d3648ee5a9ae234059c5'', 1, ''fb_putpixelf(VideoFb *fb, uint32_t offset, VideoCol color):&#160;fb.c''), (''../fb_8h.html#a210caba69ba6d3648ee5a9ae234059c5'', 1, ''fb_putpixelf(VideoFb *fb, uint32_t offset, VideoCol color):&#160;fb.c'')]),
     (''fb_5fputrow'', ''fb_putrow'', [(''../fb_8c.html#a381d667ce104d96a61d0449157e451bc'', 1, ''fb_putrow(VideoFb *fb, uint16_t row, VideoCol buf[]):&#160;fb.c''), (''../fb_8h.html#a381d667ce104d96a61d0449157e451bc'', 1, ''fb_putrow(VideoFb *fb, uint16_t row, VideoCol buf[]):&#160;fb.c'')]),
     (''fb_5fputrowf'', ''fb_putrowf'', [(''../fb_8c.html#ad0af0c7ed085bd445cfb480ce5e45c90'', 1, ''fb_putrowf(VideoFb *fb, uint32_t offset, VideoCol buf[]):&#160;fb.c''), (''../fb_8h.html#ad0af0c7ed085bd445cfb480ce5e45c90'', 1, ''fb_putrowf(VideoFb *fb, uint32_t offset, VideoCol buf[]):&#160;fb.c'')]),
     (''find_5ffile'', ''find_file'', [(''../fat_8c.html#a3cb00757ff109f597c43b35d0f099a30'', 1, ''find_file(PFAT_CONTEXT ctx, char *path, FAT_DENTRY *out):&#160;fat.c''), (''../fat_8h.html#a3cb00757ff109f597c43b35d0f099a30'', 1, ''find_file(PFAT_CONTEXT ctx, char *path, FAT_DENTRY *out):&#160;fat.c'')]),
     (''flush_5ffat_5fcache'', ''flush_fat_cache'', [(''../cache_8h.html#a0f1ad0003acf73c8400eb13632991dbb'', 1, ''cache.h'')]),
     (''fork'', ''fork'', [(''../ulib_8h.html#ac20a673956e1a05616b794e0e2e77cc4'', 1, ''ulib.h'')]),
     (''free_5fcluster_5fchain'', ''free_cluster_chain'', [(''../fat_8c.html#ac33b7546f8478f5830ddf365ff9fb7f5'', 1, ''free_cluster_chain(PFAT_CONTEXT ctx, int32_t cluster_start):&#160;fat.c''), (''../fat_8h.html#ac33b7546f8478f5830ddf365ff9fb7f5'', 1, ''free_cluster_chain(PFAT_CONTEXT ctx, int32_t cluster_start):&#160;fat.c'')]),
     (''free_5fio'', ''free_io'', [(''../memshim_8c.html#a3bf7ec0405284a99f61baa7e20566977'', 1, ''free_io(void *address):&#160;memshim.c''), (''../memshim_8h.html#a3bf7ec0405284a99f61baa7e20566977'', 1, ''free_io(void *address):&#160;memshim.c'')]),
     (''free_5fpage'', ''free_page'', [(''../memory__map_8c.html#a9d1c4498a9330a6ec5e8b262b01d19a8'', 1, ''free_page(void *address):&#160;memory_map.c''), (''../memory__map_8h.html#a9d1c4498a9330a6ec5e8b262b01d19a8'', 1, ''free_page(void *address):&#160;memory_map.c'')]),
     (''fs_5fdemo'', ''fs_demo'', [(''../user_8c.html#a3ee9995535e8f9e71558f6127eacff78'', 1, ''user.c'')])]"

definition searchData_functions_7 :: "search_entry list" where
  "searchData_functions_7 =
    [(''gdt_5finit'', ''gdt_init'', [(''../gdt__init_8c.html#ad2acd7bce259a1a32213503c6fa18f14'', 1, ''gdt_init.c'')]),
     (''get_5fcurrent_5fpde'', ''get_current_pde'', [(''../memory__map_8c.html#a1cf32e301f8da5d42f4d2f2dedd5f766'', 1, ''get_current_pde(void):&#160;memory_map.c''), (''../memory__map_8h.html#a1cf32e301f8da5d42f4d2f2dedd5f766'', 1, ''get_current_pde(void):&#160;memory_map.c'')]),
     (''get_5fidentity_5fmapped'', ''get_identity_mapped'', [(''../memory__map_8c.html#a8cf83c3b5d8da9b114791bdcd783201c'', 1, ''get_identity_mapped(void):&#160;memory_map.c''), (''../memory__map_8h.html#a8cf83c3b5d8da9b114791bdcd783201c'', 1, ''get_identity_mapped(void):&#160;memory_map.c'')]),
     (''get_5fmemory_5fmap'', ''get_memory_map'', [(''../memory__map__setup_8c.html#a3b2ba185b0349866f064f24b1a9b01fe'', 1, ''get_memory_map(void):&#160;memory_map_setup.c''), (''../memory__map__setup_8h.html#a3b2ba185b0349866f064f24b1a9b01fe'', 1, ''get_memory_map(void):&#160;memory_map_setup.c'')]),
     (''get_5fnext_5fpage'', ''get_next_page'', [(''../memory__map_8c.html#aeeb36a34c8ef54c99229ce4fb95e3658'', 1, ''get_next_page(void):&#160;memory_map.c''), (''../memory__map_8h.html#aeeb36a34c8ef54c99229ce4fb95e3658'', 1, ''get_next_page(void):&#160;memory_map.c'')]),
     (''get_5fpat'', ''get_pat'', [(''../memory__map_8c.html#aa68e94d1a9b2bf4dc586def14baa6eba'', 1, ''memory_map.c'')]),
     (''get_5fphys_5faddress'', ''get_phys_address'', [(''../memory__map_8c.html#a6048a07064cad845ab06a8631bc4e624'', 1, ''get_phys_address(address_space_t space, uint32_t *virtual_addr):&#160;memory_map.c''), (''../memory__map_8h.html#a6048a07064cad845ab06a8631bc4e624'', 1, ''get_phys_address(address_space_t space, uint32_t *virtual_addr):&#160;memory_map.c'')]),
     (''get_5freturn_5fpde'', ''get_return_pde'', [(''../memory__map_8c.html#ad760e053f4b5feb288ed924776e75df1'', 1, ''get_return_pde(void):&#160;memory_map.c''), (''../memory__map_8h.html#ad760e053f4b5feb288ed924776e75df1'', 1, ''get_return_pde(void):&#160;memory_map.c'')]),
     (''getpid'', ''getpid'', [(''../ulib_8h.html#ac61b207337ca21b3b309593fd1a0cb82'', 1, ''ulib.h'')]),
     (''getppid'', ''getppid'', [(''../ulib_8h.html#ac6d7f7ade00dcdc302b0da5664eee812'', 1, ''ulib.h'')]),
     (''getstatus'', ''getstatus'', [(''../ulib_8h.html#a3c84ab5a553dbc68ef504cedb1fc7732'', 1, ''ulib.h'')]),
     (''gettime'', ''gettime'', [(''../ulib_8h.html#a87744a55e824ee3d1584ac3b27da762b'', 1, ''ulib.h'')]),
     (''grab_5fhandle'', ''grab_handle'', [(''../router_8c.html#a9125f6b60dba407f7fdc701920924106'', 1, ''router.c'')]),
     (''grab_5fnext_5ffree_5fclusters'', ''grab_next_free_clusters'', [(''../fat_8c.html#a00619663395f68ba35fd148a2048d656'', 1, ''grab_next_free_clusters(PFAT_CONTEXT ctx, int32_t filesize, int32_t *start):&#160;fat.c''), (''../fat_8h.html#a00619663395f68ba35fd148a2048d656'', 1, ''grab_next_free_clusters(PFAT_CONTEXT ctx, int32_t filesize, int32_t *start):&#160;fat.c'')]),
     (''graphics_5fdrawchar'', ''graphics_drawChar'', [(''../text_8c.html#a82857531d6d2a4a5a1a37e78f98673f5'', 1, ''graphics_drawChar(PaintContext *ctx, Point *p, char c):&#160;text.c''), (''../text_8h.html#a82857531d6d2a4a5a1a37e78f98673f5'', 1, ''graphics_drawChar(PaintContext *ctx, Point *p, char c):&#160;text.c'')]),
     (''graphics_5fdrawrect'', ''graphics_drawRect'', [(''../rect_8c.html#a060c7420088dc0808491d3cc95140358'', 1, ''graphics_drawRect(PaintContext *ctx, Rect *rect):&#160;rect.c''), (''../rect_8h.html#a060c7420088dc0808491d3cc95140358'', 1, ''graphics_drawRect(PaintContext *ctx, Rect *rect):&#160;rect.c'')]),
     (''graphics_5fdrawstring'', ''graphics_drawString'', [(''../text_8c.html#ac03af72e917966166fc2445584397b0e'', 1, ''graphics_drawString(PaintContext *ctx, Point *p, const char *string):&#160;text.c''), (''../text_8h.html#ac03af72e917966166fc2445584397b0e'', 1, ''graphics_drawString(PaintContext *ctx, Point *p, const char *string):&#160;text.c'')]),
     (''graphics_5ffillrect'', ''graphics_fillRect'', [(''../rect_8c.html#a8c1b1b2c22e6704de38aa2411294a1ed'', 1, ''graphics_fillRect(PaintContext *ctx, Rect *rect):&#160;rect.c''), (''../rect_8h.html#a8c1b1b2c22e6704de38aa2411294a1ed'', 1, ''graphics_fillRect(PaintContext *ctx, Rect *rect):&#160;rect.c'')]),
     (''graphics_5fscroll'', ''graphics_scroll'', [(''../scroll_8c.html#a5484877fcf3d7ac8b252035326edbc8b'', 1, ''graphics_scroll(void):&#160;scroll.c''), (''../scroll_8h.html#a5484877fcf3d7ac8b252035326edbc8b'', 1, ''graphics_scroll(void):&#160;scroll.c'')])]"

definition searchData_functions_8 :: "search_entry list" where
  "searchData_functions_8 =
    [(''hexdump'', ''hexdump'', [(''../intel_8c.html#a97ce58046c4368a00ce809d6b7a47674'', 1, ''hexdump(void *data, uint32_t length, uint32_t bytes_per_line):&#160;intel.c''), (''../intel_8h.html#a97ce58046c4368a00ce809d6b7a47674'', 1, ''hexdump(void *data, uint32_t length, uint32_t bytes_per_line):&#160;intel.c'')])]"

definition searchData_functions_9 :: "search_entry list" where
  "searchData_functions_9 =
    [(''idle'', ''idle'', [(''../user_8c.html#a8bb03e5b0544026bb81515dcad4cdc00'', 1, ''idle(void *arg):&#160;user.c''), (''../user_8h.html#a8bb03e5b0544026bb81515dcad4cdc00'', 1, ''idle(void *arg):&#160;user.c'')]),
     (''init'', ''init'', [(''../user_8c.html#a92eb8f4d81b540df02d14d5e2285e94c'', 1, ''init(void *arg):&#160;user.c''), (''../user_8h.html#a92eb8f4d81b540df02d14d5e2285e94c'', 1, ''init(void *arg):&#160;user.c'')]),
     (''init_5ffat_5fcache_5fdisk'', ''init_fat_cache_disk'', [(''../cache_8h.html#acdf7fbd5d893c0cb113cf07e8d51676d'', 1, ''cache.h'')]),
     (''init_5fint32'', ''init_int32'', [(''../early_2realmode_8h.html#a64cae0618ac8b15ce4a300027856f109'', 1, ''realmode.h'')]),
     (''install_5fmount'', ''install_mount'', [(''../simple__mount_8c.html#a04f427eed80e8bdf5130a829139137fe'', 1, ''install_mount(char *name, char *path, IOHANDLE device, IOHANDLE filesystem):&#160;simple_mount.c''), (''../simple__mount_8h.html#a04f427eed80e8bdf5130a829139137fe'', 1, ''install_mount(char *name, char *path, IOHANDLE device, IOHANDLE filesystem):&#160;simple_mount.c'')]),
     (''int32'', ''int32'', [(''../early_2realmode_8h.html#ac25e1601548d126897b4bbc38ae8262f'', 1, ''realmode.h'')]),
     (''intel_5fnic_5fenable_5frx'', ''intel_nic_enable_rx'', [(''../intel_8c.html#aace3a517ef53249f0b1db5928b307097'', 1, ''intel_nic_enable_rx():&#160;intel.c''), (''../intel_8h.html#aace3a517ef53249f0b1db5928b307097'', 1, ''intel_nic_enable_rx():&#160;intel.c'')]),
     (''intel_5fnic_5finit'', ''intel_nic_init'', [(''../intel_8c.html#a724120106c913d53ef005d2950ea4381'', 1, ''intel_nic_init():&#160;intel.c''), (''../intel_8h.html#a724120106c913d53ef005d2950ea4381'', 1, ''intel_nic_init():&#160;intel.c'')]),
     (''invalidate_5ffat_5fcache'', ''invalidate_fat_cache'', [(''../cache_8h.html#a6aca7134d69299f7fe95e160d1cd8172'', 1, ''cache.h'')]),
     (''io_5fdelete'', ''IO_DELETE'', [(''../router_8c.html#a46d46b55570b67987e43a2560b3e2eff'', 1, ''IO_DELETE(IOHANDLE handle):&#160;router.c''), (''../router_8h.html#a46d46b55570b67987e43a2560b3e2eff'', 1, ''IO_DELETE(IOHANDLE handle):&#160;router.c'')]),
     (''io_5fenumerate'', ''IO_ENUMERATE'', [(''../router_8c.html#a9a532f9aee9406e85f8d408f2cced794'', 1, ''IO_ENUMERATE(IO_OBJ_TYPE type, int index, PIOHANDLE object):&#160;router.c''), (''../router_8h.html#a9a532f9aee9406e85f8d408f2cced794'', 1, ''IO_ENUMERATE(IO_OBJ_TYPE type, int index, PIOHANDLE object):&#160;router.c'')]),
     (''io_5fexecute'', ''IO_EXECUTE'', [(''../router_8c.html#adc4d2264f69d74588a8b3ac8c24f12dc'', 1, ''IO_EXECUTE(IOHANDLE handle):&#160;router.c''), (''../router_8h.html#adc4d2264f69d74588a8b3ac8c24f12dc'', 1, ''IO_EXECUTE(IOHANDLE handle):&#160;router.c'')]),
     (''io_5finit'', ''IO_INIT'', [(''../router_8c.html#af6f38414b6e195ad1ab913fffa4e27f4'', 1, ''IO_INIT():&#160;router.c''), (''../router_8h.html#af6f38414b6e195ad1ab913fffa4e27f4'', 1, ''IO_INIT():&#160;router.c'')]),
     (''io_5finterrogate'', ''IO_INTERROGATE'', [(''../router_8c.html#a6e59806916d77c168bfb0e1fb964899e'', 1, ''IO_INTERROGATE(IOHANDLE handle, IOPROP prop, void *buffer, PBSIZE plength):&#160;router.c''), (''../router_8h.html#a6e59806916d77c168bfb0e1fb964899e'', 1, ''IO_INTERROGATE(IOHANDLE handle, IOPROP prop, void *buffer, PBSIZE plength):&#160;router.c'')]),
     (''io_5flock'', ''IO_LOCK'', [(''../router_8c.html#ab1e391db155d36774431c88b0dd989fd'', 1, ''IO_LOCK(IOHANDLE handle):&#160;router.c''), (''../router_8h.html#ab1e391db155d36774431c88b0dd989fd'', 1, ''IO_LOCK(IOHANDLE handle):&#160;router.c'')]),
     (''io_5fpath_5fcanonicalized_5fcompare'', ''io_path_canonicalized_compare'', [(''../libpath_8h.html#a4f2639a6fa5fa9889593e2490b7f42cc'', 1, ''io_path_canonicalized_compare(char *path1, char *path2):&#160;libpath.c''), (''../libpath_8c.html#a4f2639a6fa5fa9889593e2490b7f42cc'', 1, ''io_path_canonicalized_compare(char *path1, char *path2):&#160;libpath.c'')]),
     (''io_5fpath_5fcount_5fnodes'', ''io_path_count_nodes'', [(''../libpath_8h.html#ad965ba2306cfd60b32d0ef8b0acc6bb9'', 1, ''io_path_count_nodes(char *path):&#160;libpath.c''), (''../libpath_8c.html#ad965ba2306cfd60b32d0ef8b0acc6bb9'', 1, ''io_path_count_nodes(char *path):&#160;libpath.c'')]),
     (''io_5fpath_5fdisc_5fn_5fnodes'', ''io_path_disc_n_nodes'', [(''../libpath_8h.html#adee79b14ed0a98a230ae6f6450401b09'', 1, ''io_path_disc_n_nodes(char *path, unsigned int n, char *out):&#160;libpath.c''), (''../libpath_8c.html#adee79b14ed0a98a230ae6f6450401b09'', 1, ''io_path_disc_n_nodes(char *path, unsigned int n, char *out):&#160;libpath.c'')]),
     (''io_5fpath_5fhead'', ''io_path_head'', [(''../libpath_8h.html#ac97c037d7fb84ae79de7dcf5ac6c2e9f'', 1, ''io_path_head(char *path):&#160;libpath.c''), (''../libpath_8c.html#ac97c037d7fb84ae79de7dcf5ac6c2e9f'', 1, ''io_path_head(char *path):&#160;libpath.c'')]),
     (''io_5fpath_5fkeep_5fn_5fnodes'', ''io_path_keep_n_nodes'', [(''../libpath_8h.html#a913bf83bf1135a3f3d3e92faf603d7f2'', 1, ''io_path_keep_n_nodes(char *path, unsigned int n, char *out):&#160;libpath.c''), (''../libpath_8c.html#a913bf83bf1135a3f3d3e92faf603d7f2'', 1, ''io_path_keep_n_nodes(char *path, unsigned int n, char *out):&#160;libpath.c'')]),
     (''io_5fpath_5ftail'', ''io_path_tail'', [(''../libpath_8h.html#a1aa85d4f84f79469c1ff60f4a27d8449'', 1, ''io_path_tail(char *path):&#160;libpath.c''), (''../libpath_8c.html#a1aa85d4f84f79469c1ff60f4a27d8449'', 1, ''io_path_tail(char *path):&#160;libpath.c'')]),
     (''io_5fprototype'', ''IO_PROTOTYPE'', [(''../router_8c.html#a7eab8d8fc50ccd8b7f9a402ed3ede426'', 1, ''IO_PROTOTYPE(IO_OBJ_TYPE type, PIOHANDLE out_handle):&#160;router.c''), (''../router_8h.html#af0f26c2d41a28ed803936b6ef7502051'', 1, ''IO_PROTOTYPE(IO_OBJ_TYPE type, PIOHANDLE handle):&#160;router.c'')]),
     (''io_5fupdate'', ''IO_UPDATE'', [(''../router_8c.html#aa64cdb395da967c4b62c3114e7a6074a'', 1, ''IO_UPDATE(IOHANDLE handle, IOPROP property, void *value, PBSIZE length):&#160;router.c''), (''../router_8h.html#aa64cdb395da967c4b62c3114e7a6074a'', 1, ''IO_UPDATE(IOHANDLE handle, IOPROP property, void *value, PBSIZE length):&#160;router.c'')]),
     (''io_5fupdate_5fioctl'', ''IO_UPDATE_IOCTL'', [(''../router_8c.html#a6eb33de20a3af8a98de15470131bc345'', 1, ''IO_UPDATE_IOCTL(IOHANDLE handle, IOCTL value):&#160;router.c''), (''../router_8h.html#a6eb33de20a3af8a98de15470131bc345'', 1, ''IO_UPDATE_IOCTL(IOHANDLE handle, IOCTL value):&#160;router.c'')]),
     (''io_5fupdate_5fstr'', ''IO_UPDATE_STR'', [(''../router_8c.html#a6f6da1568cfd7ddba4daef321f80e6cb'', 1, ''IO_UPDATE_STR(IOHANDLE handle, IOPROP property, char *value):&#160;router.c''), (''../router_8h.html#a6f6da1568cfd7ddba4daef321f80e6cb'', 1, ''IO_UPDATE_STR(IOHANDLE handle, IOPROP property, char *value):&#160;router.c'')]),
     (''io_5fupdate_5fvalint'', ''IO_UPDATE_VALINT'', [(''../router_8c.html#a71fe943966011e2da8f5cde21b9f5d07'', 1, ''IO_UPDATE_VALINT(IOHANDLE handle, IOPROP property, int32_t value):&#160;router.c''), (''../router_8h.html#a71fe943966011e2da8f5cde21b9f5d07'', 1, ''IO_UPDATE_VALINT(IOHANDLE handle, IOPROP property, int32_t value):&#160;router.c'')]),
     (''io_5fupdate_5fvoid'', ''IO_UPDATE_VOID'', [(''../router_8c.html#a6997e53e8a68377c5e544a10d9451460'', 1, ''IO_UPDATE_VOID(IOHANDLE handle, IOPROP property, void *buffer):&#160;router.c''), (''../router_8h.html#a728cd126f76d7a86009f4e0fb307c142'', 1, ''IO_UPDATE_VOID(IOHANDLE handle, IOPROP property, void *value):&#160;router.c'')]),
     (''iofileclose'', ''IoFileClose'', [(''../file_8c.html#a1621137b9a61f04fe89b284cf1b0f10e'', 1, ''IoFileClose(FILEHANDLE hFile):&#160;file.c''), (''../file_8h.html#aef3fae03626926f4b0d6cc62bf7f1e8d'', 1, ''IoFileClose(FILEHANDLE file):&#160;file.c'')]),
     (''iofiledelete'', ''IoFileDelete'', [(''../file_8c.html#aa479e81ef2a763e22bde04c5fbf78802'', 1, ''IoFileDelete(FILEHANDLE hFile):&#160;file.c''), (''../file_8h.html#a843cde7d54ce6675f99f10fb7591194f'', 1, ''IoFileDelete(FILEHANDLE file):&#160;file.c'')]),
     (''iofilenextchild'', ''IoFileNextChild'', [(''../file_8c.html#a1f75f157114945e3f795f73fca431434'', 1, ''IoFileNextChild(FILEHANDLE hFile, int index, PBSIZE plength, char *out):&#160;file.c''), (''../file_8h.html#ab24cdad6215972f955f3699328d8a908'', 1, ''IoFileNextChild(FILEHANDLE file, int index, PBSIZE plength, char *out):&#160;file.c'')]),
     (''iofileopen'', ''IoFileOpen'', [(''../file_8c.html#ad0110106c84fcaa855362179f9fe407d'', 1, ''IoFileOpen(char *path, IOCREATEPOLICY strat, PFILEHANDLE out):&#160;file.c''), (''../file_8h.html#ad0110106c84fcaa855362179f9fe407d'', 1, ''IoFileOpen(char *path, IOCREATEPOLICY strat, PFILEHANDLE out):&#160;file.c'')]),
     (''iofilequery'', ''IoFileQuery'', [(''../file_8c.html#a83adfe8f846a248946dc0c5816326271'', 1, ''IoFileQuery(FILEHANDLE hFile, IOPROP property, PBSIZE plength, void *out):&#160;file.c''), (''../file_8h.html#ae17a15b510d82a54face197d5deba29f'', 1, ''IoFileQuery(FILEHANDLE file, IOPROP property, PBSIZE plength, void *out):&#160;file.c'')]),
     (''iofileread'', ''IoFileRead'', [(''../file_8c.html#a31ab190b33b3af8beaf47b59027dd849'', 1, ''IoFileRead(FILEHANDLE hFile, BSIZE offset, PBSIZE plength, void *out):&#160;file.c''), (''../file_8h.html#a23a749a15f8220083918557f0a90fc23'', 1, ''IoFileRead(FILEHANDLE file, BOFFSET offset, PBSIZE plength, void *out):&#160;file.c'')]),
     (''iofileseek'', ''IoFileSeek'', [(''../file_8c.html#a84d288f2174d8d52d822858184ea37b0'', 1, ''IoFileSeek(FILEHANDLE hFile, BSIZE offset, PBSIZE poffset):&#160;file.c''), (''../file_8h.html#aafad7b904f17d2b460eace9dd0f82f85'', 1, ''IoFileSeek(FILEHANDLE file, BOFFSET offset, PBSIZE poffset):&#160;file.c'')]),
     (''iofileset'', ''IoFileSet'', [(''../file_8c.html#a1a563d23424a6f64cade3ae66bd1b050'', 1, ''IoFileSet(FILEHANDLE hFile, IOPROP property, PBSIZE plength, void *in):&#160;file.c''), (''../file_8h.html#ad16f60c6913ea7423aa3fb48233daafe'', 1, ''IoFileSet(FILEHANDLE file, IOPROP property, PBSIZE plength, void *in):&#160;file.c'')]),
     (''iofilewrite'', ''IoFileWrite'', [(''../file_8c.html#a38415512a5c31254d8a682cfaa443433'', 1, ''IoFileWrite(FILEHANDLE hFile, BSIZE offset, PBSIZE plength, void *in):&#160;file.c''), (''../file_8h.html#a63086728b4e7656c2851323bf0ca3399'', 1, ''IoFileWrite(FILEHANDLE file, BOFFSET offset, PBSIZE plength, void *in):&#160;file.c'')])]"

definition searchData_functions_a :: "search_entry list" where
  "searchData_functions_a =
    [(''kill'', ''kill'', [(''../ulib_8h.html#a7511bc379d73527e4a8ae1911287d956'', 1, ''ulib.h'')])]"

definition searchData_functions_b :: "search_entry list" where
  "searchData_functions_b =
    [(''main'', ''main'', [(''../early_2main_8c.html#a840291bc02cba5474a4cb46a9b9566fe'', 1, ''main(void):&#160;main.c''), (''../main_8c.html#a840291bc02cba5474a4cb46a9b9566fe'', 1, ''main(void):&#160;main.c'')]),
     (''malloc_5fio'', ''malloc_io'', [(''../memshim_8c.html#ad8ce75cb7d1ddeec952ed13ad3e9732e'', 1, ''malloc_io(int32_t size):&#160;memshim.c''), (''../memshim_8h.html#ad8ce75cb7d1ddeec952ed13ad3e9732e'', 1, ''malloc_io(int32_t size):&#160;memshim.c'')]),
     (''marquee_5fanimate'', ''marquee_animate'', [(''../marquee_8c.html#ad11711c95d2c8f4f25ef522121a8cfbe'', 1, ''marquee_animate(void):&#160;marquee.c''), (''../marquee_8h.html#ad11711c95d2c8f4f25ef522121a8cfbe'', 1, ''marquee_animate(void):&#160;marquee.c'')]),
     (''marquee_5fsetregion'', ''marquee_setRegion'', [(''../marquee_8c.html#adbf224ded0c660c2fc7e6c3de4d764d2'', 1, ''marquee_setRegion(unsigned col, unsigned row, unsigned width):&#160;marquee.c''), (''../marquee_8h.html#adbf224ded0c660c2fc7e6c3de4d764d2'', 1, ''marquee_setRegion(unsigned col, unsigned row, unsigned width):&#160;marquee.c'')]),
     (''marquee_5fsettext'', ''marquee_setText'', [(''../marquee_8c.html#a8ecee3d21facc12f26e0bc9eecd0c7ef'', 1, ''marquee_setText(const char *str):&#160;marquee.c''), (''../marquee_8h.html#a8ecee3d21facc12f26e0bc9eecd0c7ef'', 1, ''marquee_setText(const char *str):&#160;marquee.c'')]),
     (''match_5fcontext'', ''match_context'', [(''../pubfat_8c.html#a13c88bb1edaf60467c1e371d9664bba9'', 1, ''pubfat.c'')]),
     (''match_5fpath'', ''match_path'', [(''../router_8c.html#a70db15e761013d666a790565f8de0eb3'', 1, ''router.c'')]),
     (''mem_5fdemo'', ''mem_demo'', [(''../user_8c.html#ae1dfdbef005578b9d07fba109ca0dcfb'', 1, ''user.c'')]),
     (''memcmp'', ''memcmp'', [(''../string_8h.html#ab5cd4d8d32add11f0b0dccfc1ddbec42'', 1, ''memcmp(const void *left, const void *right, size_t n):&#160;memcmp.c''), (''../memcmp_8c.html#a36251bee1209f004edb198b60b9e75ed'', 1, ''memcmp(const void *leftPtr, const void *rightPtr, size_t n):&#160;memcmp.c'')]),
     (''memcpy'', ''memcpy'', [(''../string_8h.html#ade92068b4e58af06cb4744ea948ac736'', 1, ''memcpy(void *restrict dest, const void *restrict src, size_t n):&#160;memcpy.c''), (''../memcpy_8c.html#a20285f0c98cabe176403fa5d73bd0b9f'', 1, ''memcpy(void *restrict destptr, const void *restrict srcptr, size_t n):&#160;memcpy.c'')]),
     (''memmove'', ''memmove'', [(''../string_8h.html#a802c986820d3866639922b6bc9484f90'', 1, ''memmove(void *dest, const void *src, size_t n):&#160;memmove.c''), (''../memmove_8c.html#a802c986820d3866639922b6bc9484f90'', 1, ''memmove(void *dest, const void *src, size_t n):&#160;memmove.c'')]),
     (''memset'', ''memset'', [(''../string_8h.html#abf72548821cc86d93e7ace33d4d510d6'', 1, ''memset(void *mem, int val, size_t n):&#160;memset.c''), (''../memset_8c.html#a700d503dceb7b3bb0f74273540b71433'', 1, ''memset(void *memPtr, int value, size_t n):&#160;memset.c'')]),
     (''mmap'', ''mmap'', [(''../ulib_8h.html#ad5355e52fd1232d8c7e00800e2bb057c'', 1, ''ulib.h'')])]"

definition searchData_functions_c :: "search_entry list" where
  "searchData_functions_c =
    [(''net_5ftest_5fmain'', ''net_test_main'', [(''../net__test_8c.html#a3e30f4ca9865b0b99c4c2c36a2af975c'', 1, ''net_test_main(void *args):&#160;net_test.c''), (''../net__test_8h.html#a3e30f4ca9865b0b99c4c2c36a2af975c'', 1, ''net_test_main(void *args):&#160;net_test.c'')]),
     (''new_5fpage_5fdirectory'', ''new_page_directory'', [(''../memory__map_8c.html#a7ff45cd2fed2de66c4f8c3c7e6ffcd27'', 1, ''new_page_directory(void):&#160;memory_map.c''), (''../memory__map_8h.html#a7ff45cd2fed2de66c4f8c3c7e6ffcd27'', 1, ''new_page_directory(void):&#160;memory_map.c'')]),
     (''new_5fpage_5ftable'', ''new_page_table'', [(''../memory__map_8c.html#aaabc7daf7a7f72affba09c1af2e5260c'', 1, ''memory_map.c'')]),
     (''nic_5frx_5fdaemon'', ''nic_rx_daemon'', [(''../intel_8c.html#afb7912edad11b6be63d17ea50f7e171b'', 1, ''nic_rx_daemon(void *arg):&#160;intel.c''), (''../intel_8h.html#afb7912edad11b6be63d17ea50f7e171b'', 1, ''nic_rx_daemon(void *arg):&#160;intel.c'')]),
     (''nic_5ftx_5fdaemon'', ''nic_tx_daemon'', [(''../intel_8c.html#ac61d930e7e29e83625b7f8977bac6862'', 1, ''nic_tx_daemon(void *arg):&#160;intel.c''), (''../intel_8h.html#ac61d930e7e29e83625b7f8977bac6862'', 1, ''nic_tx_daemon(void *arg):&#160;intel.c'')])]"

definition searchData_functions_d :: "search_entry list" where
  "searchData_functions_d =
    [(''parse_5fdirtable_5fentry'', ''parse_dirtable_entry'', [(''../fat_8c.html#a53555153074c429b1844a81533eb0cca'', 1, ''fat.c'')]),
     (''pci_5fcfg_5fread'', ''pci_cfg_read'', [(''../pci_8c.html#aa471dc0aee34f64f5e6c6e8e1f3e7f6e'', 1, ''pci_cfg_read(uint8_t bus, uint8_t slot, uint8_t func, uint8_t offset):&#160;pci.c''), (''../pci_8h.html#aa471dc0aee34f64f5e6c6e8e1f3e7f6e'', 1, ''pci_cfg_read(uint8_t bus, uint8_t slot, uint8_t func, uint8_t offset):&#160;pci.c'')]),
     (''pci_5fcfg_5fread_5fbyte'', ''pci_cfg_read_byte'', [(''../pci_8c.html#a5314afbe63db9fa75d27a5d575dd6734'', 1, ''pci_cfg_read_byte(uint8_t bus, uint8_t slot, uint8_t func, uint8_t offset):&#160;pci.c''), (''../pci_8h.html#a5314afbe63db9fa75d27a5d575dd6734'', 1, ''pci_cfg_read_byte(uint8_t bus, uint8_t slot, uint8_t func, uint8_t offset):&#160;pci.c'')]),
     (''pci_5fcfg_5fread_5fword'', ''pci_cfg_read_word'', [(''../pci_8c.html#a56151f27aa7ccc417f3a9a1a06d3c757'', 1, ''pci_cfg_read_word(uint8_t bus, uint8_t slot, uint8_t func, uint8_t offset):&#160;pci.c''), (''../pci_8h.html#a56151f27aa7ccc417f3a9a1a06d3c757'', 1, ''pci_cfg_read_word(uint8_t bus, uint8_t slot, uint8_t func, uint8_t offset):&#160;pci.c'')]),
     (''pci_5fenumerate'', ''pci_enumerate'', [(''../pci_8c.html#a7be88224ba57de4502c7fbec1a968f35'', 1, ''pci_enumerate(uint8_t max_bus, uint8_t max_slot):&#160;pci.c''), (''../pci_8h.html#a7be88224ba57de4502c7fbec1a968f35'', 1, ''pci_enumerate(uint8_t max_bus, uint8_t max_slot):&#160;pci.c'')]),
     (''pci_5fget_5fdevice'', ''pci_get_device'', [(''../pci_8c.html#ae1d62e41ffe43df495d2d466ddc4759e'', 1, ''pci_get_device(uint8_t *bus_ret, uint8_t *slot_ret, uint16_t vendor, uint16_t device):&#160;pci.c''), (''../pci_8h.html#ae1d62e41ffe43df495d2d466ddc4759e'', 1, ''pci_get_device(uint8_t *bus_ret, uint8_t *slot_ret, uint16_t vendor, uint16_t device):&#160;pci.c'')]),
     (''pci_5fget_5fvendor'', ''pci_get_vendor'', [(''../pci_8c.html#ac3c976936eb50fbb24eb53bacdda2c4b'', 1, ''pci_get_vendor(uint8_t bus, uint8_t slot):&#160;pci.c''), (''../pci_8h.html#ac3c976936eb50fbb24eb53bacdda2c4b'', 1, ''pci_get_vendor(uint8_t bus, uint8_t slot):&#160;pci.c'')]),
     (''pretty_5fprint'', ''pretty_print'', [(''../prettyprinter_8c.html#a12959c70128047c405c23221cefa610f'', 1, ''pretty_print(status_t input):&#160;prettyprinter.c''), (''../prettyprinter_8h.html#a12959c70128047c405c23221cefa610f'', 1, ''pretty_print(status_t input):&#160;prettyprinter.c'')]),
     (''prt_5fstatus'', ''prt_status'', [(''../ulibc_8c.html#ab3ad6782bbd51c1cd382577772d9ea98'', 1, ''prt_status(char *msg, status_t stat):&#160;ulibc.c''), (''../ulib_8h.html#ab3ad6782bbd51c1cd382577772d9ea98'', 1, ''prt_status(char *msg, status_t stat):&#160;ulibc.c'')])]"

definition searchData_functions_e :: "search_entry list" where
  "searchData_functions_e =
    [(''ramdisk_5ffinalize'', ''ramdisk_finalize'', [(''../ramdisk_8c.html#acb0f0f9cce23a50b1193bd81981b9a00'', 1, ''ramdisk_finalize(void):&#160;ramdisk.c''), (''../ramdisk_8h.html#acb0f0f9cce23a50b1193bd81981b9a00'', 1, ''ramdisk_finalize(void):&#160;ramdisk.c'')]),
     (''ramdisk_5finstall'', ''ramdisk_install'', [(''../ramdisk_8c.html#ab73f0ee939c807f1b59b8ec4938f7567'', 1, ''ramdisk_install():&#160;ramdisk.c''), (''../ramdisk_8h.html#a7239154864f5d3c154a60276350c6bb0'', 1, ''ramdisk_install(void):&#160;ramdisk.c'')]),
     (''ramdisk_5fread'', ''ramdisk_read'', [(''../ramdisk_8c.html#ab1d866653849491ae29f49d081bee0cd'', 1, ''ramdisk_read(int offset, PBSIZE length, void *buffer):&#160;ramdisk.c''), (''../ramdisk_8h.html#adde670a29179dbc627b05643b9a95924'', 1, ''ramdisk_read(BOFFSET offset, PBSIZE length, void *buffer):&#160;ramdisk.c'')]),
     (''ramdisk_5fwrite'', ''ramdisk_write'', [(''../ramdisk_8c.html#a7a4b8aeeb3b41aecfb8a7ffbfa7b0e53'', 1, ''ramdisk_write(int offset, PBSIZE length, void *buffer):&#160;ramdisk.c''), (''../ramdisk_8h.html#a72b7255deef18249483c3f6ee55fce32'', 1, ''ramdisk_write(BOFFSET offset, PBSIZE length, void *buffer):&#160;ramdisk.c'')]),
     (''raw_5fexecute'', ''raw_execute'', [(''../raw_8c.html#aad9d02dd657dc6bb035d1dc0f39510ad'', 1, ''raw_execute(PIO_MESSAGE msg):&#160;raw.c''), (''../raw_8h.html#aad9d02dd657dc6bb035d1dc0f39510ad'', 1, ''raw_execute(PIO_MESSAGE msg):&#160;raw.c'')]),
     (''raw_5ffinalize'', ''raw_finalize'', [(''../raw_8c.html#ae5c2dceee5f9b5cc50a8c83cfaa82023'', 1, ''raw_finalize():&#160;raw.c''), (''../raw_8h.html#a05d20838ee4bd727234eea2e26dda7ab'', 1, ''raw_finalize(void):&#160;raw.c'')]),
     (''raw_5finit'', ''raw_init'', [(''../raw_8c.html#aba5008442f39805c1b1baf6574a93e11'', 1, ''raw_init():&#160;raw.c''), (''../raw_8h.html#a65149aab053114fd7f56476f8d15b479'', 1, ''raw_init(void):&#160;raw.c'')]),
     (''raw_5finstall'', ''raw_install'', [(''../raw_8c.html#abd6419249fbb6d2011c8ae03f99f1ed4'', 1, ''raw_install(void):&#160;raw.c''), (''../raw_8h.html#abd6419249fbb6d2011c8ae03f99f1ed4'', 1, ''raw_install(void):&#160;raw.c'')]),
     (''raw_5fprocess_5fquery'', ''raw_process_query'', [(''../raw_8c.html#a058a6892abefc8523ad864db5351136a'', 1, ''raw.c'')]),
     (''read'', ''read'', [(''../ulib_8h.html#a139199e288fc4e0e524f38d4f579a208'', 1, ''ulib.h'')]),
     (''read_5fcluster_5fentry'', ''read_cluster_entry'', [(''../cache_8h.html#a88c2102d05146f1bb53fb3c8d09e8ad0'', 1, ''cache.h'')]),
     (''read_5fnext_5fdentry'', ''read_next_dentry'', [(''../fat_8c.html#a7e5538ed8937fa388a7abeda6c0f352a'', 1, ''read_next_dentry(PFAT_CONTEXT ctx, FAT_DENTRY *parent, int32_t offset, FAT_DENTRY *dentry):&#160;fat.c''), (''../fat_8h.html#a7e5538ed8937fa388a7abeda6c0f352a'', 1, ''read_next_dentry(PFAT_CONTEXT ctx, FAT_DENTRY *parent, int32_t offset, FAT_DENTRY *dentry):&#160;fat.c'')]),
     (''redrawprocess'', ''redrawProcess'', [(''../user_8c.html#a731c90c60946c904c48f7904bbc7d5da'', 1, ''user.c'')]),
     (''report'', ''report'', [(''../user_8c.html#a14b819a223b72ad564d26d9940291789'', 1, ''user.c'')])]"

definition searchData_functions_f :: "search_entry list" where
  "searchData_functions_f =
    [(''send_5fipv4'', ''send_ipv4'', [(''../intel_8c.html#aea3425afc87f471d89494c65bc4e3515'', 1, ''send_ipv4(uint32_t dst_ip, void *data, uint32_t length, ip_protocol_t protocol):&#160;intel.c''), (''../intel_8h.html#aea3425afc87f471d89494c65bc4e3515'', 1, ''send_ipv4(uint32_t dst_ip, void *data, uint32_t length, ip_protocol_t protocol):&#160;intel.c'')]),
     (''send_5fpacket'', ''send_packet'', [(''../intel_8c.html#a5987aa7913a68af3418f6cbc0f297afd'', 1, ''send_packet(uint8_t dst_hw_addr[], void *data, uint16_t length, ethertype_t ethertype):&#160;intel.c''), (''../intel_8h.html#a5987aa7913a68af3418f6cbc0f297afd'', 1, ''send_packet(uint8_t dst_hw_addr[], void *data, uint16_t length, ethertype_t ethertype):&#160;intel.c'')]),
     (''set_5fip'', ''set_ip'', [(''../intel_8c.html#a54801e69dc8418eb19f38e2187d8af6c'', 1, ''set_ip(uint32_t ip):&#160;intel.c''), (''../intel_8h.html#a54801e69dc8418eb19f38e2187d8af6c'', 1, ''set_ip(uint32_t ip):&#160;intel.c'')]),
     (''set_5fpage_5fdirectory'', ''set_page_directory'', [(''../memory__map_8c.html#aa0c697840a92964dd8afac6ec5310961'', 1, ''set_page_directory(address_space_t directory):&#160;memory_map.c''), (''../memory__map_8h.html#aa0c697840a92964dd8afac6ec5310961'', 1, ''set_page_directory(address_space_t directory):&#160;memory_map.c'')]),
     (''set_5fpat'', ''set_pat'', [(''../memory__map_8c.html#a55db9b14fad4bbe07c890723e57ffb23'', 1, ''memory_map.c'')]),
     (''set_5freturn_5fpde'', ''set_return_pde'', [(''../memory__map_8c.html#adbd0a7c3d16b01959d7ffc7ea8cb90a3'', 1, ''set_return_pde(address_space_t dir):&#160;memory_map.c''), (''../memory__map_8h.html#adbd0a7c3d16b01959d7ffc7ea8cb90a3'', 1, ''set_return_pde(address_space_t dir):&#160;memory_map.c'')]),
     (''setup_5finitial_5fpage_5ftable'', ''setup_initial_page_table'', [(''../memory__map_8c.html#a0d5da4230626c55a10d77ca3c9f35630'', 1, ''setup_initial_page_table(void):&#160;memory_map.c''), (''../memory__map_8h.html#a0d5da4230626c55a10d77ca3c9f35630'', 1, ''setup_initial_page_table(void):&#160;memory_map.c'')]),
     (''setup_5fpage_5favailibility_5ftable'', ''setup_page_availibility_table'', [(''../memory__map_8c.html#a1493b531b384461228d0ae58b67c1f1c'', 1, ''setup_page_availibility_table(void):&#160;memory_map.c''), (''../memory__map_8h.html#a1493b531b384461228d0ae58b67c1f1c'', 1, ''setup_page_availibility_table(void):&#160;memory_map.c'')]),
     (''sleep'', ''sleep'', [(''../ulib_8h.html#a46c121f6380fec25d17d2e2641c8fec4'', 1, ''ulib.h'')]),
     (''spawn'', ''spawn'', [(''../ulibc_8c.html#a441ce853c3c394aa9babd23f1f381cb7'', 1, ''spawn(int(*entry)(void *), void *arg, prio_t prio):&#160;ulibc.c''), (''../ulib_8h.html#a441ce853c3c394aa9babd23f1f381cb7'', 1, ''spawn(int(*entry)(void *), void *arg, prio_t prio):&#160;ulibc.c'')]),
     (''sread'', ''sread'', [(''../ulibc_8c.html#a59b1d381bf5d9682ccfdd3ae53436009'', 1, ''sread(char *buf, uint32_t size):&#160;ulibc.c''), (''../ulib_8h.html#a59b1d381bf5d9682ccfdd3ae53436009'', 1, ''sread(char *buf, uint32_t size):&#160;ulibc.c'')]),
     (''sreadch'', ''sreadch'', [(''../ulibc_8c.html#a7d81d1aed5e9de8e78c40c99bc386edf'', 1, ''sreadch(void):&#160;ulibc.c''), (''../ulib_8h.html#a7d81d1aed5e9de8e78c40c99bc386edf'', 1, ''sreadch(void):&#160;ulibc.c'')]),
     (''strcpy'', ''strcpy'', [(''../string_8h.html#aefc3ba0497aef11a33896aaa9cc98d4d'', 1, ''strcpy(char *restrict dest, const char *restrict src):&#160;strcpy.c''), (''../strcpy_8c.html#aefc3ba0497aef11a33896aaa9cc98d4d'', 1, ''strcpy(char *restrict dest, const char *restrict src):&#160;strcpy.c'')]),
     (''strlen'', ''strlen'', [(''../ulibc_8c.html#a77d2141e405b7890bdf167b368a77ba2'', 1, ''strlen(const char *msg):&#160;ulibc.c''), (''../ulib_8h.html#a77d2141e405b7890bdf167b368a77ba2'', 1, ''strlen(const char *msg):&#160;ulibc.c''), (''../string_8h.html#a008e171a518fe0e0352f31b245e03875'', 1, ''strlen(const char *str):&#160;ulibc.c''), (''../strlen_8c.html#a008e171a518fe0e0352f31b245e03875'', 1, ''strlen(const char *str):&#160;strlen.c'')]),
     (''strlower'', ''strlower'', [(''../string_8h.html#a4ffaccf93b60cd0d1db8bd4222b065c4'', 1, ''string.h'')]),
     (''strpos'', ''strpos'', [(''../string_8h.html#a601b4744876b1be842ca56ae3dadfd9f'', 1, ''strpos(char *str1, const char c, int offset):&#160;strpos.c''), (''../strpos_8c.html#af5b1c33352bdbd01fc1b94f3a5ac2cad'', 1, ''strpos(char *str, const char seek, int offset):&#160;strpos.c'')]),
     (''strupper'', ''strupper'', [(''../string_8h.html#a8b927e14e82d2a227cb1c5ba1af59c93'', 1, ''strupper(char *str):&#160;strupper.c''), (''../strupper_8c.html#a8b927e14e82d2a227cb1c5ba1af59c93'', 1, ''strupper(char *str):&#160;strupper.c'')]),
     (''swrite'', ''swrite'', [(''../ulibc_8c.html#a24f4dd4827ef37d56a01ebba784acdc6'', 1, ''swrite(const char *buf, uint32_t size):&#160;ulibc.c''), (''../ulib_8h.html#a24f4dd4827ef37d56a01ebba784acdc6'', 1, ''swrite(const char *buf, uint32_t size):&#160;ulibc.c'')]),
     (''swritech'', ''swritech'', [(''../ulibc_8c.html#a3578ab0592ffbac3b54f30d0dacc59db'', 1, ''swritech(char ch):&#160;ulibc.c''), (''../ulib_8h.html#a3578ab0592ffbac3b54f30d0dacc59db'', 1, ''swritech(char ch):&#160;ulibc.c'')]),
     (''swrites'', ''swrites'', [(''../ulibc_8c.html#ac9d31740ac4d0374dd358f67d9ab7d99'', 1, ''swrites(const char *str):&#160;ulibc.c''), (''../ulib_8h.html#ac9d31740ac4d0374dd358f67d9ab7d99'', 1, ''swrites(const char *str):&#160;ulibc.c'')])]"

definition searchData_functions_10 :: "search_entry list" where
  "searchData_functions_10 =
    [(''test_5fmmap'', ''test_mmap'', [(''../memory__map_8c.html#a1b94a259764098c170fa7e7cbe4b405e'', 1, ''test_mmap(void):&#160;memory_map.c''), (''../memory__map_8h.html#a1b94a259764098c170fa7e7cbe4b405e'', 1, ''test_mmap(void):&#160;memory_map.c'')]),
     (''test_5fu_5fmmap'', ''test_u_mmap'', [(''../user_8c.html#a4aacefa6ed34b8f040bf269a96c8028e'', 1, ''user.c'')]),
     (''time_5ffrom_5fbytes'', ''time_from_bytes'', [(''../fat_8c.html#a36f97a4ffc74cbd1188a957b63479473'', 1, ''fat.c'')]),
     (''traverse_5fand_5ffind_5ffile_5frec'', ''traverse_and_find_file_rec'', [(''../fat_8c.html#a4cd0f82ebde7c8330c082b9f5bf6ef72'', 1, ''fat.c'')]),
     (''traverse_5fand_5ffind_5ffile_5frec_5fr'', ''traverse_and_find_file_rec_r'', [(''../fat_8c.html#ab55de5d21d6f007c6bab5767a08caa20'', 1, ''fat.c'')])]"

definition searchData_functions_11 :: "search_entry list" where
  "searchData_functions_11 =
    [(''uninstall_5fmount'', ''uninstall_mount'', [(''../simple__mount_8c.html#a4c76fe790eb116cf3650084f6b07893f'', 1, ''uninstall_mount(IOHANDLE handle):&#160;simple_mount.c''), (''../simple__mount_8h.html#a4c76fe790eb116cf3650084f6b07893f'', 1, ''uninstall_mount(IOHANDLE handle):&#160;simple_mount.c'')]),
     (''unix_5fto_5ffattime'', ''unix_to_fattime'', [(''../time_8c.html#a82c08d604b0b6634b909c48eb5eeedb0'', 1, ''unix_to_fattime(int32_t timestamp):&#160;time.c''), (''../time_8h.html#a82c08d604b0b6634b909c48eb5eeedb0'', 1, ''unix_to_fattime(int32_t timestamp):&#160;time.c'')]),
     (''update_5fdentry'', ''update_dentry'', [(''../fat_8c.html#a403cb503eca5b0e76b3a04d1aa7f4d15'', 1, ''update_dentry(PFAT_CONTEXT ctx, int32_t parent_dir_cluster, FAT_DENTRY updated):&#160;fat.c''), (''../fat_8h.html#a403cb503eca5b0e76b3a04d1aa7f4d15'', 1, ''update_dentry(PFAT_CONTEXT ctx, int32_t parent_dir_cluster, FAT_DENTRY updated):&#160;fat.c'')]),
     (''user_5fa'', ''user_a'', [(''../user_8c.html#a4c4a226717b8391bd2e332dc88e028f0'', 1, ''user.c'')]),
     (''user_5fb'', ''user_b'', [(''../user_8c.html#ab5945e9e92951e942f78501aca57a3d3'', 1, ''user.c'')]),
     (''user_5fc'', ''user_c'', [(''../user_8c.html#abacb1f67635dcb6ce26ad6105ced468e'', 1, ''user.c'')]),
     (''user_5fd'', ''user_d'', [(''../user_8c.html#a74536edc79e0a86f4327a066f95fd32d'', 1, ''user.c'')]),
     (''user_5fe'', ''user_e'', [(''../user_8c.html#a9c9317caa85ef907bc0b2241f56cee9b'', 1, ''user.c'')]),
     (''user_5ff'', ''user_f'', [(''../user_8c.html#af16e4f1956776dd279a6ef7d7f3cb506'', 1, ''user.c'')]),
     (''user_5fg'', ''user_g'', [(''../user_8c.html#a2ded76fc41cfada1b8216b67357ea9b9'', 1, ''user.c'')]),
     (''user_5fh'', ''user_h'', [(''../user_8c.html#a2e10389d5b4b6b170f58a826387365b9'', 1, ''user.c'')]),
     (''user_5fi'', ''user_i'', [(''../user_8c.html#ad01fb2a6cf3cef09c981399130ce9b48'', 1, ''user.c'')]),
     (''user_5fj'', ''user_j'', [(''../user_8c.html#a2996d41904c29bec4db7e21ab3300680'', 1, ''user.c'')]),
     (''user_5fk'', ''user_k'', [(''../user_8c.html#a75091df536f482022a1ff3109e98e64e'', 1, ''user.c'')]),
     (''user_5fl'', ''user_l'', [(''../user_8c.html#af1ce36872b256bd6b30cc3a7d3817195'', 1, ''user.c'')]),
     (''user_5fm'', ''user_m'', [(''../user_8c.html#a802940ede0eeae91ecb0ad1bdf01b336'', 1, ''user.c'')]),
     (''user_5fn'', ''user_n'', [(''../user_8c.html#a986b00686643147db16043d29a719fbd'', 1, ''user.c'')]),
     (''user_5fo'', ''user_o'', [(''../user_8c.html#a62d1506f257a6731f36f7a1f21c9474a'', 1, ''user.c'')]),
     (''user_5fp'', ''user_p'', [(''../user_8c.html#ab4624141ac74805fb9eefc8cf2882ed4'', 1, ''user.c'')]),
     (''user_5fq'', ''user_q'', [(''../user_8c.html#aa7fe6569a6220bd6fe2ca0a8a196526c'', 1, ''user.c'')]),
     (''user_5fr'', ''user_r'', [(''../user_8c.html#a00500cb93231a997c0ed13e4172bd77c'', 1, ''user.c'')]),
     (''user_5fs'', ''user_s'', [(''../user_8c.html#a996cb041c74417485c85bd72ceea30d8'', 1, ''user.c'')]),
     (''user_5ft'', ''user_t'', [(''../user_8c.html#a1055c4ea94610f4aebbf84225f66fe56'', 1, ''user.c'')]),
     (''user_5fu'', ''user_u'', [(''../user_8c.html#a19f00c2056d584e2a7c3177b67db9140'', 1, ''user.c'')]),
     (''user_5fv'', ''user_v'', [(''../user_8c.html#a9e7daf0abfb70bd60a4e9e4bd0fea74b'', 1, ''user.c'')]),
     (''user_5fw'', ''user_w'', [(''../user_8c.html#a5ac287699211a3c98062ff3e88ad646e'', 1, ''user.c'')]),
     (''user_5fx'', ''user_x'', [(''../user_8c.html#acd6826292990ba959202900ecdafac1f'', 1, ''user.c'')]),
     (''user_5fy'', ''user_y'', [(''../user_8c.html#a548388464c2456d8a52536eaabace476'', 1, ''user.c'')]),
     (''user_5fz'', ''user_z'', [(''../user_8c.html#a215a778b768a1cc8e6ab71b9f6cf0bbd'', 1, ''user.c'')])]"

definition searchData_functions_12 :: "search_entry list" where
  "searchData_functions_12 =
    [(''vbe_5fcurrentmode'', ''vbe_currentMode'', [(''../vbe_8c.html#a6e43514e49c5f7f4e44c6caf44cc3a6c'', 1, ''vbe_currentMode(uint16_t *modeVar, uint16_t *vbeResult):&#160;vbe.c''), (''../vbe_8h.html#a6e43514e49c5f7f4e44c6caf44cc3a6c'', 1, ''vbe_currentMode(uint16_t *modeVar, uint16_t *vbeResult):&#160;vbe.c'')]),
     (''vbe_5fgetinfo'', ''vbe_getInfo'', [(''../vbe_8c.html#a1209aec679a8ea9471f284355052992e'', 1, ''vbe_getInfo(VBEInfo *info, uint16_t *vbeResult):&#160;vbe.c''), (''../vbe_8h.html#a1209aec679a8ea9471f284355052992e'', 1, ''vbe_getInfo(VBEInfo *info, uint16_t *vbeResult):&#160;vbe.c'')]),
     (''vbe_5fgetmodeinfo'', ''vbe_getModeInfo'', [(''../vbe_8c.html#a20cc02dad4643547e3299b5c6c7d0eda'', 1, ''vbe_getModeInfo(uint16_t mode, VBEModeInfo *modeInfo, uint16_t *vbeResult):&#160;vbe.c''), (''../vbe_8h.html#a20cc02dad4643547e3299b5c6c7d0eda'', 1, ''vbe_getModeInfo(uint16_t mode, VBEModeInfo *modeInfo, uint16_t *vbeResult):&#160;vbe.c'')]),
     (''vbe_5finit'', ''vbe_init'', [(''../vbe_8c.html#a86966cb0bd5545d86d1ee4e43b908d57'', 1, ''vbe_init(void):&#160;vbe.c''), (''../vbe_8h.html#a86966cb0bd5545d86d1ee4e43b908d57'', 1, ''vbe_init(void):&#160;vbe.c'')]),
     (''vbe_5fsetmode'', ''vbe_setMode'', [(''../vbe_8c.html#adc694b53439ddcda6a382e9ac5e4ce6b'', 1, ''vbe_setMode(uint16_t mode, uint16_t *vbeResult):&#160;vbe.c''), (''../vbe_8h.html#adc694b53439ddcda6a382e9ac5e4ce6b'', 1, ''vbe_setMode(uint16_t mode, uint16_t *vbeResult):&#160;vbe.c'')]),
     (''vcon_5fblink'', ''vcon_blink'', [(''../control_8h.html#a676b3b985e29184a8337735f0a4ae332'', 1, ''control.h'')]),
     (''vcon_5fbuf_5fclearlinetable'', ''vcon_buf_clearLineTable'', [(''../buffer_8c.html#a8c467f470d15c0c4fbd5f73ccd216f34'', 1, ''vcon_buf_clearLineTable(VCon *con, uint16_t from, uint16_t to):&#160;buffer.c''), (''../buffer_8h.html#a8c467f470d15c0c4fbd5f73ccd216f34'', 1, ''vcon_buf_clearLineTable(VCon *con, uint16_t from, uint16_t to):&#160;buffer.c'')]),
     (''vcon_5fbuf_5finitlinetable'', ''vcon_buf_initLineTable'', [(''../buffer_8c.html#a3c9d1d2943169cb1b24061a520ad547b'', 1, ''vcon_buf_initLineTable(VCon *con):&#160;buffer.c''), (''../buffer_8h.html#a3c9d1d2943169cb1b24061a520ad547b'', 1, ''vcon_buf_initLineTable(VCon *con):&#160;buffer.c'')]),
     (''vcon_5fclear'', ''vcon_clear'', [(''../console_8c.html#a45fd652a0969e2617fc93df8e49b2af0'', 1, ''vcon_clear(VCon *con):&#160;console.c''), (''../console_8h.html#a45fd652a0969e2617fc93df8e49b2af0'', 1, ''vcon_clear(VCon *con):&#160;console.c'')]),
     (''vcon_5fclearscroll'', ''vcon_clearScroll'', [(''../console_8c.html#ad290cda7c2a62adadb62c2c79627ec6e'', 1, ''vcon_clearScroll(VCon *con):&#160;console.c''), (''../console_8h.html#ad290cda7c2a62adadb62c2c79627ec6e'', 1, ''vcon_clearScroll(VCon *con):&#160;console.c'')]),
     (''vcon_5fgraphics_5fdraw'', ''vcon_graphics_draw'', [(''../draw_8c.html#a34ead8cf294de99af674416b261d5223'', 1, ''vcon_graphics_draw(VConCtrl *ctrl, VConChar *start, VConLine line, uint16_t row):&#160;draw.c''), (''../draw_8h.html#a34ead8cf294de99af674416b261d5223'', 1, ''vcon_graphics_draw(VConCtrl *ctrl, VConChar *start, VConLine line, uint16_t row):&#160;draw.c'')]),
     (''vcon_5finit'', ''vcon_init'', [(''../console_8c.html#a9a828a3cb4ce65510f2c2af06b49ed3c'', 1, ''vcon_init(VCon *con, uint16_t rows, uint16_t columns):&#160;console.c''), (''../console_8h.html#a9a828a3cb4ce65510f2c2af06b49ed3c'', 1, ''vcon_init(VCon *con, uint16_t rows, uint16_t columns):&#160;console.c'')]),
     (''vcon_5fputchar'', ''vcon_putchar'', [(''../console_8c.html#a234016944519a6207be2e34b6fb78700'', 1, ''vcon_putchar(VCon *con, char ch):&#160;console.c''), (''../console_8h.html#a234016944519a6207be2e34b6fb78700'', 1, ''vcon_putchar(VCon *con, char ch):&#160;console.c'')]),
     (''vcon_5fputcharat'', ''vcon_putcharAt'', [(''../console_8c.html#ac036abd06029b2ecc3988526c94d62cf'', 1, ''vcon_putcharAt(VCon *con, char ch, uint16_t x, uint16_t y):&#160;console.c''), (''../console_8h.html#ac036abd06029b2ecc3988526c94d62cf'', 1, ''vcon_putcharAt(VCon *con, char ch, uint16_t x, uint16_t y):&#160;console.c'')]),
     (''vcon_5fputs'', ''vcon_puts'', [(''../console_8c.html#acb21b137d9a021c6c8de12d94ac6d18f'', 1, ''vcon_puts(VCon *con, const char *str):&#160;console.c''), (''../console_8h.html#acb21b137d9a021c6c8de12d94ac6d18f'', 1, ''vcon_puts(VCon *con, const char *str):&#160;console.c'')]),
     (''vcon_5fputsat'', ''vcon_putsAt'', [(''../console_8c.html#a7e565c8c5301835c415ab23884363e1a'', 1, ''vcon_putsAt(VCon *con, const char *str, uint16_t x, uint16_t y):&#160;console.c''), (''../console_8h.html#a5429a898422c618375af45c517781cff'', 1, ''vcon_putsAt(VCon *con, const char *str, uint16_t c, uint16_t y):&#160;console.c'')]),
     (''vcon_5fredraw'', ''vcon_redraw'', [(''../control_8c.html#a05cc4af3b3127730c9d48f67ac1678af'', 1, ''vcon_redraw(VConCtrl *ctrl):&#160;control.c''), (''../control_8h.html#a05cc4af3b3127730c9d48f67ac1678af'', 1, ''vcon_redraw(VConCtrl *ctrl):&#160;control.c'')]),
     (''vcon_5fresize'', ''vcon_resize'', [(''../console_8c.html#a626a89e218563e2395521e5549ee0b2f'', 1, ''vcon_resize(VCon *con, uint16_t rows, uint16_t columns):&#160;console.c''), (''../console_8h.html#a626a89e218563e2395521e5549ee0b2f'', 1, ''vcon_resize(VCon *con, uint16_t rows, uint16_t columns):&#160;console.c'')]),
     (''vcon_5fscroll'', ''vcon_scroll'', [(''../console_8c.html#ab89e5a515d1e8e43cc130fe3e01dba30'', 1, ''vcon_scroll(VCon *con, uint16_t lines):&#160;console.c''), (''../console_8h.html#ab89e5a515d1e8e43cc130fe3e01dba30'', 1, ''vcon_scroll(VCon *con, uint16_t lines):&#160;console.c'')]),
     (''vcon_5fsetcursor'', ''vcon_setCursor'', [(''../console_8c.html#a586efc1bacec2cb450bdc62bf0f84a19'', 1, ''vcon_setCursor(VCon *con, uint16_t x, uint16_t y):&#160;console.c''), (''../console_8h.html#a586efc1bacec2cb450bdc62bf0f84a19'', 1, ''vcon_setCursor(VCon *con, uint16_t x, uint16_t y):&#160;console.c'')]),
     (''vcon_5fsetscroll'', ''vcon_setScroll'', [(''../console_8c.html#ae7951754278ef95d04b5436419a664b4'', 1, ''vcon_setScroll(VCon *con, uint16_t start, uint16_t end):&#160;console.c''), (''../console_8h.html#ae7951754278ef95d04b5436419a664b4'', 1, ''vcon_setScroll(VCon *con, uint16_t start, uint16_t end):&#160;console.c'')]),
     (''vcon_5fswitch'', ''vcon_switch'', [(''../control_8c.html#a6cb6c48f7e5476b45b0f0e809968a5e0'', 1, ''vcon_switch(VConCtrl *ctrl, VCon *console):&#160;control.c''), (''../control_8h.html#a6cb6c48f7e5476b45b0f0e809968a5e0'', 1, ''vcon_switch(VConCtrl *ctrl, VCon *console):&#160;control.c'')]),
     (''vcon_5fvga_5fdraw'', ''vcon_vga_draw'', [(''../draw_8c.html#a723c7c1f2238fdce38754b224618e9a0'', 1, ''vcon_vga_draw(VConCtrl *ctrl, VConChar *start, VConLine line, uint16_t row):&#160;draw.c''), (''../draw_8h.html#a723c7c1f2238fdce38754b224618e9a0'', 1, ''vcon_vga_draw(VConCtrl *ctrl, VConChar *start, VConLine line, uint16_t row):&#160;draw.c'')]),
     (''vga13_5fclear'', ''vga13_clear'', [(''../vga13_8c.html#a0b53afbfba1f573cc5f804c750a5d349'', 1, ''vga13_clear(uint8_t color):&#160;vga13.c''), (''../vga13_8h.html#a0b53afbfba1f573cc5f804c750a5d349'', 1, ''vga13_clear(uint8_t color):&#160;vga13.c'')]),
     (''vga13_5fgetcolumns'', ''vga13_getColumns'', [(''../vga13_8c.html#a5de98f5f90b3f9607a38ab74cff330a7'', 1, ''vga13_getColumns(unsigned row, unsigned col, unsigned bufsize, uint8_t buf[]):&#160;vga13.c''), (''../vga13_8h.html#a5de98f5f90b3f9607a38ab74cff330a7'', 1, ''vga13_getColumns(unsigned row, unsigned col, unsigned bufsize, uint8_t buf[]):&#160;vga13.c'')]),
     (''vga13_5fgetpixel'', ''vga13_getPixel'', [(''../vga13_8c.html#a6d5d5b0a94669336149ba3c987395fe6'', 1, ''vga13_getPixel(unsigned x, unsigned y, uint8_t *pixelVar):&#160;vga13.c''), (''../vga13_8h.html#a6d5d5b0a94669336149ba3c987395fe6'', 1, ''vga13_getPixel(unsigned x, unsigned y, uint8_t *pixelVar):&#160;vga13.c'')]),
     (''vga13_5fgetrow'', ''vga13_getRow'', [(''../vga13_8c.html#a2a5652fed5121d636c5ef919882a7805'', 1, ''vga13_getRow(unsigned row, uint8_t buf[]):&#160;vga13.c''), (''../vga13_8h.html#a2a5652fed5121d636c5ef919882a7805'', 1, ''vga13_getRow(unsigned row, uint8_t buf[]):&#160;vga13.c'')]),
     (''vga13_5finit'', ''vga13_init'', [(''../vga13_8c.html#ad854affc49ba46e9d78a199c864902af'', 1, ''vga13_init(void):&#160;vga13.c''), (''../vga13_8h.html#ad854affc49ba46e9d78a199c864902af'', 1, ''vga13_init(void):&#160;vga13.c'')]),
     (''vga13_5fsetcolumns'', ''vga13_setColumns'', [(''../vga13_8c.html#a87246cc50a44d808f6b4269bae0403cb'', 1, ''vga13_setColumns(unsigned row, unsigned col, unsigned bufsize, uint8_t buf[]):&#160;vga13.c''), (''../vga13_8h.html#a87246cc50a44d808f6b4269bae0403cb'', 1, ''vga13_setColumns(unsigned row, unsigned col, unsigned bufsize, uint8_t buf[]):&#160;vga13.c'')]),
     (''vga13_5fsetpixel'', ''vga13_setPixel'', [(''../vga13_8c.html#a5f308d7feed44ceb7998ca68b49274fb'', 1, ''vga13_setPixel(unsigned x, unsigned y, uint8_t color):&#160;vga13.c''), (''../vga13_8h.html#a5f308d7feed44ceb7998ca68b49274fb'', 1, ''vga13_setPixel(unsigned x, unsigned y, uint8_t color):&#160;vga13.c'')]),
     (''vga13_5fsetrow'', ''vga13_setRow'', [(''../vga13_8c.html#a3595aa06bfb99c4ccff958af7fbe1388'', 1, ''vga13_setRow(unsigned row, uint8_t buf[]):&#160;vga13.c''), (''../vga13_8h.html#a3595aa06bfb99c4ccff958af7fbe1388'', 1, ''vga13_setRow(unsigned row, uint8_t buf[]):&#160;vga13.c'')]),
     (''vga_5fscroll'', ''vga_scroll'', [(''../scroll_8c.html#acf74662bf3173ee11c580d90974f4683'', 1, ''vga_scroll(void):&#160;scroll.c''), (''../scroll_8h.html#acf74662bf3173ee11c580d90974f4683'', 1, ''vga_scroll(void):&#160;scroll.c'')]),
     (''video_5fconvertvbeinfo'', ''video_convertVBEInfo'', [(''../video_2video_8c.html#a7958bc4a35d47da350bde89842a093ed'', 1, ''video_convertVBEInfo(VBEInfo *vbeInfo, VideoInfo *videoInfo):&#160;video.c''), (''../video_2video_8h.html#a0c45621dde6b4ec7b2db528e7ec84c36'', 1, ''video_convertVBEInfo(VBEInfo *vbe, VideoInfo *info):&#160;video.c'')]),
     (''video_5fconvertvbemode'', ''video_convertVBEMode'', [(''../video_2video_8c.html#a5d1587192650208d4a2f2920a590639c'', 1, ''video_convertVBEMode(VBEModeInfo *vbe, VideoMode *mode):&#160;video.c''), (''../video_2video_8h.html#a5d1587192650208d4a2f2920a590639c'', 1, ''video_convertVBEMode(VBEModeInfo *vbe, VideoMode *mode):&#160;video.c'')]),
     (''video_5fdefaultfont'', ''video_defaultFont'', [(''../video_2video_8c.html#a0f24cb42acee95ca08cc70e613ab530c'', 1, ''video_defaultFont(PSFont *font):&#160;video.c''), (''../video_2video_8h.html#a0f24cb42acee95ca08cc70e613ab530c'', 1, ''video_defaultFont(PSFont *font):&#160;video.c'')]),
     (''video_5fdumpinfo'', ''video_dumpInfo'', [(''../video_2video_8c.html#abe2f0d76ed06a4e8f376b8367466ca4b'', 1, ''video_dumpInfo(VideoInfo *info):&#160;video.c''), (''../video_2video_8h.html#abe2f0d76ed06a4e8f376b8367466ca4b'', 1, ''video_dumpInfo(VideoInfo *info):&#160;video.c'')]),
     (''video_5fearly_5fbestmode'', ''video_early_bestMode'', [(''../early_2video_8c.html#acdfec353eb6cc030c64bf42be37d9e4d'', 1, ''video_early_bestMode(VideoMode *mode):&#160;video.c''), (''../early_2video_8h.html#acdfec353eb6cc030c64bf42be37d9e4d'', 1, ''video_early_bestMode(VideoMode *mode):&#160;video.c'')]),
     (''video_5fearly_5finit'', ''video_early_init'', [(''../early_2video_8c.html#a4b84a71315869326756e02a40b13e2bf'', 1, ''video_early_init(void):&#160;video.c''), (''../early_2video_8h.html#a4b84a71315869326756e02a40b13e2bf'', 1, ''video_early_init(void):&#160;video.c'')]),
     (''video_5finit'', ''video_init'', [(''../video_2video_8c.html#a063a8db56368ef67241d30ffb15c26b1'', 1, ''video_init(void):&#160;video.c''), (''../video_2video_8h.html#a063a8db56368ef67241d30ffb15c26b1'', 1, ''video_init(void):&#160;video.c'')]),
     (''video_5fsetmode'', ''video_setMode'', [(''../video_2video_8c.html#a84b33b16b2f8e3c06e7f0ad6331ee799'', 1, ''video_setMode(VideoMode *mode):&#160;video.c''), (''../video_2video_8h.html#a84b33b16b2f8e3c06e7f0ad6331ee799'', 1, ''video_setMode(VideoMode *mode):&#160;video.c'')])]"

definition searchData_functions_13 :: "search_entry list" where
  "searchData_functions_13 =
    [(''wait'', ''wait'', [(''../ulib_8h.html#a82cbf9c23fd00e98067b0db7eb77f9a9'', 1, ''ulib.h'')]),
     (''wipe_5fdentry'', ''wipe_dentry'', [(''../fat_8c.html#ad2d6eb57b19696d0032eed9d54e16155'', 1, ''wipe_dentry(PFAT_CONTEXT ctx, int32_t parent_dir_cluster, char *name):&#160;fat.c''), (''../fat_8h.html#ad2d6eb57b19696d0032eed9d54e16155'', 1, ''wipe_dentry(PFAT_CONTEXT ctx, int32_t parent_dir_cluster, char *name):&#160;fat.c'')]),
     (''write'', ''write'', [(''../ulib_8h.html#a92e8bd6278981d64fb0bbc80e83a5c7e'', 1, ''ulib.h'')]),
     (''write_5fcluster_5fentry'', ''write_cluster_entry'', [(''../cache_8h.html#a6ed9ebc45868582e8c6e621d7129a02f'', 1, ''cache.h'')]),
     (''write_5ffat32_5fdate'', ''write_fat32_date'', [(''../fat_8c.html#ab24a2037c66223df40ddd13e9181897e'', 1, ''fat.c'')]),
     (''write_5ffat32_5ftime'', ''write_fat32_time'', [(''../fat_8c.html#aa45eb9d1a74e876a1f42aa911717f848'', 1, ''fat.c'')]),
     (''write_5finto_5fcluster_5fchain'', ''write_into_cluster_chain'', [(''../fat_8c.html#acbd4df10d47504344191b9cd56a98cf0'', 1, ''write_into_cluster_chain(PFAT_CONTEXT ctx, int32_t cluster_start, int32_t write_size, int32_t offset, char *buffer):&#160;fat.c''), (''../fat_8h.html#acbd4df10d47504344191b9cd56a98cf0'', 1, ''write_into_cluster_chain(PFAT_CONTEXT ctx, int32_t cluster_start, int32_t write_size, int32_t offset, char *buffer):&#160;fat.c'')])]"

definition functions_pages :: "search_entry list list" where
  "functions_pages =
     [searchData_functions_0, searchData_functions_1, searchData_functions_2,
      searchData_functions_3, searchData_functions_4, searchData_functions_5,
      searchData_functions_6, searchData_functions_7, searchData_functions_8,
      searchData_functions_9, searchData_functions_a, searchData_functions_b,
      searchData_functions_c, searchData_functions_d, searchData_functions_e,
      searchData_functions_f, searchData_functions_10, searchData_functions_11,
      searchData_functions_12, searchData_functions_13]"

lemma functions_pages_ok: "list_all2 page_ok ''_abcdefghikmnprstuvw'' functions_pages"
  by (simp only: functions_pages_def page_eval
    searchData_functions_0_def searchData_functions_1_def searchData_functions_2_def
    searchData_functions_3_def searchData_functions_4_def searchData_functions_5_def
    searchData_functions_6_def searchData_functions_7_def searchData_functions_8_def
    searchData_functions_9_def searchData_functions_a_def searchData_functions_b_def
    searchData_functions_c_def searchData_functions_d_def searchData_functions_e_def
    searchData_functions_f_def searchData_functions_10_def searchData_functions_11_def
    searchData_functions_12_def searchData_functions_13_def)

subsection \<open>Section variables\<close>

definition searchData_variables_0 :: "search_entry list" where
  "searchData_variables_0 =
    [(''_5f_5fattribute_5f_5f'', ''__attribute__'', [(''../structmm__entry__s.html#a1f4b646a420aca5dd366cea44bb4cdfa'', 1, ''mm_entry_s::__attribute__()''), (''../intel_8h.html#aa418a47b8de731ac6d1608dbd5bd8b24'', 1, ''__attribute__():&#160;intel.h''), (''../memory__map_8h.html#a90b41dcc175b34b3c7ce14be7b066c55'', 1, ''__attribute__():&#160;memory_map.h''), (''../VCon_8h.html#a99a0e3f6d7ec4f0dc8d39a3999d52982'', 1, ''__attribute__():&#160;VCon.h'')]),
     (''_5f_5finstall_5fisr'', ''__install_isr'', [(''../support_8c.html#a1c27f0029cfb2a39fd5121fcdec45591'', 1, ''__install_isr():&#160;support.c''), (''../support_8h.html#a1c27f0029cfb2a39fd5121fcdec45591'', 1, ''__install_isr():&#160;support.h'')]),
     (''_5f_5fisr_5ftable'', ''__isr_table'', [(''../support_8c.html#aaa9d902cc249b999a63b303757c8057a'', 1, ''support.c'')]),
     (''_5f_5fpad1'', ''__pad1'', [(''../structrfd__t.html#aa3bd0e7e42304160df761263462f9192'', 1, ''rfd_t::__pad1()''), (''../structcsr.html#a31632f985717b65df73afce85714acaa'', 1, ''csr::__pad1()'')]),
     (''_5fcurrent'', ''_current'', [(''../scheduler_8c.html#a55cad563e1dd809d99d74af856331559'', 1, ''_current():&#160;scheduler.c''), (''../scheduler_8h.html#a55cad563e1dd809d99d74af856331559'', 1, ''_current():&#160;scheduler.c'')]),
     (''_5finit_5fpcb'', ''_init_pcb'', [(''../scheduler_8c.html#a7c1955d1244df73658ca9f3ef9e0a1a2'', 1, ''_init_pcb():&#160;scheduler.c''), (''../scheduler_8h.html#a7c1955d1244df73658ca9f3ef9e0a1a2'', 1, ''_init_pcb():&#160;scheduler.c'')]),
     (''_5fnext_5fpid'', ''_next_pid'', [(''../process_8c.html#a50dae84e2859a82a22e293be6d6dc55c'', 1, ''_next_pid():&#160;process.c''), (''../process_8h.html#a50dae84e2859a82a22e293be6d6dc55c'', 1, ''_next_pid():&#160;process.c'')]),
     (''_5fnow'', ''_now'', [(''../clock_8c.html#ac82dd9b92b3bb8f31d2f085f672a7dc7'', 1, ''_now():&#160;clock.c''), (''../clock_8h.html#a0ba4a39490659ac1aa5049f9a7be731b'', 1, ''_now():&#160;clock.c'')]),
     (''_5fpcbs'', ''_pcbs'', [(''../process_8c.html#aedaf82fa467ce7c33a2c3e2eaf737a09'', 1, ''_pcbs():&#160;process.c''), (''../process_8h.html#ae1bfeb9fca92ad4010cfaf73701fa326'', 1, ''_pcbs():&#160;process.c'')]),
     (''_5freading'', ''_reading'', [(''../sio_8c.html#a390715f138bbf2cccd27e12f870677b5'', 1, ''_reading():&#160;sio.c''), (''../sio_8h.html#a390715f138bbf2cccd27e12f870677b5'', 1, ''_reading():&#160;sio.c'')]),
     (''_5fready'', ''_ready'', [(''../scheduler_8c.html#abd5864b82625de96b1df122448f8466c'', 1, ''_ready():&#160;scheduler.c''), (''../scheduler_8h.html#a1b4d73a6fe2b5d583a364664104a933a'', 1, ''_ready():&#160;scheduler.c'')]),
     (''_5fsleeping'', ''_sleeping'', [(''../process_8c.html#a5d39b6ad605a1a3fc191fd28ad670068'', 1, ''_sleeping():&#160;process.c''), (''../process_8h.html#a5d39b6ad605a1a3fc191fd28ad670068'', 1, ''_sleeping():&#160;process.c'')]),
     (''_5fsystem_5fesp'', ''_system_esp'', [(''../stack_8c.html#a2b460bf3afcb44844b813e608083883e'', 1, ''_system_esp():&#160;stack.c''), (''../stack_8h.html#a2b460bf3afcb44844b813e608083883e'', 1, ''_system_esp():&#160;stack.c'')]),
     (''_5fsystem_5fstack'', ''_system_stack'', [(''../stack_8c.html#a34217489254f76fce39c6ed6bd5674ab'', 1, ''_system_stack():&#160;stack.c''), (''../stack_8h.html#a34217489254f76fce39c6ed6bd5674ab'', 1, ''_system_stack():&#160;stack.c'')]),
     (''_5fwaiting'', ''_waiting'', [(''../syscall_8c.html#a22de14a84a41ba3ed845afecc77325da'', 1, ''_waiting():&#160;syscall.c''), (''../syscall_8h.html#a22de14a84a41ba3ed845afecc77325da'', 1, ''_waiting():&#160;syscall.c'')]),
     (''_5fzombie'', ''_zombie'', [(''../syscall_8c.html#a7603c42567368622a5843613bd727359'', 1, ''_zombie():&#160;syscall.c''), (''../syscall_8h.html#a7603c42567368622a5843613bd727359'', 1, ''_zombie():&#160;syscall.c'')])]"

definition searchData_variables_1 :: "search_entry list" where
  "searchData_variables_1 =
    [(''access'', ''access'', [(''../structGDTEntry__s.html#a37d539683365e6c531696611bcff0476'', 1, ''GDTEntry_s::access()''), (''../GDTEntry_8h.html#a8b0d6200bc639dd37ff68847a0adde5f'', 1, ''access():&#160;GDTEntry.h'')]),
     (''arp'', ''arp'', [(''../unioneth__payload__t.html#ae67ebb5a8ec7ef26b4297a7dbc40e48f'', 1, ''eth_payload_t'')]),
     (''attr'', ''attr'', [(''../struct__ft__de__inmem.html#a5dd8a8c1bd060607ba238eb99de94dc2'', 1, ''_ft_de_inmem'')]),
     (''attribute'', ''attribute'', [(''../struct__ft__de__sd.html#ad721f560f00e2622ce8c84e154d4e611'', 1, ''_ft_de_sd'')]),
     (''avail_5fcb'', ''avail_cb'', [(''../structnic__info.html#af8c67c97e1e5c6a72c34c4b2e0478116'', 1, ''nic_info'')]),
     (''ax'', ''ax'', [(''../structregs16__s.html#a6986addc978c80891b78af7635c37777'', 1, ''regs16_s::ax()''), (''../realmode_8h.html#aa36a86784c890cf9057d9e88a569327d'', 1, ''ax():&#160;realmode.h'')])]"

definition searchData_variables_2 :: "search_entry list" where
  "searchData_variables_2 =
    [(''banksize'', ''BankSize'', [(''../structVBE2ModeInfo__s.html#a0bcdb111d2c06a404520823db24cad28'', 1, ''VBE2ModeInfo_s::BankSize()''), (''../structVBE3ModeInfo__s.html#a83c213065f3daea031a61677c50211d3'', 1, ''VBE3ModeInfo_s::BankSize()''), (''../VBE2ModeInfo_8h.html#a7e31ea09e6e6755e3a504b9c76b3f545'', 1, ''BankSize():&#160;VBE2ModeInfo.h''), (''../VBE3ModeInfo_8h.html#a7e31ea09e6e6755e3a504b9c76b3f545'', 1, ''BankSize():&#160;VBE3ModeInfo.h'')]),
     (''base'', ''base'', [(''../structGDTEntry__s.html#a7f2ed665836b3306b2270feac8e30252'', 1, ''GDTEntry_s::base()''), (''../structmemory__map____64__s.html#a59b877fa204d6c2f62aa197d0e848695'', 1, ''memory_map__64_s::base()''), (''../structmm__entry__s.html#afb078145557831564ee021e1ba8ba32b'', 1, ''mm_entry_s::base()''), (''../GDTEntry_8h.html#aeca790c0426654358d031f8180e84aca'', 1, ''base():&#160;GDTEntry.h''), (''../memory__map_8h.html#aeca790c0426654358d031f8180e84aca'', 1, ''base():&#160;memory_map.h'')]),
     (''base_5fh'', ''base_h'', [(''../structmemory__map____32__s.html#a3c38e28983ecb1b7deb0eaa9058fd36e'', 1, ''memory_map__32_s::base_h()''), (''../structmm__entry__s.html#a3962698d3700d141b1afc02340b35935'', 1, ''mm_entry_s::base_h()''), (''../memory__map_8h.html#a54496198511f58f31514888835826e7a'', 1, ''base_h():&#160;memory_map.h'')]),
     (''base_5fhi'', ''base_hi'', [(''../structGDTEntry__s.html#ad01ea43e865394251ca3b202c1e0ee1e'', 1, ''GDTEntry_s::base_hi()''), (''../GDTEntry_8h.html#ad3b4120e817341c34f9fa0aa74b83e8b'', 1, ''base_hi():&#160;GDTEntry.h'')]),
     (''base_5fl'', ''base_l'', [(''../structmemory__map____32__s.html#abc1f0084b901ed2a6fb8ec5cc34b0253'', 1, ''memory_map__32_s::base_l()''), (''../structmm__entry__s.html#afa3695ed42e9e77a9b534e5e3f644956'', 1, ''mm_entry_s::base_l()''), (''../memory__map_8h.html#aabdaa6a38ae8c7cee22ca6abb7839b33'', 1, ''base_l():&#160;memory_map.h'')]),
     (''base_5flo'', ''base_lo'', [(''../structGDTEntry__s.html#a8ac39ba0d46239247149f17acb9aa334'', 1, ''GDTEntry_s::base_lo()''), (''../GDTEntry_8h.html#a9f375b4a30588890fbf45e786ede6176'', 1, ''base_lo():&#160;GDTEntry.h'')]),
     (''bitsperpixel'', ''BitsPerPixel'', [(''../structVBE2ModeInfo__s.html#a3e210bad564e98a6c05f5b1c3e9ef7dc'', 1, ''VBE2ModeInfo_s::BitsPerPixel()''), (''../structVBE3ModeInfo__s.html#af4c8e10ecbc1575540c9dfeb31c511fa'', 1, ''VBE3ModeInfo_s::BitsPerPixel()''), (''../VBE2ModeInfo_8h.html#a03756ae144fce823087a2a4255bf4bb1'', 1, ''BitsPerPixel():&#160;VBE2ModeInfo.h''), (''../VBE3ModeInfo_8h.html#a03756ae144fce823087a2a4255bf4bb1'', 1, ''BitsPerPixel():&#160;VBE3ModeInfo.h'')]),
     (''bluefieldposition'', ''BlueFieldPosition'', [(''../structVBE2ModeInfo__s.html#a0f592c5965422843e1fcb24312336bcf'', 1, ''VBE2ModeInfo_s::BlueFieldPosition()''), (''../structVBE3ModeInfo__s.html#a3fb919b563591288be270196796593a9'', 1, ''VBE3ModeInfo_s::BlueFieldPosition()''), (''../VBE2ModeInfo_8h.html#a4d0396c07a4f07556332fec2b4a6c2bf'', 1, ''BlueFieldPosition():&#160;VBE2ModeInfo.h''), (''../VBE3ModeInfo_8h.html#a4d0396c07a4f07556332fec2b4a6c2bf'', 1, ''BlueFieldPosition():&#160;VBE3ModeInfo.h'')]),
     (''bluemasksize'', ''BlueMaskSize'', [(''../structVBE2ModeInfo__s.html#a00f1d8623b14d9f7dc5dae7326abe7ee'', 1, ''VBE2ModeInfo_s::BlueMaskSize()''), (''../structVBE3ModeInfo__s.html#a51ef5065e172363b201919ae2dfc76e7'', 1, ''VBE3ModeInfo_s::BlueMaskSize()''), (''../VBE2ModeInfo_8h.html#a84842a6a42e881ce7be87482122bcc4e'', 1, ''BlueMaskSize():&#160;VBE2ModeInfo.h''), (''../VBE3ModeInfo_8h.html#a84842a6a42e881ce7be87482122bcc4e'', 1, ''BlueMaskSize():&#160;VBE3ModeInfo.h'')]),
     (''bluewhitelowbits'', ''BlueWhiteLowBits'', [(''../structEDIDRecord__s.html#aad0a71360aec8a80be7dd3f41b7ab2cc'', 1, ''EDIDRecord_s::BlueWhiteLowBits()''), (''../EDIDRecord_8h.html#a8bb9245dbf198de351ac93a0f0d4c3fc'', 1, ''BlueWhiteLowBits():&#160;EDIDRecord.h'')]),
     (''bluex'', ''BlueX'', [(''../structEDIDRecord__s.html#a5a500c0c0682192b3fee7c98d02a7b50'', 1, ''EDIDRecord_s::BlueX()''), (''../EDIDRecord_8h.html#afa2b7d9b60fd795c97d3cd84d4f0a61e'', 1, ''BlueX():&#160;EDIDRecord.h'')]),
     (''bluey'', ''BlueY'', [(''../structEDIDRecord__s.html#a029bda41e1de943096af9a0158ee1b31'', 1, ''EDIDRecord_s::BlueY()''), (''../EDIDRecord_8h.html#a91d6417140abbad97fe8c19daa3dffb5'', 1, ''BlueY():&#160;EDIDRecord.h'')]),
     (''bnknumberofimagepages'', ''BnkNumberOfImagePages'', [(''../structVBE3ModeInfo__s.html#a04f11e5cf21887760a1c00f863aed034'', 1, ''VBE3ModeInfo_s::BnkNumberOfImagePages()''), (''../VBE3ModeInfo_8h.html#a33ba903e149724b1bc99b3b8e43a7cbe'', 1, ''BnkNumberOfImagePages():&#160;VBE3ModeInfo.h'')]),
     (''bootablepartsig'', ''bootablepartsig'', [(''../struct__ft__bpb.html#ac6fdae0677fd8832fbb0305550d2d3bd'', 1, ''_ft_bpb'')]),
     (''bootcode'', ''bootcode'', [(''../struct__ft__bpb.html#a3f6f8d2cd359fadcd3fcea6e21c38ff2'', 1, ''_ft_bpb'')]),
     (''bootguard'', ''bootguard'', [(''../struct__ft__bpb.html#a22a3193100c0df301a79e363fa977bb6'', 1, ''_ft_bpb'')]),
     (''bp'', ''bp'', [(''../structregs16__s.html#a18758f057a1707e11cd31d86ceffb846'', 1, ''regs16_s::bp()''), (''../realmode_8h.html#aa5efa50f93ea2f66f954e01613065061'', 1, ''bp():&#160;realmode.h'')]),
     (''bpp'', ''bpp'', [(''../structVideoFb__s.html#a594ebad6f58cf9fd9389560526bd61a4'', 1, ''VideoFb_s'')]),
     (''buf'', ''buf'', [(''../structVCon__s.html#a93b7404f44d1413f3b64d6a773e5a81c'', 1, ''VCon_s::buf()''), (''../unionVideoInfo__u.html#ac59a09d0a056107fe06793c43f93bfcf'', 1, ''VideoInfo_u::buf()'')]),
     (''buffer'', ''buffer'', [(''../struct__io__message.html#a4de804ad375ab0af139426b57d45d57d'', 1, ''_io_message'')]),
     (''bx'', ''bx'', [(''../structregs16__s.html#a438532dfa4d175d2361a85ff1688f5e5'', 1, ''regs16_s::bx()''), (''../realmode_8h.html#a4e6518f8720c82b415f924298a7ff00c'', 1, ''bx():&#160;realmode.h'')]),
     (''bytesperglyph'', ''bytesPerGlyph'', [(''../structPSFont__s.html#ac041bddda28451ccf3d31984e24f84bf'', 1, ''PSFont_s'')]),
     (''bytesperscanline'', ''BytesPerScanLine'', [(''../structVBE2ModeInfo__s.html#ad4553a1950f0da8601dbb56213946234'', 1, ''VBE2ModeInfo_s::BytesPerScanLine()''), (''../structVBE3ModeInfo__s.html#a5d3d55149b2f28ce430d142f757d5b31'', 1, ''VBE3ModeInfo_s::BytesPerScanLine()''), (''../VBE2ModeInfo_8h.html#afe40654a51bf4a12a8b376ff3506688e'', 1, ''BytesPerScanLine():&#160;VBE2ModeInfo.h''), (''../VBE3ModeInfo_8h.html#afe40654a51bf4a12a8b376ff3506688e'', 1, ''BytesPerScanLine():&#160;VBE3ModeInfo.h'')])]"

definition searchData_variables_3 :: "search_entry list" where
  "searchData_variables_3 =
    [(''cache'', ''cache'', [(''../struct__ft__ctxt__block.html#a005fe6e06353e8ea199906fa2d06625e'', 1, ''_ft_ctxt_block'')]),
     (''capabilities'', ''capabilities'', [(''../structVBEInfo__s.html#a28b36fd6cb0d17624cfafd74be515301'', 1, ''VBEInfo_s::capabilities()''), (''../structVideoInfo__s.html#acfc399e447acccb2906d1d7b0c3828c9'', 1, ''VideoInfo_s::capabilities()''), (''../VBEInfo_8h.html#a04532f57b1eebac73f24b2a02dab161f'', 1, ''capabilities():&#160;VBEInfo.h'')]),
     (''cb_5fto_5fcheck'', ''cb_to_check'', [(''../structnic__info.html#ad8a2b200e7e7512449310ab6139b2074'', 1, ''nic_info'')]),
     (''cfg'', ''cfg'', [(''../structcb.html#a8994aa319921e82336f6f68215cecffb'', 1, ''cb'')]),
     (''character'', ''character'', [(''../structVConChar__s.html#a67b6dc488b0a5695536d4c53cc696e4c'', 1, ''VConChar_s'')]),
     (''chartable'', ''charTable'', [(''../structVConBuf__s.html#a8e71d7b7d7d3ab98e267494b9d312dd8'', 1, ''VConBuf_s'')]),
     (''chartablesize'', ''charTableSize'', [(''../structVConBuf__s.html#a7da1b25f28c54ccb4d14a301a0b24e6b'', 1, ''VConBuf_s'')]),
     (''checksum'', ''Checksum'', [(''../structEDIDRecord__s.html#af50c153078cea6798ef2f56f0eeadd55'', 1, ''EDIDRecord_s::Checksum()''), (''../EDIDRecord_8h.html#ad98d5051c2e94669e746dd13771daac8'', 1, ''Checksum():&#160;EDIDRecord.h'')]),
     (''child_5fcount'', ''child_count'', [(''../struct__ft__de__inmem.html#a6ce46514198c2d27b1a20e1e466df19d'', 1, ''_ft_de_inmem'')]),
     (''children'', ''children'', [(''../structpcb.html#a9a50273ff10a912927485c4e0e2ed636'', 1, ''pcb'')]),
     (''chksm'', ''chksm'', [(''../structicmp__t.html#a30ba8d409e3916e3654a3170bee434cb'', 1, ''icmp_t'')]),
     (''cio_5fautoflush'', ''CIO_AUTOFLUSH'', [(''../c__io_8c.html#ad4c8ccd81a73d71cf5f09a16a1147cb3'', 1, ''CIO_AUTOFLUSH():&#160;c_io.c''), (''../c__io_8h.html#ad4c8ccd81a73d71cf5f09a16a1147cb3'', 1, ''CIO_AUTOFLUSH():&#160;c_io.c'')]),
     (''cio_5fcontroller'', ''CIO_CONTROLLER'', [(''../c__io_8c.html#a30090a751524d7a9d92a49eb300ad3b7'', 1, ''CIO_CONTROLLER():&#160;c_io.c''), (''../c__io_8h.html#a30090a751524d7a9d92a49eb300ad3b7'', 1, ''CIO_CONTROLLER():&#160;c_io.c'')]),
     (''cluster_5fparent_5fde'', ''cluster_parent_de'', [(''../struct__ft__de__inmem.html#a6f7d9ebb43a56d8da0e33175d32f3d66'', 1, ''_ft_de_inmem'')]),
     (''cluster_5fsize'', ''cluster_size'', [(''../struct__ft__ctxt__block.html#a411c8422cb9057f1e8adda10e9aa84bb'', 1, ''_ft_ctxt_block'')]),
     (''cluster_5fstart'', ''cluster_start'', [(''../struct__ft__de__inmem.html#a5b8f344f5379eaf67cd413e891dafe4d'', 1, ''_ft_de_inmem'')]),
     (''clusters_5fper_5ffat'', ''clusters_per_fat'', [(''../struct__ft__ctxt__block.html#a22e3bdc11335f0aac747e17c4177e3ec'', 1, ''_ft_ctxt_block'')]),
     (''clustnumroot'', ''clustnumroot'', [(''../struct__ft__bpb.html#a049a3cff8c4e9470f7fe3d28fa3e932d'', 1, ''_ft_bpb'')]),
     (''cmp'', ''cmp'', [(''../structst__queue.html#aedec6d1f8ba90c0a9830afb3cb1f3a87'', 1, ''st_queue'')]),
     (''cnt_5ffree_5fclust'', ''cnt_free_clust'', [(''../struct__ft__fsinfo.html#aad986c945a07d1215ac145d16a08ebd4'', 1, ''_ft_fsinfo'')]),
     (''cntclustfat'', ''cntclustfat'', [(''../struct__ft__bpb.html#a150f6b570165bb4cc96b1eca3ea9b045'', 1, ''_ft_bpb'')]),
     (''cntfat1216'', ''cntfat1216'', [(''../struct__ft__bpb.html#a0662559d0376124bcaf2303bf7f6c428'', 1, ''_ft_bpb'')]),
     (''cntfats'', ''cntfats'', [(''../struct__ft__bpb.html#af2f9393791493fa3b2a5eff295be6a58'', 1, ''_ft_bpb'')]),
     (''cntheadsdisk'', ''cntheadsdisk'', [(''../struct__ft__bpb.html#ad2cd426faf0e9f97068bcb4c55f391f4'', 1, ''_ft_bpb'')]),
     (''cntlrgsectors'', ''cntlrgsectors'', [(''../struct__ft__bpb.html#a583a9bbd58da6d3750487b138abe39a5'', 1, ''_ft_bpb'')]),
     (''cntpart'', ''cntpart'', [(''../struct__ft__bpb.html#a8ee09115e590190d5be4c87e30fa566b'', 1, ''_ft_bpb'')]),
     (''cntreservedsectors'', ''cntreservedsectors'', [(''../struct__ft__bpb.html#a2d1278deef19d37c59d0e10131324b2e'', 1, ''_ft_bpb'')]),
     (''cntsectors'', ''cntsectors'', [(''../struct__ft__bpb.html#a84f5eba7891979b9217def086968a23a'', 1, ''_ft_bpb'')]),
     (''cntsectperfat'', ''cntsectperfat'', [(''../struct__ft__bpb.html#abd63700877e35ead3ffac0ed832e05d4'', 1, ''_ft_bpb'')]),
     (''cntsectpertrack'', ''cntsectpertrack'', [(''../struct__ft__bpb.html#a209a6b3a2635b8e3bbdf0830bd5464ce'', 1, ''_ft_bpb'')]),
     (''code'', ''code'', [(''../structcontext.html#a7da31c210cb2c3ca8b27fe7e9f272542'', 1, ''context::code()''), (''../structicmp__t.html#a2df2560fff169ad415ead37d5d3df19e'', 1, ''icmp_t::code()'')]),
     (''color'', ''color'', [(''../structVConChar__s.html#a57d9273df7c658c9d7c50bbb92e50bab'', 1, ''VConChar_s'')]),
     (''colorspace'', ''colorspace'', [(''../structVideoFb__s.html#a23bcef1f93d53bd8f39a1ab6a4c28227'', 1, ''VideoFb_s'')]),
     (''columns'', ''columns'', [(''../structVCon__s.html#acf1c367261584603ee864c910d34c14c'', 1, ''VCon_s'')]),
     (''command'', ''command'', [(''../structrfd__t.html#ad7d153049116a5b4036eab06bbbd3e86'', 1, ''rfd_t::command()''), (''../structcsr.html#a79e1ea2b9bd6d667425c6dac29db4387'', 1, ''csr::command()''), (''../structcb.html#a029a4a7f4eef84258e5a06ce49dc85a6'', 1, ''cb::command()'')]),
     (''compat1'', ''compat1'', [(''../struct__ft__bpb.html#a2cdcd92e07e9e4294cdc132ea998fbec'', 1, ''_ft_bpb'')]),
     (''compatguard'', ''compatguard'', [(''../struct__ft__fsinfo.html#a5c0e9385c1cafe46748f37379d31f0e8'', 1, ''_ft_fsinfo'')]),
     (''constant'', ''constant'', [(''../struct__ft__de__longname.html#a33ab0d40178a291fa52f6d39ad64aa35'', 1, ''_ft_de_longname'')]),
     (''constantthree'', ''constantthree'', [(''../struct__ft__de__longname.html#aaed7e6dd629818ef19781571e8a5ee37'', 1, ''_ft_de_longname'')]),
     (''constanttwo'', ''constanttwo'', [(''../struct__ft__de__longname.html#a5b15be9e94e36abd519e3de17553bf7d'', 1, ''_ft_de_longname'')]),
     (''context'', ''context'', [(''../structpcb.html#a26980adf575550b992962890c8c4dccd'', 1, ''pcb'')]),
     (''controller'', ''controller'', [(''../structVCon__s.html#a4dcaad5b1a1bca99e9225048813d57a0'', 1, ''VCon_s'')]),
     (''count'', ''count'', [(''../structrfd__t.html#ac687c2bc329ec13fb1e454ec9f7a8c0c'', 1, ''rfd_t'')]),
     (''create_5fdate'', ''create_date'', [(''../struct__ft__de__sd.html#abfeaa0de9b9c98281b8fcf5e36ccd965'', 1, ''_ft_de_sd'')]),
     (''create_5ftime'', ''create_time'', [(''../struct__ft__de__sd.html#ac34bd7f0f38481aeae47c4d4c544f84d'', 1, ''_ft_de_sd'')]),
     (''create_5ftime_5ftenths_5fs'', ''create_time_tenths_s'', [(''../struct__ft__de__sd.html#af8f1bc489f70019880f43d425c75f886'', 1, ''_ft_de_sd'')]),
     (''created'', ''created'', [(''../struct__io__file__instance.html#af64b82a416f096b5f71e6021812c3da3'', 1, ''_io_file_instance::created()''), (''../struct__ft__de__inmem.html#a1bd358f3ce8b6d041feba6c9c38d1ee7'', 1, ''_ft_de_inmem::created()'')]),
     (''cs'', ''cs'', [(''../structcontext.html#a6100bf694b341be0b7ed071330fa2493'', 1, ''context'')]),
     (''csr'', ''csr'', [(''../structnic__info.html#a1d3acc2596d7926faa0be60d2a735888'', 1, ''nic_info'')]),
     (''ctx'', ''ctx'', [(''../structVConCtrl__s.html#a36cafb4be739af818ce7953df21f7453'', 1, ''VConCtrl_s'')]),
     (''current'', ''current'', [(''../structVConCtrl__s.html#ae9bd4300eb7066e04e0c18cf57e07fd4'', 1, ''VConCtrl_s'')]),
     (''cursor'', ''cursor'', [(''../struct__io__file__instance.html#a4b27c1472432d94ff10d502106be8b14'', 1, ''_io_file_instance'')]),
     (''cursorx'', ''cursorX'', [(''../structVCon__s.html#aa8686814436e3bb0a58cae784e2da85f'', 1, ''VCon_s'')]),
     (''cursory'', ''cursorY'', [(''../structVCon__s.html#ada44f063cac45f48421a9a37fb8a9f07'', 1, ''VCon_s'')]),
     (''cx'', ''cx'', [(''../structregs16__s.html#ac4d9964397d17829def3a72e69a10b35'', 1, ''regs16_s::cx()''), (''../realmode_8h.html#ab7507b7cdbdf013abc60f6a18ab5cd45'', 1, ''cx():&#160;realmode.h'')])]"

definition searchData_variables_4 :: "search_entry list" where
  "searchData_variables_4 =
    [(''data'', ''data'', [(''../structst__qnode.html#a2ad36484bb783258715366df1fe9fd1a'', 1, ''st_qnode::data()''), (''../structrfd__t.html#a8f5220da95077fbe0bfd61090b73aefe'', 1, ''rfd_t::data()''), (''../unioneth__payload__t.html#a819a4bdb83c5df6bb6328acb66fae430'', 1, ''eth_payload_t::data()'')]),
     (''day'', ''day'', [(''../struct__f32__time.html#abfdf7ccaaafabe142a1dca213aa49f5a'', 1, ''_f32_time::day()''), (''../struct__ft__date__packed.html#a4abd82dcbd871cdc490122d125f85349'', 1, ''_ft_date_packed::day()'')]),
     (''detailedtimings'', ''DetailedTimings'', [(''../structEDIDRecord__s.html#a72351a783ebeb1895f71124e6dc90eb1'', 1, ''EDIDRecord_s::DetailedTimings()''), (''../EDIDRecord_8h.html#a3f94ff93a912d1662c56a53b2ed910f3'', 1, ''DetailedTimings():&#160;EDIDRecord.h'')]),
     (''device'', ''device'', [(''../struct__io__message.html#a4c5bb392a4f3a71f3d834b841840a25a'', 1, ''_io_message::device()''), (''../struct__io__mount.html#a7f5172dfc623e5d90281ad66d09a02d9'', 1, ''_io_mount::device()'')]),
     (''di'', ''di'', [(''../structregs16__s.html#a3a75fcbd66b32fc6c04e2bd6197d0a6b'', 1, ''regs16_s::di()''), (''../realmode_8h.html#aaea7b514ca0c80db1989dc43cf4fe3c1'', 1, ''di():&#160;realmode.h'')]),
     (''directcolormodeinfo'', ''DirectColorModeInfo'', [(''../structVBE2ModeInfo__s.html#a621bc4981a166b4d06108fc41c24e276'', 1, ''VBE2ModeInfo_s::DirectColorModeInfo()''), (''../structVBE3ModeInfo__s.html#aec1c62b9ec01f737e8e6bba2e4b2c7e9'', 1, ''VBE3ModeInfo_s::DirectColorModeInfo()''), (''../VBE2ModeInfo_8h.html#a3bf2fd2394ec8649ec3d26104be35dd7'', 1, ''DirectColorModeInfo():&#160;VBE2ModeInfo.h''), (''../VBE3ModeInfo_8h.html#a3bf2fd2394ec8649ec3d26104be35dd7'', 1, ''DirectColorModeInfo():&#160;VBE3ModeInfo.h'')]),
     (''drawcol'', ''drawCol'', [(''../structPaintContext__s.html#aa8fd371b75248804fe655975df80f585'', 1, ''PaintContext_s'')]),
     (''driver'', ''driver'', [(''../struct__ft__ctxt__block.html#a4bd6e33c50281a732f42795ca0fe634f'', 1, ''_ft_ctxt_block'')]),
     (''ds'', ''ds'', [(''../structcontext.html#a84ee51730efb85654508b5dc4d2d67c2'', 1, ''context::ds()''), (''../structregs16__s.html#a3351ea4fdcf8a7c14f83975b2a9cfe17'', 1, ''regs16_s::ds()''), (''../early_2realmode_8h.html#a1593f2113f73ecbc0e6a92e41fa76d14'', 1, ''ds():&#160;realmode.h''), (''../realmode_8h.html#a1593f2113f73ecbc0e6a92e41fa76d14'', 1, ''ds():&#160;realmode.h'')]),
     (''dscp'', ''dscp'', [(''../structipv4__t.html#ae9e1248c089d6c75c7b6f9df6a030c5d'', 1, ''ipv4_t'')]),
     (''dst_5fip'', ''dst_ip'', [(''../structipv4__t.html#aacc553a3f23ccb47034ec2917611471f'', 1, ''ipv4_t'')]),
     (''dst_5fmac'', ''dst_mac'', [(''../structeth__packet__t.html#a1efa66f4b1cf066022568b593ea55623'', 1, ''eth_packet_t::dst_mac()''), (''../struct____attribute____.html#ac915af67b5818d1bc118d56332e3c2c4'', 1, ''__attribute__::dst_mac()'')]),
     (''dx'', ''dx'', [(''../structregs16__s.html#a47728adf6c413531099601bde4454d99'', 1, ''regs16_s::dx()''), (''../realmode_8h.html#a374e1469a63c917a6c5af9366893eca2'', 1, ''dx():&#160;realmode.h'')])]"

definition searchData_variables_5 :: "search_entry list" where
  "searchData_variables_5 =
    [(''eax'', ''eax'', [(''../structcontext.html#a56aef6cd014c51b3b9b1cc0c09a66ed0'', 1, ''context::eax()''), (''../structregs16__s.html#acc98672e7e2cc0924c417495534786b8'', 1, ''regs16_s::eax()''), (''../early_2realmode_8h.html#a93d929ad1fc57af9d4f1793c361fb4f2'', 1, ''eax():&#160;realmode.h'')]),
     (''ebp'', ''ebp'', [(''../structcontext.html#a77550dcb1817c207c7c7191ba4f23ea8'', 1, ''context::ebp()''), (''../structregs16__s.html#a02cae8d9c71ca29331dc545c7c647586'', 1, ''regs16_s::ebp()''), (''../early_2realmode_8h.html#aaba2ad0ff8ba480934feabfdab02b1e7'', 1, ''ebp():&#160;realmode.h'')]),
     (''ebx'', ''ebx'', [(''../structcontext.html#a9faeb815263b24dd7a48512919470c01'', 1, ''context::ebx()''), (''../structregs16__s.html#a595c5a3f9884a0b7ea368c5e40673066'', 1, ''regs16_s::ebx()''), (''../early_2realmode_8h.html#ae7c1e3339e4dead200cab41010e9127c'', 1, ''ebx():&#160;realmode.h'')]),
     (''ecn'', ''ecn'', [(''../structipv4__t.html#a1a04d31a0384c9f40cb42fcbde4bf7e1'', 1, ''ipv4_t'')]),
     (''ecx'', ''ecx'', [(''../structcontext.html#a4cb6fc496aa91cbc2584f939bb9264d2'', 1, ''context::ecx()''), (''../structregs16__s.html#a21887f1b0837a7fe9cb59dd674165496'', 1, ''regs16_s::ecx()''), (''../early_2realmode_8h.html#af2b16bef95c844028dd145264d1d3875'', 1, ''ecx():&#160;realmode.h'')]),
     (''edi'', ''edi'', [(''../structcontext.html#a6275aca9e64f37cbcf4a13b6aa18e319'', 1, ''context::edi()''), (''../structregs16__s.html#ad5b4ddccb2e9f9d446c641152b1ebbf4'', 1, ''regs16_s::edi()''), (''../early_2realmode_8h.html#a36ffab8d34c6c411a7e5205ddb95eaf9'', 1, ''edi():&#160;realmode.h'')]),
     (''edx'', ''edx'', [(''../structcontext.html#aa590c854aee003c59d4a14fddc110e46'', 1, ''context::edx()''), (''../structregs16__s.html#ab3ca7588cc10ad684bbfe2653d9bd301'', 1, ''regs16_s::edx()''), (''../early_2realmode_8h.html#ae6db045cebe7b4cf979120dccdee0d01'', 1, ''edx():&#160;realmode.h'')]),
     (''eeprom'', ''eeprom'', [(''../structnic__info.html#a5775870a01e3941f1f5363d47f5a6fd0'', 1, ''nic_info'')]),
     (''eeprom_5fcount'', ''eeprom_count'', [(''../structnic__info.html#a3e5f6a9c0440800cfbda4d28ef445d83'', 1, ''nic_info'')]),
     (''eeprom_5fhi'', ''eeprom_hi'', [(''../structcsr.html#a5301d62f38fc1aad17783adf20c9888b'', 1, ''csr'')]),
     (''eeprom_5flo'', ''eeprom_lo'', [(''../structcsr.html#a71bd680b70d3be90021774adb30674b5'', 1, ''csr'')]),
     (''eflags'', ''eflags'', [(''../structcontext.html#af5f2bbcddfe9b19665e02f8a2bb270f3'', 1, ''context::eflags()''), (''../structregs16__s.html#a072ce52479b3ed32403e60ea59b08146'', 1, ''regs16_s::eflags()''), (''../structregs16__s.html#ae76e93c2531326a0c11f9537f13ff493'', 1, ''regs16_s::eflags()''), (''../early_2realmode_8h.html#aeedfc39703ec8e0a1f052a832e74acd3'', 1, ''eflags():&#160;realmode.h''), (''../realmode_8h.html#a0a2cef25cf22a256d8b2e19f8d9e7ab3'', 1, ''eflags():&#160;realmode.h'')]),
     (''eip'', ''eip'', [(''../structcontext.html#a0ca608b8894874d921ed6d14dcd2a0b9'', 1, ''context'')]),
     (''entry_5fstat'', ''entry_stat'', [(''../struct__ft__de__sd.html#ac3e173651232e096daf724aa4f42359c'', 1, ''_ft_de_sd'')]),
     (''entry_5fstat_5freserved'', ''entry_stat_reserved'', [(''../struct__ft__de__sd.html#a367d38d32316b6cb8265cf5e4873fd44'', 1, ''_ft_de_sd'')]),
     (''es'', ''es'', [(''../structcontext.html#af47d36d443413b930ffdfbe41ee69cab'', 1, ''context::es()''), (''../structregs16__s.html#a311a9eb40feaec8ecff9ae8d5383dff6'', 1, ''regs16_s::es()''), (''../early_2realmode_8h.html#af357bdb3df3a648a2440e22792993cea'', 1, ''es():&#160;realmode.h''), (''../realmode_8h.html#af357bdb3df3a648a2440e22792993cea'', 1, ''es():&#160;realmode.h'')]),
     (''esi'', ''esi'', [(''../structcontext.html#abd7bf6d2bc464e1b77b84ffc7d037850'', 1, ''context::esi()''), (''../structregs16__s.html#ab696cacaa5e7fd0f6362e444edd58371'', 1, ''regs16_s::esi()''), (''../early_2realmode_8h.html#ada78e3124de6adf5a5d212f9ebc4bbe0'', 1, ''esi():&#160;realmode.h'')]),
     (''esp'', ''esp'', [(''../structcontext.html#afc6e387a2d9962e1bbdc52fb4dd0dbbf'', 1, ''context::esp()''), (''../structregs16__s.html#aeb3430b93309574ffc34144f05fdb5f6'', 1, ''regs16_s::esp()''), (''../early_2realmode_8h.html#a7534a179bc9cc0ef26f0468e0959ee5c'', 1, ''esp():&#160;realmode.h'')]),
     (''established_5ftimings1'', ''ESTABLISHED_TIMINGS1'', [(''../edid_8c.html#a4f61975ee6dcc42a9b6a1293f1d09221'', 1, ''ESTABLISHED_TIMINGS1():&#160;edid.c''), (''../edid_8h.html#a6d1780c715319b1282e2b281c084b83f'', 1, ''ESTABLISHED_TIMINGS1():&#160;edid.c'')]),
     (''established_5ftimings2'', ''ESTABLISHED_TIMINGS2'', [(''../edid_8c.html#a2d1bc8103eed56da6e076e5ed96ef780'', 1, ''ESTABLISHED_TIMINGS2():&#160;edid.c''), (''../edid_8h.html#a798a6f4b82011a2dc9f5605f5b1d9751'', 1, ''ESTABLISHED_TIMINGS2():&#160;edid.c'')]),
     (''estbtimings1'', ''EstbTimings1'', [(''../structEDIDRecord__s.html#a09186244f47ebce09e8c3faa8cb561d6'', 1, ''EDIDRecord_s::EstbTimings1()''), (''../EDIDRecord_8h.html#a1b73f70e6cd05246067741bc27160a91'', 1, ''EstbTimings1():&#160;EDIDRecord.h'')]),
     (''estbtimings2'', ''EstbTimings2'', [(''../structEDIDRecord__s.html#afea9bbbbbf7ed72cbcd8753039bbb0ea'', 1, ''EDIDRecord_s::EstbTimings2()''), (''../EDIDRecord_8h.html#a552d573989c0f56e150d1de10d079cd1'', 1, ''EstbTimings2():&#160;EDIDRecord.h'')]),
     (''eth_5fpacket'', ''eth_packet'', [(''../structcb.html#aba800615d5a26cdfb37b3c8adc65fa70'', 1, ''cb'')]),
     (''ethertype'', ''ethertype'', [(''../structeth__packet__t.html#a624fa9edd1edb4f52c4c8caf16128513'', 1, ''eth_packet_t::ethertype()''), (''../struct____attribute____.html#a985e93257bc05e04dcd8d339ff8e29e8'', 1, ''__attribute__::ethertype()'')]),
     (''execute'', ''execute'', [(''../struct__io__filesystem.html#af8df7479bfd4aa0a358367e2683eabba'', 1, ''_io_filesystem::execute()''), (''../struct__io__middleware.html#a41b25de8dee850c59ce7b7e92c978e9a'', 1, ''_io_middleware::execute()'')]),
     (''exitstatus'', ''exitstatus'', [(''../structpcb.html#aa834d64584aec8a2dfdaf57ccc19bb24'', 1, ''pcb'')]),
     (''extended'', ''extended'', [(''../structmemory__map____32__s.html#a86ff6a3d99b8e3958878ae860e025772'', 1, ''memory_map__32_s::extended()''), (''../structmemory__map____64__s.html#abf5535eef0a121f5ecdfe21764f76b66'', 1, ''memory_map__64_s::extended()''), (''../structmm__entry__s.html#a9004b49dc98b64528cad7a55e2d4b940'', 1, ''mm_entry_s::extended()''), (''../memory__map_8h.html#a1ade3414f6472df58d4291aaaf3b5e1b'', 1, ''extended():&#160;memory_map.h'')]),
     (''extensionflag'', ''ExtensionFlag'', [(''../structEDIDRecord__s.html#ac088e71e51a78616012fa5db203fcfe9'', 1, ''EDIDRecord_s::ExtensionFlag()''), (''../EDIDRecord_8h.html#acdd766a44d2be170ed0751bf99a113b4'', 1, ''ExtensionFlag():&#160;EDIDRecord.h'')])]"

definition searchData_variables_6 :: "search_entry list" where
  "searchData_variables_6 =
    [(''fatversion'', ''fatversion'', [(''../struct__ft__bpb.html#aed2e10b67ed6f64f0ebaf342e7d54e4d'', 1, ''_ft_bpb'')]),
     (''fb'', ''fb'', [(''../structPaintContext__s.html#a5c2a5082f1a656937e93829d02028457'', 1, ''PaintContext_s::fb()''), (''../structVideoMode__s.html#a6345d3d9cf95889ed26b233d5e6cf59f'', 1, ''VideoMode_s::fb()'')]),
     (''featuresupport'', ''FeatureSupport'', [(''../structEDIDRecord__s.html#a931fcb1af7bc5f3bbe396210651e9de5'', 1, ''EDIDRecord_s::FeatureSupport()''), (''../EDIDRecord_8h.html#a91f87779f7929e4f8b3750602c641d59'', 1, ''FeatureSupport():&#160;EDIDRecord.h'')]),
     (''filesize'', ''filesize'', [(''../struct__ft__de__sd.html#a4ae5dbcc5a5042db348fc41c729b9a4e'', 1, ''_ft_de_sd::filesize()''), (''../struct__ft__de__inmem.html#a34118a3f383a1c59b09d8c7b94fb0776'', 1, ''_ft_de_inmem::filesize()'')]),
     (''filesystem'', ''filesystem'', [(''../struct__ft__ctxt__block.html#a9574aede28db6c4cb0246288074ef502'', 1, ''_ft_ctxt_block::filesystem()''), (''../struct__io__message.html#af5bac777b2f5cf1d44b50e6f1c5561b1'', 1, ''_io_message::filesystem()''), (''../struct__io__mount.html#a575eefaad4a629aced65f545c3c9423b'', 1, ''_io_mount::filesystem()'')]),
     (''fillcol'', ''fillCol'', [(''../structPaintContext__s.html#a91ebb54f4b47a8c3800cec61e067bb40'', 1, ''PaintContext_s'')]),
     (''filled'', ''filled'', [(''../structarp__entry__t.html#a2e0403943f9b6f6d7ea2e729147005e7'', 1, ''arp_entry_t'')]),
     (''finalchars'', ''finalchars'', [(''../struct__ft__de__longname.html#a29e9c7744e9c116d6ba40c28a6868f70'', 1, ''_ft_de_longname'')]),
     (''finalize'', ''finalize'', [(''../struct__io__device.html#a68d6205a3eda16f78c8083427c4d49bc'', 1, ''_io_device::finalize()''), (''../struct__io__filesystem.html#ad35ec0be223518a06ca2e984b5df2792'', 1, ''_io_filesystem::finalize()'')]),
     (''firstchars'', ''firstchars'', [(''../struct__ft__de__longname.html#a81f91b377d0dfd2fe6645dcd68020fde'', 1, ''_ft_de_longname'')]),
     (''flags'', ''flags'', [(''../structIDT__Gate.html#ad490083231f12095b065d8cea83e1eda'', 1, ''IDT_Gate::flags()''), (''../struct__ft__bpb.html#ab6b6cf2e4b15af8e48d146cbc190b45d'', 1, ''_ft_bpb::flags()''), (''../structGDTEntry__s.html#ab360af05b0e8e72e4e66724e384ed28a'', 1, ''GDTEntry_s::flags()''), (''../structPSFont__s.html#a1704e86008485920b9affe475be7ecdf'', 1, ''PSFont_s::flags()''), (''../structipv4__t.html#a1ff8d12ee56582cb0b9ba7b83aa7f326'', 1, ''ipv4_t::flags()''), (''../GDTEntry_8h.html#aa2585d779da0ab21273a8d92de9a0ebe'', 1, ''flags():&#160;GDTEntry.h'')]),
     (''font'', ''font'', [(''../structPaintContext__s.html#a36695430f4e4fe1d15ca816dfe4345af'', 1, ''PaintContext_s'')]),
     (''frag_5foffset'', ''frag_offset'', [(''../structipv4__t.html#a870a6a3f5dd141a62c577bada72fd08a'', 1, ''ipv4_t'')]),
     (''fs'', ''fs'', [(''../structcontext.html#abbeaa72a6d037466eebfc585cee39521'', 1, ''context::fs()''), (''../structregs16__s.html#a6e666b51ed300bbc5b24ff0a3f817903'', 1, ''regs16_s::fs()''), (''../early_2realmode_8h.html#a0f0c56e90aa29499c942122f0ba709c4'', 1, ''fs():&#160;realmode.h''), (''../realmode_8h.html#a0f0c56e90aa29499c942122f0ba709c4'', 1, ''fs():&#160;realmode.h'')]),
     (''fs_5fgrab_5fbag'', ''fs_grab_bag'', [(''../struct__io__mount.html#a62544e1d57737b3a934cdbbb2ccb983c'', 1, ''_io_mount'')]),
     (''fsinfo'', ''fsinfo'', [(''../struct__ft__bpb.html#a5e28a4e43e6873be3d301ecf46768074'', 1, ''_ft_bpb'')])]"

definition searchData_variables_7 :: "search_entry list" where
  "searchData_variables_7 =
    [(''gamma'', ''Gamma'', [(''../structEDIDRecord__s.html#af1a2910cef27f670c902dbfdc4761bb0'', 1, ''EDIDRecord_s::Gamma()''), (''../EDIDRecord_8h.html#af485f1fd94386845326e6e00dcd12acc'', 1, ''Gamma():&#160;EDIDRecord.h'')]),
     (''gen_5fptr'', ''gen_ptr'', [(''../structcsr.html#a2b19f4255fea7d9f96f4625f8ec4e3ba'', 1, ''csr'')]),
     (''glyphmap'', ''glyphMap'', [(''../structPSFont__s.html#a09635c46861b6c7e3c3992e369f887af'', 1, ''PSFont_s'')]),
     (''glyphs'', ''glyphs'', [(''../structPSFont__s.html#a1fa0939800db8d2f97a430f600e0de50'', 1, ''PSFont_s'')]),
     (''greenfieldposition'', ''GreenFieldPosition'', [(''../structVBE2ModeInfo__s.html#a1aa12c3e30b66a32f105ad7da3bea975'', 1, ''VBE2ModeInfo_s::GreenFieldPosition()''), (''../structVBE3ModeInfo__s.html#aa2ed1f92eadc147bf537e98ebbf7efea'', 1, ''VBE3ModeInfo_s::GreenFieldPosition()''), (''../VBE2ModeInfo_8h.html#a602b28f8e5da781eabfd736743a6ea09'', 1, ''GreenFieldPosition():&#160;VBE2ModeInfo.h''), (''../VBE3ModeInfo_8h.html#a602b28f8e5da781eabfd736743a6ea09'', 1, ''GreenFieldPosition():&#160;VBE3ModeInfo.h'')]),
     (''greenmasksize'', ''GreenMaskSize'', [(''../structVBE2ModeInfo__s.html#a40d16135bbaa21f964c4c5963e0963bf'', 1, ''VBE2ModeInfo_s::GreenMaskSize()''), (''../structVBE3ModeInfo__s.html#a41e27b576e0bb796d7ea4a91224c6af6'', 1, ''VBE3ModeInfo_s::GreenMaskSize()''), (''../VBE2ModeInfo_8h.html#ac7b4df72e505b74493e7d5144cbac743'', 1, ''GreenMaskSize():&#160;VBE2ModeInfo.h''), (''../VBE3ModeInfo_8h.html#ac7b4df72e505b74493e7d5144cbac743'', 1, ''GreenMaskSize():&#160;VBE3ModeInfo.h'')]),
     (''greenx'', ''GreenX'', [(''../structEDIDRecord__s.html#aa1887aa963ac6a4da66d4bb6fa6ea812'', 1, ''EDIDRecord_s::GreenX()''), (''../EDIDRecord_8h.html#aa6321dd23682e9f8c157904aef9db538'', 1, ''GreenX():&#160;EDIDRecord.h'')]),
     (''greeny'', ''GreenY'', [(''../structEDIDRecord__s.html#a2a9001a1aeecb8aca24a3e096dae09dd'', 1, ''EDIDRecord_s::GreenY()''), (''../EDIDRecord_8h.html#af609c6591a16dc78bfcd3d9c53a868d7'', 1, ''GreenY():&#160;EDIDRecord.h'')]),
     (''gs'', ''gs'', [(''../structcontext.html#a1d2a8a703dfde98f552a418d308e0d2e'', 1, ''context::gs()''), (''../structregs16__s.html#a0e636fc8c1218d59b70522169c77aa33'', 1, ''regs16_s::gs()''), (''../early_2realmode_8h.html#a79e3416a33c661d66da4cb6e9ff5e22e'', 1, ''gs():&#160;realmode.h''), (''../realmode_8h.html#a79e3416a33c661d66da4cb6e9ff5e22e'', 1, ''gs():&#160;realmode.h'')])]"

definition searchData_variables_8 :: "search_entry list" where
  "searchData_variables_8 =
    [(''handle'', ''handle'', [(''../struct__ioentry.html#a5408c6ad5dfa5ac3551ff423e95da247'', 1, ''_ioentry::handle()''), (''../struct__io__file__instance.html#ac0dd110e403317fe9dc45e006436223f'', 1, ''_io_file_instance::handle()''), (''../struct__io__device.html#a22fef60ce0a8d77978d71b8d8fae27ac'', 1, ''_io_device::handle()''), (''../struct__io__filesystem.html#a7c9a803b2dba9b4709e55c4d6042d82e'', 1, ''_io_filesystem::handle()''), (''../struct__io__message.html#a858d6e65b48fe73de55c74dfc0b95a9b'', 1, ''_io_message::handle()''), (''../struct__io__middleware.html#aa34cb0a6c451e286ae04870a695d1629'', 1, ''_io_middleware::handle()''), (''../struct__io__mount.html#a82f8d75c438a9e830406215c5974af4c'', 1, ''_io_mount::handle()'')]),
     (''head'', ''head'', [(''../structst__queue.html#a216d7a629aa5dfc0fc596dbc45cb170a'', 1, ''st_queue::head()''), (''../structnic__info.html#ab320416746c6e6d79358f8916bbe65a6'', 1, ''nic_info::head()'')]),
     (''header'', ''Header'', [(''../structEDIDRecord__s.html#ac700ec42955f95cca23ef018fbdc0264'', 1, ''EDIDRecord_s::Header()''), (''../EDIDRecord_8h.html#a449c3d91c5cb982f6cdb7e43c8aead98'', 1, ''Header():&#160;EDIDRecord.h'')]),
     (''header_5fchecksum'', ''header_checksum'', [(''../structipv4__t.html#aed25a53d856319004ffaed408d5fe0f7'', 1, ''ipv4_t'')]),
     (''headersize'', ''headerSize'', [(''../structPSFont__s.html#a4dbe7f332a51935e912c5c2fc92d3304'', 1, ''PSFont_s'')]),
     (''height'', ''height'', [(''../structSize__s.html#a683e98b4d26337b9d1cff2e07dd41fbd'', 1, ''Size_s::height()''), (''../structPSFont__s.html#a5a31f54f668b198bd95da82b558b6abc'', 1, ''PSFont_s::height()''), (''../structVideoFb__s.html#a908dc3fc3488b1480fd9714b339445b6'', 1, ''VideoFb_s::height()''), (''../structVideoTiming__s.html#a91df200ccc2cfcd24b292e45f43450b3'', 1, ''VideoTiming_s::height()'')]),
     (''hexdigits'', ''hexdigits'', [(''../c__io_8c.html#a2340ea8314b4b175a2a448f8134ff2e3'', 1, ''c_io.c'')]),
     (''highbits_5fcluster'', ''highbits_cluster'', [(''../struct__ft__de__sd.html#abfe3acbf8ee9c0bac94b59d1e52e1a4a'', 1, ''_ft_de_sd'')]),
     (''hour'', ''hour'', [(''../struct__f32__time.html#a3581bd652e5ee8c7e42469b344a5127f'', 1, ''_f32_time::hour()''), (''../struct__ft__time__packed.html#a3208d2aec77e312546f863aab92442ad'', 1, ''_ft_time_packed::hour()'')]),
     (''hw_5faddr'', ''hw_addr'', [(''../structarp__entry__t.html#a8ac51d8cc6206f96ea6b22c7650cc6b7'', 1, ''arp_entry_t'')]),
     (''hw_5faddr_5flen'', ''hw_addr_len'', [(''../struct____attribute____.html#a1c675177e1ec3f09598d9297fb8f1fe8'', 1, ''__attribute__'')]),
     (''hw_5ftype'', ''hw_type'', [(''../struct____attribute____.html#a1cf2f697ac045bc873c2b89ab9d871f9'', 1, ''__attribute__'')])]"

definition searchData_variables_9 :: "search_entry list" where
  "searchData_variables_9 =
    [(''id'', ''id'', [(''../structipv4__t.html#abfe62ee34dc4734772174ed710c96777'', 1, ''ipv4_t'')]),
     (''ihl'', ''ihl'', [(''../structipv4__t.html#aa4d13746039aa7f4bd31159cc5686e50'', 1, ''ipv4_t'')]),
     (''index'', ''index'', [(''../struct__ft__de__longname.html#a904a47fc3c762ebb1c63fb5731f3a345'', 1, ''_ft_de_longname'')]),
     (''info'', ''info'', [(''../unionVideoInfo__u.html#a5132495217f10b3904a5df9c23fc2bce'', 1, ''VideoInfo_u'')]),
     (''info_5fsect_5fsig'', ''info_sect_sig'', [(''../struct__ft__fsinfo.html#a4177df2ebd9cca048de5b5bc49313cf8'', 1, ''_ft_fsinfo'')]),
     (''init'', ''init'', [(''../struct__io__filesystem.html#a00ae670bbd11a6f1273a485ee9a49857'', 1, ''_io_filesystem'')]),
     (''interrupt_5fmask'', ''interrupt_mask'', [(''../structcsr.html#a39cb163c16dd4b6b18e2e634ac6b77b3'', 1, ''csr'')]),
     (''ioctl'', ''ioctl'', [(''../struct__io__message.html#a5d26f77a7bf543a2951c09960aa947da'', 1, ''_io_message'')]),
     (''ip_5faddr'', ''ip_addr'', [(''../structarp__entry__t.html#ac8a5dd64633045da2bf63a62e6bef0f3'', 1, ''arp_entry_t'')]),
     (''ip_5fdata'', ''ip_data'', [(''../structipv4__t.html#a2d8549cf2c81f37ee3d4b649d10fcc98'', 1, ''ipv4_t'')]),
     (''ipv4'', ''ipv4'', [(''../unioneth__payload__t.html#a6155d7092988ac02e15b2ecb8b826d52'', 1, ''eth_payload_t'')])]"

definition searchData_variables_a :: "search_entry list" where
  "searchData_variables_a =
    [(''last_5faccessed'', ''last_accessed'', [(''../struct__ft__de__sd.html#a4f707940193ab0c22e6b3a700f7735b0'', 1, ''_ft_de_sd'')]),
     (''last_5favailible'', ''last_availible'', [(''../memory__map_8c.html#adcb039c772752a75e527d1ab005297d4'', 1, ''memory_map.c'')]),
     (''last_5fmod_5fdate'', ''last_mod_date'', [(''../struct__ft__de__sd.html#ac2ca66107f4b90904f6d287a64aac784'', 1, ''_ft_de_sd'')]),
     (''last_5fmod_5ftime'', ''last_mod_time'', [(''../struct__ft__de__sd.html#a7f109d648d561cbfcdf7476a343aa74d'', 1, ''_ft_de_sd'')]),
     (''last_5fpde'', ''last_pde'', [(''../memory__map_8c.html#ab52c4f9956721dd8e7980e643fffa499'', 1, ''memory_map.c'')]),
     (''legacychecksum'', ''legacychecksum'', [(''../struct__ft__de__longname.html#a2d8d43da2b8058c9d5cff686463cdcda'', 1, ''_ft_de_longname'')]),
     (''length'', ''length'', [(''../struct__io__file__instance.html#a405224b3d7378b9abbf2096038d20f1d'', 1, ''_io_file_instance::length()''), (''../struct__io__message.html#a4ebb1c21215de431c9cdbb10176fb733'', 1, ''_io_message::length()''), (''../structmemory__map____64__s.html#a4249dfdd829964562984e546f63dd0fc'', 1, ''memory_map__64_s::length()''), (''../structmm__entry__s.html#a85297f86723102aaa26ff42f032bfdc6'', 1, ''mm_entry_s::length()''), (''../structVConLine__s.html#acbf3e634f146551c0acb27364ca2ba97'', 1, ''VConLine_s::length()''), (''../memory__map_8h.html#a190b76b1f3d5bd26920300e5f073739b'', 1, ''length():&#160;memory_map.h''), (''../VConLine_8h.html#a1892eba2086d12ac2b09005aeb09ea3b'', 1, ''length():&#160;VConLine.h'')]),
     (''length_5fh'', ''length_h'', [(''../structmemory__map____32__s.html#a8bf6a38ac9b1602dcb31c15fd3c86549'', 1, ''memory_map__32_s::length_h()''), (''../structmm__entry__s.html#aa1b29d920ad4bf1c0445d31e2c419847'', 1, ''mm_entry_s::length_h()''), (''../memory__map_8h.html#a349f209c4ca1a754c7f24d3d779d5dc9'', 1, ''length_h():&#160;memory_map.h'')]),
     (''length_5fl'', ''length_l'', [(''../structmemory__map____32__s.html#a96cd659dfc6a0e856759ff49a3da2d82'', 1, ''memory_map__32_s::length_l()''), (''../structmm__entry__s.html#af3f2398f693d30b4c52c9184f6314335'', 1, ''mm_entry_s::length_l()''), (''../memory__map_8h.html#a9c8afccaadbd83cad21f22b6af014241'', 1, ''length_l():&#160;memory_map.h'')]),
     (''limit'', ''limit'', [(''../structGDTEntry__s.html#aca0877c5ce58ceba0a43002e35c182fb'', 1, ''GDTEntry_s::limit()''), (''../GDTEntry_8h.html#ab28e82ae69032cb4ad3ec3a0be3d7129'', 1, ''limit():&#160;GDTEntry.h'')]),
     (''linbluefieldposition'', ''LinBlueFieldPosition'', [(''../structVBE3ModeInfo__s.html#ae32b1d6d846ba6e64a30d5fe1d0fd6df'', 1, ''VBE3ModeInfo_s::LinBlueFieldPosition()''), (''../VBE3ModeInfo_8h.html#a3f38d6becbe961786cd7ab58ec37fc07'', 1, ''LinBlueFieldPosition():&#160;VBE3ModeInfo.h'')]),
     (''linbluemasksize'', ''LinBlueMaskSize'', [(''../structVBE3ModeInfo__s.html#adb1d80ee9583d7d3fa5b6c11c8e0db68'', 1, ''VBE3ModeInfo_s::LinBlueMaskSize()''), (''../VBE3ModeInfo_8h.html#ad8a25cec803bf91fb40a20a0aa5d5bf7'', 1, ''LinBlueMaskSize():&#160;VBE3ModeInfo.h'')]),
     (''linbytesperscanline'', ''LinBytesPerScanLine'', [(''../structVBE3ModeInfo__s.html#a148620a8114d054f540cf3f5a50ac300'', 1, ''VBE3ModeInfo_s::LinBytesPerScanLine()''), (''../VBE3ModeInfo_8h.html#a53c5060b6ac14a7418ca8421edfb9981'', 1, ''LinBytesPerScanLine():&#160;VBE3ModeInfo.h'')]),
     (''linetable'', ''lineTable'', [(''../structVConBuf__s.html#ac0e20620871c949c0900a8185bd07744'', 1, ''VConBuf_s'')]),
     (''linetablesize'', ''lineTableSize'', [(''../structVConBuf__s.html#a1256be906286adcbbe15a6c575d58113'', 1, ''VConBuf_s'')]),
     (''lingreenfieldposition'', ''LinGreenFieldPosition'', [(''../structVBE3ModeInfo__s.html#a5f95279d0d9295dfa9a845df2a1c10b1'', 1, ''VBE3ModeInfo_s::LinGreenFieldPosition()''), (''../VBE3ModeInfo_8h.html#a6683a63711dbc5dfb9a2a59c55deecd5'', 1, ''LinGreenFieldPosition():&#160;VBE3ModeInfo.h'')]),
     (''lingreenmasksize'', ''LinGreenMaskSize'', [(''../structVBE3ModeInfo__s.html#a6ac6c783122cc34278e5fad2fe861220'', 1, ''VBE3ModeInfo_s::LinGreenMaskSize()''), (''../VBE3ModeInfo_8h.html#af235e505028771ab2fb84778f4dfb476'', 1, ''LinGreenMaskSize():&#160;VBE3ModeInfo.h'')]),
     (''link'', ''link'', [(''../structrfd__t.html#aa361ac3c70ac2584cd8004987f508c3b'', 1, ''rfd_t::link()''), (''../structcb.html#aa724bf6345c21e3f76e5b9de66ebcd57'', 1, ''cb::link()'')]),
     (''linnumberofimagepages'', ''LinNumberOfImagePages'', [(''../structVBE3ModeInfo__s.html#ac05797bfc8d2298a55d680228f280cd4'', 1, ''VBE3ModeInfo_s::LinNumberOfImagePages()''), (''../VBE3ModeInfo_8h.html#a3fa2352e69836f4b69b3a344ae761ba8'', 1, ''LinNumberOfImagePages():&#160;VBE3ModeInfo.h'')]),
     (''linredfieldposition'', ''LinRedFieldPosition'', [(''../structVBE3ModeInfo__s.html#a3b5c1c92cb61e6aff1aea38e0191f503'', 1, ''VBE3ModeInfo_s::LinRedFieldPosition()''), (''../VBE3ModeInfo_8h.html#aff962b58f86a77f12b412d47125a4993'', 1, ''LinRedFieldPosition():&#160;VBE3ModeInfo.h'')]),
     (''linredmasksize'', ''LinRedMaskSize'', [(''../structVBE3ModeInfo__s.html#ac42ba0c7066db5eb489c91a0107cc16e'', 1, ''VBE3ModeInfo_s::LinRedMaskSize()''), (''../VBE3ModeInfo_8h.html#a1fbcef2402fe6ce7f6c006bd50eaa6da'', 1, ''LinRedMaskSize():&#160;VBE3ModeInfo.h'')]),
     (''linrsvdfieldposition'', ''LinRsvdFieldPosition'', [(''../structVBE3ModeInfo__s.html#aa9faaeac45c1ca504fac200252634b60'', 1, ''VBE3ModeInfo_s::LinRsvdFieldPosition()''), (''../VBE3ModeInfo_8h.html#a3df070e698b5f54814e20c8813f7bf7e'', 1, ''LinRsvdFieldPosition():&#160;VBE3ModeInfo.h'')]),
     (''linrsvdmasksize'', ''LinRsvdMaskSize'', [(''../structVBE3ModeInfo__s.html#a14d60e52a0a495ee9136e9fc9f21d20b'', 1, ''VBE3ModeInfo_s::LinRsvdMaskSize()''), (''../VBE3ModeInfo_8h.html#a334886fc9a915ff91966c3aac1da586a'', 1, ''LinRsvdMaskSize():&#160;VBE3ModeInfo.h'')]),
     (''loc'', ''loc'', [(''../structRect__s.html#af9059775f8e0c23ed04d508876d7dc7e'', 1, ''Rect_s'')]),
     (''location'', ''location'', [(''../structVideoFb__s.html#a6270245d8845da63acdd17e613349316'', 1, ''VideoFb_s'')]),
     (''locked'', ''locked'', [(''../struct__ioentry.html#a0bdb6b19fed8977ddce6c5729040aa63'', 1, ''_ioentry'')]),
     (''lowbits_5fcluster'', ''lowbits_cluster'', [(''../struct__ft__de__sd.html#af935988e7f4acb0fd12c554fe63117f3'', 1, ''_ft_de_sd'')])]"

definition searchData_variables_b :: "search_entry list" where
  "searchData_variables_b =
    [(''mac'', ''mac'', [(''../structnic__info.html#a903c6b24b8744db45b54f6f4d55ccc6a'', 1, ''nic_info'')]),
     (''mac_5faddr'', ''mac_addr'', [(''../structcb.html#aecb710191a6e997f3f5bfa8eb06412f5'', 1, ''cb'')]),
     (''magic'', ''magic'', [(''../structPSFont__s.html#a737d0ea3c3092a59c5a25e6d097365fc'', 1, ''PSFont_s'')]),
     (''manufactureid'', ''ManufactureId'', [(''../structEDIDRecord__s.html#a1cf4f45ecc234fce9c32bd95994b1a2a'', 1, ''EDIDRecord_s::ManufactureId()''), (''../EDIDRecord_8h.html#aa86ccf87d47fbb194a208ec6d093cd4a'', 1, ''ManufactureId():&#160;EDIDRecord.h'')]),
     (''manufacturertimings'', ''ManufacturerTimings'', [(''../structEDIDRecord__s.html#a3654fc9180c816fbe0f1ae195c91722e'', 1, ''EDIDRecord_s::ManufacturerTimings()''), (''../EDIDRecord_8h.html#af2e321f2d55d6b097a1ba241308de1fc'', 1, ''ManufacturerTimings():&#160;EDIDRecord.h'')]),
     (''manufactureweek'', ''ManufactureWeek'', [(''../structEDIDRecord__s.html#a8c3855a28d0eb9740b14afd1a02071dd'', 1, ''EDIDRecord_s::ManufactureWeek()''), (''../EDIDRecord_8h.html#afb06acdcfa97dbf31c75fec1c2de4f91'', 1, ''ManufactureWeek():&#160;EDIDRecord.h'')]),
     (''manufactureyear'', ''ManufactureYear'', [(''../structEDIDRecord__s.html#ac7c8934e08b7475924b019895159c0d1'', 1, ''EDIDRecord_s::ManufactureYear()''), (''../EDIDRecord_8h.html#af8f07b77e5c5619a43fe4f70c9eb4dca'', 1, ''ManufactureYear():&#160;EDIDRecord.h'')]),
     (''map'', ''map'', [(''../memory__map_8c.html#ab8089217d92447ee138551735ac549c5'', 1, ''memory_map.c'')]),
     (''mask'', ''mask'', [(''../structVideoColorConfig__s.html#a74e060bb25861c79865b9d8b8148f3af'', 1, ''VideoColorConfig_s'')]),
     (''max_5faddress'', ''max_address'', [(''../memory__map_8c.html#a37013e04f2592d1def40cda4065f3709'', 1, ''memory_map.c'')]),
     (''maxhorizontalimagesize'', ''MaxHorizontalImageSize'', [(''../structEDIDRecord__s.html#a1b7ee12a69ece8fcf4b99a89d2e8ea59'', 1, ''EDIDRecord_s::MaxHorizontalImageSize()''), (''../EDIDRecord_8h.html#a88982005f402b798e4b2cc7a6abe6d49'', 1, ''MaxHorizontalImageSize():&#160;EDIDRecord.h'')]),
     (''maxpixelclock'', ''MaxPixelClock'', [(''../structVBE3ModeInfo__s.html#a206ab1caab7db55d8384dd4b86728a84'', 1, ''VBE3ModeInfo_s::MaxPixelClock()''), (''../VBE3ModeInfo_8h.html#ab1fbd72846963ebb34a308a7edf7bbe1'', 1, ''MaxPixelClock():&#160;VBE3ModeInfo.h'')]),
     (''maxverticalimagesize'', ''MaxVerticalImageSize'', [(''../structEDIDRecord__s.html#aceb5c4e837619ca6f8855f2ec82ea760'', 1, ''EDIDRecord_s::MaxVerticalImageSize()''), (''../EDIDRecord_8h.html#adf186e4f307b5c1ab374b6a414fad408'', 1, ''MaxVerticalImageSize():&#160;EDIDRecord.h'')]),
     (''mdi'', ''mdi'', [(''../structcsr.html#aeb558c89f8c69b94140e08334334986f'', 1, ''csr'')]),
     (''medescriptype'', ''medescriptype'', [(''../struct__ft__bpb.html#a11b24f91703ddbb447d3a6aa0be0d1df'', 1, ''_ft_bpb'')]),
     (''memory'', ''memory'', [(''../structpcb.html#ac079f6f699c3e877b5adb919c1a16aa6'', 1, ''pcb'')]),
     (''memorymodel'', ''MemoryModel'', [(''../structVBE2ModeInfo__s.html#a4d98770ce0b7f1238673b7d461f59cf7'', 1, ''VBE2ModeInfo_s::MemoryModel()''), (''../structVBE3ModeInfo__s.html#a1c63d1fa205d34ec1fef82972dd00f3f'', 1, ''VBE3ModeInfo_s::MemoryModel()''), (''../VBE2ModeInfo_8h.html#ab9be703b2b515ba3428ed97af9bb084d'', 1, ''MemoryModel():&#160;VBE2ModeInfo.h''), (''../VBE3ModeInfo_8h.html#ab9be703b2b515ba3428ed97af9bb084d'', 1, ''MemoryModel():&#160;VBE3ModeInfo.h'')]),
     (''message_5fin'', ''message_in'', [(''../struct__io__file__instance.html#a69539117d58a6dd1832cef1d2eac4aea'', 1, ''_io_file_instance'')]),
     (''message_5fout'', ''message_out'', [(''../struct__io__file__instance.html#aef55bd7ff30080aa1c640d61f0ffa104'', 1, ''_io_file_instance'')]),
     (''minute'', ''minute'', [(''../struct__f32__time.html#a6f7bd39f323bc0d226926c9804cd02ad'', 1, ''_f32_time'')]),
     (''minutes'', ''minutes'', [(''../struct__ft__time__packed.html#a66b62f7a3f24dcfa900c92c4f408c46e'', 1, ''_ft_time_packed'')]),
     (''mm_5fsize'', ''mm_size'', [(''../memory__map_8c.html#ac805c437eaf7e90894f9cd9e1ea6a2c7'', 1, ''memory_map.c'')]),
     (''mode'', ''mode'', [(''../structVConCtrl__s.html#a2004eed1e8506c3a36623c44d5eb49f3'', 1, ''VConCtrl_s'')]),
     (''modeattributes'', ''ModeAttributes'', [(''../structVBE2ModeInfo__s.html#a733ab945f523c8cbcd8e97a82496e78f'', 1, ''VBE2ModeInfo_s::ModeAttributes()''), (''../structVBE3ModeInfo__s.html#abd4f8579a39eb6f166aab91f1877da96'', 1, ''VBE3ModeInfo_s::ModeAttributes()''), (''../VBE2ModeInfo_8h.html#ad7593abf9d201ce5e59de60baba548cd'', 1, ''ModeAttributes():&#160;VBE2ModeInfo.h''), (''../VBE3ModeInfo_8h.html#ad7593abf9d201ce5e59de60baba548cd'', 1, ''ModeAttributes():&#160;VBE3ModeInfo.h'')]),
     (''modecount'', ''modeCount'', [(''../structVideoInfo__s.html#a1d32e7dcb3b805034800523359d844b3'', 1, ''VideoInfo_s'')]),
     (''modenum'', ''modeNum'', [(''../structVideoMode__s.html#ac95ea4e104d76cf3fd242bec19885a26'', 1, ''VideoMode_s'')]),
     (''modes'', ''modes'', [(''../structVideoInfo__s.html#a2b02db40c2425ad95139d43bca6b8c9c'', 1, ''VideoInfo_s'')]),
     (''month'', ''month'', [(''../struct__f32__time.html#a6f17bbae8ac07fa892efa09fa1074249'', 1, ''_f32_time::month()''), (''../struct__ft__date__packed.html#af6700715d544f9f32152b27d55da94de'', 1, ''_ft_date_packed::month()'')]),
     (''mount'', ''mount'', [(''../struct__ft__ctxt__block.html#ad0359c642d5aee94823bdd9cc2794c76'', 1, ''_ft_ctxt_block::mount()''), (''../struct__io__message.html#ac9d60eb97ca6ff8fe5a9161c88a686b2'', 1, ''_io_message::mount()'')]),
     (''my_5fip'', ''my_ip'', [(''../structnic__info.html#a8ff412786a312f93a7444786b8b99336'', 1, ''nic_info'')])]"

definition searchData_variables_c :: "search_entry list" where
  "searchData_variables_c =
    [(''name'', ''name'', [(''../struct__ft__de__inmem.html#aec6c14c6b6ab714b8049b9742b434d5e'', 1, ''_ft_de_inmem::name()''), (''../struct__io__device.html#a4ba362b3ff44663cd9629f7ae9282c2d'', 1, ''_io_device::name()''), (''../struct__io__filesystem.html#a2a71aa2d2497e383e1a2129dca2df082'', 1, ''_io_filesystem::name()''), (''../struct__io__middleware.html#ad28cba167a887b98eb7c66a2a7df6766'', 1, ''_io_middleware::name()''), (''../struct__io__mount.html#a3e4df58db61e6b9f32ddde3bf536438b'', 1, ''_io_mount::name()'')]),
     (''next'', ''next'', [(''../structst__qnode.html#a5916e8068a808838f372562b98db84c9'', 1, ''st_qnode::next()''), (''../structnic__info.html#acc0f3ba3170484e231deb3cd3fc4c60a'', 1, ''nic_info::next()'')]),
     (''next_5fcb'', ''next_cb'', [(''../structnic__info.html#a7c45981bd364933f0364261195397891'', 1, ''nic_info'')]),
     (''nextchars'', ''nextchars'', [(''../struct__ft__de__longname.html#a0e6e49912b71f7cfe00ebc718912a3f7'', 1, ''_ft_de_longname'')]),
     (''ntflags'', ''ntflags'', [(''../struct__ft__bpb.html#a11d80d0843ba0ad0587d20f43d1f29bd'', 1, ''_ft_bpb'')]),
     (''num_5fmost_5frecent_5fclust'', ''num_most_recent_clust'', [(''../struct__ft__fsinfo.html#af6795bedd98eb6817a74014206ce136a'', 1, ''_ft_fsinfo'')]),
     (''numbackupsect'', ''numbackupsect'', [(''../struct__ft__bpb.html#a8ff28a23a84a600ed5997326e88a833b'', 1, ''_ft_bpb'')]),
     (''numberofbanks'', ''NumberOfBanks'', [(''../structVBE2ModeInfo__s.html#a5216ce38ef82473f8d1ee253b1ef4f87'', 1, ''VBE2ModeInfo_s::NumberOfBanks()''), (''../structVBE3ModeInfo__s.html#a891ed3bddf7e6954e7fcae5ee374c16f'', 1, ''VBE3ModeInfo_s::NumberOfBanks()''), (''../VBE2ModeInfo_8h.html#aa955c03441b6d3e55b2ba4be4dae56a2'', 1, ''NumberOfBanks():&#160;VBE2ModeInfo.h''), (''../VBE3ModeInfo_8h.html#aa955c03441b6d3e55b2ba4be4dae56a2'', 1, ''NumberOfBanks():&#160;VBE3ModeInfo.h'')]),
     (''numberofimagepages'', ''NumberOfImagePages'', [(''../structVBE2ModeInfo__s.html#a0553ba9c27e8c722a67a673fcc9a334d'', 1, ''VBE2ModeInfo_s::NumberOfImagePages()''), (''../structVBE3ModeInfo__s.html#ac49571d2778cec8cf438af9cb109e254'', 1, ''VBE3ModeInfo_s::NumberOfImagePages()''), (''../VBE2ModeInfo_8h.html#a7033bb4cac6dc49f68ca4df855151e09'', 1, ''NumberOfImagePages():&#160;VBE2ModeInfo.h''), (''../VBE3ModeInfo_8h.html#a7033bb4cac6dc49f68ca4df855151e09'', 1, ''NumberOfImagePages():&#160;VBE3ModeInfo.h'')]),
     (''numberofplanes'', ''NumberOfPlanes'', [(''../structVBE2ModeInfo__s.html#a0311cbb78315e2130cc57a7620f666d7'', 1, ''VBE2ModeInfo_s::NumberOfPlanes()''), (''../structVBE3ModeInfo__s.html#a8550da7e05d975de9788e99c63e14760'', 1, ''VBE3ModeInfo_s::NumberOfPlanes()''), (''../VBE2ModeInfo_8h.html#a51268efaac55d78e17263aff9a447998'', 1, ''NumberOfPlanes():&#160;VBE2ModeInfo.h''), (''../VBE3ModeInfo_8h.html#a51268efaac55d78e17263aff9a447998'', 1, ''NumberOfPlanes():&#160;VBE3ModeInfo.h'')]),
     (''numdriver'', ''numdriver'', [(''../struct__ft__bpb.html#acd2bc0ee7f1b771ac2ba053b92117d40'', 1, ''_ft_bpb'')])]"

definition searchData_variables_d :: "search_entry list" where
  "searchData_variables_d =
    [(''object'', ''object'', [(''../struct__ioentry.html#a97587c072607f1dcd1f6bd426401fc22'', 1, ''_ioentry'')]),
     (''oem'', ''oem'', [(''../structVBEInfo__s.html#a5855f09ddafcb5c2f8f8cef347916dff'', 1, ''VBEInfo_s::oem()''), (''../structVideoInfo__s.html#ae168c33f0f7eb5c8af80556fca3e18e7'', 1, ''VideoInfo_s::oem()''), (''../VBEInfo_8h.html#af01f02e1e351048fa2ed100f34276960'', 1, ''oem():&#160;VBEInfo.h'')]),
     (''oemdata'', ''oemData'', [(''../structVBEInfo__s.html#a342e22e7644b901788f4be85c25236f9'', 1, ''VBEInfo_s::oemData()''), (''../VBEInfo_8h.html#a001de4efa3b83b6a3774a32b087ccdb9'', 1, ''oemData():&#160;VBEInfo.h'')]),
     (''offscreenmemoffset'', ''OffScreenMemOffset'', [(''../structVBE2ModeInfo__s.html#a71540eb5662baa32e95fafd23f6e27d3'', 1, ''VBE2ModeInfo_s::OffScreenMemOffset()''), (''../VBE2ModeInfo_8h.html#afe2c8124b50dc92a2cd44ab060a12ef8'', 1, ''OffScreenMemOffset():&#160;VBE2ModeInfo.h'')]),
     (''offscreenmemsize'', ''OffScreenMemSize'', [(''../structVBE2ModeInfo__s.html#a684779579a4fb2f09b950f7de5b76b1c'', 1, ''VBE2ModeInfo_s::OffScreenMemSize()''), (''../VBE2ModeInfo_8h.html#adc1f3fde55016e365e886dfb96adda28'', 1, ''OffScreenMemSize():&#160;VBE2ModeInfo.h'')]),
     (''offset'', ''offset'', [(''../structGDTDescriptor__s.html#a2ee2c129656a8f6f8be898d75e41d63e'', 1, ''GDTDescriptor_s::offset()''), (''../union__io__message_1_1POSITION.html#ab02a90e5456ef0b40a10c533252d83ff'', 1, ''_io_message::POSITION::offset()''), (''../structVConLine__s.html#a50fac1ba855410a8931edb974432a77d'', 1, ''VConLine_s::offset()''), (''../GDTDescriptor_8h.html#a894bdfa2d603d8343f8ef01dda6fcd23'', 1, ''offset():&#160;GDTDescriptor.h''), (''../VConLine_8h.html#ac681806181c80437cfab37335f62ff39'', 1, ''offset():&#160;VConLine.h'')]),
     (''offset_5f15_5f0'', ''offset_15_0'', [(''../structIDT__Gate.html#aff38e1f5ff5293f73cb49457276e34f2'', 1, ''IDT_Gate'')]),
     (''offset_5f31_5f16'', ''offset_31_16'', [(''../structIDT__Gate.html#ab8d2cbf00a13fae1192866de65fdbdc7'', 1, ''IDT_Gate'')]),
     (''offset_5fprop'', ''offset_prop'', [(''../struct__io__message.html#a3f1fea65966e922d40a38d1b5965b0db'', 1, ''_io_message'')]),
     (''opcode'', ''opcode'', [(''../struct____attribute____.html#aa3d57f7000d25f764113794ce3c69c01'', 1, ''__attribute__'')]),
     (''owner'', ''owner'', [(''../struct__ioentry.html#a88efc36d447e1d599d41192e88b93d56'', 1, ''_ioentry::owner()''), (''../struct__io__file__instance.html#a4f0e73584e4a98d4ebc7d9d234f3b664'', 1, ''_io_file_instance::owner()'')])]"

definition searchData_variables_e :: "search_entry list" where
  "searchData_variables_e =
    [(''page_5favailibility_5ftable'', ''page_availibility_table'', [(''../memory__map_8c.html#a75880d7650fd474a9172180dfb4cd348'', 1, ''memory_map.c'')]),
     (''page_5fdirectory'', ''page_directory'', [(''../system_8c.html#a0f611fd14593c59f818415c54fc5f75f'', 1, ''page_directory():&#160;memory_map.c''), (''../memory__map_8c.html#a0f611fd14593c59f818415c54fc5f75f'', 1, ''page_directory():&#160;memory_map.c'')]),
     (''page_5ftable'', ''page_table'', [(''../memory__map_8c.html#ab55dd5264039cab129797f1389c08500'', 1, ''memory_map.c'')]),
     (''pat_5fsize'', ''pat_size'', [(''../memory__map_8c.html#a5578d9ecd39e2d789c482c8385d828b3'', 1, ''memory_map.c'')]),
     (''path'', ''path'', [(''../struct__io__file__instance.html#a44f88d0a87f4a0ed513c01ca36dc07cc'', 1, ''_io_file_instance::path()''), (''../struct__io__message.html#a6f6f56e074c33512a4bab1de15f09f19'', 1, ''_io_message::path()''), (''../struct__io__mount.html#a159e7b41306dff496e87a847ece01093'', 1, ''_io_mount::path()'')]),
     (''payload'', ''payload'', [(''../structeth__packet__t.html#af290f049752430544a9212f4356cf963'', 1, ''eth_packet_t::payload()''), (''../struct____attribute____.html#a9180eddace8b9849310d5bc509963e61'', 1, ''__attribute__::payload()'')]),
     (''physbaseptr'', ''PhysBasePtr'', [(''../structVBE2ModeInfo__s.html#a2be082ef615b31c27158d2cb85a3288e'', 1, ''VBE2ModeInfo_s::PhysBasePtr()''), (''../structVBE3ModeInfo__s.html#a4f4617ca11f89d177118904707ec95bb'', 1, ''VBE3ModeInfo_s::PhysBasePtr()''), (''../VBE2ModeInfo_8h.html#a659913392d68d571b65d6631264ed27e'', 1, ''PhysBasePtr():&#160;VBE2ModeInfo.h''), (''../VBE3ModeInfo_8h.html#a659913392d68d571b65d6631264ed27e'', 1, ''PhysBasePtr():&#160;VBE3ModeInfo.h'')]),
     (''pid'', ''pid'', [(''../structpcb.html#a1da0b84097537a6227022e4328977916'', 1, ''pcb'')]),
     (''pitch'', ''pitch'', [(''../structVideoFb__s.html#a6572b3d15cf8d22496cf67f4e0351c95'', 1, ''VideoFb_s'')]),
     (''port'', ''port'', [(''../structcsr.html#a6a9ec2723d28f813983e6a41fb26312c'', 1, ''csr'')]),
     (''position'', ''position'', [(''../structVideoColorConfig__s.html#af4304317ddffe9ec73d10ef31ff39609'', 1, ''VideoColorConfig_s'')]),
     (''ppid'', ''ppid'', [(''../structpcb.html#a0f5854505f8ec8b0f1bb94c08935c470'', 1, ''pcb'')]),
     (''prio'', ''prio'', [(''../structpcb.html#a02563bff8cc72aef9e663355d473586c'', 1, ''pcb'')]),
     (''productcode'', ''ProductCode'', [(''../structEDIDRecord__s.html#a0e6c04a2a2377c131cc723b8ef88eba8'', 1, ''EDIDRecord_s::ProductCode()''), (''../EDIDRecord_8h.html#a0990f998bd11e1c6fd195b982300e800'', 1, ''ProductCode():&#160;EDIDRecord.h'')]),
     (''productname'', ''productName'', [(''../structVBEInfo__s.html#a5af61d084a35dffa97afd95b69c484b9'', 1, ''VBEInfo_s::productName()''), (''../structVideoInfo__s.html#a4ffb0df3b011a6a17d9eead4dfb719c6'', 1, ''VideoInfo_s::productName()''), (''../VBEInfo_8h.html#a4a9d355faece5b6c3233e5ca57a82313'', 1, ''productName():&#160;VBEInfo.h'')]),
     (''productrev'', ''productRev'', [(''../structVBEInfo__s.html#a6f38039ef88f9738a0337ecfe11927ff'', 1, ''VBEInfo_s::productRev()''), (''../structVideoInfo__s.html#ae63f7002df3613f4b0e7bbf1728d90a4'', 1, ''VideoInfo_s::productRev()''), (''../VBEInfo_8h.html#ab60c48e7807f9c75aab3c44d309b60ed'', 1, ''productRev():&#160;VBEInfo.h'')]),
     (''property'', ''property'', [(''../union__io__message_1_1POSITION.html#ad86dd8b568c455becdb235e3fd460d4e'', 1, ''_io_message::POSITION'')]),
     (''protocol'', ''protocol'', [(''../structipv4__t.html#a9bf3bb8bf93b4b20ca200361b47fff7e'', 1, ''ipv4_t'')]),
     (''protocol_5faddr_5flen'', ''protocol_addr_len'', [(''../struct____attribute____.html#af7d44e2da713bfa97782f5823c2b7eb4'', 1, ''__attribute__'')]),
     (''protocol_5ftype'', ''protocol_type'', [(''../struct____attribute____.html#a83a92dd9a7e5acf5d82c674ad41f8432'', 1, ''__attribute__'')])]"

definition searchData_variables_f :: "search_entry list" where
  "searchData_variables_f =
    [(''q_5fdefault'', ''q_default'', [(''../structpcb.html#ae3273eb37a8c1c048f7b4022d78eb52e'', 1, ''pcb'')]),
     (''q_5fticks'', ''q_ticks'', [(''../structpcb.html#a335e82be26a6de4ed681f1c04773e31c'', 1, ''pcb'')])]"

definition searchData_variables_10 :: "search_entry list" where
  "searchData_variables_10 =
    [(''read'', ''read'', [(''../struct__io__file__instance.html#ab748e9b94ec6f02caf5304ae8a0f32e8'', 1, ''_io_file_instance::read()''), (''../struct__ft__de__inmem.html#a576712839d55294fd87e68393f6b7a2d'', 1, ''_ft_de_inmem::read()''), (''../struct__io__device.html#a693996c8e82b9775c1cab702b059eaee'', 1, ''_io_device::read()'')]),
     (''redfieldposition'', ''RedFieldPosition'', [(''../structVBE2ModeInfo__s.html#a508f9a05f961e0e7a05fa99694d32f21'', 1, ''VBE2ModeInfo_s::RedFieldPosition()''), (''../structVBE3ModeInfo__s.html#a6b13f0f31108b0c5d8ad17e6f3ad9691'', 1, ''VBE3ModeInfo_s::RedFieldPosition()''), (''../VBE2ModeInfo_8h.html#a20cb142b8c1b0a2b41244fef469a11f4'', 1, ''RedFieldPosition():&#160;VBE2ModeInfo.h''), (''../VBE3ModeInfo_8h.html#a20cb142b8c1b0a2b41244fef469a11f4'', 1, ''RedFieldPosition():&#160;VBE3ModeInfo.h'')]),
     (''redgreenlowbits'', ''RedGreenLowBits'', [(''../structEDIDRecord__s.html#acf0faba2f914d501cac1f22fd1c67989'', 1, ''EDIDRecord_s::RedGreenLowBits()''), (''../EDIDRecord_8h.html#a7e0da632aeda137db72199307f185ff3'', 1, ''RedGreenLowBits():&#160;EDIDRecord.h'')]),
     (''redmasksize'', ''RedMaskSize'', [(''../structVBE2ModeInfo__s.html#a10fdf8ad65f23762f58abee3f7255553'', 1, ''VBE2ModeInfo_s::RedMaskSize()''), (''../structVBE3ModeInfo__s.html#a6de0c3ab29e6308eddb5fbdd93c47f1e'', 1, ''VBE3ModeInfo_s::RedMaskSize()''), (''../VBE2ModeInfo_8h.html#a5e25f6a8eedde631fff577bcf7d4f6f4'', 1, ''RedMaskSize():&#160;VBE2ModeInfo.h''), (''../VBE3ModeInfo_8h.html#a5e25f6a8eedde631fff577bcf7d4f6f4'', 1, ''RedMaskSize():&#160;VBE3ModeInfo.h'')]),
     (''redx'', ''RedX'', [(''../structEDIDRecord__s.html#aaad2ef0984a2820628050a2c76089a2a'', 1, ''EDIDRecord_s::RedX()''), (''../EDIDRecord_8h.html#ab754b4066269a988a2d39c8e4eb75d4c'', 1, ''RedX():&#160;EDIDRecord.h'')]),
     (''redy'', ''RedY'', [(''../structEDIDRecord__s.html#ab0d917159a2376a05741a2efd9a19061'', 1, ''EDIDRecord_s::RedY()''), (''../EDIDRecord_8h.html#a5404374b00dccdbda5200e042c331bda'', 1, ''RedY():&#160;EDIDRecord.h'')]),
     (''refresh'', ''refresh'', [(''../structVideoTiming__s.html#a2a273bad907586b57f56a3c3a8574a95'', 1, ''VideoTiming_s'')]),
     (''reserved'', ''reserved'', [(''../struct__ft__fsinfo.html#a454b046cbfe07874466bb1491d736bc5'', 1, ''_ft_fsinfo::reserved()''), (''../struct__ft__bpb.html#af5f96b628bccc0a9e4469706ea0e4b93'', 1, ''_ft_bpb::reserved()''), (''../structVBEInfo__s.html#a7dcd3557755d98efc44dd3119750a1ff'', 1, ''VBEInfo_s::reserved()''), (''../VBEInfo_8h.html#a943ae6a78d3b0d24d40c35cf835a4e42'', 1, ''reserved():&#160;VBEInfo.h'')]),
     (''reserved0'', ''reserved0'', [(''../structVBE2ModeInfo__s.html#aac6879d51ecc2dbb0346fbea2bd12845'', 1, ''VBE2ModeInfo_s::reserved0()''), (''../structVBE3ModeInfo__s.html#af26bbe68c1d671f98113e704098c120f'', 1, ''VBE3ModeInfo_s::reserved0()''), (''../VBE2ModeInfo_8h.html#a41d97db724f4cb89bc3263f802c32493'', 1, ''reserved0():&#160;VBE2ModeInfo.h''), (''../VBE3ModeInfo_8h.html#a41d97db724f4cb89bc3263f802c32493'', 1, ''reserved0():&#160;VBE3ModeInfo.h'')]),
     (''reserved1'', ''reserved1'', [(''../structVBE2ModeInfo__s.html#abb8a1c68e6ffe327eae5df6df6f7a46e'', 1, ''VBE2ModeInfo_s::reserved1()''), (''../structVBE3ModeInfo__s.html#a169ba19f4f4eb7c2c467e38bff168ee2'', 1, ''VBE3ModeInfo_s::reserved1()''), (''../VBE2ModeInfo_8h.html#ac8dd9d27e47ecb72a75fd14d5da57bfc'', 1, ''reserved1():&#160;VBE2ModeInfo.h''), (''../VBE3ModeInfo_8h.html#aef9bb556c1530f5d648fd57e73b9a105'', 1, ''reserved1():&#160;VBE3ModeInfo.h'')]),
     (''reserved2'', ''reserved2'', [(''../struct__ft__fsinfo.html#aa30e41013f0189a4263dae3c5d7c616e'', 1, ''_ft_fsinfo::reserved2()''), (''../structVBE3ModeInfo__s.html#ac93772927ffbd860713048113ad684a1'', 1, ''VBE3ModeInfo_s::reserved2()''), (''../VBE3ModeInfo_8h.html#a0fc429b055e74830a4583ec37f5c3846'', 1, ''reserved2():&#160;VBE3ModeInfo.h'')]),
     (''reserved3'', ''reserved3'', [(''../structVBE3ModeInfo__s.html#a4d66b6a8faed8a7f078a74f807bbd219'', 1, ''VBE3ModeInfo_s::reserved3()''), (''../VBE3ModeInfo_8h.html#a54e5c14953f14cf76f3366d905b78ce1'', 1, ''reserved3():&#160;VBE3ModeInfo.h'')]),
     (''reservednt'', ''reservednt'', [(''../struct__ft__de__sd.html#ae39d2e5d3c5aca7eac635b08aff7da3b'', 1, ''_ft_de_sd'')]),
     (''rest_5fof_5fheader'', ''rest_of_header'', [(''../structicmp__t.html#a69f559c728e50429795f96788ffffcc1'', 1, ''icmp_t'')]),
     (''revision'', ''Revision'', [(''../structEDIDRecord__s.html#a1b3cc409e6e79802d0116f1b3a062602'', 1, ''EDIDRecord_s::Revision()''), (''../EDIDRecord_8h.html#a55eb3228cf0540a1e7ee4fa81453e29c'', 1, ''Revision():&#160;EDIDRecord.h'')]),
     (''rfa'', ''rfa'', [(''../structnic__info.html#aacec16ae255760baa80c228b801de4c0'', 1, ''nic_info'')]),
     (''rows'', ''rows'', [(''../structVCon__s.html#a201f63f6bc8a6682c9dc0379c9dbb46e'', 1, ''VCon_s'')]),
     (''rvsdfieldposition'', ''RvsdFieldPosition'', [(''../structVBE2ModeInfo__s.html#a3a411a42f8510394bc233108dbfa3712'', 1, ''VBE2ModeInfo_s::RvsdFieldPosition()''), (''../structVBE3ModeInfo__s.html#ae8c0c6cc86f7eac40ef3263b6d50343b'', 1, ''VBE3ModeInfo_s::RvsdFieldPosition()''), (''../VBE2ModeInfo_8h.html#aa571de10d69dff8b083c9beab32c6917'', 1, ''RvsdFieldPosition():&#160;VBE2ModeInfo.h''), (''../VBE3ModeInfo_8h.html#aa571de10d69dff8b083c9beab32c6917'', 1, ''RvsdFieldPosition():&#160;VBE3ModeInfo.h'')]),
     (''rvsdmasksize'', ''RvsdMaskSize'', [(''../structVBE2ModeInfo__s.html#a42394d249ae9f58ccc9c1e46c209ced0'', 1, ''VBE2ModeInfo_s::RvsdMaskSize()''), (''../structVBE3ModeInfo__s.html#ae63c543a2dbc4115e3014a6844a3ddd3'', 1, ''VBE3ModeInfo_s::RvsdMaskSize()''), (''../VBE2ModeInfo_8h.html#a0fafeb483fa890dae7c73af188a171ae'', 1, ''RvsdMaskSize():&#160;VBE2ModeInfo.h''), (''../VBE3ModeInfo_8h.html#a0fafeb483fa890dae7c73af188a171ae'', 1, ''RvsdMaskSize():&#160;VBE3ModeInfo.h'')]),
     (''rx_5fdma_5fbyte_5fcount'', ''rx_dma_byte_count'', [(''../structcsr.html#ac156afb894e0c1e370cd416e9aa67743'', 1, ''csr'')])]"

definition searchData_variables_11 :: "search_entry list" where
  "searchData_variables_11 =
    [(''scan_5fcode'', ''scan_code'', [(''../c__io_8c.html#a2edc302dad374bdef01e535972f66a29'', 1, ''c_io.c'')]),
     (''scb'', ''scb'', [(''../structcsr.html#ad07ae0c6836856bbd940c27a04544993'', 1, ''csr'')]),
     (''scrollend'', ''scrollEnd'', [(''../structVCon__s.html#af4eb5f117b07078bb2e7e8bf0c595188'', 1, ''VCon_s'')]),
     (''scrollstart'', ''scrollStart'', [(''../structVCon__s.html#ae6850ea202faafb4f74c9f0f486aa100'', 1, ''VCon_s'')]),
     (''seconds'', ''seconds'', [(''../struct__f32__time.html#a9e4ecf830c755ed965318ce18395b330'', 1, ''_f32_time::seconds()''), (''../struct__ft__time__packed.html#a5dcde2b307f66a1c2181eee19eb05f46'', 1, ''_ft_time_packed::seconds()'')]),
     (''sectnmfsinfo'', ''sectnmfsinfo'', [(''../struct__ft__bpb.html#a38dfe801934b5c3e725545c95b5b04ff'', 1, ''_ft_bpb'')]),
     (''sector_5fsig'', ''sector_sig'', [(''../struct__ft__fsinfo.html#a51c36b9378edd8e0eb79ef9f14c5e64e'', 1, ''_ft_fsinfo'')]),
     (''sector_5fsize'', ''sector_size'', [(''../struct__ft__ctxt__block.html#a2b59236bccc1da85b3891b023e521db8'', 1, ''_ft_ctxt_block'')]),
     (''sectorbytes'', ''sectorbytes'', [(''../struct__ft__bpb.html#a74ed43765fc0be34cee6bc0b6c446d71'', 1, ''_ft_bpb'')]),
     (''sectorspercluster'', ''sectorspercluster'', [(''../struct__ft__bpb.html#ab1db6a78e561e5e19808fb9c1ff6ed15'', 1, ''_ft_bpb'')]),
     (''segment_5fselector'', ''segment_selector'', [(''../structIDT__Gate.html#af90228fda86600995b68f56cb45324a6'', 1, ''IDT_Gate'')]),
     (''sender_5fhw_5faddr'', ''sender_hw_addr'', [(''../struct____attribute____.html#ab375179962629b227dec9411af420885'', 1, ''__attribute__'')]),
     (''sender_5fprotocol_5faddr'', ''sender_protocol_addr'', [(''../struct____attribute____.html#ac6ec092349f5ab33d3c3953824fd691d'', 1, ''__attribute__'')]),
     (''serialcode'', ''SerialCode'', [(''../structEDIDRecord__s.html#a14e03bed6a499ce06355c01c50fdf697'', 1, ''EDIDRecord_s::SerialCode()''), (''../EDIDRecord_8h.html#ad82729cdd26a06897a6e47978eef7cfa'', 1, ''SerialCode():&#160;EDIDRecord.h'')]),
     (''si'', ''si'', [(''../structregs16__s.html#a562b425356e326837fc6a9f7e15fa4ed'', 1, ''regs16_s::si()''), (''../realmode_8h.html#aed7efe155e4e944aac18f1b8bfe2ecb4'', 1, ''si():&#160;realmode.h'')]),
     (''signature'', ''signature'', [(''../struct__ft__bpb.html#a2a4dbe792f5724ae2016433e8a536fe5'', 1, ''_ft_bpb::signature()''), (''../structVBEInfo__s.html#a09a35baa68713654ad3a0437789e6bf1'', 1, ''VBEInfo_s::signature()''), (''../VBEInfo_8h.html#a7df4f23794127d1af7b8361d982c6ee4'', 1, ''signature():&#160;VBEInfo.h'')]),
     (''size'', ''size'', [(''../structst__queue.html#ac8756268f817996fb9d17509eb8ef4fb'', 1, ''st_queue::size()''), (''../structGDTDescriptor__s.html#a42a5570e0bd6b7188ec63263361431ec'', 1, ''GDTDescriptor_s::size()''), (''../structRect__s.html#aeaa275ad12a3fec8f6b37968f4702ea5'', 1, ''Rect_s::size()''), (''../structrfd__t.html#af3c7baaf97ea574e743d87d1a528c1ec'', 1, ''rfd_t::size()''), (''../GDTDescriptor_8h.html#aaba88b24a21a6c70c895c0d55f4a69a0'', 1, ''size():&#160;GDTDescriptor.h'')]),
     (''softwarerev'', ''softwareRev'', [(''../structVBEInfo__s.html#a49253fad3125e9cc06c7329da2acff68'', 1, ''VBEInfo_s::softwareRev()''), (''../structVideoInfo__s.html#a9317e12ca8598863dc1aae2491a678f8'', 1, ''VideoInfo_s::softwareRev()''), (''../VBEInfo_8h.html#a8bb2e424530e716963507c0205f098b6'', 1, ''softwareRev():&#160;VBEInfo.h'')]),
     (''sp'', ''sp'', [(''../structregs16__s.html#a1b634764a723f217c1b4510745aa65c9'', 1, ''regs16_s::sp()''), (''../realmode_8h.html#a683956c68e2ff52704c9da085000a818'', 1, ''sp():&#160;realmode.h'')]),
     (''src_5fip'', ''src_ip'', [(''../structipv4__t.html#ab95c31c80050599f3478fba1860e16cc'', 1, ''ipv4_t'')]),
     (''src_5fmac'', ''src_mac'', [(''../struct____attribute____.html#a9b5fa196224bc238bfac7896051e6193'', 1, ''__attribute__'')]),
     (''ss'', ''ss'', [(''../structcontext.html#aed5136fd9a919bf00a22a6bee0c81ffb'', 1, ''context'')]),
     (''stack'', ''stack'', [(''../structpcb.html#ada2fc740df2aab6d7a3419e494d2800c'', 1, ''pcb'')]),
     (''standardtimings'', ''StandardTimings'', [(''../structEDIDRecord__s.html#a00b05a016d628810c3cf4f8ef6ac2f2b'', 1, ''EDIDRecord_s::StandardTimings()''), (''../EDIDRecord_8h.html#a3f1a1c0f3348c92a593949853c871df0'', 1, ''StandardTimings():&#160;EDIDRecord.h'')]),
     (''stat_5fack'', ''stat_ack'', [(''../structcsr.html#a29dfac74989e479178c762ebd0ad12a6'', 1, ''csr'')]),
     (''state'', ''state'', [(''../structpcb.html#a284f5abc5b5ba4db84d189cf7755f3af'', 1, ''pcb'')]),
     (''status'', ''status'', [(''../struct__io__message.html#a8a3cc8d73cde999ced3723dadcc4f63f'', 1, ''_io_message::status()''), (''../structrfd__t.html#a8306e4b4c64f24a5cd55f63db83180eb'', 1, ''rfd_t::status()''), (''../structcsr.html#a4fd3c85216adbcafba1b06d591df8488'', 1, ''csr::status()''), (''../structcb.html#a21725ffb4eff8cf7e9ec9cfd7131ba2a'', 1, ''cb::status()''), (''../structVideoInfo__s.html#ab2b140fb9b5369274c387cea97162651'', 1, ''VideoInfo_s::status()'')]),
     (''sys_5fident_5fstr'', ''sys_ident_str'', [(''../struct__ft__bpb.html#a463ef876951bb7133f8c7bb676782ee2'', 1, ''_ft_bpb'')])]"

definition searchData_variables_12 :: "search_entry list" where
  "searchData_variables_12 =
    [(''tabsize'', ''tabSize'', [(''../structVCon__s.html#a74d7fcdc4560aa2da93f7516dffbc4f3'', 1, ''VCon_s'')]),
     (''tail'', ''tail'', [(''../structst__queue.html#a2e57ac65c7fcd89da0d2e47a4cd14f6e'', 1, ''st_queue::tail()''), (''../structnic__info.html#af33d61e95162aee76a579e6d4a71a38e'', 1, ''nic_info::tail()'')]),
     (''target_5fhw_5faddr'', ''target_hw_addr'', [(''../struct____attribute____.html#a83c2e2b59c91a065f569649abda50a57'', 1, ''__attribute__'')]),
     (''target_5fprotocol_5faddr'', ''target_protocol_addr'', [(''../struct____attribute____.html#a47035dcb0bccf5aa75f5eeaea7b1b887'', 1, ''__attribute__'')]),
     (''tbd_5farray'', ''tbd_array'', [(''../structcb.html#ab91d8b54b67e06a8242f0f9f79ee1ac2'', 1, ''cb'')]),
     (''tbd_5fcount'', ''tbd_count'', [(''../structcb.html#ac2a6a2ff4e5fc42bc12f046ad2a94949'', 1, ''cb'')]),
     (''tcb'', ''tcb'', [(''../structcb.html#ac14aed3eb88183af7f378c70ef60cf2b'', 1, ''cb'')]),
     (''tcb_5fbyte_5fcount'', ''tcb_byte_count'', [(''../structcb.html#a737354b6fb9bafac3d1cb16216045d29'', 1, ''cb'')]),
     (''threshold'', ''threshold'', [(''../structcb.html#a344ceefcc76ac55f32be5956dece44b9'', 1, ''cb'')]),
     (''total_5flen'', ''total_len'', [(''../structipv4__t.html#aa9419a652aee01ed2b3a4c1f59e636a3'', 1, ''ipv4_t'')]),
     (''ttl'', ''ttl'', [(''../structipv4__t.html#ae2002aeedd55b48b86bfd35229ed9009'', 1, ''ipv4_t'')]),
     (''type'', ''type'', [(''../struct__ioentry.html#a9471e0313c5d2f2c3b2505f1ad1b841a'', 1, ''_ioentry::type()''), (''../structmemory__map____32__s.html#ad09c3daeada7d3230fb807475c228d7d'', 1, ''memory_map__32_s::type()''), (''../structmemory__map____64__s.html#a8aa03dd73ae307af7ca6ebef1558c861'', 1, ''memory_map__64_s::type()''), (''../structmm__entry__s.html#aa000db3a0794ece10755313d5931a533'', 1, ''mm_entry_s::type()''), (''../structicmp__t.html#a42a7279280b8493dec06fff871da9602'', 1, ''icmp_t::type()''), (''../memory__map_8h.html#ad44b615021ed3ccb734fcaf583ef4a03'', 1, ''type():&#160;memory_map.h'')])]"

definition searchData_variables_13 :: "search_entry list" where
  "searchData_variables_13 =
    [(''u'', ''u'', [(''../structcb.html#a5e9ce6bf1407a3938028e34982f56392'', 1, ''cb'')]),
     (''updated'', ''updated'', [(''../struct__ft__de__inmem.html#a6991ddde208c616edc6cb6cb05f095c4'', 1, ''_ft_de_inmem'')])]"

definition searchData_variables_14 :: "search_entry list" where
  "searchData_variables_14 =
    [(''v2'', ''v2'', [(''../unionVBEModeInfo__u.html#a5c4e255af6f27207319604bd19091758'', 1, ''VBEModeInfo_u'')]),
     (''v3'', ''v3'', [(''../unionVBEModeInfo__u.html#ac028ac199b0a9ef4e0e2e465c44cb0c2'', 1, ''VBEModeInfo_u'')]),
     (''vbeversion'', ''vbeVersion'', [(''../structVideoInfo__s.html#a14a305fc822c0b07204706643d9979dd'', 1, ''VideoInfo_s'')]),
     (''vector'', ''vector'', [(''../structcontext.html#a71443eb52d815a85654cf248e5417387'', 1, ''context'')]),
     (''vendor'', ''vendor'', [(''../structVBEInfo__s.html#addedff06d5a60a4f4de810ec0d51777e'', 1, ''VBEInfo_s::vendor()''), (''../structVideoInfo__s.html#aa0e7edda0445b352d8f6b5e77e2a75b7'', 1, ''VideoInfo_s::vendor()''), (''../VBEInfo_8h.html#a0b580fbbd278cc2345051a33993f068d'', 1, ''vendor():&#160;VBEInfo.h'')]),
     (''version'', ''version'', [(''../structPSFont__s.html#ad3cb1382a9f838f93418a8b131b08eeb'', 1, ''PSFont_s::version()''), (''../structipv4__t.html#abd3f0813a9a72c2e9ab0beba058b8d13'', 1, ''ipv4_t::version()''), (''../structVBEInfo__s.html#ad998291e9b774e254b95a01982aff32b'', 1, ''VBEInfo_s::version()''), (''../structEDIDRecord__s.html#a18660662a10e61de4d95de295e16e795'', 1, ''EDIDRecord_s::Version()''), (''../VBEInfo_8h.html#ab6d7b6f8c2ceaba7acda80aaf05f4899'', 1, ''version():&#160;VBEInfo.h''), (''../EDIDRecord_8h.html#a3bee6b95c6449755b9e7c167d1360dc5'', 1, ''Version():&#160;EDIDRecord.h'')]),
     (''video_5fedid'', ''VIDEO_EDID'', [(''../globals_8c.html#a92ea572495f115a03055789be16dbf7c'', 1, ''VIDEO_EDID():&#160;globals.c''), (''../globals_8h.html#a92ea572495f115a03055789be16dbf7c'', 1, ''VIDEO_EDID():&#160;globals.c'')]),
     (''video_5ffontset'', ''VIDEO_FONTSET'', [(''../globals_8c.html#af879a1ca431db42a4e7d96c088f8e4d4'', 1, ''VIDEO_FONTSET():&#160;globals.c''), (''../globals_8h.html#af879a1ca431db42a4e7d96c088f8e4d4'', 1, ''VIDEO_FONTSET():&#160;globals.c'')]),
     (''video_5finfo'', ''VIDEO_INFO'', [(''../globals_8c.html#ad204e7e4cf16f9908726e26d835cb55a'', 1, ''VIDEO_INFO():&#160;globals.c''), (''../globals_8h.html#ad204e7e4cf16f9908726e26d835cb55a'', 1, ''VIDEO_INFO():&#160;globals.c'')]),
     (''video_5fmode'', ''VIDEO_MODE'', [(''../globals_8c.html#a991d3845acc50d8be6577b34eaa3d9de'', 1, ''VIDEO_MODE():&#160;globals.c''), (''../globals_8h.html#a991d3845acc50d8be6577b34eaa3d9de'', 1, ''VIDEO_MODE():&#160;globals.c'')]),
     (''videoinputdefinition'', ''VideoInputDefinition'', [(''../structEDIDRecord__s.html#a7cc850c64702d961cf3d2ec144273dd0'', 1, ''EDIDRecord_s::VideoInputDefinition()''), (''../EDIDRecord_8h.html#ac3c074d0cbf8ca47b94c1386d04e36a2'', 1, ''VideoInputDefinition():&#160;EDIDRecord.h'')]),
     (''videomemory'', ''videoMemory'', [(''../structVBEInfo__s.html#a6cdf127650b0bf57d87b491b41e55baf'', 1, ''VBEInfo_s::videoMemory()''), (''../structVideoInfo__s.html#a3b90565911f31655ecaaf930e16d3134'', 1, ''VideoInfo_s::videoMemory()''), (''../VBEInfo_8h.html#a0bd889ee4fd330e9c122c5133263b069'', 1, ''videoMemory():&#160;VBEInfo.h'')]),
     (''videomodes'', ''videoModes'', [(''../structVBEInfo__s.html#a1c051ef64a3cdc4c94f03b403f0248ea'', 1, ''VBEInfo_s::videoModes()''), (''../VBEInfo_8h.html#a6a1a1cf21943822fd42ae2fb301b50aa'', 1, ''videoModes():&#160;VBEInfo.h'')]),
     (''vol_5flabel_5fstring'', ''vol_label_string'', [(''../struct__ft__bpb.html#a3b01455d04cb2d09b7ccf197df81eb6b'', 1, ''_ft_bpb'')]),
     (''volid'', ''volid'', [(''../struct__ft__bpb.html#ab9d62f5b0e3a6a5f4218e8ebbcb73510'', 1, ''_ft_bpb'')])]"

definition searchData_variables_15 :: "search_entry list" where
  "searchData_variables_15 =
    [(''wakeup'', ''wakeup'', [(''../structpcb.html#a2575445692129b2abad53f9a37aca58c'', 1, ''pcb'')]),
     (''whitex'', ''WhiteX'', [(''../structEDIDRecord__s.html#afb65f70d4a9f5de8f147fa61c3236bfd'', 1, ''EDIDRecord_s::WhiteX()''), (''../EDIDRecord_8h.html#a53265911023727db70bc17f8f075b041'', 1, ''WhiteX():&#160;EDIDRecord.h'')]),
     (''whitey'', ''WhiteY'', [(''../structEDIDRecord__s.html#a9db19d6f00de7682b973a2770415fabd'', 1, ''EDIDRecord_s::WhiteY()''), (''../EDIDRecord_8h.html#a370eead2ff66e70368a0cd6d0413aabc'', 1, ''WhiteY():&#160;EDIDRecord.h'')]),
     (''width'', ''width'', [(''../structSize__s.html#a1c8ac9255b4cb340c96effb7761b0a46'', 1, ''Size_s::width()''), (''../structPSFont__s.html#a2ad19a7af56f1be86a3e669c1fdc7b4e'', 1, ''PSFont_s::width()''), (''../structVideoFb__s.html#ab093a8af8684063e670e213081f7803a'', 1, ''VideoFb_s::width()''), (''../structVideoTiming__s.html#a30205d95a3d2c58c36755ae19ac2d2fd'', 1, ''VideoTiming_s::width()'')]),
     (''winaattributes'', ''WinAAttributes'', [(''../structVBE2ModeInfo__s.html#afccc5c83f17b9d255e25f8f5af56b94e'', 1, ''VBE2ModeInfo_s::WinAAttributes()''), (''../structVBE3ModeInfo__s.html#aa3c0915831251f584037b75415309665'', 1, ''VBE3ModeInfo_s::WinAAttributes()''), (''../VBE2ModeInfo_8h.html#aaa90049ea7f03763acbbf75240f4f5d8'', 1, ''WinAAttributes():&#160;VBE2ModeInfo.h''), (''../VBE3ModeInfo_8h.html#aaa90049ea7f03763acbbf75240f4f5d8'', 1, ''WinAAttributes():&#160;VBE3ModeInfo.h'')]),
     (''winasegment'', ''WinASegment'', [(''../structVBE2ModeInfo__s.html#acb424420b3cafcb72e3ead75154848df'', 1, ''VBE2ModeInfo_s::WinASegment()''), (''../structVBE3ModeInfo__s.html#aaa5866bfb6c006e31000546f5c35bc03'', 1, ''VBE3ModeInfo_s::WinASegment()''), (''../VBE2ModeInfo_8h.html#a99b747099fd4d4271b0f0bc29f31c48f'', 1, ''WinASegment():&#160;VBE2ModeInfo.h''), (''../VBE3ModeInfo_8h.html#a99b747099fd4d4271b0f0bc29f31c48f'', 1, ''WinASegment():&#160;VBE3ModeInfo.h'')]),
     (''winbattributes'', ''WinBAttributes'', [(''../structVBE2ModeInfo__s.html#aecb8885e7961990523e732f3ad4646f5'', 1, ''VBE2ModeInfo_s::WinBAttributes()''), (''../structVBE3ModeInfo__s.html#a05323966e15d76b816a3aecbe9826f71'', 1, ''VBE3ModeInfo_s::WinBAttributes()''), (''../VBE2ModeInfo_8h.html#a370ddeb84e904ef1000fe57905ebf6b8'', 1, ''WinBAttributes():&#160;VBE2ModeInfo.h''), (''../VBE3ModeInfo_8h.html#a370ddeb84e904ef1000fe57905ebf6b8'', 1, ''WinBAttributes():&#160;VBE3ModeInfo.h'')]),
     (''winbsegment'', ''WinBSegment'', [(''../structVBE2ModeInfo__s.html#a711585a40f304156c25923a4c4cff75d'', 1, ''VBE2ModeInfo_s::WinBSegment()''), (''../structVBE3ModeInfo__s.html#a2e256be0d535c62b194b66bb4f16108d'', 1, ''VBE3ModeInfo_s::WinBSegment()''), (''../VBE2ModeInfo_8h.html#a9edf422a931df7c7a1d5f82afb911566'', 1, ''WinBSegment():&#160;VBE2ModeInfo.h''), (''../VBE3ModeInfo_8h.html#a9edf422a931df7c7a1d5f82afb911566'', 1, ''WinBSegment():&#160;VBE3ModeInfo.h'')]),
     (''winfuncptr'', ''WinFuncPtr'', [(''../structVBE2ModeInfo__s.html#a77608fbdf35190811cecc2e5c9384fe7'', 1, ''VBE2ModeInfo_s::WinFuncPtr()''), (''../structVBE3ModeInfo__s.html#a80fb45de807fc902336ef3ab4847fe95'', 1, ''VBE3ModeInfo_s::WinFuncPtr()''), (''../VBE2ModeInfo_8h.html#a62ca17f519b22d3f7b0a3c774ff78a5f'', 1, ''WinFuncPtr():&#160;VBE2ModeInfo.h''), (''../VBE3ModeInfo_8h.html#a62ca17f519b22d3f7b0a3c774ff78a5f'', 1, ''WinFuncPtr():&#160;VBE3ModeInfo.h'')]),
     (''wingranularity'', ''WinGranularity'', [(''../structVBE2ModeInfo__s.html#a0067e680c34db171af587c9f45d86fa9'', 1, ''VBE2ModeInfo_s::WinGranularity()''), (''../structVBE3ModeInfo__s.html#aac10cc9cf996dc4264f458993a244d1f'', 1, ''VBE3ModeInfo_s::WinGranularity()''), (''../VBE2ModeInfo_8h.html#a38f205f799c6929629395f03e24de077'', 1, ''WinGranularity():&#160;VBE2ModeInfo.h''), (''../VBE3ModeInfo_8h.html#a38f205f799c6929629395f03e24de077'', 1, ''WinGranularity():&#160;VBE3ModeInfo.h'')]),
     (''winsize'', ''WinSize'', [(''../structVBE2ModeInfo__s.html#a3bbb068d45de57ab9812a4cff2026953'', 1, ''VBE2ModeInfo_s::WinSize()''), (''../structVBE3ModeInfo__s.html#a2581297ad83bf9efe57d4793e456ceb2'', 1, ''VBE3ModeInfo_s::WinSize()''), (''../VBE2ModeInfo_8h.html#a78985f1c5ae166cb560099273cc558b4'', 1, ''WinSize():&#160;VBE2ModeInfo.h''), (''../VBE3ModeInfo_8h.html#a78985f1c5ae166cb560099273cc558b4'', 1, ''WinSize():&#160;VBE3ModeInfo.h'')]),
     (''write'', ''write'', [(''../struct__io__device.html#a32778e775759726aad6b2e9746fd3e87'', 1, ''_io_device'')]),
     (''written'', ''written'', [(''../struct__io__file__instance.html#afcb40f074aa8f522dffabc80b962845f'', 1, ''_io_file_instance'')])]"

definition searchData_variables_16 :: "search_entry list" where
  "searchData_variables_16 =
    [(''x'', ''x'', [(''../structPoint__s.html#abe8219c8652104f60e66b5771eb19ebc'', 1, ''Point_s'')]),
     (''xcharsize'', ''XCharSize'', [(''../structVBE2ModeInfo__s.html#ae01b351377be474f24f3586a8cbd06e6'', 1, ''VBE2ModeInfo_s::XCharSize()''), (''../structVBE3ModeInfo__s.html#a5b78dd0caa5ce432c181d11d201b5182'', 1, ''VBE3ModeInfo_s::XCharSize()''), (''../VBE2ModeInfo_8h.html#a047d8f41434f02589d0c9b90b17c67eb'', 1, ''XCharSize():&#160;VBE2ModeInfo.h''), (''../VBE3ModeInfo_8h.html#a047d8f41434f02589d0c9b90b17c67eb'', 1, ''XCharSize():&#160;VBE3ModeInfo.h'')]),
     (''xresolution'', ''XResolution'', [(''../structVBE2ModeInfo__s.html#a0796307430e8b2c00cfc06cf11bca3a3'', 1, ''VBE2ModeInfo_s::XResolution()''), (''../structVBE3ModeInfo__s.html#ababf3c17e121b4d9f388db4ffc9dced3'', 1, ''VBE3ModeInfo_s::XResolution()''), (''../VBE2ModeInfo_8h.html#a16f6408e5a85c7a7785a0cee64b6a219'', 1, ''XResolution():&#160;VBE2ModeInfo.h''), (''../VBE3ModeInfo_8h.html#a16f6408e5a85c7a7785a0cee64b6a219'', 1, ''XResolution():&#160;VBE3ModeInfo.h'')])]"

definition searchData_variables_17 :: "search_entry list" where
  "searchData_variables_17 =
    [(''y'', ''y'', [(''../structPoint__s.html#ae344f52113a98fd8087ba9fb0c19f11e'', 1, ''Point_s'')]),
     (''ycharsize'', ''YCharSize'', [(''../structVBE2ModeInfo__s.html#ada79e4841ae7ca3a2f459c8ec8192293'', 1, ''VBE2ModeInfo_s::YCharSize()''), (''../structVBE3ModeInfo__s.html#a280bbcae05eb8f491d0bc9b20eaab478'', 1, ''VBE3ModeInfo_s::YCharSize()''), (''../VBE2ModeInfo_8h.html#a330f00ebd49dccd2325d43cdbd646f09'', 1, ''YCharSize():&#160;VBE2ModeInfo.h''), (''../VBE3ModeInfo_8h.html#a330f00ebd49dccd2325d43cdbd646f09'', 1, ''YCharSize():&#160;VBE3ModeInfo.h'')]),
     (''year'', ''year'', [(''../struct__f32__time.html#a2d337f8835b5531d865d22ebc60fa2cb'', 1, ''_f32_time::year()''), (''../struct__ft__date__packed.html#a847f87720602e1d3027106cdfa1ad695'', 1, ''_ft_date_packed::year()'')]),
     (''yresolution'', ''YResolution'', [(''../structVBE2ModeInfo__s.html#a1ea8ac1714e7228c2cb1abb414a7409f'', 1, ''VBE2ModeInfo_s::YResolution()''), (''../structVBE3ModeInfo__s.html#af9960b246a174ae64d3ddc3341f1c005'', 1, ''VBE3ModeInfo_s::YResolution()''), (''../VBE2ModeInfo_8h.html#afa8aba2156994750d500f85d0f8425cb'', 1, ''YResolution():&#160;VBE2ModeInfo.h''), (''../VBE3ModeInfo_8h.html#afa8aba2156994750d500f85d0f8425cb'', 1, ''YResolution():&#160;VBE3ModeInfo.h'')])]"

definition variables_pages :: "search_entry list list" where
  "variables_pages =
     [searchData_variables_0, searchData_variables_1, searchData_variables_2,
      searchData_variables_3, searchData_variables_4, searchData_variables_5,
      searchData_variables_6, searchData_variables_7, searchData_variables_8,
      searchData_variables_9, searchData_variables_a, searchData_variables_b,
      searchData_variables_c, searchData_variables_d, searchData_variables_e,
      searchData_variables_f, searchData_variables_10, searchData_variables_11,
      searchData_variables_12, searchData_variables_13, searchData_variables_14,
      searchData_variables_15, searchData_variables_16, searchData_variables_17]"

lemma variables_pages_ok: "list_all2 page_ok ''_abcdefghilmnopqrstuvwxy'' variables_pages"
  by (simp only: variables_pages_def page_eval
    searchData_variables_0_def searchData_variables_1_def searchData_variables_2_def
    searchData_variables_3_def searchData_variables_4_def searchData_variables_5_def
    searchData_variables_6_def searchData_variables_7_def searchData_variables_8_def
    searchData_variables_9_def searchData_variables_a_def searchData_variables_b_def
    searchData_variables_c_def searchData_variables_d_def searchData_variables_e_def
    searchData_variables_f_def searchData_variables_10_def searchData_variables_11_def
    searchData_variables_12_def searchData_variables_13_def searchData_variables_14_def
    searchData_variables_15_def searchData_variables_16_def searchData_variables_17_def)

end
