(* ===== verification/Search_Index_All.thy ===== *)
theory Search_Index_All
  imports Search_Index
begin

text \<open>The search index, continued: the \<^verbatim>\<open>searchData\<close> arrays of the section \<^verbatim>\<open>all\<close>, pages 0 to b.\<close>

definition searchData_all_0 :: "search_entry list" where
  "searchData_all_0 =
    [(''0_2ec'', ''0.c'', [(''../0_8c.html'', 1, '''')]),
     (''0_2eh'', ''0.h'', [(''../0_8h.html'', 1, '''')])]"

definition searchData_all_1 :: "search_entry list" where
  "searchData_all_1 =
    [(''_5f'', ''_'', [(''../0_8h.html#ae4dfd7b0d66121016d6466d2ff10e8ba'', 1, ''0.h'')]),
     (''_5f_5fattribute_5f_5f'', ''__attribute__'', [(''../struct____attribute____.html'', 1, ''__attribute__''), (''../structmm__entry__s.html#a1f4b646a420aca5dd366cea44bb4cdfa'', 1, ''mm_entry_s::__attribute__()''), (''../intel_8h.html#aa418a47b8de731ac6d1608dbd5bd8b24'', 1, ''__attribute__():&#160;intel.h''), (''../memory__map_8h.html#a90b41dcc175b34b3c7ce14be7b066c55'', 1, ''__attribute__():&#160;memory_map.h''), (''../VCon_8h.html#a99a0e3f6d7ec4f0dc8d39a3999d52982'', 1, ''__attribute__():&#160;VCon.h''), (''../early_2realmode_8h.html#aac25c71cb15cf5557e05f1a111bfcc03'', 1, ''__attribute__((packed)):&#160;realmode.h''), (''../GDTDescriptor_8h.html#a7f3650e50bf6cfbb04b3cb2e22102109'', 1, ''__attribute__((__packed__)):&#160;GDTDescriptor.h''), (''../GDTEntry_8h.html#aa58893f369bab514c060c36806e1c518'', 1, ''__attribute__((__packed__)):&#160;GDTEntry.h''), (''../memory__map_8h.html#a74a750c4a281a7c39e5204f1e70aeb63'', 1, ''__attribute__((packed)):&#160;memory_map.h''), (''../realmode_8h.html#aac25c71cb15cf5557e05f1a111bfcc03'', 1, ''__attribute__((packed)):&#160;realmode.h''), (''../VConLine_8h.html#a4f89187fff98746c88884b80f1d11ad0'', 1, ''__attribute__((packed)):&#160;VConLine.h''), (''../EDIDRecord_8h.html#a60549e7fea66fde0aea927bd5a86c9df'', 1, ''__attribute__((__packed__)):&#160;EDIDRecord.h''), (''../VBE2ModeInfo_8h.html#ae842439fc141a66dde9bfb741a563926'', 1, ''__attribute__((packed)):&#160;VBE2ModeInfo.h''), (''../VBE3ModeInfo_8h.html#a8c615adfe1f81b1fa30a7fb67d202eb6'', 1, ''__attribute__((packed)):&#160;VBE3ModeInfo.h''), (''../VBEInfo_8h.html#a1e7dd9f168ca04b4dab1186f20f4e6e4'', 1, ''__attribute__((packed)):&#160;VBEInfo.h'')]),
     (''_5f_5fdelay'', ''__delay'', [(''../support_8c.html#a7e052659327ea27293839744ef681520'', 1, ''__delay(int tenths):&#160;support.c''), (''../support_8h.html#a7e052659327ea27293839744ef681520'', 1, ''__delay(int tenths):&#160;support.c'')]),
     (''_5f_5fget_5fflags'', ''__get_flags'', [(''../startup_8h.html#a35d1cdca4097a4d04bc467464df2413e'', 1, ''startup.h'')]),
     (''_5f_5finb'', ''__inb'', [(''../startup_8h.html#a3df1d15de61891e447b233789024063e'', 1, ''startup.h'')]),
     (''_5f_5finit_5fint32'', ''__init_int32'', [(''../realmode_8h.html#ac1ad67734b2dd1c1eb935b36cdb0f14b'', 1, ''realmode.h'')]),
     (''_5f_5finit_5finterrupts'', ''__init_interrupts'', [(''../support_8c.html#a693732f4344b06cf022da4d7f62d180c'', 1, ''__init_interrupts(void):&#160;support.c''), (''../support_8h.html#a693732f4344b06cf022da4d7f62d180c'', 1, ''__init_interrupts(void):&#160;support.c'')]),
     (''_5f_5finl'', ''__inl'', [(''../startup_8h.html#a273f2e187112c2227d04db7421663297'', 1, ''startup.h'')]),
     (''_5f_5finstall_5fisr'', ''__install_isr'', [(''../support_8c.html#a1c27f0029cfb2a39fd5121fcdec45591'', 1, ''__install_isr():&#160;support.c''), (''../support_8h.html#a1c27f0029cfb2a39fd5121fcdec45591'', 1, ''__install_isr():&#160;support.h'')]),
     (''_5f_5fint'', ''__int'', [(''../early_2realmode_8h.html#a96582dad4f3dd7d9329c3c14b2e4ca59'', 1, ''realmode.h'')]),
     (''_5f_5fint32'', ''__int32'', [(''../realmode_8h.html#acc4101360f2176a14f63709c73b82aa6'', 1, ''realmode.h'')]),
     (''_5f_5finw'', ''__inw'', [(''../startup_8h.html#a4442fa44b7f3065d1572be47c3eda252'', 1, ''startup.h'')]),
     (''_5f_5fisr_5ftable'', ''__isr_table'', [(''../support_8c.html#aaa9d902cc249b999a63b303757c8057a'', 1, ''support.c'')]),
     (''_5f_5foutb'', ''__outb'', [(''../startup_8h.html#a2c03316e5e864b9045e46af48d731972'', 1, ''startup.h'')]),
     (''_5f_5foutl'', ''__outl'', [(''../startup_8h.html#aa79c5738ec80aa5b3ebc313b779887f6'', 1, ''startup.h'')]),
     (''_5f_5foutw'', ''__outw'', [(''../startup_8h.html#a39f8440d4e488b5857d40f668672adab'', 1, ''startup.h'')]),
     (''_5f_5fpad1'', ''__pad1'', [(''../structrfd__t.html#aa3bd0e7e42304160df761263462f9192'', 1, ''rfd_t::__pad1()''), (''../structcsr.html#a31632f985717b65df73afce85714acaa'', 1, ''csr::__pad1()'')]),
     (''_5f_5fpanic'', ''__panic'', [(''../support_8c.html#a09061e385f3dc21b93ed9ba3f0713703'', 1, ''__panic(char *reason):&#160;support.c''), (''../support_8h.html#a09061e385f3dc21b93ed9ba3f0713703'', 1, ''__panic(char *reason):&#160;support.c'')]),
     (''_5f_5fpause'', ''__pause'', [(''../startup_8h.html#a455f22e2e43882afb2b6f880857860b7'', 1, ''startup.h'')]),
     (''_5f_5fsp_5fkernel_5f_5f'', ''__SP_KERNEL__'', [(''../0_8c.html#a136fc9b458dfe9f70b208e2c22da7ecb'', 1, ''__SP_KERNEL__():&#160;0.c''), (''../clock_8c.html#a136fc9b458dfe9f70b208e2c22da7ecb'', 1, ''__SP_KERNEL__():&#160;clock.c''), (''../klibc_8c.html#a136fc9b458dfe9f70b208e2c22da7ecb'', 1, ''__SP_KERNEL__():&#160;klibc.c''), (''../process_8c.html#a136fc9b458dfe9f70b208e2c22da7ecb'', 1, ''__SP_KERNEL__():&#160;process.c''), (''../queue_8c.html#a136fc9b458dfe9f70b208e2c22da7ecb'', 1, ''__SP_KERNEL__():&#160;queue.c''), (''../scheduler_8c.html#a136fc9b458dfe9f70b208e2c22da7ecb'', 1, ''__SP_KERNEL__():&#160;scheduler.c''), (''../sio_8c.html#a136fc9b458dfe9f70b208e2c22da7ecb'', 1, ''__SP_KERNEL__():&#160;sio.c''), (''../stack_8c.html#a136fc9b458dfe9f70b208e2c22da7ecb'', 1, ''__SP_KERNEL__():&#160;stack.c''), (''../syscall_8c.html#a136fc9b458dfe9f70b208e2c22da7ecb'', 1, ''__SP_KERNEL__():&#160;syscall.c''), (''../system_8c.html#a136fc9b458dfe9f70b208e2c22da7ecb'', 1, ''__SP_KERNEL__():&#160;system.c'')]),
     (''_5fclk_5finit'', ''_clk_init'', [(''../clock_8c.html#ab10323b7344dd66bc8b6dd492fc02768'', 1, ''_clk_init(void):&#160;clock.c''), (''../clock_8h.html#ab10323b7344dd66bc8b6dd492fc02768'', 1, ''_clk_init(void):&#160;clock.c'')]),
     (''_5fcmp_5fwakeup'', ''_cmp_wakeup'', [(''../queue_8c.html#ac7705229a44a1a2ce1e2cedbe5891ed7'', 1, ''_cmp_wakeup(const void *v1, const void *v2):&#160;queue.c''), (''../queue_8h.html#ac7705229a44a1a2ce1e2cedbe5891ed7'', 1, ''_cmp_wakeup(const void *v1, const void *v2):&#160;queue.c'')]),
     (''_5fcontext_5fdump'', ''_context_dump'', [(''../process_8c.html#a54e7f01c48bd523d2029f5119c734150'', 1, ''_context_dump(const char *which, context_t *context):&#160;process.c''), (''../process_8h.html#a54e7f01c48bd523d2029f5119c734150'', 1, ''_context_dump(const char *which, context_t *context):&#160;process.c'')]),
     (''_5fcurrent'', ''_current'', [(''../scheduler_8c.html#a55cad563e1dd809d99d74af856331559'', 1, ''_current():&#160;scheduler.c''), (''../scheduler_8h.html#a55cad563e1dd809d99d74af856331559'', 1, ''_current():&#160;scheduler.c'')]),
     (''_5fdispatch'', ''_dispatch'', [(''../scheduler_8c.html#a18d3353e4b28b00cfe67ad697b53d0bb'', 1, ''_dispatch(void):&#160;scheduler.c''), (''../scheduler_8h.html#a18d3353e4b28b00cfe67ad697b53d0bb'', 1, ''_dispatch(void):&#160;scheduler.c'')]),
     (''_5ff32_5ftime'', ''_f32_time'', [(''../struct__f32__time.html'', 1, '''')]),
     (''_5ffat_5fclust_5fstat'', ''_fat_clust_stat'', [(''../fat__types_8h.html#ac1b5aae823140c03e06e1e73b2d3b45b'', 1, ''fat_types.h'')]),
     (''_5ffile_5fprop'', ''_file_prop'', [(''../io__types_8h.html#a54f1d532e9a65814c0c5bedc5dff021e'', 1, ''io_types.h'')]),
     (''_5fft_5fbpb'', ''_ft_bpb'', [(''../struct__ft__bpb.html'', 1, '''')]),
     (''_5fft_5fctxt_5fblock'', ''_ft_ctxt_block'', [(''../struct__ft__ctxt__block.html'', 1, '''')]),
     (''_5fft_5fdate_5fpacked'', ''_ft_date_packed'', [(''../struct__ft__date__packed.html'', 1, '''')]),
     (''_5fft_5fde_5fattr'', ''_ft_de_attr'', [(''../fat__types_8h.html#aec7d52b5c49b1dcedbd3ca8781825fec'', 1, ''fat_types.h'')]),
     (''_5fft_5fde_5finmem'', ''_ft_de_inmem'', [(''../struct__ft__de__inmem.html'', 1, '''')]),
     (''_5fft_5fde_5flongname'', ''_ft_de_longname'', [(''../struct__ft__de__longname.html'', 1, '''')]),
     (''_5fft_5fde_5fsd'', ''_ft_de_sd'', [(''../struct__ft__de__sd.html'', 1, '''')]),
     (''_5fft_5ffsinfo'', ''_ft_fsinfo'', [(''../struct__ft__fsinfo.html'', 1, '''')]),
     (''_5fft_5ftime_5fpacked'', ''_ft_time_packed'', [(''../struct__ft__time__packed.html'', 1, '''')]),
     (''_5fget_5febp'', ''_get_ebp'', [(''../klib_8h.html#a813f4486464d864b26cc32ef481cc552'', 1, ''klib.h'')]),
     (''_5finit'', ''_init'', [(''../system_8c.html#ad1cbc4315ef293463e6057dfb24c8115'', 1, ''_init(void):&#160;system.c''), (''../system_8h.html#ad1cbc4315ef293463e6057dfb24c8115'', 1, ''_init(void):&#160;system.c'')]),
     (''_5finit_5fpcb'', ''_init_pcb'', [(''../scheduler_8c.html#a7c1955d1244df73658ca9f3ef9e0a1a2'', 1, ''_init_pcb():&#160;scheduler.c''), (''../scheduler_8h.html#a7c1955d1244df73658ca9f3ef9e0a1a2'', 1, ''_init_pcb():&#160;scheduler.c'')]),
     (''_5fio_5fcreate_5fpolicy'', ''_io_create_policy'', [(''../io__types_8h.html#a968d012ffce7db9cbcd8774c17549aa0'', 1, ''io_types.h'')]),
     (''_5fio_5fdevice'', ''_io_device'', [(''../struct__io__device.html'', 1, '''')]),
     (''_5fio_5fdv_5fgetprop'', ''_io_dv_getprop'', [(''../device_8c.html#ae411e8694a117c32786e767e8c47c5c4'', 1, ''_io_dv_getprop(PIO_DEVICE dv, IOPROP prop, void *value, PBSIZE plength):&#160;device.c''), (''../device_8h.html#ae411e8694a117c32786e767e8c47c5c4'', 1, ''_io_dv_getprop(PIO_DEVICE dv, IOPROP prop, void *value, PBSIZE plength):&#160;device.c'')]),
     (''_5fio_5fdv_5finit_5fhandle'', ''_io_dv_init_handle'', [(''../device_8c.html#a7557204ea1f095bce025df0a1cc931bf'', 1, ''_io_dv_init_handle(IOHANDLE handle):&#160;device.c''), (''../device_8h.html#a7557204ea1f095bce025df0a1cc931bf'', 1, ''_io_dv_init_handle(IOHANDLE handle):&#160;device.c'')]),
     (''_5fio_5fdv_5finit_5fnull'', ''_io_dv_init_null'', [(''../device_8c.html#a650552c06301fe4c598c5c8a2b8953e2'', 1, ''_io_dv_init_null():&#160;device.c''), (''../device_8h.html#a2730a502318591a07b9a5f02c87f323f'', 1, ''_io_dv_init_null(void):&#160;device.c'')]),
     (''_5fio_5fdv_5fiterate'', ''_io_dv_iterate'', [(''../device_8c.html#a5c004c478da98d596aa95959fb27d0ef'', 1, ''_io_dv_iterate(PIOHANDLE out, int index):&#160;device.c''), (''../device_8h.html#a5c004c478da98d596aa95959fb27d0ef'', 1, ''_io_dv_iterate(PIOHANDLE out, int index):&#160;device.c'')]),
     (''_5fio_5fdv_5fsetprop'', ''_io_dv_setprop'', [(''../device_8c.html#a16a32cadfa2b598d6dde62bbcaa29fb4'', 1, ''_io_dv_setprop(PIO_DEVICE dv, IOPROP prop, void *value, int32_t length):&#160;device.c''), (''../device_8h.html#a7b4f3c56db126bfff9b8987ba4e5a6c5'', 1, ''_io_dv_setprop(PIO_DEVICE dv, IOPROP prop, void *value, BSIZE length):&#160;device.c'')]),
     (''_5fio_5ffile_5finstance'', ''_io_file_instance'', [(''../struct__io__file__instance.html'', 1, '''')]),
     (''_5fio_5ffilesystem'', ''_io_filesystem'', [(''../struct__io__filesystem.html'', 1, '''')]),
     (''_5fio_5ffs_5fgetprop'', ''_io_fs_getprop'', [(''../filesystem_8c.html#a053a777678c745c8c41224528e7bda3c'', 1, ''_io_fs_getprop(PIO_FILESYSTEM fs, IOPROP prop, void *value, PBSIZE plength):&#160;filesystem.c''), (''../filesystem_8h.html#a053a777678c745c8c41224528e7bda3c'', 1, ''_io_fs_getprop(PIO_FILESYSTEM fs, IOPROP prop, void *value, PBSIZE plength):&#160;filesystem.c'')]),
     (''_5fio_5ffs_5finit_5fhandle'', ''_io_fs_init_handle'', [(''../filesystem_8c.html#a9ec6a3e90851d42678003c2be02e24d9'', 1, ''_io_fs_init_handle(IOHANDLE handle):&#160;filesystem.c''), (''../filesystem_8h.html#a9ec6a3e90851d42678003c2be02e24d9'', 1, ''_io_fs_init_handle(IOHANDLE handle):&#160;filesystem.c'')]),
     (''_5fio_5ffs_5finit_5fnull'', ''_io_fs_init_null'', [(''../filesystem_8c.html#a53edc93ac6bddc2b3256f5afbb4d877f'', 1, ''_io_fs_init_null():&#160;filesystem.c''), (''../filesystem_8h.html#a56dbccd455e301b45aeb4bd824aec389'', 1, ''_io_fs_init_null(void):&#160;filesystem.c'')]),
     (''_5fio_5ffs_5fiterate'', ''_io_fs_iterate'', [(''../filesystem_8c.html#a7c2bece45f2d4b4e6a636e707db93822'', 1, ''_io_fs_iterate(PIOHANDLE out, int index):&#160;filesystem.c''), (''../filesystem_8h.html#a7c2bece45f2d4b4e6a636e707db93822'', 1, ''_io_fs_iterate(PIOHANDLE out, int index):&#160;filesystem.c'')]),
     (''_5fio_5ffs_5fsetprop'', ''_io_fs_setprop'', [(''../filesystem_8c.html#ade98201a24d3ef4911687096f132fa03'', 1, ''_io_fs_setprop(PIO_FILESYSTEM fs, IOPROP prop, void *value, int32_t length):&#160;filesystem.c''), (''../filesystem_8h.html#ae68eab4ac75fc7228d493ff1ece7a3ea'', 1, ''_io_fs_setprop(PIO_FILESYSTEM fs, IOPROP prop, void *value, BSIZE length):&#160;filesystem.c'')]),
     (''_5fio_5fgrab_5fnext_5fdevice'', ''_io_grab_next_device'', [(''../device_8c.html#a09694e77ba6102dc13f59c2aea6bdd31'', 1, ''_io_grab_next_device(PIO_DEVICE *out_p_device):&#160;device.c''), (''../device_8h.html#a09694e77ba6102dc13f59c2aea6bdd31'', 1, ''_io_grab_next_device(PIO_DEVICE *out_p_device):&#160;device.c'')]),
     (''_5fio_5fgrab_5fnext_5ffilesystem'', ''_io_grab_next_filesystem'', [(''../filesystem_8c.html#ab28bf68e56b0dd5e1a0bfb21b01d24d0'', 1, ''_io_grab_next_filesystem(PIO_FILESYSTEM *out_p_filesystem):&#160;filesystem.c''), (''../filesystem_8h.html#a2e4c6c64b9ebdaeee87a9fbb680073c6'', 1, ''_io_grab_next_filesystem(PIO_FILESYSTEM *out_p_fs):&#160;filesystem.c'')]),
     (''_5fio_5fgrab_5fnext_5fmessage'', ''_io_grab_next_message'', [(''../message_8c.html#aca0663eb35dfef7a27d5e079031c504e'', 1, ''_io_grab_next_message(PIO_MESSAGE *out_p_msg):&#160;message.c''), (''../message_8h.html#a232f8bf520f71c520041bc33bd8151b0'', 1, ''_io_grab_next_message(PIO_MESSAGE *out_p_message):&#160;message.c'')]),
     (''_5fio_5fgrab_5fnext_5fmiddleware'', ''_io_grab_next_middleware'', [(''../middleware_8c.html#ae79dabf6801455e843f1f191cbdb9232'', 1, ''_io_grab_next_middleware(PIO_MIDDLEWARE *out_p_middleware):&#160;middleware.c''), (''../middleware_8h.html#ae79dabf6801455e843f1f191cbdb9232'', 1, ''_io_grab_next_middleware(PIO_MIDDLEWARE *out_p_middleware):&#160;middleware.c'')]),
     (''_5fio_5fgrab_5fnext_5fmount'', ''_io_grab_next_mount'', [(''../mount_8c.html#aef17ec133f64494f4a966da04384108d'', 1, ''_io_grab_next_mount(PIO_MOUNT *out_p_mount):&#160;mount.c''), (''../mount_8h.html#aef17ec133f64494f4a966da04384108d'', 1, ''_io_grab_next_mount(PIO_MOUNT *out_p_mount):&#160;mount.c'')]),
     (''_5fio_5fhandle_5fis_5fvalid'', ''_io_handle_is_valid'', [(''../router_8c.html#a8690e6e683f2d0db59c1a80e6049a69a'', 1, ''router.c'')]),
     (''_5fio_5finit_5fdevices'', ''_io_init_devices'', [(''../device_8c.html#a528db3b074808ea10141334892441d20'', 1, ''_io_init_devices():&#160;device.c''), (''../device_8h.html#aded6c918e37a3aab078f4541f47a4f6a'', 1, ''_io_init_devices(void):&#160;device.c'')]),
     (''_5fio_5finit_5ffilesystems'', ''_io_init_filesystems'', [(''../filesystem_8c.html#a77dec0001673f94c72b0bc8b91e97314'', 1, ''_io_init_filesystems():&#160;filesystem.c''), (''../filesystem_8h.html#a499cbc5c61e4b09d458624b0ca4eb100'', 1, ''_io_init_filesystems(void):&#160;filesystem.c'')]),
     (''_5fio_5finit_5fmessages'', ''_io_init_messages'', [(''../message_8c.html#af904d8c9fbf2f3cd2e87128e091b8df5'', 1, ''_io_init_messages():&#160;message.c''), (''../message_8h.html#a0a114f29f06349676dc57cb384445a90'', 1, ''_io_init_messages(void):&#160;message.c'')]),
     (''_5fio_5finit_5fmiddlewares'', ''_io_init_middlewares'', [(''../middleware_8c.html#ad027435a7fae62e1a3612c185b2ee25d'', 1, ''_io_init_middlewares():&#160;middleware.c''), (''../middleware_8h.html#af77abcb578279776ce1ad5b8134005b8'', 1, ''_io_init_middlewares(void):&#160;middleware.c'')]),
     (''_5fio_5finit_5fmounts'', ''_io_init_mounts'', [(''../mount_8c.html#a0de5ae54d5cbfcca9ce3061e90340814'', 1, ''_io_init_mounts():&#160;mount.c''), (''../mount_8h.html#a3d961ad24e5db77df17ddbdd829915c8'', 1, ''_io_init_mounts(void):&#160;mount.c'')]),
     (''_5fio_5fmd_5fgetprop'', ''_io_md_getprop'', [(''../middleware_8c.html#a3fe521c73cc187cda4d4e92e82dc1958'', 1, ''_io_md_getprop(PIO_MIDDLEWARE md, IOPROP prop, void *value, PBSIZE plength):&#160;middleware.c''), (''../middleware_8h.html#a3fe521c73cc187cda4d4e92e82dc1958'', 1, ''_io_md_getprop(PIO_MIDDLEWARE md, IOPROP prop, void *value, PBSIZE plength):&#160;middleware.c'')]),
     (''_5fio_5fmd_5finit_5fhandle'', ''_io_md_init_handle'', [(''../middleware_8c.html#a36ce5eaf53efc938e02c809a6965d53c'', 1, ''_io_md_init_handle(IOHANDLE handle):&#160;middleware.c''), (''../middleware_8h.html#a36ce5eaf53efc938e02c809a6965d53c'', 1, ''_io_md_init_handle(IOHANDLE handle):&#160;middleware.c'')]),
     (''_5fio_5fmd_5finit_5fnull'', ''_io_md_init_null'', [(''../middleware_8c.html#a8ed5ce660e6bb8b17b23355dc7002e9b'', 1, ''_io_md_init_null():&#160;middleware.c''), (''../middleware_8h.html#a328e20af96c2a2f8e57c24a7d53e1387'', 1, ''_io_md_init_null(void):&#160;middleware.c'')]),
     (''_5fio_5fmd_5fiterate'', ''_io_md_iterate'', [(''../middleware_8c.html#a894a6875dc1e4bef4e796bc721d7a649'', 1, ''_io_md_iterate(PIOHANDLE out, int index):&#160;middleware.c''), (''../middleware_8h.html#a894a6875dc1e4bef4e796bc721d7a649'', 1, ''_io_md_iterate(PIOHANDLE out, int index):&#160;middleware.c'')]),
     (''_5fio_5fmd_5fsetprop'', ''_io_md_setprop'', [(''../middleware_8c.html#a158e799f3258c67327e529d96ebe9318'', 1, ''_io_md_setprop(PIO_MIDDLEWARE md, IOPROP prop, void *value, int32_t length):&#160;middleware.c''), (''../middleware_8h.html#ae8fe72b44f35223d222940c0adbefc72'', 1, ''_io_md_setprop(PIO_MIDDLEWARE md, IOPROP prop, void *value, BSIZE length):&#160;middleware.c'')]),
     (''_5fio_5fmessage'', ''_io_message'', [(''../struct__io__message.html'', 1, '''')]),
     (''_5fio_5fmiddleware'', ''_io_middleware'', [(''../struct__io__middleware.html'', 1, '''')]),
     (''_5fio_5fmount'', ''_io_mount'', [(''../struct__io__mount.html'', 1, '''')]),
     (''_5fio_5fmp_5fgetprop'', ''_io_mp_getprop'', [(''../mount_8c.html#a3379a6113225696abe9c9796cd705fb1'', 1, ''_io_mp_getprop(PIO_MOUNT mp, IOPROP prop, void *value, PBSIZE plength):&#160;mount.c''), (''../mount_8h.html#a3379a6113225696abe9c9796cd705fb1'', 1, ''_io_mp_getprop(PIO_MOUNT mp, IOPROP prop, void *value, PBSIZE plength):&#160;mount.c'')]),
     (''_5fio_5fmp_5finit_5fhandle'', ''_io_mp_init_handle'', [(''../mount_8c.html#af0875e05c25c55c38f47d7b607240e2a'', 1, ''_io_mp_init_handle(IOHANDLE handle):&#160;mount.c''), (''../mount_8h.html#af0875e05c25c55c38f47d7b607240e2a'', 1, ''_io_mp_init_handle(IOHANDLE handle):&#160;mount.c'')]),
     (''_5fio_5fmp_5finit_5fnull'', ''_io_mp_init_null'', [(''../mount_8c.html#a4ff83b99f21866748ee0ac0e342037c6'', 1, ''_io_mp_init_null():&#160;mount.c''), (''../mount_8h.html#aa652c8f89bd6bf7eaa1b041b7c2dd71b'', 1, ''_io_mp_init_null(void):&#160;mount.c'')]),
     (''_5fio_5fmp_5fiterate'', ''_io_mp_iterate'', [(''../mount_8c.html#a3578bde52b2654645e55bf1f8ba1127d'', 1, ''_io_mp_iterate(PIOHANDLE out, int index):&#160;mount.c''), (''../mount_8h.html#a3578bde52b2654645e55bf1f8ba1127d'', 1, ''_io_mp_iterate(PIOHANDLE out, int index):&#160;mount.c'')]),
     (''_5fio_5fmp_5fsetprop'', ''_io_mp_setprop'', [(''../mount_8c.html#abed454d0b4ea8dab67212e1f06929807'', 1, ''_io_mp_setprop(PIO_MOUNT mp, IOPROP prop, void *value, int32_t length):&#160;mount.c''), (''../mount_8h.html#abc10108ecf9b4a7110c3be6203af1ab7'', 1, ''_io_mp_setprop(PIO_MOUNT mp, IOPROP prop, void *value, BSIZE length):&#160;mount.c'')]),
     (''_5fio_5fmsg_5fgetprop'', ''_io_msg_getprop'', [(''../message_8c.html#a30fd625b756bcfc7e33e9ab2a1e13fa5'', 1, ''_io_msg_getprop(PIO_MESSAGE msg, IOPROP prop, void *value, PBSIZE plength):&#160;message.c''), (''../message_8h.html#a30fd625b756bcfc7e33e9ab2a1e13fa5'', 1, ''_io_msg_getprop(PIO_MESSAGE msg, IOPROP prop, void *value, PBSIZE plength):&#160;message.c'')]),
     (''_5fio_5fmsg_5finit_5fhandle'', ''_io_msg_init_handle'', [(''../message_8c.html#a7e5576491fd848fbb97a60f103abee98'', 1, ''_io_msg_init_handle(IOHANDLE handle):&#160;message.c''), (''../message_8h.html#a7e5576491fd848fbb97a60f103abee98'', 1, ''_io_msg_init_handle(IOHANDLE handle):&#160;message.c'')]),
     (''_5fio_5fmsg_5finit_5fnull'', ''_io_msg_init_null'', [(''../message_8c.html#a85afde32dc91dc9495d9f656def34e2a'', 1, ''_io_msg_init_null():&#160;message.c''), (''../message_8h.html#ab3964cbefd0cf90903bc5b68bfa8e292'', 1, ''_io_msg_init_null(void):&#160;message.c'')]),
     (''_5fio_5fmsg_5fiterate'', ''_io_msg_iterate'', [(''../message_8c.html#ad13fbbef711f9f0d68eb985cb0c759ec'', 1, ''_io_msg_iterate(PIOHANDLE out, int index):&#160;message.c''), (''../message_8h.html#ad13fbbef711f9f0d68eb985cb0c759ec'', 1, ''_io_msg_iterate(PIOHANDLE out, int index):&#160;message.c'')]),
     (''_5fio_5fmsg_5fsetprop'', ''_io_msg_setprop'', [(''../message_8c.html#afb26fa52d262ae17342834858fd39d3f'', 1, ''_io_msg_setprop(PIO_MESSAGE msg, IOPROP prop, void *value, int32_t length):&#160;message.c''), (''../message_8h.html#ac0a7de541a2f2c9a662ecd353da60cd4'', 1, ''_io_msg_setprop(PIO_MESSAGE msg, IOPROP prop, void *value, BSIZE blength):&#160;message.c'')]),
     (''_5fio_5fobject_5fentry'', ''_io_object_entry'', [(''../router_8c.html#a4394dc6c15d66282182f98b184d5e779'', 1, ''router.c'')]),
     (''_5fio_5fsort'', ''_io_sort'', [(''../io__types_8h.html#ab45ede47fd7cc8669d4b29a93989396d'', 1, ''io_types.h'')]),
     (''_5fioctl'', ''_ioctl'', [(''../io__types_8h.html#aea417366ca90723a8c0117532b7f9aac'', 1, ''io_types.h'')]),
     (''_5fioentry'', ''_ioentry'', [(''../struct__ioentry.html'', 1, '''')]),
     (''_5fiofs_5fhandle_5fis_5fvalid'', ''_iofs_handle_is_valid'', [(''../file_8c.html#a2b79999d5f2a6ee27721ae057c831720'', 1, ''file.c'')]),
     (''_5fiofs_5finit'', ''_iofs_init'', [(''../file_8c.html#af672d3ad4b4906abfd0cdc4409e083d2'', 1, ''file.c'')]),
     (''_5fk_5fmmap'', ''_k_mmap'', [(''../memory__map_8c.html#ae7dd20fcbc18f91d25711789cf9afb18'', 1, ''_k_mmap(uint32_t *vspace, void *vmem_start, void *pmem_start, size_t length, int *status):&#160;memory_map.c''), (''../memory__map_8h.html#ae7dd20fcbc18f91d25711789cf9afb18'', 1, ''_k_mmap(uint32_t *vspace, void *vmem_start, void *pmem_start, size_t length, int *status):&#160;memory_map.c'')]),
     (''_5fkmemclr'', ''_kmemclr'', [(''../klibc_8c.html#a17b9073e426958f00ba53ecdb30e5552'', 1, ''_kmemclr(register uint8_t *buf, register uint32_t len):&#160;klibc.c''), (''../klib_8h.html#a17b9073e426958f00ba53ecdb30e5552'', 1, ''_kmemclr(register uint8_t *buf, register uint32_t len):&#160;klibc.c'')]),
     (''_5fkmemcpy'', ''_kmemcpy'', [(''../klibc_8c.html#a043b9edf1d51d67356a38adecdb54cf1'', 1, ''_kmemcpy(register uint8_t *dst, register uint8_t *src, register uint32_t len):&#160;klibc.c''), (''../klib_8h.html#a043b9edf1d51d67356a38adecdb54cf1'', 1, ''_kmemcpy(register uint8_t *dst, register uint8_t *src, register uint32_t len):&#160;klibc.c'')]),
     (''_5fkmemset'', ''_kmemset'', [(''../klibc_8c.html#afc246280975b2786e6c862a480d463f7'', 1, ''_kmemset(register uint8_t *buf, register uint32_t len, register uint8_t value):&#160;klibc.c''), (''../klib_8h.html#afc246280975b2786e6c862a480d463f7'', 1, ''_kmemset(register uint8_t *buf, register uint32_t len, register uint8_t value):&#160;klibc.c'')]),
     (''_5fkpanic'', ''_kpanic'', [(''../klibc_8c.html#a3b50784cb9558d4b428223230bd22470'', 1, ''_kpanic(char *mod, char *msg):&#160;klibc.c''), (''../klib_8h.html#a3b50784cb9558d4b428223230bd22470'', 1, ''_kpanic(char *mod, char *msg):&#160;klibc.c'')]),
     (''_5fkstrcmp'', ''_kstrcmp'', [(''../klibc_8c.html#a3dd916028a25fd649377d9095f0e848c'', 1, ''_kstrcmp(register const char *s1, register const char *s2):&#160;klibc.c''), (''../klib_8h.html#a3dd916028a25fd649377d9095f0e848c'', 1, ''_kstrcmp(register const char *s1, register const char *s2):&#160;klibc.c'')]),
     (''_5fmc_5fio_5fdv_5fcnt'', ''_MC_IO_DV_CNT'', [(''../device_8c.html#a2d5f3edc1b8f42f129c7c027d4722e3a'', 1, ''device.c'')]),
     (''_5fmc_5fio_5ffs_5fcnt'', ''_MC_IO_FS_CNT'', [(''../filesystem_8c.html#a0494a71b743c5a95625edfa5c87cde69'', 1, ''filesystem.c'')]),
     (''_5fmc_5fio_5fmd_5fcnt'', ''_MC_IO_MD_CNT'', [(''../middleware_8c.html#abfbb4005c57287567b9ec8a59a6f7ace'', 1, ''middleware.c'')]),
     (''_5fmc_5fio_5fmp_5fcnt'', ''_MC_IO_MP_CNT'', [(''../mount_8c.html#a94fa3491c1cb01800fc70cb18748ff74'', 1, ''mount.c'')]),
     (''_5fmc_5fio_5fms_5fcnt'', ''_MC_IO_MS_CNT'', [(''../message_8c.html#a97866cbef2b95443769f5c8f57cbb346'', 1, ''message.c'')]),
     (''_5fnext_5fpid'', ''_next_pid'', [(''../process_8c.html#a50dae84e2859a82a22e293be6d6dc55c'', 1, ''_next_pid():&#160;process.c''), (''../process_8h.html#a50dae84e2859a82a22e293be6d6dc55c'', 1, ''_next_pid():&#160;process.c'')]),
     (''_5fnow'', ''_now'', [(''../clock_8c.html#ac82dd9b92b3bb8f31d2f085f672a7dc7'', 1, ''_now():&#160;clock.c''), (''../clock_8h.html#a0ba4a39490659ac1aa5049f9a7be731b'', 1, ''_now():&#160;clock.c'')]),
     (''_5fpcb_5falloc'', ''_pcb_alloc'', [(''../process_8c.html#af56ca6fc981f5c819890ea9ff1a59463'', 1, ''_pcb_alloc(void):&#160;process.c''), (''../process_8h.html#af56ca6fc981f5c819890ea9ff1a59463'', 1, ''_pcb_alloc(void):&#160;process.c'')]),
     (''_5fpcb_5fcleanup'', ''_pcb_cleanup'', [(''../process_8c.html#a049bff7f3fa3076133381606c9b061d2'', 1, ''_pcb_cleanup(pcb_t *pcb):&#160;process.c''), (''../process_8h.html#a049bff7f3fa3076133381606c9b061d2'', 1, ''_pcb_cleanup(pcb_t *pcb):&#160;process.c'')]),
     (''_5fpcb_5fdealloc'', ''_pcb_dealloc'', [(''../process_8c.html#ab83656b02037463f006d6c24bd11558f'', 1, ''_pcb_dealloc(pcb_t *pcb):&#160;process.c''), (''../process_8h.html#ab83656b02037463f006d6c24bd11558f'', 1, ''_pcb_dealloc(pcb_t *pcb):&#160;process.c'')]),
     (''_5fpcb_5fdump'', ''_pcb_dump'', [(''../process_8c.html#ab9ea77e8edb507ed88175fee23183069'', 1, ''_pcb_dump(const char *which, pcb_t *pcb):&#160;process.c''), (''../process_8h.html#ab9ea77e8edb507ed88175fee23183069'', 1, ''_pcb_dump(const char *which, pcb_t *pcb):&#160;process.c'')]),
     (''_5fpcb_5ffind'', ''_pcb_find'', [(''../process_8c.html#a6bb0c6c1ab83de8208bbfa71a1787a0e'', 1, ''_pcb_find(pid_t pid):&#160;process.c''), (''../process_8h.html#a6bb0c6c1ab83de8208bbfa71a1787a0e'', 1, ''_pcb_find(pid_t pid):&#160;process.c'')]),
     (''_5fpcb_5ffind_5fchild_5fof'', ''_pcb_find_child_of'', [(''../process_8c.html#ae57de0cffa232f7853d0d9a4b14e5c3e'', 1, ''_pcb_find_child_of(int32_t ppid):&#160;process.c''), (''../process_8h.html#ae57de0cffa232f7853d0d9a4b14e5c3e'', 1, ''_pcb_find_child_of(int32_t ppid):&#160;process.c'')]),
     (''_5fpcb_5finit'', ''_pcb_init'', [(''../process_8c.html#a419b7f8d5e97cde27d1292f5bc81108a'', 1, ''_pcb_init(void):&#160;process.c''), (''../process_8h.html#a419b7f8d5e97cde27d1292f5bc81108a'', 1, ''_pcb_init(void):&#160;process.c'')]),
     (''_5fpcbs'', ''_pcbs'', [(''../process_8c.html#aedaf82fa467ce7c33a2c3e2eaf737a09'', 1, ''_pcbs():&#160;process.c''), (''../process_8h.html#ae1bfeb9fca92ad4010cfaf73701fa326'', 1, ''_pcbs():&#160;process.c'')]),
     (''_5fput_5fchar_5for_5fcode'', ''_put_char_or_code'', [(''../klibc_8c.html#a38f2a8f325587f92e8c2b44f00e7f66e'', 1, ''_put_char_or_code(int ch):&#160;klibc.c''), (''../klib_8h.html#a38f2a8f325587f92e8c2b44f00e7f66e'', 1, ''_put_char_or_code(int ch):&#160;klibc.c'')]),
     (''_5fq_5fdeque'', ''_q_deque'', [(''../queue_8c.html#a2392dae14045fc1423e5395dca9fb401'', 1, ''_q_deque(queue_t *que, void **data):&#160;queue.c''), (''../queue_8h.html#a2392dae14045fc1423e5395dca9fb401'', 1, ''_q_deque(queue_t *que, void **data):&#160;queue.c'')]),
     (''_5fq_5fdump'', ''_q_dump'', [(''../queue_8c.html#ac172895328b210a84834be0d93a11158'', 1, ''_q_dump(char *which, queue_t *q):&#160;queue.c''), (''../queue_8h.html#a6ee1ceb57862ba0ef024c2da5d96d368'', 1, ''_q_dump(char *which, queue_t *que):&#160;queue.c'')]),
     (''_5fq_5fenque'', ''_q_enque'', [(''../queue_8c.html#a4a8ba5202d4d5d4ea02a9615d8c8c554'', 1, ''_q_enque(queue_t *que, void *data):&#160;queue.c''), (''../queue_8h.html#a4a8ba5202d4d5d4ea02a9615d8c8c554'', 1, ''_q_enque(queue_t *que, void *data):&#160;queue.c'')]),
     (''_5fq_5finit'', ''_q_init'', [(''../queue_8c.html#a6a72a71d8b7f97730bba8c3988e8d52a'', 1, ''_q_init(void):&#160;queue.c''), (''../queue_8h.html#a6a72a71d8b7f97730bba8c3988e8d52a'', 1, ''_q_init(void):&#160;queue.c'')]),
     (''_5fq_5fpeek'', ''_q_peek'', [(''../queue_8c.html#a15e26ca1ce08d829e562d54051a646ad'', 1, ''_q_peek(queue_t *que, void **data):&#160;queue.c''), (''../queue_8h.html#a15e26ca1ce08d829e562d54051a646ad'', 1, ''_q_peek(queue_t *que, void **data):&#160;queue.c'')]),
     (''_5fq_5fremove'', ''_q_remove'', [(''../queue_8c.html#abb8180e3a15fc54c50075997bfdd5c52'', 1, ''_q_remove(queue_t *que, void *data):&#160;queue.c''), (''../queue_8h.html#abb8180e3a15fc54c50075997bfdd5c52'', 1, ''_q_remove(queue_t *que, void *data):&#160;queue.c'')]),
     (''_5fq_5freset'', ''_q_reset'', [(''../queue_8c.html#a6e73dab41b80724bd19058cf8706494b'', 1, ''_q_reset(queue_t *que, cmpf_t cmp):&#160;queue.c''), (''../queue_8h.html#a6e73dab41b80724bd19058cf8706494b'', 1, ''_q_reset(queue_t *que, cmpf_t cmp):&#160;queue.c'')]),
     (''_5fq_5fsize'', ''_q_size'', [(''../queue_8h.html#a50ef81a5d69910eea5be98e1a358dc61'', 1, ''queue.h'')]),
     (''_5freading'', ''_reading'', [(''../sio_8c.html#a390715f138bbf2cccd27e12f870677b5'', 1, ''_reading():&#160;sio.c''), (''../sio_8h.html#a390715f138bbf2cccd27e12f870677b5'', 1, ''_reading():&#160;sio.c'')]),
     (''_5fready'', ''_ready'', [(''../scheduler_8c.html#abd5864b82625de96b1df122448f8466c'', 1, ''_ready():&#160;scheduler.c''), (''../scheduler_8h.html#a1b4d73a6fe2b5d583a364664104a933a'', 1, ''_ready():&#160;scheduler.c'')]),
     (''_5fsched_5finit'', ''_sched_init'', [(''../scheduler_8c.html#a11fa4b5e031b9600f2acb363090c4023'', 1, ''_sched_init(void):&#160;scheduler.c''), (''../scheduler_8h.html#a11fa4b5e031b9600f2acb363090c4023'', 1, ''_sched_init(void):&#160;scheduler.c'')]),
     (''_5fschedule'', ''_schedule'', [(''../scheduler_8c.html#a8d1fa8c65b2922b29b582a0d61c5f2db'', 1, ''_schedule(pcb_t *pcb):&#160;scheduler.c''), (''../scheduler_8h.html#a8d1fa8c65b2922b29b582a0d61c5f2db'', 1, ''_schedule(pcb_t *pcb):&#160;scheduler.c'')]),
     (''_5fsio_5fdisable'', ''_sio_disable'', [(''../sio_8c.html#a1f5e98c56e1cfc34905826df27f9a41a'', 1, ''_sio_disable(uint8_t which):&#160;sio.c''), (''../sio_8h.html#a1f5e98c56e1cfc34905826df27f9a41a'', 1, ''_sio_disable(uint8_t which):&#160;sio.c'')]),
     (''_5fsio_5fdump'', ''_sio_dump'', [(''../sio_8c.html#ae911b874f4660e62160c037e30717d64'', 1, ''_sio_dump(void):&#160;sio.c''), (''../sio_8h.html#ae911b874f4660e62160c037e30717d64'', 1, ''_sio_dump(void):&#160;sio.c'')]),
     (''_5fsio_5fenable'', ''_sio_enable'', [(''../sio_8c.html#aa84bc7b0d59f4731c0c208f157ebd2c1'', 1, ''_sio_enable(uint8_t which):&#160;sio.c''), (''../sio_8h.html#aa84bc7b0d59f4731c0c208f157ebd2c1'', 1, ''_sio_enable(uint8_t which):&#160;sio.c'')]),
     (''_5fsio_5finit'', ''_sio_init'', [(''../sio_8c.html#a9614749b82c377a2208eda682949b27e'', 1, ''_sio_init(void):&#160;sio.c''), (''../sio_8h.html#a9614749b82c377a2208eda682949b27e'', 1, ''_sio_init(void):&#160;sio.c'')]),
     (''_5fsio_5finput_5fqueue'', ''_sio_input_queue'', [(''../sio_8c.html#a4df67858ee65f3a963cdce21d69b8683'', 1, ''_sio_input_queue(void):&#160;sio.c''), (''../sio_8h.html#a4df67858ee65f3a963cdce21d69b8683'', 1, ''_sio_input_queue(void):&#160;sio.c'')]),
     (''_5fsio_5fputs'', ''_sio_puts'', [(''../sio_8c.html#a91f93fc32945c279099a4069fde39786'', 1, ''_sio_puts(char *buffer):&#160;sio.c''), (''../sio_8h.html#a91f93fc32945c279099a4069fde39786'', 1, ''_sio_puts(char *buffer):&#160;sio.c'')]),
     (''_5fsio_5freadc'', ''_sio_readc'', [(''../sio_8c.html#a3e6499a65925fa4eab1b555adb2eb5bb'', 1, ''_sio_readc(void):&#160;sio.c''), (''../sio_8h.html#a3e6499a65925fa4eab1b555adb2eb5bb'', 1, ''_sio_readc(void):&#160;sio.c'')]),
     (''_5fsio_5freads'', ''_sio_reads'', [(''../sio_8c.html#a1293e1464713c1c563976049396a7442'', 1, ''_sio_reads(char *buf, int length):&#160;sio.c''), (''../sio_8h.html#a576b8e1e664991ddf963035103a57306'', 1, ''_sio_reads(char *buffer, int length):&#160;sio.c'')]),
     (''_5fsio_5fwritec'', ''_sio_writec'', [(''../sio_8c.html#a7f6b2487bc7a70ff88818a5b601560cc'', 1, ''_sio_writec(int ch):&#160;sio.c''), (''../sio_8h.html#a7f6b2487bc7a70ff88818a5b601560cc'', 1, ''_sio_writec(int ch):&#160;sio.c'')]),
     (''_5fsio_5fwrites'', ''_sio_writes'', [(''../sio_8c.html#a67b48dc3aa594b767860b78a0a59fe04'', 1, ''_sio_writes(char *buffer, int length):&#160;sio.c''), (''../sio_8h.html#a67b48dc3aa594b767860b78a0a59fe04'', 1, ''_sio_writes(char *buffer, int length):&#160;sio.c'')]),
     (''_5fsleeping'', ''_sleeping'', [(''../process_8c.html#a5d39b6ad605a1a3fc191fd28ad670068'', 1, ''_sleeping():&#160;process.c''), (''../process_8h.html#a5d39b6ad605a1a3fc191fd28ad670068'', 1, ''_sleeping():&#160;process.c'')]),
     (''_5fstk_5falloc'', ''_stk_alloc'', [(''../stack_8c.html#a3ea892f419e3d0cb538ca1708cde32b3'', 1, ''_stk_alloc(void):&#160;stack.c''), (''../stack_8h.html#a3ea892f419e3d0cb538ca1708cde32b3'', 1, ''_stk_alloc(void):&#160;stack.c'')]),
     (''_5fstk_5fdealloc'', ''_stk_dealloc'', [(''../stack_8c.html#a72bbbbaf18915ad64712407b5f0b2343'', 1, ''_stk_dealloc(stack_t *stack):&#160;stack.c''), (''../stack_8h.html#a5ee883a24ccec355505546aa49f8b4b3'', 1, ''_stk_dealloc(stack_t *stk):&#160;stack.c'')]),
     (''_5fstk_5fdump'', ''_stk_dump'', [(''../stack_8c.html#a51f9f368039e306430312f7bc40ecff3'', 1, ''_stk_dump(char *msg, stack_t *stack):&#160;stack.c''), (''../stack_8h.html#a51f9f368039e306430312f7bc40ecff3'', 1, ''_stk_dump(char *msg, stack_t *stack):&#160;stack.c'')]),
     (''_5fstk_5finit'', ''_stk_init'', [(''../stack_8c.html#af5edd5cec2781b9391300a6fcb1fc228'', 1, ''_stk_init(void):&#160;stack.c''), (''../stack_8h.html#af5edd5cec2781b9391300a6fcb1fc228'', 1, ''_stk_init(void):&#160;stack.c'')]),
     (''_5fstk_5fsetup'', ''_stk_setup'', [(''../stack_8c.html#acddea68aee2cab8e43519d52c8b4347d'', 1, ''_stk_setup(stack_t *stack, uint32_t entry, void *arg):&#160;stack.c''), (''../stack_8h.html#acddea68aee2cab8e43519d52c8b4347d'', 1, ''_stk_setup(stack_t *stack, uint32_t entry, void *arg):&#160;stack.c'')]),
     (''_5fsys_5fexit'', ''_sys_exit'', [(''../syscall_8c.html#a811d22a0a19ae02746400777e200930e'', 1, ''syscall.c'')]),
     (''_5fsys_5finit'', ''_sys_init'', [(''../syscall_8c.html#a016246845da41b1d1dc7e1593ebf2938'', 1, ''_sys_init(void):&#160;syscall.c''), (''../syscall_8h.html#a016246845da41b1d1dc7e1593ebf2938'', 1, ''_sys_init(void):&#160;syscall.c'')]),
     (''_5fsys_5fisr'', ''_sys_isr'', [(''../syscall_8c.html#aa1d5f53e018a0778d2729f3117a5c96b'', 1, ''syscall.c'')]),
     (''_5fsys_5fkill'', ''_sys_kill'', [(''../syscall_8c.html#a921b2ff84449c336ca67049cfed45fd8'', 1, ''syscall.c'')]),
     (''_5fsys_5fsleep'', ''_sys_sleep'', [(''../syscall_8c.html#aa9209b211218b80e215ee1af719e8613'', 1, ''syscall.c'')]),
     (''_5fsys_5fwait'', ''_sys_wait'', [(''../syscall_8c.html#ad8cb7ddcaefe821fe6d64b537ff56ccd'', 1, ''syscall.c'')]),
     (''_5fsystem_5fesp'', ''_system_esp'', [(''../stack_8c.html#a2b460bf3afcb44844b813e608083883e'', 1, ''_system_esp():&#160;stack.c''), (''../stack_8h.html#a2b460bf3afcb44844b813e608083883e'', 1, ''_system_esp():&#160;stack.c'')]),
     (''_5fsystem_5fstack'', ''_system_stack'', [(''../stack_8c.html#a34217489254f76fce39c6ed6bd5674ab'', 1, ''_system_stack():&#160;stack.c''), (''../stack_8h.html#a34217489254f76fce39c6ed6bd5674ab'', 1, ''_system_stack():&#160;stack.c'')]),
     (''_5fwaiting'', ''_waiting'', [(''../syscall_8c.html#a22de14a84a41ba3ed845afecc77325da'', 1, ''_waiting():&#160;syscall.c''), (''../syscall_8h.html#a22de14a84a41ba3ed845afecc77325da'', 1, ''_waiting():&#160;syscall.c'')]),
     (''_5fzombie'', ''_zombie'', [(''../syscall_8c.html#a7603c42567368622a5843613bd727359'', 1, ''_zombie():&#160;syscall.c''), (''../syscall_8h.html#a7603c42567368622a5843613bd727359'', 1, ''_zombie():&#160;syscall.c'')]),
     (''_5fzombify'', ''_zombify'', [(''../system_8c.html#ae272331cf62fd4b160ee28c492d870a1'', 1, ''_zombify(pcb_t *pcb):&#160;system.c''), (''../system_8h.html#ae272331cf62fd4b160ee28c492d870a1'', 1, ''_zombify(pcb_t *pcb):&#160;system.c'')])]"

definition searchData_all_2 :: "search_entry list" where
  "searchData_all_2 =
    [(''access'', ''access'', [(''../structGDTEntry__s.html#a37d539683365e6c531696611bcff0476'', 1, ''GDTEntry_s::access()''), (''../GDTEntry_8h.html#a8b0d6200bc639dd37ff68847a0adde5f'', 1, ''access():&#160;GDTEntry.h'')]),
     (''ack_5fcna'', ''ack_cna'', [(''../intel_8h.html#a23a94247bf73611fba38307f53e60e0fa494b5734a81cfe3ad75b7b55d04a352a'', 1, ''intel.h'')]),
     (''ack_5fcs_5ftno'', ''ack_cs_tno'', [(''../intel_8h.html#a23a94247bf73611fba38307f53e60e0fab9e2173b01951ed6e89cfc9951cab7d8'', 1, ''intel.h'')]),
     (''ack_5ffr'', ''ack_fr'', [(''../intel_8h.html#a23a94247bf73611fba38307f53e60e0fa2da78951266abd748ba98ceec3d5e074'', 1, ''intel.h'')]),
     (''ack_5fmdi'', ''ack_mdi'', [(''../intel_8h.html#a23a94247bf73611fba38307f53e60e0fa9f05d33a7cae154290eba731359fa1e5'', 1, ''intel.h'')]),
     (''ack_5frnr'', ''ack_rnr'', [(''../intel_8h.html#a23a94247bf73611fba38307f53e60e0faf3ea68420fdedb20b3c53ed3d3a9014e'', 1, ''intel.h'')]),
     (''ack_5fswi'', ''ack_swi'', [(''../intel_8h.html#a23a94247bf73611fba38307f53e60e0fabf0a3d55ff42c120c4575d4f7fd9862e'', 1, ''intel.h'')]),
     (''address_5fspace_5ft'', ''address_space_t'', [(''../memory__map_8h.html#a3d6ecbb5a6114862b1fd1194f995b72a'', 1, ''memory_map.h'')]),
     (''align_5fmask'', ''ALIGN_MASK'', [(''../memory__constants_8h.html#a9acfa53ba535d32d76682f5d3e893c05'', 1, ''memory_constants.h'')]),
     (''arg'', ''ARG'', [(''../process_8h.html#a976a0b598ab9c155db789bd34f301cc4'', 1, ''process.h'')]),
     (''arp'', ''arp'', [(''../unioneth__payload__t.html#ae67ebb5a8ec7ef26b4297a7dbc40e48f'', 1, ''eth_payload_t'')]),
     (''arp_5fcache_5fsize'', ''ARP_CACHE_SIZE'', [(''../intel_8h.html#adfc3bb356b0ae1244f95c2f191ee096e'', 1, ''intel.h'')]),
     (''arp_5fentry_5ft'', ''arp_entry_t'', [(''../structarp__entry__t.html'', 1, '''')]),
     (''arp_5fopcode'', ''arp_opcode'', [(''../intel_8h.html#a028e5aebbcaa355878506760da63d122'', 1, ''intel.h'')]),
     (''arp_5freply'', ''arp_reply'', [(''../intel_8h.html#a028e5aebbcaa355878506760da63d122ace04ad7130a76258bf67d9470a2a671f'', 1, ''intel.h'')]),
     (''arp_5frequest'', ''arp_request'', [(''../intel_8h.html#a028e5aebbcaa355878506760da63d122a2d8f91639222954ed419772594d36517'', 1, ''intel.h'')]),
     (''atoi'', ''atoi'', [(''../string_8h.html#a90c7930371e954e280d4a53d62eeb96d'', 1, ''atoi(const char *str, int *value):&#160;atoi.c''), (''../atoi_8c.html#a90c7930371e954e280d4a53d62eeb96d'', 1, ''atoi(const char *str, int *value):&#160;atoi.c'')]),
     (''atoi_2ec'', ''atoi.c'', [(''../atoi_8c.html'', 1, '''')]),
     (''attr'', ''attr'', [(''../struct__ft__de__inmem.html#a5dd8a8c1bd060607ba238eb99de94dc2'', 1, ''_ft_de_inmem'')]),
     (''attribute'', ''attribute'', [(''../struct__ft__de__sd.html#ad721f560f00e2622ce8c84e154d4e611'', 1, ''_ft_de_sd'')]),
     (''avail_5fcb'', ''avail_cb'', [(''../structnic__info.html#af8c67c97e1e5c6a72c34c4b2e0478116'', 1, ''nic_info'')]),
     (''ax'', ''ax'', [(''../structregs16__s.html#a6986addc978c80891b78af7635c37777'', 1, ''regs16_s::ax()''), (''../realmode_8h.html#aa36a86784c890cf9057d9e88a569327d'', 1, ''ax():&#160;realmode.h'')])]"

definition searchData_all_3 :: "search_entry list" where
  "searchData_all_3 =
    [(''banksize'', ''BankSize'', [(''../structVBE2ModeInfo__s.html#a0bcdb111d2c06a404520823db24cad28'', 1, ''VBE2ModeInfo_s::BankSize()''), (''../structVBE3ModeInfo__s.html#a83c213065f3daea031a61677c50211d3'', 1, ''VBE3ModeInfo_s::BankSize()''), (''../VBE2ModeInfo_8h.html#a7e31ea09e6e6755e3a504b9c76b3f545'', 1, ''BankSize():&#160;VBE2ModeInfo.h''), (''../VBE3ModeInfo_8h.html#a7e31ea09e6e6755e3a504b9c76b3f545'', 1, ''BankSize():&#160;VBE3ModeInfo.h'')]),
     (''base'', ''base'', [(''../structGDTEntry__s.html#a7f2ed665836b3306b2270feac8e30252'', 1, ''GDTEntry_s::base()''), (''../structmemory__map____64__s.html#a59b877fa204d6c2f62aa197d0e848695'', 1, ''memory_map__64_s::base()''), (''../structmm__entry__s.html#afb078145557831564ee021e1ba8ba32b'', 1, ''mm_entry_s::base()''), (''../GDTEntry_8h.html#aeca790c0426654358d031f8180e84aca'', 1, ''base():&#160;GDTEntry.h''), (''../memory__map_8h.html#aeca790c0426654358d031f8180e84aca'', 1, ''base():&#160;memory_map.h'')]),
     (''base_5fh'', ''base_h'', [(''../structmemory__map____32__s.html#a3c38e28983ecb1b7deb0eaa9058fd36e'', 1, ''memory_map__32_s::base_h()''), (''../structmm__entry__s.html#a3962698d3700d141b1afc02340b35935'', 1, ''mm_entry_s::base_h()''), (''../memory__map_8h.html#a54496198511f58f31514888835826e7a'', 1, ''base_h():&#160;memory_map.h'')]),
     (''base_5fhi'', ''base_hi'', [(''../structGDTEntry__s.html#ad01ea43e865394251ca3b202c1e0ee1e'', 1, ''GDTEntry_s::base_hi()''), (''../GDTEntry_8h.html#ad3b4120e817341c34f9fa0aa74b83e8b'', 1, ''base_hi():&#160;GDTEntry.h'')]),
     (''base_5fl'', ''base_l'', [(''../structmemory__map____32__s.html#abc1f0084b901ed2a6fb8ec5cc34b0253'', 1, ''memory_map__32_s::base_l()''), (''../structmm__entry__s.html#afa3695ed42e9e77a9b534e5e3f644956'', 1, ''mm_entry_s::base_l()''), (''../memory__map_8h.html#aabdaa6a38ae8c7cee22ca6abb7839b33'', 1, ''base_l():&#160;memory_map.h'')]),
     (''base_5flo'', ''base_lo'', [(''../structGDTEntry__s.html#a8ac39ba0d46239247149f17acb9aa334'', 1, ''GDTEntry_s::base_lo()''), (''../GDTEntry_8h.html#a9f375b4a30588890fbf45e786ede6176'', 1, ''base_lo():&#160;GDTEntry.h'')]),
     (''baud_5f110'', ''BAUD_110'', [(''../uart_8h.html#a8809626d954f07acf958e1def6a2e57b'', 1, ''uart.h'')]),
     (''baud_5f115200'', ''BAUD_115200'', [(''../uart_8h.html#a662c9e747763825a090529fe88ed9fd5'', 1, ''uart.h'')]),
     (''baud_5f1200'', ''BAUD_1200'', [(''../uart_8h.html#a929a4115ccf8d2e9f2d4901fa86ee80b'', 1, ''uart.h'')]),
     (''baud_5f14400'', ''BAUD_14400'', [(''../uart_8h.html#aa06814cfab1c917d2017f32130ff18d4'', 1, ''uart.h'')]),
     (''baud_5f150'', ''BAUD_150'', [(''../uart_8h.html#a053273b7d6c1d24446a3c14bc5587aa2'', 1, ''uart.h'')]),
     (''baud_5f1800'', ''BAUD_1800'', [(''../uart_8h.html#ad0d84707d03d804a395a603b786a9d0a'', 1, ''uart.h'')]),
     (''baud_5f19200'', ''BAUD_19200'', [(''../uart_8h.html#acd7a4f8800e9a964e3d402ea3a3beb57'', 1, ''uart.h'')]),
     (''baud_5f2000'', ''BAUD_2000'', [(''../uart_8h.html#a1859be93d14af82d022e5019c7aeebf7'', 1, ''uart.h'')]),
     (''baud_5f2400'', ''BAUD_2400'', [(''../uart_8h.html#a977f122c39ea9934c5e422903b8b2476'', 1, ''uart.h'')]),
     (''baud_5f28800'', ''BAUD_28800'', [(''../uart_8h.html#ab559a2622d6707152af62e3e1a421fdd'', 1, ''uart.h'')]),
     (''baud_5f300'', ''BAUD_300'', [(''../uart_8h.html#a548615e95fbf726cf4275234bb3d3114'', 1, ''uart.h'')]),
     (''baud_5f3600'', ''BAUD_3600'', [(''../uart_8h.html#acbd427a24d11cd1cbb3b939d23f0a84a'', 1, ''uart.h'')]),
     (''baud_5f38400'', ''BAUD_38400'', [(''../uart_8h.html#ac7d6d80617f1843f68b61777bf66241a'', 1, ''uart.h'')]),
     (''baud_5f4800'', ''BAUD_4800'', [(''../uart_8h.html#a577f4af981cd936191af54111f7f028d'', 1, ''uart.h'')]),
     (''baud_5f50'', ''BAUD_50'', [(''../uart_8h.html#a424b9314f0e8983ff5abf7d4902f4f47'', 1, ''uart.h'')]),
     (''baud_5f57600'', ''BAUD_57600'', [(''../uart_8h.html#ad8f02b756d5b421fdf04c35c0de31231'', 1, ''uart.h'')]),
     (''baud_5f600'', ''BAUD_600'', [(''../uart_8h.html#af149acab3288721c30a38cab0336596b'', 1, ''uart.h'')]),
     (''baud_5f7200'', ''BAUD_7200'', [(''../uart_8h.html#a20f722474a32dcd63f3e7896295e534b'', 1, ''uart.h'')]),
     (''baud_5f75'', ''BAUD_75'', [(''../uart_8h.html#a1c95238c3dfac7ecf4bd62e5ca901214'', 1, ''uart.h'')]),
     (''baud_5f9600'', ''BAUD_9600'', [(''../uart_8h.html#ac6f1b052894ecd23fc1b9cdf21325001'', 1, ''uart.h'')]),
     (''baud_5fhigh_5fbyte'', ''BAUD_HIGH_BYTE'', [(''../uart_8h.html#ae7d876f2acdb9ae3a0e7028a3dbe86b1'', 1, ''uart.h'')]),
     (''baud_5flow_5fbyte'', ''BAUD_LOW_BYTE'', [(''../uart_8h.html#ae02d69b283411a2b52770c9be7e7012c'', 1, ''uart.h'')]),
     (''bios_5fparam_5fblock'', ''BIOS_PARAM_BLOCK'', [(''../fat__types_8h.html#af8ecd7db6e1aefc3bc7f23910129a920'', 1, ''fat_types.h'')]),
     (''bitsperpixel'', ''BitsPerPixel'', [(''../structVBE2ModeInfo__s.html#a3e210bad564e98a6c05f5b1c3e9ef7dc'', 1, ''VBE2ModeInfo_s::BitsPerPixel()''), (''../structVBE3ModeInfo__s.html#af4c8e10ecbc1575540c9dfeb31c511fa'', 1, ''VBE3ModeInfo_s::BitsPerPixel()''), (''../VBE2ModeInfo_8h.html#a03756ae144fce823087a2a4255bf4bb1'', 1, ''BitsPerPixel():&#160;VBE2ModeInfo.h''), (''../VBE3ModeInfo_8h.html#a03756ae144fce823087a2a4255bf4bb1'', 1, ''BitsPerPixel():&#160;VBE3ModeInfo.h'')]),
     (''bluefieldposition'', ''BlueFieldPosition'', [(''../structVBE2ModeInfo__s.html#a0f592c5965422843e1fcb24312336bcf'', 1, ''VBE2ModeInfo_s::BlueFieldPosition()''), (''../structVBE3ModeInfo__s.html#a3fb919b563591288be270196796593a9'', 1, ''VBE3ModeInfo_s::BlueFieldPosition()''), (''../VBE2ModeInfo_8h.html#a4d0396c07a4f07556332fec2b4a6c2bf'', 1, ''BlueFieldPosition():&#160;VBE2ModeInfo.h''), (''../VBE3ModeInfo_8h.html#a4d0396c07a4f07556332fec2b4a6c2bf'', 1, ''BlueFieldPosition():&#160;VBE3ModeInfo.h'')]),
     (''bluemasksize'', ''BlueMaskSize'', [(''../structVBE2ModeInfo__s.html#a00f1d8623b14d9f7dc5dae7326abe7ee'', 1, ''VBE2ModeInfo_s::BlueMaskSize()''), (''../structVBE3ModeInfo__s.html#a51ef5065e172363b201919ae2dfc76e7'', 1, ''VBE3ModeInfo_s::BlueMaskSize()''), (''../VBE2ModeInfo_8h.html#a84842a6a42e881ce7be87482122bcc4e'', 1, ''BlueMaskSize():&#160;VBE2ModeInfo.h''), (''../VBE3ModeInfo_8h.html#a84842a6a42e881ce7be87482122bcc4e'', 1, ''BlueMaskSize():&#160;VBE3ModeInfo.h'')]),
     (''bluewhitelowbits'', ''BlueWhiteLowBits'', [(''../structEDIDRecord__s.html#aad0a71360aec8a80be7dd3f41b7ab2cc'', 1, ''EDIDRecord_s::BlueWhiteLowBits()''), (''../EDIDRecord_8h.html#a8bb9245dbf198de351ac93a0f0d4c3fc'', 1, ''BlueWhiteLowBits():&#160;EDIDRecord.h'')]),
     (''bluex'', ''BlueX'', [(''../structEDIDRecord__s.html#a5a500c0c0682192b3fee7c98d02a7b50'', 1, ''EDIDRecord_s::BlueX()''), (''../EDIDRecord_8h.html#afa2b7d9b60fd795c97d3cd84d4f0a61e'', 1, ''BlueX():&#160;EDIDRecord.h'')]),
     (''bluey'', ''BlueY'', [(''../structEDIDRecord__s.html#a029bda41e1de943096af9a0158ee1b31'', 1, ''EDIDRecord_s::BlueY()''), (''../EDIDRecord_8h.html#a91d6417140abbad97fe8c19daa3dffb5'', 1, ''BlueY():&#160;EDIDRecord.h'')]),
     (''bnknumberofimagepages'', ''BnkNumberOfImagePages'', [(''../structVBE3ModeInfo__s.html#a04f11e5cf21887760a1c00f863aed034'', 1, ''VBE3ModeInfo_s::BnkNumberOfImagePages()''), (''../VBE3ModeInfo_8h.html#a33ba903e149724b1bc99b3b8e43a7cbe'', 1, ''BnkNumberOfImagePages():&#160;VBE3ModeInfo.h'')]),
     (''boffset'', ''BOFFSET'', [(''../io__types_8h.html#add88df105b3141ba5fe665f322e97e2d'', 1, ''io_types.h'')]),
     (''bogus'', ''bogus'', [(''../ulib_8h.html#a2f209195c6296ee6d46d5956a1eff7f2'', 1, ''ulib.h'')]),
     (''bootablepartsig'', ''bootablepartsig'', [(''../struct__ft__bpb.html#ac6fdae0677fd8832fbb0305550d2d3bd'', 1, ''_ft_bpb'')]),
     (''bootcode'', ''bootcode'', [(''../struct__ft__bpb.html#a3f6f8d2cd359fadcd3fcea6e21c38ff2'', 1, ''_ft_bpb'')]),
     (''bootguard'', ''bootguard'', [(''../struct__ft__bpb.html#a22a3193100c0df301a79e363fa977bb6'', 1, ''_ft_bpb'')]),
     (''bootstrap_2eh'', ''bootstrap.h'', [(''../bootstrap_8h.html'', 1, '''')]),
     (''bounds_5fcheck'', ''BOUNDS_CHECK'', [(''../vga13_8c.html#ad6bfc5b4760cf7b758d49d3ee35e2988'', 1, ''vga13.c'')]),
     (''bp'', ''bp'', [(''../structregs16__s.html#a18758f057a1707e11cd31d86ceffb846'', 1, ''regs16_s::bp()''), (''../realmode_8h.html#aa5efa50f93ea2f66f954e01613065061'', 1, ''bp():&#160;realmode.h'')]),
     (''bpp'', ''bpp'', [(''../structVideoFb__s.html#a594ebad6f58cf9fd9389560526bd61a4'', 1, ''VideoFb_s'')]),
     (''bsize'', ''BSIZE'', [(''../io__types_8h.html#a26932db3827dcb81ea73a157eced07a8'', 1, ''io_types.h'')]),
     (''buf'', ''buf'', [(''../structVCon__s.html#a93b7404f44d1413f3b64d6a773e5a81c'', 1, ''VCon_s::buf()''), (''../unionVideoInfo__u.html#ac59a09d0a056107fe06793c43f93bfcf'', 1, ''VideoInfo_u::buf()'')]),
     (''buf_5fsize'', ''BUF_SIZE'', [(''../sio_8c.html#a6821bafc3c88dfb2e433a095df9940c6'', 1, ''sio.c'')]),
     (''buffer'', ''buffer'', [(''../struct__io__message.html#a4de804ad375ab0af139426b57d45d57d'', 1, ''_io_message'')]),
     (''buffer_2ec'', ''buffer.c'', [(''../buffer_8c.html'', 1, '''')]),
     (''buffer_2eh'', ''buffer.h'', [(''../buffer_8h.html'', 1, '''')]),
     (''buildinfo_2eh'', ''buildinfo.h'', [(''../buildinfo_8h.html'', 1, '''')]),
     (''buildinfo_5fbranch'', ''BUILDINFO_BRANCH'', [(''../buildinfo_8h.html#aab6ad476a2a0c77326ebeabb1dee31cb'', 1, ''buildinfo.h'')]),
     (''buildinfo_5fbuildnum'', ''BUILDINFO_BUILDNUM'', [(''../buildinfo_8h.html#a5177b08ea26c51580c7ad53e037b8369'', 1, ''buildinfo.h'')]),
     (''buildinfo_5fcommit'', ''BUILDINFO_COMMIT'', [(''../buildinfo_8h.html#afbb01a2072b81d9f5eb1e22c0db52c41'', 1, ''buildinfo.h'')]),
     (''buildinfo_5fstring'', ''BUILDINFO_STRING'', [(''../buildinfo_8h.html#affd40ae63aa71006e2410ca0054f5c7d'', 1, ''buildinfo.h'')]),
     (''bx'', ''bx'', [(''../structregs16__s.html#a438532dfa4d175d2361a85ff1688f5e5'', 1, ''regs16_s::bx()''), (''../realmode_8h.html#a4e6518f8720c82b415f924298a7ff00c'', 1, ''bx():&#160;realmode.h'')]),
     (''byte_5foffset_5ffat'', ''byte_offset_fat'', [(''../fat_8c.html#a3ea0d9087e339b2d2349f63e14c8c516'', 1, ''byte_offset_fat(PFAT_CONTEXT ctx, int32_t fat_select, int32_t *out):&#160;fat.c''), (''../fat_8h.html#a3ea0d9087e339b2d2349f63e14c8c516'', 1, ''byte_offset_fat(PFAT_CONTEXT ctx, int32_t fat_select, int32_t *out):&#160;fat.c'')]),
     (''byte_5foffset_5ffor_5fcluster'', ''byte_offset_for_cluster'', [(''../fat_8c.html#a2bb655e00b20f860ee267a50ef5678b4'', 1, ''byte_offset_for_cluster(PFAT_CONTEXT ctx, int32_t cluster, int32_t *out):&#160;fat.c''), (''../fat_8h.html#a2bb655e00b20f860ee267a50ef5678b4'', 1, ''byte_offset_for_cluster(PFAT_CONTEXT ctx, int32_t cluster, int32_t *out):&#160;fat.c'')]),
     (''bytesperglyph'', ''bytesPerGlyph'', [(''../structPSFont__s.html#ac041bddda28451ccf3d31984e24f84bf'', 1, ''PSFont_s'')]),
     (''bytesperscanline'', ''BytesPerScanLine'', [(''../structVBE2ModeInfo__s.html#ad4553a1950f0da8601dbb56213946234'', 1, ''VBE2ModeInfo_s::BytesPerScanLine()''), (''../structVBE3ModeInfo__s.html#a5d3d55149b2f28ce430d142f757d5b31'', 1, ''VBE3ModeInfo_s::BytesPerScanLine()''), (''../VBE2ModeInfo_8h.html#afe40654a51bf4a12a8b376ff3506688e'', 1, ''BytesPerScanLine():&#160;VBE2ModeInfo.h''), (''../VBE3ModeInfo_8h.html#afe40654a51bf4a12a8b376ff3506688e'', 1, ''BytesPerScanLine():&#160;VBE3ModeInfo.h'')])]"

definition searchData_all_4 :: "search_entry list" where
  "searchData_all_4 =
    [(''c_5fbufsize'', ''C_BUFSIZE'', [(''../c__io_8c.html#a1957d774dea4cfe1ed58813e007841db'', 1, ''c_io.c'')]),
     (''c_5fclearscreen'', ''c_clearscreen'', [(''../c__io_8c.html#a95e2d1dc0849ec8b01876b2213ad2c9f'', 1, ''c_clearscreen(void):&#160;c_io.c''), (''../c__io_8h.html#a95e2d1dc0849ec8b01876b2213ad2c9f'', 1, ''c_clearscreen(void):&#160;c_io.c'')]),
     (''c_5fclearscroll'', ''c_clearscroll'', [(''../c__io_8c.html#a7c0a9385cffc8ce520b2022c4a9906e9'', 1, ''c_clearscroll(void):&#160;c_io.c''), (''../c__io_8h.html#a7c0a9385cffc8ce520b2022c4a9906e9'', 1, ''c_clearscroll(void):&#160;c_io.c'')]),
     (''c_5fflush'', ''c_flush'', [(''../c__io_8c.html#a5e363987172e738ba2e6a98205076ca0'', 1, ''c_flush(void):&#160;c_io.c''), (''../c__io_8h.html#a5e363987172e738ba2e6a98205076ca0'', 1, ''c_flush(void):&#160;c_io.c'')]),
     (''c_5fgetchar'', ''c_getchar'', [(''../c__io_8c.html#ade93d4282d4309a9d1badb1acc289705'', 1, ''c_getchar(void):&#160;c_io.c''), (''../c__io_8h.html#ade93d4282d4309a9d1badb1acc289705'', 1, ''c_getchar(void):&#160;c_io.c'')]),
     (''c_5fgets'', ''c_gets'', [(''../c__io_8c.html#a77bed901790f08a0513140e569016833'', 1, ''c_gets(char *buffer, unsigned int size):&#160;c_io.c''), (''../c__io_8h.html#a77bed901790f08a0513140e569016833'', 1, ''c_gets(char *buffer, unsigned int size):&#160;c_io.c'')]),
     (''c_5finput_5fqueue'', ''c_input_queue'', [(''../c__io_8c.html#aca9e8a13f627b94b78edbd528d30e6a0'', 1, ''c_input_queue(void):&#160;c_io.c''), (''../c__io_8h.html#aca9e8a13f627b94b78edbd528d30e6a0'', 1, ''c_input_queue(void):&#160;c_io.c'')]),
     (''c_5fio_2ec'', ''c_io.c'', [(''../c__io_8c.html'', 1, '''')]),
     (''c_5fio_2eh'', ''c_io.h'', [(''../c__io_8h.html'', 1, '''')]),
     (''c_5fio_5finit'', ''c_io_init'', [(''../c__io_8c.html#a077d1110a538c2bc7260f790b15f06f1'', 1, ''c_io_init(void):&#160;c_io.c''), (''../c__io_8h.html#a077d1110a538c2bc7260f790b15f06f1'', 1, ''c_io_init(void):&#160;c_io.c'')]),
     (''c_5fio_5finit_5fisr'', ''c_io_init_isr'', [(''../c__io_8c.html#a4410460225ea370690575a78e53979df'', 1, ''c_io_init_isr(void):&#160;c_io.c''), (''../c__io_8h.html#a4410460225ea370690575a78e53979df'', 1, ''c_io_init_isr(void):&#160;c_io.c'')]),
     (''c_5fmoveto'', ''c_moveto'', [(''../c__io_8c.html#a10ce4631cfc1f3cda99caf835e6aceb6'', 1, ''c_moveto(unsigned int x, unsigned int y):&#160;c_io.c''), (''../c__io_8h.html#a10ce4631cfc1f3cda99caf835e6aceb6'', 1, ''c_moveto(unsigned int x, unsigned int y):&#160;c_io.c'')]),
     (''c_5fprintf'', ''c_printf'', [(''../c__io_8c.html#afae786d97e64f57bee357a586fafe20c'', 1, ''c_printf(char *fmt,...):&#160;c_io.c''), (''../c__io_8h.html#afae786d97e64f57bee357a586fafe20c'', 1, ''c_printf(char *fmt,...):&#160;c_io.c'')]),
     (''c_5fprintf_5fat'', ''c_printf_at'', [(''../c__io_8c.html#a818e74a57022f3022a75027b384c18a2'', 1, ''c_printf_at(unsigned int x, unsigned int y, char *fmt,...):&#160;c_io.c''), (''../c__io_8h.html#a818e74a57022f3022a75027b384c18a2'', 1, ''c_printf_at(unsigned int x, unsigned int y, char *fmt,...):&#160;c_io.c'')]),
     (''c_5fputchar'', ''c_putchar'', [(''../c__io_8c.html#aaaf41918e3794148585c640f3923a952'', 1, ''c_putchar(unsigned int c):&#160;c_io.c''), (''../c__io_8h.html#aaaf41918e3794148585c640f3923a952'', 1, ''c_putchar(unsigned int c):&#160;c_io.c'')]),
     (''c_5fputchar_5fat'', ''c_putchar_at'', [(''../c__io_8c.html#ad9a189f38696121ccb0046efa2567e46'', 1, ''c_putchar_at(unsigned int x, unsigned int y, unsigned int c):&#160;c_io.c''), (''../c__io_8h.html#ad9a189f38696121ccb0046efa2567e46'', 1, ''c_putchar_at(unsigned int x, unsigned int y, unsigned int c):&#160;c_io.c'')]),
     (''c_5fputs'', ''c_puts'', [(''../c__io_8c.html#a7ec182a442f1f0479aeb55a4f1eb9da8'', 1, ''c_puts(char *str):&#160;c_io.c''), (''../c__io_8h.html#a7ec182a442f1f0479aeb55a4f1eb9da8'', 1, ''c_puts(char *str):&#160;c_io.c'')]),
     (''c_5fputs_5fat'', ''c_puts_at'', [(''../c__io_8c.html#af0785fcf4d4bfa3be371db2ea748e2a6'', 1, ''c_puts_at(unsigned int x, unsigned int y, char *str):&#160;c_io.c''), (''../c__io_8h.html#af0785fcf4d4bfa3be371db2ea748e2a6'', 1, ''c_puts_at(unsigned int x, unsigned int y, char *str):&#160;c_io.c'')]),
     (''c_5fscroll'', ''c_scroll'', [(''../c__io_8c.html#acc1e15a51a9fea2078016516d0b9d17c'', 1, ''c_scroll(unsigned int lines):&#160;c_io.c''), (''../c__io_8h.html#acc1e15a51a9fea2078016516d0b9d17c'', 1, ''c_scroll(unsigned int lines):&#160;c_io.c'')]),
     (''c_5fsetscroll'', ''c_setscroll'', [(''../c__io_8c.html#a79ec923f1299bd6158472d7c99cd8d95'', 1, ''c_setscroll(unsigned int s_min_x, unsigned int s_min_y, unsigned int s_max_x, unsigned int s_max_y):&#160;c_io.c''), (''../c__io_8h.html#a67c7f393500bd8f5bc024bb789f1bb12'', 1, ''c_setscroll(unsigned int min_x, unsigned int min_y, unsigned int max_x, unsigned int max_y):&#160;c_io.c'')]),
     (''cache'', ''cache'', [(''../struct__ft__ctxt__block.html#a005fe6e06353e8ea199906fa2d06625e'', 1, ''_ft_ctxt_block'')]),
     (''cache_2eh'', ''cache.h'', [(''../cache_8h.html'', 1, '''')]),
     (''call_5ffilter'', ''call_filter'', [(''../router_8c.html#a38255adf5b7c7397ba08183ccbd0b2be'', 1, ''router.c'')]),
     (''capabilities'', ''capabilities'', [(''../structVBEInfo__s.html#a28b36fd6cb0d17624cfafd74be515301'', 1, ''VBEInfo_s::capabilities()''), (''../structVideoInfo__s.html#acfc399e447acccb2906d1d7b0c3828c9'', 1, ''VideoInfo_s::capabilities()''), (''../VBEInfo_8h.html#a04532f57b1eebac73f24b2a02dab161f'', 1, ''capabilities():&#160;VBEInfo.h'')]),
     (''cb'', ''cb'', [(''../structcb.html'', 1, '''')]),
     (''cb_5fc'', ''cb_c'', [(''../intel_8h.html#ac84810b0a4e2a7c27dfb92f1ae6947c2adae065caa377eedc84dc796c9bf5108c'', 1, ''intel.h'')]),
     (''cb_5fcfg_5fcmd'', ''cb_cfg_cmd'', [(''../intel_8h.html#a316ca5206b4a0e295dbdd8c6ba40048cab0f602e3b7876f56cf09fff7fc5cd7e5'', 1, ''intel.h'')]),
     (''cb_5fcommands'', ''cb_commands'', [(''../intel_8h.html#a316ca5206b4a0e295dbdd8c6ba40048c'', 1, ''intel.h'')]),
     (''cb_5fel'', ''cb_el'', [(''../intel_8h.html#a316ca5206b4a0e295dbdd8c6ba40048ca028a493fdd2aef5d928991d2b09a1514'', 1, ''intel.h'')]),
     (''cb_5fi'', ''cb_i'', [(''../intel_8h.html#a316ca5206b4a0e295dbdd8c6ba40048ca412fbb5bcc4a388d35401d28139e75ae'', 1, ''intel.h'')]),
     (''cb_5fia_5fcmd'', ''cb_ia_cmd'', [(''../intel_8h.html#a316ca5206b4a0e295dbdd8c6ba40048ca145284b6bfba7245b34879fb9aa65b1d'', 1, ''intel.h'')]),
     (''cb_5fok'', ''cb_ok'', [(''../intel_8h.html#ac84810b0a4e2a7c27dfb92f1ae6947c2a3b434a90eebfd21ddf5701e17e3b0ff6'', 1, ''intel.h'')]),
     (''cb_5fs'', ''cb_s'', [(''../intel_8h.html#a316ca5206b4a0e295dbdd8c6ba40048ca4cef77a9bb70ce4aa90af68a5cbdc311'', 1, ''intel.h'')]),
     (''cb_5fsf'', ''cb_sf'', [(''../intel_8h.html#a316ca5206b4a0e295dbdd8c6ba40048ca8073e3f52152a2734aa95d16b9575c28'', 1, ''intel.h'')]),
     (''cb_5fstatus'', ''cb_status'', [(''../intel_8h.html#ac84810b0a4e2a7c27dfb92f1ae6947c2'', 1, ''intel.h'')]),
     (''cb_5fto_5fcheck'', ''cb_to_check'', [(''../structnic__info.html#ad8a2b200e7e7512449310ab6139b2074'', 1, ''nic_info'')]),
     (''cb_5ftx_5fcmd'', ''cb_tx_cmd'', [(''../intel_8h.html#a316ca5206b4a0e295dbdd8c6ba40048caca887ca2d4f082335fea9a34433274cf'', 1, ''intel.h'')]),
     (''cb_5fu'', ''cb_u'', [(''../intel_8h.html#ac84810b0a4e2a7c27dfb92f1ae6947c2a2e99014fad541a24261cf45b7f6b55b3'', 1, ''intel.h'')]),
     (''cfg'', ''cfg'', [(''../structcb.html#a8994aa319921e82336f6f68215cecffb'', 1, ''cb'')]),
     (''chan_5fconsole'', ''CHAN_CONSOLE'', [(''../common_8h.html#a0c5b088a1408f0f646a9e29852064cb4'', 1, ''common.h'')]),
     (''chan_5fsio'', ''CHAN_SIO'', [(''../common_8h.html#aa95cc0df2a6b6f65af0737334bab4e1e'', 1, ''common.h'')]),
     (''character'', ''character'', [(''../structVConChar__s.html#a67b6dc488b0a5695536d4c53cc696e4c'', 1, ''VConChar_s'')]),
     (''chartable'', ''charTable'', [(''../structVConBuf__s.html#a8e71d7b7d7d3ab98e267494b9d312dd8'', 1, ''VConBuf_s'')]),
     (''chartablesize'', ''charTableSize'', [(''../structVConBuf__s.html#a7da1b25f28c54ccb4d14a301a0b24e6b'', 1, ''VConBuf_s'')]),
     (''checksum'', ''Checksum'', [(''../structEDIDRecord__s.html#af50c153078cea6798ef2f56f0eeadd55'', 1, ''EDIDRecord_s::Checksum()''), (''../EDIDRecord_8h.html#ad98d5051c2e94669e746dd13771daac8'', 1, ''Checksum():&#160;EDIDRecord.h'')]),
     (''child_5fcount'', ''child_count'', [(''../struct__ft__de__inmem.html#a6ce46514198c2d27b1a20e1e466df19d'', 1, ''_ft_de_inmem'')]),
     (''children'', ''children'', [(''../structpcb.html#a9a50273ff10a912927485c4e0e2ed636'', 1, ''pcb'')]),
     (''chksm'', ''chksm'', [(''../structicmp__t.html#a30ba8d409e3916e3654a3170bee434cb'', 1, ''icmp_t'')]),
     (''cio_5fautoflush'', ''CIO_AUTOFLUSH'', [(''../c__io_8c.html#ad4c8ccd81a73d71cf5f09a16a1147cb3'', 1, ''CIO_AUTOFLUSH():&#160;c_io.c''), (''../c__io_8h.html#ad4c8ccd81a73d71cf5f09a16a1147cb3'', 1, ''CIO_AUTOFLUSH():&#160;c_io.c'')]),
     (''cio_5fcontroller'', ''CIO_CONTROLLER'', [(''../c__io_8c.html#a30090a751524d7a9d92a49eb300ad3b7'', 1, ''CIO_CONTROLLER():&#160;c_io.c''), (''../c__io_8h.html#a30090a751524d7a9d92a49eb300ad3b7'', 1, ''CIO_CONTROLLER():&#160;c_io.c'')]),
     (''classify_5ffat_5fentry'', ''classify_fat_entry'', [(''../fat_8c.html#a8851afa569bc941282f20d95f0af5566'', 1, ''classify_fat_entry(PFAT_CONTEXT ctx, int32_t cluster, int32_t *next):&#160;fat.c''), (''../fat__types_8h.html#ac747872ccec2970473d9c33a24dcf0b6'', 1, ''classify_fat_entry(PFAT_CONTEXT ctx, int32_t fat_entry_value, int32_t *next_fat_entry):&#160;fat.c'')]),
     (''clock_2ec'', ''clock.c'', [(''../clock_8c.html'', 1, '''')]),
     (''clock_2eh'', ''clock.h'', [(''../clock_8h.html'', 1, '''')]),
     (''clock_5ffrequency'', ''CLOCK_FREQUENCY'', [(''../common_8h.html#ab58409b35e69dc927e744dddc75e8810'', 1, ''common.h'')]),
     (''cluster_5fnum_5ffor_5fbyte_5foffset'', ''cluster_num_for_byte_offset'', [(''../fat_8c.html#a010c03d94d68924e64401f1b8733b51c'', 1, ''fat.c'')]),
     (''cluster_5fparent_5fde'', ''cluster_parent_de'', [(''../struct__ft__de__inmem.html#a6f7d9ebb43a56d8da0e33175d32f3d66'', 1, ''_ft_de_inmem'')]),
     (''cluster_5fsize'', ''cluster_size'', [(''../struct__ft__ctxt__block.html#a411c8422cb9057f1e8adda10e9aa84bb'', 1, ''_ft_ctxt_block'')]),
     (''cluster_5fstart'', ''cluster_start'', [(''../struct__ft__de__inmem.html#a5b8f344f5379eaf67cd413e891dafe4d'', 1, ''_ft_de_inmem'')]),
     (''clusters_2eh'', ''clusters.h'', [(''../clusters_8h.html'', 1, '''')]),
     (''clusters_5fper_5ffat'', ''clusters_per_fat'', [(''../struct__ft__ctxt__block.html#a22e3bdc11335f0aac747e17c4177e3ec'', 1, ''_ft_ctxt_block'')]),
     (''clustnumroot'', ''clustnumroot'', [(''../struct__ft__bpb.html#a049a3cff8c4e9470f7fe3d28fa3e932d'', 1, ''_ft_bpb'')]),
     (''cmp'', ''cmp'', [(''../structst__queue.html#aedec6d1f8ba90c0a9830afb3cb1f3a87'', 1, ''st_queue'')]),
     (''cmpf_5ft'', ''cmpf_t'', [(''../queue_8h.html#acff460ed9d3624a71e9b67cda2fc3b6c'', 1, ''queue.h'')]),
     (''cnt_5ffree_5fclust'', ''cnt_free_clust'', [(''../struct__ft__fsinfo.html#aad986c945a07d1215ac145d16a08ebd4'', 1, ''_ft_fsinfo'')]),
     (''cntclustfat'', ''cntclustfat'', [(''../struct__ft__bpb.html#a150f6b570165bb4cc96b1eca3ea9b045'', 1, ''_ft_bpb'')]),
     (''cntfat1216'', ''cntfat1216'', [(''../struct__ft__bpb.html#a0662559d0376124bcaf2303bf7f6c428'', 1, ''_ft_bpb'')]),
     (''cntfats'', ''cntfats'', [(''../struct__ft__bpb.html#af2f9393791493fa3b2a5eff295be6a58'', 1, ''_ft_bpb'')]),
     (''cntheadsdisk'', ''cntheadsdisk'', [(''../struct__ft__bpb.html#ad2cd426faf0e9f97068bcb4c55f391f4'', 1, ''_ft_bpb'')]),
     (''cntlrgsectors'', ''cntlrgsectors'', [(''../struct__ft__bpb.html#a583a9bbd58da6d3750487b138abe39a5'', 1, ''_ft_bpb'')]),
     (''cntpart'', ''cntpart'', [(''../struct__ft__bpb.html#a8ee09115e590190d5be4c87e30fa566b'', 1, ''_ft_bpb'')]),
     (''cntreservedsectors'', ''cntreservedsectors'', [(''../struct__ft__bpb.html#a2d1278deef19d37c59d0e10131324b2e'', 1, ''_ft_bpb'')]),
     (''cntsectors'', ''cntsectors'', [(''../struct__ft__bpb.html#a84f5eba7891979b9217def086968a23a'', 1, ''_ft_bpb'')]),
     (''cntsectperfat'', ''cntsectperfat'', [(''../struct__ft__bpb.html#abd63700877e35ead3ffac0ed832e05d4'', 1, ''_ft_bpb'')]),
     (''cntsectpertrack'', ''cntsectpertrack'', [(''../struct__ft__bpb.html#a209a6b3a2635b8e3bbdf0830bd5464ce'', 1, ''_ft_bpb'')]),
     (''code'', ''code'', [(''../structcontext.html#a7da31c210cb2c3ca8b27fe7e9f272542'', 1, ''context::code()''), (''../structicmp__t.html#a2df2560fff169ad415ead37d5d3df19e'', 1, ''icmp_t::code()'')]),
     (''code_5faccess'', ''CODE_ACCESS'', [(''../gdt__init_8c.html#a64045200050c2877220847bc5ea4fa21'', 1, ''gdt_init.c'')]),
     (''color'', ''color'', [(''../structVConChar__s.html#a57d9273df7c658c9d7c50bbb92e50bab'', 1, ''VConChar_s'')]),
     (''color_2ec'', ''color.c'', [(''../color_8c.html'', 1, '''')]),
     (''color_2eh'', ''color.h'', [(''../color_8h.html'', 1, '''')]),
     (''color_5fgetcolor'', ''color_getColor'', [(''../color_8c.html#a38e9b3297a473d5d9f46f0fffd232956'', 1, ''color_getColor(VideoColorSpace colorspace, int red, int green, int blue):&#160;color.c''), (''../color_8h.html#a38e9b3297a473d5d9f46f0fffd232956'', 1, ''color_getColor(VideoColorSpace colorspace, int red, int green, int blue):&#160;color.c'')]),
     (''color_5fgetcomponent'', ''color_getComponent'', [(''../color_8c.html#afa6a2ebeb410f2dcbb84ac83fc200e95'', 1, ''color_getComponent(VideoColorSpace colorspace, VideoComp comp, int value):&#160;color.c''), (''../color_8h.html#afa6a2ebeb410f2dcbb84ac83fc200e95'', 1, ''color_getComponent(VideoColorSpace colorspace, VideoComp comp, int value):&#160;color.c'')]),
     (''color_5fvalueof'', ''color_valueOf'', [(''../color_8c.html#a8b9800f2ae573545fbab7d2eb5864f86'', 1, ''color_valueOf(VideoColorSpace colorspace, VideoComp comp, VideoCol color):&#160;color.c''), (''../color_8h.html#a8b9800f2ae573545fbab7d2eb5864f86'', 1, ''color_valueOf(VideoColorSpace colorspace, VideoComp comp, VideoCol color):&#160;color.c'')]),
     (''colorspace'', ''colorspace'', [(''../structVideoFb__s.html#a23bcef1f93d53bd8f39a1ab6a4c28227'', 1, ''VideoFb_s'')]),
     (''columns'', ''columns'', [(''../structVCon__s.html#acf1c367261584603ee864c910d34c14c'', 1, ''VCon_s'')]),
     (''command'', ''command'', [(''../structrfd__t.html#ad7d153049116a5b4036eab06bbbd3e86'', 1, ''rfd_t::command()''), (''../structcsr.html#a79e1ea2b9bd6d667425c6dac29db4387'', 1, ''csr::command()''), (''../structcb.html#a029a4a7f4eef84258e5a06ce49dc85a6'', 1, ''cb::command()'')]),
     (''common_2eh'', ''common.h'', [(''../common_8h.html'', 1, '''')]),
     (''compat1'', ''compat1'', [(''../struct__ft__bpb.html#a2cdcd92e07e9e4294cdc132ea998fbec'', 1, ''_ft_bpb'')]),
     (''compatguard'', ''compatguard'', [(''../struct__ft__fsinfo.html#a5c0e9385c1cafe46748f37379d31f0e8'', 1, ''_ft_fsinfo'')]),
     (''console_2ec'', ''console.c'', [(''../console_8c.html'', 1, '''')]),
     (''console_2eh'', ''console.h'', [(''../console_8h.html'', 1, '''')]),
     (''console_5fbuf_5faddress'', ''CONSOLE_BUF_ADDRESS'', [(''../VCon_8h.html#aadd3d88429e2a033fde82f416e634721'', 1, ''VCon.h'')]),
     (''constant'', ''constant'', [(''../struct__ft__de__longname.html#a33ab0d40178a291fa52f6d39ad64aa35'', 1, ''_ft_de_longname'')]),
     (''constantthree'', ''constantthree'', [(''../struct__ft__de__longname.html#aaed7e6dd629818ef19781571e8a5ee37'', 1, ''_ft_de_longname'')]),
     (''constanttwo'', ''constanttwo'', [(''../struct__ft__de__longname.html#a5b15be9e94e36abd519e3de17553bf7d'', 1, ''_ft_de_longname'')]),
     (''context'', ''context'', [(''../structcontext.html'', 1, ''context''), (''../structpcb.html#a26980adf575550b992962890c8c4dccd'', 1, ''pcb::context()'')]),
     (''context_5ft'', ''context_t'', [(''../process_8h.html#a1ac848b34df6ede8d0973835cda81bc4'', 1, ''process.h'')]),
     (''control_2ec'', ''control.c'', [(''../control_8c.html'', 1, '''')]),
     (''control_2eh'', ''control.h'', [(''../control_8h.html'', 1, '''')]),
     (''controller'', ''controller'', [(''../structVCon__s.html#a4dcaad5b1a1bca99e9225048813d57a0'', 1, ''VCon_s'')]),
     (''count'', ''count'', [(''../structrfd__t.html#ac687c2bc329ec13fb1e454ec9f7a8c0c'', 1, ''rfd_t'')]),
     (''cr0_5fam'', ''CR0_AM'', [(''../x86arch_8h.html#a88b8c1f08a286fdaf7b58e10e4223771'', 1, ''x86arch.h'')]),
     (''cr0_5fcd'', ''CR0_CD'', [(''../x86arch_8h.html#ae2abb4033838584afd1413b3fcfe3e20'', 1, ''x86arch.h'')]),
     (''cr0_5fem'', ''CR0_EM'', [(''../x86arch_8h.html#a39a8caf6348b3eae36171b43146025f6'', 1, ''x86arch.h'')]),
     (''cr0_5fet'', ''CR0_ET'', [(''../x86arch_8h.html#ad13fdf98c38ada8515b3d490feba86e7'', 1, ''x86arch.h'')]),
     (''cr0_5fmp'', ''CR0_MP'', [(''../x86arch_8h.html#a301019ca375756ccb75c7f207473e02d'', 1, ''x86arch.h'')]),
     (''cr0_5fne'', ''CR0_NE'', [(''../x86arch_8h.html#a219c459acf834242afdd99cda9c6a42c'', 1, ''x86arch.h'')]),
     (''cr0_5fnw'', ''CR0_NW'', [(''../x86arch_8h.html#a0e3e94dacd9aafa4721822a934c10d9e'', 1, ''x86arch.h'')]),
     (''cr0_5fpe'', ''CR0_PE'', [(''../x86arch_8h.html#aa899fa0a2a7dd414343fb2fada767622'', 1, ''x86arch.h'')]),
     (''cr0_5fpg'', ''CR0_PG'', [(''../x86arch_8h.html#a4f3b70ba40d96e55cae6026acc12cfed'', 1, ''x86arch.h'')]),
     (''cr0_5frsvd'', ''CR0_RSVD'', [(''../x86arch_8h.html#a013dfb18bfb6ca47ce4c479d6d3e16b0'', 1, ''x86arch.h'')]),
     (''cr0_5fts'', ''CR0_TS'', [(''../x86arch_8h.html#af9f6d1ac01fd24519da378e16b91b023'', 1, ''x86arch.h'')]),
     (''cr0_5fwp'', ''CR0_WP'', [(''../x86arch_8h.html#a2897f244bf55b3cf87c13869db57f6c8'', 1, ''x86arch.h'')]),
     (''cr1_5frsvd'', ''CR1_RSVD'', [(''../x86arch_8h.html#a78665e2e990287d37c024101d8556316'', 1, ''x86arch.h'')]),
     (''cr2_5fpf_5flin_5faddr'', ''CR2_PF_LIN_ADDR'', [(''../x86arch_8h.html#a71526f943a41436bd30f7cf23e725792'', 1, ''x86arch.h'')]),
     (''cr2_5frsvd'', ''CR2_RSVD'', [(''../x86arch_8h.html#ada671396a8ea30d9b8af1e6de842cf88'', 1, ''x86arch.h'')]),
     (''cr3_5fpcd'', ''CR3_PCD'', [(''../x86arch_8h.html#a06357ecca86b84ff5f2fc2dec4cfd9ab'', 1, ''x86arch.h'')]),
     (''cr3_5fpd_5fbase'', ''CR3_PD_BASE'', [(''../x86arch_8h.html#a858f536ca04e446c89f4ba324d70ea0d'', 1, ''x86arch.h'')]),
     (''cr3_5fpwt'', ''CR3_PWT'', [(''../x86arch_8h.html#a45314e4724863812d9c9cb180d13bd70'', 1, ''x86arch.h'')]),
     (''cr3_5frsvd'', ''CR3_RSVD'', [(''../x86arch_8h.html#a5c7dd7e7436b14e3deb5b93ab9ffc477'', 1, ''x86arch.h'')]),
     (''cr4_5fde'', ''CR4_DE'', [(''../x86arch_8h.html#aa91ada39839d383d1e01bb9859e54cd5'', 1, ''x86arch.h'')]),
     (''cr4_5fmce'', ''CR4_MCE'', [(''../x86arch_8h.html#a8cdcc96465b880dc37f3210e39e26317'', 1, ''x86arch.h'')]),
     (''cr4_5fosfxsr'', ''CR4_OSFXSR'', [(''../x86arch_8h.html#ae2049f6005e25a8c0f907d2dda713115'', 1, ''x86arch.h'')]),
     (''cr4_5fosxmmexcpt'', ''CR4_OSXMMEXCPT'', [(''../x86arch_8h.html#a4088c95f25bf56b187b5725a96e1b766'', 1, ''x86arch.h'')]),
     (''cr4_5fpae'', ''CR4_PAE'', [(''../x86arch_8h.html#a1ca5cfd0c966d604caca75537046dd84'', 1, ''x86arch.h'')]),
     (''cr4_5fpce'', ''CR4_PCE'', [(''../x86arch_8h.html#a92add74eb1a9c5057034487a15b7f941'', 1, ''x86arch.h'')]),
     (''cr4_5fpge'', ''CR4_PGE'', [(''../x86arch_8h.html#a23d4fb2887ed4baa4f202060f6aec230'', 1, ''x86arch.h'')]),
     (''cr4_5fpse'', ''CR4_PSE'', [(''../x86arch_8h.html#acdc818c9179c6112b2d065bd9d91a420'', 1, ''x86arch.h'')]),
     (''cr4_5fpvi'', ''CR4_PVI'', [(''../x86arch_8h.html#ab8a1ef093092453d29b2a8248820d9bd'', 1, ''x86arch.h'')]),
     (''cr4_5frsvd'', ''CR4_RSVD'', [(''../x86arch_8h.html#add1380310ac8b4699551e9c14280c407'', 1, ''x86arch.h'')]),
     (''cr4_5ftsd'', ''CR4_TSD'', [(''../x86arch_8h.html#acc96e6133fb4103b631c2cc1e6cb1115'', 1, ''x86arch.h'')]),
     (''cr4_5fvme'', ''CR4_VME'', [(''../x86arch_8h.html#a3aec83d9449f58f6f1a09855bf7d3297'', 1, ''x86arch.h'')]),
     (''cread'', ''cread'', [(''../ulibc_8c.html#a08f0970a05a4b170ede53fa4e12cfb3d'', 1, ''cread(char *buf, uint32_t size):&#160;ulibc.c''), (''../ulib_8h.html#a08f0970a05a4b170ede53fa4e12cfb3d'', 1, ''cread(char *buf, uint32_t size):&#160;ulibc.c'')]),
     (''creadch'', ''creadch'', [(''../ulibc_8c.html#a7e2ca8c8716f99f6bd30dc4b7ad1b160'', 1, ''creadch(void):&#160;ulibc.c''), (''../ulib_8h.html#a7e2ca8c8716f99f6bd30dc4b7ad1b160'', 1, ''creadch(void):&#160;ulibc.c'')]),
     (''create_2eh'', ''create.h'', [(''../create_8h.html'', 1, '''')]),
     (''create_5fdate'', ''create_date'', [(''../struct__ft__de__sd.html#abfeaa0de9b9c98281b8fcf5e36ccd965'', 1, ''_ft_de_sd'')]),
     (''create_5ftime'', ''create_time'', [(''../struct__ft__de__sd.html#ac34bd7f0f38481aeae47c4d4c544f84d'', 1, ''_ft_de_sd'')]),
     (''create_5ftime_5ftenths_5fs'', ''create_time_tenths_s'', [(''../struct__ft__de__sd.html#af8f1bc489f70019880f43d425c75f886'', 1, ''_ft_de_sd'')]),
     (''created'', ''created'', [(''../struct__io__file__instance.html#af64b82a416f096b5f71e6021812c3da3'', 1, ''_io_file_instance::created()''), (''../struct__ft__de__inmem.html#a1bd358f3ce8b6d041feba6c9c38d1ee7'', 1, ''_ft_de_inmem::created()'')]),
     (''cs'', ''cs'', [(''../structcontext.html#a6100bf694b341be0b7ed071330fa2493'', 1, ''context'')]),
     (''csr'', ''csr'', [(''../structcsr.html'', 1, ''csr''), (''../structnic__info.html#a1d3acc2596d7926faa0be60d2a735888'', 1, ''nic_info::csr()'')]),
     (''ctx'', ''ctx'', [(''../structVConCtrl__s.html#a36cafb4be739af818ce7953df21f7453'', 1, ''VConCtrl_s'')]),
     (''ctype_2eh'', ''ctype.h'', [(''../ctype_8h.html'', 1, '''')]),
     (''cu_5fhqp_5factive'', ''cu_hqp_active'', [(''../intel_8h.html#a56fc70fac0e85180f470f88ce8580b8aa2673c2bb95bb8c9235bb2d0aa4e320eb'', 1, ''intel.h'')]),
     (''cu_5fidle'', ''cu_idle'', [(''../intel_8h.html#a56fc70fac0e85180f470f88ce8580b8aadea7673357c500e92136afc856e61e0e'', 1, ''intel.h'')]),
     (''cu_5flpq_5factive'', ''cu_lpq_active'', [(''../intel_8h.html#a56fc70fac0e85180f470f88ce8580b8aa8e8654fa3bc9b6ddbae3b74b948f5def'', 1, ''intel.h'')]),
     (''cu_5fmask'', ''cu_mask'', [(''../intel_8h.html#a56fc70fac0e85180f470f88ce8580b8aa7fec2b59c893a56c64aff633c0843218'', 1, ''intel.h'')]),
     (''cu_5fsuspended'', ''cu_suspended'', [(''../intel_8h.html#a56fc70fac0e85180f470f88ce8580b8aafa3a0f140bd7647bbb2449830748f600'', 1, ''intel.h'')]),
     (''cuc_5fcu_5fstatic_5fresume'', ''cuc_cu_static_resume'', [(''../intel_8h.html#ac85ebe3efb133fedbf66ca90cb1e98a0afbe1f617f4325600ea8c1793c3dbbf11'', 1, ''intel.h'')]),
     (''cuc_5fdump_5freset_5fstat_5fcnt'', ''cuc_dump_reset_stat_cnt'', [(''../intel_8h.html#ac85ebe3efb133fedbf66ca90cb1e98a0a1b6228156b8a88759c17419231f76d64'', 1, ''intel.h'')]),
     (''cuc_5fdump_5fstat_5fcnt'', ''cuc_dump_stat_cnt'', [(''../intel_8h.html#ac85ebe3efb133fedbf66ca90cb1e98a0a3378f7925fe17911995450975db1092f'', 1, ''intel.h'')]),
     (''cuc_5fload_5fcu_5fbase'', ''cuc_load_cu_base'', [(''../intel_8h.html#ac85ebe3efb133fedbf66ca90cb1e98a0ad58fe1e8d851378730cd9aa8c70bcd80'', 1, ''intel.h'')]),
     (''cuc_5fload_5fdump_5fcnt_5faddr'', ''cuc_load_dump_cnt_addr'', [(''../intel_8h.html#ac85ebe3efb133fedbf66ca90cb1e98a0af552fa94be8dbb77ebfe0c467eaf3cd4'', 1, ''intel.h'')]),
     (''cuc_5fnop'', ''cuc_nop'', [(''../intel_8h.html#ac85ebe3efb133fedbf66ca90cb1e98a0aa1c8e0b20ce13501ffb5ff1551e9bd10'', 1, ''intel.h'')]),
     (''cuc_5fresume'', ''cuc_resume'', [(''../intel_8h.html#ac85ebe3efb133fedbf66ca90cb1e98a0ab47898c4d5255bf3ddb4e7197130743e'', 1, ''intel.h'')]),
     (''cuc_5fstart'', ''cuc_start'', [(''../intel_8h.html#ac85ebe3efb133fedbf66ca90cb1e98a0a91adb35c85dfa19aa7d95784fe19dbda'', 1, ''intel.h'')]),
     (''current'', ''current'', [(''../structVConCtrl__s.html#ae9bd4300eb7066e04e0c18cf57e07fd4'', 1, ''VConCtrl_s'')]),
     (''cursor'', ''cursor'', [(''../struct__io__file__instance.html#a4b27c1472432d94ff10d502106be8b14'', 1, ''_io_file_instance'')]),
     (''cursorx'', ''cursorX'', [(''../structVCon__s.html#aa8686814436e3bb0a58cae784e2da85f'', 1, ''VCon_s'')]),
     (''cursory'', ''cursorY'', [(''../structVCon__s.html#ada44f063cac45f48421a9a37fb8a9f07'', 1, ''VCon_s'')]),
     (''cvt_5fdec'', ''cvt_dec'', [(''../ulibc_8c.html#afb0132b846447b23aee00f27f45b15ee'', 1, ''cvt_dec(char *buf, int32_t value):&#160;ulibc.c''), (''../ulib_8h.html#afb0132b846447b23aee00f27f45b15ee'', 1, ''cvt_dec(char *buf, int32_t value):&#160;ulibc.c'')]),
     (''cvt_5fdec0'', ''cvt_dec0'', [(''../ulibc_8c.html#a366748e8e19e041a1a707ad0c80c932d'', 1, ''ulibc.c'')]),
     (''cvt_5fhex'', ''cvt_hex'', [(''../ulibc_8c.html#ae32c3a2896ea5913dfb752565a363a45'', 1, ''cvt_hex(char *buf, uint32_t value):&#160;ulibc.c''), (''../ulib_8h.html#ae32c3a2896ea5913dfb752565a363a45'', 1, ''cvt_hex(char *buf, uint32_t value):&#160;ulibc.c'')]),
     (''cvtdec'', ''cvtdec'', [(''../c__io_8c.html#a2cfcb0e43fa9c4ed89e68d1d44d1a1f8'', 1, ''c_io.c'')]),
     (''cvtdec0'', ''cvtdec0'', [(''../c__io_8c.html#a39a4eff04c588c4e35b83ce0adc2544a'', 1, ''c_io.c'')]),
     (''cvthex'', ''cvthex'', [(''../c__io_8c.html#a1e1d3236afaf304814de9f689439e724'', 1, ''c_io.c'')]),
     (''cvtoct'', ''cvtoct'', [(''../c__io_8c.html#ac92f660d1b3aebd4e2189c381cb2c778'', 1, ''c_io.c'')]),
     (''cwrite'', ''cwrite'', [(''../ulibc_8c.html#a9df86908a95a34cd386a91844cb663f8'', 1, ''cwrite(const char *buf, uint32_t size):&#160;ulibc.c''), (''../ulib_8h.html#a9df86908a95a34cd386a91844cb663f8'', 1, ''cwrite(const char *buf, uint32_t size):&#160;ulibc.c'')]),
     (''cwritech'', ''cwritech'', [(''../ulibc_8c.html#aaed8c986dd3dc3c0df78759cb8898b3a'', 1, ''cwritech(char ch):&#160;ulibc.c''), (''../ulib_8h.html#aaed8c986dd3dc3c0df78759cb8898b3a'', 1, ''cwritech(char ch):&#160;ulibc.c'')]),
     (''cwrites'', ''cwrites'', [(''../ulibc_8c.html#a3592d51eaa0478e59299bab5099e7e54'', 1, ''cwrites(const char *str):&#160;ulibc.c''), (''../ulib_8h.html#a3592d51eaa0478e59299bab5099e7e54'', 1, ''cwrites(const char *str):&#160;ulibc.c'')]),
     (''cx'', ''cx'', [(''../structregs16__s.html#ac4d9964397d17829def3a72e69a10b35'', 1, ''regs16_s::cx()''), (''../realmode_8h.html#ab7507b7cdbdf013abc60f6a18ab5cd45'', 1, ''cx():&#160;realmode.h'')])]"

definition searchData_all_5 :: "search_entry list" where
  "searchData_all_5 =
    [(''data'', ''data'', [(''../structst__qnode.html#a2ad36484bb783258715366df1fe9fd1a'', 1, ''st_qnode::data()''), (''../structrfd__t.html#a8f5220da95077fbe0bfd61090b73aefe'', 1, ''rfd_t::data()''), (''../unioneth__payload__t.html#a819a4bdb83c5df6bb6328acb66fae430'', 1, ''eth_payload_t::data()'')]),
     (''data_5faccess'', ''DATA_ACCESS'', [(''../gdt__init_8c.html#a058483ab2d96c69b11a235d6d9ba537f'', 1, ''gdt_init.c'')]),
     (''date_5ffrom_5fbytes'', ''date_from_bytes'', [(''../fat_8c.html#a81fc4e5675fff8f0e0bc09ddd68b8885'', 1, ''fat.c'')]),
     (''day'', ''day'', [(''../struct__f32__time.html#abfdf7ccaaafabe142a1dca213aa49f5a'', 1, ''_f32_time::day()''), (''../struct__ft__date__packed.html#a4abd82dcbd871cdc490122d125f85349'', 1, ''_ft_date_packed::day()'')]),
     (''default_5feflags'', ''DEFAULT_EFLAGS'', [(''../system_8h.html#a3e6a40c47fc8368fbb6edacb313eb503'', 1, ''system.h'')]),
     (''delay_5falt'', ''DELAY_ALT'', [(''../user_8h.html#add0a96733f07b787e2abecd96525f229'', 1, ''user.h'')]),
     (''delay_5flong'', ''DELAY_LONG'', [(''../user_8h.html#a74a1511454b99f7b9c356777484104ce'', 1, ''user.h'')]),
     (''delay_5fstd'', ''DELAY_STD'', [(''../user_8h.html#a679bd59022085a561a4194c2306cee47'', 1, ''user.h'')]),
     (''delete_2eh'', ''delete.h'', [(''../delete_8h.html'', 1, '''')]),
     (''desc_5figate'', ''DESC_IGATE'', [(''../x86arch_8h.html#a86fe8ba8ffa959cda70c0817db1f42b5'', 1, ''x86arch.h'')]),
     (''desired_5fattributes'', ''DESIRED_ATTRIBUTES'', [(''../early_2video_8c.html#ab794ff22062c09626887b2ff7d3a0309'', 1, ''video.c'')]),
     (''detailedtimings'', ''DetailedTimings'', [(''../structEDIDRecord__s.html#a72351a783ebeb1895f71124e6dc90eb1'', 1, ''EDIDRecord_s::DetailedTimings()''), (''../EDIDRecord_8h.html#a3f94ff93a912d1662c56a53b2ed910f3'', 1, ''DetailedTimings():&#160;EDIDRecord.h'')]),
     (''device'', ''device'', [(''../struct__io__message.html#a4c5bb392a4f3a71f3d834b841840a25a'', 1, ''_io_message::device()''), (''../struct__io__mount.html#a7f5172dfc623e5d90281ad66d09a02d9'', 1, ''_io_mount::device()'')]),
     (''device_2ec'', ''device.c'', [(''../device_8c.html'', 1, '''')]),
     (''device_2eh'', ''device.h'', [(''../device_8h.html'', 1, '''')]),
     (''di'', ''di'', [(''../structregs16__s.html#a3a75fcbd66b32fc6c04e2bd6197d0a6b'', 1, ''regs16_s::di()''), (''../realmode_8h.html#aaea7b514ca0c80db1989dc43cf4fe3c1'', 1, ''di():&#160;realmode.h'')]),
     (''directcolormodeinfo'', ''DirectColorModeInfo'', [(''../structVBE2ModeInfo__s.html#a621bc4981a166b4d06108fc41c24e276'', 1, ''VBE2ModeInfo_s::DirectColorModeInfo()''), (''../structVBE3ModeInfo__s.html#aec1c62b9ec01f737e8e6bba2e4b2c7e9'', 1, ''VBE3ModeInfo_s::DirectColorModeInfo()''), (''../VBE2ModeInfo_8h.html#a3bf2fd2394ec8649ec3d26104be35dd7'', 1, ''DirectColorModeInfo():&#160;VBE2ModeInfo.h''), (''../VBE3ModeInfo_8h.html#a3bf2fd2394ec8649ec3d26104be35dd7'', 1, ''DirectColorModeInfo():&#160;VBE3ModeInfo.h'')]),
     (''disable_5fpaging'', ''disable_paging'', [(''../memory__map_8c.html#aed93ac538b84505cb2ee37226e4fcda1'', 1, ''memory_map.c'')]),
     (''disp_5fmemory_5fmap'', ''disp_memory_map'', [(''../memory__map_8c.html#a27bbee382c32c31752253adaee991f52'', 1, ''disp_memory_map(void):&#160;memory_map.c''), (''../memory__map_8h.html#a27bbee382c32c31752253adaee991f52'', 1, ''disp_memory_map(void):&#160;memory_map.c'')]),
     (''do_5fexit'', ''do_exit'', [(''../system_8h.html#abbd868a137bb06e2ad2c5501da5602ed'', 1, ''do_exit(void):&#160;system.h''), (''../ulib_8h.html#abbd868a137bb06e2ad2c5501da5602ed'', 1, ''do_exit(void):&#160;ulib.h'')]),
     (''draw_2ec'', ''draw.c'', [(''../draw_8c.html'', 1, '''')]),
     (''draw_2eh'', ''draw.h'', [(''../draw_8h.html'', 1, '''')]),
     (''drawcol'', ''drawCol'', [(''../structPaintContext__s.html#aa8fd371b75248804fe655975df80f585'', 1, ''PaintContext_s'')]),
     (''driver'', ''driver'', [(''../struct__ft__ctxt__block.html#a4bd6e33c50281a732f42795ca0fe634f'', 1, ''_ft_ctxt_block'')]),
     (''ds'', ''ds'', [(''../structcontext.html#a84ee51730efb85654508b5dc4d2d67c2'', 1, ''context::ds()''), (''../structregs16__s.html#a3351ea4fdcf8a7c14f83975b2a9cfe17'', 1, ''regs16_s::ds()''), (''../early_2realmode_8h.html#a1593f2113f73ecbc0e6a92e41fa76d14'', 1, ''ds():&#160;realmode.h''), (''../realmode_8h.html#a1593f2113f73ecbc0e6a92e41fa76d14'', 1, ''ds():&#160;realmode.h'')]),
     (''dscp'', ''dscp'', [(''../structipv4__t.html#ae9e1248c089d6c75c7b6f9df6a030c5d'', 1, ''ipv4_t'')]),
     (''dst_5fip'', ''dst_ip'', [(''../structipv4__t.html#aacc553a3f23ccb47034ec2917611471f'', 1, ''ipv4_t'')]),
     (''dst_5fmac'', ''dst_mac'', [(''../structeth__packet__t.html#a1efa66f4b1cf066022568b593ea55623'', 1, ''eth_packet_t::dst_mac()''), (''../struct____attribute____.html#ac915af67b5818d1bc118d56332e3c2c4'', 1, ''__attribute__::dst_mac()'')]),
     (''dx'', ''dx'', [(''../structregs16__s.html#a47728adf6c413531099601bde4454d99'', 1, ''regs16_s::dx()''), (''../realmode_8h.html#a374e1469a63c917a6c5af9366893eca2'', 1, ''dx():&#160;realmode.h'')])]"

definition searchData_all_6 :: "search_entry list" where
  "searchData_all_6 =
    [(''e_5fbad_5farg'', ''E_BAD_ARG'', [(''../types_8h.html#acf9b3a9c9b9a651d1be5ba2887e1970ba7b5c4fd9aed51a0942d8b3f1cae4e600'', 1, ''types.h'')]),
     (''e_5fbad_5fchan'', ''E_BAD_CHAN'', [(''../types_8h.html#acf9b3a9c9b9a651d1be5ba2887e1970ba0d8ccbb1987cf9c0a90490ffa37b24dc'', 1, ''types.h'')]),
     (''e_5fbad_5fhandle'', ''E_BAD_HANDLE'', [(''../types_8h.html#acf9b3a9c9b9a651d1be5ba2887e1970baa65fef614cc1d1db3683a14df6414973'', 1, ''types.h'')]),
     (''e_5fbad_5fptr'', ''E_BAD_PTR'', [(''../types_8h.html#acf9b3a9c9b9a651d1be5ba2887e1970ba6942c790c12a5a49db6b29d6481c0588'', 1, ''types.h'')]),
     (''e_5fbad_5ftype'', ''E_BAD_TYPE'', [(''../types_8h.html#acf9b3a9c9b9a651d1be5ba2887e1970ba9386637bd375d6618f87179ee70b5e61'', 1, ''types.h'')]),
     (''e_5fcanceled'', ''E_CANCELED'', [(''../types_8h.html#acf9b3a9c9b9a651d1be5ba2887e1970ba2037ae2f61968260b2ad8126940eb762'', 1, ''types.h'')]),
     (''e_5fempty_5fqueue'', ''E_EMPTY_QUEUE'', [(''../types_8h.html#acf9b3a9c9b9a651d1be5ba2887e1970ba6909bd75ba0bbeb01190a8b724d958ef'', 1, ''types.h'')]),
     (''e_5ffailure'', ''E_FAILURE'', [(''../types_8h.html#acf9b3a9c9b9a651d1be5ba2887e1970babef5ce6a60230d91bd19964e3a68a9ec'', 1, ''types.h'')]),
     (''e_5flocked'', ''E_LOCKED'', [(''../types_8h.html#acf9b3a9c9b9a651d1be5ba2887e1970ba599243b45d78f3d659cc641b443a1512'', 1, ''types.h'')]),
     (''e_5fmore_5fdata'', ''E_MORE_DATA'', [(''../types_8h.html#acf9b3a9c9b9a651d1be5ba2887e1970ba31b552ddf7a68c8581d54fdadbada540'', 1, ''types.h'')]),
     (''e_5fno_5fchar'', ''E_NO_CHAR'', [(''../types_8h.html#acf9b3a9c9b9a651d1be5ba2887e1970bada6e62b0ad79edd3c3fbe7f52462a1c6'', 1, ''types.h'')]),
     (''e_5fno_5fchild'', ''E_NO_CHILD'', [(''../types_8h.html#acf9b3a9c9b9a651d1be5ba2887e1970ba66875bc1d6a7469a57c6e2f609bacee7'', 1, ''types.h'')]),
     (''e_5fno_5fdata'', ''E_NO_DATA'', [(''../types_8h.html#acf9b3a9c9b9a651d1be5ba2887e1970bad04b4aded201c5f9d9aaccadb5f8da57'', 1, ''types.h'')]),
     (''e_5fno_5fmatch'', ''E_NO_MATCH'', [(''../types_8h.html#acf9b3a9c9b9a651d1be5ba2887e1970ba2a0db192dd0d59736b9c4caf11ba37c6'', 1, ''types.h'')]),
     (''e_5fno_5fmore_5fhandles'', ''E_NO_MORE_HANDLES'', [(''../types_8h.html#acf9b3a9c9b9a651d1be5ba2887e1970baf13de8212e7d9e16a1566e1fe8bb210b'', 1, ''types.h'')]),
     (''e_5fno_5fmore_5fprocs'', ''E_NO_MORE_PROCS'', [(''../types_8h.html#acf9b3a9c9b9a651d1be5ba2887e1970bae74fde614041de7ae14459a9b7355087'', 1, ''types.h'')]),
     (''e_5fno_5fpcbs'', ''E_NO_PCBS'', [(''../types_8h.html#acf9b3a9c9b9a651d1be5ba2887e1970ba0db1f7dbc6b6901cabaa49fcb5f9a2cb'', 1, ''types.h'')]),
     (''e_5fno_5fperm'', ''E_NO_PERM'', [(''../types_8h.html#acf9b3a9c9b9a651d1be5ba2887e1970ba34282665e1d4f91fc2826e51ce279107'', 1, ''types.h'')]),
     (''e_5fno_5fprocess'', ''E_NO_PROCESS'', [(''../types_8h.html#acf9b3a9c9b9a651d1be5ba2887e1970babc7ff2b2e284ec7d72ccfd207d1873a4'', 1, ''types.h'')]),
     (''e_5fno_5fqnodes'', ''E_NO_QNODES'', [(''../types_8h.html#acf9b3a9c9b9a651d1be5ba2887e1970baae9b11809448a6a6eb0e7893346fe178'', 1, ''types.h'')]),
     (''e_5fno_5fstacks'', ''E_NO_STACKS'', [(''../types_8h.html#acf9b3a9c9b9a651d1be5ba2887e1970ba2ec58711041d17e4a494ef9589948997'', 1, ''types.h'')]),
     (''e_5fnot_5fimplemented'', ''E_NOT_IMPLEMENTED'', [(''../types_8h.html#acf9b3a9c9b9a651d1be5ba2887e1970baa6d13fc3a2ccdbc35c2194fd782e5497'', 1, ''types.h'')]),
     (''e_5fout_5fof_5fbounds'', ''E_OUT_OF_BOUNDS'', [(''../types_8h.html#acf9b3a9c9b9a651d1be5ba2887e1970ba9e8111def9e1e94231c903825d9ae7f0'', 1, ''types.h'')]),
     (''e_5fout_5fof_5fobjects'', ''E_OUT_OF_OBJECTS'', [(''../types_8h.html#acf9b3a9c9b9a651d1be5ba2887e1970ba53143fc7e18127d64579f6841cee306a'', 1, ''types.h'')]),
     (''e_5fprio'', ''e_prio'', [(''../types_8h.html#a606fdefd3f56e753c5965e7b5a57652a'', 1, ''types.h'')]),
     (''e_5fstat'', ''e_stat'', [(''../types_8h.html#acf9b3a9c9b9a651d1be5ba2887e1970b'', 1, ''types.h'')]),
     (''e_5fstate'', ''e_state'', [(''../types_8h.html#a74a75e4700f1f71bb89d80765319e57b'', 1, ''types.h'')]),
     (''e_5fsuccess'', ''E_SUCCESS'', [(''../vga13_2err_8h.html#ad1a31c5316d5f51ca5c1c4fb2b9b1958'', 1, ''E_SUCCESS():&#160;err.h''), (''../types_8h.html#acf9b3a9c9b9a651d1be5ba2887e1970bac3121e429a129b2ccb51a92b7c78c4b4'', 1, ''E_SUCCESS():&#160;types.h'')]),
     (''e_5fvcon_5fargnull'', ''E_VCON_ARGNULL'', [(''../vconsole_2err_8h.html#ab1c5c30ca65609491a2ce593d8ad7a23'', 1, ''err.h'')]),
     (''e_5fvcon_5fbadscroll'', ''E_VCON_BADSCROLL'', [(''../vconsole_2err_8h.html#a1a318a97870dceb4d9e40d07739cfe1d'', 1, ''err.h'')]),
     (''e_5fvcon_5fbounds'', ''E_VCON_BOUNDS'', [(''../vconsole_2err_8h.html#aaf1537eba9c730609706471280030394'', 1, ''err.h'')]),
     (''e_5fvcon_5ferror'', ''E_VCON_ERROR'', [(''../vconsole_2err_8h.html#a66d253e63a28fc2ea04cb239ffd20e85'', 1, ''err.h'')]),
     (''e_5fvcon_5fsuccess'', ''E_VCON_SUCCESS'', [(''../vconsole_2err_8h.html#a1812611ca404bc82519fc69045c988d1'', 1, ''err.h'')]),
     (''e_5fvesa_5fargnull'', ''E_VESA_ARGNULL'', [(''../vesa_2err_8h.html#a9983783580d8dcb77af4721f1b1909ad'', 1, ''err.h'')]),
     (''e_5fvesa_5ferror'', ''E_VESA_ERROR'', [(''../vesa_2err_8h.html#a2c14b6c8ccf6bc5a3078ff9d7b435515'', 1, ''err.h'')]),
     (''e_5fvesa_5fnotiming'', ''E_VESA_NOTIMING'', [(''../vesa_2err_8h.html#ae351c5be515d2c233256c4b43781bb58'', 1, ''err.h'')]),
     (''e_5fvesa_5fsuccess'', ''E_VESA_SUCCESS'', [(''../vesa_2err_8h.html#afffad530f3782453a241860a660e9471'', 1, ''err.h'')]),
     (''e_5fvga13_5fargnull'', ''E_VGA13_ARGNULL'', [(''../vga13_2err_8h.html#a44999f4a890501c865f8280e4f3409bd'', 1, ''err.h'')]),
     (''e_5fvga13_5fbounds'', ''E_VGA13_BOUNDS'', [(''../vga13_2err_8h.html#a1dc4173fbda9fe854e3a136846c36ce2'', 1, ''err.h'')]),
     (''e_5fvideo_5fargnull'', ''E_VIDEO_ARGNULL'', [(''../video_2err_8h.html#a07eb3cca039e03960641b5953c41159b'', 1, ''err.h'')]),
     (''e_5fvideo_5ferror'', ''E_VIDEO_ERROR'', [(''../video_2err_8h.html#a5d5f52a6fadbfa321974913feb105330'', 1, ''err.h'')]),
     (''e_5fvideo_5finfo_5ftruncated'', ''E_VIDEO_INFO_TRUNCATED'', [(''../video_2err_8h.html#a37d20a1f30a8af00e2c59cad19c00c15'', 1, ''err.h'')]),
     (''e_5fvideo_5fsuccess'', ''E_VIDEO_SUCCESS'', [(''../video_2err_8h.html#af56605a13b271c48e0d79554a174d293'', 1, ''err.h'')]),
     (''e_5fvideo_5funsupported'', ''E_VIDEO_UNSUPPORTED'', [(''../video_2err_8h.html#af888d8fc8137663fba5e64d3f8e661f0'', 1, ''err.h'')]),
     (''early_5fgdt_5faddress'', ''EARLY_GDT_ADDRESS'', [(''../bootstrap_8h.html#ac10943e9df2f682786c84e45a458f4f4'', 1, ''bootstrap.h'')]),
     (''early_5fgdt_5fcode16'', ''EARLY_GDT_CODE16'', [(''../bootstrap_8h.html#aaf0a59770e7797d1dd59dfee241d1394'', 1, ''bootstrap.h'')]),
     (''early_5fgdt_5fcode32'', ''EARLY_GDT_CODE32'', [(''../bootstrap_8h.html#a719a1b21fe4beb3680dbca19055b14d4'', 1, ''bootstrap.h'')]),
     (''early_5fgdt_5fdata16'', ''EARLY_GDT_DATA16'', [(''../bootstrap_8h.html#aabba534a3314aec2d829dae0121260a9'', 1, ''bootstrap.h'')]),
     (''early_5fgdt_5fdata32'', ''EARLY_GDT_DATA32'', [(''../bootstrap_8h.html#a1b640125cb056824a438cce1c910a63c'', 1, ''bootstrap.h'')]),
     (''early_5fgdt_5fsegment'', ''EARLY_GDT_SEGMENT'', [(''../bootstrap_8h.html#ae23f25b7dcf507f7fa225f885a7b5f7d'', 1, ''bootstrap.h'')]),
     (''eax'', ''eax'', [(''../structcontext.html#a56aef6cd014c51b3b9b1cc0c09a66ed0'', 1, ''context::eax()''), (''../structregs16__s.html#acc98672e7e2cc0924c417495534786b8'', 1, ''regs16_s::eax()''), (''../early_2realmode_8h.html#a93d929ad1fc57af9d4f1793c361fb4f2'', 1, ''eax():&#160;realmode.h'')]),
     (''ebp'', ''ebp'', [(''../structcontext.html#a77550dcb1817c207c7c7191ba4f23ea8'', 1, ''context::ebp()''), (''../structregs16__s.html#a02cae8d9c71ca29331dc545c7c647586'', 1, ''regs16_s::ebp()''), (''../early_2realmode_8h.html#aaba2ad0ff8ba480934feabfdab02b1e7'', 1, ''ebp():&#160;realmode.h'')]),
     (''ebx'', ''ebx'', [(''../structcontext.html#a9faeb815263b24dd7a48512919470c01'', 1, ''context::ebx()''), (''../structregs16__s.html#a595c5a3f9884a0b7ea368c5e40673066'', 1, ''regs16_s::ebx()''), (''../early_2realmode_8h.html#ae7c1e3339e4dead200cab41010e9127c'', 1, ''ebx():&#160;realmode.h'')]),
     (''ecn'', ''ecn'', [(''../structipv4__t.html#a1a04d31a0384c9f40cb42fcbde4bf7e1'', 1, ''ipv4_t'')]),
     (''ecx'', ''ecx'', [(''../structcontext.html#a4cb6fc496aa91cbc2584f939bb9264d2'', 1, ''context::ecx()''), (''../structregs16__s.html#a21887f1b0837a7fe9cb59dd674165496'', 1, ''regs16_s::ecx()''), (''../early_2realmode_8h.html#af2b16bef95c844028dd145264d1d3875'', 1, ''ecx():&#160;realmode.h'')]),
     (''edi'', ''edi'', [(''../structcontext.html#a6275aca9e64f37cbcf4a13b6aa18e319'', 1, ''context::edi()''), (''../structregs16__s.html#ad5b4ddccb2e9f9d446c641152b1ebbf4'', 1, ''regs16_s::edi()''), (''../early_2realmode_8h.html#a36ffab8d34c6c411a7e5205ddb95eaf9'', 1, ''edi():&#160;realmode.h'')]),
     (''edid_2ec'', ''edid.c'', [(''../edid_8c.html'', 1, '''')]),
     (''edid_2eh'', ''edid.h'', [(''../edid_8h.html'', 1, '''')]),
     (''edid_5fdetailed_5ftiming_5fcount'', ''EDID_DETAILED_TIMING_COUNT'', [(''../EDIDRecord_8h.html#a9b4392e4eec4c075710ceb28fa9b8bc9'', 1, ''EDIDRecord.h'')]),
     (''edid_5fgetnativetiming'', ''edid_getNativeTiming'', [(''../edid_8c.html#ab4923b01e3ca8a842bf93c0655877809'', 1, ''edid_getNativeTiming(EDIDRecord *record, VideoTiming *timing):&#160;edid.c''), (''../edid_8h.html#ab4923b01e3ca8a842bf93c0655877809'', 1, ''edid_getNativeTiming(EDIDRecord *record, VideoTiming *timing):&#160;edid.c'')]),
     (''edid_5fgetrecord'', ''edid_getRecord'', [(''../edid_8c.html#a5dae955f34d49f230c1903c93b9e16b5'', 1, ''edid_getRecord(EDIDRecord *record):&#160;edid.c''), (''../edid_8h.html#a5dae955f34d49f230c1903c93b9e16b5'', 1, ''edid_getRecord(EDIDRecord *record):&#160;edid.c'')]),
     (''edid_5fparsedetailed'', ''edid_parseDetailed'', [(''../edid_8c.html#aecce043de12d093e21e7e14ce73afdbb'', 1, ''edid_parseDetailed(EDIDRecord *record, VideoTiming *timing, unsigned num):&#160;edid.c''), (''../edid_8h.html#aecce043de12d093e21e7e14ce73afdbb'', 1, ''edid_parseDetailed(EDIDRecord *record, VideoTiming *timing, unsigned num):&#160;edid.c'')]),
     (''edid_5fparsestandard'', ''edid_parseStandard'', [(''../edid_8c.html#a6a409eeb92356c5ec2b6c5041c98f7a5'', 1, ''edid_parseStandard(EDIDRecord *record, VideoTiming *timing, unsigned num):&#160;edid.c''), (''../edid_8h.html#a6a409eeb92356c5ec2b6c5041c98f7a5'', 1, ''edid_parseStandard(EDIDRecord *record, VideoTiming *timing, unsigned num):&#160;edid.c'')]),
     (''edid_5fratio_5f16_5f10'', ''EDID_RATIO_16_10'', [(''../EDIDRecord_8h.html#a060dd7f31404df12634dc54b3ecf97a6'', 1, ''EDIDRecord.h'')]),
     (''edid_5fratio_5f16_5f9'', ''EDID_RATIO_16_9'', [(''../EDIDRecord_8h.html#a2f092f8e233343610c544f3fc8d22be1'', 1, ''EDIDRecord.h'')]),
     (''edid_5fratio_5f4_5f3'', ''EDID_RATIO_4_3'', [(''../EDIDRecord_8h.html#af8b5442afa2dc1258efb8fdb7b11d6f1'', 1, ''EDIDRecord.h'')]),
     (''edid_5fratio_5f5_5f4'', ''EDID_RATIO_5_4'', [(''../EDIDRecord_8h.html#a8df0d17d309b82637ef3be97a7d61a21'', 1, ''EDIDRecord.h'')]),
     (''edid_5fstandard_5ftiming_5fcount'', ''EDID_STANDARD_TIMING_COUNT'', [(''../EDIDRecord_8h.html#a65223af5ebbb1968b5920140775980e1'', 1, ''EDIDRecord.h'')]),
     (''edidrecord'', ''EDIDRecord'', [(''../EDIDRecord_8h.html#a22945ceefb004e4e7192f87b092612e8'', 1, ''EDIDRecord.h'')]),
     (''edidrecord_2eh'', ''EDIDRecord.h'', [(''../EDIDRecord_8h.html'', 1, '''')]),
     (''edidrecord_5fs'', ''EDIDRecord_s'', [(''../structEDIDRecord__s.html'', 1, '''')]),
     (''edx'', ''edx'', [(''../structcontext.html#aa590c854aee003c59d4a14fddc110e46'', 1, ''context::edx()''), (''../structregs16__s.html#ab3ca7588cc10ad684bbfe2653d9bd301'', 1, ''regs16_s::edx()''), (''../early_2realmode_8h.html#ae6db045cebe7b4cf979120dccdee0d01'', 1, ''edx():&#160;realmode.h'')]),
     (''eecs'', ''EECS'', [(''../intel_8h.html#afac9aee74e5a2067edce49c39d35a73da1712ca4957d69762329cb450cc9c0a6e'', 1, ''intel.h'')]),
     (''eedi'', ''EEDI'', [(''../intel_8h.html#afac9aee74e5a2067edce49c39d35a73da2f7bfd4d58c3ec5f1fa4a9ae2d7fe8a6'', 1, ''intel.h'')]),
     (''eedo'', ''EEDO'', [(''../intel_8h.html#afac9aee74e5a2067edce49c39d35a73daa69880de7e0799bb0cf63364f8f70258'', 1, ''intel.h'')]),
     (''eeprom'', ''eeprom'', [(''../structnic__info.html#a5775870a01e3941f1f5363d47f5a6fd0'', 1, ''nic_info'')]),
     (''eeprom_5fcount'', ''eeprom_count'', [(''../structnic__info.html#a3e5f6a9c0440800cfbda4d28ef445d83'', 1, ''nic_info'')]),
     (''eeprom_5fhi'', ''eeprom_hi'', [(''../structcsr.html#a5301d62f38fc1aad17783adf20c9888b'', 1, ''csr'')]),
     (''eeprom_5flo'', ''eeprom_lo'', [(''../structcsr.html#a71bd680b70d3be90021774adb30674b5'', 1, ''csr'')]),
     (''eeprom_5flo_5fcontrol'', ''eeprom_lo_control'', [(''../intel_8h.html#afac9aee74e5a2067edce49c39d35a73d'', 1, ''intel.h'')]),
     (''eeprom_5fopcodes'', ''eeprom_opcodes'', [(''../intel_8h.html#acdc5126bb2130fa97b625a8171ad82f1'', 1, ''intel.h'')]),
     (''eesk'', ''EESK'', [(''../intel_8h.html#afac9aee74e5a2067edce49c39d35a73da37fe1e59d553c2c2c6a2d25c428b5877'', 1, ''intel.h'')]),
     (''eflags'', ''eflags'', [(''../structcontext.html#af5f2bbcddfe9b19665e02f8a2bb270f3'', 1, ''context::eflags()''), (''../structregs16__s.html#a072ce52479b3ed32403e60ea59b08146'', 1, ''regs16_s::eflags()''), (''../structregs16__s.html#ae76e93c2531326a0c11f9537f13ff493'', 1, ''regs16_s::eflags()''), (''../early_2realmode_8h.html#aeedfc39703ec8e0a1f052a832e74acd3'', 1, ''eflags():&#160;realmode.h''), (''../realmode_8h.html#a0a2cef25cf22a256d8b2e19f8d9e7ab3'', 1, ''eflags():&#160;realmode.h'')]),
     (''eflags_5fac'', ''EFLAGS_AC'', [(''../x86arch_8h.html#a88094d684aafe455c0ddb35564844af3'', 1, ''x86arch.h'')]),
     (''eflags_5faf'', ''EFLAGS_AF'', [(''../x86arch_8h.html#a2a08a98d5220105f31a232fe26125905'', 1, ''x86arch.h'')]),
     (''eflags_5fcf'', ''EFLAGS_CF'', [(''../x86arch_8h.html#aa4e1798f642af76e336425c8910c6e75'', 1, ''x86arch.h'')]),
     (''eflags_5fdf'', ''EFLAGS_DF'', [(''../x86arch_8h.html#a08920ce17cc3ecc72bb3f6c31ad60b1f'', 1, ''x86arch.h'')]),
     (''eflags_5fid'', ''EFLAGS_ID'', [(''../x86arch_8h.html#a9a2b7564ffa5797e17d1cfb2312e0af7'', 1, ''x86arch.h'')]),
     (''eflags_5fif'', ''EFLAGS_IF'', [(''../x86arch_8h.html#a96eb07610b30fe08d7fedbe1c6eabea7'', 1, ''x86arch.h'')]),
     (''eflags_5fiopl'', ''EFLAGS_IOPL'', [(''../x86arch_8h.html#aeb9a0f2ef4a734e95a896044479a1cb8'', 1, ''x86arch.h'')]),
     (''eflags_5fmb0'', ''EFLAGS_MB0'', [(''../x86arch_8h.html#a99c09f6c5ffbb035cae9261635337bd8'', 1, ''x86arch.h'')]),
     (''eflags_5fmb1'', ''EFLAGS_MB1'', [(''../x86arch_8h.html#a25b9d33f4b7025e122f87dee4a1a96a8'', 1, ''x86arch.h'')]),
     (''eflags_5fnt'', ''EFLAGS_NT'', [(''../x86arch_8h.html#a70a63b8222b597cc0d80daf4b39021df'', 1, ''x86arch.h'')]),
     (''eflags_5fof'', ''EFLAGS_OF'', [(''../x86arch_8h.html#a1a3f241b0ce80e08c35a4ae5785ba73b'', 1, ''x86arch.h'')]),
     (''eflags_5fpf'', ''EFLAGS_PF'', [(''../x86arch_8h.html#a2f7449e081bce5785b1cc6658483b709'', 1, ''x86arch.h'')]),
     (''eflags_5frf'', ''EFLAGS_RF'', [(''../x86arch_8h.html#ad63a0e9b09df2e60087d2e0fa106f37c'', 1, ''x86arch.h'')]),
     (''eflags_5frsvd'', ''EFLAGS_RSVD'', [(''../x86arch_8h.html#a24f20bbda5bb1b0d62b0a949fc4dbfdc'', 1, ''x86arch.h'')]),
     (''eflags_5fsf'', ''EFLAGS_SF'', [(''../x86arch_8h.html#a95daa31f2e6ca724653d88c6a86c1695'', 1, ''x86arch.h'')]),
     (''eflags_5ftf'', ''EFLAGS_TF'', [(''../x86arch_8h.html#a6f30c16cd70edbf2ce7ffe77416864ce'', 1, ''x86arch.h'')]),
     (''eflags_5fvif'', ''EFLAGS_VIF'', [(''../x86arch_8h.html#ab6957d6c6b95dd610465dddf55cd2739'', 1, ''x86arch.h'')]),
     (''eflags_5fvip'', ''EFLAGS_VIP'', [(''../x86arch_8h.html#a7bd8e60ef7a56395cf71b8f52deac748'', 1, ''x86arch.h'')]),
     (''eflags_5fvm'', ''EFLAGS_VM'', [(''../x86arch_8h.html#af4ed722f2f1a51d8f073408b7c2068c9'', 1, ''x86arch.h'')]),
     (''eflags_5fzf'', ''EFLAGS_ZF'', [(''../x86arch_8h.html#a6c2131143547ee388a190a9218a6dd9f'', 1, ''x86arch.h'')]),
     (''eip'', ''eip'', [(''../structcontext.html#a0ca608b8894874d921ed6d14dcd2a0b9'', 1, ''context'')]),
     (''enablehandlers'', ''ENABLEHANDLERS'', [(''../io__types_8h.html#a70721d95b579c4e0dc857c7f4590c497'', 1, ''io_types.h'')]),
     (''entry_5fstat'', ''entry_stat'', [(''../struct__ft__de__sd.html#ac3e173651232e096daf724aa4f42359c'', 1, ''_ft_de_sd'')]),
     (''entry_5fstat_5freserved'', ''entry_stat_reserved'', [(''../struct__ft__de__sd.html#a367d38d32316b6cb8265cf5e4873fd44'', 1, ''_ft_de_sd'')]),
     (''eot'', ''EOT'', [(''../c__io_8c.html#aa3210a5256085e136fed7897ae93a756'', 1, ''c_io.c'')]),
     (''err_2eh'', ''err.h'', [(''../video_2err_8h.html'', 1, '''')]),
     (''err_2eh'', ''err.h'', [(''../vesa_2err_8h.html'', 1, '''')]),
     (''err_2eh'', ''err.h'', [(''../vga13_2err_8h.html'', 1, '''')]),
     (''err_2eh'', ''err.h'', [(''../vconsole_2err_8h.html'', 1, '''')]),
     (''es'', ''es'', [(''../structcontext.html#af47d36d443413b930ffdfbe41ee69cab'', 1, ''context::es()''), (''../structregs16__s.html#a311a9eb40feaec8ecff9ae8d5383dff6'', 1, ''regs16_s::es()''), (''../early_2realmode_8h.html#af357bdb3df3a648a2440e22792993cea'', 1, ''es():&#160;realmode.h''), (''../realmode_8h.html#af357bdb3df3a648a2440e22792993cea'', 1, ''es():&#160;realmode.h'')]),
     (''esi'', ''esi'', [(''../structcontext.html#abd7bf6d2bc464e1b77b84ffc7d037850'', 1, ''context::esi()''), (''../structregs16__s.html#ab696cacaa5e7fd0f6362e444edd58371'', 1, ''regs16_s::esi()''), (''../early_2realmode_8h.html#ada78e3124de6adf5a5d212f9ebc4bbe0'', 1, ''esi():&#160;realmode.h'')]),
     (''esp'', ''esp'', [(''../structcontext.html#afc6e387a2d9962e1bbdc52fb4dd0dbbf'', 1, ''context::esp()''), (''../structregs16__s.html#aeb3430b93309574ffc34144f05fdb5f6'', 1, ''regs16_s::esp()''), (''../early_2realmode_8h.html#a7534a179bc9cc0ef26f0468e0959ee5c'', 1, ''esp():&#160;realmode.h'')]),
     (''established_5ftimings1'', ''ESTABLISHED_TIMINGS1'', [(''../edid_8c.html#a4f61975ee6dcc42a9b6a1293f1d09221'', 1, ''ESTABLISHED_TIMINGS1():&#160;edid.c''), (''../edid_8h.html#a6d1780c715319b1282e2b281c084b83f'', 1, ''ESTABLISHED_TIMINGS1():&#160;edid.c'')]),
     (''established_5ftimings2'', ''ESTABLISHED_TIMINGS2'', [(''../edid_8c.html#a2d1bc8103eed56da6e076e5ed96ef780'', 1, ''ESTABLISHED_TIMINGS2():&#160;edid.c''), (''../edid_8h.html#a798a6f4b82011a2dc9f5605f5b1d9751'', 1, ''ESTABLISHED_TIMINGS2():&#160;edid.c'')]),
     (''estbtimings1'', ''EstbTimings1'', [(''../structEDIDRecord__s.html#a09186244f47ebce09e8c3faa8cb561d6'', 1, ''EDIDRecord_s::EstbTimings1()''), (''../EDIDRecord_8h.html#a1b73f70e6cd05246067741bc27160a91'', 1, ''EstbTimings1():&#160;EDIDRecord.h'')]),
     (''estbtimings2'', ''EstbTimings2'', [(''../structEDIDRecord__s.html#afea9bbbbbf7ed72cbcd8753039bbb0ea'', 1, ''EDIDRecord_s::EstbTimings2()''), (''../EDIDRecord_8h.html#a552d573989c0f56e150d1de10d079cd1'', 1, ''EstbTimings2():&#160;EDIDRecord.h'')]),
     (''eth_5fpacket'', ''eth_packet'', [(''../structcb.html#aba800615d5a26cdfb37b3c8adc65fa70'', 1, ''cb'')]),
     (''eth_5fpacket_5ft'', ''eth_packet_t'', [(''../structeth__packet__t.html'', 1, '''')]),
     (''eth_5fpayload_5ft'', ''eth_payload_t'', [(''../unioneth__payload__t.html'', 1, '''')]),
     (''ethertype'', ''ethertype'', [(''../structeth__packet__t.html#a624fa9edd1edb4f52c4c8caf16128513'', 1, ''eth_packet_t::ethertype()''), (''../struct____attribute____.html#a985e93257bc05e04dcd8d339ff8e29e8'', 1, ''__attribute__::ethertype()'')]),
     (''ethertype_5farp'', ''ethertype_arp'', [(''../intel_8h.html#a710f0db4a2c42c4c6fdb4e000b81e227a0204b5039f3aea48ad31a5a4a8643180'', 1, ''intel.h'')]),
     (''ethertype_5fipv4'', ''ethertype_ipv4'', [(''../intel_8h.html#a710f0db4a2c42c4c6fdb4e000b81e227a7b8a28bcce16e6d86c9ddd2198ba3106'', 1, ''intel.h'')]),
     (''ethertype_5fipv6'', ''ethertype_ipv6'', [(''../intel_8h.html#a710f0db4a2c42c4c6fdb4e000b81e227ab7617cc30e30f1dc640ff3525010fde3'', 1, ''intel.h'')]),
     (''ethertype_5fipx'', ''ethertype_ipx'', [(''../intel_8h.html#a710f0db4a2c42c4c6fdb4e000b81e227a196c5218919bd9da8875cc659ac9c2a1'', 1, ''intel.h'')]),
     (''ethertype_5ft'', ''ethertype_t'', [(''../intel_8h.html#a710f0db4a2c42c4c6fdb4e000b81e227'', 1, ''intel.h'')]),
     (''exec'', ''exec'', [(''../ulib_8h.html#a86c42f741af9c3b60dc00be76334c3c4'', 1, ''ulib.h'')]),
     (''execute'', ''execute'', [(''../struct__io__filesystem.html#af8df7479bfd4aa0a358367e2683eabba'', 1, ''_io_filesystem::execute()''), (''../struct__io__middleware.html#a41b25de8dee850c59ce7b7e92c978e9a'', 1, ''_io_middleware::execute()'')]),
     (''exit'', ''exit'', [(''../ulib_8h.html#a3b0fa9c5b9d7ae60d48db7394b8b3b22'', 1, ''ulib.h'')]),
     (''exit_5fbad_5fcode'', ''EXIT_BAD_CODE'', [(''../common_8h.html#a0d4cb479bb827f1757ff42d3a740a2b5'', 1, ''common.h'')]),
     (''exit_5ffailure'', ''EXIT_FAILURE'', [(''../common_8h.html#a73efe787c131b385070f25d18b7c9aa4'', 1, ''common.h'')]),
     (''exit_5fkilled'', ''EXIT_KILLED'', [(''../common_8h.html#af2cb2fc78fd699116f26c778fcad25c5'', 1, ''common.h'')]),
     (''exit_5fsuccess'', ''EXIT_SUCCESS'', [(''../early_2main_8c.html#a687984f47d8cce148d1b914d2b79612a'', 1, ''EXIT_SUCCESS():&#160;main.c''), (''../common_8h.html#a687984f47d8cce148d1b914d2b79612a'', 1, ''EXIT_SUCCESS():&#160;common.h'')]),
     (''exit_5fvideo_5ferror'', ''EXIT_VIDEO_ERROR'', [(''../early_2main_8c.html#a5d7f9445c495287f4ce70d161ef881ea'', 1, ''main.c'')]),
     (''exitstatus'', ''exitstatus'', [(''../structpcb.html#aa834d64584aec8a2dfdaf57ccc19bb24'', 1, ''pcb'')]),
     (''expand_5fcluster_5fin_5ffat'', ''expand_cluster_in_fat'', [(''../fat_8c.html#ac76ee91fe93e7cf327508391d9d9a432'', 1, ''expand_cluster_in_fat(PFAT_CONTEXT ctx, int32_t start_cluster, int32_t newsize):&#160;fat.c''), (''../fat_8h.html#ac76ee91fe93e7cf327508391d9d9a432'', 1, ''expand_cluster_in_fat(PFAT_CONTEXT ctx, int32_t start_cluster, int32_t newsize):&#160;fat.c'')]),
     (''extended'', ''extended'', [(''../structmemory__map____32__s.html#a86ff6a3d99b8e3958878ae860e025772'', 1, ''memory_map__32_s::extended()''), (''../structmemory__map____64__s.html#abf5535eef0a121f5ecdfe21764f76b66'', 1, ''memory_map__64_s::extended()''), (''../structmm__entry__s.html#a9004b49dc98b64528cad7a55e2d4b940'', 1, ''mm_entry_s::extended()''), (''../memory__map_8h.html#a1ade3414f6472df58d4291aaaf3b5e1b'', 1, ''extended():&#160;memory_map.h'')]),
     (''extensionflag'', ''ExtensionFlag'', [(''../structEDIDRecord__s.html#ac088e71e51a78616012fa5db203fcfe9'', 1, ''EDIDRecord_s::ExtensionFlag()''), (''../EDIDRecord_8h.html#acdd766a44d2be170ed0751bf99a113b4'', 1, ''ExtensionFlag():&#160;EDIDRecord.h'')])]"

definition searchData_all_7 :: "search_entry list" where
  "searchData_all_7 =
    [(''fat_2ec'', ''fat.c'', [(''../fat_8c.html'', 1, '''')]),
     (''fat_2eh'', ''fat.h'', [(''../fat_8h.html'', 1, '''')]),
     (''fat32_5fexecute'', ''fat32_execute'', [(''../pubfat_8c.html#a9c85ee3ab17cc8485565e86411234c00'', 1, ''fat32_execute(PIO_MESSAGE msg):&#160;pubfat.c''), (''../pubfat_8h.html#a9c85ee3ab17cc8485565e86411234c00'', 1, ''fat32_execute(PIO_MESSAGE msg):&#160;pubfat.c'')]),
     (''fat32_5ffinalize'', ''fat32_finalize'', [(''../pubfat_8c.html#aaf867dc72f23fdf16957c27d46f25d9c'', 1, ''fat32_finalize():&#160;pubfat.c''), (''../pubfat_8h.html#aaf867dc72f23fdf16957c27d46f25d9c'', 1, ''fat32_finalize():&#160;pubfat.c'')]),
     (''fat32_5finit'', ''fat32_init'', [(''../pubfat_8c.html#ad4c3d3a738bf1722e4ecd6da51f896c2'', 1, ''fat32_init():&#160;pubfat.c''), (''../pubfat_8h.html#ad4c3d3a738bf1722e4ecd6da51f896c2'', 1, ''fat32_init():&#160;pubfat.c'')]),
     (''fat32time'', ''FAT32TIME'', [(''../fat__types_8h.html#accfb57ee6c4bb1cac76888f34fb2af26'', 1, ''fat_types.h'')]),
     (''fat_5fcache'', ''FAT_CACHE'', [(''../fat__types_8h.html#a085cccf416d51ee75c8c3fbaa72c75fe'', 1, ''fat_types.h'')]),
     (''fat_5fclust_5fbad'', ''FAT_CLUST_BAD'', [(''../fat__types_8h.html#ac1b5aae823140c03e06e1e73b2d3b45baf6aac0cc3edee8312b37c40ced2ac16b'', 1, ''fat_types.h'')]),
     (''fat_5fclust_5ffree'', ''FAT_CLUST_FREE'', [(''../fat__types_8h.html#ac1b5aae823140c03e06e1e73b2d3b45ba121fdf3d6a89fcc09263c91eab059bab'', 1, ''fat_types.h'')]),
     (''fat_5fclust_5flast'', ''FAT_CLUST_LAST'', [(''../fat__types_8h.html#ac1b5aae823140c03e06e1e73b2d3b45baa9196a44980a9ad14d4c60f09043d012'', 1, ''fat_types.h'')]),
     (''fat_5fclust_5fpointer'', ''FAT_CLUST_POINTER'', [(''../fat__types_8h.html#ac1b5aae823140c03e06e1e73b2d3b45ba18a4bce72942d6b7d5c5a1403f3e93f7'', 1, ''fat_types.h'')]),
     (''fat_5fclust_5freserved'', ''FAT_CLUST_RESERVED'', [(''../fat__types_8h.html#ac1b5aae823140c03e06e1e73b2d3b45ba9d2b93cc8c8ae303a81c9f72d2ddeb70'', 1, ''fat_types.h'')]),
     (''fat_5fcontext'', ''FAT_CONTEXT'', [(''../fat__types_8h.html#a9a75c52b152c6356bf79d37f790ad6e3'', 1, ''fat_types.h'')]),
     (''fat_5fdate_5fpacked'', ''FAT_DATE_PACKED'', [(''../fat__types_8h.html#aadb7a7832dc7a395ee93fc26d109f28c'', 1, ''fat_types.h'')]),
     (''fat_5fde_5farchive'', ''FAT_DE_ARCHIVE'', [(''../fat__types_8h.html#aec7d52b5c49b1dcedbd3ca8781825feca086bbae3cc713d403c44b9ae4d3062a3'', 1, ''fat_types.h'')]),
     (''fat_5fde_5fattribute'', ''FAT_DE_ATTRIBUTE'', [(''../fat__types_8h.html#acf9d3848d0fe097ee9b14d3eefdee667'', 1, ''fat_types.h'')]),
     (''fat_5fde_5fdirectory'', ''FAT_DE_DIRECTORY'', [(''../fat__types_8h.html#aec7d52b5c49b1dcedbd3ca8781825feca449fe812524dd531394a3f63db44d27c'', 1, ''fat_types.h'')]),
     (''fat_5fde_5fentry'', ''FAT_DE_ENTRY'', [(''../fat__types_8h.html#ad15a483abd389f756708754490327794'', 1, ''fat_types.h'')]),
     (''fat_5fde_5fhidden'', ''FAT_DE_HIDDEN'', [(''../fat__types_8h.html#aec7d52b5c49b1dcedbd3ca8781825feca85b811c07525e604fb5872a340648b35'', 1, ''fat_types.h'')]),
     (''fat_5fde_5flongname_5fentry'', ''FAT_DE_LONGNAME_ENTRY'', [(''../fat__types_8h.html#a814cf1c83d960505169fa01cf1208f43'', 1, ''fat_types.h'')]),
     (''fat_5fde_5freadonly'', ''FAT_DE_READONLY'', [(''../fat__types_8h.html#aec7d52b5c49b1dcedbd3ca8781825fecad96bbf8a7c8177a73871dc6f544981b3'', 1, ''fat_types.h'')]),
     (''fat_5fde_5fsystem'', ''FAT_DE_SYSTEM'', [(''../fat__types_8h.html#aec7d52b5c49b1dcedbd3ca8781825feca7aba3d5b659c79a6fa31c26044ee9c4e'', 1, ''fat_types.h'')]),
     (''fat_5fde_5fvolumeid'', ''FAT_DE_VOLUMEID'', [(''../fat__types_8h.html#aec7d52b5c49b1dcedbd3ca8781825feca781b956db9235fa4c5737f17729f9d72'', 1, ''fat_types.h'')]),
     (''fat_5fdentry'', ''FAT_DENTRY'', [(''../fat__types_8h.html#a831946d572404edfb05c421993b0b684'', 1, ''fat_types.h'')]),
     (''fat_5fentry'', ''FAT_ENTRY'', [(''../fat__types_8h.html#a413e9856ffdbf39ff93ffc40212bc9ee'', 1, ''fat_types.h'')]),
     (''fat_5ftime_5fpacked'', ''FAT_TIME_PACKED'', [(''../fat__types_8h.html#a87db3eb569f62eeaab8a6d5a3e0c6793'', 1, ''fat_types.h'')]),
     (''fat_5ftypes_2eh'', ''fat_types.h'', [(''../fat__types_8h.html'', 1, '''')]),
     (''fattime_5ffrom_5fdate'', ''fattime_from_date'', [(''../time_8c.html#ab4143b5c8bfb8ad2041fdbe1fcb00f8a'', 1, ''fattime_from_date(FAT_DATE_PACKED date):&#160;time.c''), (''../time_8h.html#ab4143b5c8bfb8ad2041fdbe1fcb00f8a'', 1, ''fattime_from_date(FAT_DATE_PACKED date):&#160;time.c'')]),
     (''fattime_5ffrom_5fparts'', ''fattime_from_parts'', [(''../time_8c.html#aaf052b54c22a4ef358f5ff95a7525e33'', 1, ''fattime_from_parts(FAT_DATE_PACKED date, FAT_TIME_PACKED time):&#160;time.c''), (''../time_8h.html#aaf052b54c22a4ef358f5ff95a7525e33'', 1, ''fattime_from_parts(FAT_DATE_PACKED date, FAT_TIME_PACKED time):&#160;time.c'')]),
     (''fattime_5fto_5funix'', ''fattime_to_unix'', [(''../time_8c.html#ac0fcaf7cc0458edfc991eb961f07b45a'', 1, ''fattime_to_unix(FAT32TIME timestamp):&#160;time.c''), (''../time_8h.html#ac0fcaf7cc0458edfc991eb961f07b45a'', 1, ''fattime_to_unix(FAT32TIME timestamp):&#160;time.c'')]),
     (''fatversion'', ''fatversion'', [(''../struct__ft__bpb.html#aed2e10b67ed6f64f0ebaf342e7d54e4d'', 1, ''_ft_bpb'')]),
     (''fb'', ''fb'', [(''../structPaintContext__s.html#a5c2a5082f1a656937e93829d02028457'', 1, ''PaintContext_s::fb()''), (''../structVideoMode__s.html#a6345d3d9cf95889ed26b233d5e6cf59f'', 1, ''VideoMode_s::fb()'')]),
     (''fb_2ec'', ''fb.c'', [(''../fb_8c.html'', 1, '''')]),
     (''fb_2eh'', ''fb.h'', [(''../fb_8h.html'', 1, '''')]),
     (''fb_5fclear'', ''fb_clear'', [(''../fb_8c.html#a12c5f4de91cbc59178d28000f6571db3'', 1, ''fb_clear(VideoFb *fb, VideoCol color):&#160;fb.c''), (''../fb_8h.html#a12c5f4de91cbc59178d28000f6571db3'', 1, ''fb_clear(VideoFb *fb, VideoCol color):&#160;fb.c'')]),
     (''fb_5fclearcolsf'', ''fb_clearcolsf'', [(''../fb_8c.html#aef80c8a79918dba309876df4fb7cf62d'', 1, ''fb_clearcolsf(VideoFb *fb, uint32_t offset, uint16_t cols, VideoCol col):&#160;fb.c''), (''../fb_8h.html#a94c2f0c9085959e2bfbc72a76a711dfa'', 1, ''fb_clearcolsf(VideoFb *fb, uint32_t offset, uint16_t cols, VideoCol color):&#160;fb.c'')]),
     (''fb_5finit'', ''fb_init'', [(''../fb_8c.html#a3b20a878d6552210cf132b26e0fbe0e8'', 1, ''fb_init(VideoFb *fb):&#160;fb.c''), (''../fb_8h.html#a3b20a878d6552210cf132b26e0fbe0e8'', 1, ''fb_init(VideoFb *fb):&#160;fb.c'')]),
     (''fb_5foffset'', ''fb_offset'', [(''../fb_8c.html#a66243b9cd769f8c546f6197f5e20c989'', 1, ''fb_offset(VideoFb *fb, uint32_t *offset, uint16_t x, uint16_t y):&#160;fb.c''), (''../fb_8h.html#a66243b9cd769f8c546f6197f5e20c989'', 1, ''fb_offset(VideoFb *fb, uint32_t *offset, uint16_t x, uint16_t y):&#160;fb.c'')]),
     (''fb_5fputcols'', ''fb_putcols'', [(''../fb_8c.html#ae4c1dc8b2476c74058549627f1c8eeb7'', 1, ''fb_putcols(VideoFb *fb, uint16_t x, uint16_t y, uint16_t bufsize, VideoCol buf[]):&#160;fb.c''), (''../fb_8h.html#ae4c1dc8b2476c74058549627f1c8eeb7'', 1, ''fb_putcols(VideoFb *fb, uint16_t x, uint16_t y, uint16_t bufsize, VideoCol buf[]):&#160;fb.c'')]),
     (''fb_5fputcolsf'', ''fb_putcolsf'', [(''../fb_8c.html#a1b2637daca20ba83a255dac389f1fcd1'', 1, ''fb_putcolsf(VideoFb *fb, uint32_t offset, uint16_t bufsize, VideoCol buf[]):&#160;fb.c''), (''../fb_8h.html#a1b2637daca20ba83a255dac389f1fcd1'', 1, ''fb_putcolsf(VideoFb *fb, uint32_t offset, uint16_t bufsize, VideoCol buf[]):&#160;fb.c'')]),
     (''fb_5fputpixel'', ''fb_putpixel'', [(''../fb_8c.html#a3a819d8ce0e4c05909cde2c3981f283a'', 1, ''fb_putpixel(VideoFb *fb, uint16_t x, uint16_t y, VideoCol color):&#160;fb.c''), (''../fb_8h.html#a3a819d8ce0e4c05909cde2c3981f283a'', 1, ''fb_putpixel(VideoFb *fb, uint16_t x, uint16_t y, VideoCol color):&#160;fb.c'')]),
     (''fb_5fputpixelf'', ''fb_putpixelf'', [(''../fb_8c.html#a210caba69ba6d3648ee5a9ae234059c5'', 1, ''fb_putpixelf(VideoFb *fb, uint32_t offset, VideoCol color):&#160;fb.c''), (''../fb_8h.html#a210caba69ba6d3648ee5a9ae234059c5'', 1, ''fb_putpixelf(VideoFb *fb, uint32_t offset, VideoCol color):&#160;fb.c'')]),
     (''fb_5fputrow'', ''fb_putrow'', [(''../fb_8c.html#a381d667ce104d96a61d0449157e451bc'', 1, ''fb_putrow(VideoFb *fb, uint16_t row, VideoCol buf[]):&#160;fb.c''), (''../fb_8h.html#a381d667ce104d96a61d0449157e451bc'', 1, ''fb_putrow(VideoFb *fb, uint16_t row, VideoCol buf[]):&#160;fb.c'')]),
     (''fb_5fputrowf'', ''fb_putrowf'', [(''../fb_8c.html#ad0af0c7ed085bd445cfb480ce5e45c90'', 1, ''fb_putrowf(VideoFb *fb, uint32_t offset, VideoCol buf[]):&#160;fb.c''), (''../fb_8h.html#ad0af0c7ed085bd445cfb480ce5e45c90'', 1, ''fb_putrowf(VideoFb *fb, uint32_t offset, VideoCol buf[]):&#160;fb.c'')]),
     (''featuresupport'', ''FeatureSupport'', [(''../structEDIDRecord__s.html#a931fcb1af7bc5f3bbe396210651e9de5'', 1, ''EDIDRecord_s::FeatureSupport()''), (''../EDIDRecord_8h.html#a91f87779f7929e4f8b3750602c641d59'', 1, ''FeatureSupport():&#160;EDIDRecord.h'')]),
     (''file_2ec'', ''file.c'', [(''../file_8c.html'', 1, '''')]),
     (''file_2eh'', ''file.h'', [(''../file_8h.html'', 1, '''')]),
     (''filehandle'', ''FILEHANDLE'', [(''../io__types_8h.html#a99524e188970c51a518533a666279707'', 1, ''io_types.h'')]),
     (''files_5fmax'', ''FILES_MAX'', [(''../file_8c.html#a0b7efa75ad50195c23b9469ab690953a'', 1, ''file.c'')]),
     (''filesize'', ''filesize'', [(''../struct__ft__de__sd.html#a4ae5dbcc5a5042db348fc41c729b9a4e'', 1, ''_ft_de_sd::filesize()''), (''../struct__ft__de__inmem.html#a34118a3f383a1c59b09d8c7b94fb0776'', 1, ''_ft_de_inmem::filesize()'')]),
     (''filesystem'', ''filesystem'', [(''../struct__ft__ctxt__block.html#a9574aede28db6c4cb0246288074ef502'', 1, ''_ft_ctxt_block::filesystem()''), (''../struct__io__message.html#af5bac777b2f5cf1d44b50e6f1c5561b1'', 1, ''_io_message::filesystem()''), (''../struct__io__mount.html#a575eefaad4a629aced65f545c3c9423b'', 1, ''_io_mount::filesystem()'')]),
     (''filesystem_2ec'', ''filesystem.c'', [(''../filesystem_8c.html'', 1, '''')]),
     (''filesystem_2eh'', ''filesystem.h'', [(''../filesystem_8h.html'', 1, '''')]),
     (''fillcol'', ''fillCol'', [(''../structPaintContext__s.html#a91ebb54f4b47a8c3800cec61e067bb40'', 1, ''PaintContext_s'')]),
     (''filled'', ''filled'', [(''../structarp__entry__t.html#a2e0403943f9b6f6d7ea2e729147005e7'', 1, ''arp_entry_t'')]),
     (''finalchars'', ''finalchars'', [(''../struct__ft__de__longname.html#a29e9c7744e9c116d6ba40c28a6868f70'', 1, ''_ft_de_longname'')]),
     (''finalize'', ''finalize'', [(''../struct__io__device.html#a68d6205a3eda16f78c8083427c4d49bc'', 1, ''_io_device::finalize()''), (''../struct__io__filesystem.html#ad35ec0be223518a06ca2e984b5df2792'', 1, ''_io_filesystem::finalize()'')]),
     (''find_5ffile'', ''find_file'', [(''../fat_8c.html#a3cb00757ff109f597c43b35d0f099a30'', 1, ''find_file(PFAT_CONTEXT ctx, char *path, FAT_DENTRY *out):&#160;fat.c''), (''../fat_8h.html#a3cb00757ff109f597c43b35d0f099a30'', 1, ''find_file(PFAT_CONTEXT ctx, char *path, FAT_DENTRY *out):&#160;fat.c'')]),
     (''firstchars'', ''firstchars'', [(''../struct__ft__de__longname.html#a81f91b377d0dfd2fe6645dcd68020fde'', 1, ''_ft_de_longname'')]),
     (''flags'', ''flags'', [(''../structIDT__Gate.html#ad490083231f12095b065d8cea83e1eda'', 1, ''IDT_Gate::flags()''), (''../struct__ft__bpb.html#ab6b6cf2e4b15af8e48d146cbc190b45d'', 1, ''_ft_bpb::flags()''), (''../structGDTEntry__s.html#ab360af05b0e8e72e4e66724e384ed28a'', 1, ''GDTEntry_s::flags()''), (''../structPSFont__s.html#a1704e86008485920b9affe475be7ecdf'', 1, ''PSFont_s::flags()''), (''../structipv4__t.html#a1ff8d12ee56582cb0b9ba7b83aa7f326'', 1, ''ipv4_t::flags()''), (''../GDTEntry_8h.html#aa2585d779da0ab21273a8d92de9a0ebe'', 1, ''flags():&#160;GDTEntry.h'')]),
     (''flush_5ffat_5fcache'', ''flush_fat_cache'', [(''../cache_8h.html#a0f1ad0003acf73c8400eb13632991dbb'', 1, ''cache.h'')]),
     (''font'', ''font'', [(''../structPaintContext__s.html#a36695430f4e4fe1d15ca816dfe4345af'', 1, ''PaintContext_s'')]),
     (''fork'', ''fork'', [(''../ulib_8h.html#ac20a673956e1a05616b794e0e2e77cc4'', 1, ''ulib.h'')]),
     (''frag_5foffset'', ''frag_offset'', [(''../structipv4__t.html#a870a6a3f5dd141a62c577bada72fd08a'', 1, ''ipv4_t'')]),
     (''free'', ''free'', [(''../memshim_8h.html#a2c6efa7679f8cd9f61af96e105017560'', 1, ''memshim.h'')]),
     (''free_5fcluster_5fchain'', ''free_cluster_chain'', [(''../fat_8c.html#ac33b7546f8478f5830ddf365ff9fb7f5'', 1, ''free_cluster_chain(PFAT_CONTEXT ctx, int32_t cluster_start):&#160;fat.c''), (''../fat_8h.html#ac33b7546f8478f5830ddf365ff9fb7f5'', 1, ''free_cluster_chain(PFAT_CONTEXT ctx, int32_t cluster_start):&#160;fat.c'')]),
     (''free_5fio'', ''free_io'', [(''../memshim_8c.html#a3bf7ec0405284a99f61baa7e20566977'', 1, ''free_io(void *address):&#160;memshim.c''), (''../memshim_8h.html#a3bf7ec0405284a99f61baa7e20566977'', 1, ''free_io(void *address):&#160;memshim.c'')]),
     (''free_5fpage'', ''free_page'', [(''../memory__map_8c.html#a9d1c4498a9330a6ec5e8b262b01d19a8'', 1, ''free_page(void *address):&#160;memory_map.c''), (''../memory__map_8h.html#a9d1c4498a9330a6ec5e8b262b01d19a8'', 1, ''free_page(void *address):&#160;memory_map.c'')]),
     (''free_5ftype'', ''FREE_TYPE'', [(''../memory__constants_8h.html#a2616db6ee7d56a8ef6d0aaa0a0b07609'', 1, ''memory_constants.h'')]),
     (''fs'', ''fs'', [(''../structcontext.html#abbeaa72a6d037466eebfc585cee39521'', 1, ''context::fs()''), (''../structregs16__s.html#a6e666b51ed300bbc5b24ff0a3f817903'', 1, ''regs16_s::fs()''), (''../early_2realmode_8h.html#a0f0c56e90aa29499c942122f0ba709c4'', 1, ''fs():&#160;realmode.h''), (''../realmode_8h.html#a0f0c56e90aa29499c942122f0ba709c4'', 1, ''fs():&#160;realmode.h'')]),
     (''fs_5fdemo'', ''fs_demo'', [(''../user_8c.html#a3ee9995535e8f9e71558f6127eacff78'', 1, ''user.c'')]),
     (''fs_5fgrab_5fbag'', ''fs_grab_bag'', [(''../struct__io__mount.html#a62544e1d57737b3a934cdbbb2ccb983c'', 1, ''_io_mount'')]),
     (''fs_5finfo_5fsector'', ''FS_INFO_SECTOR'', [(''../fat__types_8h.html#a6b8caf0fcb5535ef8589e9de957a60a8'', 1, ''fat_types.h'')]),
     (''fsinfo'', ''fsinfo'', [(''../struct__ft__bpb.html#a5e28a4e43e6873be3d301ecf46768074'', 1, ''_ft_bpb'')])]"

definition searchData_all_8 :: "search_entry list" where
  "searchData_all_8 =
    [(''gamma'', ''Gamma'', [(''../structEDIDRecord__s.html#af1a2910cef27f670c902dbfdc4761bb0'', 1, ''EDIDRecord_s::Gamma()''), (''../EDIDRecord_8h.html#af485f1fd94386845326e6e00dcd12acc'', 1, ''Gamma():&#160;EDIDRecord.h'')]),
     (''gdt_5faccess'', ''GDT_ACCESS'', [(''../GDTEntry_8h.html#ae27b8d365cde7c651da5eeab8ca912a4'', 1, ''GDTEntry.h'')]),
     (''gdt_5faccess_5fac'', ''GDT_ACCESS_AC'', [(''../GDTEntry_8h.html#ae00bf9221605b800aa033723e67c452c'', 1, ''GDTEntry.h'')]),
     (''gdt_5faccess_5fdc'', ''GDT_ACCESS_DC'', [(''../GDTEntry_8h.html#a3be2bfa655f98648cbc6b994c9d04ef8'', 1, ''GDTEntry.h'')]),
     (''gdt_5faccess_5fex'', ''GDT_ACCESS_EX'', [(''../GDTEntry_8h.html#aff7adaf82a906f51218a6dfb7604affc'', 1, ''GDTEntry.h'')]),
     (''gdt_5faccess_5fpr'', ''GDT_ACCESS_PR'', [(''../GDTEntry_8h.html#a6912f4af7b3276db3ef43176e59b667b'', 1, ''GDTEntry.h'')]),
     (''gdt_5faccess_5fprivl_5f0'', ''GDT_ACCESS_PRIVL_0'', [(''../GDTEntry_8h.html#afed32a113d37720eed2f92f39e3e8425'', 1, ''GDTEntry.h'')]),
     (''gdt_5faccess_5fprivl_5f1'', ''GDT_ACCESS_PRIVL_1'', [(''../GDTEntry_8h.html#a9b677b44a91a11c06ece3911de5b9fd5'', 1, ''GDTEntry.h'')]),
     (''gdt_5faccess_5fprivl_5f2'', ''GDT_ACCESS_PRIVL_2'', [(''../GDTEntry_8h.html#a967ea4c8cd189b21ceb467a2ba00a2f8'', 1, ''GDTEntry.h'')]),
     (''gdt_5faccess_5fprivl_5f3'', ''GDT_ACCESS_PRIVL_3'', [(''../GDTEntry_8h.html#a8218bbbe4b7af7246d66073da7dd3e84'', 1, ''GDTEntry.h'')]),
     (''gdt_5faccess_5fprivl_5fmask'', ''GDT_ACCESS_PRIVL_MASK'', [(''../GDTEntry_8h.html#a2e980bee36382e1746a21999cb935a7a'', 1, ''GDTEntry.h'')]),
     (''gdt_5faccess_5frw'', ''GDT_ACCESS_RW'', [(''../GDTEntry_8h.html#af499987c9af651b9ddae7c36c7036f4e'', 1, ''GDTEntry.h'')]),
     (''gdt_5faddress'', ''GDT_ADDRESS'', [(''../bootstrap_8h.html#ad71eb9016b3323dc9972d4c9ff0d5830'', 1, ''bootstrap.h'')]),
     (''gdt_5fcode'', ''GDT_CODE'', [(''../bootstrap_8h.html#a01bdeb35c26cb0290860ea9ad3749fac'', 1, ''bootstrap.h'')]),
     (''gdt_5fcode16'', ''GDT_CODE16'', [(''../bootstrap_8h.html#acdde095f66c5ae87207c42a4b584b08e'', 1, ''bootstrap.h'')]),
     (''gdt_5fdata'', ''GDT_DATA'', [(''../bootstrap_8h.html#a36b8cabb5b840635adf7e3b62cd9da61'', 1, ''bootstrap.h'')]),
     (''gdt_5fdata16'', ''GDT_DATA16'', [(''../bootstrap_8h.html#aceed3580b1f08e76a2e2ab456839f5a1'', 1, ''bootstrap.h'')]),
     (''gdt_5fflags_5fgr'', ''GDT_FLAGS_GR'', [(''../GDTEntry_8h.html#a0ed8fe045f3d2cb7d53ba672ae0818b3'', 1, ''GDTEntry.h'')]),
     (''gdt_5fflags_5fmask'', ''GDT_FLAGS_MASK'', [(''../GDTEntry_8h.html#a906f31066370503fbd7f3a7304e92fef'', 1, ''GDTEntry.h'')]),
     (''gdt_5fflags_5fsz'', ''GDT_FLAGS_SZ'', [(''../GDTEntry_8h.html#a2d28b2478ea16e0f6be8cab1b33e8289'', 1, ''GDTEntry.h'')]),
     (''gdt_5finit'', ''gdt_init'', [(''../gdt__init_8c.html#ad2acd7bce259a1a32213503c6fa18f14'', 1, ''gdt_init.c'')]),
     (''gdt_5finit_2ec'', ''gdt_init.c'', [(''../gdt__init_8c.html'', 1, '''')]),
     (''gdt_5flimit_5fmask'', ''GDT_LIMIT_MASK'', [(''../GDTEntry_8h.html#a5c1bb9d530be2ddf0b16b8965d3350e4'', 1, ''GDTEntry.h'')]),
     (''gdt_5flinear'', ''GDT_LINEAR'', [(''../bootstrap_8h.html#a05b6a4075807c88225537164f7dad36b'', 1, ''bootstrap.h'')]),
     (''gdt_5fnull'', ''GDT_NULL'', [(''../GDTEntry_8h.html#a6c82380062eea492f704e4f0017dcb45'', 1, ''GDTEntry.h'')]),
     (''gdt_5fsegment'', ''GDT_SEGMENT'', [(''../bootstrap_8h.html#abec4f69fe51280ec89f51edc3e0f0078'', 1, ''bootstrap.h'')]),
     (''gdt_5fstack'', ''GDT_STACK'', [(''../bootstrap_8h.html#ae556d72e4b54f5ecfa242cfce8d77f62'', 1, ''bootstrap.h'')]),
     (''gdtdescriptor'', ''GDTDescriptor'', [(''../GDTDescriptor_8h.html#a0ea35069c49fc8f10ea7dfdb6fb5bb24'', 1, ''GDTDescriptor.h'')]),
     (''gdtdescriptor_2eh'', ''GDTDescriptor.h'', [(''../GDTDescriptor_8h.html'', 1, '''')]),
     (''gdtdescriptor_5fs'', ''GDTDescriptor_s'', [(''../structGDTDescriptor__s.html'', 1, '''')]),
     (''gdtentry'', ''GDTEntry'', [(''../GDTEntry_8h.html#adf80afc290aa6e9b91abb275cce9bfee'', 1, ''GDTEntry.h'')]),
     (''gdtentry_2eh'', ''GDTEntry.h'', [(''../GDTEntry_8h.html'', 1, '''')]),
     (''gdtentry_5fs'', ''GDTEntry_s'', [(''../structGDTEntry__s.html'', 1, '''')]),
     (''gen_5fptr'', ''gen_ptr'', [(''../structcsr.html#a2b19f4255fea7d9f96f4625f8ec4e3ba'', 1, ''csr'')]),
     (''get_5fcurrent_5fpde'', ''get_current_pde'', [(''../memory__map_8c.html#a1cf32e301f8da5d42f4d2f2dedd5f766'', 1, ''get_current_pde(void):&#160;memory_map.c''), (''../memory__map_8h.html#a1cf32e301f8da5d42f4d2f2dedd5f766'', 1, ''get_current_pde(void):&#160;memory_map.c'')]),
     (''get_5fidentity_5fmapped'', ''get_identity_mapped'', [(''../memory__map_8c.html#a8cf83c3b5d8da9b114791bdcd783201c'', 1, ''get_identity_mapped(void):&#160;memory_map.c''), (''../memory__map_8h.html#a8cf83c3b5d8da9b114791bdcd783201c'', 1, ''get_identity_mapped(void):&#160;memory_map.c'')]),
     (''get_5fmemory_5fmap'', ''get_memory_map'', [(''../memory__map__setup_8c.html#a3b2ba185b0349866f064f24b1a9b01fe'', 1, ''get_memory_map(void):&#160;memory_map_setup.c''), (''../memory__map__setup_8h.html#a3b2ba185b0349866f064f24b1a9b01fe'', 1, ''get_memory_map(void):&#160;memory_map_setup.c'')]),
     (''get_5fnext_5fpage'', ''get_next_page'', [(''../memory__map_8c.html#aeeb36a34c8ef54c99229ce4fb95e3658'', 1, ''get_next_page(void):&#160;memory_map.c''), (''../memory__map_8h.html#aeeb36a34c8ef54c99229ce4fb95e3658'', 1, ''get_next_page(void):&#160;memory_map.c'')]),
     (''get_5fpat'', ''get_pat'', [(''../memory__map_8c.html#aa68e94d1a9b2bf4dc586def14baa6eba'', 1, ''memory_map.c'')]),
     (''get_5fphys_5faddress'', ''get_phys_address'', [(''../memory__map_8c.html#a6048a07064cad845ab06a8631bc4e624'', 1, ''get_phys_address(address_space_t space, uint32_t *virtual_addr):&#160;memory_map.c''), (''../memory__map_8h.html#a6048a07064cad845ab06a8631bc4e624'', 1, ''get_phys_address(address_space_t space, uint32_t *virtual_addr):&#160;memory_map.c'')]),
     (''get_5freturn_5fpde'', ''get_return_pde'', [(''../memory__map_8c.html#ad760e053f4b5feb288ed924776e75df1'', 1, ''get_return_pde(void):&#160;memory_map.c''), (''../memory__map_8h.html#ad760e053f4b5feb288ed924776e75df1'', 1, ''get_return_pde(void):&#160;memory_map.c'')]),
     (''getpid'', ''getpid'', [(''../ulib_8h.html#ac61b207337ca21b3b309593fd1a0cb82'', 1, ''ulib.h'')]),
     (''getppid'', ''getppid'', [(''../ulib_8h.html#ac6d7f7ade00dcdc302b0da5664eee812'', 1, ''ulib.h'')]),
     (''getstatus'', ''getstatus'', [(''../ulib_8h.html#a3c84ab5a553dbc68ef504cedb1fc7732'', 1, ''ulib.h'')]),
     (''gettime'', ''gettime'', [(''../ulib_8h.html#a87744a55e824ee3d1584ac3b27da762b'', 1, ''ulib.h'')]),
     (''globals_2ec'', ''globals.c'', [(''../globals_8c.html'', 1, '''')]),
     (''globals_2eh'', ''globals.h'', [(''../globals_8h.html'', 1, '''')]),
     (''glyphmap'', ''glyphMap'', [(''../structPSFont__s.html#a09635c46861b6c7e3c3992e369f887af'', 1, ''PSFont_s'')]),
     (''glyphs'', ''glyphs'', [(''../structPSFont__s.html#a1fa0939800db8d2f97a430f600e0de50'', 1, ''PSFont_s'')]),
     (''grab_5fhandle'', ''grab_handle'', [(''../router_8c.html#a9125f6b60dba407f7fdc701920924106'', 1, ''router.c'')]),
     (''grab_5fnext_5ffree_5fclusters'', ''grab_next_free_clusters'', [(''../fat_8c.html#a00619663395f68ba35fd148a2048d656'', 1, ''grab_next_free_clusters(PFAT_CONTEXT ctx, int32_t filesize, int32_t *start):&#160;fat.c''), (''../fat_8h.html#a00619663395f68ba35fd148a2048d656'', 1, ''grab_next_free_clusters(PFAT_CONTEXT ctx, int32_t filesize, int32_t *start):&#160;fat.c'')]),
     (''graphics_5fdrawchar'', ''graphics_drawChar'', [(''../text_8c.html#a82857531d6d2a4a5a1a37e78f98673f5'', 1, ''graphics_drawChar(PaintContext *ctx, Point *p, char c):&#160;text.c''), (''../text_8h.html#a82857531d6d2a4a5a1a37e78f98673f5'', 1, ''graphics_drawChar(PaintContext *ctx, Point *p, char c):&#160;text.c'')]),
     (''graphics_5fdrawrect'', ''graphics_drawRect'', [(''../rect_8c.html#a060c7420088dc0808491d3cc95140358'', 1, ''graphics_drawRect(PaintContext *ctx, Rect *rect):&#160;rect.c''), (''../rect_8h.html#a060c7420088dc0808491d3cc95140358'', 1, ''graphics_drawRect(PaintContext *ctx, Rect *rect):&#160;rect.c'')]),
     (''graphics_5fdrawstring'', ''graphics_drawString'', [(''../text_8c.html#ac03af72e917966166fc2445584397b0e'', 1, ''graphics_drawString(PaintContext *ctx, Point *p, const char *string):&#160;text.c''), (''../text_8h.html#ac03af72e917966166fc2445584397b0e'', 1, ''graphics_drawString(PaintContext *ctx, Point *p, const char *string):&#160;text.c'')]),
     (''graphics_5ffillrect'', ''graphics_fillRect'', [(''../rect_8c.html#a8c1b1b2c22e6704de38aa2411294a1ed'', 1, ''graphics_fillRect(PaintContext *ctx, Rect *rect):&#160;rect.c''), (''../rect_8h.html#a8c1b1b2c22e6704de38aa2411294a1ed'', 1, ''graphics_fillRect(PaintContext *ctx, Rect *rect):&#160;rect.c'')]),
     (''graphics_5fscroll'', ''graphics_scroll'', [(''../scroll_8c.html#a5484877fcf3d7ac8b252035326edbc8b'', 1, ''graphics_scroll(void):&#160;scroll.c''), (''../scroll_8h.html#a5484877fcf3d7ac8b252035326edbc8b'', 1, ''graphics_scroll(void):&#160;scroll.c'')]),
     (''greenfieldposition'', ''GreenFieldPosition'', [(''../structVBE2ModeInfo__s.html#a1aa12c3e30b66a32f105ad7da3bea975'', 1, ''VBE2ModeInfo_s::GreenFieldPosition()''), (''../structVBE3ModeInfo__s.html#aa2ed1f92eadc147bf537e98ebbf7efea'', 1, ''VBE3ModeInfo_s::GreenFieldPosition()''), (''../VBE2ModeInfo_8h.html#a602b28f8e5da781eabfd736743a6ea09'', 1, ''GreenFieldPosition():&#160;VBE2ModeInfo.h''), (''../VBE3ModeInfo_8h.html#a602b28f8e5da781eabfd736743a6ea09'', 1, ''GreenFieldPosition():&#160;VBE3ModeInfo.h'')]),
     (''greenmasksize'', ''GreenMaskSize'', [(''../structVBE2ModeInfo__s.html#a40d16135bbaa21f964c4c5963e0963bf'', 1, ''VBE2ModeInfo_s::GreenMaskSize()''), (''../structVBE3ModeInfo__s.html#a41e27b576e0bb796d7ea4a91224c6af6'', 1, ''VBE3ModeInfo_s::GreenMaskSize()''), (''../VBE2ModeInfo_8h.html#ac7b4df72e505b74493e7d5144cbac743'', 1, ''GreenMaskSize():&#160;VBE2ModeInfo.h''), (''../VBE3ModeInfo_8h.html#ac7b4df72e505b74493e7d5144cbac743'', 1, ''GreenMaskSize():&#160;VBE3ModeInfo.h'')]),
     (''greenx'', ''GreenX'', [(''../structEDIDRecord__s.html#aa1887aa963ac6a4da66d4bb6fa6ea812'', 1, ''EDIDRecord_s::GreenX()''), (''../EDIDRecord_8h.html#aa6321dd23682e9f8c157904aef9db538'', 1, ''GreenX():&#160;EDIDRecord.h'')]),
     (''greeny'', ''GreenY'', [(''../structEDIDRecord__s.html#a2a9001a1aeecb8aca24a3e096dae09dd'', 1, ''EDIDRecord_s::GreenY()''), (''../EDIDRecord_8h.html#af609c6591a16dc78bfcd3d9c53a868d7'', 1, ''GreenY():&#160;EDIDRecord.h'')]),
     (''gs'', ''gs'', [(''../structcontext.html#a1d2a8a703dfde98f552a418d308e0d2e'', 1, ''context::gs()''), (''../structregs16__s.html#a0e636fc8c1218d59b70522169c77aa33'', 1, ''regs16_s::gs()''), (''../early_2realmode_8h.html#a79e3416a33c661d66da4cb6e9ff5e22e'', 1, ''gs():&#160;realmode.h''), (''../realmode_8h.html#a79e3416a33c661d66da4cb6e9ff5e22e'', 1, ''gs():&#160;realmode.h'')])]"

definition searchData_all_9 :: "search_entry list" where
  "searchData_all_9 =
    [(''handle'', ''handle'', [(''../struct__ioentry.html#a5408c6ad5dfa5ac3551ff423e95da247'', 1, ''_ioentry::handle()''), (''../struct__io__file__instance.html#ac0dd110e403317fe9dc45e006436223f'', 1, ''_io_file_instance::handle()''), (''../struct__io__device.html#a22fef60ce0a8d77978d71b8d8fae27ac'', 1, ''_io_device::handle()''), (''../struct__io__filesystem.html#a7c9a803b2dba9b4709e55c4d6042d82e'', 1, ''_io_filesystem::handle()''), (''../struct__io__message.html#a858d6e65b48fe73de55c74dfc0b95a9b'', 1, ''_io_message::handle()''), (''../struct__io__middleware.html#aa34cb0a6c451e286ae04870a695d1629'', 1, ''_io_middleware::handle()''), (''../struct__io__mount.html#a82f8d75c438a9e830406215c5974af4c'', 1, ''_io_mount::handle()'')]),
     (''handled'', ''HANDLED'', [(''../io__types_8h.html#acc69f000b9cb10f936e3be9725b848e7'', 1, ''io_types.h'')]),
     (''head'', ''head'', [(''../structst__queue.html#a216d7a629aa5dfc0fc596dbc45cb170a'', 1, ''st_queue::head()''), (''../structnic__info.html#ab320416746c6e6d79358f8916bbe65a6'', 1, ''nic_info::head()'')]),
     (''header'', ''Header'', [(''../structEDIDRecord__s.html#ac700ec42955f95cca23ef018fbdc0264'', 1, ''EDIDRecord_s::Header()''), (''../EDIDRecord_8h.html#a449c3d91c5cb982f6cdb7e43c8aead98'', 1, ''Header():&#160;EDIDRecord.h'')]),
     (''header_5fchecksum'', ''header_checksum'', [(''../structipv4__t.html#aed25a53d856319004ffaed408d5fe0f7'', 1, ''ipv4_t'')]),
     (''headersize'', ''headerSize'', [(''../structPSFont__s.html#a4dbe7f332a51935e912c5c2fc92d3304'', 1, ''PSFont_s'')]),
     (''height'', ''height'', [(''../structSize__s.html#a683e98b4d26337b9d1cff2e07dd41fbd'', 1, ''Size_s::height()''), (''../structPSFont__s.html#a5a31f54f668b198bd95da82b558b6abc'', 1, ''PSFont_s::height()''), (''../structVideoFb__s.html#a908dc3fc3488b1480fd9714b339445b6'', 1, ''VideoFb_s::height()''), (''../structVideoTiming__s.html#a91df200ccc2cfcd24b292e45f43450b3'', 1, ''VideoTiming_s::height()'')]),
     (''hexdigits'', ''hexdigits'', [(''../c__io_8c.html#a2340ea8314b4b175a2a448f8134ff2e3'', 1, ''c_io.c'')]),
     (''hexdump'', ''hexdump'', [(''../intel_8c.html#a97ce58046c4368a00ce809d6b7a47674'', 1, ''hexdump(void *data, uint32_t length, uint32_t bytes_per_line):&#160;intel.c''), (''../intel_8h.html#a97ce58046c4368a00ce809d6b7a47674'', 1, ''hexdump(void *data, uint32_t length, uint32_t bytes_per_line):&#160;intel.c'')]),
     (''highbits_5fcluster'', ''highbits_cluster'', [(''../struct__ft__de__sd.html#abfe3acbf8ee9c0bac94b59d1e52e1a4a'', 1, ''_ft_de_sd'')]),
     (''hour'', ''hour'', [(''../struct__f32__time.html#a3581bd652e5ee8c7e42469b344a5127f'', 1, ''_f32_time::hour()''), (''../struct__ft__time__packed.html#a3208d2aec77e312546f863aab92442ad'', 1, ''_ft_time_packed::hour()'')]),
     (''hw_5faddr'', ''hw_addr'', [(''../structarp__entry__t.html#a8ac51d8cc6206f96ea6b22c7650cc6b7'', 1, ''arp_entry_t'')]),
     (''hw_5faddr_5flen'', ''hw_addr_len'', [(''../struct____attribute____.html#a1c675177e1ec3f09598d9297fb8f1fe8'', 1, ''__attribute__'')]),
     (''hw_5ftype'', ''hw_type'', [(''../struct____attribute____.html#a1cf2f697ac045bc873c2b89ab9d871f9'', 1, ''__attribute__'')])]"

definition searchData_all_a :: "search_entry list" where
  "searchData_all_a =
    [(''icmp_5ft'', ''icmp_t'', [(''../structicmp__t.html'', 1, '''')]),
     (''id'', ''id'', [(''../structipv4__t.html#abfe62ee34dc4734772174ed710c96777'', 1, ''ipv4_t'')]),
     (''idle'', ''idle'', [(''../user_8c.html#a8bb03e5b0544026bb81515dcad4cdc00'', 1, ''idle(void *arg):&#160;user.c''), (''../user_8h.html#a8bb03e5b0544026bb81515dcad4cdc00'', 1, ''idle(void *arg):&#160;user.c'')]),
     (''idt_5faddress'', ''IDT_ADDRESS'', [(''../bootstrap_8h.html#a6f5f1424173a309a5b4b0ea841d5fca8'', 1, ''bootstrap.h'')]),
     (''idt_5fdpl_5f0'', ''IDT_DPL_0'', [(''../x86arch_8h.html#abdd3654d5ee30a58d6d9c32b3665bb96'', 1, ''x86arch.h'')]),
     (''idt_5fdpl_5f1'', ''IDT_DPL_1'', [(''../x86arch_8h.html#ae857fb0bfbd0b6adf2ce480295fe9856'', 1, ''x86arch.h'')]),
     (''idt_5fdpl_5f2'', ''IDT_DPL_2'', [(''../x86arch_8h.html#ab489ee1f9807d6501b7cf8c4d5a6c8e0'', 1, ''x86arch.h'')]),
     (''idt_5fdpl_5f3'', ''IDT_DPL_3'', [(''../x86arch_8h.html#aeb26f6d866070649c01074d4002f95d2'', 1, ''x86arch.h'')]),
     (''idt_5fdpl_5fmask'', ''IDT_DPL_MASK'', [(''../x86arch_8h.html#ab4c3b02f6b79aca82c40b6992ad0cf60'', 1, ''x86arch.h'')]),
     (''idt_5fgate'', ''IDT_Gate'', [(''../structIDT__Gate.html'', 1, '''')]),
     (''idt_5fgate_5ftype'', ''IDT_GATE_TYPE'', [(''../x86arch_8h.html#a430cd2aea97b837d55ad65c9f6bb27ee'', 1, ''x86arch.h'')]),
     (''idt_5fint16_5fgate'', ''IDT_INT16_GATE'', [(''../x86arch_8h.html#af92f1e8b7ea167da34b2071e28447303'', 1, ''x86arch.h'')]),
     (''idt_5fint32_5fgate'', ''IDT_INT32_GATE'', [(''../x86arch_8h.html#acc7263549f371195648d7e84c1d2922b'', 1, ''x86arch.h'')]),
     (''idt_5fpaddr'', ''IDT_PADDR'', [(''../support_8h.html#ae6dabce7f666e7603eb85f9cdf87f0af'', 1, ''support.h'')]),
     (''idt_5fpresent'', ''IDT_PRESENT'', [(''../x86arch_8h.html#a78a4249275a11328cdd49960638724ab'', 1, ''x86arch.h'')]),
     (''idt_5fsegment'', ''IDT_SEGMENT'', [(''../bootstrap_8h.html#abdd1d5e118bd148af7401602450e3c2a'', 1, ''bootstrap.h'')]),
     (''idt_5ftask_5fgate'', ''IDT_TASK_GATE'', [(''../x86arch_8h.html#a55e0352c6a83bb831704b2c71c91fd18'', 1, ''x86arch.h'')]),
     (''idt_5ftrap16_5fgate'', ''IDT_TRAP16_GATE'', [(''../x86arch_8h.html#aaaa21f9de229c21223811a73eac84d75'', 1, ''x86arch.h'')]),
     (''idt_5ftrap32_5fgate'', ''IDT_TRAP32_GATE'', [(''../x86arch_8h.html#af5cc9c5625d6d635452150807d1c1c8a'', 1, ''x86arch.h'')]),
     (''ignored'', ''IGNORED'', [(''../io__types_8h.html#a069ca334a6c1e484bf101146ade29235'', 1, ''io_types.h'')]),
     (''ihl'', ''ihl'', [(''../structipv4__t.html#aa4d13746039aa7f4bd31159cc5686e50'', 1, ''ipv4_t'')]),
     (''index'', ''index'', [(''../struct__ft__de__longname.html#a904a47fc3c762ebb1c63fb5731f3a345'', 1, ''_ft_de_longname'')]),
     (''info'', ''info'', [(''../unionVideoInfo__u.html#a5132495217f10b3904a5df9c23fc2bce'', 1, ''VideoInfo_u'')]),
     (''info_5fsect_5fsig'', ''info_sect_sig'', [(''../struct__ft__fsinfo.html#a4177df2ebd9cca048de5b5bc49313cf8'', 1, ''_ft_fsinfo'')]),
     (''init'', ''init'', [(''../struct__io__filesystem.html#a00ae670bbd11a6f1273a485ee9a49857'', 1, ''_io_filesystem::init()''), (''../user_8c.html#a92eb8f4d81b540df02d14d5e2285e94c'', 1, ''init(void *arg):&#160;user.c''), (''../user_8h.html#a92eb8f4d81b540df02d14d5e2285e94c'', 1, ''init(void *arg):&#160;user.c'')]),
     (''init_5ffat_5fcache_5fdisk'', ''init_fat_cache_disk'', [(''../cache_8h.html#acdf7fbd5d893c0cb113cf07e8d51676d'', 1, ''cache.h'')]),
     (''init_5fint32'', ''init_int32'', [(''../early_2realmode_8h.html#a64cae0618ac8b15ce4a300027856f109'', 1, ''realmode.h'')]),
     (''install_5fmount'', ''install_mount'', [(''../simple__mount_8c.html#a04f427eed80e8bdf5130a829139137fe'', 1, ''install_mount(char *name, char *path, IOHANDLE device, IOHANDLE filesystem):&#160;simple_mount.c''), (''../simple__mount_8h.html#a04f427eed80e8bdf5130a829139137fe'', 1, ''install_mount(char *name, char *path, IOHANDLE device, IOHANDLE filesystem):&#160;simple_mount.c'')]),
     (''int16_5ft'', ''int16_t'', [(''../stdint_8h.html#aa343fa3b3d06292b959ffdd4c4703b06'', 1, ''stdint.h'')]),
     (''int32'', ''int32'', [(''../early_2realmode_8h.html#ac25e1601548d126897b4bbc38ae8262f'', 1, ''realmode.h'')]),
     (''int32_5ft'', ''int32_t'', [(''../stdint_8h.html#a32f2e37ee053cf2ce8ca28d1f74630e5'', 1, ''stdint.h'')]),
     (''int64_5ft'', ''int64_t'', [(''../stdint_8h.html#a312c7e8848187d110315ab83a7b3d4d0'', 1, ''stdint.h'')]),
     (''int8_5ft'', ''int8_t'', [(''../stdint_8h.html#ad566f6541e98b74246db1a3a3a85ad49'', 1, ''stdint.h'')]),
     (''int_5fvec_5falignment_5fcheck'', ''INT_VEC_ALIGNMENT_CHECK'', [(''../x86arch_8h.html#aa5948ad971985d581da66ea85872c101'', 1, ''x86arch.h'')]),
     (''int_5fvec_5fbound_5frange_5fexceeded'', ''INT_VEC_BOUND_RANGE_EXCEEDED'', [(''../x86arch_8h.html#a07103ece94e97f8cdd6ce6e83470a167'', 1, ''x86arch.h'')]),
     (''int_5fvec_5fbreakpoint'', ''INT_VEC_BREAKPOINT'', [(''../x86arch_8h.html#ad883e5e73813be7e4c42004ecf1ee746'', 1, ''x86arch.h'')]),
     (''int_5fvec_5fcoprocessor_5ferror'', ''INT_VEC_COPROCESSOR_ERROR'', [(''../x86arch_8h.html#adba89b8dad42ea9b8c1ed12715a7d3bd'', 1, ''x86arch.h'')]),
     (''int_5fvec_5fcoprocessor_5foverrun'', ''INT_VEC_COPROCESSOR_OVERRUN'', [(''../x86arch_8h.html#a8ce3b439c7f703f62cb67a55bc2cf14b'', 1, ''x86arch.h'')]),
     (''int_5fvec_5fdebug_5fexception'', ''INT_VEC_DEBUG_EXCEPTION'', [(''../x86arch_8h.html#a74e7d1771fea94814a50c07730d01f02'', 1, ''x86arch.h'')]),
     (''int_5fvec_5fdevice_5fnot_5favailable'', ''INT_VEC_DEVICE_NOT_AVAILABLE'', [(''../x86arch_8h.html#a841eeb34a0ac91381303a791bb2fd0b7'', 1, ''x86arch.h'')]),
     (''int_5fvec_5fdivide_5ferror'', ''INT_VEC_DIVIDE_ERROR'', [(''../x86arch_8h.html#ae3f449058160761dcd86aae759b8c9be'', 1, ''x86arch.h'')]),
     (''int_5fvec_5fdouble_5fexception'', ''INT_VEC_DOUBLE_EXCEPTION'', [(''../x86arch_8h.html#a24e9cc0b235bb2e8606605de1b173913'', 1, ''x86arch.h'')]),
     (''int_5fvec_5ffloppy_5fdisk'', ''INT_VEC_FLOPPY_DISK'', [(''../x86arch_8h.html#ae3aa35495e349a0a951f3683e542b552'', 1, ''x86arch.h'')]),
     (''int_5fvec_5fgeneral_5fprotection'', ''INT_VEC_GENERAL_PROTECTION'', [(''../x86arch_8h.html#afd2866d58c10588fa21542e2d6130e30'', 1, ''x86arch.h'')]),
     (''int_5fvec_5finto_5fdetected_5foverflow'', ''INT_VEC_INTO_DETECTED_OVERFLOW'', [(''../x86arch_8h.html#a3d3a2d7754d8720ae7646134b07c44bb'', 1, ''x86arch.h'')]),
     (''int_5fvec_5finvalid_5fopcode'', ''INT_VEC_INVALID_OPCODE'', [(''../x86arch_8h.html#a5d818a3e86a6632f75535bbc3f736e01'', 1, ''x86arch.h'')]),
     (''int_5fvec_5finvalid_5ftss'', ''INT_VEC_INVALID_TSS'', [(''../x86arch_8h.html#aae3ef2d00d749260ea1c0710e153470d'', 1, ''x86arch.h'')]),
     (''int_5fvec_5fkeyboard'', ''INT_VEC_KEYBOARD'', [(''../x86arch_8h.html#a459e0373f22a0c9b24c1ef011ab9c86e'', 1, ''x86arch.h'')]),
     (''int_5fvec_5fmachine_5fcheck'', ''INT_VEC_MACHINE_CHECK'', [(''../x86arch_8h.html#a2faf969380de8b6948b3372787f94937'', 1, ''x86arch.h'')]),
     (''int_5fvec_5fmouse'', ''INT_VEC_MOUSE'', [(''../x86arch_8h.html#aa392bfcc14c671d0f963a4ca155444e5'', 1, ''x86arch.h'')]),
     (''int_5fvec_5fmystery'', ''INT_VEC_MYSTERY'', [(''../x86arch_8h.html#ae40d43950efc6cee612c50e3e46f21d3'', 1, ''x86arch.h'')]),
     (''int_5fvec_5fnmi_5finterrupt'', ''INT_VEC_NMI_INTERRUPT'', [(''../x86arch_8h.html#a627593545b3455160bfd9187fe7dfad9'', 1, ''x86arch.h'')]),
     (''int_5fvec_5fpage_5ffault'', ''INT_VEC_PAGE_FAULT'', [(''../x86arch_8h.html#a7f93281edc187917632f74f1d47300ab'', 1, ''x86arch.h'')]),
     (''int_5fvec_5fparallel_5fport'', ''INT_VEC_PARALLEL_PORT'', [(''../x86arch_8h.html#af887f93c625d3d3747da282df7915198'', 1, ''x86arch.h'')]),
     (''int_5fvec_5fsegment_5fnot_5fpresent'', ''INT_VEC_SEGMENT_NOT_PRESENT'', [(''../x86arch_8h.html#a8882689364498f042d6009b163471ea6'', 1, ''x86arch.h'')]),
     (''int_5fvec_5fserial_5fport_5f1'', ''INT_VEC_SERIAL_PORT_1'', [(''../x86arch_8h.html#acc5077e36d0ff4dbfe4622ca73d7258c'', 1, ''x86arch.h'')]),
     (''int_5fvec_5fserial_5fport_5f2'', ''INT_VEC_SERIAL_PORT_2'', [(''../x86arch_8h.html#a19f4e23cd3a802b79aa60bcd8fe7aea1'', 1, ''x86arch.h'')]),
     (''int_5fvec_5fsimd_5ffp_5fexception'', ''INT_VEC_SIMD_FP_EXCEPTION'', [(''../x86arch_8h.html#a00985d61e1ad5895c5700b212bb61a3d'', 1, ''x86arch.h'')]),
     (''int_5fvec_5fstack_5ffault'', ''INT_VEC_STACK_FAULT'', [(''../x86arch_8h.html#adfd45a501e7d50c1d7c37b00db2e30e6'', 1, ''x86arch.h'')]),
     (''int_5fvec_5fsyscall'', ''INT_VEC_SYSCALL'', [(''../syscall_8h.html#a150c16f8904bbcb2f8d7462fb70ac9ab'', 1, ''syscall.h'')]),
     (''int_5fvec_5ftimer'', ''INT_VEC_TIMER'', [(''../x86arch_8h.html#a0206155e6558dc4f8c0e027067739e71'', 1, ''x86arch.h'')]),
     (''intel_2ec'', ''intel.c'', [(''../intel_8c.html'', 1, '''')]),
     (''intel_2eh'', ''intel.h'', [(''../intel_8h.html'', 1, '''')]),
     (''intel_5fnic_5fenable_5frx'', ''intel_nic_enable_rx'', [(''../intel_8c.html#aace3a517ef53249f0b1db5928b307097'', 1, ''intel_nic_enable_rx():&#160;intel.c''), (''../intel_8h.html#aace3a517ef53249f0b1db5928b307097'', 1, ''intel_nic_enable_rx():&#160;intel.c'')]),
     (''intel_5fnic_5finit'', ''intel_nic_init'', [(''../intel_8c.html#a724120106c913d53ef005d2950ea4381'', 1, ''intel_nic_init():&#160;intel.c''), (''../intel_8h.html#a724120106c913d53ef005d2950ea4381'', 1, ''intel_nic_init():&#160;intel.c'')]),
     (''interrupt_5fmask'', ''interrupt_mask'', [(''../structcsr.html#a39cb163c16dd4b6b18e2e634ac6b77b3'', 1, ''csr'')]),
     (''invalidate_5ffat_5fcache'', ''invalidate_fat_cache'', [(''../cache_8h.html#a6aca7134d69299f7fe95e160d1cd8172'', 1, ''cache.h'')]),
     (''io_5fchan_5fdelimiter'', ''IO_CHAN_DELIMITER'', [(''../libpath_8h.html#a6ef0e9ab2f8607e3156fe82ddcfb30ed'', 1, ''libpath.h'')]),
     (''io_5fcp_5fcreate'', ''IO_CP_CREATE'', [(''../io__types_8h.html#a968d012ffce7db9cbcd8774c17549aa0a15334ac2bdf4ce1e90bf21055e4f9651'', 1, ''io_types.h'')]),
     (''io_5fcp_5fcreaterecursive'', ''IO_CP_CREATERECURSIVE'', [(''../io__types_8h.html#a968d012ffce7db9cbcd8774c17549aa0af2a94638b78fe7ab848d4552e436645d'', 1, ''io_types.h'')]),
     (''io_5fcp_5ffail'', ''IO_CP_FAIL'', [(''../io__types_8h.html#a968d012ffce7db9cbcd8774c17549aa0a746e3df229d8b6ad226331907d24fc25'', 1, ''io_types.h'')]),
     (''io_5fdelete'', ''IO_DELETE'', [(''../router_8c.html#a46d46b55570b67987e43a2560b3e2eff'', 1, ''IO_DELETE(IOHANDLE handle):&#160;router.c''), (''../router_8h.html#a46d46b55570b67987e43a2560b3e2eff'', 1, ''IO_DELETE(IOHANDLE handle):&#160;router.c'')]),
     (''io_5fdevice'', ''IO_DEVICE'', [(''../device_8h.html#a9bb67a671a8dce092f8a85dad05e6a6a'', 1, ''device.h'')]),
     (''io_5fenumerate'', ''IO_ENUMERATE'', [(''../router_8c.html#a9a532f9aee9406e85f8d408f2cced794'', 1, ''IO_ENUMERATE(IO_OBJ_TYPE type, int index, PIOHANDLE object):&#160;router.c''), (''../router_8h.html#a9a532f9aee9406e85f8d408f2cced794'', 1, ''IO_ENUMERATE(IO_OBJ_TYPE type, int index, PIOHANDLE object):&#160;router.c'')]),
     (''io_5fexecute'', ''IO_EXECUTE'', [(''../router_8c.html#adc4d2264f69d74588a8b3ac8c24f12dc'', 1, ''IO_EXECUTE(IOHANDLE handle):&#160;router.c''), (''../router_8h.html#adc4d2264f69d74588a8b3ac8c24f12dc'', 1, ''IO_EXECUTE(IOHANDLE handle):&#160;router.c'')]),
     (''io_5ffile_5fentry'', ''io_file_entry'', [(''../file_8c.html#a62979077c51450279ce5c88a7ab845a4'', 1, ''file.c'')]),
     (''io_5ffilesystem'', ''IO_FILESYSTEM'', [(''../filesystem_8h.html#a341299738d6780e0f12072ae40e7b645'', 1, ''filesystem.h'')]),
     (''io_5finit'', ''IO_INIT'', [(''../router_8c.html#af6f38414b6e195ad1ab913fffa4e27f4'', 1, ''IO_INIT():&#160;router.c''), (''../router_8h.html#af6f38414b6e195ad1ab913fffa4e27f4'', 1, ''IO_INIT():&#160;router.c'')]),
     (''io_5finterrogate'', ''IO_INTERROGATE'', [(''../router_8c.html#a6e59806916d77c168bfb0e1fb964899e'', 1, ''IO_INTERROGATE(IOHANDLE handle, IOPROP prop, void *buffer, PBSIZE plength):&#160;router.c''), (''../router_8h.html#a6e59806916d77c168bfb0e1fb964899e'', 1, ''IO_INTERROGATE(IOHANDLE handle, IOPROP prop, void *buffer, PBSIZE plength):&#160;router.c'')]),
     (''io_5flock'', ''IO_LOCK'', [(''../router_8c.html#ab1e391db155d36774431c88b0dd989fd'', 1, ''IO_LOCK(IOHANDLE handle):&#160;router.c''), (''../router_8h.html#ab1e391db155d36774431c88b0dd989fd'', 1, ''IO_LOCK(IOHANDLE handle):&#160;router.c'')]),
     (''io_5fmessage'', ''IO_MESSAGE'', [(''../message_8h.html#a3ecf2efdb825a0071e9b00ca33d69062'', 1, ''message.h'')]),
     (''io_5fmiddleware'', ''IO_MIDDLEWARE'', [(''../middleware_8h.html#ac4bfcf5b0e5347cb1942798eb3ecdce4'', 1, ''middleware.h'')]),
     (''io_5fmount'', ''IO_MOUNT'', [(''../mount_8h.html#adc3ab762f079aecf7cebaf65a5bd77b7'', 1, ''mount.h'')]),
     (''io_5fobj_5fcount'', ''IO_OBJ_COUNT'', [(''../router_8c.html#a569ee398214717dc192cfbb456c70290'', 1, ''router.c'')]),
     (''io_5fobj_5fdevice'', ''IO_OBJ_DEVICE'', [(''../io__types_8h.html#a2fe30808f4513bbdb694f392a6e1d15aab957c66a655fcc81ad41c988765a7d0c'', 1, ''io_types.h'')]),
     (''io_5fobj_5ffile'', ''IO_OBJ_FILE'', [(''../io__types_8h.html#a2fe30808f4513bbdb694f392a6e1d15aabc17fd42c119b22d8997615e8ce34718'', 1, ''io_types.h'')]),
     (''io_5fobj_5ffilesystem'', ''IO_OBJ_FILESYSTEM'', [(''../io__types_8h.html#a2fe30808f4513bbdb694f392a6e1d15aaec7322a68c9c7850d7f1519c9b154632'', 1, ''io_types.h'')]),
     (''io_5fobj_5ffilter'', ''IO_OBJ_FILTER'', [(''../io__types_8h.html#a2fe30808f4513bbdb694f392a6e1d15aa87fdf5296202d6bfab93e4c836a811be'', 1, ''io_types.h'')]),
     (''io_5fobj_5fmessage'', ''IO_OBJ_MESSAGE'', [(''../io__types_8h.html#a2fe30808f4513bbdb694f392a6e1d15aa90a764272807d3f8999461d5b8ffdac1'', 1, ''io_types.h'')]),
     (''io_5fobj_5fmiddleware'', ''IO_OBJ_MIDDLEWARE'', [(''../io__types_8h.html#a2fe30808f4513bbdb694f392a6e1d15aa38daa7c6f5f804ece51b1f62b4100a8d'', 1, ''io_types.h'')]),
     (''io_5fobj_5fmount'', ''IO_OBJ_MOUNT'', [(''../io__types_8h.html#a2fe30808f4513bbdb694f392a6e1d15aa78af89bd2d25706d6a5b109e9cfc54fd'', 1, ''io_types.h'')]),
     (''io_5fobj_5ftype'', ''io_obj_type'', [(''../io__types_8h.html#a2fe30808f4513bbdb694f392a6e1d15a'', 1, ''io_obj_type():&#160;io_types.h''), (''../io__types_8h.html#a86d8f7f68475d9e81f6e1074cb63c7bd'', 1, ''IO_OBJ_TYPE():&#160;io_types.h'')]),
     (''io_5fobj_5funknown'', ''IO_OBJ_UNKNOWN'', [(''../io__types_8h.html#a2fe30808f4513bbdb694f392a6e1d15aac9d67c28b08d49a4678cf12add5d4099'', 1, ''io_types.h'')]),
     (''io_5fpath_5fcanonicalized_5fcompare'', ''io_path_canonicalized_compare'', [(''../libpath_8h.html#a4f2639a6fa5fa9889593e2490b7f42cc'', 1, ''io_path_canonicalized_compare(char *path1, char *path2):&#160;libpath.c''), (''../libpath_8c.html#a4f2639a6fa5fa9889593e2490b7f42cc'', 1, ''io_path_canonicalized_compare(char *path1, char *path2):&#160;libpath.c'')]),
     (''io_5fpath_5fcount_5fnodes'', ''io_path_count_nodes'', [(''../libpath_8h.html#ad965ba2306cfd60b32d0ef8b0acc6bb9'', 1, ''io_path_count_nodes(char *path):&#160;libpath.c''), (''../libpath_8c.html#ad965ba2306cfd60b32d0ef8b0acc6bb9'', 1, ''io_path_count_nodes(char *path):&#160;libpath.c'')]),
     (''io_5fpath_5fdelimiter'', ''IO_PATH_DELIMITER'', [(''../libpath_8h.html#a22a4810c23def05dab2de0ac0578c4d7'', 1, ''libpath.h'')]),
     (''io_5fpath_5fdisc_5fn_5fnodes'', ''io_path_disc_n_nodes'', [(''../libpath_8h.html#adee79b14ed0a98a230ae6f6450401b09'', 1, ''io_path_disc_n_nodes(char *path, unsigned int n, char *out):&#160;libpath.c''), (''../libpath_8c.html#adee79b14ed0a98a230ae6f6450401b09'', 1, ''io_path_disc_n_nodes(char *path, unsigned int n, char *out):&#160;libpath.c'')]),
     (''io_5fpath_5fhead'', ''io_path_head'', [(''../libpath_8h.html#ac97c037d7fb84ae79de7dcf5ac6c2e9f'', 1, ''io_path_head(char *path):&#160;libpath.c''), (''../libpath_8c.html#ac97c037d7fb84ae79de7dcf5ac6c2e9f'', 1, ''io_path_head(char *path):&#160;libpath.c'')]),
     (''io_5fpath_5fkeep_5fn_5fnodes'', ''io_path_keep_n_nodes'', [(''../libpath_8h.html#a913bf83bf1135a3f3d3e92faf603d7f2'', 1, ''io_path_keep_n_nodes(char *path, unsigned int n, char *out):&#160;libpath.c''), (''../libpath_8c.html#a913bf83bf1135a3f3d3e92faf603d7f2'', 1, ''io_path_keep_n_nodes(char *path, unsigned int n, char *out):&#160;libpath.c'')]),
     (''io_5fpath_5ftail'', ''io_path_tail'', [(''../libpath_8h.html#a1aa85d4f84f79469c1ff60f4a27d8449'', 1, ''io_path_tail(char *path):&#160;libpath.c''), (''../libpath_8c.html#a1aa85d4f84f79469c1ff60f4a27d8449'', 1, ''io_path_tail(char *path):&#160;libpath.c'')]),
     (''io_5fprototype'', ''IO_PROTOTYPE'', [(''../router_8c.html#a7eab8d8fc50ccd8b7f9a402ed3ede426'', 1, ''IO_PROTOTYPE(IO_OBJ_TYPE type, PIOHANDLE out_handle):&#160;router.c''), (''../router_8h.html#af0f26c2d41a28ed803936b6ef7502051'', 1, ''IO_PROTOTYPE(IO_OBJ_TYPE type, PIOHANDLE handle):&#160;router.c'')]),
     (''io_5fsort_5fasc'', ''IO_SORT_ASC'', [(''../io__types_8h.html#ab45ede47fd7cc8669d4b29a93989396da07ebf67b7757c271462ec6a5c99b7926'', 1, ''io_types.h'')]),
     (''io_5fsort_5fdsc'', ''IO_SORT_DSC'', [(''../io__types_8h.html#ab45ede47fd7cc8669d4b29a93989396dafeaf1d9401fbbda94e19d9c67e98abba'', 1, ''io_types.h'')]),
     (''io_5fsort_5frnd'', ''IO_SORT_RND'', [(''../io__types_8h.html#ab45ede47fd7cc8669d4b29a93989396da8825f17271888c6a1597f3822f8f8fbd'', 1, ''io_types.h'')]),
     (''io_5ftypes_2eh'', ''io_types.h'', [(''../io__types_8h.html'', 1, '''')]),
     (''io_5funix_5fts'', ''IO_UNIX_TS'', [(''../io__types_8h.html#a9ebc4a3217ddceee81ff81faa1ce596b'', 1, ''io_types.h'')]),
     (''io_5fupdate'', ''IO_UPDATE'', [(''../router_8c.html#aa64cdb395da967c4b62c3114e7a6074a'', 1, ''IO_UPDATE(IOHANDLE handle, IOPROP property, void *value, PBSIZE length):&#160;router.c''), (''../router_8h.html#aa64cdb395da967c4b62c3114e7a6074a'', 1, ''IO_UPDATE(IOHANDLE handle, IOPROP property, void *value, PBSIZE length):&#160;router.c'')]),
     (''io_5fupdate_5fioctl'', ''IO_UPDATE_IOCTL'', [(''../router_8c.html#a6eb33de20a3af8a98de15470131bc345'', 1, ''IO_UPDATE_IOCTL(IOHANDLE handle, IOCTL value):&#160;router.c''), (''../router_8h.html#a6eb33de20a3af8a98de15470131bc345'', 1, ''IO_UPDATE_IOCTL(IOHANDLE handle, IOCTL value):&#160;router.c'')]),
     (''io_5fupdate_5fstr'', ''IO_UPDATE_STR'', [(''../router_8c.html#a6f6da1568cfd7ddba4daef321f80e6cb'', 1, ''IO_UPDATE_STR(IOHANDLE handle, IOPROP property, char *value):&#160;router.c''), (''../router_8h.html#a6f6da1568cfd7ddba4daef321f80e6cb'', 1, ''IO_UPDATE_STR(IOHANDLE handle, IOPROP property, char *value):&#160;router.c'')]),
     (''io_5fupdate_5fvalint'', ''IO_UPDATE_VALINT'', [(''../router_8c.html#a71fe943966011e2da8f5cde21b9f5d07'', 1, ''IO_UPDATE_VALINT(IOHANDLE handle, IOPROP property, int32_t value):&#160;router.c''), (''../router_8h.html#a71fe943966011e2da8f5cde21b9f5d07'', 1, ''IO_UPDATE_VALINT(IOHANDLE handle, IOPROP property, int32_t value):&#160;router.c'')]),
     (''io_5fupdate_5fvoid'', ''IO_UPDATE_VOID'', [(''../router_8c.html#a6997e53e8a68377c5e544a10d9451460'', 1, ''IO_UPDATE_VOID(IOHANDLE handle, IOPROP property, void *buffer):&#160;router.c''), (''../router_8h.html#a728cd126f76d7a86009f4e0fb307c142'', 1, ''IO_UPDATE_VOID(IOHANDLE handle, IOPROP property, void *value):&#160;router.c'')]),
     (''iocreatepolicy'', ''IOCREATEPOLICY'', [(''../io__types_8h.html#a2962e16676394132b43a0bcf2962c25d'', 1, ''io_types.h'')]),
     (''ioctl'', ''ioctl'', [(''../struct__io__message.html#a5d26f77a7bf543a2951c09960aa947da'', 1, ''_io_message::ioctl()''), (''../io__types_8h.html#aaea0a9f691f7b745662294cf4b0009fb'', 1, ''IOCTL():&#160;io_types.h'')]),
     (''ioctl_5fappend'', ''IOCTL_APPEND'', [(''../io__types_8h.html#aea417366ca90723a8c0117532b7f9aaca1de744eea6eeec25946dc8fb6b998edc'', 1, ''io_types.h'')]),
     (''ioctl_5fcreate'', ''IOCTL_CREATE'', [(''../io__types_8h.html#aea417366ca90723a8c0117532b7f9aacaff13be532936845056f3a9ca11dc5caf'', 1, ''io_types.h'')]),
     (''ioctl_5fdelete'', ''IOCTL_DELETE'', [(''../io__types_8h.html#aea417366ca90723a8c0117532b7f9aaca9bf5741deb346687e2352a8b100bf136'', 1, ''io_types.h'')]),
     (''ioctl_5fenumerate'', ''IOCTL_ENUMERATE'', [(''../io__types_8h.html#aea417366ca90723a8c0117532b7f9aaca180b3475c00b46d11c025ef3735247c6'', 1, ''io_types.h'')]),
     (''ioctl_5fexpand'', ''IOCTL_EXPAND'', [(''../io__types_8h.html#aea417366ca90723a8c0117532b7f9aaca61f77ed02f5395a7a523c9d7d418215d'', 1, ''io_types.h'')]),
     (''ioctl_5fgrow'', ''IOCTL_GROW'', [(''../io__types_8h.html#aea417366ca90723a8c0117532b7f9aaca656d9de79cd31e477621dd9a5dfdfbc1'', 1, ''io_types.h'')]),
     (''ioctl_5fidentify'', ''IOCTL_IDENTIFY'', [(''../io__types_8h.html#aea417366ca90723a8c0117532b7f9aacac6a5a9c9b71d700923eac10c96cbd3d0'', 1, ''io_types.h'')]),
     (''ioctl_5fquery'', ''IOCTL_QUERY'', [(''../io__types_8h.html#aea417366ca90723a8c0117532b7f9aacaf816a00b6a58e6dfd52bf364709cf149'', 1, ''io_types.h'')]),
     (''ioctl_5fread'', ''IOCTL_READ'', [(''../io__types_8h.html#aea417366ca90723a8c0117532b7f9aacaf076df1181298b569bd208a8f700fe11'', 1, ''io_types.h'')]),
     (''ioctl_5fshrink'', ''IOCTL_SHRINK'', [(''../io__types_8h.html#aea417366ca90723a8c0117532b7f9aaca4911252b283983465bbcc9419fc1c62e'', 1, ''io_types.h'')]),
     (''ioctl_5fwrite'', ''IOCTL_WRITE'', [(''../io__types_8h.html#aea417366ca90723a8c0117532b7f9aacaea5e26bfbf7120cf6addb0bcb0a02ba7'', 1, ''io_types.h'')]),
     (''iofileclose'', ''IoFileClose'', [(''../file_8c.html#a1621137b9a61f04fe89b284cf1b0f10e'', 1, ''IoFileClose(FILEHANDLE hFile):&#160;file.c''), (''../file_8h.html#aef3fae03626926f4b0d6cc62bf7f1e8d'', 1, ''IoFileClose(FILEHANDLE file):&#160;file.c'')]),
     (''iofiledelete'', ''IoFileDelete'', [(''../file_8c.html#aa479e81ef2a763e22bde04c5fbf78802'', 1, ''IoFileDelete(FILEHANDLE hFile):&#160;file.c''), (''../file_8h.html#a843cde7d54ce6675f99f10fb7591194f'', 1, ''IoFileDelete(FILEHANDLE file):&#160;file.c'')]),
     (''iofilenextchild'', ''IoFileNextChild'', [(''../file_8c.html#a1f75f157114945e3f795f73fca431434'', 1, ''IoFileNextChild(FILEHANDLE hFile, int index, PBSIZE plength, char *out):&#160;file.c''), (''../file_8h.html#ab24cdad6215972f955f3699328d8a908'', 1, ''IoFileNextChild(FILEHANDLE file, int index, PBSIZE plength, char *out):&#160;file.c'')]),
     (''iofileopen'', ''IoFileOpen'', [(''../file_8c.html#ad0110106c84fcaa855362179f9fe407d'', 1, ''IoFileOpen(char *path, IOCREATEPOLICY strat, PFILEHANDLE out):&#160;file.c''), (''../file_8h.html#ad0110106c84fcaa855362179f9fe407d'', 1, ''IoFileOpen(char *path, IOCREATEPOLICY strat, PFILEHANDLE out):&#160;file.c'')]),
     (''iofilequery'', ''IoFileQuery'', [(''../file_8c.html#a83adfe8f846a248946dc0c5816326271'', 1, ''IoFileQuery(FILEHANDLE hFile, IOPROP property, PBSIZE plength, void *out):&#160;file.c''), (''../file_8h.html#ae17a15b510d82a54face197d5deba29f'', 1, ''IoFileQuery(FILEHANDLE file, IOPROP property, PBSIZE plength, void *out):&#160;file.c'')]),
     (''iofileread'', ''IoFileRead'', [(''../file_8c.html#a31ab190b33b3af8beaf47b59027dd849'', 1, ''IoFileRead(FILEHANDLE hFile, BSIZE offset, PBSIZE plength, void *out):&#160;file.c''), (''../file_8h.html#a23a749a15f8220083918557f0a90fc23'', 1, ''IoFileRead(FILEHANDLE file, BOFFSET offset, PBSIZE plength, void *out):&#160;file.c'')]),
     (''iofileseek'', ''IoFileSeek'', [(''../file_8c.html#a84d288f2174d8d52d822858184ea37b0'', 1, ''IoFileSeek(FILEHANDLE hFile, BSIZE offset, PBSIZE poffset):&#160;file.c''), (''../file_8h.html#aafad7b904f17d2b460eace9dd0f82f85'', 1, ''IoFileSeek(FILEHANDLE file, BOFFSET offset, PBSIZE poffset):&#160;file.c'')]),
     (''iofileset'', ''IoFileSet'', [(''../file_8c.html#a1a563d23424a6f64cade3ae66bd1b050'', 1, ''IoFileSet(FILEHANDLE hFile, IOPROP property, PBSIZE plength, void *in):&#160;file.c''), (''../file_8h.html#ad16f60c6913ea7423aa3fb48233daafe'', 1, ''IoFileSet(FILEHANDLE file, IOPROP property, PBSIZE plength, void *in):&#160;file.c'')]),
     (''iofilewrite'', ''IoFileWrite'', [(''../file_8c.html#a38415512a5c31254d8a682cfaa443433'', 1, ''IoFileWrite(FILEHANDLE hFile, BSIZE offset, PBSIZE plength, void *in):&#160;file.c''), (''../file_8h.html#a63086728b4e7656c2851323bf0ca3399'', 1, ''IoFileWrite(FILEHANDLE file, BOFFSET offset, PBSIZE plength, void *in):&#160;file.c'')]),
     (''iohandle'', ''IOHANDLE'', [(''../io__types_8h.html#aeba79de16b861e01b767b2098904ca57'', 1, ''io_types.h'')]),
     (''iohandle_5fnull'', ''IOHANDLE_NULL'', [(''../io__types_8h.html#a43437f43a7f4db476ed30d092f3c3e87'', 1, ''io_types.h'')]),
     (''ioprop'', ''IOPROP'', [(''../io__types_8h.html#adbb3db16bdef7a70ea04f4fac924ae89'', 1, ''io_types.h'')]),
     (''ioprop_5farchive'', ''IOPROP_ARCHIVE'', [(''../io__types_8h.html#a54f1d532e9a65814c0c5bedc5dff021ea3585c3d09f335567999e2e281986b777'', 1, ''io_types.h'')]),
     (''ioprop_5fbuffer'', ''IOPROP_BUFFER'', [(''../io__types_8h.html#a54f1d532e9a65814c0c5bedc5dff021eaf5bacad6d3301298fd569f128771567a'', 1, ''io_types.h'')]),
     (''ioprop_5fcount_5fchildren'', ''IOPROP_COUNT_CHILDREN'', [(''../io__types_8h.html#a54f1d532e9a65814c0c5bedc5dff021ea5da7899aa43608ba8371ee16acd6b433'', 1, ''io_types.h'')]),
     (''ioprop_5fcreated'', ''IOPROP_CREATED'', [(''../io__types_8h.html#a54f1d532e9a65814c0c5bedc5dff021ea243288ecaaaf0398c45e12a882589e85'', 1, ''io_types.h'')]),
     (''ioprop_5fcursor_5fposition'', ''IOPROP_CURSOR_POSITION'', [(''../io__types_8h.html#a54f1d532e9a65814c0c5bedc5dff021eabd765a40a02c2249d5ce45c4d6316695'', 1, ''io_types.h'')]),
     (''ioprop_5fdevice'', ''IOPROP_DEVICE'', [(''../io__types_8h.html#a54f1d532e9a65814c0c5bedc5dff021ea058ad32be980b919a6d24f44a16caae7'', 1, ''io_types.h'')]),
     (''ioprop_5fexecute'', ''IOPROP_EXECUTE'', [(''../io__types_8h.html#a54f1d532e9a65814c0c5bedc5dff021ea6e59f8b6c097cb37d51a0944716497e8'', 1, ''io_types.h'')]),
     (''ioprop_5ffilesystem'', ''IOPROP_FILESYSTEM'', [(''../io__types_8h.html#a54f1d532e9a65814c0c5bedc5dff021ea5c77563b111471076840b080715250f4'', 1, ''io_types.h'')]),
     (''ioprop_5ffinalize'', ''IOPROP_FINALIZE'', [(''../io__types_8h.html#a54f1d532e9a65814c0c5bedc5dff021ea9509993749aef04b9e31cf75ee40a04e'', 1, ''io_types.h'')]),
     (''ioprop_5ffs_5fgrab'', ''IOPROP_FS_GRAB'', [(''../io__types_8h.html#a54f1d532e9a65814c0c5bedc5dff021ea32b4c913f36a0f39905a88de4be05c57'', 1, ''io_types.h'')]),
     (''ioprop_5fhidden'', ''IOPROP_HIDDEN'', [(''../io__types_8h.html#a54f1d532e9a65814c0c5bedc5dff021ea9771efec30d3c2d63ccb9a31e2daebb5'', 1, ''io_types.h'')]),
     (''ioprop_5finit'', ''IOPROP_INIT'', [(''../io__types_8h.html#a54f1d532e9a65814c0c5bedc5dff021ea37e851091731723219c284efd4213241'', 1, ''io_types.h'')]),
     (''ioprop_5fioctl'', ''IOPROP_IOCTL'', [(''../io__types_8h.html#a54f1d532e9a65814c0c5bedc5dff021eace0604f0cc8c2eef28635664b049aac5'', 1, ''io_types.h'')]),
     (''ioprop_5fis_5fdir'', ''IOPROP_IS_DIR'', [(''../io__types_8h.html#a54f1d532e9a65814c0c5bedc5dff021eae479851a7e33a815003fda16eb9fd34c'', 1, ''io_types.h'')]),
     (''ioprop_5flast_5fmodified'', ''IOPROP_LAST_MODIFIED'', [(''../io__types_8h.html#a54f1d532e9a65814c0c5bedc5dff021eae66af26f3b4450e01e6c1f6cb16f1085'', 1, ''io_types.h'')]),
     (''ioprop_5flast_5fread'', ''IOPROP_LAST_READ'', [(''../io__types_8h.html#a54f1d532e9a65814c0c5bedc5dff021ead6e638fd4503192d5e7a92f4c144918d'', 1, ''io_types.h'')]),
     (''ioprop_5flength_5fcontent'', ''IOPROP_LENGTH_CONTENT'', [(''../io__types_8h.html#a54f1d532e9a65814c0c5bedc5dff021ea4c211fee0b0eea26563f036e27401fd7'', 1, ''io_types.h'')]),
     (''ioprop_5flocked'', ''IOPROP_LOCKED'', [(''../io__types_8h.html#a54f1d532e9a65814c0c5bedc5dff021eaae37208b9d6d15d0bc960f9b47755647'', 1, ''io_types.h'')]),
     (''ioprop_5fname'', ''IOPROP_NAME'', [(''../io__types_8h.html#a54f1d532e9a65814c0c5bedc5dff021ea147f9f31b49717d8f43d33345fa24922'', 1, ''io_types.h'')]),
     (''ioprop_5fparent_5fpath'', ''IOPROP_PARENT_PATH'', [(''../io__types_8h.html#a54f1d532e9a65814c0c5bedc5dff021ea1ef8a9955008359e4b4a534f4184daad'', 1, ''io_types.h'')]),
     (''ioprop_5fpath'', ''IOPROP_PATH'', [(''../io__types_8h.html#a54f1d532e9a65814c0c5bedc5dff021ea70b50ad530eb66658b9f4f5c71c5d9f3'', 1, ''io_types.h'')]),
     (''ioprop_5fprop'', ''IOPROP_PROP'', [(''../io__types_8h.html#a54f1d532e9a65814c0c5bedc5dff021ea75674784b7541de93c193bf121f10c67'', 1, ''io_types.h'')]),
     (''ioprop_5fread'', ''IOPROP_READ'', [(''../io__types_8h.html#a54f1d532e9a65814c0c5bedc5dff021ea557a431d8b04f79eef439ce7fc60b2e4'', 1, ''io_types.h'')]),
     (''ioprop_5fsystem'', ''IOPROP_SYSTEM'', [(''../io__types_8h.html#a54f1d532e9a65814c0c5bedc5dff021ea418c8a16cc5f2fb0914db1ea91621f45'', 1, ''io_types.h'')]),
     (''ioprop_5fwrite'', ''IOPROP_WRITE'', [(''../io__types_8h.html#a54f1d532e9a65814c0c5bedc5dff021ead6f0d8b6a76bb6547f5f2d0e8e6168c9'', 1, ''io_types.h'')]),
     (''iosort'', ''IOSORT'', [(''../io__types_8h.html#ab812c540fc9c78a2d4ecdb3a41253512'', 1, ''io_types.h'')]),
     (''ip_5faddr'', ''ip_addr'', [(''../structarp__entry__t.html#ac8a5dd64633045da2bf63a62e6bef0f3'', 1, ''arp_entry_t'')]),
     (''ip_5fdata'', ''ip_data'', [(''../structipv4__t.html#a2d8549cf2c81f37ee3d4b649d10fcc98'', 1, ''ipv4_t'')]),
     (''ip_5ficmp'', ''ip_icmp'', [(''../intel_8h.html#a4cadafd910a357a4e71c12d51a6ef606a1b1f50932ddad445765312f6d8685cd4'', 1, ''intel.h'')]),
     (''ip_5figmp'', ''ip_igmp'', [(''../intel_8h.html#a4cadafd910a357a4e71c12d51a6ef606a05a68bad155e85827d895b706249af1d'', 1, ''intel.h'')]),
     (''ip_5fprotocol_5ft'', ''ip_protocol_t'', [(''../intel_8h.html#a4cadafd910a357a4e71c12d51a6ef606'', 1, ''intel.h'')]),
     (''ip_5ftcp'', ''ip_tcp'', [(''../intel_8h.html#a4cadafd910a357a4e71c12d51a6ef606ad58e8942f69dcaa5047e28b373d7e1d4'', 1, ''intel.h'')]),
     (''ip_5fudp'', ''ip_udp'', [(''../intel_8h.html#a4cadafd910a357a4e71c12d51a6ef606a5b910e34fbbcfdc69ed2011bdc93adfe'', 1, ''intel.h'')]),
     (''ipv4'', ''ipv4'', [(''../unioneth__payload__t.html#a6155d7092988ac02e15b2ecb8b826d52'', 1, ''eth_payload_t'')]),
     (''ipv4_5fhead_5flen'', ''IPV4_HEAD_LEN'', [(''../intel_8h.html#a0691dd13fc864f95f3cb0269b70a090a'', 1, ''intel.h'')]),
     (''ipv4_5ft'', ''ipv4_t'', [(''../structipv4__t.html'', 1, '''')]),
     (''isalnum'', ''isalnum'', [(''../ctype_8h.html#adcfe24cbc2b8ab2c7fb869c6a3fe3188'', 1, ''ctype.h'')]),
     (''isalpha'', ''isalpha'', [(''../ctype_8h.html#acb8d39699f52d284555e3ea9eb5dfea0'', 1, ''ctype.h'')]),
     (''isblank'', ''isblank'', [(''../ctype_8h.html#a741416fc9f0b36df622e9d21fa79d28a'', 1, ''ctype.h'')]),
     (''iscntrl'', ''iscntrl'', [(''../ctype_8h.html#a494a3e27b0d63324c9e27fdb03fb56b8'', 1, ''ctype.h'')]),
     (''isdigit'', ''isdigit'', [(''../ctype_8h.html#a0b9e17eae14af7b17947e4e05f6ea47d'', 1, ''ctype.h'')]),
     (''isgraph'', ''isgraph'', [(''../ctype_8h.html#af10484157d2724e9e689f227eca2eaea'', 1, ''ctype.h'')]),
     (''islower'', ''islower'', [(''../ctype_8h.html#aa629483526e85204b2e3ebb97cb53d8a'', 1, ''ctype.h'')]),
     (''isprint'', ''isprint'', [(''../ctype_8h.html#a8d4a52aff02d11182b64e660b3fb5390'', 1, ''ctype.h'')]),
     (''ispunct'', ''ispunct'', [(''../ctype_8h.html#ac03e15d15335b1527b0a1ce2d0f9f0d2'', 1, ''ctype.h'')]),
     (''isspace'', ''isspace'', [(''../ctype_8h.html#a473998c364ad8db23cf9e44f502706da'', 1, ''ctype.h'')]),
     (''isupper'', ''isupper'', [(''../ctype_8h.html#a9021475a702ce8b86ea365366ac4c50c'', 1, ''ctype.h'')]),
     (''isxdigit'', ''isxdigit'', [(''../ctype_8h.html#a200faf469b4680c465e3340c7b50c7e0'', 1, ''ctype.h'')])]"

definition searchData_all_b :: "search_entry list" where
  "searchData_all_b =
    [(''kb'', ''KB'', [(''../memory__constants_8h.html#a1841fd1a462d245d8c73dce55e2f45da'', 1, ''memory_constants.h'')]),
     (''kb_5fmask'', ''KB_MASK'', [(''../memory__constants_8h.html#a9ae0eae3eaa54f3b2c418d8bcbd46103'', 1, ''memory_constants.h'')]),
     (''keyboard_5fdata'', ''KEYBOARD_DATA'', [(''../c__io_8c.html#ab1de66d2a4f43ba4f5779b5eea847799'', 1, ''c_io.c'')]),
     (''keyboard_5fstatus'', ''KEYBOARD_STATUS'', [(''../c__io_8c.html#ac1e9f937dabf96b906bcfdb151cc8f1f'', 1, ''c_io.c'')]),
     (''kill'', ''kill'', [(''../ulib_8h.html#a7511bc379d73527e4a8ae1911287d956'', 1, ''ulib.h'')]),
     (''klib_2eh'', ''klib.h'', [(''../klib_8h.html'', 1, '''')]),
     (''klibc_2ec'', ''klibc.c'', [(''../klibc_8c.html'', 1, '''')])]"

definition all_pages_1 :: "search_entry list list" where
  "all_pages_1 =
     [searchData_all_0, searchData_all_1, searchData_all_2, searchData_all_3, searchData_all_4,
      searchData_all_5, searchData_all_6, searchData_all_7, searchData_all_8, searchData_all_9,
      searchData_all_a, searchData_all_b]"

lemma all_pages_1_ok: "list_all2 page_ok ''0_abcdefghik'' all_pages_1"
  by (simp only: all_pages_1_def page_eval
    searchData_all_0_def searchData_all_1_def searchData_all_2_def searchData_all_3_def
    searchData_all_4_def searchData_all_5_def searchData_all_6_def searchData_all_7_def
    searchData_all_8_def searchData_all_9_def searchData_all_a_def searchData_all_b_def)

end
