(* ===== verification/Search_Index_All2.thy ===== *)
theory Search_Index_All2
  imports Search_Index
begin

text \<open>The search index, continued: the \<^verbatim>\<open>searchData\<close> arrays of the section \<^verbatim>\<open>all\<close>, pages c to 19.\<close>

definition searchData_all_c :: "search_entry list" where
  "searchData_all_c =
    [(''last_5faccessed'', ''last_accessed'', [(''../struct__ft__de__sd.html#a4f707940193ab0c22e6b3a700f7735b0'', 1, ''_ft_de_sd'')]),
     (''last_5favailible'', ''last_availible'', [(''../memory__map_8c.html#adcb039c772752a75e527d1ab005297d4'', 1, ''memory_map.c'')]),
     (''last_5fmod_5fdate'', ''last_mod_date'', [(''../struct__ft__de__sd.html#ac2ca66107f4b90904f6d287a64aac784'', 1, ''_ft_de_sd'')]),
     (''last_5fmod_5ftime'', ''last_mod_time'', [(''../struct__ft__de__sd.html#a7f109d648d561cbfcdf7476a343aa74d'', 1, ''_ft_de_sd'')]),
     (''last_5fpde'', ''last_pde'', [(''../memory__map_8c.html#ab52c4f9956721dd8e7980e643fffa499'', 1, ''memory_map.c'')]),
     (''legacychecksum'', ''legacychecksum'', [(''../struct__ft__de__longname.html#a2d8d43da2b8058c9d5cff686463cdcda'', 1, ''_ft_de_longname'')]),
     (''length'', ''length'', [(''../struct__io__file__instance.html#a405224b3d7378b9abbf2096038d20f1d'', 1, ''_io_file_instance::length()''), (''../struct__io__message.html#a4ebb1c21215de431c9cdbb10176fb733'', 1, ''_io_message::length()''), (''../structmemory__map____64__s.html#a4249dfdd829964562984e546f63dd0fc'', 1, ''memory_map__64_s::length()''), (''../structmm__entry__s.html#a85297f86723102aaa26ff42f032bfdc6'', 1, ''mm_entry_s::length()''), (''../structVConLine__s.html#acbf3e634f146551c0acb27364ca2ba97'', 1, ''VConLine_s::length()''), (''../memory__map_8h.html#a190b76b1f3d5bd26920300e5f073739b'', 1, ''length():&#160;memory_map.h''), (''../VConLine_8h.html#a1892eba2086d12ac2b09005aeb09ea3b'', 1, ''length():&#160;VConLine.h'')]),
     (''length_5fh'', ''length_h'', [(''../structmemory__map____32__s.html#a8bf6a38ac9b1602dcb31c15fd3c86549'', 1, ''memory_map__32_s::length_h()''), (''../structmm__entry__s.html#aa1b29d920ad4bf1c0445d31e2c419847'', 1, ''mm_entry_s::length_h()''), (''../memory__map_8h.html#a349f209c4ca1a754c7f24d3d779d5dc9'', 1, ''length_h():&#160;memory_map.h'')]),
     (''length_5fl'', ''length_l'', [(''../structmemory__map____32__s.html#a96cd659dfc6a0e856759ff49a3da2d82'', 1, ''memory_map__32_s::length_l()''), (''../structmm__entry__s.html#af3f2398f693d30b4c52c9184f6314335'', 1, ''mm_entry_s::length_l()''), (''../memory__map_8h.html#a9c8afccaadbd83cad21f22b6af014241'', 1, ''length_l():&#160;memory_map.h'')]),
     (''libpath_2ec'', ''libpath.c'', [(''../libpath_8c.html'', 1, '''')]),
     (''libpath_2eh'', ''libpath.h'', [(''../libpath_8h.html'', 1, '''')]),
     (''limit'', ''limit'', [(''../structGDTEntry__s.html#aca0877c5ce58ceba0a43002e35c182fb'', 1, ''GDTEntry_s::limit()''), (''../GDTEntry_8h.html#ab28e82ae69032cb4ad3ec3a0be3d7129'', 1, ''limit():&#160;GDTEntry.h'')]),
     (''linbluefieldposition'', ''LinBlueFieldPosition'', [(''../structVBE3ModeInfo__s.html#ae32b1d6d846ba6e64a30d5fe1d0fd6df'', 1, ''VBE3ModeInfo_s::LinBlueFieldPosition()''), (''../VBE3ModeInfo_8h.html#a3f38d6becbe961786cd7ab58ec37fc07'', 1, ''LinBlueFieldPosition():&#160;VBE3ModeInfo.h'')]),
     (''linbluemasksize'', ''LinBlueMaskSize'', [(''../structVBE3ModeInfo__s.html#adb1d80ee9583d7d3fa5b6c11c8e0db68'', 1, ''VBE3ModeInfo_s::LinBlueMaskSize()''), (''../VBE3ModeInfo_8h.html#ad8a25cec803bf91fb40a20a0aa5d5bf7'', 1, ''LinBlueMaskSize():&#160;VBE3ModeInfo.h'')]),
     (''linbytesperscanline'', ''LinBytesPerScanLine'', [(''../structVBE3ModeInfo__s.html#a148620a8114d054f540cf3f5a50ac300'', 1, ''VBE3ModeInfo_s::LinBytesPerScanLine()''), (''../VBE3ModeInfo_8h.html#a53c5060b6ac14a7418ca8421edfb9981'', 1, ''LinBytesPerScanLine():&#160;VBE3ModeInfo.h'')]),
     (''linetable'', ''lineTable'', [(''../structVConBuf__s.html#ac0e20620871c949c0900a8185bd07744'', 1, ''VConBuf_s'')]),
     (''linetablesize'', ''lineTableSize'', [(''../structVConBuf__s.html#a1256be906286adcbbe15a6c575d58113'', 1, ''VConBuf_s'')]),
     (''lingreenfieldposition'', ''LinGreenFieldPosition'', [(''../structVBE3ModeInfo__s.html#a5f95279d0d9295dfa9a845df2a1c10b1'', 1, ''VBE3ModeInfo_s::LinGreenFieldPosition()''), (''../VBE3ModeInfo_8h.html#a6683a63711dbc5dfb9a2a59c55deecd5'', 1, ''LinGreenFieldPosition():&#160;VBE3ModeInfo.h'')]),
     (''lingreenmasksize'', ''LinGreenMaskSize'', [(''../structVBE3ModeInfo__s.html#a6ac6c783122cc34278e5fad2fe861220'', 1, ''VBE3ModeInfo_s::LinGreenMaskSize()''), (''../VBE3ModeInfo_8h.html#af235e505028771ab2fb84778f4dfb476'', 1, ''LinGreenMaskSize():&#160;VBE3ModeInfo.h'')]),
     (''link'', ''link'', [(''../structrfd__t.html#aa361ac3c70ac2584cd8004987f508c3b'', 1, ''rfd_t::link()''), (''../structcb.html#aa724bf6345c21e3f76e5b9de66ebcd57'', 1, ''cb::link()'')]),
     (''linnumberofimagepages'', ''LinNumberOfImagePages'', [(''../structVBE3ModeInfo__s.html#ac05797bfc8d2298a55d680228f280cd4'', 1, ''VBE3ModeInfo_s::LinNumberOfImagePages()''), (''../VBE3ModeInfo_8h.html#a3fa2352e69836f4b69b3a344ae761ba8'', 1, ''LinNumberOfImagePages():&#160;VBE3ModeInfo.h'')]),
     (''linredfieldposition'', ''LinRedFieldPosition'', [(''../structVBE3ModeInfo__s.html#a3b5c1c92cb61e6aff1aea38e0191f503'', 1, ''VBE3ModeInfo_s::LinRedFieldPosition()''), (''../VBE3ModeInfo_8h.html#aff962b58f86a77f12b412d47125a4993'', 1, ''LinRedFieldPosition():&#160;VBE3ModeInfo.h'')]),
     (''linredmasksize'', ''LinRedMaskSize'', [(''../structVBE3ModeInfo__s.html#ac42ba0c7066db5eb489c91a0107cc16e'', 1, ''VBE3ModeInfo_s::LinRedMaskSize()''), (''../VBE3ModeInfo_8h.html#a1fbcef2402fe6ce7f6c006bd50eaa6da'', 1, ''LinRedMaskSize():&#160;VBE3ModeInfo.h'')]),
     (''linrsvdfieldposition'', ''LinRsvdFieldPosition'', [(''../structVBE3ModeInfo__s.html#aa9faaeac45c1ca504fac200252634b60'', 1, ''VBE3ModeInfo_s::LinRsvdFieldPosition()''), (''../VBE3ModeInfo_8h.html#a3df070e698b5f54814e20c8813f7bf7e'', 1, ''LinRsvdFieldPosition():&#160;VBE3ModeInfo.h'')]),
     (''linrsvdmasksize'', ''LinRsvdMaskSize'', [(''../structVBE3ModeInfo__s.html#a14d60e52a0a495ee9136e9fc9f21d20b'', 1, ''VBE3ModeInfo_s::LinRsvdMaskSize()''), (''../VBE3ModeInfo_8h.html#a334886fc9a915ff91966c3aac1da586a'', 1, ''LinRsvdMaskSize():&#160;VBE3ModeInfo.h'')]),
     (''loc'', ''loc'', [(''../structRect__s.html#af9059775f8e0c23ed04d508876d7dc7e'', 1, ''Rect_s'')]),
     (''location'', ''location'', [(''../structVideoFb__s.html#a6270245d8845da63acdd17e613349316'', 1, ''VideoFb_s'')]),
     (''locked'', ''locked'', [(''../struct__ioentry.html#a0bdb6b19fed8977ddce6c5729040aa63'', 1, ''_ioentry'')]),
     (''lowbits_5fcluster'', ''lowbits_cluster'', [(''../struct__ft__de__sd.html#af935988e7f4acb0fd12c554fe63117f3'', 1, ''_ft_de_sd'')])]"

definition searchData_all_d :: "search_entry list" where
  "searchData_all_d =
    [(''mac'', ''mac'', [(''../structnic__info.html#a903c6b24b8744db45b54f6f4d55ccc6a'', 1, ''nic_info'')]),
     (''mac_5faddr'', ''mac_addr'', [(''../structcb.html#aecb710191a6e997f3f5bfa8eb06412f5'', 1, ''cb'')]),
     (''mac_5flength_5fbytes'', ''MAC_LENGTH_BYTES'', [(''../intel_8h.html#aa657ff7115d4ecbdf9e8245c0bf7a272'', 1, ''intel.h'')]),
     (''magic'', ''magic'', [(''../structPSFont__s.html#a737d0ea3c3092a59c5a25e6d097365fc'', 1, ''PSFont_s'')]),
     (''main'', ''main'', [(''../early_2main_8c.html#a840291bc02cba5474a4cb46a9b9566fe'', 1, ''main(void):&#160;main.c''), (''../main_8c.html#a840291bc02cba5474a4cb46a9b9566fe'', 1, ''main(void):&#160;main.c'')]),
     (''main_2ec'', ''main.c'', [(''../main_8c.html'', 1, '''')]),
     (''main_2ec'', ''main.c'', [(''../early_2main_8c.html'', 1, '''')]),
     (''malloc'', ''malloc'', [(''../memshim_8h.html#acf143577800376dd931c059ecc61ba06'', 1, ''memshim.h'')]),
     (''malloc_5fio'', ''malloc_io'', [(''../memshim_8c.html#ad8ce75cb7d1ddeec952ed13ad3e9732e'', 1, ''malloc_io(int32_t size):&#160;memshim.c''), (''../memshim_8h.html#ad8ce75cb7d1ddeec952ed13ad3e9732e'', 1, ''malloc_io(int32_t size):&#160;memshim.c'')]),
     (''manufactureid'', ''ManufactureId'', [(''../structEDIDRecord__s.html#a1cf4f45ecc234fce9c32bd95994b1a2a'', 1, ''EDIDRecord_s::ManufactureId()''), (''../EDIDRecord_8h.html#aa86ccf87d47fbb194a208ec6d093cd4a'', 1, ''ManufactureId():&#160;EDIDRecord.h'')]),
     (''manufacturertimings'', ''ManufacturerTimings'', [(''../structEDIDRecord__s.html#a3654fc9180c816fbe0f1ae195c91722e'', 1, ''EDIDRecord_s::ManufacturerTimings()''), (''../EDIDRecord_8h.html#af2e321f2d55d6b097a1ba241308de1fc'', 1, ''ManufacturerTimings():&#160;EDIDRecord.h'')]),
     (''manufactureweek'', ''ManufactureWeek'', [(''../structEDIDRecord__s.html#a8c3855a28d0eb9740b14afd1a02071dd'', 1, ''EDIDRecord_s::ManufactureWeek()''), (''../EDIDRecord_8h.html#afb06acdcfa97dbf31c75fec1c2de4f91'', 1, ''ManufactureWeek():&#160;EDIDRecord.h'')]),
     (''manufactureyear'', ''ManufactureYear'', [(''../structEDIDRecord__s.html#ac7c8934e08b7475924b019895159c0d1'', 1, ''EDIDRecord_s::ManufactureYear()''), (''../EDIDRecord_8h.html#af8f07b77e5c5619a43fe4f70c9eb4dca'', 1, ''ManufactureYear():&#160;EDIDRecord.h'')]),
     (''map'', ''map'', [(''../memory__map_8c.html#ab8089217d92447ee138551735ac549c5'', 1, ''memory_map.c'')]),
     (''marquee_2ec'', ''marquee.c'', [(''../marquee_8c.html'', 1, '''')]),
     (''marquee_2eh'', ''marquee.h'', [(''../marquee_8h.html'', 1, '''')]),
     (''marquee_5fanimate'', ''marquee_animate'', [(''../marquee_8c.html#ad11711c95d2c8f4f25ef522121a8cfbe'', 1, ''marquee_animate(void):&#160;marquee.c''), (''../marquee_8h.html#ad11711c95d2c8f4f25ef522121a8cfbe'', 1, ''marquee_animate(void):&#160;marquee.c'')]),
     (''marquee_5fsetregion'', ''marquee_setRegion'', [(''../marquee_8c.html#adbf224ded0c660c2fc7e6c3de4d764d2'', 1, ''marquee_setRegion(unsigned col, unsigned row, unsigned width):&#160;marquee.c''), (''../marquee_8h.html#adbf224ded0c660c2fc7e6c3de4d764d2'', 1, ''marquee_setRegion(unsigned col, unsigned row, unsigned width):&#160;marquee.c'')]),
     (''marquee_5fsettext'', ''marquee_setText'', [(''../marquee_8c.html#a8ecee3d21facc12f26e0bc9eecd0c7ef'', 1, ''marquee_setText(const char *str):&#160;marquee.c''), (''../marquee_8h.html#a8ecee3d21facc12f26e0bc9eecd0c7ef'', 1, ''marquee_setText(const char *str):&#160;marquee.c'')]),
     (''marquee_5fstring_5fmax'', ''MARQUEE_STRING_MAX'', [(''../marquee_8h.html#ad6a74d8b34b9e4837ab58a91ee04e508'', 1, ''marquee.h'')]),
     (''mask'', ''mask'', [(''../structVideoColorConfig__s.html#a74e060bb25861c79865b9d8b8148f3af'', 1, ''VideoColorConfig_s::mask()''), (''../video_2video_8c.html#ada2d8d629b41909480a285cb33bdba7f'', 1, ''MASK():&#160;video.c'')]),
     (''match_5fcontext'', ''match_context'', [(''../pubfat_8c.html#a13c88bb1edaf60467c1e371d9664bba9'', 1, ''pubfat.c'')]),
     (''match_5fpath'', ''match_path'', [(''../router_8c.html#a70db15e761013d666a790565f8de0eb3'', 1, ''router.c'')]),
     (''max_5faddress'', ''max_address'', [(''../memory__map_8c.html#a37013e04f2592d1def40cda4065f3709'', 1, ''memory_map.c'')]),
     (''max_5feeprom_5flength'', ''MAX_EEPROM_LENGTH'', [(''../intel_8h.html#a51222c7b5d05c91f13a9147c2b8993d6'', 1, ''intel.h'')]),
     (''max_5fmem'', ''MAX_MEM'', [(''../memory__constants_8h.html#affdefef0fc3a1673cac10cf4d16aa326'', 1, ''memory_constants.h'')]),
     (''maxhorizontalimagesize'', ''MaxHorizontalImageSize'', [(''../structEDIDRecord__s.html#a1b7ee12a69ece8fcf4b99a89d2e8ea59'', 1, ''EDIDRecord_s::MaxHorizontalImageSize()''), (''../EDIDRecord_8h.html#a88982005f402b798e4b2cc7a6abe6d49'', 1, ''MaxHorizontalImageSize():&#160;EDIDRecord.h'')]),
     (''maxpixelclock'', ''MaxPixelClock'', [(''../structVBE3ModeInfo__s.html#a206ab1caab7db55d8384dd4b86728a84'', 1, ''VBE3ModeInfo_s::MaxPixelClock()''), (''../VBE3ModeInfo_8h.html#ab1fbd72846963ebb34a308a7edf7bbe1'', 1, ''MaxPixelClock():&#160;VBE3ModeInfo.h'')]),
     (''maxverticalimagesize'', ''MaxVerticalImageSize'', [(''../structEDIDRecord__s.html#aceb5c4e837619ca6f8855f2ec82ea760'', 1, ''EDIDRecord_s::MaxVerticalImageSize()''), (''../EDIDRecord_8h.html#adf186e4f307b5c1ab374b6a414fad408'', 1, ''MaxVerticalImageSize():&#160;EDIDRecord.h'')]),
     (''mb'', ''MB'', [(''../memory__constants_8h.html#aa6b38d492364d98453284934ed7caee9'', 1, ''memory_constants.h'')]),
     (''mdi'', ''mdi'', [(''../structcsr.html#aeb558c89f8c69b94140e08334334986f'', 1, ''csr'')]),
     (''medescriptype'', ''medescriptype'', [(''../struct__ft__bpb.html#a11b24f91703ddbb447d3a6aa0be0d1df'', 1, ''_ft_bpb'')]),
     (''mem_5fdemo'', ''mem_demo'', [(''../user_8c.html#ae1dfdbef005578b9d07fba109ca0dcfb'', 1, ''user.c'')]),
     (''memcmp'', ''memcmp'', [(''../string_8h.html#ab5cd4d8d32add11f0b0dccfc1ddbec42'', 1, ''memcmp(const void *left, const void *right, size_t n):&#160;memcmp.c''), (''../memcmp_8c.html#a36251bee1209f004edb198b60b9e75ed'', 1, ''memcmp(const void *leftPtr, const void *rightPtr, size_t n):&#160;memcmp.c'')]),
     (''memcmp_2ec'', ''memcmp.c'', [(''../memcmp_8c.html'', 1, '''')]),
     (''memcpy'', ''memcpy'', [(''../string_8h.html#ade92068b4e58af06cb4744ea948ac736'', 1, ''memcpy(void *restrict dest, const void *restrict src, size_t n):&#160;memcpy.c''), (''../memcpy_8c.html#a20285f0c98cabe176403fa5d73bd0b9f'', 1, ''memcpy(void *restrict destptr, const void *restrict srcptr, size_t n):&#160;memcpy.c'')]),
     (''memcpy_2ec'', ''memcpy.c'', [(''../memcpy_8c.html'', 1, '''')]),
     (''memmove'', ''memmove'', [(''../string_8h.html#a802c986820d3866639922b6bc9484f90'', 1, ''memmove(void *dest, const void *src, size_t n):&#160;memmove.c''), (''../memmove_8c.html#a802c986820d3866639922b6bc9484f90'', 1, ''memmove(void *dest, const void *src, size_t n):&#160;memmove.c'')]),
     (''memmove_2ec'', ''memmove.c'', [(''../memmove_8c.html'', 1, '''')]),
     (''memory'', ''memory'', [(''../structpcb.html#ac079f6f699c3e877b5adb919c1a16aa6'', 1, ''pcb'')]),
     (''memory_5fconstants_2eh'', ''memory_constants.h'', [(''../memory__constants_8h.html'', 1, '''')]),
     (''memory_5fmap_2ec'', ''memory_map.c'', [(''../memory__map_8c.html'', 1, '''')]),
     (''memory_5fmap_2eh'', ''memory_map.h'', [(''../memory__map_8h.html'', 1, '''')]),
     (''memory_5fmap_5f_5f32_5fs'', ''memory_map__32_s'', [(''../structmemory__map____32__s.html'', 1, '''')]),
     (''memory_5fmap_5f_5f64_5fs'', ''memory_map__64_s'', [(''../structmemory__map____64__s.html'', 1, '''')]),
     (''memory_5fmap_5fentry'', ''memory_map_entry'', [(''../memory__map_8h.html#a5e0d356adf9d351be51aacf18bfb0d07'', 1, ''memory_map.h'')]),
     (''memory_5fmap_5fsetup_2ec'', ''memory_map_setup.c'', [(''../memory__map__setup_8c.html'', 1, '''')]),
     (''memory_5fmap_5fsetup_2eh'', ''memory_map_setup.h'', [(''../memory__map__setup_8h.html'', 1, '''')]),
     (''memorymodel'', ''MemoryModel'', [(''../structVBE2ModeInfo__s.html#a4d98770ce0b7f1238673b7d461f59cf7'', 1, ''VBE2ModeInfo_s::MemoryModel()''), (''../structVBE3ModeInfo__s.html#a1c63d1fa205d34ec1fef82972dd00f3f'', 1, ''VBE3ModeInfo_s::MemoryModel()''), (''../VBE2ModeInfo_8h.html#ab9be703b2b515ba3428ed97af9bb084d'', 1, ''MemoryModel():&#160;VBE2ModeInfo.h''), (''../VBE3ModeInfo_8h.html#ab9be703b2b515ba3428ed97af9bb084d'', 1, ''MemoryModel():&#160;VBE3ModeInfo.h'')]),
     (''memset'', ''memset'', [(''../string_8h.html#abf72548821cc86d93e7ace33d4d510d6'', 1, ''memset(void *mem, int val, size_t n):&#160;memset.c''), (''../memset_8c.html#a700d503dceb7b3bb0f74273540b71433'', 1, ''memset(void *memPtr, int value, size_t n):&#160;memset.c'')]),
     (''memset_2ec'', ''memset.c'', [(''../memset_8c.html'', 1, '''')]),
     (''memshim_2ec'', ''memshim.c'', [(''../memshim_8c.html'', 1, '''')]),
     (''memshim_2eh'', ''memshim.h'', [(''../memshim_8h.html'', 1, '''')]),
     (''message_2ec'', ''message.c'', [(''../message_8c.html'', 1, '''')]),
     (''message_2eh'', ''message.h'', [(''../message_8h.html'', 1, '''')]),
     (''message_5fin'', ''message_in'', [(''../struct__io__file__instance.html#a69539117d58a6dd1832cef1d2eac4aea'', 1, ''_io_file_instance'')]),
     (''message_5fout'', ''message_out'', [(''../struct__io__file__instance.html#aef55bd7ff30080aa1c640d61f0ffa104'', 1, ''_io_file_instance'')]),
     (''meta_2eh'', ''meta.h'', [(''../meta_8h.html'', 1, '''')]),
     (''middleware_2ec'', ''middleware.c'', [(''../middleware_8c.html'', 1, '''')]),
     (''middleware_2eh'', ''middleware.h'', [(''../middleware_8h.html'', 1, '''')]),
     (''minute'', ''minute'', [(''../struct__f32__time.html#a6f7bd39f323bc0d226926c9804cd02ad'', 1, ''_f32_time'')]),
     (''minutes'', ''minutes'', [(''../struct__ft__time__packed.html#a66b62f7a3f24dcfa900c92c4f408c46e'', 1, ''_ft_time_packed'')]),
     (''mm_5fentry_5fs'', ''mm_entry_s'', [(''../structmm__entry__s.html'', 1, '''')]),
     (''mm_5fsize'', ''mm_size'', [(''../memory__map_8c.html#ac805c437eaf7e90894f9cd9e1ea6a2c7'', 1, ''memory_map.c'')]),
     (''mmap'', ''mmap'', [(''../ulib_8h.html#ad5355e52fd1232d8c7e00800e2bb057c'', 1, ''ulib.h'')]),
     (''mmap_5faddress'', ''MMAP_ADDRESS'', [(''../bootstrap_8h.html#a856fda168f0dc82bd41eee0dacbe672c'', 1, ''bootstrap.h'')]),
     (''mmap_5fcfg_5fhi'', ''MMAP_CFG_HI'', [(''../bootstrap_8h.html#a372eaa04a2aa8bb04e5bff5216842b5c'', 1, ''bootstrap.h'')]),
     (''mmap_5fcfg_5flo'', ''MMAP_CFG_LO'', [(''../bootstrap_8h.html#a03b27298d1a3d8adf73760679f33480f'', 1, ''bootstrap.h'')]),
     (''mmap_5fext_5fhi'', ''MMAP_EXT_HI'', [(''../bootstrap_8h.html#a911609b1322db12bf5635c13d03fb1e9'', 1, ''bootstrap.h'')]),
     (''mmap_5fext_5flo'', ''MMAP_EXT_LO'', [(''../bootstrap_8h.html#a3e4dc153e6436b3febc421d495d85b30'', 1, ''bootstrap.h'')]),
     (''mmap_5fprograms'', ''MMAP_PROGRAMS'', [(''../bootstrap_8h.html#a8f4f438eb04e5790d31102adb7466c51'', 1, ''bootstrap.h'')]),
     (''mmap_5fsectors'', ''MMAP_SECTORS'', [(''../bootstrap_8h.html#a6939dda0e1c0db3cf9ed5910b0495869'', 1, ''bootstrap.h'')]),
     (''mmap_5fsegment'', ''MMAP_SEGMENT'', [(''../bootstrap_8h.html#afb6c6ebfbc3d5d22f010bd63e8915afb'', 1, ''bootstrap.h'')]),
     (''mode'', ''mode'', [(''../structVConCtrl__s.html#a2004eed1e8506c3a36623c44d5eb49f3'', 1, ''VConCtrl_s'')]),
     (''modeattributes'', ''ModeAttributes'', [(''../structVBE2ModeInfo__s.html#a733ab945f523c8cbcd8e97a82496e78f'', 1, ''VBE2ModeInfo_s::ModeAttributes()''), (''../structVBE3ModeInfo__s.html#abd4f8579a39eb6f166aab91f1877da96'', 1, ''VBE3ModeInfo_s::ModeAttributes()''), (''../VBE2ModeInfo_8h.html#ad7593abf9d201ce5e59de60baba548cd'', 1, ''ModeAttributes():&#160;VBE2ModeInfo.h''), (''../VBE3ModeInfo_8h.html#ad7593abf9d201ce5e59de60baba548cd'', 1, ''ModeAttributes():&#160;VBE3ModeInfo.h'')]),
     (''modecount'', ''modeCount'', [(''../structVideoInfo__s.html#a1d32e7dcb3b805034800523359d844b3'', 1, ''VideoInfo_s'')]),
     (''modenum'', ''modeNum'', [(''../structVideoMode__s.html#ac95ea4e104d76cf3fd242bec19885a26'', 1, ''VideoMode_s'')]),
     (''modes'', ''modes'', [(''../structVideoInfo__s.html#a2b02db40c2425ad95139d43bca6b8c9c'', 1, ''VideoInfo_s'')]),
     (''modes_5fmax'', ''MODES_MAX'', [(''../video_2video_8c.html#aa2112ffee4571360f8e13efbeb6055d3'', 1, ''video.c'')]),
     (''month'', ''month'', [(''../struct__f32__time.html#a6f17bbae8ac07fa892efa09fa1074249'', 1, ''_f32_time::month()''), (''../struct__ft__date__packed.html#af6700715d544f9f32152b27d55da94de'', 1, ''_ft_date_packed::month()'')]),
     (''mount'', ''mount'', [(''../struct__ft__ctxt__block.html#ad0359c642d5aee94823bdd9cc2794c76'', 1, ''_ft_ctxt_block::mount()''), (''../struct__io__message.html#ac9d60eb97ca6ff8fe5a9161c88a686b2'', 1, ''_io_message::mount()'')]),
     (''mount_2ec'', ''mount.c'', [(''../mount_8c.html'', 1, '''')]),
     (''mount_2eh'', ''mount.h'', [(''../mount_8h.html'', 1, '''')]),
     (''ms_5fto_5fticks'', ''MS_TO_TICKS'', [(''../common_8h.html#aead9d56f12455cc3be9554b40f962e13'', 1, ''common.h'')]),
     (''my_5fip'', ''my_ip'', [(''../structnic__info.html#a8ff412786a312f93a7444786b8b99336'', 1, ''nic_info'')]),
     (''my_5fmm_5faddress'', ''MY_MM_ADDRESS'', [(''../memory__map_8h.html#a8496a22e9d7209556c398c1f40617ecf'', 1, ''memory_map.h'')])]"

definition searchData_all_e :: "search_entry list" where
  "searchData_all_e =
    [(''n_5fexceptions'', ''N_EXCEPTIONS'', [(''../x86arch_8h.html#af754715aee66d80438cd03b66271a137'', 1, ''x86arch.h'')]),
     (''n_5fpcbs'', ''N_PCBS'', [(''../process_8h.html#af3ae237e600fef6d2824b98fa1c55b5f'', 1, ''process.h'')]),
     (''n_5fprios'', ''N_PRIOS'', [(''../types_8h.html#a99d18ef5708cb20d4ba6241dc0fc1343'', 1, ''types.h'')]),
     (''n_5fprocs'', ''N_PROCS'', [(''../common_8h.html#a9f83ec3723ab59308ccf727dacc7cb75'', 1, ''common.h'')]),
     (''n_5fqnodes'', ''N_QNODES'', [(''../queue_8c.html#a318683c48e15c04cacadab7e36463ba8'', 1, ''queue.c'')]),
     (''n_5fsafe_5ftimings'', ''N_SAFE_TIMINGS'', [(''../early_2video_8c.html#ab78e10224f960a70b7a6d1276ac77093'', 1, ''video.c'')]),
     (''n_5fstacks'', ''N_STACKS'', [(''../stack_8h.html#a7b3355963c6542cc4e3fd26de83a481c'', 1, ''stack.h'')]),
     (''n_5fsyscalls'', ''N_SYSCALLS'', [(''../syscall_8h.html#a6b806830aa3d5a8148ce70145c9097e3'', 1, ''syscall.h'')]),
     (''name'', ''name'', [(''../struct__ft__de__inmem.html#aec6c14c6b6ab714b8049b9742b434d5e'', 1, ''_ft_de_inmem::name()''), (''../struct__io__device.html#a4ba362b3ff44663cd9629f7ae9282c2d'', 1, ''_io_device::name()''), (''../struct__io__filesystem.html#a2a71aa2d2497e383e1a2129dca2df082'', 1, ''_io_filesystem::name()''), (''../struct__io__middleware.html#ad28cba167a887b98eb7c66a2a7df6766'', 1, ''_io_middleware::name()''), (''../struct__io__mount.html#a3e4df58db61e6b9f32ddde3bf536438b'', 1, ''_io_mount::name()'')]),
     (''net_5fintel_5farp_5fhead_5flen'', ''NET_INTEL_ARP_HEAD_LEN'', [(''../intel_8h.html#a3950f92c74a68906025566e7abe96e41'', 1, ''intel.h'')]),
     (''net_5fintel_5fcfg_5flength'', ''NET_INTEL_CFG_LENGTH'', [(''../intel_8h.html#a23bd683f430292051d90d91a878c5484'', 1, ''intel.h'')]),
     (''net_5fintel_5fdsl_5fnic'', ''NET_INTEL_DSL_NIC'', [(''../intel_8h.html#a572ddc9ccf8389e6f8ec869cb0249e91'', 1, ''intel.h'')]),
     (''net_5fintel_5feth_5fhead_5flen'', ''NET_INTEL_ETH_HEAD_LEN'', [(''../intel_8h.html#ad18eb53b2ea2350fed7024fdacf40683'', 1, ''intel.h'')]),
     (''net_5fintel_5fint_5fvector'', ''NET_INTEL_INT_VECTOR'', [(''../intel_8h.html#ae5c381a3f87ebccffd2fed2f29e8495c'', 1, ''intel.h'')]),
     (''net_5fintel_5fmax_5feth_5flength'', ''NET_INTEL_MAX_ETH_LENGTH'', [(''../intel_8h.html#ae78eeee2373e7bad1c3e18b0bb79a33b'', 1, ''intel.h'')]),
     (''net_5fintel_5fmin_5feth_5flength'', ''NET_INTEL_MIN_ETH_LENGTH'', [(''../intel_8h.html#a5b30241b80146819d2247dc6e5d157ae'', 1, ''intel.h'')]),
     (''net_5fintel_5fqemu_5fnic'', ''NET_INTEL_QEMU_NIC'', [(''../intel_8h.html#a8bcc5fdd8f185d90486d7643a50b2c07'', 1, ''intel.h'')]),
     (''net_5fintel_5frfd_5fsize'', ''NET_INTEL_RFD_SIZE'', [(''../intel_8h.html#a9e74ac17c425fe410d90f108b5a31f2b'', 1, ''intel.h'')]),
     (''net_5fintel_5frx_5fbuf_5fmax_5flen'', ''NET_INTEL_RX_BUF_MAX_LEN'', [(''../intel_8h.html#aff5cb0abde47d27ab7ca6687da7de02c'', 1, ''intel.h'')]),
     (''net_5fintel_5ftcb_5fmax_5fdata_5flen'', ''NET_INTEL_TCB_MAX_DATA_LEN'', [(''../intel_8h.html#acc72cfdf488e5ae13b1f87195b1d3a75'', 1, ''intel.h'')]),
     (''net_5fintel_5fvendor'', ''NET_INTEL_VENDOR'', [(''../intel_8h.html#a66ed0c80550230a1cbcbc7f0c0aa3c40'', 1, ''intel.h'')]),
     (''net_5ftest_2ec'', ''net_test.c'', [(''../net__test_8c.html'', 1, '''')]),
     (''net_5ftest_2eh'', ''net_test.h'', [(''../net__test_8h.html'', 1, '''')]),
     (''net_5ftest_5fmain'', ''net_test_main'', [(''../net__test_8c.html#a3e30f4ca9865b0b99c4c2c36a2af975c'', 1, ''net_test_main(void *args):&#160;net_test.c''), (''../net__test_8h.html#a3e30f4ca9865b0b99c4c2c36a2af975c'', 1, ''net_test_main(void *args):&#160;net_test.c'')]),
     (''new_5fpage_5fdirectory'', ''new_page_directory'', [(''../memory__map_8c.html#a7ff45cd2fed2de66c4f8c3c7e6ffcd27'', 1, ''new_page_directory(void):&#160;memory_map.c''), (''../memory__map_8h.html#a7ff45cd2fed2de66c4f8c3c7e6ffcd27'', 1, ''new_page_directory(void):&#160;memory_map.c'')]),
     (''new_5fpage_5ftable'', ''new_page_table'', [(''../memory__map_8c.html#aaabc7daf7a7f72affba09c1af2e5260c'', 1, ''memory_map.c'')]),
     (''next'', ''next'', [(''../structst__qnode.html#a5916e8068a808838f372562b98db84c9'', 1, ''st_qnode::next()''), (''../structnic__info.html#acc0f3ba3170484e231deb3cd3fc4c60a'', 1, ''nic_info::next()'')]),
     (''next_5fcb'', ''next_cb'', [(''../structnic__info.html#a7c45981bd364933f0364261195397891'', 1, ''nic_info'')]),
     (''nextchars'', ''nextchars'', [(''../struct__ft__de__longname.html#a0e6e49912b71f7cfe00ebc718912a3f7'', 1, ''_ft_de_longname'')]),
     (''nic_5finfo'', ''nic_info'', [(''../structnic__info.html'', 1, '''')]),
     (''nic_5frx_5fdaemon'', ''nic_rx_daemon'', [(''../intel_8c.html#afb7912edad11b6be63d17ea50f7e171b'', 1, ''nic_rx_daemon(void *arg):&#160;intel.c''), (''../intel_8h.html#afb7912edad11b6be63d17ea50f7e171b'', 1, ''nic_rx_daemon(void *arg):&#160;intel.c'')]),
     (''nic_5ftx_5fdaemon'', ''nic_tx_daemon'', [(''../intel_8c.html#ac61d930e7e29e83625b7f8977bac6862'', 1, ''nic_tx_daemon(void *arg):&#160;intel.c''), (''../intel_8h.html#ac61d930e7e29e83625b7f8977bac6862'', 1, ''nic_tx_daemon(void *arg):&#160;intel.c'')]),
     (''npic'', ''NPIC'', [(''../x86arch_8h.html#a6535cfbd4fdab19e81f2efc48fa81953'', 1, ''x86arch.h'')]),
     (''ntflags'', ''ntflags'', [(''../struct__ft__bpb.html#a11d80d0843ba0ad0587d20f43d1f29bd'', 1, ''_ft_bpb'')]),
     (''null'', ''NULL'', [(''../vga13_8c.html#a070d2ce7b6bb7e5c05602aa8c308d0c4'', 1, ''NULL():&#160;vga13.c''), (''../common_8h.html#a070d2ce7b6bb7e5c05602aa8c308d0c4'', 1, ''NULL():&#160;common.h''), (''../stddef_8h.html#a070d2ce7b6bb7e5c05602aa8c308d0c4'', 1, ''NULL():&#160;stddef.h'')]),
     (''num_5fmost_5frecent_5fclust'', ''num_most_recent_clust'', [(''../struct__ft__fsinfo.html#af6795bedd98eb6817a74014206ce136a'', 1, ''_ft_fsinfo'')]),
     (''numbackupsect'', ''numbackupsect'', [(''../struct__ft__bpb.html#a8ff28a23a84a600ed5997326e88a833b'', 1, ''_ft_bpb'')]),
     (''numberofbanks'', ''NumberOfBanks'', [(''../structVBE2ModeInfo__s.html#a5216ce38ef82473f8d1ee253b1ef4f87'', 1, ''VBE2ModeInfo_s::NumberOfBanks()''), (''../structVBE3ModeInfo__s.html#a891ed3bddf7e6954e7fcae5ee374c16f'', 1, ''VBE3ModeInfo_s::NumberOfBanks()''), (''../VBE2ModeInfo_8h.html#aa955c03441b6d3e55b2ba4be4dae56a2'', 1, ''NumberOfBanks():&#160;VBE2ModeInfo.h''), (''../VBE3ModeInfo_8h.html#aa955c03441b6d3e55b2ba4be4dae56a2'', 1, ''NumberOfBanks():&#160;VBE3ModeInfo.h'')]),
     (''numberofimagepages'', ''NumberOfImagePages'', [(''../structVBE2ModeInfo__s.html#a0553ba9c27e8c722a67a673fcc9a334d'', 1, ''VBE2ModeInfo_s::NumberOfImagePages()''), (''../structVBE3ModeInfo__s.html#ac49571d2778cec8cf438af9cb109e254'', 1, ''VBE3ModeInfo_s::NumberOfImagePages()''), (''../VBE2ModeInfo_8h.html#a7033bb4cac6dc49f68ca4df855151e09'', 1, ''NumberOfImagePages():&#160;VBE2ModeInfo.h''), (''../VBE3ModeInfo_8h.html#a7033bb4cac6dc49f68ca4df855151e09'', 1, ''NumberOfImagePages():&#160;VBE3ModeInfo.h'')]),
     (''numberofplanes'', ''NumberOfPlanes'', [(''../structVBE2ModeInfo__s.html#a0311cbb78315e2130cc57a7620f666d7'', 1, ''VBE2ModeInfo_s::NumberOfPlanes()''), (''../structVBE3ModeInfo__s.html#a8550da7e05d975de9788e99c63e14760'', 1, ''VBE3ModeInfo_s::NumberOfPlanes()''), (''../VBE2ModeInfo_8h.html#a51268efaac55d78e17263aff9a447998'', 1, ''NumberOfPlanes():&#160;VBE2ModeInfo.h''), (''../VBE3ModeInfo_8h.html#a51268efaac55d78e17263aff9a447998'', 1, ''NumberOfPlanes():&#160;VBE3ModeInfo.h'')]),
     (''numdriver'', ''numdriver'', [(''../struct__ft__bpb.html#acd2bc0ee7f1b771ac2ba053b92117d40'', 1, ''_ft_bpb'')])]"

definition searchData_all_f :: "search_entry list" where
  "searchData_all_f =
    [(''object'', ''object'', [(''../struct__ioentry.html#a97587c072607f1dcd1f6bd426401fc22'', 1, ''_ioentry'')]),
     (''oem'', ''oem'', [(''../structVBEInfo__s.html#a5855f09ddafcb5c2f8f8cef347916dff'', 1, ''VBEInfo_s::oem()''), (''../structVideoInfo__s.html#ae168c33f0f7eb5c8af80556fca3e18e7'', 1, ''VideoInfo_s::oem()''), (''../VBEInfo_8h.html#af01f02e1e351048fa2ed100f34276960'', 1, ''oem():&#160;VBEInfo.h'')]),
     (''oemdata'', ''oemData'', [(''../structVBEInfo__s.html#a342e22e7644b901788f4be85c25236f9'', 1, ''VBEInfo_s::oemData()''), (''../VBEInfo_8h.html#a001de4efa3b83b6a3774a32b087ccdb9'', 1, ''oemData():&#160;VBEInfo.h'')]),
     (''offscreenmemoffset'', ''OffScreenMemOffset'', [(''../structVBE2ModeInfo__s.html#a71540eb5662baa32e95fafd23f6e27d3'', 1, ''VBE2ModeInfo_s::OffScreenMemOffset()''), (''../VBE2ModeInfo_8h.html#afe2c8124b50dc92a2cd44ab060a12ef8'', 1, ''OffScreenMemOffset():&#160;VBE2ModeInfo.h'')]),
     (''offscreenmemsize'', ''OffScreenMemSize'', [(''../structVBE2ModeInfo__s.html#a684779579a4fb2f09b950f7de5b76b1c'', 1, ''VBE2ModeInfo_s::OffScreenMemSize()''), (''../VBE2ModeInfo_8h.html#adc1f3fde55016e365e886dfb96adda28'', 1, ''OffScreenMemSize():&#160;VBE2ModeInfo.h'')]),
     (''offset'', ''offset'', [(''../structGDTDescriptor__s.html#a2ee2c129656a8f6f8be898d75e41d63e'', 1, ''GDTDescriptor_s::offset()''), (''../union__io__message_1_1POSITION.html#ab02a90e5456ef0b40a10c533252d83ff'', 1, ''_io_message::POSITION::offset()''), (''../structVConLine__s.html#a50fac1ba855410a8931edb974432a77d'', 1, ''VConLine_s::offset()''), (''../GDTDescriptor_8h.html#a894bdfa2d603d8343f8ef01dda6fcd23'', 1, ''offset():&#160;GDTDescriptor.h''), (''../VConLine_8h.html#ac681806181c80437cfab37335f62ff39'', 1, ''offset():&#160;VConLine.h'')]),
     (''offset_5f15_5f0'', ''offset_15_0'', [(''../structIDT__Gate.html#aff38e1f5ff5293f73cb49457276e34f2'', 1, ''IDT_Gate'')]),
     (''offset_5f31_5f16'', ''offset_31_16'', [(''../structIDT__Gate.html#ab8d2cbf00a13fae1192866de65fdbdc7'', 1, ''IDT_Gate'')]),
     (''offset_5fprop'', ''offset_prop'', [(''../struct__io__message.html#a3f1fea65966e922d40a38d1b5965b0db'', 1, ''_io_message'')]),
     (''offsetof'', ''offsetof'', [(''../stddef_8h.html#a19a04836d558f3c018b597e8dea1e0e0'', 1, ''stddef.h'')]),
     (''op_5fewds'', ''op_ewds'', [(''../intel_8h.html#acdc5126bb2130fa97b625a8171ad82f1ab1e657f1bcbd815a505ff0af3b2ec6ab'', 1, ''intel.h'')]),
     (''op_5fewen'', ''op_ewen'', [(''../intel_8h.html#acdc5126bb2130fa97b625a8171ad82f1a2537f7420a7ab2589ed6f57bb73e8ee0'', 1, ''intel.h'')]),
     (''op_5fread'', ''op_read'', [(''../intel_8h.html#acdc5126bb2130fa97b625a8171ad82f1a6d83f3d021c2e5b4d8b0463894f85116'', 1, ''intel.h'')]),
     (''op_5fwrite'', ''op_write'', [(''../intel_8h.html#acdc5126bb2130fa97b625a8171ad82f1a9007b248c86cfc2497db9b028754c963'', 1, ''intel.h'')]),
     (''opcode'', ''opcode'', [(''../struct____attribute____.html#aa3d57f7000d25f764113794ce3c69c01'', 1, ''__attribute__'')]),
     (''owner'', ''owner'', [(''../struct__ioentry.html#a88efc36d447e1d599d41192e88b93d56'', 1, ''_ioentry::owner()''), (''../struct__io__file__instance.html#a4f0e73584e4a98d4ebc7d9d234f3b664'', 1, ''_io_file_instance::owner()'')])]"

definition searchData_all_10 :: "search_entry list" where
  "searchData_all_10 =
    [(''p_5fhigh'', ''P_HIGH'', [(''../types_8h.html#a606fdefd3f56e753c5965e7b5a57652aa0622ca9bf03ca26a4dec57f72c276314'', 1, ''types.h'')]),
     (''p_5fio_5fobj_5ftype'', ''P_IO_OBJ_TYPE'', [(''../io__types_8h.html#a929897b14435c6ee347370c0b474ef9a'', 1, ''io_types.h'')]),
     (''p_5flow'', ''P_LOW'', [(''../types_8h.html#a606fdefd3f56e753c5965e7b5a57652aa842f15c25f3ab2243461dffbd65069b1'', 1, ''types.h'')]),
     (''p_5fmin'', ''P_MIN'', [(''../types_8h.html#a606fdefd3f56e753c5965e7b5a57652aa0c44a3462987eafd699406a80b668dc3'', 1, ''types.h'')]),
     (''p_5fsystem'', ''P_SYSTEM'', [(''../types_8h.html#a606fdefd3f56e753c5965e7b5a57652aaf922fcca522100eee8763a3e11602459'', 1, ''types.h'')]),
     (''page_5favailibility_5ftable'', ''page_availibility_table'', [(''../memory__map_8c.html#a75880d7650fd474a9172180dfb4cd348'', 1, ''memory_map.c'')]),
     (''page_5fdirectory'', ''page_directory'', [(''../system_8c.html#a0f611fd14593c59f818415c54fc5f75f'', 1, ''page_directory():&#160;memory_map.c''), (''../memory__map_8c.html#a0f611fd14593c59f818415c54fc5f75f'', 1, ''page_directory():&#160;memory_map.c'')]),
     (''page_5fflags'', ''PAGE_FLAGS'', [(''../memory__constants_8h.html#a29dca63f6bf52f1522ea36f59f94d264'', 1, ''memory_constants.h'')]),
     (''page_5fsize'', ''PAGE_SIZE'', [(''../memory__constants_8h.html#a7d467c1d283fdfa1f2081ba1e0d01b6e'', 1, ''memory_constants.h'')]),
     (''page_5ftable'', ''page_table'', [(''../memory__map_8c.html#ab55dd5264039cab129797f1389c08500'', 1, ''memory_map.c'')]),
     (''pagecount'', ''PAGECOUNT'', [(''../ramdisk_8c.html#aea665847410445744fa6499ea1f14a86'', 1, ''ramdisk.c'')]),
     (''paintcontext'', ''PaintContext'', [(''../PaintContext_8h.html#a419e35a1bc53bc11b1c4ad6ffe4e6f0e'', 1, ''PaintContext.h'')]),
     (''paintcontext_2eh'', ''PaintContext.h'', [(''../PaintContext_8h.html'', 1, '''')]),
     (''paintcontext_5fs'', ''PaintContext_s'', [(''../structPaintContext__s.html'', 1, '''')]),
     (''parse_5fdirtable_5fentry'', ''parse_dirtable_entry'', [(''../fat_8c.html#a53555153074c429b1844a81533eb0cca'', 1, ''fat.c'')]),
     (''pat_5fsize'', ''pat_size'', [(''../memory__map_8c.html#a5578d9ecd39e2d789c482c8385d828b3'', 1, ''memory_map.c'')]),
     (''path'', ''path'', [(''../struct__io__file__instance.html#a44f88d0a87f4a0ed513c01ca36dc07cc'', 1, ''_io_file_instance::path()''), (''../struct__io__message.html#a6f6f56e074c33512a4bab1de15f09f19'', 1, ''_io_message::path()''), (''../struct__io__mount.html#a159e7b41306dff496e87a847ece01093'', 1, ''_io_mount::path()'')]),
     (''payload'', ''payload'', [(''../structeth__packet__t.html#af290f049752430544a9212f4356cf963'', 1, ''eth_packet_t::payload()''), (''../struct____attribute____.html#a9180eddace8b9849310d5bc509963e61'', 1, ''__attribute__::payload()'')]),
     (''pboffset'', ''PBOFFSET'', [(''../io__types_8h.html#a1b9928258b81fb9ad2cddf18778954de'', 1, ''io_types.h'')]),
     (''pbsize'', ''PBSIZE'', [(''../io__types_8h.html#a36306cd03c4bf7e07b722b8cb060e968'', 1, ''io_types.h'')]),
     (''pcb'', ''pcb'', [(''../structpcb.html'', 1, '''')]),
     (''pcb_5ft'', ''pcb_t'', [(''../process_8h.html#aef9b21c1e6fbe9129fb96866b68bedb4'', 1, ''process.h'')]),
     (''pci_2ec'', ''pci.c'', [(''../pci_8c.html'', 1, '''')]),
     (''pci_2eh'', ''pci.h'', [(''../pci_8h.html'', 1, '''')]),
     (''pci_5fbist'', ''PCI_BIST'', [(''../pci_8h.html#a7e90cb70f5d4911a8126fe93cdac2147'', 1, ''pci.h'')]),
     (''pci_5fcache_5fline_5fsize'', ''PCI_CACHE_LINE_SIZE'', [(''../pci_8h.html#ab0714901b1972ad6700d98d11d683f04'', 1, ''pci.h'')]),
     (''pci_5fcap_5fptr'', ''PCI_CAP_PTR'', [(''../pci_8h.html#aa23a4e7fc9339aee14e7e79f2011db4d'', 1, ''pci.h'')]),
     (''pci_5fcapability_5fid'', ''PCI_CAPABILITY_ID'', [(''../pci_8h.html#a72cd60675061af9d24d36f8c8880b44b'', 1, ''pci.h'')]),
     (''pci_5fcfg_5fread'', ''pci_cfg_read'', [(''../pci_8c.html#aa471dc0aee34f64f5e6c6e8e1f3e7f6e'', 1, ''pci_cfg_read(uint8_t bus, uint8_t slot, uint8_t func, uint8_t offset):&#160;pci.c''), (''../pci_8h.html#aa471dc0aee34f64f5e6c6e8e1f3e7f6e'', 1, ''pci_cfg_read(uint8_t bus, uint8_t slot, uint8_t func, uint8_t offset):&#160;pci.c'')]),
     (''pci_5fcfg_5fread_5fbyte'', ''pci_cfg_read_byte'', [(''../pci_8c.html#a5314afbe63db9fa75d27a5d575dd6734'', 1, ''pci_cfg_read_byte(uint8_t bus, uint8_t slot, uint8_t func, uint8_t offset):&#160;pci.c''), (''../pci_8h.html#a5314afbe63db9fa75d27a5d575dd6734'', 1, ''pci_cfg_read_byte(uint8_t bus, uint8_t slot, uint8_t func, uint8_t offset):&#160;pci.c'')]),
     (''pci_5fcfg_5fread_5fword'', ''pci_cfg_read_word'', [(''../pci_8c.html#a56151f27aa7ccc417f3a9a1a06d3c757'', 1, ''pci_cfg_read_word(uint8_t bus, uint8_t slot, uint8_t func, uint8_t offset):&#160;pci.c''), (''../pci_8h.html#a56151f27aa7ccc417f3a9a1a06d3c757'', 1, ''pci_cfg_read_word(uint8_t bus, uint8_t slot, uint8_t func, uint8_t offset):&#160;pci.c'')]),
     (''pci_5fclass_5fcode'', ''PCI_CLASS_CODE'', [(''../pci_8h.html#aeceb83f22ca5473d93fb37286277a025'', 1, ''pci.h'')]),
     (''pci_5fcommand'', ''PCI_COMMAND'', [(''../pci_8h.html#ace199ecb77d8e32d759ac065c22304b3'', 1, ''pci.h'')]),
     (''pci_5fcsr_5fio_5fmapped_5fbase_5faddr_5freg'', ''PCI_CSR_IO_MAPPED_BASE_ADDR_REG'', [(''../pci_8h.html#a38e8352cfbfe58668d52adb71a85fe47'', 1, ''pci.h'')]),
     (''pci_5fcsr_5fmem_5fmapped_5fbase_5faddr_5freg'', ''PCI_CSR_MEM_MAPPED_BASE_ADDR_REG'', [(''../pci_8h.html#a14a09b6bae05796ca9098c1ef5bbaee9'', 1, ''pci.h'')]),
     (''pci_5fdata'', ''PCI_DATA'', [(''../pci_8h.html#a2b43d6f9f41c3cf575386ce3080566c3'', 1, ''pci.h'')]),
     (''pci_5fdevice'', ''PCI_DEVICE'', [(''../pci_8h.html#afa30da0972bd1bb4c828ebbdcf9510c7'', 1, ''pci.h'')]),
     (''pci_5fenumerate'', ''pci_enumerate'', [(''../pci_8c.html#a7be88224ba57de4502c7fbec1a968f35'', 1, ''pci_enumerate(uint8_t max_bus, uint8_t max_slot):&#160;pci.c''), (''../pci_8h.html#a7be88224ba57de4502c7fbec1a968f35'', 1, ''pci_enumerate(uint8_t max_bus, uint8_t max_slot):&#160;pci.c'')]),
     (''pci_5fexpansion_5from_5fbase_5faddr_5freg'', ''PCI_EXPANSION_ROM_BASE_ADDR_REG'', [(''../pci_8h.html#aef5226aa850df0963b3c74d092cc3438'', 1, ''pci.h'')]),
     (''pci_5fflash_5fmem_5fmapped_5fbase_5faddr_5freg'', ''PCI_FLASH_MEM_MAPPED_BASE_ADDR_REG'', [(''../pci_8h.html#a7aa7328228a6606a932da98f0371b70e'', 1, ''pci.h'')]),
     (''pci_5fget_5fdevice'', ''pci_get_device'', [(''../pci_8c.html#ae1d62e41ffe43df495d2d466ddc4759e'', 1, ''pci_get_device(uint8_t *bus_ret, uint8_t *slot_ret, uint16_t vendor, uint16_t device):&#160;pci.c''), (''../pci_8h.html#ae1d62e41ffe43df495d2d466ddc4759e'', 1, ''pci_get_device(uint8_t *bus_ret, uint8_t *slot_ret, uint16_t vendor, uint16_t device):&#160;pci.c'')]),
     (''pci_5fget_5fvendor'', ''pci_get_vendor'', [(''../pci_8c.html#ac3c976936eb50fbb24eb53bacdda2c4b'', 1, ''pci_get_vendor(uint8_t bus, uint8_t slot):&#160;pci.c''), (''../pci_8h.html#ac3c976936eb50fbb24eb53bacdda2c4b'', 1, ''pci_get_vendor(uint8_t bus, uint8_t slot):&#160;pci.c'')]),
     (''pci_5fheader_5ftype'', ''PCI_HEADER_TYPE'', [(''../pci_8h.html#a19e39e2931bb71460a3b5e1e30206d7b'', 1, ''pci.h'')]),
     (''pci_5finterrupt_5fline'', ''PCI_INTERRUPT_LINE'', [(''../pci_8h.html#a8116525040b6cde4a11b3aaaf5e40ec7'', 1, ''pci.h'')]),
     (''pci_5finterrupt_5fpin'', ''PCI_INTERRUPT_PIN'', [(''../pci_8h.html#a5fd66cd39d51eb4c24f40749a45c103c'', 1, ''pci.h'')]),
     (''pci_5flatency_5ftimer'', ''PCI_LATENCY_TIMER'', [(''../pci_8h.html#ae2cade69be1011c19d4918689e988e2d'', 1, ''pci.h'')]),
     (''pci_5fmax_5flatency'', ''PCI_MAX_LATENCY'', [(''../pci_8h.html#ad5adab4edfee70aaad976084734e6505'', 1, ''pci.h'')]),
     (''pci_5fmin_5fgrant'', ''PCI_MIN_GRANT'', [(''../pci_8h.html#adc188a9c54214a9332d68b093dac96cf'', 1, ''pci.h'')]),
     (''pci_5fnext_5fitem_5fptr'', ''PCI_NEXT_ITEM_PTR'', [(''../pci_8h.html#afd8189344970a80eaa56fcdd5036cd9d'', 1, ''pci.h'')]),
     (''pci_5fpower_5fmanagement_5fcapabilities'', ''PCI_POWER_MANAGEMENT_CAPABILITIES'', [(''../pci_8h.html#aca65072f4c21b1f5f031cae44a4cd895'', 1, ''pci.h'')]),
     (''pci_5fpower_5fmanagement_5fcsr'', ''PCI_POWER_MANAGEMENT_CSR'', [(''../pci_8h.html#acd42272749de64b204809f7451614125'', 1, ''pci.h'')]),
     (''pci_5frev_5fid'', ''PCI_REV_ID'', [(''../pci_8h.html#ac5dc0ef0c78027bbc44f47c202f08e41'', 1, ''pci.h'')]),
     (''pci_5fstatus'', ''PCI_STATUS'', [(''../pci_8h.html#a250f9aa7637e1c67edc266e2d36adf49'', 1, ''pci.h'')]),
     (''pci_5fsubsystem_5fid'', ''PCI_SUBSYSTEM_ID'', [(''../pci_8h.html#a80c2d20b9cd88bf3fb122f129db522a6'', 1, ''pci.h'')]),
     (''pci_5fsubsystem_5fvendor_5fid'', ''PCI_SUBSYSTEM_VENDOR_ID'', [(''../pci_8h.html#affa3e5966da1d03450a2ede181387051'', 1, ''pci.h'')]),
     (''pci_5fvendor'', ''PCI_VENDOR'', [(''../pci_8h.html#aee612bebadd7a86ba577689b4ae98c83'', 1, ''pci.h'')]),
     (''pfat32time'', ''PFAT32TIME'', [(''../fat__types_8h.html#ab481bd365131439849955c4b62ebc1bc'', 1, ''fat_types.h'')]),
     (''pfat_5fcontext'', ''PFAT_CONTEXT'', [(''../fat__types_8h.html#acff5b6d36969040b40e007d326dc2124'', 1, ''fat_types.h'')]),
     (''pfilehandle'', ''PFILEHANDLE'', [(''../io__types_8h.html#ab9f5d31cec8541a73f50cfb0da582771'', 1, ''io_types.h'')]),
     (''physaddr'', ''physAddr'', [(''../main_8c.html#ada7e1a40887a6a040cbddd6682e2a0a9'', 1, ''main.c'')]),
     (''physbaseptr'', ''PhysBasePtr'', [(''../structVBE2ModeInfo__s.html#a2be082ef615b31c27158d2cb85a3288e'', 1, ''VBE2ModeInfo_s::PhysBasePtr()''), (''../structVBE3ModeInfo__s.html#a4f4617ca11f89d177118904707ec95bb'', 1, ''VBE3ModeInfo_s::PhysBasePtr()''), (''../VBE2ModeInfo_8h.html#a659913392d68d571b65d6631264ed27e'', 1, ''PhysBasePtr():&#160;VBE2ModeInfo.h''), (''../VBE3ModeInfo_8h.html#a659913392d68d571b65d6631264ed27e'', 1, ''PhysBasePtr():&#160;VBE3ModeInfo.h'')]),
     (''pic_5f86mode'', ''PIC_86MODE'', [(''../x86arch_8h.html#a033c7c68b5c7d6322182ce7549f3d184'', 1, ''x86arch.h'')]),
     (''pic_5fautoeoi'', ''PIC_AUTOEOI'', [(''../x86arch_8h.html#aeca2c9284c8ed8bca1c88a6b0f4910dc'', 1, ''x86arch.h'')]),
     (''pic_5fbuffered'', ''PIC_BUFFERED'', [(''../x86arch_8h.html#a7577a07909c5ad9a0d334ece526f2910'', 1, ''x86arch.h'')]),
     (''pic_5feoi'', ''PIC_EOI'', [(''../x86arch_8h.html#a170d8eebdb48c16cfcd60cbd46760cb2'', 1, ''x86arch.h'')]),
     (''pic_5ficw1base'', ''PIC_ICW1BASE'', [(''../x86arch_8h.html#a32b59dd3719d3b1f716102a7939cb529'', 1, ''x86arch.h'')]),
     (''pic_5fltim'', ''PIC_LTIM'', [(''../x86arch_8h.html#afcd8124fef677f4775da3364f6bddb16'', 1, ''x86arch.h'')]),
     (''pic_5fmaster_5fcmd_5fport'', ''PIC_MASTER_CMD_PORT'', [(''../x86arch_8h.html#aaaba0af9046d54b4146880f1d128f396'', 1, ''x86arch.h'')]),
     (''pic_5fmaster_5fimr_5fport'', ''PIC_MASTER_IMR_PORT'', [(''../x86arch_8h.html#a5f448f4d4585caf086b1be3d4b1e801b'', 1, ''x86arch.h'')]),
     (''pic_5fmaster_5fslave_5fline'', ''PIC_MASTER_SLAVE_LINE'', [(''../x86arch_8h.html#aeec192dbe0dda8bd6ba03ee7e9e9b54b'', 1, ''x86arch.h'')]),
     (''pic_5fmasterbuf'', ''PIC_MASTERBUF'', [(''../x86arch_8h.html#a8392d092a82ade5c9bcbe306c27a553f'', 1, ''x86arch.h'')]),
     (''pic_5fneedicw4'', ''PIC_NEEDICW4'', [(''../x86arch_8h.html#ab7fbff74cf5ae86d8d667785d445bd86'', 1, ''x86arch.h'')]),
     (''pic_5freadirr'', ''PIC_READIRR'', [(''../x86arch_8h.html#a6db1cd14be7677789b519974d23f5dce'', 1, ''x86arch.h'')]),
     (''pic_5freadisr'', ''PIC_READISR'', [(''../x86arch_8h.html#a61dc350888c6ca6ee1828f4eec13ff65'', 1, ''x86arch.h'')]),
     (''pic_5fseoi'', ''PIC_SEOI'', [(''../x86arch_8h.html#a80464b4567b37491a53aa6bb12a3fa6d'', 1, ''x86arch.h'')]),
     (''pic_5fseoi_5flvl7'', ''PIC_SEOI_LVL7'', [(''../x86arch_8h.html#a485d8405a0c8045290f2f31acc5e3a22'', 1, ''x86arch.h'')]),
     (''pic_5fslave_5fcmd_5fport'', ''PIC_SLAVE_CMD_PORT'', [(''../x86arch_8h.html#ab9af7807a1aaeea75602dd06cd15d5c6'', 1, ''x86arch.h'')]),
     (''pic_5fslave_5fid'', ''PIC_SLAVE_ID'', [(''../x86arch_8h.html#a88554750c8e4f3ac98a984636fda9625'', 1, ''x86arch.h'')]),
     (''pic_5fslave_5fimr_5fport'', ''PIC_SLAVE_IMR_PORT'', [(''../x86arch_8h.html#ad9e56d130901b9ed40c559f2a1536ba2'', 1, ''x86arch.h'')]),
     (''pic_5fslavebuf'', ''PIC_SLAVEBUF'', [(''../x86arch_8h.html#a0bd4f9e739d3c71d5f073def3cd19e55'', 1, ''x86arch.h'')]),
     (''pic_5fspfmode'', ''PIC_SPFMODE'', [(''../x86arch_8h.html#a5992dce8cd9414403964efa5c5adf964'', 1, ''x86arch.h'')]),
     (''pid'', ''pid'', [(''../structpcb.html#a1da0b84097537a6227022e4328977916'', 1, ''pcb'')]),
     (''pid_5ffirst_5fuser'', ''PID_FIRST_USER'', [(''../process_8h.html#a9b3a6e25da5f9cc3cfffbc1f01950f4c'', 1, ''process.h'')]),
     (''pid_5finit'', ''PID_INIT'', [(''../process_8h.html#ae98307b2f35c43039706d4494368ae14'', 1, ''process.h'')]),
     (''pid_5ft'', ''pid_t'', [(''../types_8h.html#a48ba585f825ac4d19c3bbc0d2db283b7'', 1, ''types.h'')]),
     (''pio_5fdevice'', ''PIO_DEVICE'', [(''../device_8h.html#a1544b32be9dcd759bce63cb0ef0b1ff6'', 1, ''device.h'')]),
     (''pio_5ffile_5fentry'', ''pio_file_entry'', [(''../file_8c.html#a1d06c18c8e03ae900df398cdd5ec8c21'', 1, ''file.c'')]),
     (''pio_5ffilesystem'', ''PIO_FILESYSTEM'', [(''../filesystem_8h.html#a362da60e98d0a2c1f0353679bdee54ea'', 1, ''filesystem.h'')]),
     (''pio_5fmessage'', ''PIO_MESSAGE'', [(''../message_8h.html#a1a849629078f2948cb60ed5155281d1d'', 1, ''message.h'')]),
     (''pio_5fmiddleware'', ''PIO_MIDDLEWARE'', [(''../middleware_8h.html#af284dfcfe628c546e1a88ed0dbb68a2d'', 1, ''middleware.h'')]),
     (''pio_5fmount'', ''PIO_MOUNT'', [(''../mount_8h.html#a1e50f8ddec95c44dbd5f6e05aa62bc3a'', 1, ''mount.h'')]),
     (''pio_5funix_5fts'', ''PIO_UNIX_TS'', [(''../io__types_8h.html#a2b5dec8ce3d4a75f04bb51109823a7af'', 1, ''io_types.h'')]),
     (''piocreatepolicy'', ''PIOCREATEPOLICY'', [(''../io__types_8h.html#a96b6b1e113ad4ee699a7e5f56e5ace30'', 1, ''io_types.h'')]),
     (''pioctl'', ''PIOCTL'', [(''../io__types_8h.html#a07ab433f36625a5d240792944c58ea60'', 1, ''io_types.h'')]),
     (''piohandle'', ''PIOHANDLE'', [(''../io__types_8h.html#ab5f7a3ec607e39314688b301b47027c5'', 1, ''io_types.h'')]),
     (''pioprop'', ''PIOPROP'', [(''../io__types_8h.html#ae2855ddce943c8cb02fab62acfedfb62'', 1, ''io_types.h'')]),
     (''piosort'', ''PIOSORT'', [(''../io__types_8h.html#a822a3acdc64e4f95d4cc225805c13670'', 1, ''io_types.h'')]),
     (''pitch'', ''pitch'', [(''../structVideoFb__s.html#a6572b3d15cf8d22496cf67f4e0351c95'', 1, ''VideoFb_s'')]),
     (''point'', ''Point'', [(''../Point_8h.html#a8d6840733e641298252778181fe4d44f'', 1, ''Point.h'')]),
     (''point_2eh'', ''Point.h'', [(''../Point_8h.html'', 1, '''')]),
     (''point_5fs'', ''Point_s'', [(''../structPoint__s.html'', 1, '''')]),
     (''point_5fzero'', ''POINT_ZERO'', [(''../Point_8h.html#a83d4b2e5f9c57c243f019cb24e1fc913'', 1, ''Point.h'')]),
     (''port'', ''port'', [(''../structcsr.html#a6a9ec2723d28f813983e6a41fb26312c'', 1, ''csr'')]),
     (''position'', ''POSITION'', [(''../union__io__message_1_1POSITION.html'', 1, ''_io_message'')]),
     (''position'', ''position'', [(''../structVideoColorConfig__s.html#af4304317ddffe9ec73d10ef31ff39609'', 1, ''VideoColorConfig_s'')]),
     (''ppid'', ''ppid'', [(''../structpcb.html#a0f5854505f8ec8b0f1bb94c08935c470'', 1, ''pcb'')]),
     (''pretty_5fprint'', ''pretty_print'', [(''../prettyprinter_8c.html#a12959c70128047c405c23221cefa610f'', 1, ''pretty_print(status_t input):&#160;prettyprinter.c''), (''../prettyprinter_8h.html#a12959c70128047c405c23221cefa610f'', 1, ''pretty_print(status_t input):&#160;prettyprinter.c'')]),
     (''prettyprinter_2ec'', ''prettyprinter.c'', [(''../prettyprinter_8c.html'', 1, '''')]),
     (''prettyprinter_2eh'', ''prettyprinter.h'', [(''../prettyprinter_8h.html'', 1, '''')]),
     (''prio'', ''prio'', [(''../structpcb.html#a02563bff8cc72aef9e663355d473586c'', 1, ''pcb'')]),
     (''prio_5ft'', ''prio_t'', [(''../types_8h.html#ae000a5a9b07710fba62226a8ec1ce69f'', 1, ''types.h'')]),
     (''process_2ec'', ''process.c'', [(''../process_8c.html'', 1, '''')]),
     (''process_2eh'', ''process.h'', [(''../process_8h.html'', 1, '''')]),
     (''productcode'', ''ProductCode'', [(''../structEDIDRecord__s.html#a0e6c04a2a2377c131cc723b8ef88eba8'', 1, ''EDIDRecord_s::ProductCode()''), (''../EDIDRecord_8h.html#a0990f998bd11e1c6fd195b982300e800'', 1, ''ProductCode():&#160;EDIDRecord.h'')]),
     (''productname'', ''productName'', [(''../structVBEInfo__s.html#a5af61d084a35dffa97afd95b69c484b9'', 1, ''VBEInfo_s::productName()''), (''../structVideoInfo__s.html#a4ffb0df3b011a6a17d9eead4dfb719c6'', 1, ''VideoInfo_s::productName()''), (''../VBEInfo_8h.html#a4a9d355faece5b6c3233e5ca57a82313'', 1, ''productName():&#160;VBEInfo.h'')]),
     (''productrev'', ''productRev'', [(''../structVBEInfo__s.html#a6f38039ef88f9738a0337ecfe11927ff'', 1, ''VBEInfo_s::productRev()''), (''../structVideoInfo__s.html#ae63f7002df3613f4b0e7bbf1728d90a4'', 1, ''VideoInfo_s::productRev()''), (''../VBEInfo_8h.html#ab60c48e7807f9c75aab3c44d309b60ed'', 1, ''productRev():&#160;VBEInfo.h'')]),
     (''property'', ''property'', [(''../union__io__message_1_1POSITION.html#ad86dd8b568c455becdb235e3fd460d4e'', 1, ''_io_message::POSITION'')]),
     (''protocol'', ''protocol'', [(''../structipv4__t.html#a9bf3bb8bf93b4b20ca200361b47fff7e'', 1, ''ipv4_t'')]),
     (''protocol_5faddr_5flen'', ''protocol_addr_len'', [(''../struct____attribute____.html#af7d44e2da713bfa97782f5823c2b7eb4'', 1, ''__attribute__'')]),
     (''protocol_5ftype'', ''protocol_type'', [(''../struct____attribute____.html#a83a92dd9a7e5acf5d82c674ad41f8432'', 1, ''__attribute__'')]),
     (''prt_5fstatus'', ''prt_status'', [(''../ulibc_8c.html#ab3ad6782bbd51c1cd382577772d9ea98'', 1, ''prt_status(char *msg, status_t stat):&#160;ulibc.c''), (''../ulib_8h.html#ab3ad6782bbd51c1cd382577772d9ea98'', 1, ''prt_status(char *msg, status_t stat):&#160;ulibc.c'')]),
     (''ps_5fblocked'', ''PS_BLOCKED'', [(''../types_8h.html#a74a75e4700f1f71bb89d80765319e57ba04c361142369a00a37063d0e983d1648'', 1, ''types.h'')]),
     (''ps_5ffirst_5flive'', ''PS_FIRST_LIVE'', [(''../types_8h.html#a94e1f45d78ebfc615cb5a3ae7b0202ba'', 1, ''types.h'')]),
     (''ps_5ffree'', ''PS_FREE'', [(''../types_8h.html#a74a75e4700f1f71bb89d80765319e57baa82b383198cb64eaa245f6412c55abc7'', 1, ''types.h'')]),
     (''ps_5finvalid'', ''PS_INVALID'', [(''../types_8h.html#a74a75e4700f1f71bb89d80765319e57baedef692a8b6d4b94a52febf7fa704a35'', 1, ''types.h'')]),
     (''ps_5fkilled'', ''PS_KILLED'', [(''../types_8h.html#a74a75e4700f1f71bb89d80765319e57ba9ed452fc6c3f1b500b256b05f1019d9e'', 1, ''types.h'')]),
     (''ps_5flast_5flive'', ''PS_LAST_LIVE'', [(''../types_8h.html#acedb56c13f62fc96ca9171b37e572ba9'', 1, ''types.h'')]),
     (''ps_5fnew'', ''PS_NEW'', [(''../types_8h.html#a74a75e4700f1f71bb89d80765319e57bac47f7b586fa1283d87671f34b655fa7d'', 1, ''types.h'')]),
     (''ps_5fready'', ''PS_READY'', [(''../types_8h.html#a74a75e4700f1f71bb89d80765319e57bad704bca1f4a52c376b2fc453fe8ecc9a'', 1, ''types.h'')]),
     (''ps_5frunning'', ''PS_RUNNING'', [(''../types_8h.html#a74a75e4700f1f71bb89d80765319e57ba0abc21448f7a1b6511a02a8f74baab74'', 1, ''types.h'')]),
     (''ps_5fsleeping'', ''PS_SLEEPING'', [(''../types_8h.html#a74a75e4700f1f71bb89d80765319e57bad1da05efd04b4eb66955b784a6f0f6c1'', 1, ''types.h'')]),
     (''ps_5fwaiting'', ''PS_WAITING'', [(''../types_8h.html#a74a75e4700f1f71bb89d80765319e57bad89ef86aa8f1c6e7ddf0860603095100'', 1, ''types.h'')]),
     (''ps_5fzombie'', ''PS_ZOMBIE'', [(''../types_8h.html#a74a75e4700f1f71bb89d80765319e57bad3623e1a6b38fdc6b2654a121d7953a6'', 1, ''types.h'')]),
     (''psfont'', ''PSFont'', [(''../PSFont_8h.html#a5a083aac205d194df13f9abe5e66d5dd'', 1, ''PSFont.h'')]),
     (''psfont_2eh'', ''PSFont.h'', [(''../PSFont_8h.html'', 1, '''')]),
     (''psfont_5fmagic'', ''PSFONT_MAGIC'', [(''../PSFont_8h.html#ab5ca4aba6875f5f3606d69fe51a030d4'', 1, ''PSFont.h'')]),
     (''psfont_5fs'', ''PSFont_s'', [(''../structPSFont__s.html'', 1, '''')]),
     (''ptrdiff_5ft'', ''ptrdiff_t'', [(''../stddef_8h.html#afbe679a40a36da5983ebc5b39754c065'', 1, ''stddef.h'')]),
     (''pubfat_2ec'', ''pubfat.c'', [(''../pubfat_8c.html'', 1, '''')]),
     (''pubfat_2eh'', ''pubfat.h'', [(''../pubfat_8h.html'', 1, '''')])]"

definition searchData_all_11 :: "search_entry list" where
  "searchData_all_11 =
    [(''q_5fdefault'', ''q_default'', [(''../structpcb.html#ae3273eb37a8c1c048f7b4022d78eb52e'', 1, ''pcb'')]),
     (''q_5fticks'', ''q_ticks'', [(''../structpcb.html#a335e82be26a6de4ed681f1c04773e31c'', 1, ''pcb'')]),
     (''qnode_5ft'', ''qnode_t'', [(''../queue_8h.html#a52cfcd93d8edc0bc25978af276fc0ee0'', 1, ''queue.h'')]),
     (''quant_5fstd'', ''QUANT_STD'', [(''../clock_8h.html#ade0cf988d80aa565457d4ff716be7097'', 1, ''clock.h'')]),
     (''query_2eh'', ''query.h'', [(''../query_8h.html'', 1, '''')]),
     (''queue_2ec'', ''queue.c'', [(''../queue_8c.html'', 1, '''')]),
     (''queue_2eh'', ''queue.h'', [(''../queue_8h.html'', 1, '''')]),
     (''queue_5ft'', ''queue_t'', [(''../queue_8h.html#a3c299ace3daf4e4b3ac805ac7d1a3ea5'', 1, ''queue.h'')])]"

definition searchData_all_12 :: "search_entry list" where
  "searchData_all_12 =
    [(''ramdisk_2ec'', ''ramdisk.c'', [(''../ramdisk_8c.html'', 1, '''')]),
     (''ramdisk_2eh'', ''ramdisk.h'', [(''../ramdisk_8h.html'', 1, '''')]),
     (''ramdisk_5ffinalize'', ''ramdisk_finalize'', [(''../ramdisk_8c.html#acb0f0f9cce23a50b1193bd81981b9a00'', 1, ''ramdisk_finalize(void):&#160;ramdisk.c''), (''../ramdisk_8h.html#acb0f0f9cce23a50b1193bd81981b9a00'', 1, ''ramdisk_finalize(void):&#160;ramdisk.c'')]),
     (''ramdisk_5finstall'', ''ramdisk_install'', [(''../ramdisk_8c.html#ab73f0ee939c807f1b59b8ec4938f7567'', 1, ''ramdisk_install():&#160;ramdisk.c''), (''../ramdisk_8h.html#a7239154864f5d3c154a60276350c6bb0'', 1, ''ramdisk_install(void):&#160;ramdisk.c'')]),
     (''ramdisk_5fread'', ''ramdisk_read'', [(''../ramdisk_8c.html#ab1d866653849491ae29f49d081bee0cd'', 1, ''ramdisk_read(int offset, PBSIZE length, void *buffer):&#160;ramdisk.c''), (''../ramdisk_8h.html#adde670a29179dbc627b05643b9a95924'', 1, ''ramdisk_read(BOFFSET offset, PBSIZE length, void *buffer):&#160;ramdisk.c'')]),
     (''ramdisk_5fwrite'', ''ramdisk_write'', [(''../ramdisk_8c.html#a7a4b8aeeb3b41aecfb8a7ffbfa7b0e53'', 1, ''ramdisk_write(int offset, PBSIZE length, void *buffer):&#160;ramdisk.c''), (''../ramdisk_8h.html#a72b7255deef18249483c3f6ee55fce32'', 1, ''ramdisk_write(BOFFSET offset, PBSIZE length, void *buffer):&#160;ramdisk.c'')]),
     (''raw_2ec'', ''raw.c'', [(''../raw_8c.html'', 1, '''')]),
     (''raw_2eh'', ''raw.h'', [(''../raw_8h.html'', 1, '''')]),
     (''raw_5fexecute'', ''raw_execute'', [(''../raw_8c.html#aad9d02dd657dc6bb035d1dc0f39510ad'', 1, ''raw_execute(PIO_MESSAGE msg):&#160;raw.c''), (''../raw_8h.html#aad9d02dd657dc6bb035d1dc0f39510ad'', 1, ''raw_execute(PIO_MESSAGE msg):&#160;raw.c'')]),
     (''raw_5ffinalize'', ''raw_finalize'', [(''../raw_8c.html#ae5c2dceee5f9b5cc50a8c83cfaa82023'', 1, ''raw_finalize():&#160;raw.c''), (''../raw_8h.html#a05d20838ee4bd727234eea2e26dda7ab'', 1, ''raw_finalize(void):&#160;raw.c'')]),
     (''raw_5finit'', ''raw_init'', [(''../raw_8c.html#aba5008442f39805c1b1baf6574a93e11'', 1, ''raw_init():&#160;raw.c''), (''../raw_8h.html#a65149aab053114fd7f56476f8d15b479'', 1, ''raw_init(void):&#160;raw.c'')]),
     (''raw_5finstall'', ''raw_install'', [(''../raw_8c.html#abd6419249fbb6d2011c8ae03f99f1ed4'', 1, ''raw_install(void):&#160;raw.c''), (''../raw_8h.html#abd6419249fbb6d2011c8ae03f99f1ed4'', 1, ''raw_install(void):&#160;raw.c'')]),
     (''raw_5fprocess_5fquery'', ''raw_process_query'', [(''../raw_8c.html#a058a6892abefc8523ad864db5351136a'', 1, ''raw.c'')]),
     (''read'', ''read'', [(''../struct__io__file__instance.html#ab748e9b94ec6f02caf5304ae8a0f32e8'', 1, ''_io_file_instance::read()''), (''../struct__ft__de__inmem.html#a576712839d55294fd87e68393f6b7a2d'', 1, ''_ft_de_inmem::read()''), (''../struct__io__device.html#a693996c8e82b9775c1cab702b059eaee'', 1, ''_io_device::read()''), (''../ulib_8h.html#a139199e288fc4e0e524f38d4f579a208'', 1, ''read():&#160;ulib.h'')]),
     (''read_2eh'', ''read.h'', [(''../read_8h.html'', 1, '''')]),
     (''read_5fcluster_5fentry'', ''read_cluster_entry'', [(''../cache_8h.html#a88c2102d05146f1bb53fb3c8d09e8ad0'', 1, ''cache.h'')]),
     (''read_5fnext_5fdentry'', ''read_next_dentry'', [(''../fat_8c.html#a7e5538ed8937fa388a7abeda6c0f352a'', 1, ''read_next_dentry(PFAT_CONTEXT ctx, FAT_DENTRY *parent, int32_t offset, FAT_DENTRY *dentry):&#160;fat.c''), (''../fat_8h.html#a7e5538ed8937fa388a7abeda6c0f352a'', 1, ''read_next_dentry(PFAT_CONTEXT ctx, FAT_DENTRY *parent, int32_t offset, FAT_DENTRY *dentry):&#160;fat.c'')]),
     (''ready'', ''READY'', [(''../c__io_8c.html#ad1235d5ce36f7267285e82dccd428aa6'', 1, ''c_io.c'')]),
     (''realmode_2eh'', ''realmode.h'', [(''../realmode_8h.html'', 1, '''')]),
     (''realmode_2eh'', ''realmode.h'', [(''../early_2realmode_8h.html'', 1, '''')]),
     (''realprog_5faddress'', ''REALPROG_ADDRESS'', [(''../bootstrap_8h.html#a62626a7a6a052ee8d05fe095eaf3a514'', 1, ''bootstrap.h'')]),
     (''realprog_5fsegment'', ''REALPROG_SEGMENT'', [(''../bootstrap_8h.html#a3af4a9865b8ab2af06e1f0af787dd039'', 1, ''bootstrap.h'')]),
     (''rect'', ''Rect'', [(''../Rect_8h.html#a0202f501d7daf77b80a6bab0c7089ac5'', 1, ''Rect.h'')]),
     (''rect_2ec'', ''rect.c'', [(''../rect_8c.html'', 1, '''')]),
     (''rect_2eh'', ''Rect.h'', [(''../Rect_8h.html'', 1, ''(Global Namespace)''), (''../rect_8h.html'', 1, ''(Global Namespace)'')]),
     (''rect_5fs'', ''Rect_s'', [(''../structRect__s.html'', 1, '''')]),
     (''redfieldposition'', ''RedFieldPosition'', [(''../structVBE2ModeInfo__s.html#a508f9a05f961e0e7a05fa99694d32f21'', 1, ''VBE2ModeInfo_s::RedFieldPosition()''), (''../structVBE3ModeInfo__s.html#a6b13f0f31108b0c5d8ad17e6f3ad9691'', 1, ''VBE3ModeInfo_s::RedFieldPosition()''), (''../VBE2ModeInfo_8h.html#a20cb142b8c1b0a2b41244fef469a11f4'', 1, ''RedFieldPosition():&#160;VBE2ModeInfo.h''), (''../VBE3ModeInfo_8h.html#a20cb142b8c1b0a2b41244fef469a11f4'', 1, ''RedFieldPosition():&#160;VBE3ModeInfo.h'')]),
     (''redgreenlowbits'', ''RedGreenLowBits'', [(''../structEDIDRecord__s.html#acf0faba2f914d501cac1f22fd1c67989'', 1, ''EDIDRecord_s::RedGreenLowBits()''), (''../EDIDRecord_8h.html#a7e0da632aeda137db72199307f185ff3'', 1, ''RedGreenLowBits():&#160;EDIDRecord.h'')]),
     (''redmasksize'', ''RedMaskSize'', [(''../structVBE2ModeInfo__s.html#a10fdf8ad65f23762f58abee3f7255553'', 1, ''VBE2ModeInfo_s::RedMaskSize()''), (''../structVBE3ModeInfo__s.html#a6de0c3ab29e6308eddb5fbdd93c47f1e'', 1, ''VBE3ModeInfo_s::RedMaskSize()''), (''../VBE2ModeInfo_8h.html#a5e25f6a8eedde631fff577bcf7d4f6f4'', 1, ''RedMaskSize():&#160;VBE2ModeInfo.h''), (''../VBE3ModeInfo_8h.html#a5e25f6a8eedde631fff577bcf7d4f6f4'', 1, ''RedMaskSize():&#160;VBE3ModeInfo.h'')]),
     (''redrawprocess'', ''redrawProcess'', [(''../user_8c.html#a731c90c60946c904c48f7904bbc7d5da'', 1, ''user.c'')]),
     (''redx'', ''RedX'', [(''../structEDIDRecord__s.html#aaad2ef0984a2820628050a2c76089a2a'', 1, ''EDIDRecord_s::RedX()''), (''../EDIDRecord_8h.html#ab754b4066269a988a2d39c8e4eb75d4c'', 1, ''RedX():&#160;EDIDRecord.h'')]),
     (''redy'', ''RedY'', [(''../structEDIDRecord__s.html#ab0d917159a2376a05741a2efd9a19061'', 1, ''EDIDRecord_s::RedY()''), (''../EDIDRecord_8h.html#a5404374b00dccdbda5200e042c331bda'', 1, ''RedY():&#160;EDIDRecord.h'')]),
     (''refresh'', ''refresh'', [(''../structVideoTiming__s.html#a2a273bad907586b57f56a3c3a8574a95'', 1, ''VideoTiming_s'')]),
     (''reg'', ''REG'', [(''../process_8h.html#a9c5e488ae1edfbb7d331a3df7facd821'', 1, ''process.h'')]),
     (''regs16_5fs'', ''regs16_s'', [(''../structregs16__s.html'', 1, '''')]),
     (''regs16_5ft'', ''regs16_t'', [(''../early_2realmode_8h.html#ad4a2d143e4967488e525608926ab7b43'', 1, ''regs16_t():&#160;realmode.h''), (''../realmode_8h.html#ad4a2d143e4967488e525608926ab7b43'', 1, ''regs16_t():&#160;realmode.h'')]),
     (''report'', ''report'', [(''../user_8c.html#a14b819a223b72ad564d26d9940291789'', 1, ''user.c'')]),
     (''reserved'', ''reserved'', [(''../struct__ft__fsinfo.html#a454b046cbfe07874466bb1491d736bc5'', 1, ''_ft_fsinfo::reserved()''), (''../struct__ft__bpb.html#af5f96b628bccc0a9e4469706ea0e4b93'', 1, ''_ft_bpb::reserved()''), (''../structVBEInfo__s.html#a7dcd3557755d98efc44dd3119750a1ff'', 1, ''VBEInfo_s::reserved()''), (''../VBEInfo_8h.html#a943ae6a78d3b0d24d40c35cf835a4e42'', 1, ''reserved():&#160;VBEInfo.h'')]),
     (''reserved0'', ''reserved0'', [(''../structVBE2ModeInfo__s.html#aac6879d51ecc2dbb0346fbea2bd12845'', 1, ''VBE2ModeInfo_s::reserved0()''), (''../structVBE3ModeInfo__s.html#af26bbe68c1d671f98113e704098c120f'', 1, ''VBE3ModeInfo_s::reserved0()''), (''../VBE2ModeInfo_8h.html#a41d97db724f4cb89bc3263f802c32493'', 1, ''reserved0():&#160;VBE2ModeInfo.h''), (''../VBE3ModeInfo_8h.html#a41d97db724f4cb89bc3263f802c32493'', 1, ''reserved0():&#160;VBE3ModeInfo.h'')]),
     (''reserved1'', ''reserved1'', [(''../structVBE2ModeInfo__s.html#abb8a1c68e6ffe327eae5df6df6f7a46e'', 1, ''VBE2ModeInfo_s::reserved1()''), (''../structVBE3ModeInfo__s.html#a169ba19f4f4eb7c2c467e38bff168ee2'', 1, ''VBE3ModeInfo_s::reserved1()''), (''../VBE2ModeInfo_8h.html#ac8dd9d27e47ecb72a75fd14d5da57bfc'', 1, ''reserved1():&#160;VBE2ModeInfo.h''), (''../VBE3ModeInfo_8h.html#aef9bb556c1530f5d648fd57e73b9a105'', 1, ''reserved1():&#160;VBE3ModeInfo.h'')]),
     (''reserved2'', ''reserved2'', [(''../struct__ft__fsinfo.html#aa30e41013f0189a4263dae3c5d7c616e'', 1, ''_ft_fsinfo::reserved2()''), (''../structVBE3ModeInfo__s.html#ac93772927ffbd860713048113ad684a1'', 1, ''VBE3ModeInfo_s::reserved2()''), (''../VBE3ModeInfo_8h.html#a0fc429b055e74830a4583ec37f5c3846'', 1, ''reserved2():&#160;VBE3ModeInfo.h'')]),
     (''reserved3'', ''reserved3'', [(''../structVBE3ModeInfo__s.html#a4d66b6a8faed8a7f078a74f807bbd219'', 1, ''VBE3ModeInfo_s::reserved3()''), (''../VBE3ModeInfo_8h.html#a54e5c14953f14cf76f3366d905b78ce1'', 1, ''reserved3():&#160;VBE3ModeInfo.h'')]),
     (''reserved_5ftype'', ''RESERVED_TYPE'', [(''../memory__constants_8h.html#aa6f505a08f5e1df13b5dc2cd116ead09'', 1, ''memory_constants.h'')]),
     (''reservednt'', ''reservednt'', [(''../struct__ft__de__sd.html#ae39d2e5d3c5aca7eac635b08aff7da3b'', 1, ''_ft_de_sd'')]),
     (''rest_5fof_5fheader'', ''rest_of_header'', [(''../structicmp__t.html#a69f559c728e50429795f96788ffffcc1'', 1, ''icmp_t'')]),
     (''ret'', ''RET'', [(''../process_8h.html#a7da9962fe8da371e7cb567c0c9c7c9ce'', 1, ''process.h'')]),
     (''returned'', ''RETURNED'', [(''../io__types_8h.html#a9fe4ad9296c316e0bd0320dd9aedadc8'', 1, ''io_types.h'')]),
     (''revision'', ''Revision'', [(''../structEDIDRecord__s.html#a1b3cc409e6e79802d0116f1b3a062602'', 1, ''EDIDRecord_s::Revision()''), (''../EDIDRecord_8h.html#a55eb3228cf0540a1e7ee4fa81453e29c'', 1, ''Revision():&#160;EDIDRecord.h'')]),
     (''rfa'', ''rfa'', [(''../structnic__info.html#aacec16ae255760baa80c228b801de4c0'', 1, ''nic_info'')]),
     (''rfd_5ft'', ''rfd_t'', [(''../structrfd__t.html'', 1, '''')]),
     (''rgl_5frect_5fbottom'', ''RGL_RECT_BOTTOM'', [(''../Rect_8h.html#af0c498312f4d491776dc486ed1d9907e'', 1, ''Rect.h'')]),
     (''rgl_5frect_5fleft'', ''RGL_RECT_LEFT'', [(''../Rect_8h.html#a76a9d803be4c1a03b57dd8bb5f483613'', 1, ''Rect.h'')]),
     (''rgl_5frect_5fright'', ''RGL_RECT_RIGHT'', [(''../Rect_8h.html#aec95481f19bf01d49b71cfa7a6a40348'', 1, ''Rect.h'')]),
     (''rgl_5frect_5ftop'', ''RGL_RECT_TOP'', [(''../Rect_8h.html#ac640d7c820cab1d764ef8859b4ea6b96'', 1, ''Rect.h'')]),
     (''rgl_5frect_5fzero'', ''RGL_RECT_ZERO'', [(''../Rect_8h.html#a6e56e0f4f7ffced35cfbc1aeb581b1a1'', 1, ''Rect.h'')]),
     (''rmtext_5faddress'', ''RMTEXT_ADDRESS'', [(''../bootstrap_8h.html#ab167e8e7199b8e5dfb0ab8acfbf06800'', 1, ''bootstrap.h'')]),
     (''rmtext_5fsegment'', ''RMTEXT_SEGMENT'', [(''../bootstrap_8h.html#a5f9dada0fcfea64507aacf0e22b69a6c'', 1, ''bootstrap.h'')]),
     (''router_2ec'', ''router.c'', [(''../router_8c.html'', 1, '''')]),
     (''router_2eh'', ''router.h'', [(''../router_8h.html'', 1, '''')]),
     (''rows'', ''rows'', [(''../structVCon__s.html#a201f63f6bc8a6682c9dc0379c9dbb46e'', 1, ''VCon_s'')]),
     (''ru_5fidle'', ''ru_idle'', [(''../intel_8h.html#a56fc70fac0e85180f470f88ce8580b8aa667920a4930bcedf66b564cd7f0c3db6'', 1, ''intel.h'')]),
     (''ru_5fmask'', ''ru_mask'', [(''../intel_8h.html#a56fc70fac0e85180f470f88ce8580b8aa6a550ac42c2dda5c2db790a665195af0'', 1, ''intel.h'')]),
     (''ru_5fno_5fresources'', ''ru_no_resources'', [(''../intel_8h.html#a56fc70fac0e85180f470f88ce8580b8aa76a101b44f8b8c5cbe6e532015655887'', 1, ''intel.h'')]),
     (''ru_5fready'', ''ru_ready'', [(''../intel_8h.html#a56fc70fac0e85180f470f88ce8580b8aa752694d17d6bcbe66c44246d6cb37e58'', 1, ''intel.h'')]),
     (''ru_5fsuspended'', ''ru_suspended'', [(''../intel_8h.html#a56fc70fac0e85180f470f88ce8580b8aabe992f669d461a5826c081f5a08609dc'', 1, ''intel.h'')]),
     (''ruc_5fabort'', ''ruc_abort'', [(''../intel_8h.html#ac85ebe3efb133fedbf66ca90cb1e98a0aa524287fec33a0d94874b11c9caf9bbc'', 1, ''intel.h'')]),
     (''ruc_5fload_5fheader_5fdata_5fsize'', ''ruc_load_header_data_size'', [(''../intel_8h.html#ac85ebe3efb133fedbf66ca90cb1e98a0a1d8c4aeb8f1caafa0947f9423398018c'', 1, ''intel.h'')]),
     (''ruc_5fload_5fru_5fbase'', ''ruc_load_ru_base'', [(''../intel_8h.html#ac85ebe3efb133fedbf66ca90cb1e98a0a9be7598e5bbc32618b27b59e0bbc9c42'', 1, ''intel.h'')]),
     (''ruc_5fnop'', ''ruc_nop'', [(''../intel_8h.html#ac85ebe3efb133fedbf66ca90cb1e98a0ae7493e3d6e79c8af7e58793bbd3486a1'', 1, ''intel.h'')]),
     (''ruc_5frecv_5fdma_5fredir'', ''ruc_recv_dma_redir'', [(''../intel_8h.html#ac85ebe3efb133fedbf66ca90cb1e98a0a1c58ed224be728fc055e4b103957d096'', 1, ''intel.h'')]),
     (''ruc_5fresume'', ''ruc_resume'', [(''../intel_8h.html#ac85ebe3efb133fedbf66ca90cb1e98a0aab248c6d377bca877e2d4241ad7f32f4'', 1, ''intel.h'')]),
     (''ruc_5fstart'', ''ruc_start'', [(''../intel_8h.html#ac85ebe3efb133fedbf66ca90cb1e98a0a01f8f53dd5f7ca150255f408945d5a49'', 1, ''intel.h'')]),
     (''rvsdfieldposition'', ''RvsdFieldPosition'', [(''../structVBE2ModeInfo__s.html#a3a411a42f8510394bc233108dbfa3712'', 1, ''VBE2ModeInfo_s::RvsdFieldPosition()''), (''../structVBE3ModeInfo__s.html#ae8c0c6cc86f7eac40ef3263b6d50343b'', 1, ''VBE3ModeInfo_s::RvsdFieldPosition()''), (''../VBE2ModeInfo_8h.html#aa571de10d69dff8b083c9beab32c6917'', 1, ''RvsdFieldPosition():&#160;VBE2ModeInfo.h''), (''../VBE3ModeInfo_8h.html#aa571de10d69dff8b083c9beab32c6917'', 1, ''RvsdFieldPosition():&#160;VBE3ModeInfo.h'')]),
     (''rvsdmasksize'', ''RvsdMaskSize'', [(''../structVBE2ModeInfo__s.html#a42394d249ae9f58ccc9c1e46c209ced0'', 1, ''VBE2ModeInfo_s::RvsdMaskSize()''), (''../structVBE3ModeInfo__s.html#ae63c543a2dbc4115e3014a6844a3ddd3'', 1, ''VBE3ModeInfo_s::RvsdMaskSize()''), (''../VBE2ModeInfo_8h.html#a0fafeb483fa890dae7c73af188a171ae'', 1, ''RvsdMaskSize():&#160;VBE2ModeInfo.h''), (''../VBE3ModeInfo_8h.html#a0fafeb483fa890dae7c73af188a171ae'', 1, ''RvsdMaskSize():&#160;VBE3ModeInfo.h'')]),
     (''rx_5fdma_5fbyte_5fcount'', ''rx_dma_byte_count'', [(''../structcsr.html#ac156afb894e0c1e370cd416e9aa67743'', 1, ''csr'')])]"

definition searchData_all_13 :: "search_entry list" where
  "searchData_all_13 =
    [(''scan_5fcode'', ''scan_code'', [(''../c__io_8c.html#a2edc302dad374bdef01e535972f66a29'', 1, ''c_io.c'')]),
     (''scb'', ''scb'', [(''../structcsr.html#ad07ae0c6836856bbd940c27a04544993'', 1, ''csr'')]),
     (''scb_5fcontrol'', ''scb_control'', [(''../intel_8h.html#ac85ebe3efb133fedbf66ca90cb1e98a0'', 1, ''intel.h'')]),
     (''scb_5fstat_5fack'', ''scb_stat_ack'', [(''../intel_8h.html#a23a94247bf73611fba38307f53e60e0f'', 1, ''intel.h'')]),
     (''scb_5fstatus'', ''scb_status'', [(''../intel_8h.html#a56fc70fac0e85180f470f88ce8580b8a'', 1, ''intel.h'')]),
     (''scheduler_2ec'', ''scheduler.c'', [(''../scheduler_8c.html'', 1, '''')]),
     (''scheduler_2eh'', ''scheduler.h'', [(''../scheduler_8h.html'', 1, '''')]),
     (''screen_5fmax_5fx'', ''SCREEN_MAX_X'', [(''../c__io_8c.html#acd9b38ea0d252fd7240dee4d9770ecd0'', 1, ''c_io.c'')]),
     (''screen_5fmax_5fy'', ''SCREEN_MAX_Y'', [(''../c__io_8c.html#aa7df5b7dc3a7756dbe7971ed6318b53c'', 1, ''c_io.c'')]),
     (''screen_5fmin_5fx'', ''SCREEN_MIN_X'', [(''../c__io_8c.html#af5549309e7ee18203953ba06293eea02'', 1, ''c_io.c'')]),
     (''screen_5fmin_5fy'', ''SCREEN_MIN_Y'', [(''../c__io_8c.html#afa9fd098a7e9efd869b26d49861b6d10'', 1, ''c_io.c'')]),
     (''screen_5fx_5fsize'', ''SCREEN_X_SIZE'', [(''../c__io_8c.html#a112b2d25e3417451ca94ea820c150112'', 1, ''c_io.c'')]),
     (''screen_5fy_5fsize'', ''SCREEN_Y_SIZE'', [(''../c__io_8c.html#ae94db8ab05854b67ce4c05045aba3004'', 1, ''c_io.c'')]),
     (''scroll_2ec'', ''scroll.c'', [(''../scroll_8c.html'', 1, '''')]),
     (''scroll_2eh'', ''scroll.h'', [(''../scroll_8h.html'', 1, '''')]),
     (''scrollend'', ''scrollEnd'', [(''../structVCon__s.html#af4eb5f117b07078bb2e7e8bf0c595188'', 1, ''VCon_s'')]),
     (''scrollstart'', ''scrollStart'', [(''../structVCon__s.html#ae6850ea202faafb4f74c9f0f486aa100'', 1, ''VCon_s'')]),
     (''second_5fpde'', ''SECOND_PDE'', [(''../memory__constants_8h.html#a3da15beeba38782744a538ff1929cf75'', 1, ''memory_constants.h'')]),
     (''seconds'', ''seconds'', [(''../struct__f32__time.html#a9e4ecf830c755ed965318ce18395b330'', 1, ''_f32_time::seconds()''), (''../struct__ft__time__packed.html#a5dcde2b307f66a1c2181eee19eb05f46'', 1, ''_ft_time_packed::seconds()'')]),
     (''seconds_5fto_5fms'', ''SECONDS_TO_MS'', [(''../common_8h.html#a0e0e9ca368bc32dea7c55a4efe7637e4'', 1, ''common.h'')]),
     (''seconds_5fto_5fticks'', ''SECONDS_TO_TICKS'', [(''../common_8h.html#ac88ccbc1aa0f9e9590e067759f120ab1'', 1, ''common.h'')]),
     (''sectnmfsinfo'', ''sectnmfsinfo'', [(''../struct__ft__bpb.html#a38dfe801934b5c3e725545c95b5b04ff'', 1, ''_ft_bpb'')]),
     (''sector_5fsig'', ''sector_sig'', [(''../struct__ft__fsinfo.html#a51c36b9378edd8e0eb79ef9f14c5e64e'', 1, ''_ft_fsinfo'')]),
     (''sector_5fsize'', ''sector_size'', [(''../struct__ft__ctxt__block.html#a2b59236bccc1da85b3891b023e521db8'', 1, ''_ft_ctxt_block'')]),
     (''sectorbytes'', ''sectorbytes'', [(''../struct__ft__bpb.html#a74ed43765fc0be34cee6bc0b6c446d71'', 1, ''_ft_bpb'')]),
     (''sectorspercluster'', ''sectorspercluster'', [(''../struct__ft__bpb.html#ab1db6a78e561e5e19808fb9c1ff6ed15'', 1, ''_ft_bpb'')]),
     (''seg_5f32bit'', ''SEG_32BIT'', [(''../x86arch_8h.html#a65c0cc713e986c91aa0e2da7731aabf1'', 1, ''x86arch.h'')]),
     (''seg_5faccess_5fdpl_5fmask'', ''SEG_ACCESS_DPL_MASK'', [(''../x86arch_8h.html#a1568ec7782fed201db6ec8e70869f48e'', 1, ''x86arch.h'')]),
     (''seg_5faccess_5fp_5fbit'', ''SEG_ACCESS_P_BIT'', [(''../x86arch_8h.html#a91859985eff50bbb64fe0c08849505cb'', 1, ''x86arch.h'')]),
     (''seg_5faccess_5fs_5fbit'', ''SEG_ACCESS_S_BIT'', [(''../x86arch_8h.html#a25d33839c3190b838c571bf2de616125'', 1, ''x86arch.h'')]),
     (''seg_5faccess_5ftype_5fmask'', ''SEG_ACCESS_TYPE_MASK'', [(''../x86arch_8h.html#acee7f5c48aa811a9edebe9967475853d'', 1, ''x86arch.h'')]),
     (''seg_5fcode_5fa_5fbit'', ''SEG_CODE_A_BIT'', [(''../x86arch_8h.html#a4ec6d9eaac0db5b663a99498cb71143a'', 1, ''x86arch.h'')]),
     (''seg_5fcode_5fc_5fbit'', ''SEG_CODE_C_BIT'', [(''../x86arch_8h.html#a6a2f3f80c1a95db12db79f68a325715c'', 1, ''x86arch.h'')]),
     (''seg_5fcode_5fr_5fbit'', ''SEG_CODE_R_BIT'', [(''../x86arch_8h.html#a4295d5f24ec74b2e5efce777e3d91ea9'', 1, ''x86arch.h'')]),
     (''seg_5fcode_5fxo'', ''SEG_CODE_XO'', [(''../x86arch_8h.html#a092f7e08825a31716f3308ba18b618c7'', 1, ''x86arch.h'')]),
     (''seg_5fcode_5fxo_5fc'', ''SEG_CODE_XO_C'', [(''../x86arch_8h.html#ad8fa2c40d3dba2acef7d1fe6a7c5b8bc'', 1, ''x86arch.h'')]),
     (''seg_5fcode_5fxo_5fca'', ''SEG_CODE_XO_CA'', [(''../x86arch_8h.html#a30b5e06ffdf831558807f1a9eb2520df'', 1, ''x86arch.h'')]),
     (''seg_5fcode_5fxoa'', ''SEG_CODE_XOA'', [(''../x86arch_8h.html#a846a96592e283e728d05f77bd5c50933'', 1, ''x86arch.h'')]),
     (''seg_5fcode_5fxr'', ''SEG_CODE_XR'', [(''../x86arch_8h.html#a4860f57999c6fd7a2c0547259d044726'', 1, ''x86arch.h'')]),
     (''seg_5fcode_5fxr_5fc'', ''SEG_CODE_XR_C'', [(''../x86arch_8h.html#ac6cc7d4aef22847bf6fecb8468a0d356'', 1, ''x86arch.h'')]),
     (''seg_5fcode_5fxr_5fca'', ''SEG_CODE_XR_CA'', [(''../x86arch_8h.html#a75fa298dc496bc2371f198a81590d8e7'', 1, ''x86arch.h'')]),
     (''seg_5fcode_5fxra'', ''SEG_CODE_XRA'', [(''../x86arch_8h.html#a1784fe91e6671f40e28344b867d7c15e'', 1, ''x86arch.h'')]),
     (''seg_5fdata_5fa_5fbit'', ''SEG_DATA_A_BIT'', [(''../x86arch_8h.html#a61a49a1f5c48c8002832f3a4919891eb'', 1, ''x86arch.h'')]),
     (''seg_5fdata_5fe_5fbit'', ''SEG_DATA_E_BIT'', [(''../x86arch_8h.html#a7de32ece9477fafcbbab253c8c22008f'', 1, ''x86arch.h'')]),
     (''seg_5fdata_5fro'', ''SEG_DATA_RO'', [(''../x86arch_8h.html#ad6836305e6ebe1644c5b37ae17bc5e7d'', 1, ''x86arch.h'')]),
     (''seg_5fdata_5fro_5fxd'', ''SEG_DATA_RO_XD'', [(''../x86arch_8h.html#a0fda18e3745c7b28a1a89d4728594a3d'', 1, ''x86arch.h'')]),
     (''seg_5fdata_5fro_5fxda'', ''SEG_DATA_RO_XDA'', [(''../x86arch_8h.html#a0f8b4b10f266e89fcc65f5e942b0fd68'', 1, ''x86arch.h'')]),
     (''seg_5fdata_5froa'', ''SEG_DATA_ROA'', [(''../x86arch_8h.html#aaf861532196243f2ba4d898a304b1586'', 1, ''x86arch.h'')]),
     (''seg_5fdata_5frw'', ''SEG_DATA_RW'', [(''../x86arch_8h.html#a9461c1e420c3c8b4186af8448257e0fb'', 1, ''x86arch.h'')]),
     (''seg_5fdata_5frw_5fxw'', ''SEG_DATA_RW_XW'', [(''../x86arch_8h.html#a84bee9b5e109c3f5e8fef9c1994db92f'', 1, ''x86arch.h'')]),
     (''seg_5fdata_5frw_5fxwa'', ''SEG_DATA_RW_XWA'', [(''../x86arch_8h.html#aebfbda1d7f17d02477b207f2f769229f'', 1, ''x86arch.h'')]),
     (''seg_5fdata_5frwa'', ''SEG_DATA_RWA'', [(''../x86arch_8h.html#ada13da6be8af9462599fa07488b747b1'', 1, ''x86arch.h'')]),
     (''seg_5fdata_5fw_5fbit'', ''SEG_DATA_W_BIT'', [(''../x86arch_8h.html#a045cb2a0f67c310fd3e73f25c53f6992'', 1, ''x86arch.h'')]),
     (''seg_5fdb_5f16bit'', ''SEG_DB_16BIT'', [(''../x86arch_8h.html#a1d3e122ddd8a970dbba17c22c1096f05'', 1, ''x86arch.h'')]),
     (''seg_5fdb_5f32bit'', ''SEG_DB_32BIT'', [(''../x86arch_8h.html#a5bb0e240e045db4da222e966dadb4c0a'', 1, ''x86arch.h'')]),
     (''seg_5fdpl_5f0'', ''SEG_DPL_0'', [(''../x86arch_8h.html#ace2de2fefdccd3b65f8f5385abdc509d'', 1, ''x86arch.h'')]),
     (''seg_5fdpl_5f1'', ''SEG_DPL_1'', [(''../x86arch_8h.html#ab3dede5118520d62436bc60e30e50344'', 1, ''x86arch.h'')]),
     (''seg_5fdpl_5f2'', ''SEG_DPL_2'', [(''../x86arch_8h.html#a62b644b77d584d6e5342f40f2b1477cf'', 1, ''x86arch.h'')]),
     (''seg_5fdpl_5f3'', ''SEG_DPL_3'', [(''../x86arch_8h.html#ad453b792e956d5792f4de8948ead5243'', 1, ''x86arch.h'')]),
     (''seg_5fgran_5f4kbyte'', ''SEG_GRAN_4KBYTE'', [(''../x86arch_8h.html#aa31c0c1fd47cbc7537751ec65963c308'', 1, ''x86arch.h'')]),
     (''seg_5fgran_5fbyte'', ''SEG_GRAN_BYTE'', [(''../x86arch_8h.html#a7a6ab7c22cd2ed3263aedaaaa371a268'', 1, ''x86arch.h'')]),
     (''seg_5fnon_5fsystem'', ''SEG_NON_SYSTEM'', [(''../x86arch_8h.html#ac52722059ae44c3b854be089d272726d'', 1, ''x86arch.h'')]),
     (''seg_5fpl_5f0'', ''SEG_PL_0'', [(''../x86arch_8h.html#a86480a6a85561fc525f657bcf66f8be6'', 1, ''x86arch.h'')]),
     (''seg_5fpl_5f1'', ''SEG_PL_1'', [(''../x86arch_8h.html#afceb472dcf704ec625a3260afdaa29e3'', 1, ''x86arch.h'')]),
     (''seg_5fpl_5f2'', ''SEG_PL_2'', [(''../x86arch_8h.html#a1239988ee7fc1bc19f6f84179100b806'', 1, ''x86arch.h'')]),
     (''seg_5fpl_5f3'', ''SEG_PL_3'', [(''../x86arch_8h.html#a6fb11f0c7914d169c5d8445e60beb12e'', 1, ''x86arch.h'')]),
     (''seg_5fpresent'', ''SEG_PRESENT'', [(''../x86arch_8h.html#a628b680999d7cca5fb714e233498b398'', 1, ''x86arch.h'')]),
     (''seg_5fs_5fnon_5fsystem'', ''SEG_S_NON_SYSTEM'', [(''../x86arch_8h.html#a45efa3286c92e710a683a4c0bf60f6aa'', 1, ''x86arch.h'')]),
     (''seg_5fs_5fsystem'', ''SEG_S_SYSTEM'', [(''../x86arch_8h.html#a97c6c16ddaf4cb6ad9cb04835399e087'', 1, ''x86arch.h'')]),
     (''seg_5fsel_5fix'', ''SEG_SEL_IX'', [(''../x86arch_8h.html#a88b280fab0ad3a9f8b62ef6b1f22ff39'', 1, ''x86arch.h'')]),
     (''seg_5fsel_5frpl'', ''SEG_SEL_RPL'', [(''../x86arch_8h.html#a6fbc76341a38ce891f1f5464462a9344'', 1, ''x86arch.h'')]),
     (''seg_5fsel_5fti'', ''SEG_SEL_TI'', [(''../x86arch_8h.html#a2693a2726d921fff1b8d82f5667ba676'', 1, ''x86arch.h'')]),
     (''seg_5fsize_5favl_5fbit'', ''SEG_SIZE_AVL_BIT'', [(''../x86arch_8h.html#a210fc8300e5ab36e6581e57b9bdd2020'', 1, ''x86arch.h'')]),
     (''seg_5fsize_5fd_5fb_5fbit'', ''SEG_SIZE_D_B_BIT'', [(''../x86arch_8h.html#ae170db8fd94805a9b8cfa77906ba2b3d'', 1, ''x86arch.h'')]),
     (''seg_5fsize_5fg_5fbit'', ''SEG_SIZE_G_BIT'', [(''../x86arch_8h.html#a5934d73b6433f15898315129dd006667'', 1, ''x86arch.h'')]),
     (''seg_5fsize_5flim_5f19_5f16'', ''SEG_SIZE_LIM_19_16'', [(''../x86arch_8h.html#a6d43e54859bd0818cc6eca0fd1efef5b'', 1, ''x86arch.h'')]),
     (''seg_5fsys_5f16bit_5fcall_5fgate'', ''SEG_SYS_16BIT_CALL_GATE'', [(''../x86arch_8h.html#ab3917f8e1ab8a93e41123c44a328d035'', 1, ''x86arch.h'')]),
     (''seg_5fsys_5f16bit_5fint_5fgate'', ''SEG_SYS_16BIT_INT_GATE'', [(''../x86arch_8h.html#ad59894e22496eb8f43e643aa76c67106'', 1, ''x86arch.h'')]),
     (''seg_5fsys_5f16bit_5ftrap_5fgate'', ''SEG_SYS_16BIT_TRAP_GATE'', [(''../x86arch_8h.html#a2ba4523267ba9f58771ec6bbc7bc7627'', 1, ''x86arch.h'')]),
     (''seg_5fsys_5f16bit_5ftss_5favail'', ''SEG_SYS_16BIT_TSS_AVAIL'', [(''../x86arch_8h.html#add9c477cb1d7cf59236ce50058c5c79c'', 1, ''x86arch.h'')]),
     (''seg_5fsys_5f16bit_5ftss_5fbusy'', ''SEG_SYS_16BIT_TSS_BUSY'', [(''../x86arch_8h.html#a1bad9b6ec4021349ced93ca86fdf2af3'', 1, ''x86arch.h'')]),
     (''seg_5fsys_5f32bit_5fcall_5fgate'', ''SEG_SYS_32BIT_CALL_GATE'', [(''../x86arch_8h.html#a98e1b0e8107b5a2777c7fc068e7eb374'', 1, ''x86arch.h'')]),
     (''seg_5fsys_5f32bit_5fint_5fgate'', ''SEG_SYS_32BIT_INT_GATE'', [(''../x86arch_8h.html#aae6d27c3d595bc7943a7bb488d02f0f6'', 1, ''x86arch.h'')]),
     (''seg_5fsys_5f32bit_5ftrap_5fgate'', ''SEG_SYS_32BIT_TRAP_GATE'', [(''../x86arch_8h.html#a5ee475af1eb41a10705552ca482fa356'', 1, ''x86arch.h'')]),
     (''seg_5fsys_5f32bit_5ftss_5favail'', ''SEG_SYS_32BIT_TSS_AVAIL'', [(''../x86arch_8h.html#aed9a5ec062700f87cfd17e3f9a0702b9'', 1, ''x86arch.h'')]),
     (''seg_5fsys_5f32bit_5ftss_5fbusy'', ''SEG_SYS_32BIT_TSS_BUSY'', [(''../x86arch_8h.html#a3e5fe37fa90884a615c843da7150adcd'', 1, ''x86arch.h'')]),
     (''seg_5fsys_5fldt'', ''SEG_SYS_LDT'', [(''../x86arch_8h.html#a491a1ded914c512895d7ce95f7dc378c'', 1, ''x86arch.h'')]),
     (''seg_5fsys_5ftask_5fgate'', ''SEG_SYS_TASK_GATE'', [(''../x86arch_8h.html#ac453a02be0728732fa3cbaa35c18702c'', 1, ''x86arch.h'')]),
     (''seg_5fsystem'', ''SEG_SYSTEM'', [(''../x86arch_8h.html#acd4485f4c48b42d1020cfec2761fd85d'', 1, ''x86arch.h'')]),
     (''segment_5fselector'', ''segment_selector'', [(''../structIDT__Gate.html#af90228fda86600995b68f56cb45324a6'', 1, ''IDT_Gate'')]),
     (''send_5fipv4'', ''send_ipv4'', [(''../intel_8c.html#aea3425afc87f471d89494c65bc4e3515'', 1, ''send_ipv4(uint32_t dst_ip, void *data, uint32_t length, ip_protocol_t protocol):&#160;intel.c''), (''../intel_8h.html#aea3425afc87f471d89494c65bc4e3515'', 1, ''send_ipv4(uint32_t dst_ip, void *data, uint32_t length, ip_protocol_t protocol):&#160;intel.c'')]),
     (''send_5fpacket'', ''send_packet'', [(''../intel_8c.html#a5987aa7913a68af3418f6cbc0f297afd'', 1, ''send_packet(uint8_t dst_hw_addr[], void *data, uint16_t length, ethertype_t ethertype):&#160;intel.c''), (''../intel_8h.html#a5987aa7913a68af3418f6cbc0f297afd'', 1, ''send_packet(uint8_t dst_hw_addr[], void *data, uint16_t length, ethertype_t ethertype):&#160;intel.c'')]),
     (''sender_5fhw_5faddr'', ''sender_hw_addr'', [(''../struct____attribute____.html#ab375179962629b227dec9411af420885'', 1, ''__attribute__'')]),
     (''sender_5fprotocol_5faddr'', ''sender_protocol_addr'', [(''../struct____attribute____.html#ac6ec092349f5ab33d3c3953824fd691d'', 1, ''__attribute__'')]),
     (''serialcode'', ''SerialCode'', [(''../structEDIDRecord__s.html#a14e03bed6a499ce06355c01c50fdf697'', 1, ''EDIDRecord_s::SerialCode()''), (''../EDIDRecord_8h.html#ad82729cdd26a06897a6e47978eef7cfa'', 1, ''SerialCode():&#160;EDIDRecord.h'')]),
     (''set_2eh'', ''set.h'', [(''../set_8h.html'', 1, '''')]),
     (''set_5fip'', ''set_ip'', [(''../intel_8c.html#a54801e69dc8418eb19f38e2187d8af6c'', 1, ''set_ip(uint32_t ip):&#160;intel.c''), (''../intel_8h.html#a54801e69dc8418eb19f38e2187d8af6c'', 1, ''set_ip(uint32_t ip):&#160;intel.c'')]),
     (''set_5fpage_5fdirectory'', ''set_page_directory'', [(''../memory__map_8c.html#aa0c697840a92964dd8afac6ec5310961'', 1, ''set_page_directory(address_space_t directory):&#160;memory_map.c''), (''../memory__map_8h.html#aa0c697840a92964dd8afac6ec5310961'', 1, ''set_page_directory(address_space_t directory):&#160;memory_map.c'')]),
     (''set_5fpat'', ''set_pat'', [(''../memory__map_8c.html#a55db9b14fad4bbe07c890723e57ffb23'', 1, ''memory_map.c'')]),
     (''set_5freturn_5fpde'', ''set_return_pde'', [(''../memory__map_8c.html#adbd0a7c3d16b01959d7ffc7ea8cb90a3'', 1, ''set_return_pde(address_space_t dir):&#160;memory_map.c''), (''../memory__map_8h.html#adbd0a7c3d16b01959d7ffc7ea8cb90a3'', 1, ''set_return_pde(address_space_t dir):&#160;memory_map.c'')]),
     (''setup_5finitial_5fpage_5ftable'', ''setup_initial_page_table'', [(''../memory__map_8c.html#a0d5da4230626c55a10d77ca3c9f35630'', 1, ''setup_initial_page_table(void):&#160;memory_map.c''), (''../memory__map_8h.html#a0d5da4230626c55a10d77ca3c9f35630'', 1, ''setup_initial_page_table(void):&#160;memory_map.c'')]),
     (''setup_5fpage_5favailibility_5ftable'', ''setup_page_availibility_table'', [(''../memory__map_8c.html#a1493b531b384461228d0ae58b67c1f1c'', 1, ''setup_page_availibility_table(void):&#160;memory_map.c''), (''../memory__map_8h.html#a1493b531b384461228d0ae58b67c1f1c'', 1, ''setup_page_availibility_table(void):&#160;memory_map.c'')]),
     (''si'', ''si'', [(''../structregs16__s.html#a562b425356e326837fc6a9f7e15fa4ed'', 1, ''regs16_s::si()''), (''../realmode_8h.html#aed7efe155e4e944aac18f1b8bfe2ecb4'', 1, ''si():&#160;realmode.h'')]),
     (''signature'', ''signature'', [(''../struct__ft__bpb.html#a2a4dbe792f5724ae2016433e8a536fe5'', 1, ''_ft_bpb::signature()''), (''../structVBEInfo__s.html#a09a35baa68713654ad3a0437789e6bf1'', 1, ''VBEInfo_s::signature()''), (''../VBEInfo_8h.html#a7df4f23794127d1af7b8361d982c6ee4'', 1, ''signature():&#160;VBEInfo.h'')]),
     (''simple_5fmount_2ec'', ''simple_mount.c'', [(''../simple__mount_8c.html'', 1, '''')]),
     (''simple_5fmount_2eh'', ''simple_mount.h'', [(''../simple__mount_8h.html'', 1, '''')]),
     (''sio_2ec'', ''sio.c'', [(''../sio_8c.html'', 1, '''')]),
     (''sio_2eh'', ''sio.h'', [(''../sio_8h.html'', 1, '''')]),
     (''sio_5fboth'', ''SIO_BOTH'', [(''../sio_8h.html#a6b3d8a9d97f742ece024a0658c9cbe28'', 1, ''sio.h'')]),
     (''sio_5frx'', ''SIO_RX'', [(''../sio_8h.html#a979d87a5d68f0f026861e8ffddc8c779'', 1, ''sio.h'')]),
     (''sio_5ftx'', ''SIO_TX'', [(''../sio_8h.html#a9a5c087d426b4bc4dd241fc38e473e5b'', 1, ''sio.h'')]),
     (''size'', ''size'', [(''../structst__queue.html#ac8756268f817996fb9d17509eb8ef4fb'', 1, ''st_queue::size()''), (''../structGDTDescriptor__s.html#a42a5570e0bd6b7188ec63263361431ec'', 1, ''GDTDescriptor_s::size()''), (''../structRect__s.html#aeaa275ad12a3fec8f6b37968f4702ea5'', 1, ''Rect_s::size()''), (''../structrfd__t.html#af3c7baaf97ea574e743d87d1a528c1ec'', 1, ''rfd_t::size()''), (''../GDTDescriptor_8h.html#aaba88b24a21a6c70c895c0d55f4a69a0'', 1, ''size():&#160;GDTDescriptor.h''), (''../Size_8h.html#a8d4e87fb6746c75ab07f628d8c5e04db'', 1, ''Size():&#160;Size.h'')]),
     (''size_2eh'', ''Size.h'', [(''../Size_8h.html'', 1, '''')]),
     (''size_5fs'', ''Size_s'', [(''../structSize__s.html'', 1, '''')]),
     (''size_5ft'', ''size_t'', [(''../stddef_8h.html#a7c94ea6f8948649f8d181ae55911eeaf'', 1, ''stddef.h'')]),
     (''size_5fzero'', ''SIZE_ZERO'', [(''../Size_8h.html#ae20d73d692272011589119bbfad3b44b'', 1, ''Size.h'')]),
     (''sleep'', ''sleep'', [(''../ulib_8h.html#a46c121f6380fec25d17d2e2641c8fec4'', 1, ''ulib.h'')]),
     (''softwarerev'', ''softwareRev'', [(''../structVBEInfo__s.html#a49253fad3125e9cc06c7329da2acff68'', 1, ''VBEInfo_s::softwareRev()''), (''../structVideoInfo__s.html#a9317e12ca8598863dc1aae2491a678f8'', 1, ''VideoInfo_s::softwareRev()''), (''../VBEInfo_8h.html#a8bb2e424530e716963507c0205f098b6'', 1, ''softwareRev():&#160;VBEInfo.h'')]),
     (''sp'', ''sp'', [(''../structregs16__s.html#a1b634764a723f217c1b4510745aa65c9'', 1, ''regs16_s::sp()''), (''../realmode_8h.html#a683956c68e2ff52704c9da085000a818'', 1, ''sp():&#160;realmode.h'')]),
     (''spawn'', ''spawn'', [(''../ulibc_8c.html#a441ce853c3c394aa9babd23f1f381cb7'', 1, ''spawn(int(*entry)(void *), void *arg, prio_t prio):&#160;ulibc.c''), (''../ulib_8h.html#a441ce853c3c394aa9babd23f1f381cb7'', 1, ''spawn(int(*entry)(void *), void *arg, prio_t prio):&#160;ulibc.c'')]),
     (''src_5fip'', ''src_ip'', [(''../structipv4__t.html#ab95c31c80050599f3478fba1860e16cc'', 1, ''ipv4_t'')]),
     (''src_5fmac'', ''src_mac'', [(''../struct____attribute____.html#a9b5fa196224bc238bfac7896051e6193'', 1, ''__attribute__'')]),
     (''sread'', ''sread'', [(''../ulibc_8c.html#a59b1d381bf5d9682ccfdd3ae53436009'', 1, ''sread(char *buf, uint32_t size):&#160;ulibc.c''), (''../ulib_8h.html#a59b1d381bf5d9682ccfdd3ae53436009'', 1, ''sread(char *buf, uint32_t size):&#160;ulibc.c'')]),
     (''sreadch'', ''sreadch'', [(''../ulibc_8c.html#a7d81d1aed5e9de8e78c40c99bc386edf'', 1, ''sreadch(void):&#160;ulibc.c''), (''../ulib_8h.html#a7d81d1aed5e9de8e78c40c99bc386edf'', 1, ''sreadch(void):&#160;ulibc.c'')]),
     (''ss'', ''ss'', [(''../structcontext.html#aed5136fd9a919bf00a22a6bee0c81ffb'', 1, ''context'')]),
     (''st_5fqnode'', ''st_qnode'', [(''../structst__qnode.html'', 1, '''')]),
     (''st_5fqueue'', ''st_queue'', [(''../structst__queue.html'', 1, '''')]),
     (''stack'', ''stack'', [(''../structpcb.html#ada2fc740df2aab6d7a3419e494d2800c'', 1, ''pcb'')]),
     (''stack_2ec'', ''stack.c'', [(''../stack_8c.html'', 1, '''')]),
     (''stack_2eh'', ''stack.h'', [(''../stack_8h.html'', 1, '''')]),
     (''stack_5ft'', ''stack_t'', [(''../stack_8h.html#a3d77fb955d01047afcf1d523ff4b6df2'', 1, ''stack.h'')]),
     (''stack_5fwords'', ''STACK_WORDS'', [(''../stack_8h.html#aac53e32d48a0bd20111c0905d2bbf65f'', 1, ''stack.h'')]),
     (''standardtimings'', ''StandardTimings'', [(''../structEDIDRecord__s.html#a00b05a016d628810c3cf4f8ef6ac2f2b'', 1, ''EDIDRecord_s::StandardTimings()''), (''../EDIDRecord_8h.html#a3f1a1c0f3348c92a593949853c871df0'', 1, ''StandardTimings():&#160;EDIDRecord.h'')]),
     (''startup_2eh'', ''startup.h'', [(''../startup_8h.html'', 1, '''')]),
     (''stat_5fack'', ''stat_ack'', [(''../structcsr.html#a29dfac74989e479178c762ebd0ad12a6'', 1, ''csr'')]),
     (''state'', ''state'', [(''../structpcb.html#a284f5abc5b5ba4db84d189cf7755f3af'', 1, ''pcb'')]),
     (''state_5ft'', ''state_t'', [(''../types_8h.html#a5f506e226cef0157847cb6fee8f8519e'', 1, ''types.h'')]),
     (''status'', ''status'', [(''../struct__io__message.html#a8a3cc8d73cde999ced3723dadcc4f63f'', 1, ''_io_message::status()''), (''../structrfd__t.html#a8306e4b4c64f24a5cd55f63db83180eb'', 1, ''rfd_t::status()''), (''../structcsr.html#a4fd3c85216adbcafba1b06d591df8488'', 1, ''csr::status()''), (''../structcb.html#a21725ffb4eff8cf7e9ec9cfd7131ba2a'', 1, ''cb::status()''), (''../structVideoInfo__s.html#ab2b140fb9b5369274c387cea97162651'', 1, ''VideoInfo_s::status()'')]),
     (''status_5ft'', ''status_t'', [(''../types_8h.html#a2d34a5cd650731bb8bc91260ca2c0915'', 1, ''types.h'')]),
     (''stddef_2eh'', ''stddef.h'', [(''../stddef_8h.html'', 1, '''')]),
     (''stdint_2eh'', ''stdint.h'', [(''../stdint_8h.html'', 1, '''')]),
     (''strcpy'', ''strcpy'', [(''../string_8h.html#aefc3ba0497aef11a33896aaa9cc98d4d'', 1, ''strcpy(char *restrict dest, const char *restrict src):&#160;strcpy.c''), (''../strcpy_8c.html#aefc3ba0497aef11a33896aaa9cc98d4d'', 1, ''strcpy(char *restrict dest, const char *restrict src):&#160;strcpy.c'')]),
     (''strcpy_2ec'', ''strcpy.c'', [(''../strcpy_8c.html'', 1, '''')]),
     (''string_2eh'', ''string.h'', [(''../string_8h.html'', 1, '''')]),
     (''stringcount'', ''STRINGCOUNT'', [(''../video_2video_8c.html#aac22a224e9320bd4322de52fa90218aa'', 1, ''video.c'')]),
     (''strlen'', ''strlen'', [(''../ulibc_8c.html#a77d2141e405b7890bdf167b368a77ba2'', 1, ''strlen(const char *msg):&#160;ulibc.c''), (''../ulib_8h.html#a77d2141e405b7890bdf167b368a77ba2'', 1, ''strlen(const char *msg):&#160;ulibc.c''), (''../string_8h.html#a008e171a518fe0e0352f31b245e03875'', 1, ''strlen(const char *str):&#160;ulibc.c''), (''../strlen_8c.html#a008e171a518fe0e0352f31b245e03875'', 1, ''strlen(const char *str):&#160;strlen.c'')]),
     (''strlen_2ec'', ''strlen.c'', [(''../strlen_8c.html'', 1, '''')]),
     (''strlower'', ''strlower'', [(''../string_8h.html#a4ffaccf93b60cd0d1db8bd4222b065c4'', 1, ''string.h'')]),
     (''strpos'', ''strpos'', [(''../string_8h.html#a601b4744876b1be842ca56ae3dadfd9f'', 1, ''strpos(char *str1, const char c, int offset):&#160;strpos.c''), (''../strpos_8c.html#af5b1c33352bdbd01fc1b94f3a5ac2cad'', 1, ''strpos(char *str, const char seek, int offset):&#160;strpos.c'')]),
     (''strpos_2ec'', ''strpos.c'', [(''../strpos_8c.html'', 1, '''')]),
     (''strupper'', ''strupper'', [(''../string_8h.html#a8b927e14e82d2a227cb1c5ba1af59c93'', 1, ''strupper(char *str):&#160;strupper.c''), (''../strupper_8c.html#a8b927e14e82d2a227cb1c5ba1af59c93'', 1, ''strupper(char *str):&#160;strupper.c'')]),
     (''strupper_2ec'', ''strupper.c'', [(''../strupper_8c.html'', 1, '''')]),
     (''success'', ''SUCCESS'', [(''../types_8h.html#aa90cac659d18e8ef6294c7ae337f6b58'', 1, ''types.h'')]),
     (''support_2ec'', ''support.c'', [(''../support_8c.html'', 1, '''')]),
     (''support_2eh'', ''support.h'', [(''../support_8h.html'', 1, '''')]),
     (''swrite'', ''swrite'', [(''../ulibc_8c.html#a24f4dd4827ef37d56a01ebba784acdc6'', 1, ''swrite(const char *buf, uint32_t size):&#160;ulibc.c''), (''../ulib_8h.html#a24f4dd4827ef37d56a01ebba784acdc6'', 1, ''swrite(const char *buf, uint32_t size):&#160;ulibc.c'')]),
     (''swritech'', ''swritech'', [(''../ulibc_8c.html#a3578ab0592ffbac3b54f30d0dacc59db'', 1, ''swritech(char ch):&#160;ulibc.c''), (''../ulib_8h.html#a3578ab0592ffbac3b54f30d0dacc59db'', 1, ''swritech(char ch):&#160;ulibc.c'')]),
     (''swrites'', ''swrites'', [(''../ulibc_8c.html#ac9d31740ac4d0374dd358f67d9ab7d99'', 1, ''swrites(const char *str):&#160;ulibc.c''), (''../ulib_8h.html#ac9d31740ac4d0374dd358f67d9ab7d99'', 1, ''swrites(const char *str):&#160;ulibc.c'')]),
     (''sys_5fbogus'', ''SYS_bogus'', [(''../syscall_8h.html#af4f87183a7e9e319b5467c1b6ffa3317'', 1, ''syscall.h'')]),
     (''sys_5fexec'', ''SYS_exec'', [(''../syscall_8h.html#a3672b4a5863177cfdf4989e1f3a634b5'', 1, ''syscall.h'')]),
     (''sys_5fexit'', ''SYS_exit'', [(''../syscall_8h.html#a9ffbbdd04d43fb4c0d05d4363d351772'', 1, ''syscall.h'')]),
     (''sys_5ffork'', ''SYS_fork'', [(''../syscall_8h.html#a5eba4bd9e19de29f726910510e067d58'', 1, ''syscall.h'')]),
     (''sys_5fgetpid'', ''SYS_getpid'', [(''../syscall_8h.html#a7e0844c7709356d697013151cf51c69e'', 1, ''syscall.h'')]),
     (''sys_5fgetppid'', ''SYS_getppid'', [(''../syscall_8h.html#a784a01e249e903ffe5ec3cb90c6e6251'', 1, ''syscall.h'')]),
     (''sys_5fgetstatus'', ''SYS_getstatus'', [(''../syscall_8h.html#a9f071bc05eab7ca29009a96515df317b'', 1, ''syscall.h'')]),
     (''sys_5fgettime'', ''SYS_gettime'', [(''../syscall_8h.html#a0187e0573a0021ead4c767263623a7e4'', 1, ''syscall.h'')]),
     (''sys_5fident_5fstr'', ''sys_ident_str'', [(''../struct__ft__bpb.html#a463ef876951bb7133f8c7bb676782ee2'', 1, ''_ft_bpb'')]),
     (''sys_5fkill'', ''SYS_kill'', [(''../syscall_8h.html#ae72be7145975bab983df852500f507f4'', 1, ''syscall.h'')]),
     (''sys_5fmmap'', ''SYS_mmap'', [(''../syscall_8h.html#ae3d2e90b3cdfe8df1e6fcb09ae2cee24'', 1, ''syscall.h'')]),
     (''sys_5fread'', ''SYS_read'', [(''../syscall_8h.html#a4481bc3f0d65944cd6a9ecd6c5b93a55'', 1, ''syscall.h'')]),
     (''sys_5fsleep'', ''SYS_sleep'', [(''../syscall_8h.html#a77eac7fe66c659f7731cda964a7ce3dc'', 1, ''syscall.h'')]),
     (''sys_5fwait'', ''SYS_wait'', [(''../syscall_8h.html#ad8fac614fe5ff393700eba18c0a1e75a'', 1, ''syscall.h'')]),
     (''sys_5fwrite'', ''SYS_write'', [(''../syscall_8h.html#aa7425a6f80dc9c0ec789079cb6547542'', 1, ''syscall.h'')]),
     (''syscall_2ec'', ''syscall.c'', [(''../syscall_8c.html'', 1, '''')]),
     (''syscall_2eh'', ''syscall.h'', [(''../syscall_8h.html'', 1, '''')]),
     (''system_2ec'', ''system.c'', [(''../system_8c.html'', 1, '''')]),
     (''system_2eh'', ''system.h'', [(''../system_8h.html'', 1, '''')])]"

definition searchData_all_14 :: "search_entry list" where
  "searchData_all_14 =
    [(''tabsize'', ''tabSize'', [(''../structVCon__s.html#a74d7fcdc4560aa2da93f7516dffbc4f3'', 1, ''VCon_s'')]),
     (''tail'', ''tail'', [(''../structst__queue.html#a2e57ac65c7fcd89da0d2e47a4cd14f6e'', 1, ''st_queue::tail()''), (''../structnic__info.html#af33d61e95162aee76a579e6d4a71a38e'', 1, ''nic_info::tail()'')]),
     (''target_5faddress'', ''TARGET_ADDRESS'', [(''../bootstrap_8h.html#a95c50d3846497846a911b85d45e3d04e'', 1, ''bootstrap.h'')]),
     (''target_5fhw_5faddr'', ''target_hw_addr'', [(''../struct____attribute____.html#a83c2e2b59c91a065f569649abda50a57'', 1, ''__attribute__'')]),
     (''target_5fprotocol_5faddr'', ''target_protocol_addr'', [(''../struct____attribute____.html#a47035dcb0bccf5aa75f5eeaea7b1b887'', 1, ''__attribute__'')]),
     (''target_5fsegment'', ''TARGET_SEGMENT'', [(''../bootstrap_8h.html#a7a7e19adc7ff820d63930aa5e9f03d8e'', 1, ''bootstrap.h'')]),
     (''target_5fstack'', ''TARGET_STACK'', [(''../bootstrap_8h.html#a05776be186f60f5d256393fa000f535c'', 1, ''bootstrap.h'')]),
     (''tbd_5farray'', ''tbd_array'', [(''../structcb.html#ab91d8b54b67e06a8242f0f9f79ee1ac2'', 1, ''cb'')]),
     (''tbd_5fcount'', ''tbd_count'', [(''../structcb.html#ac2a6a2ff4e5fc42bc12f046ad2a94949'', 1, ''cb'')]),
     (''tcb'', ''tcb'', [(''../structcb.html#ac14aed3eb88183af7f378c70ef60cf2b'', 1, ''cb'')]),
     (''tcb_5fbyte_5fcount'', ''tcb_byte_count'', [(''../structcb.html#a737354b6fb9bafac3d1cb16216045d29'', 1, ''cb'')]),
     (''test_5fmmap'', ''test_mmap'', [(''../memory__map_8c.html#a1b94a259764098c170fa7e7cbe4b405e'', 1, ''test_mmap(void):&#160;memory_map.c''), (''../memory__map_8h.html#a1b94a259764098c170fa7e7cbe4b405e'', 1, ''test_mmap(void):&#160;memory_map.c'')]),
     (''test_5fu_5fmmap'', ''test_u_mmap'', [(''../user_8c.html#a4aacefa6ed34b8f040bf269a96c8028e'', 1, ''user.c'')]),
     (''text_2ec'', ''text.c'', [(''../text_8c.html'', 1, '''')]),
     (''text_2eh'', ''text.h'', [(''../text_8h.html'', 1, '''')]),
     (''threshold'', ''threshold'', [(''../structcb.html#a344ceefcc76ac55f32be5956dece44b9'', 1, ''cb'')]),
     (''ti'', ''TI'', [(''../memory__map_8c.html#ab8364e5ecefb0f6e384a494b8c5522b2'', 1, ''memory_map.c'')]),
     (''ticks_5fto_5frounded_5fseconds'', ''TICKS_TO_ROUNDED_SECONDS'', [(''../common_8h.html#aa5dd0c271a888afc29d8f964ae921a2d'', 1, ''common.h'')]),
     (''ticks_5fto_5fseconds'', ''TICKS_TO_SECONDS'', [(''../common_8h.html#ac8a53745cd00a7cd233042f942e8d459'', 1, ''common.h'')]),
     (''time_2ec'', ''time.c'', [(''../time_8c.html'', 1, '''')]),
     (''time_2eh'', ''time.h'', [(''../time_8h.html'', 1, '''')]),
     (''time_5ffrom_5fbytes'', ''time_from_bytes'', [(''../fat_8c.html#a36f97a4ffc74cbd1188a957b63479473'', 1, ''fat.c'')]),
     (''time_5ft'', ''time_t'', [(''../types_8h.html#a3346b04b0420b32ccf6b706551b70762'', 1, ''types.h'')]),
     (''timer_5f0_5fendsignal'', ''TIMER_0_ENDSIGNAL'', [(''../x86arch_8h.html#a730de3ecd74a5d93b5d7f2de8e640645'', 1, ''x86arch.h'')]),
     (''timer_5f0_5fload'', ''TIMER_0_LOAD'', [(''../x86arch_8h.html#a95054376919beabb4b35aca3dc660ff0'', 1, ''x86arch.h'')]),
     (''timer_5f0_5fndiv'', ''TIMER_0_NDIV'', [(''../x86arch_8h.html#afcdc68e1a555db9246b14cb3747314cb'', 1, ''x86arch.h'')]),
     (''timer_5f0_5fport'', ''TIMER_0_PORT'', [(''../x86arch_8h.html#a87beb9f6568352284f13a19dc9b97564'', 1, ''x86arch.h'')]),
     (''timer_5f0_5fselect'', ''TIMER_0_SELECT'', [(''../x86arch_8h.html#a3b1e82824fd50105d2bdb16e62de1169'', 1, ''x86arch.h'')]),
     (''timer_5f0_5fsquare'', ''TIMER_0_SQUARE'', [(''../x86arch_8h.html#afe0de518594c0c5cddbc7a9fff2d04ed'', 1, ''x86arch.h'')]),
     (''timer_5f1_5fport'', ''TIMER_1_PORT'', [(''../x86arch_8h.html#a1e79003cb4074a6d2c39e075e6a44445'', 1, ''x86arch.h'')]),
     (''timer_5f1_5frate'', ''TIMER_1_RATE'', [(''../x86arch_8h.html#abcdc81395e77a4234f5f77d1caafd4fd'', 1, ''x86arch.h'')]),
     (''timer_5f1_5fread'', ''TIMER_1_READ'', [(''../x86arch_8h.html#af252070b7d419ba6423891da0a4b2132'', 1, ''x86arch.h'')]),
     (''timer_5f1_5fselect'', ''TIMER_1_SELECT'', [(''../x86arch_8h.html#a61ca649c63cc2d63a2cdade5ecddb705'', 1, ''x86arch.h'')]),
     (''timer_5f2_5fport'', ''TIMER_2_PORT'', [(''../x86arch_8h.html#ace267999571e7ea8b375d316505efaee'', 1, ''x86arch.h'')]),
     (''timer_5f2_5frate'', ''TIMER_2_RATE'', [(''../x86arch_8h.html#a1ba7ae6751f4284eb5cc8a86c9635815'', 1, ''x86arch.h'')]),
     (''timer_5f2_5fread'', ''TIMER_2_READ'', [(''../x86arch_8h.html#af6560d34690e1e6f7547b3f706d66e4e'', 1, ''x86arch.h'')]),
     (''timer_5f2_5fselect'', ''TIMER_2_SELECT'', [(''../x86arch_8h.html#a687c0c4b258258f145eb4dca14a23b6f'', 1, ''x86arch.h'')]),
     (''timer_5fbase_5fport'', ''TIMER_BASE_PORT'', [(''../x86arch_8h.html#a885be9634ec7643c6b1505f1159b0888'', 1, ''x86arch.h'')]),
     (''timer_5fcontrol_5fport'', ''TIMER_CONTROL_PORT'', [(''../x86arch_8h.html#a61fe1bf49db8840cc842c178a9137978'', 1, ''x86arch.h'')]),
     (''timer_5fdefault_5fms_5fper_5ftick'', ''TIMER_DEFAULT_MS_PER_TICK'', [(''../x86arch_8h.html#a67d0625c384a2f55a5be98fec9097965'', 1, ''x86arch.h'')]),
     (''timer_5fdefault_5fticks_5fper_5fsecond'', ''TIMER_DEFAULT_TICKS_PER_SECOND'', [(''../x86arch_8h.html#a45585ffc6a0355498e8c163d730d3eb7'', 1, ''x86arch.h'')]),
     (''timer_5ffrequency'', ''TIMER_FREQUENCY'', [(''../x86arch_8h.html#a150e4f9c8426a49d5153393b6612ef9e'', 1, ''x86arch.h'')]),
     (''timer_5fmode_5f0'', ''TIMER_MODE_0'', [(''../x86arch_8h.html#a7f69b9f464ae8404f576f1421056321e'', 1, ''x86arch.h'')]),
     (''timer_5fmode_5f1'', ''TIMER_MODE_1'', [(''../x86arch_8h.html#a061fb4877d0609e51008ea92534b7fdd'', 1, ''x86arch.h'')]),
     (''timer_5fmode_5f2'', ''TIMER_MODE_2'', [(''../x86arch_8h.html#a67333a3dbe9cb18cecfc335c2cc9638d'', 1, ''x86arch.h'')]),
     (''timer_5fmode_5f3'', ''TIMER_MODE_3'', [(''../x86arch_8h.html#a20be234e5a69eeb351e3676dab6657bc'', 1, ''x86arch.h'')]),
     (''timer_5fmode_5f4'', ''TIMER_MODE_4'', [(''../x86arch_8h.html#afa9e4589f212b36784f120fb963703cd'', 1, ''x86arch.h'')]),
     (''timer_5fmode_5f5'', ''TIMER_MODE_5'', [(''../x86arch_8h.html#aedf41b3d3044f7635c59d19da5ded68f'', 1, ''x86arch.h'')]),
     (''timer_5frb_5faccess_5fmask'', ''TIMER_RB_ACCESS_MASK'', [(''../x86arch_8h.html#abc7b65b6b1fb68fb2a5874741a1e297d'', 1, ''x86arch.h'')]),
     (''timer_5frb_5fbcd_5fmask'', ''TIMER_RB_BCD_MASK'', [(''../x86arch_8h.html#a4df25dde93ba621fdb57d1cb74756279'', 1, ''x86arch.h'')]),
     (''timer_5frb_5fchan_5f0'', ''TIMER_RB_CHAN_0'', [(''../x86arch_8h.html#a5bbe6d74fbf598ebe382a6fd1c4a65fe'', 1, ''x86arch.h'')]),
     (''timer_5frb_5fchan_5f1'', ''TIMER_RB_CHAN_1'', [(''../x86arch_8h.html#aac5b33ced16baf8de82a233e1d523550'', 1, ''x86arch.h'')]),
     (''timer_5frb_5fchan_5f2'', ''TIMER_RB_CHAN_2'', [(''../x86arch_8h.html#a7622b98e9243e25edf079229072841c0'', 1, ''x86arch.h'')]),
     (''timer_5frb_5fnot_5fcount'', ''TIMER_RB_NOT_COUNT'', [(''../x86arch_8h.html#a283a9fc8e3a2a6ec0ce244c96fd5054e'', 1, ''x86arch.h'')]),
     (''timer_5frb_5fnot_5fstatus'', ''TIMER_RB_NOT_STATUS'', [(''../x86arch_8h.html#ae38d2c541607f7bb9f4a6143aba08bf2'', 1, ''x86arch.h'')]),
     (''timer_5frb_5fop_5fmask'', ''TIMER_RB_OP_MASK'', [(''../x86arch_8h.html#a1297f0010da4bfaf9342b4e228282fd3'', 1, ''x86arch.h'')]),
     (''timer_5freadback'', ''TIMER_READBACK'', [(''../x86arch_8h.html#ad71867aae8f2ff456cfb3aebb7301ec1'', 1, ''x86arch.h'')]),
     (''timer_5fuse_5fbcd'', ''TIMER_USE_BCD'', [(''../x86arch_8h.html#ab9cae8184e8b667a4912c52d785bca83'', 1, ''x86arch.h'')]),
     (''timer_5fuse_5fdecimal'', ''TIMER_USE_DECIMAL'', [(''../x86arch_8h.html#a91a82c5fc77abd7fe187611c6fa9d74a'', 1, ''x86arch.h'')]),
     (''tmpbufsz'', ''TMPBUFSZ'', [(''../stack_8c.html#a8aa0d90907c5275404baa276f1f4cb38'', 1, ''stack.c'')]),
     (''tolower'', ''tolower'', [(''../ctype_8h.html#a27d77b9d9f819c146c5b1c24c55246cb'', 1, ''ctype.h'')]),
     (''total_5fcb'', ''TOTAL_CB'', [(''../intel_8h.html#af62095263e0abbca43c9d45a30239384'', 1, ''intel.h'')]),
     (''total_5flen'', ''total_len'', [(''../structipv4__t.html#aa9419a652aee01ed2b3a4c1f59e636a3'', 1, ''ipv4_t'')]),
     (''total_5frfd'', ''TOTAL_RFD'', [(''../intel_8h.html#a8b0457cf58ea00a075821732e4b5ff89'', 1, ''intel.h'')]),
     (''toupper'', ''toupper'', [(''../ctype_8h.html#aef7ce6640bebf6d596b908190612c87d'', 1, ''ctype.h'')]),
     (''tp'', ''TP'', [(''../memory__map_8c.html#af972ebfdd064fdb489daf84443a12f35'', 1, ''memory_map.c'')]),
     (''traverse_5fand_5ffind_5ffile_5frec'', ''traverse_and_find_file_rec'', [(''../fat_8c.html#a4cd0f82ebde7c8330c082b9f5bf6ef72'', 1, ''fat.c'')]),
     (''traverse_5fand_5ffind_5ffile_5frec_5fr'', ''traverse_and_find_file_rec_r'', [(''../fat_8c.html#ab55de5d21d6f007c6bab5767a08caa20'', 1, ''fat.c'')]),
     (''ttl'', ''ttl'', [(''../structipv4__t.html#ae2002aeedd55b48b86bfd35229ed9009'', 1, ''ipv4_t'')]),
     (''type'', ''type'', [(''../struct__ioentry.html#a9471e0313c5d2f2c3b2505f1ad1b841a'', 1, ''_ioentry::type()''), (''../structmemory__map____32__s.html#ad09c3daeada7d3230fb807475c228d7d'', 1, ''memory_map__32_s::type()''), (''../structmemory__map____64__s.html#a8aa03dd73ae307af7ca6ebef1558c861'', 1, ''memory_map__64_s::type()''), (''../structmm__entry__s.html#aa000db3a0794ece10755313d5931a533'', 1, ''mm_entry_s::type()''), (''../structicmp__t.html#a42a7279280b8493dec06fff871da9602'', 1, ''icmp_t::type()''), (''../memory__map_8h.html#ad44b615021ed3ccb734fcaf583ef4a03'', 1, ''type():&#160;memory_map.h'')]),
     (''types_2eh'', ''types.h'', [(''../types_8h.html'', 1, '''')])]"

definition searchData_all_15 :: "search_entry list" where
  "searchData_all_15 =
    [(''u'', ''u'', [(''../structcb.html#a5e9ce6bf1407a3938028e34982f56392'', 1, ''cb'')]),
     (''ua4_5fbank_5fselect'', ''UA4_BANK_SELECT'', [(''../uart_8h.html#a61189147aee0bd010ba4994c1c027d64'', 1, ''uart.h'')]),
     (''ua4_5fbsr'', ''UA4_BSR'', [(''../uart_8h.html#a8dcfe2b2f319291035d95e46689107bc'', 1, ''uart.h'')]),
     (''ua4_5fbsr_5fbank2'', ''UA4_BSR_BANK2'', [(''../uart_8h.html#a126aab9ee89832641601d3534233f43d'', 1, ''uart.h'')]),
     (''ua4_5fbsr_5fbank3'', ''UA4_BSR_BANK3'', [(''../uart_8h.html#a631da331d2f31d8ce229c3a36d184325'', 1, ''uart.h'')]),
     (''ua4_5fcom1_5fioaddr'', ''UA4_COM1_IOADDR'', [(''../uart_8h.html#a48b6b95a7e3f2a9dbb89153a88200b7a'', 1, ''uart.h'')]),
     (''ua4_5fcom2_5fioaddr'', ''UA4_COM2_IOADDR'', [(''../uart_8h.html#ac49fa0e29a6b51d1fb38a0679c09a8d3'', 1, ''uart.h'')]),
     (''ua4_5fcom3_5fioaddr'', ''UA4_COM3_IOADDR'', [(''../uart_8h.html#a850520772ae00c77331ba1e33562041b'', 1, ''uart.h'')]),
     (''ua4_5fcom4_5fioaddr'', ''UA4_COM4_IOADDR'', [(''../uart_8h.html#aef3afea5d8c2992adf698fe76925f674'', 1, ''uart.h'')]),
     (''ua4_5feir'', ''UA4_EIR'', [(''../uart_8h.html#ad30a94b2bfd638031464108d77295630'', 1, ''uart.h'')]),
     (''ua4_5feir_5fint_5fpending'', ''UA4_EIR_INT_PENDING'', [(''../uart_8h.html#a6de704256fb931cfa64b9c312228896e'', 1, ''uart.h'')]),
     (''ua4_5feir_5fint_5fpri_5fmask'', ''UA4_EIR_INT_PRI_MASK'', [(''../uart_8h.html#ac326ca3d2798b4ba0e90894755c12c25'', 1, ''uart.h'')]),
     (''ua4_5feir_5fipf'', ''UA4_EIR_IPF'', [(''../uart_8h.html#aed5c7e8c2a11852fee81e6a339e00abf'', 1, ''uart.h'')]),
     (''ua4_5feir_5fipr0'', ''UA4_EIR_IPR0'', [(''../uart_8h.html#a2e1744a0ae9f2eded53ea128fdebe93f'', 1, ''uart.h'')]),
     (''ua4_5feir_5fipr1'', ''UA4_EIR_IPR1'', [(''../uart_8h.html#a8e5d51b196befc41aa3d0a9a4f0fde50'', 1, ''uart.h'')]),
     (''ua4_5feir_5fline_5fstatus'', ''UA4_EIR_LINE_STATUS'', [(''../uart_8h.html#ac15938cfa769f2ba71e098f5069983ee'', 1, ''uart.h'')]),
     (''ua4_5feir_5fline_5fstatus_5fint_5fpending'', ''UA4_EIR_LINE_STATUS_INT_PENDING'', [(''../uart_8h.html#a6f6c750a52f38a160dd67675739c280c'', 1, ''uart.h'')]),
     (''ua4_5feir_5fmodem_5fstatus'', ''UA4_EIR_MODEM_STATUS'', [(''../uart_8h.html#a01f9e6a163a01241163bd9e7bc39f9ae'', 1, ''uart.h'')]),
     (''ua4_5feir_5fmodem_5fstatus_5fint_5fpending'', ''UA4_EIR_MODEM_STATUS_INT_PENDING'', [(''../uart_8h.html#a987d3143730b1f105d5b8a22a0438303'', 1, ''uart.h'')]),
     (''ua4_5feir_5fno_5fint'', ''UA4_EIR_NO_INT'', [(''../uart_8h.html#a73cfe6fdcb646f97901cb2ca717a9626'', 1, ''uart.h'')]),
     (''ua4_5feir_5fno_5fint_5fpending'', ''UA4_EIR_NO_INT_PENDING'', [(''../uart_8h.html#af50e50dce1615acdd5869316c889d317'', 1, ''uart.h'')]),
     (''ua4_5feir_5fpri'', ''UA4_EIR_PRI'', [(''../uart_8h.html#a4cd07d149912e8872465ec9077e170d3'', 1, ''uart.h'')]),
     (''ua4_5feir_5frx_5fhigh'', ''UA4_EIR_RX_HIGH'', [(''../uart_8h.html#a49fb3f1a36995cd7f2c041580dd87600'', 1, ''uart.h'')]),
     (''ua4_5feir_5frx_5fint_5fpending'', ''UA4_EIR_RX_INT_PENDING'', [(''../uart_8h.html#adcd214cb97dcc97e4f43fef2cbca4867'', 1, ''uart.h'')]),
     (''ua4_5feir_5ftx_5fint_5fpending'', ''UA4_EIR_TX_INT_PENDING'', [(''../uart_8h.html#adf61f29713b09e0d3e291828ef4eae7d'', 1, ''uart.h'')]),
     (''ua4_5feir_5ftx_5flow'', ''UA4_EIR_TX_LOW'', [(''../uart_8h.html#a606b11b1ef84cbc86f80d9b17e435179'', 1, ''uart.h'')]),
     (''ua4_5fevent_5fid'', ''UA4_EVENT_ID'', [(''../uart_8h.html#a88b3ee9a85339ae09d52415727dc9d87'', 1, ''uart.h'')]),
     (''ua4_5ffcr'', ''UA4_FCR'', [(''../uart_8h.html#adbd3e8165fef7d1698e0cb67d3106725'', 1, ''uart.h'')]),
     (''ua4_5ffifo_5fctl'', ''UA4_FIFO_CTL'', [(''../uart_8h.html#a8623ae07e67acfb5c837ec8b92a80bd1'', 1, ''uart.h'')]),
     (''ua4_5fier'', ''UA4_IER'', [(''../uart_8h.html#ae2f331fa2aed31672343c6d035841158'', 1, ''uart.h'')]),
     (''ua4_5fier_5fline_5fstatus_5fint_5fenable'', ''UA4_IER_LINE_STATUS_INT_ENABLE'', [(''../uart_8h.html#a2360f67683992bec54a099fed2b3f405'', 1, ''uart.h'')]),
     (''ua4_5fier_5fls_5fie'', ''UA4_IER_LS_IE'', [(''../uart_8h.html#a2eb0686d272658f81cd0de7dc1c9deda'', 1, ''uart.h'')]),
     (''ua4_5fier_5fmodem_5fstatus_5fint_5fenable'', ''UA4_IER_MODEM_STATUS_INT_ENABLE'', [(''../uart_8h.html#acccabce1fa4a74822f2887cb9dd9ba3c'', 1, ''uart.h'')]),
     (''ua4_5fier_5fms_5fie'', ''UA4_IER_MS_IE'', [(''../uart_8h.html#a0442715f85d6336f46cd33a89b620d9e'', 1, ''uart.h'')]),
     (''ua4_5fier_5frx_5fint_5fenable'', ''UA4_IER_RX_INT_ENABLE'', [(''../uart_8h.html#a75cfd1cf640f9e79270d9871fbc6835a'', 1, ''uart.h'')]),
     (''ua4_5fier_5frxhdl_5fie'', ''UA4_IER_RXHDL_IE'', [(''../uart_8h.html#afbb1a1e147a02edcac9c8abf90d74fe0'', 1, ''uart.h'')]),
     (''ua4_5fier_5ftx_5fint_5fenable'', ''UA4_IER_TX_INT_ENABLE'', [(''../uart_8h.html#ae6805a675c37c31480fd7907e8042102'', 1, ''uart.h'')]),
     (''ua4_5fier_5ftxldl_5fie'', ''UA4_IER_TXLDL_IE'', [(''../uart_8h.html#ac24f048b4d5f3a32881166ddd434db00'', 1, ''uart.h'')]),
     (''ua4_5fint_5fenable_5freg'', ''UA4_INT_ENABLE_REG'', [(''../uart_8h.html#a69fc2c635401c5b3e3e7d4cf97b7cda7'', 1, ''uart.h'')]),
     (''ua4_5flbgd_5fh'', ''UA4_LBGD_H'', [(''../uart_8h.html#a80c14709935bc4b21dc8b1b86c17b9e4'', 1, ''uart.h'')]),
     (''ua4_5flbgd_5fl'', ''UA4_LBGD_L'', [(''../uart_8h.html#a3079513e058a0c0585f5dd4b909f1562'', 1, ''uart.h'')]),
     (''ua4_5flcr'', ''UA4_LCR'', [(''../uart_8h.html#ae43d8118ca0473161089092c554537b8'', 1, ''uart.h'')]),
     (''ua4_5flcr_5f1_5fstop_5fbit'', ''UA4_LCR_1_STOP_BIT'', [(''../uart_8h.html#a1a6ffd127f1d15ef33f83579920c23fe'', 1, ''uart.h'')]),
     (''ua4_5flcr_5f2_5fstop_5fbit'', ''UA4_LCR_2_STOP_BIT'', [(''../uart_8h.html#aa73539f57c79191169cf67c7f14198d8'', 1, ''uart.h'')]),
     (''ua4_5flcr_5fbank0'', ''UA4_LCR_BANK0'', [(''../uart_8h.html#aab8b1d066c6bc35df22bd5c95942664b'', 1, ''uart.h'')]),
     (''ua4_5flcr_5fbank1'', ''UA4_LCR_BANK1'', [(''../uart_8h.html#a0ba8d9b85cd181565bb74fbc04ef05f9'', 1, ''uart.h'')]),
     (''ua4_5flcr_5fbank_5fselect_5fenable'', ''UA4_LCR_BANK_SELECT_ENABLE'', [(''../uart_8h.html#a47ae90b9ae549dba872d836a5c58090b'', 1, ''uart.h'')]),
     (''ua4_5flcr_5fbits_5f5'', ''UA4_LCR_BITS_5'', [(''../uart_8h.html#ae5f288e5c4cf7c98ea727ad3865a08ed'', 1, ''uart.h'')]),
     (''ua4_5flcr_5fbits_5f6'', ''UA4_LCR_BITS_6'', [(''../uart_8h.html#a0e20b76cfafcb430f26de33d0f76ab05'', 1, ''uart.h'')]),
     (''ua4_5flcr_5fbits_5f7'', ''UA4_LCR_BITS_7'', [(''../uart_8h.html#a0ba51974c3bbd61af0656aef79c1094f'', 1, ''uart.h'')]),
     (''ua4_5flcr_5fbits_5f8'', ''UA4_LCR_BITS_8'', [(''../uart_8h.html#aade7fbf4d2f45bbaf6b890918ffb732f'', 1, ''uart.h'')]),
     (''ua4_5flcr_5fbkse'', ''UA4_LCR_BKSE'', [(''../uart_8h.html#a2577770b384d22f998eb56de9c9a582a'', 1, ''uart.h'')]),
     (''ua4_5flcr_5feps'', ''UA4_LCR_EPS'', [(''../uart_8h.html#af1715e22b67281350d593030995b557f'', 1, ''uart.h'')]),
     (''ua4_5flcr_5feven_5fparity'', ''UA4_LCR_EVEN_PARITY'', [(''../uart_8h.html#ad3c6730f96db06a524f23a532132a1dc'', 1, ''uart.h'')]),
     (''ua4_5flcr_5fno_5fparity'', ''UA4_LCR_NO_PARITY'', [(''../uart_8h.html#a6c544e7aaab133cbc0de90648431aa67'', 1, ''uart.h'')]),
     (''ua4_5flcr_5fodd_5fparity'', ''UA4_LCR_ODD_PARITY'', [(''../uart_8h.html#ac0391e3d39ccf025c317c419bc17e39b'', 1, ''uart.h'')]),
     (''ua4_5flcr_5fparity_5fenable'', ''UA4_LCR_PARITY_ENABLE'', [(''../uart_8h.html#a48ca5f7bfa4abb08ddd16a655a8ee8be'', 1, ''uart.h'')]),
     (''ua4_5flcr_5fparity_5flogic_5f0'', ''UA4_LCR_PARITY_LOGIC_0'', [(''../uart_8h.html#a546c58039135f22a98b9375cbdc7f7f7'', 1, ''uart.h'')]),
     (''ua4_5flcr_5fparity_5flogic_5f1'', ''UA4_LCR_PARITY_LOGIC_1'', [(''../uart_8h.html#a79f4600c1c83e03a90585ac658866814'', 1, ''uart.h'')]),
     (''ua4_5flcr_5fpen'', ''UA4_LCR_PEN'', [(''../uart_8h.html#a129689be76a081bbe46c0567e1b644dc'', 1, ''uart.h'')]),
     (''ua4_5flcr_5fsbrk'', ''UA4_LCR_SBRK'', [(''../uart_8h.html#a9b1ffc0287feb6a1cf23df0873b575d2'', 1, ''uart.h'')]),
     (''ua4_5flcr_5fset_5fbreak'', ''UA4_LCR_SET_BREAK'', [(''../uart_8h.html#a73051770b4197e7a95566d896fe14e29'', 1, ''uart.h'')]),
     (''ua4_5flcr_5fstb'', ''UA4_LCR_STB'', [(''../uart_8h.html#a398ae0016adaaf8da4aa51f37fbc53b0'', 1, ''uart.h'')]),
     (''ua4_5flcr_5fstkp'', ''UA4_LCR_STKP'', [(''../uart_8h.html#a67f1ed718effb8bed6bd42bb1dde3d40'', 1, ''uart.h'')]),
     (''ua4_5flcr_5fstop_5fbits'', ''UA4_LCR_STOP_BITS'', [(''../uart_8h.html#a5324ce324bd3197a7336becbc9cd779e'', 1, ''uart.h'')]),
     (''ua4_5flcr_5fwls'', ''UA4_LCR_WLS'', [(''../uart_8h.html#ac5500525ca7f7056966b1d4918a2f325'', 1, ''uart.h'')]),
     (''ua4_5flcr_5fwls0'', ''UA4_LCR_WLS0'', [(''../uart_8h.html#a332af2e62635a73409aa49b6b8696d37'', 1, ''uart.h'')]),
     (''ua4_5flcr_5fwls1'', ''UA4_LCR_WLS1'', [(''../uart_8h.html#a5293aecc6cb3cceb0b6a49c11f53dc4e'', 1, ''uart.h'')]),
     (''ua4_5fline_5fctl'', ''UA4_LINE_CTL'', [(''../uart_8h.html#a6a2df7d37ef0a4e0434bbb97dbb70fc4'', 1, ''uart.h'')]),
     (''ua4_5fline_5fstatus'', ''UA4_LINE_STATUS'', [(''../uart_8h.html#ab7efffce38867b3f2cbd95aac4ce8f4b'', 1, ''uart.h'')]),
     (''ua4_5flsr'', ''UA4_LSR'', [(''../uart_8h.html#ae9b54f625aabf74ab1af610c05f01d06'', 1, ''uart.h'')]),
     (''ua4_5flsr_5fbreak_5fdetected'', ''UA4_LSR_BREAK_DETECTED'', [(''../uart_8h.html#a05b5539d3c14e53b2b58ff8b25b0e9fc'', 1, ''uart.h'')]),
     (''ua4_5flsr_5fbrk'', ''UA4_LSR_BRK'', [(''../uart_8h.html#a35da928552c9b453c9ee859373890e8e'', 1, ''uart.h'')]),
     (''ua4_5flsr_5fer_5finf'', ''UA4_LSR_ER_INF'', [(''../uart_8h.html#a3b964889727b7df51cb1b10f8163b07e'', 1, ''uart.h'')]),
     (''ua4_5flsr_5ffe'', ''UA4_LSR_FE'', [(''../uart_8h.html#abb4fbef22f8980611cbe9949896e9bab'', 1, ''uart.h'')]),
     (''ua4_5flsr_5fframing_5ferror'', ''UA4_LSR_FRAMING_ERROR'', [(''../uart_8h.html#aabbfe3709915d1d5577d6d6818f4c7ff'', 1, ''uart.h'')]),
     (''ua4_5flsr_5foe'', ''UA4_LSR_OE'', [(''../uart_8h.html#ab29a76983062153b3b8b83ed52ed36f4'', 1, ''uart.h'')]),
     (''ua4_5flsr_5foverrun_5ferror'', ''UA4_LSR_OVERRUN_ERROR'', [(''../uart_8h.html#ac6933223a9c4eccafb927a324898488e'', 1, ''uart.h'')]),
     (''ua4_5flsr_5fparity_5ferror'', ''UA4_LSR_PARITY_ERROR'', [(''../uart_8h.html#ae6466464e6efd7e72fd1d01d69c64a33'', 1, ''uart.h'')]),
     (''ua4_5flsr_5fpe'', ''UA4_LSR_PE'', [(''../uart_8h.html#aea1cc77056d62a0d7d8dba2b8477508b'', 1, ''uart.h'')]),
     (''ua4_5flsr_5frx_5fdata_5favailable'', ''UA4_LSR_RX_DATA_AVAILABLE'', [(''../uart_8h.html#a55e0d98184efbe99785462716a88397e'', 1, ''uart.h'')]),
     (''ua4_5flsr_5frx_5ffifo_5ferror'', ''UA4_LSR_RX_FIFO_ERROR'', [(''../uart_8h.html#a336725be150a069c6aa5053a316db413'', 1, ''uart.h'')]),
     (''ua4_5flsr_5frxda'', ''UA4_LSR_RXDA'', [(''../uart_8h.html#a8a28b1f268b427f89e705680478e234d'', 1, ''uart.h'')]),
     (''ua4_5flsr_5ftx_5fempty'', ''UA4_LSR_TX_EMPTY'', [(''../uart_8h.html#a95ecdcf8af1acdd6f89cf3c75a2255d1'', 1, ''uart.h'')]),
     (''ua4_5flsr_5ftx_5fready'', ''UA4_LSR_TX_READY'', [(''../uart_8h.html#a2551f4f215da03f987ee622efdf7bb71'', 1, ''uart.h'')]),
     (''ua4_5flsr_5ftxemp'', ''UA4_LSR_TXEMP'', [(''../uart_8h.html#a9cf278a47cc38d09b0a729bbb8a1d120'', 1, ''uart.h'')]),
     (''ua4_5flsr_5ftxrdy'', ''UA4_LSR_TXRDY'', [(''../uart_8h.html#aed594f9e87915428028cf62b459e57a7'', 1, ''uart.h'')]),
     (''ua4_5fmcr'', ''UA4_MCR'', [(''../uart_8h.html#a19cfd0cb2f5bef6371ed58bd42782ca1'', 1, ''uart.h'')]),
     (''ua4_5fmcr_5fdata_5fterminal_5fready'', ''UA4_MCR_DATA_TERMINAL_READY'', [(''../uart_8h.html#a23177ad80b1eb1a33901b0c8b89b2f2e'', 1, ''uart.h'')]),
     (''ua4_5fmcr_5fdcdlp'', ''UA4_MCR_DCDLP'', [(''../uart_8h.html#ab2e3b12ec2a40b2ef3afe5ec58fdbe3f'', 1, ''uart.h'')]),
     (''ua4_5fmcr_5fdtr'', ''UA4_MCR_DTR'', [(''../uart_8h.html#afddcc84c23babf380dfcb1aeb2bc907f'', 1, ''uart.h'')]),
     (''ua4_5fmcr_5fint_5fsignal_5fenable'', ''UA4_MCR_INT_SIGNAL_ENABLE'', [(''../uart_8h.html#a3326ef673ad18b9e280b9c14589366af'', 1, ''uart.h'')]),
     (''ua4_5fmcr_5fisen'', ''UA4_MCR_ISEN'', [(''../uart_8h.html#aef4e52c1a17e19f75fd7cb331041e688'', 1, ''uart.h'')]),
     (''ua4_5fmcr_5floop'', ''UA4_MCR_LOOP'', [(''../uart_8h.html#a0bc2ee0c86cbb747fc689766321c0b7c'', 1, ''uart.h'')]),
     (''ua4_5fmcr_5floopback_5fdcd'', ''UA4_MCR_LOOPBACK_DCD'', [(''../uart_8h.html#aef3c9a38524e0e9e117ac8fb0f80f755'', 1, ''uart.h'')]),
     (''ua4_5fmcr_5floopback_5fenable'', ''UA4_MCR_LOOPBACK_ENABLE'', [(''../uart_8h.html#a33661b9dcd06da04ff3a88123dae0f34'', 1, ''uart.h'')]),
     (''ua4_5fmcr_5floopback_5fint_5freq'', ''UA4_MCR_LOOPBACK_INT_REQ'', [(''../uart_8h.html#a6e5cf5556dd0d67d40ddcb295a03162d'', 1, ''uart.h'')]),
     (''ua4_5fmcr_5fready_5fto_5fsend'', ''UA4_MCR_READY_TO_SEND'', [(''../uart_8h.html#a597cc46ad65fea8c6921cb31b9d06747'', 1, ''uart.h'')]),
     (''ua4_5fmcr_5frilp'', ''UA4_MCR_RILP'', [(''../uart_8h.html#a83ed10c4e1a75c164a0fb7f919654e8c'', 1, ''uart.h'')]),
     (''ua4_5fmcr_5frts'', ''UA4_MCR_RTS'', [(''../uart_8h.html#ad10db2a7fc4322706b82991f1e704c45'', 1, ''uart.h'')]),
     (''ua4_5fmodem_5fctl'', ''UA4_MODEM_CTL'', [(''../uart_8h.html#a9da55166935404505e5b800c583ee1a4'', 1, ''uart.h'')]),
     (''ua4_5fmodem_5fstatus'', ''UA4_MODEM_STATUS'', [(''../uart_8h.html#a08755382c29a91e9ee4f6d9cf44c46fe'', 1, ''uart.h'')]),
     (''ua4_5fmsr'', ''UA4_MSR'', [(''../uart_8h.html#a243d1ea91a3e11fe6ee45cb72eab7d89'', 1, ''uart.h'')]),
     (''ua4_5fmsr_5fclear_5fto_5fsend'', ''UA4_MSR_CLEAR_TO_SEND'', [(''../uart_8h.html#a2a47c92d83ea30074dd9071d216dc786'', 1, ''uart.h'')]),
     (''ua4_5fmsr_5fcts'', ''UA4_MSR_CTS'', [(''../uart_8h.html#acfe4bf61e965a2a1a80d87f4ed4536cb'', 1, ''uart.h'')]),
     (''ua4_5fmsr_5fdata_5fcarrier_5fdetect'', ''UA4_MSR_DATA_CARRIER_DETECT'', [(''../uart_8h.html#a9dbc4c631eda515eff337a3d79dc0fcc'', 1, ''uart.h'')]),
     (''ua4_5fmsr_5fdata_5fset_5fready'', ''UA4_MSR_DATA_SET_READY'', [(''../uart_8h.html#a8da7c6c7d0e57e95540daf8582ebb6c6'', 1, ''uart.h'')]),
     (''ua4_5fmsr_5fdcd'', ''UA4_MSR_DCD'', [(''../uart_8h.html#a668f1c08287a1fd6eadde622b1c729a1'', 1, ''uart.h'')]),
     (''ua4_5fmsr_5fdcts'', ''UA4_MSR_DCTS'', [(''../uart_8h.html#a29f038cb59c71c216812064eb72f2334'', 1, ''uart.h'')]),
     (''ua4_5fmsr_5fddcd'', ''UA4_MSR_DDCD'', [(''../uart_8h.html#adc80cd1170a10b67b62cd6eeb9464e8c'', 1, ''uart.h'')]),
     (''ua4_5fmsr_5fddsr'', ''UA4_MSR_DDSR'', [(''../uart_8h.html#aae48a324a5a21461279fe6032024be8d'', 1, ''uart.h'')]),
     (''ua4_5fmsr_5fdelta_5fclear_5fto_5fsend'', ''UA4_MSR_DELTA_CLEAR_TO_SEND'', [(''../uart_8h.html#a0f426264cbf36d7a27c569d9b65cee1b'', 1, ''uart.h'')]),
     (''ua4_5fmsr_5fdelta_5fdata_5fcarrier_5fdetect'', ''UA4_MSR_DELTA_DATA_CARRIER_DETECT'', [(''../uart_8h.html#ac76c44d98aaa30f0e68b2250390c8fe7'', 1, ''uart.h'')]),
     (''ua4_5fmsr_5fdelta_5fdata_5fset_5fready'', ''UA4_MSR_DELTA_DATA_SET_READY'', [(''../uart_8h.html#a39229a8eb7676a77ff4a182e8f654bac'', 1, ''uart.h'')]),
     (''ua4_5fmsr_5fdsr'', ''UA4_MSR_DSR'', [(''../uart_8h.html#ad8916d92aaa43ff97d9e0661aa4af5e9'', 1, ''uart.h'')]),
     (''ua4_5fmsr_5fri'', ''UA4_MSR_RI'', [(''../uart_8h.html#aedfd74a0d1930bd20219412eee071f3e'', 1, ''uart.h'')]),
     (''ua4_5fmsr_5fring_5findicate'', ''UA4_MSR_RING_INDICATE'', [(''../uart_8h.html#a6e67aa5815421045b255e156f3ae1296'', 1, ''uart.h'')]),
     (''ua4_5fmsr_5fteri'', ''UA4_MSR_TERI'', [(''../uart_8h.html#a14e0e92cdd121dc8bb201f0d47dd1dce'', 1, ''uart.h'')]),
     (''ua4_5fmsr_5ftrailing_5fedge_5fring'', ''UA4_MSR_TRAILING_EDGE_RING'', [(''../uart_8h.html#a37235f7fdbf16bb4b1de805321ff3cfd'', 1, ''uart.h'')]),
     (''ua4_5fport'', ''UA4_PORT'', [(''../uart_8h.html#a5be9af38e1e444c277091c0d271654ed'', 1, ''uart.h'')]),
     (''ua4_5frx_5fdata'', ''UA4_RX_DATA'', [(''../uart_8h.html#aca54c539d13ccbdfa85a1c73c38c60ee'', 1, ''uart.h'')]),
     (''ua4_5frxd'', ''UA4_RXD'', [(''../uart_8h.html#ada420cb939f21c62b907b45ea85b4877'', 1, ''uart.h'')]),
     (''ua4_5ftx_5fdata'', ''UA4_TX_DATA'', [(''../uart_8h.html#a0d46dfcf395684c394605c824d097a91'', 1, ''uart.h'')]),
     (''ua4_5ftxd'', ''UA4_TXD'', [(''../uart_8h.html#abd1c6465e0f613479f5b8e9151cdaf58'', 1, ''uart.h'')]),
     (''ua4_5fua5_5fscr'', ''UA4_UA5_SCR'', [(''../uart_8h.html#abeeab92cc88c2b1545bf012930b91a70'', 1, ''uart.h'')]),
     (''ua4_5fua5_5fscratch'', ''UA4_UA5_SCRATCH'', [(''../uart_8h.html#a3ce1f6e9695b31d38baf2ee4a5502cb7'', 1, ''uart.h'')]),
     (''ua5_5feir_5ffen0'', ''UA5_EIR_FEN0'', [(''../uart_8h.html#a44266600b68246bf01b9763e05de2bb8'', 1, ''uart.h'')]),
     (''ua5_5feir_5ffen1'', ''UA5_EIR_FEN1'', [(''../uart_8h.html#a4271832525badcce048c11f0968b61e5'', 1, ''uart.h'')]),
     (''ua5_5feir_5ffifo_5fenabled_5f0'', ''UA5_EIR_FIFO_ENABLED_0'', [(''../uart_8h.html#a8f89b6da766207fa155608a28338acb3'', 1, ''uart.h'')]),
     (''ua5_5feir_5ffifo_5fenabled_5f1'', ''UA5_EIR_FIFO_ENABLED_1'', [(''../uart_8h.html#a86e4ea957809ffb58c068b56e227766b'', 1, ''uart.h'')]),
     (''ua5_5feir_5frx_5ffifo_5ftimeout'', ''UA5_EIR_RX_FIFO_TIMEOUT'', [(''../uart_8h.html#ae0f725a57a8c7e3f0efc765fa9d4b973'', 1, ''uart.h'')]),
     (''ua5_5feir_5frx_5ffifo_5ftimeout_5fint_5fpending'', ''UA5_EIR_RX_FIFO_TIMEOUT_INT_PENDING'', [(''../uart_8h.html#ad8d1dd2de54391749fa0aeb037822af6'', 1, ''uart.h'')]),
     (''ua5_5feir_5frx_5ffifo_5fto'', ''UA5_EIR_RX_FIFO_TO'', [(''../uart_8h.html#a23011e8999073a59789f8b725860cc87'', 1, ''uart.h'')]),
     (''ua5_5feir_5frxft'', ''UA5_EIR_RXFT'', [(''../uart_8h.html#a57fcbfc2a76eea17f46e71b53697cffd'', 1, ''uart.h'')]),
     (''ua5_5ffcr_5ffifo_5fen'', ''UA5_FCR_FIFO_EN'', [(''../uart_8h.html#a6e743de18728d02ec931882ef85e3836'', 1, ''uart.h'')]),
     (''ua5_5ffcr_5ffifo_5fenabled'', ''UA5_FCR_FIFO_ENABLED'', [(''../uart_8h.html#a159f981397fb354c768f08efdae26cc4'', 1, ''uart.h'')]),
     (''ua5_5ffcr_5ffifo_5freset'', ''UA5_FCR_FIFO_RESET'', [(''../uart_8h.html#a87c99f1bd29a56383497d6849db13697'', 1, ''uart.h'')]),
     (''ua5_5ffcr_5frx_5ffifo_5f1'', ''UA5_FCR_RX_FIFO_1'', [(''../uart_8h.html#a1174ecb55e59e7bb224d416283a31454'', 1, ''uart.h'')]),
     (''ua5_5ffcr_5frx_5ffifo_5f14'', ''UA5_FCR_RX_FIFO_14'', [(''../uart_8h.html#a0b16271a6eb0d795f6d2d006b2d59f3e'', 1, ''uart.h'')]),
     (''ua5_5ffcr_5frx_5ffifo_5f14_5fchar'', ''UA5_FCR_RX_FIFO_14_CHAR'', [(''../uart_8h.html#a01907e4b97193e7a08f5b8a1f196c1b6'', 1, ''uart.h'')]),
     (''ua5_5ffcr_5frx_5ffifo_5f1_5fchar'', ''UA5_FCR_RX_FIFO_1_CHAR'', [(''../uart_8h.html#a0e6eb1fa685501b1c0cfd75a093714ec'', 1, ''uart.h'')]),
     (''ua5_5ffcr_5frx_5ffifo_5f4'', ''UA5_FCR_RX_FIFO_4'', [(''../uart_8h.html#a19ca94c913f615dda0323fcfc1b78720'', 1, ''uart.h'')]),
     (''ua5_5ffcr_5frx_5ffifo_5f4_5fchar'', ''UA5_FCR_RX_FIFO_4_CHAR'', [(''../uart_8h.html#a58cac679edd853aa84a86acb09b758b1'', 1, ''uart.h'')]),
     (''ua5_5ffcr_5frx_5ffifo_5f8'', ''UA5_FCR_RX_FIFO_8'', [(''../uart_8h.html#a4ec49fcbb6ae4ff4c86bf1adc3e2eef9'', 1, ''uart.h'')]),
     (''ua5_5ffcr_5frx_5ffifo_5f8_5fchar'', ''UA5_FCR_RX_FIFO_8_CHAR'', [(''../uart_8h.html#a7903c855d2aa0588ad84c58b5edfd3c4'', 1, ''uart.h'')]),
     (''ua5_5ffcr_5frx_5fsoft_5freset'', ''UA5_FCR_RX_SOFT_RESET'', [(''../uart_8h.html#a658f823bf3f1c7ef079976d684a84039'', 1, ''uart.h'')]),
     (''ua5_5ffcr_5frxfth'', ''UA5_FCR_RXFTH'', [(''../uart_8h.html#a46bf65a482879f9df95ae91173b75648'', 1, ''uart.h'')]),
     (''ua5_5ffcr_5frxfth0'', ''UA5_FCR_RXFTH0'', [(''../uart_8h.html#a8f9f25e25014325ff376b0cfbde0a0c4'', 1, ''uart.h'')]),
     (''ua5_5ffcr_5frxfth1'', ''UA5_FCR_RXFTH1'', [(''../uart_8h.html#a35934153a29f838ca6a4041d20d08e08'', 1, ''uart.h'')]),
     (''ua5_5ffcr_5frxsr'', ''UA5_FCR_RXSR'', [(''../uart_8h.html#a897447d0ee097cd87fe3bc2f50f9c9d3'', 1, ''uart.h'')]),
     (''ua5_5ffcr_5ftx_5ffifo_5f1'', ''UA5_FCR_TX_FIFO_1'', [(''../uart_8h.html#a222a80f5a2e54865c0692823c0779ba1'', 1, ''uart.h'')]),
     (''ua5_5ffcr_5ftx_5ffifo_5f13'', ''UA5_FCR_TX_FIFO_13'', [(''../uart_8h.html#a55202f3898a504ad8343e5fdec6ced62'', 1, ''uart.h'')]),
     (''ua5_5ffcr_5ftx_5ffifo_5f13_5fchar'', ''UA5_FCR_TX_FIFO_13_CHAR'', [(''../uart_8h.html#a9fe8885b5ba79dc57055fcff7a3b9255'', 1, ''uart.h'')]),
     (''ua5_5ffcr_5ftx_5ffifo_5f1_5fchar'', ''UA5_FCR_TX_FIFO_1_CHAR'', [(''../uart_8h.html#af3ff064d89c9da4a567e1cfc7b6500ba'', 1, ''uart.h'')]),
     (''ua5_5ffcr_5ftx_5ffifo_5f3'', ''UA5_FCR_TX_FIFO_3'', [(''../uart_8h.html#a6ba6b8b5c1c4754a5d76573744ed67f2'', 1, ''uart.h'')]),
     (''ua5_5ffcr_5ftx_5ffifo_5f3_5fchar'', ''UA5_FCR_TX_FIFO_3_CHAR'', [(''../uart_8h.html#ad0801996d2e531d6aea7b229247c3701'', 1, ''uart.h'')]),
     (''ua5_5ffcr_5ftx_5ffifo_5f9'', ''UA5_FCR_TX_FIFO_9'', [(''../uart_8h.html#af5988b7de55c78c409e63e1739c92880'', 1, ''uart.h'')]),
     (''ua5_5ffcr_5ftx_5ffifo_5f9_5fchar'', ''UA5_FCR_TX_FIFO_9_CHAR'', [(''../uart_8h.html#afd49230ae476625b883c7824e4311027'', 1, ''uart.h'')]),
     (''ua5_5ffcr_5ftx_5fsoft_5freset'', ''UA5_FCR_TX_SOFT_RESET'', [(''../uart_8h.html#ac05a290401610197cae8425343d8e721'', 1, ''uart.h'')]),
     (''ua5_5ffcr_5ftxfth'', ''UA5_FCR_TXFTH'', [(''../uart_8h.html#a1ee50bcaf1030b5a7ebe6bfabf251c87'', 1, ''uart.h'')]),
     (''ua5_5ffcr_5ftxfth0'', ''UA5_FCR_TXFTH0'', [(''../uart_8h.html#a47684fa591eb083c2b4aa637b4e24587'', 1, ''uart.h'')]),
     (''ua5_5ffcr_5ftxfth1'', ''UA5_FCR_TXFTH1'', [(''../uart_8h.html#a19a7c0651d654e62805258802f5a0e86'', 1, ''uart.h'')]),
     (''ua5_5ffcr_5ftxsr'', ''UA5_FCR_TXSR'', [(''../uart_8h.html#a3349f86791648667e08fe321d349a47e'', 1, ''uart.h'')]),
     (''uart_2eh'', ''uart.h'', [(''../uart_8h.html'', 1, '''')]),
     (''uint16_5ft'', ''uint16_t'', [(''../stdint_8h.html#a273cf69d639a59973b6019625df33e30'', 1, ''stdint.h'')]),
     (''uint32_5ft'', ''uint32_t'', [(''../stdint_8h.html#a435d1572bf3f880d55459d9805097f62'', 1, ''stdint.h'')]),
     (''uint64_5ft'', ''uint64_t'', [(''../stdint_8h.html#aa232ecf786a74ce5363c36c10798d2b1'', 1, ''stdint.h'')]),
     (''uint8_5ft'', ''uint8_t'', [(''../stdint_8h.html#aba7bc1797add20fe3efdf37ced1182c5'', 1, ''stdint.h'')]),
     (''uintptr_5ft'', ''uintptr_t'', [(''../stdint_8h.html#a728e973c799f206f0151c8a3bd1e5699'', 1, ''stdint.h'')]),
     (''ulib_2eh'', ''ulib.h'', [(''../ulib_8h.html'', 1, '''')]),
     (''ulibc_2ec'', ''ulibc.c'', [(''../ulibc_8c.html'', 1, '''')]),
     (''uninstall_5fmount'', ''uninstall_mount'', [(''../simple__mount_8c.html#a4c76fe790eb116cf3650084f6b07893f'', 1, ''uninstall_mount(IOHANDLE handle):&#160;simple_mount.c''), (''../simple__mount_8h.html#a4c76fe790eb116cf3650084f6b07893f'', 1, ''uninstall_mount(IOHANDLE handle):&#160;simple_mount.c'')]),
     (''unix_5fto_5ffattime'', ''unix_to_fattime'', [(''../time_8c.html#a82c08d604b0b6634b909c48eb5eeedb0'', 1, ''unix_to_fattime(int32_t timestamp):&#160;time.c''), (''../time_8h.html#a82c08d604b0b6634b909c48eb5eeedb0'', 1, ''unix_to_fattime(int32_t timestamp):&#160;time.c'')]),
     (''update_5fdentry'', ''update_dentry'', [(''../fat_8c.html#a403cb503eca5b0e76b3a04d1aa7f4d15'', 1, ''update_dentry(PFAT_CONTEXT ctx, int32_t parent_dir_cluster, FAT_DENTRY updated):&#160;fat.c''), (''../fat_8h.html#a403cb503eca5b0e76b3a04d1aa7f4d15'', 1, ''update_dentry(PFAT_CONTEXT ctx, int32_t parent_dir_cluster, FAT_DENTRY updated):&#160;fat.c'')]),
     (''updated'', ''updated'', [(''../struct__ft__de__inmem.html#a6991ddde208c616edc6cb6cb05f095c4'', 1, ''_ft_de_inmem'')]),
     (''user_2ec'', ''user.c'', [(''../user_8c.html'', 1, '''')]),
     (''user_2eh'', ''user.h'', [(''../user_8h.html'', 1, '''')]),
     (''user_5fa'', ''user_a'', [(''../user_8c.html#a4c4a226717b8391bd2e332dc88e028f0'', 1, ''user.c'')]),
     (''user_5fb'', ''user_b'', [(''../user_8c.html#ab5945e9e92951e942f78501aca57a3d3'', 1, ''user.c'')]),
     (''user_5fc'', ''user_c'', [(''../user_8c.html#abacb1f67635dcb6ce26ad6105ced468e'', 1, ''user.c'')]),
     (''user_5fd'', ''user_d'', [(''../user_8c.html#a74536edc79e0a86f4327a066f95fd32d'', 1, ''user.c'')]),
     (''user_5fe'', ''user_e'', [(''../user_8c.html#a9c9317caa85ef907bc0b2241f56cee9b'', 1, ''user.c'')]),
     (''user_5ff'', ''user_f'', [(''../user_8c.html#af16e4f1956776dd279a6ef7d7f3cb506'', 1, ''user.c'')]),
     (''user_5fg'', ''user_g'', [(''../user_8c.html#a2ded76fc41cfada1b8216b67357ea9b9'', 1, ''user.c'')]),
     (''user_5fh'', ''user_h'', [(''../user_8c.html#a2e10389d5b4b6b170f58a826387365b9'', 1, ''user.c'')]),
     (''user_5fi'', ''user_i'', [(''../user_8c.html#ad01fb2a6cf3cef09c981399130ce9b48'', 1, ''user.c'')]),
     (''user_5fj'', ''user_j'', [(''../user_8c.html#a2996d41904c29bec4db7e21ab3300680'', 1, ''user.c'')]),
     (''user_5fk'', ''user_k'', [(''../user_8c.html#a75091df536f482022a1ff3109e98e64e'', 1, ''user.c'')]),
     (''user_5fl'', ''user_l'', [(''../user_8c.html#af1ce36872b256bd6b30cc3a7d3817195'', 1, ''user.c'')]),
     (''user_5fm'', ''user_m'', [(''../user_8c.html#a802940ede0eeae91ecb0ad1bdf01b336'', 1, ''user.c'')]),
     (''user_5fn'', ''user_n'', [(''../user_8c.html#a986b00686643147db16043d29a719fbd'', 1, ''user.c'')]),
     (''user_5fo'', ''user_o'', [(''../user_8c.html#a62d1506f257a6731f36f7a1f21c9474a'', 1, ''user.c'')]),
     (''user_5fp'', ''user_p'', [(''../user_8c.html#ab4624141ac74805fb9eefc8cf2882ed4'', 1, ''user.c'')]),
     (''user_5fq'', ''user_q'', [(''../user_8c.html#aa7fe6569a6220bd6fe2ca0a8a196526c'', 1, ''user.c'')]),
     (''user_5fr'', ''user_r'', [(''../user_8c.html#a00500cb93231a997c0ed13e4172bd77c'', 1, ''user.c'')]),
     (''user_5fs'', ''user_s'', [(''../user_8c.html#a996cb041c74417485c85bd72ceea30d8'', 1, ''user.c'')]),
     (''user_5ft'', ''user_t'', [(''../user_8c.html#a1055c4ea94610f4aebbf84225f66fe56'', 1, ''user.c'')]),
     (''user_5fu'', ''user_u'', [(''../user_8c.html#a19f00c2056d584e2a7c3177b67db9140'', 1, ''user.c'')]),
     (''user_5fv'', ''user_v'', [(''../user_8c.html#a9e7daf0abfb70bd60a4e9e4bd0fea74b'', 1, ''user.c'')]),
     (''user_5fw'', ''user_w'', [(''../user_8c.html#a5ac287699211a3c98062ff3e88ad646e'', 1, ''user.c'')]),
     (''user_5fx'', ''user_x'', [(''../user_8c.html#acd6826292990ba959202900ecdafac1f'', 1, ''user.c'')]),
     (''user_5fy'', ''user_y'', [(''../user_8c.html#a548388464c2456d8a52536eaabace476'', 1, ''user.c'')]),
     (''user_5fz'', ''user_z'', [(''../user_8c.html#a215a778b768a1cc8e6ab71b9f6cf0bbd'', 1, ''user.c'')])]"

definition searchData_all_16 :: "search_entry list" where
  "searchData_all_16 =
    [(''v2'', ''v2'', [(''../unionVBEModeInfo__u.html#a5c4e255af6f27207319604bd19091758'', 1, ''VBEModeInfo_u'')]),
     (''v3'', ''v3'', [(''../unionVBEModeInfo__u.html#ac028ac199b0a9ef4e0e2e465c44cb0c2'', 1, ''VBEModeInfo_u'')]),
     (''vbe_2ec'', ''vbe.c'', [(''../vbe_8c.html'', 1, '''')]),
     (''vbe_2eh'', ''vbe.h'', [(''../vbe_8h.html'', 1, '''')]),
     (''vbe2modeinfo'', ''VBE2ModeInfo'', [(''../VBE2ModeInfo_8h.html#a74fbcf4c340247a99a70cfcef3d80031'', 1, ''VBE2ModeInfo.h'')]),
     (''vbe2modeinfo_2eh'', ''VBE2ModeInfo.h'', [(''../VBE2ModeInfo_8h.html'', 1, '''')]),
     (''vbe2modeinfo_5fs'', ''VBE2ModeInfo_s'', [(''../structVBE2ModeInfo__s.html'', 1, '''')]),
     (''vbe3modeinfo'', ''VBE3ModeInfo'', [(''../VBE3ModeInfo_8h.html#a42ac42f36c7f4c2c46c0838b67111833'', 1, ''VBE3ModeInfo.h'')]),
     (''vbe3modeinfo_2eh'', ''VBE3ModeInfo.h'', [(''../VBE3ModeInfo_8h.html'', 1, '''')]),
     (''vbe3modeinfo_5fs'', ''VBE3ModeInfo_s'', [(''../structVBE3ModeInfo__s.html'', 1, '''')]),
     (''vbe_5fax'', ''VBE_AX'', [(''../vbe_8h.html#a566710d88e5032e5fab1572304c15e24'', 1, ''vbe.h'')]),
     (''vbe_5fblock_5faddress'', ''VBE_BLOCK_ADDRESS'', [(''../vbe_8h.html#a81c169417fd81849d6810d8bd7a1fa2e'', 1, ''vbe.h'')]),
     (''vbe_5fcurrentmode'', ''vbe_currentMode'', [(''../vbe_8c.html#a6e43514e49c5f7f4e44c6caf44cc3a6c'', 1, ''vbe_currentMode(uint16_t *modeVar, uint16_t *vbeResult):&#160;vbe.c''), (''../vbe_8h.html#a6e43514e49c5f7f4e44c6caf44cc3a6c'', 1, ''vbe_currentMode(uint16_t *modeVar, uint16_t *vbeResult):&#160;vbe.c'')]),
     (''vbe_5ffunction_5fcurrentmode'', ''VBE_FUNCTION_CURRENTMODE'', [(''../vbe_8h.html#a1209ced85c7b732776d231f97cc693dd'', 1, ''vbe.h'')]),
     (''vbe_5ffunction_5fdacpalette'', ''VBE_FUNCTION_DACPALETTE'', [(''../vbe_8h.html#a46ee62db34f5efc460599b3cace86bbc'', 1, ''vbe.h'')]),
     (''vbe_5ffunction_5fdisplaystart'', ''VBE_FUNCTION_DISPLAYSTART'', [(''../vbe_8h.html#a7ebe7f4bd2e1571e7a0794073d5dd7b8'', 1, ''vbe.h'')]),
     (''vbe_5ffunction_5fdisplaywindowcontrol'', ''VBE_FUNCTION_DISPLAYWINDOWCONTROL'', [(''../vbe_8h.html#ace8b3108addeaf8c22ec7a7f9c8eb315'', 1, ''vbe.h'')]),
     (''vbe_5ffunction_5fgetinfo'', ''VBE_FUNCTION_GETINFO'', [(''../vbe_8h.html#a04b2bf4a31443bd51cf133abace0738a'', 1, ''vbe.h'')]),
     (''vbe_5ffunction_5fgetmodeinfo'', ''VBE_FUNCTION_GETMODEINFO'', [(''../vbe_8h.html#ac9046a3c1e9d59b81c4468e9a8f7718f'', 1, ''vbe.h'')]),
     (''vbe_5ffunction_5fpalette'', ''VBE_FUNCTION_PALETTE'', [(''../vbe_8h.html#a3a190650ddc142a7202ebf3738b98eed'', 1, ''vbe.h'')]),
     (''vbe_5ffunction_5fprotectedmode'', ''VBE_FUNCTION_PROTECTEDMODE'', [(''../vbe_8h.html#a46274c63c4c8f7d6203e3ec6b2f76154'', 1, ''vbe.h'')]),
     (''vbe_5ffunction_5fscanline'', ''VBE_FUNCTION_SCANLINE'', [(''../vbe_8h.html#aa809cc43218179adec80a7a80a0397c0'', 1, ''vbe.h'')]),
     (''vbe_5ffunction_5fsetmode'', ''VBE_FUNCTION_SETMODE'', [(''../vbe_8h.html#a561ec6d00ce8debb086ad60b19811d7c'', 1, ''vbe.h'')]),
     (''vbe_5ffunction_5fstate'', ''VBE_FUNCTION_STATE'', [(''../vbe_8h.html#a8b7831bf83a3c507465ae08299364e03'', 1, ''vbe.h'')]),
     (''vbe_5fgetinfo'', ''vbe_getInfo'', [(''../vbe_8c.html#a1209aec679a8ea9471f284355052992e'', 1, ''vbe_getInfo(VBEInfo *info, uint16_t *vbeResult):&#160;vbe.c''), (''../vbe_8h.html#a1209aec679a8ea9471f284355052992e'', 1, ''vbe_getInfo(VBEInfo *info, uint16_t *vbeResult):&#160;vbe.c'')]),
     (''vbe_5fgetmodeinfo'', ''vbe_getModeInfo'', [(''../vbe_8c.html#a20cc02dad4643547e3299b5c6c7d0eda'', 1, ''vbe_getModeInfo(uint16_t mode, VBEModeInfo *modeInfo, uint16_t *vbeResult):&#160;vbe.c''), (''../vbe_8h.html#a20cc02dad4643547e3299b5c6c7d0eda'', 1, ''vbe_getModeInfo(uint16_t mode, VBEModeInfo *modeInfo, uint16_t *vbeResult):&#160;vbe.c'')]),
     (''vbe_5finit'', ''vbe_init'', [(''../vbe_8c.html#a86966cb0bd5545d86d1ee4e43b908d57'', 1, ''vbe_init(void):&#160;vbe.c''), (''../vbe_8h.html#a86966cb0bd5545d86d1ee4e43b908d57'', 1, ''vbe_init(void):&#160;vbe.c'')]),
     (''vbe_5fmode_5fflag_5fclear'', ''VBE_MODE_FLAG_CLEAR'', [(''../vbe_8h.html#ae0c6e9fdfeb77713a85043318cc80c75'', 1, ''vbe.h'')]),
     (''vbe_5fmode_5fflag_5flfb'', ''VBE_MODE_FLAG_LFB'', [(''../vbe_8h.html#a8f31b9fac08243aafb138844f6fe2367'', 1, ''vbe.h'')]),
     (''vbe_5fmode_5fnumber'', ''VBE_MODE_NUMBER'', [(''../vbe_8h.html#a5b07700d5699b549298034b3a9164ea0'', 1, ''vbe.h'')]),
     (''vbe_5fmode_5freserved'', ''VBE_MODE_RESERVED'', [(''../vbe_8h.html#a28de526ec7b92a4450f5442ec45cfc8d'', 1, ''vbe.h'')]),
     (''vbe_5fmodeattr_5fcolor'', ''VBE_MODEATTR_COLOR'', [(''../VBEModeInfo_8h.html#a1da46a41379762785804f30f9e43aef8'', 1, ''VBEModeInfo.h'')]),
     (''vbe_5fmodeattr_5fdoublescan'', ''VBE_MODEATTR_DOUBLESCAN'', [(''../VBEModeInfo_8h.html#a9a6b328ba8bf0f9ec868699ca1fbac11'', 1, ''VBEModeInfo.h'')]),
     (''vbe_5fmodeattr_5fdualdisplay'', ''VBE_MODEATTR_DUALDISPLAY'', [(''../VBEModeInfo_8h.html#a7ed7651145b7c7c78cf470260bce9009'', 1, ''VBEModeInfo.h'')]),
     (''vbe_5fmodeattr_5fframebuffer'', ''VBE_MODEATTR_FRAMEBUFFER'', [(''../VBEModeInfo_8h.html#a99a9b9b1c144264011b23cf0b21354f1'', 1, ''VBEModeInfo.h'')]),
     (''vbe_5fmodeattr_5fgraphics'', ''VBE_MODEATTR_GRAPHICS'', [(''../VBEModeInfo_8h.html#a630b3f541e29d2279c02a50dcfa8f219'', 1, ''VBEModeInfo.h'')]),
     (''vbe_5fmodeattr_5finterlaced'', ''VBE_MODEATTR_INTERLACED'', [(''../VBEModeInfo_8h.html#a8bf884b6a090521caf7da2a8a2628dba'', 1, ''VBEModeInfo.h'')]),
     (''vbe_5fmodeattr_5freserved1'', ''VBE_MODEATTR_RESERVED1'', [(''../VBEModeInfo_8h.html#afaa702bae6dcacf5329777f5c48555d9'', 1, ''VBEModeInfo.h'')]),
     (''vbe_5fmodeattr_5freserved2'', ''VBE_MODEATTR_RESERVED2'', [(''../VBEModeInfo_8h.html#a7d647e657a0162752c714395126425d9'', 1, ''VBEModeInfo.h'')]),
     (''vbe_5fmodeattr_5freserved3'', ''VBE_MODEATTR_RESERVED3'', [(''../VBEModeInfo_8h.html#a79d7500895969a622885f73a08febb41'', 1, ''VBEModeInfo.h'')]),
     (''vbe_5fmodeattr_5freserved4'', ''VBE_MODEATTR_RESERVED4'', [(''../VBEModeInfo_8h.html#a05b39f129e980082e02addd3265e79b3'', 1, ''VBEModeInfo.h'')]),
     (''vbe_5fmodeattr_5fstereoscopic'', ''VBE_MODEATTR_STEREOSCOPIC'', [(''../VBEModeInfo_8h.html#aba4aab0b841ad2d1aa6c1fe5bd055070'', 1, ''VBEModeInfo.h'')]),
     (''vbe_5fmodeattr_5fsupported'', ''VBE_MODEATTR_SUPPORTED'', [(''../VBEModeInfo_8h.html#a858227be1a16c84dd35b33f0610d8c79'', 1, ''VBEModeInfo.h'')]),
     (''vbe_5fmodeattr_5ftriplebuffer'', ''VBE_MODEATTR_TRIPLEBUFFER'', [(''../VBEModeInfo_8h.html#addf453fa7d26128e91cc17c0c1ccf4ee'', 1, ''VBEModeInfo.h'')]),
     (''vbe_5fmodeattr_5ftty_5fsupport'', ''VBE_MODEATTR_TTY_SUPPORT'', [(''../VBEModeInfo_8h.html#ad91bdddff9d46a31a30f07d07710b65e'', 1, ''VBEModeInfo.h'')]),
     (''vbe_5fmodeattr_5fvga'', ''VBE_MODEATTR_VGA'', [(''../VBEModeInfo_8h.html#ac8f50ad2ecfee129c30a321a638090d7'', 1, ''VBEModeInfo.h'')]),
     (''vbe_5fmodeattr_5fwindowed'', ''VBE_MODEATTR_WINDOWED'', [(''../VBEModeInfo_8h.html#a0db917f3c692e1e84a0ff7d106e3dec7'', 1, ''VBEModeInfo.h'')]),
     (''vbe_5fmodel_5fcga'', ''VBE_MODEL_CGA'', [(''../VBEModeInfo_8h.html#a4d62a6e6679ae83a96a543f0ec8c2cce'', 1, ''VBEModeInfo.h'')]),
     (''vbe_5fmodel_5fdirect'', ''VBE_MODEL_DIRECT'', [(''../VBEModeInfo_8h.html#a53ed6c1aefcb367a9619c3c7d76e61a5'', 1, ''VBEModeInfo.h'')]),
     (''vbe_5fmodel_5fhercules'', ''VBE_MODEL_HERCULES'', [(''../VBEModeInfo_8h.html#a1024d65dd3662c491d1c18101d0d9338'', 1, ''VBEModeInfo.h'')]),
     (''vbe_5fmodel_5fnonchain'', ''VBE_MODEL_NONCHAIN'', [(''../VBEModeInfo_8h.html#ac9e24e66e02ba29e70de618b5744ee49'', 1, ''VBEModeInfo.h'')]),
     (''vbe_5fmodel_5fpacked'', ''VBE_MODEL_PACKED'', [(''../VBEModeInfo_8h.html#a926d86ff5e0812ebb0f68cfb9c2a96e9'', 1, ''VBEModeInfo.h'')]),
     (''vbe_5fmodel_5fplanar'', ''VBE_MODEL_PLANAR'', [(''../VBEModeInfo_8h.html#a216ce2bbe21ed44d73964d8398a655ed'', 1, ''VBEModeInfo.h'')]),
     (''vbe_5fmodel_5ftext'', ''VBE_MODEL_TEXT'', [(''../VBEModeInfo_8h.html#a7d77305f6192011d317ed6c6fb4f948c'', 1, ''VBEModeInfo.h'')]),
     (''vbe_5fmodel_5fyuv'', ''VBE_MODEL_YUV'', [(''../VBEModeInfo_8h.html#a558e92cd2ee3bac8d38e142d4056b141'', 1, ''VBEModeInfo.h'')]),
     (''vbe_5fmodelist_5fterminator'', ''VBE_MODELIST_TERMINATOR'', [(''../vbe_8h.html#a02a0561088ad6d1200c730f9ed183fb8'', 1, ''vbe.h'')]),
     (''vbe_5fptr'', ''vbe_ptr'', [(''../vbe_8h.html#ac51c6023e04d009c47e2f920d58c0179'', 1, ''vbe.h'')]),
     (''vbe_5freturn_5ffunction_5fbad_5fconfig'', ''VBE_RETURN_FUNCTION_BAD_CONFIG'', [(''../vbe_8h.html#a85be5f99270c3677dd8c4a8979ca579e'', 1, ''vbe.h'')]),
     (''vbe_5freturn_5ffunction_5ffailed'', ''VBE_RETURN_FUNCTION_FAILED'', [(''../vbe_8h.html#a1e7b6d0365f4a6c5be479d798d89c199'', 1, ''vbe.h'')]),
     (''vbe_5freturn_5ffunction_5finvalid'', ''VBE_RETURN_FUNCTION_INVALID'', [(''../vbe_8h.html#a61b4ebdd1aa7710c81ccced7ad5380d6'', 1, ''vbe.h'')]),
     (''vbe_5freturn_5ffunction_5fsuccess'', ''VBE_RETURN_FUNCTION_SUCCESS'', [(''../vbe_8h.html#aaf8c840f0f3aae49595c05adf1d9759c'', 1, ''vbe.h'')]),
     (''vbe_5freturn_5ffunction_5fsupported'', ''VBE_RETURN_FUNCTION_SUPPORTED'', [(''../vbe_8h.html#a8a9e81b16300d6b3d1dc887388a3d9cc'', 1, ''vbe.h'')]),
     (''vbe_5fsetmode'', ''vbe_setMode'', [(''../vbe_8c.html#adc694b53439ddcda6a382e9ac5e4ce6b'', 1, ''vbe_setMode(uint16_t mode, uint16_t *vbeResult):&#160;vbe.c''), (''../vbe_8h.html#adc694b53439ddcda6a382e9ac5e4ce6b'', 1, ''vbe_setMode(uint16_t mode, uint16_t *vbeResult):&#160;vbe.c'')]),
     (''vbeinfo'', ''VBEInfo'', [(''../VBEInfo_8h.html#aebcff435df9f5d26b37086533bc83512'', 1, ''VBEInfo.h'')]),
     (''vbeinfo_2eh'', ''VBEInfo.h'', [(''../VBEInfo_8h.html'', 1, '''')]),
     (''vbeinfo_5fs'', ''VBEInfo_s'', [(''../structVBEInfo__s.html'', 1, '''')]),
     (''vbemodeinfo'', ''VBEModeInfo'', [(''../VBEModeInfo_8h.html#a4aef9145c7433c86bb3890c1b8aed8bf'', 1, ''VBEModeInfo.h'')]),
     (''vbemodeinfo_2eh'', ''VBEModeInfo.h'', [(''../VBEModeInfo_8h.html'', 1, '''')]),
     (''vbemodeinfo_5fu'', ''VBEModeInfo_u'', [(''../unionVBEModeInfo__u.html'', 1, '''')]),
     (''vbeversion'', ''vbeVersion'', [(''../structVideoInfo__s.html#a14a305fc822c0b07204706643d9979dd'', 1, ''VideoInfo_s'')]),
     (''vcon'', ''VCon'', [(''../VCon_8h.html#a716aa8d297fdb9b159b842cf4da4548c'', 1, ''VCon.h'')]),
     (''vcon_2eh'', ''VCon.h'', [(''../VCon_8h.html'', 1, '''')]),
     (''vcon_5fblink'', ''vcon_blink'', [(''../control_8h.html#a676b3b985e29184a8337735f0a4ae332'', 1, ''control.h'')]),
     (''vcon_5fbuf_5fclearlinetable'', ''vcon_buf_clearLineTable'', [(''../buffer_8c.html#a8c467f470d15c0c4fbd5f73ccd216f34'', 1, ''vcon_buf_clearLineTable(VCon *con, uint16_t from, uint16_t to):&#160;buffer.c''), (''../buffer_8h.html#a8c467f470d15c0c4fbd5f73ccd216f34'', 1, ''vcon_buf_clearLineTable(VCon *con, uint16_t from, uint16_t to):&#160;buffer.c'')]),
     (''vcon_5fbuf_5finitlinetable'', ''vcon_buf_initLineTable'', [(''../buffer_8c.html#a3c9d1d2943169cb1b24061a520ad547b'', 1, ''vcon_buf_initLineTable(VCon *con):&#160;buffer.c''), (''../buffer_8h.html#a3c9d1d2943169cb1b24061a520ad547b'', 1, ''vcon_buf_initLineTable(VCon *con):&#160;buffer.c'')]),
     (''vcon_5fclear'', ''vcon_clear'', [(''../console_8c.html#a45fd652a0969e2617fc93df8e49b2af0'', 1, ''vcon_clear(VCon *con):&#160;console.c''), (''../console_8h.html#a45fd652a0969e2617fc93df8e49b2af0'', 1, ''vcon_clear(VCon *con):&#160;console.c'')]),
     (''vcon_5fclearscroll'', ''vcon_clearScroll'', [(''../console_8c.html#ad290cda7c2a62adadb62c2c79627ec6e'', 1, ''vcon_clearScroll(VCon *con):&#160;console.c''), (''../console_8h.html#ad290cda7c2a62adadb62c2c79627ec6e'', 1, ''vcon_clearScroll(VCon *con):&#160;console.c'')]),
     (''vcon_5fcolumns_5fmax'', ''VCON_COLUMNS_MAX'', [(''../VCon_8h.html#afa9888a1fcf740e5358eb2df6bd06450'', 1, ''VCon.h'')]),
     (''vcon_5fcursor'', ''vcon_cursor'', [(''../VCon_8h.html#a846620d6b983f33912069b841fa72e1f'', 1, ''VCon.h'')]),
     (''vcon_5fdefault_5fcolor'', ''VCON_DEFAULT_COLOR'', [(''../VConChar_8h.html#a3001c83b663839f4fa66ef58333a8ce1'', 1, ''VConChar.h'')]),
     (''vcon_5fdefault_5ftabsize'', ''VCON_DEFAULT_TABSIZE'', [(''../VCon_8h.html#a8068caf51b7f5f6da8affc8acd60a990'', 1, ''VCon.h'')]),
     (''vcon_5fgraphics_5fdraw'', ''vcon_graphics_draw'', [(''../draw_8c.html#a34ead8cf294de99af674416b261d5223'', 1, ''vcon_graphics_draw(VConCtrl *ctrl, VConChar *start, VConLine line, uint16_t row):&#160;draw.c''), (''../draw_8h.html#a34ead8cf294de99af674416b261d5223'', 1, ''vcon_graphics_draw(VConCtrl *ctrl, VConChar *start, VConLine line, uint16_t row):&#160;draw.c'')]),
     (''vcon_5finit'', ''vcon_init'', [(''../console_8c.html#a9a828a3cb4ce65510f2c2af06b49ed3c'', 1, ''vcon_init(VCon *con, uint16_t rows, uint16_t columns):&#160;console.c''), (''../console_8h.html#a9a828a3cb4ce65510f2c2af06b49ed3c'', 1, ''vcon_init(VCon *con, uint16_t rows, uint16_t columns):&#160;console.c'')]),
     (''vcon_5fline_5fflag_5fdirty'', ''VCON_LINE_FLAG_DIRTY'', [(''../VConLine_8h.html#ae30b40bb4752e8f034c71c13052e2f29'', 1, ''VConLine.h'')]),
     (''vcon_5fline_5fflag_5fmask'', ''VCON_LINE_FLAG_MASK'', [(''../VConLine_8h.html#ab27038cd5fa2296ec3ae2ff939a4e27c'', 1, ''VConLine.h'')]),
     (''vcon_5fline_5fflag_5fscroll'', ''VCON_LINE_FLAG_SCROLL'', [(''../VConLine_8h.html#a42bf2cf207788b3c4ca374ff4f6aa016'', 1, ''VConLine.h'')]),
     (''vcon_5fline_5flength_5floc'', ''VCON_LINE_LENGTH_LOC'', [(''../VConLine_8h.html#ab75592ae090cadb4cf59bd9ad803d274'', 1, ''VConLine.h'')]),
     (''vcon_5fline_5flength_5fmask'', ''VCON_LINE_LENGTH_MASK'', [(''../VConLine_8h.html#a99ce0d68c566c1e98732434c3c196492'', 1, ''VConLine.h'')]),
     (''vcon_5fmode_5fgraphics'', ''VCON_MODE_GRAPHICS'', [(''../VConMode_8h.html#a97269b1554dbfe4abdc7f5d8f6d20a54a7dd4cf380c3e01d60c3b4c0c1daa8337'', 1, ''VConMode.h'')]),
     (''vcon_5fmode_5fvgatext'', ''VCON_MODE_VGATEXT'', [(''../VConMode_8h.html#a97269b1554dbfe4abdc7f5d8f6d20a54a55392ead706e36bf23aa2ee25cc6c64a'', 1, ''VConMode.h'')]),
     (''vcon_5fnullcell'', ''VCON_NULLCELL'', [(''../VConChar_8h.html#a59b674bbb4af0bda6d894292c17e2318'', 1, ''VConChar.h'')]),
     (''vcon_5fputchar'', ''vcon_putchar'', [(''../console_8c.html#a234016944519a6207be2e34b6fb78700'', 1, ''vcon_putchar(VCon *con, char ch):&#160;console.c''), (''../console_8h.html#a234016944519a6207be2e34b6fb78700'', 1, ''vcon_putchar(VCon *con, char ch):&#160;console.c'')]),
     (''vcon_5fputcharat'', ''vcon_putcharAt'', [(''../console_8c.html#ac036abd06029b2ecc3988526c94d62cf'', 1, ''vcon_putcharAt(VCon *con, char ch, uint16_t x, uint16_t y):&#160;console.c''), (''../console_8h.html#ac036abd06029b2ecc3988526c94d62cf'', 1, ''vcon_putcharAt(VCon *con, char ch, uint16_t x, uint16_t y):&#160;console.c'')]),
     (''vcon_5fputs'', ''vcon_puts'', [(''../console_8c.html#acb21b137d9a021c6c8de12d94ac6d18f'', 1, ''vcon_puts(VCon *con, const char *str):&#160;console.c''), (''../console_8h.html#acb21b137d9a021c6c8de12d94ac6d18f'', 1, ''vcon_puts(VCon *con, const char *str):&#160;console.c'')]),
     (''vcon_5fputsat'', ''vcon_putsAt'', [(''../console_8c.html#a7e565c8c5301835c415ab23884363e1a'', 1, ''vcon_putsAt(VCon *con, const char *str, uint16_t x, uint16_t y):&#160;console.c''), (''../console_8h.html#a5429a898422c618375af45c517781cff'', 1, ''vcon_putsAt(VCon *con, const char *str, uint16_t c, uint16_t y):&#160;console.c'')]),
     (''vcon_5fredraw'', ''vcon_redraw'', [(''../control_8c.html#a05cc4af3b3127730c9d48f67ac1678af'', 1, ''vcon_redraw(VConCtrl *ctrl):&#160;control.c''), (''../control_8h.html#a05cc4af3b3127730c9d48f67ac1678af'', 1, ''vcon_redraw(VConCtrl *ctrl):&#160;control.c'')]),
     (''vcon_5fresize'', ''vcon_resize'', [(''../console_8c.html#a626a89e218563e2395521e5549ee0b2f'', 1, ''vcon_resize(VCon *con, uint16_t rows, uint16_t columns):&#160;console.c''), (''../console_8h.html#a626a89e218563e2395521e5549ee0b2f'', 1, ''vcon_resize(VCon *con, uint16_t rows, uint16_t columns):&#160;console.c'')]),
     (''vcon_5frows_5fmax'', ''VCON_ROWS_MAX'', [(''../VCon_8h.html#a5f81822f303064f108ed6d865217b300'', 1, ''VCon.h'')]),
     (''vcon_5fs'', ''VCon_s'', [(''../structVCon__s.html'', 1, '''')]),
     (''vcon_5fscroll'', ''vcon_scroll'', [(''../console_8c.html#ab89e5a515d1e8e43cc130fe3e01dba30'', 1, ''vcon_scroll(VCon *con, uint16_t lines):&#160;console.c''), (''../console_8h.html#ab89e5a515d1e8e43cc130fe3e01dba30'', 1, ''vcon_scroll(VCon *con, uint16_t lines):&#160;console.c'')]),
     (''vcon_5fsetcursor'', ''vcon_setCursor'', [(''../console_8c.html#a586efc1bacec2cb450bdc62bf0f84a19'', 1, ''vcon_setCursor(VCon *con, uint16_t x, uint16_t y):&#160;console.c''), (''../console_8h.html#a586efc1bacec2cb450bdc62bf0f84a19'', 1, ''vcon_setCursor(VCon *con, uint16_t x, uint16_t y):&#160;console.c'')]),
     (''vcon_5fsetscroll'', ''vcon_setScroll'', [(''../console_8c.html#ae7951754278ef95d04b5436419a664b4'', 1, ''vcon_setScroll(VCon *con, uint16_t start, uint16_t end):&#160;console.c''), (''../console_8h.html#ae7951754278ef95d04b5436419a664b4'', 1, ''vcon_setScroll(VCon *con, uint16_t start, uint16_t end):&#160;console.c'')]),
     (''vcon_5fswitch'', ''vcon_switch'', [(''../control_8c.html#a6cb6c48f7e5476b45b0f0e809968a5e0'', 1, ''vcon_switch(VConCtrl *ctrl, VCon *console):&#160;control.c''), (''../control_8h.html#a6cb6c48f7e5476b45b0f0e809968a5e0'', 1, ''vcon_switch(VConCtrl *ctrl, VCon *console):&#160;control.c'')]),
     (''vcon_5fvga_5fdraw'', ''vcon_vga_draw'', [(''../draw_8c.html#a723c7c1f2238fdce38754b224618e9a0'', 1, ''vcon_vga_draw(VConCtrl *ctrl, VConChar *start, VConLine line, uint16_t row):&#160;draw.c''), (''../draw_8h.html#a723c7c1f2238fdce38754b224618e9a0'', 1, ''vcon_vga_draw(VConCtrl *ctrl, VConChar *start, VConLine line, uint16_t row):&#160;draw.c'')]),
     (''vconbuf'', ''VConBuf'', [(''../VConBuf_8h.html#a6c804f5c290b91b396caace910027e58'', 1, ''VConBuf.h'')]),
     (''vconbuf_2eh'', ''VConBuf.h'', [(''../VConBuf_8h.html'', 1, '''')]),
     (''vconbuf_5fs'', ''VConBuf_s'', [(''../structVConBuf__s.html'', 1, '''')]),
     (''vconchar'', ''VConChar'', [(''../VConChar_8h.html#a957a25f24913905bbf6bf29bb0471557'', 1, ''VConChar.h'')]),
     (''vconchar_2eh'', ''VConChar.h'', [(''../VConChar_8h.html'', 1, '''')]),
     (''vconchar_5fs'', ''VConChar_s'', [(''../structVConChar__s.html'', 1, '''')]),
     (''vconctrl'', ''VConCtrl'', [(''../VConCtrl_8h.html#a7e897d046f9156e772108e9c014e1116'', 1, ''VConCtrl.h'')]),
     (''vconctrl_2eh'', ''VConCtrl.h'', [(''../VConCtrl_8h.html'', 1, '''')]),
     (''vconctrl_5fs'', ''VConCtrl_s'', [(''../structVConCtrl__s.html'', 1, '''')]),
     (''vcondrawfunc'', ''VConDrawFunc'', [(''../VConDrawFunc_8h.html#ae4cac7bfb7946bd2082c373d950b574e'', 1, ''VConDrawFunc.h'')]),
     (''vcondrawfunc_2eh'', ''VConDrawFunc.h'', [(''../VConDrawFunc_8h.html'', 1, '''')]),
     (''vconline'', ''VConLine'', [(''../VConLine_8h.html#a7fb75b2e651786cb19de05fc1daada7d'', 1, ''VConLine.h'')]),
     (''vconline_2eh'', ''VConLine.h'', [(''../VConLine_8h.html'', 1, '''')]),
     (''vconline_5fs'', ''VConLine_s'', [(''../structVConLine__s.html'', 1, '''')]),
     (''vconmode'', ''VConMode'', [(''../VConMode_8h.html#a2f09d6f97157b31691585601d949aab8'', 1, ''VConMode.h'')]),
     (''vconmode_2eh'', ''VConMode.h'', [(''../VConMode_8h.html'', 1, '''')]),
     (''vconmode_5fe'', ''VConMode_e'', [(''../VConMode_8h.html#a97269b1554dbfe4abdc7f5d8f6d20a54'', 1, ''VConMode.h'')]),
     (''vconscrollfunc'', ''VConScrollFunc'', [(''../VConScrollFunc_8h.html#a9a3a9008c5863a3d4dd4492125acbe1c'', 1, ''VConScrollFunc.h'')]),
     (''vconscrollfunc_2eh'', ''VConScrollFunc.h'', [(''../VConScrollFunc_8h.html'', 1, '''')]),
     (''vector'', ''vector'', [(''../structcontext.html#a71443eb52d815a85654cf248e5417387'', 1, ''context'')]),
     (''vendor'', ''vendor'', [(''../structVBEInfo__s.html#addedff06d5a60a4f4de810ec0d51777e'', 1, ''VBEInfo_s::vendor()''), (''../structVideoInfo__s.html#aa0e7edda0445b352d8f6b5e77e2a75b7'', 1, ''VideoInfo_s::vendor()''), (''../VBEInfo_8h.html#a0b580fbbd278cc2345051a33993f068d'', 1, ''vendor():&#160;VBEInfo.h'')]),
     (''version'', ''version'', [(''../structPSFont__s.html#ad3cb1382a9f838f93418a8b131b08eeb'', 1, ''PSFont_s::version()''), (''../structipv4__t.html#abd3f0813a9a72c2e9ab0beba058b8d13'', 1, ''ipv4_t::version()''), (''../structVBEInfo__s.html#ad998291e9b774e254b95a01982aff32b'', 1, ''VBEInfo_s::version()''), (''../structEDIDRecord__s.html#a18660662a10e61de4d95de295e16e795'', 1, ''EDIDRecord_s::Version()''), (''../VBEInfo_8h.html#ab6d7b6f8c2ceaba7acda80aaf05f4899'', 1, ''version():&#160;VBEInfo.h''), (''../EDIDRecord_8h.html#a3bee6b95c6449755b9e7c167d1360dc5'', 1, ''Version():&#160;EDIDRecord.h'')]),
     (''vesa_2eh'', ''vesa.h'', [(''../vesa_8h.html'', 1, '''')]),
     (''vga_2eh'', ''vga.h'', [(''../vga_8h.html'', 1, '''')]),
     (''vga13_2ec'', ''vga13.c'', [(''../vga13_8c.html'', 1, '''')]),
     (''vga13_2eh'', ''vga13.h'', [(''../vga13_8h.html'', 1, '''')]),
     (''vga13_5fclear'', ''vga13_clear'', [(''../vga13_8c.html#a0b53afbfba1f573cc5f804c750a5d349'', 1, ''vga13_clear(uint8_t color):&#160;vga13.c''), (''../vga13_8h.html#a0b53afbfba1f573cc5f804c750a5d349'', 1, ''vga13_clear(uint8_t color):&#160;vga13.c'')]),
     (''vga13_5fframebuffer'', ''VGA13_FRAMEBUFFER'', [(''../vga13_8h.html#ac7e87ab365e3b292cd92b545d770b0c5'', 1, ''vga13.h'')]),
     (''vga13_5fgetcolumns'', ''vga13_getColumns'', [(''../vga13_8c.html#a5de98f5f90b3f9607a38ab74cff330a7'', 1, ''vga13_getColumns(unsigned row, unsigned col, unsigned bufsize, uint8_t buf[]):&#160;vga13.c''), (''../vga13_8h.html#a5de98f5f90b3f9607a38ab74cff330a7'', 1, ''vga13_getColumns(unsigned row, unsigned col, unsigned bufsize, uint8_t buf[]):&#160;vga13.c'')]),
     (''vga13_5fgetpixel'', ''vga13_getPixel'', [(''../vga13_8c.html#a6d5d5b0a94669336149ba3c987395fe6'', 1, ''vga13_getPixel(unsigned x, unsigned y, uint8_t *pixelVar):&#160;vga13.c''), (''../vga13_8h.html#a6d5d5b0a94669336149ba3c987395fe6'', 1, ''vga13_getPixel(unsigned x, unsigned y, uint8_t *pixelVar):&#160;vga13.c'')]),
     (''vga13_5fgetrow'', ''vga13_getRow'', [(''../vga13_8c.html#a2a5652fed5121d636c5ef919882a7805'', 1, ''vga13_getRow(unsigned row, uint8_t buf[]):&#160;vga13.c''), (''../vga13_8h.html#a2a5652fed5121d636c5ef919882a7805'', 1, ''vga13_getRow(unsigned row, uint8_t buf[]):&#160;vga13.c'')]),
     (''vga13_5fheight'', ''VGA13_HEIGHT'', [(''../vga13_8h.html#ad3a8241d58c071267dfc43ca009897ad'', 1, ''vga13.h'')]),
     (''vga13_5finit'', ''vga13_init'', [(''../vga13_8c.html#ad854affc49ba46e9d78a199c864902af'', 1, ''vga13_init(void):&#160;vga13.c''), (''../vga13_8h.html#ad854affc49ba46e9d78a199c864902af'', 1, ''vga13_init(void):&#160;vga13.c'')]),
     (''vga13_5foffset'', ''VGA13_offset'', [(''../vga13_8h.html#ae9f09b6fce2c732f1b91175639c36398'', 1, ''vga13.h'')]),
     (''vga13_5fsetcolumns'', ''vga13_setColumns'', [(''../vga13_8c.html#a87246cc50a44d808f6b4269bae0403cb'', 1, ''vga13_setColumns(unsigned row, unsigned col, unsigned bufsize, uint8_t buf[]):&#160;vga13.c''), (''../vga13_8h.html#a87246cc50a44d808f6b4269bae0403cb'', 1, ''vga13_setColumns(unsigned row, unsigned col, unsigned bufsize, uint8_t buf[]):&#160;vga13.c'')]),
     (''vga13_5fsetpixel'', ''vga13_setPixel'', [(''../vga13_8c.html#a5f308d7feed44ceb7998ca68b49274fb'', 1, ''vga13_setPixel(unsigned x, unsigned y, uint8_t color):&#160;vga13.c''), (''../vga13_8h.html#a5f308d7feed44ceb7998ca68b49274fb'', 1, ''vga13_setPixel(unsigned x, unsigned y, uint8_t color):&#160;vga13.c'')]),
     (''vga13_5fsetrow'', ''vga13_setRow'', [(''../vga13_8c.html#a3595aa06bfb99c4ccff958af7fbe1388'', 1, ''vga13_setRow(unsigned row, uint8_t buf[]):&#160;vga13.c''), (''../vga13_8h.html#a3595aa06bfb99c4ccff958af7fbe1388'', 1, ''vga13_setRow(unsigned row, uint8_t buf[]):&#160;vga13.c'')]),
     (''vga13_5fwidth'', ''VGA13_WIDTH'', [(''../vga13_8h.html#a4020dea14769166ab1aa5f0cf114d661'', 1, ''vga13.h'')]),
     (''vga_5fcolor'', ''VGA_COLOR'', [(''../vgacolor_8h.html#a59886c1c8aebcbda3ccd07e1296f9702'', 1, ''vgacolor.h'')]),
     (''vga_5fcolor_5fblack'', ''VGA_COLOR_BLACK'', [(''../vgacolor_8h.html#a796a970feeb015aa37610cf7b0693945a0c4db2001081cecf298a1d4b486b4774'', 1, ''vgacolor.h'')]),
     (''vga_5fcolor_5fblue'', ''VGA_COLOR_BLUE'', [(''../vgacolor_8h.html#a796a970feeb015aa37610cf7b0693945a663b039a56cc4b0ae428764bd2912805'', 1, ''vgacolor.h'')]),
     (''vga_5fcolor_5fbrown'', ''VGA_COLOR_BROWN'', [(''../vgacolor_8h.html#a796a970feeb015aa37610cf7b0693945aa869dc9cc937e8d352256ee9690df7fe'', 1, ''vgacolor.h'')]),
     (''vga_5fcolor_5fcyan'', ''VGA_COLOR_CYAN'', [(''../vgacolor_8h.html#a796a970feeb015aa37610cf7b0693945af811c6bc13218b06e6201ad2ecbe18ab'', 1, ''vgacolor.h'')]),
     (''vga_5fcolor_5fdark_5fgray'', ''VGA_COLOR_DARK_GRAY'', [(''../vgacolor_8h.html#a796a970feeb015aa37610cf7b0693945a23c891f0309c5e66f94db4dd41de4c1e'', 1, ''vgacolor.h'')]),
     (''vga_5fcolor_5fe'', ''VGA_COLOR_e'', [(''../vgacolor_8h.html#a796a970feeb015aa37610cf7b0693945'', 1, ''vgacolor.h'')]),
     (''vga_5fcolor_5fgreen'', ''VGA_COLOR_GREEN'', [(''../vgacolor_8h.html#a796a970feeb015aa37610cf7b0693945a12f823154fcee6a5c8c007d4bb5ab487'', 1, ''vgacolor.h'')]),
     (''vga_5fcolor_5flight_5fblue'', ''VGA_COLOR_LIGHT_BLUE'', [(''../vgacolor_8h.html#a796a970feeb015aa37610cf7b0693945ad606acb105ca29c2a9f06e442ea0b282'', 1, ''vgacolor.h'')]),
     (''vga_5fcolor_5flight_5fcyan'', ''VGA_COLOR_LIGHT_CYAN'', [(''../vgacolor_8h.html#a796a970feeb015aa37610cf7b0693945ad32d8cd20a9c1ea28b62f4b7e24fa21d'', 1, ''vgacolor.h'')]),
     (''vga_5fcolor_5flight_5fgray'', ''VGA_COLOR_LIGHT_GRAY'', [(''../vgacolor_8h.html#a796a970feeb015aa37610cf7b0693945ad3c487125a2814edeb9adb7f153974aa'', 1, ''vgacolor.h'')]),
     (''vga_5fcolor_5flight_5fgreen'', ''VGA_COLOR_LIGHT_GREEN'', [(''../vgacolor_8h.html#a796a970feeb015aa37610cf7b0693945a61eadb3e52ca16b9afcc038c7879625f'', 1, ''vgacolor.h'')]),
     (''vga_5fcolor_5flight_5fmagenta'', ''VGA_COLOR_LIGHT_MAGENTA'', [(''../vgacolor_8h.html#a796a970feeb015aa37610cf7b0693945a38ca76ebc37b2560aac48ad71537ef97'', 1, ''vgacolor.h'')]),
     (''vga_5fcolor_5flight_5fred'', ''VGA_COLOR_LIGHT_RED'', [(''../vgacolor_8h.html#a796a970feeb015aa37610cf7b0693945aecca7b3f9042b169a6242b3de521a97d'', 1, ''vgacolor.h'')]),
     (''vga_5fcolor_5fmagenta'', ''VGA_COLOR_MAGENTA'', [(''../vgacolor_8h.html#a796a970feeb015aa37610cf7b0693945a6a50a13f4692c36dc03904c057f214ee'', 1, ''vgacolor.h'')]),
     (''vga_5fcolor_5fred'', ''VGA_COLOR_RED'', [(''../vgacolor_8h.html#a796a970feeb015aa37610cf7b0693945a7215ff578d3469daf8bb697a60ad1836'', 1, ''vgacolor.h'')]),
     (''vga_5fcolor_5fwhite'', ''VGA_COLOR_WHITE'', [(''../vgacolor_8h.html#a796a970feeb015aa37610cf7b0693945aae9cfca3c12a1185029c7feabd331f7a'', 1, ''vgacolor.h'')]),
     (''vga_5fcolor_5fyellow'', ''VGA_COLOR_YELLOW'', [(''../vgacolor_8h.html#a796a970feeb015aa37610cf7b0693945a8202856617749ab21cd5a349964021b5'', 1, ''vgacolor.h'')]),
     (''vga_5fgreg_5fbm'', ''VGA_GREG_BM'', [(''../vga_8h.html#a47719cc2c15e6ba0197b0dd3660a337b'', 1, ''vga.h'')]),
     (''vga_5fgreg_5fcc'', ''VGA_GREG_CC'', [(''../vga_8h.html#aeb73a403ab90ac53f2bfda8a8415d1f4'', 1, ''vga.h'')]),
     (''vga_5fgreg_5fcdc'', ''VGA_GREG_CDC'', [(''../vga_8h.html#a3c15e52dc5ccae4770587a2c89eafcab'', 1, ''vga.h'')]),
     (''vga_5fgreg_5fdr'', ''VGA_GREG_DR'', [(''../vga_8h.html#a837f6dca959b42370195399eec67cff1'', 1, ''vga.h'')]),
     (''vga_5fgreg_5fesr'', ''VGA_GREG_ESR'', [(''../vga_8h.html#aa6123a0cf0a11cb4249c0462c10d3983'', 1, ''vga.h'')]),
     (''vga_5fgreg_5fgm'', ''VGA_GREG_GM'', [(''../vga_8h.html#a2f08168f827f81f4e2f9f2af95ccf4ba'', 1, ''vga.h'')]),
     (''vga_5fgreg_5fm'', ''VGA_GREG_M'', [(''../vga_8h.html#a6051a61656a48259f298a2c9050af35d'', 1, ''vga.h'')]),
     (''vga_5fgreg_5frms'', ''VGA_GREG_RMS'', [(''../vga_8h.html#a595cb1b057020aebc1d88b992613e088'', 1, ''vga.h'')]),
     (''vga_5fgreg_5fsr'', ''VGA_GREG_SR'', [(''../vga_8h.html#ac780db97fe6f23dd386347f52b0c22ca'', 1, ''vga.h'')]),
     (''vga_5fport_5fattr'', ''VGA_PORT_ATTR'', [(''../vga_8h.html#aa4ab0ad5be4177ecbfeb5a6362e75d7f'', 1, ''vga.h'')]),
     (''vga_5fport_5fattr_5fdata'', ''VGA_PORT_ATTR_DATA'', [(''../vga_8h.html#ab784a413a0c7ec7006fbd6f1cf9f3f09'', 1, ''vga.h'')]),
     (''vga_5fport_5fcrtc_5faddr'', ''VGA_PORT_CRTC_ADDR'', [(''../vga_8h.html#a40e1b28bb4e2081673317c4f0bf48947'', 1, ''vga.h'')]),
     (''vga_5fport_5fcrtc_5fdata'', ''VGA_PORT_CRTC_DATA'', [(''../vga_8h.html#a12b3747b070d884d2f1777d7d45fa797'', 1, ''vga.h'')]),
     (''vga_5fport_5ffcr'', ''VGA_PORT_FCR'', [(''../vga_8h.html#ab7d4c951c7831bcac4b7cce63efe3a57'', 1, ''vga.h'')]),
     (''vga_5fport_5fis0'', ''VGA_PORT_IS0'', [(''../vga_8h.html#afef9fc319c715f5a494b39ab1fab92c0'', 1, ''vga.h'')]),
     (''vga_5fport_5fis1'', ''VGA_PORT_IS1'', [(''../vga_8h.html#a0df613bd12a8405d81e15dd9f5f86197'', 1, ''vga.h'')]),
     (''vga_5fport_5fmisc_5fin'', ''VGA_PORT_MISC_IN'', [(''../vga_8h.html#a46d77d6f021a3dac5cd33e536bc6aca9'', 1, ''vga.h'')]),
     (''vga_5fport_5fseq_5faddr'', ''VGA_PORT_SEQ_ADDR'', [(''../vga_8h.html#a3615b7b2cf1686d1b3302376fd8d3a30'', 1, ''vga.h'')]),
     (''vga_5fport_5fseq_5fdata'', ''VGA_PORT_SEQ_DATA'', [(''../vga_8h.html#a22f7ccbc9eb168e5a0e250c575d21b4c'', 1, ''vga.h'')]),
     (''vga_5freg_5fbit_5fmask'', ''VGA_REG_BIT_MASK'', [(''../vga_8h.html#afb71fdf8b4e44a680a8defe4076b357d'', 1, ''vga.h'')]),
     (''vga_5freg_5fcolor_5fcompare'', ''VGA_REG_COLOR_COMPARE'', [(''../vga_8h.html#a821912379ce0f94eb356758c7969b893'', 1, ''vga.h'')]),
     (''vga_5freg_5fcolor_5fdont_5fcare'', ''VGA_REG_COLOR_DONT_CARE'', [(''../vga_8h.html#a104f8c27ce3664d396d8c9fbc21dd91c'', 1, ''vga.h'')]),
     (''vga_5freg_5fdata_5frotate'', ''VGA_REG_DATA_ROTATE'', [(''../vga_8h.html#a491fa9dc35e3c3a646f8b63072e6761b'', 1, ''vga.h'')]),
     (''vga_5freg_5fenable_5fset_5freset'', ''VGA_REG_ENABLE_SET_RESET'', [(''../vga_8h.html#aa2938f872f75f97e797e095160e80e0a'', 1, ''vga.h'')]),
     (''vga_5freg_5fgraphics_5fmode'', ''VGA_REG_GRAPHICS_MODE'', [(''../vga_8h.html#ab9bee8fd3d136e11e8c32ce67f57daa4'', 1, ''vga.h'')]),
     (''vga_5freg_5fmisc_5fgraphics'', ''VGA_REG_MISC_GRAPHICS'', [(''../vga_8h.html#a79f39e5ce84f74a047442f24023110c6'', 1, ''vga.h'')]),
     (''vga_5freg_5fread_5fmap_5fselect'', ''VGA_REG_READ_MAP_SELECT'', [(''../vga_8h.html#aca5d87420d9c864ec1c0bbc2a88764a4'', 1, ''vga.h'')]),
     (''vga_5freg_5fset_5freset'', ''VGA_REG_SET_RESET'', [(''../vga_8h.html#af7f5883d24923d9536b5f0886562bb16'', 1, ''vga.h'')]),
     (''vga_5fscroll'', ''vga_scroll'', [(''../scroll_8c.html#acf74662bf3173ee11c580d90974f4683'', 1, ''vga_scroll(void):&#160;scroll.c''), (''../scroll_8h.html#acf74662bf3173ee11c580d90974f4683'', 1, ''vga_scroll(void):&#160;scroll.c'')]),
     (''vgacolor_2eh'', ''vgacolor.h'', [(''../vgacolor_8h.html'', 1, '''')]),
     (''video_2ec'', ''video.c'', [(''../video_2video_8c.html'', 1, '''')]),
     (''video_2ec'', ''video.c'', [(''../early_2video_8c.html'', 1, '''')]),
     (''video_2eh'', ''video.h'', [(''../early_2video_8h.html'', 1, '''')]),
     (''video_2eh'', ''video.h'', [(''../video_2video_8h.html'', 1, '''')]),
     (''video_5faddr'', ''VIDEO_ADDR'', [(''../c__io_8c.html#afeaf3c4c921748c0ccc568fe89e31f26'', 1, ''c_io.c'')]),
     (''video_5fbase_5faddr'', ''VIDEO_BASE_ADDR'', [(''../x86arch_8h.html#a683f93439acc2d1fbf5ecbd213c18cf5'', 1, ''x86arch.h'')]),
     (''video_5fcomponent_5fblue'', ''VIDEO_COMPONENT_BLUE'', [(''../VideoComp_8h.html#a3b5e0c709d8913b7653bf6452cffce09a68c881bcafda0ec5b492d61bc8d378ac'', 1, ''VideoComp.h'')]),
     (''video_5fcomponent_5fgreen'', ''VIDEO_COMPONENT_GREEN'', [(''../VideoComp_8h.html#a3b5e0c709d8913b7653bf6452cffce09acb1832e6cd601cb0f30ee9be09b3257a'', 1, ''VideoComp.h'')]),
     (''video_5fcomponent_5fred'', ''VIDEO_COMPONENT_RED'', [(''../VideoComp_8h.html#a3b5e0c709d8913b7653bf6452cffce09a6a9dcbeae06d4b3aaf2d17f4bbfea747'', 1, ''VideoComp.h'')]),
     (''video_5fcomponent_5fu'', ''VIDEO_COMPONENT_U'', [(''../VideoComp_8h.html#a3b5e0c709d8913b7653bf6452cffce09a07b0d9a48e8c53c0ce9366031e7023db'', 1, ''VideoComp.h'')]),
     (''video_5fcomponent_5fv'', ''VIDEO_COMPONENT_V'', [(''../VideoComp_8h.html#a3b5e0c709d8913b7653bf6452cffce09a888d54138704aa3f2f20ad1697c09004'', 1, ''VideoComp.h'')]),
     (''video_5fcomponent_5fy'', ''VIDEO_COMPONENT_Y'', [(''../VideoComp_8h.html#a3b5e0c709d8913b7653bf6452cffce09a094b39713fc9f1b6d378abbf17346761'', 1, ''VideoComp.h'')]),
     (''video_5fconvertvbeinfo'', ''video_convertVBEInfo'', [(''../video_2video_8c.html#a7958bc4a35d47da350bde89842a093ed'', 1, ''video_convertVBEInfo(VBEInfo *vbeInfo, VideoInfo *videoInfo):&#160;video.c''), (''../video_2video_8h.html#a0c45621dde6b4ec7b2db528e7ec84c36'', 1, ''video_convertVBEInfo(VBEInfo *vbe, VideoInfo *info):&#160;video.c'')]),
     (''video_5fconvertvbemode'', ''video_convertVBEMode'', [(''../video_2video_8c.html#a5d1587192650208d4a2f2920a590639c'', 1, ''video_convertVBEMode(VBEModeInfo *vbe, VideoMode *mode):&#160;video.c''), (''../video_2video_8h.html#a5d1587192650208d4a2f2920a590639c'', 1, ''video_convertVBEMode(VBEModeInfo *vbe, VideoMode *mode):&#160;video.c'')]),
     (''video_5fdefaultfont'', ''video_defaultFont'', [(''../video_2video_8c.html#a0f24cb42acee95ca08cc70e613ab530c'', 1, ''video_defaultFont(PSFont *font):&#160;video.c''), (''../video_2video_8h.html#a0f24cb42acee95ca08cc70e613ab530c'', 1, ''video_defaultFont(PSFont *font):&#160;video.c'')]),
     (''video_5fdumpinfo'', ''video_dumpInfo'', [(''../video_2video_8c.html#abe2f0d76ed06a4e8f376b8367466ca4b'', 1, ''video_dumpInfo(VideoInfo *info):&#160;video.c''), (''../video_2video_8h.html#abe2f0d76ed06a4e8f376b8367466ca4b'', 1, ''video_dumpInfo(VideoInfo *info):&#160;video.c'')]),
     (''video_5fearly_5fbestmode'', ''video_early_bestMode'', [(''../early_2video_8c.html#acdfec353eb6cc030c64bf42be37d9e4d'', 1, ''video_early_bestMode(VideoMode *mode):&#160;video.c''), (''../early_2video_8h.html#acdfec353eb6cc030c64bf42be37d9e4d'', 1, ''video_early_bestMode(VideoMode *mode):&#160;video.c'')]),
     (''video_5fearly_5finit'', ''video_early_init'', [(''../early_2video_8c.html#a4b84a71315869326756e02a40b13e2bf'', 1, ''video_early_init(void):&#160;video.c''), (''../early_2video_8h.html#a4b84a71315869326756e02a40b13e2bf'', 1, ''video_early_init(void):&#160;video.c'')]),
     (''video_5fedid'', ''VIDEO_EDID'', [(''../globals_8c.html#a92ea572495f115a03055789be16dbf7c'', 1, ''VIDEO_EDID():&#160;globals.c''), (''../globals_8h.html#a92ea572495f115a03055789be16dbf7c'', 1, ''VIDEO_EDID():&#160;globals.c'')]),
     (''video_5fedid_5faddress'', ''VIDEO_EDID_ADDRESS'', [(''../globals_8h.html#a93660a63094a4a057ed801ffd3df993b'', 1, ''globals.h'')]),
     (''video_5fedid_5fsupport'', ''VIDEO_EDID_SUPPORT'', [(''../VideoStatus_8h.html#a42da70fef22c460c626406adeab90adba1f471fdfab1da9051f89f09c1996d582'', 1, ''VideoStatus.h'')]),
     (''video_5ffontset'', ''VIDEO_FONTSET'', [(''../globals_8c.html#af879a1ca431db42a4e7d96c088f8e4d4'', 1, ''VIDEO_FONTSET():&#160;globals.c''), (''../globals_8h.html#af879a1ca431db42a4e7d96c088f8e4d4'', 1, ''VIDEO_FONTSET():&#160;globals.c'')]),
     (''video_5ffontset_5faddress'', ''VIDEO_FONTSET_ADDRESS'', [(''../globals_8h.html#a00c6870ff10808632c4ee6bc9fa999cf'', 1, ''globals.h'')]),
     (''video_5ffontset_5fbytes_5fper_5fglyph'', ''VIDEO_FONTSET_BYTES_PER_GLYPH'', [(''../video_2video_8h.html#ac700005a8d0294f458b121c25a0f4fa0'', 1, ''video.h'')]),
     (''video_5ffontset_5fglyphs'', ''VIDEO_FONTSET_GLYPHS'', [(''../video_2video_8h.html#aa8f78175360db34752b88a4c38298e4b'', 1, ''video.h'')]),
     (''video_5ffontset_5fheight'', ''VIDEO_FONTSET_HEIGHT'', [(''../video_2video_8h.html#a9ea0359e47e049602f259a79609f51f5'', 1, ''video.h'')]),
     (''video_5ffontset_5fsize'', ''VIDEO_FONTSET_SIZE'', [(''../globals_8h.html#a32201efb3e2d7e2375d6ce96a46490d3'', 1, ''globals.h'')]),
     (''video_5ffontset_5fwidth'', ''VIDEO_FONTSET_WIDTH'', [(''../video_2video_8h.html#adf0747f05c701bdf181a9992e14d27c0'', 1, ''video.h'')]),
     (''video_5finfo'', ''VIDEO_INFO'', [(''../globals_8c.html#ad204e7e4cf16f9908726e26d835cb55a'', 1, ''VIDEO_INFO():&#160;globals.c''), (''../globals_8h.html#ad204e7e4cf16f9908726e26d835cb55a'', 1, ''VIDEO_INFO():&#160;globals.c'')]),
     (''video_5finfo_5faddress'', ''VIDEO_INFO_ADDRESS'', [(''../globals_8h.html#a05ecdf84d1f6bc4f29f16cc7baca55e2'', 1, ''globals.h'')]),
     (''video_5finfo_5fsize'', ''VIDEO_INFO_SIZE'', [(''../VideoInfo_8h.html#a8da0e763989d81331d4cae86e740bb0e'', 1, ''VideoInfo.h'')]),
     (''video_5finit'', ''video_init'', [(''../video_2video_8c.html#a063a8db56368ef67241d30ffb15c26b1'', 1, ''video_init(void):&#160;video.c''), (''../video_2video_8h.html#a063a8db56368ef67241d30ffb15c26b1'', 1, ''video_init(void):&#160;video.c'')]),
     (''video_5fmax_5fcomponents'', ''VIDEO_MAX_COMPONENTS'', [(''../VideoComp_8h.html#aad800dd49b91170d4eb8ee2d962f20ad'', 1, ''VideoComp.h'')]),
     (''video_5fmode'', ''VIDEO_MODE'', [(''../globals_8c.html#a991d3845acc50d8be6577b34eaa3d9de'', 1, ''VIDEO_MODE():&#160;globals.c''), (''../globals_8h.html#a991d3845acc50d8be6577b34eaa3d9de'', 1, ''VIDEO_MODE():&#160;globals.c'')]),
     (''video_5fmode_5faddress'', ''VIDEO_MODE_ADDRESS'', [(''../globals_8h.html#a6d24d5d9103fd4b499c2da4ea9bfbca9'', 1, ''globals.h'')]),
     (''video_5fmode_5fready'', ''VIDEO_MODE_READY'', [(''../VideoStatus_8h.html#a42da70fef22c460c626406adeab90adbab58b900d1a2431ca04dc9d8aaad94201'', 1, ''VideoStatus.h'')]),
     (''video_5fsetmode'', ''video_setMode'', [(''../video_2video_8c.html#a84b33b16b2f8e3c06e7f0ad6331ee799'', 1, ''video_setMode(VideoMode *mode):&#160;video.c''), (''../video_2video_8h.html#a84b33b16b2f8e3c06e7f0ad6331ee799'', 1, ''video_setMode(VideoMode *mode):&#160;video.c'')]),
     (''video_5ftruncated'', ''VIDEO_TRUNCATED'', [(''../VideoStatus_8h.html#a42da70fef22c460c626406adeab90adbaf6c12d87b3d37c6ab5dee6b52e673d80'', 1, ''VideoStatus.h'')]),
     (''video_5fvbe_5fsupport'', ''VIDEO_VBE_SUPPORT'', [(''../VideoStatus_8h.html#a42da70fef22c460c626406adeab90adba8fcc3e6a766dc64ed3466b0b2c9a8afc'', 1, ''VideoStatus.h'')]),
     (''videocol'', ''VideoCol'', [(''../VideoCol_8h.html#ac2a5ba00f4183b98f18e1c0179565f6d'', 1, ''VideoCol.h'')]),
     (''videocol_2eh'', ''VideoCol.h'', [(''../VideoCol_8h.html'', 1, '''')]),
     (''videocolorconfig_5fs'', ''VideoColorConfig_s'', [(''../structVideoColorConfig__s.html'', 1, '''')]),
     (''videocolorspace'', ''VideoColorSpace'', [(''../VideoColorSpace_8h.html#a24bb1a508a0928d4b099a25efd2819de'', 1, ''VideoColorSpace.h'')]),
     (''videocolorspace_2eh'', ''VideoColorSpace.h'', [(''../VideoColorSpace_8h.html'', 1, '''')]),
     (''videocomp'', ''VideoComp'', [(''../VideoComp_8h.html#a8d25985881e4d148c0246379922e5e2f'', 1, ''VideoComp.h'')]),
     (''videocomp_2eh'', ''VideoComp.h'', [(''../VideoComp_8h.html'', 1, '''')]),
     (''videocomp_5fe'', ''VideoComp_e'', [(''../VideoComp_8h.html#a3b5e0c709d8913b7653bf6452cffce09'', 1, ''VideoComp.h'')]),
     (''videofb'', ''VideoFb'', [(''../VideoFb_8h.html#a9fa668cbedd6e2ece03cf8a197018022'', 1, ''VideoFb.h'')]),
     (''videofb_2eh'', ''VideoFb.h'', [(''../VideoFb_8h.html'', 1, '''')]),
     (''videofb_5fs'', ''VideoFb_s'', [(''../structVideoFb__s.html'', 1, '''')]),
     (''videoinfo'', ''VideoInfo'', [(''../VideoInfo_8h.html#aff934afdace848277e4b4c3fcc551af0'', 1, ''VideoInfo.h'')]),
     (''videoinfo_2eh'', ''VideoInfo.h'', [(''../VideoInfo_8h.html'', 1, '''')]),
     (''videoinfo_5fs'', ''VideoInfo_s'', [(''../structVideoInfo__s.html'', 1, '''')]),
     (''videoinfo_5fu'', ''VideoInfo_u'', [(''../unionVideoInfo__u.html'', 1, '''')]),
     (''videoinputdefinition'', ''VideoInputDefinition'', [(''../structEDIDRecord__s.html#a7cc850c64702d961cf3d2ec144273dd0'', 1, ''EDIDRecord_s::VideoInputDefinition()''), (''../EDIDRecord_8h.html#ac3c074d0cbf8ca47b94c1386d04e36a2'', 1, ''VideoInputDefinition():&#160;EDIDRecord.h'')]),
     (''videomemory'', ''videoMemory'', [(''../structVBEInfo__s.html#a6cdf127650b0bf57d87b491b41e55baf'', 1, ''VBEInfo_s::videoMemory()''), (''../structVideoInfo__s.html#a3b90565911f31655ecaaf930e16d3134'', 1, ''VideoInfo_s::videoMemory()''), (''../VBEInfo_8h.html#a0bd889ee4fd330e9c122c5133263b069'', 1, ''videoMemory():&#160;VBEInfo.h'')]),
     (''videomode'', ''VideoMode'', [(''../VideoMode_8h.html#ac733c71b9055fba105dda0462be7059d'', 1, ''VideoMode.h'')]),
     (''videomode_2eh'', ''VideoMode.h'', [(''../VideoMode_8h.html'', 1, '''')]),
     (''videomode_5fs'', ''VideoMode_s'', [(''../structVideoMode__s.html'', 1, '''')]),
     (''videomodes'', ''videoModes'', [(''../structVBEInfo__s.html#a1c051ef64a3cdc4c94f03b403f0248ea'', 1, ''VBEInfo_s::videoModes()''), (''../VBEInfo_8h.html#a6a1a1cf21943822fd42ae2fb301b50aa'', 1, ''videoModes():&#160;VBEInfo.h'')]),
     (''videostatus'', ''VideoStatus'', [(''../VideoStatus_8h.html#a4c85e1c4dbe7b8aeae767cab09b8a7f8'', 1, ''VideoStatus.h'')]),
     (''videostatus_2eh'', ''VideoStatus.h'', [(''../VideoStatus_8h.html'', 1, '''')]),
     (''videostatus_5fe'', ''VideoStatus_e'', [(''../VideoStatus_8h.html#a42da70fef22c460c626406adeab90adb'', 1, ''VideoStatus.h'')]),
     (''videotiming'', ''VideoTiming'', [(''../VideoTiming_8h.html#a558b573151ad597765956f8cea9d3e59'', 1, ''VideoTiming.h'')]),
     (''videotiming_2eh'', ''VideoTiming.h'', [(''../VideoTiming_8h.html'', 1, '''')]),
     (''videotiming_5fs'', ''VideoTiming_s'', [(''../structVideoTiming__s.html'', 1, '''')]),
     (''vol_5flabel_5fstring'', ''vol_label_string'', [(''../struct__ft__bpb.html#a3b01455d04cb2d09b7ccf197df81eb6b'', 1, ''_ft_bpb'')]),
     (''volid'', ''volid'', [(''../struct__ft__bpb.html#ab9d62f5b0e3a6a5f4218e8ebbcb73510'', 1, ''_ft_bpb'')])]"

definition searchData_all_17 :: "search_entry list" where
  "searchData_all_17 =
    [(''wait'', ''wait'', [(''../ulib_8h.html#a82cbf9c23fd00e98067b0db7eb77f9a9'', 1, ''ulib.h'')]),
     (''wakeup'', ''wakeup'', [(''../structpcb.html#a2575445692129b2abad53f9a37aca58c'', 1, ''pcb'')]),
     (''whitex'', ''WhiteX'', [(''../structEDIDRecord__s.html#afb65f70d4a9f5de8f147fa61c3236bfd'', 1, ''EDIDRecord_s::WhiteX()''), (''../EDIDRecord_8h.html#a53265911023727db70bc17f8f075b041'', 1, ''WhiteX():&#160;EDIDRecord.h'')]),
     (''whitey'', ''WhiteY'', [(''../structEDIDRecord__s.html#a9db19d6f00de7682b973a2770415fabd'', 1, ''EDIDRecord_s::WhiteY()''), (''../EDIDRecord_8h.html#a370eead2ff66e70368a0cd6d0413aabc'', 1, ''WhiteY():&#160;EDIDRecord.h'')]),
     (''width'', ''width'', [(''../structSize__s.html#a1c8ac9255b4cb340c96effb7761b0a46'', 1, ''Size_s::width()''), (''../structPSFont__s.html#a2ad19a7af56f1be86a3e669c1fdc7b4e'', 1, ''PSFont_s::width()''), (''../structVideoFb__s.html#ab093a8af8684063e670e213081f7803a'', 1, ''VideoFb_s::width()''), (''../structVideoTiming__s.html#a30205d95a3d2c58c36755ae19ac2d2fd'', 1, ''VideoTiming_s::width()'')]),
     (''winaattributes'', ''WinAAttributes'', [(''../structVBE2ModeInfo__s.html#afccc5c83f17b9d255e25f8f5af56b94e'', 1, ''VBE2ModeInfo_s::WinAAttributes()''), (''../structVBE3ModeInfo__s.html#aa3c0915831251f584037b75415309665'', 1, ''VBE3ModeInfo_s::WinAAttributes()''), (''../VBE2ModeInfo_8h.html#aaa90049ea7f03763acbbf75240f4f5d8'', 1, ''WinAAttributes():&#160;VBE2ModeInfo.h''), (''../VBE3ModeInfo_8h.html#aaa90049ea7f03763acbbf75240f4f5d8'', 1, ''WinAAttributes():&#160;VBE3ModeInfo.h'')]),
     (''winasegment'', ''WinASegment'', [(''../structVBE2ModeInfo__s.html#acb424420b3cafcb72e3ead75154848df'', 1, ''VBE2ModeInfo_s::WinASegment()''), (''../structVBE3ModeInfo__s.html#aaa5866bfb6c006e31000546f5c35bc03'', 1, ''VBE3ModeInfo_s::WinASegment()''), (''../VBE2ModeInfo_8h.html#a99b747099fd4d4271b0f0bc29f31c48f'', 1, ''WinASegment():&#160;VBE2ModeInfo.h''), (''../VBE3ModeInfo_8h.html#a99b747099fd4d4271b0f0bc29f31c48f'', 1, ''WinASegment():&#160;VBE3ModeInfo.h'')]),
     (''winbattributes'', ''WinBAttributes'', [(''../structVBE2ModeInfo__s.html#aecb8885e7961990523e732f3ad4646f5'', 1, ''VBE2ModeInfo_s::WinBAttributes()''), (''../structVBE3ModeInfo__s.html#a05323966e15d76b816a3aecbe9826f71'', 1, ''VBE3ModeInfo_s::WinBAttributes()''), (''../VBE2ModeInfo_8h.html#a370ddeb84e904ef1000fe57905ebf6b8'', 1, ''WinBAttributes():&#160;VBE2ModeInfo.h''), (''../VBE3ModeInfo_8h.html#a370ddeb84e904ef1000fe57905ebf6b8'', 1, ''WinBAttributes():&#160;VBE3ModeInfo.h'')]),
     (''winbsegment'', ''WinBSegment'', [(''../structVBE2ModeInfo__s.html#a711585a40f304156c25923a4c4cff75d'', 1, ''VBE2ModeInfo_s::WinBSegment()''), (''../structVBE3ModeInfo__s.html#a2e256be0d535c62b194b66bb4f16108d'', 1, ''VBE3ModeInfo_s::WinBSegment()''), (''../VBE2ModeInfo_8h.html#a9edf422a931df7c7a1d5f82afb911566'', 1, ''WinBSegment():&#160;VBE2ModeInfo.h''), (''../VBE3ModeInfo_8h.html#a9edf422a931df7c7a1d5f82afb911566'', 1, ''WinBSegment():&#160;VBE3ModeInfo.h'')]),
     (''winfuncptr'', ''WinFuncPtr'', [(''../structVBE2ModeInfo__s.html#a77608fbdf35190811cecc2e5c9384fe7'', 1, ''VBE2ModeInfo_s::WinFuncPtr()''), (''../structVBE3ModeInfo__s.html#a80fb45de807fc902336ef3ab4847fe95'', 1, ''VBE3ModeInfo_s::WinFuncPtr()''), (''../VBE2ModeInfo_8h.html#a62ca17f519b22d3f7b0a3c774ff78a5f'', 1, ''WinFuncPtr():&#160;VBE2ModeInfo.h''), (''../VBE3ModeInfo_8h.html#a62ca17f519b22d3f7b0a3c774ff78a5f'', 1, ''WinFuncPtr():&#160;VBE3ModeInfo.h'')]),
     (''wingranularity'', ''WinGranularity'', [(''../structVBE2ModeInfo__s.html#a0067e680c34db171af587c9f45d86fa9'', 1, ''VBE2ModeInfo_s::WinGranularity()''), (''../structVBE3ModeInfo__s.html#aac10cc9cf996dc4264f458993a244d1f'', 1, ''VBE3ModeInfo_s::WinGranularity()''), (''../VBE2ModeInfo_8h.html#a38f205f799c6929629395f03e24de077'', 1, ''WinGranularity():&#160;VBE2ModeInfo.h''), (''../VBE3ModeInfo_8h.html#a38f205f799c6929629395f03e24de077'', 1, ''WinGranularity():&#160;VBE3ModeInfo.h'')]),
     (''winsize'', ''WinSize'', [(''../structVBE2ModeInfo__s.html#a3bbb068d45de57ab9812a4cff2026953'', 1, ''VBE2ModeInfo_s::WinSize()''), (''../structVBE3ModeInfo__s.html#a2581297ad83bf9efe57d4793e456ceb2'', 1, ''VBE3ModeInfo_s::WinSize()''), (''../VBE2ModeInfo_8h.html#a78985f1c5ae166cb560099273cc558b4'', 1, ''WinSize():&#160;VBE2ModeInfo.h''), (''../VBE3ModeInfo_8h.html#a78985f1c5ae166cb560099273cc558b4'', 1, ''WinSize():&#160;VBE3ModeInfo.h'')]),
     (''wipe_5fdentry'', ''wipe_dentry'', [(''../fat_8c.html#ad2d6eb57b19696d0032eed9d54e16155'', 1, ''wipe_dentry(PFAT_CONTEXT ctx, int32_t parent_dir_cluster, char *name):&#160;fat.c''), (''../fat_8h.html#ad2d6eb57b19696d0032eed9d54e16155'', 1, ''wipe_dentry(PFAT_CONTEXT ctx, int32_t parent_dir_cluster, char *name):&#160;fat.c'')]),
     (''write'', ''write'', [(''../struct__io__device.html#a32778e775759726aad6b2e9746fd3e87'', 1, ''_io_device::write()''), (''../ulib_8h.html#a92e8bd6278981d64fb0bbc80e83a5c7e'', 1, ''write():&#160;ulib.h'')]),
     (''write_2eh'', ''write.h'', [(''../write_8h.html'', 1, '''')]),
     (''write_5fcluster_5fentry'', ''write_cluster_entry'', [(''../cache_8h.html#a6ed9ebc45868582e8c6e621d7129a02f'', 1, ''cache.h'')]),
     (''write_5ffat32_5fdate'', ''write_fat32_date'', [(''../fat_8c.html#ab24a2037c66223df40ddd13e9181897e'', 1, ''fat.c'')]),
     (''write_5ffat32_5ftime'', ''write_fat32_time'', [(''../fat_8c.html#aa45eb9d1a74e876a1f42aa911717f848'', 1, ''fat.c'')]),
     (''write_5finto_5fcluster_5fchain'', ''write_into_cluster_chain'', [(''../fat_8c.html#acbd4df10d47504344191b9cd56a98cf0'', 1, ''write_into_cluster_chain(PFAT_CONTEXT ctx, int32_t cluster_start, int32_t write_size, int32_t offset, char *buffer):&#160;fat.c''), (''../fat_8h.html#acbd4df10d47504344191b9cd56a98cf0'', 1, ''write_into_cluster_chain(PFAT_CONTEXT ctx, int32_t cluster_start, int32_t write_size, int32_t offset, char *buffer):&#160;fat.c'')]),
     (''written'', ''written'', [(''../struct__io__file__instance.html#afcb40f074aa8f522dffabc80b962845f'', 1, ''_io_file_instance'')])]"

definition searchData_all_18 :: "search_entry list" where
  "searchData_all_18 =
    [(''x'', ''x'', [(''../structPoint__s.html#abe8219c8652104f60e66b5771eb19ebc'', 1, ''Point_s'')]),
     (''x86arch_2eh'', ''x86arch.h'', [(''../x86arch_8h.html'', 1, '''')]),
     (''xcharsize'', ''XCharSize'', [(''../structVBE2ModeInfo__s.html#ae01b351377be474f24f3586a8cbd06e6'', 1, ''VBE2ModeInfo_s::XCharSize()''), (''../structVBE3ModeInfo__s.html#a5b78dd0caa5ce432c181d11d201b5182'', 1, ''VBE3ModeInfo_s::XCharSize()''), (''../VBE2ModeInfo_8h.html#a047d8f41434f02589d0c9b90b17c67eb'', 1, ''XCharSize():&#160;VBE2ModeInfo.h''), (''../VBE3ModeInfo_8h.html#a047d8f41434f02589d0c9b90b17c67eb'', 1, ''XCharSize():&#160;VBE3ModeInfo.h'')]),
     (''xresolution'', ''XResolution'', [(''../structVBE2ModeInfo__s.html#a0796307430e8b2c00cfc06cf11bca3a3'', 1, ''VBE2ModeInfo_s::XResolution()''), (''../structVBE3ModeInfo__s.html#ababf3c17e121b4d9f388db4ffc9dced3'', 1, ''VBE3ModeInfo_s::XResolution()''), (''../VBE2ModeInfo_8h.html#a16f6408e5a85c7a7785a0cee64b6a219'', 1, ''XResolution():&#160;VBE2ModeInfo.h''), (''../VBE3ModeInfo_8h.html#a16f6408e5a85c7a7785a0cee64b6a219'', 1, ''XResolution():&#160;VBE3ModeInfo.h'')])]"

definition searchData_all_19 :: "search_entry list" where
  "searchData_all_19 =
    [(''y'', ''y'', [(''../structPoint__s.html#ae344f52113a98fd8087ba9fb0c19f11e'', 1, ''Point_s'')]),
     (''ycharsize'', ''YCharSize'', [(''../structVBE2ModeInfo__s.html#ada79e4841ae7ca3a2f459c8ec8192293'', 1, ''VBE2ModeInfo_s::YCharSize()''), (''../structVBE3ModeInfo__s.html#a280bbcae05eb8f491d0bc9b20eaab478'', 1, ''VBE3ModeInfo_s::YCharSize()''), (''../VBE2ModeInfo_8h.html#a330f00ebd49dccd2325d43cdbd646f09'', 1, ''YCharSize():&#160;VBE2ModeInfo.h''), (''../VBE3ModeInfo_8h.html#a330f00ebd49dccd2325d43cdbd646f09'', 1, ''YCharSize():&#160;VBE3ModeInfo.h'')]),
     (''year'', ''year'', [(''../struct__f32__time.html#a2d337f8835b5531d865d22ebc60fa2cb'', 1, ''_f32_time::year()''), (''../struct__ft__date__packed.html#a847f87720602e1d3027106cdfa1ad695'', 1, ''_ft_date_packed::year()'')]),
     (''yresolution'', ''YResolution'', [(''../structVBE2ModeInfo__s.html#a1ea8ac1714e7228c2cb1abb414a7409f'', 1, ''VBE2ModeInfo_s::YResolution()''), (''../structVBE3ModeInfo__s.html#af9960b246a174ae64d3ddc3341f1c005'', 1, ''VBE3ModeInfo_s::YResolution()''), (''../VBE2ModeInfo_8h.html#afa8aba2156994750d500f85d0f8425cb'', 1, ''YResolution():&#160;VBE2ModeInfo.h''), (''../VBE3ModeInfo_8h.html#afa8aba2156994750d500f85d0f8425cb'', 1, ''YResolution():&#160;VBE3ModeInfo.h'')])]"

definition all_pages_2 :: "search_entry list list" where
  "all_pages_2 =
     [searchData_all_c, searchData_all_d, searchData_all_e, searchData_all_f, searchData_all_10,
      searchData_all_11, searchData_all_12, searchData_all_13, searchData_all_14,
      searchData_all_15, searchData_all_16, searchData_all_17, searchData_all_18,
      searchData_all_19]"

lemma all_pages_2_ok: "list_all2 page_ok ''lmnopqrstuvwxy'' all_pages_2"
  by (simp only: all_pages_2_def page_eval
    searchData_all_c_def searchData_all_d_def searchData_all_e_def searchData_all_f_def
    searchData_all_10_def searchData_all_11_def searchData_all_12_def searchData_all_13_def
    searchData_all_14_def searchData_all_15_def searchData_all_16_def searchData_all_17_def
    searchData_all_18_def searchData_all_19_def)

end
