(* ===== verification/Doc_Search.thy ===== *)
theory Doc_Search
  imports Search_Box Search_Nav Search_Index_Defines Search_Index_Members Search_Index_All Search_Index_All2
begin

text \<open>
  The documentation search from the typed text to the rows shown: the search panel selects a
  page of the index and passes the text in the URL; the page builds its rows and shows those
  that match. Together they list exactly the entries of the chosen section whose name starts
  with the typed text, ignoring case.
\<close>

subsection \<open>The pages of a section\<close>






subsection \<open>Every match is on the page of its first letter\<close>









subsection \<open>From the text to the rows\<close>







subsection \<open>Properties\<close>





end
