(* ===== verification/Dyn_Sections.thy ===== *)
theory Dyn_Sections
  imports Search_Box
begin

text \<open>
  The script \<^verbatim>\<open>dynsections.js\<close> of the documentation: sections that open and close, the directory tree of
  the file list, and the blocks of inherited members. The script acts through jQuery; each call is
  modelled by its documented effect on the elements that the pages have: visibility, classes, the
  text of a \<^verbatim>\<open>span\<close>, the \<^verbatim>\<open>src\<close> of an image. Elements stay in document order.
\<close>

subsection \<open>Classes\<close>

definition removeClass :: "string list \<Rightarrow> string list \<Rightarrow> string list" where
  "removeClass cs = filter (\<lambda>c. c \<notin> set cs)"

definition addClass :: "string \<Rightarrow> string list \<Rightarrow> string list" where
  "addClass c cs = (if c \<in> set cs then cs else cs @ [c])"

lemma set_classes [simp]:
  "set (removeClass ds cs) = set cs - set ds" "set (addClass c cs) = insert c (set cs)"
  by (auto simp: removeClass_def addClass_def)

subsection \<open>Sections that open and close\<close>

record elem =
  el_classes :: "string list"
  el_visible :: bool
  el_src :: "string option"

type_synonym page = "string \<Rightarrow> elem option"

definition on_elem :: "string \<Rightarrow> (elem \<Rightarrow> elem) \<Rightarrow> page \<Rightarrow> page" where
  "on_elem i f d = d(i := map_option f (d i))"

definition toggleVisibility :: "string \<Rightarrow> page \<Rightarrow> js_error + page \<times> bool" where
  "toggleVisibility base d =
     (let summary = base @ ''-summary''; content = base @ ''-content''; trigger = base @ ''-trigger'';
          src = Option.bind (d trigger) el_src
      in if (case d content of None \<Rightarrow> False | Some e \<Rightarrow> el_visible e) then
           let d = on_elem content (\<lambda>e. e\<lparr>el_visible := False\<rparr>) d;
               d = on_elem summary (\<lambda>e. e\<lparr>el_visible := True\<rparr>) d;
               d = on_elem base (\<lambda>e. e\<lparr>el_classes := removeClass [''opened''] (addClass ''closed'' (el_classes e))\<rparr>) d
           in case src of
                None \<Rightarrow> Inl TypeError
              | Some s \<Rightarrow> Inr (on_elem trigger (\<lambda>e. e\<lparr>el_src := Some (take (length s - 8) s @ ''closed.png'')\<rparr>) d, False)
         else
           let d = on_elem content (\<lambda>e. e\<lparr>el_visible := True\<rparr>) d;
               d = on_elem summary (\<lambda>e. e\<lparr>el_visible := False\<rparr>) d;
               d = on_elem base (\<lambda>e. e\<lparr>el_classes := addClass ''opened'' (removeClass [''closed''] (el_classes e))\<rparr>) d
           in case src of
                None \<Rightarrow> Inl TypeError
              | Some s \<Rightarrow> Inr (on_elem trigger (\<lambda>e. e\<lparr>el_src := Some (take (length s - 10) s @ ''open.png'')\<rparr>) d, False))"

subsection \<open>The directory tree\<close>

text \<open>A row of \<^verbatim>\<open>table.directory\<close> with the \<^verbatim>\<open>span\<close> elements in it; an element without an \<^verbatim>\<open>id\<close> has the empty one.\<close>

record span =
  span_id :: string
  span_classes :: "string list"
  span_html :: string

record row =
  row_id :: string
  row_classes :: "string list"
  row_visible :: bool
  row_spans :: "span list"

definition RIGHT_ARROW :: string where "RIGHT_ARROW = ''&#9658;''"
definition DOWN_ARROW :: string where "DOWN_ARROW = ''&#9660;''"

text \<open>The \<^verbatim>\<open>:even\<close> filter counts among the visible rows, from 0.\<close>

definition updateStripes :: "row list \<Rightarrow> row list" where
  "updateStripes rows =
     (let rows = map (\<lambda>r. r\<lparr>row_classes := removeClass [''even''] (row_classes r)\<rparr>) rows;
          shown = filter (\<lambda>k. row_visible (rows ! k)) [0..<length rows];
          evens = map fst (filter (\<lambda>p. even (snd p)) (zip shown [0..<length shown]))
      in map (\<lambda>k. let r = rows ! k in if k \<in> set evens then r\<lparr>row_classes := addClass ''even'' (row_classes r)\<rparr> else r)
           [0..<length rows])"

text \<open>Applying a change to the element with an \<^verbatim>\<open>id\<close>, the first in document order.\<close>

fun on_span :: "string \<Rightarrow> (span \<Rightarrow> span) \<Rightarrow> span list \<Rightarrow> span list option" where
  "on_span i f [] = None"
| "on_span i f (s # ss) = (if span_id s = i then Some (f s # ss) else map_option (Cons s) (on_span i f ss))"

fun on_span_id :: "string \<Rightarrow> (span \<Rightarrow> span) \<Rightarrow> row list \<Rightarrow> row list" where
  "on_span_id i f [] = []"
| "on_span_id i f (r # rs) = (case on_span i f (row_spans r) of
     Some ss \<Rightarrow> r\<lparr>row_spans := ss\<rparr> # rs
   | None \<Rightarrow> r # on_span_id i f rs)"

definition show_row :: "bool \<Rightarrow> row \<Rightarrow> row" where
  "show_row b r = r\<lparr>row_visible := b\<rparr>"

definition set_icon :: "string \<Rightarrow> span \<Rightarrow> span" where
  "set_icon c s = s\<lparr>span_classes := addClass c (removeClass [''iconfopen'', ''iconfclosed''] (span_classes s))\<rparr>"

definition set_html :: "string \<Rightarrow> span \<Rightarrow> span" where
  "set_html h s = s\<lparr>span_html := h\<rparr>"

definition level_row :: "int \<Rightarrow> nat \<Rightarrow> row list \<Rightarrow> row list" where
  "level_row level k rows =
     (let fid = row_id (rows ! k);
          l = int (count_list fid CHR ''_'');
          i = ''img'' @ drop 3 fid;
          a = ''arr'' @ drop 3 fid
      in if l < level + 1 then
           let rows = on_span_id a (set_html DOWN_ARROW) (on_span_id i (set_icon ''iconfopen'') rows)
           in rows[k := show_row True (rows ! k)]
         else if l = level + 1 then
           let rows = on_span_id a (set_html RIGHT_ARROW) (on_span_id i (set_icon ''iconfclosed'') rows)
           in rows[k := show_row True (rows ! k)]
         else rows[k := show_row False (rows ! k)])"

definition toggleLevel :: "int \<Rightarrow> row list \<Rightarrow> row list" where
  "toggleLevel level rows = updateStripes (fold (level_row level) [0..<length rows] rows)"

text \<open>
  The regular expression \<^verbatim>\<open>^row_ID\d+_$\<close>, ignoring case. The \<^verbatim>\<open>id\<close> comes from the page's own \<^verbatim>\<open>onclick\<close> attributes: digits
  and underscores, which stand for themselves in it.
\<close>

definition is_sub :: "string \<Rightarrow> string \<Rightarrow> bool" where
  "is_sub fid rid =
     (let p = toLowerCase (''row_'' @ fid); s = toLowerCase rid; rest = drop (length p) s
      in take (length p) s = p \<and> length rest \<ge> 2 \<and> last rest = CHR ''_'' \<and> list_all is_digit (butlast rest))"

definition switch_span :: "string \<Rightarrow> string \<Rightarrow> string \<Rightarrow> span \<Rightarrow> span" where
  "switch_span old new arrow s =
     (let s = (if old \<in> set (span_classes s) then s\<lparr>span_classes := addClass new (removeClass [old] (span_classes s))\<rparr> else s)
      in if ''arrow'' \<in> set (span_classes s) then set_html arrow s else s)"

definition switch_spans :: "string \<Rightarrow> string \<Rightarrow> string \<Rightarrow> row \<Rightarrow> row" where
  "switch_spans old new arrow r = r\<lparr>row_spans := map (switch_span old new arrow) (row_spans r)\<rparr>"

definition on_rows :: "nat list \<Rightarrow> (row \<Rightarrow> row) \<Rightarrow> row list \<Rightarrow> row list" where
  "on_rows ks f rows = map (\<lambda>k. if k \<in> set ks then f (rows ! k) else rows ! k) [0..<length rows]"

definition toggleFolder :: "string \<Rightarrow> row list \<Rightarrow> row list" where
  "toggleFolder fid rows =
     (let currentRow = (case List.find (\<lambda>k. row_id (rows ! k) = ''row_'' @ fid) [0..<length rows] of None \<Rightarrow> [] | Some k \<Rightarrow> [k]);
          after = concat (map (\<lambda>k. [Suc k..<length rows]) currentRow);
          childRows = filter (\<lambda>k. is_sub fid (row_id (rows ! k))) after
      in updateStripes
           (if childRows \<noteq> [] \<and> row_visible (rows ! hd childRows) then
              on_rows (filter (\<lambda>k. prefix (''row_'' @ fid) (row_id (rows ! k))) after) (show_row False)
                (on_rows currentRow (switch_spans ''iconfopen'' ''iconfclosed'' RIGHT_ARROW) rows)
            else
              on_rows childRows (show_row True)
                (on_rows childRows (switch_spans ''iconfopen'' ''iconfclosed'' RIGHT_ARROW)
                  (on_rows currentRow (switch_spans ''iconfclosed'' ''iconfopen'' DOWN_ARROW) rows))))"

subsection \<open>Inherited members\<close>

text \<open>A row of a member table with the \<^verbatim>\<open>src\<close> of the images in it.\<close>

record member_row =
  mem_classes :: "string list"
  mem_visible :: bool
  mem_imgs :: "string option list"

definition toggleInherit :: "string \<Rightarrow> member_row list \<Rightarrow> js_error + member_row list" where
  "toggleInherit fid rows =
     (let member = (\<lambda>r. {''inherit'', fid} \<subseteq> set (mem_classes r));
          header = (\<lambda>r. {''inherit_header'', fid} \<subseteq> set (mem_classes r));
          src = (case concat (map mem_imgs (filter header rows)) of [] \<Rightarrow> None | s # _ \<Rightarrow> s);
          set_src = (\<lambda>s. map (\<lambda>r. if header r then r\<lparr>mem_imgs := map (\<lambda>_. Some s) (mem_imgs r)\<rparr> else r));
          display = (\<lambda>b. map (\<lambda>r. if member r then r\<lparr>mem_visible := b\<rparr> else r))
      in if (case filter member rows of [] \<Rightarrow> False | r # _ \<Rightarrow> mem_visible r) then
           (case src of None \<Rightarrow> Inl TypeError | Some s \<Rightarrow> Inr (set_src (take (length s - 8) s @ ''closed.png'') (display False rows)))
         else
           (case src of None \<Rightarrow> Inl TypeError | Some s \<Rightarrow> Inr (set_src (take (length s - 10) s @ ''open.png'') (display True rows))))"

subsection \<open>Stripes\<close>

lemma filter_upt_rank:
  assumes "k < n" "P k"
  shows "filter P [0..<n] ! length (filter P [0..<k]) = k" "length (filter P [0..<k]) < length (filter P [0..<n])"
proof -
  have "[0..<n] = [0..<k] @ k # [Suc k..<n]" using assms(1) by (metis le_add1 le_add_same_cancel1 less_imp_add_positive upt_add_eq_append upt_conv_Cons)
  then show "filter P [0..<n] ! length (filter P [0..<k]) = k" "length (filter P [0..<k]) < length (filter P [0..<n])"
    using assms(2) by (simp_all add: nth_append)
qed

lemma evens_rank:
  assumes "k < n"
  shows "k \<in> set (map fst (filter (\<lambda>p. even (snd p)) (zip (filter P [0..<n]) [0..<length (filter P [0..<n])]))) \<longleftrightarrow>
    P k \<and> even (length (filter P [0..<k]))" (is "k \<in> ?E \<longleftrightarrow> _")
proof -
  let ?xs = "filter P [0..<n]"
  have "k \<in> ?E \<longleftrightarrow> (\<exists>i < length ?xs. ?xs ! i = k \<and> even i)" by (force simp: set_zip)
  also have "\<dots> \<longleftrightarrow> P k \<and> even (length (filter P [0..<k]))"
  proof
    assume "\<exists>i < length ?xs. ?xs ! i = k \<and> even i"
    then obtain i where i: "i < length ?xs" "?xs ! i = k" "even i" by blast
    then have "k \<in> set ?xs" using nth_mem by blast
    then have P: "P k" by simp
    have "distinct ?xs" by simp
    then have "i = length (filter P [0..<k])"
      using i filter_upt_rank [where P = P, OF assms P] by (metis nth_eq_iff_index_eq)
    with i(3) P show "P k \<and> even (length (filter P [0..<k]))" by simp
  next
    assume "P k \<and> even (length (filter P [0..<k]))"
    then show "\<exists>i < length ?xs. ?xs ! i = k \<and> even i" using filter_upt_rank [where P = P, OF assms] by blast
  qed
  finally show ?thesis .
qed

lemma updateStripes_length [simp]: "length (updateStripes rows) = length rows"
  by (simp add: updateStripes_def Let_def)

lemma updateStripes_sel [simp]:
  assumes "k < length rows"
  shows "row_id (updateStripes rows ! k) = row_id (rows ! k)" "row_visible (updateStripes rows ! k) = row_visible (rows ! k)"
    "row_spans (updateStripes rows ! k) = row_spans (rows ! k)"
  using assms by (simp_all add: updateStripes_def Let_def)

lemma updateStripes_even:
  assumes "k < length rows"
  shows "''even'' \<in> set (row_classes (updateStripes rows ! k)) \<longleftrightarrow>
    row_visible (rows ! k) \<and> even (length (filter (\<lambda>j. row_visible (rows ! j)) [0..<k]))"
proof -
  let ?rows = "map (\<lambda>r. r\<lparr>row_classes := removeClass [''even''] (row_classes r)\<rparr>) rows"
  have vis: "filter (\<lambda>j. row_visible (?rows ! j)) [0..<n] = filter (\<lambda>j. row_visible (rows ! j)) [0..<n]" if "n \<le> length rows" for n
    by (rule filter_cong) (use that in auto)
  show ?thesis
    using evens_rank [OF assms, of "\<lambda>j. row_visible (rows ! j)"] assms vis [of "length rows"]
    by (simp add: updateStripes_def Let_def)
qed

subsection \<open>Levels\<close>

lemma on_span_id_sel [simp]:
  "length (on_span_id i f rows) = length rows"
  "k < length rows \<Longrightarrow> row_id (on_span_id i f rows ! k) = row_id (rows ! k)"
  "k < length rows \<Longrightarrow> row_visible (on_span_id i f rows ! k) = row_visible (rows ! k)"
  by (induction rows arbitrary: k) (auto simp: nth_Cons split: option.splits nat.splits)

lemma show_row_sel [simp]: "row_id (show_row b r) = row_id r" "row_visible (show_row b r) = b" "row_spans (show_row b r) = row_spans r"
  by (simp_all add: show_row_def)

definition underscores :: "row \<Rightarrow> nat" where
  "underscores r = count_list (row_id r) CHR ''_''"

lemma level_row_sel:
  assumes "k < length rows" "j < length rows"
  shows "length (level_row level k rows) = length rows" "row_id (level_row level k rows ! j) = row_id (rows ! j)"
    "row_visible (level_row level k rows ! j) = (if j = k then int (underscores (rows ! k)) \<le> level + 1 else row_visible (rows ! j))"
  using assms by (auto simp: level_row_def Let_def underscores_def nth_list_update)

lemma level_rows:
  assumes "n \<le> length rows" "j < length rows"
  shows "length (fold (level_row level) [0..<n] rows) = length rows \<and> row_id (fold (level_row level) [0..<n] rows ! j) = row_id (rows ! j) \<and>
    row_visible (fold (level_row level) [0..<n] rows ! j) = (if j < n then int (underscores (rows ! j)) \<le> level + 1 else row_visible (rows ! j))"
  using assms
proof (induction n arbitrary: j)
  case (Suc n)
  let ?r = "fold (level_row level) [0..<n] rows"
  have IH: "length ?r = length rows" "row_id (?r ! j) = row_id (rows ! j)" "row_id (?r ! n) = row_id (rows ! n)"
    "row_visible (?r ! j) = (if j < n then int (underscores (rows ! j)) \<le> level + 1 else row_visible (rows ! j))"
    using Suc.IH [of j] Suc.IH [of n] Suc.prems by auto
  show ?case using IH level_row_sel [of n ?r j level] Suc.prems by (auto simp: underscores_def less_Suc_eq)
qed simp

subsection \<open>Row identifiers\<close>

text \<open>The identifiers of the generated pages: the path of a row from the top, each number followed by an underscore.\<close>

definition enc :: "nat list \<Rightarrow> string" where
  "enc p = concat (map (\<lambda>n. toString10 n @ ''_'') p)"

lemma enc_simps [simp]: "enc [] = []" "enc (n # p) = toString10 n @ CHR ''_'' # enc p" "enc (p @ q) = enc p @ enc q"
  by (simp_all add: enc_def)

lemma underscore_digits: "CHR ''_'' \<notin> set (toString10 n)"
  using digit_toString10 [of "CHR ''_''" n] by (auto simp: is_digit_def)

lemma count_underscores: "count_list (enc p) CHR ''_'' = length p"
  by (induction p) (simp_all add: underscore_digits)

lemma split_underscore:
  assumes "xs @ CHR ''_'' # s = ys @ CHR ''_'' # t" "CHR ''_'' \<notin> set xs" "CHR ''_'' \<notin> set ys"
  shows "xs = ys" "s = t"
proof -
  have tw: "takeWhile (\<lambda>c. c \<noteq> CHR ''_'') (zs @ CHR ''_'' # u) = zs" if "CHR ''_'' \<notin> set zs" for zs u
    using that by (induction zs) auto
  show "xs = ys" using tw [OF assms(2), of s] tw [OF assms(3), of t] assms(1) by simp
  then show "s = t" using assms(1) by simp
qed

lemma enc_prefix: "prefix (enc p) (enc q) \<longleftrightarrow> prefix p q"
proof
  show "prefix p q" if "prefix (enc p) (enc q)"
    using that
  proof (induction p arbitrary: q)
    case (Cons n p)
    then obtain u where u: "enc q = toString10 n @ CHR ''_'' # enc p @ u" by (auto simp: prefix_def)
    then obtain m q' where q: "q = m # q'" by (cases q) auto
    with u have "toString10 m @ CHR ''_'' # enc q' = toString10 n @ CHR ''_'' # (enc p @ u)" by simp
    from split_underscore [OF this underscore_digits underscore_digits] have "m = n" "enc q' = enc p @ u"
      by (simp_all add: toString10_inject)
    with Cons.IH [of q'] q show ?case by (simp add: prefix_def)
  qed simp
qed (auto simp: prefix_def)

lemma enc_inject: "enc p = enc q \<longleftrightarrow> p = q"
  using enc_prefix [of p q] enc_prefix [of q p] by (metis prefix_order.antisym prefix_order.refl)

lemma enc_single:
  assumes "enc r = ds @ ''_''" "list_all is_digit ds" "ds \<noteq> []"
  shows "\<exists>n. r = [n]"
proof (cases r)
  case (Cons n r')
  have "CHR ''_'' \<notin> set ds" using assms(2) by (auto simp: list_all_iff is_digit_def)
  moreover have "toString10 n @ CHR ''_'' # enc r' = ds @ CHR ''_'' # []" using assms(1) Cons by simp
  ultimately have "enc r' = []" using split_underscore(2) underscore_digits by blast
  then have "r' = []" by (cases r') auto
  with Cons show ?thesis by simp
qed (use assms in simp)

lemma lower_enc [simp]: "toLowerCase (''row_'' @ enc p) = ''row_'' @ enc p"
proof -
  have digit: "lower_char c = c" if "is_digit c" for c using that by (auto simp: is_digit_def lower_char_def Let_def)
  have us: "lower_char CHR ''_'' = CHR ''_''" by (simp add: lower_char_def Let_def)
  have "map lower_char (enc p) = enc p"
  proof (induction p)
    case (Cons n p)
    have "map lower_char (toString10 n) = toString10 n" by (rule map_idI) (use digit digit_toString10 in blast)
    with Cons us show ?case by simp
  qed simp
  then show ?thesis by (simp add: toLowerCase_def lower_char_def)
qed

lemma is_sub_enc: "is_sub (enc p) (''row_'' @ enc q) \<longleftrightarrow> (\<exists>n. q = p @ [n])"
proof
  assume sub: "is_sub (enc p) (''row_'' @ enc q)"
  define rest where "rest = drop (length (enc p)) (enc q)"
  from sub have r: "take (length (enc p)) (enc q) = enc p" "length rest \<ge> 2" "last rest = CHR ''_''" "list_all is_digit (butlast rest)"
    unfolding is_sub_def Let_def lower_enc by (simp_all add: rest_def)
  have e: "enc q = enc p @ rest" using r(1) by (metis append_take_drop_id rest_def)
  then obtain q' where q: "q = p @ q'" using enc_prefix [of p q] by (auto simp: prefix_def)
  have "enc q' = butlast rest @ ''_''" using e q r(2,3) by (metis append_butlast_last_id enc_simps(3) list.size(3) not_numeral_le_zero same_append_eq)
  moreover have "butlast rest \<noteq> []" using r(2) by (cases rest rule: rev_cases) auto
  ultimately show "\<exists>n. q = p @ [n]" using enc_single r(4) q by blast
next
  assume "\<exists>n. q = p @ [n]"
  then obtain n where q: "q = p @ [n]" by blast
  have "list_all is_digit (toString10 n)" using digit_toString10 by (simp add: list_all_iff)
  moreover have "length (toString10 n) \<ge> 1" by (cases "toString10 n") simp_all
  ultimately show "is_sub (enc p) (''row_'' @ enc q)"
    unfolding is_sub_def Let_def lower_enc by (simp add: q)
qed

subsection \<open>Folders\<close>

text \<open>
  A directory with the paths \<^verbatim>\<open>ps\<close>: every row below the top comes after its parent. In a consistent tree a
  visible row below the top has a visible and open parent, and rows with the same parent are
  visible together.
\<close>

definition directory :: "nat list list \<Rightarrow> row list \<Rightarrow> bool" where
  "directory ps rows \<longleftrightarrow> map row_id rows = map (\<lambda>p. ''row_'' @ enc p) ps \<and> distinct ps \<and>
     (\<forall>k < length ps. ps ! k \<noteq> [] \<and> (1 < length (ps ! k) \<longrightarrow> (\<exists>j < k. ps ! j = butlast (ps ! k))))"

definition below :: "nat list \<Rightarrow> nat list \<Rightarrow> bool" where
  "below p q \<longleftrightarrow> 1 < length q \<and> butlast q = p"

definition open_row :: "row \<Rightarrow> bool" where
  "open_row r \<longleftrightarrow> (\<exists>s \<in> set (row_spans r). ''iconfopen'' \<in> set (span_classes s))"

definition folder_row :: "row \<Rightarrow> bool" where
  "folder_row r \<longleftrightarrow> (\<exists>s \<in> set (row_spans r). ''iconfopen'' \<in> set (span_classes s) \<or> ''iconfclosed'' \<in> set (span_classes s))"

definition tree_ok :: "nat list list \<Rightarrow> row list \<Rightarrow> bool" where
  "tree_ok ps rows \<longleftrightarrow> (\<forall>j < length ps. \<forall>k < length ps. below (ps ! j) (ps ! k) \<and> row_visible (rows ! k) \<longrightarrow>
       row_visible (rows ! j) \<and> open_row (rows ! j)) \<and>
     (\<forall>p. \<forall>i < length ps. \<forall>k < length ps. below p (ps ! i) \<and> below p (ps ! k) \<longrightarrow> row_visible (rows ! i) = row_visible (rows ! k))"

lemma directoryD:
  assumes "directory ps rows"
  shows "length rows = length ps" "k < length ps \<Longrightarrow> row_id (rows ! k) = ''row_'' @ enc (ps ! k)" "distinct ps"
    "k < length ps \<Longrightarrow> ps ! k \<noteq> []" "k < length ps \<Longrightarrow> 1 < length (ps ! k) \<Longrightarrow> \<exists>j < k. ps ! j = butlast (ps ! k)"
proof -
  show len: "length rows = length ps" using assms by (metis directory_def length_map)
  show "k < length ps \<Longrightarrow> row_id (rows ! k) = ''row_'' @ enc (ps ! k)" using assms len by (metis (no_types, lifting) directory_def nth_map)
  show "distinct ps" "k < length ps \<Longrightarrow> ps ! k \<noteq> []" "k < length ps \<Longrightarrow> 1 < length (ps ! k) \<Longrightarrow> \<exists>j < k. ps ! j = butlast (ps ! k)"
    using assms by (simp_all add: directory_def)
qed

lemma directory_after:
  assumes d: "directory ps rows" and c: "c < length ps" and k: "k < length ps" "strict_prefix (ps ! c) (ps ! k)"
  shows "c < k"
  using k
proof (induction k rule: less_induct)
  case (less k)
  obtain x xs where x: "ps ! k = ps ! c @ xs @ [x]" using less.prems(2) by (metis append_butlast_last_id prefix_def strict_prefix_def append_Nil2)
  have "1 < length (ps ! k)" using directoryD(4) [OF d c] by (simp add: x)
  then obtain j where j: "j < k" "ps ! j = ps ! c @ xs" using directoryD(5) [OF d less.prems(1)] x by (metis append.assoc butlast_snoc)
  show ?case
  proof (cases "xs = []")
    case True
    then have "j = c" using j less.prems(1) c directoryD(3) [OF d] by (simp add: nth_eq_iff_index_eq)
    then show ?thesis using j(1) by simp
  next
    case False
    then have "strict_prefix (ps ! c) (ps ! j)" using j(2) by (simp add: strict_prefix_def)
    from less.IH [OF j(1) _ this] show ?thesis using j(1) less.prems(1) by simp
  qed
qed

lemma below_iff: "p \<noteq> [] \<Longrightarrow> (\<exists>n. q = p @ [n]) \<longleftrightarrow> below p q"
  by (cases q rule: rev_cases) (auto simp: below_def)

lemma below_strict: "p \<noteq> [] \<Longrightarrow> below p q \<Longrightarrow> strict_prefix p q"
  using below_iff [of p q] by (auto simp: strict_prefix_def)

lemma on_rows_sel [simp]:
  "length (on_rows ks f rows) = length rows" "k < length rows \<Longrightarrow> on_rows ks f rows ! k = (if k \<in> set ks then f (rows ! k) else rows ! k)"
  by (simp_all add: on_rows_def)

lemma switch_spans_sel [simp]: "row_id (switch_spans a b h r) = row_id r" "row_visible (switch_spans a b h r) = row_visible r"
  by (simp_all add: switch_spans_def)

lemma switch_spans_open: "folder_row r \<Longrightarrow> open_row (switch_spans ''iconfclosed'' ''iconfopen'' h r)"
proof -
  assume "folder_row r"
  then obtain s where s: "s \<in> set (row_spans r)" "''iconfopen'' \<in> set (span_classes s) \<or> ''iconfclosed'' \<in> set (span_classes s)"
    by (auto simp: folder_row_def)
  let ?t = "switch_span ''iconfclosed'' ''iconfopen'' h s"
  have "?t \<in> set (row_spans (switch_spans ''iconfclosed'' ''iconfopen'' h r))" using s(1) by (simp add: switch_spans_def)
  moreover have "''iconfopen'' \<in> set (span_classes ?t)" using s(2) by (auto simp: switch_span_def set_html_def Let_def)
  ultimately show ?thesis unfolding open_row_def by blast
qed

text \<open>What a click does to the rows before the stripes are drawn.\<close>

lemma toggleFolder_rows:
  assumes d: "directory ps rows" and c: "c < length ps"
  defines "ch \<equiv> filter (\<lambda>k. below (ps ! c) (ps ! k)) [0..<length ps]"
  shows "toggleFolder (enc (ps ! c)) rows = updateStripes
    (if ch \<noteq> [] \<and> row_visible (rows ! hd ch) then
       on_rows (filter (\<lambda>k. strict_prefix (ps ! c) (ps ! k)) [0..<length ps]) (show_row False)
         (on_rows [c] (switch_spans ''iconfopen'' ''iconfclosed'' RIGHT_ARROW) rows)
     else on_rows ch (show_row True) (on_rows ch (switch_spans ''iconfopen'' ''iconfclosed'' RIGHT_ARROW)
       (on_rows [c] (switch_spans ''iconfclosed'' ''iconfopen'' DOWN_ARROW) rows)))"
proof -
  note dd = directoryD [OF d]
  have "List.find (\<lambda>k. row_id (rows ! k) = ''row_'' @ enc (ps ! c)) [0..<length rows] = Some c"
    unfolding find_Some_iff
  proof (intro exI [of _ c] conjI allI impI)
    show "row_id (rows ! ([0..<length rows] ! j)) \<noteq> ''row_'' @ enc (ps ! c)" if "j < c" for j
      using that c dd(1) dd(2) [of j] nth_eq_iff_index_eq [OF dd(3), of j c] by (simp add: enc_inject)
  qed (use c dd in simp_all)
  moreover have tail: "filter P [0..<length ps] = filter P' [Suc c..<length ps]"
    if "\<And>k. k \<le> c \<Longrightarrow> \<not> P k" "\<And>k. c < k \<Longrightarrow> k < length ps \<Longrightarrow> P k \<longleftrightarrow> P' k" for P P' :: "nat \<Rightarrow> bool"
  proof -
    have "[0..<length ps] = [0..<Suc c] @ [Suc c..<length ps]" using c by (metis Suc_leI le0 upt_add_eq_append le_add_diff_inverse)
    moreover have "filter P [0..<Suc c] = []" unfolding filter_empty_conv using that(1) by auto
    moreover have "filter P [Suc c..<length ps] = filter P' [Suc c..<length ps]" by (rule filter_cong) (use that(2) in auto)
    ultimately show ?thesis by (simp only: filter_append append_Nil)
  qed
  have before: "\<not> strict_prefix (ps ! c) (ps ! k)" if "k \<le> c" for k using directory_after [OF d c, of k] that c by auto
  note sp = below_strict [OF dd(4) [OF c]]
  have "prefix (''row_'' @ enc (ps ! c)) (row_id (rows ! k)) \<longleftrightarrow> strict_prefix (ps ! c) (ps ! k)" if "c < k" "k < length ps" for k
  proof -
    have "ps ! k \<noteq> ps ! c" using nth_eq_iff_index_eq [OF dd(3) that(2) c] that(1) by simp
    moreover have "prefix (''row_'' @ enc (ps ! c)) (row_id (rows ! k)) \<longleftrightarrow> prefix (ps ! c) (ps ! k)"
      unfolding dd(2) [OF that(2)] by (simp add: enc_prefix)
    ultimately show ?thesis by (simp add: strict_prefix_def eq_commute)
  qed
  then have "filter (\<lambda>k. strict_prefix (ps ! c) (ps ! k)) [0..<length ps] = filter (\<lambda>k. prefix (''row_'' @ enc (ps ! c)) (row_id (rows ! k))) [Suc c..<length ps]"
    by (intro tail before) simp_all
  moreover have "is_sub (enc (ps ! c)) (row_id (rows ! k)) \<longleftrightarrow> below (ps ! c) (ps ! k)" if "k < length ps" for k
    using dd(2) [OF that] is_sub_enc below_iff [OF dd(4) [OF c]] by simp
  then have "ch = filter (\<lambda>k. is_sub (enc (ps ! c)) (row_id (rows ! k))) [Suc c..<length ps]"
    unfolding ch_def by (intro tail) (use before sp in blast, simp)
  ultimately show ?thesis using dd(1) by (simp add: toggleFolder_def Let_def)
qed

lemma toggleFolder_sel:
  assumes d: "directory ps rows" and ok: "tree_ok ps rows" and c: "c < length ps" and k: "k < length ps"
  defines "opened \<equiv> \<exists>j < length ps. below (ps ! c) (ps ! j) \<and> row_visible (rows ! j)"
    and "r \<equiv> toggleFolder (enc (ps ! c)) rows"
  shows "length r = length rows" "row_id (r ! k) = row_id (rows ! k)"
    "row_visible (r ! k) \<longleftrightarrow> (if opened then row_visible (rows ! k) \<and> \<not> strict_prefix (ps ! c) (ps ! k)
       else row_visible (rows ! k) \<or> below (ps ! c) (ps ! k))"
    "k \<noteq> c \<Longrightarrow> opened \<or> \<not> below (ps ! c) (ps ! k) \<Longrightarrow> open_row (r ! k) = open_row (rows ! k)"
    "\<not> opened \<Longrightarrow> k = c \<Longrightarrow> folder_row (rows ! c) \<Longrightarrow> open_row (r ! k)"
proof -
  let ?ch = "filter (\<lambda>k. below (ps ! c) (ps ! k)) [0..<length ps]"
  have test: "?ch \<noteq> [] \<and> row_visible (rows ! hd ?ch) \<longleftrightarrow> opened"
  proof
    assume a: "?ch \<noteq> [] \<and> row_visible (rows ! hd ?ch)"
    then have "hd ?ch \<in> set ?ch" using hd_in_set by blast
    then have "hd ?ch < length ps" "below (ps ! c) (ps ! hd ?ch)" by auto
    then show opened unfolding opened_def using a by blast
  next
    assume opened
    then obtain j where j: "j < length ps" "below (ps ! c) (ps ! j)" "row_visible (rows ! j)" by (auto simp: opened_def)
    then have "j \<in> set ?ch" by simp
    then have ne: "?ch \<noteq> []" by force
    then have "hd ?ch \<in> set ?ch" using hd_in_set by blast
    then have "hd ?ch < length ps" "below (ps ! c) (ps ! hd ?ch)" by auto
    then have "row_visible (rows ! hd ?ch)" using ok j unfolding tree_ok_def by blast
    with ne show "?ch \<noteq> [] \<and> row_visible (rows ! hd ?ch)" by blast
  qed
  note len = directoryD(1) [OF d] and r = toggleFolder_rows [OF d c, unfolded test, folded r_def]
  have self: "\<not> below (ps ! c) (ps ! c)" using below_strict [OF directoryD(4) [OF d c], of "ps ! c"] by (auto simp: strict_prefix_def)
  show "length r = length rows" by (simp add: r)
  show "row_id (r ! k) = row_id (rows ! k)" using k len by (simp add: r)
  show "row_visible (r ! k) \<longleftrightarrow> (if opened then row_visible (rows ! k) \<and> \<not> strict_prefix (ps ! c) (ps ! k)
       else row_visible (rows ! k) \<or> below (ps ! c) (ps ! k))" using k len by (simp add: r)
  have "row_spans (show_row b x) = row_spans x" for b x by simp
  note open_show = open_row_def [of "show_row _ _", unfolded this, folded open_row_def]
  have stripes: "open_row (updateStripes xs ! i) = open_row (xs ! i)" if "i < length xs" for xs i
    using that by (simp add: open_row_def)
  show "open_row (r ! k) = open_row (rows ! k)" if "k \<noteq> c" "opened \<or> \<not> below (ps ! c) (ps ! k)"
    using that k len by (cases opened) (simp_all add: r stripes open_show)
  show "open_row (r ! k)" if "\<not> opened" "k = c" "folder_row (rows ! c)"
    using that k len self switch_spans_open [OF that(3)] by (simp add: r stripes open_show)
qed

lemma below_parent:
  assumes "directory ps rows" "below p (ps ! k)" "k < length ps" "strict_prefix q (ps ! k)" "q \<noteq> []"
  shows "p = q \<or> strict_prefix q p"
proof -
  obtain x where "ps ! k = p @ [x]" using assms(2) by (metis append_butlast_last_id below_def list.size(3) not_less_zero)
  with assms(4) show ?thesis by (auto simp: strict_prefix_def)
qed

lemma tree_ok_toggle:
  assumes d: "directory ps rows" and ok: "tree_ok ps rows" and c: "c < length ps" "row_visible (rows ! c)" "folder_row (rows ! c)"
  shows "tree_ok ps (toggleFolder (enc (ps ! c)) rows)"
proof -
  note dd = directoryD [OF d] and sel = toggleFolder_sel [OF d ok c(1)]
  let ?r = "toggleFolder (enc (ps ! c)) rows" and ?opened = "\<exists>j < length ps. below (ps ! c) (ps ! j) \<and> row_visible (rows ! j)"
  note ne = dd(4) [OF c(1)]
  have up: "strict_prefix (ps ! c) q" if "strict_prefix (ps ! c) p" "below p q" for p q
    using that below_strict [of p q] prefix_order.less_trans by fastforce
  have vis: "row_visible (?r ! j) \<and> open_row (?r ! j)" if jk: "j < length ps" "k < length ps" "below (ps ! j) (ps ! k)" "row_visible (?r ! k)" for j k
  proof (cases ?opened)
    case True
    then have k: "row_visible (rows ! k)" "\<not> strict_prefix (ps ! c) (ps ! k)" using sel(3) [OF jk(2)] jk(4) by auto
    then have "row_visible (rows ! j)" "open_row (rows ! j)" using ok jk unfolding tree_ok_def by blast+
    moreover have "j \<noteq> c" using k(2) jk(3) below_strict [OF ne] by auto
    moreover have "\<not> strict_prefix (ps ! c) (ps ! j)" using k(2) up jk(3) by blast
    ultimately show ?thesis using sel(3,4) [OF jk(1)] True by simp
  next
    case False
    show ?thesis
    proof (cases "j = c")
      case True
      then show ?thesis using sel(3,5) [OF jk(1)] False c by simp
    next
      case jc: False
      then have "\<not> below (ps ! c) (ps ! k)" using jk(1,3) c(1) nth_eq_iff_index_eq [OF dd(3), of j c] by (auto simp: below_def)
      then have k: "row_visible (rows ! k)" using sel(3) [OF jk(2)] jk(4) False by auto
      then have j: "row_visible (rows ! j)" "open_row (rows ! j)" using ok jk unfolding tree_ok_def by blast+
      have "\<not> below (ps ! c) (ps ! j)" using j(1) jk(1) False by blast
      then show ?thesis using j sel(3,4) [OF jk(1)] jc False by simp
    qed
  qed
  have same: "row_visible (?r ! i) = row_visible (?r ! k)" if ik: "i < length ps" "k < length ps" "below p (ps ! i)" "below p (ps ! k)" for p i k
  proof -
    have "row_visible (rows ! i) = row_visible (rows ! k)" using ok ik unfolding tree_ok_def by blast
    moreover have "strict_prefix (ps ! c) (ps ! i) \<longleftrightarrow> strict_prefix (ps ! c) (ps ! k)"
      using below_parent [OF d _ _ _ ne] ik up below_strict [OF ne] by metis
    moreover have "below (ps ! c) (ps ! i) \<longleftrightarrow> below (ps ! c) (ps ! k)" using ik(3,4) by (auto simp: below_def)
    ultimately show ?thesis unfolding sel(3) [OF ik(1)] sel(3) [OF ik(2)] by (simp only:)
  qed
  show ?thesis unfolding tree_ok_def using vis same by blast
qed

subsection \<open>Properties\<close>

definition sample_page :: page where
  "sample_page = [''s'' \<mapsto> \<lparr>el_classes = [''dynheader'', ''opened''], el_visible = True, el_src = None\<rparr>,
     ''s-summary'' \<mapsto> \<lparr>el_classes = [], el_visible = False, el_src = None\<rparr>,
     ''s-content'' \<mapsto> \<lparr>el_classes = [], el_visible = True, el_src = None\<rparr>,
     ''s-trigger'' \<mapsto> \<lparr>el_classes = [], el_visible = True, el_src = Some ''open.png''\<rparr>]"

definition sample_paths :: "nat list list" where "sample_paths = [[0], [0, 0], [0, 1], [1]]"

definition sample_rows :: "row list" where
  "sample_rows = map (\<lambda>p. \<lparr>row_id = ''row_'' @ enc p, row_classes = [], row_visible = True,
     row_spans = [\<lparr>span_id = ''img_'' @ enc p, span_classes = [''iconfopen''], span_html = []\<rparr>]\<rparr>) sample_paths"

lemma less_4: "(\<forall>k < 4 :: nat. P k) \<longleftrightarrow> P 0 \<and> P 1 \<and> P 2 \<and> P 3"
  by (auto simp: numeral_eq_Suc less_Suc_eq)

lemma sample_directory: "directory sample_paths sample_rows" "tree_ok sample_paths sample_rows"
proof -
  have len: "length sample_paths = 4" by (simp add: sample_paths_def)
  have "\<exists>j < k. sample_paths ! j = butlast (sample_paths ! k)" if "k < 4" "1 < length (sample_paths ! k)" for k
    by (rule exI [of _ 0]) (use that in \<open>auto simp: sample_paths_def numeral_eq_Suc less_Suc_eq\<close>)
  then show "directory sample_paths sample_rows"
    unfolding directory_def len by (auto simp: sample_rows_def sample_paths_def less_4)
  have "row_visible (sample_rows ! k) \<and> open_row (sample_rows ! k)" if "k < 4" for k
    using that len by (simp add: sample_rows_def open_row_def)
  then show "tree_ok sample_paths sample_rows" unfolding tree_ok_def len by blast
qed

text \<open>Inherited members are hidden together and shown again; the picture of the header goes with them.\<close>

lemma inherit_toggles:
  assumes shown: "\<And>r. r \<in> set rows \<Longrightarrow> {''inherit'', fid} \<subseteq> set (mem_classes r) \<Longrightarrow> mem_visible r"
    and some: "\<exists>r \<in> set rows. {''inherit'', fid} \<subseteq> set (mem_classes r)"
    and head: "\<exists>r \<in> set rows. {''inherit_header'', fid} \<subseteq> set (mem_classes r) \<and> mem_imgs r \<noteq> []"
    and img: "\<And>r. r \<in> set rows \<Longrightarrow> {''inherit_header'', fid} \<subseteq> set (mem_classes r) \<Longrightarrow> set (mem_imgs r) \<subseteq> {Some (p @ ''open.png'')}"
  shows "\<exists>rows'. toggleInherit fid rows = Inr rows' \<and> toggleInherit fid rows' = Inr rows \<and>
    (\<forall>r \<in> set rows'. {''inherit'', fid} \<subseteq> set (mem_classes r) \<longrightarrow> \<not> mem_visible r)"
proof -
  define member where "member = (\<lambda>r :: member_row. {''inherit'', fid} \<subseteq> set (mem_classes r))"
  define header where "header = (\<lambda>r :: member_row. {''inherit_header'', fid} \<subseteq> set (mem_classes r))"
  define change where "change = (\<lambda>b s r. (\<lambda>r. if header r then r\<lparr>mem_imgs := map (\<lambda>_. Some s) (mem_imgs r)\<rparr> else r)
    (if member r then r\<lparr>mem_visible := b\<rparr> else r))"
  have cls: "member (change b s r) = member r" "header (change b s r) = header r" "mem_visible (change b s r) = (if member r then b else mem_visible r)"
    "mem_imgs (change b s r) = (if header r then map (\<lambda>_. Some s) (mem_imgs r) else mem_imgs r)" for b s r
    by (auto simp: change_def member_def header_def)
  have src: "(case concat (map mem_imgs (filter header xs)) of [] \<Rightarrow> None | s # _ \<Rightarrow> s) = Some t"
    if "\<exists>r \<in> set xs. header r \<and> mem_imgs r \<noteq> []" "\<And>r. r \<in> set xs \<Longrightarrow> header r \<Longrightarrow> set (mem_imgs r) \<subseteq> {Some t}" for xs t
  proof -
    have "concat (map mem_imgs (filter header xs)) \<noteq> []" using that(1) by auto
    moreover have "set (concat (map mem_imgs (filter header xs))) \<subseteq> {Some t}" using that(2) by auto
    ultimately show ?thesis by (cases "concat (map mem_imgs (filter header xs))") auto
  qed
  have run: "toggleInherit fid xs = Inr (map (change (\<not> b) (take (length t - (if b then 8 else 10)) t @ (if b then ''closed.png'' else ''open.png''))) xs)"
    if "\<exists>r \<in> set xs. header r \<and> mem_imgs r \<noteq> []" "\<And>r. r \<in> set xs \<Longrightarrow> header r \<Longrightarrow> set (mem_imgs r) \<subseteq> {Some t}"
      "\<exists>r \<in> set xs. member r" "\<And>r. r \<in> set xs \<Longrightarrow> member r \<Longrightarrow> mem_visible r = b" for xs t b
  proof -
    have "filter member xs \<noteq> []" using that(3) by (auto simp: filter_empty_conv)
    then obtain r rs where f: "filter member xs = r # rs" by (meson neq_Nil_conv)
    then have "r \<in> set (filter member xs)" by simp
    then have "r \<in> set xs" "member r" by simp_all
    then have "mem_visible r = b" using that(4) by blast
    then show ?thesis
      using src [OF that(1,2)] f unfolding toggleInherit_def Let_def member_def [symmetric] header_def [symmetric]
      by (cases b) (simp_all add: change_def o_def)
  qed
  let ?c1 = "change False (p @ ''closed.png'')" and ?c2 = "change True (p @ ''open.png'')"
  have one: "toggleInherit fid rows = Inr (map ?c1 rows)"
    using run [of rows "p @ ''open.png''" True] assms by (simp add: member_def header_def)
  have "toggleInherit fid (map ?c1 rows) =
    Inr (map (change (\<not> False) (take (length (p @ ''closed.png'') - (if False then 8 else 10)) (p @ ''closed.png'') @ (if False then ''closed.png'' else ''open.png''))) (map ?c1 rows))"
  proof (rule run)
    obtain r where "r \<in> set rows" "header r" "mem_imgs r \<noteq> []" using head by (auto simp: header_def)
    then have "?c1 r \<in> set (map ?c1 rows)" "header (?c1 r) \<and> mem_imgs (?c1 r) \<noteq> []" by (simp_all add: cls)
    then show "\<exists>r \<in> set (map ?c1 rows). header r \<and> mem_imgs r \<noteq> []" by blast
    obtain r' where "r' \<in> set rows" "member r'" using some by (auto simp: member_def)
    then have "?c1 r' \<in> set (map ?c1 rows)" "member (?c1 r')" by (simp_all add: cls)
    then show "\<exists>r \<in> set (map ?c1 rows). member r" by blast
  qed (auto simp: cls)
  then have "toggleInherit fid (map ?c1 rows) = Inr (map ?c2 (map ?c1 rows))" by simp
  moreover have "?c2 (?c1 r) = r" if "r \<in> set rows" for r
  proof -
    have "map (\<lambda>_. Some (p @ ''open.png'')) (mem_imgs r) = mem_imgs r" if "header r"
      using img [OF \<open>r \<in> set rows\<close>] that by (intro map_idI) (auto simp: header_def)
    then show ?thesis using shown [OF that] by (cases r) (auto simp: change_def member_def header_def o_def)
  qed
  then have "map ?c2 (map ?c1 rows) = rows" by (simp add: map_idI)
  moreover have "\<not> mem_visible (?c1 r)" if "member (?c1 r)" for r using that by (simp add: cls)
  ultimately show ?thesis using one by (auto simp: member_def)
qed

text \<open>
  Opening and closing a section (C39). A click on an open section hides its content, shows the summary and
  exchanges the picture; the next click restores the page, up to the order of the section's classes.
\<close>

theorem visibility_toggles:
  assumes "d base = Some b" "d (base @ ''-summary'') = Some s" "d (base @ ''-content'') = Some c" "d (base @ ''-trigger'') = Some t"
    and "el_visible c" "\<not> el_visible s" "''opened'' \<in> set (el_classes b)" "''closed'' \<notin> set (el_classes b)" "el_src t = Some (p @ ''open.png'')"
  shows "\<exists>d1 d2 b2. toggleVisibility base d = Inr (d1, False) \<and> d1 (base @ ''-content'') = Some (c\<lparr>el_visible := False\<rparr>) \<and>
    d1 (base @ ''-summary'') = Some (s\<lparr>el_visible := True\<rparr>) \<and> d1 (base @ ''-trigger'') = Some (t\<lparr>el_src := Some (p @ ''closed.png'')\<rparr>) \<and>
    toggleVisibility base d1 = Inr (d2, False) \<and> d2 = d(base \<mapsto> b2) \<and> set (el_classes b2) = set (el_classes b) \<and> el_visible b2 = el_visible b \<and> el_src b2 = el_src b"
proof -
  have ne: "base \<noteq> base @ ''-summary''" "base \<noteq> base @ ''-content''" "base \<noteq> base @ ''-trigger''" by simp_all
  let ?b1 = "b\<lparr>el_classes := removeClass [''opened''] (addClass ''closed'' (el_classes b))\<rparr>"
  let ?b2 = "?b1\<lparr>el_classes := addClass ''opened'' (removeClass [''closed''] (el_classes ?b1))\<rparr>"
  let ?d1 = "d(base @ ''-content'' \<mapsto> c\<lparr>el_visible := False\<rparr>, base @ ''-summary'' \<mapsto> s\<lparr>el_visible := True\<rparr>, base \<mapsto> ?b1,
    base @ ''-trigger'' \<mapsto> t\<lparr>el_src := Some (p @ ''closed.png'')\<rparr>)"
  have one: "toggleVisibility base d = Inr (?d1, False)"
    using assms ne by (simp add: toggleVisibility_def on_elem_def Let_def)
  have "c\<lparr>el_visible := True\<rparr> = c" "s\<lparr>el_visible := False\<rparr> = s" "t\<lparr>el_src := Some (p @ ''open.png'')\<rparr> = t" using assms by simp_all
  then have two: "toggleVisibility base ?d1 = Inr (d(base \<mapsto> ?b2), False)"
    using assms ne by (auto simp: toggleVisibility_def on_elem_def Let_def fun_eq_iff)
  have "set (el_classes ?b2) = set (el_classes b)" using assms(7,8) by auto
  then show ?thesis using one two by (intro exI [of _ ?d1] exI [of _ "d(base \<mapsto> ?b2)"] exI [of _ ?b2]) simp
qed

theorem visibility_toggles_witness:
  "\<exists>d1 d2. toggleVisibility ''s'' sample_page = Inr (d1, False) \<and> map_option el_src (d1 ''s-trigger'') = Some (Some ''closed.png'') \<and>
    toggleVisibility ''s'' d1 = Inr (d2, False) \<and> d2 ''s-trigger'' = sample_page ''s-trigger''"
  using visibility_toggles [where d = sample_page and base = "''s''" and p = "[]"] by (force simp: sample_page_def)

text \<open>
  The detail level of the file list (C38). Choosing a level shows exactly the rows no deeper than it, the
  depth being the number of numbers in the row's identifier, and stripes every other visible row from
  the first.
\<close>

theorem level_shows:
  assumes "directory ps rows" "k < length ps"
  shows "(row_visible (toggleLevel level rows ! k) \<longleftrightarrow> int (length (ps ! k)) \<le> level) \<and>
    (''even'' \<in> set (row_classes (toggleLevel level rows ! k)) \<longleftrightarrow>
      int (length (ps ! k)) \<le> level \<and> even (length (filter (\<lambda>j. int (length (ps ! j)) \<le> level) [0..<k])))"
proof -
  let ?r = "fold (level_row level) [0..<length rows] rows"
  note dd = directoryD [OF assms(1)]
  have depth: "int (underscores (rows ! j)) \<le> level + 1 \<longleftrightarrow> int (length (ps ! j)) \<le> level" if "j < length ps" for j
    using dd(2) [OF that] by (simp add: underscores_def count_underscores)
  have r: "length ?r = length rows" "row_visible (?r ! j) \<longleftrightarrow> int (length (ps ! j)) \<le> level" if "j < length ps" for j
    using level_rows [of "length rows" rows j level] that dd(1) depth by simp_all
  have "filter (\<lambda>j. row_visible (?r ! j)) [0..<k] = filter (\<lambda>j. int (length (ps ! j)) \<le> level) [0..<k]"
    by (rule filter_cong) (use r(2) assms(2) in auto)
  then show ?thesis
    using updateStripes_even [of k ?r] r [OF assms(2)] assms(2) dd(1) by (simp add: toggleLevel_def)
qed

theorem level_shows_witness: "row_visible (toggleLevel 1 sample_rows ! 3) \<and> \<not> row_visible (toggleLevel 1 sample_rows ! 2)"
  using level_shows [OF sample_directory(1), of 3 1] level_shows [OF sample_directory(1), of 2 1] by (simp add: sample_paths_def)

text \<open>
  Opening and closing a folder (C37). In a consistent tree a click on a visible folder hides everything below it
  if its children were visible, and otherwise shows its children; no other row appears or disappears (the
  stripes are drawn anew), and the tree stays consistent: visible rows have visible and open parents.
\<close>

theorem folder_toggles:
  assumes "directory ps rows" "tree_ok ps rows" "c < length ps" "row_visible (rows ! c)" "folder_row (rows ! c)"
  shows "directory ps (toggleFolder (enc (ps ! c)) rows) \<and> tree_ok ps (toggleFolder (enc (ps ! c)) rows) \<and>
    (\<forall>k < length ps. row_visible (toggleFolder (enc (ps ! c)) rows ! k) \<longleftrightarrow>
      (if \<exists>j < length ps. below (ps ! c) (ps ! j) \<and> row_visible (rows ! j) then row_visible (rows ! k) \<and> \<not> strict_prefix (ps ! c) (ps ! k)
       else row_visible (rows ! k) \<or> below (ps ! c) (ps ! k)))"
proof -
  note dd = directoryD [OF assms(1)] and sel = toggleFolder_sel [OF assms(1-3)]
  have "map row_id (toggleFolder (enc (ps ! c)) rows) = map row_id rows"
    by (rule nth_equalityI) (use sel(1,2) assms(3) dd(1) in auto)
  then have "directory ps (toggleFolder (enc (ps ! c)) rows)" using assms(1) by (simp add: directory_def)
  then show ?thesis using tree_ok_toggle [OF assms] sel(3) by blast
qed

theorem folder_toggles_witness:
  "tree_ok sample_paths (toggleFolder ''0_'' sample_rows) \<and> \<not> row_visible (toggleFolder ''0_'' sample_rows ! 2) \<and> row_visible (toggleFolder ''0_'' sample_rows ! 3)"
proof -
  have len: "length sample_paths = 4" by (simp add: sample_paths_def)
  have v: "row_visible (sample_rows ! k)" if "k < 4" for k using that len by (simp add: sample_rows_def)
  have zero: "toString10 0 = ''0''" by code_simp
  have f: "folder_row (sample_rows ! 0)" and e: "enc (sample_paths ! 0) = ''0_''"
    using zero by (simp_all add: sample_rows_def sample_paths_def folder_row_def)
  have "below (sample_paths ! 0) (sample_paths ! 2)" by (simp add: sample_paths_def below_def)
  then have "\<exists>j < length sample_paths. below (sample_paths ! 0) (sample_paths ! j) \<and> row_visible (sample_rows ! j)"
    using v [of 2] by (intro exI [of _ 2]) (simp add: sample_paths_def)
  with folder_toggles [OF sample_directory, of 0] v f e show ?thesis
    by (simp add: sample_paths_def)
qed

end
