(* ===== verification/Kern_Base.thy ===== *)
theory Kern_Base
  imports Prelude "HOL-Library.Word"
begin

text \<open>
  What the kernel modules share: the status codes of \<^verbatim>\<open>types.h\<close>, the ways a kernel routine can
  fail to return, and the composition of routines that may fail. A routine is a function from
  the state to \<^verbatim>\<open>fault + result \<times> state\<close>; \<^verbatim>\<open>kbind\<close> runs one routine after another.
\<close>

subsection \<open>Status codes\<close>

definition E_SUCCESS :: int where "E_SUCCESS = 0"
definition E_FAILURE :: int where "E_FAILURE = - 1"
definition E_NO_PERM :: int where "E_NO_PERM = - 2"
definition E_NO_PROCESS :: int where "E_NO_PROCESS = - 3"
definition E_BAD_CHAN :: int where "E_BAD_CHAN = - 4"
definition E_NO_CHILD :: int where "E_NO_CHILD = - 5"
definition E_NO_CHAR :: int where "E_NO_CHAR = - 6"
definition E_NO_MORE_PROCS :: int where "E_NO_MORE_PROCS = - 7"
definition E_NO_STACKS :: int where "E_NO_STACKS = - 8"
definition E_NO_PCBS :: int where "E_NO_PCBS = - 9"

text \<open>The last two enumerators have no value of their own: they follow \<^verbatim>\<open>E_MORE_DATA = -62\<close>.\<close>

definition E_MORE_DATA :: int where "E_MORE_DATA = - 62"
definition E_NO_QNODES :: int where "E_NO_QNODES = E_MORE_DATA + 1"
definition E_EMPTY_QUEUE :: int where "E_EMPTY_QUEUE = E_MORE_DATA + 2"

lemmas status_defs = E_SUCCESS_def E_FAILURE_def E_NO_PERM_def E_NO_PROCESS_def E_BAD_CHAN_def
  E_NO_CHILD_def E_NO_CHAR_def E_NO_MORE_PROCS_def E_NO_STACKS_def E_NO_PCBS_def E_MORE_DATA_def
  E_NO_QNODES_def E_EMPTY_QUEUE_def

subsection \<open>Faults and their propagation\<close>

text \<open>
  \<^verbatim>\<open>KPanic\<close> is a call of \<^verbatim>\<open>_kpanic\<close> or \<^verbatim>\<open>__panic\<close>, which print and halt; \<^verbatim>\<open>NullDeref\<close> and
  \<^verbatim>\<open>OutOfRange\<close> are accesses the C code does not check; \<^verbatim>\<open>Diverges\<close> is a loop that does not end.
\<close>

datatype fault = KPanic string string | NullDeref | OutOfRange | Diverges

type_synonym ('s, 'a) kern = "'s \<Rightarrow> fault + 'a \<times> 's"

definition kreturn :: "'a \<Rightarrow> ('s, 'a) kern" where
  "kreturn x s = Inr (x, s)"

definition kfail :: "fault \<Rightarrow> ('s, 'a) kern" where
  "kfail e s = Inl e"

definition kbind :: "('s, 'a) kern \<Rightarrow> ('a \<Rightarrow> ('s, 'b) kern) \<Rightarrow> ('s, 'b) kern" where
  "kbind m f s = (case m s of Inl e \<Rightarrow> Inl e | Inr (x, s) \<Rightarrow> f x s)"

definition kget :: "('s \<Rightarrow> 'a) \<Rightarrow> ('s, 'a) kern" where
  "kget f s = Inr (f s, s)"

definition kmodify :: "('s \<Rightarrow> 's) \<Rightarrow> ('s, unit) kern" where
  "kmodify f s = Inr ((), f s)"

definition kpanic :: "string \<Rightarrow> string \<Rightarrow> ('s, 'a) kern" where
  "kpanic module text = kfail (KPanic module text)"

lemma kern_run [kern_simps]:
  "kreturn x s = Inr (x, s)" "kfail e s = Inl e" "kget f s = Inr (f s, s)" "kmodify g s = Inr ((), g s)"
  "kpanic w t s = Inl (KPanic w t)"
  by (simp_all add: kreturn_def kfail_def kget_def kmodify_def kpanic_def)

lemma kbind_run [kern_simps]:
  "m s = Inr (x, s') \<Longrightarrow> kbind m f s = f x s'"
  "m s = Inl e \<Longrightarrow> kbind m f s = Inl e"
  by (simp_all add: kbind_def)

lemma kbind_steps [kern_simps]:
  "kbind (kreturn x) f s = f x s" "kbind (kget g) f s = f (g s) s" "kbind (kmodify h) f' s = f' () (h s)"
  "kbind (kfail e) f s = Inl e" "kbind (kpanic w t) f s = Inl (KPanic w t)"
  by (simp_all add: kbind_def kern_run)

lemma kbind_assoc: "kbind (kbind m f) g = kbind m (\<lambda>x. kbind (f x) g)"
  by (auto simp: kbind_def fun_eq_iff split: sum.splits)

lemma kbind_InrE:
  assumes "kbind m f s = Inr (y, t)"
  obtains x u where "m s = Inr (x, u)" "f x u = Inr (y, t)"
  using assms by (auto simp: kbind_def split: sum.splits)

subsection \<open>Total correctness\<close>

text \<open>\<^verbatim>\<open>wp m Q s\<close>: from \<^verbatim>\<open>s\<close> the routine returns, and its result and final state satisfy \<^verbatim>\<open>Q\<close>.\<close>

definition wp :: "('s, 'a) kern \<Rightarrow> ('a \<Rightarrow> 's \<Rightarrow> bool) \<Rightarrow> 's \<Rightarrow> bool" where
  "wp m Q s \<longleftrightarrow> (case m s of Inl e \<Rightarrow> False | Inr (x, s') \<Rightarrow> Q x s')"

lemma wp_iff: "wp m Q s \<longleftrightarrow> (\<exists>x s'. m s = Inr (x, s') \<and> Q x s')"
  by (auto simp: wp_def split: sum.splits prod.splits)

lemma wp_bind [kern_simps]: "wp (kbind m f) Q s \<longleftrightarrow> wp m (\<lambda>x. wp (f x) Q) s"
  by (auto simp: wp_def kbind_def split: sum.splits prod.splits)

lemma wp_steps [kern_simps]:
  "wp (kreturn x) Q s \<longleftrightarrow> Q x s" "wp (kget f) Q' s \<longleftrightarrow> Q' (f s) s" "wp (kmodify g) Q'' s \<longleftrightarrow> Q'' () (g s)"
  "\<not> wp (kfail e) Q s" "\<not> wp (kpanic w t) Q s"
  by (simp_all add: wp_def kern_run)

lemma wp_fun [kern_simps]:
  "wp (kreturn x) Q = Q x" "wp (kmodify g) Q' = (\<lambda>s. Q' () (g s))" "wp (kget f) Q'' = (\<lambda>s. Q'' (f s) s)"
  "wp (kbind m h) Q = wp m (\<lambda>x. wp (h x) Q)"
  by (simp_all add: fun_eq_iff wp_steps wp_bind)

lemma wp_mono: "wp m Q s \<Longrightarrow> (\<And>x s'. Q x s' \<Longrightarrow> R x s') \<Longrightarrow> wp m R s"
  by (auto simp: wp_iff)

lemma wp_run: "m s = Inr (x, s') \<Longrightarrow> wp m Q s \<longleftrightarrow> Q x s'"
  by (simp add: wp_def)

primrec kfor :: "'b list \<Rightarrow> ('b \<Rightarrow> ('s, unit) kern) \<Rightarrow> ('s, unit) kern" where
  "kfor [] f = kreturn ()"
| "kfor (i # is) f = kbind (f i) (\<lambda>_. kfor is f)"

lemma kfor_append: "kfor (xs @ ys) f = kbind (kfor xs f) (\<lambda>_. kfor ys f)"
proof (induction xs)
  case Nil
  show ?case by (simp add: fun_eq_iff kern_simps)
qed (simp add: kbind_assoc)

lemma wp_kfor:
  assumes "I [] s" "\<And>js j s. \<exists>rest. is = js @ j # rest \<Longrightarrow> I js s \<Longrightarrow> wp (f j) (\<lambda>_. I (js @ [j])) s"
  shows "wp (kfor is f) (\<lambda>_. I is) s"
proof -
  have "wp (kfor ks f) (\<lambda>_. I is) s" if "is = js @ ks" "I js s" for js ks s
    using that
  proof (induction ks arbitrary: js s)
    case (Cons j ks)
    then have "wp (f j) (\<lambda>_. I (js @ [j])) s" using assms(2) by blast
    then show ?case
      using Cons.IH [of "js @ [j]"] Cons.prems(1) by (auto simp: kern_simps elim: wp_mono)
  qed (simp add: kern_simps)
  from this [of "[]" "is" s] assms(1) show ?thesis by simp
qed

end
