(* ===== verification/Kern_Queue.thy ===== *)
theory Kern_Queue
  imports Kern_Base
begin

text \<open>
  The queue module of the kernel (\<^verbatim>\<open>baseline/queue.c\<close>): one static pool of queue nodes, a free
  list threaded through it, and the queues of the system as singly linked lists of pool nodes
  with head, tail and size. A node pointer is \<^verbatim>\<open>Some i\<close> for \<^verbatim>\<open>&_qnodes[i]\<close>, and a queue pointer is
  the name of one of the kernel's queues. The second half relates the linked lists to lists of
  data: every operation does to the list what its comment says, and no node is ever lost or
  shared.
\<close>

subsection \<open>Data\<close>

text \<open>A \<^verbatim>\<open>void *\<close> that the kernel puts in a queue: an element of \<^verbatim>\<open>_pcbs\<close> or of \<^verbatim>\<open>_stacks\<close>.\<close>

datatype ptr = NULL | PCB nat | STACK nat

text \<open>The queues of the kernel: the globals of \<^verbatim>\<open>process.c\<close>, \<^verbatim>\<open>stack.c\<close>, \<^verbatim>\<open>scheduler.c\<close>, \<^verbatim>\<open>syscall.c\<close> and \<^verbatim>\<open>sio.c\<close>.\<close>

datatype qid = FREE_PCBS | SLEEPING | FREE_STACKS | READY nat | ZOMBIE | WAITING | READING

text \<open>The ordering functions a queue may have; a plain FIFO has none.\<close>

datatype cmpf_t = CMP_WAKEUP

record queue_t =
  head :: "nat option"
  tail :: "nat option"
  qsize :: "32 word"
  cmp :: "cmpf_t option"

record qmodule =
  qnext :: "nat \<Rightarrow> nat option"
  qdata :: "nat \<Rightarrow> ptr"
  free_qnodes :: "nat option"
  queues :: "qid \<Rightarrow> queue_t"

definition N_PROCS :: nat where "N_PROCS = 25"
definition N_PCBS :: nat where "N_PCBS = N_PROCS + 3"
definition N_STACKS :: nat where "N_STACKS = N_PROCS + 3"
definition N_QNODES :: nat where "N_QNODES = N_PCBS + N_STACKS + 5"

lemmas pool_sizes = N_PROCS_def N_PCBS_def N_STACKS_def N_QNODES_def

definition set_queue :: "qid \<Rightarrow> queue_t \<Rightarrow> qmodule \<Rightarrow> qmodule" where
  "set_queue q qu s = s\<lparr>queues := (queues s)(q := qu)\<rparr>"

definition set_next :: "nat \<Rightarrow> nat option \<Rightarrow> qmodule \<Rightarrow> qmodule" where
  "set_next n p s = s\<lparr>qnext := (qnext s)(n := p)\<rparr>"

definition set_data :: "nat \<Rightarrow> ptr \<Rightarrow> qmodule \<Rightarrow> qmodule" where
  "set_data n d s = s\<lparr>qdata := (qdata s)(n := d)\<rparr>"

subsection \<open>Operations\<close>

definition qn_alloc :: "qmodule \<Rightarrow> nat option \<times> qmodule" where
  "qn_alloc s = (case free_qnodes s of
       None \<Rightarrow> (None, s)
     | Some new \<Rightarrow> (Some new, s\<lparr>free_qnodes := qnext s new\<rparr>))"

definition qn_dealloc :: "nat \<Rightarrow> qmodule \<Rightarrow> qmodule" where
  "qn_dealloc old s =
     (let s = set_data old NULL s;
          s = set_next old (free_qnodes s) s
      in s\<lparr>free_qnodes := Some old\<rparr>)"

definition qn_init :: "qmodule \<Rightarrow> qmodule" where
  "qn_init s = fold qn_dealloc [0..<N_QNODES] s"

definition q_init :: "qmodule \<Rightarrow> qmodule" where
  "q_init s = qn_init s"

definition q_reset :: "qid option \<Rightarrow> cmpf_t option \<Rightarrow> (qmodule, unit) kern" where
  "q_reset que c s = (case que of
       None \<Rightarrow> Inl (KPanic ''_q_reset'' ''NULL queue parameter'')
     | Some q \<Rightarrow> Inr ((), set_queue q \<lparr>head = None, tail = None, qsize = 0, cmp = c\<rparr> s))"

text \<open>
  The list traversal shared by \<^verbatim>\<open>_q_enque\<close> and \<^verbatim>\<open>_q_remove\<close>: advance the pair of pointers while the
  current node satisfies the loop condition. Running out of the bound means the list is cyclic.
\<close>

fun q_walk :: "nat \<Rightarrow> (nat \<Rightarrow> bool) \<Rightarrow> (nat \<Rightarrow> nat option) \<Rightarrow> nat option \<Rightarrow> nat option
               \<Rightarrow> (nat option \<times> nat option) option" where
  "q_walk 0 go nxt prev cur = None"
| "q_walk (Suc k) go nxt prev None = Some (prev, None)"
| "q_walk (Suc k) go nxt prev (Some c) =
     (if go c then q_walk k go nxt (Some c) (nxt c) else Some (prev, Some c))"

definition q_insert :: "nat \<Rightarrow> nat option \<Rightarrow> nat option \<Rightarrow> qid \<Rightarrow> (qmodule, int) kern" where
  "q_insert new prev cur q s =
     (let s = set_next new cur s; qu = queues s q in
      case prev of
        None \<Rightarrow>
          if cur = None then Inl (KPanic ''_q_enque'' ''empty non-empty queue'')
          else Inr (E_SUCCESS, set_queue q (qu\<lparr>head := Some new, qsize := qsize qu + 1\<rparr>) s)
      | Some p \<Rightarrow>
          let s = set_next p (Some new) s;
              qu = (if cur = None then qu\<lparr>tail := Some new\<rparr> else qu)
          in Inr (E_SUCCESS, set_queue q (qu\<lparr>qsize := qsize qu + 1\<rparr>) s))"

definition q_enque :: "(cmpf_t \<Rightarrow> ptr \<Rightarrow> ptr \<Rightarrow> int) \<Rightarrow> qid option \<Rightarrow> ptr \<Rightarrow> (qmodule, int) kern" where
  "q_enque call que data s = (case que of
       None \<Rightarrow> Inl (KPanic ''_q_enque'' ''NULL que'')
     | Some q \<Rightarrow>
         (case qn_alloc s of
            (None, s) \<Rightarrow> Inr (E_NO_QNODES, s)
          | (Some new, s) \<Rightarrow>
              let s = set_next new None (set_data new data s); qu = queues s q in
              if qsize qu = 0 then
                Inr (E_SUCCESS, set_queue q (qu\<lparr>head := Some new, tail := Some new, qsize := 1\<rparr>) s)
              else
                (case cmp qu of
                   None \<Rightarrow>
                     (case tail qu of
                        None \<Rightarrow> Inl NullDeref
                      | Some t \<Rightarrow>
                          Inr (E_SUCCESS,
                               set_queue q (qu\<lparr>tail := Some new, qsize := qsize qu + 1\<rparr>)
                                 (set_next t (Some new) s)))
                 | Some f \<Rightarrow>
                     (case q_walk (Suc N_QNODES) (\<lambda>c. call f data (qdata s c) \<ge> 0) (qnext s) None (head qu) of
                        None \<Rightarrow> Inl Diverges
                      | Some (prev, cur) \<Rightarrow> q_insert new prev cur q s))))"

text \<open>
  An out parameter \<^verbatim>\<open>void **data\<close> is \<^verbatim>\<open>None\<close> for the null pointer and \<^verbatim>\<open>Some v\<close> for a variable that
  holds \<^verbatim>\<open>v\<close>; the routine returns its value afterwards.
\<close>

definition q_peek :: "qid option \<Rightarrow> ptr option \<Rightarrow> (qmodule, int \<times> ptr) kern" where
  "q_peek que data s = (case que of
       None \<Rightarrow> Inl (KPanic ''_q_peek'' ''NULL que'')
     | Some q \<Rightarrow>
         (case data of
            None \<Rightarrow> Inl (KPanic ''_q_peek'' ''NULL data'')
          | Some v \<Rightarrow>
              let qu = queues s q in
              if qsize qu = 0 then Inr ((E_EMPTY_QUEUE, v), s)
              else
                (case (head qu, tail qu) of
                   (Some h, Some t) \<Rightarrow> Inr ((E_SUCCESS, qdata s h), s)
                 | _ \<Rightarrow> Inl (KPanic ''_q_peek'' ''empty queue with non-zero size''))))"

definition q_unlink_head :: "qid \<Rightarrow> (qmodule, unit) kern" where
  "q_unlink_head q s =
     (let qu = queues s q in
      case head qu of
        None \<Rightarrow> Inl NullDeref
      | Some qn \<Rightarrow>
          let qu = qu\<lparr>head := qnext s qn, qsize := qsize qu - 1\<rparr>;
              qu = (if head qu = None then qu\<lparr>tail := None\<rparr> else qu)
          in if head qu = None \<and> qsize qu \<noteq> 0
             then Inl (KPanic ''_q_deque'' '''empty' queue has non-zero size'')
             else Inr ((), qn_dealloc qn (set_queue q qu s)))"

definition q_deque :: "qid option \<Rightarrow> ptr option \<Rightarrow> (qmodule, int \<times> ptr) kern" where
  "q_deque que data =
     kbind (q_peek que data) (\<lambda>(stat, v).
       if stat \<noteq> E_SUCCESS then kreturn (stat, v)
       else (case que of
               None \<Rightarrow> kfail NullDeref
             | Some q \<Rightarrow> kbind (q_unlink_head q) (\<lambda>_. kreturn (E_SUCCESS, v))))"

definition q_remove :: "qid option \<Rightarrow> ptr \<Rightarrow> (qmodule, int) kern" where
  "q_remove que data s = (case que of
       None \<Rightarrow> Inl (KPanic ''_q_remove'' ''NULL que'')
     | Some q \<Rightarrow>
         (let qu = queues s q in
          case q_walk (Suc N_QNODES) (\<lambda>c. qdata s c \<noteq> data) (qnext s) None (head qu) of
            None \<Rightarrow> Inl Diverges
          | Some (prev, None) \<Rightarrow> Inr (E_NO_PROCESS, s)
          | Some (prev, Some c) \<Rightarrow>
              let (qu, s) = (case prev of
                     None \<Rightarrow> (qu\<lparr>head := qnext s c\<rparr>, s)
                   | Some p \<Rightarrow> (qu, set_next p (qnext s c) s));
                  qu = (if tail qu = Some c then qu\<lparr>tail := prev\<rparr> else qu)
              in Inr (E_SUCCESS, qn_dealloc c (set_queue q (qu\<lparr>qsize := qsize qu - 1\<rparr>) s))))"

subsection \<open>Linked lists in the pool\<close>

fun path :: "(nat \<Rightarrow> nat option) \<Rightarrow> nat option \<Rightarrow> nat list \<Rightarrow> nat option \<Rightarrow> bool" where
  "path nxt p [] r \<longleftrightarrow> p = r"
| "path nxt p (n # ns) r \<longleftrightarrow> p = Some n \<and> path nxt (nxt n) ns r"

definition first :: "nat list \<Rightarrow> nat option" where
  "first ns = (case ns of [] \<Rightarrow> None | n # _ \<Rightarrow> Some n)"

definition lastp :: "nat option \<Rightarrow> nat list \<Rightarrow> nat option" where
  "lastp prev ns = (if ns = [] then prev else Some (last ns))"

fun follow :: "nat \<Rightarrow> (nat \<Rightarrow> nat option) \<Rightarrow> nat option \<Rightarrow> nat list" where
  "follow 0 nxt p = []"
| "follow (Suc k) nxt None = []"
| "follow (Suc k) nxt (Some n) = n # follow k nxt (nxt n)"

lemma first_simps [simp]: "first [] = None" "first (n # ns) = Some n"
  by (simp_all add: first_def)

lemma lastp_simps [simp]: "lastp p [] = p" "lastp p (n # ns) = lastp (Some n) ns" 
  "lastp p (ms @ n # ns) = lastp (Some n) ns"
  by (auto simp: lastp_def)

lemma path_append [qheap]: "path nxt p (as @ bs) r \<longleftrightarrow> (\<exists>m. path nxt p as m \<and> path nxt m bs r)"
  by (induction as arbitrary: p) auto

lemma path_upd [qheap]: "n \<notin> set ns \<Longrightarrow> path (nxt(n := v)) p ns r \<longleftrightarrow> path nxt p ns r"
  by (induction ns arbitrary: p) auto

lemma path_cong: "(\<And>n. n \<in> set ns \<Longrightarrow> nxt n = nxt' n) \<Longrightarrow> path nxt p ns r \<longleftrightarrow> path nxt' p ns r"
  by (induction ns arbitrary: p) auto

lemma path_first: "path nxt p ns None \<Longrightarrow> p = first ns"
  by (cases ns) auto

lemma follow_path: "path nxt p ns None \<Longrightarrow> length ns \<le> k \<Longrightarrow> follow k nxt p = ns"
proof (induction ns arbitrary: k p)
  case Nil
  then show ?case by (cases k) auto
next
  case (Cons n ns)
  then show ?case by (cases k) auto
qed

lemma q_walk_path:
  "path nxt p ns None \<Longrightarrow> length ns < k \<Longrightarrow>
   q_walk k go nxt prev p = Some (lastp prev (takeWhile go ns), first (dropWhile go ns))"
proof (induction ns arbitrary: k p prev)
  case Nil
  then show ?case by (cases k) auto
next
  case (Cons n ns)
  then obtain k' where "k = Suc k'" by (cases k) auto
  with Cons show ?case by simp
qed

lemma path_insert_front:
  "path nxt p bs None \<Longrightarrow> n \<notin> set bs \<Longrightarrow> path (nxt(n := first bs)) (Some n) (n # bs) None"
  by (auto simp: path_upd dest: path_first)

lemma path_insert_after:
  assumes "path nxt p (as @ a # bs) None" "distinct (as @ a # bs)" "n \<notin> set (as @ a # bs)"
  shows "path (nxt(n := first bs, a := Some n)) p (as @ a # n # bs) None"
proof -
  have "path nxt (nxt a) bs None" using assms by (auto simp: path_append)
  then have "path nxt (first bs) bs None" using path_first by metis
  with assms show ?thesis by (auto simp: path_append path_upd)
qed

lemma path_delete_after:
  assumes "path nxt p (as @ a # c # bs) None" "distinct (as @ a # c # bs)"
  shows "path (nxt(a := nxt c)) p (as @ a # bs) None"
  using assms by (auto simp: path_append path_upd)

subsection \<open>The representation of the queues\<close>

definition queue_ok :: "qmodule \<Rightarrow> qid \<Rightarrow> nat list \<Rightarrow> bool" where
  "queue_ok s q ns \<longleftrightarrow> path (qnext s) (head (queues s q)) ns None \<and>
     tail (queues s q) = lastp None ns \<and> qsize (queues s q) = of_nat (length ns)"

definition qrep :: "qmodule \<Rightarrow> (qid \<Rightarrow> nat list) \<Rightarrow> nat list \<Rightarrow> bool" where
  "qrep s ns fs \<longleftrightarrow>
     path (qnext s) (free_qnodes s) fs None \<and> distinct fs \<and>
     (\<forall>q. queue_ok s q (ns q) \<and> distinct (ns q) \<and> set (ns q) \<inter> set fs = {}) \<and>
     (\<forall>q q'. q \<noteq> q' \<longrightarrow> set (ns q) \<inter> set (ns q') = {}) \<and>
     set fs \<union> (\<Union>q. set (ns q)) = {..<N_QNODES}"

definition nodes :: "qmodule \<Rightarrow> qid \<Rightarrow> nat list" where
  "nodes s q = follow N_QNODES (qnext s) (head (queues s q))"

definition free_nodes :: "qmodule \<Rightarrow> nat list" where
  "free_nodes s = follow N_QNODES (qnext s) (free_qnodes s)"

definition qinv :: "qmodule \<Rightarrow> bool" where
  "qinv s \<longleftrightarrow> qrep s (nodes s) (free_nodes s)"

definition contents :: "qmodule \<Rightarrow> qid \<Rightarrow> ptr list" where
  "contents s q = map (qdata s) (nodes s q)"

lemma length_le_pool: "set ns \<subseteq> {..<N} \<Longrightarrow> distinct ns \<Longrightarrow> length ns \<le> N"
  using card_mono [of "{..<N}" "set ns"] by (simp add: distinct_card)

lemma qrep_bounds:
  assumes "qrep s ns fs"
  shows "set (ns q) \<subseteq> {..<N_QNODES}" "set fs \<subseteq> {..<N_QNODES}"
    "length (ns q) \<le> N_QNODES" "length fs \<le> N_QNODES"
proof -
  have cover: "set fs \<union> (\<Union>q. set (ns q)) = {..<N_QNODES}" using assms by (simp add: qrep_def)
  then show ns: "set (ns q) \<subseteq> {..<N_QNODES}" and fs: "set fs \<subseteq> {..<N_QNODES}" by blast+
  show "length (ns q) \<le> N_QNODES" "length fs \<le> N_QNODES"
    using length_le_pool [OF ns] length_le_pool [OF fs] assms by (auto simp: qrep_def)
qed

lemma qrepD:
  assumes "qrep s ns fs" "ns q = l"
  shows "path (qnext s) (head (queues s q)) l None" "tail (queues s q) = lastp None l"
    "qsize (queues s q) = of_nat (length l)" "distinct l" "set l \<inter> set fs = {}"
    "path (qnext s) (free_qnodes s) fs None" "distinct fs"
  using assms by (auto simp: qrep_def queue_ok_def)

lemma qrep_unique:
  assumes "qrep s ns fs"
  shows "nodes s = ns" "free_nodes s = fs"
  using assms follow_path [of "qnext s" _ _ N_QNODES] qrep_bounds [OF assms]
  by (auto simp: fun_eq_iff nodes_def free_nodes_def qrep_def queue_ok_def)

lemma qinvI: "qrep s ns fs \<Longrightarrow> qinv s"
  unfolding qinv_def by (simp add: qrep_unique)

lemma qrep_update:
  assumes rep: "qrep s ns fs"
    and other: "\<And>q'. q' \<noteq> q \<Longrightarrow> queues s' q' = queues s q'"
    and frame: "\<And>n. n \<notin> set l \<union> set fs' \<Longrightarrow> qnext s' n = qnext s n"
    and free: "path (qnext s') (free_qnodes s') fs' None" "distinct fs'"
    and que: "queue_ok s' q l" "distinct l" "set l \<inter> set fs' = {}"
    and cover: "set l \<union> set fs' = set (ns q) \<union> set fs"
  shows "qrep s' (ns(q := l)) fs'"
proof -
  have dis: "set (ns q') \<inter> (set l \<union> set fs') = {}" if "q' \<noteq> q" for q'
  proof -
    have "set (ns q') \<inter> set (ns q) = {}" "set (ns q') \<inter> set fs = {}"
      using rep that by (simp_all add: qrep_def)
    then show ?thesis by (auto simp: cover)
  qed
  have "queue_ok s' q' (ns q')" if "q' \<noteq> q" for q'
  proof -
    have "path (qnext s') p (ns q') None \<longleftrightarrow> path (qnext s) p (ns q') None" for p
      using dis [OF that] frame by (intro path_cong) auto
    then show ?thesis using rep other [OF that] by (simp add: queue_ok_def qrep_def)
  qed
  moreover have "set fs' \<union> (\<Union>q'. set ((ns(q := l)) q')) = {..<N_QNODES}"
  proof -
    have "set fs' \<union> (\<Union>q'. set ((ns(q := l)) q')) = set l \<union> set fs' \<union> (\<Union>q' \<in> - {q}. set (ns q'))"
      by (auto split: if_splits)
    also have "\<dots> = set fs \<union> (\<Union>q'. set (ns q'))" using cover by auto
    finally show ?thesis using rep by (simp add: qrep_def)
  qed
  moreover have "set (ns q1) \<inter> set (ns q2) = {}" if "q1 \<noteq> q2" for q1 q2
    using rep that by (simp add: qrep_def)
  moreover have "distinct (ns q')" for q' using rep by (simp add: qrep_def)
  moreover have "set (ns q') \<inter> set l = {}" "set l \<inter> set (ns q') = {}" "set (ns q') \<inter> set fs' = {}"
    if "q' \<noteq> q" for q' using dis [OF that] by blast+
  ultimately show ?thesis
    using free que unfolding qrep_def by (simp del: UN_simps)
qed

subsection \<open>The operations on the representation\<close>

text \<open>Where a new entry goes: after every entry it does not precede; at the end of a FIFO.\<close>

definition goes_after :: "(cmpf_t \<Rightarrow> ptr \<Rightarrow> ptr \<Rightarrow> int) \<Rightarrow> cmpf_t option \<Rightarrow> ptr \<Rightarrow> ptr \<Rightarrow> bool" where
  "goes_after call c d y = (case c of None \<Rightarrow> True | Some f \<Rightarrow> call f d y \<ge> 0)"

definition place :: "('a \<Rightarrow> bool) \<Rightarrow> 'a \<Rightarrow> 'a list \<Rightarrow> 'a list" where
  "place go d xs = takeWhile go xs @ d # dropWhile go xs"

lemma place_simps [simp]:
  "length (place go d xs) = Suc (length xs)" "set (place go d xs) = insert d (set xs)"
  "distinct (place go d xs) \<longleftrightarrow> d \<notin> set xs \<and> distinct xs" "place (\<lambda>_. True) d xs = xs @ [d]"
proof -
  obtain as bs where "xs = as @ bs" "place go d xs = as @ d # bs"
    by (metis place_def takeWhile_dropWhile_id)
  then show "length (place go d xs) = Suc (length xs)" "set (place go d xs) = insert d (set xs)"
    "distinct (place go d xs) \<longleftrightarrow> d \<notin> set xs \<and> distinct xs"
    by auto
  show "place (\<lambda>_. True) d xs = xs @ [d]" by (simp add: place_def)
qed

lemma map_place: "map f (place (\<lambda>c. go (f c)) n ns) = place go (f n) (map f ns)"
  by (simp add: place_def takeWhile_map dropWhile_map comp_def)

lemma of_nat_size_zero: "n \<le> N_QNODES \<Longrightarrow> (of_nat n :: 32 word) = 0 \<longleftrightarrow> n = 0"
proof -
  assume "n \<le> N_QNODES"
  then have "n < 2 ^ 32" by (simp add: pool_sizes)
  then show ?thesis using nat_dvd_not_less [of n "2 ^ 32"] by (cases "n = 0") (simp_all add: word_of_nat_eq_0_iff)
qed

lemmas mut_defs = set_queue_def set_next_def set_data_def

lemma q_insert_rep:
  assumes path: "path (qnext s) (head (queues s q)) (as @ bs) None" and d: "distinct (as @ bs)"
    and new: "new \<notin> set (as @ bs)" and ne: "as @ bs \<noteq> []"
    and tail: "tail (queues s q) = lastp None (as @ bs)" and sz: "qsize (queues s q) = of_nat (length (as @ bs))"
  shows "\<exists>s'. q_insert new (lastp None as) (first bs) q s = Inr (E_SUCCESS, s') \<and>
    queue_ok s' q (as @ new # bs) \<and> (\<forall>n. n \<notin> insert new (set (as @ bs)) \<longrightarrow> qnext s' n = qnext s n) \<and>
    (\<forall>q'. q' \<noteq> q \<longrightarrow> queues s' q' = queues s q') \<and> cmp (queues s' q) = cmp (queues s q) \<and>
    qdata s' = qdata s \<and> free_qnodes s' = free_qnodes s"
proof (cases as rule: rev_cases)
  case Nil
  with ne obtain b bs' where bs: "bs = b # bs'" by (cases bs) auto
  have "path ((qnext s)(new := first bs)) (Some new) (new # bs) None"
    using path new Nil by (intro path_insert_front) auto
  then show ?thesis
    using Nil bs tail sz by (auto simp: q_insert_def Let_def mut_defs queue_ok_def lastp_def)
next
  case (snoc as' a)
  have "path ((qnext s)(new := first bs, a := Some new)) (head (queues s q)) (as' @ a # new # bs) None"
    using path d new snoc by (intro path_insert_after) auto
  then show ?thesis
    using snoc tail sz
    by (cases bs) (auto simp: q_insert_def Let_def mut_defs queue_ok_def lastp_def)
qed

lemma q_enque_rep:
  fixes q :: qid
  assumes rep: "qrep s ns (new # fs)"
  defines "c \<equiv> cmp (queues s q)"
  shows "\<exists>s'. q_enque call (Some q) d s = Inr (E_SUCCESS, s') \<and>
    qrep s' (ns(q := place (\<lambda>n. goes_after call c d (qdata s n)) new (ns q))) fs \<and>
    qdata s' = (qdata s)(new := d) \<and> (\<forall>q'. cmp (queues s' q') = cmp (queues s q'))"
proof -
  define s1 where "s1 = set_next new None (set_data new d (s\<lparr>free_qnodes := qnext s new\<rparr>))"
  define go where "go n = goes_after call c d (qdata s n)" for n
  have q: "path (qnext s) (head (queues s q)) (ns q) None" "tail (queues s q) = lastp None (ns q)"
    "qsize (queues s q) = of_nat (length (ns q))" "distinct (ns q)"
    and new: "new \<notin> set (ns q)" "new \<notin> set fs" and fs: "distinct fs"
    "set (ns q) \<inter> set fs = {}" and free: "free_qnodes s = Some new" "path (qnext s) (qnext s new) fs None"
    using rep by (auto simp: qrep_def queue_ok_def)
  have path1: "path (qnext s1) p l r \<longleftrightarrow> path (qnext s) p l r" if "new \<notin> set l" for p l r
    using that by (simp add: s1_def mut_defs path_upd)
  have qs1: "queues s1 = queues s" by (simp add: s1_def mut_defs)
  have empty: "qsize (queues s q) = 0 \<longleftrightarrow> ns q = []"
    using of_nat_size_zero [OF qrep_bounds(3) [OF rep]] q(3) by simp
  have "\<exists>s'. q_enque call (Some q) d s = Inr (E_SUCCESS, s') \<and> queue_ok s' q (place go new (ns q)) \<and>
      (\<forall>n. n \<notin> insert new (set (ns q)) \<longrightarrow> qnext s' n = qnext s1 n) \<and>
      (\<forall>q'. q' \<noteq> q \<longrightarrow> queues s' q' = queues s q') \<and> cmp (queues s' q) = c \<and>
      qdata s' = qdata s1 \<and> free_qnodes s' = free_qnodes s1"
  proof (cases "ns q = []")
    case True
    then show ?thesis
      using empty by (auto simp: q_enque_def qn_alloc_def free Let_def mut_defs s1_def queue_ok_def place_def c_def)
  next
    case False
    define l where "l = ns q"
    have run: "q_enque call (Some q) d s =
        (case c of
           None \<Rightarrow> (case tail (queues s q) of None \<Rightarrow> Inl NullDeref
                   | Some t \<Rightarrow> Inr (E_SUCCESS, set_queue q ((queues s q)\<lparr>tail := Some new, qsize := qsize (queues s q) + 1\<rparr>)
                                 (set_next t (Some new) s1)))
         | Some f \<Rightarrow> (case q_walk (Suc N_QNODES) (\<lambda>n. call f d (qdata s1 n) \<ge> 0) (qnext s1) None (head (queues s q)) of
                       None \<Rightarrow> Inl Diverges | Some (prev, cur) \<Rightarrow> q_insert new prev cur q s1))"
      unfolding q_enque_def qn_alloc_def free option.case prod.case Let_def s1_def [symmetric] qs1 c_def
      using False empty by simp
    show ?thesis
    proof (cases c)
      case None
      obtain as a where l: "ns q = as @ [a]" using False by (cases "ns q" rule: rev_cases) auto
      have "path ((qnext s1)(new := first [], a := Some new)) (head (queues s q)) (as @ a # [new]) None"
        using q new path1 unfolding l by (intro path_insert_after) auto
      moreover have "(qnext s1)(new := None) = qnext s1" by (simp add: s1_def mut_defs)
      moreover have "go = (\<lambda>_. True)" by (simp add: go_def goes_after_def None fun_eq_iff)
      ultimately show ?thesis
        using None l q(2,3) by (auto simp: run mut_defs queue_ok_def s1_def c_def [symmetric])
    next
      case (Some f)
      define as bs where "as = takeWhile go (ns q)" and "bs = dropWhile go (ns q)"
      have l: "ns q = as @ bs" by (simp add: as_def bs_def)
      have agree: "call f d (qdata s1 n) \<ge> 0 \<longleftrightarrow> go n" if "n \<in> set (ns q)" for n
        using that new by (auto simp: go_def goes_after_def Some s1_def mut_defs)
      have walk: "q_walk (Suc N_QNODES) (\<lambda>n. call f d (qdata s1 n) \<ge> 0) (qnext s1) None (head (queues s q)) =
          Some (lastp None as, first bs)"
        using q_walk_path [of "qnext s1" "head (queues s q)" "ns q" "Suc N_QNODES"] q(1) new qrep_bounds(3) [OF rep]
        by (simp add: path1 as_def bs_def takeWhile_cong [OF refl agree] dropWhile_cong [OF refl agree] le_imp_less_Suc)
      have "\<exists>s'. q_insert new (lastp None as) (first bs) q s1 = Inr (E_SUCCESS, s') \<and>
          queue_ok s' q (as @ new # bs) \<and> (\<forall>n. n \<notin> insert new (set (as @ bs)) \<longrightarrow> qnext s' n = qnext s1 n) \<and>
          (\<forall>q'. q' \<noteq> q \<longrightarrow> queues s' q' = queues s1 q') \<and> cmp (queues s' q) = cmp (queues s1 q) \<and>
          qdata s' = qdata s1 \<and> free_qnodes s' = free_qnodes s1"
        using q new False path1 l by (intro q_insert_rep) (auto simp: s1_def mut_defs)
      then show ?thesis
        unfolding l [symmetric] qs1 using Some
        by (simp add: run walk place_def c_def flip: as_def bs_def)
    qed
  qed
  then obtain s' where s': "q_enque call (Some q) d s = Inr (E_SUCCESS, s')" "queue_ok s' q (place go new (ns q))"
    "\<And>n. n \<notin> insert new (set (ns q)) \<Longrightarrow> qnext s' n = qnext s1 n"
    "\<And>q'. q' \<noteq> q \<Longrightarrow> queues s' q' = queues s q'" "cmp (queues s' q) = c"
    "qdata s' = qdata s1" "free_qnodes s' = free_qnodes s1" by blast
  have "qrep s' (ns(q := place go new (ns q))) fs"
  proof (rule qrep_update [OF rep])
    have "path (qnext s1) (free_qnodes s1) fs None"
      using path1 [OF new(2)] free by (simp add: s1_def mut_defs)
    moreover have "path (qnext s') p fs None \<longleftrightarrow> path (qnext s1) p fs None" for p
      using new fs by (intro path_cong s'(3)) auto
    ultimately show "path (qnext s') (free_qnodes s') fs None" by (simp add: s'(7))
    show "qnext s' n = qnext s n" if "n \<notin> set (place go new (ns q)) \<union> set fs" for n
      using that s'(3) [of n] by (auto simp: s1_def mut_defs)
  qed (use s' q new fs in auto)
  moreover have "\<forall>q'. cmp (queues s' q') = cmp (queues s q')" using s'(4,5) c_def by metis
  ultimately show ?thesis
    using s' by (auto simp: go_def [abs_def] s1_def mut_defs)
qed

lemma q_peek_rep:
  assumes rep: "qrep s ns fs"
  shows "q_peek (Some q) (Some v) s =
    Inr (if ns q = [] then (E_EMPTY_QUEUE, v) else (E_SUCCESS, qdata s (hd (ns q))), s)"
proof -
  have q: "path (qnext s) (head (queues s q)) (ns q) None" "tail (queues s q) = lastp None (ns q)"
    "qsize (queues s q) = of_nat (length (ns q))"
    using rep by (auto simp: qrep_def queue_ok_def)
  have "qsize (queues s q) = 0 \<longleftrightarrow> ns q = []"
    using of_nat_size_zero [OF qrep_bounds(3) [OF rep]] q(3) by simp
  then show ?thesis
    using q path_first [OF q(1)] by (cases "ns q") (auto simp: q_peek_def Let_def lastp_def split: option.split)
qed

lemma q_unlink_head_rep:
  assumes rep: "qrep s ns fs" and ne: "ns q = n # l"
  shows "\<exists>s'. q_unlink_head q s = Inr ((), s') \<and> qrep s' (ns(q := l)) (n # fs) \<and>
    qdata s' = (qdata s)(n := NULL) \<and> (\<forall>q'. cmp (queues s' q') = cmp (queues s q'))"
proof -
  have q: "head (queues s q) = Some n" "path (qnext s) (qnext s n) l None" "tail (queues s q) = lastp None (n # l)"
    "qsize (queues s q) = of_nat (Suc (length l))" "distinct (n # l)"
    and free: "path (qnext s) (free_qnodes s) fs None" "distinct fs" "set (n # l) \<inter> set fs = {}"
    using qrepD [OF rep ne] by simp_all
  define qu0 where "qu0 = (queues s q)\<lparr>head := qnext s n, qsize := qsize (queues s q) - 1\<rparr>"
  define qu where "qu = (if head qu0 = None then qu0\<lparr>tail := None\<rparr> else qu0)"
  define s' where "s' = qn_dealloc n (set_queue q qu s)"
  have hd: "qnext s n = first l" using path_first [OF q(2)] .
  have qu: "head qu = qnext s n" "tail qu = lastp None l" "qsize qu = of_nat (length l)"
    "cmp qu = cmp (queues s q)"
    using q hd by (cases l; simp add: qu_def qu0_def)+
  have "q_unlink_head q s = Inr ((), s')"
    using q hd qu by (cases l) (simp_all add: q_unlink_head_def Let_def s'_def qu_def qu0_def)
  moreover have "qrep s' (ns(q := l)) (n # fs)"
  proof (rule qrep_update [OF rep])
    show "path (qnext s') (free_qnodes s') (n # fs) None"
      using free by (simp add: s'_def qn_dealloc_def mut_defs Let_def path_upd)
    show "queue_ok s' q l"
      using q by (simp add: s'_def qn_dealloc_def mut_defs Let_def queue_ok_def qu path_upd)
  qed (use q free ne in \<open>auto simp: s'_def qn_dealloc_def mut_defs Let_def\<close>)
  ultimately show ?thesis
    by (auto simp: s'_def qn_dealloc_def mut_defs Let_def qu)
qed

lemma q_remove_rep:
  assumes rep: "qrep s ns fs" and l: "ns q = as @ c # bs"
    and c: "qdata s c = d" and first: "\<forall>a \<in> set as. qdata s a \<noteq> d"
  shows "\<exists>s'. q_remove (Some q) d s = Inr (E_SUCCESS, s') \<and> qrep s' (ns(q := as @ bs)) (c # fs) \<and>
    qdata s' = (qdata s)(c := NULL) \<and> (\<forall>q'. cmp (queues s' q') = cmp (queues s q'))"
proof -
  let ?qu = "queues s q"
  have q: "path (qnext s) (head ?qu) (as @ c # bs) None" "tail ?qu = lastp None (as @ c # bs)"
    "qsize ?qu = of_nat (length (as @ c # bs))" "distinct (as @ c # bs)"
    and free: "path (qnext s) (free_qnodes s) fs None" "distinct fs" "set (as @ c # bs) \<inter> set fs = {}"
    using qrepD [OF rep l] by simp_all
  have walk: "q_walk (Suc N_QNODES) (\<lambda>n. qdata s n \<noteq> d) (qnext s) None (head ?qu) = Some (lastp None as, Some c)"
    using q_walk_path [of "qnext s" "head ?qu" "ns q" "Suc N_QNODES" "\<lambda>n. qdata s n \<noteq> d" None]
      qrep_bounds(3) [OF rep, of q] q(1) c first l
    by (simp add: takeWhile_append dropWhile_append takeWhile_eq_all_conv dropWhile_eq_Nil_conv)
  define qu0 where "qu0 = (if as = [] then ?qu\<lparr>head := qnext s c\<rparr> else ?qu)"
  define qu1 where "qu1 = (if tail qu0 = Some c then qu0\<lparr>tail := lastp None as\<rparr> else qu0)"
  define qu where "qu = qu1\<lparr>qsize := qsize qu1 - 1\<rparr>"
  define s1 where "s1 = (if as = [] then s else set_next (last as) (qnext s c) s)"
  define s' where "s' = qn_dealloc c (set_queue q qu s1)"
  have run: "q_remove (Some q) d s = Inr (E_SUCCESS, s')"
    using walk by (simp add: q_remove_def Let_def s'_def qu_def qu1_def qu0_def s1_def lastp_def split: option.split)
  have qu: "tail qu = lastp None (as @ bs)" "qsize qu = of_nat (length (as @ bs))"
    "head qu = (if as = [] then qnext s c else head ?qu)" "cmp qu = cmp ?qu"
    using q(2,3,4) by (cases bs rule: rev_cases; auto simp: qu_def qu1_def qu0_def lastp_def)+
  have path: "path (qnext s1) (head qu) (as @ bs) None"
  proof (cases as rule: rev_cases)
    case (snoc as' a)
    then show ?thesis
      using q(1,4) path_delete_after [of "qnext s" "head ?qu" as' a c bs] by (simp add: s1_def qu mut_defs)
  qed (use q(1) in \<open>simp add: s1_def qu\<close>)
  have nl: "last as \<notin> set fs" if "as \<noteq> []"
    using free(3) that by (cases as rule: rev_cases) auto
  have fs1: "path (qnext s1) p fs None \<longleftrightarrow> path (qnext s) p fs None" for p
    using nl by (intro path_cong) (auto simp: s1_def mut_defs)
  have "qrep s' (ns(q := as @ bs)) (c # fs)"
  proof (rule qrep_update [OF rep])
    show "path (qnext s') (free_qnodes s') (c # fs) None"
      using free fs1 by (auto simp: s'_def qn_dealloc_def mut_defs Let_def path_upd s1_def)
    show "queue_ok s' q (as @ bs)"
      using q(4) path by (auto simp: s'_def qn_dealloc_def mut_defs Let_def queue_ok_def qu path_upd)
  qed (use q(4) free l in \<open>auto simp: s'_def qn_dealloc_def mut_defs Let_def s1_def\<close>)
  then show ?thesis
    using run by (auto simp: s'_def qn_dealloc_def mut_defs Let_def qu s1_def)
qed

lemma q_remove_absent:
  assumes rep: "qrep s ns fs" and "\<forall>n \<in> set (ns q). qdata s n \<noteq> d"
  shows "q_remove (Some q) d s = Inr (E_NO_PROCESS, s)"
proof -
  have "path (qnext s) (head (queues s q)) (ns q) None"
    using rep by (simp add: qrep_def queue_ok_def)
  then have "q_walk (Suc N_QNODES) (\<lambda>n. qdata s n \<noteq> d) (qnext s) None (head (queues s q)) =
      Some (lastp None (ns q), None)"
    using q_walk_path [of "qnext s" "head (queues s q)" "ns q" "Suc N_QNODES" "\<lambda>n. qdata s n \<noteq> d" None]
      qrep_bounds(3) [OF rep, of q] assms(2)
    by (simp add: takeWhile_eq_all_conv [THEN iffD2] dropWhile_eq_Nil_conv [THEN iffD2] le_imp_less_Suc)
  then show ?thesis by (simp add: q_remove_def Let_def)
qed

subsection \<open>The operations on the contents\<close>

definition orders :: "qmodule \<Rightarrow> qid \<Rightarrow> cmpf_t option" where
  "orders s q = cmp (queues s q)"

definition room :: "qmodule \<Rightarrow> nat" where
  "room s = length (free_nodes s)"

lemma contents_rep: "qrep s ns fs \<Longrightarrow> contents s = (\<lambda>q. map (qdata s) (ns q))"
  by (simp add: contents_def qrep_unique fun_eq_iff)

lemma contents_update:
  assumes rep: "qrep s ns fs" and rep': "qrep s' (ns(q := l)) fs'"
    and data: "\<And>n. n \<notin> set l \<union> set fs' \<Longrightarrow> qdata s' n = qdata s n"
  shows "contents s' = (contents s)(q := map (qdata s') l)"
proof
  fix q'
  show "contents s' q' = ((contents s)(q := map (qdata s') l)) q'"
  proof (cases "q' = q")
    case False
    have "set (ns q') \<inter> (set l \<union> set fs') = {}"
    proof -
      have "set ((ns(q := l)) q') \<inter> set ((ns(q := l)) q) = {}" "set ((ns(q := l)) q') \<inter> set fs' = {}"
        using rep' False unfolding qrep_def by blast+
      with False show ?thesis by auto
    qed
    then have "map (qdata s') (ns q') = map (qdata s) (ns q')" using data by auto
    with False show ?thesis by (simp add: contents_rep [OF rep] contents_rep [OF rep'])
  qed (simp add: contents_rep [OF rep'])
qed

lemma q_enque_ok:
  assumes inv: "qinv s" and room: "0 < room s"
  shows "\<exists>s'. q_enque call (Some q) d s = Inr (E_SUCCESS, s') \<and> qinv s' \<and>
    contents s' = (contents s)(q := place (goes_after call (orders s q) d) d (contents s q)) \<and>
    room s = Suc (room s') \<and> orders s' = orders s"
proof -
  obtain new fs where "free_nodes s = new # fs" using room by (cases "free_nodes s") (auto simp: room_def)
  then have rep: "qrep s (nodes s) (new # fs)" using inv by (simp add: qinv_def)
  let ?l = "place (\<lambda>n. goes_after call (orders s q) d (qdata s n)) new (nodes s q)"
  obtain s' where s': "q_enque call (Some q) d s = Inr (E_SUCCESS, s')" "qrep s' ((nodes s)(q := ?l)) fs"
    "qdata s' = (qdata s)(new := d)" "\<forall>q'. cmp (queues s' q') = cmp (queues s q')"
    using q_enque_rep [OF rep, of call q d] by (auto simp: orders_def)
  have new: "new \<notin> set (nodes s q)" using qrepD(5) [OF rep refl, of q] by simp
  have eq: "map (qdata s') ?l = place (goes_after call (orders s q) d) d (contents s q)"
  proof -
    have "map (qdata s') ?l = map (qdata s') (place (\<lambda>n. goes_after call (orders s q) d (qdata s' n)) new (nodes s q))"
      using new unfolding place_def
      by (intro arg_cong [where f = "map (qdata s')"] arg_cong2 [where f = append]
          arg_cong [where f = "(#) new"] takeWhile_cong dropWhile_cong) (auto simp: s'(3))
    also have "\<dots> = place (goes_after call (orders s q) d) d (map (qdata s') (nodes s q))"
      by (subst map_place) (simp add: s'(3))
    also have "map (qdata s') (nodes s q) = contents s q"
      using new by (simp add: contents_def s'(3))
    finally show ?thesis .
  qed
  have "contents s' = (contents s)(q := map (qdata s') ?l)"
    by (rule contents_update [OF rep s'(2)]) (auto simp: s'(3))
  moreover have "room s = Suc (room s')"
    using qrep_unique(2) [OF rep] qrep_unique(2) [OF s'(2)] by (simp add: room_def)
  moreover have "orders s' = orders s" using s'(4) by (simp add: orders_def fun_eq_iff)
  ultimately show ?thesis
    using s'(1) qinvI [OF s'(2)] eq by simp
qed

lemma q_enque_full:
  assumes "qinv s" "room s = 0"
  shows "q_enque call (Some q) d s = Inr (E_NO_QNODES, s)"
proof -
  have "free_qnodes s = None" using assms by (simp add: qinv_def room_def qrep_def)
  then show ?thesis by (simp add: q_enque_def qn_alloc_def)
qed

lemma q_peek_ok:
  assumes "qinv s"
  shows "q_peek (Some q) (Some v) s =
    Inr (case contents s q of [] \<Rightarrow> (E_EMPTY_QUEUE, v) | d # _ \<Rightarrow> (E_SUCCESS, d), s)"
  using q_peek_rep [OF assms [unfolded qinv_def], of q v]
  by (auto simp: contents_def split: list.split)

lemma q_deque_empty:
  assumes "qinv s" "contents s q = []"
  shows "q_deque (Some q) (Some v) s = Inr ((E_EMPTY_QUEUE, v), s)"
  using q_peek_ok [OF assms(1), of q v] assms(2)
  by (simp add: q_deque_def kern_simps status_defs)

lemma q_deque_ok:
  assumes inv: "qinv s" and ne: "contents s q = d # ds"
  shows "\<exists>s'. q_deque (Some q) (Some v) s = Inr ((E_SUCCESS, d), s') \<and> qinv s' \<and>
    contents s' = (contents s)(q := ds) \<and> room s' = Suc (room s) \<and> orders s' = orders s"
proof -
  have rep: "qrep s (nodes s) (free_nodes s)" using inv by (simp add: qinv_def)
  obtain n l where n: "nodes s q = n # l" "qdata s n = d" "map (qdata s) l = ds"
    using ne by (auto simp: contents_def)
  obtain s' where s': "q_unlink_head q s = Inr ((), s')" "qrep s' ((nodes s)(q := l)) (n # free_nodes s)"
    "qdata s' = (qdata s)(n := NULL)" "\<forall>q'. cmp (queues s' q') = cmp (queues s q')"
    using q_unlink_head_rep [OF rep n(1)] by blast
  have "n \<notin> set l" using qrepD(4) [OF rep n(1)] by simp
  then have "map (qdata s') l = ds" using n(3) s'(3) by auto
  moreover have "contents s' = (contents s)(q := map (qdata s') l)"
    by (rule contents_update [OF rep s'(2)]) (auto simp: s'(3))
  moreover have "q_deque (Some q) (Some v) s = Inr ((E_SUCCESS, d), s')"
    using q_peek_ok [OF inv, of q v] ne s'(1) by (simp add: q_deque_def kern_simps)
  ultimately show ?thesis
    using qinvI [OF s'(2)] s'(4)
    by (auto simp: room_def qrep_unique [OF s'(2)] orders_def fun_eq_iff)
qed

lemma q_remove_ok:
  assumes inv: "qinv s" and d: "d \<in> set (contents s q)"
  shows "\<exists>s'. q_remove (Some q) d s = Inr (E_SUCCESS, s') \<and> qinv s' \<and>
    contents s' = (contents s)(q := remove1 d (contents s q)) \<and> room s' = Suc (room s) \<and> orders s' = orders s"
proof -
  have rep: "qrep s (nodes s) (free_nodes s)" using inv by (simp add: qinv_def)
  obtain xs ys where xs: "contents s q = xs @ d # ys" "d \<notin> set xs" using split_list_first [OF d] by blast
  then obtain as c bs where l: "nodes s q = as @ c # bs" "map (qdata s) as = xs" "qdata s c = d" "map (qdata s) bs = ys"
    by (auto simp: contents_def map_eq_append_conv map_eq_Cons_conv)
  obtain s' where s': "q_remove (Some q) d s = Inr (E_SUCCESS, s')" "qrep s' ((nodes s)(q := as @ bs)) (c # free_nodes s)"
    "qdata s' = (qdata s)(c := NULL)" "\<forall>q'. cmp (queues s' q') = cmp (queues s q')"
    using q_remove_rep [OF rep l(1,3)] xs(2) l(2) by force
  have "c \<notin> set as \<union> set bs" using qrepD(4) [OF rep l(1)] by simp
  then have "map (qdata s') (as @ bs) = remove1 d (contents s q)"
    using l xs s'(3) by (auto simp: remove1_append)
  moreover have "contents s' = (contents s)(q := map (qdata s') (as @ bs))"
    by (rule contents_update [OF rep s'(2)]) (auto simp: s'(3))
  ultimately show ?thesis
    using qinvI [OF s'(2)] s'
    by (auto simp: room_def qrep_unique [OF s'(2)] orders_def fun_eq_iff)
qed

lemma q_remove_none:
  assumes "qinv s" "d \<notin> set (contents s q)"
  shows "q_remove (Some q) d s = Inr (E_NO_PROCESS, s)"
  using assms q_remove_absent [of s "nodes s" "free_nodes s" q d] by (auto simp: qinv_def contents_def)

text \<open>
  If the data in all queues are different elements of a set smaller than the pool, a node is
  left.
\<close>

lemma room_left:
  assumes inv: "qinv s" and fin: "finite A" "card A < N_QNODES"
    and A: "\<And>q. set (contents s q) \<subseteq> A" "\<And>q. distinct (contents s q)"
    and dis: "\<And>q q'. q \<noteq> q' \<Longrightarrow> set (contents s q) \<inter> set (contents s q') = {}"
  shows "0 < room s"
proof (rule ccontr)
  assume "\<not> 0 < room s"
  then have cover: "(\<Union>q. set (nodes s q)) = {..<N_QNODES}"
    using inv by (simp add: qinv_def qrep_def room_def)
  have "inj_on (qdata s) {..<N_QNODES}"
  proof (rule inj_onI)
    fix m n assume mn: "m \<in> {..<N_QNODES}" "n \<in> {..<N_QNODES}" "qdata s m = qdata s n"
    then obtain q q' where q: "m \<in> set (nodes s q)" "n \<in> set (nodes s q')"
      unfolding cover [symmetric] by (elim UN_E) (rule that)
    then have "qdata s m \<in> set (contents s q)" "qdata s n \<in> set (contents s q')"
      by (simp_all add: contents_def)
    then have "qdata s m \<in> set (contents s q) \<inter> set (contents s q')" using mn(3) by simp
    then have "q = q'" using dis by blast
    then show "m = n" using A(2) [of q] q mn(3) by (auto simp: contents_def distinct_map inj_on_def)
  qed
  moreover have "qdata s ` {..<N_QNODES} \<subseteq> A"
  proof
    fix y assume "y \<in> qdata s ` {..<N_QNODES}"
    then obtain q where "y \<in> set (contents s q)" unfolding cover [symmetric] by (auto simp: contents_def)
    then show "y \<in> A" using A(1) by blast
  qed
  ultimately have "card {..<N_QNODES} \<le> card A" using fin(1) by (rule card_inj_on_le)
  with fin(2) show False by simp
qed

lemma place_sorted:
  fixes key :: "'a \<Rightarrow> 'b::linorder"
  assumes "sorted (map key xs)"
  shows "sorted (map key (place (\<lambda>y. key y \<le> key d) d xs))"
  using assms
proof (induction xs)
  case (Cons x xs)
  then show ?case by (auto simp: place_def dest!: set_takeWhileD dest: set_dropWhileD)
qed (simp add: place_def)

subsection \<open>Initialisation\<close>

definition empty_queue :: "cmpf_t option \<Rightarrow> queue_t" where
  "empty_queue c = \<lparr>head = None, tail = None, qsize = 0, cmp = c\<rparr>"

lemma qn_dealloc_sel:
  "qnext (qn_dealloc n s) = (qnext s)(n := free_qnodes s)" "free_qnodes (qn_dealloc n s) = Some n"
  "queues (qn_dealloc n s) = queues s"
  by (simp_all add: qn_dealloc_def mut_defs Let_def)

lemma qn_init_free:
  assumes "free_qnodes s = None"
  shows "path (qnext (fold qn_dealloc [0..<n] s)) (free_qnodes (fold qn_dealloc [0..<n] s)) (rev [0..<n]) None \<and>
    queues (fold qn_dealloc [0..<n] s) = queues s"
  using assms by (induction n) (simp_all add: qn_dealloc_sel path_upd)

lemma q_init_ok:
  assumes "free_qnodes s = None" "\<And>q. \<exists>c. queues s q = empty_queue c"
  shows "qinv (q_init s)" "contents (q_init s) = (\<lambda>q. [])" "room (q_init s) = N_QNODES"
    "orders (q_init s) = orders s"
proof -
  let ?s = "q_init s"
  have qs: "path (qnext ?s) (free_qnodes ?s) (rev [0..<N_QNODES]) None" "queues ?s = queues s"
    using qn_init_free [OF assms(1), of N_QNODES] by (simp_all add: q_init_def qn_init_def)
  have "head (queues s q) = None \<and> tail (queues s q) = None \<and> qsize (queues s q) = 0" for q
    using assms(2) [of q] by (auto simp: empty_queue_def)
  then have rep: "qrep ?s (\<lambda>q. []) (rev [0..<N_QNODES])"
    using qs by (auto simp: qrep_def queue_ok_def)
  show "qinv ?s" by (rule qinvI [OF rep])
  show "contents ?s = (\<lambda>q. [])" by (simp add: contents_rep [OF rep])
  show "room ?s = N_QNODES" by (simp add: room_def qrep_unique [OF rep])
  show "orders ?s = orders s" by (simp add: orders_def fun_eq_iff qs)
qed

lemma q_reset_ok:
  assumes inv: "qinv s" and e: "contents s q = []"
  shows "\<exists>s'. q_reset (Some q) c s = Inr ((), s') \<and> qinv s' \<and> contents s' = contents s \<and>
    room s' = room s \<and> orders s' = (orders s)(q := c)"
proof -
  have rep: "qrep s (nodes s) (free_nodes s)" using inv by (simp add: qinv_def)
  let ?s' = "set_queue q (empty_queue c) s"
  have e': "nodes s q = []" using e by (simp add: contents_def)
  have rep': "qrep ?s' ((nodes s)(q := [])) (free_nodes s)"
    by (rule qrep_update [OF rep])
       (use qrepD [OF rep e'] e' in \<open>auto simp: mut_defs queue_ok_def empty_queue_def\<close>)
  have "contents ?s' = (contents s)(q := [])"
    using contents_update [OF rep rep'] by (simp add: mut_defs)
  moreover have "(contents s)(q := []) = contents s" using e by (simp add: fun_eq_iff)
  ultimately show ?thesis
    using qinvI [OF rep'] qrep_unique(2) [OF rep']
    by (auto simp: q_reset_def empty_queue_def orders_def room_def mut_defs fun_eq_iff)
qed

subsection \<open>The interface\<close>

text \<open>
  What the rest of the kernel relies on: a family of queues with contents, a bounded number of
  entries in all, insertion by order, removal at the front and by value.
\<close>

primrec enq_all :: "('a \<Rightarrow> ('s, int) kern) \<Rightarrow> 'a list \<Rightarrow> ('s, unit) kern" where
  "enq_all enq [] = kreturn ()"
| "enq_all enq (d # ds) = kbind (enq d) (\<lambda>_. enq_all enq ds)"

primrec deq_all :: "('a \<Rightarrow> ('s, int \<times> 'a) kern) \<Rightarrow> 'a list \<Rightarrow> ('s, 'a list) kern" where
  "deq_all deq [] = kreturn []"
| "deq_all deq (v # vs) = kbind (deq v) (\<lambda>(_, d). kbind (deq_all deq vs) (\<lambda>ds. kreturn (d # ds)))"

locale queue_interface =
  fixes inv :: "'s \<Rightarrow> bool" and cont :: "'s \<Rightarrow> 'q \<Rightarrow> 'a list" and left :: "'s \<Rightarrow> nat"
    and after :: "'s \<Rightarrow> 'q \<Rightarrow> 'a \<Rightarrow> 'a \<Rightarrow> bool"
    and enq :: "'q \<Rightarrow> 'a \<Rightarrow> ('s, int) kern" and deq :: "'q \<Rightarrow> 'a \<Rightarrow> ('s, int \<times> 'a) kern"
    and rem :: "'q \<Rightarrow> 'a \<Rightarrow> ('s, int) kern"
  assumes enq_ok: "inv s \<Longrightarrow> 0 < left s \<Longrightarrow> \<exists>s'. enq q d s = Inr (E_SUCCESS, s') \<and> inv s' \<and>
      cont s' = (cont s)(q := place (after s q d) d (cont s q)) \<and> left s = Suc (left s') \<and> after s' = after s"
    and enq_full: "inv s \<Longrightarrow> left s = 0 \<Longrightarrow> \<exists>e. e \<noteq> E_SUCCESS \<and> enq q d s = Inr (e, s)"
    and deq_ok: "inv s \<Longrightarrow> cont s q = d # ds \<Longrightarrow> \<exists>s'. deq q v s = Inr ((E_SUCCESS, d), s') \<and> inv s' \<and>
      cont s' = (cont s)(q := ds) \<and> left s' = Suc (left s) \<and> after s' = after s"
    and deq_empty: "inv s \<Longrightarrow> cont s q = [] \<Longrightarrow> \<exists>e. e \<noteq> E_SUCCESS \<and> deq q v s = Inr ((e, v), s)"
    and rem_ok: "inv s \<Longrightarrow> d \<in> set (cont s q) \<Longrightarrow> \<exists>s'. rem q d s = Inr (E_SUCCESS, s') \<and> inv s' \<and>
      cont s' = (cont s)(q := remove1 d (cont s q)) \<and> left s' = Suc (left s) \<and> after s' = after s"
begin

lemma enq_all_fifo:
  assumes "inv s" "length ds \<le> left s" "\<And>d y. after s q d y"
  shows "\<exists>s'. enq_all (enq q) ds s = Inr ((), s') \<and> inv s' \<and> cont s' = (cont s)(q := cont s q @ ds)"
  using assms
proof (induction ds arbitrary: s)
  case Nil
  then show ?case by (simp add: kern_simps)
next
  case (Cons d ds)
  have "after s q d = (\<lambda>_. True)" using Cons.prems(3) by blast
  then obtain s1 where s1: "enq q d s = Inr (E_SUCCESS, s1)" "inv s1" "left s = Suc (left s1)" "after s1 = after s"
    "cont s1 = (cont s)(q := cont s q @ [d])"
    using enq_ok [of s q d] Cons.prems by auto
  then obtain s' where
    "enq_all (enq q) ds s1 = Inr ((), s')" "inv s'" "cont s' = (cont s1)(q := cont s1 q @ ds)"
    using Cons.IH [of s1] Cons.prems by (metis Suc_le_mono length_Cons)
  with s1 show ?case by (auto simp: kern_simps)
qed

lemma deq_all_fifo:
  assumes "inv s" "cont s q = ds @ es" "length vs = length ds"
  shows "\<exists>s'. deq_all (deq q) vs s = Inr (ds, s') \<and> inv s' \<and> cont s' = (cont s)(q := es)"
  using assms
proof (induction vs arbitrary: s ds)
  case Nil
  then show ?case by (auto simp: kern_simps)
next
  case (Cons v vs)
  then obtain d ds' where ds: "ds = d # ds'" by (cases ds) auto
  with Cons.prems obtain s1 where s1: "deq q v s = Inr ((E_SUCCESS, d), s1)" "inv s1" "cont s1 = (cont s)(q := ds' @ es)"
    using deq_ok [of s q d "ds' @ es" v] by auto
  moreover have "cont s1 q = ds' @ es" "length vs = length ds'" using s1 Cons.prems ds by simp_all
  ultimately obtain s' where "deq_all (deq q) vs s1 = Inr (ds', s')" "inv s'" "cont s' = (cont s1)(q := es)"
    using Cons.IH [of s1 ds'] by blast
  with s1 ds show ?case by (auto simp: kern_simps)
qed

lemma fifo_roundtrip:
  assumes "inv s" "length ds \<le> left s" "\<And>d y. after s q d y" "cont s q = []" "length vs = length ds"
  shows "\<exists>s'. kbind (enq_all (enq q) ds) (\<lambda>_. deq_all (deq q) vs) s = Inr (ds, s') \<and> inv s' \<and> cont s' = cont s"
proof -
  obtain s1 where s1: "enq_all (enq q) ds s = Inr ((), s1)" "inv s1" "cont s1 = (cont s)(q := ds)"
    using enq_all_fifo [OF assms(1-3)] assms(4) by auto
  then obtain s' where "deq_all (deq q) vs s1 = Inr (ds, s')" "inv s'" "cont s' = (cont s1)(q := [])"
    using deq_all_fifo [of s1 q ds "[]" vs] assms(5) by auto
  with s1 assms(4) show ?thesis by (auto simp: kern_simps)
qed

lemma enq_rem_frame:
  assumes "inv s" "0 < left s" "d \<notin> set (cont s q)"
  shows "\<exists>s'. kbind (enq q d) (\<lambda>_. rem q d) s = Inr (E_SUCCESS, s') \<and> inv s' \<and> cont s' = cont s"
proof -
  obtain s1 where s1: "enq q d s = Inr (E_SUCCESS, s1)" "inv s1"
    "cont s1 = (cont s)(q := place (after s q d) d (cont s q))" using enq_ok [OF assms(1,2)] by blast
  then obtain s' where "rem q d s1 = Inr (E_SUCCESS, s')" "inv s'" "cont s' = (cont s1)(q := remove1 d (cont s1 q))"
    using rem_ok [of s1 d q] by auto
  moreover have "remove1 d (place (after s q d) d (cont s q)) = cont s q"
    using assms(3) by (auto simp: place_def remove1_append dest: set_takeWhileD)
  ultimately show ?thesis using s1 by (auto simp: kern_simps)
qed

end

interpretation qm: queue_interface qinv contents room
  "\<lambda>s q. goes_after call (orders s q)" "\<lambda>q. q_enque call (Some q)" "\<lambda>q v. q_deque (Some q) (Some v)"
  "\<lambda>q. q_remove (Some q)" for call
proof (unfold_locales, goal_cases)
  case (1 s q d) then show ?case using q_enque_ok [of s call q d] by (auto simp: fun_eq_iff)
next
  case (2 s q d) then show ?case using q_enque_full [of s call q d] by (auto simp: status_defs)
next
  case (3 s q d ds v) then show ?case using q_deque_ok [of s q d ds v] by auto
next
  case (4 s q v) then show ?case using q_deque_empty [of s q v] by (auto simp: status_defs)
next
  case (5 s d q) then show ?case using q_remove_ok [of s d q] by auto
qed

subsection \<open>Properties\<close>

text \<open>The abstract queues: a list for every queue, and the number of entries the system still has room for.\<close>

definition absq :: "qmodule \<Rightarrow> (qid \<Rightarrow> ptr list) \<times> nat" where
  "absq s = (contents s, room s)"

definition enq_spec :: "(ptr \<Rightarrow> bool) \<Rightarrow> qid \<Rightarrow> ptr \<Rightarrow> (qid \<Rightarrow> ptr list) \<times> nat \<Rightarrow> int \<times> (qid \<Rightarrow> ptr list) \<times> nat" where
  "enq_spec after q d = (\<lambda>(C, r). if r = 0 then (E_NO_QNODES, C, r) else (E_SUCCESS, C(q := place after d (C q)), r - 1))"

definition deq_spec :: "qid \<Rightarrow> ptr \<Rightarrow> (qid \<Rightarrow> ptr list) \<times> nat \<Rightarrow> (int \<times> ptr) \<times> (qid \<Rightarrow> ptr list) \<times> nat" where
  "deq_spec q v = (\<lambda>(C, r). case C q of [] \<Rightarrow> ((E_EMPTY_QUEUE, v), C, r) | d # ds \<Rightarrow> ((E_SUCCESS, d), C(q := ds), r + 1))"

definition rem_spec :: "qid \<Rightarrow> ptr \<Rightarrow> (qid \<Rightarrow> ptr list) \<times> nat \<Rightarrow> int \<times> (qid \<Rightarrow> ptr list) \<times> nat" where
  "rem_spec q d = (\<lambda>(C, r). if d \<in> set (C q) then (E_SUCCESS, C(q := remove1 d (C q)), r + 1) else (E_NO_PROCESS, C, r))"

lemma q_enque_spec:
  assumes "qinv s"
  shows "\<exists>s'. q_enque call (Some q) d s = Inr (fst (enq_spec (goes_after call (orders s q) d) q d (absq s)), s') \<and> qinv s' \<and>
    absq s' = snd (enq_spec (goes_after call (orders s q) d) q d (absq s))"
proof (cases "room s = 0")
  case True
  then show ?thesis using q_enque_full [OF assms True] assms by (simp add: enq_spec_def absq_def)
next
  case False
  then show ?thesis using q_enque_ok [OF assms, of call q d] by (auto simp: enq_spec_def absq_def)
qed

lemma q_deque_spec:
  assumes "qinv s"
  shows "\<exists>s'. q_deque (Some q) (Some v) s = Inr (fst (deq_spec q v (absq s)), s') \<and> qinv s' \<and> absq s' = snd (deq_spec q v (absq s))"
proof (cases "contents s q")
  case Nil
  then show ?thesis using q_deque_empty [OF assms Nil] assms by (simp add: deq_spec_def absq_def)
next
  case (Cons d ds)
  then show ?thesis using q_deque_ok [OF assms Cons, of v] by (auto simp: deq_spec_def absq_def)
qed

lemma q_remove_spec:
  assumes "qinv s"
  shows "\<exists>s'. q_remove (Some q) d s = Inr (fst (rem_spec q d (absq s)), s') \<and> qinv s' \<and> absq s' = snd (rem_spec q d (absq s))"
proof (cases "d \<in> set (contents s q)")
  case True
  then show ?thesis using q_remove_ok [OF assms True] by (auto simp: rem_spec_def absq_def)
next
  case False
  then show ?thesis using q_remove_none [OF assms False] assms by (simp add: rem_spec_def absq_def)
qed

definition blank_pool :: qmodule where
  "blank_pool = \<lparr>qnext = \<lambda>_. None, qdata = \<lambda>_. NULL, free_qnodes = None, queues = \<lambda>_. empty_queue None\<rparr>"

lemma blank_pool_ok:
  "qinv (q_init blank_pool)" "contents (q_init blank_pool) = (\<lambda>q. [])" "room (q_init blank_pool) = N_QNODES"
  "orders (q_init blank_pool) = (\<lambda>q. None)"
  using q_init_ok [of blank_pool] by (auto simp: blank_pool_def orders_def empty_queue_def fun_eq_iff)

text \<open>
  Refinement of queues (C10). On every pool that satisfies the invariant the linked-list operations
  return, keep the invariant, give the status that the list operations give, and do to the queues
  exactly what the list operations do: insertion after all entries that do not come later,
  removal at the front, removal of the first equal entry.
\<close>

theorem queue_refines_lists:
  assumes "qinv s"
  shows "(\<exists>s'. q_enque call (Some q) d s = Inr (fst (enq_spec (goes_after call (orders s q) d) q d (absq s)), s') \<and> qinv s' \<and>
      absq s' = snd (enq_spec (goes_after call (orders s q) d) q d (absq s))) \<and>
    (\<exists>s'. q_deque (Some q) (Some v) s = Inr (fst (deq_spec q v (absq s)), s') \<and> qinv s' \<and> absq s' = snd (deq_spec q v (absq s))) \<and>
    (\<exists>s'. q_remove (Some q) d s = Inr (fst (rem_spec q d (absq s)), s') \<and> qinv s' \<and> absq s' = snd (rem_spec q d (absq s)))"
  using q_enque_spec [OF assms] q_deque_spec [OF assms] q_remove_spec [OF assms] by blast

theorem queue_refines_lists_witness:
  "\<exists>s'. q_enque (\<lambda>_ _ _. 0) (Some WAITING) (PCB 3) (q_init blank_pool) = Inr (E_SUCCESS, s') \<and> qinv s' \<and>
     absq s' = ((\<lambda>_. [])(WAITING := [PCB 3]), 60)"
  using queue_refines_lists [OF blank_pool_ok(1), of "\<lambda>_ _ _. 0" WAITING "PCB 3"]
  by (simp add: enq_spec_def absq_def blank_pool_ok place_def pool_sizes)

text \<open>
  First in, first out. Whatever is put into an empty queue without an order comes out again in
  the order it was put in, and all queues are as before.
\<close>

theorem queue_fifo_roundtrip:
  assumes "qinv s" "contents s q = []" "orders s q = None" "length ds \<le> room s" "length vs = length ds"
  shows "\<exists>s'. kbind (enq_all (q_enque call (Some q)) ds) (\<lambda>_. deq_all (\<lambda>v. q_deque (Some q) (Some v)) vs) s = Inr (ds, s') \<and>
    qinv s' \<and> contents s' = contents s"
  by (rule qm.fifo_roundtrip [OF assms(1,4) _ assms(2,5)]) (simp add: assms(3) goes_after_def)

theorem queue_fifo_roundtrip_witness:
  "\<exists>s'. kbind (enq_all (q_enque (\<lambda>_ _ _. 0) (Some WAITING)) [PCB 3, PCB 1]) (\<lambda>_.
       deq_all (\<lambda>v. q_deque (Some WAITING) (Some v)) [NULL, NULL]) (q_init blank_pool) = Inr ([PCB 3, PCB 1], s') \<and>
     qinv s' \<and> contents s' = (\<lambda>q. [])"
  using queue_fifo_roundtrip [of "q_init blank_pool" WAITING "[PCB 3, PCB 1]" "[NULL, NULL]" "\<lambda>_ _ _. 0"]
  by (simp add: blank_pool_ok pool_sizes)

end
