(* ===== verification/Kern_Memory.thy ===== *)
theory Kern_Memory
  imports Kern_Base
begin

unbundle bit_operations_syntax

text \<open>
  Memory (\<^verbatim>\<open>kern/memory/memory_map.c\<close>): the byte-addressed physical memory that holds the user
  stacks and the page tables, the page availability table with one bit per 4 KiB page, the page
  allocator, and the page directories built from its pages. The kernel's own variables are not
  part of the byte memory.
\<close>

subsection \<open>Byte memory\<close>

type_synonym memory = "32 word \<Rightarrow> 8 word"

definition load32 :: "memory \<Rightarrow> 32 word \<Rightarrow> 32 word" where
  "load32 m a = ucast (m a) OR push_bit 8 (ucast (m (a + 1))) OR push_bit 16 (ucast (m (a + 2)))
     OR push_bit 24 (ucast (m (a + 3)))"

definition store16 :: "32 word \<Rightarrow> 16 word \<Rightarrow> memory \<Rightarrow> memory" where
  "store16 a v m = m(a := ucast v, a + 1 := ucast (drop_bit 8 v))"

definition store32 :: "32 word \<Rightarrow> 32 word \<Rightarrow> memory \<Rightarrow> memory" where
  "store32 a v m = m(a := ucast v, a + 1 := ucast (drop_bit 8 v), a + 2 := ucast (drop_bit 16 v),
     a + 3 := ucast (drop_bit 24 v))"

text \<open>The loops of \<^verbatim>\<open>_kmemset\<close> (and \<^verbatim>\<open>_kmemclr\<close>, \<^verbatim>\<open>memset\<close>) and \<^verbatim>\<open>_kmemcpy\<close>, one byte at a time.\<close>

primrec kmemset :: "nat \<Rightarrow> 32 word \<Rightarrow> 8 word \<Rightarrow> memory \<Rightarrow> memory" where
  "kmemset 0 buf v m = m"
| "kmemset (Suc len) buf v m = kmemset len (buf + 1) v (m(buf := v))"

primrec kmemcpy :: "nat \<Rightarrow> 32 word \<Rightarrow> 32 word \<Rightarrow> memory \<Rightarrow> memory" where
  "kmemcpy 0 dst src m = m"
| "kmemcpy (Suc len) dst src m = kmemcpy len (dst + 1) (src + 1) (m(dst := m src))"

definition fill :: "32 word \<Rightarrow> 8 word \<Rightarrow> nat \<Rightarrow> memory \<Rightarrow> memory" where
  "fill a v n m = (\<lambda>x. if unat (x - a) < n then v else m x)"

definition copy :: "32 word \<Rightarrow> 32 word \<Rightarrow> nat \<Rightarrow> memory \<Rightarrow> memory" where
  "copy dst src n m = (\<lambda>x. if unat (x - dst) < n then m (src + (x - dst)) else m x)"

lemma bytes32:
  fixes v :: "32 word"
  shows "(ucast (ucast v :: 8 word) :: 32 word) OR push_bit 8 (ucast (ucast (drop_bit 8 v) :: 8 word)) OR
    push_bit 16 (ucast (ucast (drop_bit 16 v) :: 8 word)) OR push_bit 24 (ucast (ucast (drop_bit 24 v) :: 8 word)) = v"
    (is "?w = v")
proof (rule bit_word_eqI)
  fix n assume "n < LENGTH(32)"
  then consider "n < 8" | "8 \<le> n" "n < 16" | "16 \<le> n" "n < 24" | "24 \<le> n" "n < 32" by force
  then show "bit ?w n \<longleftrightarrow> bit v n"
    by cases (auto simp: bit_simps)
qed

lemma load32_store32 [simp]: "load32 (store32 a v m) a = v"
  by (simp add: load32_def store32_def bytes32)

lemma unat_offset_Suc: "x \<noteq> a \<Longrightarrow> unat (x - a) = Suc (unat (x - (a + 1)))" for x a :: "32 word"
proof -
  assume "x \<noteq> a"
  then have "x - a \<noteq> 0" by simp
  then have "unat (x - a - 1) = unat (x - a) - 1" "0 < unat (x - a)" by (simp_all add: unat_minus_one unat_gt_0)
  then show ?thesis by (simp add: diff_diff_eq)
qed

lemma kmemset_fill: "n \<le> 2 ^ 32 \<Longrightarrow> kmemset n a v m = fill a v n m"
proof (induction n arbitrary: a m)
  case (Suc n)
  then show ?case
    by (auto simp: fill_def fun_eq_iff unat_offset_Suc)
qed (simp add: fill_def)

lemma kmemcpy_copy:
  assumes "n \<le> unat (src - dst)" "n \<le> unat (dst - src)"
  shows "kmemcpy n dst src m = copy dst src n m"
  using assms
proof (induction n arbitrary: dst src m)
  case (Suc n)
  have ne: "dst \<noteq> src" using Suc.prems by auto
  have IH: "kmemcpy n (dst + 1) (src + 1) (m(dst := m src)) = copy (dst + 1) (src + 1) n (m(dst := m src))"
    using Suc.prems by (intro Suc.IH) (auto simp: algebra_simps)
  have far: "src + (x - dst) \<noteq> dst" if "unat (x - dst) < Suc n" for x
  proof
    assume "src + (x - dst) = dst"
    then have "x - dst = dst - src" by (simp add: algebra_simps)
    with that Suc.prems(2) show False by simp
  qed
  show ?case
  proof
    fix x
    show "kmemcpy (Suc n) dst src m x = copy dst src (Suc n) m x"
    proof (cases "x = dst")
      case True
      have "unat (src - dst) < 2 ^ LENGTH(32)" by (rule unsigned_less)
      then have "n < 2 ^ 32" using Suc.prems(1) by simp
      then have "\<not> unat (dst - (dst + 1)) < n" by (simp add: unsigned_minus_1_eq_mask mask_eq_exp_minus_1)
      with True show ?thesis by (simp add: IH copy_def)
    next
      case False
      have "src + 1 + (x - (dst + 1)) = src + (x - dst)" by simp
      with False show ?thesis
        using far [of x] unat_offset_Suc [OF False] by (simp add: IH copy_def)
    qed
  qed
qed (simp add: copy_def)

text \<open>The four bytes at an address, and accesses that do not overlap.\<close>

definition bytes4 :: "32 word \<Rightarrow> 32 word set" where
  "bytes4 a = {a, a + 1, a + 2, a + 3}"

lemma load32_cong: "(\<And>x. x \<in> bytes4 a \<Longrightarrow> m x = m' x) \<Longrightarrow> load32 m a = load32 m' a"
  by (simp add: load32_def bytes4_def)

lemma store32_other: "x \<notin> bytes4 a \<Longrightarrow> store32 a v m x = m x"
  by (simp add: store32_def bytes4_def)

lemma load32_store32_other: "bytes4 a \<inter> bytes4 b = {} \<Longrightarrow> load32 (store32 b v m) a = load32 m a"
  by (rule load32_cong, rule store32_other) auto

subsection \<open>State of the memory module\<close>

text \<open>
  \<^verbatim>\<open>page_availibility_table\<close> is the address of the table; its bytes are kept apart in \<^verbatim>\<open>pat\<close>. This is right as
  long as nobody else writes them: the pages of a table that begins on a page boundary are marked and never
  handed out (shown in \<^verbatim>\<open>Kern_Memory_Init\<close>). Of a table that begins elsewhere the last page is not
  marked and may be handed out and overwritten; the model does not follow what happens then.
\<close>

record mmodule =
  mem :: memory
  pat :: "nat \<Rightarrow> 8 word"
  page_availibility_table :: "32 word"
  max_address :: "32 word"
  last_availible :: nat
  page_directory :: "32 word"
  page_table :: "32 word"
  last_pde :: "32 word"

definition pat_size :: nat where "pat_size = 0x20000"
definition PAGE_SIZE :: "32 word" where "PAGE_SIZE = 0x1000"
definition SECOND_PDE :: "32 word" where "SECOND_PDE = 0x400000"
definition ALIGN_MASK :: "32 word" where "ALIGN_MASK = 0xFFF"
definition KB_MASK :: "32 word" where "KB_MASK = 0x3FF"
definition PAGE_FLAGS :: "32 word" where "PAGE_FLAGS = 3"

lemmas mem_consts = PAGE_SIZE_def SECOND_PDE_def ALIGN_MASK_def KB_MASK_def PAGE_FLAGS_def

subsection \<open>The page availability table\<close>

definition pat_index :: "32 word \<Rightarrow> nat" where
  "pat_index address = unat (drop_bit 15 address AND 0x1FFFF)"

definition pat_mask :: "32 word \<Rightarrow> 8 word" where
  "pat_mask address = push_bit (unat (drop_bit 12 address AND 7)) 1"

definition set_pat :: "32 word \<Rightarrow> 8 word \<Rightarrow> mmodule \<Rightarrow> mmodule" where
  "set_pat address value m =
     (let index = pat_index address; mask = pat_mask address in
      m\<lparr>pat := (pat m)(index := (pat m index AND NOT mask) OR (value AND mask))\<rparr>)"

definition get_pat :: "32 word \<Rightarrow> mmodule \<Rightarrow> 8 word" where
  "get_pat address m = pat m (pat_index address) AND pat_mask address"

subsection \<open>The page allocator\<close>

text \<open>
  The scan of the table from the last position, at most once around: \<^verbatim>\<open>Some (Some i)\<close> is the first
  byte with a clear bit, \<^verbatim>\<open>Some None\<close> is coming back to the start, \<^verbatim>\<open>None\<close> is running out of the
  bound of one round.
\<close>

fun page_scan :: "nat \<Rightarrow> nat \<Rightarrow> nat \<Rightarrow> (nat \<Rightarrow> 8 word) \<Rightarrow> nat option option" where
  "page_scan 0 index start tab = None"
| "page_scan (Suc k) index start tab =
     (if NOT (ucast (tab index) :: 32 word) AND 0xFF \<noteq> 0 then Some (Some index)
      else let index = (index + 1) mod pat_size in
           if index \<noteq> start then page_scan k index start tab else Some None)"

fun next_clear :: "nat \<Rightarrow> nat \<Rightarrow> 8 word \<Rightarrow> nat option" where
  "next_clear 0 next byte = None"
| "next_clear (Suc k) next byte =
     (if (ucast byte :: 32 word) AND push_bit next 1 \<noteq> 0 then next_clear k (next + 1) byte else Some next)"

definition get_next_page :: "(mmodule, 32 word) kern" where
  "get_next_page m =
     (case page_scan pat_size (last_availible m) (last_availible m) (pat m) of
        None \<Rightarrow> Inl Diverges
      | Some None \<Rightarrow> Inl (KPanic [] ''No more memory!'')
      | Some (Some index) \<Rightarrow>
          (case next_clear 32 0 (pat m index) of
             None \<Rightarrow> Inl Diverges
           | Some next \<Rightarrow>
               let address = push_bit 15 (of_nat index) OR push_bit 12 (of_nat next);
                   m = set_pat address 0xFF m;
                   m = m\<lparr>last_availible := index\<rparr>;
                   m = m\<lparr>mem := kmemset (unat PAGE_SIZE) address 0 (mem m)\<rparr>
               in Inr (address, m)))"

definition free_page :: "32 word \<Rightarrow> (mmodule, int) kern" where
  "free_page address m =
     (if address AND ALIGN_MASK \<noteq> 0 then Inr (- 1, m) else Inr (0, set_pat address 0 m))"

subsection \<open>Page directories\<close>

definition set_return_pde :: "32 word \<Rightarrow> mmodule \<Rightarrow> mmodule" where
  "set_return_pde dir m = m\<lparr>last_pde := dir\<rparr>"

definition get_identity_mapped :: "mmodule \<Rightarrow> 32 word" where
  "get_identity_mapped m = page_directory m"

definition get_return_pde :: "mmodule \<Rightarrow> 32 word" where
  "get_return_pde m = last_pde m"

definition new_page_table :: "(mmodule, 32 word) kern" where
  "new_page_table = get_next_page"

definition write32 :: "32 word \<Rightarrow> 32 word \<Rightarrow> mmodule \<Rightarrow> mmodule" where
  "write32 a v m = m\<lparr>mem := store32 a v (mem m)\<rparr>"

definition new_page_directory :: "(mmodule, 32 word) kern" where
  "new_page_directory =
     kbind get_next_page (\<lambda>pde.
     kbind (kmodify (\<lambda>m. m\<lparr>mem := kmemset (unat PAGE_SIZE) pde 0 (mem m)\<rparr>)) (\<lambda>_.
     kbind (kmodify (\<lambda>m. write32 pde (page_table m) m)) (\<lambda>_.
     kreturn pde)))"

definition pde_index :: "32 word \<Rightarrow> 32 word" where
  "pde_index v = drop_bit 22 v AND KB_MASK"

definition pte_index :: "32 word \<Rightarrow> 32 word" where
  "pte_index v = drop_bit 12 v AND KB_MASK"

definition pde_slot :: "32 word \<Rightarrow> 32 word \<Rightarrow> 32 word" where
  "pde_slot vspace v = vspace + 4 * pde_index v"

definition d_entry :: "32 word \<Rightarrow> 32 word \<Rightarrow> (mmodule, 32 word) kern" where
  "d_entry vspace v =
     kbind (kget (\<lambda>m. load32 (mem m) (pde_slot vspace v) AND NOT ALIGN_MASK)) (\<lambda>d.
     if d = 0 then
       kbind new_page_table (\<lambda>d.
       kbind (kmodify (write32 (pde_slot vspace v) (d OR PAGE_FLAGS))) (\<lambda>_. kreturn d))
     else kreturn d)"

definition map_page :: "32 word \<Rightarrow> 32 word \<Rightarrow> (mmodule, 32 word) kern \<Rightarrow> (mmodule, unit) kern" where
  "map_page vspace v frame =
     kbind (d_entry vspace v) (\<lambda>d.
     kbind frame (\<lambda>p.
     kmodify (write32 (d + 4 * pte_index v) (p OR PAGE_FLAGS))))"

fun mmap_at :: "nat \<Rightarrow> 32 word \<Rightarrow> 32 word \<Rightarrow> 32 word \<Rightarrow> 32 word \<Rightarrow> (mmodule, unit) kern" where
  "mmap_at 0 vspace p v stop = kfail Diverges"
| "mmap_at (Suc k) vspace p v stop =
     (if p < stop then
        kbind (map_page vspace v (kreturn p)) (\<lambda>_. mmap_at k vspace (p + PAGE_SIZE) (v + PAGE_SIZE) stop)
      else kreturn ())"

fun mmap_free :: "nat \<Rightarrow> 32 word \<Rightarrow> 32 word \<Rightarrow> 32 word \<Rightarrow> (mmodule, unit) kern" where
  "mmap_free 0 vspace v stop = kfail Diverges"
| "mmap_free (Suc k) vspace v stop =
     (if v < stop then
        kbind (map_page vspace v get_next_page) (\<lambda>_. mmap_free k vspace (v + PAGE_SIZE) stop)
      else kreturn ())"

text \<open>One pass over every page of the address space: a longer loop has wrapped around.\<close>

definition mmap_bound :: nat where "mmap_bound = 2 ^ 20 + 1"

text \<open>The result is the returned pointer and \<^verbatim>\<open>*status\<close>; every caller passes a status variable.\<close>

definition k_mmap :: "32 word \<Rightarrow> 32 word \<Rightarrow> 32 word \<Rightarrow> 32 word \<Rightarrow> (mmodule, 32 word \<times> int) kern" where
  "k_mmap vspace vmem_start pmem_start len =
     kbind (kget page_directory) (\<lambda>pd.
     if vspace = pd \<or> vmem_start < SECOND_PDE then kpanic [] ''Cannot remap identity paging''
     else if (vmem_start OR pmem_start) AND ALIGN_MASK \<noteq> 0 then kreturn (0, E_FAILURE)
     else
       kbind (if pmem_start \<noteq> 0
              then mmap_at mmap_bound vspace pmem_start vmem_start (pmem_start + len)
              else mmap_free mmap_bound vspace vmem_start (vmem_start + len)) (\<lambda>_.
       kreturn (vmem_start, E_SUCCESS)))"

definition get_phys_address :: "32 word \<Rightarrow> 32 word \<Rightarrow> mmodule \<Rightarrow> 32 word" where
  "get_phys_address space v m =
     (let pde_entry = load32 (mem m) (pde_slot space v) AND NOT ALIGN_MASK in
      if pde_entry = 0 then 0
      else load32 (mem m) (pde_entry + 4 * pte_index v) AND NOT ALIGN_MASK)"

subsection \<open>The pages in use\<close>

definition page_of :: "32 word \<Rightarrow> nat" where
  "page_of a = unat (drop_bit 12 a)"

definition page_address :: "nat \<Rightarrow> 32 word" where
  "page_address p = push_bit 12 (of_nat p)"

definition N_PAGES :: nat where "N_PAGES = 2 ^ 20"

definition used :: "mmodule \<Rightarrow> nat \<Rightarrow> bool" where
  "used m p \<longleftrightarrow> bit (pat m (p div 8)) (p mod 8)"

definition page :: "nat \<Rightarrow> 32 word set" where
  "page p = {a. page_of a = p}"

lemma page_of_div: "page_of a = unat a div 2 ^ 12"
  unfolding page_of_def unat_drop_bit_eq by (rule drop_bit_eq_div)

lemma page_of_less: "page_of a < N_PAGES"
  unfolding page_of_div N_PAGES_def using unsigned_less [of a] by (intro less_mult_imp_div_less) simp

lemma page_of_page_address:
  assumes "p < N_PAGES"
  shows "page_of (page_address p) = p"
proof -
  have "unat (page_address p) = p * 2 ^ 12"
    using assms by (simp add: page_address_def push_bit_eq_mult unat_word_ariths unat_of_nat N_PAGES_def)
  then show ?thesis by (simp add: page_of_div)
qed

lemma pat_index_page: "pat_index a = page_of a div 8"
proof -
  have "(0x1FFFF :: 32 word) = mask 17" by (simp add: mask_eq_exp_minus_1)
  then have "pat_index a = unat (take_bit 17 (drop_bit 15 a))"
    unfolding pat_index_def by (simp only: take_bit_eq_mask)
  also have "\<dots> = unat a div 2 ^ 15 mod 2 ^ 17"
    unfolding unsigned_take_bit_eq unat_drop_bit_eq by (simp only: drop_bit_eq_div take_bit_eq_mod)
  also have "\<dots> = unat a div 2 ^ 15"
    using unsigned_less [of a] by (intro mod_less less_mult_imp_div_less) simp
  finally show ?thesis by (simp add: page_of_div div_mult2_eq [symmetric])
qed

lemma pat_mask_page: "pat_mask a = push_bit (page_of a mod 8) 1"
proof -
  have "(7 :: 32 word) = mask 3" by (simp add: mask_eq_exp_minus_1)
  then have "unat (drop_bit 12 a AND 7) = unat (take_bit 3 (drop_bit 12 a))" by (simp only: take_bit_eq_mask)
  also have "\<dots> = page_of a mod 8" 
    unfolding unsigned_take_bit_eq page_of_def by (simp add: take_bit_eq_mod)
  finally show ?thesis by (simp add: pat_mask_def)
qed

lemma bit_pat_mask: "n < 8 \<Longrightarrow> bit (pat_mask a) n \<longleftrightarrow> n = page_of a mod 8"
  by (auto simp: pat_mask_page bit_simps)

lemma used_set_pat:
  "used (set_pat a v m) p \<longleftrightarrow> (if p = page_of a then bit v (p mod 8) else used m p)"
proof -
  have eq: "p div 8 = page_of a div 8 \<and> p mod 8 = page_of a mod 8 \<longleftrightarrow> p = page_of a"
    by (metis div_mult_mod_eq)
  have "bit (pat_mask a) (p mod 8) \<longleftrightarrow> p mod 8 = page_of a mod 8" by (simp add: bit_pat_mask)
  then show ?thesis
    using eq by (auto simp: used_def set_pat_def Let_def pat_index_page bit_simps)
qed

lemma set_pat_frame [simp]:
  "mem (set_pat a v m) = mem m" "last_availible (set_pat a v m) = last_availible m"
  "page_directory (set_pat a v m) = page_directory m" "page_table (set_pat a v m) = page_table m"
  "last_pde (set_pat a v m) = last_pde m" "max_address (set_pat a v m) = max_address m"
  "page_availibility_table (set_pat a v m) = page_availibility_table m"
  by (simp_all add: set_pat_def Let_def)

lemma get_pat_used: "get_pat a m \<noteq> 0 \<longleftrightarrow> used m (page_of a)"
proof -
  have "get_pat a m \<noteq> 0 \<longleftrightarrow> (\<exists>n < 8. bit (get_pat a m) n)"
    by (auto simp: bit_eq_iff dest: bit_imp_le_length)
  also have "\<dots> \<longleftrightarrow> bit (pat m (pat_index a)) (page_of a mod 8)"
    by (auto simp: get_pat_def bit_simps bit_pat_mask intro!: exI [of _ "page_of a mod 8"])
  finally show ?thesis by (simp add: used_def pat_index_page)
qed

subsection \<open>The allocator finds the free pages\<close>

definition full_byte :: "8 word \<Rightarrow> bool" where
  "full_byte b \<longleftrightarrow> (\<forall>n < 8. bit b n)"

lemma scan_test: "NOT (ucast b :: 32 word) AND 0xFF \<noteq> 0 \<longleftrightarrow> \<not> full_byte b" for b :: "8 word"
proof -
  have ff: "(0xFF :: 32 word) = mask 8" by (simp add: mask_eq_exp_minus_1)
  have "NOT (ucast b :: 32 word) AND 0xFF \<noteq> 0 \<longleftrightarrow> (\<exists>n < 32. bit (NOT (ucast b :: 32 word) AND mask 8) n)"
    unfolding ff by (auto simp: bit_eq_iff dest: bit_imp_le_length)
  also have "\<dots> \<longleftrightarrow> (\<exists>n < 32. n < 8 \<and> \<not> bit b n)"
    by (intro ex_cong1) (auto simp: bit_simps)
  also have "\<dots> \<longleftrightarrow> (\<exists>n < 8. \<not> bit b n)" by (intro ex_cong1) auto
  finally show ?thesis by (simp add: full_byte_def)
qed

lemma next_clear_test: "n < 32 \<Longrightarrow> (ucast b :: 32 word) AND push_bit n 1 \<noteq> 0 \<longleftrightarrow> n < 8 \<and> bit b n" for b :: "8 word"
proof -
  have "(ucast b :: 32 word) AND push_bit n 1 = 0 \<longleftrightarrow> \<not> bit (ucast b :: 32 word) n"
    by (simp add: push_bit_eq_mult and_exp_eq_0_iff_not_bit)
  then show "n < 32 \<Longrightarrow> ?thesis" by (auto simp: bit_simps dest: bit_imp_le_length)
qed

lemma round_start:
  fixes start P :: nat
  assumes "start < P" "j < P" "(start + Suc j) mod P = start"
  shows "Suc j = P"
proof (rule ccontr)
  assume "Suc j \<noteq> P"
  with assms have "Suc j < P" by simp
  show False
  proof (cases "start + Suc j < P")
    case False
    then have "(start + Suc j) mod P = start + Suc j - P"
      using assms(1) \<open>Suc j < P\<close> by (subst le_mod_geq) auto
    with assms(3) False \<open>Suc j < P\<close> show ?thesis by linarith
  qed (use assms(3) in simp)
qed

lemma page_scan_spec:
  assumes "start < pat_size" "j < pat_size" "k = pat_size - j"
  shows "case page_scan k ((start + j) mod pat_size) start tab of
      None \<Rightarrow> False
    | Some (Some i) \<Rightarrow> i < pat_size \<and> \<not> full_byte (tab i)
    | Some None \<Rightarrow> \<forall>i. j \<le> i \<and> i < pat_size \<longrightarrow> full_byte (tab ((start + i) mod pat_size))"
  using assms(2,3)
proof (induction k arbitrary: j)
  case (Suc k)
  let ?i = "(start + j) mod pat_size"
  have nxt: "(?i + 1) mod pat_size = (start + Suc j) mod pat_size" by (simp add: mod_simps)
  have i: "?i < pat_size" using assms(1) by simp
  have step: "page_scan (Suc k) ?i start tab =
      (if full_byte (tab ?i)
       then if (start + Suc j) mod pat_size \<noteq> start then page_scan k ((start + Suc j) mod pat_size) start tab
            else Some None
       else Some (Some ?i))"
    by (simp only: page_scan.simps scan_test Let_def nxt) simp
  show ?case
  proof (cases "full_byte (tab ?i)")
    case True
    show ?thesis
    proof (cases "(start + Suc j) mod pat_size = start")
      case eq: True
      then have "Suc j = pat_size" using round_start assms(1) Suc.prems(1) by blast
      then have "i = j" if "j \<le> i" "i < pat_size" for i using that by simp
      with True eq show ?thesis unfolding step by auto
    next
      case False
      then have "Suc j < pat_size" using Suc.prems assms(1) by (cases "Suc j = pat_size") auto
      moreover have "k = pat_size - Suc j" using Suc.prems by simp
      ultimately have "case page_scan k ((start + Suc j) mod pat_size) start tab of None \<Rightarrow> False
          | Some (Some i) \<Rightarrow> i < pat_size \<and> \<not> full_byte (tab i)
          | Some None \<Rightarrow> \<forall>i. Suc j \<le> i \<and> i < pat_size \<longrightarrow> full_byte (tab ((start + i) mod pat_size))"
        by (rule Suc.IH)
      then show ?thesis
        using True False unfolding step
        by (auto simp: le_eq_less_or_eq [of j] Suc_le_eq simp del: page_scan.simps split: option.splits)
    qed
  qed (use i in \<open>simp add: step del: page_scan.simps\<close>)
qed simp

lemma page_scan_cases:
  assumes "start < pat_size"
  obtains i where "page_scan pat_size start start tab = Some (Some i)" "i < pat_size" "\<not> full_byte (tab i)"
  | "page_scan pat_size start start tab = Some None" "\<And>i. i < pat_size \<Longrightarrow> full_byte (tab i)"
proof -
  have P: "0 < pat_size" by (simp add: pat_size_def)
  note spec = page_scan_spec [OF assms P refl, of tab]
  have all: "full_byte (tab i)" if "\<forall>i < pat_size. full_byte (tab ((start + i) mod pat_size))" "i < pat_size" for i
  proof -
    let ?j = "if start \<le> i then i - start else i + pat_size - start"
    have "?j < pat_size" "(start + ?j) mod pat_size = i" using that(2) assms by auto
    then show ?thesis using that(1) by metis
  qed
  show ?thesis
  proof (cases "page_scan pat_size start start tab")
    case None
    then show ?thesis using spec assms by simp
  next
    case (Some r)
    then show ?thesis using spec assms all that by (cases r) auto
  qed
qed

lemma next_clear_spec:
  assumes "\<not> full_byte b"
  shows "\<exists>n < 8. next_clear 32 0 b = Some n \<and> \<not> bit b n"
proof -
  have "\<exists>n < 8. next_clear k j b = Some n \<and> \<not> bit b n" if "k + j = 32" "j \<le> 8" "\<exists>n < 8. j \<le> n \<and> \<not> bit b n" for k j
    using that
  proof (induction k arbitrary: j)
    case (Suc k)
    then obtain n where n: "n < 8" "j \<le> n" "\<not> bit b n" by blast
    have step: "next_clear (Suc k) j b = (if bit b j then next_clear k (Suc j) b else Some j)"
      using n by (subst next_clear.simps, subst next_clear_test) auto
    show ?case
    proof (cases "bit b j")
      case True
      then have "Suc j \<le> n" using n by (cases "j = n") auto
      with Suc.IH [of "Suc j"] Suc.prems n True show ?thesis
        unfolding step by auto
    next
      case False
      with Suc.prems n show ?thesis unfolding step by auto
    qed
  qed auto
  from this [of 32 0] assms show ?thesis by (auto simp: full_byte_def)
qed

lemma rebuilt_address:
  assumes "index < pat_size" "next < 8"
  shows "page_of (push_bit 15 (of_nat index) OR push_bit 12 (of_nat next)) = index * 8 + next"
    and "push_bit 15 (of_nat index) OR push_bit 12 (of_nat next) = page_address (index * 8 + next)"
proof -
  have n3: "of_nat next = (take_bit 3 (of_nat next) :: 32 word)"
    using assms(2) by (simp add: take_bit_of_nat take_bit_nat_eq_self)
  have i17: "index < 2 ^ 17" using assms(1) by (simp add: pat_size_def)
  have "push_bit 15 (of_nat index) OR push_bit 12 (of_nat next) =
      (push_bit 12 (push_bit 3 (of_nat index) OR of_nat next) :: 32 word)"
    by (simp add: push_bit_or)
  also have "(push_bit 3 (of_nat index) OR of_nat next :: 32 word) = push_bit 3 (of_nat index) + of_nat next"
    by (rule disjunctive_add [symmetric], subst n3) (auto simp: bit_simps)
  also have "\<dots> = of_nat (index * 8 + next)" by (simp add: push_bit_eq_mult)
  finally show adr: "push_bit 15 (of_nat index) OR push_bit 12 (of_nat next) = page_address (index * 8 + next)"
    by (simp add: page_address_def)
  show "page_of (push_bit 15 (of_nat index) OR push_bit 12 (of_nat next)) = index * 8 + next"
    unfolding adr by (rule page_of_page_address) (use assms in \<open>simp add: pat_size_def N_PAGES_def\<close>)
qed

lemma fill_page: "fill (page_address p) v (unat PAGE_SIZE) m x = (if x \<in> page p then v else m x)"
  if "p < N_PAGES"
proof -
  have adr: "unat (page_address p) = p * 4096"
    using that by (simp add: page_address_def push_bit_eq_mult unat_word_ariths unat_of_nat N_PAGES_def)
  have "unat (x - page_address p) < 4096 \<longleftrightarrow> p * 4096 \<le> unat x \<and> unat x < p * 4096 + 4096"
  proof (cases "page_address p \<le> x")
    case True
    then have "unat (x - page_address p) = unat x - p * 4096" by (simp add: unat_sub adr)
    with True show ?thesis by (auto simp: word_le_nat_alt adr)
  next
    case False
    then have lt: "unat x < p * 4096" by (simp add: word_le_nat_alt adr)
    have "unat (x - page_address p) = unat x + 2 ^ 32 - p * 4096"
      using lt unsigned_less [of "page_address p"] by (subst unat_sub_if') (simp_all add: adr)
    moreover have "p * 4096 \<le> 2 ^ 32 - 4096" using that by (simp add: N_PAGES_def)
    ultimately show ?thesis using lt by simp
  qed
  moreover have "\<dots> \<longleftrightarrow> page_of x = p"
    using div_nat_eqI [of p 4096 "unat x"] div_mult_mod_eq [of "unat x" 4096] mod_less_divisor [of 4096 "unat x"]
    by (auto simp: page_of_div)
  ultimately show ?thesis by (simp add: fill_def page_def PAGE_SIZE_def)
qed

lemma kmemset_page:
  "p < N_PAGES \<Longrightarrow> kmemset (unat PAGE_SIZE) (page_address p) v m = (\<lambda>x. if x \<in> page p then v else m x)"
  using fill_page [of p v m] kmemset_fill [of "unat PAGE_SIZE" "page_address p" v m]
  by (simp add: PAGE_SIZE_def fun_eq_iff)

lemma used_cases: "full_byte (pat m i) \<longleftrightarrow> (\<forall>n < 8. used m (i * 8 + n))"
  by (auto simp: full_byte_def used_def)

text \<open>
  The allocator either hands out a page that was free, now marked and zeroed, with every other
  page and the rest of memory unchanged, or every page is in use and it panics.
\<close>

lemma get_next_page_spec:
  assumes "last_availible m < pat_size"
  shows "if \<forall>p < N_PAGES. used m p then get_next_page m = Inl (KPanic [] ''No more memory!'')
    else \<exists>p m'. p < N_PAGES \<and> \<not> used m p \<and> get_next_page m = Inr (page_address p, m') \<and>
      used m' = (used m)(p := True) \<and> mem m' = (\<lambda>x. if x \<in> page p then 0 else mem m x) \<and>
      last_availible m' < pat_size \<and> page_directory m' = page_directory m \<and> page_table m' = page_table m \<and>
      last_pde m' = last_pde m"
proof (cases rule: page_scan_cases [OF assms, of "pat m"])
  case (1 i)
  then obtain n where n: "n < 8" "next_clear 32 0 (pat m i) = Some n" "\<not> bit (pat m i) n"
    using next_clear_spec by blast
  let ?p = "i * 8 + n"
  let ?a = "push_bit 15 (of_nat i) OR push_bit 12 (of_nat n) :: 32 word"
  note a = rebuilt_address [OF 1(2) n(1)]
  have p: "?p < N_PAGES" "\<not> used m ?p" using 1(2) n by (auto simp: pat_size_def N_PAGES_def used_def)
  define m' where "m' = (set_pat ?a 0xFF m)\<lparr>last_availible := i, mem := kmemset (unat PAGE_SIZE) ?a 0 (mem m)\<rparr>"
  have "get_next_page m = Inr (page_address ?p, m')"
    by (simp add: get_next_page_def 1(1) n(2) Let_def m'_def a(2) [symmetric] del: next_clear.simps)
  moreover have "used m' = (used m)(?p := True)"
  proof
    fix q
    have bit: "bit (0xFF :: 8 word) (q mod 8)"
    proof -
      have "(0xFF :: 8 word) = mask 8" by (simp add: mask_eq_exp_minus_1)
      then show ?thesis by (simp only: bit_mask_iff) simp
    qed
    have "used m' q = used (set_pat ?a 0xFF m) q" by (simp add: m'_def used_def)
    then show "used m' q = ((used m)(?p := True)) q"
      by (simp only: used_set_pat a(1) bit fun_upd_apply simp_thms)
  qed
  ultimately show ?thesis
    using p 1(2) kmemset_page [OF p(1)] by (auto simp: m'_def a(2))
next
  case 2
  have "used m p" if "p < N_PAGES" for p
    using 2(2) [of "p div 8"] that by (auto simp: used_def full_byte_def pat_size_def N_PAGES_def)
  moreover have "get_next_page m = Inl (KPanic [] ''No more memory!'')"
    by (simp add: get_next_page_def 2(1))
  ultimately show ?thesis by simp
qed

lemma free_page_spec:
  "free_page a m = (if a AND ALIGN_MASK \<noteq> 0 then Inr (- 1, m) else Inr (0, set_pat a 0 m))"
  "used (set_pat a 0 m) = (used m)(page_of a := False)"
  by (auto simp: free_page_def used_set_pat fun_eq_iff)

subsection \<open>Properties\<close>

text \<open>A memory in which only the first two pages are in use.\<close>

definition blank_memory :: mmodule where
  "blank_memory = \<lparr>mem = \<lambda>_. 0, pat = \<lambda>i. if i = 0 then 3 else 0, page_availibility_table = 0x100000, max_address = 0x7FFFFFF,
     last_availible = 0, page_directory = 0, page_table = 0, last_pde = 0\<rparr>"

lemma used_blank: "used blank_memory p \<longleftrightarrow> p < 2"
proof -
  have "(3 :: 8 word) = mask 2" by (simp add: mask_eq_exp_minus_1)
  then have b: "bit (3 :: 8 word) n \<longleftrightarrow> n < 2" for n by (simp only: bit_mask_iff) auto
  have "used blank_memory p \<longleftrightarrow> p div 8 = 0 \<and> p mod 8 < 2" by (cases "p div 8 = 0") (simp_all only: used_def blank_memory_def mmodule.select_convs if_True if_False b simp_thms bit_0_eq bot_fun_def, simp)
  also have "\<dots> \<longleftrightarrow> p < 2" by presburger
  finally show ?thesis .
qed

text \<open>
  Allocation of pages (C19). As long as some page is free the allocator returns one: it was free, it is
  now marked and filled with zeros, and nothing else has changed; when every page is in use, and only
  then, the system halts.
\<close>

theorem page_allocation:
  assumes "last_availible m < pat_size"
  shows "if \<forall>p < N_PAGES. used m p then get_next_page m = Inl (KPanic [] ''No more memory!'')
    else \<exists>p m'. p < N_PAGES \<and> \<not> used m p \<and> get_next_page m = Inr (page_address p, m') \<and>
      used m' = (used m)(p := True) \<and> mem m' = (\<lambda>x. if x \<in> page p then 0 else mem m x) \<and>
      free_page (page_address p) m' = Inr (0, set_pat (page_address p) 0 m') \<and> used (set_pat (page_address p) 0 m') = used m"
proof (cases "\<forall>p < N_PAGES. used m p")
  case True
  then show ?thesis using get_next_page_spec [OF assms] by simp
next
  case False
  then obtain p m' where p: "p < N_PAGES" "\<not> used m p" "get_next_page m = Inr (page_address p, m')"
      "used m' = (used m)(p := True)" "mem m' = (\<lambda>x. if x \<in> page p then 0 else mem m x)"
    using get_next_page_spec [OF assms] by (simp only: if_False) blast
  have mask: "ALIGN_MASK = mask 12" by (simp add: ALIGN_MASK_def mask_eq_exp_minus_1)
  have "page_address p AND ALIGN_MASK = 0"
    unfolding mask by (rule bit_word_eqI) (auto simp: bit_simps page_address_def)
  moreover have "used (set_pat (page_address p) 0 m') = used m"
    using p(2,4) page_of_page_address [OF p(1)] by (auto simp: free_page_spec(2) fun_eq_iff)
  ultimately show ?thesis using False p by (auto simp: free_page_def)
qed

theorem page_allocation_witness:
  "\<exists>p m'. 2 \<le> p \<and> get_next_page blank_memory = Inr (page_address p, m') \<and> used m' = (\<lambda>q. q < 2 \<or> q = p)"
proof -
  have "last_availible blank_memory < pat_size" by (simp add: blank_memory_def pat_size_def)
  moreover have "\<not> (\<forall>p < N_PAGES. used blank_memory p)" by (auto simp: used_blank N_PAGES_def intro: exI [of _ 2])
  ultimately obtain p m' where "\<not> used blank_memory p" "get_next_page blank_memory = Inr (page_address p, m')" "used m' = (used blank_memory)(p := True)"
    using page_allocation [of blank_memory] by (simp only: if_False) blast
  then show ?thesis by (auto simp: used_blank fun_eq_iff not_less intro!: exI [of _ p])
qed

text \<open>
  Copying memory (C20). The byte loop of \<^verbatim>\<open>_kmemcpy\<close> copies a block that does not overlap its destination,
  around the end of the address space too, and changes nothing else.
\<close>

theorem kmemcpy_is_copy:
  assumes "n \<le> unat (src - dst)" "n \<le> unat (dst - src)"
  shows "kmemcpy n dst src m = (\<lambda>x. if unat (x - dst) < n then m (src + (x - dst)) else m x)"
  using kmemcpy_copy [OF assms] by (simp add: copy_def)

theorem kmemcpy_is_copy_witness: "kmemcpy 3 0x20 0x10 (\<lambda>x. ucast x) 0x22 = 0x12"
  using kmemcpy_is_copy [where n = 3 and src = "0x10" and dst = "0x20" and m = "\<lambda>x. ucast x"] by (simp add: fun_eq_iff)

end
