(* ===== verification/Kern_Ring.thy ===== *)
theory Kern_Ring
  imports Kern_Base
begin

text \<open>
  Circular buffers, as the serial driver and the keyboard driver use them, and the contract both
  drivers give for their input: characters leave a buffer in the order they came in.
\<close>

definition ring :: "'a list \<Rightarrow> nat \<Rightarrow> nat \<Rightarrow> 'a list" where
  "ring buf st n = map (\<lambda>i. buf ! ((st + i) mod length buf)) [0..<n]"

lemma ring_length [simp]: "length (ring buf st n) = n" "ring buf st 0 = []"
  by (simp_all add: ring_def)

lemma ring_Suc: "st < length buf \<Longrightarrow> ring buf st (Suc n) = buf ! st # ring buf (Suc st mod length buf) n"
  by (simp add: ring_def upt_conv_Cons map_Suc_upt [symmetric] mod_Suc_eq mod_add_left_eq del: upt_Suc)

lemma ring_push:
  assumes "st < length buf" "n < length buf"
  shows "ring (buf[(st + n) mod length buf := x]) st (Suc n) = ring buf st n @ [x]"
proof -
  have ne: "(st + n) mod length buf \<noteq> (st + i) mod length buf" if "i < n" for i
  proof
    assume "(st + n) mod length buf = (st + i) mod length buf"
    then have "length buf dvd (st + n) - (st + i)" 
      using that mod_eq_dvd_iff_nat [of "st + i" "st + n" "length buf"] by simp
    then have "length buf \<le> n - i" using that by (auto dest: dvd_imp_le)
    then show False using assms(2) by simp
  qed
  have pos: "0 < length buf" using assms(1) by linarith
  show ?thesis
    using pos by (simp add: ring_def nth_list_update ne)
qed

text \<open>Storing a sequence of characters, and taking a number of them.\<close>

primrec put_all :: "('a \<Rightarrow> ('s, unit) kern) \<Rightarrow> 'a list \<Rightarrow> ('s, unit) kern" where
  "put_all put [] = kreturn ()"
| "put_all put (x # xs) = kbind (put x) (\<lambda>_. put_all put xs)"

primrec get_all :: "('s, 'a) kern \<Rightarrow> nat \<Rightarrow> ('s, 'a list) kern" where
  "get_all get 0 = kreturn []"
| "get_all get (Suc n) = kbind get (\<lambda>x. kbind (get_all get n) (\<lambda>xs. kreturn (x # xs)))"

text \<open>One character in, one character out.\<close>

locale byte_buffer =
  fixes inv :: "'s \<Rightarrow> bool" and items :: "'s \<Rightarrow> 'a list" and room :: "'s \<Rightarrow> nat"
    and put :: "'a \<Rightarrow> ('s, unit) kern" and get :: "('s, 'a) kern"
  assumes put_ok: "inv s \<Longrightarrow> 0 < room s \<Longrightarrow>
      \<exists>s'. put x s = Inr ((), s') \<and> inv s' \<and> items s' = items s @ [x] \<and> Suc (room s') = room s"
    and get_ok: "inv s \<Longrightarrow> items s = x # xs \<Longrightarrow> \<exists>s'. get s = Inr (x, s') \<and> inv s' \<and> items s' = xs"
begin

lemma wp_put_all:
  assumes "inv s" "length xs \<le> room s"
  shows "wp (put_all put xs) (\<lambda>_ s'. inv s' \<and> items s' = items s @ xs) s"
  using assms
proof (induction xs arbitrary: s)
  case (Cons x xs)
  then obtain s' where s': "put x s = Inr ((), s')" "inv s'" "items s' = items s @ [x]" "Suc (room s') = room s"
    using put_ok [of s x] by auto
  then show ?case
    using Cons.IH [of s'] Cons.prems by (simp add: kern_simps wp_def s'(1))
qed (simp add: kern_simps)

lemma wp_get_all:
  assumes "inv s" "n \<le> length (items s)"
  shows "wp (get_all get n) (\<lambda>xs s'. inv s' \<and> xs = take n (items s) \<and> items s' = drop n (items s)) s"
  using assms
proof (induction n arbitrary: s)
  case (Suc n)
  then obtain x xs where xs: "items s = x # xs" by (cases "items s") auto
  then obtain s' where "get s = Inr (x, s')" "inv s'" "items s' = xs" using get_ok Suc.prems(1) by blast
  then show ?case
    using Suc.IH [of s'] Suc.prems(2) xs by (auto simp: kern_simps wp_def split: sum.splits)
qed (simp add: kern_simps)

lemma in_order:
  assumes "inv s" "length xs \<le> room s"
  shows "wp (kbind (put_all put xs) (\<lambda>_. get_all get (length (items s) + length xs))) (\<lambda>ys s'. inv s' \<and> ys = items s @ xs \<and> items s' = []) s"
  unfolding kern_simps
  by (rule wp_mono [OF wp_put_all [OF assms]], rule wp_mono [OF wp_get_all]) auto

end

end
