(* ===== verification/Kern_Serial.thy ===== *)
theory Kern_Serial
  imports Kern_Ring
begin

unbundle bit_operations_syntax

text \<open>
  The serial line (\<^verbatim>\<open>baseline/sio.c\<close>): the input and the output buffer of the driver and the
  routines that fill and drain them. The pointers into the buffers are indices; an access past the
  end of a buffer is the fault \<^verbatim>\<open>OutOfRange\<close>. \<^verbatim>\<open>txd\<close> is the sequence of bytes written to the
  transmitter so far. What the interrupt handler does with processes is in \<^verbatim>\<open>Kern_Syscall\<close>.
\<close>

subsection \<open>State and operations\<close>

record sio_t =
  inbuffer :: "8 word list"
  inlast :: nat
  innext :: nat
  incount :: "32 word"
  outbuffer :: "8 word list"
  outlast :: nat
  outnext :: nat
  outcount :: "32 word"
  sending :: bool
  ier :: "8 word"
  txd :: "8 word list"

definition BUF_SIZE :: nat where "BUF_SIZE = 2048"
definition SIO_TX :: "8 word" where "SIO_TX = 1"
definition SIO_RX :: "8 word" where "SIO_RX = 2"
definition UA4_IER_RX_INT_ENABLE :: "8 word" where "UA4_IER_RX_INT_ENABLE = 1"
definition UA4_IER_TX_INT_ENABLE :: "8 word" where "UA4_IER_TX_INT_ENABLE = 2"
definition CR :: "8 word" where "CR = 13"
definition LF :: "8 word" where "LF = 10"

definition sio_enable :: "8 word \<Rightarrow> (sio_t, 8 word) kern" where
  "sio_enable which =
     kbind (kget ier) (\<lambda>old.
     kbind (kmodify (\<lambda>s. if which AND SIO_TX \<noteq> 0 then s\<lparr>ier := ier s OR UA4_IER_TX_INT_ENABLE\<rparr> else s)) (\<lambda>_.
     kbind (kmodify (\<lambda>s. if which AND SIO_RX \<noteq> 0 then s\<lparr>ier := ier s OR UA4_IER_RX_INT_ENABLE\<rparr> else s)) (\<lambda>_.
     kreturn old)))"

definition sio_disable :: "8 word \<Rightarrow> (sio_t, 8 word) kern" where
  "sio_disable which =
     kbind (kget ier) (\<lambda>old.
     kbind (kmodify (\<lambda>s. if which AND SIO_TX \<noteq> 0 then s\<lparr>ier := ier s AND NOT UA4_IER_TX_INT_ENABLE\<rparr> else s)) (\<lambda>_.
     kbind (kmodify (\<lambda>s. if which AND SIO_RX \<noteq> 0 then s\<lparr>ier := ier s AND NOT UA4_IER_RX_INT_ENABLE\<rparr> else s)) (\<lambda>_.
     kreturn old)))"

text \<open>The variables of the driver after \<^verbatim>\<open>_sio_init\<close>; the UART set-up itself is left out.\<close>

definition sio_init :: "(sio_t, unit) kern" where
  "sio_init = kmodify (\<lambda>s. s\<lparr>inbuffer := replicate BUF_SIZE 0, inlast := 0, innext := 0, incount := 0,
     outbuffer := replicate BUF_SIZE 0, outlast := 0, outnext := 0, outcount := 0, sending := False, ier := 0\<rparr>)"

definition sio_input_queue :: "(sio_t, 32 word) kern" where
  "sio_input_queue = kget incount"

text \<open>A received character with no process waiting for it.\<close>

definition sio_store :: "8 word \<Rightarrow> (sio_t, unit) kern" where
  "sio_store ch s =
     (if incount s < of_nat BUF_SIZE then
        if inlast s < length (inbuffer s)
        then Inr ((), s\<lparr>inbuffer := (inbuffer s)[inlast s := ch], inlast := inlast s + 1, incount := incount s + 1\<rparr>)
        else Inl OutOfRange
      else Inr ((), s))"

definition sio_fetch :: "(sio_t, 8 word) kern" where
  "sio_fetch s =
     (if innext s < length (inbuffer s)
      then Inr (inbuffer s ! innext s, s\<lparr>innext := innext s + 1\<rparr>) else Inl OutOfRange)"

definition sio_reset_input :: "(sio_t, unit) kern" where
  "sio_reset_input = kmodify (\<lambda>s. if incount s < 1 then s\<lparr>inlast := 0, innext := 0\<rparr> else s)"

definition sio_readc :: "(sio_t, int) kern" where
  "sio_readc =
     kbind (kget incount) (\<lambda>n.
     if n > 0 then
       kbind sio_fetch (\<lambda>ch.
       kbind (kmodify (\<lambda>s. s\<lparr>incount := incount s - 1\<rparr>)) (\<lambda>_.
       kbind sio_reset_input (\<lambda>_.
       kreturn (uint ch))))
     else kreturn (- 1))"

text \<open>The copy loop of \<^verbatim>\<open>_sio_reads\<close>; it returns the bytes it copies, in order.\<close>

fun sio_reads_loop :: "nat \<Rightarrow> 8 word list \<Rightarrow> int \<Rightarrow> (sio_t, 8 word list) kern" where
  "sio_reads_loop 0 copied len = kfail Diverges"
| "sio_reads_loop (Suc n) copied len =
     kbind (kget incount) (\<lambda>c.
     if c > 0 \<and> int (length copied) < len then
       kbind sio_fetch (\<lambda>ch.
       kbind (kmodify (\<lambda>s. if innext s > BUF_SIZE then s\<lparr>innext := 0\<rparr> else s)) (\<lambda>_.
       kbind (kmodify (\<lambda>s. s\<lparr>incount := incount s - 1\<rparr>)) (\<lambda>_.
       sio_reads_loop n (copied @ [ch]) len)))
     else kreturn copied)"

definition sio_reads :: "int \<Rightarrow> (sio_t, 8 word list) kern" where
  "sio_reads len =
     kbind (kget incount) (\<lambda>c.
     if c < 1 then kreturn []
     else
       kbind (sio_reads_loop (Suc (Suc BUF_SIZE)) [] len) (\<lambda>copied.
       kbind sio_reset_input (\<lambda>_.
       kreturn copied)))"

definition sio_put :: "8 word \<Rightarrow> (sio_t, unit) kern" where
  "sio_put ch s =
     (if outlast s < length (outbuffer s)
      then Inr ((), s\<lparr>outbuffer := (outbuffer s)[outlast s := ch], outlast := outlast s + 1\<rparr>) else Inl OutOfRange)"

text \<open>\<^verbatim>\<open>_sio_writec\<close> calls itself once, with a carriage return, on a line feed.\<close>

definition sio_writec1 :: "8 word \<Rightarrow> (sio_t, unit) kern" where
  "sio_writec1 ch =
     kbind (kget sending) (\<lambda>busy.
     if busy then kbind (sio_put ch) (\<lambda>_. kmodify (\<lambda>s. s\<lparr>outcount := outcount s + 1\<rparr>))
     else
       kbind (kmodify (\<lambda>s. s\<lparr>sending := True, txd := txd s @ [ch]\<rparr>)) (\<lambda>_.
       kbind (sio_enable SIO_TX) (\<lambda>_. kreturn ())))"

definition sio_writec :: "8 word \<Rightarrow> (sio_t, unit) kern" where
  "sio_writec ch =
     kbind (if ch = LF then sio_writec1 CR else kreturn ()) (\<lambda>_.
     sio_writec1 ch)"

fun sio_writes_loop :: "nat \<Rightarrow> (nat \<Rightarrow> 8 word) \<Rightarrow> nat \<Rightarrow> int \<Rightarrow> (sio_t, nat) kern" where
  "sio_writes_loop 0 buf copied len = kfail Diverges"
| "sio_writes_loop (Suc n) buf copied len =
     kbind (kget outcount) (\<lambda>c.
     if int copied < len \<and> c < of_nat BUF_SIZE then
       kbind (sio_put (buf copied)) (\<lambda>_.
       kbind (kmodify (\<lambda>s. if outlast s \<ge> BUF_SIZE then s\<lparr>outlast := 0\<rparr> else s)) (\<lambda>_.
       kbind (kmodify (\<lambda>s. s\<lparr>outcount := outcount s + 1\<rparr>)) (\<lambda>_.
       sio_writes_loop n buf (copied + 1) len)))
     else kreturn copied)"

definition sio_writes :: "(nat \<Rightarrow> 8 word) \<Rightarrow> int \<Rightarrow> (sio_t, nat) kern" where
  "sio_writes buf len =
     kbind (kget sending) (\<lambda>busy.
     kbind (sio_writes_loop (Suc (Suc BUF_SIZE)) buf (if busy then 0 else 1) len) (\<lambda>copied.
     kbind (kget sending) (\<lambda>busy.
     kbind (if \<not> busy then sio_writec (buf 0) else kreturn ()) (\<lambda>_.
     kreturn copied))))"

primrec sio_puts :: "8 word list \<Rightarrow> (sio_t, nat) kern" where
  "sio_puts [] = kreturn 0"
| "sio_puts (c # cs) = kbind (sio_writec c) (\<lambda>_. kbind (sio_puts cs) (\<lambda>n. kreturn (n + 1)))"

text \<open>A transmitter interrupt.\<close>

definition sio_transmit :: "(sio_t, unit) kern" where
  "sio_transmit =
     kbind (kget (\<lambda>s. sending s \<and> outcount s > 0)) (\<lambda>more.
     if more then
       kbind (kget (\<lambda>s. outnext s < length (outbuffer s))) (\<lambda>legal.
       if \<not> legal then kfail OutOfRange
       else
         kbind (kmodify (\<lambda>s. s\<lparr>txd := txd s @ [outbuffer s ! outnext s]\<rparr>)) (\<lambda>_.
         kbind (kmodify (\<lambda>s. s\<lparr>outnext := outnext s + 1\<rparr>)) (\<lambda>_.
         kbind (kmodify (\<lambda>s. if outnext s \<ge> BUF_SIZE then s\<lparr>outnext := 0\<rparr> else s)) (\<lambda>_.
         kmodify (\<lambda>s. s\<lparr>outcount := outcount s - 1\<rparr>)))))
     else
       kbind (kmodify (\<lambda>s. s\<lparr>outcount := 0, outlast := 0, outnext := 0, sending := False\<rparr>)) (\<lambda>_.
       kbind (sio_disable SIO_TX) (\<lambda>_. kreturn ())))"

subsection \<open>The input buffer\<close>

text \<open>Inside the reading loop the count may be zero with the pointers not yet reset (\<^verbatim>\<open>in_mid\<close>).\<close>

definition in_mid :: "sio_t \<Rightarrow> bool" where
  "in_mid s \<longleftrightarrow> length (inbuffer s) = BUF_SIZE \<and> inlast s = innext s + unat (incount s) \<and> inlast s \<le> BUF_SIZE"

definition in_ok :: "sio_t \<Rightarrow> bool" where
  "in_ok s \<longleftrightarrow> in_mid s \<and> (incount s = 0 \<longrightarrow> innext s = 0)"

definition input :: "sio_t \<Rightarrow> 8 word list" where
  "input s = take (unat (incount s)) (drop (innext s) (inbuffer s))"

lemma in_ok_mid: "in_ok s \<Longrightarrow> in_mid s"
  by (simp add: in_ok_def)

lemma in_midD:
  assumes "in_mid s"
  shows "length (inbuffer s) = BUF_SIZE" "inlast s = innext s + unat (incount s)" "innext s + unat (incount s) \<le> BUF_SIZE"
    "length (input s) = unat (incount s)" "unat (incount s) \<le> BUF_SIZE"
  using assms by (auto simp: in_mid_def input_def)

lemmas in_okD = in_midD [OF in_ok_mid]

lemma incount_less: "incount s < of_nat BUF_SIZE \<longleftrightarrow> unat (incount s) < BUF_SIZE"
  by (simp add: BUF_SIZE_def word_less_nat_alt)

lemma unat_inc: "unat x < BUF_SIZE \<Longrightarrow> unat (x + 1) = Suc (unat x)" for x :: "32 word"
  by (simp add: BUF_SIZE_def unat_word_ariths)

lemma sio_store_ok:
  assumes ok: "in_ok s" and room: "inlast s < BUF_SIZE"
  shows "\<exists>s'. sio_store ch s = Inr ((), s') \<and> in_ok s' \<and> input s' = input s @ [ch] \<and> inlast s' = Suc (inlast s)"
proof -
  note d = in_okD [OF ok]
  have lt: "unat (incount s) < BUF_SIZE" using d(2) room by linarith
  let ?s = "s\<lparr>inbuffer := (inbuffer s)[inlast s := ch], inlast := inlast s + 1, incount := incount s + 1\<rparr>"
  have inc: "unat (incount s + 1) = Suc (unat (incount s))" by (rule unat_inc [OF lt])
  then have "incount s + 1 \<noteq> 0" by auto
  then have "in_ok ?s" using d room inc by (simp add: in_ok_def in_mid_def)
  moreover have "input ?s = input s @ [ch]"
    using d room by (simp add: input_def inc take_Suc_conv_app_nth drop_update_swap)
  ultimately show ?thesis using d room lt by (simp add: sio_store_def incount_less)
qed

lemma sio_store_full: "in_ok s \<Longrightarrow> length (input s) = BUF_SIZE \<Longrightarrow> sio_store ch s = Inr ((), s)"
  using in_okD(4) [of s] by (simp add: sio_store_def incount_less)

lemma sio_store_overrun: "in_ok s \<Longrightarrow> inlast s = BUF_SIZE \<Longrightarrow> length (input s) < BUF_SIZE \<Longrightarrow> sio_store ch s = Inl OutOfRange"
  using in_okD(1,4) [of s] by (simp add: sio_store_def incount_less)

lemma in_consume:
  assumes ok: "in_mid s" and c: "incount s \<noteq> 0"
  shows "sio_fetch s = Inr (hd (input s), s\<lparr>innext := innext s + 1\<rparr>)"
    "input s = hd (input s) # input (s\<lparr>innext := innext s + 1, incount := incount s - 1\<rparr>)"
    "Suc (unat (incount s - 1)) = unat (incount s)" "innext s < BUF_SIZE"
proof -
  note d = in_midD [OF ok]
  have pos: "0 < unat (incount s)" using c by (simp add: unat_gt_0)
  then show lt: "innext s < BUF_SIZE" using d(3) by linarith
  show dec: "Suc (unat (incount s - 1)) = unat (incount s)" using c pos by (simp add: unat_minus_one)
  have dr: "drop (innext s) (inbuffer s) = inbuffer s ! innext s # drop (Suc (innext s)) (inbuffer s)"
    using lt d(1) by (simp add: Cons_nth_drop_Suc)
  obtain m where m: "unat (incount s) = Suc m" using pos by (cases "unat (incount s)") auto
  have inp: "input s = inbuffer s ! innext s # take m (drop (Suc (innext s)) (inbuffer s))"
    by (simp add: input_def dr m)
  then show "sio_fetch s = Inr (hd (input s), s\<lparr>innext := innext s + 1\<rparr>)"
    using lt d(1) by (simp add: sio_fetch_def)
  show "input s = hd (input s) # input (s\<lparr>innext := innext s + 1, incount := incount s - 1\<rparr>)"
    using dec m unfolding inp by (simp add: input_def)
qed

lemma reset_ok:
  assumes "in_mid s"
  shows "\<exists>s'. sio_reset_input s = Inr ((), s') \<and> in_ok s' \<and> input s' = input s \<and> (inlast s' = (if input s = [] then 0 else inlast s))"
  using assms in_midD(4) [OF assms] by (auto simp: sio_reset_input_def kern_simps in_mid_def in_ok_def input_def unsigned_eq_0_iff)

lemma sio_reads_loop_ok:
  assumes "in_mid s" "unat (incount s) < n"
  shows "\<exists>s'. sio_reads_loop n copied len s = Inr (copied @ take (nat (len - int (length copied))) (input s), s') \<and>
    in_mid s' \<and> input s' = drop (nat (len - int (length copied))) (input s) \<and> inlast s' = inlast s"
  using assms
proof (induction n arbitrary: s copied)
  case (Suc n)
  have ok: "length (inbuffer s) = BUF_SIZE" "inlast s = innext s + unat (incount s)" "inlast s \<le> BUF_SIZE"
    using Suc.prems(1) by (simp_all add: in_mid_def)
  show ?case
  proof (cases "incount s > 0 \<and> int (length copied) < len")
    case False
    then have "take (nat (len - int (length copied))) (input s) = []" "drop (nat (len - int (length copied))) (input s) = input s"
      by (auto simp: input_def word_gt_0)
    with False Suc.prems(1) show ?thesis by (auto simp: kern_simps)
  next
    case True
    then have c: "incount s \<noteq> 0" "int (length copied) < len" by (auto simp: word_gt_0)
    note f = in_consume [OF Suc.prems(1) c(1)]
    let ?s = "s\<lparr>innext := innext s + 1, incount := incount s - 1\<rparr>"
    have mid: "in_mid ?s" using Suc.prems(1) f(3,4) by (simp add: in_mid_def)
    have "unat (incount ?s) < n" using Suc.prems(2) f(3) by simp
    from Suc.IH [OF mid this, of "copied @ [hd (input s)]"] obtain s' where
      s': "sio_reads_loop n (copied @ [hd (input s)]) len ?s =
            Inr ((copied @ [hd (input s)]) @ take (nat (len - int (length copied + 1))) (input ?s), s')"
        "in_mid s'" "input s' = drop (nat (len - int (length copied + 1))) (input ?s)" "inlast s' = inlast s"
      by auto
    have n: "nat (len - int (length copied)) = Suc (nat (len - int (length copied + 1)))" using c(2) by simp
    have "sio_reads_loop (Suc n) copied len s = sio_reads_loop n (copied @ [hd (input s)]) len ?s"
      using True f(1,4) by (simp add: kern_simps)
    with s' show ?thesis
      by (subst (1 2) f(2)) (simp add: n)
  qed
qed simp

lemma sio_reads_ok:
  assumes ok: "in_ok s"
  shows "\<exists>s'. sio_reads len s = Inr (take (nat len) (input s), s') \<and> in_ok s' \<and> input s' = drop (nat len) (input s) \<and>
    inlast s' = (if input s' = [] then 0 else inlast s)"
proof (cases "incount s = 0")
  case True
  then have "input s = []" "inlast s = 0" using ok by (auto simp: input_def in_ok_def in_mid_def)
  then show ?thesis using ok True by (simp add: sio_reads_def kern_simps)
next
  case False
  have "unat (incount s) < Suc (Suc BUF_SIZE)" using in_okD(5) [OF ok] by simp
  from sio_reads_loop_ok [OF in_ok_mid [OF ok] this, of "[]" len] obtain s1 where
    s1: "sio_reads_loop (Suc (Suc BUF_SIZE)) [] len s = Inr (take (nat len) (input s), s1)" "in_mid s1"
      "input s1 = drop (nat len) (input s)" "inlast s1 = inlast s" by auto
  with reset_ok [OF s1(2)] False show ?thesis
    by (auto simp: sio_reads_def kern_simps simp del: sio_reads_loop.simps)
qed

lemma sio_readc_ok:
  assumes ok: "in_ok s" and c: "input s = x # xs"
  shows "\<exists>s'. sio_readc s = Inr (uint x, s') \<and> in_ok s' \<and> input s' = xs"
proof -
  have n: "incount s \<noteq> 0" using c by (auto simp: input_def)
  note f = in_consume [OF in_ok_mid [OF ok] n]
  have "in_mid (s\<lparr>innext := innext s + 1, incount := incount s - 1\<rparr>)"
    using in_okD [OF ok] f(3,4) by (simp add: in_mid_def)
  from reset_ok [OF this] f(1,2) n c show ?thesis
    by (auto simp: sio_readc_def kern_simps word_gt_0)
qed

lemma sio_readc_empty: "in_ok s \<Longrightarrow> input s = [] \<Longrightarrow> sio_readc s = Inr (- 1, s)"
  using in_okD(4) [of s] by (simp add: sio_readc_def kern_simps word_gt_0 unsigned_eq_0_iff)

interpretation si: byte_buffer in_ok input "\<lambda>s. BUF_SIZE - inlast s" sio_store
  "kbind sio_readc (\<lambda>ch. kreturn (word_of_int ch))"
proof (unfold_locales, goal_cases)
  case (1 s x)
  then show ?case using sio_store_ok [of s x] by force
next
  case (2 s x xs)
  then show ?case using sio_readc_ok [of s x xs] by (auto simp: kern_simps)
qed

subsection \<open>The output buffer\<close>

text \<open>The characters still to be sent, and the whole sequence the line has been given.\<close>

definition pending :: "sio_t \<Rightarrow> 8 word list" where
  "pending s = ring (outbuffer s) (outnext s) (unat (outcount s))"

definition stream :: "sio_t \<Rightarrow> 8 word list" where
  "stream s = txd s @ pending s"

definition out_ok :: "sio_t \<Rightarrow> bool" where
  "out_ok s \<longleftrightarrow> length (outbuffer s) = BUF_SIZE \<and> outnext s < BUF_SIZE \<and> unat (outcount s) \<le> BUF_SIZE \<and>
     outlast s = (outnext s + unat (outcount s)) mod BUF_SIZE \<and>
     (\<not> sending s \<longrightarrow> outcount s = 0 \<and> outnext s = 0)"

lemma sio_ier_ok [simp]:
  "sio_enable w s = Inr (ier s, s\<lparr>ier := (let i = (if w AND SIO_TX \<noteq> 0 then ier s OR UA4_IER_TX_INT_ENABLE else ier s)
     in if w AND SIO_RX \<noteq> 0 then i OR UA4_IER_RX_INT_ENABLE else i)\<rparr>)"
  "sio_disable w s = Inr (ier s, s\<lparr>ier := (let i = (if w AND SIO_TX \<noteq> 0 then ier s AND NOT UA4_IER_TX_INT_ENABLE else ier s)
     in if w AND SIO_RX \<noteq> 0 then i AND NOT UA4_IER_RX_INT_ENABLE else i)\<rparr>)"
  by (simp_all add: sio_enable_def sio_disable_def kern_simps)

lemma out_ok_ier [simp]: "out_ok (s\<lparr>ier := v\<rparr>) = out_ok s" "pending (s\<lparr>ier := v\<rparr>) = pending s" "stream (s\<lparr>ier := v\<rparr>) = stream s"
  by (simp_all add: out_ok_def pending_def stream_def)

lemma mod_step: "(if Suc n \<ge> BUF_SIZE then 0 else Suc n) = Suc n mod BUF_SIZE" if "n < BUF_SIZE"
  using that by (auto simp: mod_Suc)

lemma sio_transmit_ok:
  assumes ok: "out_ok s"
  shows "\<exists>s'. sio_transmit s = Inr ((), s') \<and> out_ok s' \<and> stream s' = stream s \<and> pending s' = tl (pending s) \<and>
    sending s' = (pending s \<noteq> [])"
proof (cases "sending s \<and> outcount s > 0")
  case False
  then have "outcount s = 0" using ok by (auto simp: out_ok_def word_gt_0)
  then show ?thesis
    using ok False by (auto simp: sio_transmit_def kern_simps out_ok_def pending_def stream_def BUF_SIZE_def)
next
  case True
  have o: "length (outbuffer s) = BUF_SIZE" "outnext s < BUF_SIZE" "unat (outcount s) \<le> BUF_SIZE"
    "outlast s = (outnext s + unat (outcount s)) mod BUF_SIZE" using ok by (auto simp: out_ok_def)
  obtain n where n: "unat (outcount s) = Suc n" using True by (cases "unat (outcount s)") (auto simp: word_gt_0 unsigned_eq_0_iff)
  have dec: "unat (outcount s - 1) = n" using True n by (simp add: unat_minus_one word_gt_0)
  let ?s = "s\<lparr>txd := txd s @ [outbuffer s ! outnext s], outnext := Suc (outnext s) mod BUF_SIZE, outcount := outcount s - 1\<rparr>"
  have pend: "pending s = outbuffer s ! outnext s # pending ?s"
    using ring_Suc [of "outnext s" "outbuffer s" n] o(1,2) by (simp add: pending_def n dec)
  have "out_ok ?s"
    using o True by (simp add: out_ok_def dec n mod_simps)
  moreover have "sio_transmit s = Inr ((), ?s)"
    using True o(1,2) mod_step [OF o(2)] by (auto simp: sio_transmit_def kern_simps)
  ultimately show ?thesis using pend True by (simp add: stream_def)
qed

lemma sio_put_ok:
  assumes ok: "out_ok s" and room: "unat (outcount s) < BUF_SIZE" and busy: "sending s"
  shows "sio_put c s = Inr ((), s\<lparr>outbuffer := (outbuffer s)[outlast s := c], outlast := Suc (outlast s)\<rparr>)"
    "out_ok (s\<lparr>outbuffer := (outbuffer s)[outlast s := c], outlast := Suc (outlast s) mod BUF_SIZE, outcount := outcount s + 1\<rparr>)"
    "pending (s\<lparr>outbuffer := (outbuffer s)[outlast s := c], outlast := Suc (outlast s) mod BUF_SIZE, outcount := outcount s + 1\<rparr>) = pending s @ [c]"
    "outlast s < BUF_SIZE"
proof -
  have o: "length (outbuffer s) = BUF_SIZE" "outnext s < BUF_SIZE" "outlast s = (outnext s + unat (outcount s)) mod BUF_SIZE"
    using ok by (auto simp: out_ok_def)
  have inc: "unat (outcount s + 1) = Suc (unat (outcount s))" by (rule unat_inc [OF room])
  show lt: "outlast s < BUF_SIZE" using o(3) by (simp add: BUF_SIZE_def)
  then show "sio_put c s = Inr ((), s\<lparr>outbuffer := (outbuffer s)[outlast s := c], outlast := Suc (outlast s)\<rparr>)"
    using o(1) by (simp add: sio_put_def)
  show "out_ok (s\<lparr>outbuffer := (outbuffer s)[outlast s := c], outlast := Suc (outlast s) mod BUF_SIZE, outcount := outcount s + 1\<rparr>)"
    using o busy room inc by (simp add: out_ok_def mod_simps)
  show "pending (s\<lparr>outbuffer := (outbuffer s)[outlast s := c], outlast := Suc (outlast s) mod BUF_SIZE, outcount := outcount s + 1\<rparr>) = pending s @ [c]"
    using ring_push [of "outnext s" "outbuffer s" "unat (outcount s)" c] o room by (simp add: pending_def inc)
qed

text \<open>The copy loop; it also runs when the line is idle, before the first character is sent.\<close>

lemma sio_writes_loop_ok:
  assumes "out_ok (s\<lparr>sending := True\<rparr>)" "BUF_SIZE - unat (outcount s) < n" "int copied \<le> len"
  shows "\<exists>s'. sio_writes_loop n buf copied len s = Inr (min (nat len) (copied + (BUF_SIZE - unat (outcount s))), s') \<and>
    out_ok (s'\<lparr>sending := True\<rparr>) \<and> sending s' = sending s \<and> txd s' = txd s \<and>
    pending s' = pending s @ map buf [copied..<min (nat len) (copied + (BUF_SIZE - unat (outcount s)))]"
  using assms
proof (induction n arbitrary: s copied)
  case (Suc n)
  have le: "unat (outcount s) \<le> BUF_SIZE" using Suc.prems(1) by (simp add: out_ok_def)
  show ?case
  proof (cases "int copied < len \<and> unat (outcount s) < BUF_SIZE")
    case False
    then have "min (nat len) (copied + (BUF_SIZE - unat (outcount s))) = copied" using Suc.prems(3) le by auto
    moreover have "outcount s < of_nat BUF_SIZE \<longleftrightarrow> unat (outcount s) < BUF_SIZE"
      by (simp add: BUF_SIZE_def word_less_nat_alt)
    ultimately show ?thesis using False Suc.prems(1) by (auto simp: kern_simps)
  next
    case True
    let ?s = "s\<lparr>outbuffer := (outbuffer s)[outlast s := buf copied], outlast := Suc (outlast s) mod BUF_SIZE, outcount := outcount s + 1\<rparr>"
    note p = sio_put_ok(2,3) [OF Suc.prems(1), of "buf copied"] sio_put_ok(4) [OF Suc.prems(1)]
    have inc: "unat (outcount s + 1) = Suc (unat (outcount s))" using True by (intro unat_inc) simp
    have ok: "out_ok (?s\<lparr>sending := True\<rparr>)" and pend: "pending ?s = pending s @ [buf copied]" and lt: "outlast s < BUF_SIZE"
      using p True by (simp_all add: pending_def out_ok_def)
    have "BUF_SIZE - unat (outcount ?s) < n" using Suc.prems(2) True inc by (simp; linarith)
    from Suc.IH [OF ok this, of "copied + 1"] True inc obtain s' where
      s': "sio_writes_loop n buf (copied + 1) len ?s = Inr (min (nat len) (copied + (BUF_SIZE - unat (outcount s))), s')"
      "out_ok (s'\<lparr>sending := True\<rparr>)" "sending s' = sending s" "txd s' = txd s"
      "pending s' = pending ?s @ map buf [copied + 1..<min (nat len) (copied + (BUF_SIZE - unat (outcount s)))]"
      by (auto simp: Suc_diff_Suc)
    have more: "copied < min (nat len) (copied + (BUF_SIZE - unat (outcount s)))" using True by auto
    have "pending s' = pending s @ map buf [copied..<min (nat len) (copied + (BUF_SIZE - unat (outcount s)))]"
      unfolding s'(5) pend by (simp only: upt_conv_Cons [OF more] list.map append_assoc append.simps Suc_eq_plus1)
    moreover have "sio_writes_loop (Suc n) buf copied len s = sio_writes_loop n buf (copied + 1) len ?s"
    proof -
      have "sio_put (buf copied) s = Inr ((), s\<lparr>outbuffer := (outbuffer s)[outlast s := buf copied], outlast := Suc (outlast s)\<rparr>)"
        using lt Suc.prems(1) by (simp add: sio_put_def out_ok_def)
      moreover have "outcount s < of_nat BUF_SIZE" using True by (simp add: BUF_SIZE_def word_less_nat_alt)
      ultimately show ?thesis
        using True mod_step [OF lt] by (auto simp: kern_simps)
    qed
    ultimately show ?thesis using s' by auto
  qed
qed simp

text \<open>How many of \<^verbatim>\<open>len\<close> characters a write accepts: an idle line takes one more than the buffer holds.\<close>

definition accepted :: "sio_t \<Rightarrow> int \<Rightarrow> nat" where
  "accepted s len = min (nat len) ((if sending s then 0 else 1) + (BUF_SIZE - length (pending s)))"

lemma sending_pending [simp]: "pending (s\<lparr>sending := b\<rparr>) = pending s" "pending (s\<lparr>txd := t\<rparr>) = pending s"
  by (simp_all add: pending_def)

lemma out_ok_txd: "out_ok (s\<lparr>sending := True, txd := t\<rparr>) = out_ok (s\<lparr>sending := True\<rparr>)"
  by (simp add: out_ok_def)

lemma sio_writes_ok:
  assumes ok: "out_ok s" and len: "1 \<le> len" and first: "sending s \<or> buf 0 \<noteq> LF"
  shows "\<exists>s'. sio_writes buf len s = Inr (accepted s len, s') \<and> out_ok s' \<and> sending s' \<and>
    stream s' = stream s @ map buf [0..<accepted s len]"
proof -
  let ?c = "if sending s then 0 else 1 :: nat"
  have busy: "out_ok (s\<lparr>sending := True\<rparr>)" using ok by (simp add: out_ok_def)
  have acc: "accepted s len = min (nat len) (?c + (BUF_SIZE - unat (outcount s)))"
    by (simp add: accepted_def pending_def)
  have fuel: "BUF_SIZE - unat (outcount s) < Suc (Suc BUF_SIZE)" by simp
  have c: "int ?c \<le> len" using len by auto
  from sio_writes_loop_ok [OF busy fuel c] obtain s1 where
    s1: "sio_writes_loop (Suc (Suc BUF_SIZE)) buf ?c len s = Inr (accepted s len, s1)" "out_ok (s1\<lparr>sending := True\<rparr>)"
      "sending s1 = sending s" "txd s1 = txd s" "pending s1 = pending s @ map buf [?c..<accepted s len]"
    unfolding acc by blast
  show ?thesis
  proof (cases "sending s")
    case True
    then have "sio_writes buf len s = Inr (accepted s len, s1)"
      using s1(1,3) by (simp add: sio_writes_def kern_simps del: sio_writes_loop.simps)
    moreover have "out_ok s1" using s1(2,3) True by (simp add: out_ok_def)
    ultimately show ?thesis using s1 True by (simp add: stream_def)
  next
    case False
    have none: "pending s = []" using ok False by (simp add: out_ok_def pending_def)
    let ?s = "s1\<lparr>sending := True, txd := txd s1 @ [buf 0], ier := ier s1 OR UA4_IER_TX_INT_ENABLE\<rparr>"
    have "sio_writec (buf 0) s1 = Inr ((), ?s)"
      using first False s1(3) by (simp add: sio_writec_def sio_writec1_def kern_simps SIO_TX_def SIO_RX_def)
    then have "sio_writes buf len s = Inr (accepted s len, ?s)"
      using s1(1,3) False by (simp add: sio_writes_def kern_simps del: sio_writes_loop.simps)
    moreover have "stream ?s = stream s @ map buf [0..<accepted s len]"
    proof -
      have "0 < accepted s len" using len False by (simp add: accepted_def)
      then have "map buf [0..<accepted s len] = buf 0 # map buf [1..<accepted s len]" by (simp add: upt_conv_Cons)
      then show ?thesis using s1(4,5) False none by (simp add: stream_def)
    qed
    moreover have "out_ok ?s" using s1(2) by (simp add: out_ok_txd)
    ultimately show ?thesis by auto
  qed
qed

text \<open>A line feed at the start of a write to an idle line comes out last.\<close>

lemma sio_writes_newline:
  assumes ok: "out_ok s" and idle: "\<not> sending s" and len: "1 \<le> len" "nat len \<le> BUF_SIZE" and first: "buf 0 = LF"
  shows "\<exists>s'. sio_writes buf len s = Inr (nat len, s') \<and> stream s' = stream s @ [CR] @ map buf [1..<nat len] @ [LF]"
proof -
  have busy: "out_ok (s\<lparr>sending := True\<rparr>)" using ok by (simp add: out_ok_def)
  have o: "outcount s = 0" "outnext s = 0" "outlast s = 0" "pending s = []" using ok idle by (auto simp: out_ok_def pending_def)
  have acc: "min (nat len) (1 + (BUF_SIZE - unat (outcount s))) = nat len" using len o by simp
  from sio_writes_loop_ok [OF busy, of "Suc (Suc BUF_SIZE)" 1 len buf] obtain s1 where
    s1: "sio_writes_loop (Suc (Suc BUF_SIZE)) buf 1 len s = Inr (nat len, s1)" "out_ok (s1\<lparr>sending := True\<rparr>)"
      "\<not> sending s1" "txd s1 = txd s" "pending s1 = map buf [1..<nat len]"
    unfolding acc using len idle o by auto
  define s2 where "s2 = s1\<lparr>sending := True, txd := txd s1 @ [CR], ier := ier s1 OR UA4_IER_TX_INT_ENABLE\<rparr>"
  have ok2: "out_ok s2" "sending s2" "pending s2 = pending s1" using s1(2) by (simp_all add: s2_def out_ok_txd)
  have cnt: "unat (outcount s2) = nat len - 1"
    using arg_cong [OF s1(5), of length] by (simp add: pending_def s2_def)
  then have room: "unat (outcount s2) < BUF_SIZE" using len by simp
  note p = sio_put_ok(1,3) [OF ok2(1) room ok2(2), of LF]
  let ?s = "\<lambda>n. s2\<lparr>outbuffer := (outbuffer s2)[outlast s2 := LF], outlast := n, outcount := outcount s2 + 1\<rparr>"
  have "sio_writec (buf 0) s1 = Inr ((), ?s (Suc (outlast s2)))"
    using s1(3) p(1) ok2(2)
    by (simp add: sio_writec_def sio_writec1_def kern_simps SIO_TX_def SIO_RX_def first CR_def LF_def s2_def [symmetric] s2_def)
  then have "sio_writes buf len s = Inr (nat len, ?s (Suc (outlast s2)))"
    using s1(1,3) idle by (simp add: sio_writes_def kern_simps del: sio_writes_loop.simps)
  moreover have "stream (?s (Suc (outlast s2))) = txd s2 @ pending s2 @ [LF]"
    using p(2) by (simp add: stream_def pending_def)
  ultimately show ?thesis using s1(4,5) o ok2(3) by (simp add: stream_def s2_def)
qed

subsection \<open>Properties\<close>

definition fresh_line :: sio_t where
  "fresh_line = \<lparr>inbuffer = replicate BUF_SIZE 0, inlast = 0, innext = 0, incount = 0, outbuffer = replicate BUF_SIZE 0,
     outlast = 0, outnext = 0, outcount = 0, sending = False, ier = 0, txd = []\<rparr>"

lemma fresh_line_ok: "in_ok fresh_line" "out_ok fresh_line" "input fresh_line = []" "pending fresh_line = []" "stream fresh_line = []"
  "\<not> sending fresh_line"
  by (simp_all add: fresh_line_def in_ok_def in_mid_def out_ok_def input_def pending_def stream_def BUF_SIZE_def)

text \<open>
  Serial output (C21). A write of at least one character, to a busy line or with a first character other
  than a line feed, accepts as many characters as the buffer has room for (one more on an idle line, which
  sends the first at once) and appends exactly these, in order, to the sequence of characters the line
  sends. When the line is idle and the first character is a line feed, a write of at most \<^verbatim>\<open>BUF_SIZE\<close> characters
  sends a carriage return first, then the other characters, and the line feed only after them.
\<close>

theorem serial_output_in_order:
  assumes "out_ok s" "1 \<le> len"
  shows "if sending s \<or> buf 0 \<noteq> LF
    then \<exists>s'. sio_writes buf len s = Inr (accepted s len, s') \<and> out_ok s' \<and> sending s' \<and>
      stream s' = stream s @ map buf [0..<accepted s len]
    else nat len \<le> BUF_SIZE \<longrightarrow> (\<exists>s'. sio_writes buf len s = Inr (nat len, s') \<and> stream s' = stream s @ [CR] @ map buf [1..<nat len] @ [LF])"
proof (cases "sending s \<or> buf 0 \<noteq> LF")
  case True
  with sio_writes_ok [OF assms, of buf] show ?thesis by simp
next
  case False
  with sio_writes_newline [OF assms(1) _ assms(2), of buf] show ?thesis by simp
qed

theorem serial_output_in_order_witness:
  "(\<exists>s'. sio_writes (\<lambda>j. of_nat j + 65) 3 fresh_line = Inr (3, s') \<and> out_ok s' \<and> sending s' \<and> stream s' = [65, 66, 67]) \<and>
   (\<exists>s'. sio_writes (\<lambda>j. if j = 0 then LF else 65) 3 fresh_line = Inr (3, s') \<and> stream s' = [CR, 65, 65, LF])"
  using serial_output_in_order [of fresh_line 3 "\<lambda>j. of_nat j + 65"] serial_output_in_order [of fresh_line 3 "\<lambda>j. if j = 0 then LF else 65"]
  by (simp add: fresh_line_ok accepted_def BUF_SIZE_def LF_def upt_rec)

lemma transmits:
  assumes "out_ok s" "length is = length (pending s)"
  shows "\<exists>s'. kfor is (\<lambda>_. sio_transmit) s = Inr ((), s') \<and> out_ok s' \<and> stream s' = stream s \<and> pending s' = []"
  using assms
proof (induction "is" arbitrary: s)
  case (Cons i "is")
  then obtain c cs where p: "pending s = c # cs" by (cases "pending s") auto
  obtain s1 where s1: "sio_transmit s = Inr ((), s1)" "out_ok s1" "stream s1 = stream s" "pending s1 = cs"
    using sio_transmit_ok [OF Cons.prems(1)] p by auto
  from Cons.IH [OF s1(2)] Cons.prems(2) p s1 show ?case by (auto simp: kern_simps)
qed (simp add: kern_simps)

text \<open>
  The line drains (C22). With no further writes, one transmitter interrupt for every pending character
  sends them all, in order, and the next one leaves the line idle.
\<close>

theorem serial_line_drains:
  assumes "out_ok s"
  shows "\<exists>s'. kfor [0..<Suc (length (pending s))] (\<lambda>_. sio_transmit) s = Inr ((), s') \<and> txd s' = stream s \<and> \<not> sending s' \<and> out_ok s'"
proof -
  obtain s1 where s1: "kfor [0..<length (pending s)] (\<lambda>_. sio_transmit) s = Inr ((), s1)" "out_ok s1" "stream s1 = stream s" "pending s1 = []"
    using transmits [OF assms, of "[0..<length (pending s)]"] by auto
  obtain s2 where "sio_transmit s1 = Inr ((), s2)" "out_ok s2" "stream s2 = stream s1" "pending s2 = []" "\<not> sending s2"
    using sio_transmit_ok [OF s1(2)] s1(4) by auto
  with s1 show ?thesis by (auto simp: kfor_append kern_simps stream_def)
qed

theorem serial_line_drains_witness:
  "\<exists>s'. kfor [0..<Suc (length (pending fresh_line))] (\<lambda>_. sio_transmit) fresh_line = Inr ((), s') \<and> txd s' = [] \<and> \<not> sending s' \<and> out_ok s'"
  using serial_line_drains [of fresh_line] by (simp add: fresh_line_ok)

text \<open>
  Serial input (C23). The input buffer is a queue of characters: a read takes the requested number from
  the front, or all there are; a received character is appended unless the buffer is full, and then it
  is dropped. The one exception is a store at the end of the array with characters already read: it is
  out of range.
\<close>

theorem serial_input_refines_queue:
  assumes "in_ok s"
  shows "(\<exists>s'. sio_reads len s = Inr (take (nat len) (input s), s') \<and> in_ok s' \<and> input s' = drop (nat len) (input s)) \<and>
    (if length (input s) = BUF_SIZE then sio_store ch s = Inr ((), s)
     else if inlast s = BUF_SIZE then sio_store ch s = Inl OutOfRange
     else \<exists>s'. sio_store ch s = Inr ((), s') \<and> in_ok s' \<and> input s' = input s @ [ch])"
proof -
  have len: "length (input s) \<le> BUF_SIZE" "inlast s \<le> BUF_SIZE" using in_okD(4,5) [OF assms] assms by (auto simp: in_ok_def in_mid_def)
  show ?thesis
    using sio_reads_ok [OF assms, of len] sio_store_full [OF assms, of ch] sio_store_overrun [OF assms, of ch]
      sio_store_ok [OF assms, of ch] len
    by (auto simp: nat_less_le)
qed

theorem serial_input_refines_queue_witness:
  "\<exists>s'. sio_store 88 fresh_line = Inr ((), s') \<and> in_ok s' \<and> input s' = [88]"
  using serial_input_refines_queue [OF fresh_line_ok(1), of 0 88]
  by (simp add: fresh_line_ok split: if_splits) (simp_all add: fresh_line_def BUF_SIZE_def)

text \<open>
  Overrun (C40). After the buffer has been filled once and has been read in part, the next received
  character is stored past the end of the buffer, although the buffer is not full.
\<close>

theorem serial_input_overrun:
  assumes "in_ok s" "input s = []" "length cs = BUF_SIZE" "0 < n" "n < int BUF_SIZE"
  shows "kbind (put_all sio_store cs) (\<lambda>_. kbind (sio_reads n) (\<lambda>_. sio_store ch)) s = Inl OutOfRange"
proof -
  have "incount s = 0" "inlast s = 0"
    using assms(1,2) in_okD(4) [OF assms(1)] by (auto simp: in_ok_def in_mid_def unsigned_eq_0_iff)
  then obtain s1 where s1: "put_all sio_store cs s = Inr ((), s1)" "in_ok s1" "input s1 = cs"
    using si.wp_put_all [OF assms(1), of cs] assms(2,3) by (auto simp: wp_iff)
  have last: "inlast s1 = BUF_SIZE" using in_okD(2,3,4) [OF s1(2)] s1(3) assms(3) by simp
  obtain s2 where s2: "sio_reads n s1 = Inr (take (nat n) cs, s2)" "in_ok s2" "input s2 = drop (nat n) cs"
    "inlast s2 = (if input s2 = [] then 0 else BUF_SIZE)"
    using sio_reads_ok [OF s1(2), of n] s1(3) last by auto
  have "input s2 \<noteq> []" "length (input s2) < BUF_SIZE" using s2(3) assms(3-5) by auto
  then have "sio_store ch s2 = Inl OutOfRange" using s2(4) by (intro sio_store_overrun [OF s2(2)]) simp_all
  with s1(1) s2(1) show ?thesis by (simp add: kern_simps)
qed

theorem serial_input_overrun_witness:
  "kbind (put_all sio_store (replicate BUF_SIZE 65)) (\<lambda>_. kbind (sio_reads 1) (\<lambda>_. sio_store 66)) fresh_line = Inl OutOfRange"
  using serial_input_overrun [OF fresh_line_ok(1,3), of "replicate BUF_SIZE 65" 1 66] by (simp add: BUF_SIZE_def)

end
