(* ===== verification/Kern_Keyboard.thy ===== *)
theory Kern_Keyboard
  imports Kern_Ring
begin

unbundle bit_operations_syntax

text \<open>
  The keyboard (\<^verbatim>\<open>baseline/c_io.c\<close>): scan codes are translated with the state of the shift and control
  keys and kept in a circular buffer of 200 characters. \<^verbatim>\<open>kbd\<close> is the sequence of scan codes the
  controller still has to deliver, \<^verbatim>\<open>screen\<close> the sequence of characters given to \<^verbatim>\<open>c_putchar\<close>; how the
  console draws them is not part of the model.
\<close>

subsection \<open>State and operations\<close>

record cio_t =
  input_buffer :: "8 word list"
  next_char :: nat
  next_space :: nat
  shift_key :: nat
  ctrl_mask :: "8 word"
  kbd :: "8 word list"
  screen :: "8 word list"

definition C_BUFSIZE :: nat where "C_BUFSIZE = 200"
definition EOT :: "8 word" where "EOT = 4"

definition scan_code_plain :: "8 word list" where
  "scan_code_plain =
    [255, 27, 49, 50, 51, 52, 53, 54, 55, 56, 57, 48, 45, 61, 8, 9,
     113, 119, 101, 114, 116, 121, 117, 105, 111, 112, 91, 93, 10, 255, 97, 115,
     100, 102, 103, 104, 106, 107, 108, 59, 39, 96, 255, 92, 122, 120, 99, 118,
     98, 110, 109, 44, 46, 47, 255, 42, 255, 32, 255, 255, 255, 255, 255, 255,
     255, 255, 255, 255, 255, 255, 255, 55, 56, 57, 45, 52, 53, 54, 43, 49,
     50, 51, 48, 46, 255, 255, 255, 255, 255, 255, 255, 255, 255, 255, 255, 255,
     255, 255, 255, 255, 255, 255, 255, 255, 255, 255, 255, 255, 255, 255, 255, 255,
     255, 255, 255, 255, 255, 255, 255, 255, 255, 255, 255, 255, 255, 255, 255, 255]"

definition scan_code_shifted :: "8 word list" where
  "scan_code_shifted =
    [255, 27, 33, 64, 35, 36, 37, 94, 38, 42, 40, 41, 95, 43, 8, 9,
     81, 87, 69, 82, 84, 89, 85, 73, 79, 80, 123, 125, 10, 255, 65, 83,
     68, 70, 71, 72, 74, 75, 76, 58, 34, 126, 255, 124, 90, 88, 67, 86,
     66, 78, 77, 60, 62, 63, 255, 42, 255, 32, 255, 255, 255, 255, 255, 255,
     255, 255, 255, 255, 255, 255, 255, 55, 56, 57, 45, 52, 53, 54, 43, 49,
     50, 51, 48, 46, 255, 255, 255, 255, 255, 255, 255, 255, 255, 255, 255, 255,
     255, 255, 255, 255, 255, 255, 255, 255, 255, 255, 255, 255, 255, 255, 255, 255,
     255, 255, 255, 255, 255, 255, 255, 255, 255, 255, 255, 255, 255, 255, 255, 255]"

definition scan_code :: "nat \<Rightarrow> 8 word list" where
  "scan_code sh = (if sh = 0 then scan_code_plain else scan_code_shifted)"

definition c_increment :: "nat \<Rightarrow> nat" where
  "c_increment p = (if p + 1 \<ge> C_BUFSIZE then 0 else p + 1)"

text \<open>Storing a character: one place of the buffer always stays free.\<close>

definition c_store :: "8 word \<Rightarrow> (cio_t, unit) kern" where
  "c_store ch s =
     (let next = c_increment (next_space s) in
      if next \<noteq> next_char s
      then Inr ((), s\<lparr>input_buffer := (input_buffer s)[next_space s := ch], next_space := next\<rparr>)
      else Inr ((), s))"

text \<open>
  The character constant \<^verbatim>\<open>'\377'\<close> has the value -1 where \<^verbatim>\<open>char\<close> is signed, while the table holds
  \<^verbatim>\<open>unsigned char\<close>: the comparison that should skip undefined scan codes is between \<^verbatim>\<open>int\<close>s.
\<close>

definition UNDEFINED_CODE :: int where "UNDEFINED_CODE = - 1"

definition key_release :: "8 word \<Rightarrow> bool" where "key_release code \<longleftrightarrow> code AND 0x80 \<noteq> 0"

definition c_input_scan_code :: "8 word \<Rightarrow> (cio_t, unit) kern" where
  "c_input_scan_code code =
     (if code = 0x2a \<or> code = 0x36 then kmodify (\<lambda>s. s\<lparr>shift_key := 1\<rparr>)
      else if code = 0xaa \<or> code = 0xb6 then kmodify (\<lambda>s. s\<lparr>shift_key := 0\<rparr>)
      else if code = 0x1d then kmodify (\<lambda>s. s\<lparr>ctrl_mask := 0x1f\<rparr>)
      else if code = 0x9d then kmodify (\<lambda>s. s\<lparr>ctrl_mask := 0xff\<rparr>)
      else if \<not> key_release code then
        kbind (kget (\<lambda>s. scan_code (shift_key s) ! unat code)) (\<lambda>ch.
        if uint ch \<noteq> UNDEFINED_CODE then kbind (kget ctrl_mask) (\<lambda>m. c_store (ch AND m)) else kreturn ())
      else kreturn ())"

text \<open>The keyboard interrupt reads one scan code from the controller.\<close>

definition c_keyboard_isr :: "(cio_t, unit) kern" where
  "c_keyboard_isr s = (case kbd s of
       [] \<Rightarrow> Inr ((), s)
     | code # rest \<Rightarrow> c_input_scan_code code (s\<lparr>kbd := rest\<rparr>))"

definition c_putchar :: "8 word \<Rightarrow> (cio_t, unit) kern" where
  "c_putchar c = kmodify (\<lambda>s. s\<lparr>screen := screen s @ [c]\<rparr>)"

text \<open>
  Inside the kernel interrupts are disabled, so a read from the empty buffer polls the controller;
  it never returns when no further character comes.
\<close>

fun c_poll :: "8 word list \<Rightarrow> (cio_t, unit) kern" where
  "c_poll codes s =
     (if next_char s \<noteq> next_space s then Inr ((), s\<lparr>kbd := codes\<rparr>)
      else (case codes of
              [] \<Rightarrow> Inl Diverges
            | code # rest \<Rightarrow> kbind (c_input_scan_code code) (\<lambda>_. c_poll rest) s))"

declare c_poll.simps [simp del]

definition c_take :: "(cio_t, 8 word) kern" where
  "c_take s = Inr (input_buffer s ! next_char s, s\<lparr>next_char := c_increment (next_char s)\<rparr>)"

definition c_getchar :: "(cio_t, 8 word) kern" where
  "c_getchar =
     kbind (kget kbd) (\<lambda>codes.
     kbind (c_poll codes) (\<lambda>_.
     kbind c_take (\<lambda>c.
     kbind (if c \<noteq> EOT then c_putchar c else kreturn ()) (\<lambda>_.
     kreturn c))))"

text \<open>\<^verbatim>\<open>c_gets\<close> returns the characters it stores, without the final NUL; \<^verbatim>\<open>size\<close> counts down to one.\<close>

primrec c_gets_loop :: "nat \<Rightarrow> (cio_t, 8 word list) kern" where
  "c_gets_loop 0 = kreturn []"
| "c_gets_loop (Suc sz) =
     kbind c_getchar (\<lambda>ch.
     if ch = EOT then kreturn []
     else if ch = 10 then kreturn [ch]
     else kbind (c_gets_loop sz) (\<lambda>rest. kreturn (ch # rest)))"

definition c_gets :: "32 word \<Rightarrow> (cio_t, 8 word list) kern" where
  "c_gets sz = c_gets_loop (unat sz - 1)"

definition c_input_queue :: "cio_t \<Rightarrow> int" where
  "c_input_queue s =
     (let n = int (next_space s) - int (next_char s) in if n < 0 then n + int C_BUFSIZE else n)"

subsection \<open>The buffer is a queue\<close>

definition typed :: "cio_t \<Rightarrow> 8 word list" where
  "typed s = ring (input_buffer s) (next_char s) (nat (c_input_queue s))"

definition cio_ok :: "cio_t \<Rightarrow> bool" where
  "cio_ok s \<longleftrightarrow> length (input_buffer s) = C_BUFSIZE \<and> next_char s < C_BUFSIZE \<and> next_space s < C_BUFSIZE"

lemma c_increment_mod: "p < C_BUFSIZE \<Longrightarrow> c_increment p = Suc p mod C_BUFSIZE"
  by (auto simp: c_increment_def mod_Suc)

lemma c_input_queue_nat:
  "nat (c_input_queue s) = (if next_char s \<le> next_space s then next_space s - next_char s
     else C_BUFSIZE + next_space s - next_char s)"
proof (cases "next_char s \<le> next_space s")
  case False
  then have "c_input_queue s = int (C_BUFSIZE + next_space s) - int (next_char s)" by (simp add: c_input_queue_def)
  then show ?thesis using False by simp
qed (simp add: c_input_queue_def)

lemma c_input_queue_mod:
  assumes "cio_ok s"
  shows "nat (c_input_queue s) < C_BUFSIZE"
    "(next_char s + nat (c_input_queue s)) mod C_BUFSIZE = next_space s" "length (typed s) = nat (c_input_queue s)"
    "0 \<le> c_input_queue s"
proof -
  have o: "next_char s < C_BUFSIZE" "next_space s < C_BUFSIZE" using assms by (auto simp: cio_ok_def)
  show "nat (c_input_queue s) < C_BUFSIZE" using o unfolding c_input_queue_nat by (simp; linarith)
  show "(next_char s + nat (c_input_queue s)) mod C_BUFSIZE = next_space s"
    using o by (cases "next_char s \<le> next_space s") (simp_all add: c_input_queue_nat)
  show "length (typed s) = nat (c_input_queue s)" by (simp add: typed_def)
  show "0 \<le> c_input_queue s" using o by (simp add: c_input_queue_def Let_def)
qed

lemma queue_full:
  assumes "cio_ok s"
  shows "c_increment (next_space s) = next_char s \<longleftrightarrow> length (typed s) = 199"
    "c_increment (next_space s) \<noteq> next_char s \<Longrightarrow>
       nat (c_input_queue (s\<lparr>input_buffer := b, next_space := c_increment (next_space s)\<rparr>)) = Suc (nat (c_input_queue s))"
proof -
  have o: "next_char s < 200" "next_space s < 200" using assms by (auto simp: cio_ok_def C_BUFSIZE_def)
  show "c_increment (next_space s) = next_char s \<longleftrightarrow> length (typed s) = 199"
    using o by (auto simp: c_input_queue_mod(3) [OF assms] c_input_queue_nat c_increment_def C_BUFSIZE_def)
  show "nat (c_input_queue (s\<lparr>input_buffer := b, next_space := c_increment (next_space s)\<rparr>)) = Suc (nat (c_input_queue s))"
    if "c_increment (next_space s) \<noteq> next_char s"
    using o that by (auto simp: c_input_queue_nat c_increment_def C_BUFSIZE_def split: if_splits)
qed

lemma c_store_ok:
  assumes ok: "cio_ok s" and room: "length (typed s) < 199"
  shows "\<exists>s'. c_store ch s = Inr ((), s') \<and> cio_ok s' \<and> typed s' = typed s @ [ch]"
proof -
  note q = c_input_queue_mod [OF ok]
  have o: "length (input_buffer s) = C_BUFSIZE" "next_char s < C_BUFSIZE" "next_space s < C_BUFSIZE"
    using ok by (auto simp: cio_ok_def)
  have nf: "c_increment (next_space s) \<noteq> next_char s" using room queue_full(1) [OF ok] by simp
  let ?s = "s\<lparr>input_buffer := (input_buffer s)[next_space s := ch], next_space := c_increment (next_space s)\<rparr>"
  have "nat (c_input_queue ?s) = Suc (nat (c_input_queue s))"
    by (rule queue_full(2) [OF ok nf])
  then have "typed ?s = typed s @ [ch]"
    using ring_push [of "next_char s" "input_buffer s" "nat (c_input_queue s)" ch] o q(1,2) by (simp add: typed_def)
  moreover have "cio_ok ?s" using o by (simp add: cio_ok_def c_increment_def)
  ultimately show ?thesis using nf by (simp add: c_store_def Let_def)
qed

lemma c_store_full: "cio_ok s \<Longrightarrow> length (typed s) = 199 \<Longrightarrow> c_store ch s = Inr ((), s)"
  using queue_full(1) [of s] by (simp add: c_store_def Let_def)

lemma typed_bound: "cio_ok s \<Longrightarrow> length (typed s) \<le> 199"
  using c_input_queue_mod(1,3) [of s] by (simp add: C_BUFSIZE_def)

lemma c_take_ok:
  assumes ok: "cio_ok s" and t: "typed s = c # cs"
  shows "c_take s = Inr (c, s\<lparr>next_char := c_increment (next_char s)\<rparr>)" "cio_ok (s\<lparr>next_char := c_increment (next_char s)\<rparr>)"
    "typed (s\<lparr>next_char := c_increment (next_char s)\<rparr>) = cs" "next_char s \<noteq> next_space s"
proof -
  note q = c_input_queue_mod [OF ok]
  have o: "length (input_buffer s) = C_BUFSIZE" "next_char s < C_BUFSIZE" "next_space s < C_BUFSIZE"
    using ok by (auto simp: cio_ok_def)
  let ?s = "s\<lparr>next_char := c_increment (next_char s)\<rparr>"
  have n: "nat (c_input_queue s) = Suc (length cs)" using q(3) t by simp
  then show ne: "next_char s \<noteq> next_space s" by (auto simp: c_input_queue_nat)
  have "nat (c_input_queue ?s) = length cs"
    using n o by (auto simp: c_input_queue_nat c_increment_def C_BUFSIZE_def split: if_splits)
  then have r: "typed s = input_buffer s ! next_char s # typed ?s"
    using ring_Suc [of "next_char s" "input_buffer s" "length cs"] o c_increment_mod [OF o(2)] by (simp add: typed_def n)
  then show "typed ?s = cs" "c_take s = Inr (c, ?s)" using t by (simp_all add: c_take_def)
  show "cio_ok ?s" using o by (simp add: cio_ok_def c_increment_def)
qed

interpretation ci: byte_buffer cio_ok typed "\<lambda>s. 199 - length (typed s)" c_store c_take
proof (unfold_locales, goal_cases)
  case (1 s x)
  then show ?case using c_store_ok [of s x] by force
next
  case (2 s x xs)
  then show ?case using c_take_ok [of s x xs] by auto
qed

subsection \<open>Keys and lines\<close>

lemma cio_ok_frame [simp]:
  "cio_ok (s\<lparr>kbd := v\<rparr>) = cio_ok s" "cio_ok (s\<lparr>screen := w\<rparr>) = cio_ok s" "cio_ok (s\<lparr>shift_key := n\<rparr>) = cio_ok s"
  "cio_ok (s\<lparr>ctrl_mask := m\<rparr>) = cio_ok s"
  "typed (s\<lparr>kbd := v\<rparr>) = typed s" "typed (s\<lparr>screen := w\<rparr>) = typed s" "typed (s\<lparr>shift_key := n\<rparr>) = typed s"
  "typed (s\<lparr>ctrl_mask := m\<rparr>) = typed s"
  by (simp_all add: cio_ok_def typed_def c_input_queue_def)

text \<open>
  What a scan code stores, if anything: the masked entry of the table for every press that is not one of shift or
  control. The entry 0xFF of a key without a character is no exception, as the test against \<^verbatim>\<open>'\377'\<close> never
  succeeds.
\<close>

definition key_char :: "cio_t \<Rightarrow> 8 word \<Rightarrow> 8 word option" where
  "key_char s code =
     (if code \<in> {0x2a, 0x36, 0x1d} \<or> key_release code then None
      else Some (scan_code (shift_key s) ! unat code AND ctrl_mask s))"

lemma scan_code_modifiers:
  assumes "c_input_scan_code code s = Inr ((), s')"
  shows "shift_key s' = (if code = 0x2a \<or> code = 0x36 then 1 else if code = 0xaa \<or> code = 0xb6 then 0 else shift_key s)"
    "ctrl_mask s' = (if code = 0x1d then 0x1f else if code = 0x9d then 0xff else ctrl_mask s)"
  using assms by (auto simp: c_input_scan_code_def kern_simps c_store_def Let_def split: if_splits)

lemma scan_code_ok:
  assumes "cio_ok s"
  shows "\<exists>s'. c_input_scan_code code s = Inr ((), s') \<and> cio_ok s' \<and>
    typed s' = (case key_char s code of Some ch \<Rightarrow> if length (typed s) < 199 then typed s @ [ch] else typed s | None \<Rightarrow> typed s) \<and>
    kbd s' = kbd s \<and> screen s' = screen s"
proof -
  have up: "key_release 0xaa" "key_release 0xb6" "key_release 0x9d" by (simp_all add: key_release_def)
  have st: "kbd s' = kbd s \<and> screen s' = screen s" if "c_store ch s = Inr ((), s')" for s' ch
    using that by (auto simp: c_store_def Let_def split: if_splits)
  have u: "uint (ch :: 8 word) \<noteq> UNDEFINED_CODE" for ch
  proof -
    have "0 \<le> uint ch" by simp
    then show ?thesis unfolding UNDEFINED_CODE_def by linarith
  qed
  show ?thesis
  proof (cases "key_char s code")
    case None
    then show ?thesis using assms by (auto simp: c_input_scan_code_def key_char_def kern_simps split: if_splits)
  next
    case (Some ch)
    then have c: "\<not> key_release code" "code \<noteq> 0x2a" "code \<noteq> 0x36" "code \<noteq> 0x1d"
      "ch = scan_code (shift_key s) ! unat code AND ctrl_mask s"
      by (simp_all add: key_char_def split: if_splits)
    have "code \<noteq> 0xaa" "code \<noteq> 0xb6" "code \<noteq> 0x9d" using c(1) up by metis+
    then have "c_input_scan_code code s = c_store (scan_code (shift_key s) ! unat code AND ctrl_mask s) s"
      using c(1-4) u by (simp add: c_input_scan_code_def kbind_steps)
    then have "c_input_scan_code code s = c_store ch s" unfolding c(5) .
    moreover obtain s' where "c_store ch s = Inr ((), s')" "cio_ok s'"
      "typed s' = (if length (typed s) < 199 then typed s @ [ch] else typed s)"
    proof (cases "length (typed s) < 199")
      case False
      then have "length (typed s) = 199" using typed_bound [OF assms] by simp
      with False c_store_full [OF assms] assms that show ?thesis by simp
    next
      case True
      with c_store_ok [OF assms True, of ch] that show ?thesis by auto
    qed
    ultimately show ?thesis using st Some by simp
  qed
qed

text \<open>A read of a line that is already in the buffer returns it without waiting.\<close>

lemma c_getchar_ok:
  assumes ok: "cio_ok s" and t: "typed s = c # cs"
  shows "\<exists>s'. c_getchar s = Inr (c, s') \<and> cio_ok s' \<and> typed s' = cs \<and> kbd s' = kbd s \<and>
    screen s' = screen s @ (if c = EOT then [] else [c])"
  using c_take_ok [OF ok t]
  by (auto simp: c_getchar_def kern_simps c_poll.simps [of "kbd s"] c_putchar_def)

text \<open>The line that a read of at most \<^verbatim>\<open>n\<close> characters takes from the front of a sequence, and the rest.\<close>

fun line :: "nat \<Rightarrow> 8 word list \<Rightarrow> 8 word list \<times> 8 word list" where
  "line 0 cs = ([], cs)"
| "line (Suc n) [] = ([], [])"
| "line (Suc n) (c # cs) =
     (if c = EOT then ([], cs) else if c = 10 then ([c], cs) else (case line n cs of (l, r) \<Rightarrow> (c # l, r)))"

lemma c_gets_loop_ok:
  assumes "cio_ok s" "n \<le> length (typed s) \<or> EOT \<in> set (typed s) \<or> 10 \<in> set (typed s)"
  shows "\<exists>s'. c_gets_loop n s = Inr (fst (line n (typed s)), s') \<and> cio_ok s' \<and> typed s' = snd (line n (typed s)) \<and>
    screen s' = screen s @ fst (line n (typed s)) \<and> kbd s' = kbd s"
  using assms
proof (induction n arbitrary: s)
  case (Suc n)
  obtain c cs where t: "typed s = c # cs" using Suc.prems(2) by (cases "typed s") auto
  obtain s1 where s1: "c_getchar s = Inr (c, s1)" "cio_ok s1" "typed s1 = cs" "kbd s1 = kbd s"
    "screen s1 = screen s @ (if c = EOT then [] else [c])" using c_getchar_ok [OF Suc.prems(1) t] by blast
  show ?case
  proof (cases "c = EOT \<or> c = 10")
    case True
    then show ?thesis using s1 t by (auto simp: kern_simps EOT_def)
  next
    case False
    then have "n \<le> length (typed s1) \<or> EOT \<in> set (typed s1) \<or> 10 \<in> set (typed s1)" using Suc.prems(2) t s1(3) by auto
    from Suc.IH [OF s1(2) this] False s1 t show ?thesis
      by (auto simp: kern_simps split: prod.splits)
  qed
qed (auto simp: kern_simps)

subsection \<open>Properties\<close>

definition idle_keyboard :: cio_t where
  "idle_keyboard = \<lparr>input_buffer = replicate C_BUFSIZE 0, next_char = 198, next_space = 198, shift_key = 0, ctrl_mask = 0xff,
     kbd = [], screen = []\<rparr>"

lemma idle_keyboard_ok: "cio_ok idle_keyboard" "typed idle_keyboard = []" "screen idle_keyboard = []"
  by (simp_all add: idle_keyboard_def cio_ok_def typed_def c_input_queue_def C_BUFSIZE_def)

text \<open>
  Typing ahead (C26). The keyboard buffer gives characters back in the order they were typed, across
  the end of the array, as long as no more than 199 are waiting.
\<close>

theorem keyboard_type_ahead:
  assumes "cio_ok s" "length xs \<le> 199 - length (typed s)"
  shows "wp (kbind (put_all c_store xs) (\<lambda>_. get_all c_take (length (typed s) + length xs)))
    (\<lambda>ys s'. cio_ok s' \<and> ys = typed s @ xs \<and> typed s' = []) s"
  by (rule ci.in_order [OF assms])

theorem keyboard_type_ahead_witness:
  "wp (kbind (put_all c_store [97, 98, 99, 100]) (\<lambda>_. get_all c_take 4)) (\<lambda>ys s'. cio_ok s' \<and> ys = [97, 98, 99, 100] \<and> typed s' = []) idle_keyboard"
  using keyboard_type_ahead [OF idle_keyboard_ok(1), of "[97, 98, 99, 100]"]
  by (simp add: idle_keyboard_ok eval_nat_numeral del: put_all.simps get_all.simps)

text \<open>
  A key (C25). A scan code from the keyboard always leaves a buffer of at most 199 characters. A release and the
  press of a shift or control key append nothing, and set the state of shift and control. A press of any other
  key appends the entry of the table for the present state of shift, masked by that of control, unless
  the buffer is full; this includes the keys the table has no character for, whose entry 0xFF is appended
  too, although the comment in the code says that undefined scan codes are ignored.
\<close>

theorem keyboard_key:
  assumes "cio_ok s"
  shows "\<exists>s'. c_input_scan_code code s = Inr ((), s') \<and> cio_ok s' \<and> length (typed s') \<le> 199 \<and>
    typed s' = typed s @ (if code \<in> {0x2a, 0x36, 0x1d} \<or> key_release code \<or> length (typed s) = 199 then []
      else [scan_code (shift_key s) ! unat code AND ctrl_mask s]) \<and>
    (code \<notin> {0x2a, 0x36, 0x1d} \<and> \<not> key_release code \<and> scan_code (shift_key s) ! unat code = 0xFF \<and> length (typed s) < 199 \<longrightarrow>
      typed s' = typed s @ [0xFF AND ctrl_mask s]) \<and>
    shift_key s' = (if code \<in> {0x2a, 0x36} then 1 else if code \<in> {0xaa, 0xb6} then 0 else shift_key s) \<and>
    ctrl_mask s' = (if code = 0x1d then 0x1f else if code = 0x9d then 0xff else ctrl_mask s)"
proof -
  obtain s' where s': "c_input_scan_code code s = Inr ((), s')" "cio_ok s'"
    "typed s' = (case key_char s code of Some ch \<Rightarrow> if length (typed s) < 199 then typed s @ [ch] else typed s | None \<Rightarrow> typed s)"
    using scan_code_ok [OF assms, of code] by blast
  have full: "length (typed s) < 199 \<longleftrightarrow> length (typed s) \<noteq> 199" using typed_bound [OF assms] by auto
  have "typed s' = typed s @ (if code \<in> {0x2a, 0x36, 0x1d} \<or> key_release code \<or> length (typed s) = 199 then []
      else [scan_code (shift_key s) ! unat code AND ctrl_mask s])"
    using s'(3) full by (simp add: key_char_def)
  moreover have "shift_key s' = (if code \<in> {0x2a, 0x36} then 1 else if code \<in> {0xaa, 0xb6} then 0 else shift_key s)"
    "ctrl_mask s' = (if code = 0x1d then 0x1f else if code = 0x9d then 0xff else ctrl_mask s)"
    using scan_code_modifiers [OF s'(1)] by simp_all
  moreover have "length (typed s') \<le> 199" by (rule typed_bound [OF s'(2)])
  ultimately show ?thesis using s'(1,2) by auto
qed

theorem keyboard_key_witness:
  "(\<exists>s'. c_input_scan_code 0x1e idle_keyboard = Inr ((), s') \<and> typed s' = [97]) \<and>
   (\<exists>s'. c_input_scan_code 0x3b idle_keyboard = Inr ((), s') \<and> typed s' = [0xFF])"
proof
  have "scan_code (shift_key idle_keyboard) ! unat (0x1e :: 8 word) AND ctrl_mask idle_keyboard = 97" "\<not> key_release 0x1e"
    by (simp_all add: key_release_def idle_keyboard_def scan_code_def scan_code_plain_def)
  then show "\<exists>s'. c_input_scan_code 0x1e idle_keyboard = Inr ((), s') \<and> typed s' = [97]"
    using keyboard_key [OF idle_keyboard_ok(1), of "0x1e"] by (auto simp: idle_keyboard_ok)
  have "scan_code (shift_key idle_keyboard) ! unat (0x3b :: 8 word) AND ctrl_mask idle_keyboard = 0xFF" "\<not> key_release 0x3b"
    by (simp_all add: key_release_def idle_keyboard_def scan_code_def scan_code_plain_def)
  then show "\<exists>s'. c_input_scan_code 0x3b idle_keyboard = Inr ((), s') \<and> typed s' = [0xFF]"
    using keyboard_key [OF idle_keyboard_ok(1), of "0x3b"] by (auto simp: idle_keyboard_ok)
qed

text \<open>
  A line (C24). When the buffer holds a whole line, an end of transmission, or as many characters as
  asked for, a read returns at once with the characters up to the line feed, the end of transmission
  or the limit; it echoes them and leaves the rest for later.
\<close>

theorem keyboard_line:
  assumes "cio_ok s" "unat sz - 1 \<le> length (typed s) \<or> EOT \<in> set (typed s) \<or> 10 \<in> set (typed s)"
  shows "\<exists>s'. c_gets sz s = Inr (fst (line (unat sz - 1) (typed s)), s') \<and> cio_ok s' \<and> typed s' = snd (line (unat sz - 1) (typed s)) \<and>
    screen s' = screen s @ fst (line (unat sz - 1) (typed s))"
  using c_gets_loop_ok [OF assms] by (auto simp: c_gets_def)

definition typed_line :: cio_t where
  "typed_line = \<lparr>input_buffer = (replicate C_BUFSIZE 0)[199 := 104, 0 := 105, 1 := 10, 2 := 120], next_char = 199, next_space = 3,
     shift_key = 0, ctrl_mask = 0xff, kbd = [], screen = []\<rparr>"

lemma typed_line_ok: "cio_ok typed_line" "typed typed_line = [104, 105, 10, 120]" "screen typed_line = []"
  by (simp_all add: typed_line_def cio_ok_def typed_def c_input_queue_def C_BUFSIZE_def ring_def upt_rec)

theorem keyboard_line_witness:
  "\<exists>s'. c_gets 80 typed_line = Inr ([104, 105, 10], s') \<and> cio_ok s' \<and> typed s' = [120] \<and> screen s' = [104, 105, 10]"
proof -
  have "line (Suc (Suc (Suc n))) [104, 105, 10, 120] = ([104, 105, 10], [120])" for n by (simp add: EOT_def)
  from this [of 76] have "line 79 [104, 105, 10, 120] = ([104, 105, 10], [120])" by simp
  then show ?thesis using keyboard_line [OF typed_line_ok(1), of 80] by (simp add: typed_line_ok)
qed

end
