(* ===== verification/Kern_Process.thy ===== *)
theory Kern_Process
  imports Kern_Queue Kern_Memory Kern_Serial Kern_Keyboard
begin

text \<open>
  Processes, their stacks and the scheduler (\<^verbatim>\<open>baseline/process.c\<close>, \<^verbatim>\<open>baseline/stack.c\<close>,
  \<^verbatim>\<open>baseline/scheduler.c\<close>) on one kernel state: the queue module, the memory module, the serial
  line, the keyboard, the process table and the globals of these files. A \<^verbatim>\<open>pcb_t *\<close> is the index of an element of \<^verbatim>\<open>_pcbs\<close>, a
  \<^verbatim>\<open>stack_t *\<close> the index of an element of \<^verbatim>\<open>_stacks\<close>, and a \<^verbatim>\<open>context_t *\<close> an address in memory.
\<close>

subsection \<open>Data\<close>

datatype state_t = PS_INVALID | PS_FREE | PS_NEW | PS_READY | PS_RUNNING | PS_SLEEPING | PS_WAITING
  | PS_BLOCKED | PS_KILLED | PS_ZOMBIE

fun state_code :: "state_t \<Rightarrow> int" where
  "state_code PS_INVALID = - 1" | "state_code PS_FREE = 0" | "state_code PS_NEW = 1"
| "state_code PS_READY = 2" | "state_code PS_RUNNING = 3" | "state_code PS_SLEEPING = 4"
| "state_code PS_WAITING = 5" | "state_code PS_BLOCKED = 6" | "state_code PS_KILLED = 7"
| "state_code PS_ZOMBIE = 8"

record pcb_t =
  context_ptr :: "32 word"
  stack_ptr :: "nat option"
  wakeup :: "32 word"
  exitstatus :: "32 word"
  memory_ptr :: "32 word"
  pid :: "16 word"
  ppid :: "16 word"
  children :: "16 word"
  state :: state_t
  prio :: "32 word"
  q_default :: "8 word"
  q_ticks :: "8 word"

text \<open>
  \<^verbatim>\<open>find_curr\<close> and \<^verbatim>\<open>find_target\<close> are the static variables of \<^verbatim>\<open>_pcb_find_child_of\<close>; \<^verbatim>\<open>stacks_base\<close> and
  \<^verbatim>\<open>do_exit\<close> are the link-time addresses of \<^verbatim>\<open>_stacks\<close> and of the user routine \<^verbatim>\<open>do_exit\<close>.
\<close>

record kernel =
  qs :: qmodule
  mm :: mmodule
  sio :: sio_t
  cio :: cio_t
  pcbs :: "nat \<Rightarrow> pcb_t"
  next_pid :: "16 word"
  find_curr :: "nat option"
  find_target :: int
  current :: "nat option"
  init_pcb :: "nat option"
  now :: "32 word"
  pinwheel :: int
  stacks_base :: "32 word"
  do_exit :: "32 word"

definition PID_INIT :: "16 word" where "PID_INIT = 1"
definition PID_FIRST_USER :: "16 word" where "PID_FIRST_USER = 100"
definition P_SYSTEM :: "32 word" where "P_SYSTEM = 0"
definition P_LOW :: "32 word" where "P_LOW = 2"
definition P_MIN :: "32 word" where "P_MIN = 3"
definition N_PRIOS :: nat where "N_PRIOS = 4"
definition QUANT_STD :: "8 word" where "QUANT_STD = 5"
definition STACK_BYTES :: nat where "STACK_BYTES = 4096"

lemmas proc_consts = PID_INIT_def PID_FIRST_USER_def P_SYSTEM_def P_LOW_def P_MIN_def N_PRIOS_def
  QUANT_STD_def STACK_BYTES_def

definition upd_pcb :: "nat \<Rightarrow> (pcb_t \<Rightarrow> pcb_t) \<Rightarrow> kernel \<Rightarrow> kernel" where
  "upd_pcb i f k = k\<lparr>pcbs := (pcbs k)(i := f (pcbs k i))\<rparr>"

definition upd_mem :: "(memory \<Rightarrow> memory) \<Rightarrow> kernel \<Rightarrow> kernel" where
  "upd_mem f k = k\<lparr>mm := (mm k)\<lparr>mem := f (mem (mm k))\<rparr>\<rparr>"

definition in_queues :: "(kernel \<Rightarrow> (qmodule, 'a) kern) \<Rightarrow> (kernel, 'a) kern" where
  "in_queues m k = (case m k (qs k) of Inl e \<Rightarrow> Inl e | Inr (x, s) \<Rightarrow> Inr (x, k\<lparr>qs := s\<rparr>))"

definition in_serial :: "(sio_t, 'a) kern \<Rightarrow> (kernel, 'a) kern" where
  "in_serial m k = (case m (sio k) of Inl e \<Rightarrow> Inl e | Inr (x, s) \<Rightarrow> Inr (x, k\<lparr>sio := s\<rparr>))"

definition in_console :: "(cio_t, 'a) kern \<Rightarrow> (kernel, 'a) kern" where
  "in_console m k = (case m (cio k) of Inl e \<Rightarrow> Inl e | Inr (x, s) \<Rightarrow> Inr (x, k\<lparr>cio := s\<rparr>))"

definition in_memory :: "(mmodule, 'a) kern \<Rightarrow> (kernel, 'a) kern" where
  "in_memory m k = (case m (mm k) of Inl e \<Rightarrow> Inl e | Inr (x, s) \<Rightarrow> Inr (x, k\<lparr>mm := s\<rparr>))"

subsection \<open>Queues of processes\<close>

text \<open>The comparison is only ever called on processes; the sleep queue holds nothing else.\<close>

definition cmp_wakeup :: "kernel \<Rightarrow> ptr \<Rightarrow> ptr \<Rightarrow> int" where
  "cmp_wakeup k v1 v2 = (case (v1, v2) of
       (PCB i, PCB j) \<Rightarrow>
         if wakeup (pcbs k i) < wakeup (pcbs k j) then - 1
         else if wakeup (pcbs k i) = wakeup (pcbs k j) then 0 else 1
     | _ \<Rightarrow> 0)"

definition call_cmp :: "kernel \<Rightarrow> cmpf_t \<Rightarrow> ptr \<Rightarrow> ptr \<Rightarrow> int" where
  "call_cmp k f = (case f of CMP_WAKEUP \<Rightarrow> cmp_wakeup k)"

definition enque :: "qid \<Rightarrow> ptr \<Rightarrow> (kernel, int) kern" where
  "enque q d = in_queues (\<lambda>k. q_enque (call_cmp k) (Some q) d)"

definition deque :: "qid \<Rightarrow> (kernel, int \<times> ptr) kern" where
  "deque q = in_queues (\<lambda>_. q_deque (Some q) (Some NULL))"

definition peek :: "qid \<Rightarrow> (kernel, int \<times> ptr) kern" where
  "peek q = in_queues (\<lambda>_. q_peek (Some q) (Some NULL))"

definition remove_from :: "qid \<Rightarrow> ptr \<Rightarrow> (kernel, int) kern" where
  "remove_from q d = in_queues (\<lambda>_. q_remove (Some q) d)"

definition reset :: "qid \<Rightarrow> cmpf_t option \<Rightarrow> (kernel, unit) kern" where
  "reset q c = in_queues (\<lambda>_. q_reset (Some q) c)"

definition q_size :: "qid \<Rightarrow> kernel \<Rightarrow> 32 word" where
  "q_size q k = qsize (queues (qs k) q)"

text \<open>The process behind a data pointer; a null or stack pointer is not one.\<close>

definition as_pcb :: "ptr \<Rightarrow> nat option" where
  "as_pcb d = (case d of PCB i \<Rightarrow> Some i | _ \<Rightarrow> None)"

definition as_stack :: "ptr \<Rightarrow> nat option" where
  "as_stack d = (case d of STACK j \<Rightarrow> Some j | _ \<Rightarrow> None)"

subsection \<open>Stacks\<close>

definition stk_alloc :: "(kernel, nat option) kern" where
  "stk_alloc =
     kbind (kget (q_size FREE_STACKS)) (\<lambda>n.
     if n < 1 then kreturn None
     else kbind (deque FREE_STACKS) (\<lambda>(status, new).
       if status \<noteq> E_SUCCESS \<or> new = NULL
       then kpanic ''_stk_alloc'' ''can't deque from non-empty queue''
       else kreturn (as_stack new)))"

definition stk_dealloc :: "nat option \<Rightarrow> (kernel, unit) kern" where
  "stk_dealloc stack = (case stack of
       None \<Rightarrow> kreturn ()
     | Some j \<Rightarrow> kbind (enque FREE_STACKS (STACK j)) (\<lambda>_. kreturn ()))"

definition stk_init :: "(kernel, unit) kern" where
  "stk_init =
     kbind (reset FREE_STACKS None) (\<lambda>_.
     kfor [0..<N_STACKS] (\<lambda>i. stk_dealloc (Some i)))"

definition stack_addr :: "kernel \<Rightarrow> nat \<Rightarrow> 32 word" where
  "stack_addr k j = stacks_base k + of_nat (STACK_BYTES * j)"

text \<open>The byte offsets of the fields of \<^verbatim>\<open>context_t\<close> and its size.\<close>

definition off_ss :: "32 word" where "off_ss = 0"
definition off_gs :: "32 word" where "off_gs = 4"
definition off_fs :: "32 word" where "off_fs = 8"
definition off_es :: "32 word" where "off_es = 12"
definition off_ds :: "32 word" where "off_ds = 16"
definition off_ebp :: "32 word" where "off_ebp = 28"
definition off_eax :: "32 word" where "off_eax = 48"
definition off_eip :: "32 word" where "off_eip = 60"
definition off_cs :: "32 word" where "off_cs = 64"
definition off_eflags :: "32 word" where "off_eflags = 68"
definition CONTEXT_SIZE :: "32 word" where "CONTEXT_SIZE = 72"

lemmas ctx_offsets = off_ss_def off_gs_def off_fs_def off_es_def off_ds_def off_ebp_def off_eax_def
  off_eip_def off_cs_def off_eflags_def CONTEXT_SIZE_def

text \<open>\<^verbatim>\<open>DEFAULT_EFLAGS\<close> and the segment selectors of \<^verbatim>\<open>x86arch.h\<close> and \<^verbatim>\<open>bootstrap.h\<close>.\<close>

definition DEFAULT_EFLAGS :: "32 word" where "DEFAULT_EFLAGS = 0x202"
definition GDT_CODE :: "32 word" where "GDT_CODE = 0x10"
definition GDT_DATA :: "32 word" where "GDT_DATA = 0x18"
definition GDT_STACK :: "32 word" where "GDT_STACK = 0x20"

definition stk_setup :: "nat option \<Rightarrow> 32 word \<Rightarrow> 32 word \<Rightarrow> (kernel, 32 word) kern" where
  "stk_setup stack entry arg k = (case stack of
       None \<Rightarrow> Inr (0, k)
     | Some j \<Rightarrow>
         let base = stack_addr k j;
             k = upd_mem (kmemset STACK_BYTES base 0) k;
             top = base + of_nat STACK_BYTES;
             k = upd_mem (store32 (top - 4) 0) k;
             k = upd_mem (store32 (top - 8) arg) k;
             k = upd_mem (store32 (top - 12) (do_exit k)) k;
             ctx = top - 12 - CONTEXT_SIZE;
             k = upd_mem (store32 (ctx + off_eflags) DEFAULT_EFLAGS) k;
             k = upd_mem (store32 (ctx + off_eip) entry) k;
             k = upd_mem (store32 (ctx + off_ebp) 0) k;
             k = upd_mem (store32 (ctx + off_cs) GDT_CODE) k;
             k = upd_mem (store32 (ctx + off_ss) GDT_STACK) k;
             k = upd_mem (store32 (ctx + off_ds) GDT_DATA) k;
             k = upd_mem (store32 (ctx + off_es) GDT_DATA) k;
             k = upd_mem (store32 (ctx + off_fs) GDT_DATA) k;
             k = upd_mem (store32 (ctx + off_gs) GDT_DATA) k
         in Inr (ctx, k))"

subsection \<open>Process control blocks\<close>

definition pcb_dealloc :: "nat option \<Rightarrow> (kernel, unit) kern" where
  "pcb_dealloc p = (case p of
       None \<Rightarrow> kreturn ()
     | Some i \<Rightarrow>
         kbind (kmodify (upd_pcb i (\<lambda>pcb. pcb\<lparr>state := PS_FREE\<rparr>))) (\<lambda>_.
         kbind (kmodify (upd_pcb i (\<lambda>pcb. pcb\<lparr>pid := - 1, ppid := - 1\<rparr>))) (\<lambda>_.
         kbind (enque FREE_PCBS (PCB i)) (\<lambda>_. kreturn ()))))"

definition pcb_init :: "(kernel, unit) kern" where
  "pcb_init =
     kbind (reset FREE_PCBS None) (\<lambda>_.
     kbind (reset SLEEPING (Some CMP_WAKEUP)) (\<lambda>_.
     kbind (kfor [0..<N_PCBS] (\<lambda>i. pcb_dealloc (Some i))) (\<lambda>_.
     kmodify (\<lambda>k. k\<lparr>next_pid := PID_FIRST_USER\<rparr>))))"

definition pcb_cleanup :: "nat \<Rightarrow> (kernel, unit) kern" where
  "pcb_cleanup i =
     kbind (kget (\<lambda>k. stack_ptr (pcbs k i))) (\<lambda>stk.
     kbind (if stk \<noteq> None then stk_dealloc stk else kreturn ()) (\<lambda>_.
     pcb_dealloc (Some i)))"

definition pcb_alloc :: "(kernel, nat option) kern" where
  "pcb_alloc =
     kbind (kget (q_size FREE_PCBS)) (\<lambda>n.
     if n < 1 then kreturn None
     else kbind (deque FREE_PCBS) (\<lambda>(status, new).
       if status \<noteq> E_SUCCESS \<or> new = NULL
       then kpanic ''_pcb_alloc'' ''no free PCBs but size >= 1''
       else (case as_pcb new of
               None \<Rightarrow> kfail OutOfRange
             | Some i \<Rightarrow> kbind (kmodify (upd_pcb i (\<lambda>pcb. pcb\<lparr>state := PS_NEW\<rparr>))) (\<lambda>_. kreturn (Some i)))))"

definition pcb_find :: "16 word \<Rightarrow> kernel \<Rightarrow> nat option" where
  "pcb_find p k = List.find (\<lambda>i. p = pid (pcbs k i)) [0..<N_PCBS]"

text \<open>The iterator over the children of a process; \<^verbatim>\<open>-1\<close> continues the previous search.\<close>

definition pcb_find_child_of :: "int \<Rightarrow> (kernel, nat option) kern" where
  "pcb_find_child_of p k =
     (if p = - 1 \<and> find_curr k = None then Inl (KPanic ''_pcb_find_child_of'' ''ppid -1 but curr NULL'')
      else
        let (start, k) = (if p \<noteq> - 1 \<or> find_curr k = None then (0, k\<lparr>find_target := p\<rparr>)
                          else (Suc (the (find_curr k)), k))
        in case List.find (\<lambda>i. find_target k = sint (ppid (pcbs k i))) [start..<N_PCBS] of
             Some i \<Rightarrow> Inr (Some i, k\<lparr>find_curr := Some i\<rparr>)
           | None \<Rightarrow> Inr (None, k\<lparr>find_curr := None, find_target := - 1\<rparr>))"

subsection \<open>The scheduler\<close>

definition sched_init :: "(kernel, unit) kern" where
  "sched_init = kfor [0..<N_PRIOS] (\<lambda>i. reset (READY i) None)"

definition schedule :: "nat option \<Rightarrow> (kernel, unit) kern" where
  "schedule p = (case p of
       None \<Rightarrow> kreturn ()
     | Some i \<Rightarrow>
         kbind (kmodify (upd_pcb i (\<lambda>pcb. if prio pcb < P_SYSTEM \<or> prio pcb > P_MIN then pcb\<lparr>prio := P_LOW\<rparr> else pcb))) (\<lambda>_.
         kbind (kmodify (upd_pcb i (\<lambda>pcb. pcb\<lparr>state := PS_READY\<rparr>))) (\<lambda>_.
         kbind (kget (\<lambda>k. unat (prio (pcbs k i)))) (\<lambda>pr.
         kbind (enque (READY pr) (PCB i)) (\<lambda>status.
         if status \<noteq> E_SUCCESS then kpanic ''_schedule'' ''can't enque ready PCB'' else kreturn ())))))"

definition dispatch :: "(kernel, unit) kern" where
  "dispatch =
     kbind (kget (\<lambda>k. List.find (\<lambda>p. q_size (READY p) k > 0) [0..<N_PRIOS])) (\<lambda>pr.
     case pr of
       None \<Rightarrow> kpanic ''_dispatch'' ''no ready processes!?!?!''
     | Some p \<Rightarrow>
         kbind (deque (READY p)) (\<lambda>(status, d).
         if status \<noteq> E_SUCCESS \<or> d = NULL then kpanic ''_dispatch'' ''can't deque ready PCB''
         else (case as_pcb d of
                 None \<Rightarrow> kfail OutOfRange
               | Some c \<Rightarrow>
                   kbind (kmodify (\<lambda>k. k\<lparr>current := Some c\<rparr>)) (\<lambda>_.
                   kbind (kmodify (upd_pcb c (\<lambda>pcb. pcb\<lparr>state := PS_RUNNING\<rparr>))) (\<lambda>_.
                   kbind (kmodify (upd_pcb c (\<lambda>pcb. pcb\<lparr>q_ticks := q_default pcb\<rparr>))) (\<lambda>_.
                   kmodify (\<lambda>k. k\<lparr>mm := set_return_pde (memory_ptr (pcbs k c)) (mm k)\<rparr>)))))))"

subsection \<open>Queues on the kernel state\<close>

definition cont :: "kernel \<Rightarrow> qid \<Rightarrow> ptr list" where
  "cont k q = contents (qs k) q"

lemma call_cmp_qs [simp]: "call_cmp (k\<lparr>qs := s\<rparr>) = call_cmp k"
  by (simp add: call_cmp_def cmp_wakeup_def fun_eq_iff split: cmpf_t.split ptr.split)

interpretation kq: queue_interface "\<lambda>k. qinv (qs k)" cont "\<lambda>k. room (qs k)"
  "\<lambda>k q. goes_after (call_cmp k) (orders (qs k) q)" enque "\<lambda>q v. in_queues (\<lambda>_. q_deque (Some q) (Some v))" remove_from
proof (unfold_locales, goal_cases)
  case (1 k q d)
  then obtain s' where "q_enque (call_cmp k) (Some q) d (qs k) = Inr (E_SUCCESS, s')" "qinv s'"
    "contents s' = (contents (qs k))(q := place (goes_after (call_cmp k) (orders (qs k) q) d) d (contents (qs k) q))"
    "room (qs k) = Suc (room s')" "orders s' = orders (qs k)"
    using q_enque_ok [of "qs k" "call_cmp k" q d] by blast
  then show ?case
    by (auto simp: enque_def in_queues_def cont_def [abs_def])
next
  case (2 k q d)
  then show ?case by (auto simp: enque_def in_queues_def q_enque_full status_defs)
next
  case (3 k q d ds v)
  then show ?case
    using q_deque_ok [of "qs k" q d ds v]
    by (auto simp: in_queues_def cont_def [abs_def])
next
  case (4 k q v)
  then show ?case using q_deque_empty [of "qs k" q v] by (auto simp: in_queues_def cont_def status_defs)
next
  case (5 k d q)
  then show ?case
    using q_remove_ok [of "qs k" d q]
    by (auto simp: remove_from_def in_queues_def cont_def [abs_def])
qed

text \<open>
  The shape of the queues: \<^verbatim>\<open>H\<close> says in which queue each process is, \<^verbatim>\<open>S\<close> which stacks are free; every
  queue holds exactly the processes that are there, once each.
\<close>

definition qshape :: "qmodule \<Rightarrow> (nat \<Rightarrow> qid option) \<Rightarrow> nat set \<Rightarrow> bool" where
  "qshape s H S \<longleftrightarrow> qinv s \<and> orders s = (\<lambda>_. None)(SLEEPING := Some CMP_WAKEUP) \<and>
     (\<forall>q. distinct (contents s q)) \<and>
     (\<forall>q. q \<noteq> FREE_STACKS \<longrightarrow> set (contents s q) = PCB ` {i. i < N_PCBS \<and> H i = Some q}) \<and>
     set (contents s FREE_STACKS) = STACK ` S \<and> S \<subseteq> {..<N_STACKS} \<and> (\<forall>i. H i \<noteq> Some FREE_STACKS)"

lemma qshapeD:
  assumes "qshape s H S"
  shows "qinv s" "distinct (contents s q)" "q \<noteq> FREE_STACKS \<Longrightarrow> set (contents s q) = PCB ` {i. i < N_PCBS \<and> H i = Some q}"
    "set (contents s FREE_STACKS) = STACK ` S" "S \<subseteq> {..<N_STACKS}" "H i \<noteq> Some FREE_STACKS"
    "orders s = (\<lambda>_. None)(SLEEPING := Some CMP_WAKEUP)"
  using assms by (auto simp: qshape_def)

lemma qshape_room: "0 < room s" if shape: "qshape s H S"
proof (rule room_left)
  let ?A = "PCB ` {..<N_PCBS} \<union> STACK ` {..<N_STACKS}"
  show "qinv s" by (rule qshapeD(1) [OF shape])
  show "finite ?A" by simp
  have "card ?A \<le> N_PCBS + N_STACKS"
    using card_Un_le [of "PCB ` {..<N_PCBS}" "STACK ` {..<N_STACKS}"] card_image_le [of "{..<N_PCBS}" PCB]
      card_image_le [of "{..<N_STACKS}" STACK] by simp
  then show "card ?A < N_QNODES" by (simp add: N_QNODES_def)
  show "distinct (contents s q)" for q by (rule qshapeD(2) [OF shape])
  show "set (contents s q) \<subseteq> ?A" for q
    using qshapeD(3) [OF shape, of q] qshapeD(4,5) [OF shape] by (cases "q = FREE_STACKS") auto
  show "set (contents s q) \<inter> set (contents s q') = {}" if "q \<noteq> q'" for q q'
    using that qshapeD(3,4) [OF shape] by (cases "q = FREE_STACKS"; cases "q' = FREE_STACKS") auto
qed

lemma qshape_cong: "qshape s H S \<Longrightarrow> (\<And>i. i < N_PCBS \<Longrightarrow> H' i = H i) \<Longrightarrow> (\<And>i. H' i \<noteq> Some FREE_STACKS) \<Longrightarrow> qshape s H' S"
  by (auto simp: qshape_def)

lemma size_pos: "qsize (queues s q) = 0 \<longleftrightarrow> contents s q = []" if "qinv s"
proof -
  have rep: "qrep s (nodes s) (free_nodes s)" using that by (simp add: qinv_def)
  show ?thesis
    using of_nat_size_zero [OF qrep_bounds(3) [OF rep, of q]] qrepD(3) [OF rep refl, of q] by (simp add: contents_def)
qed

lemma wp_enque_pcb:
  assumes shape: "qshape (qs k) H S" and i: "H i = None" "i < N_PCBS" and q: "q \<noteq> FREE_STACKS"
    and Q: "\<And>s'. qshape s' (H(i := Some q)) S \<Longrightarrow>
       contents s' = (contents (qs k))(q := place (goes_after (call_cmp k) (orders (qs k) q) (PCB i)) (PCB i) (contents (qs k) q))
       \<Longrightarrow> Q E_SUCCESS (k\<lparr>qs := s'\<rparr>)"
  shows "wp (enque q (PCB i)) Q k"
proof -
  obtain s' where s': "q_enque (call_cmp k) (Some q) (PCB i) (qs k) = Inr (E_SUCCESS, s')" "qinv s'" "orders s' = orders (qs k)"
    "contents s' = (contents (qs k))(q := place (goes_after (call_cmp k) (orders (qs k) q) (PCB i)) (PCB i) (contents (qs k) q))"
    using q_enque_ok [OF qshapeD(1) [OF shape] qshape_room [OF shape], of "call_cmp k" q "PCB i"] by auto
  have "PCB i \<notin> set (contents (qs k) q)" using qshapeD(3) [OF shape q] i by auto
  then have "qshape s' (H(i := Some q)) S"
    using shape s' i q unfolding qshape_def by (auto split: if_splits)
  then show ?thesis
    using Q s' by (simp add: wp_def enque_def in_queues_def)
qed

lemma wp_enque_stack:
  assumes shape: "qshape (qs k) H S" and j: "j \<notin> S" "j < N_STACKS"
    and Q: "\<And>s'. qshape s' H (insert j S) \<Longrightarrow> contents s' = (contents (qs k))(FREE_STACKS := contents (qs k) FREE_STACKS @ [STACK j])
       \<Longrightarrow> Q E_SUCCESS (k\<lparr>qs := s'\<rparr>)"
  shows "wp (enque FREE_STACKS (STACK j)) Q k"
proof -
  have "goes_after (call_cmp k) (orders (qs k) FREE_STACKS) d = (\<lambda>_. True)" for d
    using qshapeD(7) [OF shape] by (simp add: goes_after_def fun_eq_iff)
  then obtain s' where s': "q_enque (call_cmp k) (Some FREE_STACKS) (STACK j) (qs k) = Inr (E_SUCCESS, s')" "qinv s'"
    "orders s' = orders (qs k)" "contents s' = (contents (qs k))(FREE_STACKS := contents (qs k) FREE_STACKS @ [STACK j])"
    using q_enque_ok [OF qshapeD(1) [OF shape] qshape_room [OF shape], of "call_cmp k" FREE_STACKS "STACK j"] by auto
  have "STACK j \<notin> set (contents (qs k) FREE_STACKS)" using qshapeD(4) [OF shape] j by auto
  then have "qshape s' H (insert j S)"
    using shape s' j unfolding qshape_def by (auto split: if_splits)
  then show ?thesis
    using Q s' by (simp add: wp_def enque_def in_queues_def)
qed

lemma qshape_head:
  assumes shape: "qshape s H S" and q: "q \<noteq> FREE_STACKS" "contents s q \<noteq> []"
  obtains i ds where "contents s q = PCB i # ds" "i < N_PCBS" "H i = Some q" "PCB i \<notin> set ds"
proof -
  obtain d ds where d: "contents s q = d # ds" using q(2) by (cases "contents s q") auto
  then have "d \<in> PCB ` {i. i < N_PCBS \<and> H i = Some q}" using qshapeD(3) [OF shape q(1)] by (metis list.set_intros(1))
  with d qshapeD(2) [OF shape, of q] that show ?thesis by auto
qed

lemma qshape_take_pcb:
  assumes shape: "qshape s H S" and i: "H i = Some q" and inv: "qinv s'" "orders s' = orders s"
    and c: "contents s' = (contents s)(q := xs)" "distinct xs" "set xs = set (contents s q) - {PCB i}"
  shows "qshape s' (H(i := None)) S"
proof -
  have q: "q \<noteq> FREE_STACKS" using qshapeD(6) [OF shape, of i] i by auto
  show ?thesis
    unfolding qshape_def
  proof (intro conjI allI impI)
    fix q'
    show "distinct (contents s' q')" using c qshapeD(2) [OF shape] by auto
    show "set (contents s' q') = PCB ` {i'. i' < N_PCBS \<and> (H(i := None)) i' = Some q'}" if "q' \<noteq> FREE_STACKS"
      using c qshapeD(3) [OF shape that] i by (cases "q' = q") auto
  qed (use inv c q qshapeD [OF shape] in \<open>auto split: if_splits\<close>)
qed

lemma wp_deque_pcb:
  assumes shape: "qshape (qs k) H S" and q: "q \<noteq> FREE_STACKS" "contents (qs k) q = PCB i # ds"
    and Q: "\<And>s'. qshape s' (H(i := None)) S \<Longrightarrow> contents s' = (contents (qs k))(q := ds) \<Longrightarrow>
       Q (E_SUCCESS, PCB i) (k\<lparr>qs := s'\<rparr>)"
  shows "wp (deque q) Q k"
proof -
  obtain s' where s': "q_deque (Some q) (Some NULL) (qs k) = Inr ((E_SUCCESS, PCB i), s')" "qinv s'"
    "contents s' = (contents (qs k))(q := ds)" "orders s' = orders (qs k)"
    using q_deque_ok [OF qshapeD(1) [OF shape] q(2)] by blast
  have "H i = Some q" using qshapeD(3) [OF shape q(1)] q(2) by auto
  moreover have "distinct ds" "set ds = set (contents (qs k) q) - {PCB i}"
    using qshapeD(2) [OF shape, of q] q(2) by auto
  ultimately have "qshape s' (H(i := None)) S"
    using qshape_take_pcb [OF shape _ s'(2,4,3)] by blast
  then show ?thesis using Q s' by (simp add: wp_def deque_def in_queues_def)
qed

lemma wp_remove_pcb:
  assumes shape: "qshape (qs k) H S" and i: "H i = Some q" "i < N_PCBS"
    and Q: "\<And>s'. qshape s' (H(i := None)) S \<Longrightarrow>
       contents s' = (contents (qs k))(q := remove1 (PCB i) (contents (qs k) q)) \<Longrightarrow> Q E_SUCCESS (k\<lparr>qs := s'\<rparr>)"
  shows "wp (remove_from q (PCB i)) Q k"
proof -
  have q: "q \<noteq> FREE_STACKS" using qshapeD(6) [OF shape, of i] i by auto
  then have mem: "PCB i \<in> set (contents (qs k) q)" using qshapeD(3) [OF shape q] i by auto
  obtain s' where s': "q_remove (Some q) (PCB i) (qs k) = Inr (E_SUCCESS, s')" "qinv s'"
    "contents s' = (contents (qs k))(q := remove1 (PCB i) (contents (qs k) q))" "orders s' = orders (qs k)"
    using q_remove_ok [OF qshapeD(1) [OF shape] mem] by blast
  have "qshape s' (H(i := None)) S"
    using qshape_take_pcb [OF shape i(1) s'(2,4,3)] qshapeD(2) [OF shape, of q] by (simp add: distinct_remove1 set_remove1_eq)
  then show ?thesis using Q s' by (simp add: wp_def remove_from_def in_queues_def)
qed

lemma wp_peek:
  assumes "qshape (qs k) H S"
    and "Q (case contents (qs k) q of [] \<Rightarrow> (E_EMPTY_QUEUE, NULL) | d # _ \<Rightarrow> (E_SUCCESS, d)) k"
  shows "wp (peek q) Q k"
  using q_peek_ok [OF qshapeD(1) [OF assms(1)], of q NULL] assms(2)
  by (simp add: wp_def peek_def in_queues_def split: list.splits)

text \<open>Allocation of stacks and of process control blocks.\<close>

lemma wp_stk_alloc:
  assumes shape: "qshape (qs k) H S"
    and none: "S = {} \<Longrightarrow> Q None k"
    and some: "\<And>j s'. j \<in> S \<Longrightarrow> qshape s' H (S - {j}) \<Longrightarrow>
       (\<forall>q. q \<noteq> FREE_STACKS \<longrightarrow> contents s' q = contents (qs k) q) \<Longrightarrow>
       contents (qs k) FREE_STACKS = STACK j # contents s' FREE_STACKS \<Longrightarrow> Q (Some j) (k\<lparr>qs := s'\<rparr>)"
  shows "wp stk_alloc Q k"
proof (cases "contents (qs k) FREE_STACKS")
  case Nil
  then have "S = {}" using qshapeD(4) [OF shape] by simp
  with Nil none show ?thesis
    by (simp add: stk_alloc_def kern_simps q_size_def size_pos [OF qshapeD(1) [OF shape]])
next
  case (Cons d ds)
  then obtain j where j: "d = STACK j" "j \<in> S" using qshapeD(4) [OF shape] by (metis imageE list.set_intros(1))
  obtain s' where s': "q_deque (Some FREE_STACKS) (Some NULL) (qs k) = Inr ((E_SUCCESS, d), s')" "qinv s'"
    "contents s' = (contents (qs k))(FREE_STACKS := ds)" "orders s' = orders (qs k)"
    using q_deque_ok [OF qshapeD(1) [OF shape] Cons] by blast
  have ds: "distinct ds" "set ds = STACK ` (S - {j})"
    using qshapeD(2) [OF shape, of FREE_STACKS] qshapeD(4) [OF shape] Cons j by auto
  have "qshape s' H (S - {j})"
    using shape s' ds unfolding qshape_def by auto
  then have "Q (Some j) (k\<lparr>qs := s'\<rparr>)" using some [of j s'] j s' Cons by simp
  moreover have "deque FREE_STACKS k = Inr ((E_SUCCESS, STACK j), k\<lparr>qs := s'\<rparr>)"
    using s'(1) j by (simp add: deque_def in_queues_def)
  ultimately show ?thesis
    using Cons by (simp add: stk_alloc_def kern_simps q_size_def size_pos [OF qshapeD(1) [OF shape]] wp_run as_stack_def)
qed

lemma wp_pcb_alloc:
  assumes shape: "qshape (qs k) H S"
    and none: "(\<And>i. i < N_PCBS \<Longrightarrow> H i \<noteq> Some FREE_PCBS) \<Longrightarrow> Q None k"
    and some: "\<And>i s'. i < N_PCBS \<Longrightarrow> H i = Some FREE_PCBS \<Longrightarrow> qshape s' (H(i := None)) S \<Longrightarrow>
       (\<forall>q. q \<noteq> FREE_PCBS \<longrightarrow> contents s' q = contents (qs k) q) \<Longrightarrow>
       contents (qs k) FREE_PCBS = PCB i # contents s' FREE_PCBS \<Longrightarrow>
       Q (Some i) (upd_pcb i (\<lambda>pcb. pcb\<lparr>state := PS_NEW\<rparr>) (k\<lparr>qs := s'\<rparr>))"
  shows "wp pcb_alloc Q k"
proof (cases "contents (qs k) FREE_PCBS = []")
  case True
  then have "i < N_PCBS \<Longrightarrow> H i \<noteq> Some FREE_PCBS" for i using qshapeD(3) [OF shape, of FREE_PCBS] by auto
  with True none show ?thesis
    by (simp add: pcb_alloc_def kern_simps q_size_def size_pos [OF qshapeD(1) [OF shape]])
next
  case False
  obtain i ds where i: "contents (qs k) FREE_PCBS = PCB i # ds" "i < N_PCBS" "H i = Some FREE_PCBS"
    using qshape_head [OF shape _ False] by (metis qid.distinct(3))
  have "wp (deque FREE_PCBS) (\<lambda>x k'. x = (E_SUCCESS, PCB i) \<and> Q (Some i) (upd_pcb i (\<lambda>pcb. pcb\<lparr>state := PS_NEW\<rparr>) k')) k"
    by (rule wp_deque_pcb [OF shape _ i(1)]) (auto intro!: some i)
  then show ?thesis
    using False by (auto simp: pcb_alloc_def kern_simps q_size_def size_pos [OF qshapeD(1) [OF shape]] as_pcb_def elim!: wp_mono)
qed

subsection \<open>The kernel invariant\<close>

text \<open>The queue a process belongs in, by its state.\<close>

definition home :: "pcb_t \<Rightarrow> qid option" where
  "home p = (case state p of
       PS_FREE \<Rightarrow> Some FREE_PCBS
     | PS_READY \<Rightarrow> Some (READY (unat (prio p)))
     | PS_SLEEPING \<Rightarrow> Some SLEEPING
     | PS_WAITING \<Rightarrow> Some WAITING
     | PS_BLOCKED \<Rightarrow> Some READING
     | PS_KILLED \<Rightarrow> Some ZOMBIE
     | PS_ZOMBIE \<Rightarrow> Some ZOMBIE
     | _ \<Rightarrow> None)"

text \<open>
  \<^verbatim>\<open>X\<close> is the set of processes that a routine holds in no queue; between two interrupts it is the
  running process alone.
\<close>

definition located :: "nat set \<Rightarrow> kernel \<Rightarrow> nat \<Rightarrow> qid option" where
  "located X k i = (if i \<in> X then None else home (pcbs k i))"

definition live :: "nat set \<Rightarrow> kernel \<Rightarrow> nat \<Rightarrow> bool" where
  "live X k i \<longleftrightarrow> i < N_PCBS \<and> (i \<in> X \<or> state (pcbs k i) \<noteq> PS_FREE)"

definition free_stacks :: "nat set \<Rightarrow> kernel \<Rightarrow> nat set" where
  "free_stacks X k = {j. j < N_STACKS \<and> \<not> (\<exists>i. live X k i \<and> stack_ptr (pcbs k i) = Some j)}"

definition stacks_ok :: "nat set \<Rightarrow> kernel \<Rightarrow> bool" where
  "stacks_ok X k \<longleftrightarrow> (\<forall>i \<in> Collect (live X k). \<exists>j < N_STACKS. stack_ptr (pcbs k i) = Some j) \<and>
     inj_on (\<lambda>i. stack_ptr (pcbs k i)) (Collect (live X k))"

definition wake :: "kernel \<Rightarrow> ptr \<Rightarrow> 32 word" where
  "wake k d = (case d of PCB i \<Rightarrow> wakeup (pcbs k i) | _ \<Rightarrow> 0)"

definition sane :: "nat set \<Rightarrow> kernel \<Rightarrow> bool" where
  "sane X k \<longleftrightarrow> X \<subseteq> {..<N_PCBS} \<and> qshape (qs k) (located X k) (free_stacks X k) \<and>
     (\<forall>i. i < N_PCBS \<and> i \<notin> X \<longrightarrow> home (pcbs k i) \<noteq> None \<and>
        (state (pcbs k i) = PS_READY \<longrightarrow> unat (prio (pcbs k i)) < N_PRIOS)) \<and>
     stacks_ok X k \<and> sorted (map (wake k) (contents (qs k) SLEEPING))"

lemma home_not_stacks [simp]: "home p \<noteq> Some FREE_STACKS"
  by (simp add: home_def split: state_t.split)

lemma sane_located: "sane X k \<Longrightarrow> i < N_PCBS \<Longrightarrow> PCB i \<in> set (contents (qs k) q) \<longleftrightarrow> i \<notin> X \<and> home (pcbs k i) = Some q"
  if "q \<noteq> FREE_STACKS"
  using that qshapeD(3) [of "qs k" "located X k" "free_stacks X k" q] by (auto simp: sane_def located_def)

lemma sane_members:
  assumes "sane X k" "q \<noteq> FREE_STACKS" "d \<in> set (contents (qs k) q)"
  obtains i where "d = PCB i" "i < N_PCBS" "i \<notin> X" "home (pcbs k i) = Some q"
  using assms qshapeD(3) [of "qs k" "located X k" "free_stacks X k" q] by (auto simp: sane_def located_def split: if_splits)

text \<open>What a routine may change without touching the invariant.\<close>

lemma sane_cong:
  assumes sane: "sane X k" and qs: "qs k' = qs k"
    and st: "\<And>i. i < N_PCBS \<Longrightarrow> stack_ptr (pcbs k' i) = stack_ptr (pcbs k i)"
    and other: "\<And>i. i < N_PCBS \<Longrightarrow> i \<notin> X \<Longrightarrow> state (pcbs k' i) = state (pcbs k i) \<and>
       prio (pcbs k' i) = prio (pcbs k i) \<and> wakeup (pcbs k' i) = wakeup (pcbs k i)"
  shows "sane X k'"
proof -
  have home: "home (pcbs k' i) = home (pcbs k i)" if "i < N_PCBS" "i \<notin> X" for i
    using other [OF that] by (simp add: home_def split: state_t.split)
  have live: "live X k' = live X k" using other by (auto simp: live_def fun_eq_iff)
  have e: "live X k i \<Longrightarrow> stack_ptr (pcbs k' i) = stack_ptr (pcbs k i)" for i
    using st by (simp add: live_def)
  have "free_stacks X k' = free_stacks X k"
    unfolding free_stacks_def live by (rule Collect_cong) (use e in metis)
  moreover have "stacks_ok X k' = stacks_ok X k"
    unfolding stacks_ok_def live by (intro arg_cong2 [where f = "(\<and>)"] ball_cong inj_on_cong refl) (simp_all add: e)
  ultimately have stk: "free_stacks X k' = free_stacks X k" "stacks_ok X k' = stacks_ok X k" by blast+
  have "qshape (qs k') (located X k') (free_stacks X k')"
  proof -
    have "qshape (qs k) (located X k) (free_stacks X k)" using sane by (simp add: sane_def)
    then show ?thesis unfolding qs stk by (rule qshape_cong) (simp_all add: located_def home)
  qed
  moreover have "map (wake k') (contents (qs k) SLEEPING) = map (wake k) (contents (qs k) SLEEPING)"
    by (rule map_cong [OF refl], erule sane_members [OF sane, rotated]) (simp_all add: wake_def other)
  ultimately show ?thesis
    using sane stk by (simp add: sane_def qs home other del: map_eq_conv)
qed

lemma sane_upd:
  assumes "sane X k" "i \<in> X \<or> (state (f (pcbs k i)) = state (pcbs k i) \<and>
      prio (f (pcbs k i)) = prio (pcbs k i) \<and> wakeup (f (pcbs k i)) = wakeup (pcbs k i))"
    and "stack_ptr (f (pcbs k i)) = stack_ptr (pcbs k i)"
  shows "sane X (upd_pcb i f k)"
  by (rule sane_cong [OF assms(1)]) (use assms in \<open>auto simp: upd_pcb_def\<close>)

lemma sane_frame:
  assumes "sane X k" "qs k' = qs k" "pcbs k' = pcbs k"
  shows "sane X k'"
  by (rule sane_cong [OF assms(1,2)]) (simp_all add: assms(3))

lemma upd_frame [simp]:
  "qs (upd_pcb i f k) = qs k" "mm (upd_pcb i f k) = mm k" "current (upd_pcb i f k) = current k"
  "pcbs (upd_mem g k) = pcbs k" "qs (upd_mem g k) = qs k" "current (upd_mem g k) = current k"
  "pcbs (upd_pcb i f k) = (pcbs k)(i := f (pcbs k i))" "now (upd_pcb i f k) = now k" "now (upd_mem g k) = now k"
  by (simp_all add: upd_pcb_def upd_mem_def)

text \<open>Putting a held process into the queue it belongs in.\<close>

lemma call_cmp_goes_after:
  assumes "orders (qs k) = (\<lambda>_. None)(SLEEPING := Some CMP_WAKEUP)"
  shows "goes_after (call_cmp k) (orders (qs k) q) (PCB i) (PCB j) \<longleftrightarrow> (q = SLEEPING \<longrightarrow> wakeup (pcbs k j) \<le> wakeup (pcbs k i))"
  using assms by (auto simp: goes_after_def call_cmp_def cmp_wakeup_def)

lemma wp_enque_held:
  assumes sane: "sane X k" and i: "i \<in> X" "home (pcbs k i) = Some q" "state (pcbs k i) \<noteq> PS_FREE"
    and pr: "state (pcbs k i) = PS_READY \<Longrightarrow> unat (prio (pcbs k i)) < N_PRIOS"
    and Q: "\<And>s'. sane (X - {i}) (k\<lparr>qs := s'\<rparr>) \<Longrightarrow> contents s' = (contents (qs k))(q :=
        place (\<lambda>d. q = SLEEPING \<longrightarrow> wake k d \<le> wakeup (pcbs k i)) (PCB i) (contents (qs k) q)) \<Longrightarrow>
      Q E_SUCCESS (k\<lparr>qs := s'\<rparr>)"
  shows "wp (enque q (PCB i)) Q k"
proof -
  let ?after = "\<lambda>d. q = SLEEPING \<longrightarrow> wake k d \<le> wakeup (pcbs k i)"
  have shape: "qshape (qs k) (located X k) (free_stacks X k)" using sane by (simp add: sane_def)
  have N: "i < N_PCBS" using sane i by (auto simp: sane_def)
  have q: "q \<noteq> FREE_STACKS" using i(2) by auto
  have live: "live (X - {i}) (k\<lparr>qs := s\<rparr>) = live X k" for s
    using i by (auto simp: live_def fun_eq_iff)
  have stk: "free_stacks (X - {i}) (k\<lparr>qs := s\<rparr>) = free_stacks X k" "stacks_ok (X - {i}) (k\<lparr>qs := s\<rparr>) = stacks_ok X k" for s
    by (simp_all add: free_stacks_def stacks_ok_def live)
  have after: "place (goes_after (call_cmp k) (orders (qs k) q) (PCB i)) (PCB i) (contents (qs k) q) =
      place ?after (PCB i) (contents (qs k) q)"
  proof -
    have "goes_after (call_cmp k) (orders (qs k) q) (PCB i) d = ?after d" if d: "d \<in> set (contents (qs k) q)" for d
    proof -
      obtain j where "d = PCB j" using sane_members [OF sane q d] by blast
      then show ?thesis using call_cmp_goes_after [OF qshapeD(7) [OF shape], of q i j] by (simp add: wake_def)
    qed
    then show ?thesis unfolding place_def
      by (intro arg_cong2 [where f = append] arg_cong [where f = "(#) (PCB i)"] takeWhile_cong dropWhile_cong) auto
  qed
  show ?thesis
  proof (rule wp_enque_pcb [OF shape _ N q])
    fix s' assume s': "qshape s' ((located X k)(i := Some q)) (free_stacks X k)"
      "contents s' = (contents (qs k))(q := place (goes_after (call_cmp k) (orders (qs k) q) (PCB i)) (PCB i) (contents (qs k) q))"
    have "qshape s' (located (X - {i}) (k\<lparr>qs := s'\<rparr>)) (free_stacks (X - {i}) (k\<lparr>qs := s'\<rparr>))"
      unfolding stk by (rule qshape_cong [OF s'(1)]) (use i in \<open>auto simp: located_def\<close>)
    moreover have "sorted (map (wake (k\<lparr>qs := s'\<rparr>)) (contents s' SLEEPING))"
    proof -
      have "wake (k\<lparr>qs := s'\<rparr>) = wake k" by (simp add: wake_def fun_eq_iff split: ptr.split)
      then show ?thesis
        using s'(2) sane place_sorted [of "wake k" "contents (qs k) SLEEPING" "PCB i"]
        by (auto simp: after sane_def wake_def [of k "PCB i"])
    qed
    ultimately have "sane (X - {i}) (k\<lparr>qs := s'\<rparr>)"
      using sane stk i pr by (auto simp: sane_def)
    then show "Q E_SUCCESS (k\<lparr>qs := s'\<rparr>)" using Q s'(2) by (simp add: after)
  qed (use i in \<open>simp add: located_def\<close>)
qed

text \<open>Taking a process out of its queue.\<close>

lemma sane_take:
  assumes sane: "sane X k" and c: "c < N_PCBS" "c \<notin> X" "state (pcbs k c) \<noteq> PS_FREE"
    and shape: "qshape s' ((located X k)(c := None)) (free_stacks X k)"
    and sl: "contents s' SLEEPING = filter P (contents (qs k) SLEEPING)"
    and k': "qs k' = s'" "\<And>i. i \<noteq> c \<Longrightarrow> pcbs k' i = pcbs k i" "stack_ptr (pcbs k' c) = stack_ptr (pcbs k c)"
  shows "sane (insert c X) k'"
proof -
  have live: "live (insert c X) k' = live X k"
  proof
    fix i
    show "live (insert c X) k' i = live X k i" by (cases "i = c") (auto simp: live_def k'(2) c)
  qed
  have stk: "stack_ptr (pcbs k' i) = stack_ptr (pcbs k i)" for i using k' by (cases "i = c") auto
  have st: "free_stacks (insert c X) k' = free_stacks X k" "stacks_ok (insert c X) k' = stacks_ok X k"
    by (simp_all add: free_stacks_def stacks_ok_def live stk)
  have "qshape (qs k') (located (insert c X) k') (free_stacks (insert c X) k')"
    unfolding st k'(1) by (rule qshape_cong [OF shape]) (use k'(2) in \<open>auto simp: located_def\<close>)
  moreover have "sorted (map (wake k') (contents (qs k') SLEEPING))"
  proof -
    have "PCB c \<notin> set (contents s' SLEEPING)" using qshapeD(3) [OF shape, of SLEEPING] by auto
    then have "map (wake k') (contents s' SLEEPING) = map (wake k) (contents s' SLEEPING)"
      using k'(2) by (auto simp: wake_def split: ptr.split) (metis)
    moreover have "sorted (map (wake k) (contents (qs k) SLEEPING))" using sane by (simp add: sane_def)
    ultimately show ?thesis using k'(1) sorted_filter [of "wake k" "contents (qs k) SLEEPING" P] sl by metis
  qed
  ultimately show ?thesis
    using sane c k'(2) st by (auto simp: sane_def)
qed

text \<open>The scheduler's routines on the invariant.\<close>

lemma legal_prio: "\<not> (prio p < P_SYSTEM \<or> prio p > P_MIN) \<Longrightarrow> unat (prio p) < N_PRIOS" "unat P_LOW < N_PRIOS"
  by (auto simp: proc_consts word_less_nat_alt not_less word_le_nat_alt)

text \<open>A process as \<^verbatim>\<open>_schedule\<close> leaves it.\<close>

definition ready_pcb :: "pcb_t \<Rightarrow> pcb_t" where
  "ready_pcb p = p\<lparr>prio := (if prio p > P_MIN then P_LOW else prio p), state := PS_READY\<rparr>"

lemma ready_pcb_sel [simp]:
  "state (ready_pcb p) = PS_READY" "stack_ptr (ready_pcb p) = stack_ptr p" "wakeup (ready_pcb p) = wakeup p"
  "pid (ready_pcb p) = pid p" "ppid (ready_pcb p) = ppid p" "children (ready_pcb p) = children p"
  "context_ptr (ready_pcb p) = context_ptr p" "memory_ptr (ready_pcb p) = memory_ptr p"
  by (simp_all add: ready_pcb_def)

lemma wp_schedule:
  assumes sane: "sane X k" and i: "i \<in> X"
  defines "p \<equiv> ready_pcb (pcbs k i)"
  assumes Q: "\<And>s'. sane (X - {i}) (k\<lparr>pcbs := (pcbs k)(i := p), qs := s'\<rparr>) \<Longrightarrow>
      contents s' = (contents (qs k))(READY (unat (prio p)) := contents (qs k) (READY (unat (prio p))) @ [PCB i]) \<Longrightarrow>
      unat (prio p) < N_PRIOS \<Longrightarrow> Q () (k\<lparr>pcbs := (pcbs k)(i := p), qs := s'\<rparr>)"
  shows "wp (schedule (Some i)) Q k"
proof -
  let ?k = "k\<lparr>pcbs := (pcbs k)(i := p)\<rparr>"
  have pr: "unat (prio p) < N_PRIOS" using legal_prio(1) [of "pcbs k i"] legal_prio(2) by (auto simp: p_def ready_pcb_def P_SYSTEM_def)
  have sane': "sane X ?k" by (rule sane_cong [OF sane]) (use i in \<open>auto simp: p_def\<close>)
  have "wp (enque (READY (unat (prio p))) (PCB i)) (\<lambda>st. wp (if st \<noteq> E_SUCCESS then kpanic ''_schedule'' ''can't enque ready PCB'' else kreturn ()) Q) ?k"
    by (rule wp_enque_held [OF sane' i]) (use Q pr in \<open>auto simp: home_def p_def kern_simps\<close>)
  moreover have "upd_pcb i (\<lambda>pcb. pcb\<lparr>state := PS_READY\<rparr>)
      (upd_pcb i (\<lambda>pcb. if prio pcb < P_SYSTEM \<or> prio pcb > P_MIN then pcb\<lparr>prio := P_LOW\<rparr> else pcb) k) = ?k"
    by (simp add: upd_pcb_def p_def ready_pcb_def P_SYSTEM_def)
  ultimately show ?thesis
    by (simp add: schedule_def kern_simps del: upd_frame)
qed

lemma find_first_prio:
  assumes "List.find P [0..<n] = Some p"
  shows "p < n" "P p" "\<And>p'. p' < p \<Longrightarrow> \<not> P p'"
  using assms by (auto simp: find_Some_iff)

lemma wp_dispatch:
  assumes sane: "sane X k" and ready: "\<exists>i < N_PCBS. i \<notin> X \<and> state (pcbs k i) = PS_READY"
    and Q: "\<And>p c ds s' k'. p < N_PRIOS \<Longrightarrow> contents (qs k) (READY p) = PCB c # ds \<Longrightarrow>
      (\<forall>p' < p. contents (qs k) (READY p') = []) \<Longrightarrow> c < N_PCBS \<Longrightarrow> c \<notin> X \<Longrightarrow> state (pcbs k c) = PS_READY \<Longrightarrow>
      contents s' = (contents (qs k))(READY p := ds) \<Longrightarrow>
      k' = k\<lparr>qs := s', current := Some c,
        pcbs := (pcbs k)(c := (pcbs k c)\<lparr>state := PS_RUNNING, q_ticks := q_default (pcbs k c)\<rparr>),
        mm := set_return_pde (memory_ptr (pcbs k c)) (mm k)\<rparr> \<Longrightarrow>
      sane (insert c X) k' \<Longrightarrow> Q () k'"
  shows "wp dispatch Q k"
proof -
  have shape: "qshape (qs k) (located X k) (free_stacks X k)" using sane by (simp add: sane_def)
  have nonempty: "q_size (READY p) k > 0 \<longleftrightarrow> contents (qs k) (READY p) \<noteq> []" for p
    using size_pos [OF qshapeD(1) [OF shape]] by (simp add: q_size_def word_gt_0)
  obtain i where i: "i < N_PCBS" "i \<notin> X" "state (pcbs k i) = PS_READY" "unat (prio (pcbs k i)) < N_PRIOS"
    using ready sane by (auto simp: sane_def)
  then have "PCB i \<in> set (contents (qs k) (READY (unat (prio (pcbs k i)))))"
    using sane_located [OF _ sane i(1)] by (simp add: home_def)
  then have "List.find (\<lambda>p. q_size (READY p) k > 0) [0..<N_PRIOS] \<noteq> None"
    using i(4) by (auto simp: find_None_iff nonempty)
  then obtain p where p: "List.find (\<lambda>p. q_size (READY p) k > 0) [0..<N_PRIOS] = Some p" by blast
  then have p': "p < N_PRIOS" "contents (qs k) (READY p) \<noteq> []" "\<forall>p' < p. contents (qs k) (READY p') = []"
    using find_first_prio [OF p] by (simp_all add: nonempty)
  obtain c ds where c: "contents (qs k) (READY p) = PCB c # ds" "c < N_PCBS" "located X k c = Some (READY p)"
  proof -
    have "READY p \<noteq> FREE_STACKS" by simp
    from qshape_head [OF shape this p'(2)] that show ?thesis by blast
  qed
  then have st: "c \<notin> X" "state (pcbs k c) = PS_READY"
    by (auto simp: located_def home_def split: if_splits state_t.splits)
  let ?R = "\<lambda>x k1. x = (E_SUCCESS, PCB c) \<and>
      Q () (k1\<lparr>current := Some c,
        pcbs := (pcbs k1)(c := (pcbs k1 c)\<lparr>state := PS_RUNNING, q_ticks := q_default (pcbs k1 c)\<rparr>),
        mm := set_return_pde (memory_ptr (pcbs k1 c)) (mm k1)\<rparr>)"
  have "wp (deque (READY p)) ?R k"
  proof (rule wp_deque_pcb [OF shape _ c(1)])
    fix s' assume s': "qshape s' ((located X k)(c := None)) (free_stacks X k)" "contents s' = (contents (qs k))(READY p := ds)"
    define k' where "k' = k\<lparr>qs := s', current := Some c,
        pcbs := (pcbs k)(c := (pcbs k c)\<lparr>state := PS_RUNNING, q_ticks := q_default (pcbs k c)\<rparr>),
        mm := set_return_pde (memory_ptr (pcbs k c)) (mm k)\<rparr>"
    have "sane (insert c X) k'"
      by (rule sane_take [OF sane c(2) st(1) _ s'(1), where P = "\<lambda>_. True"]) (use s'(2) st in \<open>simp_all add: k'_def\<close>)
    then show "?R (E_SUCCESS, PCB c) (k\<lparr>qs := s'\<rparr>)"
      using Q [OF p'(1) c(1) p'(3) c(2) st s'(2) k'_def] by (simp add: k'_def)
  qed simp
  then show ?thesis
    by (auto simp: dispatch_def kern_simps p as_pcb_def upd_pcb_def elim!: wp_mono)
qed

lemma free_stacks_remove:
  assumes ok: "stacks_ok X k" and i: "live X k i" "stack_ptr (pcbs k i) = Some j" "j < N_STACKS"
    and live: "\<And>i'. live Y k' i' \<longleftrightarrow> live X k i' \<and> i' \<noteq> i"
    and stk: "\<And>i'. i' \<noteq> i \<Longrightarrow> stack_ptr (pcbs k' i') = stack_ptr (pcbs k i')"
  shows "free_stacks Y k' = insert j (free_stacks X k)" "stacks_ok Y k'" "j \<notin> free_stacks X k"
proof -
  have inj: "i' = i" if "live X k i'" "stack_ptr (pcbs k i') = Some j" for i'
    using ok i(1,2) that by (auto simp: stacks_ok_def inj_on_def)
  show "free_stacks Y k' = insert j (free_stacks X k)"
  proof -
    have "(\<exists>i'. live Y k' i' \<and> stack_ptr (pcbs k' i') = Some x) \<longleftrightarrow>
        (\<exists>i'. live X k i' \<and> stack_ptr (pcbs k i') = Some x) \<and> x \<noteq> j" for x
      unfolding live using inj stk i(2) by (metis option.inject)
    then show ?thesis using i(3) by (auto simp: free_stacks_def)
  qed
  have e: "stack_ptr (pcbs k' i') = stack_ptr (pcbs k i')" if "live Y k' i'" for i'
    using that live stk by blast
  have "inj_on (\<lambda>i. stack_ptr (pcbs k i)) (Collect (live Y k'))"
    using ok unfolding stacks_ok_def by (auto intro: inj_on_subset simp: live)
  then have "inj_on (\<lambda>i. stack_ptr (pcbs k' i)) (Collect (live Y k'))"
    by (subst inj_on_cong [where g = "\<lambda>i. stack_ptr (pcbs k i)"]) (simp_all add: e)
  moreover have "\<exists>j < N_STACKS. stack_ptr (pcbs k' i') = Some j" if "live Y k' i'" for i'
    using ok that e [OF that] live by (simp add: stacks_ok_def)
  ultimately show "stacks_ok Y k'" by (simp add: stacks_ok_def)
  show "j \<notin> free_stacks X k" using i by (auto simp: free_stacks_def)
qed

lemma wp_pcb_cleanup:
  assumes sane: "sane X k" and i: "i \<in> X"
  defines "p \<equiv> (pcbs k i)\<lparr>state := PS_FREE, pid := - 1, ppid := - 1\<rparr>"
  assumes Q: "\<And>s'. sane (X - {i}) (k\<lparr>pcbs := (pcbs k)(i := p), qs := s'\<rparr>) \<Longrightarrow>
      (\<forall>q. q \<noteq> FREE_PCBS \<and> q \<noteq> FREE_STACKS \<longrightarrow> contents s' q = contents (qs k) q) \<Longrightarrow>
      Q () (k\<lparr>pcbs := (pcbs k)(i := p), qs := s'\<rparr>)"
  shows "wp (pcb_cleanup i) Q k"
proof -
  have shape: "qshape (qs k) (located X k) (free_stacks X k)" and ok: "stacks_ok X k"
    and N: "i < N_PCBS" using sane i by (auto simp: sane_def)
  have lv: "live X k i" using i N by (simp add: live_def)
  then obtain j where j: "stack_ptr (pcbs k i) = Some j" "j < N_STACKS" using ok by (auto simp: stacks_ok_def)
  let ?k = "\<lambda>s. k\<lparr>pcbs := (pcbs k)(i := p), qs := s\<rparr>"
  have home_p: "home p = Some FREE_PCBS" by (simp add: home_def p_def)
  have live: "live (X - {i}) (?k s) i' \<longleftrightarrow> live X k i' \<and> i' \<noteq> i" for s i'
    by (auto simp: live_def p_def)
  have st: "free_stacks (X - {i}) (?k s) = insert j (free_stacks X k)" "stacks_ok (X - {i}) (?k s)"
      "j \<notin> free_stacks X k" for s
    by (rule free_stacks_remove [OF ok lv j live, of s], simp)+
  have final: "Q () (?k s2)"
    if s1: "contents s1 = (contents (qs k))(FREE_STACKS := contents (qs k) FREE_STACKS @ [STACK j])"
    and s2: "qshape s2 ((located X k)(i := Some FREE_PCBS)) (insert j (free_stacks X k))" "contents s2 = (contents s1)(FREE_PCBS := xs)" for s1 s2 xs
  proof -
    have same: "\<forall>q. q \<noteq> FREE_PCBS \<and> q \<noteq> FREE_STACKS \<longrightarrow> contents s2 q = contents (qs k) q"
      using s1 s2(2) by simp
    have "qshape s2 (located (X - {i}) (?k s2)) (free_stacks (X - {i}) (?k s2))"
      unfolding st(1) by (rule qshape_cong [OF s2(1)]) (auto simp: located_def home_p)
    moreover have "sorted (map (wake (?k s2)) (contents s2 SLEEPING))"
    proof -
      have "wake (?k s2) d = wake k d" if "d \<in> set (contents (qs k) SLEEPING)" for d
        by (rule sane_members [OF sane _ that]) (use i in \<open>auto simp: wake_def\<close>)
      then have "map (wake (?k s2)) (contents (qs k) SLEEPING) = map (wake k) (contents (qs k) SLEEPING)" by simp
      then show ?thesis using same sane by (simp add: sane_def del: map_eq_conv)
    qed
    ultimately have "sane (X - {i}) (?k s2)"
      using sane st(2) [of s2] by (auto simp: sane_def home_p) (simp add: p_def)
    then show ?thesis using Q same by simp
  qed
  have "wp (enque FREE_STACKS (STACK j)) (\<lambda>_ k1. wp (pcb_dealloc (Some i)) Q k1) k"
  proof (rule wp_enque_stack [OF shape st(3) j(2)])
    fix s1 assume s1: "qshape s1 (located X k) (insert j (free_stacks X k))"
      "contents s1 = (contents (qs k))(FREE_STACKS := contents (qs k) FREE_STACKS @ [STACK j])"
    have eq: "upd_pcb i (\<lambda>pcb. pcb\<lparr>pid := - 1, ppid := - 1\<rparr>) (upd_pcb i (\<lambda>pcb. pcb\<lparr>state := PS_FREE\<rparr>) (k\<lparr>qs := s1\<rparr>)) = ?k s1"
      by (simp add: upd_pcb_def p_def)
    have "wp (enque FREE_PCBS (PCB i)) (\<lambda>_. Q ()) (?k s1)"
      by (rule wp_enque_pcb [of "?k s1" "located X k" "insert j (free_stacks X k)"])
        (use s1 i N final [OF s1(2)] in \<open>auto simp: located_def\<close>)
    then show "wp (pcb_dealloc (Some i)) Q (k\<lparr>qs := s1\<rparr>)"
      by (simp add: pcb_dealloc_def kern_simps eq)
  qed
  then show ?thesis
    using j(1) by (simp add: pcb_cleanup_def stk_dealloc_def kern_simps)
qed

text \<open>Between two interrupts the running process is the only one outside the queues.\<close>

definition kinv :: "kernel \<Rightarrow> bool" where
  "kinv k \<longleftrightarrow> (\<exists>c. current k = Some c \<and> state (pcbs k c) = PS_RUNNING \<and> sane {c} k)"

lemma kinvI: "current k = Some c \<Longrightarrow> state (pcbs k c) = PS_RUNNING \<Longrightarrow> sane {c} k \<Longrightarrow> kinv k"
  by (auto simp: kinv_def)

end
