(* ===== verification/Kern_Clock.thy ===== *)
theory Kern_Clock
  imports Kern_Process
begin

text \<open>
  The clock interrupt (\<^verbatim>\<open>baseline/clock.c\<close>): it advances the time, moves every sleeper whose time has
  come to the ready queues, and takes the processor from a process whose quantum is used up. The
  marquee on the screen and the acknowledgement to the interrupt controller are left out.
\<close>

subsection \<open>Operations\<close>

definition CLOCK_FREQUENCY :: int where "CLOCK_FREQUENCY = 1000"

definition clk_init :: "(kernel, unit) kern" where
  "clk_init = kmodify (\<lambda>k. k\<lparr>pinwheel := CLOCK_FREQUENCY div 10 - 1, now := 0\<rparr>)"

definition spin_pinwheel :: "kernel \<Rightarrow> kernel" where
  "spin_pinwheel k =
     (let k = k\<lparr>pinwheel := pinwheel k + 1\<rparr> in
      if pinwheel k = CLOCK_FREQUENCY div 10 then k\<lparr>pinwheel := 0\<rparr> else k)"

fun wake_sleepers :: "nat \<Rightarrow> (kernel, unit) kern" where
  "wake_sleepers 0 = kfail Diverges"
| "wake_sleepers (Suc n) =
     kbind (peek SLEEPING) (\<lambda>(status, d).
     if status \<noteq> E_SUCCESS then kreturn ()
     else (case as_pcb d of
             None \<Rightarrow> kfail NullDeref
           | Some i \<Rightarrow>
               kbind (kget (\<lambda>k. wakeup (pcbs k i) \<le> now k)) (\<lambda>due.
               if \<not> due then kreturn ()
               else kbind (deque SLEEPING) (\<lambda>(status, d).
                 if status \<noteq> E_SUCCESS \<or> d = NULL then kpanic ''_clk_isr'' ''sleep queue remove failure''
                 else kbind (schedule (as_pcb d)) (\<lambda>_. wake_sleepers n)))))"

definition charge_quantum :: "(kernel, unit) kern" where
  "charge_quantum =
     kbind (kget current) (\<lambda>c.
     case c of
       None \<Rightarrow> kfail NullDeref
     | Some i \<Rightarrow>
         kbind (kmodify (upd_pcb i (\<lambda>p. p\<lparr>q_ticks := q_ticks p - 1\<rparr>))) (\<lambda>_.
         kbind (kget (\<lambda>k. q_ticks (pcbs k i) < 1)) (\<lambda>expired.
         if expired then kbind (schedule (Some i)) (\<lambda>_. dispatch) else kreturn ())))"

definition clk_isr :: "(kernel, unit) kern" where
  "clk_isr =
     kbind (kmodify spin_pinwheel) (\<lambda>_.
     kbind (kmodify (\<lambda>k. k\<lparr>now := now k + 1\<rparr>)) (\<lambda>_.
     kbind (wake_sleepers (Suc N_QNODES)) (\<lambda>_.
     charge_quantum)))"

subsection \<open>The sleepers that wake up\<close>

definition due :: "kernel \<Rightarrow> ptr \<Rightarrow> bool" where
  "due k d \<longleftrightarrow> wake k d \<le> now k"

definition ready_prio :: "kernel \<Rightarrow> ptr \<Rightarrow> nat" where
  "ready_prio k d = (case d of PCB i \<Rightarrow> unat (prio (ready_pcb (pcbs k i))) | _ \<Rightarrow> 0)"

lemma ready_prio_PCB: "ready_prio k (PCB i) = unat (prio (ready_pcb (pcbs k i)))"
  by (simp add: ready_prio_def)

definition woken :: "kernel \<Rightarrow> ptr list" where
  "woken k = takeWhile (due k) (contents (qs k) SLEEPING)"

text \<open>The queues and the processes after the sleepers of the list \<^verbatim>\<open>W\<close> have been made ready.\<close>

definition woken_queues :: "kernel \<Rightarrow> ptr list \<Rightarrow> qid \<Rightarrow> ptr list" where
  "woken_queues k W q = (case q of
       SLEEPING \<Rightarrow> drop (length W) (contents (qs k) SLEEPING)
     | READY p \<Rightarrow> contents (qs k) (READY p) @ filter (\<lambda>d. ready_prio k d = p) W
     | _ \<Rightarrow> contents (qs k) q)"

definition woken_pcbs :: "kernel \<Rightarrow> ptr list \<Rightarrow> nat \<Rightarrow> pcb_t" where
  "woken_pcbs k W i = (if PCB i \<in> set W then ready_pcb (pcbs k i) else pcbs k i)"

lemma woken_Nil: "woken_queues k [] = contents (qs k)" "woken_pcbs k [] = pcbs k" "k\<lparr>qs := qs k, pcbs := pcbs k\<rparr> = k"
  by (simp_all add: woken_queues_def woken_pcbs_def fun_eq_iff split: qid.split)

lemma wp_wake_sleepers:
  assumes "sane X k" "length (contents (qs k) SLEEPING) < n"
    and "\<And>s'. sane X (k\<lparr>qs := s', pcbs := woken_pcbs k (woken k)\<rparr>) \<Longrightarrow> contents s' = woken_queues k (woken k) \<Longrightarrow>
      Q () (k\<lparr>qs := s', pcbs := woken_pcbs k (woken k)\<rparr>)"
  shows "wp (wake_sleepers n) Q k"
  using assms
proof (induction n arbitrary: k Q)
  case (Suc n)
  have shape: "qshape (qs k) (located X k) (free_stacks X k)" using Suc.prems(1) by (simp add: sane_def)
  show ?case
  proof (cases "contents (qs k) SLEEPING")
    case Nil
    then have "woken k = []" by (simp add: woken_def)
    then have "Q () k" using Suc.prems(3) [of "qs k"] Suc.prems(1) by (simp add: woken_Nil)
    with Nil show ?thesis
      by (simp add: kern_simps) (rule wp_peek [OF shape], simp add: kern_simps status_defs)
  next
    case (Cons d ds)
    have ne: "SLEEPING \<noteq> FREE_STACKS" by simp
    obtain i where i: "d = PCB i" "i < N_PCBS" "i \<notin> X" "home (pcbs k i) = Some SLEEPING"
      using sane_members [OF Suc.prems(1) ne, of d] Cons by auto
    have st: "state (pcbs k i) = PS_SLEEPING" using i(4) by (auto simp: home_def split: state_t.splits)
    have "wp (if \<not> due k d then kreturn () else kbind (deque SLEEPING) (\<lambda>(status, d).
                 if status \<noteq> E_SUCCESS \<or> d = NULL then kpanic ''_clk_isr'' ''sleep queue remove failure''
                 else kbind (schedule (as_pcb d)) (\<lambda>_. wake_sleepers n))) Q k"
    proof (cases "due k d")
      case False
      then have "woken k = []" using Cons by (simp add: woken_def)
      then have "Q () k" using Suc.prems(3) [of "qs k"] Suc.prems(1) by (simp add: woken_Nil)
      with False show ?thesis by (simp add: kern_simps)
    next
      case True
      have W: "woken k = d # takeWhile (due k) ds" using True Cons by (simp add: woken_def)
      have "wp (deque SLEEPING) (\<lambda>x. wp (case x of (status, d) \<Rightarrow>
          if status \<noteq> E_SUCCESS \<or> d = NULL then kpanic ''_clk_isr'' ''sleep queue remove failure''
          else kbind (schedule (as_pcb d)) (\<lambda>_. wake_sleepers n)) Q) k"
      proof (rule wp_deque_pcb [OF shape ne])
        show "contents (qs k) SLEEPING = PCB i # ds" using Cons i(1) by simp
        fix s1 assume s1: "qshape s1 ((located X k)(i := None)) (free_stacks X k)" "contents s1 = (contents (qs k))(SLEEPING := ds)"
        let ?k1 = "k\<lparr>qs := s1\<rparr>"
        have sane1: "sane (insert i X) ?k1"
        proof (rule sane_take [OF Suc.prems(1) i(2,3) _ s1(1)])
          have "filter (\<lambda>x. x \<noteq> d) (d # ds) = ds"
            using qshapeD(2) [OF shape, of SLEEPING] Cons by (auto simp: filter_id_conv)
          then show "contents s1 SLEEPING = filter (\<lambda>x. x \<noteq> d) (contents (qs k) SLEEPING)"
            using s1(2) Cons by simp
        qed (use st in simp_all)
        have "wp (schedule (Some i)) (\<lambda>_. wp (wake_sleepers n) Q) ?k1"
        proof (rule wp_schedule [OF sane1])
          fix s2
          let ?p = "ready_pcb (pcbs ?k1 i)"
          let ?k2 = "?k1\<lparr>pcbs := (pcbs ?k1)(i := ?p), qs := s2\<rparr>"
          assume "sane (insert i X - {i}) ?k2"
            and s2: "contents s2 = (contents (qs ?k1))(READY (unat (prio ?p)) := contents (qs ?k1) (READY (unat (prio ?p))) @ [PCB i])"
          then have sane2: "sane X ?k2" using i(3) by simp
          have c2: "contents s2 SLEEPING = ds" using s2 s1 by simp
          have notin: "PCB i \<notin> set ds" using qshapeD(2) [OF shape, of SLEEPING] Cons i(1) by simp
          have due2: "due ?k2 x = due k x" if "x \<in> set ds" for x
            using that notin by (auto simp: due_def wake_def split: ptr.split)
          have tw: "woken ?k2 = takeWhile (due k) ds"
            using due2 by (auto simp: c2 woken_def intro: takeWhile_cong)
          show "wp (wake_sleepers n) Q ?k2"
          proof (rule Suc.IH [OF sane2])
            show "length (contents (qs ?k2) SLEEPING) < n" using Suc.prems(2) Cons c2 by simp
            fix s3 assume s3: "sane X (?k2\<lparr>qs := s3, pcbs := woken_pcbs ?k2 (woken ?k2)\<rparr>)"
              "contents s3 = woken_queues ?k2 (woken ?k2)"
            have pcbs: "woken_pcbs ?k2 (takeWhile (due k) ds) = woken_pcbs k (woken k)"
              using notin by (auto simp: woken_pcbs_def W i(1) fun_eq_iff dest: set_takeWhileD)
            have rp: "filter (\<lambda>x. ready_prio ?k2 x = p) (takeWhile (due k) ds) = filter (\<lambda>x. ready_prio k x = p) (takeWhile (due k) ds)" for p
              using notin by (intro filter_cong) (auto simp: ready_prio_def split: ptr.split dest: set_takeWhileD)
            have queues: "woken_queues ?k2 (takeWhile (due k) ds) = woken_queues k (woken k)"
              using s2 s1(2) Cons ready_prio_PCB [of k i]
              by (auto simp: woken_queues_def fun_eq_iff W rp [simplified] i(1) split: qid.split)
            show "Q () (?k2\<lparr>qs := s3, pcbs := woken_pcbs ?k2 (woken ?k2)\<rparr>)"
              using Suc.prems(3) [of s3] s3 unfolding tw pcbs queues by simp
          qed
        qed simp
        then show "wp (case (E_SUCCESS, PCB i) of (status, d) \<Rightarrow>
            if status \<noteq> E_SUCCESS \<or> d = NULL then kpanic ''_clk_isr'' ''sleep queue remove failure''
            else kbind (schedule (as_pcb d)) (\<lambda>_. wake_sleepers n)) Q ?k1"
          by (simp add: kern_simps as_pcb_def)
      qed
      with True show ?thesis by (simp add: kern_simps)
    qed
    with Cons i(1) show ?thesis
      by (simp add: kern_simps) (rule wp_peek [OF shape], simp add: kern_simps as_pcb_def due_def wake_def)
  qed
qed simp

lemma sorted_take_filter:
  fixes key :: "'a \<Rightarrow> 'b::linorder"
  assumes "sorted (map key xs)"
  shows "takeWhile (\<lambda>x. key x \<le> t) xs = filter (\<lambda>x. key x \<le> t) xs"
    "dropWhile (\<lambda>x. key x \<le> t) xs = filter (\<lambda>x. \<not> key x \<le> t) xs"
proof -
  have "takeWhile (\<lambda>x. key x \<le> t) xs = filter (\<lambda>x. key x \<le> t) xs \<and>
      dropWhile (\<lambda>x. key x \<le> t) xs = filter (\<lambda>x. \<not> key x \<le> t) xs"
    using assms
  proof (induction xs)
    case (Cons a xs)
    show ?case
    proof (cases "key a \<le> t")
      case False
      then have "\<forall>x \<in> set xs. \<not> key x \<le> t" using Cons.prems by force
      then have "filter (\<lambda>x. key x \<le> t) xs = []" "filter (\<lambda>x. \<not> key x \<le> t) xs = xs"
        by (simp_all add: filter_empty_conv filter_id_conv)
      with False show ?thesis by simp
    qed (use Cons in simp)
  qed simp
  then show "takeWhile (\<lambda>x. key x \<le> t) xs = filter (\<lambda>x. key x \<le> t) xs"
    "dropWhile (\<lambda>x. key x \<le> t) xs = filter (\<lambda>x. \<not> key x \<le> t) xs" by blast+
qed

lemma woken_filter:
  assumes "sane X k"
  shows "woken k = filter (due k) (contents (qs k) SLEEPING)"
    "drop (length (woken k)) (contents (qs k) SLEEPING) = filter (\<lambda>d. \<not> due k d) (contents (qs k) SLEEPING)"
proof -
  have s: "sorted (map (wake k) (contents (qs k) SLEEPING))" using assms by (simp add: sane_def)
  show "woken k = filter (due k) (contents (qs k) SLEEPING)"
    using sorted_take_filter(1) [OF s] by (simp add: woken_def due_def [abs_def])
  show "drop (length (woken k)) (contents (qs k) SLEEPING) = filter (\<lambda>d. \<not> due k d) (contents (qs k) SLEEPING)"
    using sorted_take_filter(2) [OF s] by (simp add: woken_def due_def [abs_def] dropWhile_eq_drop)
qed

text \<open>The state in which the sleepers are woken: the time advanced, the pinwheel turned.\<close>

definition ticked :: "kernel \<Rightarrow> kernel" where
  "ticked k = (spin_pinwheel k)\<lparr>now := now k + 1\<rparr>"

lemma ticked_sel [simp]:
  "qs (ticked k) = qs k" "pcbs (ticked k) = pcbs k" "now (ticked k) = now k + 1" "current (ticked k) = current k"
  "mm (ticked k) = mm k" "next_pid (ticked k) = next_pid k" "init_pcb (ticked k) = init_pcb k"
  by (simp_all add: ticked_def spin_pinwheel_def Let_def)

text \<open>The processes after the tick has been charged to the running one.\<close>

definition charged :: "kernel \<Rightarrow> nat \<Rightarrow> nat \<Rightarrow> pcb_t" where
  "charged k c = (woken_pcbs (ticked k) (woken (ticked k)))(c := (pcbs k c)\<lparr>q_ticks := q_ticks (pcbs k c) - 1\<rparr>)"

lemma wp_clk_isr:
  assumes c: "current k = Some c" "state (pcbs k c) = PS_RUNNING" and sane: "sane {c} k"
  defines "W \<equiv> woken (ticked k)"
  assumes stays: "\<And>s'. q_ticks (pcbs k c) \<noteq> 1 \<Longrightarrow> sane {c} ((ticked k)\<lparr>qs := s', pcbs := charged k c\<rparr>) \<Longrightarrow>
      contents s' = woken_queues (ticked k) W \<Longrightarrow> Q () ((ticked k)\<lparr>qs := s', pcbs := charged k c\<rparr>)"
    and goes: "\<And>s1 p c' ds s' k'. q_ticks (pcbs k c) = 1 \<Longrightarrow>
      contents s1 = (woken_queues (ticked k) W)(READY (ready_prio k (PCB c)) :=
        woken_queues (ticked k) W (READY (ready_prio k (PCB c))) @ [PCB c]) \<Longrightarrow>
      p < N_PRIOS \<Longrightarrow> contents s1 (READY p) = PCB c' # ds \<Longrightarrow> \<forall>p' < p. contents s1 (READY p') = [] \<Longrightarrow>
      contents s' = (contents s1)(READY p := ds) \<Longrightarrow> qs k' = s' \<Longrightarrow> current k' = Some c' \<Longrightarrow>
      pcbs k' = (let P = (charged k c)(c := ready_pcb (charged k c c)) in P(c' := (P c')\<lparr>state := PS_RUNNING, q_ticks := q_default (P c')\<rparr>)) \<Longrightarrow>
      now k' = now k + 1 \<Longrightarrow> next_pid k' = next_pid k \<Longrightarrow> init_pcb k' = init_pcb k \<Longrightarrow>
      sane {c'} k' \<Longrightarrow> Q () k'"
  shows "wp clk_isr Q k"
proof -
  let ?k1 = "ticked k"
  have sane1: "sane {c} ?k1" by (rule sane_frame [OF sane]) simp_all
  have shape: "qshape (qs k) (located {c} k) (free_stacks {c} k)" using sane by (simp add: sane_def)
  have len: "length (contents (qs ?k1) SLEEPING) < Suc N_QNODES"
    using qrep_bounds(3) [OF qshapeD(1) [OF shape, unfolded qinv_def], of SLEEPING] by (simp add: contents_def)
  have notin: "PCB c \<notin> set W"
    using sane_members [OF sane1, of SLEEPING "PCB c"] by (auto simp: W_def woken_def dest: set_takeWhileD)
  have "wp (wake_sleepers (Suc N_QNODES)) (\<lambda>_. wp charge_quantum Q) ?k1"
  proof (rule wp_wake_sleepers [OF sane1 len], fold W_def)
    fix s1 assume s1: "sane {c} (?k1\<lparr>qs := s1, pcbs := woken_pcbs ?k1 W\<rparr>)" "contents s1 = woken_queues ?k1 W"
    let ?k2 = "?k1\<lparr>qs := s1, pcbs := charged k c\<rparr>"
    have eq: "upd_pcb c (\<lambda>p. p\<lparr>q_ticks := q_ticks p - 1\<rparr>) (?k1\<lparr>qs := s1, pcbs := woken_pcbs ?k1 W\<rparr>) = ?k2"
      using notin by (simp add: upd_pcb_def charged_def W_def woken_pcbs_def)
    have sane2: "sane {c} ?k2"
      unfolding eq [symmetric] by (rule sane_upd [OF s1(1)]) simp_all
    have q: "q_ticks (charged k c c) = 0 \<longleftrightarrow> q_ticks (pcbs k c) = 1" by (simp add: charged_def)
    have "wp (if q_ticks (charged k c c) < 1 then kbind (schedule (Some c)) (\<lambda>_. dispatch) else kreturn ()) Q ?k2"
    proof (cases "q_ticks (pcbs k c) = 1")
      case False
      with stays [OF False] sane2 s1(2) show ?thesis by (simp add: q kern_simps)
    next
      case True
      have "wp (schedule (Some c)) (\<lambda>_. wp dispatch Q) ?k2"
      proof (rule wp_schedule [OF sane2])
        fix s2
        let ?p = "ready_pcb (pcbs ?k2 c)"
        let ?k3 = "?k2\<lparr>pcbs := (pcbs ?k2)(c := ?p), qs := s2\<rparr>"
        assume "sane ({c} - {c}) ?k3" and s2: "contents s2 = (contents (qs ?k2))(READY (unat (prio ?p)) :=
            contents (qs ?k2) (READY (unat (prio ?p))) @ [PCB c])" and "unat (prio ?p) < N_PRIOS"
        then have sane3: "sane {} ?k3" by simp
        have rp: "unat (prio ?p) = ready_prio k (PCB c)" by (simp add: ready_prio_PCB charged_def ready_pcb_def)
        have N: "c < N_PCBS" using sane by (simp add: sane_def)
        have s2': "contents s2 = (woken_queues ?k1 W)(READY (ready_prio k (PCB c)) :=
            woken_queues ?k1 W (READY (ready_prio k (PCB c))) @ [PCB c])"
          using s2 s1(2) rp by simp
        show "wp dispatch Q ?k3"
        proof (rule wp_dispatch [OF sane3], goal_cases)
          case 1
          show ?case using N by (intro exI [of _ c]) simp
        next
          case (2 p c' ds s' k')
          show ?case
            by (rule goes [OF True s2', of p c' ds s']) (use 2 in \<open>simp_all add: Let_def\<close>)
        qed
      qed simp
      with True show ?thesis by (simp add: q kern_simps)
    qed
    then show "wp charge_quantum Q (?k1\<lparr>qs := s1, pcbs := woken_pcbs ?k1 W\<rparr>)"
      using c(1) by (simp add: charge_quantum_def kern_simps eq del: upd_frame)
  qed
  moreover have "(spin_pinwheel k)\<lparr>now := now (spin_pinwheel k) + 1\<rparr> = ?k1"
    by (simp add: ticked_def spin_pinwheel_def Let_def)
  ultimately show ?thesis by (simp add: clk_isr_def kern_simps)
qed

end
