(* ===== verification/Kern_Syscall.thy ===== *)
theory Kern_Syscall
  imports Kern_Clock
begin

unbundle bit_operations_syntax

text \<open>
  The system calls (\<^verbatim>\<open>baseline/syscall.c\<close>) and the end of a process (\<^verbatim>\<open>_zombify\<close> of
  \<^verbatim>\<open>baseline/system.c\<close>). Arguments and results live in the saved context of the process, in
  memory.
\<close>

subsection \<open>Arguments and results\<close>

definition EXIT_BAD_CODE :: "32 word" where "EXIT_BAD_CODE = 2"
definition EXIT_KILLED :: "32 word" where "EXIT_KILLED = 3"

definition reg_addr :: "kernel \<Rightarrow> nat \<Rightarrow> 32 word \<Rightarrow> 32 word" where
  "reg_addr k i off = context_ptr (pcbs k i) + off"

definition arg_addr :: "kernel \<Rightarrow> nat \<Rightarrow> 32 word \<Rightarrow> 32 word" where
  "arg_addr k i n = context_ptr (pcbs k i) + CONTEXT_SIZE + 4 * n"

definition REG :: "nat \<Rightarrow> 32 word \<Rightarrow> kernel \<Rightarrow> 32 word" where
  "REG i off k = load32 (mem (mm k)) (reg_addr k i off)"

definition ARG :: "nat \<Rightarrow> 32 word \<Rightarrow> kernel \<Rightarrow> 32 word" where
  "ARG i n k = load32 (mem (mm k)) (arg_addr k i n)"

definition set_REG :: "nat \<Rightarrow> 32 word \<Rightarrow> 32 word \<Rightarrow> kernel \<Rightarrow> kernel" where
  "set_REG i off v k = upd_mem (store32 (reg_addr k i off) v) k"

definition set_ARG :: "nat \<Rightarrow> 32 word \<Rightarrow> 32 word \<Rightarrow> kernel \<Rightarrow> kernel" where
  "set_ARG i n v k = upd_mem (store32 (arg_addr k i n) v) k"

definition set_RET :: "nat \<Rightarrow> 32 word \<Rightarrow> kernel \<Rightarrow> kernel" where
  "set_RET i v = set_REG i off_eax v"

definition set_status :: "nat \<Rightarrow> int \<Rightarrow> kernel \<Rightarrow> kernel" where
  "set_status i e = set_RET i (word_of_int e)"

subsection \<open>The end of a process\<close>

text \<open>The loop that gives the children of a process to the initial process.\<close>

fun reparent_loop :: "nat \<Rightarrow> nat option \<Rightarrow> (kernel, unit) kern" where
  "reparent_loop 0 whom = kfail Diverges"
| "reparent_loop (Suc n) whom = (case whom of
       None \<Rightarrow> kreturn ()
     | Some w \<Rightarrow>
         kbind (kmodify (upd_pcb w (\<lambda>p. p\<lparr>ppid := PID_INIT\<rparr>))) (\<lambda>_.
         kbind (kget init_pcb) (\<lambda>ini.
         case ini of
           None \<Rightarrow> kfail NullDeref
         | Some i0 \<Rightarrow>
             kbind (kmodify (upd_pcb i0 (\<lambda>p. p\<lparr>children := children p + 1\<rparr>))) (\<lambda>_.
             kbind (pcb_find_child_of (- 1)) (reparent_loop n)))))"

definition reparent :: "nat \<Rightarrow> (kernel, unit) kern" where
  "reparent i =
     kbind (kget (\<lambda>k. children (pcbs k i))) (\<lambda>n.
     if n > 0 then
       kbind (kget (\<lambda>k. sint (pid (pcbs k i)))) (\<lambda>p.
       kbind (pcb_find_child_of p) (\<lambda>whom.
       kbind (reparent_loop (Suc (Suc N_PCBS)) whom) (\<lambda>_.
       kmodify (upd_pcb i (\<lambda>p. p\<lparr>children := 0\<rparr>)))))
     else kreturn ())"

text \<open>The answer to a parent blocked in \<^verbatim>\<open>wait\<close>: the two out parameters of its call are pointers.\<close>

definition answer_wait :: "nat \<Rightarrow> nat \<Rightarrow> kernel \<Rightarrow> kernel" where
  "answer_wait parent child k =
     (let k = set_status parent E_SUCCESS k;
          k = upd_mem (store16 (ARG parent 1 k) (pid (pcbs k child))) k;
          k = upd_mem (store32 (ARG parent 2 k) (exitstatus (pcbs k child))) k
      in k)"

definition zombify :: "nat option \<Rightarrow> (kernel, unit) kern" where
  "zombify p = (case p of
       None \<Rightarrow> kpanic ''_zombify'' ''NULL pcb parameter''
     | Some i \<Rightarrow>
         kbind (reparent i) (\<lambda>_.
         kbind (kget (\<lambda>k. pcb_find (ppid (pcbs k i)) k)) (\<lambda>par.
         case par of
           None \<Rightarrow> kpanic ''_zombify'' ''parent process doesn't exist!''
         | Some parent \<Rightarrow>
             kbind (kget (\<lambda>k. state (pcbs k parent) = PS_WAITING)) (\<lambda>waiting.
             if waiting then
               kbind (remove_from WAITING (PCB parent)) (\<lambda>status.
               if status \<noteq> E_SUCCESS then kpanic ''_zombify'' ''waiting parent isn't???''
               else
                 kbind (kmodify (answer_wait parent i)) (\<lambda>_.
                 kbind (pcb_cleanup i) (\<lambda>_.
                 schedule (Some parent))))
             else
               kbind (enque ZOMBIE (PCB i)) (\<lambda>status.
               if status \<noteq> E_SUCCESS then kpanic ''_zombify'' ''enque zombie failed'' else kreturn ())))))"

subsection \<open>The system calls\<close>

definition sys_getpid :: "nat \<Rightarrow> (kernel, unit) kern" where
  "sys_getpid i = kmodify (\<lambda>k. set_RET i (scast (pid (pcbs k i))) k)"

definition sys_getppid :: "nat \<Rightarrow> (kernel, unit) kern" where
  "sys_getppid i = kmodify (\<lambda>k. set_RET i (scast (ppid (pcbs k i))) k)"

definition sys_gettime :: "nat \<Rightarrow> (kernel, unit) kern" where
  "sys_gettime i = kmodify (\<lambda>k. set_RET i (now k) k)"

definition sys_getstatus :: "nat \<Rightarrow> (kernel, unit) kern" where
  "sys_getstatus i = kmodify (\<lambda>k.
     case pcb_find (ucast (ARG i 1 k)) k of
       None \<Rightarrow> set_RET i (word_of_int (state_code PS_INVALID)) k
     | Some t \<Rightarrow> set_RET i (word_of_int (state_code (state (pcbs k t)))) k)"

definition sys_exit :: "nat \<Rightarrow> (kernel, unit) kern" where
  "sys_exit i =
     kbind (kget (ARG i 1)) (\<lambda>status.
     kbind (kmodify (upd_pcb i (\<lambda>p. p\<lparr>exitstatus := status\<rparr>))) (\<lambda>_.
     kbind (kmodify (upd_pcb i (\<lambda>p. p\<lparr>state := PS_ZOMBIE\<rparr>))) (\<lambda>_.
     kbind (zombify (Some i)) (\<lambda>_.
     dispatch))))"

definition sys_sleep :: "nat \<Rightarrow> (kernel, unit) kern" where
  "sys_sleep i =
     kbind (kget (ARG i 1)) (\<lambda>msec.
     kbind
       (if msec = 0 then schedule (Some i)
        else
          kbind (kmodify (\<lambda>k. upd_pcb i (\<lambda>p. p\<lparr>wakeup := now k + msec\<rparr>) k)) (\<lambda>_.
          kbind (kmodify (upd_pcb i (\<lambda>p. p\<lparr>state := PS_SLEEPING\<rparr>))) (\<lambda>_.
          kbind (enque SLEEPING (PCB i)) (\<lambda>status.
          if status \<noteq> E_SUCCESS then kpanic ''_sys_sleep'' ''can't enque sleeper'' else kreturn ()))))
       (\<lambda>_. dispatch))"

definition kill_queue :: "pcb_t \<Rightarrow> qid option" where
  "kill_queue p = (case state p of
       PS_WAITING \<Rightarrow> Some WAITING
     | PS_SLEEPING \<Rightarrow> Some SLEEPING
     | PS_BLOCKED \<Rightarrow> Some READING
     | PS_READY \<Rightarrow> Some (READY (unat (prio p)))
     | _ \<Rightarrow> None)"

definition kill_finish :: "nat \<Rightarrow> nat \<Rightarrow> (kernel, unit) kern" where
  "kill_finish i v =
     kbind (kmodify (upd_pcb v (\<lambda>p. p\<lparr>state := PS_KILLED\<rparr>))) (\<lambda>_.
     kbind (kmodify (upd_pcb v (\<lambda>p. p\<lparr>exitstatus := EXIT_KILLED\<rparr>))) (\<lambda>_.
     kbind (kmodify (set_status i E_SUCCESS)) (\<lambda>_.
     kbind (zombify (Some v)) (\<lambda>_.
     kbind (kget current) (\<lambda>c.
     if Some v = c then dispatch else kreturn ())))))"

definition kill_victim :: "nat \<Rightarrow> nat \<Rightarrow> (kernel, unit) kern" where
  "kill_victim i v =
     kbind (kget (\<lambda>k. kill_queue (pcbs k v))) (\<lambda>which.
     case which of
       None \<Rightarrow> kill_finish i v
     | Some q \<Rightarrow>
         kbind (remove_from q (PCB v)) (\<lambda>status.
         if status \<noteq> E_SUCCESS then kpanic ''_sys_kill'' ''can't remove victim'' else kill_finish i v))"

definition sys_kill :: "nat \<Rightarrow> (kernel, unit) kern" where
  "sys_kill i =
     kbind (kget (\<lambda>k. pcb_find (ucast (ARG i 1 k)) k)) (\<lambda>victim.
     case victim of
       None \<Rightarrow> kmodify (set_status i E_NO_PROCESS)
     | Some v \<Rightarrow>
         kbind (kget (\<lambda>k. state (pcbs k v))) (\<lambda>st.
         if st \<in> {PS_KILLED, PS_ZOMBIE} then kmodify (set_status i E_SUCCESS)
         else if st \<in> {PS_WAITING, PS_SLEEPING, PS_BLOCKED, PS_READY, PS_RUNNING} then kill_victim i v
         else kpanic ''_sys_kill'' ''bad victim state''))"

fun wait_loop :: "nat \<Rightarrow> nat option \<Rightarrow> (kernel, nat option) kern" where
  "wait_loop 0 child = kfail Diverges"
| "wait_loop (Suc n) child = (case child of
       None \<Rightarrow> kreturn None
     | Some c \<Rightarrow>
         kbind (kget (\<lambda>k. state (pcbs k c) = PS_ZOMBIE)) (\<lambda>zombie.
         if zombie then kreturn (Some c)
         else kbind (pcb_find_child_of (- 1)) (wait_loop n)))"

definition reap :: "nat \<Rightarrow> nat \<Rightarrow> 32 word \<Rightarrow> 32 word \<Rightarrow> (kernel, unit) kern" where
  "reap i c pidptr statptr =
     kbind (remove_from ZOMBIE (PCB c)) (\<lambda>status.
     if status \<noteq> E_SUCCESS then kpanic ''_sys_wait'' ''can't deque zombie''
     else
       kbind (kmodify (set_status i E_SUCCESS)) (\<lambda>_.
       kbind (kmodify (upd_pcb i (\<lambda>p. p\<lparr>children := children p - 1\<rparr>))) (\<lambda>_.
       kbind (kmodify (\<lambda>k. upd_mem (store16 pidptr (pid (pcbs k c))) k)) (\<lambda>_.
       kbind (kmodify (\<lambda>k. upd_mem (store32 statptr (exitstatus (pcbs k c))) k)) (\<lambda>_.
       pcb_cleanup c)))))"

definition sys_wait :: "nat \<Rightarrow> (kernel, unit) kern" where
  "sys_wait i =
     kbind (kget (\<lambda>k. children (pcbs k i))) (\<lambda>n.
     if n = 0 then kmodify (set_status i E_NO_CHILD)
     else
       kbind (kget (ARG i 1)) (\<lambda>pidptr.
       kbind (kget (ARG i 2)) (\<lambda>statptr.
       kbind (kget (\<lambda>k. sint (pid (pcbs k i)))) (\<lambda>p.
       kbind (pcb_find_child_of p) (\<lambda>child.
       kbind (wait_loop (Suc (Suc N_PCBS)) child) (\<lambda>found.
       case found of
         Some c \<Rightarrow> reap i c pidptr statptr
       | None \<Rightarrow>
           kbind (kmodify (upd_pcb i (\<lambda>p. p\<lparr>state := PS_WAITING\<rparr>))) (\<lambda>_.
           kbind (enque WAITING (PCB i)) (\<lambda>status.
           if status \<noteq> E_SUCCESS then kpanic ''_sys_wait'' ''can't enque waiting parent''
           else dispatch))))))))"

text \<open>The child's process control block, its stack, and the two return values.\<close>

definition fork_pcb :: "nat \<Rightarrow> nat \<Rightarrow> nat \<Rightarrow> kernel \<Rightarrow> kernel" where
  "fork_pcb i new stk k =
     (let k = upd_pcb new (\<lambda>_. pcbs k i) k;
          k = (upd_pcb new (\<lambda>p. p\<lparr>pid := next_pid k\<rparr>) k)\<lparr>next_pid := next_pid k + 1\<rparr>
      in upd_pcb new (\<lambda>p. p\<lparr>ppid := pid (pcbs k i), q_default := QUANT_STD, stack_ptr := Some stk\<rparr>) k)"

definition fork_stack :: "nat \<Rightarrow> nat \<Rightarrow> nat \<Rightarrow> nat \<Rightarrow> kernel \<Rightarrow> kernel" where
  "fork_stack i new stk pstk k =
     (let k = upd_mem (kmemcpy STACK_BYTES (stack_addr k stk) (stack_addr k pstk)) k;
          offset = stack_addr k stk - stack_addr k pstk;
          k = upd_pcb new (\<lambda>p. p\<lparr>context_ptr := context_ptr (pcbs k i) + offset\<rparr>) k;
          k = set_REG new off_ebp (REG new off_ebp k + offset) k
      in upd_pcb new (\<lambda>p. p\<lparr>memory_ptr := memory_ptr (pcbs k i)\<rparr>) k)"

definition fork_return :: "nat \<Rightarrow> nat \<Rightarrow> kernel \<Rightarrow> kernel" where
  "fork_return i new k =
     (let k = set_RET new 0 k;
          k = set_RET i (scast (pid (pcbs k new))) k
      in upd_pcb i (\<lambda>p. p\<lparr>children := children p + 1\<rparr>) k)"

definition fork_child :: "nat \<Rightarrow> nat \<Rightarrow> nat \<Rightarrow> (kernel, unit) kern" where
  "fork_child i new stk =
     kbind (kmodify (fork_pcb i new stk)) (\<lambda>_.
     kbind (kget (\<lambda>k. stack_ptr (pcbs k i))) (\<lambda>pstk.
     case pstk of
       None \<Rightarrow> kfail NullDeref
     | Some ps \<Rightarrow>
         kbind (kmodify (fork_stack i new stk ps)) (\<lambda>_.
         kbind (kmodify (fork_return i new)) (\<lambda>_.
         schedule (Some new)))))"

definition sys_fork :: "nat \<Rightarrow> (kernel, unit) kern" where
  "sys_fork i =
     kbind (kget next_pid) (\<lambda>np.
     if np \<ge> 65000 then kmodify (set_status i E_NO_MORE_PROCS)
     else
       kbind pcb_alloc (\<lambda>new.
       case new of
         None \<Rightarrow> kmodify (set_status i E_NO_PCBS)
       | Some n \<Rightarrow>
           kbind stk_alloc (\<lambda>stk.
           case stk of
             None \<Rightarrow> kbind (kmodify (set_status i E_NO_STACKS)) (\<lambda>_. pcb_dealloc (Some n))
           | Some j \<Rightarrow> fork_child i n j)))"

definition sys_exec :: "nat \<Rightarrow> (kernel, unit) kern" where
  "sys_exec i =
     kbind (kget (ARG i 1)) (\<lambda>entry.
     kbind (kget (ARG i 2)) (\<lambda>arg.
     kbind (kmodify (\<lambda>k. upd_pcb i (\<lambda>p. p\<lparr>prio := ARG i 3 k\<rparr>) k)) (\<lambda>_.
     kbind (kget (\<lambda>k. stack_ptr (pcbs k i))) (\<lambda>stk.
     kbind (stk_setup stk entry arg) (\<lambda>ctx.
     kbind (kmodify (upd_pcb i (\<lambda>p. p\<lparr>context_ptr := ctx\<rparr>))) (\<lambda>_.
     kbind (kget (\<lambda>k. prio (pcbs k i) = 0)) (\<lambda>system.
     kbind (if system then kget (\<lambda>k. get_identity_mapped (mm k)) else in_memory new_page_directory) (\<lambda>dir.
     kbind (kmodify (upd_pcb i (\<lambda>p. p\<lparr>memory_ptr := dir\<rparr>))) (\<lambda>_.
     kmodify (\<lambda>k. k\<lparr>mm := set_return_pde (memory_ptr (pcbs k i)) (mm k)\<rparr>))))))))))"

definition sys_mmap :: "nat \<Rightarrow> (kernel, unit) kern" where
  "sys_mmap i =
     kbind (kget (\<lambda>k. memory_ptr (pcbs k i))) (\<lambda>space.
     kbind (kget (ARG i 1)) (\<lambda>arg1.
     kbind (kget (ARG i 2)) (\<lambda>arg2.
     kbind (kget (ARG i 3)) (\<lambda>arg3.
     kbind (in_memory (k_mmap space arg1 arg2 arg3)) (\<lambda>(_, status).
     kmodify (set_status i status))))))"

subsection \<open>Reading and writing\<close>

definition CHAN_CONSOLE :: int where "CHAN_CONSOLE = 0"
definition CHAN_SIO :: int where "CHAN_SIO = 1"

primrec store_bytes :: "8 word list \<Rightarrow> 32 word \<Rightarrow> memory \<Rightarrow> memory" where
  "store_bytes [] a m = m"
| "store_bytes (b # bs) a m = store_bytes bs (a + 1) (m(a := b))"

text \<open>The end of \<^verbatim>\<open>_sys_read\<close>: the count is returned, or the process waits for the serial line.\<close>

definition read_result :: "nat \<Rightarrow> nat \<Rightarrow> (kernel, unit) kern" where
  "read_result i n =
     (if n > 0 then kmodify (set_RET i (of_nat n))
      else
        kbind (enque READING (PCB i)) (\<lambda>stat.
        if stat \<noteq> E_SUCCESS then kmodify (set_status i E_FAILURE)
        else
          kbind (kget current) (\<lambda>c.
          case c of
            None \<Rightarrow> kfail NullDeref
          | Some cur \<Rightarrow> kbind (kmodify (upd_pcb cur (\<lambda>p. p\<lparr>state := PS_BLOCKED\<rparr>))) (\<lambda>_. dispatch))))"

definition sys_read :: "nat \<Rightarrow> (kernel, unit) kern" where
  "sys_read i =
     kbind (kget (\<lambda>k. sint (ARG i 1 k))) (\<lambda>chan.
     kbind (kget (ARG i 2)) (\<lambda>buf.
     kbind (kget (ARG i 3)) (\<lambda>sz.
     if chan = CHAN_CONSOLE then
       kbind (kget (\<lambda>k. c_input_queue (cio k))) (\<lambda>n.
       if n < 1 then kmodify (set_status i E_NO_CHAR)
       else
         kbind (in_console (c_gets sz)) (\<lambda>chars.
         kbind (kmodify (upd_mem (store_bytes (chars @ [0]) buf))) (\<lambda>_.
         read_result i (length chars))))
     else if chan = CHAN_SIO then
       kbind (in_serial (sio_reads (sint sz))) (\<lambda>chars.
       kbind (kmodify (upd_mem (store_bytes chars buf))) (\<lambda>_.
       read_result i (length chars)))
     else kmodify (set_status i E_BAD_CHAN))))"

definition sys_write :: "nat \<Rightarrow> (kernel, unit) kern" where
  "sys_write i =
     kbind (kget (\<lambda>k. sint (ARG i 1 k))) (\<lambda>chan.
     kbind (kget (ARG i 2)) (\<lambda>buf.
     kbind (kget (ARG i 3)) (\<lambda>sz.
     if chan = CHAN_CONSOLE then
       kbind (kfor [0..<nat (sint sz)] (\<lambda>j.
         kbind (kget (\<lambda>k. mem (mm k) (buf + of_nat j))) (\<lambda>c. in_console (c_putchar c)))) (\<lambda>_.
       kmodify (set_RET i sz))
     else if chan = CHAN_SIO then
       kbind (kget (\<lambda>k j. mem (mm k) (buf + of_nat j))) (\<lambda>bytes.
       kbind (in_serial (sio_writes bytes (sint sz))) (\<lambda>_.
       kmodify (set_RET i sz)))
     else kmodify (set_status i E_BAD_CHAN))))"

subsection \<open>Serial interrupts\<close>

text \<open>What the UART reports, one event per read of its event register.\<close>

datatype uart_event = LINE_STATUS "8 word" | RX "8 word" | RX_FIFO_TIMEOUT "8 word" | TX
  | MODEM_STATUS "8 word" | OTHER_EVENT

definition sio_receive :: "8 word \<Rightarrow> (kernel, unit) kern" where
  "sio_receive data =
     (let ch = (if data = CR then LF else data) in
      kbind (kget (q_size READING)) (\<lambda>n.
      if n > 0 then
        kbind (deque READING) (\<lambda>(status, d).
        if status \<noteq> E_SUCCESS \<or> d = NULL then kpanic ''_sio_isr'' ''read queue remove failed''
        else (case as_pcb d of
                None \<Rightarrow> kfail OutOfRange
              | Some p \<Rightarrow> kbind (kmodify (set_RET p (ucast ch))) (\<lambda>_. schedule (Some p))))
      else in_serial (sio_store ch)))"

primrec sio_isr :: "uart_event list \<Rightarrow> (kernel, unit) kern" where
  "sio_isr [] = kreturn ()"
| "sio_isr (e # es) =
     kbind (case e of
         RX data \<Rightarrow> sio_receive data
       | TX \<Rightarrow> in_serial sio_transmit
       | OTHER_EVENT \<Rightarrow> kpanic ''_sio_isr'' ''unknown device status''
       | LINE_STATUS _ \<Rightarrow> kreturn () | RX_FIFO_TIMEOUT _ \<Rightarrow> kreturn () | MODEM_STATUS _ \<Rightarrow> kreturn ())
       (\<lambda>_. sio_isr es)"

subsection \<open>The system call interrupt\<close>

definition N_SYSCALLS :: nat where "N_SYSCALLS = 13"

text \<open>
  The jump table, filled in the order of \<^verbatim>\<open>_sys_init\<close>: \<^verbatim>\<open>SYS_getstatus\<close> and \<^verbatim>\<open>SYS_mmap\<close> have the same
  code, and the last entry stays empty.
\<close>

definition syscalls :: "nat \<Rightarrow> (nat \<Rightarrow> (kernel, unit) kern) option" where
  "syscalls = Map.empty(0 \<mapsto> sys_exit, 1 \<mapsto> sys_read, 2 \<mapsto> sys_write, 3 \<mapsto> sys_fork, 4 \<mapsto> sys_exec, 5 \<mapsto> sys_kill,
     6 \<mapsto> sys_wait, 7 \<mapsto> sys_sleep, 8 \<mapsto> sys_getpid, 9 \<mapsto> sys_getppid, 10 \<mapsto> sys_gettime, 11 \<mapsto> sys_getstatus,
     11 \<mapsto> sys_mmap)"

definition sys_isr :: "(kernel, unit) kern" where
  "sys_isr =
     kbind (kget current) (\<lambda>c.
     case c of
       None \<Rightarrow> kfail NullDeref
     | Some i \<Rightarrow>
         kbind (kget (\<lambda>k. unat (REG i off_eax k))) (\<lambda>code.
         kbind (if code \<ge> N_SYSCALLS
                then kbind (kmodify (set_ARG i 1 EXIT_BAD_CODE)) (\<lambda>_. kreturn 0)
                else kreturn code) (\<lambda>code.
         case syscalls code of
           None \<Rightarrow> kfail NullDeref
         | Some f \<Rightarrow> f i)))"

definition sys_init :: "(kernel, unit) kern" where
  "sys_init = kbind (reset ZOMBIE None) (\<lambda>_. reset WAITING None)"

subsection \<open>The page fault interrupt\<close>

text \<open>The process that caused the fault is killed, as in \<^verbatim>\<open>_sys_kill\<close>; the report on the console is left out.\<close>

definition page_fault_isr :: "(kernel, unit) kern" where
  "page_fault_isr =
     kbind (kget current) (\<lambda>c.
     case c of
       None \<Rightarrow> kfail NullDeref
     | Some i \<Rightarrow>
         kbind (kmodify (upd_pcb i (\<lambda>p. p\<lparr>state := PS_KILLED\<rparr>))) (\<lambda>_.
         kbind (kmodify (upd_pcb i (\<lambda>p. p\<lparr>exitstatus := EXIT_KILLED\<rparr>))) (\<lambda>_.
         kbind (zombify (Some i)) (\<lambda>_.
         dispatch))))"

subsection \<open>System initialization\<close>

text \<open>\<^verbatim>\<open>init_entry\<close> is the address of the user routine \<^verbatim>\<open>init\<close>; the drivers' hardware set-up is left out.\<close>

definition init_modules :: "(kernel, unit) kern" where
  "init_modules =
     kbind (kmodify (\<lambda>k. k\<lparr>qs := q_init (qs k)\<rparr>)) (\<lambda>_.
     kbind pcb_init (\<lambda>_.
     kbind stk_init (\<lambda>_.
     kbind sched_init (\<lambda>_.
     kbind (in_serial sio_init) (\<lambda>_.
     kbind (reset READING None) (\<lambda>_.
     kbind sys_init (\<lambda>_.
     clk_init)))))))"

definition init_process :: "32 word \<Rightarrow> (kernel, unit) kern" where
  "init_process init_entry =
     kbind pcb_alloc (\<lambda>p.
     case p of
       None \<Rightarrow> kpanic ''_init'' ''init() pcb alloc failed''
     | Some i \<Rightarrow>
         kbind stk_alloc (\<lambda>stk.
         kbind (kmodify (upd_pcb i (\<lambda>p. p\<lparr>stack_ptr := stk\<rparr>))) (\<lambda>_.
         if stk = None then kpanic ''_init'' ''init() stack alloc failed''
         else
           kbind (stk_setup stk init_entry 0) (\<lambda>ctx.
           kbind (kmodify (upd_pcb i (\<lambda>p. p\<lparr>context_ptr := ctx\<rparr>))) (\<lambda>_.
           if ctx = 0 then kpanic ''_init'' ''init() stack setup failed''
           else
             kbind (kmodify (\<lambda>k. upd_pcb i (\<lambda>p. p\<lparr>memory_ptr := get_identity_mapped (mm k)\<rparr>) k)) (\<lambda>_.
             kbind (kmodify (upd_pcb i (\<lambda>p. p\<lparr>ppid := PID_INIT, pid := PID_INIT, prio := P_SYSTEM, q_default := QUANT_STD\<rparr>))) (\<lambda>_.
             kbind (kmodify (\<lambda>k. k\<lparr>init_pcb := Some i\<rparr>)) (\<lambda>_.
             schedule (Some i)))))))))"

definition init :: "32 word \<Rightarrow> (kernel, unit) kern" where
  "init init_entry =
     kbind init_modules (\<lambda>_.
     kbind (init_process init_entry) (\<lambda>_.
     kbind (in_serial (sio_enable SIO_RX)) (\<lambda>_.
     dispatch)))"

end
