(* ===== verification/Kern_Family.thy ===== *)
theory Kern_Family
  imports Kern_Syscall
begin

text \<open>
  The process tree: every live process has a parent that exists, process identifiers are unique,
  and a process never has more children than it counts. This is what keeps \<^verbatim>\<open>_zombify\<close> from losing
  a parent, and it holds after every system call and clock tick.
\<close>

subsection \<open>The search for children\<close>

definition kids :: "kernel \<Rightarrow> int \<Rightarrow> nat \<Rightarrow> nat list" where
  "kids k t a = filter (\<lambda>j. t = sint (ppid (pcbs k j))) [a..<N_PCBS]"

lemma find_filter: "List.find P xs = (case filter P xs of [] \<Rightarrow> None | x # _ \<Rightarrow> Some x)"
  by (induction xs) auto

lemma kids_Cons:
  assumes "kids k t a = w # ws"
  shows "ws = kids k t (Suc w)" "a \<le> w" "w < N_PCBS" "t = sint (ppid (pcbs k w))"
proof -
  have w: "w \<in> set (kids k t a)" using assms by simp
  then show aw: "a \<le> w" "w < N_PCBS" and tw: "t = sint (ppid (pcbs k w))" by (auto simp: kids_def)
  from aw have "[a..<N_PCBS] = [a..<w] @ w # [Suc w..<N_PCBS]"
    using upt_add_eq_append [of a w "N_PCBS - w"] by (simp add: upt_conv_Cons)
  then have "kids k t a = filter (\<lambda>j. t = sint (ppid (pcbs k j))) [a..<w] @ w # kids k t (Suc w)"
    using tw by (simp add: kids_def)
  moreover have "filter (\<lambda>j. t = sint (ppid (pcbs k j))) [a..<w] = []"
  proof (cases "filter (\<lambda>j. t = sint (ppid (pcbs k j))) [a..<w]")
    case (Cons y ys)
    then have "y = w" using calculation assms by simp
    moreover have "y < w" using Cons by (metis Cons_eq_filterD atLeastLessThan_iff in_set_conv_decomp set_upt)
    ultimately show ?thesis by simp
  qed
  ultimately show "ws = kids k t (Suc w)" using assms by simp
qed

lemma find_child_first:
  "pcb_find_child_of p k =
     (case kids k p 0 of
        [] \<Rightarrow> Inr (None, k\<lparr>find_curr := None, find_target := - 1\<rparr>)
      | w # _ \<Rightarrow> Inr (Some w, k\<lparr>find_curr := Some w, find_target := p\<rparr>))"
  if "p \<noteq> - 1"
  using that by (simp add: pcb_find_child_of_def Let_def find_filter kids_def split: list.split)

lemma find_child_next:
  assumes "find_curr k = Some c"
  shows "pcb_find_child_of (- 1) k =
     (case kids k (find_target k) (Suc c) of
        [] \<Rightarrow> Inr (None, k\<lparr>find_curr := None, find_target := - 1\<rparr>)
      | w # _ \<Rightarrow> Inr (Some w, k\<lparr>find_curr := Some w\<rparr>))"
  using assms by (simp add: pcb_find_child_of_def Let_def find_filter kids_def split: list.split)

text \<open>Giving the processes \<^verbatim>\<open>ws\<close> to the initial process \<^verbatim>\<open>z\<close>.\<close>

definition adopt :: "nat \<Rightarrow> nat list \<Rightarrow> (nat \<Rightarrow> pcb_t) \<Rightarrow> nat \<Rightarrow> pcb_t" where
  "adopt z ws P j =
     (let p = (if j \<in> set ws then (P j)\<lparr>ppid := PID_INIT\<rparr> else P j)
      in if j = z then p\<lparr>children := children p + of_nat (length ws)\<rparr> else p)"

definition adopt1 :: "nat \<Rightarrow> nat \<Rightarrow> kernel \<Rightarrow> kernel" where
  "adopt1 z w k = upd_pcb z (\<lambda>p. p\<lparr>children := children p + 1\<rparr>) (upd_pcb w (\<lambda>p. p\<lparr>ppid := PID_INIT\<rparr>) k)"

lemma upd_pcb_globals [simp]:
  "init_pcb (upd_pcb i f k) = init_pcb k" "find_curr (upd_pcb i f k) = find_curr k"
  "find_target (upd_pcb i f k) = find_target k" "next_pid (upd_pcb i f k) = next_pid k"
  by (simp_all add: upd_pcb_def)

lemma adopt1_pcbs: obtains P where "adopt1 z w k = k\<lparr>pcbs := P\<rparr>"
  by (simp add: adopt1_def upd_pcb_def)

lemma adopt1_sel [simp]:
  "find_curr (adopt1 z w k) = find_curr k" "find_target (adopt1 z w k) = find_target k"
  "init_pcb (adopt1 z w k) = init_pcb k"
  by (simp_all add: adopt1_def)

lemma adopt_Nil: "adopt z [] P = P"
  by (simp add: adopt_def Let_def fun_eq_iff)

lemma adopt_Cons: "w \<notin> set ws \<Longrightarrow> adopt z (w # ws) (pcbs k) = adopt z ws (pcbs (adopt1 z w k))"
  by (auto simp: adopt_def adopt1_def Let_def fun_eq_iff)

lemma kids_adopt1: "kids (adopt1 z w k) t (Suc w) = kids k t (Suc w)"
  unfolding kids_def by (intro filter_cong) (auto simp: adopt1_def)

lemma reparent_step:
  "init_pcb k = Some z \<Longrightarrow>
   reparent_loop (Suc n) (Some w) k = kbind (pcb_find_child_of (- 1)) (reparent_loop n) (adopt1 z w k)"
  by (simp add: kern_simps adopt1_def)

lemma reparent_loop_run:
  assumes "init_pcb k = Some z" "find_curr k = Some w" "length (kids k (find_target k) (Suc w)) + 1 < n"
  shows "reparent_loop n (Some w) k = Inr ((), k\<lparr>pcbs := adopt z (w # kids k (find_target k) (Suc w)) (pcbs k),
      find_curr := None, find_target := - 1\<rparr>)"
  using assms
proof (induction "kids k (find_target k) (Suc w)" arbitrary: k w n)
  case (Nil k w n)
  then obtain m where n: "n = Suc (Suc m)" by (cases n; cases "n - 1") auto
  have "pcb_find_child_of (- 1) (adopt1 z w k) = Inr (None, (adopt1 z w k)\<lparr>find_curr := None, find_target := - 1\<rparr>)"
    using find_child_next [of "adopt1 z w k" w] Nil by (simp add: kids_adopt1 Nil.hyps [symmetric])
  then have "reparent_loop n (Some w) k = Inr ((), (adopt1 z w k)\<lparr>find_curr := None, find_target := - 1\<rparr>)"
    using reparent_step [OF Nil.prems(1), of "Suc m" w]
    by (simp add: n kern_simps del: reparent_loop.simps) (simp add: kern_simps)
  moreover obtain P where P: "adopt1 z w k = k\<lparr>pcbs := P\<rparr>" by (rule adopt1_pcbs)
  ultimately show ?case by (simp add: Nil.hyps [symmetric] adopt_Cons adopt_Nil)
next
  case (Cons w' ws k w n)
  then obtain m where n: "n = Suc m" by (cases n) auto
  let ?k1 = "(adopt1 z w k)\<lparr>find_curr := Some w'\<rparr>"
  let ?t = "find_target k"
  note ks = Cons.hyps(2) [symmetric]
  have t: "find_target ?k1 = ?t" by simp
  have "pcb_find_child_of (- 1) (adopt1 z w k) = Inr (Some w', ?k1)"
    using find_child_next [of "adopt1 z w k" w] Cons.prems(2) by (simp add: kids_adopt1 ks)
  then have step: "reparent_loop n (Some w) k = reparent_loop m (Some w') ?k1"
    using reparent_step [OF Cons.prems(1), of m w] by (simp add: n kern_simps del: reparent_loop.simps)
  have ks1: "kids ?k1 ?t (Suc w') = ws"
  proof -
    have "kids ?k1 ?t (Suc w) = w' # ws" using kids_adopt1 [of z w k ?t] ks by (simp add: kids_def)
    then show ?thesis using kids_Cons(1) by blast
  qed
  have notin: "w \<notin> set (w' # ws)" unfolding ks [symmetric] by (simp add: kids_def)
  have "reparent_loop m (Some w') ?k1 = Inr ((), ?k1\<lparr>pcbs := adopt z (w' # kids ?k1 ?t (Suc w')) (pcbs ?k1),
      find_curr := None, find_target := - 1\<rparr>)"
    using Cons.hyps(1) [of ?k1 w' m] Cons.prems n ks ks1 by (simp add: t)
  moreover obtain P where "adopt1 z w k = k\<lparr>pcbs := P\<rparr>" by (rule adopt1_pcbs)
  ultimately show ?case
    using step ks ks1 adopt_Cons [OF notin, of z k] by simp
qed

lemma reparent_run:
  assumes "init_pcb k = Some z" "pid (pcbs k i) \<noteq> - 1"
  defines "ws \<equiv> kids k (sint (pid (pcbs k i))) 0"
  shows "reparent i k = Inr ((), if children (pcbs k i) = 0 then k
    else k\<lparr>pcbs := (adopt z ws (pcbs k))(i := (adopt z ws (pcbs k) i)\<lparr>children := 0\<rparr>),
           find_curr := None, find_target := - 1\<rparr>)"
proof -
  have p: "sint (pid (pcbs k i)) \<noteq> - 1" using assms(2) by (metis signed_minus_1 signed_word_eqI)
  have len: "length (kids k' t a) \<le> N_PCBS" for k' t a
    unfolding kids_def by (rule le_trans [OF length_filter_le]) simp
  show ?thesis
  proof (cases ws)
    case Nil
    then have "pcb_find_child_of (sint (pid (pcbs k i))) k = Inr (None, k\<lparr>find_curr := None, find_target := - 1\<rparr>)"
      using find_child_first [OF p] by (simp add: ws_def)
    with Nil show ?thesis by (simp add: reparent_def kern_simps adopt_Nil upd_pcb_def word_gt_0)
  next
    case (Cons w ws')
    let ?k1 = "k\<lparr>find_curr := Some w, find_target := sint (pid (pcbs k i))\<rparr>"
    have "pcb_find_child_of (sint (pid (pcbs k i))) k = Inr (Some w, ?k1)"
      using find_child_first [OF p] Cons by (simp add: ws_def)
    moreover have "kids ?k1 (find_target ?k1) (Suc w) = ws'"
      using kids_Cons(1) [of k "sint (pid (pcbs k i))" 0 w ws'] Cons by (simp add: ws_def kids_def)
    then have "reparent_loop (Suc (Suc N_PCBS)) (Some w) ?k1 =
        Inr ((), ?k1\<lparr>pcbs := adopt z ws (pcbs ?k1), find_curr := None, find_target := - 1\<rparr>)"
      using reparent_loop_run [of ?k1 z w "Suc (Suc N_PCBS)"] assms(1) len [of ?k1 "find_target ?k1" "Suc w"] Cons by simp
    ultimately show ?thesis
      by (simp add: reparent_def kern_simps word_gt_0 upd_pcb_def del: reparent_loop.simps)
  qed
qed

subsection \<open>The process tree\<close>

text \<open>
  The tree over the live processes \<^verbatim>\<open>L\<close>: \<^verbatim>\<open>pd\<close> and \<^verbatim>\<open>pp\<close> are the identifiers of a process and of its
  parent, \<^verbatim>\<open>ch\<close> the counts, \<^verbatim>\<open>np\<close> the next identifier, \<^verbatim>\<open>z\<close> the initial process. A parent is older
  than its children, and the counts are bounded so that they never wrap around.
\<close>

definition tree :: "nat set \<Rightarrow> (nat \<Rightarrow> 16 word) \<Rightarrow> (nat \<Rightarrow> 16 word) \<Rightarrow> (nat \<Rightarrow> 16 word) \<Rightarrow> 16 word \<Rightarrow> nat \<Rightarrow> bool" where
  "tree L pd pp ch np z \<longleftrightarrow> finite L \<and> z \<in> L \<and> pd z = 1 \<and> pp z = 1 \<and> 100 \<le> unat np \<and> unat np \<le> 65000 \<and>
     (\<forall>i \<in> L - {z}. 100 \<le> unat (pd i) \<and> unat (pd i) < unat np) \<and> inj_on pd L \<and> pp ` L \<subseteq> pd ` L \<and>
     (\<forall>i \<in> L - {z}. card {j \<in> L. j \<noteq> i \<and> pp j = pd i} \<le> unat (ch i)) \<and>
     (\<forall>i \<in> L - {z}. unat (ch i) \<le> unat np - 100) \<and>
     unat (ch z) + card {j \<in> L. pp j \<noteq> 1} \<le> unat np - 100 \<and> (\<forall>i \<in> L - {z}. unat (pp i) < unat (pd i))"

lemma treeD:
  assumes "tree L pd pp ch np z"
  shows "finite L" "z \<in> L" "pd z = 1" "pp z = 1" "100 \<le> unat np" "unat np \<le> 65000"
    "\<And>i. i \<in> L \<Longrightarrow> i \<noteq> z \<Longrightarrow> 100 \<le> unat (pd i)" "\<And>i. i \<in> L \<Longrightarrow> i \<noteq> z \<Longrightarrow> unat (pd i) < unat np"
    "inj_on pd L" "\<And>i. i \<in> L \<Longrightarrow> pp i \<in> pd ` L"
    "\<And>i. i \<in> L \<Longrightarrow> i \<noteq> z \<Longrightarrow> card {j \<in> L. j \<noteq> i \<and> pp j = pd i} \<le> unat (ch i)"
    "\<And>i. i \<in> L \<Longrightarrow> i \<noteq> z \<Longrightarrow> unat (ch i) \<le> unat np - 100"
    "unat (ch z) + card {j \<in> L. pp j \<noteq> 1} \<le> unat np - 100"
    "\<And>i. i \<in> L \<Longrightarrow> i \<noteq> z \<Longrightarrow> unat (pp i) < unat (pd i)"
  using assms by (auto simp: tree_def)

lemma tree_pid_not_init: "tree L pd pp ch np z \<Longrightarrow> i \<in> L \<Longrightarrow> i \<noteq> z \<Longrightarrow> pd i \<noteq> 1"
  using treeD(7) [of L pd pp ch np z i] by auto

lemma tree_pid_valid: "tree L pd pp ch np z \<Longrightarrow> i \<in> L \<Longrightarrow> pd i \<noteq> - 1"
  using treeD(3) [of L pd pp ch np z] treeD(6) [of L pd pp ch np z] treeD(8) [of L pd pp ch np z i]
  by (cases "i = z") (auto simp: unsigned_minus_1_eq_mask mask_eq_exp_minus_1)

lemma unat_add_small: "unat a + n < 2 ^ 16 \<Longrightarrow> unat (a + of_nat n) = unat a + n" for a :: "16 word"
  by (simp add: unat_word_ariths unat_of_nat)

lemma tree_childless:
  assumes "tree L pd pp ch np z" "i \<in> L" "i \<noteq> z" "ch i = 0"
  shows "{j \<in> L. j \<noteq> i \<and> pp j = pd i} = {}"
  using treeD(11) [OF assms(1-3)] treeD(1) [OF assms(1)] assms(4) by auto

lemma tree_remove:
  assumes t: "tree L pd pp ch np z" and i: "i \<in> L" "i \<noteq> z" and none: "{j \<in> L. j \<noteq> i \<and> pp j = pd i} = {}"
  shows "tree (L - {i}) pd pp ch np z"
proof -
  have sub: "pp ` (L - {i}) \<subseteq> pd ` (L - {i})"
  proof
    fix p assume "p \<in> pp ` (L - {i})"
    then obtain j where j: "j \<in> L" "j \<noteq> i" "p = pp j" by auto
    then obtain j' where j': "j' \<in> L" "pp j = pd j'" using treeD(10) [OF t j(1)] by auto
    moreover have "j' \<noteq> i" using none j j' by auto
    ultimately show "p \<in> pd ` (L - {i})" using j(3) by auto
  qed
  have less: "card {j \<in> L - {i}. P j} \<le> card {j \<in> L. P j}" for P
    using treeD(1) [OF t] by (intro card_mono) auto
  have "card {j \<in> L - {i}. j \<noteq> i' \<and> pp j = pd i'} \<le> unat (ch i')" if "i' \<in> L - {i} - {z}" for i'
    using le_trans [OF less treeD(11) [OF t, of i']] that by simp
  moreover have "unat (ch z) + card {j \<in> L - {i}. pp j \<noteq> 1} \<le> unat np - 100"
    using less [of "\<lambda>j. pp j \<noteq> 1"] treeD(13) [OF t] by linarith
  moreover have "inj_on pd (L - {i})" using treeD(9) [OF t] by (rule inj_on_diff)
  ultimately show ?thesis
    using t i sub by (simp add: tree_def)
qed

lemma tree_adopt:
  assumes t: "tree L pd pp ch np z" and i: "i \<in> L" "i \<noteq> z"
    and W: "W = {j \<in> L. pp j = pd i}" and n: "n = card W"
    and pp': "\<And>j. j \<in> L \<Longrightarrow> pp' j = (if j \<in> W then 1 else pp j)"
    and ch': "\<And>j. j \<in> L \<Longrightarrow> ch' j = (if j = i then 0 else if j = z then ch z + of_nat n else ch j)"
  shows "tree L pd pp' ch' np z" "{j \<in> L. pp' j = pd i} = {}"
proof -
  have fin: "finite L" by (rule treeD(1) [OF t])
  have pi: "pd i \<noteq> 1" by (rule tree_pid_not_init [OF t i])
  show none: "{j \<in> L. pp' j = pd i} = {}" using pi by (auto simp: pp' W)
  have zW: "z \<notin> W" using treeD(4) [OF t] pi by (auto simp: W)
  have split: "{j \<in> L. pp j \<noteq> 1} = {j \<in> L. pp' j \<noteq> 1} \<union> W" "{j \<in> L. pp' j \<noteq> 1} \<inter> W = {}"
    using pi by (auto simp: pp' W)
  have "card {j \<in> L. pp j \<noteq> 1} = card {j \<in> L. pp' j \<noteq> 1} + n"
    unfolding split(1) n using fin split(2) by (intro card_Un_disjoint) (auto simp: W)
  then have b: "unat (ch z) + n + card {j \<in> L. pp' j \<noteq> 1} \<le> unat np - 100"
    using treeD(13) [OF t] by linarith
  then have "unat (ch z) + n < 2 ^ 16" using treeD(6) [OF t] by simp
  then have chz: "unat (ch' z) = unat (ch z) + n" using i treeD(2) [OF t] by (simp add: ch' unat_add_small)
  have "card {j \<in> L. j \<noteq> i' \<and> pp' j = pd i'} \<le> unat (ch' i')" if i': "i' \<in> L - {z}" for i'
  proof (cases "i' = i")
    case True
    then have e: "{j \<in> L. j \<noteq> i' \<and> pp' j = pd i'} = {}" using none by auto
    show ?thesis unfolding e by simp
  next
    case False
    have "{j \<in> L. j \<noteq> i' \<and> pp' j = pd i'} \<subseteq> {j \<in> L. j \<noteq> i' \<and> pp j = pd i'}"
      using i' tree_pid_not_init [OF t, of i'] by (auto simp: pp' split: if_splits)
    then have "card {j \<in> L. j \<noteq> i' \<and> pp' j = pd i'} \<le> card {j \<in> L. j \<noteq> i' \<and> pp j = pd i'}"
      using fin by (intro card_mono) auto
    also have "\<dots> \<le> unat (ch i')" using treeD(11) [OF t] i' by simp
    finally show ?thesis using False i' by (simp add: ch')
  qed
  moreover have "unat (ch' i') \<le> unat np - 100" if "i' \<in> L - {z}" for i'
    using that treeD(12) [OF t, of i'] by (auto simp: ch')
  moreover have "pp' ` L \<subseteq> pd ` L"
    using treeD(2,3,10) [OF t] by (auto simp: pp' split: if_splits intro: rev_image_eqI)
  moreover have "pp' z = 1" using treeD(2,4) [OF t] by (simp add: pp')
  moreover have "unat (pp' j) < unat (pd j)" if "j \<in> L - {z}" for j
    using that treeD(7,14) [OF t, of j] by (auto simp: pp')
  ultimately show "tree L pd pp' ch' np z"
    using t b chz by (simp add: tree_def)
qed

lemma tree_init_dies:
  assumes t: "tree L pd pp ch np z" and pp': "\<And>j. j \<in> L \<Longrightarrow> pp' j = pp j"
    and ch': "\<And>j. j \<in> L \<Longrightarrow> j \<noteq> z \<Longrightarrow> ch' j = ch j" "ch' z = 0"
  shows "tree L pd pp' ch' np z"
proof -
  have same: "{j \<in> L. j \<noteq> i \<and> pp' j = pd i} = {j \<in> L. j \<noteq> i \<and> pp j = pd i}" "{j \<in> L. pp' j \<noteq> 1} = {j \<in> L. pp j \<noteq> 1}" for i
    using pp' by auto
  have "pp' ` L \<subseteq> pd ` L" using pp' treeD(10) [OF t] by auto
  then show ?thesis
    using t ch' pp' treeD(2,13) [OF t] by (auto simp: tree_def same)
qed

lemma tree_fork:
  assumes t: "tree L pd pp ch np z" and c: "c \<in> L" and n: "n \<notin> L" and np: "unat np < 65000"
    and pd': "\<And>j. j \<in> L \<Longrightarrow> pd' j = pd j" "pd' n = np"
    and pp': "\<And>j. j \<in> L \<Longrightarrow> pp' j = pp j" "pp' n = pd c"
    and ch': "\<And>j. j \<in> L \<Longrightarrow> j \<noteq> c \<Longrightarrow> ch' j = ch j" "ch' c = ch c + 1" "ch' n = ch c"
  shows "tree (insert n L) pd' pp' ch' (np + 1) z"
proof -
  have fin: "finite L" and zL: "z \<in> L" using treeD(1,2) [OF t] .
  have np1: "unat (np + 1) = unat np + 1" using unat_add_small [of np 1] np by simp
  have bc: "unat (ch c) \<le> unat np - 100"
    using treeD(12) [OF t c] treeD(13) [OF t] by (cases "c = z") auto
  have cc: "unat (ch' c) = unat (ch c) + 1" using unat_add_small [of "ch c" 1] bc np by (simp add: ch')
  have new: "pd j \<noteq> np" if "j \<in> L" for j
    using treeD(8) [OF t that] treeD(3,5) [OF t] by (cases "j = z") auto
  have inj: "inj_on pd' (insert n L)"
  proof -
    have "inj_on pd' L" using treeD(9) [OF t] pd'(1) by (simp add: inj_on_def)
    moreover have "pd' n \<notin> pd' ` (L - {n})" using new pd' by fastforce
    ultimately show ?thesis by (simp add: inj_on_insert)
  qed
  have sub: "pp' ` insert n L \<subseteq> pd' ` insert n L"
    using treeD(10) [OF t] pp' pd' c by (auto simp: image_iff)
  have kids: "card {j \<in> insert n L. j \<noteq> i \<and> pp' j = pd' i} \<le> unat (ch' i)" if i: "i \<in> insert n L - {z}" for i
  proof (cases "i = n")
    case True
    have "pp j \<noteq> np" if "j \<in> L" for j using treeD(10) [OF t that] new by (metis imageE)
    then have e: "{j \<in> insert n L. j \<noteq> i \<and> pp' j = pd' i} = {}" using True pp' pd' n by auto
    show ?thesis unfolding e by simp
  next
    case False
    with i have iL: "i \<in> L" "i \<noteq> z" by auto
    have le: "card {j \<in> L. j \<noteq> i \<and> pp j = pd i} \<le> unat (ch i)" by (rule treeD(11) [OF t iL])
    have "{j \<in> insert n L. j \<noteq> i \<and> pp' j = pd' i} = (if i = c then insert n {j \<in> L. j \<noteq> i \<and> pp j = pd i} else {j \<in> L. j \<noteq> i \<and> pp j = pd i})"
    proof -
      have "pp' n = pd' i \<longleftrightarrow> i = c" 
        unfolding pp'(2) pd'(1) [OF iL(1)] using inj_on_eq_iff [OF treeD(9) [OF t] c iL(1)] by blast
      moreover have "pp' j = pd' i \<longleftrightarrow> pp j = pd i" if "j \<in> L" for j using that pp'(1) pd'(1) [OF iL(1)] by simp
      ultimately show ?thesis using n False by auto
    qed
    then have "card {j \<in> insert n L. j \<noteq> i \<and> pp' j = pd' i} \<le> card {j \<in> L. j \<noteq> i \<and> pp j = pd i} + (if i = c then 1 else 0)"
      using fin by (cases "i = c") (simp_all add: card_insert_if)
    also have "\<dots> \<le> unat (ch' i)"
      using le cc ch'(1) [OF iL(1)] by (cases "i = c") simp_all
    finally show ?thesis .
  qed
  have orphans: "unat (ch' z) + card {j \<in> insert n L. pp' j \<noteq> 1} \<le> unat (np + 1) - 100"
  proof -
    have "{j \<in> insert n L. pp' j \<noteq> 1} = (if c = z then {j \<in> L. pp j \<noteq> 1} else insert n {j \<in> L. pp j \<noteq> 1})"
      using pp' tree_pid_not_init [OF t c] treeD(3) [OF t] n by auto
    then have "card {j \<in> insert n L. pp' j \<noteq> 1} \<le> card {j \<in> L. pp j \<noteq> 1} + (if c = z then 0 else 1)"
      using fin by (cases "c = z") (simp_all add: card_insert_if)
    moreover have "unat (ch' z) = unat (ch z) + (if c = z then 1 else 0)"
      using cc ch'(1) [OF zL] by (cases "c = z") simp_all
    ultimately show ?thesis
      using treeD(5,13) [OF t] np1 by (cases "c = z") simp_all
  qed
  have pids: "100 \<le> unat (pd' i) \<and> unat (pd' i) < unat (np + 1)" if "i \<in> insert n L - {z}" for i
    using that pd' treeD(5,7,8) [OF t] np1 by fastforce
  have counts: "unat (ch' i) \<le> unat (np + 1) - 100" if "i \<in> insert n L - {z}" for i
    using that bc cc ch' np1 treeD(5,12) [OF t] by (cases "i = c"; cases "i = n") fastforce+
  have older: "unat (pp' i) < unat (pd' i)" if i: "i \<in> insert n L - {z}" for i
  proof (cases "i = n")
    case True
    then show ?thesis using pd'(2) pp'(2) treeD(3,5) [OF t] treeD(8) [OF t c] by (cases "c = z") simp_all
  next
    case False
    then show ?thesis using i pd'(1) [of i] pp'(1) [of i] treeD(14) [OF t, of i] by simp
  qed
  show ?thesis
    unfolding tree_def
    using older fin zL inj sub kids orphans pids counts treeD(3,4,5) [OF t] pd'(1) [OF zL] pp'(1) [OF zL] np np1 by simp
qed

lemma tree_reap:
  assumes t: "tree L pd pp ch np z" and i: "i \<in> L" and c: "c \<in> L" "c \<noteq> i" "c \<noteq> z" "pp c = pd i" and ch: "ch i \<noteq> 0"
    and none: "{j \<in> L. j \<noteq> c \<and> pp j = pd c} = {}"
    and ch': "\<And>j. j \<in> L \<Longrightarrow> ch' j = (if j = i then ch i - 1 else ch j)"
  shows "tree (L - {c}) pd pp ch' np z"
proof -
  have t': "tree (L - {c}) pd pp ch np z" by (rule tree_remove [OF t c(1,3) none])
  have dec: "unat (ch' i) = unat (ch i) - 1" using ch i by (simp add: ch' unat_minus_one)
  have "card {j \<in> L - {c}. j \<noteq> i' \<and> pp j = pd i'} \<le> unat (ch' i')" if i': "i' \<in> L - {c} - {z}" for i'
  proof (cases "i' = i")
    case True
    have "{j \<in> L - {c}. j \<noteq> i' \<and> pp j = pd i'} = {j \<in> L. j \<noteq> i' \<and> pp j = pd i'} - {c}" by auto
    moreover have "c \<in> {j \<in> L. j \<noteq> i' \<and> pp j = pd i'}" using c True by simp
    ultimately have "card {j \<in> L - {c}. j \<noteq> i' \<and> pp j = pd i'} = card {j \<in> L. j \<noteq> i' \<and> pp j = pd i'} - 1" by simp
    then show ?thesis using treeD(11) [OF t, of i'] i' True dec by auto
  next
    case False
    then show ?thesis using treeD(11) [OF t', of i'] i' by (simp add: ch')
  qed
  moreover have "unat (ch' i') \<le> unat np - 100" if "i' \<in> L - {c} - {z}" for i'
    using treeD(12) [OF t, of i'] that dec by (cases "i' = i") (auto simp: ch')
  moreover have "unat (ch' z) + card {j \<in> L - {c}. pp j \<noteq> 1} \<le> unat np - 100"
    using treeD(13) [OF t'] treeD(2) [OF t] dec by (cases "z = i") (auto simp: ch')
  ultimately show ?thesis
    using t' by (simp add: tree_def)
qed

end
