(* ===== verification/Kern_Zombie.thy ===== *)
theory Kern_Zombie
  imports Kern_Family
begin

text \<open>
  The family invariant of the kernel and the end of a process: \<^verbatim>\<open>_zombify\<close> returns from every state
  that satisfies the invariants, keeps them, and either answers a waiting parent or leaves a zombie.
\<close>

subsection \<open>The family invariant\<close>

abbreviation (input) dead_state :: "state_t \<Rightarrow> bool" where
  "dead_state s \<equiv> s = PS_KILLED \<or> s = PS_ZOMBIE"

definition lineage :: "nat set \<Rightarrow> (nat \<Rightarrow> pcb_t) \<Rightarrow> 16 word \<Rightarrow> nat \<Rightarrow> bool" where
  "lineage L P np z \<longleftrightarrow> tree L (\<lambda>i. pid (P i)) (\<lambda>i. ppid (P i)) (\<lambda>i. children (P i)) np z \<and>
     L \<subseteq> {..<N_PCBS} \<and> (\<forall>i < N_PCBS. i \<notin> L \<longrightarrow> pid (P i) = - 1 \<and> ppid (P i) = - 1)"

definition family :: "nat set \<Rightarrow> kernel \<Rightarrow> bool" where
  "family X k \<longleftrightarrow> (\<exists>z. init_pcb k = Some z \<and> lineage (Collect (live X k)) (pcbs k) (next_pid k) z \<and>
     (\<forall>i < N_PCBS. i \<notin> X \<and> i \<noteq> z \<and> dead_state (state (pcbs k i)) \<longrightarrow> children (pcbs k i) = 0))"

lemma tree_cong:
  assumes "tree L pd pp ch np z" "\<And>i. i \<in> L \<Longrightarrow> pd' i = pd i \<and> pp' i = pp i \<and> ch' i = ch i"
  shows "tree L pd' pp' ch' np z"
proof -
  have "{j \<in> L. j \<noteq> i \<and> pp' j = pd' i} = {j \<in> L. j \<noteq> i \<and> pp j = pd i}" if "i \<in> L" for i
    using assms(2) that by auto
  moreover have "{j \<in> L. pp' j \<noteq> 1} = {j \<in> L. pp j \<noteq> 1}" using assms(2) by auto
  moreover have "inj_on pd' L = inj_on pd L" by (rule inj_on_cong) (simp add: assms(2))
  moreover have "pd' ` L = pd ` L" "pp' ` L = pp ` L" using assms(2) by auto
  ultimately show ?thesis
    using assms by (auto simp: tree_def)
qed

lemma lineage_cong:
  assumes "lineage L P np z"
    and "\<And>i. i < N_PCBS \<Longrightarrow> pid (P' i) = pid (P i) \<and> ppid (P' i) = ppid (P i) \<and> children (P' i) = children (P i)"
  shows "lineage L P' np z"
  using assms unfolding lineage_def by (auto elim!: tree_cong)

lemma lineage_remove:
  assumes l: "lineage L P np z" and i: "i \<in> L" "i \<noteq> z" "\<And>j. j \<in> L \<Longrightarrow> j \<noteq> i \<Longrightarrow> ppid (P j) \<noteq> pid (P i)"
    and P': "pid (P' i) = - 1" "ppid (P' i) = - 1"
      "\<And>j. j < N_PCBS \<Longrightarrow> j \<noteq> i \<Longrightarrow> pid (P' j) = pid (P j) \<and> ppid (P' j) = ppid (P j) \<and> children (P' j) = children (P j)"
  shows "lineage (L - {i}) P' np z"
proof -
  have "{j \<in> L. j \<noteq> i \<and> ppid (P j) = pid (P i)} = {}" using i(3) by auto
  then have "tree (L - {i}) (\<lambda>i. pid (P i)) (\<lambda>i. ppid (P i)) (\<lambda>i. children (P i)) np z"
    using l i tree_remove unfolding lineage_def by blast
  then have "tree (L - {i}) (\<lambda>i. pid (P' i)) (\<lambda>i. ppid (P' i)) (\<lambda>i. children (P' i)) np z"
    by (rule tree_cong) (use l P'(3) in \<open>auto simp: lineage_def\<close>)
  moreover have "pid (P' j) = - 1 \<and> ppid (P' j) = - 1" if "j < N_PCBS" "j \<notin> L - {i}" for j
    using that l P' by (cases "j = i") (auto simp: lineage_def)
  ultimately show ?thesis using l by (auto simp: lineage_def)
qed

lemma lineage_find:
  assumes l: "lineage L (pcbs k) np z" and j: "j \<in> L"
  shows "pcb_find (pid (pcbs k j)) k = Some j"
proof -
  have tr: "tree L (\<lambda>i. pid (pcbs k i)) (\<lambda>i. ppid (pcbs k i)) (\<lambda>i. children (pcbs k i)) np z"
    using l by (simp add: lineage_def)
  have "pid (pcbs k i) \<noteq> pid (pcbs k j)" if "i < N_PCBS" "i \<noteq> j" for i
    using l that tree_pid_valid [OF tr j] inj_onD [OF treeD(9) [OF tr], of i j] j
    by (cases "i \<in> L") (auto simp: lineage_def)
  moreover have "j < N_PCBS" using l j by (auto simp: lineage_def)
  ultimately show ?thesis
    unfolding pcb_find_def find_Some_iff by (intro exI [of _ j]) (auto dest: sym)
qed

lemma lineage_parent:
  assumes l: "lineage L (pcbs k) np z" and i: "i \<in> L"
  obtains j where "pcb_find (ppid (pcbs k i)) k = Some j" "j \<in> L" "pid (pcbs k j) = ppid (pcbs k i)"
proof -
  have "ppid (pcbs k i) \<in> (\<lambda>i. pid (pcbs k i)) ` L"
    using l i by (auto simp: lineage_def tree_def)
  then obtain j where j: "j \<in> L" "ppid (pcbs k i) = pid (pcbs k j)" by auto
  then have "pcb_find (ppid (pcbs k i)) k = Some j" using lineage_find [OF l j(1)] by simp
  with j that show ?thesis by simp
qed

subsection \<open>Orphans\<close>

text \<open>The process table after \<^verbatim>\<open>_reparent\<close> has given the children of \<^verbatim>\<open>i\<close> to the initial process.\<close>

definition orphaned :: "kernel \<Rightarrow> nat \<Rightarrow> nat \<Rightarrow> pcb_t" where
  "orphaned k i = (if children (pcbs k i) = 0 then pcbs k else
     (let P = adopt (the (init_pcb k)) (kids k (sint (pid (pcbs k i))) 0) (pcbs k)
      in P(i := (P i)\<lparr>children := 0\<rparr>)))"

lemma adopt_sel [simp]:
  "pid (adopt z ws P j) = pid (P j)" "state (adopt z ws P j) = state (P j)" "prio (adopt z ws P j) = prio (P j)"
  "wakeup (adopt z ws P j) = wakeup (P j)" "stack_ptr (adopt z ws P j) = stack_ptr (P j)"
  "context_ptr (adopt z ws P j) = context_ptr (P j)" "exitstatus (adopt z ws P j) = exitstatus (P j)"
  "memory_ptr (adopt z ws P j) = memory_ptr (P j)"
  "ppid (adopt z ws P j) = (if j \<in> set ws then 1 else ppid (P j))"
  "children (adopt z ws P j) = (if j = z then children (P j) + of_nat (length ws) else children (P j))"
  by (simp_all add: adopt_def Let_def PID_INIT_def)

lemma orphaned_sel [simp]:
  "pid (orphaned k i j) = pid (pcbs k j)" "state (orphaned k i j) = state (pcbs k j)"
  "prio (orphaned k i j) = prio (pcbs k j)" "wakeup (orphaned k i j) = wakeup (pcbs k j)"
  "stack_ptr (orphaned k i j) = stack_ptr (pcbs k j)" "context_ptr (orphaned k i j) = context_ptr (pcbs k j)"
  "exitstatus (orphaned k i j) = exitstatus (pcbs k j)" "memory_ptr (orphaned k i j) = memory_ptr (pcbs k j)"
  "children (orphaned k i i) = 0"
  by (simp_all add: orphaned_def Let_def)

lemma kids_lineage:
  assumes l: "lineage L (pcbs k) np z" and i: "i \<in> L"
  shows "set (kids k (sint (pid (pcbs k i))) 0) = {j \<in> L. ppid (pcbs k j) = pid (pcbs k i)}"
    "length (kids k (sint (pid (pcbs k i))) 0) = card {j \<in> L. ppid (pcbs k j) = pid (pcbs k i)}"
proof -
  have tr: "tree L (\<lambda>i. pid (pcbs k i)) (\<lambda>i. ppid (pcbs k i)) (\<lambda>i. children (pcbs k i)) np z"
    using l by (simp add: lineage_def)
  have dead: "j \<in> L" if "j < N_PCBS" "ppid (pcbs k j) = pid (pcbs k i)" for j
    using that l tree_pid_valid [OF tr i] unfolding lineage_def by metis
  have "sint (pid (pcbs k i)) = sint (ppid (pcbs k j)) \<longleftrightarrow> ppid (pcbs k j) = pid (pcbs k i)" for j
    by (metis signed_word_eqI)
  then show "set (kids k (sint (pid (pcbs k i))) 0) = {j \<in> L. ppid (pcbs k j) = pid (pcbs k i)}"
    using dead l by (auto simp: kids_def lineage_def)
  then show "length (kids k (sint (pid (pcbs k i))) 0) = card {j \<in> L. ppid (pcbs k j) = pid (pcbs k i)}"
    using distinct_card [of "kids k (sint (pid (pcbs k i))) 0"] by (simp add: kids_def)
qed

lemma lineage_orphaned:
  assumes l: "lineage L (pcbs k) np z" and i: "i \<in> L" and z: "init_pcb k = Some z"
  shows "lineage L (orphaned k i) np z" "ppid (orphaned k i i) = ppid (pcbs k i)"
    "j \<in> L \<Longrightarrow> i \<noteq> z \<Longrightarrow> ppid (orphaned k i j) = pid (pcbs k i) \<Longrightarrow> j = i"
    "j \<in> L \<Longrightarrow> j \<noteq> z \<Longrightarrow> children (pcbs k j) = 0 \<Longrightarrow> children (orphaned k i j) = 0"
proof -
  have tr: "tree L (\<lambda>i. pid (pcbs k i)) (\<lambda>i. ppid (pcbs k i)) (\<lambda>i. children (pcbs k i)) np z"
    and N: "L \<subseteq> {..<N_PCBS}" and dead: "\<And>j. j < N_PCBS \<Longrightarrow> j \<notin> L \<Longrightarrow> pid (pcbs k j) = - 1 \<and> ppid (pcbs k j) = - 1"
    using l by (auto simp: lineage_def)
  define ws where "ws = kids k (sint (pid (pcbs k i))) 0"
  let ?W = "{j \<in> L. ppid (pcbs k j) = pid (pcbs k i)}"
  note W = kids_lineage [OF l i, folded ws_def]
  have o: "orphaned k i = (if children (pcbs k i) = 0 then pcbs k else (adopt z ws (pcbs k))(i := (adopt z ws (pcbs k) i)\<lparr>children := 0\<rparr>))"
    by (simp add: orphaned_def ws_def z Let_def)
  have self: "i = z" if "ppid (pcbs k i) = pid (pcbs k i)"
    using treeD(14) [OF tr i] that by (cases "i = z") simp_all
  show pp: "ppid (orphaned k i i) = ppid (pcbs k i)"
    using self treeD(4) [OF tr] by (auto simp: o W)
  show "j \<in> L \<Longrightarrow> j \<noteq> z \<Longrightarrow> children (pcbs k j) = 0 \<Longrightarrow> children (orphaned k i j) = 0" by (simp add: o)
  have pp': "ppid (orphaned k i j) = (if j \<in> ?W then 1 else ppid (pcbs k j))" if "children (pcbs k i) \<noteq> 0" for j
    using that by (simp add: o W(1))
  have "tree L (\<lambda>j. pid (orphaned k i j)) (\<lambda>j. ppid (orphaned k i j)) (\<lambda>j. children (orphaned k i j)) np z"
  proof (cases "children (pcbs k i) = 0")
    case True
    then show ?thesis using tr by (simp add: o)
  next
    case ch: False
    show ?thesis
    proof (cases "i = z")
      case True
      then have p1: "pid (pcbs k i) = 1" using treeD(3) [OF tr] by simp
      show ?thesis
        unfolding orphaned_sel
      proof (rule tree_init_dies [OF tr])
        show "ppid (orphaned k i j) = ppid (pcbs k j)" if "j \<in> L" for j using pp' [OF ch] p1 by simp
        show "children (orphaned k i j) = children (pcbs k j)" if "j \<in> L" "j \<noteq> z" for j unfolding o using that True by simp
        show "children (orphaned k i z) = 0" using orphaned_sel(9) [of k i] unfolding True .
      qed
    next
      case False
      show ?thesis
        unfolding orphaned_sel
        by (rule tree_adopt(1) [OF tr i False refl refl]) (use False ch in \<open>auto simp: pp' o W\<close>)
    qed
  qed
  moreover have "ppid (orphaned k i j) = ppid (pcbs k j)" if "j \<notin> L" for j
    using that i by (auto simp: o W)
  ultimately show "lineage L (orphaned k i) np z"
    using N dead by (simp add: lineage_def)
  show "j = i" if j: "j \<in> L" and iz: "i \<noteq> z" and e: "ppid (orphaned k i j) = pid (pcbs k i)"
  proof (cases "children (pcbs k i) = 0")
    case True
    then show ?thesis using tree_childless [OF tr i iz] j e by (auto simp: o)
  next
    case False
    then show ?thesis using pp' [OF False, of j] tree_pid_not_init [OF tr i iz] j e by (auto split: if_splits)
  qed
qed

subsection \<open>The end of a process\<close>

definition freed_pcb :: "pcb_t \<Rightarrow> pcb_t" where
  "freed_pcb p = p\<lparr>state := PS_FREE, pid := - 1, ppid := - 1\<rparr>"

lemma freed_pcb_sel [simp]:
  "state (freed_pcb p) = PS_FREE" "pid (freed_pcb p) = - 1" "ppid (freed_pcb p) = - 1" "children (freed_pcb p) = children p"
  by (simp_all add: freed_pcb_def)

lemma ctx_frame [simp]:
  "pcbs (set_REG i off v k) = pcbs k" "qs (set_REG i off v k) = qs k" "current (set_REG i off v k) = current k"
  "init_pcb (set_REG i off v k) = init_pcb k" "next_pid (set_REG i off v k) = next_pid k" "now (set_REG i off v k) = now k"
  "init_pcb (upd_mem f k) = init_pcb k" "next_pid (upd_mem f k) = next_pid k"
  by (simp_all add: set_REG_def upd_mem_def)

lemma ret_frame [simp]:
  "pcbs (set_RET i v k) = pcbs k" "qs (set_RET i v k) = qs k" "current (set_RET i v k) = current k"
  "init_pcb (set_RET i v k) = init_pcb k" "next_pid (set_RET i v k) = next_pid k" "now (set_RET i v k) = now k"
  "pcbs (set_status i e k) = pcbs k" "qs (set_status i e k) = qs k" "current (set_status i e k) = current k"
  "init_pcb (set_status i e k) = init_pcb k" "next_pid (set_status i e k) = next_pid k" "now (set_status i e k) = now k"
  by (simp_all add: set_RET_def set_status_def)

lemma answer_frame [simp]:
  "pcbs (answer_wait j i k) = pcbs k" "qs (answer_wait j i k) = qs k" "current (answer_wait j i k) = current k"
  "init_pcb (answer_wait j i k) = init_pcb k" "next_pid (answer_wait j i k) = next_pid k" "now (answer_wait j i k) = now k"
  by (simp_all add: answer_wait_def Let_def)

text \<open>The two outcomes: a parent blocked in \<^verbatim>\<open>wait\<close> is answered at once, any other finds a zombie later.\<close>

definition answered :: "nat \<Rightarrow> nat \<Rightarrow> kernel \<Rightarrow> kernel \<Rightarrow> bool" where
  "answered i j k k' \<longleftrightarrow> j < N_PCBS \<and> pid (pcbs k j) = ppid (pcbs k i) \<and> state (pcbs k j) = PS_WAITING \<and>
     mm k' = mm (answer_wait j i k) \<and>
     pcbs k' = (orphaned k i)(i := freed_pcb (orphaned k i i), j := ready_pcb (orphaned k i j))"

definition left_zombie :: "nat \<Rightarrow> kernel \<Rightarrow> kernel \<Rightarrow> bool" where
  "left_zombie i k k' \<longleftrightarrow> mm k' = mm k \<and> pcbs k' = orphaned k i \<and>
     contents (qs k') = (contents (qs k))(ZOMBIE := contents (qs k) ZOMBIE @ [PCB i]) \<and>
     (\<forall>j < N_PCBS. pid (pcbs k j) = ppid (pcbs k i) \<longrightarrow> state (pcbs k j) \<noteq> PS_WAITING)"

lemma wp_zombify:
  assumes sane: "sane X k" and fam: "family X k" and i: "i \<in> X" "dead_state (state (pcbs k i))"
    and X: "\<And>x. x \<in> X \<Longrightarrow> state (pcbs k x) \<noteq> PS_WAITING"
    and Q: "\<And>k'. sane (X - {i}) k' \<Longrightarrow> family (X - {i}) k' \<Longrightarrow> current k' = current k \<Longrightarrow> now k' = now k \<Longrightarrow>
      (\<exists>j. answered i j k k') \<or> left_zombie i k k' \<Longrightarrow> Q () k'"
  shows "wp (zombify (Some i)) Q k"
proof -
  obtain z where z: "init_pcb k = Some z" and l: "lineage (Collect (live X k)) (pcbs k) (next_pid k) z"
    and dead: "\<forall>i < N_PCBS. i \<notin> X \<and> i \<noteq> z \<and> dead_state (state (pcbs k i)) \<longrightarrow> children (pcbs k i) = 0"
    using fam by (auto simp: family_def)
  let ?L = "Collect (live X k)"
  have tr: "tree ?L (\<lambda>i. pid (pcbs k i)) (\<lambda>i. ppid (pcbs k i)) (\<lambda>i. children (pcbs k i)) (next_pid k) z"
    using l by (simp add: lineage_def)
  have N: "i < N_PCBS" using sane i by (auto simp: sane_def)
  then have iL: "i \<in> ?L" using i by (simp add: live_def)
  obtain g h where run: "reparent i k = Inr ((), k\<lparr>pcbs := orphaned k i, find_curr := g, find_target := h\<rparr>)"
  proof -
    note run = reparent_run [OF z tree_pid_valid [OF tr iL]]
    show ?thesis
    proof (cases "children (pcbs k i) = 0")
      case True
      show ?thesis by (rule that [of "find_target k" "find_curr k"]) (use run True in \<open>simp add: orphaned_def\<close>)
    next
      case False
      show ?thesis by (rule that [of "- 1" None]) (use run False in \<open>simp add: orphaned_def z Let_def\<close>)
    qed
  qed
  define k1 where "k1 = k\<lparr>pcbs := orphaned k i, find_curr := g, find_target := h\<rparr>"
  have sel: "pcbs k1 = orphaned k i" "qs k1 = qs k" "mm k1 = mm k" "current k1 = current k" "now k1 = now k"
    "init_pcb k1 = Some z" "next_pid k1 = next_pid k" by (simp_all add: k1_def z)
  have sane1: "sane X k1" by (rule sane_cong [OF sane]) (simp_all add: sel)
  note l1 = lineage_orphaned [OF l iL z]
  obtain par where par: "pcb_find (ppid (pcbs k1 i)) k1 = Some par" "par \<in> ?L" "pid (pcbs k1 par) = ppid (pcbs k1 i)"
    by (rule lineage_parent [of ?L k1 "next_pid k" z i]) (use l1(1) iL in \<open>simp_all add: sel\<close>)
  have live_gone: "live (X - {i}) k' = live X k" if "state (pcbs k' i) \<noteq> PS_FREE" "\<And>j. (state (pcbs k' j) = PS_FREE) = (state (pcbs k j) = PS_FREE)" for k'
    using that i by (auto simp: live_def fun_eq_iff)
  have "wp (if state (pcbs k1 par) = PS_WAITING
      then kbind (remove_from WAITING (PCB par)) (\<lambda>status.
               if status \<noteq> E_SUCCESS then kpanic ''_zombify'' ''waiting parent isn't???''
               else
                 kbind (kmodify (answer_wait par i)) (\<lambda>_.
                 kbind (pcb_cleanup i) (\<lambda>_.
                 schedule (Some par))))
      else kbind (enque ZOMBIE (PCB i)) (\<lambda>status.
               if status \<noteq> E_SUCCESS then kpanic ''_zombify'' ''enque zombie failed'' else kreturn ())) Q k1"
  proof (cases "state (pcbs k1 par) = PS_WAITING")
    case waiting: True
    then have W: "state (pcbs k par) = PS_WAITING" by (simp add: sel)
    then have parX: "par \<notin> X" "par \<noteq> i" using X i by auto
    have parN: "par < N_PCBS" using par(2) by (simp add: live_def)
    have iz: "i \<noteq> z"
    proof
      assume "i = z"
      then have "pid (pcbs k par) = pid (pcbs k i)" using par(3) l1(2) treeD(3,4) [OF tr] by (simp add: sel)
      then show False using inj_onD [OF treeD(9) [OF tr], of par i] par(2) iL parX(2) by blast
    qed
    have shape: "qshape (qs k1) (located X k1) (free_stacks X k1)" using sane1 by (simp add: sane_def)
    have "wp (remove_from WAITING (PCB par)) (\<lambda>status. wp
        (if status \<noteq> E_SUCCESS then kpanic ''_zombify'' ''waiting parent isn't???''
         else kbind (kmodify (answer_wait par i)) (\<lambda>_. kbind (pcb_cleanup i) (\<lambda>_. schedule (Some par)))) Q) k1"
    proof (rule wp_remove_pcb [OF shape _ parN])
      show "located X k1 par = Some WAITING" using parX(1) W by (simp add: located_def home_def sel)
      fix s1 assume s1: "qshape s1 ((located X k1)(par := None)) (free_stacks X k1)"
        "contents s1 = (contents (qs k1))(WAITING := remove1 (PCB par) (contents (qs k1) WAITING))"
      let ?k2 = "answer_wait par i (k1\<lparr>qs := s1\<rparr>)"
      have "sane (insert par X) ?k2"
        by (rule sane_take [OF sane1 parN parX(1) _ s1(1), where P = "\<lambda>_. True"]) (use s1(2) W in \<open>simp_all add: sel\<close>)
      then have "wp (pcb_cleanup i) (\<lambda>_. wp (schedule (Some par)) Q) ?k2"
      proof (rule wp_pcb_cleanup)
        fix s2
        let ?p = "(pcbs ?k2 i)\<lparr>state := PS_FREE, pid := - 1, ppid := - 1\<rparr>"
        let ?k3 = "?k2\<lparr>pcbs := (pcbs ?k2)(i := ?p), qs := s2\<rparr>"
        assume s2: "sane (insert par X - {i}) ?k3"
        show "wp (schedule (Some par)) Q ?k3"
        proof (rule wp_schedule [OF s2])
          fix s3
          let ?k4 = "?k3\<lparr>pcbs := (pcbs ?k3)(par := ready_pcb (pcbs ?k3 par)), qs := s3\<rparr>"
          assume s3: "sane (insert par X - {i} - {par}) ?k4"
          have X': "insert par X - {i} - {par} = X - {i}" using parX by auto
          have pcbs4: "pcbs ?k4 = (orphaned k i)(i := freed_pcb (orphaned k i i), par := ready_pcb (orphaned k i par))"
            using parX(2) by (simp add: sel freed_pcb_def)
          have live4: "Collect (live (X - {i}) ?k4) = ?L - {i}"
            unfolding live_def pcbs4 using W parX(2) by auto
          have "lineage (?L - {i}) (pcbs ?k4) (next_pid k) z"
            by (rule lineage_remove [OF l1(1) iL iz]) (use l1(3) iz parX(2) in \<open>auto simp: sel\<close>)
          moreover have "children (pcbs ?k4 j) = 0"
            if "j < N_PCBS" "j \<notin> X - {i}" "j \<noteq> z" "dead_state (state (pcbs ?k4 j))" for j
            using that l1(4) dead iL unfolding pcbs4 by (auto simp: live_def split: if_splits)
          ultimately have "family (X - {i}) ?k4"
            unfolding family_def live4 by (auto simp: sel)
          moreover have "mm ?k4 = mm (answer_wait par i k)"
            by (simp add: answer_wait_def Let_def set_status_def set_RET_def set_REG_def reg_addr_def upd_mem_def ARG_def arg_addr_def sel)
          ultimately show "Q () ?k4"
            using Q [of ?k4] s3 W parN par(3) l1(2) pcbs4 unfolding X' by (auto simp: answered_def sel)
        qed (use parX in simp)
      qed (use i in simp)
      then show "wp (if E_SUCCESS \<noteq> E_SUCCESS then kpanic ''_zombify'' ''waiting parent isn't???''
         else kbind (kmodify (answer_wait par i)) (\<lambda>_. kbind (pcb_cleanup i) (\<lambda>_. schedule (Some par)))) Q (k1\<lparr>qs := s1\<rparr>)"
        by (simp add: kern_simps)
    qed
    with waiting show ?thesis by (simp add: kern_simps)
  next
    case False
    have others: "state (pcbs k j) \<noteq> PS_WAITING" if "j < N_PCBS" "pid (pcbs k j) = ppid (pcbs k i)" for j
    proof -
      have eq: "pid (pcbs k j) = pid (pcbs k par)" using that(2) par(3) l1(2) by (simp add: sel)
      then have "j \<in> ?L" using that(1) tree_pid_valid [OF tr par(2)] l by (auto simp: lineage_def)
      then have "j = par" using inj_onD [OF treeD(9) [OF tr] eq] par(2) by blast
      then show ?thesis using False by (simp add: sel)
    qed
    have "wp (enque ZOMBIE (PCB i)) (\<lambda>status. wp (if status \<noteq> E_SUCCESS then kpanic ''_zombify'' ''enque zombie failed'' else kreturn ()) Q) k1"
    proof (rule wp_enque_held [OF sane1 i(1)])
      show "home (pcbs k1 i) = Some ZOMBIE" using i(2) by (auto simp: sel home_def)
      fix s' assume s': "sane (X - {i}) (k1\<lparr>qs := s'\<rparr>)" "contents s' = (contents (qs k1))(ZOMBIE :=
        place (\<lambda>d. ZOMBIE = SLEEPING \<longrightarrow> wake k1 d \<le> wakeup (pcbs k1 i)) (PCB i) (contents (qs k1) ZOMBIE))"
      have "Collect (live (X - {i}) (k1\<lparr>qs := s'\<rparr>)) = ?L"
        by (subst live_gone) (use i(2) in \<open>auto simp: sel\<close>)
      then have "family (X - {i}) (k1\<lparr>qs := s'\<rparr>)"
        unfolding family_def using l1(1,4) dead by (auto simp: sel live_def)
      then show "wp (if E_SUCCESS \<noteq> E_SUCCESS then kpanic ''_zombify'' ''enque zombie failed'' else kreturn ()) Q (k1\<lparr>qs := s'\<rparr>)"
        using Q [OF s'(1)] s'(2) others by (simp add: kern_simps sel left_zombie_def place_def)
    qed (use i(2) in \<open>auto simp: sel\<close>)
    with False show ?thesis by (simp add: kern_simps)
  qed
  then show ?thesis
    by (simp add: zombify_def kern_simps wp_run [where m = "reparent i" and s = k, OF run, folded k1_def] par(1))
qed

end
