(* ===== verification/Kern_Calls.thy ===== *)
theory Kern_Calls
  imports Kern_Zombie
begin

text \<open>
  The system calls on the invariants of the kernel: between two interrupts one process is running,
  every other process is in the queue its state says, stacks are not shared, and the processes form
  a tree. Every call keeps this, and the only way a call halts the system is a dispatch with no
  ready process.
\<close>

subsection \<open>The invariant and the outcome of a call\<close>

definition kernel_ok :: "kernel \<Rightarrow> bool" where
  "kernel_ok k \<longleftrightarrow> (\<exists>c. current k = Some c \<and> state (pcbs k c) = PS_RUNNING \<and> sane {c} k \<and> family {c} k)"

definition has_ready :: "kernel \<Rightarrow> bool" where
  "has_ready k \<longleftrightarrow> (\<exists>i < N_PCBS. state (pcbs k i) = PS_READY)"

definition NO_READY :: fault where
  "NO_READY = KPanic ''_dispatch'' ''no ready processes!?!?!''"

text \<open>\<^verbatim>\<open>h\<close>: some process was ready when the call began.\<close>

definition outcome :: "bool \<Rightarrow> fault + unit \<times> kernel \<Rightarrow> bool" where
  "outcome h r \<longleftrightarrow> (case r of Inr (_, k) \<Rightarrow> kernel_ok k | Inl e \<Rightarrow> e = NO_READY \<and> \<not> h)"

lemma outcome_bind: "wp m (\<lambda>x k'. outcome h (f x k')) k \<Longrightarrow> outcome h (kbind m f k)"
  by (auto simp: wp_iff kbind_def)

lemma outcome_wp: "wp m (\<lambda>_. kernel_ok) k \<Longrightarrow> outcome h (m k)"
  by (auto simp: wp_iff outcome_def)

lemma outcome_steps [kern_simps]:
  "outcome h (kbind (kget g) f k) = outcome h (f (g k) k)"
  "outcome h (kbind (kmodify u) f' k) = outcome h (f' () (u k))"
  "outcome h (kreturn () k) = kernel_ok k" "outcome h (kmodify u k) = kernel_ok (u k)" "outcome h (Inr ((), k)) = kernel_ok k"
  by (simp_all add: kern_simps outcome_def)

lemma kernel_okE:
  assumes "kernel_ok k" "current k = Some c"
  shows "state (pcbs k c) = PS_RUNNING" "sane {c} k" "family {c} k"
  using assms by (auto simp: kernel_ok_def)

lemma kernel_okI: "current k = Some c \<Longrightarrow> state (pcbs k c) = PS_RUNNING \<Longrightarrow> sane {c} k \<Longrightarrow> family {c} k \<Longrightarrow> kernel_ok k"
  by (auto simp: kernel_ok_def)

lemma family_cong:
  assumes "family X k" "init_pcb k' = init_pcb k" "next_pid k' = next_pid k"
    and "\<And>i. i < N_PCBS \<Longrightarrow> pid (pcbs k' i) = pid (pcbs k i) \<and> ppid (pcbs k' i) = ppid (pcbs k i) \<and>
       children (pcbs k' i) = children (pcbs k i) \<and> live Y k' i = live X k i \<and>
       (i \<notin> Y \<and> dead_state (state (pcbs k' i)) \<longrightarrow> i \<notin> X \<and> dead_state (state (pcbs k i)))"
  shows "family Y k'"
proof -
  obtain z where z: "init_pcb k = Some z" "lineage (Collect (live X k)) (pcbs k) (next_pid k) z"
    "\<forall>i < N_PCBS. i \<notin> X \<and> i \<noteq> z \<and> dead_state (state (pcbs k i)) \<longrightarrow> children (pcbs k i) = 0"
    using assms(1) by (auto simp: family_def)
  have "live Y k' i = live X k i" for i using assms(4) [of i] by (cases "i < N_PCBS") (simp_all add: live_def)
  then have "Collect (live Y k') = Collect (live X k)" by (intro arg_cong [where f = Collect] ext)
  moreover have "lineage (Collect (live X k)) (pcbs k') (next_pid k) z"
    by (rule lineage_cong [OF z(2)]) (simp add: assms(4))
  ultimately show ?thesis
    unfolding family_def using z assms by auto
qed

lemma family_frame:
  assumes "family X k" "pcbs k' = pcbs k" "init_pcb k' = init_pcb k" "next_pid k' = next_pid k"
  shows "family X k'"
  by (rule family_cong [OF assms(1,3,4)]) (simp_all add: assms(2) live_def)

text \<open>Writing to memory or to the devices does not touch the invariant.\<close>

lemma kernel_ok_frame:
  assumes "kernel_ok k" "qs k' = qs k" "pcbs k' = pcbs k" "current k' = current k" "init_pcb k' = init_pcb k" "next_pid k' = next_pid k"
  shows "kernel_ok k'"
proof -
  obtain c where c: "current k = Some c" "state (pcbs k c) = PS_RUNNING" "sane {c} k" "family {c} k"
    using assms(1) by (auto simp: kernel_ok_def)
  show ?thesis
    by (rule kernel_okI [of _ c])
      (use c assms sane_frame [OF c(3), of k'] family_frame [OF c(4), of k'] in simp_all)
qed

lemma dispatch_idle:
  assumes sane: "sane {} k" and idle: "\<not> has_ready k"
  shows "dispatch k = Inl NO_READY"
proof -
  have shape: "qshape (qs k) (located {} k) (free_stacks {} k)" using sane by (simp add: sane_def)
  have "contents (qs k) (READY p) = []" for p
  proof (rule ccontr)
    assume ne: "contents (qs k) (READY p) \<noteq> []"
    have "READY p \<noteq> FREE_STACKS" by simp
    from qshape_head [OF shape this ne] obtain i where i: "i < N_PCBS" "located {} k i = Some (READY p)" by metis
    then have "state (pcbs k i) = PS_READY" by (auto simp: located_def home_def split: state_t.splits)
    with i(1) idle show False by (auto simp: has_ready_def)
  qed
  then have "List.find (\<lambda>p. q_size (READY p) k > 0) [0..<N_PRIOS] = None"
    using size_pos [OF qshapeD(1) [OF shape]] by (simp add: find_None_iff q_size_def word_gt_0)
  then show ?thesis by (simp add: dispatch_def kern_simps NO_READY_def)
qed

lemma dispatch_returnsE:
  assumes sane: "sane {} k" and ret: "dispatch k = Inr ((), k')"
  obtains p c ds where "p < N_PRIOS" "contents (qs k) (READY p) = PCB c # ds" "\<forall>p' < p. contents (qs k) (READY p') = []"
    "c < N_PCBS" "state (pcbs k c) = PS_READY" "contents (qs k') = (contents (qs k))(READY p := ds)" "current k' = Some c"
    "pcbs k' = (pcbs k)(c := (pcbs k c)\<lparr>state := PS_RUNNING, q_ticks := q_default (pcbs k c)\<rparr>)" "mem (mm k') = mem (mm k)"
    "next_pid k' = next_pid k" "init_pcb k' = init_pcb k"
proof -
  have "has_ready k" using dispatch_idle [OF sane] ret by auto
  then have ready: "\<exists>i < N_PCBS. i \<notin> {} \<and> state (pcbs k i) = PS_READY" by (simp add: has_ready_def)
  have "wp dispatch (\<lambda>_ k'. \<exists>p c ds. p < N_PRIOS \<and> contents (qs k) (READY p) = PCB c # ds \<and> (\<forall>p' < p. contents (qs k) (READY p') = []) \<and>
    c < N_PCBS \<and> state (pcbs k c) = PS_READY \<and> contents (qs k') = (contents (qs k))(READY p := ds) \<and> current k' = Some c \<and>
    pcbs k' = (pcbs k)(c := (pcbs k c)\<lparr>state := PS_RUNNING, q_ticks := q_default (pcbs k c)\<rparr>) \<and> mem (mm k') = mem (mm k) \<and>
    next_pid k' = next_pid k \<and> init_pcb k' = init_pcb k) k"
    by (rule wp_dispatch [OF sane ready]) (auto simp: set_return_pde_def)
  then show thesis using ret that by (auto simp: wp_iff)
qed

lemma outcome_dispatch:
  assumes sane: "sane {} k" and fam: "family {} k" and h: "h \<Longrightarrow> has_ready k"
  shows "outcome h (dispatch k)"
proof (cases "has_ready k")
  case True
  then have ready: "\<exists>i < N_PCBS. i \<notin> {} \<and> state (pcbs k i) = PS_READY" by (simp add: has_ready_def)
  show ?thesis
  proof (rule outcome_wp, rule wp_dispatch [OF sane ready])
    fix p c ds s' k'
    assume a: "c < N_PCBS" "state (pcbs k c) = PS_READY" "k' = k\<lparr>qs := s', current := Some c,
        pcbs := (pcbs k)(c := (pcbs k c)\<lparr>state := PS_RUNNING, q_ticks := q_default (pcbs k c)\<rparr>),
        mm := set_return_pde (memory_ptr (pcbs k c)) (mm k)\<rparr>" "sane {c} k'"
    have "family {c} k'" by (rule family_cong [OF fam]) (use a in \<open>auto simp: live_def\<close>)
    then show "kernel_ok k'" using a by (auto intro!: kernel_okI [of _ c])
  qed
next
  case False
  then show ?thesis using dispatch_idle [OF sane False] h by (auto simp: outcome_def)
qed

subsection \<open>Calls that only answer\<close>

lemma outcome_get:
  assumes "kernel_ok k"
  shows "outcome h (sys_getpid i k)" "outcome h (sys_getppid i k)" "outcome h (sys_gettime i k)" "outcome h (sys_getstatus i k)"
  by (simp_all add: outcome_def kern_run sys_getpid_def sys_getppid_def sys_gettime_def sys_getstatus_def)
    (rule kernel_ok_frame [OF assms]; simp split: option.split)+

lemma has_ready_cong: "has_ready k \<Longrightarrow> (\<And>i. i < N_PCBS \<Longrightarrow> state (pcbs k i) = PS_READY \<Longrightarrow> state (pcbs k' i) = PS_READY) \<Longrightarrow> has_ready k'"
  by (auto simp: has_ready_def)

subsection \<open>Blocking calls\<close>

text \<open>The running process is put into the queue of a new state, and another one is dispatched.\<close>

lemma family_requeue:
  assumes "family X k" "c \<in> X" "init_pcb k' = init_pcb k" "next_pid k' = next_pid k"
    and "\<And>i. i \<noteq> c \<Longrightarrow> pcbs k' i = pcbs k i"
    and "pid (pcbs k' c) = pid (pcbs k c)" "ppid (pcbs k' c) = ppid (pcbs k c)" "children (pcbs k' c) = children (pcbs k c)"
    and "state (pcbs k' c) \<noteq> PS_FREE" "\<not> dead_state (state (pcbs k' c))" "c < N_PCBS"
  shows "family (X - {c}) k'"
proof (rule family_cong [OF assms(1,3,4)])
  fix i assume i: "i < N_PCBS"
  show "pid (pcbs k' i) = pid (pcbs k i) \<and> ppid (pcbs k' i) = ppid (pcbs k i) \<and> children (pcbs k' i) = children (pcbs k i) \<and>
      live (X - {c}) k' i = live X k i \<and>
      (i \<notin> X - {c} \<and> dead_state (state (pcbs k' i)) \<longrightarrow> i \<notin> X \<and> dead_state (state (pcbs k i)))"
    using assms i by (cases "i = c") (auto simp: live_def)
qed

lemma outcome_block:
  assumes ok: "kernel_ok k" "current k = Some c"
    and k1: "qs k1 = qs k" "init_pcb k1 = init_pcb k" "next_pid k1 = next_pid k"
      "pcbs k1 = (pcbs k)(c := p)" "pid p = pid (pcbs k c)" "ppid p = ppid (pcbs k c)" "children p = children (pcbs k c)"
      "stack_ptr p = stack_ptr (pcbs k c)" "state p \<in> {PS_SLEEPING, PS_WAITING, PS_BLOCKED}" "home p = Some q"
    and f: "\<And>st. st = E_SUCCESS \<Longrightarrow> f st = dispatch"
  shows "outcome (has_ready k) (kbind (enque q (PCB c)) f k1)"
proof (rule outcome_bind)
  note okc = kernel_okE [OF ok]
  have N: "c < N_PCBS" using okc(2) by (simp add: sane_def)
  have sane1: "sane {c} k1" by (rule sane_cong [OF okc(2)]) (use k1 in auto)
  show "wp (enque q (PCB c)) (\<lambda>x k'. outcome (has_ready k) (f x k')) k1"
  proof (rule wp_enque_held [OF sane1])
    fix s' assume s': "sane ({c} - {c}) (k1\<lparr>qs := s'\<rparr>)"
    have "family ({c} - {c}) (k1\<lparr>qs := s'\<rparr>)"
      by (rule family_requeue [OF okc(3)]) (use k1 N in auto)
    moreover have "has_ready (k1\<lparr>qs := s'\<rparr>)" if "has_ready k"
      by (rule has_ready_cong [OF that]) (use k1 okc(1) in auto)
    ultimately show "outcome (has_ready k) (f E_SUCCESS (k1\<lparr>qs := s'\<rparr>))"
      using outcome_dispatch s' by (simp add: f)
  qed (use k1 in auto)
qed

lemma outcome_sleep:
  assumes ok: "kernel_ok k" "current k = Some c"
  shows "outcome (has_ready k) (sys_sleep c k)"
proof (cases "ARG c 1 k = 0")
  case True
  note okc = kernel_okE [OF ok]
  have N: "c < N_PCBS" using okc(2) by (simp add: sane_def)
  have "outcome (has_ready k) (kbind (schedule (Some c)) (\<lambda>_. dispatch) k)"
  proof (rule outcome_bind, rule wp_schedule [OF okc(2)])
    fix s'
    let ?k = "k\<lparr>pcbs := (pcbs k)(c := ready_pcb (pcbs k c)), qs := s'\<rparr>"
    assume "sane ({c} - {c}) ?k"
    moreover have "family ({c} - {c}) ?k" by (rule family_requeue [OF okc(3)]) (use N in auto)
    moreover have "has_ready ?k" using N by (auto simp: has_ready_def)
    ultimately show "outcome (has_ready k) (dispatch ?k)" using outcome_dispatch by simp
  qed simp
  then show ?thesis using True by (simp add: sys_sleep_def kern_simps)
next
  case False
  let ?p = "(pcbs k c)\<lparr>wakeup := now k + ARG c 1 k, state := PS_SLEEPING\<rparr>"
  let ?k = "k\<lparr>pcbs := (pcbs k)(c := ?p)\<rparr>"
  let ?f = "\<lambda>status. kbind (if status \<noteq> E_SUCCESS then kpanic ''_sys_sleep'' ''can't enque sleeper'' else kreturn ()) (\<lambda>_. dispatch)"
  have "sys_sleep c k = kbind (enque SLEEPING (PCB c)) ?f ?k"
    using False by (simp add: sys_sleep_def kern_simps kbind_assoc upd_pcb_def)
  moreover have "outcome (has_ready k) (kbind (enque SLEEPING (PCB c)) ?f ?k)"
    by (rule outcome_block [OF ok, of _ ?p]) (simp_all add: home_def kern_simps fun_eq_iff)
  ultimately show ?thesis by simp
qed

text \<open>The end of the running process, by its own \<^verbatim>\<open>exit\<close> or by a fault: its control block gets a final state.\<close>

lemma outcome_end:
  assumes ok: "kernel_ok k" "current k = Some c"
    and p: "pid p = pid (pcbs k c)" "ppid p = ppid (pcbs k c)" "children p = children (pcbs k c)" "stack_ptr p = stack_ptr (pcbs k c)"
      "state p \<in> {PS_ZOMBIE, PS_KILLED}"
  shows "outcome (has_ready k) (kbind (zombify (Some c)) (\<lambda>_. dispatch) (k\<lparr>pcbs := (pcbs k)(c := p)\<rparr>))"
proof (rule outcome_bind)
  note okc = kernel_okE [OF ok]
  let ?k = "k\<lparr>pcbs := (pcbs k)(c := p)\<rparr>"
  have sane: "sane {c} ?k" by (rule sane_cong [OF okc(2)]) (use p in auto)
  have fam: "family {c} ?k" by (rule family_cong [OF okc(3)]) (use p in \<open>auto simp: live_def\<close>)
  show "wp (zombify (Some c)) (\<lambda>_ k'. outcome (has_ready k) (dispatch k')) ?k"
  proof (rule wp_zombify [OF sane fam])
    fix k' assume k': "sane ({c} - {c}) k'" "family ({c} - {c}) k'" "(\<exists>j. answered c j ?k k') \<or> left_zombie c ?k k'"
    have "has_ready k'" if "has_ready k"
      by (rule has_ready_cong [OF that]) (use k'(3) okc(1) in \<open>auto simp: answered_def left_zombie_def split: if_splits\<close>)
    then show "outcome (has_ready k) (dispatch k')" using k' outcome_dispatch by simp
  qed (use p in auto)
qed

lemma outcome_exit:
  assumes ok: "kernel_ok k" "current k = Some c"
  shows "outcome (has_ready k) (sys_exit c k)"
  using outcome_end [OF ok, of "(pcbs k c)\<lparr>exitstatus := ARG c 1 k, state := PS_ZOMBIE\<rparr>"]
  by (simp add: sys_exit_def kern_simps upd_pcb_def)

lemma outcome_page_fault:
  assumes ok: "kernel_ok k"
  shows "outcome (has_ready k) (page_fault_isr k)"
proof -
  obtain c where c: "current k = Some c" using ok by (auto simp: kernel_ok_def)
  then show ?thesis
    using outcome_end [OF ok c, of "(pcbs k c)\<lparr>state := PS_KILLED, exitstatus := EXIT_KILLED\<rparr>"]
    by (simp add: page_fault_isr_def kern_simps upd_pcb_def)
qed

subsection \<open>kill\<close>

lemma wp_remove_sane:
  assumes sane: "sane X k" and v: "v < N_PCBS" "v \<notin> X" "home (pcbs k v) = Some q" "state (pcbs k v) \<noteq> PS_FREE"
    and Q: "\<And>s'. sane (insert v X) (k\<lparr>qs := s'\<rparr>) \<Longrightarrow>
       contents s' = (contents (qs k))(q := remove1 (PCB v) (contents (qs k) q)) \<Longrightarrow> Q E_SUCCESS (k\<lparr>qs := s'\<rparr>)"
  shows "wp (remove_from q (PCB v)) Q k"
proof -
  have shape: "qshape (qs k) (located X k) (free_stacks X k)" using sane by (simp add: sane_def)
  show ?thesis
  proof (rule wp_remove_pcb [OF shape _ v(1)])
    show "located X k v = Some q" using v by (simp add: located_def)
    fix s' assume s': "qshape s' ((located X k)(v := None)) (free_stacks X k)"
      "contents s' = (contents (qs k))(q := remove1 (PCB v) (contents (qs k) q))"
    have "remove1 (PCB v) (contents (qs k) q) = filter (\<lambda>d. d \<noteq> PCB v) (contents (qs k) q)"
      using qshapeD(2) [OF shape, of q] by (simp add: distinct_remove1_removeAll removeAll_filter_not_eq eq_commute)
    moreover have "filter (\<lambda>d. d \<noteq> PCB v) (contents (qs k) SLEEPING) = contents (qs k) SLEEPING" if "q \<noteq> SLEEPING"
      using sane_located [OF _ sane v(1), of SLEEPING] v(3) that by (auto simp: filter_id_conv)
    ultimately have "contents s' SLEEPING = filter (\<lambda>d. d \<noteq> PCB v) (contents (qs k) SLEEPING)"
      using s'(2) by (cases "q = SLEEPING") simp_all
    then have "sane (insert v X) (k\<lparr>qs := s'\<rparr>)"
      by (intro sane_take [OF sane v(1,2,4) s'(1)]) simp_all
    then show "Q E_SUCCESS (k\<lparr>qs := s'\<rparr>)" using Q s'(2) by blast
  qed
qed

lemma pcb_find_live:
  assumes "kernel_ok k" "current k = Some c" "pcb_find p k = Some v" "p \<noteq> - 1"
  shows "v < N_PCBS" "live {c} k v" "pid (pcbs k v) = p"
proof -
  have v: "v < N_PCBS" "pid (pcbs k v) = p" using assms(3) by (auto simp: pcb_find_def find_Some_iff)
  then show "v < N_PCBS" "pid (pcbs k v) = p" .
  show "live {c} k v"
  proof (rule ccontr)
    assume "\<not> live {c} k v"
    then have "pid (pcbs k v) = - 1"
      using kernel_okE(3) [OF assms(1,2)] v(1) by (auto simp: family_def lineage_def)
    with v(2) assms(4) show False by simp
  qed
qed

lemma kill_queue_home:
  "state p \<in> {PS_WAITING, PS_SLEEPING, PS_BLOCKED, PS_READY} \<Longrightarrow> kill_queue p = home p"
  "state p = PS_RUNNING \<Longrightarrow> kill_queue p = None"
  by (auto simp: kill_queue_def home_def)

text \<open>The part of the call after the victim has been taken from its queue.\<close>

lemma outcome_kill_held:
  assumes c: "current k = Some c" "v = c \<or> state (pcbs k c) = PS_RUNNING" and sane: "sane {c, v} k" and fam: "family {c, v} k"
    and v: "state (pcbs k v) \<noteq> PS_FREE" and h: "h \<Longrightarrow> v = c \<Longrightarrow> \<exists>i < N_PCBS. i \<noteq> v \<and> state (pcbs k i) = PS_READY"
  shows "outcome h (kill_finish c v k)"
proof -
  define k1 where "k1 = set_status c E_SUCCESS (upd_pcb v (\<lambda>p. p\<lparr>exitstatus := EXIT_KILLED\<rparr>) (upd_pcb v (\<lambda>p. p\<lparr>state := PS_KILLED\<rparr>) k))"
  have k1: "pcbs k1 = (pcbs k)(v := (pcbs k v)\<lparr>state := PS_KILLED, exitstatus := EXIT_KILLED\<rparr>)" "qs k1 = qs k"
    "current k1 = Some c" "init_pcb k1 = init_pcb k" "next_pid k1 = next_pid k"
    using c(1) by (simp_all add: k1_def upd_pcb_def)
  have sane1: "sane {c, v} k1" by (rule sane_cong [OF sane]) (auto simp: k1)
  have fam1: "family {c, v} k1" by (rule family_cong [OF fam]) (auto simp: k1 live_def)
  have "wp (zombify (Some v)) (\<lambda>_ k'. outcome h (if Some v = current k' then dispatch k' else kreturn () k')) k1"
  proof (rule wp_zombify [OF sane1 fam1])
    fix k' assume k': "sane ({c, v} - {v}) k'" "family ({c, v} - {v}) k'" "current k' = current k1"
      "(\<exists>j. answered v j k1 k') \<or> left_zombie v k1 k'"
    show "outcome h (if Some v = current k' then dispatch k' else kreturn () k')"
    proof (cases "v = c")
      case True
      have "has_ready k'" if hh: h
      proof -
        obtain i where "i < N_PCBS" "i \<noteq> v" "state (pcbs k i) = PS_READY" using h [OF hh True] by blast
        then show ?thesis using k'(4) by (auto simp: has_ready_def answered_def left_zombie_def k1 intro!: exI [of _ i])
      qed
      then show ?thesis using outcome_dispatch k' True k1(3) by simp
    next
      case False
      have "state (pcbs k' c) = PS_RUNNING"
        using k'(4) False c by (auto simp: answered_def left_zombie_def k1 split: if_splits)
      moreover have "{c, v} - {v} = {c}" using False by auto
      ultimately have "kernel_ok k'" using k' k1(3) by (intro kernel_okI [of _ c]) simp_all
      then show ?thesis using False k'(3) k1(3) by (simp add: kern_simps)
    qed
  qed (use c(2) in \<open>auto simp: k1\<close>)
  then have "outcome h (kbind (zombify (Some v)) (\<lambda>_. kbind (kget current) (\<lambda>cur. if Some v = cur then dispatch else kreturn ())) k1)"
    by (intro outcome_bind) (auto simp: kern_simps elim!: wp_mono)
  then show ?thesis by (simp add: kill_finish_def kern_simps k1_def)
qed

lemma outcome_kill:
  assumes ok: "kernel_ok k" "current k = Some c" and p: "ucast (ARG c 1 k) \<noteq> (- 1 :: 16 word)"
  shows "outcome (has_ready k) (sys_kill c k)"
proof (cases "pcb_find (ucast (ARG c 1 k)) k")
  case None
  have "kernel_ok (set_status c E_NO_PROCESS k)" by (rule kernel_ok_frame [OF ok(1)]) simp_all
  with None show ?thesis by (simp add: sys_kill_def kern_simps)
next
  case (Some v)
  note okc = kernel_okE [OF ok] and v = pcb_find_live [OF ok Some p]
  have vc: "v = c \<longleftrightarrow> state (pcbs k v) = PS_RUNNING"
    using okc(1,2) v(1) by (auto simp: sane_def home_def)
  let ?st = "state (pcbs k v)"
  consider (dead) "dead_state ?st" | (self) "v = c" "?st = PS_RUNNING"
    | (other) q where "v \<noteq> c" "?st \<in> {PS_WAITING, PS_SLEEPING, PS_BLOCKED, PS_READY}" "kill_queue (pcbs k v) = Some q" "home (pcbs k v) = Some q"
  proof -
    have "home (pcbs k v) \<noteq> None" if "v \<noteq> c" using okc(2) v(1) that by (auto simp: sane_def)
    then show thesis
      using that vc v(2) kill_queue_home(1) [of "pcbs k v"] by (cases ?st) (auto simp: home_def live_def)
  qed
  then show ?thesis
  proof cases
    case dead
    have "kernel_ok (set_status c E_SUCCESS k)" by (rule kernel_ok_frame [OF ok(1)]) simp_all
    with Some dead show ?thesis by (auto simp: sys_kill_def kern_simps)
  next
    case self
    have "\<exists>i < N_PCBS. i \<noteq> v \<and> state (pcbs k i) = PS_READY" if "has_ready k"
      using that self(2) unfolding has_ready_def by force
    then have "outcome (has_ready k) (kill_victim c v k)"
      using outcome_kill_held [OF ok(2), of v "has_ready k"] self okc
      by (simp add: kill_victim_def kern_simps kill_queue_home(2))
    with Some self show ?thesis by (simp add: sys_kill_def kern_simps)
  next
    case other
    have "outcome (has_ready k) (kbind (remove_from q (PCB v)) (\<lambda>status.
        if status \<noteq> E_SUCCESS then kpanic ''_sys_kill'' ''can't remove victim'' else kill_finish c v) k)"
    proof (rule outcome_bind, rule wp_remove_sane [OF okc(2) v(1)])
      fix s' assume "sane (insert v {c}) (k\<lparr>qs := s'\<rparr>)"
      then have sane: "sane {c, v} (k\<lparr>qs := s'\<rparr>)" by (simp add: insert_commute)
      have fam: "family {c, v} (k\<lparr>qs := s'\<rparr>)"
        by (rule family_cong [OF okc(3)]) (use other(2) in \<open>auto simp: live_def\<close>)
      show "outcome (has_ready k) ((if E_SUCCESS \<noteq> E_SUCCESS then kpanic ''_sys_kill'' ''can't remove victim'' else kill_finish c v) (k\<lparr>qs := s'\<rparr>))"
        using outcome_kill_held [OF _ _ sane fam, of "has_ready k"] ok(2) other(1,2) okc(1) by auto
    qed (use other in auto)
    with Some other(2,3) show ?thesis by (auto simp: sys_kill_def kill_victim_def kern_simps)
  qed
qed

subsection \<open>wait\<close>

lemma find_frame: "\<exists>g h. k = k\<lparr>find_curr := g, find_target := h\<rparr>"
  by (rule exI [of _ "find_curr k"], rule exI [of _ "find_target k"]) simp

lemma wait_loop_run:
  assumes "find_curr k = Some w" "length (kids k (find_target k) (Suc w)) + 1 < n"
  shows "\<exists>g h. wait_loop n (Some w) k =
    Inr (List.find (\<lambda>j. state (pcbs k j) = PS_ZOMBIE) (w # kids k (find_target k) (Suc w)), k\<lparr>find_curr := g, find_target := h\<rparr>)"
  using assms
proof (induction "kids k (find_target k) (Suc w)" arbitrary: k w n)
  case (Nil k w n)
  then obtain m where n: "n = Suc (Suc m)" by (cases n; cases "n - 1") auto
  show ?case
    using find_child_next [OF Nil.prems(1)] find_frame [of k] by (auto simp: n kern_simps Nil.hyps [symmetric])
next
  case (Cons w' ws k w n)
  then obtain m where n: "n = Suc m" by (cases n) auto
  let ?k = "k\<lparr>find_curr := Some w'\<rparr>"
  have nxt: "pcb_find_child_of (- 1) k = Inr (Some w', ?k)"
    using find_child_next [OF Cons.prems(1)] by (simp add: Cons.hyps(2) [symmetric])
  have ws: "kids ?k (find_target ?k) (Suc w') = ws"
    using kids_Cons(1) [OF Cons.hyps(2) [symmetric]] by (simp add: kids_def)
  have "\<exists>g h. wait_loop m (Some w') ?k = Inr (List.find (\<lambda>j. state (pcbs ?k j) = PS_ZOMBIE) (w' # kids ?k (find_target ?k) (Suc w')),
      ?k\<lparr>find_curr := g, find_target := h\<rparr>)"
    by (rule Cons.hyps(1)) (use ws Cons.prems n Cons.hyps(2) [symmetric] in simp_all)
  then obtain g h where ih: "wait_loop m (Some w') ?k = Inr (List.find (\<lambda>j. state (pcbs k j) = PS_ZOMBIE) (w' # ws), k\<lparr>find_curr := g, find_target := h\<rparr>)"
    unfolding ws by auto
  show ?case
  proof (cases "state (pcbs k w) = PS_ZOMBIE")
    case True
    then have "wait_loop n (Some w) k = Inr (Some w, k)" by (simp add: n kern_simps)
    with True find_frame [of k] show ?thesis by simp
  next
    case False
    then have "wait_loop n (Some w) k = wait_loop m (Some w') ?k" using nxt by (simp add: n kern_simps)
    with False ih show ?thesis by (auto simp: Cons.hyps(2) [symmetric])
  qed
qed

text \<open>The child \<^verbatim>\<open>wait\<close> reaps: the first zombie among the children, in the order of the process table.\<close>

definition zombie_child :: "nat \<Rightarrow> kernel \<Rightarrow> nat option" where
  "zombie_child c k = List.find (\<lambda>j. state (pcbs k j) = PS_ZOMBIE) (kids k (sint (pid (pcbs k c))) 0)"

lemma wait_search:
  assumes "pid (pcbs k c) \<noteq> - 1"
  shows "\<exists>g h. kbind (pcb_find_child_of (sint (pid (pcbs k c)))) (wait_loop (Suc (Suc N_PCBS))) k =
    Inr (zombie_child c k, k\<lparr>find_curr := g, find_target := h\<rparr>)"
proof -
  let ?p = "sint (pid (pcbs k c))"
  have p: "?p \<noteq> - 1" using assms by (metis signed_minus_1 signed_word_eqI)
  show ?thesis
  proof (cases "kids k ?p 0")
    case Nil
    then have "pcb_find_child_of ?p k = Inr (None, k\<lparr>find_curr := None, find_target := - 1\<rparr>)"
      using find_child_first [OF p] by simp
    with Nil show ?thesis by (auto simp: kern_simps zombie_child_def)
  next
    case (Cons w ws)
    let ?k = "k\<lparr>find_curr := Some w, find_target := ?p\<rparr>"
    have "length (kids k' t a) \<le> N_PCBS" for k' t a
      unfolding kids_def by (rule le_trans [OF length_filter_le]) simp
    then have "length (kids ?k (find_target ?k) (Suc w)) + 1 < Suc (Suc N_PCBS)" by (simp add: less_Suc_eq_le)
    from wait_loop_run [OF _ this] obtain g h where
      "wait_loop (Suc (Suc N_PCBS)) (Some w) ?k = Inr (List.find (\<lambda>j. state (pcbs ?k j) = PS_ZOMBIE) (w # kids ?k (find_target ?k) (Suc w)),
        ?k\<lparr>find_curr := g, find_target := h\<rparr>)" by auto
    moreover have "kids ?k (find_target ?k) (Suc w) = ws" using kids_Cons(1) [OF Cons] by (simp add: kids_def)
    moreover have "pcb_find_child_of ?p k = Inr (Some w, ?k)" using find_child_first [OF p] Cons by simp
    ultimately show ?thesis using Cons by (auto simp: kern_simps zombie_child_def simp del: wait_loop.simps)
  qed
qed

lemma zombie_childD:
  assumes ok: "kernel_ok k" "current k = Some c" and j: "zombie_child c k = Some j"
  shows "j < N_PCBS" "j \<noteq> c" "state (pcbs k j) = PS_ZOMBIE" "ppid (pcbs k j) = pid (pcbs k c)" "init_pcb k \<noteq> Some j"
    "children (pcbs k j) = 0" "live {c} k j"
proof -
  note okc = kernel_okE [OF ok]
  have mem: "j \<in> set (kids k (sint (pid (pcbs k c))) 0)" and st: "state (pcbs k j) = PS_ZOMBIE"
    using j by (auto simp: zombie_child_def find_Some_iff)
  show N: "j < N_PCBS" using mem by (simp add: kids_def)
  show "state (pcbs k j) = PS_ZOMBIE" by (rule st)
  show jc: "j \<noteq> c" using st okc(1) by auto
  show par: "ppid (pcbs k j) = pid (pcbs k c)" using mem by (auto simp: kids_def dest: signed_word_eqI)
  obtain z where z: "init_pcb k = Some z" "lineage (Collect (live {c} k)) (pcbs k) (next_pid k) z"
    "\<forall>i < N_PCBS. i \<notin> {c} \<and> i \<noteq> z \<and> dead_state (state (pcbs k i)) \<longrightarrow> children (pcbs k i) = 0"
    using okc(3) by (auto simp: family_def)
  have tr: "tree (Collect (live {c} k)) (\<lambda>i. pid (pcbs k i)) (\<lambda>i. ppid (pcbs k i)) (\<lambda>i. children (pcbs k i)) (next_pid k) z"
    using z(2) by (simp add: lineage_def)
  have cN: "live {c} k c" using okc(2) by (simp add: live_def sane_def)
  show "live {c} k j" using N st by (simp add: live_def)
  have "j \<noteq> z"
  proof
    assume "j = z"
    then have "pid (pcbs k c) = 1" using par treeD(4) [OF tr] by simp
    then have "c = z" using tree_pid_not_init [OF tr, of c] cN by auto
    with \<open>j = z\<close> jc show False by simp
  qed
  then show "init_pcb k \<noteq> Some j" "children (pcbs k j) = 0" using z N jc st by auto
qed

text \<open>The state after \<^verbatim>\<open>wait\<close> has reaped the child \<^verbatim>\<open>j\<close>.\<close>

definition reaped :: "nat \<Rightarrow> nat \<Rightarrow> 32 word \<Rightarrow> 32 word \<Rightarrow> kernel \<Rightarrow> kernel \<Rightarrow> bool" where
  "reaped c j pidptr statptr k k' \<longleftrightarrow> kernel_ok k' \<and> current k' = Some c \<and>
     pcbs k' = (pcbs k)(c := (pcbs k c)\<lparr>children := children (pcbs k c) - 1\<rparr>, j := freed_pcb (pcbs k j)) \<and>
     mem (mm k') = store32 statptr (exitstatus (pcbs k j))
       (store16 pidptr (pid (pcbs k j)) (mem (mm (set_status c E_SUCCESS k))))"

lemma family_reap:
  assumes ok: "kernel_ok k" "current k = Some c" and j: "zombie_child c k = Some j" and ch: "children (pcbs k c) \<noteq> 0"
    and k': "pcbs k' = (pcbs k)(c := (pcbs k c)\<lparr>children := children (pcbs k c) - 1\<rparr>, j := freed_pcb (pcbs k j))"
      "init_pcb k' = init_pcb k" "next_pid k' = next_pid k"
  shows "family {c} k'"
proof -
  note okc = kernel_okE [OF ok] and jd = zombie_childD [OF ok j]
  obtain z where z: "init_pcb k = Some z" "lineage (Collect (live {c} k)) (pcbs k) (next_pid k) z"
    "\<forall>i < N_PCBS. i \<notin> {c} \<and> i \<noteq> z \<and> dead_state (state (pcbs k i)) \<longrightarrow> children (pcbs k i) = 0"
    using okc(3) by (auto simp: family_def)
  let ?L = "Collect (live {c} k)"
  let ?P = "(pcbs k)(c := (pcbs k c)\<lparr>children := children (pcbs k c) - 1\<rparr>, j := freed_pcb (pcbs k j))"
  have tr: "tree ?L (\<lambda>i. pid (pcbs k i)) (\<lambda>i. ppid (pcbs k i)) (\<lambda>i. children (pcbs k i)) (next_pid k) z"
    using z(2) by (simp add: lineage_def)
  have cN: "c \<in> ?L" using okc(2) by (simp add: live_def sane_def)
  have jz: "j \<noteq> z" using jd(5) z(1) by auto
  have "tree (?L - {j}) (\<lambda>i. pid (?P i)) (\<lambda>i. ppid (?P i)) (\<lambda>i. children (?P i)) (next_pid k) z"
  proof (rule tree_cong)
    show "tree (?L - {j}) (\<lambda>i. pid (pcbs k i)) (\<lambda>i. ppid (pcbs k i))
        (\<lambda>i. if i = c then children (pcbs k c) - 1 else children (pcbs k i)) (next_pid k) z"
      by (rule tree_reap [OF tr cN]) (use jd jz ch tree_childless [OF tr _ jz] in auto)
  qed (use jd(2) in auto)
  then have "lineage (?L - {j}) ?P (next_pid k) z"
    using z(2) jd(2) cN by (auto simp: lineage_def)
  moreover have "Collect (live {c} k') = ?L - {j}"
    unfolding live_def k' using jd(2) by auto
  moreover have "children (?P i) = 0" if "i < N_PCBS" "i \<notin> {c}" "i \<noteq> z" "dead_state (state (?P i))" for i
    using that z(3) by (cases "i = j") auto
  ultimately show ?thesis
    unfolding family_def k' using z(1) by auto
qed

lemma wp_reap:
  assumes ok: "kernel_ok k" "current k = Some c" and j: "zombie_child c k = Some j" and ch: "children (pcbs k c) \<noteq> 0"
    and k': "k' = k\<lparr>find_curr := g, find_target := t\<rparr>"
  shows "wp (reap c j pidptr statptr) (\<lambda>_. reaped c j pidptr statptr k) k'"
proof -
  note okc = kernel_okE [OF ok] and jd = zombie_childD [OF ok j]
  have sane': "sane {c} k'" by (rule sane_frame [OF okc(2)]) (simp_all add: k')
  show ?thesis
    unfolding reap_def wp_bind
  proof (rule wp_remove_sane [OF sane' jd(1)])
    fix s' assume s': "sane (insert j {c}) (k'\<lparr>qs := s'\<rparr>)"
    define k1 where "k1 = upd_mem (store32 statptr (exitstatus (pcbs k j))) (upd_mem (store16 pidptr (pid (pcbs k j)))
      (upd_pcb c (\<lambda>p. p\<lparr>children := children p - 1\<rparr>) (set_status c E_SUCCESS (k'\<lparr>qs := s'\<rparr>))))"
    have k1: "pcbs k1 = (pcbs k)(c := (pcbs k c)\<lparr>children := children (pcbs k c) - 1\<rparr>)" "current k1 = Some c"
      "init_pcb k1 = init_pcb k" "next_pid k1 = next_pid k" "qs k1 = s'"
      "mem (mm k1) = store32 statptr (exitstatus (pcbs k j)) (store16 pidptr (pid (pcbs k j)) (mem (mm (set_status c E_SUCCESS k))))"
      using ok(2)
      by (simp_all add: k1_def upd_mem_def upd_pcb_def k' set_status_def set_RET_def set_REG_def reg_addr_def)
    have sane1: "sane {j, c} k1" by (rule sane_cong [OF s']) (auto simp: k1 k')
    have "wp (pcb_cleanup j) (\<lambda>_. reaped c j pidptr statptr k) k1"
    proof (rule wp_pcb_cleanup [OF sane1])
      fix s2
      let ?k2 = "k1\<lparr>pcbs := (pcbs k1)(j := (pcbs k1 j)\<lparr>state := PS_FREE, pid := - 1, ppid := - 1\<rparr>), qs := s2\<rparr>"
      assume "sane ({j, c} - {j}) ?k2"
      moreover have "{j, c} - {j} = {c}" using jd(2) by auto
      moreover have "family {c} ?k2"
        by (rule family_reap [OF ok j ch]) (use jd(2) in \<open>simp_all add: k1 freed_pcb_def\<close>)
      ultimately have "kernel_ok ?k2" using jd(2) okc(1) by (intro kernel_okI [of _ c]) (simp_all add: k1)
      then show "reaped c j pidptr statptr k ?k2"
        using jd(2) by (simp add: reaped_def k1 freed_pcb_def)
    qed simp
    then show "wp (if E_SUCCESS \<noteq> E_SUCCESS then kpanic ''_sys_wait'' ''can't deque zombie''
      else
       kbind (kmodify (set_status c E_SUCCESS)) (\<lambda>_.
       kbind (kmodify (upd_pcb c (\<lambda>p. p\<lparr>children := children p - 1\<rparr>))) (\<lambda>_.
       kbind (kmodify (\<lambda>k. upd_mem (store16 pidptr (pid (pcbs k j))) k)) (\<lambda>_.
       kbind (kmodify (\<lambda>k. upd_mem (store32 statptr (exitstatus (pcbs k j))) k)) (\<lambda>_.
       pcb_cleanup j))))) (\<lambda>_. reaped c j pidptr statptr k) (k'\<lparr>qs := s'\<rparr>)"
      using jd(2) by (simp add: kern_simps k1_def k')
  qed (use jd in \<open>simp_all add: k' home_def\<close>)
qed

lemma current_pid_valid: "kernel_ok k \<Longrightarrow> current k = Some c \<Longrightarrow> pid (pcbs k c) \<noteq> - 1"
  using kernel_okE [of k c] tree_pid_valid
  by (fastforce simp: family_def lineage_def live_def sane_def)

lemma sys_wait_cases:
  assumes ok: "kernel_ok k" "current k = Some c" and ch: "children (pcbs k c) \<noteq> 0"
  obtains g t where "sys_wait c k = (case zombie_child c k of
      Some j \<Rightarrow> reap c j (ARG c 1 k) (ARG c 2 k) (k\<lparr>find_curr := g, find_target := t\<rparr>)
    | None \<Rightarrow> kbind (kmodify (upd_pcb c (\<lambda>p. p\<lparr>state := PS_WAITING\<rparr>))) (\<lambda>_.
        kbind (enque WAITING (PCB c)) (\<lambda>status.
        if status \<noteq> E_SUCCESS then kpanic ''_sys_wait'' ''can't enque waiting parent'' else dispatch)) (k\<lparr>find_curr := g, find_target := t\<rparr>))"
proof -
  obtain g t where s: "kbind (pcb_find_child_of (sint (pid (pcbs k c)))) (wait_loop (Suc (Suc N_PCBS))) k =
      Inr (zombie_child c k, k\<lparr>find_curr := g, find_target := t\<rparr>)"
    using wait_search [OF current_pid_valid [OF ok]] by blast
  then obtain x u where "pcb_find_child_of (sint (pid (pcbs k c))) k = Inr (x, u)"
    "wait_loop (Suc (Suc N_PCBS)) x u = Inr (zombie_child c k, k\<lparr>find_curr := g, find_target := t\<rparr>)"
    by (rule kbind_InrE)
  then show ?thesis
    by (intro that [of t g]) (use ch in \<open>simp add: sys_wait_def kern_simps del: wait_loop.simps split: option.split\<close>)
qed

lemma outcome_wait:
  assumes ok: "kernel_ok k" "current k = Some c"
  shows "outcome (has_ready k) (sys_wait c k)"
proof (cases "children (pcbs k c) = 0")
  case True
  have "kernel_ok (set_status c E_NO_CHILD k)" by (rule kernel_ok_frame [OF ok(1)]) simp_all
  with True show ?thesis by (simp add: sys_wait_def kern_simps)
next
  case False
  obtain g t where w: "sys_wait c k = (case zombie_child c k of
      Some j \<Rightarrow> reap c j (ARG c 1 k) (ARG c 2 k) (k\<lparr>find_curr := g, find_target := t\<rparr>)
    | None \<Rightarrow> kbind (kmodify (upd_pcb c (\<lambda>p. p\<lparr>state := PS_WAITING\<rparr>))) (\<lambda>_.
        kbind (enque WAITING (PCB c)) (\<lambda>status.
        if status \<noteq> E_SUCCESS then kpanic ''_sys_wait'' ''can't enque waiting parent'' else dispatch)) (k\<lparr>find_curr := g, find_target := t\<rparr>))"
    by (rule sys_wait_cases [OF ok False])
  show ?thesis
  proof (cases "zombie_child c k")
    case (Some j)
    have "wp (reap c j (ARG c 1 k) (ARG c 2 k)) (\<lambda>_. kernel_ok) (k\<lparr>find_curr := g, find_target := t\<rparr>)"
      by (rule wp_mono [OF wp_reap [OF ok Some False refl]]) (simp add: reaped_def)
    with Some w show ?thesis by (simp add: outcome_wp)
  next
    case None
    let ?p = "(pcbs k c)\<lparr>state := PS_WAITING\<rparr>"
    let ?k = "k\<lparr>find_curr := g, find_target := t, pcbs := (pcbs k)(c := ?p)\<rparr>"
    let ?f = "\<lambda>status. if status \<noteq> E_SUCCESS then kpanic ''_sys_wait'' ''can't enque waiting parent'' else dispatch"
    have "outcome (has_ready k) (kbind (enque WAITING (PCB c)) ?f ?k)"
      by (rule outcome_block [OF ok, of _ ?p]) (simp_all add: home_def)
    with None w show ?thesis by (simp add: kern_simps upd_pcb_def)
  qed
qed

end
