(* ===== verification/Kern_Fork.thy ===== *)
theory Kern_Fork
  imports Kern_Calls
begin

text \<open>
  The creation of processes: \<^verbatim>\<open>fork\<close> keeps the invariants, never runs out of stacks before it runs
  out of process control blocks, and gives the child a copy of the parent's stack.
\<close>

subsection \<open>A new process\<close>

lemma sane_new:
  assumes sane: "sane X k" and n: "n < N_PCBS" "n \<notin> X" "state (pcbs k n) = PS_FREE" and j: "j \<in> free_stacks X k"
    and shape: "qshape s' ((located X k)(n := None)) (free_stacks X k - {j})"
    and sl: "contents s' SLEEPING = contents (qs k) SLEEPING"
    and k': "qs k' = s'" "\<And>i. i \<noteq> n \<Longrightarrow> i < N_PCBS \<Longrightarrow> state (pcbs k' i) = state (pcbs k i) \<and> prio (pcbs k' i) = prio (pcbs k i) \<and>
        wakeup (pcbs k' i) = wakeup (pcbs k i) \<and> stack_ptr (pcbs k' i) = stack_ptr (pcbs k i)"
      "stack_ptr (pcbs k' n) = Some j"
  shows "sane (insert n X) k'"
proof -
  have live: "live (insert n X) k' i \<longleftrightarrow> live X k i \<or> i = n" for i
    using k'(2) [of i] n(1) by (cases "i = n") (auto simp: live_def)
  have notlive: "\<not> live X k n" using n by (simp add: live_def)
  have stk: "stack_ptr (pcbs k' i) = stack_ptr (pcbs k i)" if "live X k i" for i
    using k'(2) [of i] that notlive by (auto simp: live_def)
  have jN: "j < N_STACKS" "\<And>i. live X k i \<Longrightarrow> stack_ptr (pcbs k i) \<noteq> Some j" using j by (auto simp: free_stacks_def)
  have free: "free_stacks (insert n X) k' = free_stacks X k - {j}"
    unfolding free_stacks_def live using stk k'(3) by (auto simp: stk)
  have ok: "stacks_ok X k" using sane by (simp add: sane_def)
  have "Collect (live (insert n X) k') = insert n (Collect (live X k))" using live by auto
  moreover have "inj_on (\<lambda>i. stack_ptr (pcbs k' i)) (insert n (Collect (live X k)))"
  proof -
    have "inj_on (\<lambda>i. stack_ptr (pcbs k' i)) (Collect (live X k))"
      using ok by (subst inj_on_cong [where g = "\<lambda>i. stack_ptr (pcbs k i)"]) (simp_all add: stk stacks_ok_def)
    moreover have "stack_ptr (pcbs k' n) \<notin> (\<lambda>i. stack_ptr (pcbs k' i)) ` (Collect (live X k) - {n})"
    proof
      assume "stack_ptr (pcbs k' n) \<in> (\<lambda>i. stack_ptr (pcbs k' i)) ` (Collect (live X k) - {n})"
      then obtain i where i: "live X k i" "stack_ptr (pcbs k' n) = stack_ptr (pcbs k' i)"
        by (elim imageE DiffE) blast
      show False using jN(2) [OF i(1)] stk [OF i(1)] i(2) k'(3) by simp
    qed
    ultimately show ?thesis by (simp add: inj_on_insert)
  qed
  moreover have "\<exists>j < N_STACKS. stack_ptr (pcbs k' i) = Some j" if "i \<in> insert n (Collect (live X k))" for i
    using that ok jN(1) k'(3) stk by (auto simp: stacks_ok_def)
  ultimately have ok': "stacks_ok (insert n X) k'" by (simp add: stacks_ok_def)
  have home: "home (pcbs k' i) = home (pcbs k i)" if "i \<noteq> n" "i < N_PCBS" for i
    using k'(2) [OF that] by (simp add: home_def split: state_t.split)
  have "qshape (qs k') (located (insert n X) k') (free_stacks (insert n X) k')"
    unfolding free k'(1) by (rule qshape_cong [OF shape]) (use home in \<open>auto simp: located_def\<close>)
  moreover have "sorted (map (wake k') (contents (qs k') SLEEPING))"
  proof -
    have "wake k' d = wake k d" if d: "d \<in> set (contents (qs k) SLEEPING)" for d
    proof -
      obtain i where i: "d = PCB i" "i < N_PCBS" "home (pcbs k i) = Some SLEEPING"
        using sane_members [OF sane _ d] by auto
      then have "i \<noteq> n" using n(3) by (auto simp: home_def)
      then show ?thesis using i k'(2) by (simp add: wake_def)
    qed
    then have "map (wake k') (contents (qs k) SLEEPING) = map (wake k) (contents (qs k) SLEEPING)" by simp
    then show ?thesis using sane by (simp add: sane_def k'(1) sl del: map_eq_conv)
  qed
  ultimately show ?thesis
    using sane n(1) ok' k'(2) home by (auto simp: sane_def)
qed

text \<open>There is a free stack for every free process control block.\<close>

lemma free_stack_exists:
  assumes ok: "stacks_ok X k" and n: "n < N_PCBS" "\<not> live X k n"
  shows "free_stacks X k \<noteq> {}"
proof
  assume "free_stacks X k = {}"
  then have "{..<N_STACKS} \<subseteq> (\<lambda>i. the (stack_ptr (pcbs k i))) ` Collect (live X k)"
    by (force simp: free_stacks_def)
  moreover have fin: "finite (Collect (live X k))" by (rule finite_subset [of _ "{..<N_PCBS}"]) (auto simp: live_def)
  ultimately have "N_STACKS \<le> card (Collect (live X k))"
    using card_mono [of "(\<lambda>i. the (stack_ptr (pcbs k i))) ` Collect (live X k)" "{..<N_STACKS}"]
      card_image_le [OF fin, of "\<lambda>i. the (stack_ptr (pcbs k i))"] by simp
  moreover have "card (Collect (live X k)) \<le> card ({..<N_PCBS} - {n})"
    using n by (intro card_mono) (auto simp: live_def)
  moreover have "card ({..<N_PCBS} - {n}) = N_PCBS - 1" using n by simp
  ultimately show False using n(1) by (simp add: N_STACKS_def N_PCBS_def)
qed

text \<open>The kernel state just before the child is scheduled.\<close>

definition child_pcb :: "kernel \<Rightarrow> nat \<Rightarrow> nat \<Rightarrow> nat \<Rightarrow> pcb_t" where
  "child_pcb k c j ps = (pcbs k c)\<lparr>pid := next_pid k, ppid := pid (pcbs k c), q_default := QUANT_STD, stack_ptr := Some j,
     context_ptr := context_ptr (pcbs k c) + (stack_addr k j - stack_addr k ps)\<rparr>"

definition child_mem :: "kernel \<Rightarrow> nat \<Rightarrow> nat \<Rightarrow> nat \<Rightarrow> memory" where
  "child_mem k c j ps =
     (let off = stack_addr k j - stack_addr k ps;
          ctx = context_ptr (pcbs k c);
          m = kmemcpy STACK_BYTES (stack_addr k j) (stack_addr k ps) (mem (mm k));
          m = store32 (ctx + off + off_ebp) (load32 m (ctx + off + off_ebp) + off) m;
          m = store32 (ctx + off + off_eax) 0 m
      in store32 (ctx + off_eax) (scast (next_pid k)) m)"

lemma stack_addr_frame [simp]:
  "stack_addr (upd_pcb i f k) = stack_addr k" "stack_addr (upd_mem g k) = stack_addr k" "stack_addr (k\<lparr>next_pid := n\<rparr>) = stack_addr k"
  "stack_addr (k\<lparr>mm := m\<rparr>) = stack_addr k" "stack_addr (k\<lparr>qs := s\<rparr>) = stack_addr k"
  by (simp_all add: stack_addr_def fun_eq_iff upd_pcb_def upd_mem_def)

lemma wp_fork_child:
  assumes "n \<noteq> c" "stack_ptr (pcbs k c) = Some ps"
    and sched: "wp (schedule (Some n)) Q (k\<lparr>pcbs := (pcbs k)(c := (pcbs k c)\<lparr>children := children (pcbs k c) + 1\<rparr>, n := child_pcb k c j ps),
      mm := (mm k)\<lparr>mem := child_mem k c j ps\<rparr>, next_pid := next_pid k + 1\<rparr>)"
  shows "wp (fork_child c n j) Q k"
proof -
  define k1 where "k1 = fork_pcb c n j k"
  have k1: "k1 = k\<lparr>pcbs := (pcbs k)(n := (pcbs k c)\<lparr>pid := next_pid k, ppid := pid (pcbs k c), q_default := QUANT_STD, stack_ptr := Some j\<rparr>),
      next_pid := next_pid k + 1\<rparr>"
    using assms(1) by (simp add: k1_def fork_pcb_def Let_def upd_pcb_def)
  have addr: "stack_addr k1 = stack_addr k" by (simp add: k1 stack_addr_def fun_eq_iff)
  define m2 where "m2 = (let off = stack_addr k j - stack_addr k ps; ctx = context_ptr (pcbs k c);
        m = kmemcpy STACK_BYTES (stack_addr k j) (stack_addr k ps) (mem (mm k))
      in store32 (ctx + off + off_ebp) (load32 m (ctx + off + off_ebp) + off) m)"
  have k2: "fork_stack c n j ps k1 = k\<lparr>pcbs := (pcbs k)(n := child_pcb k c j ps), mm := (mm k)\<lparr>mem := m2\<rparr>, next_pid := next_pid k + 1\<rparr>"
    using assms(1) by (simp add: fork_stack_def Let_def addr m2_def set_REG_def REG_def reg_addr_def upd_mem_def upd_pcb_def child_pcb_def del: upd_frame)
      (simp add: k1)
  have k3: "fork_return c n (fork_stack c n j ps k1) = k\<lparr>pcbs := (pcbs k)(c := (pcbs k c)\<lparr>children := children (pcbs k c) + 1\<rparr>, n := child_pcb k c j ps),
      mm := (mm k)\<lparr>mem := child_mem k c j ps\<rparr>, next_pid := next_pid k + 1\<rparr>"
    using assms(1) by (simp add: k2 fork_return_def Let_def m2_def child_mem_def child_pcb_def set_RET_def set_REG_def reg_addr_def upd_mem_def upd_pcb_def
      fun_upd_twist del: upd_frame)
  have "stack_ptr (pcbs k1 c) = Some ps" using assms(1,2) by (simp add: k1)
  then show ?thesis using sched by (simp add: fork_child_def kern_simps k1_def [symmetric] k3 del: upd_frame)
qed

subsection \<open>fork\<close>

lemma family_fork:
  assumes fam: "family {c} k" and c: "live {c} k c" and n: "n < N_PCBS" "\<not> live {c} k n" "unat (next_pid k) < 65000"
    and run: "\<not> dead_state (state (pcbs k c))" "state (pcbs k c) \<noteq> PS_FREE"
    and k': "pcbs k' = (pcbs k)(c := (pcbs k c)\<lparr>children := children (pcbs k c) + 1\<rparr>, n := ready_pcb (child_pcb k c j ps))"
      "next_pid k' = next_pid k + 1" "init_pcb k' = init_pcb k"
  shows "family {c} k'"
proof -
  obtain z where z: "init_pcb k = Some z" "lineage (Collect (live {c} k)) (pcbs k) (next_pid k) z"
    "\<forall>i < N_PCBS. i \<notin> {c} \<and> i \<noteq> z \<and> dead_state (state (pcbs k i)) \<longrightarrow> children (pcbs k i) = 0"
    using fam by (auto simp: family_def)
  let ?L = "Collect (live {c} k)"
  have nc: "n \<noteq> c" using c n(2) by auto
  have tr: "tree ?L (\<lambda>i. pid (pcbs k i)) (\<lambda>i. ppid (pcbs k i)) (\<lambda>i. children (pcbs k i)) (next_pid k) z"
    using z(2) by (simp add: lineage_def)
  have "tree (insert n ?L) (\<lambda>i. pid (pcbs k' i)) (\<lambda>i. ppid (pcbs k' i)) (\<lambda>i. children (pcbs k' i)) (next_pid k + 1) z"
    by (rule tree_fork [OF tr _ _ n(3)]) (use c n(2) nc in \<open>auto simp: k' child_pcb_def\<close>)
  then have "lineage (insert n ?L) (pcbs k') (next_pid k') z"
    using z(2) n(1) c by (auto simp: lineage_def k')
  moreover have "Collect (live {c} k') = insert n ?L"
    using nc n(1) c run by (auto simp: live_def k')
  moreover have "children (pcbs k' i) = 0" if "i < N_PCBS" "i \<notin> {c}" "i \<noteq> z" "dead_state (state (pcbs k' i))" for i
    using that z(3) nc by (cases "i = n") (auto simp: k')
  ultimately show ?thesis
    unfolding family_def using z(1) k'(3) by auto
qed

text \<open>What the call has done when it creates the process \<^verbatim>\<open>n\<close> on the stack \<^verbatim>\<open>j\<close>.\<close>

definition forked :: "nat \<Rightarrow> nat \<Rightarrow> nat \<Rightarrow> nat \<Rightarrow> kernel \<Rightarrow> kernel \<Rightarrow> bool" where
  "forked c n j ps k k' \<longleftrightarrow> n < N_PCBS \<and> state (pcbs k n) = PS_FREE \<and> j \<in> free_stacks {c} k \<and> stack_ptr (pcbs k c) = Some ps \<and>
     pcbs k' = (pcbs k)(c := (pcbs k c)\<lparr>children := children (pcbs k c) + 1\<rparr>, n := ready_pcb (child_pcb k c j ps)) \<and>
     mem (mm k') = child_mem k c j ps \<and> next_pid k' = next_pid k + 1 \<and> current k' = Some c \<and>
     k' = k\<lparr>pcbs := pcbs k', mm := (mm k)\<lparr>mem := child_mem k c j ps\<rparr>, qs := qs k', next_pid := next_pid k + 1\<rparr> \<and>
     contents (qs k) FREE_PCBS = PCB n # contents (qs k') FREE_PCBS \<and> contents (qs k) FREE_STACKS = STACK j # contents (qs k') FREE_STACKS \<and>
     (\<forall>q. q \<noteq> FREE_PCBS \<and> q \<noteq> FREE_STACKS \<longrightarrow>
        contents (qs k') q = contents (qs k) q @ (if q = READY (unat (prio (ready_pcb (child_pcb k c j ps)))) then [PCB n] else []))"

lemma wp_fork:
  assumes ok: "kernel_ok k" "current k = Some c"
  shows "wp (sys_fork c) (\<lambda>_ k'. kernel_ok k' \<and>
     ((next_pid k \<ge> 65000 \<and> k' = set_status c E_NO_MORE_PROCS k) \<or>
      ((\<forall>i < N_PCBS. state (pcbs k i) \<noteq> PS_FREE) \<and> k' = set_status c E_NO_PCBS k) \<or>
      (\<exists>n j ps. forked c n j ps k k'))) k"
proof (cases "next_pid k \<ge> 65000")
  case True
  have "kernel_ok (set_status c E_NO_MORE_PROCS k)" by (rule kernel_ok_frame [OF ok(1)]) simp_all
  with True show ?thesis by (simp add: sys_fork_def kern_simps)
next
  case False
  note okc = kernel_okE [OF ok]
  have shape: "qshape (qs k) (located {c} k) (free_stacks {c} k)" and st: "stacks_ok {c} k" and cN: "c < N_PCBS"
    using okc(2) by (simp_all add: sane_def)
  have cl: "live {c} k c" using cN by (simp add: live_def)
  obtain ps where ps: "stack_ptr (pcbs k c) = Some ps" using st cl by (auto simp: stacks_ok_def)
  have np: "unat (next_pid k) < 65000" using False by (simp add: word_le_nat_alt)
  let ?Q = "\<lambda>_ k'. kernel_ok k' \<and>
     ((next_pid k \<ge> 65000 \<and> k' = set_status c E_NO_MORE_PROCS k) \<or>
      ((\<forall>i < N_PCBS. state (pcbs k i) \<noteq> PS_FREE) \<and> k' = set_status c E_NO_PCBS k) \<or>
      (\<exists>n j ps. forked c n j ps k k'))"
  have "wp pcb_alloc (\<lambda>new. wp (case new of None \<Rightarrow> kmodify (set_status c E_NO_PCBS)
       | Some n \<Rightarrow> kbind stk_alloc (\<lambda>stk. case stk of
             None \<Rightarrow> kbind (kmodify (set_status c E_NO_STACKS)) (\<lambda>_. pcb_dealloc (Some n))
           | Some j \<Rightarrow> fork_child c n j)) ?Q) k"
  proof (rule wp_pcb_alloc [OF shape], goal_cases)
    case 1
    have "state (pcbs k i) \<noteq> PS_FREE" if "i < N_PCBS" for i
      using 1 [OF that] okc(1) by (auto simp: located_def home_def split: if_splits)
    moreover have "kernel_ok (set_status c E_NO_PCBS k)" by (rule kernel_ok_frame [OF ok(1)]) simp_all
    ultimately show ?case by (simp add: kern_simps)
  next
    case (2 n s1)
    have n: "n \<noteq> c" "state (pcbs k n) = PS_FREE" "\<not> live {c} k n"
      using 2(2) by (auto simp: located_def home_def live_def split: if_splits state_t.splits)
    let ?k1 = "upd_pcb n (\<lambda>pcb. pcb\<lparr>state := PS_NEW\<rparr>) (k\<lparr>qs := s1\<rparr>)"
    have sh1: "qshape (qs ?k1) ((located {c} k)(n := None)) (free_stacks {c} k)" using 2(3) by simp
    note nN = 2(1) and s1 = 2(4) and s1' = 2(5)
    have "wp stk_alloc (\<lambda>stk. wp (case stk of
             None \<Rightarrow> kbind (kmodify (set_status c E_NO_STACKS)) (\<lambda>_. pcb_dealloc (Some n))
           | Some j \<Rightarrow> fork_child c n j) ?Q) ?k1"
    proof (rule wp_stk_alloc [OF sh1], goal_cases)
      case 1
      then show ?case using free_stack_exists [OF st nN n(3)] by simp
    next
      case (2 j s2)
      have jf: "j \<in> free_stacks {c} k" using 2(1) .
      let ?kf = "?k1\<lparr>qs := s2\<rparr>"
      have "wp (fork_child c n j) ?Q ?kf"
      proof (rule wp_fork_child [OF n(1)])
        show "stack_ptr (pcbs ?kf c) = Some ps" using ps n(1) by simp
        define k3 where "k3 = k\<lparr>pcbs := (pcbs k)(c := (pcbs k c)\<lparr>children := children (pcbs k c) + 1\<rparr>, n := child_pcb k c j ps),
          mm := (mm k)\<lparr>mem := child_mem k c j ps\<rparr>, qs := s2, next_pid := next_pid k + 1\<rparr>"
        have P3: "pcbs k3 = (pcbs k)(c := (pcbs k c)\<lparr>children := children (pcbs k c) + 1\<rparr>, n := child_pcb k c j ps)"
          "mem (mm k3) = child_mem k c j ps" "next_pid k3 = next_pid k + 1" "qs k3 = s2" "current k3 = Some c" "init_pcb k3 = init_pcb k"
          using ok(2) by (simp_all add: k3_def)
        have "sane (insert n {c}) k3"
          by (rule sane_new [OF okc(2) nN _ n(2) jf 2(2)]) (use n(1) s1 2(3) in \<open>auto simp: P3 child_pcb_def\<close>)
        then have "wp (schedule (Some n)) ?Q k3"
        proof (rule wp_schedule)
          fix s'
          let ?p = "ready_pcb (pcbs k3 n)"
          let ?k4 = "k3\<lparr>pcbs := (pcbs k3)(n := ?p), qs := s'\<rparr>"
          assume s': "sane (insert n {c} - {n}) ?k4"
            "contents s' = (contents (qs k3))(READY (unat (prio ?p)) := contents (qs k3) (READY (unat (prio ?p))) @ [PCB n])"
          have sane4: "sane {c} ?k4" using s'(1) n(1) by (simp add: insert_Diff_if)
          have "family {c} ?k4"
            by (rule family_fork [OF okc(3) cl nN n(3) np, of _ j ps]) (use okc(1) n(1) in \<open>simp_all add: P3\<close>)
          then have "kernel_ok ?k4" using sane4 n(1) okc(1) by (intro kernel_okI [of _ c]) (simp_all add: P3)
          moreover have "forked c n j ps k ?k4"
            unfolding forked_def
          proof (intro conjI)
            show "?k4 = k\<lparr>pcbs := pcbs ?k4, mm := (mm k)\<lparr>mem := child_mem k c j ps\<rparr>, qs := qs ?k4, next_pid := next_pid k + 1\<rparr>"
              by (simp add: k3_def)
          qed (use nN n jf ps s'(2) s1 s1' 2(3,4) in \<open>auto simp: P3(1-6)\<close>)
          ultimately show "?Q () ?k4" by blast
        qed simp
        moreover have "k3 = ?kf\<lparr>pcbs := (pcbs ?kf)(c := (pcbs ?kf c)\<lparr>children := children (pcbs ?kf c) + 1\<rparr>, n := child_pcb ?kf c j ps),
            mm := (mm ?kf)\<lparr>mem := child_mem ?kf c j ps\<rparr>, next_pid := next_pid ?kf + 1\<rparr>"
          using n(1) by (simp add: k3_def child_pcb_def child_mem_def upd_pcb_def stack_addr_def)
        ultimately show "wp (schedule (Some n)) ?Q (?kf\<lparr>pcbs := (pcbs ?kf)(c := (pcbs ?kf c)\<lparr>children := children (pcbs ?kf c) + 1\<rparr>,
            n := child_pcb ?kf c j ps), mm := (mm ?kf)\<lparr>mem := child_mem ?kf c j ps\<rparr>, next_pid := next_pid ?kf + 1\<rparr>)" by simp
      qed
      then show ?case by simp
    qed
    then show ?case by (simp add: kern_simps)
  qed
  with False show ?thesis by (simp add: sys_fork_def kern_simps)
qed

subsection \<open>The memory of parent and child\<close>

lemma unat_of_nat_32: "unat (of_nat n :: 32 word) = n mod 2 ^ 32"
  by (simp add: unat_of_nat)

lemma stack_bytes_disjoint:
  assumes "a < N_STACKS" "b < N_STACKS" "a \<noteq> b" "x < STACK_BYTES" "y < STACK_BYTES"
  shows "stack_addr k a + of_nat x \<noteq> stack_addr k b + of_nat y"
proof
  assume "stack_addr k a + of_nat x = stack_addr k b + of_nat y"
  then have "(of_nat (STACK_BYTES * a + x) :: 32 word) = of_nat (STACK_BYTES * b + y)" by (simp add: stack_addr_def)
  moreover have "STACK_BYTES * i + z < 2 ^ 32" if "i < N_STACKS" "z < STACK_BYTES" for i z
    using that by (simp add: STACK_BYTES_def N_STACKS_def N_PROCS_def)
  ultimately have "STACK_BYTES * a + x = STACK_BYTES * b + y"
    using assms by (metis mod_less unat_of_nat_32)
  then have "(STACK_BYTES * a + x) div STACK_BYTES = (STACK_BYTES * b + y) div STACK_BYTES" by simp
  then show False using assms by simp
qed

lemma shifted_words_disjoint:
  fixes off :: "32 word"
  assumes "4 \<le> unat off" "4 \<le> unat (- off)"
  shows "bytes4 a \<inter> bytes4 (a + off) = {}"
proof -
  have ne: "off \<noteq> of_nat x - of_nat y" if "x < 4" "y < 4" for x y :: nat
  proof
    assume "off = of_nat x - of_nat y"
    then have o: "off = of_int (int x - int y)" by simp
    consider "y \<le> x" | "x < y" by linarith
    then show False
    proof cases
      case 1
      then have "off = of_nat (x - y)" using o by (simp add: of_nat_diff)
      then have "unat off = x - y" using that by (simp add: unat_of_nat)
      then show False using assms(1) that by simp
    next
      case 2
      then have "- off = of_nat (y - x)" using o by (simp add: of_nat_diff)
      then have "unat (- off) = y - x" using that by (simp add: unat_of_nat)
      then show False using assms(2) that by simp
    qed
  qed
  have b: "bytes4 b = (\<lambda>x. b + of_nat x) ` {0, 1, 2, 3}" for b :: "32 word"
    by (simp add: bytes4_def)
  show ?thesis
  proof (rule ccontr)
    assume "bytes4 a \<inter> bytes4 (a + off) \<noteq> {}"
    then obtain x y :: nat where "x \<in> {0, 1, 2, 3}" "y \<in> {0, 1, 2, 3}" "a + of_nat x = a + off + of_nat y" unfolding b by blast
    moreover from this(1,2) have "x < 4" "y < 4" by auto
    ultimately have "off = of_nat x - of_nat y" by (simp add: algebra_simps)
    with ne \<open>x < 4\<close> \<open>y < 4\<close> show False by blast
  qed
qed

lemma stack_distance:
  assumes "a < N_STACKS" "b < N_STACKS" "a \<noteq> b"
  shows "STACK_BYTES \<le> unat (stack_addr k a - stack_addr k b)"
proof (cases "b < a")
  case True
  then have "stack_addr k a - stack_addr k b = of_nat (STACK_BYTES * (a - b))" by (simp add: stack_addr_def of_nat_diff algebra_simps)
  moreover have "STACK_BYTES * (a - b) < 2 ^ 32" "STACK_BYTES * 1 \<le> STACK_BYTES * (a - b)"
    using assms True by (auto simp: STACK_BYTES_def N_STACKS_def N_PROCS_def)
  ultimately show ?thesis by (simp add: unat_of_nat del: of_nat_mult)
next
  case False
  then have lt: "a < b" using assms(3) by simp
  then have "stack_addr k a - stack_addr k b = - of_nat (STACK_BYTES * (b - a))" by (simp add: stack_addr_def of_nat_diff algebra_simps)
  also have "\<dots> = of_nat (2 ^ 32 - STACK_BYTES * (b - a))"
    using assms lt by (simp add: of_nat_diff STACK_BYTES_def N_STACKS_def N_PROCS_def)
  finally have "stack_addr k a - stack_addr k b = of_nat (2 ^ 32 - STACK_BYTES * (b - a))" .
  moreover have "2 ^ 32 - STACK_BYTES * (b - a) < 2 ^ 32" "STACK_BYTES \<le> 2 ^ 32 - STACK_BYTES * (b - a)"
    using assms lt by (auto simp: STACK_BYTES_def N_STACKS_def N_PROCS_def)
  ultimately show ?thesis by (simp add: unat_of_nat del: of_nat_diff)
qed


text \<open>The memory after a fork, byte by byte.\<close>

lemma child_mem_copy:
  assumes "j < N_STACKS" "ps < N_STACKS" "j \<noteq> ps" "x < STACK_BYTES"
    and "stack_addr k j + of_nat x \<notin> bytes4 (ctx' + off_ebp) \<union> bytes4 (ctx' + off_eax) \<union> bytes4 (context_ptr (pcbs k c) + off_eax)"
    and "ctx' = context_ptr (pcbs k c) + (stack_addr k j - stack_addr k ps)"
  shows "child_mem k c j ps (stack_addr k j + of_nat x) = mem (mm k) (stack_addr k ps + of_nat x)"
proof -
  have "x < 2 ^ 32" using assms(4) by (simp add: STACK_BYTES_def)
  moreover have "kmemcpy STACK_BYTES (stack_addr k j) (stack_addr k ps) (mem (mm k)) = copy (stack_addr k j) (stack_addr k ps) STACK_BYTES (mem (mm k))"
    by (rule kmemcpy_copy; rule stack_distance) (use assms in auto)
  ultimately have "kmemcpy STACK_BYTES (stack_addr k j) (stack_addr k ps) (mem (mm k)) (stack_addr k j + of_nat x) = mem (mm k) (stack_addr k ps + of_nat x)"
    using assms(4) by (simp add: copy_def unat_of_nat)
  then show ?thesis using assms(5,6) by (simp add: child_mem_def Let_def store32_other)
qed

lemma child_mem_returns:
  assumes "j < N_STACKS" "ps < N_STACKS" "j \<noteq> ps"
  shows "load32 (child_mem k c j ps) (context_ptr (pcbs k c) + (stack_addr k j - stack_addr k ps) + off_eax) = 0"
    "load32 (child_mem k c j ps) (context_ptr (pcbs k c) + off_eax) = scast (next_pid k)"
proof -
  let ?off = "stack_addr k j - stack_addr k ps"
  have "4 \<le> STACK_BYTES" by (simp add: STACK_BYTES_def)
  then have "4 \<le> unat ?off" "4 \<le> unat (- ?off)"
    using stack_distance [OF assms, of k] stack_distance [OF assms(2,1), of k] assms(3) by auto
  from shifted_words_disjoint [OF this, of "context_ptr (pcbs k c) + off_eax"]
  have "bytes4 (context_ptr (pcbs k c) + off_eax) \<inter> bytes4 (context_ptr (pcbs k c) + ?off + off_eax) = {}" by (simp add: ac_simps)
  then show "load32 (child_mem k c j ps) (context_ptr (pcbs k c) + ?off + off_eax) = 0"
    by (simp add: child_mem_def Let_def load32_store32_other Int_commute)
  show "load32 (child_mem k c j ps) (context_ptr (pcbs k c) + off_eax) = scast (next_pid k)"
    by (simp add: child_mem_def Let_def)
qed

lemma copy_outside:
  assumes "\<And>x. x < n \<Longrightarrow> a \<noteq> dst + of_nat x"
  shows "copy dst src n m a = m a"
proof -
  have "a = dst + of_nat (unat (a - dst))" by simp
  then have "\<not> unat (a - dst) < n" using assms by blast
  then show ?thesis by (simp add: copy_def)
qed

lemma child_mem_outside:
  assumes "j < N_STACKS" "ps < N_STACKS" "j \<noteq> ps" "\<And>x. x < STACK_BYTES \<Longrightarrow> a \<noteq> stack_addr k j + of_nat x"
    and "a \<notin> bytes4 (ctx' + off_ebp) \<union> bytes4 (ctx' + off_eax) \<union> bytes4 (context_ptr (pcbs k c) + off_eax)"
    and "ctx' = context_ptr (pcbs k c) + (stack_addr k j - stack_addr k ps)"
  shows "child_mem k c j ps a = mem (mm k) a"
proof -
  have "kmemcpy STACK_BYTES (stack_addr k j) (stack_addr k ps) (mem (mm k)) = copy (stack_addr k j) (stack_addr k ps) STACK_BYTES (mem (mm k))"
    by (rule kmemcpy_copy; rule stack_distance) (use assms in auto)
  then show ?thesis using assms(5,6) copy_outside [OF assms(4)] by (simp add: child_mem_def Let_def store32_other)
qed

lemma near_distance:
  fixes off :: "32 word"
  assumes "4096 \<le> unat off" "4096 \<le> unat (- off)"
  shows "4 \<le> unat (off - 20)" "4 \<le> unat (20 - off)"
proof -
  have "unat (off - 20) = unat off - 20" using assms(1) by (simp add: unat_sub_if_size word_size)
  then show "4 \<le> unat (off - 20)" using assms(1) by simp
  have lt: "unat off < 2 ^ 32" "unat (- off) < 2 ^ 32" using unsigned_less [of off] unsigned_less [of "- off"] by simp_all
  have "unat (off + - off) = (unat off + unat (- off)) mod 2 ^ 32" by (simp only: unat_word_ariths) simp
  then obtain n where n: "unat off + unat (- off) = 2 ^ 32 * n" by (auto simp: mod_eq_0_iff_dvd elim!: dvdE)
  then have "n < 2" using lt by simp
  then have "unat (- off) \<le> 2 ^ 32 - 4096" using assms n by (cases n) simp_all
  then have "unat (20 + - off) = 20 + unat (- off)" by (subst unat_word_ariths) simp
  then show "4 \<le> unat (20 - off)" using assms(2) by simp
qed

text \<open>A frame pointer saved in the parent's stack reappears in the child's, moved by the distance of the stacks.\<close>

lemma child_mem_frame_pointer:
  assumes "j < N_STACKS" "ps < N_STACKS" "j \<noteq> ps" "x + 4 \<le> STACK_BYTES" "context_ptr (pcbs k c) + off_ebp = stack_addr k ps + of_nat x"
    and off: "off = stack_addr k j - stack_addr k ps"
  shows "load32 (child_mem k c j ps) (context_ptr (pcbs k c) + off + off_ebp) = load32 (mem (mm k)) (context_ptr (pcbs k c) + off_ebp) + off"
proof -
  let ?ctx = "context_ptr (pcbs k c)"
  let ?m = "kmemcpy STACK_BYTES (stack_addr k j) (stack_addr k ps) (mem (mm k))"
  have cp: "?m = copy (stack_addr k j) (stack_addr k ps) STACK_BYTES (mem (mm k))"
    by (rule kmemcpy_copy; rule stack_distance) (use assms in auto)
  have at: "?ctx + off + off_ebp = stack_addr k j + of_nat x"
  proof -
    have "?ctx + off + off_ebp = (?ctx + off_ebp) + off" by simp
    then show ?thesis using assms(5) off by simp
  qed
  have byte: "?m (stack_addr k j + of_nat x + of_nat y) = mem (mm k) (stack_addr k ps + of_nat x + of_nat y)" if "y < 4" for y
  proof -
    have "unat (of_nat (x + y) :: 32 word) = x + y" using that assms(4) by (simp add: unat_of_nat_32 STACK_BYTES_def del: of_nat_add)
    then have "unat (of_nat x + of_nat y :: 32 word) < STACK_BYTES" using that assms(4) by simp
    then show ?thesis unfolding cp copy_def by (simp add: add.assoc)
  qed
  have copied: "load32 ?m (?ctx + off + off_ebp) = load32 (mem (mm k)) (?ctx + off_ebp)"
    unfolding at assms(5) load32_def using byte [of 0] byte [of 1] byte [of 2] byte [of 3] by simp
  have far: "4096 \<le> unat off" "4096 \<le> unat (- off)"
    using stack_distance [OF assms(1-3), of k] stack_distance [OF assms(2,1), of k] assms(3) unfolding off by (auto simp: STACK_BYTES_def)
  let ?d = "off + (off_ebp - off_eax)"
  have "bytes4 (?ctx + off_eax) \<inter> bytes4 (?ctx + off_eax + ?d) = {}"
    by (rule shifted_words_disjoint) (use near_distance [OF far] in \<open>simp_all add: off_ebp_def off_eax_def\<close>)
  then have "bytes4 (?ctx + off + off_ebp) \<inter> bytes4 (?ctx + off_eax) = {}" by (simp add: algebra_simps Int_commute)
  moreover have "bytes4 (?ctx + off + off_ebp) \<inter> bytes4 (?ctx + off + off_eax) = {}" by (simp add: bytes4_def off_ebp_def off_eax_def)
  ultimately show ?thesis using copied by (simp add: child_mem_def Let_def off [symmetric] load32_store32_other)
qed

end
