(* ===== verification/Kern_System.thy ===== *)
theory Kern_System
  imports Kern_Fork
begin

text \<open>
  The kernel as a whole: initialization establishes the invariants, and system calls, clock ticks,
  serial and keyboard interrupts and the execution of user code keep them.
\<close>

subsection \<open>Routines that leave the processes alone\<close>

definition keeps :: "(kernel \<Rightarrow> bool) \<Rightarrow> (kernel, 'a) kern \<Rightarrow> bool" where
  "keeps P m \<longleftrightarrow> (\<forall>k x k'. P k \<longrightarrow> m k = Inr (x, k') \<longrightarrow> P k')"

lemma keepsD: "keeps P m \<Longrightarrow> P k \<Longrightarrow> m k = Inr (x, k') \<Longrightarrow> P k'"
  unfolding keeps_def by blast

lemma keeps_bind: "keeps P m \<Longrightarrow> (\<And>x. keeps P (f x)) \<Longrightarrow> keeps P (kbind m f)"
  unfolding keeps_def by (blast elim: kbind_InrE)

lemma keeps_steps: "keeps P (kget f)" "keeps P (kreturn x)" "keeps P (kfail e)" "keeps P (kpanic w t)"
  by (auto simp: keeps_def kern_run)

lemma keeps_modify: "(\<And>k. P k \<Longrightarrow> P (u k)) \<Longrightarrow> keeps P (kmodify u)"
  by (auto simp: keeps_def kern_run)

lemma keeps_kfor: "(\<And>j. keeps P (f j)) \<Longrightarrow> keeps P (kfor js f)"
  by (induction js) (auto intro: keeps_bind keeps_steps)

definition running :: "nat \<Rightarrow> kernel \<Rightarrow> bool" where
  "running c k \<longleftrightarrow> kernel_ok k \<and> current k = Some c"

lemma running_upd:
  assumes "running c k" "qs k' = qs k" "current k' = current k" "init_pcb k' = init_pcb k" "next_pid k' = next_pid k"
    and "pcbs k' = (pcbs k)(c := p)" "pid p = pid (pcbs k c)" "ppid p = ppid (pcbs k c)" "children p = children (pcbs k c)"
    "state p = state (pcbs k c)" "stack_ptr p = stack_ptr (pcbs k c)"
  shows "running c k'"
proof -
  have ok: "kernel_ok k" "current k = Some c" using assms(1) by (auto simp: running_def)
  note okc = kernel_okE [OF ok]
  have "sane {c} k'" by (rule sane_cong [OF okc(2)]) (use assms in auto)
  moreover have "family {c} k'" by (rule family_cong [OF okc(3)]) (use assms in \<open>auto simp: live_def\<close>)
  ultimately show ?thesis
    using assms ok(2) okc(1) kernel_okI [of k' c] by (simp add: running_def)
qed

lemma running_frame:
  assumes "running c k" "qs k' = qs k" "pcbs k' = pcbs k" "current k' = current k" "init_pcb k' = init_pcb k" "next_pid k' = next_pid k"
  shows "running c k'"
  using assms kernel_ok_frame [of k k'] by (simp add: running_def)

lemma running_devices [simp]:
  "running c (k\<lparr>mm := m\<rparr>) = running c k" "running c (k\<lparr>sio := s\<rparr>) = running c k" "running c (k\<lparr>cio := t\<rparr>) = running c k"
  by (rule iffI; erule running_frame; simp)+

lemma kernel_ok_mem [simp]:
  "kernel_ok (set_status i e k) = kernel_ok k" "kernel_ok (set_RET i v k) = kernel_ok k"
  by (rule iffI; erule kernel_ok_frame; simp)+

lemma running_mem [simp]:
  "running c (upd_mem f k) = running c k" "running c (set_REG i r v k) = running c k" "running c (set_RET i v k) = running c k"
  "running c (set_status i e k) = running c k" "running c (set_ARG i n v k) = running c k"
  by (simp_all add: upd_mem_def set_REG_def set_RET_def set_status_def set_ARG_def)

lemma keeps_devices:
  "keeps (running c) (in_memory m)" "keeps (running c) (in_serial n)" "keeps (running c) (in_console l)"
  by (auto simp: keeps_def in_memory_def in_serial_def in_console_def split: sum.splits)

lemma keeps_upd:
  assumes "\<And>p. pid (f p) = pid p \<and> ppid (f p) = ppid p \<and> children (f p) = children p \<and> state (f p) = state p \<and> stack_ptr (f p) = stack_ptr p"
  shows "running c k \<Longrightarrow> running c (upd_pcb c f k)"
  by (erule running_upd [where p = "f (pcbs k c)"]) (simp_all add: assms)

lemma keeps_stk_setup: "keeps (running c) (stk_setup stk e a)"
  by (auto simp: keeps_def stk_setup_def Let_def split: option.splits)

lemmas keeps_rules = keeps_bind keeps_steps keeps_modify keeps_kfor keeps_devices keeps_stk_setup keeps_upd

lemma keeps_exec: "keeps (running c) (sys_exec c)"
  unfolding sys_exec_def by (intro keeps_rules) (simp_all add: keeps_steps keeps_devices)

lemma keeps_mmap: "keeps (running c) (sys_mmap c)"
  unfolding sys_mmap_def by (intro keeps_rules) (simp split: prod.split add: keeps_modify)

lemma keeps_write: "keeps (running c) (sys_write c)"
  unfolding sys_write_def by (auto intro!: keeps_rules)

subsection \<open>read\<close>

lemma enque_pcbs:
  assumes "\<And>i. wakeup (P i) = wakeup (pcbs k i)"
  shows "enque q d (k\<lparr>pcbs := P\<rparr>) = (case enque q d k of Inl e \<Rightarrow> Inl e | Inr (x, k') \<Rightarrow> Inr (x, k'\<lparr>pcbs := P\<rparr>))"
proof -
  have "call_cmp (k\<lparr>pcbs := P\<rparr>) = call_cmp k"
    using assms by (auto simp: call_cmp_def cmp_wakeup_def fun_eq_iff split: cmpf_t.split ptr.split)
  then show ?thesis by (simp add: enque_def in_queues_def split: sum.split)
qed

text \<open>The state of a process that blocks in \<^verbatim>\<open>read\<close> is set after it has been queued.\<close>

lemma outcome_read_result:
  assumes run: "running c k"
  shows "outcome (has_ready k) (read_result c n k)"
proof (cases "n > 0")
  case True
  then show ?thesis using run by (simp add: read_result_def kern_simps running_def)
next
  case False
  have ok: "kernel_ok k" "current k = Some c" using run by (auto simp: running_def)
  let ?p = "(pcbs k c)\<lparr>state := PS_BLOCKED\<rparr>"
  let ?P = "(pcbs k)(c := ?p)"
  have "outcome (has_ready k) (kbind (enque READING (PCB c)) (\<lambda>st. if st = E_SUCCESS then dispatch else kfail NullDeref) (k\<lparr>pcbs := ?P\<rparr>))"
    by (rule outcome_block [OF ok, of _ ?p]) (simp_all add: home_def)
  moreover have same: "enque READING (PCB c) (k\<lparr>pcbs := ?P\<rparr>) = (case enque READING (PCB c) k of Inl e \<Rightarrow> Inl e | Inr (x, k') \<Rightarrow> Inr (x, k'\<lparr>pcbs := ?P\<rparr>))"
    by (rule enque_pcbs) simp
  moreover obtain s' where e: "enque READING (PCB c) k = Inr (E_SUCCESS, k\<lparr>qs := s'\<rparr>)"
  proof -
    note okc = kernel_okE [OF ok]
    have shape: "qshape (qs k) (located {c} k) (free_stacks {c} k)" and cN: "c < N_PCBS" using okc(2) by (simp_all add: sane_def)
    have "wp (enque READING (PCB c)) (\<lambda>st k'. st = E_SUCCESS \<and> (\<exists>s'. k' = k\<lparr>qs := s'\<rparr>)) k"
      by (rule wp_enque_pcb [OF shape _ cN]) (auto simp: located_def)
    then show ?thesis using that by (auto simp: wp_iff)
  qed
  ultimately have "outcome (has_ready k) (dispatch (k\<lparr>qs := s', pcbs := ?P\<rparr>))" by (simp add: kern_simps)
  then show ?thesis
    using False e ok(2) by (simp add: read_result_def kern_simps upd_pcb_def)
qed

lemma keeps_then:
  assumes "keeps (running c) m" "running c k" "kbind m f k = Inr ((), k')" "\<And>x k. running c k \<Longrightarrow> f x k = Inr ((), k') \<Longrightarrow> kernel_ok k'"
  shows "kernel_ok k'"
  using assms unfolding keeps_def by (blast elim: kbind_InrE)

lemma outcome_returns: "outcome h r \<Longrightarrow> r = Inr ((), k') \<Longrightarrow> kernel_ok k'"
  by (simp add: outcome_def)

lemma read_returns:
  assumes run: "running c k" and ret: "sys_read c k = Inr ((), k')"
  shows "kernel_ok k'"
proof -
  let ?buf = "ARG c 2 k" and ?sz = "ARG c 3 k"
  have ok: "kernel_ok k" using run by (simp add: running_def)
  have stored: "kernel_ok k'" if "kbind m (\<lambda>chars. kbind (kmodify (upd_mem (g chars))) (\<lambda>_. read_result c (length chars))) k = Inr ((), k')"
    "keeps (running c) m" for m :: "(kernel, 8 word list) kern" and g
  proof (rule keeps_then [OF that(2) run that(1)])
    fix x k1 assume "running c k1" "kbind (kmodify (upd_mem (g x))) (\<lambda>_. read_result c (length x)) k1 = Inr ((), k')"
    then have "running c (upd_mem (g x) k1)" "read_result c (length x) (upd_mem (g x) k1) = Inr ((), k')" by (simp_all add: kern_simps)
    then show "kernel_ok k'" by (rule outcome_returns [OF outcome_read_result])
  qed
  show ?thesis
    using ret ok stored [OF _ keeps_devices(2)] stored [OF _ keeps_devices(3)]
    unfolding sys_read_def kbind_steps by (auto simp: kern_run split: if_splits)
qed

subsection \<open>The system call interrupt\<close>

lemma live_pid:
  assumes "kernel_ok k" "current k = Some c" "live {c} k v"
  shows "pid (pcbs k v) \<noteq> - 1"
proof -
  obtain z where "tree (Collect (live {c} k)) (\<lambda>i. pid (pcbs k i)) (\<lambda>i. ppid (pcbs k i)) (\<lambda>i. children (pcbs k i)) (next_pid k) z"
    using kernel_okE(3) [OF assms(1,2)] by (auto simp: family_def lineage_def)
  from tree_pid_valid [OF this] assms(3) show ?thesis by simp
qed

lemma kill_returns:
  assumes run: "running c k" and ret: "sys_kill c k = Inr ((), k')"
  shows "kernel_ok k'"
proof (cases "ucast (ARG c 1 k) = (- 1 :: 16 word)")
  case False
  then show ?thesis using run outcome_kill [of k c] ret outcome_returns by (auto simp: running_def)
next
  case True
  have ok: "kernel_ok k" "current k = Some c" using run by (auto simp: running_def)
  show ?thesis
  proof (cases "pcb_find (- 1) k")
    case None
    then have "k' = set_status c E_NO_PROCESS k" using ret True by (simp add: sys_kill_def kern_simps)
    then show ?thesis using ok by simp
  next
    case (Some v)
    then have v: "v < N_PCBS" "pid (pcbs k v) = - 1" by (auto simp: pcb_find_def find_Some_iff)
    have "\<not> live {c} k v" using live_pid [OF ok] v(2) by blast
    then have "state (pcbs k v) = PS_FREE" using v(1) by (simp add: live_def)
    then show ?thesis using ret True Some by (simp add: sys_kill_def kern_simps)
  qed
qed

lemma fork_returns: "running c k \<Longrightarrow> sys_fork c k = Inr ((), k') \<Longrightarrow> kernel_ok k'"
  using wp_fork [of k c] by (auto simp: running_def wp_iff)

lemma syscall_returns:
  assumes run: "running c k" and f: "syscalls code = Some f" and ret: "f c k = Inr ((), k')"
  shows "kernel_ok k'"
proof -
  have ok: "kernel_ok k" "current k = Some c" using run by (auto simp: running_def)
  have mem: "f \<in> {sys_exit, sys_read, sys_write, sys_fork, sys_exec, sys_kill, sys_wait, sys_sleep, sys_getpid, sys_getppid, sys_gettime, sys_mmap}"
    using f by (auto simp: syscalls_def split: if_splits)
  have kept: "kernel_ok k'" if "keeps (running c) m" "m k = Inr ((), k')" for m :: "(kernel, unit) kern"
    using that run unfolding keeps_def running_def by blast
  note kept = kept [OF keeps_exec [of c]] kept [OF keeps_write [of c]] kept [OF keeps_mmap [of c]]
  note answered = outcome_get [OF ok(1), of True c, THEN outcome_returns]
  note moved = outcome_exit [OF ok, THEN outcome_returns] outcome_wait [OF ok, THEN outcome_returns]
    outcome_sleep [OF ok, THEN outcome_returns] read_returns [OF run] kill_returns [OF run] fork_returns [OF run]
  from mem show ?thesis
    by (elim insertE emptyE; use ret kept answered moved in blast)
qed

lemma sys_isr_returns:
  assumes ok: "kernel_ok k" and ret: "sys_isr k = Inr ((), k')"
  shows "kernel_ok k'"
proof -
  obtain c where c: "current k = Some c" using ok by (auto simp: kernel_ok_def)
  then have run: "running c k" using ok by (simp add: running_def)
  then have run': "running c (set_ARG c 1 EXIT_BAD_CODE k)" by simp
  have call: "kernel_ok k'" if "running c k1" "(case syscalls code of None \<Rightarrow> kfail NullDeref | Some f \<Rightarrow> f c) k1 = Inr ((), k')" for k1 code
    using that syscall_returns [OF that(1), of code] by (cases "syscalls code") (simp_all add: kern_run)
  show ?thesis
    using ret c call [OF run] call [OF run', of 0]
    by (cases "unat (REG c off_eax k) \<ge> N_SYSCALLS") (simp_all add: sys_isr_def kern_simps)
qed

subsection \<open>The other interrupts\<close>

lemma family_ticked: "family X k \<Longrightarrow> family X (ticked k)"
  by (rule family_frame) simp_all

lemma charged_sel:
  assumes c: "current k = Some c" and ok: "kernel_ok k"
  shows "pid (charged k c i) = pid (pcbs k i)" "ppid (charged k c i) = ppid (pcbs k i)" "children (charged k c i) = children (pcbs k i)"
    "state (charged k c i) = (if PCB i \<in> set (woken (ticked k)) \<and> i \<noteq> c then PS_READY else state (pcbs k i))"
    "PCB i \<in> set (woken (ticked k)) \<Longrightarrow> state (pcbs k i) = PS_SLEEPING"
proof -
  show "pid (charged k c i) = pid (pcbs k i)" "ppid (charged k c i) = ppid (pcbs k i)" "children (charged k c i) = children (pcbs k i)"
    "state (charged k c i) = (if PCB i \<in> set (woken (ticked k)) \<and> i \<noteq> c then PS_READY else state (pcbs k i))"
    by (simp_all add: charged_def woken_pcbs_def)
  assume "PCB i \<in> set (woken (ticked k))"
  then have mem: "PCB i \<in> set (contents (qs k) SLEEPING)" by (auto simp: woken_def dest: set_takeWhileD)
  have "SLEEPING \<noteq> FREE_STACKS" by simp
  from sane_members [OF kernel_okE(2) [OF ok c] this mem] obtain j where "PCB i = PCB j" "home (pcbs k j) = Some SLEEPING" .
  then show "state (pcbs k i) = PS_SLEEPING" by (simp add: home_def split: state_t.splits)
qed

lemma wp_clk_isr_ok:
  assumes ok: "kernel_ok k"
  shows "wp clk_isr (\<lambda>_. kernel_ok) k"
proof -
  obtain c where c: "current k = Some c" using ok by (auto simp: kernel_ok_def)
  note okc = kernel_okE [OF ok c] and ch = charged_sel [OF c ok]
  show ?thesis
  proof (rule wp_clk_isr [OF c okc(1,2)], goal_cases)
    case (1 s')
    let ?k = "(ticked k)\<lparr>qs := s', pcbs := charged k c\<rparr>"
    have "family {c} ?k"
      by (rule family_cong [OF okc(3)]) (use ch in \<open>auto simp: live_def split: if_splits\<close>)
    then show ?case
      using 1 c okc(1) ch(4) [of c] by (intro kernel_okI [of _ c]) simp_all
  next
    case (2 s1 p c' ds s' k')
    let ?P = "(charged k c)(c := ready_pcb (charged k c c))"
    have pcbs: "pcbs k' = ?P(c' := (?P c')\<lparr>state := PS_RUNNING, q_ticks := q_default (?P c')\<rparr>)" using 2(9) by (simp add: Let_def)
    have c'N: "c' < N_PCBS" using 2(13) by (simp add: sane_def)
    have c': "state (pcbs k c') \<noteq> PS_FREE"
    proof -
      have "PCB c' \<in> set (contents s1 (READY p))" using 2(4) by simp
      then consider "c' = c" | "PCB c' \<in> set (woken (ticked k))" | "PCB c' \<in> set (contents (qs k) (READY p))"
        unfolding 2(2) by (auto simp: woken_queues_def split: if_splits)
      then show ?thesis
      proof cases
        case 3
        have "READY p \<noteq> FREE_STACKS" by simp
        from sane_members [OF okc(2) this 3] obtain j where "PCB c' = PCB j" "home (pcbs k j) = Some (READY p)" .
        then show ?thesis by (auto simp: home_def)
      qed (use okc(1) ch(5) in auto)
    qed
    have "family {c'} k'"
      by (rule family_cong [OF okc(3)]) (use ch c' okc(1) 2(11,12) in \<open>auto simp: live_def pcbs split: if_splits\<close>)
    then show ?case
      using 2 pcbs by (intro kernel_okI [of _ c']) simp_all
  qed
qed

text \<open>A character for a process that waits for one: the first reader gets it and becomes ready.\<close>

lemma wp_receive_waiting:
  assumes run: "running c k" and q: "contents (qs k) READING = PCB p # ds"
  shows "wp (sio_receive data) (\<lambda>_ k'. running c k' \<and> pcbs k' = (pcbs k)(p := ready_pcb (pcbs k p)) \<and>
    mm k' = mm (set_RET p (ucast (if data = CR then LF else data)) k) \<and> sio k' = sio k \<and> contents (qs k') READING = ds) k"
proof -
  have ok: "kernel_ok k" "current k = Some c" using run by (auto simp: running_def)
  note okc = kernel_okE [OF ok]
  have shape: "qshape (qs k) (located {c} k) (free_stacks {c} k)" using okc(2) by (simp add: sane_def)
  have ne: "READING \<noteq> FREE_STACKS" by simp
  obtain i where "PCB p = PCB i" "i < N_PCBS" "i \<notin> {c}" "home (pcbs k i) = Some READING"
    using sane_members [OF okc(2) ne, of "PCB p"] q by auto
  then have p: "p < N_PCBS" "p \<notin> {c}" "state (pcbs k p) = PS_BLOCKED"
    by (auto simp: home_def split: state_t.splits)
  let ?ch = "if data = CR then LF else data"
  let ?Q = "\<lambda>_ k'. running c k' \<and> pcbs k' = (pcbs k)(p := ready_pcb (pcbs k p)) \<and>
    mm k' = mm (set_RET p (ucast ?ch) k) \<and> sio k' = sio k \<and> contents (qs k') READING = ds"
  have "wp (deque READING) (\<lambda>x. wp (case x of (status, d) \<Rightarrow>
        if status \<noteq> E_SUCCESS \<or> d = NULL then kpanic ''_sio_isr'' ''read queue remove failed''
        else (case as_pcb d of
                None \<Rightarrow> kfail OutOfRange
              | Some p \<Rightarrow> kbind (kmodify (set_RET p (ucast ?ch))) (\<lambda>_. schedule (Some p)))) ?Q) k"
  proof (rule wp_deque_pcb [OF shape ne q])
    fix s1 assume s1: "qshape s1 ((located {c} k)(p := None)) (free_stacks {c} k)" "contents s1 = (contents (qs k))(READING := ds)"
    let ?k1 = "set_RET p (ucast ?ch) (k\<lparr>qs := s1\<rparr>)"
    have "sane (insert p {c}) ?k1"
      by (rule sane_take [OF okc(2) p(1,2) _ s1(1), where P = "\<lambda>_. True"]) (use p(3) s1(2) in simp_all)
    then have "wp (schedule (Some p)) ?Q ?k1"
    proof (rule wp_schedule)
      fix s2
      let ?k2 = "?k1\<lparr>pcbs := (pcbs ?k1)(p := ready_pcb (pcbs ?k1 p)), qs := s2\<rparr>"
      assume s2: "sane (insert p {c} - {p}) ?k2" "contents s2 = (contents (qs ?k1))(READY (unat (prio (ready_pcb (pcbs ?k1 p)))) :=
          contents (qs ?k1) (READY (unat (prio (ready_pcb (pcbs ?k1 p))))) @ [PCB p])"
      have "insert p {c} - {p} = {c}" using p(2) by auto
      moreover have "family {c} ?k2" by (rule family_cong [OF okc(3)]) (use p in \<open>auto simp: live_def\<close>)
      ultimately have "kernel_ok ?k2" using s2(1) ok(2) okc(1) p(2) by (intro kernel_okI [of _ c]) auto
      then show "?Q () ?k2"
        using ok(2) s1(2) s2(2)
        by (simp add: running_def) (simp add: set_RET_def set_REG_def reg_addr_def upd_mem_def)
    qed simp
    then show "wp (case (E_SUCCESS, PCB p) of (status, d) \<Rightarrow>
        if status \<noteq> E_SUCCESS \<or> d = NULL then kpanic ''_sio_isr'' ''read queue remove failed''
        else (case as_pcb d of
                None \<Rightarrow> kfail OutOfRange
              | Some p \<Rightarrow> kbind (kmodify (set_RET p (ucast ?ch))) (\<lambda>_. schedule (Some p)))) ?Q (k\<lparr>qs := s1\<rparr>)"
      by (simp add: kern_simps as_pcb_def)
  qed
  moreover have "q_size READING k > 0"
    using size_pos [OF qshapeD(1) [OF shape], of READING] q by (simp add: q_size_def word_gt_0)
  ultimately show ?thesis by (simp add: sio_receive_def Let_def kern_simps)
qed

lemma sio_receive_idle:
  assumes run: "running c k" and q: "contents (qs k) READING = []"
  shows "sio_receive data k = in_serial (sio_store (if data = CR then LF else data)) k"
proof -
  have "sane {c} k" using run kernel_okE(2) by (auto simp: running_def)
  then have "qinv (qs k)" using qshapeD(1) by (auto simp: sane_def)
  then have "q_size READING k = 0" using size_pos q by (simp add: q_size_def)
  then show ?thesis by (simp add: sio_receive_def Let_def kern_simps)
qed

lemma keeps_receive: "keeps (running c) (sio_receive data)"
  unfolding keeps_def
proof (intro allI impI)
  fix k x k' assume run: "running c k" and ret: "sio_receive data k = Inr (x, k')"
  have sane: "sane {c} k" using run kernel_okE(2) by (auto simp: running_def)
  show "running c k'"
  proof (cases "contents (qs k) READING")
    case Nil
    then have "in_serial (sio_store (if data = CR then LF else data)) k = Inr (x, k')"
      using ret sio_receive_idle [OF run Nil, of data] by simp
    then show ?thesis by (rule keepsD [OF keeps_devices(2) run])
  next
    case (Cons d ds)
    have "READING \<noteq> FREE_STACKS" by simp
    moreover have "d \<in> set (contents (qs k) READING)" using Cons by simp
    ultimately obtain p where "d = PCB p" using sane_members [OF sane] by metis
    with wp_receive_waiting [OF run, of p ds data] Cons ret show ?thesis by (simp add: wp_iff)
  qed
qed

lemma keeps_sio_isr: "keeps (running c) (sio_isr es)"
proof (induction es)
  case (Cons e es)
  then show ?case
    by (cases e) (simp_all add: keeps_bind keeps_steps keeps_devices keeps_receive)
qed (simp add: keeps_steps)

subsection \<open>Steps\<close>

text \<open>
  Between two interrupts the running process changes memory and its saved context moves with its
  stack pointer; the devices may have new input. The kernel's own variables lie outside the modelled memory:
  that user code does not write them is an assumption of the model.
\<close>

inductive kstep :: "kernel \<Rightarrow> kernel \<Rightarrow> bool" where
  syscall: "sys_isr k = Inr ((), k') \<Longrightarrow> kstep k k'"
| fault: "page_fault_isr k = Inr ((), k') \<Longrightarrow> kstep k k'"
| tick: "clk_isr k = Inr ((), k') \<Longrightarrow> kstep k k'"
| serial: "sio_isr events k = Inr ((), k') \<Longrightarrow> kstep k k'"
| keyboard: "in_console c_keyboard_isr k = Inr ((), k') \<Longrightarrow> kstep k k'"
| user: "current k = Some c \<Longrightarrow>
    kstep k (upd_mem (\<lambda>_. m) (upd_pcb c (\<lambda>p. p\<lparr>context_ptr := ctx\<rparr>) (k\<lparr>cio := (cio k)\<lparr>kbd := codes\<rparr>\<rparr>)))"

inductive_cases kstepE: "kstep k k'"

lemma kstep_keeps_ok:
  assumes ok: "kernel_ok k" and step: "kstep k k'"
  shows "kernel_ok k'"
proof -
  obtain c where c: "running c k" using ok by (auto simp: running_def kernel_ok_def)
  have dev: "kernel_ok k2" if "keeps (running c) m" "m k = Inr (x, k2)" for m :: "(kernel, unit) kern" and x k2
    using that c unfolding keeps_def running_def by blast
  from step show ?thesis
  proof cases
    case syscall
    then show ?thesis by (rule sys_isr_returns [OF ok])
  next
    case fault
    then show ?thesis by (rule outcome_returns [OF outcome_page_fault [OF ok]])
  next
    case tick
    then show ?thesis using wp_clk_isr_ok [OF ok] by (simp add: wp_iff)
  next
    case (serial es)
    then show ?thesis by (rule dev [OF keeps_sio_isr])
  next
    case keyboard
    then show ?thesis by (rule dev [OF keeps_devices(3)])
  next
    case (user c' m ctx codes)
    then have "c' = c" using c by (simp add: running_def)
    then have "running c k'" unfolding user(1) running_mem using c by (simp add: keeps_upd)
    then show ?thesis by (simp add: running_def)
  qed
qed

end
