(* ===== verification/Kern_Paging.thy ===== *)
theory Kern_Paging
  imports Kern_Memory
begin

unbundle bit_operations_syntax

text \<open>
  Page tables: what the directories built by \<^verbatim>\<open>kern/memory/memory_map.c\<close> translate addresses to. A
  directory is a page of 1024 entries, each the page of a table of 1024 entries; the translation of
  an address depends on its page only.
\<close>

subsection \<open>Entries of a page\<close>

definition entry :: "memory \<Rightarrow> nat \<Rightarrow> 32 word \<Rightarrow> 32 word" where
  "entry m q i = load32 m (page_address q + 4 * i)"

lemma unat_page_address: "p < N_PAGES \<Longrightarrow> unat (page_address p) = p * 4096"
  by (simp add: page_address_def push_bit_eq_mult unat_word_ariths unat_of_nat N_PAGES_def)

lemma unat_slot:
  assumes "p < N_PAGES" "i < 1024" "c < 4"
  shows "unat (page_address p + 4 * i + of_nat c) = p * 4096 + (4 * unat i + c)"
proof -
  have i: "unat i < 1024" using assms(2) by (simp add: word_less_nat_alt)
  then have 4: "unat (4 * i) = 4 * unat i" by (simp add: unat_word_ariths)
  have "p * 4096 + (4 * unat i + c) < 2 ^ 32" using i assms(1,3) by (simp add: N_PAGES_def)
  then show ?thesis
    using assms(1) by (simp add: unat_word_ariths unat_page_address 4 unat_of_nat add.assoc)
qed

lemma ex_less_4: "(\<exists>c < 4. P c) \<longleftrightarrow> P 0 \<or> P 1 \<or> P 2 \<or> P (3 :: nat)"
  by (auto simp: numeral_eq_Suc less_Suc_eq)

lemma slot_bytes:
  assumes "p < N_PAGES" "i < 1024"
  shows "x \<in> bytes4 (page_address p + 4 * i) \<longleftrightarrow> page_of x = p \<and> unat x mod 4096 div 4 = unat i"
proof -
  have i: "unat i < 1024" using assms(2) by (simp add: word_less_nat_alt)
  have "x \<in> bytes4 (page_address p + 4 * i) \<longleftrightarrow> (\<exists>c < 4. x = page_address p + 4 * i + of_nat c)"
    by (simp add: bytes4_def ex_less_4)
  also have "\<dots> \<longleftrightarrow> (\<exists>c < 4. unat x = p * 4096 + (4 * unat i + c))"
    using unat_slot [OF assms] by (metis word_unat_eq_iff)
  also have "\<dots> \<longleftrightarrow> unat x div 4096 = p \<and> unat x mod 4096 div 4 = unat i" (is "?L \<longleftrightarrow> ?R")
  proof
    assume ?L
    then obtain c where c: "c < 4" "unat x = p * 4096 + (4 * unat i + c)" by blast
    have "4 * unat i + c < 4096" using c(1) i by linarith
    then have "unat x div 4096 = p" "unat x mod 4096 = 4 * unat i + c" unfolding c(2) by simp_all
    moreover have "(4 * unat i + c) div 4 = unat i" using c(1) by simp
    ultimately show ?R by simp
  next
    assume R: ?R
    have "unat x = p * 4096 + unat x mod 4096" using R div_mult_mod_eq [of "unat x" 4096] by simp
    moreover have "unat x mod 4096 = 4 * unat i + unat x mod 4096 mod 4"
      using R mult_div_mod_eq [of 4 "unat x mod 4096"] by simp
    moreover have "unat x mod 4096 mod 4 < 4" by simp
    ultimately show ?L by metis
  qed
  finally show ?thesis by (simp add: page_of_div)
qed

lemma entry_cong: "p < N_PAGES \<Longrightarrow> i < 1024 \<Longrightarrow> (\<And>x. x \<in> page p \<Longrightarrow> m x = m' x) \<Longrightarrow> entry m p i = entry m' p i"
  unfolding entry_def by (rule load32_cong) (simp add: slot_bytes page_def)

lemma entry_zero: "p < N_PAGES \<Longrightarrow> i < 1024 \<Longrightarrow> (\<And>x. x \<in> page p \<Longrightarrow> m x = 0) \<Longrightarrow> entry m p i = 0"
  using entry_cong [of p i m "\<lambda>_. 0"] by (simp add: entry_def load32_def)

lemma entry_store:
  assumes "p < N_PAGES" "i < 1024" "q < N_PAGES" "j < 1024"
  shows "entry (store32 (page_address q + 4 * j) v m) p i = (if p = q \<and> i = j then v else entry m p i)"
proof (cases "p = q \<and> i = j")
  case False
  then have "bytes4 (page_address p + 4 * i) \<inter> bytes4 (page_address q + 4 * j) = {}"
    using slot_bytes [OF assms(1,2)] slot_bytes [OF assms(3,4)] by (auto simp: word_unat_eq_iff)
  then show ?thesis using False load32_store32_other unfolding entry_def by auto
qed (simp add: entry_def)

lemma store_other_page: "q < N_PAGES \<Longrightarrow> j < 1024 \<Longrightarrow> x \<notin> page q \<Longrightarrow> store32 (page_address q + 4 * j) v m x = m x"
  by (rule store32_other) (simp add: slot_bytes page_def)

subsection \<open>Parts of an address\<close>

lemma KB_mask: "x AND KB_MASK = take_bit 10 x" "ALIGN_MASK = mask 12"
  by (simp_all add: KB_MASK_def ALIGN_MASK_def take_bit_eq_mask mask_eq_exp_minus_1)

lemma index_page: "unat (pde_index v) = page_of v div 1024" "unat (pte_index v) = page_of v mod 1024"
proof -
  have "unat (pde_index v) = unat v div 2 ^ 22 mod 2 ^ 10"
    unfolding pde_index_def KB_mask unsigned_take_bit_eq unat_drop_bit_eq by (simp only: drop_bit_eq_div take_bit_eq_mod)
  also have "\<dots> = unat v div 2 ^ 22" using unsigned_less [of v] by (intro mod_less less_mult_imp_div_less) simp
  finally show "unat (pde_index v) = page_of v div 1024" by (simp add: page_of_div div_mult2_eq [symmetric])
  show "unat (pte_index v) = page_of v mod 1024"
    unfolding pte_index_def KB_mask unsigned_take_bit_eq page_of_def by (simp add: take_bit_eq_mod)
qed

lemma index_less: "pde_index v < 1024" "pte_index v < 1024"
  using page_of_less [of v] unfolding word_less_nat_alt index_page by (simp_all add: N_PAGES_def)

lemma same_page: "page_of v = page_of w \<longleftrightarrow> pde_index v = pde_index w \<and> pte_index v = pte_index w"
  unfolding word_unat_eq_iff index_page by (metis div_mult_mod_eq)

lemma align_down: "a AND NOT ALIGN_MASK = page_address (page_of a)"
proof -
  have "a AND NOT (mask 12) = push_bit 12 (drop_bit 12 a)"
    by (rule bit_word_eqI) (auto simp: bit_simps)
  moreover have "of_nat (unat (drop_bit 12 a)) = drop_bit 12 a" by simp
  ultimately show ?thesis by (simp add: KB_mask page_address_def page_of_def)
qed

lemma page_address_0: "p < N_PAGES \<Longrightarrow> page_address p = 0 \<longleftrightarrow> p = 0"
  using unat_page_address [of p] by (metis mult_is_0 unat_0 unat_eq_zero zero_neq_numeral)

lemma page_address_zero [simp]: "page_address 0 = 0" "page_of 0 = 0"
  by (simp_all add: page_address_def page_of_def)

lemma page_flags: "p < N_PAGES \<Longrightarrow> page_of (page_address p OR PAGE_FLAGS) = p"
proof -
  assume p: "p < N_PAGES"
  have "drop_bit 12 (page_address p OR PAGE_FLAGS) = drop_bit 12 (page_address p)"
    by (rule bit_word_eqI) (auto simp: bit_simps PAGE_FLAGS_def bit_numeral_rec page_address_def)
  then show ?thesis using page_of_page_address [OF p] by (simp add: page_of_def)
qed

subsection \<open>Address spaces\<close>

text \<open>The page of the table for entry \<^verbatim>\<open>i\<close> of a directory, and the page an address is translated to; 0 is none.\<close>

definition table :: "nat \<Rightarrow> mmodule \<Rightarrow> 32 word \<Rightarrow> nat" where
  "table s m i = page_of (entry (mem m) s i)"

definition translate :: "nat \<Rightarrow> mmodule \<Rightarrow> 32 word \<Rightarrow> nat" where
  "translate s m v = (let t = table s m (pde_index v) in if t = 0 then 0 else page_of (entry (mem m) t (pte_index v)))"

definition tables :: "nat \<Rightarrow> mmodule \<Rightarrow> nat set" where
  "tables s m = {t. t \<noteq> 0 \<and> (\<exists>i < 1024. table s m i = t)}"

lemma get_phys_translate: "s < N_PAGES \<Longrightarrow> get_phys_address (page_address s) v m = page_address (translate s m v)"
  by (simp add: get_phys_address_def Let_def align_down pde_slot_def entry_def [symmetric] page_address_0 page_of_less
      translate_def table_def)

text \<open>
  A directory whose tables are pages in use, different from each other and from the directory; page
  0 is never free, since a null entry stands for no table.
\<close>

definition dir_ok :: "nat \<Rightarrow> mmodule \<Rightarrow> bool" where
  "dir_ok s m \<longleftrightarrow> s < N_PAGES \<and> used m s \<and> used m 0 \<and> last_availible m < pat_size \<and>
     (\<forall>t \<in> tables s m. used m t \<and> t \<noteq> s) \<and>
     (\<forall>i j. i < 1024 \<and> j < 1024 \<and> table s m i = table s m j \<and> table s m i \<noteq> 0 \<longrightarrow> i = j)"

lemma dir_okD:
  assumes "dir_ok s m"
  shows "s < N_PAGES" "used m s" "used m 0" "last_availible m < pat_size" "\<And>t. t \<in> tables s m \<Longrightarrow> used m t \<and> t \<noteq> s"
    "\<And>i j. i < 1024 \<Longrightarrow> j < 1024 \<Longrightarrow> table s m i = table s m j \<Longrightarrow> table s m i \<noteq> 0 \<Longrightarrow> i = j"
  using assms by (auto simp: dir_ok_def)

lemma table_less: "table s m i < N_PAGES"
  by (simp add: table_def page_of_less)

lemma table_mem: "i < 1024 \<Longrightarrow> table s m i \<noteq> 0 \<Longrightarrow> table s m i \<in> tables s m"
  by (auto simp: tables_def)

text \<open>
  The tables an address space has for itself: the one for the first 4 MiB is the kernel's. What a
  change to one address space leaves alone: every other page that was in use.
\<close>

definition own :: "nat \<Rightarrow> mmodule \<Rightarrow> nat set" where
  "own s m = {t. t \<noteq> 0 \<and> (\<exists>i < 1024. i \<noteq> 0 \<and> table s m i = t)}"

lemma own_mem: "i < 1024 \<Longrightarrow> i \<noteq> 0 \<Longrightarrow> table s m i \<noteq> 0 \<Longrightarrow> table s m i \<in> own s m"
  by (auto simp: own_def)

lemma own_tables: "own s m \<subseteq> tables s m"
  by (auto simp: own_def tables_def)

definition untouched :: "nat \<Rightarrow> mmodule \<Rightarrow> mmodule \<Rightarrow> bool" where
  "untouched s m m' \<longleftrightarrow> page_directory m' = page_directory m \<and> page_table m' = page_table m \<and>
     (\<forall>q. used m q \<longrightarrow> used m' q) \<and>
     (\<forall>q. used m q \<and> q \<noteq> s \<and> q \<notin> own s m \<longrightarrow> q \<notin> own s m' \<and> (\<forall>x \<in> page q. mem m' x = mem m x))"

lemma untouched_refl: "untouched s m m"
  by (simp add: untouched_def)

lemma untouched_trans: "untouched s m m1 \<Longrightarrow> untouched s m1 m2 \<Longrightarrow> untouched s m m2"
  unfolding untouched_def by auto

definition free_pages :: "mmodule \<Rightarrow> nat" where
  "free_pages m = card {p. p < N_PAGES \<and> \<not> used m p}"

lemma paging_frame [simp]:
  "table s (m\<lparr>page_table := x\<rparr>) = table s m" "table s (m\<lparr>page_directory := x\<rparr>) = table s m" "table s (m\<lparr>last_pde := x\<rparr>) = table s m"
  "tables s (m\<lparr>page_table := x\<rparr>) = tables s m" "tables s (m\<lparr>page_directory := x\<rparr>) = tables s m" "tables s (m\<lparr>last_pde := x\<rparr>) = tables s m"
  "translate s (m\<lparr>page_table := x\<rparr>) = translate s m" "translate s (m\<lparr>page_directory := x\<rparr>) = translate s m" "translate s (m\<lparr>last_pde := x\<rparr>) = translate s m"
  "used (m\<lparr>page_table := x\<rparr>) = used m" "used (m\<lparr>page_directory := x\<rparr>) = used m" "used (m\<lparr>last_pde := x\<rparr>) = used m"
  "free_pages (m\<lparr>page_table := x\<rparr>) = free_pages m" "free_pages (m\<lparr>page_directory := x\<rparr>) = free_pages m" "free_pages (m\<lparr>last_pde := x\<rparr>) = free_pages m"
  "dir_ok s (m\<lparr>page_table := x\<rparr>) = dir_ok s m" "dir_ok s (m\<lparr>page_directory := x\<rparr>) = dir_ok s m" "dir_ok s (m\<lparr>last_pde := x\<rparr>) = dir_ok s m"
proof -
  note same = table_def tables_def translate_def Let_def used_def free_pages_def fun_eq_iff
  show t: "table s (m\<lparr>page_table := x\<rparr>) = table s m" "table s (m\<lparr>page_directory := x\<rparr>) = table s m" "table s (m\<lparr>last_pde := x\<rparr>) = table s m"
    and ts: "tables s (m\<lparr>page_table := x\<rparr>) = tables s m" "tables s (m\<lparr>page_directory := x\<rparr>) = tables s m" "tables s (m\<lparr>last_pde := x\<rparr>) = tables s m"
    and u: "used (m\<lparr>page_table := x\<rparr>) = used m" "used (m\<lparr>page_directory := x\<rparr>) = used m" "used (m\<lparr>last_pde := x\<rparr>) = used m"
    by (simp_all add: same)
  show "translate s (m\<lparr>page_table := x\<rparr>) = translate s m" "translate s (m\<lparr>page_directory := x\<rparr>) = translate s m" "translate s (m\<lparr>last_pde := x\<rparr>) = translate s m"
    "free_pages (m\<lparr>page_table := x\<rparr>) = free_pages m" "free_pages (m\<lparr>page_directory := x\<rparr>) = free_pages m" "free_pages (m\<lparr>last_pde := x\<rparr>) = free_pages m"
    by (simp_all add: same)
  show "dir_ok s (m\<lparr>page_table := x\<rparr>) = dir_ok s m" "dir_ok s (m\<lparr>page_directory := x\<rparr>) = dir_ok s m" "dir_ok s (m\<lparr>last_pde := x\<rparr>) = dir_ok s m"
    by (simp_all add: dir_ok_def t ts u)
qed

lemma free_pages_take:
  assumes "p < N_PAGES" "\<not> used m p" "used m' = (used m)(p := True)"
  shows "free_pages m = Suc (free_pages m')"
proof -
  have "{q. q < N_PAGES \<and> \<not> used m q} = insert p {q. q < N_PAGES \<and> \<not> used m' q}" using assms by auto
  moreover have "p \<notin> {q. q < N_PAGES \<and> \<not> used m' q}" using assms(3) by simp
  ultimately show ?thesis by (simp add: free_pages_def)
qed

lemma free_page_exists: "0 < free_pages m \<Longrightarrow> \<exists>p < N_PAGES. \<not> used m p"
  unfolding free_pages_def by (metis (mono_tags, lifting) card_gt_0_iff Collect_empty_eq)

lemma wp_get_next_page:
  assumes "last_availible m < pat_size" "0 < free_pages m"
    and "\<And>p m'. p < N_PAGES \<Longrightarrow> \<not> used m p \<Longrightarrow> used m' = (used m)(p := True) \<Longrightarrow>
      mem m' = (\<lambda>x. if x \<in> page p then 0 else mem m x) \<Longrightarrow> last_availible m' < pat_size \<Longrightarrow>
      page_directory m' = page_directory m \<Longrightarrow> page_table m' = page_table m \<Longrightarrow> free_pages m = Suc (free_pages m') \<Longrightarrow>
      Q (page_address p) m'"
  shows "wp get_next_page Q m"
proof -
  have "\<not> (\<forall>p < N_PAGES. used m p)" using free_page_exists [OF assms(2)] by blast
  then obtain p m' where p: "p < N_PAGES" "\<not> used m p" "get_next_page m = Inr (page_address p, m')"
      "used m' = (used m)(p := True)" "mem m' = (\<lambda>x. if x \<in> page p then 0 else mem m x)"
      "last_availible m' < pat_size" "page_directory m' = page_directory m" "page_table m' = page_table m"
    using get_next_page_spec [OF assms(1)] by (simp only: if_False) blast
  then show ?thesis using assms(3) [OF p(1,2,4-8) free_pages_take [OF p(1,2,4)]] by (simp add: wp_def)
qed

text \<open>A new page changes no address space.\<close>

lemma page_other: "x \<in> page q \<Longrightarrow> x \<in> page p \<longleftrightarrow> p = q"
  by (auto simp: page_def)

lemma table_frame:
  assumes "s < N_PAGES" "\<And>x. x \<in> page s \<Longrightarrow> mem m' x = mem m x"
  shows "i < 1024 \<Longrightarrow> table s m' i = table s m i" "tables s m' = tables s m" "own s m' = own s m"
proof -
  show same: "i < 1024 \<Longrightarrow> table s m' i = table s m i" for i
    unfolding table_def using entry_cong [OF assms(1), of i "mem m'" "mem m"] assms(2) by simp
  then show "tables s m' = tables s m" "own s m' = own s m" by (auto simp: tables_def own_def)
qed

lemma translate_frame:
  assumes "s < N_PAGES" "\<And>x q. q = s \<or> q \<in> tables s m \<Longrightarrow> x \<in> page q \<Longrightarrow> mem m' x = mem m x"
  shows "translate s m' v = translate s m v"
proof -
  have t: "table s m' (pde_index v) = table s m (pde_index v)"
    by (rule table_frame(1) [OF assms(1) _ index_less(1)]) (simp add: assms(2) [of s])
  show ?thesis
  proof (cases "table s m (pde_index v) = 0")
    case False
    then have "entry (mem m') (table s m (pde_index v)) (pte_index v) = entry (mem m) (table s m (pde_index v)) (pte_index v)"
      by (intro entry_cong table_less index_less assms(2) disjI2) (simp_all add: table_mem index_less)
    then show ?thesis by (simp add: translate_def t Let_def)
  qed (simp add: translate_def t)
qed

lemma fresh_page_dir:
  assumes ok: "dir_ok s m" and p: "\<not> used m p" and m': "used m' = (used m)(p := True)"
      "mem m' = (\<lambda>x. if x \<in> page p then 0 else mem m x)" "last_availible m' < pat_size"
      "page_directory m' = page_directory m" "page_table m' = page_table m"
  shows "p \<noteq> s" "p \<notin> tables s m" "p \<noteq> 0" "tables s m' = tables s m" "dir_ok s m'" "translate s m' = translate s m" "untouched s m m'"
    "\<And>i. i < 1024 \<Longrightarrow> table s m' i = table s m i"
proof -
  note d = dir_okD [OF ok]
  show ne: "p \<noteq> s" "p \<notin> tables s m" "p \<noteq> 0" using p d(2,3) d(5) [of p] by (metis, blast, metis)
  have mem: "mem m' x = mem m x" if "x \<in> page q" "q \<noteq> p" for x q using that m'(2) page_other by auto
  have pg: "mem m' x = mem m x" if "x \<in> page s" for x using mem [OF that] ne(1) by simp
  show t: "tables s m' = tables s m" by (rule table_frame(2) [OF d(1) pg])
  show tab: "\<And>i. i < 1024 \<Longrightarrow> table s m' i = table s m i" by (rule table_frame(1) [OF d(1) pg])
  show "dir_ok s m'" using d m'(3) tab unfolding dir_ok_def t m'(1) by auto
  show "translate s m' = translate s m"
    by (rule ext, rule translate_frame [OF d(1)]) (use mem ne in blast)
  have "own s m' = own s m" by (rule table_frame(3) [OF d(1) pg])
  then show "untouched s m m'"
    unfolding untouched_def using mem p m'(1,4,5) by auto
qed

subsection \<open>Mapping a page\<close>

text \<open>The table of an address is found, or a new one, all zero, is entered into the directory.\<close>

lemma new_table_dir:
  assumes ok: "dir_ok s m" and i: "i < 1024" "table s m i = 0"
    and t: "t < N_PAGES" "t \<noteq> s" "t \<notin> tables s m" "t \<noteq> 0" "used m t" "\<And>x. x \<in> page t \<Longrightarrow> mem m x = 0"
    and m': "m' = write32 (page_address s + 4 * i) (page_address t OR PAGE_FLAGS) m"
  shows "dir_ok s m'" "translate s m' = translate s m" "\<And>j. j < 1024 \<Longrightarrow> table s m' j = (if j = i then t else table s m j)"
    "tables s m' = insert t (tables s m)" "\<And>x. x \<notin> page s \<Longrightarrow> mem m' x = mem m x" "own s m' \<subseteq> insert t (own s m)"
proof -
  note d = dir_okD [OF ok]
  have used: "used m' = used m" "last_availible m' = last_availible m" by (simp_all add: m' write32_def used_def fun_eq_iff)
  have mm: "mem m' = store32 (page_address s + 4 * i) (page_address t OR PAGE_FLAGS) (mem m)" by (simp add: m' write32_def)
  show tab: "table s m' j = (if j = i then t else table s m j)" if "j < 1024" for j
    unfolding table_def mm entry_store [OF d(1) that d(1) i(1)] using page_flags [OF t(1)] by simp
  show tabs: "tables s m' = insert t (tables s m)"
  proof (intro set_eqI iffI)
    fix q assume "q \<in> tables s m'"
    then show "q \<in> insert t (tables s m)" unfolding tables_def using tab by (auto split: if_splits)
  next
    fix q assume "q \<in> insert t (tables s m)"
    then consider "q = t" | j where "j < 1024" "table s m j = q" "q \<noteq> 0" by (auto simp: tables_def)
    then show "q \<in> tables s m'"
    proof cases
      case 1
      then show ?thesis using tab [OF i(1)] i(1) t(4) by (auto simp: tables_def)
    next
      case 2
      then have "table s m' j = q" using tab i(2) by auto
      with 2 show ?thesis by (auto simp: tables_def)
    qed
  qed
  show "own s m' \<subseteq> insert t (own s m)"
    unfolding own_def using tab by (auto split: if_splits)
  show mem: "mem m' x = mem m x" if "x \<notin> page s" for x unfolding mm by (rule store_other_page [OF d(1) i(1) that])
  have inj: "j = k" if "j < 1024" "k < 1024" "table s m' j = table s m' k" "table s m' j \<noteq> 0" for j k
    using that d(6) [of j k] t(3) table_mem [of j s m] table_mem [of k s m] t(4) by (auto simp: tab split: if_splits)
  then show "dir_ok s m'"
    unfolding dir_ok_def tabs used using d(1-5) t(2,5) by auto
  show "translate s m' = translate s m"
  proof
    fix v
    let ?d = "pde_index v"
    have same: "entry (mem m') q (pte_index v) = entry (mem m) q (pte_index v)" if "q \<noteq> s" "q < N_PAGES" for q
      by (rule entry_cong [OF that(2) index_less(2)], rule mem) (use that(1) in \<open>auto simp: page_def\<close>)
    have z: "entry (mem m) t (pte_index v) = 0" by (rule entry_zero [OF t(1) index_less(2) t(6)])
    have "table s m ?d \<noteq> s" if "table s m ?d \<noteq> 0" using d(5) table_mem [OF index_less(1) that] by blast
    then show "translate s m' v = translate s m v"
      using same [OF t(2,1)] same [OF _ table_less, of s m ?d] z i(2)
      by (auto simp: translate_def Let_def tab index_less page_of_def)
  qed
qed

lemma wp_d_entry:
  assumes ok: "dir_ok s m" and free: "0 < free_pages m"
    and Q: "\<And>t m'. t \<noteq> 0 \<Longrightarrow> dir_ok s m' \<Longrightarrow> table s m' (pde_index v) = t \<Longrightarrow> translate s m' = translate s m \<Longrightarrow>
      untouched s m m' \<Longrightarrow> free_pages m \<le> Suc (free_pages m') \<Longrightarrow> Q (page_address t) m'"
  shows "wp (d_entry (page_address s) v) Q m"
proof -
  note d = dir_okD [OF ok]
  let ?i = "pde_index v"
  have e: "load32 (mem m) (pde_slot (page_address s) v) AND NOT ALIGN_MASK = page_address (table s m ?i)"
    by (simp add: align_down pde_slot_def table_def entry_def)
  show ?thesis
  proof (cases "table s m ?i = 0")
    case False
    then have "Q (page_address (table s m ?i)) m" using ok untouched_refl by (intro Q) simp_all
    with False show ?thesis by (simp add: d_entry_def kern_simps e page_address_0 [OF table_less])
  next
    case True
    have "wp get_next_page (\<lambda>x m1. Q x (write32 (page_address s + 4 * ?i) (x OR PAGE_FLAGS) m1)) m"
    proof (rule wp_get_next_page [OF d(4) free])
      fix t m1
      assume t: "t < N_PAGES" "\<not> used m t" "used m1 = (used m)(t := True)" "mem m1 = (\<lambda>x. if x \<in> page t then 0 else mem m x)"
        "last_availible m1 < pat_size" "page_directory m1 = page_directory m" "page_table m1 = page_table m" "free_pages m = Suc (free_pages m1)"
      note f = fresh_page_dir [OF ok t(2-7)]
      define m2 where "m2 = write32 (page_address s + 4 * ?i) (page_address t OR PAGE_FLAGS) m1"
      have n: "dir_ok s m2" "translate s m2 = translate s m1" "\<And>j. j < 1024 \<Longrightarrow> table s m2 j = (if j = ?i then t else table s m1 j)"
        "tables s m2 = insert t (tables s m1)" "\<And>x. x \<notin> page s \<Longrightarrow> mem m2 x = mem m1 x" "own s m2 \<subseteq> insert t (own s m1)"
        by (rule new_table_dir [OF f(5) index_less(1) _ t(1) f(1) _ f(3) _ _ m2_def];
            use True f(2,4) t(3,4) in \<open>simp_all add: f(8) index_less\<close>)+
      have "used m2 = used m1" "page_directory m2 = page_directory m1" "page_table m2 = page_table m1" "free_pages m2 = free_pages m1"
        by (simp_all add: m2_def write32_def used_def fun_eq_iff free_pages_def)
      moreover have "untouched s m m2"
      proof -
        have "used m2 q \<and> (q \<noteq> s \<and> q \<notin> own s m \<longrightarrow> q \<notin> own s m2 \<and> (\<forall>x \<in> page q. mem m2 x = mem m x))" if q: "used m q" for q
        proof -
          have "q \<notin> own s m2" if "q \<noteq> s" "q \<notin> own s m" using n(6) f(7) q t(2) that by (auto simp: untouched_def)
          moreover have "mem m2 x = mem m x" if "q \<noteq> s" "x \<in> page q" for x
            using that n(5) [of x] page_other [OF that(2)] t(2,4) q by auto
          ultimately show ?thesis using q t(3) \<open>used m2 = used m1\<close> by auto
        qed
        then show ?thesis using t(6,7) calculation(2,3) unfolding untouched_def by auto
      qed
      ultimately show "Q (page_address t) m2"
        using n f(3,6) t(8) by (intro Q) (simp_all add: index_less)
    qed
    with True show ?thesis
      by (simp add: d_entry_def kern_simps e page_address_0 [OF table_less] new_page_table_def) (simp add: pde_slot_def)
  qed
qed

text \<open>Writing an entry of a table changes the translation of that page alone.\<close>

lemma set_entry_dir:
  assumes ok: "dir_ok s m" and t: "table s m (pde_index v) = t" "t \<noteq> 0" and q: "q < N_PAGES"
    and m': "m' = write32 (page_address t + 4 * pte_index v) (page_address q OR PAGE_FLAGS) m"
  shows "dir_ok s m'" "translate s m' w = (if page_of w = page_of v then q else translate s m w)" "pde_index v \<noteq> 0 \<Longrightarrow> untouched s m m'" "tables s m' = tables s m"
    "used m' = used m" "\<And>x. x \<notin> page t \<Longrightarrow> mem m' x = mem m x"
proof -
  note d = dir_okD [OF ok]
  have tm: "t \<in> tables s m" "t < N_PAGES" using t table_mem [OF index_less(1)] table_less by metis+
  then have ts: "t \<noteq> s" using d(5) by blast
  have mm: "mem m' = store32 (page_address t + 4 * pte_index v) (page_address q OR PAGE_FLAGS) (mem m)" by (simp add: m' write32_def)
  show used: "used m' = used m" by (simp add: m' write32_def used_def fun_eq_iff)
  have oth: "last_availible m' = last_availible m" "page_directory m' = page_directory m" "page_table m' = page_table m"
    by (simp_all add: m' write32_def)
  show mem: "mem m' x = mem m x" if "x \<notin> page t" for x unfolding mm by (rule store_other_page [OF tm(2) index_less(2) that])
  have pg: "mem m' x = mem m x" if "x \<in> page s" for x using that ts by (intro mem) (auto simp: page_def)
  have tab1: "table s m' i = table s m i" if "i < 1024" for i by (rule table_frame(1) [OF d(1) pg that])
  show tab2: "tables s m' = tables s m" by (rule table_frame(2) [OF d(1) pg])
  show "dir_ok s m'"
    unfolding dir_ok_def tab2 used oth using d(1-5) d(6) tab1 by (metis (no_types))
  have own: "own s m' = own s m" by (rule table_frame(3) [OF d(1) pg])
  show "untouched s m m'" if "pde_index v \<noteq> 0"
    unfolding untouched_def own used oth
  proof (intro conjI allI impI ballI)
    fix q' x assume q': "used m q' \<and> q' \<noteq> s \<and> q' \<notin> own s m" "x \<in> page q'"
    then have "x \<notin> page t" using page_other [of x q' t] own_mem [OF index_less(1) that, of s m] t by auto
    then show "mem m' x = mem m x" by (rule mem)
  qed simp_all
  have e: "entry (mem m') u (pte_index w) = (if u = t \<and> pte_index w = pte_index v then page_address q OR PAGE_FLAGS else entry (mem m) u (pte_index w))"
    if "u < N_PAGES" for u
    unfolding mm by (rule entry_store [OF that index_less(2) tm(2) index_less(2)])
  have same: "table s m (pde_index w) = t \<longleftrightarrow> pde_index w = pde_index v" using d(6) [OF index_less(1) index_less(1), of w v] t by auto
  show "translate s m' w = (if page_of w = page_of v then q else translate s m w)"
  proof (cases "page_of w = page_of v")
    case True
    then have "table s m (pde_index w) = t" "pte_index w = pte_index v" using same by (simp_all add: same_page)
    then show ?thesis using True e [OF tm(2)] t(2) page_flags [OF q] tab1 [OF index_less(1), of w] by (simp add: translate_def)
  next
    case False
    then have "entry (mem m') (table s m (pde_index w)) (pte_index w) = entry (mem m) (table s m (pde_index w)) (pte_index w)"
      using e [OF table_less, of s m "pde_index w"] same by (auto simp: same_page)
    then show ?thesis using False tab1 [OF index_less(1), of w] by (simp add: translate_def Let_def)
  qed
qed

text \<open>One iteration of the loops of \<^verbatim>\<open>_k_mmap\<close>, for a given page and for a new one.\<close>

lemma wp_map_given:
  assumes ok: "dir_ok s m" and free: "0 < free_pages m" and q: "q < N_PAGES" and v: "pde_index v \<noteq> 0"
    and Q: "\<And>m'. dir_ok s m' \<Longrightarrow> translate s m' = (\<lambda>w. if page_of w = page_of v then q else translate s m w) \<Longrightarrow>
      untouched s m m' \<Longrightarrow> free_pages m \<le> Suc (free_pages m') \<Longrightarrow> Q () m'"
  shows "wp (map_page (page_address s) v (kreturn (page_address q))) Q m"
  unfolding map_page_def wp_bind
proof (rule wp_d_entry [OF ok free])
  fix t m1 assume m1: "t \<noteq> 0" "dir_ok s m1" "table s m1 (pde_index v) = t" "translate s m1 = translate s m"
    "untouched s m m1" "free_pages m \<le> Suc (free_pages m1)"
  let ?m2 = "write32 (page_address t + 4 * pte_index v) (page_address q OR PAGE_FLAGS) m1"
  note w = set_entry_dir [OF m1(2,3,1) q refl]
  have "free_pages ?m2 = free_pages m1" using w(5) by (simp add: free_pages_def)
  then have "Q () ?m2"
    using w m1 untouched_trans [OF m1(5) w(3) [OF v]] by (intro Q) (simp_all add: fun_eq_iff)
  then show "wp (kreturn (page_address q)) (\<lambda>x. wp (kmodify (write32 (page_address t + 4 * pte_index v) (x OR PAGE_FLAGS))) Q) m1"
    by (simp add: kern_simps)
qed

lemma wp_map_fresh:
  assumes ok: "dir_ok s m" and free: "1 < free_pages m" and v: "pde_index v \<noteq> 0"
    and Q: "\<And>q m'. q < N_PAGES \<Longrightarrow> \<not> used m q \<Longrightarrow> used m' q \<Longrightarrow> q \<noteq> s \<Longrightarrow> q \<notin> own s m' \<Longrightarrow> (\<forall>x \<in> page q. mem m' x = 0) \<Longrightarrow> dir_ok s m' \<Longrightarrow>
      translate s m' = (\<lambda>w. if page_of w = page_of v then q else translate s m w) \<Longrightarrow>
      untouched s m m' \<Longrightarrow> free_pages m \<le> Suc (Suc (free_pages m')) \<Longrightarrow> Q () m'"
  shows "wp (map_page (page_address s) v get_next_page) Q m"
  unfolding map_page_def wp_bind
proof (rule wp_d_entry [OF ok])
  fix t m1 assume m1: "t \<noteq> 0" "dir_ok s m1" "table s m1 (pde_index v) = t" "translate s m1 = translate s m"
    "untouched s m m1" "free_pages m \<le> Suc (free_pages m1)"
  have tm: "t \<in> tables s m1" using m1(1,3) table_mem [OF index_less(1)] by metis
  have "last_availible m1 < pat_size" "0 < free_pages m1" using dir_okD(4) [OF m1(2)] free m1(6) by simp_all
  then show "wp get_next_page (\<lambda>x. wp (kmodify (write32 (page_address t + 4 * pte_index v) (x OR PAGE_FLAGS))) Q) m1"
  proof (rule wp_get_next_page)
    fix q m2
    assume p: "q < N_PAGES" "\<not> used m1 q" "used m2 = (used m1)(q := True)" "mem m2 = (\<lambda>x. if x \<in> page q then 0 else mem m1 x)"
        "last_availible m2 < pat_size" "page_directory m2 = page_directory m1" "page_table m2 = page_table m1" "free_pages m1 = Suc (free_pages m2)"
    note f = fresh_page_dir [OF m1(2) p(2-7)]
    have t2: "table s m2 (pde_index v) = t" using m1(3) f(8) index_less(1) by metis
    let ?m3 = "write32 (page_address t + 4 * pte_index v) (page_address q OR PAGE_FLAGS) m2"
    note w = set_entry_dir [OF f(5) t2 m1(1) p(1) refl]
    have qt: "q \<noteq> t" using tm f(2) by blast
    have "q \<notin> own s ?m3" using w(4) f(2,4) own_tables [of s ?m3] by auto
    moreover
    have "free_pages ?m3 = free_pages m2" using w(5) by (simp add: free_pages_def)
    moreover have "mem ?m3 x = 0" if "x \<in> page q" for x
      using w(6) [of x] that qt p(4) page_other [OF that, of t] by auto
    moreover have "\<not> used m q" using m1(5) p(2) by (auto simp: untouched_def)
    ultimately have "Q () ?m3"
      using w m1(6) p(1,3,8) f(1,2,4,6) m1(4) untouched_trans [OF untouched_trans [OF m1(5) f(7)] w(3) [OF v]]
      by (intro Q [of q]) (simp_all add: fun_eq_iff)
    then show "wp (kmodify (write32 (page_address t + 4 * pte_index v) (page_address q OR PAGE_FLAGS))) Q m2"
      by (simp add: kern_simps)
  qed
qed (use free in simp)

subsection \<open>Mapping a range\<close>

lemma page_address_add: "page_address p + PAGE_SIZE = page_address (Suc p)"
  by (simp add: page_address_def PAGE_SIZE_def push_bit_eq_mult distrib_left)

lemma page_of_add: "vp < N_PAGES \<Longrightarrow> page_of (page_address vp) = vp"
  by (rule page_of_page_address)

text \<open>
  \<^verbatim>\<open>k\<close> pages from page \<^verbatim>\<open>pp\<close> on, mapped at page \<^verbatim>\<open>vp\<close> on: the loop runs while the physical address is
  below \<^verbatim>\<open>stop\<close>.
\<close>

lemma wp_mmap_at:
  assumes "dir_ok s m" "k \<le> free_pages m" "k < n" "vp + k \<le> N_PAGES" "pp + k < N_PAGES" "1024 \<le> vp"
    "\<And>j. j \<le> k \<Longrightarrow> page_address (pp + j) < stop \<longleftrightarrow> j < k"
  shows "wp (mmap_at n (page_address s) (page_address pp) (page_address vp) stop) (\<lambda>_ m'. dir_ok s m' \<and> untouched s m m' \<and>
     (\<forall>w. translate s m' w = (if vp \<le> page_of w \<and> page_of w < vp + k then pp + (page_of w - vp) else translate s m w))) m"
  using assms
proof (induction k arbitrary: m n pp vp)
  case 0
  then obtain n' where "n = Suc n'" by (cases n) auto
  moreover have "\<not> page_address pp < stop" using 0(7) [of 0] by simp
  ultimately show ?case using 0(1) untouched_refl by (simp add: kern_simps wp_def)
next
  case (Suc k)
  obtain n' where n: "n = Suc n'" using Suc.prems(3) by (cases n) auto
  have go: "page_address pp < stop" using Suc.prems(7) [of 0] by simp
  have vp: "page_of (page_address vp) = vp" using Suc.prems(4) by (intro page_of_page_address) simp
  have "vp div 1024 \<noteq> 0" using Suc.prems by (simp add: div_eq_0_iff)
  then have hi: "pde_index (page_address vp) \<noteq> 0" using index_page(1) [of "page_address vp"] vp by (metis unat_0)
  have "wp (map_page (page_address s) (page_address vp) (kreturn (page_address pp)))
      (\<lambda>_. wp (mmap_at n' (page_address s) (page_address (Suc pp)) (page_address (Suc vp)) stop) (\<lambda>_ m'. dir_ok s m' \<and> untouched s m m' \<and>
     (\<forall>w. translate s m' w = (if vp \<le> page_of w \<and> page_of w < vp + Suc k then pp + (page_of w - vp) else translate s m w)))) m"
  proof (rule wp_map_given [OF Suc.prems(1)])
    fix m1
    assume m1: "dir_ok s m1" "translate s m1 = (\<lambda>w. if page_of w = page_of (page_address vp) then pp else translate s m w)"
      "untouched s m m1" "free_pages m \<le> Suc (free_pages m1)"
    have "wp (mmap_at n' (page_address s) (page_address (Suc pp)) (page_address (Suc vp)) stop) (\<lambda>_ m'. dir_ok s m' \<and> untouched s m1 m' \<and>
     (\<forall>w. translate s m' w = (if Suc vp \<le> page_of w \<and> page_of w < Suc vp + k then Suc pp + (page_of w - Suc vp) else translate s m1 w))) m1"
      by (rule Suc.IH) (use Suc.prems n m1 in \<open>simp_all add: Suc.prems(7) [of "Suc _", simplified]\<close>)
    then show "wp (mmap_at n' (page_address s) (page_address (Suc pp)) (page_address (Suc vp)) stop) (\<lambda>_ m'. dir_ok s m' \<and> untouched s m m' \<and>
     (\<forall>w. translate s m' w = (if vp \<le> page_of w \<and> page_of w < vp + Suc k then pp + (page_of w - vp) else translate s m w))) m1"
    proof (rule wp_mono, intro conjI allI; (elim conjE)?)
      fix m' w assume "untouched s m1 m'"
      then show "untouched s m m'" by (rule untouched_trans [OF m1(3)])
    next
      fix m' w assume t: "\<forall>w. translate s m' w = (if Suc vp \<le> page_of w \<and> page_of w < Suc vp + k then Suc pp + (page_of w - Suc vp) else translate s m1 w)"
      show "translate s m' w = (if vp \<le> page_of w \<and> page_of w < vp + Suc k then pp + (page_of w - vp) else translate s m w)"
        using t [rule_format, of w] by (auto simp: m1(2) vp)
    qed
  qed (use Suc.prems hi in simp_all)
  then show ?case using go by (simp add: n kern_simps page_address_add)
qed

text \<open>The same for new pages, one for each page of the range, all zero.\<close>

lemma wp_mmap_free:
  assumes "dir_ok s m" "2 * k \<le> free_pages m" "k < n" "vp + k < N_PAGES" "1024 \<le> vp"
    "\<And>j. j \<le> k \<Longrightarrow> page_address (vp + j) < stop \<longleftrightarrow> j < k"
  shows "wp (mmap_free n (page_address s) (page_address vp) stop) (\<lambda>_ m'. dir_ok s m' \<and> untouched s m m' \<and>
     (\<exists>f. inj_on f {vp..<vp + k} \<and> (\<forall>q \<in> f ` {vp..<vp + k}. q < N_PAGES \<and> \<not> used m q \<and> used m' q \<and> q \<noteq> s \<and> q \<notin> own s m' \<and> (\<forall>x \<in> page q. mem m' x = 0)) \<and>
     (\<forall>w. translate s m' w = (if vp \<le> page_of w \<and> page_of w < vp + k then f (page_of w) else translate s m w)))) m"
  using assms
proof (induction k arbitrary: m n vp)
  case 0
  then obtain n' where "n = Suc n'" by (cases n) auto
  moreover have "\<not> page_address vp < stop" using 0(6) [of 0] by simp
  ultimately show ?case using 0(1) untouched_refl by (simp add: kern_simps wp_def)
next
  case (Suc k)
  obtain n' where n: "n = Suc n'" using Suc.prems(3) by (cases n) auto
  have go: "page_address vp < stop" using Suc.prems(6) [of 0] by simp
  have vp: "page_of (page_address vp) = vp" using Suc.prems(4) by (intro page_of_page_address) simp
  let ?Q = "\<lambda>_ m'. dir_ok s m' \<and> untouched s m m' \<and>
     (\<exists>f. inj_on f {vp..<vp + Suc k} \<and> (\<forall>q \<in> f ` {vp..<vp + Suc k}. q < N_PAGES \<and> \<not> used m q \<and> used m' q \<and> q \<noteq> s \<and> q \<notin> own s m' \<and> (\<forall>x \<in> page q. mem m' x = 0)) \<and>
     (\<forall>w. translate s m' w = (if vp \<le> page_of w \<and> page_of w < vp + Suc k then f (page_of w) else translate s m w)))"
  have "vp div 1024 \<noteq> 0" using Suc.prems by (simp add: div_eq_0_iff)
  then have hi: "pde_index (page_address vp) \<noteq> 0" using index_page(1) [of "page_address vp"] vp by (metis unat_0)
  have "wp (map_page (page_address s) (page_address vp) get_next_page)
      (\<lambda>_. wp (mmap_free n' (page_address s) (page_address (Suc vp)) stop) ?Q) m"
  proof (rule wp_map_fresh [OF Suc.prems(1)])
    fix q m1
    assume m1: "q < N_PAGES" "\<not> used m q" "used m1 q" "q \<noteq> s" "q \<notin> own s m1" "\<forall>x \<in> page q. mem m1 x = 0" "dir_ok s m1"
      "translate s m1 = (\<lambda>w. if page_of w = page_of (page_address vp) then q else translate s m w)"
      "untouched s m m1" "free_pages m \<le> Suc (Suc (free_pages m1))"
    have "wp (mmap_free n' (page_address s) (page_address (Suc vp)) stop) (\<lambda>_ m'. dir_ok s m' \<and> untouched s m1 m' \<and>
     (\<exists>f. inj_on f {Suc vp..<Suc vp + k} \<and> (\<forall>q \<in> f ` {Suc vp..<Suc vp + k}. q < N_PAGES \<and> \<not> used m1 q \<and> used m' q \<and> q \<noteq> s \<and> q \<notin> own s m' \<and> (\<forall>x \<in> page q. mem m' x = 0)) \<and>
     (\<forall>w. translate s m' w = (if Suc vp \<le> page_of w \<and> page_of w < Suc vp + k then f (page_of w) else translate s m1 w)))) m1"
      by (rule Suc.IH) (use Suc.prems n m1(7,10) in \<open>simp_all add: Suc.prems(6) [of "Suc _", simplified]\<close>)
    then show "wp (mmap_free n' (page_address s) (page_address (Suc vp)) stop) ?Q m1"
    proof (rule wp_mono, elim conjE exE)
      fix m' f assume a: "dir_ok s m'" "untouched s m1 m'" "inj_on f {Suc vp..<Suc vp + k}"
        "\<forall>q \<in> f ` {Suc vp..<Suc vp + k}. q < N_PAGES \<and> \<not> used m1 q \<and> used m' q \<and> q \<noteq> s \<and> q \<notin> own s m' \<and> (\<forall>x \<in> page q. mem m' x = 0)"
        "\<forall>w. translate s m' w = (if Suc vp \<le> page_of w \<and> page_of w < Suc vp + k then f (page_of w) else translate s m1 w)"
      let ?f = "f(vp := q)"
      have r: "{vp..<vp + Suc k} = insert vp {Suc vp..<Suc vp + k}" by auto
      have im: "?f ` {vp..<vp + Suc k} = insert q (f ` {Suc vp..<Suc vp + k})" unfolding r by auto
      have "inj_on ?f {vp..<vp + Suc k}"
        unfolding r inj_on_insert using a(3,4) m1(3) by (auto simp: inj_on_def)
      moreover have "q' < N_PAGES \<and> \<not> used m q' \<and> used m' q' \<and> q' \<noteq> s \<and> q' \<notin> own s m' \<and> (\<forall>x \<in> page q'. mem m' x = 0)"
        if q': "q' \<in> ?f ` {vp..<vp + Suc k}" for q'
      proof (cases "q' = q")
        case True
        then show ?thesis using a(2) m1(1-6) by (simp add: untouched_def)
      next
        case False
        then have "q' \<in> f ` {Suc vp..<Suc vp + k}" using q' unfolding im by blast
        then show ?thesis using a(4) m1(9) by (auto simp: untouched_def)
      qed
      moreover have "translate s m' w = (if vp \<le> page_of w \<and> page_of w < vp + Suc k then ?f (page_of w) else translate s m w)" for w
        using a(5) [rule_format, of w] by (auto simp: m1(8) vp)
      ultimately show "?Q () m'"
        using a(1) untouched_trans [OF m1(9) a(2)] by (intro conjI exI [of _ ?f]) simp_all
    qed
  qed (use Suc.prems hi in simp_all)
  then show ?case using go by (simp add: n kern_simps page_address_add)
qed

subsection \<open>The calls\<close>

definition pages_for :: "32 word \<Rightarrow> nat" where
  "pages_for len = (unat len + 4095) div 4096"

lemma pages_for_iff: "j < pages_for len \<longleftrightarrow> j * 4096 < unat len"
  by (simp add: pages_for_def less_eq_Suc_le [of j] less_eq_div_iff_mult_less_eq) arith

lemma below_stop:
  assumes "pp + pages_for len < N_PAGES" "j \<le> pages_for len"
  shows "page_address (pp + j) < page_address pp + len \<longleftrightarrow> j < pages_for len"
proof -
  have "unat len \<le> pages_for len * 4096" using pages_for_iff [of "pages_for len" len] by simp
  then have "pp * 4096 + unat len < 2 ^ 32" using assms(1) by (simp add: N_PAGES_def)
  then have "unat (page_address pp + len) = pp * 4096 + unat len"
    using assms(1) by (simp add: unat_word_ariths unat_page_address)
  moreover have "unat (page_address (pp + j)) = (pp + j) * 4096" using assms by (intro unat_page_address) simp
  ultimately show ?thesis unfolding pages_for_iff word_less_nat_alt by (simp add: add_mult_distrib)
qed

lemma aligned_page: "(page_address p OR page_address q) AND ALIGN_MASK = 0"
  by (rule bit_word_eqI) (auto simp: bit_simps page_address_def KB_mask)

lemma low_page: "p < N_PAGES \<Longrightarrow> page_address p < SECOND_PDE \<longleftrightarrow> p < 1024"
  by (simp add: word_less_nat_alt unat_page_address SECOND_PDE_def)

lemma k_mmap_given:
  assumes ok: "dir_ok s m" and s: "page_directory m \<noteq> page_address s" and v: "1024 \<le> vp" "vp + pages_for len \<le> N_PAGES" "vp < N_PAGES"
    and p: "0 < pp" "pp + pages_for len < N_PAGES" and free: "pages_for len \<le> free_pages m"
  shows "\<exists>m'. k_mmap (page_address s) (page_address vp) (page_address pp) len m = Inr ((page_address vp, E_SUCCESS), m') \<and>
    dir_ok s m' \<and> untouched s m m' \<and> (\<forall>w. translate s m' w =
      (if vp \<le> page_of w \<and> page_of w < vp + pages_for len then pp + (page_of w - vp) else translate s m w))"
proof -
  let ?stop = "page_address pp + len"
  have "pages_for len < mmap_bound" using p(2) by (simp add: mmap_bound_def N_PAGES_def)
  from wp_mmap_at [OF ok free this v(2) p(2) v(1) below_stop [OF p(2)]]
  obtain m' where m': "mmap_at mmap_bound (page_address s) (page_address pp) (page_address vp) ?stop m = Inr ((), m')"
    "dir_ok s m'" "untouched s m m'" "\<forall>w. translate s m' w =
      (if vp \<le> page_of w \<and> page_of w < vp + pages_for len then pp + (page_of w - vp) else translate s m w)"
    by (auto simp: wp_iff)
  have "page_address pp \<noteq> 0" using p page_address_0 [of pp] by simp
  then have "k_mmap (page_address s) (page_address vp) (page_address pp) len m = Inr ((page_address vp, E_SUCCESS), m')"
    using s v m'(1) by (simp add: k_mmap_def kern_simps aligned_page low_page eq_commute [of "page_address s"])
  with m' show ?thesis by blast
qed

lemma k_mmap_fresh:
  assumes ok: "dir_ok s m" and s: "page_directory m \<noteq> page_address s" and v: "1024 \<le> vp" "vp + pages_for len < N_PAGES"
    and free: "2 * pages_for len \<le> free_pages m"
  shows "\<exists>m' f. k_mmap (page_address s) (page_address vp) 0 len m = Inr ((page_address vp, E_SUCCESS), m') \<and>
    dir_ok s m' \<and> untouched s m m' \<and> inj_on f {vp..<vp + pages_for len} \<and>
    (\<forall>q \<in> f ` {vp..<vp + pages_for len}. q < N_PAGES \<and> \<not> used m q \<and> used m' q \<and> q \<noteq> s \<and> q \<notin> own s m' \<and> (\<forall>x \<in> page q. mem m' x = 0)) \<and>
    (\<forall>w. translate s m' w = (if vp \<le> page_of w \<and> page_of w < vp + pages_for len then f (page_of w) else translate s m w))"
proof -
  let ?stop = "page_address vp + len"
  have "pages_for len < mmap_bound" using v by (simp add: mmap_bound_def N_PAGES_def)
  from wp_mmap_free [OF ok free this v(2,1) below_stop [OF v(2)]]
  obtain m' f where m': "mmap_free mmap_bound (page_address s) (page_address vp) ?stop m = Inr ((), m')"
    "dir_ok s m'" "untouched s m m'" "inj_on f {vp..<vp + pages_for len}"
    "\<forall>q \<in> f ` {vp..<vp + pages_for len}. q < N_PAGES \<and> \<not> used m q \<and> used m' q \<and> q \<noteq> s \<and> q \<notin> own s m' \<and> (\<forall>x \<in> page q. mem m' x = 0)"
    "\<forall>w. translate s m' w = (if vp \<le> page_of w \<and> page_of w < vp + pages_for len then f (page_of w) else translate s m w)"
    unfolding wp_iff by auto
  have "k_mmap (page_address s) (page_address vp) 0 len m = Inr ((page_address vp, E_SUCCESS), m')"
    using s v m'(1) aligned_page [of vp 0] by (simp add: k_mmap_def kern_simps low_page eq_commute [of "page_address s"])
  with m' show ?thesis by blast
qed

subsection \<open>Properties\<close>

lemma blank_dir: "dir_ok 1 blank_memory" "free_pages blank_memory = N_PAGES - 2"
proof -
  have "table 1 blank_memory i = 0" for i
    by (simp add: table_def entry_def load32_def blank_memory_def)
  then have "tables 1 blank_memory = {}" by (auto simp: tables_def)
  then show "dir_ok 1 blank_memory"
    using \<open>\<And>i. table 1 blank_memory i = 0\<close> by (simp add: dir_ok_def used_blank N_PAGES_def pat_size_def) (simp add: blank_memory_def)
  have "{p. p < N_PAGES \<and> \<not> used blank_memory p} = {2..<N_PAGES}" by (auto simp: used_blank)
  then show "free_pages blank_memory = N_PAGES - 2" by (simp add: free_pages_def)
qed

lemma blank_translate: "translate 1 blank_memory v = 0"
  by (simp add: translate_def table_def entry_def load32_def blank_memory_def)

text \<open>
  Mapping given memory (C12). On an address space with as many free pages as there are pages to map (for
  new tables), \<^verbatim>\<open>_k_mmap\<close> succeeds; afterwards every address of the range is translated to its place in
  the given memory, every other address as before, and no page in use outside the address space has
  changed.
\<close>

theorem mmap_given:
  assumes "dir_ok s m" "page_directory m \<noteq> page_address s" "1024 \<le> vp" "vp < N_PAGES" "vp + pages_for len \<le> N_PAGES"
    "0 < pp" "pp + pages_for len < N_PAGES" "pages_for len \<le> free_pages m"
  shows "\<exists>m'. k_mmap (page_address s) (page_address vp) (page_address pp) len m = Inr ((page_address vp, E_SUCCESS), m') \<and>
    dir_ok s m' \<and> untouched s m m' \<and> (\<forall>w. get_phys_address (page_address s) w m' =
      (if vp \<le> page_of w \<and> page_of w < vp + pages_for len then page_address (pp + (page_of w - vp)) else get_phys_address (page_address s) w m))"
  using k_mmap_given [OF assms(1,2,3,5,4,6-8)] get_phys_translate [OF dir_okD(1) [OF assms(1)]] by auto

theorem mmap_given_witness:
  "\<exists>m'. k_mmap 0x1000 0x400000 0x5000 0x1800 blank_memory = Inr ((0x400000, E_SUCCESS), m') \<and>
     get_phys_address 0x1000 0x401ABC m' = 0x6000 \<and> get_phys_address 0x1000 0x402000 m' = 0"
proof -
  have len: "pages_for 0x1800 = 2" by (simp add: pages_for_def)
  have a: "page_address 1 = 0x1000" "page_address 1024 = 0x400000" "page_address 5 = 0x5000" "page_address 6 = 0x6000"
    by (simp_all add: page_address_def push_bit_eq_mult)
  have p: "page_of 0x401ABC = 1025" "page_of 0x402000 = 1026" by (simp_all add: page_of_div)
  have "page_directory blank_memory \<noteq> page_address 1" unfolding a(1) by (simp add: blank_memory_def)
  from mmap_given [OF blank_dir(1) this, of 1024 "0x1800" 5] obtain m' where m':
    "k_mmap 0x1000 0x400000 0x5000 0x1800 blank_memory = Inr ((0x400000, E_SUCCESS), m')"
    "\<forall>w. get_phys_address 0x1000 w m' = (if 1024 \<le> page_of w \<and> page_of w < 1026 then page_address (5 + (page_of w - 1024)) else get_phys_address 0x1000 w blank_memory)"
    unfolding len blank_dir(2) a by (auto simp: N_PAGES_def)
  have "get_phys_address 0x1000 0x402000 blank_memory = 0"
    using get_phys_translate [of 1 "0x402000" blank_memory] blank_translate a(1) by (simp add: N_PAGES_def)
  then show ?thesis using m' p a(4) by auto
qed

text \<open>
  Mapping new memory (C13). With two free pages for every page of the range, \<^verbatim>\<open>_k_mmap\<close> without a physical
  address succeeds; every page of the range is translated to a page of its own that was free before, is
  in use now and holds zeros, every other address is translated as before, and no page in use outside
  the address space has changed.
\<close>

theorem mmap_fresh:
  assumes "dir_ok s m" "page_directory m \<noteq> page_address s" "1024 \<le> vp" "vp + pages_for len < N_PAGES" "2 * pages_for len \<le> free_pages m"
  shows "\<exists>m' f. k_mmap (page_address s) (page_address vp) 0 len m = Inr ((page_address vp, E_SUCCESS), m') \<and>
    dir_ok s m' \<and> untouched s m m' \<and> inj_on f {vp..<vp + pages_for len} \<and>
    (\<forall>q \<in> f ` {vp..<vp + pages_for len}. \<not> used m q \<and> used m' q \<and> (\<forall>x \<in> page q. mem m' x = 0)) \<and>
    (\<forall>w. get_phys_address (page_address s) w m' =
      (if vp \<le> page_of w \<and> page_of w < vp + pages_for len then page_address (f (page_of w)) else get_phys_address (page_address s) w m))"
proof -
  obtain m' f where "k_mmap (page_address s) (page_address vp) 0 len m = Inr ((page_address vp, E_SUCCESS), m')"
    "dir_ok s m'" "untouched s m m'" "inj_on f {vp..<vp + pages_for len}"
    "\<forall>q \<in> f ` {vp..<vp + pages_for len}. q < N_PAGES \<and> \<not> used m q \<and> used m' q \<and> q \<noteq> s \<and> q \<notin> own s m' \<and> (\<forall>x \<in> page q. mem m' x = 0)"
    "\<forall>w. translate s m' w = (if vp \<le> page_of w \<and> page_of w < vp + pages_for len then f (page_of w) else translate s m w)"
    using k_mmap_fresh [OF assms] by blast
  then show ?thesis
    by (intro exI [of _ m'] exI [of _ f]) (simp add: get_phys_translate [OF dir_okD(1) [OF assms(1)]])
qed

theorem mmap_fresh_witness:
  "\<exists>m' q. k_mmap 0x1000 0x400000 0 0x1000 blank_memory = Inr ((0x400000, E_SUCCESS), m') \<and> 2 \<le> q \<and>
     get_phys_address 0x1000 0x400123 m' = page_address q \<and> (\<forall>x \<in> page q. mem m' x = 0)"
proof -
  have len: "pages_for 0x1000 = 1" by (simp add: pages_for_def)
  have a: "page_address 1 = 0x1000" "page_address 1024 = 0x400000" by (simp_all add: page_address_def push_bit_eq_mult)
  have p: "page_of 0x400123 = 1024" by (simp add: page_of_div)
  have "page_directory blank_memory \<noteq> page_address 1" unfolding a(1) by (simp add: blank_memory_def)
  from mmap_fresh [OF blank_dir(1) this, of 1024 "0x1000"] obtain m' f where m':
    "k_mmap 0x1000 0x400000 0 0x1000 blank_memory = Inr ((0x400000, E_SUCCESS), m')"
    "\<forall>q \<in> f ` {1024..<1025}. \<not> used blank_memory q \<and> used m' q \<and> (\<forall>x \<in> page q. mem m' x = 0)"
    "\<forall>w. get_phys_address 0x1000 w m' = (if 1024 \<le> page_of w \<and> page_of w < 1025 then page_address (f (page_of w)) else get_phys_address 0x1000 w blank_memory)"
    unfolding len blank_dir(2) a by (auto simp: N_PAGES_def)
  have "\<not> used blank_memory (f 1024)" "\<forall>x \<in> page (f 1024). mem m' x = 0" using m'(2) by (auto dest: bspec [of _ _ 1024])
  with m'(1,3) p show ?thesis by (intro exI [of _ m'] exI [of _ "f 1024"]) (simp add: used_blank)
qed

end
