(* ===== verification/Kern_Memory_Init.thy ===== *)
theory Kern_Memory_Init
  imports Kern_Paging
begin

unbundle bit_operations_syntax

text \<open>
  The set-up of memory (\<^verbatim>\<open>kern/memory/memory_map.c\<close>): the page availability table is filled from the
  memory map the boot loader leaves (\<^verbatim>\<open>disp_memory_map\<close>, \<^verbatim>\<open>setup_page_availibility_table\<close>), and the
  kernel's page directory maps every address to itself (\<^verbatim>\<open>setup_initial_page_table\<close>). Loading the
  control registers and installing the page fault handler are left out.
\<close>

subsection \<open>The kernel's page directory\<close>

definition KB :: nat where "KB = 0x400"

definition fill_table :: "nat \<Rightarrow> 32 word \<Rightarrow> mmodule \<Rightarrow> mmodule" where
  "fill_table ii cur_pt = fold (\<lambda>jj. write32 (cur_pt + 4 * of_nat jj)
     (push_bit 22 (of_nat ii) OR push_bit 12 (of_nat jj) OR PAGE_FLAGS)) [0..<KB]"

definition setup_table :: "nat \<Rightarrow> (mmodule, unit) kern" where
  "setup_table ii =
     kbind get_next_page (\<lambda>cur_pt.
     kbind (kmodify (\<lambda>m. write32 (page_directory m + 4 * of_nat ii) (cur_pt OR PAGE_FLAGS) m)) (\<lambda>_.
     kmodify (fill_table ii cur_pt)))"

definition setup_initial_page_table :: "(mmodule, unit) kern" where
  "setup_initial_page_table =
     kbind get_next_page (\<lambda>pd.
     kbind (kmodify (\<lambda>m. m\<lparr>page_directory := pd\<rparr>)) (\<lambda>_.
     kbind (kfor [0..<KB] setup_table) (\<lambda>_.
     kmodify (\<lambda>m. m\<lparr>page_table := load32 (mem m) (page_directory m)\<rparr>))))"

text \<open>The kernel's directory maps every page to itself, and \<^verbatim>\<open>page_table\<close> holds its first entry.\<close>

definition identity_ok :: "nat \<Rightarrow> mmodule \<Rightarrow> bool" where
  "identity_ok z m \<longleftrightarrow> page_directory m = page_address z \<and> dir_ok z m \<and> (\<forall>v. translate z m v = page_of v) \<and>
     page_of (page_table m) = table z m 0"

lemma join_page:
  assumes "ii < 1024" "jj < 1024"
  shows "push_bit 22 (of_nat ii) OR push_bit 12 (of_nat jj) = page_address (ii * 1024 + jj)"
proof -
  have j: "of_nat jj = (take_bit 10 (of_nat jj) :: 32 word)"
    using assms(2) by (simp add: take_bit_of_nat take_bit_nat_eq_self)
  have "push_bit 22 (of_nat ii) OR push_bit 12 (of_nat jj) = (push_bit 12 (push_bit 10 (of_nat ii) OR of_nat jj) :: 32 word)"
    by (simp add: push_bit_or)
  also have "(push_bit 10 (of_nat ii) OR of_nat jj :: 32 word) = push_bit 10 (of_nat ii) + of_nat jj"
    by (rule disjunctive_add [symmetric], subst j) (auto simp: bit_simps)
  also have "\<dots> = of_nat (ii * 1024 + jj)" by (simp add: push_bit_eq_mult)
  finally show ?thesis by (simp add: page_address_def)
qed

lemma index_join:
  assumes "ii < 1024" "jj < 1024"
  shows "pde_index (page_address (ii * 1024 + jj)) = of_nat ii" "pte_index (page_address (ii * 1024 + jj)) = of_nat jj"
proof -
  have "ii * 1024 + jj < N_PAGES" using assms by (simp add: N_PAGES_def)
  then have "page_of (page_address (ii * 1024 + jj)) = ii * 1024 + jj" by (rule page_of_page_address)
  then show "pde_index (page_address (ii * 1024 + jj)) = of_nat ii" "pte_index (page_address (ii * 1024 + jj)) = of_nat jj"
    using assms by (simp_all add: word_unat_eq_iff index_page unat_of_nat)
qed

lemma fill_table_dir:
  assumes "dir_ok s m" "table s m (of_nat ii) = t" "t \<noteq> 0" "ii < 1024" "jn \<le> 1024"
    and m': "m' = fold (\<lambda>jj. write32 (page_address t + 4 * of_nat jj)
     (push_bit 22 (of_nat ii) OR push_bit 12 (of_nat jj) OR PAGE_FLAGS)) [0..<jn] m"
  shows "dir_ok s m' \<and> tables s m' = tables s m \<and> used m' = used m \<and> (\<forall>i < 1024. table s m' i = table s m i) \<and>
    page_directory m' = page_directory m \<and>
    (\<forall>w. translate s m' w = (if ii * 1024 \<le> page_of w \<and> page_of w < ii * 1024 + jn then page_of w else translate s m w))"
  using assms(5,6)
proof (induction jn arbitrary: m')
  case 0
  then show ?case using assms(1) by simp
next
  case (Suc jn)
  define m1 where "m1 = fold (\<lambda>jj. write32 (page_address t + 4 * of_nat jj)
     (push_bit 22 (of_nat ii) OR push_bit 12 (of_nat jj) OR PAGE_FLAGS)) [0..<jn] m"
  let ?v = "page_address (ii * 1024 + jn)"
  have j: "jn < 1024" using Suc.prems by simp
  have IH: "dir_ok s m1" "tables s m1 = tables s m" "used m1 = used m" "\<forall>i < 1024. table s m1 i = table s m i"
    "page_directory m1 = page_directory m"
    "\<forall>w. translate s m1 w = (if ii * 1024 \<le> page_of w \<and> page_of w < ii * 1024 + jn then page_of w else translate s m w)"
    using Suc.IH [OF _ m1_def] Suc.prems by simp_all
  have q: "ii * 1024 + jn < N_PAGES" using assms(4) j by (simp add: N_PAGES_def)
  have m': "m' = write32 (page_address t + 4 * pte_index ?v) (?v OR PAGE_FLAGS) m1"
    by (simp add: Suc.prems(2) m1_def or.assoc [symmetric] join_page [OF assms(4) j] index_join [OF assms(4) j])
  have "(of_nat ii :: 32 word) < 1024" using assms(4) by (simp add: word_less_nat_alt unat_of_nat)
  then have t: "table s m1 (pde_index ?v) = t" using IH(4) assms(2) by (simp add: index_join [OF assms(4) j])
  note w = set_entry_dir [OF IH(1) t assms(3) q m']
  have ts: "t \<noteq> s" using dir_okD(5) [OF IH(1)] t assms(3) table_mem [OF index_less(1), of s m1 ?v] by auto
  have tab: "table s m' i = table s m i" if "i < 1024" for i
    using table_frame(1) [OF dir_okD(1) [OF assms(1)] _ that, of m' m1] w(6) ts IH(4) that by (auto simp: page_def)
  have tr: "translate s m' w = (if ii * 1024 \<le> page_of w \<and> page_of w < ii * 1024 + Suc jn then page_of w else translate s m w)" for w
    using w(2) [of w] IH(6) [rule_format, of w] page_of_page_address [OF q] by auto
  show ?case using w(1,4,5) IH(2,3,5) tab tr m' by (simp add: write32_def)
qed

text \<open>After \<^verbatim>\<open>n\<close> tables: the first \<^verbatim>\<open>n\<close> entries of the directory are set.\<close>

definition mapped_upto :: "nat \<Rightarrow> nat \<Rightarrow> mmodule \<Rightarrow> bool" where
  "mapped_upto z n m \<longleftrightarrow> page_directory m = page_address z \<and> dir_ok z m \<and>
     (\<forall>v. translate z m v = (if page_of v < n * 1024 then page_of v else 0)) \<and>
     (\<forall>i < 1024. table z m i \<noteq> 0 \<longleftrightarrow> unat i < n)"

lemma wp_setup_table:
  assumes m: "mapped_upto z ii m" and ii: "ii < 1024" and free: "0 < free_pages m"
  shows "wp (setup_table ii) (\<lambda>_ m'. mapped_upto z (Suc ii) m' \<and> free_pages m = Suc (free_pages m') \<and> (\<forall>q. used m q \<longrightarrow> used m' q)) m"
proof -
  have ok: "dir_ok z m" "page_directory m = page_address z" using m by (simp_all add: mapped_upto_def)
  have i: "(of_nat ii :: 32 word) < 1024" "unat (of_nat ii :: 32 word) = ii" using ii by (simp_all add: word_less_nat_alt unat_of_nat)
  show ?thesis
    unfolding setup_table_def wp_bind
  proof (rule wp_get_next_page [OF dir_okD(4) [OF ok(1)] free])
    fix t m1
    assume t: "t < N_PAGES" "\<not> used m t" "used m1 = (used m)(t := True)" "mem m1 = (\<lambda>x. if x \<in> page t then 0 else mem m x)"
      "last_availible m1 < pat_size" "page_directory m1 = page_directory m" "page_table m1 = page_table m" "free_pages m = Suc (free_pages m1)"
    note f = fresh_page_dir [OF ok(1) t(2-7)]
    define m2 where "m2 = write32 (page_address z + 4 * of_nat ii) (page_address t OR PAGE_FLAGS) m1"
    have none: "table z m1 (of_nat ii) = 0" using m i f(8) [OF i(1)] by (auto simp: mapped_upto_def)
    note n = new_table_dir [OF f(5) i(1) none t(1) f(1) _ f(3) _ _ m2_def]
    have n1: "t \<notin> tables z m1" "used m1 t" "\<And>x. x \<in> page t \<Longrightarrow> mem m1 x = 0" using f(2,4) t(3,4) by simp_all
    have tab: "table z m2 j = (if j = of_nat ii then t else table z m1 j)" if "j < 1024" for j by (rule n(3) [OF n1 that])
    define m3 where "m3 = fill_table ii (page_address t) m2"
    have t2: "table z m2 (of_nat ii) = t" using tab [OF i(1)] by simp
    have d2: "dir_ok z m2" by (rule n(1) [OF n1])
    have F: "dir_ok z m3 \<and> tables z m3 = tables z m2 \<and> used m3 = used m2 \<and> (\<forall>i < 1024. table z m3 i = table z m2 i) \<and>
        page_directory m3 = page_directory m2 \<and>
        (\<forall>w. translate z m3 w = (if ii * 1024 \<le> page_of w \<and> page_of w < ii * 1024 + 1024 then page_of w else translate z m2 w))"
      by (rule fill_table_dir [OF d2 t2 f(3) ii order_refl]) (unfold m3_def fill_table_def KB_def, rule refl)
    have u: "used m2 = used m1" "page_directory m2 = page_directory m1" by (simp_all add: m2_def write32_def used_def fun_eq_iff)
    have "free_pages m3 = free_pages m1" using F u by (simp add: free_pages_def)
    moreover have "translate z m3 v = (if page_of v < Suc ii * 1024 then page_of v else 0)" for v
      using F n(2) [OF n1] f(6) m by (auto simp: mapped_upto_def)
    moreover have "table z m3 i \<noteq> 0 \<longleftrightarrow> unat i < Suc ii" if "i < 1024" for i
    proof -
      have "table z m3 i = (if i = of_nat ii then t else table z m i)" using F tab [OF that] f(8) [OF that] that by simp
      moreover have "i = of_nat ii \<longleftrightarrow> unat i = ii" by (simp add: word_unat_eq_iff i(2))
      ultimately show ?thesis using m that f(3) by (auto simp: mapped_upto_def less_Suc_eq)
    qed
    ultimately have "mapped_upto z (Suc ii) m3" using F u t(6) ok(2) by (simp add: mapped_upto_def)
    moreover have "used m q \<longrightarrow> used m3 q" for q using F u t(3) by simp
    moreover have "m3 = fill_table ii (page_address t) (write32 (page_directory m1 + 4 * of_nat ii) (page_address t OR PAGE_FLAGS) m1)"
      by (simp add: m3_def m2_def t(6) ok(2))
    ultimately show "wp (kmodify (\<lambda>m. write32 (page_directory m + 4 * of_nat ii) (page_address t OR PAGE_FLAGS) m))
        (\<lambda>_. wp (kmodify (fill_table ii (page_address t)))
          (\<lambda>_ m'. mapped_upto z (Suc ii) m' \<and> free_pages m = Suc (free_pages m') \<and> (\<forall>q. used m q \<longrightarrow> used m' q))) m1"
      using t(8) \<open>free_pages m3 = free_pages m1\<close> by (simp add: kern_simps)
  qed
qed

lemma wp_setup_tables:
  assumes "mapped_upto z 0 m" "1024 \<le> free_pages m"
  shows "wp (kfor [0..<KB] setup_table) (\<lambda>_ m'. mapped_upto z 1024 m' \<and> free_pages m = free_pages m' + 1024 \<and> (\<forall>q. used m q \<longrightarrow> used m' q)) m"
proof -
  let ?I = "\<lambda>js m'. mapped_upto z (length js) m' \<and> free_pages m = free_pages m' + length js \<and> (\<forall>q. used m q \<longrightarrow> used m' q)"
  have "wp (kfor [0..<KB] setup_table) (\<lambda>_. ?I [0..<KB]) m"
  proof (rule wp_kfor [where I = ?I])
    fix js :: "nat list" and j m1 assume split: "\<exists>rest. [0..<KB] = js @ j # rest" and I: "?I js m1"
    then obtain rest where r: "[0..<KB] = js @ j # rest" by blast
    have j: "length js = j" "j < 1024"
      using arg_cong [OF r, of "\<lambda>xs. xs ! length js"] arg_cong [OF r, of length] by (simp_all add: KB_def nth_append)
    have "0 < free_pages m1" using I assms(2) j by simp
    from wp_setup_table [OF _ j(2) this, of z] I j(1) show "wp (setup_table j) (\<lambda>_. ?I (js @ [j])) m1"
      by (auto elim!: wp_mono)
  qed (use assms(1) in simp)
  then show ?thesis by (simp add: KB_def)
qed

lemma wp_setup_initial_page_table:
  assumes "last_availible m < pat_size" "used m 0" "1025 \<le> free_pages m"
  shows "wp setup_initial_page_table (\<lambda>_ m'. (\<exists>z. identity_ok z m') \<and> free_pages m = free_pages m' + 1025 \<and> (\<forall>q. used m q \<longrightarrow> used m' q)) m"
  unfolding setup_initial_page_table_def wp_bind
proof (rule wp_get_next_page [OF assms(1)])
  fix z m1
  assume z: "z < N_PAGES" "\<not> used m z" "used m1 = (used m)(z := True)" "mem m1 = (\<lambda>x. if x \<in> page z then 0 else mem m x)"
    "last_availible m1 < pat_size" "page_directory m1 = page_directory m" "page_table m1 = page_table m" "free_pages m = Suc (free_pages m1)"
  let ?m2 = "m1\<lparr>page_directory := page_address z\<rparr>"
  have t0: "table z ?m2 i = 0" if "i < 1024" for i
    unfolding table_def using entry_zero [OF z(1) that, of "mem ?m2"] z(4) by (simp add: page_of_def)
  then have "tables z ?m2 = {}" by (auto simp: tables_def)
  then have "dir_ok z ?m2" unfolding dir_ok_def using z(1,3,5) assms(2) t0 by auto
  then have "mapped_upto z 0 ?m2" using t0 by (simp add: mapped_upto_def translate_def index_less)
  from wp_setup_tables [OF this] have
    "wp (kfor [0..<KB] setup_table) (\<lambda>_ m'. mapped_upto z 1024 m' \<and> free_pages ?m2 = free_pages m' + 1024 \<and> (\<forall>q. used ?m2 q \<longrightarrow> used m' q)) ?m2"
    using z(8) assms(3) by simp
  then have "wp (kfor [0..<KB] setup_table) (\<lambda>_. wp (kmodify (\<lambda>m. m\<lparr>page_table := load32 (mem m) (page_directory m)\<rparr>))
      (\<lambda>_ m'. (\<exists>z. identity_ok z m') \<and> free_pages m = free_pages m' + 1025 \<and> (\<forall>q. used m q \<longrightarrow> used m' q))) ?m2"
  proof (rule wp_mono)
    fix m3 assume m3: "mapped_upto z 1024 m3 \<and> free_pages ?m2 = free_pages m3 + 1024 \<and> (\<forall>q. used ?m2 q \<longrightarrow> used m3 q)"
    let ?m4 = "m3\<lparr>page_table := load32 (mem m3) (page_directory m3)\<rparr>"
    have "page_of v < 1024 * 1024" for v using page_of_less [of v] by (simp add: N_PAGES_def)
    then have "identity_ok z ?m4"
      using m3 by (auto simp: identity_ok_def mapped_upto_def) (simp add: table_def entry_def)
    then show "wp (kmodify (\<lambda>m. m\<lparr>page_table := load32 (mem m) (page_directory m)\<rparr>))
      (\<lambda>_ m'. (\<exists>z. identity_ok z m') \<and> free_pages m = free_pages m' + 1025 \<and> (\<forall>q. used m q \<longrightarrow> used m' q)) m3"
      using m3 z(3,8) by (auto simp: kern_simps)
  qed
  then show "wp (kmodify (\<lambda>m. m\<lparr>page_directory := page_address z\<rparr>)) (\<lambda>_. wp (kfor [0..<KB] setup_table)
      (\<lambda>_. wp (kmodify (\<lambda>m. m\<lparr>page_table := load32 (mem m) (page_directory m)\<rparr>))
      (\<lambda>_ m'. (\<exists>z. identity_ok z m') \<and> free_pages m = free_pages m' + 1025 \<and> (\<forall>q. used m q \<longrightarrow> used m' q)))) m1"
    by (simp add: kern_simps)
qed (use assms(3) in simp)

subsection \<open>The address space of a process\<close>

text \<open>The pages of the kernel's directory lie outside what an address space has for itself.\<close>

definition apart :: "nat \<Rightarrow> nat \<Rightarrow> mmodule \<Rightarrow> bool" where
  "apart z s m \<longleftrightarrow> z \<noteq> s \<and> s \<notin> tables z m \<and> (\<forall>q. q = z \<or> q \<in> tables z m \<longrightarrow> q \<notin> own s m)"

lemma untouched_identity:
  assumes id: "identity_ok z m" and apart: "apart z s m" and un: "untouched s m m'" and last: "last_availible m' < pat_size"
  shows "identity_ok z m'" "apart z s m'"
proof -
  have ok: "dir_ok z m" using id by (simp add: identity_ok_def)
  note d = dir_okD [OF ok]
  have kept: "q \<notin> own s m' \<and> (\<forall>x \<in> page q. mem m' x = mem m x)" if "q = z \<or> q \<in> tables z m" for q
  proof -
    have "used m q" "q \<noteq> s" "q \<notin> own s m" using that apart d(2,5) by (auto simp: apart_def)
    then show ?thesis using un unfolding untouched_def by blast
  qed
  then have pg: "mem m' x = mem m x" if "x \<in> page z" for x using that by blast
  have tab: "\<And>i. i < 1024 \<Longrightarrow> table z m' i = table z m i" "tables z m' = tables z m"
    by (rule table_frame [OF d(1) pg]; assumption)+
  have tr: "translate z m' v = translate z m v" for v
    by (rule translate_frame [OF d(1)]) (use kept in blast)
  have u: "used m q \<Longrightarrow> used m' q" for q using un by (simp add: untouched_def)
  have "dir_ok z m'" unfolding dir_ok_def tab(2) using d u last tab(1) by auto
  then show "identity_ok z m'"
    using id tr un tab(1) [of 0] by (simp add: identity_ok_def untouched_def)
  show "apart z s m'" using apart kept unfolding apart_def tab(2) by blast
qed

lemma page_0_iff: "pde_index w = 0 \<longleftrightarrow> page_of w < 1024"
  by (simp add: word_unat_eq_iff index_page div_eq_0_iff)

lemma wp_new_page_directory:
  assumes id: "identity_ok z m" and free: "0 < free_pages m"
    and Q: "\<And>s m'. s < N_PAGES \<Longrightarrow> \<not> used m s \<Longrightarrow> used m' = (used m)(s := True) \<Longrightarrow> dir_ok s m' \<Longrightarrow> identity_ok z m' \<Longrightarrow> apart z s m' \<Longrightarrow>
      (\<forall>w. translate s m' w = (if page_of w < 1024 then page_of w else 0)) \<Longrightarrow>
      (\<forall>q x. used m q \<and> x \<in> page q \<longrightarrow> mem m' x = mem m x) \<Longrightarrow> Q (page_address s) m'"
  shows "wp new_page_directory Q m"
proof -
  have ok: "dir_ok z m" using id by (simp add: identity_ok_def)
  show ?thesis
    unfolding new_page_directory_def wp_bind
  proof (rule wp_get_next_page [OF dir_okD(4) [OF ok] free])
    fix s m1
    assume s: "s < N_PAGES" "\<not> used m s" "used m1 = (used m)(s := True)" "mem m1 = (\<lambda>x. if x \<in> page s then 0 else mem m x)"
      "last_availible m1 < pat_size" "page_directory m1 = page_directory m" "page_table m1 = page_table m" "free_pages m = Suc (free_pages m1)"
    note f = fresh_page_dir [OF ok s(2-7)]
    define m2 where "m2 = write32 (page_address s) (page_table m1) (m1\<lparr>mem := kmemset (unat PAGE_SIZE) (page_address s) 0 (mem m1)\<rparr>)"
    have mm: "mem m2 = store32 (page_address s + 4 * 0) (page_table m) (mem m1)"
    proof -
      have "kmemset (unat PAGE_SIZE) (page_address s) 0 (mem m1) = mem m1" unfolding kmemset_page [OF s(1)] s(4) by auto
      then show ?thesis using s(7) by (simp add: m2_def write32_def)
    qed
    have other: "mem m2 x = mem m x" if "x \<notin> page s" for x
      unfolding mm using store_other_page [OF s(1) _ that, of 0] that s(4) by simp
    have e: "entry (mem m2) s i = (if i = 0 then page_table m else 0)" if "i < 1024" for i
      unfolding mm using entry_store [OF s(1) that s(1), of 0] entry_zero [OF s(1) that, of "mem m1"] s(4) by auto
    have u: "used m2 = (used m)(s := True)" "last_availible m2 < pat_size" "page_directory m2 = page_directory m" "page_table m2 = page_table m"
      using s(3,5-7) by (simp_all add: m2_def write32_def used_def fun_eq_iff)
    let ?t = "table z m 0"
    have pt: "page_of (page_table m) = ?t" using id by (simp add: identity_ok_def)
    have tab: "table s m2 i = (if i = 0 then ?t else 0)" if "i < 1024" for i
      using e [OF that] pt by (simp add: table_def [of s])
    have t0: "?t \<noteq> 0"
    proof
      assume "?t = 0"
      then have "translate z m (page_address 1) = 0" using page_0_iff [of "page_address 1"] page_of_page_address [of 1] by (simp add: translate_def N_PAGES_def)
      then show False using id page_of_page_address [of 1] by (simp add: identity_ok_def N_PAGES_def)
    qed
    then have tz: "?t \<in> tables z m" "used m ?t" using table_mem [of 0 z m] dir_okD(5) [OF ok] by auto
    have ts: "tables s m2 = {?t}" "own s m2 = {}" using tab t0 by (auto simp: tables_def own_def split: if_splits intro: exI [of _ 0])
    have tns: "?t \<noteq> s" using tz(2) s(2) by auto
    have ds: "dir_ok s m2" unfolding dir_ok_def ts u using s(1) u(2) dir_okD(3) [OF ok] tz(2) tns tab by (auto split: if_splits)
    have pg: "mem m2 x = mem m x" if "x \<in> page q" "q \<noteq> s" for x q using other page_other [OF that(1), of s] that(2) by blast
    have idz: "identity_ok z m2"
    proof -
      have pz: "mem m2 x = mem m x" if "x \<in> page z" for x using pg [OF that] f(1) by simp
      have tabz: "\<And>i. i < 1024 \<Longrightarrow> table z m2 i = table z m i" "tables z m2 = tables z m"
        by (rule table_frame [OF dir_okD(1) [OF ok] pz]; assumption)+
      have "translate z m2 v = translate z m v" for v
        by (rule translate_frame [OF dir_okD(1) [OF ok]]) (use pg f(1,2) in blast)
      moreover have "dir_ok z m2" unfolding dir_ok_def tabz(2) u using dir_okD [OF ok] u(2) tabz(1) by auto
      ultimately show ?thesis using id u tabz(1) [of 0] by (simp add: identity_ok_def)
    qed
    have "apart z s m2"
      using f(1,2) table_frame(2) [OF dir_okD(1) [OF ok], of m2 m] pg [of _ z] by (auto simp: apart_def ts)
    moreover have "translate s m2 w = (if page_of w < 1024 then page_of w else 0)" for w
    proof (cases "page_of w < 1024")
      case True
      then have p0: "pde_index w = 0" by (simp add: page_0_iff)
      have "entry (mem m2) ?t (pte_index w) = entry (mem m) ?t (pte_index w)"
        by (rule entry_cong [OF table_less index_less(2)]) (use pg tns in blast)
      then have "translate s m2 w = translate z m w" using p0 tab [of 0] t0 by (simp add: translate_def)
      then show ?thesis using id True by (simp add: identity_ok_def)
    next
      case False
      then show ?thesis using tab [OF index_less(1), of w] by (simp add: translate_def page_0_iff)
    qed
    moreover have "\<forall>q x. used m q \<and> x \<in> page q \<longrightarrow> mem m2 x = mem m x" using pg s(2) by blast
    ultimately have "Q (page_address s) m2" using Q [OF s(1,2) u(1) ds idz] by blast
    then show "wp (kmodify (\<lambda>m. m\<lparr>mem := kmemset (unat PAGE_SIZE) (page_address s) 0 (mem m)\<rparr>))
        (\<lambda>_. wp (kmodify (\<lambda>m. write32 (page_address s) (page_table m) m)) (\<lambda>_. wp (kreturn (page_address s)) Q)) m1"
      by (simp add: kern_simps m2_def)
  qed
qed

subsection \<open>The memory map\<close>

text \<open>One entry of the map at \<^verbatim>\<open>MY_MM_ADDRESS\<close>; the list holds the entries 1 to \<^verbatim>\<open>mm_size\<close>.\<close>

record mm_entry =
  base_l :: "32 word"
  base_h :: "32 word"
  mm_length :: "64 word"
  mm_type :: "32 word"

definition length_l :: "mm_entry \<Rightarrow> 32 word" where
  "length_l e = ucast (mm_length e)"

definition FREE_TYPE :: "32 word" where "FREE_TYPE = 1"
definition MB :: "32 word" where "MB = 0x100000"
definition MAX_MEM :: "32 word" where "MAX_MEM = 0xFFFFFFFF"

definition raise_max :: "mm_entry \<Rightarrow> mmodule \<Rightarrow> mmodule" where
  "raise_max e m =
     (if base_h e > 0 then m
      else let current = base_l e + length_l e in
        if current > max_address m then m\<lparr>max_address := current - 1\<rparr> else m)"

definition disp_memory_map :: "mm_entry list \<Rightarrow> (mmodule, unit) kern" where
  "disp_memory_map entries = kmodify (fold raise_max entries)"

definition find_table :: "mm_entry list \<Rightarrow> mmodule \<Rightarrow> mmodule" where
  "find_table entries m =
     (case List.find (\<lambda>e. \<not> (base_h e > 0 \<or> base_l e < 0x100000) \<and> length_l e \<ge> of_nat pat_size) entries of
        None \<Rightarrow> m
      | Some e \<Rightarrow> m\<lparr>page_availibility_table := base_l e\<rparr>)"

text \<open>The loops over the pages of a range; the offset has 32 bits, the length of an entry 64.\<close>

fun mark_range :: "nat \<Rightarrow> 32 word \<Rightarrow> 64 word \<Rightarrow> 32 word \<Rightarrow> (mmodule, unit) kern" where
  "mark_range 0 base len offset = kfail Diverges"
| "mark_range (Suc n) base len offset =
     (if ucast offset < len then
        kbind (kmodify (set_pat (base + offset) 0xFF)) (\<lambda>_. mark_range n base len (offset + PAGE_SIZE))
      else kreturn ())"

fun mark_upper :: "nat \<Rightarrow> 32 word \<Rightarrow> (mmodule, unit) kern" where
  "mark_upper 0 offset = kfail Diverges"
| "mark_upper (Suc n) offset =
     kbind (kget (\<lambda>m. offset + max_address m)) (\<lambda>a.
     if a < MAX_MEM then
       kbind (kmodify (set_pat (a + 1) 0xFF)) (\<lambda>_. mark_upper n (offset + PAGE_SIZE))
     else kreturn ())"

definition setup_bound :: nat where "setup_bound = N_PAGES + 1"

definition setup_page_availibility_table :: "mm_entry list \<Rightarrow> (mmodule, unit) kern" where
  "setup_page_availibility_table entries =
     kbind (kmodify (find_table entries)) (\<lambda>_.
     kbind (kmodify (\<lambda>m. m\<lparr>mem := kmemset pat_size (page_availibility_table m) 0 (mem m), pat := \<lambda>_. 0\<rparr>)) (\<lambda>_.
     kbind (kfor entries (\<lambda>e.
       if base_h e > 0 \<or> mm_type e = FREE_TYPE then kreturn ()
       else mark_range setup_bound (base_l e) (mm_length e) 0)) (\<lambda>_.
     kbind (mark_range setup_bound 0 (ucast MB) 0) (\<lambda>_.
     kbind (kget max_address) (\<lambda>top.
     kbind (if top < MAX_MEM - PAGE_SIZE then mark_upper setup_bound 0
            else kpanic [] ''Couldn't mark upper memory as used!'') (\<lambda>_.
     kbind (kget page_availibility_table) (\<lambda>tab.
     kbind (mark_range setup_bound tab (of_nat pat_size) 0) (\<lambda>_.
     kmodify (\<lambda>m. m\<lparr>last_availible := 0\<rparr>)))))))))"

text \<open>Memory as \<^verbatim>\<open>_init\<close> sets it up, with its test of the allocator.\<close>

definition init_memory :: "mm_entry list \<Rightarrow> (mmodule, unit) kern" where
  "init_memory entries =
     kbind (disp_memory_map entries) (\<lambda>_.
     kbind (setup_page_availibility_table entries) (\<lambda>_.
     kbind setup_initial_page_table (\<lambda>_.
     kbind get_next_page (\<lambda>address.
     kbind (free_page address) (\<lambda>_.
     kbind get_next_page (\<lambda>_. kreturn ()))))))"

subsection \<open>The pages marked\<close>

text \<open>
  A range occupies the pages in which it has a byte. The loops step a page at a time from the base of the
  range, so they count the pages its length fills: when the base is not a page boundary and the range
  therefore reaches into one page more than that (\<^verbatim>\<open>straddles\<close>), they leave out the last page it occupies.
\<close>

definition occupies :: "32 word \<Rightarrow> 64 word \<Rightarrow> nat \<Rightarrow> bool" where
  "occupies base len p \<longleftrightarrow> (\<exists>x < unat len. page_of (base + of_nat x) = p)"

definition straddles :: "32 word \<Rightarrow> 64 word \<Rightarrow> bool" where
  "straddles base len \<longleftrightarrow> 4096 \<le> unat base mod 4096 + (unat len - 1) mod 4096"

definition covers :: "32 word \<Rightarrow> 64 word \<Rightarrow> nat \<Rightarrow> bool" where
  "covers base len p \<longleftrightarrow> occupies base len p \<and> \<not> (straddles base len \<and> p = page_of (base + of_nat (unat len - 1)))"

text \<open>The pages the loops reach are those.\<close>

definition stepped :: "32 word \<Rightarrow> 64 word \<Rightarrow> nat \<Rightarrow> bool" where
  "stepped base len p \<longleftrightarrow> (\<exists>j < N_PAGES. j * 4096 < unat len \<and> page_of (base + of_nat (j * 4096)) = p)"

lemma page_of_offset:
  fixes base :: "32 word"
  assumes "x < 2 ^ 32"
  shows "page_of (base + of_nat x) = (page_of base + (unat base mod 4096 + x) div 4096) mod N_PAGES"
proof -
  have "unat (base + of_nat x) = (unat base + x) mod 2 ^ 32" using assms by (simp add: unat_word_ariths unat_of_nat)
  also have "\<dots> = (unat base + x) mod (4096 * N_PAGES)" by (simp add: N_PAGES_def)
  finally have "unat (base + of_nat x) = (unat base + x) mod (4096 * N_PAGES)" .
  then have "page_of (base + of_nat x) = (unat base + x) div 4096 mod N_PAGES" by (simp add: page_of_div mod_mult2_eq)
  also have "unat base + x = (unat base mod 4096 + x) + unat base div 4096 * 4096" by simp
  also have "\<dots> div 4096 = page_of base + (unat base mod 4096 + x) div 4096" unfolding page_of_div by (subst div_mult_self1) simp_all
  finally show ?thesis .
qed

lemma mod_shift_eq: "i < n \<Longrightarrow> j < n \<Longrightarrow> (b + i) mod n = (b + j) mod n \<Longrightarrow> i = j" for b i j n :: nat
proof -
  assume lt: "i < n" "j < n" and "(b + i) mod n = (b + j) mod n"
  then obtain q q' where "b + i + n * q = b + j + n * q'" by (auto simp: nat_mod_eq_iff)
  then have "(i + n * q) mod n = (j + n * q') mod n" by simp
  with lt show "i = j" by simp
qed

lemma stepped_covers:
  assumes "unat len \<le> 2 ^ 32 - 4096"
  shows "stepped base len p \<longleftrightarrow> covers base len p"
proof (cases "unat len = 0")
  case True
  then show ?thesis by (simp add: stepped_def covers_def occupies_def)
next
  case False
  define r where "r = unat base mod 4096"
  define n where "n = (unat len - 1) div 4096"
  define i where "i = (\<lambda>x. (r + x) div 4096)"
  let ?page = "\<lambda>j. (page_of base + j) mod N_PAGES"
  have r: "r < 4096" by (simp add: r_def)
  have pg: "page_of (base + of_nat x) = ?page (i x)" if "x < unat len" for x
    unfolding i_def r_def by (rule page_of_offset) (use that assms in simp)
  have iN: "i x < N_PAGES" if "x < unat len" for x using that assms r by (simp add: i_def N_PAGES_def)
  have step: "j * 4096 < unat len \<longleftrightarrow> j \<le> n" for j
    using False by (simp add: n_def less_eq_div_iff_mult_less_eq) arith
  have at: "i (j * 4096) = j" for j using r by (simp add: i_def)
  have last: "i (unat len - 1) = n + (if straddles base len then 1 else 0)"
  proof -
    define y where "y = (unat len - 1) mod 4096"
    have "y < 4096" by (simp add: y_def)
    then have "(r + y) div 4096 = (if 4096 \<le> r + y then 1 else 0)" using r by (auto intro: div_nat_eqI)
    then show ?thesis
      unfolding i_def n_def straddles_def r_def [symmetric] y_def [symmetric] by (subst div_add1_eq) (use r in \<open>simp add: y_def\<close>)
  qed
  have le: "i x \<le> i (unat len - 1)" if "x < unat len" for x using that by (simp add: i_def div_le_mono)
  have "covers base len p \<longleftrightarrow> (\<exists>x < unat len. ?page (i x) = p \<and> i x \<le> n)"
  proof -
    have "(straddles base len \<and> ?page (i x) = page_of (base + of_nat (unat len - 1))) \<longleftrightarrow> \<not> i x \<le> n" if "x < unat len" for x
    proof -
      have "?page (i x) = page_of (base + of_nat (unat len - 1)) \<longleftrightarrow> i x = i (unat len - 1)"
        using pg [of "unat len - 1"] mod_shift_eq [OF iN [OF that] iN [of "unat len - 1"]] False by auto
      then show ?thesis using last le [OF that] by (auto split: if_splits)
    qed
    then show ?thesis unfolding covers_def occupies_def using pg by metis
  qed
  also have "\<dots> \<longleftrightarrow> (\<exists>j \<le> n. ?page j = p)"
    using step at by (metis)
  also have "\<dots> \<longleftrightarrow> stepped base len p"
    unfolding stepped_def using step pg at iN by (metis)
  finally show ?thesis by simp
qed

lemma bit_FF: "bit (0xFF :: 8 word) (q mod 8)"
proof -
  have "(0xFF :: 8 word) = mask 8" by (simp add: mask_eq_exp_minus_1)
  then show ?thesis by (simp only: bit_mask_iff) simp
qed

lemma used_mark: "used (set_pat a 0xFF m) = (\<lambda>p. used m p \<or> p = page_of a)"
  using bit_FF by (auto simp: used_set_pat fun_eq_iff)

text \<open>What the loops leave unchanged.\<close>

definition same_but_pat :: "mmodule \<Rightarrow> mmodule \<Rightarrow> bool" where
  "same_but_pat m m' \<longleftrightarrow> (\<exists>P. m' = m\<lparr>pat := P\<rparr>)"

lemma same_but_pat_steps:
  "same_but_pat m m" "same_but_pat m (set_pat a v m)" "same_but_pat m m1 \<Longrightarrow> same_but_pat m1 m2 \<Longrightarrow> same_but_pat m m2"
proof -
  show "same_but_pat m m" unfolding same_but_pat_def by (rule exI [of _ "pat m"]) simp
  show "same_but_pat m (set_pat a v m)" by (auto simp: same_but_pat_def set_pat_def Let_def)
  show "same_but_pat m m1 \<Longrightarrow> same_but_pat m1 m2 \<Longrightarrow> same_but_pat m m2" by (auto simp: same_but_pat_def)
qed

lemma same_but_patD:
  assumes "same_but_pat m m'"
  shows "max_address m' = max_address m" "page_availibility_table m' = page_availibility_table m" "last_availible m' = last_availible m" "mem m' = mem m"
  using assms by (auto simp: same_but_pat_def)

lemma mark_range_from:
  assumes "unat len \<le> 2 ^ 32 - 4096" "j + n = Suc N_PAGES" "j < N_PAGES"
  shows "wp (mark_range n base len (of_nat (j * 4096))) (\<lambda>_ m'. same_but_pat m m' \<and>
    used m' = (\<lambda>p. used m p \<or> (\<exists>i < N_PAGES. j \<le> i \<and> i * 4096 < unat len \<and> page_of (base + of_nat (i * 4096)) = p))) m"
  using assms
proof (induction n arbitrary: j m)
  case (Suc n)
  let ?o = "of_nat (j * 4096) :: 32 word"
  have o: "unat ?o = j * 4096" using Suc.prems(3) by (simp add: unsigned_of_nat take_bit_nat_eq_self_iff N_PAGES_def del: of_nat_mult)
  have "unat (ucast ?o :: 64 word) = j * 4096"
    unfolding unsigned_ucast_eq o using Suc.prems(3) by (simp add: take_bit_nat_eq_self_iff N_PAGES_def)
  then have test: "(ucast ?o < len) \<longleftrightarrow> j * 4096 < unat len" by (simp only: word_less_nat_alt)
  show ?case
  proof (cases "j * 4096 < unat len")
    case False
    then have "\<not> i * 4096 < unat len" if "j \<le> i" for i using that by (simp add: mult_le_mono1 le_trans [of _ "j * 4096"])
    then have "used m = (\<lambda>p. used m p \<or> (\<exists>i < N_PAGES. j \<le> i \<and> i * 4096 < unat len \<and> page_of (base + of_nat (i * 4096)) = p))" by auto
    moreover have "mark_range (Suc n) base len ?o = kreturn ()" using False test by (simp only: mark_range.simps if_False)
    ultimately show ?thesis by (simp only: wp_steps same_but_pat_steps simp_thms)
  next
    case True
    then have j: "Suc j < N_PAGES" using Suc.prems(1) by (simp add: N_PAGES_def)
    have next_o: "?o + PAGE_SIZE = of_nat (Suc j * 4096)" by (simp add: PAGE_SIZE_def)
    let ?m = "set_pat (base + ?o) 0xFF m"
    have "wp (mark_range n base len (of_nat (Suc j * 4096))) (\<lambda>_ m'. same_but_pat ?m m' \<and>
      used m' = (\<lambda>p. used ?m p \<or> (\<exists>i < N_PAGES. Suc j \<le> i \<and> i * 4096 < unat len \<and> page_of (base + of_nat (i * 4096)) = p))) ?m"
      by (rule Suc.IH) (use Suc.prems j in simp_all)
    moreover have "(used ?m p \<or> (\<exists>i < N_PAGES. Suc j \<le> i \<and> i * 4096 < unat len \<and> page_of (base + of_nat (i * 4096)) = p)) \<longleftrightarrow>
        (used m p \<or> (\<exists>i < N_PAGES. j \<le> i \<and> i * 4096 < unat len \<and> page_of (base + of_nat (i * 4096)) = p))" for p
    proof -
      have "(\<exists>i < N_PAGES. j \<le> i \<and> R i) \<longleftrightarrow> R j \<or> (\<exists>i < N_PAGES. Suc j \<le> i \<and> R i)" for R
        using j by (metis Suc_leD Suc_leI Suc_lessD le_neq_implies_less order_refl)
      from this [of "\<lambda>i. i * 4096 < unat len \<and> page_of (base + of_nat (i * 4096)) = p"] True show ?thesis
        by (auto simp: used_mark)
    qed
    ultimately have "wp (mark_range n base len (of_nat (Suc j * 4096))) (\<lambda>_ m'. same_but_pat m m' \<and>
      used m' = (\<lambda>p. used m p \<or> (\<exists>i < N_PAGES. j \<le> i \<and> i * 4096 < unat len \<and> page_of (base + of_nat (i * 4096)) = p))) ?m"
      by (elim wp_mono) (auto intro: same_but_pat_steps(3) [OF same_but_pat_steps(2)])
    with True test show ?thesis by (simp only: mark_range.simps if_True next_o wp_bind) (simp add: kern_simps)
  qed
qed simp

lemma wp_mark_range:
  assumes "unat len \<le> 2 ^ 32 - 4096"
  shows "wp (mark_range setup_bound base len 0) (\<lambda>_ m'. same_but_pat m m' \<and> used m' = (\<lambda>p. used m p \<or> covers base len p)) m"
  using mark_range_from [OF assms, of 0 setup_bound base m] by (simp add: setup_bound_def stepped_covers [OF assms, symmetric] stepped_def N_PAGES_def)

lemma page_address_end: "page_address N_PAGES = 0"
  by (simp add: page_address_def N_PAGES_def push_bit_eq_mult)

lemma MAX_MEM_less: "a < MAX_MEM \<longleftrightarrow> a + 1 \<noteq> 0"
proof -
  have "MAX_MEM = - 1" by (simp add: MAX_MEM_def)
  then show ?thesis by (metis add_diff_cancel_right' add.left_inverse diff_0 word_order.not_eq_extremum)
qed

lemma mark_upper_from:
  assumes "max_address m + 1 = page_address q" "q + j \<le> N_PAGES" "N_PAGES - (q + j) < n" "0 < q"
  shows "wp (mark_upper n (of_nat (j * 4096))) (\<lambda>_ m'. same_but_pat m m' \<and>
    used m' = (\<lambda>p. used m p \<or> q + j \<le> p \<and> p < N_PAGES)) m"
  using assms
proof (induction n arbitrary: j m)
  case (Suc n)
  let ?o = "of_nat (j * 4096) :: 32 word"
  have "?o = page_address j" by (simp add: page_address_def push_bit_eq_mult)
  moreover have "page_address j + page_address q = page_address (q + j)" by (simp add: page_address_def push_bit_eq_mult distrib_left)
  ultimately have a: "?o + max_address m + 1 = page_address (q + j)" using Suc.prems(1) by (simp add: add.assoc)
  show ?case
  proof (cases "q + j = N_PAGES")
    case True
    then have "\<not> ?o + max_address m < MAX_MEM" using a page_address_end by (simp only: MAX_MEM_less simp_thms)
    then have "mark_upper (Suc n) ?o m = Inr ((), m)" by (simp only: mark_upper.simps kern_simps if_False)
    moreover have "used m = (\<lambda>p. used m p \<or> q + j \<le> p \<and> p < N_PAGES)" using True by auto
    ultimately show ?thesis using same_but_pat_steps(1) [of m] by (simp only: wp_run simp_thms)
  next
    case False
    then have lt: "q + j < N_PAGES" using Suc.prems(2) by simp
    have go: "?o + max_address m < MAX_MEM" using a page_address_0 [OF lt] Suc.prems(4) by (simp add: MAX_MEM_less)
    let ?m = "set_pat (?o + max_address m + 1) 0xFF m"
    have next_o: "?o + PAGE_SIZE = of_nat (Suc j * 4096)" by (simp add: PAGE_SIZE_def)
    have "wp (mark_upper n (of_nat (Suc j * 4096))) (\<lambda>_ m'. same_but_pat ?m m' \<and> used m' = (\<lambda>p. used ?m p \<or> q + Suc j \<le> p \<and> p < N_PAGES)) ?m"
      by (rule Suc.IH) (use Suc.prems lt in simp_all)
    moreover have "used ?m = (\<lambda>p. used m p \<or> p = q + j)" unfolding used_mark a page_of_page_address [OF lt] by (rule refl)
    ultimately have "wp (mark_upper n (of_nat (Suc j * 4096))) (\<lambda>_ m'. same_but_pat m m' \<and> used m' = (\<lambda>p. used m p \<or> q + j \<le> p \<and> p < N_PAGES)) ?m"
      using lt by (elim wp_mono) (auto intro: same_but_pat_steps(3) [OF same_but_pat_steps(2)])
    with go show ?thesis by (simp only: mark_upper.simps wp_bind wp_steps if_True next_o)
  qed
qed simp

lemma low_bits: "unat (a AND ALIGN_MASK) = unat a mod 4096"
  unfolding KB_mask take_bit_eq_mask [symmetric] unsigned_take_bit_eq by (simp add: take_bit_eq_mod)

text \<open>When the top of memory is not at the end of a page, the loop never ends.\<close>

lemma mark_upper_hangs:
  assumes "(max_address m + 1) AND ALIGN_MASK \<noteq> 0" "offset AND ALIGN_MASK = 0"
  shows "mark_upper n offset m = Inl Diverges"
  using assms
proof (induction n arbitrary: offset m)
  case (Suc n)
  have low: "(offset + x) AND ALIGN_MASK = x AND ALIGN_MASK" if "offset AND ALIGN_MASK = 0" for offset x :: "32 word"
  proof -
    have "unat (offset + x) mod 4096 = (unat offset + unat x) mod 4096" by (simp add: unat_word_ariths mod_mod_cancel)
    also have "\<dots> = unat x mod 4096" using that low_bits [of offset] mod_add_left_eq [of "unat offset" 4096 "unat x"] by simp
    finally show ?thesis by (simp add: word_unat_eq_iff low_bits)
  qed
  have "offset + max_address m + 1 \<noteq> 0"
    using low [OF Suc.prems(2), of "max_address m + 1"] Suc.prems(1) by (auto simp: add.assoc)
  moreover have "(offset + PAGE_SIZE) AND ALIGN_MASK = 0"
    using low [OF Suc.prems(2), of PAGE_SIZE] by (simp add: PAGE_SIZE_def ALIGN_MASK_def)
  ultimately show ?case
    using Suc.IH [of "set_pat (offset + max_address m + 1) 0xFF m" "offset + PAGE_SIZE"] Suc.prems(1)
    by (simp add: kern_simps MAX_MEM_less)
qed (simp add: kern_run)

subsection \<open>The set-up as a whole\<close>

text \<open>The pages the memory map reserves, and all the pages the table marks when the top of memory is page \<^verbatim>\<open>q\<close>.\<close>

definition reserved :: "mm_entry list \<Rightarrow> nat \<Rightarrow> bool" where
  "reserved entries p \<longleftrightarrow> (\<exists>e \<in> set entries. \<not> (base_h e > 0 \<or> mm_type e = FREE_TYPE) \<and> covers (base_l e) (mm_length e) p)"

definition marked :: "mm_entry list \<Rightarrow> 32 word \<Rightarrow> nat \<Rightarrow> nat \<Rightarrow> bool" where
  "marked entries tab q p \<longleftrightarrow> reserved entries p \<or> p < 256 \<or> covers tab (of_nat pat_size) p \<or> q \<le> p"

definition sized :: "mm_entry list \<Rightarrow> bool" where
  "sized entries \<longleftrightarrow> (\<forall>e \<in> set entries. unat (mm_length e) \<le> 2 ^ 32 - 4096)"

lemma wp_mark_reserved:
  assumes "sized entries"
  shows "wp (kfor entries (\<lambda>e. if base_h e > 0 \<or> mm_type e = FREE_TYPE then kreturn ()
       else mark_range setup_bound (base_l e) (mm_length e) 0))
    (\<lambda>_ m'. same_but_pat m m' \<and> used m' = (\<lambda>p. used m p \<or> reserved entries p)) m"
proof (rule wp_kfor [where I = "\<lambda>js m'. same_but_pat m m' \<and> used m' = (\<lambda>p. used m p \<or> reserved js p)"])
  show "same_but_pat m m \<and> used m = (\<lambda>p. used m p \<or> reserved [] p)" by (simp add: same_but_pat_steps reserved_def)
next
  fix js e m1
  assume "\<exists>rest. entries = js @ e # rest" and I: "same_but_pat m m1 \<and> used m1 = (\<lambda>p. used m p \<or> reserved js p)"
  then have len: "unat (mm_length e) \<le> 2 ^ 32 - 4096" using assms by (auto simp: sized_def)
  have app: "reserved (js @ [e]) p \<longleftrightarrow> reserved js p \<or> (\<not> (base_h e > 0 \<or> mm_type e = FREE_TYPE) \<and> covers (base_l e) (mm_length e) p)" for p
    by (auto simp: reserved_def)
  show "wp (if base_h e > 0 \<or> mm_type e = FREE_TYPE then kreturn () else mark_range setup_bound (base_l e) (mm_length e) 0)
      (\<lambda>_ m'. same_but_pat m m' \<and> used m' = (\<lambda>p. used m p \<or> reserved (js @ [e]) p)) m1"
  proof (cases "base_h e > 0 \<or> mm_type e = FREE_TYPE")
    case True
    then show ?thesis using I by (simp add: kern_simps app)
  next
    case False
    then show ?thesis
      unfolding app using I wp_mark_range [OF len, of "base_l e" m1]
      by (auto elim!: wp_mono intro: same_but_pat_steps(3))
  qed
qed

lemma covers_MB: "covers 0 (ucast MB) p \<longleftrightarrow> p < 256"
proof -
  have l: "unat (ucast MB :: 64 word) = 256 * 4096" by (simp add: MB_def)
  have "page_of (of_nat (j * 4096)) = j" if "j < N_PAGES" for j
  proof -
    have "(of_nat (j * 4096) :: 32 word) = page_address j" by (simp add: page_address_def push_bit_eq_mult)
    then show ?thesis using page_of_page_address [OF that] by metis
  qed
  then have "stepped 0 (ucast MB) p \<longleftrightarrow> p < 256" unfolding stepped_def l by (auto simp: N_PAGES_def simp del: of_nat_mult intro!: exI [of _ p])
  then show ?thesis by (simp add: stepped_covers l)
qed

lemma used_frame [simp]:
  "used (m\<lparr>last_availible := x\<rparr>) = used m" "used (m\<lparr>max_address := y\<rparr>) = used m" "used (m\<lparr>page_availibility_table := y\<rparr>) = used m" "used (m\<lparr>mem := z\<rparr>) = used m"
  by (simp_all add: used_def fun_eq_iff)

definition table_at :: "mm_entry list \<Rightarrow> mmodule \<Rightarrow> 32 word" where
  "table_at entries m = page_availibility_table (find_table entries m)"

lemma wp_setup_pat:
  assumes sized: "sized entries" and top: "max_address m + 1 = page_address q" "0 < q" "q < N_PAGES - 1"
  shows "wp (setup_page_availibility_table entries) (\<lambda>_ m'. last_availible m' = 0 \<and>
    (\<forall>p < N_PAGES. used m' p \<longleftrightarrow> marked entries (table_at entries m) q p)) m"
proof -
  let ?tab = "table_at entries m"
  let ?m1 = "(find_table entries m)\<lparr>mem := kmemset pat_size ?tab 0 (mem (find_table entries m)), pat := \<lambda>_. 0\<rparr>"
  have m1: "used ?m1 = (\<lambda>p. False)" "max_address ?m1 = max_address m" "page_availibility_table ?m1 = ?tab"
    by (simp_all add: used_def fun_eq_iff find_table_def table_at_def split: option.split)
  have below: "max_address m < MAX_MEM - PAGE_SIZE"
  proof -
    have "unat (max_address m) + 1 = q * 4096"
    proof -
      have "max_address m = page_address q - 1" using top(1) by (metis add_diff_cancel_right')
      moreover have "page_address q \<noteq> 0" using page_address_0 [of q] top by simp
      ultimately have "unat (max_address m) = q * 4096 - 1" using unat_page_address [of q] top by (simp add: unat_minus_one)
      then show ?thesis using top by simp
    qed
    moreover have "q * 4096 + 4096 \<le> 2 ^ 32 - 4096" using top(3) by (simp add: N_PAGES_def)
    ultimately show ?thesis by (simp add: word_less_nat_alt MAX_MEM_def PAGE_SIZE_def)
  qed
  let ?Q = "\<lambda>_ m'. last_availible m' = 0 \<and> (\<forall>p < N_PAGES. used m' p \<longleftrightarrow> marked entries ?tab q p)"
  have last: "wp (mark_range setup_bound ?tab (of_nat pat_size) 0) (\<lambda>_. wp (kmodify (\<lambda>m. m\<lparr>last_availible := 0\<rparr>)) ?Q) m4"
    if "used m4 = (\<lambda>p. ((False \<or> reserved entries p) \<or> covers 0 (ucast MB) p) \<or> q \<le> p \<and> p < N_PAGES)" for m4
  proof -
    have "wp (mark_range setup_bound ?tab (of_nat pat_size) 0) (\<lambda>_ m5. same_but_pat m4 m5 \<and> used m5 = (\<lambda>p. used m4 p \<or> covers ?tab (of_nat pat_size) p)) m4"
      by (rule wp_mark_range) (simp add: pat_size_def)
    then show ?thesis
      by (rule wp_mono) (auto simp: kern_simps that marked_def covers_MB)
  qed
  have upper: "wp (mark_upper setup_bound 0) (\<lambda>_ m4. page_availibility_table m4 = ?tab \<and>
      used m4 = (\<lambda>p. ((False \<or> reserved entries p) \<or> covers 0 (ucast MB) p) \<or> q \<le> p \<and> p < N_PAGES)) m3"
    if m3: "same_but_pat ?m1 m3" "used m3 = (\<lambda>p. (False \<or> reserved entries p) \<or> covers 0 (ucast MB) p)" for m3
  proof -
    have "wp (mark_upper setup_bound (of_nat (0 * 4096))) (\<lambda>_ m4. same_but_pat m3 m4 \<and> used m4 = (\<lambda>p. used m3 p \<or> q + 0 \<le> p \<and> p < N_PAGES)) m3"
      by (rule mark_upper_from) (use top same_but_patD [OF m3(1)] m1(2) in \<open>simp_all add: setup_bound_def\<close>)
    then show ?thesis
      using same_but_patD(2) [OF m3(1)] m1(3) m3(2) by (auto simp: same_but_patD(2) elim!: wp_mono)
  qed
  have "wp (kfor entries (\<lambda>e. if base_h e > 0 \<or> mm_type e = FREE_TYPE then kreturn ()
       else mark_range setup_bound (base_l e) (mm_length e) 0))
     (\<lambda>_. wp (mark_range setup_bound 0 (ucast MB) 0) (\<lambda>_ m3. same_but_pat ?m1 m3 \<and>
        used m3 = (\<lambda>p. (False \<or> reserved entries p) \<or> covers 0 (ucast MB) p))) ?m1"
  proof (rule wp_mono [OF wp_mark_reserved [OF sized]])
    fix m2 assume m2: "same_but_pat ?m1 m2 \<and> used m2 = (\<lambda>p. used ?m1 p \<or> reserved entries p)"
    have "wp (mark_range setup_bound 0 (ucast MB) 0) (\<lambda>_ m3. same_but_pat m2 m3 \<and> used m3 = (\<lambda>p. used m2 p \<or> covers 0 (ucast MB) p)) m2"
      by (rule wp_mark_range) (simp add: MB_def)
    then show "wp (mark_range setup_bound 0 (ucast MB) 0) (\<lambda>_ m3. same_but_pat ?m1 m3 \<and>
        used m3 = (\<lambda>p. (False \<or> reserved entries p) \<or> covers 0 (ucast MB) p)) m2"
      using m2 m1(1) by (auto elim!: wp_mono intro: same_but_pat_steps(3))
  qed
  then have "wp (kfor entries (\<lambda>e. if base_h e > 0 \<or> mm_type e = FREE_TYPE then kreturn ()
       else mark_range setup_bound (base_l e) (mm_length e) 0))
     (\<lambda>_. wp (mark_range setup_bound 0 (ucast MB) 0) (\<lambda>_ m3. max_address m3 < MAX_MEM - PAGE_SIZE \<and>
       wp (mark_upper setup_bound 0) (\<lambda>_ m4. wp (mark_range setup_bound (page_availibility_table m4) (of_nat pat_size) 0)
         (\<lambda>_. wp (kmodify (\<lambda>m. m\<lparr>last_availible := 0\<rparr>)) ?Q) m4) m3)) ?m1"
  proof (elim wp_mono, intro conjI; elim conjE)
    fix m3 assume m3: "same_but_pat ?m1 m3" "used m3 = (\<lambda>p. (False \<or> reserved entries p) \<or> covers 0 (ucast MB) p)"
    show "max_address m3 < MAX_MEM - PAGE_SIZE" using same_but_patD(1) [OF m3(1)] m1(2) below by simp
    show "wp (mark_upper setup_bound 0) (\<lambda>_ m4. wp (mark_range setup_bound (page_availibility_table m4) (of_nat pat_size) 0)
         (\<lambda>_. wp (kmodify (\<lambda>m. m\<lparr>last_availible := 0\<rparr>)) ?Q) m4) m3"
      by (rule wp_mono [OF upper [OF m3]], elim conjE) (simp only: last)
  qed
  then show ?thesis
    unfolding setup_page_availibility_table_def wp_bind
    by (simp add: wp_steps table_at_def) (auto elim!: wp_mono simp: wp_steps wp_bind table_at_def)
qed

text \<open>The allocator's pages and the kernel's directory do not meet.\<close>

lemma identity_fresh:
  assumes id: "identity_ok z m" and p: "\<not> used m p" and m': "used m' = (used m)(p := True)"
      "mem m' = (\<lambda>x. if x \<in> page p then 0 else mem m x)" "last_availible m' < pat_size"
      "page_directory m' = page_directory m" "page_table m' = page_table m"
  shows "identity_ok z m'" "p \<noteq> z" "p \<notin> tables z m'" "p \<noteq> 0"
proof -
  have ok: "dir_ok z m" using id by (simp add: identity_ok_def)
  note f = fresh_page_dir [OF ok p m']
  show "identity_ok z m'" using id f(5,6,8) m'(4,5) by (simp add: identity_ok_def)
  show "p \<noteq> z" "p \<notin> tables z m'" "p \<noteq> 0" using f(1-4) by simp_all
qed

lemma identity_freed:
  assumes id: "identity_ok z m" and p: "page_of a = p" "p \<noteq> z" "p \<notin> tables z m" "p \<noteq> 0"
  shows "identity_ok z (set_pat a 0 m)"
proof -
  have u: "used (set_pat a 0 m) = (used m)(p := False)" using free_page_spec(2) p(1) by metis
  have same: "table z (set_pat a 0 m) = table z m" "tables z (set_pat a 0 m) = tables z m" "translate z (set_pat a 0 m) = translate z m"
    by (simp_all add: table_def tables_def translate_def Let_def fun_eq_iff)
  have "dir_ok z m" using id by (simp add: identity_ok_def)
  then have "dir_ok z (set_pat a 0 m)" using p unfolding dir_ok_def same u by auto
  then show ?thesis using id by (simp add: identity_ok_def same)
qed

lemma free_pages_freed:
  assumes "used m p" "p < N_PAGES" "used m' = (used m)(p := False)"
  shows "free_pages m' = Suc (free_pages m)"
proof -
  have "used m = (used m')(p := True)" "\<not> used m' p" using assms(1,3) by (auto simp: fun_eq_iff)
  then show ?thesis using free_pages_take [OF assms(2)] by blast
qed

lemma wp_init_memory:
  assumes sized: "sized entries" and top: "max_address (fold raise_max entries m) + 1 = page_address q" "0 < q" "q < N_PAGES - 1"
    and room: "1026 \<le> card {p. p < N_PAGES \<and> \<not> marked entries (table_at entries (fold raise_max entries m)) q p}"
  shows "wp (init_memory entries) (\<lambda>_ m'. \<exists>z. identity_ok z m') m"
proof -
  let ?m1 = "fold raise_max entries m"
  have alloc: "wp get_next_page (\<lambda>a m'. \<exists>p. a = page_address p \<and> p < N_PAGES \<and> used m' p \<and> identity_ok z m' \<and> p \<noteq> z \<and> p \<notin> tables z m' \<and> p \<noteq> 0 \<and> free_pages m3 = Suc (free_pages m')) m3"
    if "identity_ok z m3" "0 < free_pages m3" for z m3
  proof -
    have "last_availible m3 < pat_size" using that(1) dir_okD(4) by (auto simp: identity_ok_def)
    then show ?thesis using that(2) by (rule wp_get_next_page) (use identity_fresh [OF that(1)] in fastforce)
  qed
  have test: "wp get_next_page (\<lambda>address. wp (free_page address) (\<lambda>_. wp get_next_page (\<lambda>_. wp (kreturn ()) (\<lambda>_ m'. \<exists>z. identity_ok z m')))) m3"
    if id: "identity_ok z m3" and free: "0 < free_pages m3" for z m3
  proof (rule wp_mono [OF alloc [OF id free]], elim exE conjE)
    fix a m4 p
    assume p: "a = page_address p" "p < N_PAGES" "used m4 p" "identity_ok z m4" "p \<noteq> z" "p \<notin> tables z m4" "p \<noteq> 0" "free_pages m3 = Suc (free_pages m4)"
    have pa: "page_of a = p" "a AND ALIGN_MASK = 0" using page_of_page_address [OF p(2)] aligned_page [of p 0] p(1) by simp_all
    have "free_pages (set_pat a 0 m4) = Suc (free_pages m4)"
      by (rule free_pages_freed [OF p(3,2)]) (simp add: free_page_spec(2) pa(1))
    then have "wp get_next_page (\<lambda>_ m'. \<exists>z. identity_ok z m') (set_pat a 0 m4)"
      by (intro wp_mono [OF alloc [OF identity_freed [OF p(4) pa(1) p(5-7)]]]) auto
    then show "wp (free_page a) (\<lambda>_. wp get_next_page (\<lambda>_. wp (kreturn ()) (\<lambda>_ m'. \<exists>z. identity_ok z m'))) m4"
      using pa(2) by (simp add: wp_run [where m = "free_page a" and s = m4, OF free_page_spec(1) [of a m4, unfolded pa(2), simplified]])
        (erule wp_mono, simp add: wp_steps)
  qed
  have "wp (setup_page_availibility_table entries) (\<lambda>_. wp setup_initial_page_table (\<lambda>_.
      wp get_next_page (\<lambda>address. wp (free_page address) (\<lambda>_. wp get_next_page (\<lambda>_. wp (kreturn ()) (\<lambda>_ m'. \<exists>z. identity_ok z m')))))) ?m1"
  proof (rule wp_mono [OF wp_setup_pat [OF sized top]], elim conjE)
    fix m2 assume m2: "last_availible m2 = 0" "\<forall>p < N_PAGES. used m2 p \<longleftrightarrow> marked entries (table_at entries ?m1) q p"
    have "{p. p < N_PAGES \<and> \<not> used m2 p} = {p. p < N_PAGES \<and> \<not> marked entries (table_at entries ?m1) q p}" using m2(2) by auto
    then have fr: "1026 \<le> free_pages m2" using room by (simp add: free_pages_def)
    have "used m2 0" "last_availible m2 < pat_size" using m2 by (simp_all add: marked_def N_PAGES_def pat_size_def)
    then have "wp setup_initial_page_table (\<lambda>_ m3. (\<exists>z. identity_ok z m3) \<and> free_pages m2 = free_pages m3 + 1025 \<and> (\<forall>q. used m2 q \<longrightarrow> used m3 q)) m2"
      using fr by (intro wp_setup_initial_page_table) simp_all
    then show "wp setup_initial_page_table (\<lambda>_.
      wp get_next_page (\<lambda>address. wp (free_page address) (\<lambda>_. wp get_next_page (\<lambda>_. wp (kreturn ()) (\<lambda>_ m'. \<exists>z. identity_ok z m'))))) m2"
      by (rule wp_mono) (use fr test in auto)
  qed
  then show ?thesis
    unfolding init_memory_def disp_memory_map_def wp_bind by (simp add: wp_steps)
qed

subsection \<open>Properties\<close>

lemma identity_phys: "identity_ok z m \<Longrightarrow> get_phys_address (page_directory m) v m = v AND NOT ALIGN_MASK"
  using get_phys_translate [of z v m] dir_okD(1) [of z m] by (simp add: identity_ok_def align_down)

lemma covers_page:
  assumes "b + (unat len + 4095) div 4096 \<le> N_PAGES" "unat len \<le> 2 ^ 32 - 4096"
  shows "covers (page_address b) len p \<longleftrightarrow> b \<le> p \<and> p < b + (unat len + 4095) div 4096"
proof -
  have lt: "j * 4096 < unat len \<longleftrightarrow> j < (unat len + 4095) div 4096" for j :: nat
    by (simp add: less_eq_Suc_le [of j] less_eq_div_iff_mult_less_eq) arith
  have "page_of (page_address b + of_nat (j * 4096)) = b + j" if "j < (unat len + 4095) div 4096" for j
  proof -
    have "page_address b + of_nat (j * 4096) = page_address (b + j)" by (simp add: page_address_def push_bit_eq_mult distrib_left)
    moreover have "page_of (page_address (b + j)) = b + j" using assms that by (intro page_of_page_address) simp
    ultimately show ?thesis by metis
  qed
  then have "stepped (page_address b) len p \<longleftrightarrow> b \<le> p \<and> p < b + (unat len + 4095) div 4096"
    unfolding stepped_def lt using assms(1) by (auto simp del: of_nat_mult intro!: exI [of _ "p - b"])
  then show ?thesis by (simp add: stepped_covers [OF assms(2)])
qed

text \<open>A map of 128 MiB: low memory, a reserved hole, and the rest.\<close>

definition sample_map :: "mm_entry list" where
  "sample_map = [\<lparr>base_l = 0, base_h = 0, mm_length = 0x9F000, mm_type = 1\<rparr>, \<lparr>base_l = 0x7000000, base_h = 0, mm_length = 0x10000, mm_type = 2\<rparr>,
     \<lparr>base_l = 0x100000, base_h = 0, mm_length = 0x7F00000, mm_type = 1\<rparr>]"

lemma sample_facts:
  "sized sample_map" "max_address (fold raise_max sample_map (blank_memory\<lparr>max_address := 0\<rparr>)) + 1 = page_address 0x8000"
  "marked sample_map (table_at sample_map (fold raise_max sample_map (blank_memory\<lparr>max_address := 0\<rparr>))) 0x8000 p \<longleftrightarrow>
     p < 0x120 \<or> 0x7000 \<le> p \<and> p < 0x7010 \<or> 0x8000 \<le> p"
proof -
  show "sized sample_map" by (simp add: sized_def sample_map_def)
  show "max_address (fold raise_max sample_map (blank_memory\<lparr>max_address := 0\<rparr>)) + 1 = page_address 0x8000"
    by (simp add: sample_map_def raise_max_def Let_def length_l_def blank_memory_def page_address_def push_bit_eq_mult)
  have tab: "table_at sample_map (fold raise_max sample_map (blank_memory\<lparr>max_address := 0\<rparr>)) = page_address 0x100"
    by (simp add: sample_map_def table_at_def find_table_def raise_max_def Let_def length_l_def pat_size_def blank_memory_def page_address_def push_bit_eq_mult)
  have res: "reserved sample_map p \<longleftrightarrow> covers (page_address 0x7000) 0x10000 p"
    by (simp add: reserved_def sample_map_def FREE_TYPE_def page_address_def push_bit_eq_mult)
  show "marked sample_map (table_at sample_map (fold raise_max sample_map (blank_memory\<lparr>max_address := 0\<rparr>))) 0x8000 p \<longleftrightarrow>
     p < 0x120 \<or> 0x7000 \<le> p \<and> p < 0x7010 \<or> 0x8000 \<le> p"
    unfolding marked_def tab res using covers_page [where b = "0x100" and len = "of_nat pat_size" and p = p] covers_page [where b = "0x7000" and len = "0x10000" and p = p]
    by (auto simp: N_PAGES_def pat_size_def)
qed

lemma sample_room: "1026 \<le> card {p. p < N_PAGES \<and> \<not> (p < 0x120 \<or> 0x7000 \<le> p \<and> p < 0x7010 \<or> 0x8000 \<le> p)}" (is "_ \<le> card ?A")
proof -
  have "{0x120..<0x7000} \<subseteq> ?A" by (auto simp: N_PAGES_def)
  then have "card {0x120..<0x7000 :: nat} \<le> card ?A" by (rule card_mono [rotated]) simp
  then show ?thesis by simp
qed

text \<open>A map whose entry for the table does not begin on a page boundary.\<close>

definition crooked_map :: "mm_entry list" where
  "crooked_map = [\<lparr>base_l = 0x100800, base_h = 0, mm_length = 0x7EFF800, mm_type = 1\<rparr>]"

lemma crooked_facts:
  "sized crooked_map" "max_address (fold raise_max crooked_map (blank_memory\<lparr>max_address := 0\<rparr>)) + 1 = page_address 0x8000"
  "table_at crooked_map (fold raise_max crooked_map (blank_memory\<lparr>max_address := 0\<rparr>)) = 0x100800" "\<not> reserved crooked_map p"
proof -
  show "sized crooked_map" by (simp add: sized_def crooked_map_def)
  show "max_address (fold raise_max crooked_map (blank_memory\<lparr>max_address := 0\<rparr>)) + 1 = page_address 0x8000"
    by (simp add: crooked_map_def raise_max_def Let_def length_l_def blank_memory_def page_address_def push_bit_eq_mult)
  show "table_at crooked_map (fold raise_max crooked_map (blank_memory\<lparr>max_address := 0\<rparr>)) = 0x100800"
    by (simp add: crooked_map_def table_at_def find_table_def raise_max_def Let_def length_l_def pat_size_def blank_memory_def)
  show "\<not> reserved crooked_map p" by (simp add: reserved_def crooked_map_def FREE_TYPE_def)
qed

lemma table_straddles: "straddles tab (of_nat pat_size) \<longleftrightarrow> tab AND ALIGN_MASK \<noteq> 0"
proof -
  have "unat (of_nat pat_size :: 64 word) = 0x20000" by (simp add: pat_size_def)
  then have "straddles tab (of_nat pat_size) \<longleftrightarrow> unat tab mod 4096 \<noteq> 0" by (simp add: straddles_def) linarith
  then show ?thesis by (simp add: low_bits [symmetric] unat_eq_0)
qed

text \<open>
  The page availability table (C17). When the highest address ends a page and no entry of the memory map
  is longer than the address space less one page, the set-up returns, and exactly these pages are marked: the
  pages that the map's reserved ranges occupy, the first megabyte, the pages the table itself occupies, and
  everything above the highest address, except that of a range that does not begin on a page boundary the
  last page is left out when the range reaches into one page more than its length fills. So a table that
  begins on a page boundary is marked as a whole, and of any other table the last page stays free unless it
  is marked for another reason.
\<close>

theorem memory_table_marks:
  assumes "sized entries" "max_address m + 1 = page_address q" "0 < q" "q < N_PAGES - 1"
  shows "\<exists>m'. setup_page_availibility_table entries m = Inr ((), m') \<and> last_availible m' = 0 \<and>
    (\<forall>p < N_PAGES. used m' p \<longleftrightarrow> reserved entries p \<or> p < 256 \<or> covers (table_at entries m) (of_nat pat_size) p \<or> q \<le> p) \<and>
    (if table_at entries m AND ALIGN_MASK = 0
     then \<forall>p. occupies (table_at entries m) (of_nat pat_size) p \<longrightarrow> used m' p
     else let t = page_of (table_at entries m + of_nat (pat_size - 1)) in
       occupies (table_at entries m) (of_nat pat_size) t \<and> (used m' t \<longleftrightarrow> reserved entries t \<or> t < 256 \<or> q \<le> t))"
proof -
  let ?tab = "table_at entries m" and ?n = "of_nat pat_size :: 64 word"
  obtain m' where m': "setup_page_availibility_table entries m = Inr ((), m')" "last_availible m' = 0"
    "\<forall>p < N_PAGES. used m' p \<longleftrightarrow> reserved entries p \<or> p < 256 \<or> covers ?tab ?n p \<or> q \<le> p"
    using wp_setup_pat [OF assms] by (auto simp: wp_iff marked_def)
  have n: "unat ?n = pat_size" "0 < pat_size" by (simp_all add: pat_size_def)
  have inside: "p < N_PAGES" if "occupies ?tab ?n p" for p using that page_of_less by (auto simp: occupies_def)
  let ?t = "page_of (?tab + of_nat (pat_size - 1))"
  have t: "occupies ?tab ?n ?t" using n by (auto simp: occupies_def intro!: exI [of _ "pat_size - 1"])
  have "\<forall>p. occupies ?tab ?n p \<longrightarrow> used m' p" if "?tab AND ALIGN_MASK = 0"
    using m'(3) inside that table_straddles by (auto simp: covers_def)
  moreover have "used m' ?t \<longleftrightarrow> reserved entries ?t \<or> ?t < 256 \<or> q \<le> ?t" if "?tab AND ALIGN_MASK \<noteq> 0"
  proof -
    have "\<not> covers ?tab ?n ?t" using that table_straddles n(1) by (simp add: covers_def)
    then show ?thesis using m'(3) inside [OF t] by simp
  qed
  ultimately show ?thesis using m' t by (auto simp: Let_def)
qed

theorem memory_table_marks_witness:
  "(\<exists>m'. setup_page_availibility_table sample_map (fold raise_max sample_map (blank_memory\<lparr>max_address := 0\<rparr>)) = Inr ((), m') \<and>
     used m' 0x11F \<and> \<not> used m' 0x120 \<and> used m' 0x700F \<and> \<not> used m' 0x7010) \<and>
   (\<exists>m'. setup_page_availibility_table crooked_map (fold raise_max crooked_map (blank_memory\<lparr>max_address := 0\<rparr>)) = Inr ((), m') \<and>
     occupies 0x100800 (of_nat pat_size) 0x120 \<and> \<not> used m' 0x120)"
proof
  obtain m' where m': "setup_page_availibility_table sample_map (fold raise_max sample_map (blank_memory\<lparr>max_address := 0\<rparr>)) = Inr ((), m')"
    "\<forall>p < N_PAGES. used m' p \<longleftrightarrow> marked sample_map (table_at sample_map (fold raise_max sample_map (blank_memory\<lparr>max_address := 0\<rparr>))) 0x8000 p"
    using memory_table_marks [OF sample_facts(1,2)] by (auto simp: N_PAGES_def marked_def)
  then show "\<exists>m'. setup_page_availibility_table sample_map (fold raise_max sample_map (blank_memory\<lparr>max_address := 0\<rparr>)) = Inr ((), m') \<and>
     used m' 0x11F \<and> \<not> used m' 0x120 \<and> used m' 0x700F \<and> \<not> used m' 0x7010" by (simp add: sample_facts(3) N_PAGES_def)
next
  have t: "page_of (0x100800 + of_nat (pat_size - 1)) = 0x120" "(0x100800 :: 32 word) AND ALIGN_MASK \<noteq> 0"
    by (simp_all add: page_of_div pat_size_def ALIGN_MASK_def)
  from memory_table_marks [OF crooked_facts(1,2), unfolded crooked_facts(3)] t crooked_facts(4)
  show "\<exists>m'. setup_page_availibility_table crooked_map (fold raise_max crooked_map (blank_memory\<lparr>max_address := 0\<rparr>)) = Inr ((), m') \<and>
     occupies 0x100800 (of_nat pat_size) 0x120 \<and> \<not> used m' 0x120" by (auto simp: N_PAGES_def Let_def)
qed

text \<open>
  Memory is ready (C16). When the highest address ends a page, below the last page of the address space, no
  entry of the map is longer than the address space less one page, and at least 1026 pages stay unmarked,
  the set-up of memory by \<^verbatim>\<open>_init\<close> returns, and the kernel's page directory translates every address to the page
  it lies in. Without the first condition it does not return (see the property on an unaligned top of memory).
\<close>

theorem memory_set_up:
  assumes "sized entries" "max_address (fold raise_max entries m) + 1 = page_address q" "0 < q" "q < N_PAGES - 1"
    "1026 \<le> card {p. p < N_PAGES \<and> \<not> marked entries (table_at entries (fold raise_max entries m)) q p}"
  shows "\<exists>m'. init_memory entries m = Inr ((), m') \<and> (\<forall>v. get_phys_address (page_directory m') v m' = v AND NOT ALIGN_MASK)"
  using wp_init_memory [OF assms] identity_phys by (auto simp: wp_iff)

theorem memory_set_up_witness:
  "\<exists>m'. init_memory sample_map (blank_memory\<lparr>max_address := 0\<rparr>) = Inr ((), m') \<and> get_phys_address (page_directory m') 0xDEADBEEF m' = 0xDEADB000"
proof -
  from memory_set_up [OF sample_facts(1,2), unfolded sample_facts(3), OF _ _ sample_room] show ?thesis
    by (force simp: N_PAGES_def ALIGN_MASK_def)
qed

text \<open>
  Address spaces are separate (C14). A new address space translates the first 4 MiB to themselves and
  nothing else; after memory has been mapped into it, the kernel's directory still translates every
  address to the page it lies in.
\<close>

theorem process_space_isolated:
  assumes "identity_ok z m" "1024 \<le> vp" "vp + pages_for len < N_PAGES" "2 * pages_for len < free_pages m"
  shows "\<exists>s m1 m2. new_page_directory m = Inr (page_address s, m1) \<and>
    (\<forall>w. get_phys_address (page_address s) w m1 = (if page_of w < 1024 then w AND NOT ALIGN_MASK else 0)) \<and>
    k_mmap (page_address s) (page_address vp) 0 len m1 = Inr ((page_address vp, E_SUCCESS), m2) \<and>
    (\<forall>w. get_phys_address (page_directory m2) w m2 = w AND NOT ALIGN_MASK)"
proof -
  have "0 < free_pages m" using assms(4) by simp
  from wp_new_page_directory [OF assms(1) this, of "\<lambda>a m1. \<exists>s. a = page_address s \<and> s < N_PAGES \<and> \<not> used m s \<and> used m1 = (used m)(s := True) \<and>
      dir_ok s m1 \<and> identity_ok z m1 \<and> apart z s m1 \<and> (\<forall>w. translate s m1 w = (if page_of w < 1024 then page_of w else 0))"]
  obtain s m1 where s: "new_page_directory m = Inr (page_address s, m1)" "s < N_PAGES" "\<not> used m s" "used m1 = (used m)(s := True)"
      "dir_ok s m1" "identity_ok z m1" "apart z s m1" "\<forall>w. translate s m1 w = (if page_of w < 1024 then page_of w else 0)"
    by (auto simp: wp_iff)
  have zN: "z < N_PAGES" "page_directory m1 = page_address z" using s(6) dir_okD(1) by (auto simp: identity_ok_def)
  have "page_address z \<noteq> page_address s" using s(2,7) zN(1) page_of_page_address by (metis apart_def)
  then have "page_directory m1 \<noteq> page_address s" using zN(2) by simp
  moreover have "2 * pages_for len \<le> free_pages m1" using assms(4) free_pages_take [OF s(2-4)] by simp
  ultimately obtain m2 f where m2: "k_mmap (page_address s) (page_address vp) 0 len m1 = Inr ((page_address vp, E_SUCCESS), m2)"
    "dir_ok s m2" "untouched s m1 m2"
    using k_mmap_fresh [OF s(5) _ assms(2,3)] by blast
  have "identity_ok z m2" by (rule untouched_identity [OF s(6,7) m2(3) dir_okD(4) [OF m2(2)]])
  then show ?thesis
    using s(1,8) m2(1) identity_phys [of z m2] get_phys_translate [OF s(2)] by (intro exI [of _ s] exI [of _ m1] exI [of _ m2]) (auto simp: align_down)
qed

theorem process_space_isolated_witness:
  "\<exists>m s m1 m2. new_page_directory m = Inr (page_address s, m1) \<and> get_phys_address (page_address s) 0x400000 m1 = 0 \<and>
    k_mmap (page_address s) 0x400000 0 0x2000 m1 = Inr ((0x400000, E_SUCCESS), m2) \<and> get_phys_address (page_directory m2) 0x400000 m2 = 0x400000"
proof -
  have "last_availible blank_memory < pat_size" by (simp add: blank_memory_def pat_size_def)
  then have "wp setup_initial_page_table (\<lambda>_ m'. (\<exists>z. identity_ok z m') \<and> free_pages blank_memory = free_pages m' + 1025 \<and> (\<forall>q. used blank_memory q \<longrightarrow> used m' q)) blank_memory"
    by (intro wp_setup_initial_page_table) (simp_all add: used_blank blank_dir N_PAGES_def)
  then obtain z m where m: "identity_ok z m" "2 * 2 < free_pages m" by (auto simp: wp_iff blank_dir N_PAGES_def)
  have len: "pages_for 0x2000 = 2" "page_address 1024 = 0x400000" "page_of 0x400000 = 1024"
    by (simp_all add: pages_for_def page_address_def push_bit_eq_mult page_of_div)
  from process_space_isolated [OF m(1), of 1024 "0x2000"] m(2) show ?thesis
    unfolding len by (simp add: N_PAGES_def) (metis len(3) align_down len(2) less_irrefl)
qed

text \<open>
  An unaligned top of memory (C18). When the highest address does not end a page, the loop that marks
  the memory above it never ends: its offset passes the end of the address space and starts again.
\<close>

theorem unaligned_top_hangs:
  assumes "(max_address m + 1) AND ALIGN_MASK \<noteq> 0"
  shows "mark_upper n 0 m = Inl Diverges"
  using mark_upper_hangs [OF assms, of 0] by simp

theorem unaligned_top_hangs_witness: "mark_upper 1000000 0 (blank_memory\<lparr>max_address := 0x7FFFBFF\<rparr>) = Inl Diverges"
  using unaligned_top_hangs [of "blank_memory\<lparr>max_address := 0x7FFFBFF\<rparr>" 1000000] by (simp add: ALIGN_MASK_def del: mark_upper.simps)

end
