(* ===== verification/Kern_Boot.thy ===== *)
theory Kern_Boot
  imports Kern_System Kern_Memory_Init
begin

text \<open>
  System initialization (\<^verbatim>\<open>_init\<close> of \<^verbatim>\<open>baseline/system.c\<close>): from the zeroed variables of a freshly loaded
  kernel it creates the initial process and establishes the invariants; so they hold in every state
  the kernel reaches.
\<close>

subsection \<open>The modules\<close>

text \<open>The variables of the loaded image: no queue nodes, empty queues, no children, stacks inside memory.\<close>

definition loaded :: "kernel \<Rightarrow> bool" where
  "loaded k \<longleftrightarrow> free_qnodes (qs k) = None \<and> (\<forall>q. queues (qs k) q = empty_queue None) \<and>
     (\<forall>i < N_PCBS. children (pcbs k i) = 0) \<and> unat (stacks_base k) + STACK_BYTES * N_STACKS \<le> 2 ^ 32"

lemma split_upt:
  assumes "\<exists>rest. [0..<n] = js @ j # rest"
  shows "j < n" "j \<notin> set js"
proof -
  obtain rest where r: "[0..<n] = js @ j # rest" using assms by blast
  show "j < n" "j \<notin> set js" using arg_cong [OF r, of set] arg_cong [OF r, of distinct] by auto
qed

lemma wp_reset:
  assumes "qinv (qs k)" "contents (qs k) q = []"
    and "\<And>s'. qinv s' \<Longrightarrow> contents s' = contents (qs k) \<Longrightarrow> orders s' = (orders (qs k))(q := c) \<Longrightarrow> Q () (k\<lparr>qs := s'\<rparr>)"
  shows "wp (reset q c) Q k"
  using q_reset_ok [OF assms(1,2), of c] assms(3) by (auto simp: reset_def in_queues_def wp_def)

lemma wp_reset_shape:
  assumes "qshape (qs k) H S" "contents (qs k) q = []" "q \<noteq> SLEEPING"
    and "\<And>s'. qshape s' H S \<Longrightarrow> contents s' = contents (qs k) \<Longrightarrow> Q () (k\<lparr>qs := s'\<rparr>)"
  shows "wp (reset q None) Q k"
proof (rule wp_reset [OF qshapeD(1) [OF assms(1)] assms(2)])
  fix s' assume s': "qinv s'" "contents s' = contents (qs k)" "orders s' = (orders (qs k))(q := None)"
  then have "orders s' = orders (qs k)" using qshapeD(7) [OF assms(1)] assms(3) by (auto simp: fun_eq_iff)
  then have "qshape s' H S" using assms(1) s' by (simp add: qshape_def)
  then show "Q () (k\<lparr>qs := s'\<rparr>)" using assms(4) s'(2) by blast
qed

definition freed_upto :: "nat set \<Rightarrow> kernel \<Rightarrow> bool" where
  "freed_upto A k \<longleftrightarrow> qshape (qs k) (\<lambda>i. if i \<in> A then Some FREE_PCBS else None) {} \<and>
     (\<forall>i < N_PCBS. children (pcbs k i) = 0 \<and> (i \<in> A \<longrightarrow> state (pcbs k i) = PS_FREE \<and> pid (pcbs k i) = - 1 \<and> ppid (pcbs k i) = - 1))"

lemma wp_free_one:
  assumes "freed_upto A k" "i < N_PCBS" "i \<notin> A"
  shows "wp (pcb_dealloc (Some i)) (\<lambda>_. freed_upto (insert i A)) k"
proof -
  let ?k = "upd_pcb i (\<lambda>pcb. pcb\<lparr>pid := - 1, ppid := - 1\<rparr>) (upd_pcb i (\<lambda>pcb. pcb\<lparr>state := PS_FREE\<rparr>) k)"
  have shape: "qshape (qs ?k) (\<lambda>i. if i \<in> A then Some FREE_PCBS else None) {}" using assms(1) by (simp add: freed_upto_def)
  have "wp (enque FREE_PCBS (PCB i)) (\<lambda>_. freed_upto (insert i A)) ?k"
  proof (rule wp_enque_pcb [OF shape _ assms(2)])
    fix s' assume "qshape s' ((\<lambda>i. if i \<in> A then Some FREE_PCBS else None)(i := Some FREE_PCBS)) {}"
    moreover have "(\<lambda>i. if i \<in> A then Some FREE_PCBS else None)(i := Some FREE_PCBS) = (\<lambda>j. if j \<in> insert i A then Some FREE_PCBS else None)"
      by auto
    ultimately show "freed_upto (insert i A) (?k\<lparr>qs := s'\<rparr>)" using assms(1) by (auto simp: freed_upto_def)
  qed (use assms(3) in simp_all)
  then show ?thesis by (simp add: pcb_dealloc_def kern_simps)
qed

lemma wp_pcb_init:
  assumes k: "loaded k" and k1: "k1 = k\<lparr>qs := q_init (qs k)\<rparr>"
  shows "wp pcb_init (\<lambda>_ k'. freed_upto {..<N_PCBS} k' \<and> next_pid k' = PID_FIRST_USER) k1"
proof -
  have q: "qinv (qs k1)" "contents (qs k1) = (\<lambda>q. [])" "orders (qs k1) = (\<lambda>q. None)"
    using q_init_ok [of "qs k"] k by (auto simp: loaded_def k1 orders_def empty_queue_def fun_eq_iff)
  have loop: "wp (kfor [0..<N_PCBS] (\<lambda>i. pcb_dealloc (Some i))) (\<lambda>_ k'. freed_upto {..<N_PCBS} k') k2"
    if k2: "freed_upto {} k2" for k2
  proof -
    have "wp (kfor [0..<N_PCBS] (\<lambda>i. pcb_dealloc (Some i))) (\<lambda>_. freed_upto (set [0..<N_PCBS])) k2"
    proof (rule wp_kfor [where I = "\<lambda>js. freed_upto (set js)"])
      fix js j s assume "\<exists>rest. [0..<N_PCBS] = js @ j # rest" "freed_upto (set js) s"
      moreover from this(1) have "j < N_PCBS" "j \<notin> set js" by (rule split_upt)+
      ultimately show "wp (pcb_dealloc (Some j)) (\<lambda>_. freed_upto (set (js @ [j]))) s"
        using wp_free_one [of "set js" s j] by auto
    qed (simp add: k2)
    then show ?thesis by (simp add: atLeast0LessThan)
  qed
  have "wp (reset FREE_PCBS None) (\<lambda>_. wp (reset SLEEPING (Some CMP_WAKEUP)) (\<lambda>_. wp (kfor [0..<N_PCBS] (\<lambda>i. pcb_dealloc (Some i)))
      (\<lambda>_ k'. freed_upto {..<N_PCBS} k'))) k1"
  proof (rule wp_reset [OF q(1)])
    fix s1 assume s1: "qinv s1" "contents s1 = contents (qs k1)" "orders s1 = (orders (qs k1))(FREE_PCBS := None)"
    show "wp (reset SLEEPING (Some CMP_WAKEUP)) (\<lambda>_. wp (kfor [0..<N_PCBS] (\<lambda>i. pcb_dealloc (Some i)))
      (\<lambda>_ k'. freed_upto {..<N_PCBS} k')) (k1\<lparr>qs := s1\<rparr>)"
    proof (rule wp_reset)
      fix s2 assume s2: "qinv s2" "contents s2 = contents (qs (k1\<lparr>qs := s1\<rparr>))" "orders s2 = (orders (qs (k1\<lparr>qs := s1\<rparr>)))(SLEEPING := Some CMP_WAKEUP)"
      have "qshape s2 (\<lambda>_. None) {}" using s1 s2 q by (auto simp: qshape_def fun_eq_iff)
      then have "freed_upto {} (k1\<lparr>qs := s1, qs := s2\<rparr>)" using k by (simp add: freed_upto_def loaded_def k1)
      then show "wp (kfor [0..<N_PCBS] (\<lambda>i. pcb_dealloc (Some i))) (\<lambda>_ k'. freed_upto {..<N_PCBS} k') (k1\<lparr>qs := s1, qs := s2\<rparr>)"
        by (rule loop)
    qed (use s1 q in simp_all)
  qed (use q in simp)
  then show ?thesis
    unfolding pcb_init_def by (auto simp: kern_simps freed_upto_def elim!: wp_mono)
qed

text \<open>No process exists yet: all control blocks are free, and so are the stacks \<^verbatim>\<open>S\<close>.\<close>

definition unborn :: "nat set \<Rightarrow> kernel \<Rightarrow> bool" where
  "unborn S k \<longleftrightarrow> qshape (qs k) (\<lambda>i. if i < N_PCBS then Some FREE_PCBS else None) S \<and> next_pid k = PID_FIRST_USER \<and>
     (\<forall>i < N_PCBS. state (pcbs k i) = PS_FREE \<and> pid (pcbs k i) = - 1 \<and> ppid (pcbs k i) = - 1 \<and> children (pcbs k i) = 0)"

lemma unborn_empty: "unborn S k \<Longrightarrow> q \<noteq> FREE_PCBS \<Longrightarrow> q \<noteq> FREE_STACKS \<Longrightarrow> contents (qs k) q = []"
  unfolding unborn_def
  by (drule conjunct1, drule qshapeD(3) [of _ _ _ q]) (auto split: if_splits)

lemma wp_reset_unborn:
  assumes "unborn S k" "contents (qs k) q = []" "q \<noteq> SLEEPING"
  shows "wp (reset q None) (\<lambda>_. unborn S) k"
proof -
  have shape: "qshape (qs k) (\<lambda>i. if i < N_PCBS then Some FREE_PCBS else None) S" using assms(1) by (simp add: unborn_def)
  show ?thesis by (rule wp_reset_shape [OF shape assms(2,3)]) (use assms(1) in \<open>simp add: unborn_def\<close>)
qed

lemma wp_stk_init:
  assumes "unborn {} k"
  shows "wp stk_init (\<lambda>_. unborn {..<N_STACKS}) k"
proof -
  have empty: "contents (qs k) FREE_STACKS = []"
    using qshapeD(4) [of "qs k" "\<lambda>i. if i < N_PCBS then Some FREE_PCBS else None" "{}"] assms by (simp add: unborn_def)
  have loop: "wp (kfor [0..<N_STACKS] (\<lambda>i. stk_dealloc (Some i))) (\<lambda>_. unborn (set [0..<N_STACKS])) k1" if k1: "unborn {} k1" for k1
  proof (rule wp_kfor [where I = "\<lambda>js. unborn (set js)"])
    fix js j s assume j: "\<exists>rest. [0..<N_STACKS] = js @ j # rest" and s: "unborn (set js) s"
    have shape: "qshape (qs s) (\<lambda>i. if i < N_PCBS then Some FREE_PCBS else None) (set js)" using s by (simp add: unborn_def)
    have "wp (enque FREE_STACKS (STACK j)) (\<lambda>_. unborn (set (js @ [j]))) s"
      by (rule wp_enque_stack [OF shape split_upt(2,1) [OF j]]) (use s in \<open>simp add: unborn_def\<close>)
    then show "wp (stk_dealloc (Some j)) (\<lambda>_. unborn (set (js @ [j]))) s" by (simp add: stk_dealloc_def kern_simps)
  qed (simp add: k1)
  show ?thesis
    unfolding stk_init_def wp_bind
    by (rule wp_mono [OF wp_reset_unborn [OF assms empty]]) (use loop in \<open>simp_all add: atLeast0LessThan\<close>)
qed

lemma wp_sched_init:
  assumes "unborn S k"
  shows "wp sched_init (\<lambda>_. unborn S) k"
  unfolding sched_init_def
  by (rule wp_kfor [where I = "\<lambda>_. unborn S"]) (simp_all add: assms wp_reset_unborn unborn_empty)

lemma wp_sys_init:
  assumes "unborn S k"
  shows "wp sys_init (\<lambda>_. unborn S) k"
  unfolding sys_init_def wp_bind
  by (rule wp_mono [OF wp_reset_unborn [OF assms unborn_empty [OF assms]]]) (simp_all add: wp_reset_unborn unborn_empty)

lemma wp_keeps: "wp m Q k \<Longrightarrow> keeps P m \<Longrightarrow> P k \<Longrightarrow> wp m (\<lambda>x k'. Q x k' \<and> P k') k"
  by (auto simp: wp_iff keeps_def)

lemma keeps_reset: "keeps (\<lambda>k. sio k = v) (reset q c)"
  by (auto simp: keeps_def reset_def in_queues_def split: sum.splits)

lemma keeps_sys_init: "keeps (\<lambda>k. sio k = v) sys_init"
  unfolding sys_init_def by (intro keeps_bind keeps_reset)

lemma sio_init_ok:
  obtains v where "sio_init s = Inr ((), v)" "in_ok v" "out_ok v"
  by (simp add: sio_init_def kern_run in_ok_def in_mid_def out_ok_def BUF_SIZE_def)

lemma wp_init_modules:
  assumes "loaded k"
  shows "wp init_modules (\<lambda>_ k'. unborn {..<N_STACKS} k' \<and> now k' = 0 \<and> in_ok (sio k') \<and> out_ok (sio k')) k"
proof -
  have "wp pcb_init (\<lambda>_. unborn {}) (k\<lparr>qs := q_init (qs k)\<rparr>)"
  proof (rule wp_mono [OF wp_pcb_init [OF assms refl]], clarify)
    fix k' assume f: "freed_upto {..<N_PCBS} k'" "next_pid k' = PID_FIRST_USER"
    have e: "(\<lambda>i. if i \<in> {..<N_PCBS} then Some FREE_PCBS else None) = (\<lambda>i. if i < N_PCBS then Some FREE_PCBS else None)" by auto
    show "unborn {} k'" using f unfolding freed_upto_def e by (simp add: unborn_def)
  qed
  then have "wp pcb_init (\<lambda>_. wp stk_init (\<lambda>_. wp sched_init (\<lambda>_. unborn {..<N_STACKS}))) (k\<lparr>qs := q_init (qs k)\<rparr>)"
  proof (rule wp_mono)
    fix k1 assume "unborn {} k1"
    from wp_stk_init [OF this] show "wp stk_init (\<lambda>_. wp sched_init (\<lambda>_. unborn {..<N_STACKS})) k1"
      by (rule wp_mono) (rule wp_sched_init)
  qed
  moreover have "wp (in_serial sio_init) (\<lambda>_. wp (reset READING None) (\<lambda>_. wp sys_init (\<lambda>_. wp clk_init
      (\<lambda>_ k'. unborn {..<N_STACKS} k' \<and> now k' = 0 \<and> in_ok (sio k') \<and> out_ok (sio k'))))) k1" if k1: "unborn {..<N_STACKS} k1" for k1
  proof -
    obtain v where v: "sio_init (sio k1) = Inr ((), v)" "in_ok v" "out_ok v" by (rule sio_init_ok)
    let ?P = "\<lambda>k'. unborn {..<N_STACKS} k' \<and> sio k' = v"
    let ?k2 = "k1\<lparr>sio := v\<rparr>"
    have k2: "unborn {..<N_STACKS} ?k2" "sio ?k2 = v" using k1 by (simp_all add: unborn_def)
    have clk: "wp clk_init (\<lambda>_ k'. unborn {..<N_STACKS} k' \<and> now k' = 0 \<and> in_ok (sio k') \<and> out_ok (sio k')) k'" if "?P k'" for k'
      using that v(2,3) by (simp add: clk_init_def kern_simps unborn_def)
    have "wp (reset READING None) (\<lambda>_. wp sys_init (\<lambda>_. ?P)) ?k2"
    proof (rule wp_mono [OF wp_keeps [OF wp_reset_unborn [OF k2(1)] keeps_reset k2(2)]], goal_cases)
      case (3 x k3)
      then show ?case using wp_keeps [OF wp_sys_init keeps_sys_init, of "{..<N_STACKS}" k3 v] by simp
    qed (simp_all add: unborn_empty [OF k1])
    then have "wp (reset READING None) (\<lambda>_. wp sys_init (\<lambda>_. wp clk_init
      (\<lambda>_ k'. unborn {..<N_STACKS} k' \<and> now k' = 0 \<and> in_ok (sio k') \<and> out_ok (sio k')))) ?k2"
      by (elim wp_mono) (rule clk)
    with v(1) show ?thesis by (simp add: wp_def in_serial_def)
  qed
  ultimately have "wp pcb_init (\<lambda>_. wp stk_init (\<lambda>_. wp sched_init (\<lambda>_. wp (in_serial sio_init) (\<lambda>_. wp (reset READING None) (\<lambda>_. wp sys_init (\<lambda>_. wp clk_init
      (\<lambda>_ k'. unborn {..<N_STACKS} k' \<and> now k' = 0 \<and> in_ok (sio k') \<and> out_ok (sio k')))))))) (k\<lparr>qs := q_init (qs k)\<rparr>)"
    by (elim wp_mono)
  then show ?thesis
    unfolding init_modules_def wp_bind by (simp add: wp_steps wp_bind)
qed

subsection \<open>The initial process\<close>

lemma unborn_sane:
  assumes "unborn {..<N_STACKS} k"
  shows "sane {} k"
proof -
  have shape: "qshape (qs k) (\<lambda>i. if i < N_PCBS then Some FREE_PCBS else None) {..<N_STACKS}"
    and free: "\<And>i. i < N_PCBS \<Longrightarrow> state (pcbs k i) = PS_FREE" using assms by (auto simp: unborn_def)
  have live: "\<not> live {} k i" for i using free by (simp add: live_def)
  then have stk: "free_stacks {} k = {..<N_STACKS}" "stacks_ok {} k" by (auto simp: free_stacks_def stacks_ok_def inj_on_def)
  have "qshape (qs k) (located {} k) {..<N_STACKS}"
    by (rule qshape_cong [OF shape]) (simp_all add: located_def, simp add: home_def free)
  moreover have "contents (qs k) SLEEPING = []" by (rule unborn_empty [OF assms]) simp_all
  ultimately show ?thesis using stk free by (simp add: sane_def home_def)
qed

lemma family_born:
  assumes "n < N_PCBS" "\<And>i. i < N_PCBS \<Longrightarrow> i \<noteq> n \<Longrightarrow> state (pcbs k i) = PS_FREE \<and> pid (pcbs k i) = - 1 \<and> ppid (pcbs k i) = - 1"
    and "state (pcbs k n) = PS_READY" "pid (pcbs k n) = 1" "ppid (pcbs k n) = 1" "children (pcbs k n) = 0"
    and "init_pcb k = Some n" "next_pid k = 100"
  shows "family {} k"
proof -
  have "Collect (live {} k) = {n}" using assms(1-3) unfolding live_def by force
  moreover have "lineage {n} (pcbs k) 100 n"
  proof -
    have "{j \<in> {n}. ppid (pcbs k j) \<noteq> 1} = {}" using assms(5) by auto
    then show ?thesis using assms by (auto simp: lineage_def tree_def)
  qed
  ultimately show ?thesis unfolding family_def using assms by auto
qed

lemma upd_mem_comp: "upd_mem f (upd_mem g k) = upd_mem (f \<circ> g) k"
  by (simp add: upd_mem_def)

lemma stk_setup_run:
  "\<exists>F. stk_setup (Some j) e a k = Inr (stack_addr k j + of_nat STACK_BYTES - 12 - CONTEXT_SIZE, upd_mem F k)"
  by (simp add: stk_setup_def Let_def upd_mem_comp del: upd_frame) blast

lemma context_not_null:
  assumes "unat (stacks_base k) + STACK_BYTES * N_STACKS \<le> 2 ^ 32" "j < N_STACKS"
  shows "stack_addr k j + of_nat STACK_BYTES - 12 - CONTEXT_SIZE \<noteq> 0"
proof -
  have "stack_addr k j + of_nat STACK_BYTES - 12 - CONTEXT_SIZE = stacks_base k + of_nat (4096 * j + 4012)"
    by (simp add: stack_addr_def STACK_BYTES_def CONTEXT_SIZE_def)
  moreover have "unat (stacks_base k + of_nat (4096 * j + 4012)) = unat (stacks_base k) + (4096 * j + 4012)"
  proof -
    have "4096 * j + 4096 \<le> STACK_BYTES * N_STACKS" using assms(2) by (simp add: STACK_BYTES_def)
    then have "unat (stacks_base k) + (4096 * j + 4012) < 2 ^ 32" using assms(1) by linarith
    then show ?thesis by (simp add: unat_word_ariths unat_of_nat)
  qed
  ultimately show ?thesis by (metis add_is_0 unat_0 zero_neq_numeral)
qed

lemma wp_init_process:
  assumes un: "unborn {..<N_STACKS} k" and base: "unat (stacks_base k) + STACK_BYTES * N_STACKS \<le> 2 ^ 32"
  shows "wp (init_process e) (\<lambda>_ k'. sane {} k' \<and> family {} k' \<and> has_ready k' \<and> sio k' = sio k \<and> now k' = now k \<and> next_pid k' = 100) k"
proof -
  have sane: "sane {} k" by (rule unborn_sane [OF un])
  have shape: "qshape (qs k) (located {} k) (free_stacks {} k)" using sane by (simp add: sane_def)
  have free: "\<And>i. i < N_PCBS \<Longrightarrow> state (pcbs k i) = PS_FREE \<and> pid (pcbs k i) = - 1 \<and> ppid (pcbs k i) = - 1 \<and> children (pcbs k i) = 0"
    and np: "next_pid k = 100" using un by (auto simp: unborn_def PID_FIRST_USER_def)
  have stk: "free_stacks {} k = {..<N_STACKS}" using free by (auto simp: free_stacks_def live_def)
  have pos: "0 < N_PCBS" "0 < N_STACKS" by (simp_all add: N_PCBS_def N_STACKS_def N_PROCS_def)
  show ?thesis
    unfolding init_process_def wp_bind
  proof (rule wp_pcb_alloc [OF shape], goal_cases)
    case 1
    then show ?case using free [OF pos(1)] 1 [OF pos(1)] by (simp add: located_def home_def)
  next
    case (2 n s1)
    let ?k1 = "upd_pcb n (\<lambda>pcb. pcb\<lparr>state := PS_NEW\<rparr>) (k\<lparr>qs := s1\<rparr>)"
    have sh1: "qshape (qs ?k1) ((located {} k)(n := None)) (free_stacks {} k)" using 2(3) by simp
    note nN = 2(1) and s1 = 2(4)
    show ?case
      unfolding option.case wp_bind
    proof (rule wp_stk_alloc [OF sh1], goal_cases)
      case 1
      then show ?case using stk pos(2) by auto
    next
      case (2 j s2)
      have j: "j < N_STACKS" using 2(1) stk by auto
      let ?k2 = "upd_pcb n (\<lambda>p. p\<lparr>stack_ptr := Some j\<rparr>) (?k1\<lparr>qs := s2\<rparr>)"
      define ctx where "ctx = stack_addr ?k2 j + of_nat STACK_BYTES - 12 - CONTEXT_SIZE"
      obtain F where F: "stk_setup (Some j) e 0 ?k2 = Inr (ctx, upd_mem F ?k2)"
        using stk_setup_run [of j e 0 ?k2] by (auto simp: ctx_def)
      have ctx: "ctx \<noteq> 0"
        unfolding ctx_def by (rule context_not_null [OF _ j]) (use base in \<open>simp add: upd_pcb_def\<close>)
      define p where "p = (pcbs k n)\<lparr>state := PS_NEW, stack_ptr := Some j, context_ptr := ctx,
        memory_ptr := get_identity_mapped (mm (upd_mem F ?k2)), ppid := PID_INIT, pid := PID_INIT, prio := P_SYSTEM, q_default := QUANT_STD\<rparr>"
      define k3 where "k3 = (upd_mem F ?k2)\<lparr>pcbs := (pcbs k)(n := p), init_pcb := Some n\<rparr>"
      have k3: "pcbs k3 = (pcbs k)(n := p)" "init_pcb k3 = Some n" "qs k3 = s2" "next_pid k3 = 100" "sio k3 = sio k" "now k3 = now k"
        using np by (simp_all add: k3_def upd_mem_def upd_pcb_def)
      have "sane (insert n {}) k3"
        by (rule sane_new [OF sane nN _ _ 2(1,2)]) (use free nN s1 2(3) in \<open>auto simp: k3 p_def\<close>)
      then have "wp (schedule (Some n)) (\<lambda>_ k'. sane {} k' \<and> family {} k' \<and> has_ready k' \<and> sio k' = sio k \<and> now k' = now k \<and> next_pid k' = 100) k3"
      proof (rule wp_schedule)
        fix s' let ?k4 = "k3\<lparr>pcbs := (pcbs k3)(n := ready_pcb (pcbs k3 n)), qs := s'\<rparr>"
        assume "sane (insert n {} - {n}) ?k4"
        moreover have "family {} ?k4"
          by (rule family_born [OF nN]) (use free nN in \<open>auto simp: k3 p_def PID_INIT_def\<close>)
        ultimately show "sane {} ?k4 \<and> family {} ?k4 \<and> has_ready ?k4 \<and> sio ?k4 = sio k \<and> now ?k4 = now k \<and> next_pid ?k4 = 100"
          using nN by (auto simp: k3 has_ready_def)
      qed simp
      moreover have "upd_pcb n (\<lambda>p. p\<lparr>ppid := PID_INIT, pid := PID_INIT, prio := P_SYSTEM, q_default := QUANT_STD\<rparr>)
          (upd_pcb n (\<lambda>p. p\<lparr>memory_ptr := get_identity_mapped (mm (upd_mem F ?k2))\<rparr>) (upd_pcb n (\<lambda>p. p\<lparr>context_ptr := ctx\<rparr>) (upd_mem F ?k2)))\<lparr>init_pcb := Some n\<rparr> = k3"
        by (simp add: k3_def p_def upd_pcb_def upd_mem_def)
      ultimately show ?case using F ctx by (simp add: kern_simps wp_run del: upd_frame) (simp add: upd_pcb_def)
    qed
  qed
qed

subsection \<open>Reachable states\<close>

lemma keeps_base: "keeps (\<lambda>k. stacks_base k = b) init_modules"
proof -
  have q: "keeps (\<lambda>k. stacks_base k = b) (in_queues m)" for m :: "kernel \<Rightarrow> (qmodule, 'a) kern"
    by (auto simp: keeps_def in_queues_def split: sum.splits)
  have s: "keeps (\<lambda>k. stacks_base k = b) (in_serial m)" for m :: "(sio_t, 'a) kern"
    by (auto simp: keeps_def in_serial_def split: sum.splits)
  show ?thesis
    unfolding init_modules_def pcb_init_def stk_init_def sched_init_def sys_init_def clk_init_def reset_def pcb_dealloc_def
      stk_dealloc_def enque_def option.case
    by (intro keeps_bind keeps_kfor keeps_modify keeps_steps q s) (simp_all add: upd_pcb_def)
qed

lemma keeps_dispatch: "keeps (\<lambda>k. sio k = v \<and> now k = t \<and> next_pid k = n) dispatch"
proof -
  have "keeps (\<lambda>k. sio k = v \<and> now k = t \<and> next_pid k = n) (deque q)" for q
    by (auto simp: keeps_def deque_def in_queues_def split: sum.splits)
  then show ?thesis
    unfolding dispatch_def
    by (intro keeps_bind keeps_steps) (auto intro!: keeps_bind keeps_steps keeps_modify split: option.split simp: upd_pcb_def)
qed

lemma init_ok:
  assumes "loaded k"
  shows "wp (init e) (\<lambda>_ k'. kernel_ok k' \<and> in_ok (sio k') \<and> out_ok (sio k') \<and> now k' = 0 \<and> next_pid k' = 100) k"
proof -
  let ?R = "\<lambda>k'. sane {} k' \<and> family {} k' \<and> has_ready k' \<and> in_ok (sio k') \<and> out_ok (sio k') \<and> now k' = 0 \<and> next_pid k' = 100"
  have "wp init_modules (\<lambda>_ k'. (unborn {..<N_STACKS} k' \<and> now k' = 0 \<and> in_ok (sio k') \<and> out_ok (sio k')) \<and> stacks_base k' = stacks_base k) k"
    by (rule wp_keeps [OF wp_init_modules [OF assms] keeps_base]) simp
  then have "wp init_modules (\<lambda>_. wp (init_process e) (\<lambda>_. ?R)) k"
  proof (rule wp_mono, clarify)
    fix k1 assume k1: "unborn {..<N_STACKS} k1" "now k1 = 0" "in_ok (sio k1)" "out_ok (sio k1)" "stacks_base k1 = stacks_base k"
    have "unat (stacks_base k1) + STACK_BYTES * N_STACKS \<le> 2 ^ 32" using assms k1(5) by (simp add: loaded_def)
    from wp_init_process [OF k1(1) this] show "wp (init_process e) (\<lambda>_. ?R) k1"
      by (rule wp_mono) (use k1 in simp)
  qed
  moreover have "wp (in_serial (sio_enable SIO_RX)) (\<lambda>_. wp dispatch (\<lambda>_ k'. kernel_ok k' \<and> in_ok (sio k') \<and> out_ok (sio k') \<and> now k' = 0 \<and> next_pid k' = 100)) k2" if k2: "?R k2" for k2
  proof -
    obtain i where i: "sio_enable SIO_RX (sio k2) = Inr (ier (sio k2), (sio k2)\<lparr>ier := i\<rparr>)" by simp
    let ?k3 = "k2\<lparr>sio := (sio k2)\<lparr>ier := i\<rparr>\<rparr>"
    have s3: "sane {} ?k3" "family {} ?k3" "has_ready ?k3" "in_ok (sio ?k3)" "out_ok (sio ?k3)" "now ?k3 = 0" "next_pid ?k3 = 100"
      using k2 sane_frame [of "{}" k2 ?k3] family_frame [of "{}" k2 ?k3]
      by (auto simp: has_ready_def in_ok_def in_mid_def)
    have ready: "\<exists>i < N_PCBS. i \<notin> {} \<and> state (pcbs ?k3 i) = PS_READY" using s3(3) by (simp add: has_ready_def)
    have "outcome True (dispatch ?k3)" by (rule outcome_dispatch [OF s3(1,2)]) (use s3(3) in simp)
    then have "wp dispatch (\<lambda>_. kernel_ok) ?k3" by (auto simp: outcome_def wp_def split: sum.splits)
    moreover have "keeps (\<lambda>k'. sio k' = sio ?k3 \<and> now k' = 0 \<and> next_pid k' = 100) dispatch"
      by (rule keeps_dispatch)
    ultimately have "wp dispatch (\<lambda>_ k'. kernel_ok k' \<and> sio k' = sio ?k3 \<and> now k' = 0 \<and> next_pid k' = 100) ?k3"
      by (rule wp_keeps) (use s3(6,7) in simp)
    then have "wp dispatch (\<lambda>_ k'. kernel_ok k' \<and> in_ok (sio k') \<and> out_ok (sio k') \<and> now k' = 0 \<and> next_pid k' = 100) ?k3"
      by (rule wp_mono) (use s3(4,5) in simp)
    moreover have "in_serial (sio_enable SIO_RX) k2 = Inr (ier (sio k2), ?k3)" using i by (simp add: in_serial_def)
    ultimately show ?thesis by (simp add: wp_run)
  qed
  ultimately show ?thesis
    unfolding init_def wp_bind by (auto elim!: wp_mono)
qed

text \<open>
  The whole of \<^verbatim>\<open>_init\<close>: the memory is set up from the map of the BIOS before the modules are
  initialized; the console, the interrupt controller and the file system are left out.
\<close>

definition system_init :: "mm_entry list \<Rightarrow> 32 word \<Rightarrow> (kernel, unit) kern" where
  "system_init entries init_entry = kbind (in_memory (init_memory entries)) (\<lambda>_. init init_entry)"

inductive reachable :: "mm_entry list \<Rightarrow> 32 word \<Rightarrow> kernel \<Rightarrow> bool" for entries e where
  booted: "loaded k \<Longrightarrow> system_init entries e k = Inr ((), k') \<Longrightarrow> reachable entries e k'"
| stepped: "reachable entries e k \<Longrightarrow> kstep k k' \<Longrightarrow> reachable entries e k'"

lemma system_init_init:
  assumes "loaded k" "system_init entries e k = Inr ((), k')"
  obtains m where "loaded (k\<lparr>mm := m\<rparr>)" "init e (k\<lparr>mm := m\<rparr>) = Inr ((), k')"
  using assms by (auto simp: system_init_def in_memory_def loaded_def elim!: kbind_InrE split: sum.splits)

lemma reachable_ok: "reachable entries e k \<Longrightarrow> kernel_ok k"
proof (induction rule: reachable.induct)
  case (booted k k')
  then obtain m where "loaded (k\<lparr>mm := m\<rparr>)" "init e (k\<lparr>mm := m\<rparr>) = Inr ((), k')" by (rule system_init_init)
  then show ?case using init_ok [of "k\<lparr>mm := m\<rparr>" e] by (auto simp: wp_iff)
next
  case (stepped k k')
  then show ?case using kstep_keeps_ok by blast
qed

text \<open>Directly after the start the initial process is the only one.\<close>

lemma only_init:
  assumes ok: "kernel_ok k" and np: "next_pid k = 100"
  obtains c where "current k = Some c" "init_pcb k = Some c" "c < N_PCBS" "pid (pcbs k c) = 1" "state (pcbs k c) = PS_RUNNING"
    "\<And>i. i < N_PCBS \<Longrightarrow> i \<noteq> c \<Longrightarrow> state (pcbs k i) = PS_FREE" "children (pcbs k c) = 0"
proof -
  obtain c where c: "current k = Some c" using ok by (auto simp: kernel_ok_def)
  note okc = kernel_okE [OF ok c]
  obtain z where z: "init_pcb k = Some z" and
    tr: "tree (Collect (live {c} k)) (\<lambda>i. pid (pcbs k i)) (\<lambda>i. ppid (pcbs k i)) (\<lambda>i. children (pcbs k i)) (next_pid k) z"
    using okc(3) by (auto simp: family_def lineage_def)
  have one: "i = z" if "live {c} k i" for i
    using treeD(7) [OF tr, of i] treeD(8) [OF tr, of i] that np by fastforce
  have cN: "c < N_PCBS" using okc(2) by (simp add: sane_def)
  then have zc: "z = c" using one [of c] by (simp add: live_def)
  have "children (pcbs k c) = 0"
  proof -
    have "unat (children (pcbs k z)) = 0" using treeD(13) [OF tr] np by simp
    then show ?thesis by (simp add: zc unat_eq_0)
  qed
  moreover have "state (pcbs k i) = PS_FREE" if "i < N_PCBS" "i \<noteq> c" for i
    using one [of i] that zc by (auto simp: live_def)
  ultimately show thesis using that c z zc cN okc(1) treeD(3) [OF tr] by auto
qed

subsection \<open>A loaded image\<close>

text \<open>
  The kernel as a loader leaves it, on a machine with 128 MiB of memory: the variables are zero, the
  stacks are at 2 MiB.
\<close>

definition image :: kernel where
  "image = \<lparr>qs = blank_pool, mm = blank_memory\<lparr>max_address := 0\<rparr>, sio = fresh_line, cio = idle_keyboard,
     pcbs = \<lambda>_. \<lparr>context_ptr = 0, stack_ptr = None, wakeup = 0, exitstatus = 0, memory_ptr = 0, pid = 0, ppid = 0, children = 0,
       state = PS_FREE, prio = 0, q_default = 0, q_ticks = 0\<rparr>,
     next_pid = 0, find_curr = None, find_target = 0, current = None, init_pcb = None, now = 0, pinwheel = 0,
     stacks_base = 0x200000, do_exit = 0x180000\<rparr>"

lemma image_loaded: "loaded image"
  by (simp add: loaded_def image_def blank_pool_def STACK_BYTES_def N_STACKS_def N_PROCS_def)

lemma wp_system_init:
  assumes "loaded k" "wp (init_memory entries) (\<lambda>_ _. True) (mm k)"
  shows "wp (system_init entries e) (\<lambda>_ k'. kernel_ok k' \<and> next_pid k' = 100 \<and> now k' = 0) k"
proof -
  obtain m where m: "init_memory entries (mm k) = Inr ((), m)" using assms(2) by (auto simp: wp_iff)
  have "loaded (k\<lparr>mm := m\<rparr>)" using assms(1) by (simp add: loaded_def)
  from init_ok [OF this, of e] have "wp (init e) (\<lambda>_ k'. kernel_ok k' \<and> next_pid k' = 100 \<and> now k' = 0) (k\<lparr>mm := m\<rparr>)"
    by (rule wp_mono) simp
  then show ?thesis
    unfolding system_init_def wp_bind using m by (simp add: wp_run [where m = "in_memory (init_memory entries)" and s = k] in_memory_def)
qed

lemma image_boots:
  obtains k where "system_init sample_map e image = Inr ((), k)" "kernel_ok k" "next_pid k = 100" "now k = 0"
proof -
  have "wp (init_memory sample_map) (\<lambda>_ _. True) (mm image)"
    by (rule wp_mono [where Q = "\<lambda>_ m'. \<exists>z. identity_ok z m'"])
      (use wp_init_memory [OF sample_facts(1,2)] sample_room in \<open>simp_all add: image_def sample_facts(3) N_PAGES_def\<close>)
  from wp_system_init [OF image_loaded this, of e] show thesis using that by (auto simp: wp_iff)
qed

end
