(* ===== verification/Kern_Scenario.thy ===== *)
theory Kern_Scenario
  imports Kern_Boot
begin

text \<open>
  What the end of a process does to the others, and a run of the system from a loaded image: the initial
  process forks, its child runs and exits, and the parent waits for it.
\<close>

lemma distinct_count: "distinct xs \<Longrightarrow> count_list xs x = (if x \<in> set xs then 1 else 0)"
  by (induction xs) auto

lemma reachableE:
  assumes "reachable entries e k"
  obtains c where "current k = Some c" "kernel_ok k" "state (pcbs k c) = PS_RUNNING" "sane {c} k" "family {c} k"
  using reachable_ok [OF assms] by (auto simp: kernel_ok_def)

subsection \<open>The end of a process\<close>

text \<open>
  What a waiting parent \<^verbatim>\<open>j\<close> finds in memory when its child \<^verbatim>\<open>c\<close> has ended: the result 0 of its call, the child's
  number where its first argument points and the exit status where the second one does.

  What the end of the process \<^verbatim>\<open>c\<close> in a final state with an exit status has done: a parent that waits has been
  told, is ready or runs, and the control block of \<^verbatim>\<open>c\<close> is free, or else the process is kept as a zombie; the other processes are
  as alive as before, the children of the ended process belonging to the initial process.
\<close>

definition told :: "nat \<Rightarrow> nat \<Rightarrow> 32 word \<Rightarrow> kernel \<Rightarrow> memory" where
  "told j c status k =
     (let ctx = context_ptr (pcbs k j);
          m = store32 (ctx + off_eax) 0 (mem (mm k));
          m = store16 (load32 m (ctx + CONTEXT_SIZE + 4)) (pid (pcbs k c)) m
      in store32 (load32 m (ctx + CONTEXT_SIZE + 8)) status m)"

definition ended :: "nat \<Rightarrow> state_t \<Rightarrow> 32 word \<Rightarrow> kernel \<Rightarrow> kernel \<Rightarrow> bool" where
  "ended c st status k k' \<longleftrightarrow> current k' \<noteq> Some c \<and> exitstatus (pcbs k' c) = status \<and>
     ((\<exists>j < N_PCBS. pid (pcbs k j) = ppid (pcbs k c) \<and> state (pcbs k j) = PS_WAITING \<and> state (pcbs k' j) \<in> {PS_READY, PS_RUNNING} \<and>
         state (pcbs k' c) = PS_FREE \<and> mem (mm k') = told j c status k) \<or>
      (\<forall>j < N_PCBS. pid (pcbs k j) = ppid (pcbs k c) \<longrightarrow> state (pcbs k j) \<noteq> PS_WAITING) \<and>
         state (pcbs k' c) = st \<and> pid (pcbs k' c) = pid (pcbs k c) \<and> ppid (pcbs k' c) = ppid (pcbs k c) \<and> PCB c \<in> set (contents (qs k') ZOMBIE) \<and> mem (mm k') = mem (mm k)) \<and>
     (\<forall>i < N_PCBS. i \<noteq> c \<longrightarrow> (state (pcbs k' i) = PS_FREE \<longleftrightarrow> state (pcbs k i) = PS_FREE) \<and> pid (pcbs k' i) = pid (pcbs k i) \<and>
         (children (pcbs k c) = 0 \<longrightarrow> children (pcbs k' i) = children (pcbs k i)) \<and>
         (state (pcbs k i) \<noteq> PS_FREE \<longrightarrow> ppid (pcbs k' i) = (if ppid (pcbs k i) = pid (pcbs k c) then PID_INIT else ppid (pcbs k i))))"

lemma answer_wait_told: "mem (mm (answer_wait j c k)) = told j c (exitstatus (pcbs k c)) k"
  by (simp add: answer_wait_def told_def Let_def set_status_def set_RET_def set_REG_def reg_addr_def upd_mem_def ARG_def arg_addr_def E_SUCCESS_def)

lemma tree_no_kids:
  assumes tr: "tree L pd pp ch np z" and c: "c \<in> L" "ch c = 0" and i: "i \<in> L" "i \<noteq> c" "pp i = pd c"
  shows "pp i = 1"
proof (cases "c = z")
  case False
  then show ?thesis using tree_childless [OF tr c(1) _ c(2)] i by blast
qed (use i treeD(3) [OF tr] in simp)

lemma orphaned_ppid:
  assumes fam: "family {c} k" "c < N_PCBS" and i: "i < N_PCBS" "i \<noteq> c" "state (pcbs k i) \<noteq> PS_FREE"
  shows "ppid (orphaned k c i) = (if ppid (pcbs k i) = pid (pcbs k c) then PID_INIT else ppid (pcbs k i))"
proof (cases "children (pcbs k c) = 0")
  case True
  obtain z where "tree (Collect (live {c} k)) (\<lambda>i. pid (pcbs k i)) (\<lambda>i. ppid (pcbs k i)) (\<lambda>i. children (pcbs k i)) (next_pid k) z"
    using fam(1) by (auto simp: family_def lineage_def)
  from tree_no_kids [OF this, of c i] show ?thesis
    using True i fam(2) by (auto simp: orphaned_def PID_INIT_def live_def)
next
  case False
  then show ?thesis using i by (auto simp: orphaned_def Let_def kids_def PID_INIT_def dest: signed_word_eqI)
qed

lemma end_process:
  assumes ok: "kernel_ok k" "current k = Some c" and st: "st \<in> {PS_ZOMBIE, PS_KILLED}"
    and ret: "kbind (zombify (Some c)) (\<lambda>_. dispatch) (k\<lparr>pcbs := (pcbs k)(c := (pcbs k c)\<lparr>exitstatus := status, state := st\<rparr>)\<rparr>) = Inr ((), k')"
  shows "ended c st status k k'"
proof -
  note okc = kernel_okE [OF ok]
  let ?k = "k\<lparr>pcbs := (pcbs k)(c := (pcbs k c)\<lparr>exitstatus := status, state := st\<rparr>)\<rparr>"
  have sane: "sane {c} ?k" by (rule sane_cong [OF okc(2)]) auto
  have fam: "family {c} ?k" by (rule family_cong [OF okc(3)]) (use st in \<open>auto simp: live_def\<close>)
  have cN: "c < N_PCBS" using sane by (simp add: sane_def)
  obtain k1 where z: "zombify (Some c) ?k = Inr ((), k1)" and d: "dispatch k1 = Inr ((), k')" using ret by (auto elim: kbind_InrE)
  have "wp (zombify (Some c)) (\<lambda>_ k1. sane {} k1 \<and> ((\<exists>j. answered c j ?k k1) \<or> left_zombie c ?k k1)) ?k"
    by (rule wp_zombify [OF sane fam]) (use st in auto)
  then have k1: "sane {} k1" "(\<exists>j. answered c j ?k k1) \<or> left_zombie c ?k k1" using z by (auto simp: wp_iff)
  from dispatch_returnsE [OF k1(1) d] obtain p n ds where n: "contents (qs k1) (READY p) = PCB n # ds" "state (pcbs k1 n) = PS_READY"
    "contents (qs k') = (contents (qs k1))(READY p := ds)" "current k' = Some n"
    "pcbs k' = (pcbs k1)(n := (pcbs k1 n)\<lparr>state := PS_RUNNING, q_ticks := q_default (pcbs k1 n)\<rparr>)" "mem (mm k') = mem (mm k1)" by metis
  have pp: "ppid (orphaned ?k c i) = (if ppid (pcbs k i) = pid (pcbs k c) then PID_INIT else ppid (pcbs k i))"
    if "i < N_PCBS" "i \<noteq> c" "state (pcbs k i) \<noteq> PS_FREE" for i
    using orphaned_ppid [OF fam cN, of i] that by simp
  have kept: "ppid (orphaned ?k c c) = ppid (pcbs k c)" "children (pcbs k c) = 0 \<Longrightarrow> children (orphaned ?k c i) = children (pcbs k i)" for i
  proof -
    obtain z where z: "init_pcb ?k = Some z" "lineage (Collect (live {c} ?k)) (pcbs ?k) (next_pid ?k) z" using fam by (auto simp: family_def)
    have "c \<in> Collect (live {c} ?k)" using cN by (simp add: live_def)
    from lineage_orphaned(2) [OF z(2) this z(1)] show "ppid (orphaned ?k c c) = ppid (pcbs k c)" by simp
  qed (simp add: orphaned_def)
  from k1(2) show ?thesis
  proof (elim disjE exE)
    fix j assume a: "answered c j ?k k1"
    then have jc: "j \<noteq> c" using st by (auto simp: answered_def)
    have "n \<noteq> c" using n(2) a jc by (auto simp: answered_def)
    moreover have "mem (mm (answer_wait j c ?k)) = told j c status k"
      using jc by (simp add: answer_wait_told told_def)
    ultimately show ?thesis
      unfolding ended_def using a jc n pp kept by (auto simp: answered_def freed_pcb_def intro!: exI [of _ j])
  next
    assume l: "left_zombie c ?k k1"
    then have "n \<noteq> c" using n(2) st by (auto simp: left_zombie_def)
    moreover have "state (pcbs k j) \<noteq> PS_WAITING" if "j < N_PCBS" "pid (pcbs k j) = ppid (pcbs k c)" for j
      using l that okc(1) by (cases "j = c") (auto simp: left_zombie_def)
    ultimately show ?thesis
      unfolding ended_def using l n pp kept by (auto simp: left_zombie_def)
  qed
qed

text \<open>Waiting for a child that is still alive.\<close>

lemma wait_blocks:
  assumes ok: "kernel_ok k" "current k = Some c" and ch: "children (pcbs k c) \<noteq> 0" and none: "zombie_child c k = None" and ready: "has_ready k"
  shows "\<exists>k'. sys_wait c k = Inr ((), k') \<and> current k' \<noteq> Some c \<and> state (pcbs k' c) = PS_WAITING \<and>
    contents (qs k') WAITING = contents (qs k) WAITING @ [PCB c]"
proof -
  note okc = kernel_okE [OF ok]
  obtain g t where w: "sys_wait c k = kbind (kmodify (upd_pcb c (\<lambda>p. p\<lparr>state := PS_WAITING\<rparr>))) (\<lambda>_.
        kbind (enque WAITING (PCB c)) (\<lambda>status.
        if status \<noteq> E_SUCCESS then kpanic ''_sys_wait'' ''can't enque waiting parent'' else dispatch)) (k\<lparr>find_curr := g, find_target := t\<rparr>)"
    using sys_wait_cases [OF ok ch] none by force
  let ?k = "k\<lparr>find_curr := g, find_target := t, pcbs := (pcbs k)(c := (pcbs k c)\<lparr>state := PS_WAITING\<rparr>)\<rparr>"
  have sane: "sane {c} ?k" by (rule sane_cong [OF okc(2)]) auto
  have "wp (enque WAITING (PCB c)) (\<lambda>st k1. st = E_SUCCESS \<and> sane {} k1 \<and> pcbs k1 = pcbs ?k \<and>
    contents (qs k1) = (contents (qs k))(WAITING := contents (qs k) WAITING @ [PCB c])) ?k"
    by (rule wp_enque_held [OF sane]) (auto simp: home_def)
  then obtain k1 where k1: "enque WAITING (PCB c) ?k = Inr (E_SUCCESS, k1)" "sane {} k1" "pcbs k1 = pcbs ?k"
    "contents (qs k1) = (contents (qs k))(WAITING := contents (qs k) WAITING @ [PCB c])" by (auto simp: wp_iff)
  have d: "sys_wait c k = dispatch k1" using w k1(1) by (simp add: kern_simps upd_pcb_def kbind_def)
  obtain k' where k': "sys_wait c k = Inr ((), k')"
    using outcome_wait [OF ok] ready by (auto simp: outcome_def split: sum.splits)
  from dispatch_returnsE [OF k1(2)] d k' obtain p c' ds where "state (pcbs k1 c') = PS_READY" "current k' = Some c'"
    "contents (qs k') = (contents (qs k1))(READY p := ds)" "pcbs k' = (pcbs k1)(c' := (pcbs k1 c')\<lparr>state := PS_RUNNING, q_ticks := q_default (pcbs k1 c')\<rparr>)"
    by metis
  then show ?thesis using k' k1 by auto
qed

text \<open>After the slice has ended, whoever is found in a ready queue has the priority of that queue.\<close>

lemma preempted_prio:
  assumes ok: "kernel_ok k" "current k = Some c"
    and q: "PCB c' \<in> set (((woken_queues (ticked k) (woken (ticked k)))(READY (ready_prio k (PCB c)) :=
      woken_queues (ticked k) (woken (ticked k)) (READY (ready_prio k (PCB c))) @ [PCB c])) (READY p))"
  shows "unat (prio (((charged k c)(c := ready_pcb (charged k c c))) c')) = p"
proof -
  note okc = kernel_okE [OF ok] and ch = charged_sel [OF ok(2,1)]
  from q consider "c' = c" "p = ready_prio k (PCB c)" | "PCB c' \<in> set (woken (ticked k))" "ready_prio (ticked k) (PCB c') = p"
    | "PCB c' \<in> set (contents (qs k) (READY p))"
    by (auto simp: woken_queues_def split: if_splits)
  then show ?thesis
  proof cases
    case 1
    then show ?thesis by (simp add: ready_prio_def charged_def ready_pcb_def)
  next
    case 2
    then have "c' \<noteq> c" using ch(5) [of c'] okc(1) by auto
    then show ?thesis using 2 by (simp add: ready_prio_def charged_def woken_pcbs_def)
  next
    case 3
    have "READY p \<noteq> FREE_STACKS" by simp
    from sane_members [OF okc(2) this 3] obtain "c' \<noteq> c" "home (pcbs k c') = Some (READY p)" by auto
    moreover from this(2) have "state (pcbs k c') = PS_READY" "unat (prio (pcbs k c')) = p" by (auto simp: home_def split: state_t.splits)
    ultimately show ?thesis using ch(5) [of c'] by (auto simp: charged_def woken_pcbs_def)
  qed
qed

subsection \<open>Calls from user code\<close>

lemma user_call:
  assumes r: "reachable entries e k" and c: "current k = Some c"
  obtains k2 where "reachable entries e k2" "current k2 = Some c" "REG c off_eax k2 = code" "ARG c 1 k2 = arg" "ARG c 2 k2 = arg2"
    "qs k2 = qs k" "pcbs k2 = (pcbs k)(c := (pcbs k c)\<lparr>context_ptr := 0x1000\<rparr>)" "next_pid k2 = next_pid k" "init_pcb k2 = init_pcb k" "now k2 = now k"
proof -
  let ?m = "store32 0x1030 code (store32 0x104C arg (store32 0x1050 arg2 (mem (mm k))))"
  let ?k = "upd_mem (\<lambda>_. ?m) (upd_pcb c (\<lambda>p. p\<lparr>context_ptr := 0x1000\<rparr>) (k\<lparr>cio := (cio k)\<lparr>kbd := []\<rparr>\<rparr>))"
  have "reachable entries e ?k" by (rule reachable.stepped [OF r kstep.user [OF c]])
  moreover have "REG c off_eax ?k = code" "ARG c 1 ?k = arg" "ARG c 2 ?k = arg2"
    by (simp_all add: REG_def ARG_def reg_addr_def arg_addr_def off_eax_def CONTEXT_SIZE_def upd_mem_def upd_pcb_def
      load32_store32_other bytes4_def)
  ultimately show thesis using that [of ?k] c by (simp add: upd_mem_def upd_pcb_def)
qed

lemma image_calls:
  obtains k c where "reachable sample_map e k" "current k = Some c" "kernel_ok k" "next_pid k = 100" "now k = 0"
    "REG c off_eax k = code" "ARG c 1 k = arg" "init_pcb k = Some c" "c < N_PCBS" "pid (pcbs k c) = 1" "state (pcbs k c) = PS_RUNNING"
    "children (pcbs k c) = 0" "\<forall>i < N_PCBS. i \<noteq> c \<longrightarrow> state (pcbs k i) = PS_FREE"
proof -
  obtain k0 where k0: "system_init sample_map e image = Inr ((), k0)" "kernel_ok k0" "next_pid k0 = 100" "now k0 = 0"
    by (rule image_boots)
  obtain c where c: "current k0 = Some c" "init_pcb k0 = Some c" "c < N_PCBS" "pid (pcbs k0 c) = 1" "state (pcbs k0 c) = PS_RUNNING"
    "\<forall>i < N_PCBS. i \<noteq> c \<longrightarrow> state (pcbs k0 i) = PS_FREE" "children (pcbs k0 c) = 0"
    using only_init [OF k0(2,3)] by blast
  from user_call [OF reachable.booted [OF image_loaded k0(1)] c(1), of code arg 0] obtain k where
    "reachable sample_map e k" "current k = Some c" "REG c off_eax k = code" "ARG c 1 k = arg"
    "pcbs k = (pcbs k0)(c := (pcbs k0 c)\<lparr>context_ptr := 0x1000\<rparr>)" "next_pid k = next_pid k0" "init_pcb k = init_pcb k0" "now k = now k0" by metis
  then show thesis using that [of k c] c k0 reachable_ok by simp
qed

lemma image_forks:
  obtains k k' c n j ps where "reachable sample_map e k" "reachable sample_map e k'" "current k = Some c" "forked c n j ps k k'"
    "sys_isr k = Inr ((), k')" "next_pid k = 100" "pid (pcbs k c) = 1" "c < N_PCBS" "children (pcbs k c) = 0"
    "state (pcbs k c) = PS_RUNNING" "\<forall>i < N_PCBS. i \<noteq> c \<longrightarrow> state (pcbs k i) = PS_FREE"
proof -
  obtain k c where k: "reachable sample_map e k" "current k = Some c" "kernel_ok k" "next_pid k = 100"
    "REG c off_eax k = 3" "c < N_PCBS" "pid (pcbs k c) = 1" "state (pcbs k c) = PS_RUNNING"
    "children (pcbs k c) = 0" "\<forall>i < N_PCBS. i \<noteq> c \<longrightarrow> state (pcbs k i) = PS_FREE"
    using image_calls [where e = e and code = 3 and arg = 0] by metis
  have isr: "sys_isr k = sys_fork c k" using k(2,5) by (simp add: sys_isr_def kern_simps N_SYSCALLS_def syscalls_def)
  obtain i where "i < N_PCBS" "i \<noteq> c" by (rule that [of "if c = 0 then 1 else 0"]) (auto simp: N_PCBS_def N_PROCS_def)
  then have "\<not> (\<forall>i < N_PCBS. state (pcbs k i) \<noteq> PS_FREE)" using k(10) by blast
  moreover have "\<not> next_pid k \<ge> 65000" using k(4) by simp
  ultimately obtain k' n j ps where k': "sys_fork c k = Inr ((), k')" "forked c n j ps k k'"
    using wp_fork [OF k(3,2)] by (auto simp: wp_iff)
  have "reachable sample_map e k'" by (rule reachable.stepped [OF k(1) kstep.syscall]) (simp add: isr k'(1))
  then show thesis using that [of k k' c n j ps] k k' isr by simp
qed

text \<open>After the fork the child is the only ready process; when the parent yields it runs.\<close>

lemma find_unique: "x \<in> set xs \<Longrightarrow> (\<And>y. y \<in> set xs \<Longrightarrow> P y \<longleftrightarrow> y = x) \<Longrightarrow> List.find P xs = Some x"
  by (induction xs) auto

lemma ready_queue:
  assumes "sane X k" "i < N_PCBS" "\<And>j. j < N_PCBS \<Longrightarrow> j \<notin> X \<and> state (pcbs k j) = PS_READY \<longleftrightarrow> j = i"
  shows "contents (qs k) (READY p) = (if p = unat (prio (pcbs k i)) then [PCB i] else [])"
proof -
  have shape: "qshape (qs k) (located X k) (free_stacks X k)" using assms(1) by (simp add: sane_def)
  have "READY p \<noteq> FREE_STACKS" by simp
  from qshapeD(3) [OF shape this] have "set (contents (qs k) (READY p)) = PCB ` {j. j < N_PCBS \<and> located X k j = Some (READY p)}" .
  moreover have "located X k j = Some (READY p) \<longleftrightarrow> j = i \<and> p = unat (prio (pcbs k i))" if "j < N_PCBS" for j
    using assms(3) [OF that] by (auto simp: located_def home_def split: state_t.splits)
  ultimately have "set (contents (qs k) (READY p)) = (if p = unat (prio (pcbs k i)) then {PCB i} else {})"
    using assms(2) by auto
  with qshapeD(2) [OF shape, of "READY p"] show ?thesis by (auto intro: distinct_set_singleton split: if_splits)
qed

lemma sleep_yields:
  assumes ok: "kernel_ok k" "current k = Some c" and arg: "ARG c 1 k = 0" and n: "n < N_PCBS" "n \<noteq> c" "prio (pcbs k n) = prio (ready_pcb (pcbs k c))"
    and one: "\<And>j. j < N_PCBS \<Longrightarrow> state (pcbs k j) = PS_READY \<longleftrightarrow> j = n"
  obtains k' where "sys_sleep c k = Inr ((), k')" "current k' = Some n" "next_pid k' = next_pid k" "init_pcb k' = init_pcb k"
    "pcbs k' = (pcbs k)(c := ready_pcb (pcbs k c), n := (pcbs k n)\<lparr>state := PS_RUNNING, q_ticks := q_default (pcbs k n)\<rparr>)"
proof -
  note okc = kernel_okE [OF ok]
  let ?R = "\<lambda>_ k1. sane {} k1 \<and> (\<forall>p. contents (qs k1) (READY p) = (if p = unat (prio (pcbs k n)) then [PCB n, PCB c] else [])) \<and>
    pcbs k1 = (pcbs k)(c := ready_pcb (pcbs k c)) \<and> next_pid k1 = next_pid k \<and> init_pcb k1 = init_pcb k"
  have q: "contents (qs k) (READY p) = (if p = unat (prio (pcbs k n)) then [PCB n] else [])" for p
    by (rule ready_queue [OF okc(2) n(1)]) (use one n(2) in auto)
  have "wp (schedule (Some c)) ?R k"
    by (rule wp_schedule [OF okc(2)]) (use q n(3) in auto)
  then obtain k1 where k1: "schedule (Some c) k = Inr ((), k1)" "?R () k1" by (auto simp: wp_iff)
  have "outcome (has_ready k) (sys_sleep c k)" by (rule outcome_sleep [OF ok])
  moreover have "has_ready k" using one [OF n(1)] n(1) by (auto simp: has_ready_def)
  ultimately obtain k' where k': "sys_sleep c k = Inr ((), k')" by (auto simp: outcome_def split: sum.splits)
  then have "dispatch k1 = Inr ((), k')" using arg k1(1) by (simp add: sys_sleep_def kern_simps kbind_def)
  from dispatch_returnsE [OF _ this] obtain p c' ds where d: "contents (qs k1) (READY p) = PCB c' # ds" "current k' = Some c'"
    "pcbs k' = (pcbs k1)(c' := (pcbs k1 c')\<lparr>state := PS_RUNNING, q_ticks := q_default (pcbs k1 c')\<rparr>)"
    "next_pid k' = next_pid k1" "init_pcb k' = init_pcb k1" using k1(2) by metis
  moreover have "c' = n" using d(1) k1(2) by (auto split: if_splits)
  ultimately show thesis using that k' k1(2) n(2) by simp
qed


lemma sys_isr_call: "current k = Some c \<Longrightarrow> unat (REG c off_eax k) = n \<Longrightarrow> syscalls n = Some f \<Longrightarrow> n < 13 \<Longrightarrow> sys_isr k = f c k"
  by (simp add: sys_isr_def kern_simps N_SYSCALLS_def)

lemma image_child_runs:
  obtains k c n where "reachable sample_map e k" "current k = Some n" "c < N_PCBS" "n < N_PCBS" "n \<noteq> c" "init_pcb k = Some c"
    "\<forall>i < N_PCBS. i \<notin> {c, n} \<longrightarrow> state (pcbs k i) = PS_FREE" "state (pcbs k c) = PS_READY" "pid (pcbs k c) = 1" "children (pcbs k c) = 1"
    "pid (pcbs k n) = 100" "ppid (pcbs k n) = 1" "children (pcbs k n) = 0" "state (pcbs k n) = PS_RUNNING" "q_ticks (pcbs k n) = 5" "prio (pcbs k c) = prio (ready_pcb (pcbs k n))"
proof -
  obtain k0 k1 c n j ps where k0: "reachable sample_map e k1" "current k0 = Some c" "forked c n j ps k0 k1" "next_pid k0 = 100" "pid (pcbs k0 c) = 1"
    "c < N_PCBS" "children (pcbs k0 c) = 0" "state (pcbs k0 c) = PS_RUNNING" "\<forall>i < N_PCBS. i \<noteq> c \<longrightarrow> state (pcbs k0 i) = PS_FREE"
    using image_forks [where e = e] by metis
  have n: "n < N_PCBS" "n \<noteq> c" and k1: "current k1 = Some c"
    "pcbs k1 = (pcbs k0)(c := (pcbs k0 c)\<lparr>children := 1\<rparr>, n := ready_pcb (child_pcb k0 c j ps))"
    using k0(3,7,8) by (auto simp: forked_def)
  from user_call [OF k0(1) k1(1), of 7 0 0] obtain k2 where k2: "reachable sample_map e k2" "current k2 = Some c" "REG c off_eax k2 = 7" "ARG c 1 k2 = 0"
    "pcbs k2 = (pcbs k1)(c := (pcbs k1 c)\<lparr>context_ptr := 0x1000\<rparr>)" by metis
  have pr: "prio (pcbs k2 n) = prio (ready_pcb (pcbs k2 c))" using n(2) by (simp add: k2(5) k1(2) child_pcb_def ready_pcb_def)
  have one: "state (pcbs k2 i) = PS_READY \<longleftrightarrow> i = n" if "i < N_PCBS" for i
    using k0(8,9) that n(2) by (cases "i = c") (auto simp: k2(5) k1(2))
  from sleep_yields [OF reachable_ok [OF k2(1)] k2(2,4) n pr one] obtain k3 where k3: "sys_sleep c k2 = Inr ((), k3)" "current k3 = Some n"
    "pcbs k3 = (pcbs k2)(c := ready_pcb (pcbs k2 c), n := (pcbs k2 n)\<lparr>state := PS_RUNNING, q_ticks := q_default (pcbs k2 n)\<rparr>)" by metis
  have "sys_isr k2 = sys_sleep c k2" by (rule sys_isr_call [OF k2(2), where n = 7]) (use k2(3) in \<open>simp_all add: syscalls_def\<close>)
  then have r3: "reachable sample_map e k3" using reachable.stepped [OF k2(1) kstep.syscall] k3(1) by simp
  have sel: "pid (pcbs k3 c) = 1" "children (pcbs k3 c) = 1" "pid (pcbs k3 n) = 100" "ppid (pcbs k3 n) = 1" "children (pcbs k3 n) = 0"
    "state (pcbs k3 n) = PS_RUNNING" "state (pcbs k3 c) = PS_READY" "q_ticks (pcbs k3 n) = 5" "prio (pcbs k3 c) = prio (ready_pcb (pcbs k3 n))"
    using n(2) k0(4,5,7) by (simp_all add: k3(3) k2(5) k1(2) child_pcb_def ready_pcb_def QUANT_STD_def P_LOW_def P_MIN_def)
  moreover have others: "\<forall>i < N_PCBS. i \<notin> {c, n} \<longrightarrow> state (pcbs k3 i) = PS_FREE" using k0(9) by (simp add: k3(3) k2(5) k1(2))
  moreover have "init_pcb k3 = Some c"
  proof -
    obtain z where z: "init_pcb k3 = Some z" "pid (pcbs k3 z) = 1" "live {n} k3 z"
      using kernel_okE(3) [OF reachable_ok [OF r3] k3(2)] by (auto simp: family_def lineage_def tree_def)
    then have "z = c" using sel(3) others by (auto simp: live_def)
    with z(1) show ?thesis by simp
  qed
  ultimately show thesis using that [of k3 n c] r3 k3(2) k0(6) n by simp
qed

text \<open>While nobody sleeps, ticks that do not end the slice only take from it; four of them bring the child to its last tick.\<close>

lemma nobody_sleeps:
  assumes "sane X k" "\<forall>i < N_PCBS. state (pcbs k i) \<noteq> PS_SLEEPING"
  shows "contents (qs k) SLEEPING = []"
proof (rule ccontr)
  assume "contents (qs k) SLEEPING \<noteq> []"
  then obtain d where d: "d \<in> set (contents (qs k) SLEEPING)" by (meson last_in_set)
  have "SLEEPING \<noteq> FREE_STACKS" by simp
  from sane_members [OF assms(1) this d] obtain i where "i < N_PCBS" "home (pcbs k i) = Some SLEEPING" by metis
  then show False using assms(2) by (auto simp: home_def split: state_t.splits)
qed

lemma tick_stays:
  assumes r: "reachable entries e k" "current k = Some c" and q: "q_ticks (pcbs k c) \<noteq> 1" and awake: "\<forall>i < N_PCBS. state (pcbs k i) \<noteq> PS_SLEEPING"
  obtains k' where "reachable entries e k'" "current k' = Some c" "pcbs k' = (pcbs k)(c := (pcbs k c)\<lparr>q_ticks := q_ticks (pcbs k c) - 1\<rparr>)"
proof -
  have ok: "kernel_ok k" by (rule reachable_ok [OF r(1)])
  note okc = kernel_okE [OF ok r(2)]
  have "contents (qs k) SLEEPING = []" by (rule nobody_sleeps [OF okc(2) awake])
  then have "woken (ticked k) = []" by (simp add: woken_def)
  then have ch: "charged k c = (pcbs k)(c := (pcbs k c)\<lparr>q_ticks := q_ticks (pcbs k c) - 1\<rparr>)" by (simp add: charged_def woken_Nil)
  have "wp clk_isr (\<lambda>_ k'. current k' = Some c \<and> pcbs k' = charged k c) k"
    by (rule wp_clk_isr [OF r(2) okc(1,2)]) (use q r(2) in simp_all)
  then obtain k' where "clk_isr k = Inr ((), k')" "current k' = Some c" "pcbs k' = charged k c" by (auto simp: wp_iff)
  then show thesis using that [of k'] reachable.stepped [OF r(1) kstep.tick] ch by simp
qed

lemma ticks_stay:
  assumes r: "reachable entries e k" "current k = Some c" and q: "n < unat (q_ticks (pcbs k c))" and awake: "\<forall>i < N_PCBS. state (pcbs k i) \<noteq> PS_SLEEPING"
  shows "\<exists>k'. reachable entries e k' \<and> current k' = Some c \<and> pcbs k' = (pcbs k)(c := (pcbs k c)\<lparr>q_ticks := q_ticks (pcbs k c) - of_nat n\<rparr>)"
  using q
proof (induction n)
  case 0
  then show ?case using r by auto
next
  case (Suc n)
  obtain k1 where k1: "reachable entries e k1" "current k1 = Some c" "pcbs k1 = (pcbs k)(c := (pcbs k c)\<lparr>q_ticks := q_ticks (pcbs k c) - of_nat n\<rparr>)"
    using Suc.IH [OF Suc_lessD [OF Suc.prems]] by blast
  have "q_ticks (pcbs k c) \<noteq> 1 + of_nat n"
  proof
    assume q1: "q_ticks (pcbs k c) = 1 + of_nat n"
    have "unat (of_nat (Suc n) :: 8 word) = Suc n mod 2 ^ 8" by (subst unat_of_nat) simp
    then have "unat (q_ticks (pcbs k c)) = Suc n mod 2 ^ 8" using q1 by simp
    then show False using Suc.prems mod_less_eq_dividend [of "Suc n" "2 ^ 8"] by linarith
  qed
  then have "q_ticks (pcbs k1 c) \<noteq> 1" by (simp add: k1(3) algebra_simps)
  moreover have "\<forall>i < N_PCBS. state (pcbs k1 i) \<noteq> PS_SLEEPING" using awake by (simp add: k1(3))
  ultimately obtain k2 where "reachable entries e k2" "current k2 = Some c" "pcbs k2 = (pcbs k1)(c := (pcbs k1 c)\<lparr>q_ticks := q_ticks (pcbs k1 c) - 1\<rparr>)"
    using tick_stays [OF k1(1,2)] by blast
  then show ?case by (intro exI [of _ k2]) (simp add: k1(3) algebra_simps)
qed

lemma image_last_tick:
  obtains k c n where "reachable sample_map e k" "current k = Some n" "n \<noteq> c" "q_ticks (pcbs k n) = 1"
    "\<forall>p. contents (qs k) (READY p) = (if p = ready_prio k (PCB n) then [PCB c] else [])" "contents (qs k) SLEEPING = []"
proof -
  obtain k0 c n where k0: "reachable sample_map e k0" "current k0 = Some n" "c < N_PCBS" "n \<noteq> c"
    "\<forall>i < N_PCBS. i \<notin> {c, n} \<longrightarrow> state (pcbs k0 i) = PS_FREE" "state (pcbs k0 c) = PS_READY" "state (pcbs k0 n) = PS_RUNNING"
    "q_ticks (pcbs k0 n) = 5" "prio (pcbs k0 c) = prio (ready_pcb (pcbs k0 n))"
    using image_child_runs [where e = e] by metis
  have st: "state (pcbs k0 i) \<in> {PS_FREE, PS_READY, PS_RUNNING} \<and> (state (pcbs k0 i) = PS_READY \<longleftrightarrow> i = c)" if "i < N_PCBS" for i
    using k0(4,5,6,7) that by (cases "i \<in> {c, n}") auto
  have awake: "\<forall>i < N_PCBS. state (pcbs k0 i) \<noteq> PS_SLEEPING" using st by force
  from ticks_stay [OF k0(1,2) _ this, of 4] obtain k where k: "reachable sample_map e k" "current k = Some n"
    "pcbs k = (pcbs k0)(n := (pcbs k0 n)\<lparr>q_ticks := 1\<rparr>)" using k0(8) by auto
  note sane = kernel_okE(2) [OF reachable_ok [OF k(1)] k(2)]
  have "state (pcbs k i) = state (pcbs k0 i)" for i by (simp add: k(3))
  then have "contents (qs k) (READY p) = (if p = unat (prio (pcbs k c)) then [PCB c] else [])" for p
    by (intro ready_queue [OF sane k0(3)]) (use st k0(4) in auto)
  moreover have "unat (prio (pcbs k c)) = ready_prio k (PCB n)" using k0(4,9) by (simp add: ready_prio_PCB k(3) ready_pcb_def)
  moreover have "contents (qs k) SLEEPING = []" by (rule nobody_sleeps [OF sane]) (use awake in \<open>simp add: k(3)\<close>)
  ultimately show thesis using that [of k n c] k k0(4) by simp
qed

text \<open>The child exits with status 7 and stays a zombie; the parent runs again and calls wait.\<close>

lemma image_zombie:
  obtains k c n where "reachable sample_map e k" "current k = Some c" "children (pcbs k c) = 1" "zombie_child c k = Some n" "n \<noteq> c"
    "exitstatus (pcbs k n) = 7" "pid (pcbs k n) = 100" "ARG c 1 k = 0x3000" "ARG c 2 k = 0x3010" "REG c off_eax k = 6"
proof -
  obtain k0 c n where k0: "reachable sample_map e k0" "current k0 = Some n" "c < N_PCBS" "n < N_PCBS" "n \<noteq> c"
    "\<forall>i < N_PCBS. i \<notin> {c, n} \<longrightarrow> state (pcbs k0 i) = PS_FREE" "state (pcbs k0 c) = PS_READY" "pid (pcbs k0 c) = 1" "children (pcbs k0 c) = 1"
    "pid (pcbs k0 n) = 100" "ppid (pcbs k0 n) = 1" "children (pcbs k0 n) = 0" "state (pcbs k0 n) = PS_RUNNING"
    using image_child_runs [where e = e] by metis
  from user_call [OF k0(1,2), of 0 7 0] obtain k1 where k1: "reachable sample_map e k1" "current k1 = Some n" "REG n off_eax k1 = 0" "ARG n 1 k1 = 7"
    "pcbs k1 = (pcbs k0)(n := (pcbs k0 n)\<lparr>context_ptr := 0x1000\<rparr>)" by metis
  note ok1 = reachable_ok [OF k1(1)]
  have "has_ready k1" using k0(3,5,7) by (auto simp: has_ready_def k1(5) intro!: exI [of _ c])
  then obtain k2 where k2: "sys_exit n k1 = Inr ((), k2)" using outcome_exit [OF ok1 k1(2)] by (auto simp: outcome_def split: sum.splits)
  then have e: "ended n PS_ZOMBIE 7 k1 k2"
    by (intro end_process [OF ok1 k1(2)]) (use k1(4) in \<open>simp_all add: sys_exit_def kern_simps upd_pcb_def\<close>)
  have "sys_isr k1 = sys_exit n k1" by (rule sys_isr_call [OF k1(2), where n = 0]) (use k1(3) in \<open>simp_all add: syscalls_def\<close>)
  then have r2: "reachable sample_map e k2" using reachable.stepped [OF k1(1) kstep.syscall] k2 by simp
  have "state (pcbs k1 j) \<noteq> PS_WAITING" if "j < N_PCBS" for j
    using k0(6,7,13) that by (cases "j \<in> {c, n}") (auto simp: k1(5))
  then have z: "state (pcbs k2 n) = PS_ZOMBIE" "pid (pcbs k2 n) = 100" "ppid (pcbs k2 n) = 1" "exitstatus (pcbs k2 n) = 7" "current k2 \<noteq> Some n"
    using e k0(10,11) unfolding ended_def by (auto simp: k1(5))
  have other: "state (pcbs k2 i) = PS_FREE \<longleftrightarrow> i \<noteq> c" if "i < N_PCBS" "i \<noteq> n" for i
    using e k0(5,6,7) that unfolding ended_def by (auto simp: k1(5))
  have c: "pid (pcbs k2 c) = 1" "children (pcbs k2 c) = 1"
    using e k0(3,5,8,9,12) unfolding ended_def by (auto simp: k1(5))
  obtain c' where "current k2 = Some c'" "c' < N_PCBS" "state (pcbs k2 c') = PS_RUNNING"
    using reachable_ok [OF r2] by (auto simp: kernel_ok_def sane_def)
  then have run: "current k2 = Some c" "state (pcbs k2 c) = PS_RUNNING" using z(5) other [of c'] by auto
  from user_call [OF r2 run(1), of 6 "0x3000" "0x3010"] obtain k3 where k3: "reachable sample_map e k3" "current k3 = Some c" "REG c off_eax k3 = 6"
    "ARG c 1 k3 = 0x3000" "ARG c 2 k3 = 0x3010" "pcbs k3 = (pcbs k2)(c := (pcbs k2 c)\<lparr>context_ptr := 0x1000\<rparr>)" by metis
  have "n \<in> set (kids k3 1 0)" using k0(4,5) z(3) by (simp add: kids_def k3(6))
  moreover have "state (pcbs k3 j) = PS_ZOMBIE \<longleftrightarrow> j = n" if "j < N_PCBS" for j
    using other [OF that] run(2) z(1) k0(5) by (cases "j = n") (auto simp: k3(6))
  ultimately have "List.find (\<lambda>j. state (pcbs k3 j) = PS_ZOMBIE) (kids k3 1 0) = Some n"
    by (intro find_unique) (auto simp: kids_def)
  moreover have "sint (pid (pcbs k3 c)) = 1" using c(1) by (simp add: k3(6))
  ultimately have "zombie_child c k3 = Some n" by (simp add: zombie_child_def)
  then show thesis using that [of k3 c n] k3 k0(5) z c by simp
qed

end
