(* ===== verification/Spec2Isabelle.thy ===== *)
theory Spec2Isabelle
  imports Doc_Search Dyn_Sections Kern_Scenario
begin

text \<open>
  A verification of the SystemsProgramming repository: a teaching operating system for x86, written in
  C, and the JavaScript that lets a reader search its Doxygen documentation. The two programs do not
  interact; the development models both from their sources.

  \<^bold>\<open>The kernel.\<close> After the boot loader, \<^verbatim>\<open>_init\<close> sets up memory, the modules and the first process; from then on the
  kernel runs only inside interrupt routines: the system call gate, the page fault, the clock, the
  serial line, the keyboard. All state is global. A routine is a function from the state to a fault
  (a panic with its text, a null or wild pointer, a loop that does not end) or to a result and a new
  state (\<^verbatim>\<open>kern\<close> in \<^verbatim>\<open>Kern_Base\<close>); \<^verbatim>\<open>wp\<close> says that it returns and that its result satisfies a predicate.

  \<^item> \<^verbatim>\<open>Kern_Queue\<close> (\<^verbatim>\<open>baseline/queue.c\<close>): linked lists over a static pool of nodes. Refinement: on a pool that satisfies
    its invariant the operations do to the queues what list operations do. The locale \<^verbatim>\<open>queue_interface\<close>
    states what the scheduler relies on.
  \<^item> \<^verbatim>\<open>Kern_Ring\<close>: circular buffers in general and the locale \<^verbatim>\<open>byte_buffer\<close>, which both devices interpret; \<^verbatim>\<open>Kern_Serial\<close> (\<^verbatim>\<open>baseline/sio.c\<close>) and \<^verbatim>\<open>Kern_Keyboard\<close> (the input side of
    \<^verbatim>\<open>c_io.c\<close>): order of characters, where the indices wrap and where they do not.
  \<^item> \<^verbatim>\<open>Kern_Memory\<close> (\<^verbatim>\<open>memory_map.c\<close>, \<^verbatim>\<open>klibc.c\<close>): the bit table of free pages, page directories and tables in the
    modelled byte memory. \<^verbatim>\<open>Kern_Paging\<close>: address translation by the processor's rules, and what \<^verbatim>\<open>k_mmap\<close> does to it.
    \<^verbatim>\<open>Kern_Memory_Init\<close>: the memory map of the BIOS, the table built from it and exactly which pages it marks, the
    identity mapping.
  \<^item> \<^verbatim>\<open>Kern_Process\<close> (\<^verbatim>\<open>process.c\<close>, \<^verbatim>\<open>stack.c\<close>, \<^verbatim>\<open>scheduler.c\<close>): control blocks, stacks, schedule and dispatch, and the invariant
    \<^verbatim>\<open>sane\<close>: every control block is in the queue of its state, every process has a stack of its own.
    \<^verbatim>\<open>Kern_Clock\<close> (\<^verbatim>\<open>clock.c\<close>): ticks, sleepers, time slices.
  \<^item> \<^verbatim>\<open>Kern_Syscall\<close> (\<^verbatim>\<open>syscall.c\<close>, \<^verbatim>\<open>system.c\<close>): all system calls, the jump table, the end of a process, the page fault,
    initialization. \<^verbatim>\<open>Kern_Family\<close> and \<^verbatim>\<open>Kern_Zombie\<close>: the tree of processes and its invariant \<^verbatim>\<open>family\<close>, through
    \<^verbatim>\<open>_reparent\<close> and \<^verbatim>\<open>_zombify\<close>. \<^verbatim>\<open>Kern_Calls\<close>, \<^verbatim>\<open>Kern_Fork\<close>: what each call does. \<^verbatim>\<open>Kern_System\<close>: the interrupts and user code as a
    step relation \<^verbatim>\<open>kstep\<close>, which keeps \<^verbatim>\<open>kernel_ok\<close>. \<^verbatim>\<open>Kern_Boot\<close>: \<^verbatim>\<open>_init\<close> and the reachable states. \<^verbatim>\<open>Kern_Scenario\<close>: the end
    of a process seen from outside, and a run from a loaded image used by the witnesses.
  \<^item> This theory: the properties of the kernel as a whole.

  Addresses, registers and counters keep their C widths as words; \<^verbatim>\<open>pid_t\<close> is 16 bits, so numbers above 32767
  come back sign-extended. Control blocks, stacks and queue nodes are named by their index. A pointer
  of the program is an address of the byte memory where the code goes through it (contexts, call
  arguments, page tables).

  \<^bold>\<open>Loops.\<close> Loops over arrays are recursive over the index list. The walks with \<^verbatim>\<open>_pcb_find_child_of\<close> get one step
  more than there are control blocks, the queue walks one per node, the page walks one per page of the
  address space; running out is the fault \<^verbatim>\<open>Diverges\<close>, and the theorems that a routine returns show it does
  not happen. Where the loop of the code can really fail to end, it does so in the model
  (\<^verbatim>\<open>Kern_Memory_Init.unaligned_top_hangs\<close>).

  \<^bold>\<open>The documentation search\<close> (\<^verbatim>\<open>doc/doxy/search\<close>): \<^verbatim>\<open>JS_Strings\<close> (\<^verbatim>\<open>convertToId\<close> and the regular expressions), \<^verbatim>\<open>Search_Box\<close> (the panel and
  its timers), \<^verbatim>\<open>Dom\<close> (elements as trees), \<^verbatim>\<open>Search_Results\<close> (building and searching the rows), \<^verbatim>\<open>Search_Nav\<close> (toggling
  and moving by keyboard), \<^verbatim>\<open>Search_Index\<close>, \<^verbatim>\<open>Search_Index_Defines\<close>, \<^verbatim>\<open>Search_Index_Members\<close>, \<^verbatim>\<open>Search_Index_All\<close> and \<^verbatim>\<open>Search_Index_All2\<close> (the generated index, file by
  file), and \<^verbatim>\<open>Doc_Search\<close>, which composes them: the panel opens the page whose rows are the entries that match.
  \<^verbatim>\<open>Dyn_Sections\<close> (\<^verbatim>\<open>doc/doxy/dynsections.js\<close>): sections that open and close, the directory tree of the file list.

  \<^bold>\<open>Not modelled.\<close> Console output and video modes, PCI and network drivers, the interrupt controller, the
  boot loader and the assembly stubs (hardware); the I/O router, RAM disk and file systems; the user
  programs and their library; in the documentation jQuery, which is vendored.
  Interrupts do not nest, as the gates keep them off. A step of user code may change every byte of the
  modelled memory and the place of its own saved context. The kernel's variables (control blocks, queues, the
  table of free pages) are kept apart from that memory, and user code is assumed not to write them, although
  the address spaces the kernel sets up let it. The pages of the table of free pages are marked as used, except
  the last one of a table that does not begin on a page boundary (\<^verbatim>\<open>Kern_Memory_Init\<close>); what happens when that
  page is handed out is not modelled.
\<close>

subsection \<open>The start of the system\<close>

text \<open>
  The system starts (C11). On a machine whose memory ends on a page boundary with a known number of
  usable pages, initialization returns with the initial process running: it is process 1, it is the only
  process, and the clock is at 0.
\<close>

theorem system_starts:
  assumes "loaded k" and "sized entries"
    and "max_address (fold raise_max entries (mm k)) + 1 = page_address q" "0 < q" "q < N_PAGES - 1"
    and "1026 \<le> card {p. p < N_PAGES \<and> \<not> marked entries (table_at entries (fold raise_max entries (mm k))) q p}"
  shows "\<exists>k' c. system_init entries e k = Inr ((), k') \<and> current k' = Some c \<and> init_pcb k' = Some c \<and> pid (pcbs k' c) = PID_INIT \<and>
    state (pcbs k' c) = PS_RUNNING \<and> children (pcbs k' c) = 0 \<and> (\<forall>i < N_PCBS. i \<noteq> c \<longrightarrow> state (pcbs k' i) = PS_FREE) \<and> now k' = 0"
proof -
  have "wp (init_memory entries) (\<lambda>_ _. True) (mm k)" by (rule wp_mono [OF wp_init_memory [OF assms(2-)]]) simp
  from wp_system_init [OF assms(1) this, of e] obtain k' where
    k': "system_init entries e k = Inr ((), k')" "kernel_ok k'" "next_pid k' = 100" "now k' = 0" by (auto simp: wp_iff)
  from only_init [OF k'(2,3)] obtain c where "current k' = Some c" "init_pcb k' = Some c" "pid (pcbs k' c) = 1" "state (pcbs k' c) = PS_RUNNING"
    "\<And>i. i < N_PCBS \<Longrightarrow> i \<noteq> c \<Longrightarrow> state (pcbs k' i) = PS_FREE" "children (pcbs k' c) = 0" by blast
  then show ?thesis using k' by (auto simp: PID_INIT_def)
qed

theorem system_starts_witness:
  "\<exists>k' c. system_init sample_map 0x100000 image = Inr ((), k') \<and> current k' = Some c \<and> pid (pcbs k' c) = 1"
  using system_starts [OF image_loaded sample_facts(1), of "0x8000" "0x100000"] sample_facts(2) sample_room
  by (auto simp: image_def sample_facts(3) N_PAGES_def PID_INIT_def)

text \<open>
  Processes and queues agree (C1). In every reachable state the running process is in no queue, and
  every other control block is in exactly one queue, once: the one of its state, for a ready process
  that of its priority.
\<close>

theorem processes_queued:
  assumes "reachable entries e k" "i < N_PCBS"
  shows "if current k = Some i then state (pcbs k i) = PS_RUNNING \<and> (\<forall>q. PCB i \<notin> set (contents (qs k) q))
    else \<exists>q. home (pcbs k i) = Some q \<and> (\<forall>q'. count_list (contents (qs k) q') (PCB i) = (if q' = q then 1 else 0))"
proof -
  obtain c where c: "current k = Some c" and ok: "kernel_ok k" and okc: "state (pcbs k c) = PS_RUNNING" "sane {c} k" "family {c} k"
    using reachableE [OF assms(1)] by blast
  have shape: "qshape (qs k) (located {c} k) (free_stacks {c} k)" using okc(2) by (simp add: sane_def)
  have "PCB i \<notin> set (contents (qs k) FREE_STACKS)" using qshapeD(4) [OF shape] by auto
  moreover have "PCB i \<in> set (contents (qs k) q) \<longleftrightarrow> i \<noteq> c \<and> home (pcbs k i) = Some q" if "q \<noteq> FREE_STACKS" for q
    using sane_located [OF that okc(2) assms(2)] by simp
  ultimately have mem: "PCB i \<in> set (contents (qs k) q) \<longleftrightarrow> i \<noteq> c \<and> home (pcbs k i) = Some q" for q
    by (cases "q = FREE_STACKS") auto
  have count: "count_list (contents (qs k) q) (PCB i) = (if PCB i \<in> set (contents (qs k) q) then 1 else 0)" for q
    by (rule distinct_count [OF qshapeD(2) [OF shape]])
  show ?thesis
  proof (cases "i = c")
    case False
    then obtain q where "home (pcbs k i) = Some q" using okc(2) assms(2) by (auto simp: sane_def)
    then show ?thesis using False c by (auto simp: count mem)
  qed (use c okc(1) mem in auto)
qed

theorem processes_queued_witness:
  "\<exists>k c i q. system_init sample_map 0x100000 image = Inr ((), k) \<and> current k = Some c \<and> i \<noteq> c \<and> i < N_PCBS \<and> home (pcbs k i) = Some q \<and>
    count_list (contents (qs k) q) (PCB i) = 1"
proof -
  obtain k where k: "system_init sample_map 0x100000 image = Inr ((), k)" "kernel_ok k" by (rule image_boots)
  obtain c where c: "current k = Some c" using k(2) by (auto simp: kernel_ok_def)
  obtain i where i: "i < N_PCBS" "i \<noteq> c" by (rule that [of "if c = 0 then 1 else 0"]) (auto simp: N_PCBS_def N_PROCS_def)
  show ?thesis
    using processes_queued [OF reachable.booted [OF image_loaded k(1)] i(1)] k(1) c i by (auto split: if_splits)
qed

text \<open>
  Stacks are private (C3). In every reachable state two processes have different stacks, which do not
  overlap in memory, and the stacks on the free list belong to no process.
\<close>

theorem stacks_private:
  assumes "reachable entries e k" "i < N_PCBS" "j < N_PCBS" "i \<noteq> j" "state (pcbs k i) \<noteq> PS_FREE" "state (pcbs k j) \<noteq> PS_FREE"
  shows "\<exists>a b. stack_ptr (pcbs k i) = Some a \<and> stack_ptr (pcbs k j) = Some b \<and>
    STACK a \<notin> set (contents (qs k) FREE_STACKS) \<and> STACK b \<notin> set (contents (qs k) FREE_STACKS) \<and>
    (\<forall>x < STACK_BYTES. \<forall>y < STACK_BYTES. stack_addr k a + of_nat x \<noteq> stack_addr k b + of_nat y)"
proof -
  obtain c where c: "current k = Some c" and ok: "kernel_ok k" and okc: "state (pcbs k c) = PS_RUNNING" "sane {c} k" "family {c} k"
    using reachableE [OF assms(1)] by blast
  have free: "set (contents (qs k) FREE_STACKS) = STACK ` free_stacks {c} k" and st: "stacks_ok {c} k"
    using okc(2) qshapeD(4) by (auto simp: sane_def)
  have live: "live {c} k i" "live {c} k j" using assms by (auto simp: live_def)
  obtain a b where ab: "stack_ptr (pcbs k i) = Some a" "stack_ptr (pcbs k j) = Some b" "a < N_STACKS" "b < N_STACKS"
    using st live unfolding stacks_ok_def by (metis mem_Collect_eq)
  have "a \<noteq> b" using st live ab assms(4) by (force simp: stacks_ok_def inj_on_def)
  moreover have "STACK a \<notin> set (contents (qs k) FREE_STACKS)" "STACK b \<notin> set (contents (qs k) FREE_STACKS)"
    using ab live unfolding free free_stacks_def by blast+
  ultimately show ?thesis using ab stack_bytes_disjoint by blast
qed

theorem stacks_private_witness:
  "\<exists>k i j a b. reachable sample_map 0x100000 k \<and> stack_ptr (pcbs k i) = Some a \<and> stack_ptr (pcbs k j) = Some b \<and>
    stack_addr k a + of_nat 4095 \<noteq> stack_addr k b + of_nat 0"
proof -
  obtain k k' c n j ps where k: "reachable sample_map 0x100000 k'" "forked c n j ps k k'" "c < N_PCBS" "state (pcbs k c) = PS_RUNNING"
    by (rule image_forks)
  then have "n < N_PCBS" "n \<noteq> c" "state (pcbs k' c) = PS_RUNNING" "state (pcbs k' n) = PS_READY" by (auto simp: forked_def)
  then obtain a b where "stack_ptr (pcbs k' c) = Some a" "stack_ptr (pcbs k' n) = Some b"
    "\<forall>x < STACK_BYTES. \<forall>y < STACK_BYTES. stack_addr k' a + of_nat x \<noteq> stack_addr k' b + of_nat y"
    using stacks_private [OF k(1,3), of n] by auto
  then show ?thesis using k(1) by (force simp: STACK_BYTES_def)
qed

definition parent :: "kernel \<Rightarrow> (nat \<times> nat) set" where
  "parent k = {(i, j). i < N_PCBS \<and> j < N_PCBS \<and> state (pcbs k i) \<noteq> PS_FREE \<and> state (pcbs k j) \<noteq> PS_FREE \<and> ppid (pcbs k i) = pid (pcbs k j)}"

text \<open>
  Process numbers (C2). In every reachable state two processes have different numbers, and following
  parents from any process leads to the initial process, number 1.
\<close>

theorem processes_descend:
  assumes "reachable entries e k" "i < N_PCBS" "state (pcbs k i) \<noteq> PS_FREE"
  shows "(\<forall>j < N_PCBS. pid (pcbs k j) = pid (pcbs k i) \<longrightarrow> j = i) \<and>
    (\<exists>z. init_pcb k = Some z \<and> pid (pcbs k z) = PID_INIT \<and> (i, z) \<in> (parent k)\<^sup>*)"
proof -
  obtain c where c: "current k = Some c" and ok: "kernel_ok k" and okc: "state (pcbs k c) = PS_RUNNING" "sane {c} k" "family {c} k"
    using reachableE [OF assms(1)] by blast
  let ?L = "Collect (live {c} k)"
  obtain z where z: "init_pcb k = Some z" and
    tr: "tree ?L (\<lambda>i. pid (pcbs k i)) (\<lambda>i. ppid (pcbs k i)) (\<lambda>i. children (pcbs k i)) (next_pid k) z" and
    other: "\<forall>i < N_PCBS. i \<notin> ?L \<longrightarrow> pid (pcbs k i) = - 1"
    using okc(3) by (auto simp: family_def lineage_def)
  have L: "j \<in> ?L \<longleftrightarrow> j < N_PCBS \<and> state (pcbs k j) \<noteq> PS_FREE" for j
    using okc(1,2) by (auto simp: live_def sane_def)
  have iL: "i \<in> ?L" using assms unfolding L by simp
  have uniq: "j = i" if "j < N_PCBS" "pid (pcbs k j) = pid (pcbs k i)" for j
  proof (cases "j \<in> ?L")
    case True
    then show ?thesis using inj_onD [OF treeD(9) [OF tr] that(2)] iL by simp
  next
    case False
    then show ?thesis using other that live_pid [OF ok c, of i] iL by simp
  qed
  have up: "(j, z) \<in> (parent k)\<^sup>*" if "j \<in> ?L" for j
    using that
  proof (induction "unat (pid (pcbs k j))" arbitrary: j rule: less_induct)
    case less
    show ?case
    proof (cases "j = z")
      case False
      obtain p where p: "p \<in> ?L" "ppid (pcbs k j) = pid (pcbs k p)" using treeD(10) [OF tr less.prems] by auto
      have "unat (pid (pcbs k p)) < unat (pid (pcbs k j))" using treeD(14) [OF tr less.prems False] p(2) by simp
      from less.hyps [OF this p(1)] have "(p, z) \<in> (parent k)\<^sup>*" .
      moreover have "(j, p) \<in> parent k" using less.prems p unfolding L parent_def by simp
      ultimately show ?thesis by (rule converse_rtrancl_into_rtrancl [rotated])
    qed simp
  qed
  show ?thesis using uniq up [OF iL] z treeD(3) [OF tr] by (auto simp: PID_INIT_def)
qed

theorem processes_descend_witness:
  "\<exists>k c n. reachable sample_map 0x100000 k \<and> init_pcb k = Some c \<and> n \<noteq> c \<and> (n, c) \<in> (parent k)\<^sup>*"
proof -
  obtain k k' c n j ps where k: "reachable sample_map 0x100000 k'" "forked c n j ps k k'" "c < N_PCBS" "pid (pcbs k c) = 1" "next_pid k = 100"
    by (rule image_forks)
  then have n: "n < N_PCBS" "pid (pcbs k' n) = 100" "state (pcbs k' n) \<noteq> PS_FREE" by (auto simp: forked_def child_pcb_def)
  obtain z where "init_pcb k' = Some z" "pid (pcbs k' z) = PID_INIT" "(n, z) \<in> (parent k')\<^sup>*"
    using processes_descend [OF k(1) n(1,3)] by blast
  moreover from this(2) have "n \<noteq> z" using n(2) by (auto simp: PID_INIT_def)
  ultimately show ?thesis using k(1) by blast
qed

subsection \<open>Interrupts return\<close>

lemma outcome_cases: "outcome h r \<Longrightarrow> (\<exists>k'. r = Inr ((), k')) \<or> r = Inl NO_READY \<and> \<not> h"
  by (auto simp: outcome_def split: sum.splits)

lemma known_code: "n < 13 \<Longrightarrow> n \<notin> {1, 2, 4, 11, 12} \<Longrightarrow> n \<in> {0, 3, 5, 6, 7, 8, 9, 10}" for n :: nat
  unfolding insert_iff empty_iff by arith

text \<open>
  The kernel stops only when nothing can run (C4). In a reachable state the system call interrupt, for
  a code other than those of read, write, exec and mmap and the empty entry 12 and for a kill of a
  process number other than -1, either returns to a reachable state or stops because no process is
  ready; it returns when one was ready before the call.
\<close>

theorem calls_return:
  assumes "reachable entries e k" "current k = Some c"
    and "unat (REG c off_eax k) \<notin> {1, 2, 4, 11, 12}" "unat (REG c off_eax k) = 5 \<longrightarrow> ucast (ARG c 1 k) \<noteq> (- 1 :: 16 word)"
  shows "(\<exists>k'. sys_isr k = Inr ((), k') \<and> reachable entries e k') \<or> sys_isr k = Inl NO_READY \<and> \<not> has_ready k"
proof -
  let ?n = "unat (REG c off_eax k)"
  have ok: "kernel_ok k" by (rule reachable_ok [OF assms(1)])
  let ?k = "set_ARG c 1 EXIT_BAD_CODE k"
  have bad: "kernel_ok ?k" "current ?k = Some c" "has_ready ?k = has_ready k"
    using ok assms(2) by (simp_all add: set_ARG_def has_ready_def) (erule kernel_ok_frame; simp)
  consider "?n \<in> {0, 3, 5, 6, 7, 8, 9, 10}" | "?n \<ge> 13"
    using assms(3) known_code [of ?n] by (cases "?n \<ge> 13") auto
  then have "outcome (has_ready k) (sys_isr k)"
  proof cases
    case 2
    then have "sys_isr k = sys_exit c ?k" using assms(2) by (simp add: sys_isr_def kern_simps N_SYSCALLS_def syscalls_def)
    then show ?thesis using outcome_exit [OF bad(1,2)] bad(3) by simp
  next
    case 1
    then obtain f where f: "sys_isr k = f c k" "f \<in> {sys_exit, sys_fork, sys_wait, sys_sleep, sys_getpid, sys_getppid, sys_gettime} \<or> f = sys_kill \<and> ?n = 5"
      using assms(2) by (auto simp: sys_isr_def kern_simps N_SYSCALLS_def syscalls_def)
    have fork: "outcome (has_ready k) (sys_fork c k)" by (rule outcome_wp, rule wp_mono [OF wp_fork [OF ok assms(2)]]) simp
    show ?thesis
      using f assms(4) fork outcome_exit [OF ok assms(2)] outcome_wait [OF ok assms(2)] outcome_sleep [OF ok assms(2)] outcome_kill [OF ok assms(2)] outcome_get [OF ok]
      by auto
  qed
  then show ?thesis using outcome_cases reachable.stepped [OF assms(1) kstep.syscall] by blast
qed

theorem calls_return_witness: "\<exists>k k'. sys_isr k = Inr ((), k') \<and> reachable sample_map 0x100000 k'"
proof -
  obtain k c where k: "reachable sample_map 0x100000 k" "current k = Some c" "REG c off_eax k = 10"
    using image_calls [where e = "0x100000" and code = 10 and arg = 0] by blast
  have "sys_isr k \<noteq> Inl NO_READY" using k(2,3) by (simp add: sys_isr_def kern_simps N_SYSCALLS_def syscalls_def sys_gettime_def)
  then show ?thesis using calls_return [OF k(1,2)] k(3) by auto
qed

subsection \<open>Time\<close>

text \<open>
  Clock ticks (C8). In every reachable state the clock interrupt returns; the time advances by one and
  exactly the sleepers whose time has come leave the queue of sleepers and the sleeping state, the
  others staying in their order.
\<close>

theorem tick_wakes:
  assumes "reachable entries e k"
  shows "\<exists>k'. clk_isr k = Inr ((), k') \<and> reachable entries e k' \<and> now k' = now k + 1 \<and>
    contents (qs k') SLEEPING = filter (\<lambda>d. now k + 1 < wake k d) (contents (qs k) SLEEPING) \<and>
    (\<forall>i < N_PCBS. state (pcbs k' i) = PS_SLEEPING \<longleftrightarrow> state (pcbs k i) = PS_SLEEPING \<and> now k + 1 < wakeup (pcbs k i))"
proof -
  obtain c where c: "current k = Some c" and ok: "kernel_ok k" and okc: "state (pcbs k c) = PS_RUNNING" "sane {c} k" "family {c} k"
    using reachableE [OF assms] by blast
  have sane': "sane {c} (ticked k)" by (rule sane_frame [OF okc(2)]) simp_all
  have [simp]: "wake (ticked k) = wake k" by (simp add: wake_def fun_eq_iff split: ptr.split)
  have "woken_queues (ticked k) (woken (ticked k)) SLEEPING = filter (\<lambda>d. now k + 1 < wake k d) (contents (qs k) SLEEPING)"
    using woken_filter(2) [OF sane'] by (simp add: woken_queues_def due_def not_le)
  then have "wp clk_isr (\<lambda>_ k'. now k' = now k + 1 \<and>
      contents (qs k') SLEEPING = filter (\<lambda>d. now k + 1 < wake k d) (contents (qs k) SLEEPING)) k"
    by (intro wp_clk_isr [OF c okc(1,2)]) simp_all
  then obtain k' where k': "clk_isr k = Inr ((), k')" "now k' = now k + 1"
    "contents (qs k') SLEEPING = filter (\<lambda>d. now k + 1 < wake k d) (contents (qs k) SLEEPING)" by (auto simp: wp_iff)
  have r': "reachable entries e k'" by (rule reachable.stepped [OF assms kstep.tick [OF k'(1)]])
  have asleep: "PCB i \<in> set (contents (qs k1) SLEEPING) \<longleftrightarrow> state (pcbs k1 i) = PS_SLEEPING" if r: "reachable entries e k1" and "i < N_PCBS" for k1 i
  proof -
    obtain c1 where c1: "state (pcbs k1 c1) = PS_RUNNING" "sane {c1} k1" using reachableE [OF r] by blast
    have "SLEEPING \<noteq> FREE_STACKS" by simp
    from sane_located [OF this c1(2) that(2)] show ?thesis using c1(1) by (auto simp: home_def split: state_t.splits)
  qed
  have "state (pcbs k' i) = PS_SLEEPING \<longleftrightarrow> state (pcbs k i) = PS_SLEEPING \<and> now k + 1 < wakeup (pcbs k i)" if "i < N_PCBS" for i
    using asleep [OF r' that] asleep [OF assms that] k'(3) by (auto simp: wake_def)
  then show ?thesis using k' r' by blast
qed

theorem tick_wakes_witness:
  "\<exists>k k'. reachable sample_map 0x100000 k \<and> clk_isr k = Inr ((), k') \<and> now k = 0 \<and> now k' = 1"
proof -
  obtain k where k: "reachable sample_map 0x100000 k" "now k = 0"
    using image_calls [where e = "0x100000" and code = 10 and arg = 0] by blast
  then show ?thesis using tick_wakes [OF k(1)] by auto
qed

definition roused :: "kernel \<Rightarrow> nat \<Rightarrow> ptr list" where
  "roused k p = contents (qs k) (READY p) @ filter (\<lambda>d. wake k d \<le> now k + 1 \<and> ready_prio k d = p) (contents (qs k) SLEEPING)"

lemma woken_roused: "sane X k \<Longrightarrow> woken_queues (ticked k) (woken (ticked k)) (READY p) = roused k p"
proof -
  assume "sane X k"
  then have "sane X (ticked k)" by (rule sane_frame) simp_all
  moreover have "due (ticked k) = (\<lambda>d. wake k d \<le> now k + 1)" by (simp add: due_def wake_def fun_eq_iff split: ptr.split)
  ultimately have "woken (ticked k) = filter (\<lambda>d. wake k d \<le> now k + 1) (contents (qs k) SLEEPING)" using woken_filter(1) by force
  moreover have "ready_prio (ticked k) = ready_prio k" by (simp add: ready_prio_def fun_eq_iff split: ptr.split)
  ultimately show ?thesis by (simp add: woken_queues_def roused_def conj_commute)
qed

text \<open>
  Time slices (C9). A tick takes one from the slice of the running process, and sleepers whose time has come
  join the ready queues of their priorities at the end. Unless the slice has ended the process stays;
  otherwise it is put behind all of them at the end of the ready queue of its priority, and the process that
  now runs is the one taken from the head of its queue, has a full slice and a priority that no ready process
  exceeds. No other process enters, leaves or changes its place in a ready queue.
\<close>

theorem tick_preempts:
  assumes "reachable entries e k" "current k = Some c"
  shows "\<exists>k' c'. clk_isr k = Inr ((), k') \<and> current k' = Some c' \<and>
    (if q_ticks (pcbs k c) = 1
     then q_ticks (pcbs k' c') = q_default (pcbs k' c') \<and> (c' = c \<or> state (pcbs k' c) = PS_READY) \<and>
       (\<forall>p. (if p = unat (prio (pcbs k' c')) then [PCB c'] else []) @ contents (qs k') (READY p) =
         roused k p @ (if p = ready_prio k (PCB c) then [PCB c] else [])) \<and>
       (\<forall>i < N_PCBS. state (pcbs k' i) = PS_READY \<longrightarrow> prio (pcbs k' c') \<le> prio (pcbs k' i))
     else c' = c \<and> q_ticks (pcbs k' c) = q_ticks (pcbs k c) - 1 \<and> (\<forall>p. contents (qs k') (READY p) = roused k p))"
proof -
  have ok: "kernel_ok k" by (rule reachable_ok [OF assms(1)])
  note okc = kernel_okE [OF ok assms(2)] and ch = charged_sel [OF assms(2) ok]
  let ?Q = "\<lambda>_ k'. \<exists>c'. current k' = Some c' \<and> (if q_ticks (pcbs k c) = 1
     then q_ticks (pcbs k' c') = q_default (pcbs k' c') \<and> (c' = c \<or> state (pcbs k' c) = PS_READY) \<and>
       (\<forall>p. (if p = unat (prio (pcbs k' c')) then [PCB c'] else []) @ contents (qs k') (READY p) =
         roused k p @ (if p = ready_prio k (PCB c) then [PCB c] else [])) \<and>
       (\<forall>i < N_PCBS. state (pcbs k' i) = PS_READY \<longrightarrow> prio (pcbs k' c') \<le> prio (pcbs k' i))
     else c' = c \<and> q_ticks (pcbs k' c) = q_ticks (pcbs k c) - 1 \<and> (\<forall>p. contents (qs k') (READY p) = roused k p))"
  have "wp clk_isr ?Q k"
  proof (rule wp_clk_isr [OF assms(2) okc(1,2)], goal_cases)
    case (1 s')
    then show ?case using assms(2) woken_roused [OF okc(2)] by (simp add: charged_def)
  next
    case (2 s1 p c' ds s' k')
    let ?P = "(charged k c)(c := ready_pcb (charged k c c))"
    have pcbs: "pcbs k' = ?P(c' := (?P c')\<lparr>state := PS_RUNNING, q_ticks := q_default (?P c')\<rparr>)" using 2(9) by (simp add: Let_def)
    have "unat (prio (?P c')) = p"
      by (rule preempted_prio [OF ok assms(2)]) (use 2(2,4) in simp)
    then have prio: "unat (prio (pcbs k' c')) = p" by (simp add: pcbs)
    have "prio (pcbs k' c') \<le> prio (pcbs k' i)" if i: "i < N_PCBS" "state (pcbs k' i) = PS_READY" for i
    proof -
      have ic: "i \<notin> {c'}" using i(2) pcbs by auto
      have "READY (unat (prio (pcbs k' i))) \<noteq> FREE_STACKS" by simp
      from sane_located [OF this 2(13) i(1)] have "PCB i \<in> set (contents s' (READY (unat (prio (pcbs k' i)))))"
        using i(2) ic 2(7) by (simp add: home_def)
      then have "\<not> unat (prio (pcbs k' i)) < p" using 2(5,6) by (auto split: if_splits)
      then show ?thesis using prio by (simp add: word_le_nat_alt)
    qed
    moreover have "(if r = unat (prio (pcbs k' c')) then [PCB c'] else []) @ contents (qs k') (READY r) =
        roused k r @ (if r = ready_prio k (PCB c) then [PCB c] else [])" for r
    proof -
      have "(if r = p then [PCB c'] else []) @ contents s' (READY r) = contents s1 (READY r)" using 2(4,6) by simp
      then show ?thesis using 2(2,7) woken_roused [OF okc(2)] by (simp add: prio)
    qed
    moreover have "c' = c \<or> state (pcbs k' c) = PS_READY" by (simp add: pcbs)
    moreover have "q_ticks (pcbs k' c') = q_default (pcbs k' c')" by (simp add: pcbs)
    ultimately show ?case using 2(1,8) by auto
  qed
  then show ?thesis by (auto simp: wp_iff)
qed

theorem tick_preempts_witness:
  "\<exists>k k' c n. reachable sample_map 0x100000 k \<and> current k = Some n \<and> q_ticks (pcbs k n) = 1 \<and> clk_isr k = Inr ((), k') \<and>
    current k' = Some c \<and> c \<noteq> n \<and> contents (qs k') (READY (ready_prio k (PCB n))) = [PCB n]"
proof -
  obtain k c n where k: "reachable sample_map 0x100000 k" "current k = Some n" "n \<noteq> c" "q_ticks (pcbs k n) = 1"
    "\<forall>p. contents (qs k) (READY p) = (if p = ready_prio k (PCB n) then [PCB c] else [])" "contents (qs k) SLEEPING = []"
    by (rule image_last_tick)
  have "roused k p = (if p = ready_prio k (PCB n) then [PCB c] else [])" for p using k(5,6) by (simp add: roused_def)
  moreover obtain k' c' where k': "clk_isr k = Inr ((), k')" "current k' = Some c'"
    "\<And>p. (if p = unat (prio (pcbs k' c')) then [PCB c'] else []) @ contents (qs k') (READY p) =
      roused k p @ (if p = ready_prio k (PCB n) then [PCB n] else [])"
    using tick_preempts [OF k(1,2)] unfolding k(4) by (simp only: simp_thms if_True) blast
  ultimately have q: "(if p = unat (prio (pcbs k' c')) then [PCB c'] else []) @ contents (qs k') (READY p) =
      (if p = ready_prio k (PCB n) then [PCB c, PCB n] else [])" for p using k'(3) [of p] by simp
  have "unat (prio (pcbs k' c')) = ready_prio k (PCB n)" "c' = c"
    using q [of "unat (prio (pcbs k' c'))"] by (simp_all split: if_splits)
  with q [of "ready_prio k (PCB n)"] show ?thesis using k(1-4) k'(1,2) by auto
qed

subsection \<open>Processes\<close>

text \<open>
  Fork (C5). While process numbers and a control block are left, the call creates a process that is ready, at
  the end of the ready queue of its priority, has the next number and the caller as its parent, and runs on a
  copy of the caller's stack in which only the saved frame pointer and the result differ: the frame pointer
  is moved to the new stack, the child sees 0, the parent the child's number. The control block and the
  stack of the child come from the heads of the free lists. Nothing else changes: no other control block, no
  byte of memory outside the child's stack and these three words, no other queue, no other variable.
\<close>

theorem fork_splits:
  assumes "reachable entries e k" "current k = Some c" "next_pid k < 65000" "i < N_PCBS" "state (pcbs k i) = PS_FREE"
  shows "\<exists>k' n j ps. sys_fork c k = Inr ((), k') \<and> n < N_PCBS \<and> state (pcbs k n) = PS_FREE \<and> state (pcbs k' n) = PS_READY \<and>
    pid (pcbs k' n) = next_pid k \<and> ppid (pcbs k' n) = pid (pcbs k c) \<and> next_pid k' = next_pid k + 1 \<and> current k' = Some c \<and>
    pcbs k' c = (pcbs k c)\<lparr>children := children (pcbs k c) + 1\<rparr> \<and> (\<forall>i. i \<noteq> c \<and> i \<noteq> n \<longrightarrow> pcbs k' i = pcbs k i) \<and>
    REG n off_eax k' = 0 \<and> REG c off_eax k' = scast (next_pid k) \<and>
    stack_ptr (pcbs k c) = Some ps \<and> stack_ptr (pcbs k' n) = Some j \<and>
    (\<forall>x. x + 4 \<le> STACK_BYTES \<and> reg_addr k c off_ebp = stack_addr k ps + of_nat x \<longrightarrow>
       REG n off_ebp k' = REG c off_ebp k + (stack_addr k j - stack_addr k ps)) \<and>
    (\<forall>x < STACK_BYTES. stack_addr k j + of_nat x \<notin> bytes4 (reg_addr k' n off_ebp) \<union> bytes4 (reg_addr k' n off_eax) \<union> bytes4 (reg_addr k' c off_eax) \<longrightarrow>
       mem (mm k') (stack_addr k j + of_nat x) = mem (mm k) (stack_addr k ps + of_nat x)) \<and>
    (\<forall>a. (\<forall>x < STACK_BYTES. a \<noteq> stack_addr k j + of_nat x) \<and>
       a \<notin> bytes4 (reg_addr k' n off_ebp) \<union> bytes4 (reg_addr k' n off_eax) \<union> bytes4 (reg_addr k' c off_eax) \<longrightarrow> mem (mm k') a = mem (mm k) a) \<and>
    contents (qs k) FREE_PCBS = PCB n # contents (qs k') FREE_PCBS \<and> contents (qs k) FREE_STACKS = STACK j # contents (qs k') FREE_STACKS \<and>
    (\<forall>q. q \<noteq> FREE_PCBS \<and> q \<noteq> FREE_STACKS \<longrightarrow>
       contents (qs k') q = contents (qs k) q @ (if q = READY (unat (prio (pcbs k' n))) then [PCB n] else [])) \<and>
    k' = k\<lparr>pcbs := pcbs k', mm := (mm k)\<lparr>mem := mem (mm k')\<rparr>, qs := qs k', next_pid := next_pid k + 1\<rparr>"
proof -
  have ok: "kernel_ok k" by (rule reachable_ok [OF assms(1)])
  note okc = kernel_okE [OF ok assms(2)]
  obtain k' n j ps where k': "sys_fork c k = Inr ((), k')" and f: "forked c n j ps k k'"
    using wp_fork [OF ok assms(2)] assms(3-5) by (auto simp: wp_iff)
  have nc: "n \<noteq> c" using f okc(1) by (auto simp: forked_def)
  have live: "live {c} k c" and st: "stacks_ok {c} k" using okc(2) by (simp_all add: live_def sane_def)
  have j: "j < N_STACKS" "ps < N_STACKS" "j \<noteq> ps"
    using f live st by (auto simp: forked_def free_stacks_def stacks_ok_def)
  have sel: "pcbs k' n = ready_pcb (child_pcb k c j ps)" "pcbs k' c = (pcbs k c)\<lparr>children := children (pcbs k c) + 1\<rparr>"
    "mem (mm k') = child_mem k c j ps" "contents (qs k) FREE_PCBS = PCB n # contents (qs k') FREE_PCBS"
    "contents (qs k) FREE_STACKS = STACK j # contents (qs k') FREE_STACKS" "stack_ptr (pcbs k c) = Some ps" "n < N_PCBS" "state (pcbs k n) = PS_FREE"
    "next_pid k' = next_pid k + 1" "current k' = Some c" using f nc by (simp_all add: forked_def)
  let ?W = "bytes4 (reg_addr k' n off_ebp) \<union> bytes4 (reg_addr k' n off_eax) \<union> bytes4 (reg_addr k' c off_eax)"
  have results: "REG n off_eax k' = 0" "REG c off_eax k' = scast (next_pid k)"
    using child_mem_returns [OF j, of k c] by (simp_all add: REG_def reg_addr_def sel child_pcb_def)
  have copied: "mem (mm k') (stack_addr k j + of_nat x) = mem (mm k) (stack_addr k ps + of_nat x)"
    if "x < STACK_BYTES" "stack_addr k j + of_nat x \<notin> ?W" for x
    unfolding sel(3) by (rule child_mem_copy [OF j that(1) _ refl]) (use that(2) in \<open>simp add: reg_addr_def sel child_pcb_def\<close>)
  have outside: "mem (mm k') a = mem (mm k) a" if "\<forall>x < STACK_BYTES. a \<noteq> stack_addr k j + of_nat x" "a \<notin> ?W" for a
    unfolding sel(3) by (rule child_mem_outside [OF j _ _ refl]) (use that in \<open>simp_all add: reg_addr_def sel child_pcb_def\<close>)
  have moved: "REG n off_ebp k' = REG c off_ebp k + (stack_addr k j - stack_addr k ps)"
    if "x + 4 \<le> STACK_BYTES" "reg_addr k c off_ebp = stack_addr k ps + of_nat x" for x
    using child_mem_frame_pointer [OF j that(1) _ refl] that(2) by (simp add: REG_def reg_addr_def sel child_pcb_def)
  have others: "\<forall>i. i \<noteq> c \<and> i \<noteq> n \<longrightarrow> pcbs k' i = pcbs k i" using f by (simp add: forked_def)
  have queues: "\<forall>q. q \<noteq> FREE_PCBS \<and> q \<noteq> FREE_STACKS \<longrightarrow>
      contents (qs k') q = contents (qs k) q @ (if q = READY (unat (prio (pcbs k' n))) then [PCB n] else [])"
    using f unfolding sel(1) forked_def by blast
  have rest: "k' = k\<lparr>pcbs := pcbs k', mm := (mm k)\<lparr>mem := mem (mm k')\<rparr>, qs := qs k', next_pid := next_pid k + 1\<rparr>"
    using f unfolding sel(3) forked_def by blast
  have child: "state (pcbs k' n) = PS_READY" "pid (pcbs k' n) = next_pid k" "ppid (pcbs k' n) = pid (pcbs k c)" "stack_ptr (pcbs k' n) = Some j"
    by (simp_all add: sel(1) child_pcb_def)
  show ?thesis
    by (intro exI [of _ k'] exI [of _ n] exI [of _ j] exI [of _ ps] conjI; (fact k' sel child results others queues rest)?)
      (use copied outside moved in blast)+
qed

theorem fork_splits_witness:
  "\<exists>k c k' n. reachable sample_map 0x100000 k \<and> sys_fork c k = Inr ((), k') \<and> pid (pcbs k' n) = 100 \<and> REG n off_eax k' = 0 \<and> REG c off_eax k' = 100"
proof -
  obtain k c where k: "reachable sample_map 0x100000 k" "current k = Some c" "next_pid k = 100" "\<forall>i < N_PCBS. i \<noteq> c \<longrightarrow> state (pcbs k i) = PS_FREE"
    using image_calls [where e = "0x100000" and code = 3 and arg = 0] by metis
  obtain i where "i < N_PCBS" "i \<noteq> c" by (rule that [of "if c = 0 then 1 else 0"]) (auto simp: N_PCBS_def N_PROCS_def)
  with k(4) have i: "i < N_PCBS" "state (pcbs k i) = PS_FREE" by auto
  have "next_pid k < 65000" "scast (next_pid k) = (100 :: 32 word)" using k(3) by simp_all
  with fork_splits [OF k(1,2) _ i] show ?thesis using k(1,3) by metis
qed

text \<open>
  Wait (C7). A process without children gets an error. With a child that has exited, the call stores the
  child's number and exit status where the caller asked, and frees its control block; with none, the
  caller waits and another process runs.
\<close>

theorem wait_collects:
  assumes "reachable entries e k" "current k = Some c"
  shows "if children (pcbs k c) = 0 then sys_wait c k = Inr ((), set_status c E_NO_CHILD k)
    else case zombie_child c k of
      Some n \<Rightarrow> \<exists>k'. sys_wait c k = Inr ((), k') \<and> reaped c n (ARG c 1 k) (ARG c 2 k) k k'
    | None \<Rightarrow> has_ready k \<longrightarrow> (\<exists>k'. sys_wait c k = Inr ((), k') \<and> current k' \<noteq> Some c \<and> state (pcbs k' c) = PS_WAITING \<and>
        contents (qs k') WAITING = contents (qs k) WAITING @ [PCB c])"
proof (cases "children (pcbs k c) = 0")
  case True
  then show ?thesis by (simp add: sys_wait_def kern_simps)
next
  case False
  have ok: "kernel_ok k" by (rule reachable_ok [OF assms(1)])
  note okc = kernel_okE [OF ok assms(2)]
  obtain g t where w: "sys_wait c k = (case zombie_child c k of
      Some j \<Rightarrow> reap c j (ARG c 1 k) (ARG c 2 k) (k\<lparr>find_curr := g, find_target := t\<rparr>)
    | None \<Rightarrow> kbind (kmodify (upd_pcb c (\<lambda>p. p\<lparr>state := PS_WAITING\<rparr>))) (\<lambda>_.
        kbind (enque WAITING (PCB c)) (\<lambda>status.
        if status \<noteq> E_SUCCESS then kpanic ''_sys_wait'' ''can't enque waiting parent'' else dispatch)) (k\<lparr>find_curr := g, find_target := t\<rparr>))"
    by (rule sys_wait_cases [OF ok assms(2) False])
  show ?thesis
  proof (cases "zombie_child c k")
    case (Some n)
    from wp_reap [OF ok assms(2) Some False refl, of "ARG c 1 k" "ARG c 2 k" t g] show ?thesis
      using Some False w by (auto simp: wp_iff)
  next
    case None
    then show ?thesis using False wait_blocks [OF ok assms(2) False None] by simp
  qed
qed

theorem wait_collects_witness:
  "\<exists>k c n k'. reachable sample_map 0x100000 k \<and> sys_wait c k = Inr ((), k') \<and> n \<noteq> c \<and> state (pcbs k' n) = PS_FREE \<and>
    load32 (mem (mm k')) 0x3010 = 7"
proof -
  obtain k c n where k: "reachable sample_map 0x100000 k" "current k = Some c" "children (pcbs k c) = 1" "zombie_child c k = Some n" "n \<noteq> c"
    "exitstatus (pcbs k n) = 7" "ARG c 2 k = 0x3010" using image_zombie [where e = "0x100000"] by metis
  obtain k' where "sys_wait c k = Inr ((), k')" "reaped c n (ARG c 1 k) (ARG c 2 k) k k'"
    using wait_collects [OF k(1,2)] k(3,4) by auto
  then show ?thesis using k by (intro exI [of _ k] exI [of _ c] exI [of _ n] exI [of _ k']) (auto simp: reaped_def)
qed

text \<open>
  The end of a process (C6). If a process is ready, both exit and a page fault end the running process
  with the status given or with that of a killed process: a parent that waits is told, otherwise the
  process stays as a zombie; every other process lives on, and the children go to the initial process.
\<close>

theorem process_ends:
  assumes "reachable entries e k" "current k = Some c" "has_ready k"
  shows "(\<exists>k'. sys_exit c k = Inr ((), k') \<and> ended c PS_ZOMBIE (ARG c 1 k) k k') \<and>
    (\<exists>k'. page_fault_isr k = Inr ((), k') \<and> ended c PS_KILLED EXIT_KILLED k k')"
proof -
  have ok: "kernel_ok k" by (rule reachable_ok [OF assms(1)])
  have upd: "(pcbs k c)\<lparr>state := PS_KILLED, exitstatus := EXIT_KILLED\<rparr> = (pcbs k c)\<lparr>exitstatus := EXIT_KILLED, state := PS_KILLED\<rparr>" by simp
  obtain k1 k2 where k: "sys_exit c k = Inr ((), k1)" "page_fault_isr k = Inr ((), k2)"
    using outcome_exit [OF ok assms(2)] outcome_page_fault [OF ok] assms(3) by (auto simp: outcome_def split: sum.splits)
  have "ended c PS_ZOMBIE (ARG c 1 k) k k1"
    by (rule end_process [OF ok assms(2)]) (use k(1) in \<open>simp_all add: sys_exit_def kern_simps upd_pcb_def\<close>)
  moreover have "ended c PS_KILLED EXIT_KILLED k k2"
    by (rule end_process [OF ok assms(2)]) (use k(2) assms(2) upd in \<open>simp_all add: page_fault_isr_def kern_simps upd_pcb_def\<close>)
  ultimately show ?thesis using k by blast
qed

theorem process_ends_witness:
  "\<exists>k n k'. reachable sample_map 0x100000 k \<and> page_fault_isr k = Inr ((), k') \<and> pid (pcbs k n) = 100 \<and> exitstatus (pcbs k' n) = EXIT_KILLED"
proof -
  obtain k c n where k: "reachable sample_map 0x100000 k" "current k = Some n" "c < N_PCBS" "state (pcbs k c) = PS_READY" "pid (pcbs k n) = 100"
    using image_child_runs [where e = "0x100000"] by metis
  then have "has_ready k" by (auto simp: has_ready_def)
  from process_ends [OF k(1,2) this] show ?thesis using k unfolding ended_def by blast
qed

text \<open>
  Codes that name no call (C35). Code 11 is that of both getstatus and mmap, and runs mmap; code 12 is below the
  limit but its entry in the table is empty, so the kernel calls a null pointer; with any higher code the
  process ends with a status that says so, while another process is ready.
\<close>

theorem unknown_calls:
  assumes "reachable entries e k" "current k = Some c"
  shows "(unat (REG c off_eax k) = 11 \<longrightarrow> sys_isr k = sys_mmap c k) \<and> (unat (REG c off_eax k) = 12 \<longrightarrow> sys_isr k = Inl NullDeref) \<and>
    (unat (REG c off_eax k) \<ge> 13 \<and> has_ready k \<longrightarrow> (\<exists>k'. sys_isr k = Inr ((), k') \<and> current k' \<noteq> Some c \<and>
       exitstatus (pcbs k' c) = EXIT_BAD_CODE \<and> state (pcbs k' c) \<in> {PS_ZOMBIE, PS_FREE}))"
proof -
  have "kernel_ok k" by (rule reachable_ok [OF assms(1)])
  let ?k = "set_ARG c 1 EXIT_BAD_CODE k"
  have ok: "kernel_ok ?k" by (rule kernel_ok_frame [OF \<open>kernel_ok k\<close>]) (simp_all add: set_ARG_def)
  have cur: "current ?k = Some c" and hr: "has_ready ?k = has_ready k" using assms(2) by (simp_all add: set_ARG_def has_ready_def)
  have arg: "ARG c 1 ?k = EXIT_BAD_CODE" by (simp add: set_ARG_def ARG_def arg_addr_def upd_mem_def)
  have "\<exists>k'. sys_isr k = Inr ((), k') \<and> current k' \<noteq> Some c \<and> exitstatus (pcbs k' c) = EXIT_BAD_CODE \<and> state (pcbs k' c) \<in> {PS_ZOMBIE, PS_FREE}"
    if "unat (REG c off_eax k) \<ge> 13" "has_ready k"
  proof -
    note code = that
    have isr: "sys_isr k = sys_exit c ?k" using code(1) assms(2) by (simp add: sys_isr_def kern_simps N_SYSCALLS_def syscalls_def)
    obtain k' where k': "sys_exit c ?k = Inr ((), k')" using outcome_exit [OF ok cur] code(2) hr by (auto simp: outcome_def split: sum.splits)
    then have "ended c PS_ZOMBIE EXIT_BAD_CODE ?k k'"
      by (intro end_process [OF ok cur]) (use arg in \<open>simp_all add: sys_exit_def kern_simps upd_pcb_def\<close>)
    then show ?thesis using isr k' unfolding ended_def by auto
  qed
  then show ?thesis using assms(2) by (simp add: sys_isr_def kern_simps N_SYSCALLS_def syscalls_def)
qed

theorem unknown_calls_witness: "\<exists>k. reachable sample_map 0x100000 k \<and> sys_isr k = Inl NullDeref"
proof -
  obtain k c where k: "reachable sample_map 0x100000 k" "current k = Some c" "REG c off_eax k = 12"
    using image_calls [where e = "0x100000" and code = 12 and arg = 0] by metis
  then show ?thesis using unknown_calls [OF k(1,2)] by auto
qed

text \<open>
  Killing process -1 (C36). Free control blocks have the number -1, which \<^verbatim>\<open>_sys_kill\<close> looks up as any other:
  while one is free, a process that asks to kill -1 stops the system.
\<close>

theorem kill_minus_one:
  assumes "reachable entries e k" "current k = Some c" "ucast (ARG c 1 k) = (- 1 :: 16 word)" "i < N_PCBS" "state (pcbs k i) = PS_FREE"
  shows "sys_kill c k = Inl (KPanic ''_sys_kill'' ''bad victim state'')"
proof -
  have ok: "kernel_ok k" by (rule reachable_ok [OF assms(1)])
  note okc = kernel_okE [OF ok assms(2)]
  have "\<not> live {c} k i" using assms(5) okc(1) by (auto simp: live_def)
  then have "pid (pcbs k i) = - 1" using okc(3) assms(4) by (auto simp: family_def lineage_def)
  then have "pcb_find (- 1) k \<noteq> None" using assms(4) by (auto simp: pcb_find_def find_None_iff)
  then obtain v where v: "pcb_find (- 1) k = Some v" by blast
  then have "v < N_PCBS" "pid (pcbs k v) = - 1" by (auto simp: pcb_find_def find_Some_iff)
  then have "state (pcbs k v) = PS_FREE" using live_pid [OF ok assms(2), of v] by (auto simp: live_def)
  then show ?thesis using v assms(3) by (simp add: sys_kill_def kern_simps)
qed

theorem kill_minus_one_witness: "\<exists>k c. reachable sample_map 0x100000 k \<and> sys_kill c k = Inl (KPanic ''_sys_kill'' ''bad victim state'')"
proof -
  obtain k c where k: "reachable sample_map 0x100000 k" "current k = Some c" "ARG c 1 k = - 1" "\<forall>i < N_PCBS. i \<noteq> c \<longrightarrow> state (pcbs k i) = PS_FREE"
    using image_calls [where e = "0x100000" and code = 5 and arg = "- 1"] by metis
  obtain i where "i < N_PCBS" "i \<noteq> c" by (rule that [of "if c = 0 then 1 else 0"]) (auto simp: N_PCBS_def N_PROCS_def)
  with k(4) have "i < N_PCBS" "state (pcbs k i) = PS_FREE" by auto
  moreover have "ucast (- 1 :: 32 word) = (- 1 :: 16 word)" by code_simp
  ultimately show ?thesis using kill_minus_one [OF k(1,2)] k(1,3) by metis
qed

end
